(* ===== verification/Prelude.thy ===== *)
theory Prelude
  imports Complex_Main "HOL-Library.AList" "HOL-Library.Sublist"
begin

text \<open>
  Shared vocabulary of the development.
  \<^item> \<^bold>\<open>Time\<close>: a \<open>Date\<close> and the ISO string made from it are both the number of milliseconds
    since the epoch (\<open>time\<close>); \<open>new Date(d.toISOString())\<close> is \<open>d\<close> in the range of \<open>Date\<close>.
    The wall clock is an argument \<open>now\<close> of every operation that reads it.
  \<^item> \<^bold>\<open>Maps\<close>: a JavaScript \<open>Map\<close> is an association list in insertion order (\<open>jsmap\<close>). Setting an
    existing key keeps its place, setting a new key appends it, which is what iteration observes.
  \<^item> \<^bold>\<open>Exceptions\<close>: an operation on a state returns \<open>(error + value) \<times> state\<close>; a \<open>throw\<close> leaves
    the writes made before it in the state.
  \<^item> \<^bold>\<open>Strings\<close> are character lists; the model is of ASCII text.
\<close>

type_synonym time = int

named_theorems outcome_simps "unfolding of the operations that may throw"
named_theorems update_simps "what an update leaves unchanged"

subsection \<open>Maps in insertion order\<close>

type_synonym ('k, 'v) jsmap = "('k \<times> 'v) list"

definition map_get :: "('k, 'v) jsmap \<Rightarrow> 'k \<Rightarrow> 'v option" where
  "map_get m k = map_of m k"

definition map_set :: "('k, 'v) jsmap \<Rightarrow> 'k \<Rightarrow> 'v \<Rightarrow> ('k, 'v) jsmap" where
  "map_set m k v = AList.update k v m"

definition map_delete :: "('k, 'v) jsmap \<Rightarrow> 'k \<Rightarrow> ('k, 'v) jsmap" where
  "map_delete m k = AList.delete k m"

definition map_has :: "('k, 'v) jsmap \<Rightarrow> 'k \<Rightarrow> bool" where
  "map_has m k = (map_get m k \<noteq> None)"

definition map_values :: "('k, 'v) jsmap \<Rightarrow> 'v list" where
  "map_values m = map snd m"

definition wf_map :: "('k, 'v) jsmap \<Rightarrow> bool" where
  "wf_map m = distinct (map fst m)"

text \<open>
  The interface the stores of the program are written against: a lookup, an insertion, a removal,
  the listing of the entries and the invariant under which the listing agrees with the lookup.
\<close>

locale key_value =
  fixes lookup :: "'m \<Rightarrow> 'k \<Rightarrow> 'v option"
    and store :: "'m \<Rightarrow> 'k \<Rightarrow> 'v \<Rightarrow> 'm"
    and remove :: "'m \<Rightarrow> 'k \<Rightarrow> 'm"
    and entries :: "'m \<Rightarrow> ('k \<times> 'v) list"
    and valid :: "'m \<Rightarrow> bool"
  assumes lookup_store: "lookup (store m k v) k' = (if k' = k then Some v else lookup m k')"
    and lookup_remove: "lookup (remove m k) k' = (if k' = k then None else lookup m k')"
    and valid_store: "valid m \<Longrightarrow> valid (store m k v)"
    and valid_remove: "valid m \<Longrightarrow> valid (remove m k)"
    and lookup_entries: "valid m \<Longrightarrow> lookup m k = Some v \<longleftrightarrow> (k, v) \<in> set (entries m)"
begin

lemma lookup_store_same: "lookup (store m k v) k = Some v"
  by (simp add: lookup_store)

lemma lookup_store_other: "k' \<noteq> k \<Longrightarrow> lookup (store m k v) k' = lookup m k'"
  by (simp add: lookup_store)

lemma lookup_remove_same: "lookup (remove m k) k = None"
  by (simp add: lookup_remove)

lemma lookup_remove_other: "k' \<noteq> k \<Longrightarrow> lookup (remove m k) k' = lookup m k'"
  by (simp add: lookup_remove)

lemma entries_store_iff:
  assumes "valid m"
  shows "(k', v') \<in> set (entries (store m k v)) \<longleftrightarrow>
    (if k' = k then v' = v else (k', v') \<in> set (entries m))"
  using lookup_entries [OF valid_store [OF assms], of k v k' v'] lookup_entries [OF assms, of k' v']
  by (auto simp: lookup_store)

lemma remove_store_lookup: "lookup (remove (store m k v) k) = lookup (remove m k)"
  by (rule ext) (simp add: lookup_remove lookup_store)

lemma lookup_foldl_remove:
  "lookup (foldl remove m ks) k = (if k \<in> set ks then None else lookup m k)"
  by (induction ks arbitrary: m) (auto simp: lookup_remove)

lemma valid_foldl_remove: "valid m \<Longrightarrow> valid (foldl remove m ks)"
  by (induction ks arbitrary: m) (auto intro: valid_remove)

end

interpretation jm: key_value map_get map_set map_delete "\<lambda>m. m" wf_map
proof unfold_locales
  fix m :: "('a, 'b) jsmap" and k k' v
  show "map_get (map_set m k v) k' = (if k' = k then Some v else map_get m k')"
    by (simp add: map_get_def map_set_def update_conv')
  show "map_get (map_delete m k) k' = (if k' = k then None else map_get m k')"
    by (simp add: map_get_def map_delete_def delete_conv')
  show "wf_map m \<Longrightarrow> wf_map (map_set m k v)"
    by (simp add: wf_map_def map_set_def distinct_update)
  show "wf_map m \<Longrightarrow> wf_map (map_delete m k)"
    by (simp add: wf_map_def map_delete_def distinct_delete)
  show "wf_map m \<Longrightarrow> (map_get m k = Some v) = ((k, v) \<in> set m)"
    by (simp add: wf_map_def map_get_def)
qed

lemmas map_get_simps [simp] = jm.lookup_store_same jm.lookup_store_other
  jm.lookup_remove_same jm.lookup_remove_other

lemma map_get_empty [simp]: "map_get [] k = None"
  by (simp add: map_get_def)

lemma wf_map_empty [simp]: "wf_map []"
  by (simp add: wf_map_def)

lemma wf_map_set [simp]: "wf_map m \<Longrightarrow> wf_map (map_set m k v)"
  by (rule jm.valid_store)

lemma wf_map_delete [simp]: "wf_map m \<Longrightarrow> wf_map (map_delete m k)"
  by (rule jm.valid_remove)

lemma map_get_in_set: "map_get m k = Some v \<Longrightarrow> (k, v) \<in> set m"
  by (simp add: map_get_def map_of_SomeD)

lemma wf_map_filter [simp]: "wf_map m \<Longrightarrow> wf_map (filter P m)"
  by (induction m) (auto simp: wf_map_def)

lemma map_get_map_values: "map_get (map (\<lambda>(k, v). (k, f v)) m) k = map_option f (map_get m k)"
  by (induction m) (auto simp: map_get_def)

lemma map_get_filter:
  assumes "wf_map m"
  shows "map_get (filter P m) k = (case map_get m k of None \<Rightarrow> None | Some v \<Rightarrow>
    if P (k, v) then Some v else None)"
proof -
  have *: "map_get (filter P m) k = Some v \<longleftrightarrow> map_get m k = Some v \<and> P (k, v)" for v
    using assms by (simp add: jm.lookup_entries)
  show ?thesis
  proof (cases "map_get (filter P m) k")
    case None
    with * show ?thesis by (auto split: option.split)
  next
    case (Some v)
    with * [of v] have "map_get m k = Some v" "P (k, v)" by simp_all
    with Some show ?thesis by simp
  qed
qed

lemma length_map_delete_le: "length (map_delete m k) \<le> length m"
  by (simp add: map_delete_def length_delete_le)

lemma map_set_existing_keys: "map_get m k \<noteq> None \<Longrightarrow> map fst (map_set m k v) = map fst m"
  by (induction m) (auto simp: map_set_def map_get_def split: if_splits)

lemma map_set_fresh: "map_get m k = None \<Longrightarrow> map_set m k v = m @ [(k, v)]"
  by (induction m) (auto simp: map_set_def map_get_def split: if_splits)

subsection \<open>Operations that may throw\<close>

type_synonym ('e, 'a, 's) outcome = "('e + 'a) \<times> 's"

definition throw :: "'e \<Rightarrow> 's \<Rightarrow> ('e, 'a, 's) outcome" where
  [outcome_simps]: "throw e s = (Inl e, s)"

definition return :: "'a \<Rightarrow> 's \<Rightarrow> ('e, 'a, 's) outcome" where
  [outcome_simps]: "return a s = (Inr a, s)"

definition and_then :: "('s \<Rightarrow> ('e, 'a, 's) outcome) \<Rightarrow> ('a \<Rightarrow> 's \<Rightarrow> ('e, 'b, 's) outcome)
    \<Rightarrow> 's \<Rightarrow> ('e, 'b, 's) outcome" where
  "and_then m f s = (case m s of (Inl e, s') \<Rightarrow> (Inl e, s') | (Inr a, s') \<Rightarrow> f a s')"

definition check :: "'e + 'a \<Rightarrow> 's \<Rightarrow> ('e, 'a, 's) outcome" where
  [outcome_simps]: "check r s = (r, s)"

lemma and_then_Inr: "m s = (Inr a, s') \<Longrightarrow> and_then m f s = f a s'"
  by (simp add: and_then_def)

lemma and_then_Inl: "m s = (Inl e, s') \<Longrightarrow> and_then m f s = (Inl e, s')"
  by (simp add: and_then_def)

lemma and_then_InrE:
  assumes "and_then m f s = (Inr b, s'')"
  obtains a s' where "m s = (Inr a, s')" and "f a s' = (Inr b, s'')"
  using assms by (auto simp: and_then_def split: prod.splits sum.splits)

lemma and_then_assoc: "and_then (and_then m f) g = and_then m (\<lambda>a. and_then (f a) g)"
  by (rule ext) (auto simp: and_then_def split: prod.split sum.split)

lemma and_then_return [simp]: "and_then (return a) f s = f a s"
  by (simp add: and_then_def return_def)

lemma and_then_throw [simp]: "and_then (throw e) f s = (Inl e, s)"
  by (simp add: and_then_def throw_def)

subsection \<open>JavaScript strings\<close>

fun js_includes :: "string \<Rightarrow> string \<Rightarrow> bool" where
  "js_includes s sub = (take (length sub) s = sub \<or>
     (case s of [] \<Rightarrow> False | _ # t \<Rightarrow> js_includes t sub))"

declare js_includes.simps [simp del]

lemma js_includes_iff: "js_includes s sub \<longleftrightarrow> sublist sub s"
proof (induction s)
  case Nil
  show ?case by (subst js_includes.simps) auto
next
  case (Cons c s)
  have "take (length sub) (c # s) = sub \<longleftrightarrow> prefix sub (c # s)"
    by (metis append_eq_conv_conj prefix_def take_is_prefix)
  with Cons show ?case
    by (subst js_includes.simps) (simp add: sublist_Cons_right)
qed

definition falsy :: "string option \<Rightarrow> bool" where
  "falsy s = (s = None \<or> s = Some [])"

lemma falsy_simps [simp]: "falsy None" "falsy (Some s) \<longleftrightarrow> s = []"
  by (simp_all add: falsy_def)

definition js_whitespace :: "char \<Rightarrow> bool" where
  "js_whitespace c = (let n = of_char c :: nat in (9 \<le> n \<and> n \<le> 13) \<or> n = 32 \<or> n = 160)"

definition js_trim :: "string \<Rightarrow> string" where
  "js_trim s = rev (dropWhile js_whitespace (rev (dropWhile js_whitespace s)))"

lemma js_trim_Nil_iff: "js_trim s = [] \<longleftrightarrow> (\<forall>c \<in> set s. js_whitespace c)"
  by (auto simp: js_trim_def dest: set_dropWhileD)
    (metis set_takeWhileD takeWhile_dropWhile_id UnE set_append)

definition ascii_lower :: "char \<Rightarrow> char" where
  "ascii_lower c = (let n = of_char c :: nat in if 65 \<le> n \<and> n \<le> 90 then char_of (n + 32) else c)"

definition to_lower :: "string \<Rightarrow> string" where
  "to_lower s = map ascii_lower s"

fun js_join :: "string \<Rightarrow> string list \<Rightarrow> string" where
  "js_join sep [] = []"
| "js_join sep [x] = x"
| "js_join sep (x # y # zs) = x @ sep @ js_join sep (y # zs)"

fun show_nat :: "nat \<Rightarrow> string" where
  "show_nat n = (if n < 10 then [char_of (48 + n)] else show_nat (n div 10) @ [char_of (48 + n mod 10)])"

declare show_nat.simps [simp del]

lemma show_nat_digits: "c \<in> set (show_nat n) \<Longrightarrow> 48 \<le> (of_char c :: nat) \<and> (of_char c :: nat) \<le> 57"
proof (induction n arbitrary: c rule: less_induct)
  case (less n)
  have digit: "48 \<le> (of_char (char_of (48 + d) :: char) :: nat) \<and> (of_char (char_of (48 + d) :: char) :: nat) \<le> 57" if "d < 10" for d :: nat
    using that by simp
  show ?case
  proof (cases "n < 10")
    case True
    then show ?thesis using less(2) digit [of n] by (simp add: show_nat.simps [of n])
  next
    case False
    then show ?thesis using less(1) [of "n div 10" c] less(2) digit [of "n mod 10"] by (auto simp: show_nat.simps [of n])
  qed
qed

definition show_int :: "int \<Rightarrow> string" where
  "show_int i = (if i < 0 then ''-'' @ show_nat (nat (- i)) else show_nat (nat i))"

subsection \<open>Lists\<close>

text \<open>\<open>Set.prototype.add\<close> on a set in insertion order.\<close>

definition set_add :: "'a list \<Rightarrow> 'a \<Rightarrow> 'a list" where
  "set_add xs x = (if x \<in> set xs then xs else xs @ [x])"

lemma set_add_simps [simp]: "set (set_add xs x) = insert x (set xs)" "distinct (set_add xs x) = distinct xs"
  by (auto simp: set_add_def)


text \<open>\<open>slice(k)\<close> and \<open>slice(0, k)\<close>; a negative index counts from the end.\<close>

definition slice_from :: "int \<Rightarrow> 'a list \<Rightarrow> 'a list" where
  "slice_from k xs = (if k < 0 then drop (length xs - nat (- k)) xs else drop (nat k) xs)"

definition slice_to :: "int \<Rightarrow> 'a list \<Rightarrow> 'a list" where
  "slice_to k xs = (if k < 0 then take (length xs - nat (- k)) xs else take (nat k) xs)"

lemma filter_eq_iff_all: "filter P xs = xs \<longleftrightarrow> (\<forall>x \<in> set xs. P x)"
  by (induction xs) (auto simp: filter_eq_Cons_iff dest: filter_eq_ConsD)

definition clamp_progress :: "int \<Rightarrow> int" where
  "clamp_progress p = min 100 (max 0 p)"

lemma clamp_progress_bounds: "0 \<le> clamp_progress p" "clamp_progress p \<le> 100"
  by (simp_all add: clamp_progress_def)

end
