(* ===== verification/Core_Types.thy ===== *)
theory Core_Types
  imports Prelude
begin

text \<open>
  The data the control plane passes around: \<open>src/src/types\<close> (task, job, run, event and request
  types) and the error codes of \<open>src/src/constants/errors.ts\<close>. Every interface is a record, every
  string union a datatype, every optional property an option (an absent property and the value
  \<open>undefined\<close> are not told apart). Fields a modelled operation neither reads nor writes are left out.
\<close>

subsection \<open>Unions\<close>

datatype task_state = Queued | Planning | Planned | Developing | Dev_Completed | Accepting
  | Accepted | Rework_Required | Integrating | Integrated | Publish_Pending_Approval
  | Publishing | Published | Completed | Cancelled | Failed | Blocked

datatype worker_stage = Plan | Dev | Acceptance

datatype worker_type = Codex | Claude_Code | Google_Antigravity

datatype risk_level = Low | Medium | High

datatype failure_class = Retryable_Transient | Retryable_Capacity | Non_Retryable_Policy
  | Non_Retryable_Logic

datatype side_effect_category = Network_Access | Workspace_Outside_Write | Protected_Path_Write
  | Destructive_Tool | Secret_Access | External_Release

datatype escalation_kind = E_Network_Access | E_Workspace_Outside_Write | E_Protected_Path_Write
  | E_Destructive_Tool | E_Secret_Access | E_Human_Verdict

datatype next_action = N_Dispatch_Dev | N_Dispatch_Acceptance | N_Integrate | N_Publish | N_Retry
  | N_Failover | N_Wait_Manual | N_None

datatype capability = C_Plan | C_Edit_Repo | C_Run_Tests | C_Needs_Approval | C_Networked
  | C_Produces_Patch | C_Produces_Verdict

datatype actor_type = Control_Plane | Worker | Human | Policy_Engine | System

datatype waiting_on = W_Litellm | W_Worker | W_Human | W_Policy | W_Github | W_Environment
  | W_Resolver | W_Tracker_Bridge | W_Agent_Taskstate

datatype outcome_kind = O_Accept | O_Reject | O_Rework | O_Needs_Manual_Review

datatype artifact_kind = K_Log | K_Report | K_Screenshot | K_Trace | K_Json | K_Html | K_Other

datatype stale_status = Fresh | Stale | Unknown | Mixed

datatype publish_mode = No_Op | Dry_Run | Apply

datatype run_status = R_Pending | R_Running | R_Succeeded | R_Failed | R_Timeout

datatype update_strategy = Direct_Push | Pull_Request | Fast_Forward_Only

datatype push_actor = Bot | Human_Actor | Any_Actor

datatype merge_method = Merge | Squash | Rebase

datatype job_status = J_Pending | J_Running | J_Completed | J_Failed

datatype result_status = S_Succeeded | S_Failed | S_Blocked

datatype workspace_kind = Container | Volume | Host_Path

datatype publish_target = Deployment | Release | Package_Publish | External_Api

datatype link_role = Primary | Related | Duplicate | Blocks | Caused_By

datatype test_status = T_Passed | T_Failed | T_Skipped | T_Not_Run

datatype json_scalar = J_Str string | J_Num int | J_Bool bool | J_Null

subsection \<open>Errors\<close>

text \<open>
  One constructor per error code of \<open>ErrorCodes\<close> a modelled operation throws, with the context it
  is raised with; \<open>Plain_Error\<close> is \<open>new Error(message)\<close> and \<open>Type_Error\<close> the read of a property of
  \<open>undefined\<close>.
\<close>

datatype error =
    Task_Not_Found string
  | Task_Invalid_State task_state task_state
  | Objective_Required
  | Typed_Ref_Required
  | Typed_Ref_Invalid_Format string
  | Task_Id_Mismatch string string
  | From_State_Mismatch task_state task_state
  | Job_Not_Found
  | Transition_Not_Allowed task_state task_state
  | Cannot_Dispatch_Worker task_state
  | Typed_Ref_Mismatch string string
  | Integration_State_Not_Found
  | Plain_Error string
  | Type_Error

subsection \<open>Task\<close>

record repo_ref =
  owner :: string
  repo_name :: string
  default_branch :: "string option"
  base_sha :: "string option"

record workspace_ref =
  workspace_id :: string
  workspace_kind :: workspace_kind
  reusable :: "bool option"

record repo_policy =
  update_strategy :: update_strategy
  main_push_actor :: push_actor
  require_ci_pass :: bool
  integration_branch_prefix :: "string option"
  protected_branches :: "string list option"
  allowed_merge_methods :: "merge_method list option"

record publish_plan =
  plan_mode :: "publish_mode option"
  plan_idempotency_key :: "string option"
  plan_targets :: "publish_target list option"
  approval_required :: "bool option"
  policy_warnings :: "string list option"

record verdict =
  verdict_outcome :: outcome_kind
  verdict_reason :: "string option"
  manual_notes :: "string option"

record checklist_item =
  item_id :: string
  item_description :: string
  item_required :: bool
  item_checked :: "bool option"
  checked_by :: "string option"
  checked_at :: "time option"
  item_notes :: "string option"

record artifact_ref =
  artifact_id :: string
  artifact_kind :: artifact_kind

record rework_context =
  rework_source_job_id :: string
  rework_stage :: worker_stage
  rework_attempt :: int
  rework_max_attempts :: int
  rework_reason :: string
  rework_failure_summary :: "string option"
  rework_test_failure_summary :: "string option"
  rework_artifact_ids :: "string list"
  rework_created_at :: time

record acceptance_gate_context =
  gate_required :: bool
  gate_source_job_id :: string
  gate_reason :: string
  gate_artifact_ids :: "string list"
  gate_created_at :: time

record external_ref =
  ext_kind :: string
  ext_value :: string
  ext_connection_ref :: "string option"
  ext_link_role :: "link_role option"
  ext_metadata_json :: "string option"

record stale_counts =
  n_fresh :: int
  n_stale :: int
  n_unknown :: int

record resolver_refs =
  doc_refs :: "string list option"
  chunk_refs :: "string list option"
  ack_refs :: "string list option"
  contract_refs :: "string list option"
  rr_stale_status :: "stale_status option"
  rr_importance :: "(string, string) jsmap option"
  rr_reason :: "(string, string) jsmap option"
  stale_doc_counts :: "stale_counts option"

record blocked_context =
  resume_state :: task_state
  block_reason :: string
  block_waiting_on :: "waiting_on option"
  capability_missing :: "capability list option"
  lock_conflict :: "string option"
  block_loop_fingerprint :: "string option"
  orphaned_run :: "bool option"

record integration_state =
  integration_branch :: "string option"
  integration_head_sha :: "string option"
  main_updated_sha :: "string option"
  checks_passed :: "bool option"
  original_base_sha :: "string option"

record run_meta =
  run_id :: string
  run_started_at :: time
  run_status :: run_status
  run_progress :: "int option"
  run_timeout_at :: time
  run_completed_at :: "time option"
  run_error :: "string option"
  run_external_refs :: "external_ref list option"

text \<open>
  The interface \<open>Task\<close> in three layers (identity and state, work in progress, collected material);
  the split only keeps the record package fast, \<open>task\<close> has all the fields.
\<close>

record task_identity =
  task_id :: string
  title :: string
  objective :: string
  typed_ref :: string
  description :: "string option"
  state :: task_state
  version :: int
  risk_level :: risk_level
  repo_ref :: repo_ref
  repo_policy :: "repo_policy option"
  created_at :: time
  updated_at :: time
  completed_at :: "time option"

record task_work = task_identity +
  active_job_id :: "string option"
  latest_job_ids :: "worker_stage \<rightharpoonup> string"
  last_verdict :: "verdict option"
  workspace_ref :: "workspace_ref option"
  publish_plan :: "publish_plan option"
  pending_approval_token :: "string option"
  pending_approval_expires_at :: "time option"
  blocked_context :: "blocked_context option"
  integration :: "integration_state option"
  integration_run :: "run_meta option"
  publish_run :: "run_meta option"

record task = task_work +
  artifacts :: "artifact_ref list option"
  manual_checklist :: "checklist_item list option"
  resolver_refs :: "resolver_refs option"
  labels :: "string list option"
  external_refs :: "external_ref list option"
  context_bundle_ref :: "string option"
  rollback_notes :: "string option"
  retry_counts :: "worker_stage \<rightharpoonup> int"
  last_failure_class :: "failure_class option"
  rework_context :: "rework_context option"
  acceptance_gate_context :: "acceptance_gate_context option"
  detected_side_effects :: "side_effect_category list option"
  loop_fingerprint :: "string option"

subsection \<open>Events\<close>

record transition_event =
  event_id :: string
  event_task_id :: string
  from_state :: task_state
  to_state :: task_state
  event_actor_type :: actor_type
  event_actor_id :: string
  event_reason :: string
  event_job_id :: "string option"
  event_artifact_ids :: "string list option"
  occurred_at :: time

text \<open>What a caller of \<open>transitionTask\<close> supplies: the event without the fields it fills in.\<close>

record transition_input =
  in_actor_type :: actor_type
  in_actor_id :: string
  in_reason :: string
  in_job_id :: "string option"
  in_artifact_ids :: "string list option"

definition mk_input :: "actor_type \<Rightarrow> string \<Rightarrow> string \<Rightarrow> transition_input" where
  "mk_input a i r = \<lparr>in_actor_type = a, in_actor_id = i, in_reason = r, in_job_id = None,
     in_artifact_ids = None\<rparr>"

definition mk_block :: "task_state \<Rightarrow> string \<Rightarrow> waiting_on \<Rightarrow> blocked_context" where
  "mk_block s r w = \<lparr>resume_state = s, block_reason = r, block_waiting_on = Some w,
     capability_missing = None, lock_conflict = None, block_loop_fingerprint = None, orphaned_run = None\<rparr>"

lemmas mk_simps [simp] = mk_input_def mk_block_def

subsection \<open>Jobs and results\<close>

datatype sandbox_profile = Read_Only | Workspace_Write | Full_Auto | Custom_Profile
datatype approval_mode = Deny | Ask | Allow

record approval_policy =
  approval_mode :: approval_mode
  allowed_side_effects :: "side_effect_category list option"
  operator_approval_required :: bool
  sandbox_profile :: sandbox_profile

record retry_policy =
  max_retries :: int
  backoff_base_seconds :: real
  max_backoff_seconds :: real
  jitter_enabled :: bool

datatype requested_output = Out_Patch | Out_Branch | Out_Tests | Out_Verdict | Out_Artifacts
  | Out_Plan_Notes | Out_Resolver_Refs

datatype execution_backend = External_Backend | Lmstudio

type_synonym metadata = "(string, json_scalar) jsmap"

text \<open>Values of JSON (\<open>Record<string, unknown>\<close> in the interfaces); no operation computes with their numbers.\<close>

datatype json = Json_Null | Json_Bool bool | Json_Int int | Json_Str string | Json_Arr "json list" | Json_Obj "(string \<times> json) list"

datatype authority_source = Src_System | Src_Policy | Src_Task | Src_Developer | Src_User | Src_Tool | Src_Retrieved_Doc

record authority_instruction =
  ai_tier :: int
  ai_source :: authority_source
  ai_instruction :: string

datatype output_kind = Plan_Intent | Tool_Plan | Edit_Intent | Test_Plan | Acceptance_Verdict

record allowed_tool =
  tool_name :: string
  args_schema :: json

record instruction_envelope =
  env_job_id :: string
  env_task_id :: string
  env_typed_ref :: string
  env_stage :: worker_stage
  env_authority :: "authority_instruction list"
  env_objective :: string
  env_must :: "string list"
  env_must_not :: "string list"
  env_tools :: "allowed_tool list"
  env_output_kind :: output_kind
  env_output_schema :: json

text \<open>The context of a job; of the resolver references only those a dispatch copies.\<close>

record job_context =
  context_objective :: "string option"
  context_acceptance_criteria :: "string list option"
  context_constraints :: "string list option"
  context_doc_refs :: "string list option"
  context_chunk_refs :: "string list option"
  context_contract_refs :: "string list option"
  context_tracker_refs :: "string list option"
  instruction_envelope_ref :: "string option"

record worker_job =
  job_id :: string
  job_task_id :: string
  job_typed_ref :: string
  job_stage :: worker_stage
  job_worker_type :: worker_type
  job_status :: job_status
  job_workspace_ref :: workspace_ref
  executor_instance_id :: "string option"
  job_repo_ref :: repo_ref
  input_prompt :: string
  capability_requirements :: "capability list"
  job_risk_level :: risk_level
  job_approval_policy :: approval_policy
  job_retry_policy :: "retry_policy option"
  job_retry_count :: "int option"
  job_loop_fingerprint :: "string option"
  job_lease_owner :: "string option"
  job_lease_expires_at :: "time option"
  job_context :: "job_context option"
  job_instruction_envelope :: "instruction_envelope option"
  job_requested_outputs :: "requested_output list option"
  job_execution_backend :: "execution_backend option"
  job_metadata :: metadata

record escalation =
  esc_kind :: escalation_kind
  esc_reason :: string
  esc_approved :: "bool option"

record patch_ref =
  patch_format :: string
  patch_content :: string
  patch_base_sha :: "string option"

record branch_ref =
  branch_name :: string
  branch_head_sha :: "string option"
  branch_remote_url :: "string option"

record test_result =
  test_suite :: string
  test_status :: test_status
  test_passed :: "int option"
  test_failed :: "int option"
  test_skipped :: "int option"
  test_artifact_id :: "string option"

record output_artifact =
  out_artifact_id :: string
  out_kind :: artifact_kind
  out_uri :: string

record worker_result =
  result_job_id :: string
  result_typed_ref :: string
  result_status :: result_status
  summary :: "string option"
  result_patch_ref :: "patch_ref option"
  result_branch_ref :: "branch_ref option"
  result_artifacts :: "output_artifact list"
  result_test_results :: "test_result list"
  result_verdict :: "verdict option"
  requested_escalations :: "escalation list"
  result_retry_count :: "int option"
  failure_class :: "failure_class option"
  failure_code :: "string option"
  failure_summary :: "string option"
  result_resolver_refs :: "resolver_refs option"
  result_external_refs :: "external_ref list option"
  result_context_bundle_ref :: "string option"
  result_rollback_notes :: "string option"
  result_loop_fingerprint :: "string option"
  result_side_effects :: "side_effect_category list option"
  result_metadata :: "metadata option"
  runtime_ms :: int
  exit_code :: "int option"
  litellm_model :: "string option"

end
