(* ===== verification/Orphan.thy ===== *)
theory Orphan
  imports Core_Types
begin

text \<open>
  \<open>src/src/domain/orphan\<close>: the rules for jobs whose worker has gone silent (\<open>OrphanRecovery\<close>) and the
  periodic scan that applies them (\<open>OrphanScanner\<close>). The scanner acts through callbacks of its owner:
  every callback is a \<open>scan_command\<close>, and the owner is the parameter \<open>perform\<close>, which may throw. An
  optional metrics callback that is not supplied is a command without effect. Timers
  (\<open>setInterval\<close>) only call \<open>scan\<close> again and are left out; the flag of a running timer is kept.
\<close>

datatype run_stage = Stage worker_stage | Integrating_Stage | Publishing_Stage

datatype orphan_reason = Lease_Expired | Heartbeat_Timeout

datatype recovery = Rec_Retry worker_stage | Rec_Blocked task_state

record orphan_config =
  lease_timeout_seconds :: int
  orphan_heartbeat_interval_seconds :: int
  max_recovery_attempts :: int

record orphan_check_input =
  oc_job_id :: string
  oc_stage :: run_stage
  oc_lease_expires_at :: time
  oc_last_heartbeat_at :: "time option"

record job_info =
  ji_job_id :: string
  ji_task_id :: string
  ji_stage :: run_stage
  ji_lease_expires_at :: time
  ji_last_heartbeat_at :: "time option"
  ji_retry_count :: int

definition HEARTBEAT_THRESHOLD_MULTIPLIER :: int where
  "HEARTBEAT_THRESHOLD_MULTIPLIER = 5"

definition DEFAULT_ORPHAN_CONFIG :: orphan_config where
  "DEFAULT_ORPHAN_CONFIG = \<lparr>lease_timeout_seconds = 300, orphan_heartbeat_interval_seconds = 30, max_recovery_attempts = 3\<rparr>"

fun stageMaxRetries :: "worker_stage \<Rightarrow> int" where
  "stageMaxRetries Plan = 2"
| "stageMaxRetries Dev = 3"
| "stageMaxRetries Acceptance = 1"

subsection \<open>Recovery rules\<close>

definition detect_orphan :: "orphan_config \<Rightarrow> time \<Rightarrow> orphan_check_input \<Rightarrow> orphan_reason option" where
  "detect_orphan cfg now i =
     (if oc_lease_expires_at i < now then Some Lease_Expired
      else case oc_last_heartbeat_at i of
          None \<Rightarrow> None
        | Some hb \<Rightarrow>
           if now - hb > orphan_heartbeat_interval_seconds cfg * HEARTBEAT_THRESHOLD_MULTIPLIER * 1000
           then Some Heartbeat_Timeout else None)"

fun getMaxRetriesForStage :: "orphan_config \<Rightarrow> run_stage \<Rightarrow> int" where
  "getMaxRetriesForStage cfg Integrating_Stage = 0"
| "getMaxRetriesForStage cfg Publishing_Stage = 0"
| "getMaxRetriesForStage cfg (Stage s) = min (stageMaxRetries s) (max_recovery_attempts cfg)"

fun stageToState :: "run_stage \<Rightarrow> task_state" where
  "stageToState (Stage Plan) = Planning"
| "stageToState (Stage Dev) = Developing"
| "stageToState (Stage Acceptance) = Accepting"
| "stageToState Integrating_Stage = Integrating"
| "stageToState Publishing_Stage = Publishing"

definition determineRecoveryAction :: "orphan_config \<Rightarrow> run_stage \<Rightarrow> int \<Rightarrow> recovery" where
  "determineRecoveryAction cfg stage retryCount = (case stage of
       Integrating_Stage \<Rightarrow> Rec_Blocked (stageToState stage)
     | Publishing_Stage \<Rightarrow> Rec_Blocked (stageToState stage)
     | Stage s \<Rightarrow>
        if s = Acceptance then Rec_Blocked Accepting
        else if retryCount < getMaxRetriesForStage cfg stage then Rec_Retry s
        else Rec_Blocked (stageToState stage))"

fun getWaitingOnForStage :: "run_stage \<Rightarrow> waiting_on" where
  "getWaitingOnForStage Integrating_Stage = W_Github"
| "getWaitingOnForStage Publishing_Stage = W_Environment"
| "getWaitingOnForStage (Stage s) = (if s = Acceptance then W_Human else W_Worker)"

definition generateBlockedContext :: "run_stage \<Rightarrow> task_state \<Rightarrow> blocked_context" where
  "generateBlockedContext stage original =
     (mk_block original ''job_orphaned'' (getWaitingOnForStage stage))\<lparr>orphaned_run := Some True\<rparr>"

definition shouldAutoRecover :: "orphan_config \<Rightarrow> run_stage \<Rightarrow> int \<Rightarrow> bool" where
  "shouldAutoRecover cfg stage retryCount =
     (let m = getMaxRetriesForStage cfg stage in m > 0 \<and> retryCount < m)"

subsection \<open>The scan\<close>

datatype scan_command =
    Metric_Lease_Expired run_stage
  | Metric_Orphan_Recovered run_stage recovery
  | Retry_Job string worker_stage
  | Block_Task string string task_state bool
  | Audit_Orphan_Detected string string run_stage orphan_reason recovery
  | Audit_Heartbeat_Missed string string run_stage "time option"

record recovery_entry =
  re_job_id :: string
  re_task_id :: string
  re_action :: recovery
  re_reason :: orphan_reason

record scan_result =
  scanned :: int
  orphans_detected :: int
  recovery_actions :: "recovery_entry list"

record scanner =
  sc_config :: orphan_config
  isScanning :: bool
  interval_running :: bool

fun reason_name :: "orphan_reason \<Rightarrow> string" where
  "reason_name Lease_Expired = ''lease_expired''"
| "reason_name Heartbeat_Timeout = ''heartbeat_timeout''"

definition check_input :: "job_info \<Rightarrow> orphan_check_input" where
  "check_input j = \<lparr>oc_job_id = ji_job_id j, oc_stage = ji_stage j, oc_lease_expires_at = ji_lease_expires_at j,
     oc_last_heartbeat_at = ji_last_heartbeat_at j\<rparr>"

text \<open>The callbacks made for one orphaned job, in their order.\<close>

definition orphan_commands :: "orphan_config \<Rightarrow> job_info \<Rightarrow> orphan_reason \<Rightarrow> scan_command list" where
  "orphan_commands cfg j r =
     (let d = determineRecoveryAction cfg (ji_stage j) (ji_retry_count j) in
      [Metric_Lease_Expired (ji_stage j), Metric_Orphan_Recovered (ji_stage j) d,
       (case d of Rec_Retry s \<Rightarrow> Retry_Job (ji_task_id j) s
        | Rec_Blocked st \<Rightarrow> Block_Task (ji_task_id j) (''job_orphaned:'' @ reason_name r) st True),
       Audit_Orphan_Detected (ji_task_id j) (ji_job_id j) (ji_stage j) r d] @
      (if r = Heartbeat_Timeout
       then [Audit_Heartbeat_Missed (ji_task_id j) (ji_job_id j) (ji_stage j) (ji_last_heartbeat_at j)] else []))"

fun perform_all :: "(scan_command \<Rightarrow> 's \<Rightarrow> (error, unit, 's) outcome) \<Rightarrow> scan_command list \<Rightarrow> 's \<Rightarrow> (error, unit, 's) outcome" where
  "perform_all perform [] s = return () s"
| "perform_all perform (c # cs) s = and_then (perform c) (\<lambda>_. perform_all perform cs) s"

fun scan_jobs :: "(scan_command \<Rightarrow> 's \<Rightarrow> (error, unit, 's) outcome) \<Rightarrow> orphan_config \<Rightarrow> time \<Rightarrow> job_info list \<Rightarrow>
    scan_result \<Rightarrow> 's \<Rightarrow> (error, scan_result, 's) outcome" where
  "scan_jobs perform cfg now [] res s = return res s"
| "scan_jobs perform cfg now (j # js) res s = (case detect_orphan cfg now (check_input j) of
       None \<Rightarrow> scan_jobs perform cfg now js res s
     | Some r \<Rightarrow>
        let e = \<lparr>re_job_id = ji_job_id j, re_task_id = ji_task_id j,
               re_action = determineRecoveryAction cfg (ji_stage j) (ji_retry_count j), re_reason = r\<rparr>;
            res' = res\<lparr>orphans_detected := orphans_detected res + 1, recovery_actions := recovery_actions res @ [e]\<rparr>
        in and_then (perform_all perform (orphan_commands cfg j r)) (\<lambda>_. scan_jobs perform cfg now js res') s)"

definition scan :: "(scan_command \<Rightarrow> 's \<Rightarrow> (error, unit, 's) outcome) \<Rightarrow> ('s \<Rightarrow> job_info list) \<Rightarrow> time \<Rightarrow>
    scanner \<times> 's \<Rightarrow> (error, scan_result, scanner \<times> 's) outcome" where
  "scan perform getActiveJobs now st = (case st of (sc, s) \<Rightarrow>
     if isScanning sc then (Inr \<lparr>scanned = 0, orphans_detected = 0, recovery_actions = []\<rparr>, st)
     else (case scan_jobs perform (sc_config sc) now (getActiveJobs s)
             \<lparr>scanned = int (length (getActiveJobs s)), orphans_detected = 0, recovery_actions = []\<rparr> s of
         (r, s') \<Rightarrow> (r, (sc\<lparr>isScanning := False\<rparr>, s'))))"

definition start :: "(scan_command \<Rightarrow> 's \<Rightarrow> (error, unit, 's) outcome) \<Rightarrow> ('s \<Rightarrow> job_info list) \<Rightarrow> time \<Rightarrow>
    scanner \<times> 's \<Rightarrow> (error, unit, scanner \<times> 's) outcome" where
  "start perform getActiveJobs now st = (if interval_running (fst st) then return () st
     else and_then (scan perform getActiveJobs now) (\<lambda>_ (sc, s). return () (sc\<lparr>interval_running := True\<rparr>, s)) st)"

definition stop :: "scanner \<Rightarrow> scanner" where
  "stop sc = sc\<lparr>interval_running := False\<rparr>"

definition isRunning :: "scanner \<Rightarrow> bool" where
  "isRunning sc = interval_running sc"

text \<open>
  Recovery never gives a job more attempts than the smaller of the stage's own limit and the
  configured limit, retries only planning and development, and otherwise blocks the task with the
  active state of its stage as the state to resume in. (\<open>shouldAutoRecover\<close> agrees with this except
  for acceptance, which it calls recoverable although acceptance is always blocked.)
\<close>

theorem recovery_decision:
  "(determineRecoveryAction cfg stage k = Rec_Retry s \<longleftrightarrow>
      stage = Stage s \<and> s \<noteq> Acceptance \<and> k < min (stageMaxRetries s) (max_recovery_attempts cfg)) \<and>
   (determineRecoveryAction cfg stage k = Rec_Blocked st \<longrightarrow> st = stageToState stage) \<and>
   (0 \<le> k \<longrightarrow> (shouldAutoRecover cfg stage k \<longleftrightarrow>
      (\<exists>s. determineRecoveryAction cfg stage k = Rec_Retry s) \<or>
      (stage = Stage Acceptance \<and> k = 0 \<and> 0 < max_recovery_attempts cfg)))"
proof (cases stage)
  case (Stage s)
  then show ?thesis
    by (cases s) (auto simp: determineRecoveryAction_def shouldAutoRecover_def Let_def split: if_splits)
qed (auto simp: determineRecoveryAction_def shouldAutoRecover_def Let_def)

theorem recovery_decision_witness:
  "shouldAutoRecover DEFAULT_ORPHAN_CONFIG (Stage Acceptance) 0 \<and>
   (\<forall>s. determineRecoveryAction DEFAULT_ORPHAN_CONFIG (Stage Acceptance) 0 \<noteq> Rec_Retry s)"
  using recovery_decision [of DEFAULT_ORPHAN_CONFIG "Stage Acceptance" 0]
  by (simp add: DEFAULT_ORPHAN_CONFIG_def)

definition orphans :: "orphan_config \<Rightarrow> time \<Rightarrow> job_info list \<Rightarrow> (job_info \<times> orphan_reason) list" where
  "orphans cfg now js = concat (map (\<lambda>j. case detect_orphan cfg now (check_input j) of Some r \<Rightarrow> [(j, r)] | None \<Rightarrow> []) js)"

definition entry_of :: "orphan_config \<Rightarrow> job_info \<times> orphan_reason \<Rightarrow> recovery_entry" where
  "entry_of cfg p = \<lparr>re_job_id = ji_job_id (fst p), re_task_id = ji_task_id (fst p),
     re_action = determineRecoveryAction cfg (ji_stage (fst p)) (ji_retry_count (fst p)), re_reason = snd p\<rparr>"

lemma return_and_then: "and_then (return a) f = f a"
  by (rule ext) simp

lemma perform_all_append: "perform_all f (xs @ ys) = and_then (perform_all f xs) (\<lambda>_. perform_all f ys)"
proof (induction xs)
  case Nil
  have "perform_all f [] = return ()" by (rule ext) simp
  then show ?case by (simp add: return_and_then)
next
  case (Cons x xs)
  have step: "perform_all f (x # zs) = and_then (f x) (\<lambda>_. perform_all f zs)" for zs by (rule ext) simp
  show ?case by (simp only: append_Cons step Cons and_then_assoc)
qed

lemma orphans_Cons: "orphans cfg now (j # js) = (case detect_orphan cfg now (check_input j) of
    Some r \<Rightarrow> (j, r) # orphans cfg now js | None \<Rightarrow> orphans cfg now js)"
  by (simp add: orphans_def split: option.split)

lemma scan_jobs_commands:
  "scan_jobs f cfg now js res =
    and_then (perform_all f (concat (map (\<lambda>p. orphan_commands cfg (fst p) (snd p)) (orphans cfg now js))))
      (\<lambda>_. return (res\<lparr>orphans_detected := orphans_detected res + int (length (orphans cfg now js)),
        recovery_actions := recovery_actions res @ map (entry_of cfg) (orphans cfg now js)\<rparr>))"
proof (induction js arbitrary: res)
  case Nil
  show ?case by (rule ext) (simp add: orphans_def)
next
  case (Cons j js)
  show ?case
  proof (cases "detect_orphan cfg now (check_input j)")
    case None
    then have "scan_jobs f cfg now (j # js) res = scan_jobs f cfg now js res" by (intro ext) simp
    with None show ?thesis by (simp only: Cons orphans_Cons option.case)
  next
    case (Some r)
    then have "scan_jobs f cfg now (j # js) res = and_then (perform_all f (orphan_commands cfg j r))
        (\<lambda>_. scan_jobs f cfg now js (res\<lparr>orphans_detected := orphans_detected res + 1,
          recovery_actions := recovery_actions res @ [entry_of cfg (j, r)]\<rparr>))"
      by (intro ext) (simp add: entry_of_def)
    then show ?thesis
      using Some by (simp add: Cons orphans_Cons perform_all_append and_then_assoc algebra_simps)
  qed
qed

text \<open>
  A scan that is not already running makes, for every orphaned active job in order, exactly the
  callbacks of the recovery rules; if none of them throws it reports all jobs as scanned and one
  recovery action per orphan, and if one throws the scan ends with that error, the effects so far kept.
  In both cases the scanner is ready for the next scan. A scan within a scan does nothing.
\<close>

theorem scan_effect:
  assumes "cmds = concat (map (\<lambda>p. orphan_commands (sc_config sc) (fst p) (snd p)) (orphans (sc_config sc) now (getActiveJobs s)))"
    and "\<not> isScanning sc"
  shows "scan f getActiveJobs now (sc, s) = (case perform_all f cmds s of
      (Inl e, s') \<Rightarrow> (Inl e, (sc, s'))
    | (Inr _, s') \<Rightarrow> (Inr \<lparr>scanned = int (length (getActiveJobs s)),
         orphans_detected = int (length (orphans (sc_config sc) now (getActiveJobs s))),
         recovery_actions = map (entry_of (sc_config sc)) (orphans (sc_config sc) now (getActiveJobs s))\<rparr>, (sc, s'))) \<and>
    scan f getActiveJobs now (sc\<lparr>isScanning := True\<rparr>, s) =
      (Inr \<lparr>scanned = 0, orphans_detected = 0, recovery_actions = []\<rparr>, (sc\<lparr>isScanning := True\<rparr>, s))"
  using assms(2) unfolding assms(1)
  by (cases sc) (auto simp: scan_def scan_jobs_commands and_then_def return_def split: prod.split sum.split)

theorem scan_effect_witness:
  "snd (scan (\<lambda>c n. return () (n + 1)) (\<lambda>_. [\<lparr>ji_job_id = ''j'', ji_task_id = ''t'', ji_stage = Stage Dev,
      ji_lease_expires_at = 10, ji_last_heartbeat_at = None, ji_retry_count = 0\<rparr>]) 20
     (\<lparr>sc_config = DEFAULT_ORPHAN_CONFIG, isScanning = False, interval_running = False\<rparr>, 0 :: nat))
   = (\<lparr>sc_config = DEFAULT_ORPHAN_CONFIG, isScanning = False, interval_running = False\<rparr>, 4)"
  by (subst scan_effect [OF refl, THEN conjunct1])
    (simp_all add: orphans_def detect_orphan_def check_input_def orphan_commands_def Let_def
      determineRecoveryAction_def DEFAULT_ORPHAN_CONFIG_def and_then_def return_def)

end
