(* ===== verification/State_Machine.thy ===== *)
theory State_Machine
  imports Core_Types
begin

text \<open>
  \<open>src/src/domain/state-machine\<close>: the transition table of the task life cycle
  (\<open>state-machine.ts\<close>), the terminal states (\<open>types.ts\<close>) and the mapping to the seven states of
  agent-taskstate (\<open>state-mapping.ts\<close>). The locale \<open>lifecycle\<close> is the contract a life cycle has
  towards its users: final states have no successor.
\<close>

subsection \<open>Life cycles\<close>

fun is_path :: "('s \<Rightarrow> 's \<Rightarrow> bool) \<Rightarrow> 's \<Rightarrow> 's list \<Rightarrow> bool" where
  "is_path step s [] = True"
| "is_path step s (t # ts) = (step s t \<and> is_path step t ts)"

locale lifecycle =
  fixes step :: "'s \<Rightarrow> 's \<Rightarrow> bool"
    and final :: "'s \<Rightarrow> bool"
  assumes final_stuck: "final s \<Longrightarrow> \<not> step s t"
begin

lemma final_absorbing: "step\<^sup>*\<^sup>* s t \<Longrightarrow> final s \<Longrightarrow> t = s"
  by (induction rule: converse_rtranclp_induct) (auto dest: final_stuck)

lemma final_path_Nil: "is_path step s ts \<Longrightarrow> final s \<Longrightarrow> ts = []"
  by (cases ts) (auto dest: final_stuck)

lemma path_leaves_region_through_exit:
  assumes "is_path step s ts" and "s \<in> R" and "t \<in> set ts" and "t \<notin> R"
    and region: "\<And>a b. a \<in> R \<Longrightarrow> step a b \<Longrightarrow> b \<in> R \<or> b \<in> X"
  shows "\<exists>x \<in> X. x \<in> set ts"
  using assms(1-4)
proof (induction ts arbitrary: s)
  case (Cons u us)
  show ?case
  proof (cases "u \<in> R")
    case True
    with Cons show ?thesis by (auto dest: Cons.IH)
  next
    case False
    with Cons.prems region show ?thesis by auto
  qed
qed simp

lemma path_final_last: "is_path step s (us @ t # vs) \<Longrightarrow> final t \<Longrightarrow> vs = []"
  by (induction us arbitrary: s) (auto dest: final_path_Nil)

end

subsection \<open>The transition table\<close>

definition TERMINAL_STATES :: "task_state list" where
  "TERMINAL_STATES = [Completed, Cancelled, Failed, Published]"

fun ALLOWED_TRANSITIONS :: "task_state \<Rightarrow> task_state list option" where
  "ALLOWED_TRANSITIONS Queued = Some [Queued, Planning, Blocked, Cancelled, Failed]"
| "ALLOWED_TRANSITIONS Planning = Some [Planning, Planned, Rework_Required, Blocked, Cancelled, Failed]"
| "ALLOWED_TRANSITIONS Planned = Some [Planned, Developing, Blocked, Cancelled, Failed]"
| "ALLOWED_TRANSITIONS Developing =
     Some [Developing, Dev_Completed, Rework_Required, Blocked, Cancelled, Failed]"
| "ALLOWED_TRANSITIONS Dev_Completed = Some [Dev_Completed, Accepting, Blocked, Cancelled, Failed]"
| "ALLOWED_TRANSITIONS Accepting =
     Some [Accepting, Accepted, Rework_Required, Blocked, Cancelled, Failed]"
| "ALLOWED_TRANSITIONS Rework_Required = Some [Rework_Required, Developing, Blocked, Cancelled, Failed]"
| "ALLOWED_TRANSITIONS Accepted = Some [Accepted, Integrating, Blocked, Cancelled, Failed]"
| "ALLOWED_TRANSITIONS Integrating = Some [Integrating, Integrated, Blocked, Cancelled, Failed]"
| "ALLOWED_TRANSITIONS Integrated =
     Some [Integrated, Publish_Pending_Approval, Publishing, Blocked, Cancelled, Failed]"
| "ALLOWED_TRANSITIONS Publish_Pending_Approval =
     Some [Publish_Pending_Approval, Publishing, Blocked, Cancelled, Failed]"
| "ALLOWED_TRANSITIONS Publishing = Some [Publishing, Published, Blocked, Cancelled, Failed]"
| "ALLOWED_TRANSITIONS Blocked =
     Some [Blocked, Planning, Developing, Accepting, Integrating, Integrated, Publishing, Cancelled, Failed]"
| "ALLOWED_TRANSITIONS _ = None"

definition getAllowedTransitions :: "task_state \<Rightarrow> task_state list" where
  "getAllowedTransitions s = (case ALLOWED_TRANSITIONS s of Some ts \<Rightarrow> ts | None \<Rightarrow> [])"

definition canTransition :: "task_state \<Rightarrow> task_state \<Rightarrow> bool" where
  "canTransition from to = (to \<in> set (getAllowedTransitions from))"

definition validateTransition :: "task_state \<Rightarrow> task_state \<Rightarrow> error + unit" where
  "validateTransition from to =
     (if \<not> canTransition from to then Inl (Transition_Not_Allowed from to) else Inr ())"

fun getAllowedDispatchStage :: "task_state \<Rightarrow> error + worker_stage" where
  "getAllowedDispatchStage Queued = Inr Plan"
| "getAllowedDispatchStage Planned = Inr Dev"
| "getAllowedDispatchStage Rework_Required = Inr Dev"
| "getAllowedDispatchStage Dev_Completed = Inr Acceptance"
| "getAllowedDispatchStage s = Inl (Cannot_Dispatch_Worker s)"

fun stageToActiveState :: "worker_stage \<Rightarrow> task_state" where
  "stageToActiveState Plan = Planning"
| "stageToActiveState Dev = Developing"
| "stageToActiveState Acceptance = Accepting"

definition isTerminal :: "task_state \<Rightarrow> bool" where
  "isTerminal s = (s \<in> set TERMINAL_STATES)"

lemma isTerminal_simps [simp]:
  "isTerminal s \<longleftrightarrow> s = Completed \<or> s = Cancelled \<or> s = Failed \<or> s = Published"
  by (auto simp: isTerminal_def TERMINAL_STATES_def)

lemma canTransition_code [simp]:
  "canTransition from to = (case ALLOWED_TRANSITIONS from of Some ts \<Rightarrow> to \<in> set ts | None \<Rightarrow> False)"
  by (simp add: canTransition_def getAllowedTransitions_def split: option.split)

interpretation task_life: lifecycle canTransition isTerminal
  by unfold_locales auto

lemma validateTransition_Inr [simp]: "validateTransition a b = Inr u \<longleftrightarrow> canTransition a b"
  by (simp add: validateTransition_def)

lemma validateTransition_Inl: "validateTransition a b = Inl e \<longleftrightarrow>
    \<not> canTransition a b \<and> e = Transition_Not_Allowed a b"
  by (auto simp: validateTransition_def)

fun_cases dispatch_stage_cases: "getAllowedDispatchStage s = Inr st"

lemma dispatch_stage_state:
  "getAllowedDispatchStage s = Inr st \<longleftrightarrow>
    (s, st) \<in> {(Queued, Plan), (Planned, Dev), (Rework_Required, Dev), (Dev_Completed, Acceptance)}"
  by (cases s; cases st) auto

lemma dispatch_stage_transition:
  "getAllowedDispatchStage s = Inr st \<Longrightarrow> canTransition s (stageToActiveState st)"
  by (auto simp: dispatch_stage_state)

lemma active_state_no_dispatch:
  "getAllowedDispatchStage (stageToActiveState st) =
     Inl (Cannot_Dispatch_Worker (stageToActiveState st))"
  by (cases st) simp_all

text \<open>
  C1. A terminal state (completed, cancelled, failed, published) is absorbing: whatever sequence of
  allowed transitions follows, the task stays in it, and no sequence of length one or more exists.
\<close>

theorem terminal_states_absorbing:
  "isTerminal s \<Longrightarrow> canTransition\<^sup>*\<^sup>* s t \<Longrightarrow> is_path canTransition s ts \<Longrightarrow> t = s \<and> ts = []"
  using task_life.final_absorbing task_life.final_path_Nil by blast

theorem terminal_states_absorbing_witness:
  "isTerminal Published \<and> canTransition\<^sup>*\<^sup>* Published Published \<and> is_path canTransition Published [] \<and>
     Published = Published \<and> ([] :: task_state list) = []"
  using terminal_states_absorbing [of Published Published "[]"] by simp

text \<open>The states a task can be in before it has been accepted, with no detour over blocked.\<close>

definition pre_accept :: "task_state set" where
  "pre_accept = {Queued, Planning, Planned, Developing, Dev_Completed, Accepting, Rework_Required,
     Cancelled, Failed}"

definition pre_integrated :: "task_state set" where
  "pre_integrated = pre_accept \<union> {Accepted, Integrating}"

lemma pre_accept_exits:
  "a \<in> pre_accept \<Longrightarrow> canTransition a b \<Longrightarrow> b \<in> pre_accept \<or> b \<in> {Accepted, Blocked}"
  by (auto simp: pre_accept_def)

lemma pre_integrated_exits:
  "a \<in> pre_integrated \<Longrightarrow> canTransition a b \<Longrightarrow> b \<in> pre_integrated \<or> b \<in> {Integrated, Blocked}"
  by (auto simp: pre_integrated_def pre_accept_def)

text \<open>
  C2. A task that starts in queued, never enters blocked and reaches publishing or published has
  gone through accepted and through integrated: the acceptance and the integration gate cannot be
  skipped on the regular path.
\<close>

theorem publish_passes_gates:
  assumes "is_path canTransition Queued ts" and "Blocked \<notin> set ts"
    and "Publishing \<in> set ts \<or> Published \<in> set ts"
  shows "Accepted \<in> set ts \<and> Integrated \<in> set ts"
proof -
  obtain t where t: "t \<in> set ts" "t \<in> {Publishing, Published}"
    using assms(3) by auto
  then have "t \<notin> pre_accept" "t \<notin> pre_integrated" "Queued \<in> pre_accept" "Queued \<in> pre_integrated"
    by (auto simp: pre_accept_def pre_integrated_def)
  then show ?thesis
    using task_life.path_leaves_region_through_exit
        [OF assms(1) _ t(1), of pre_accept "{Accepted, Blocked}"]
      task_life.path_leaves_region_through_exit
        [OF assms(1) _ t(1), of pre_integrated "{Integrated, Blocked}"]
      pre_accept_exits pre_integrated_exits assms(2)
    by blast
qed

theorem publish_passes_gates_witness:
  "Accepted \<in> set [Planning, Planned, Developing, Dev_Completed, Accepting, Accepted, Integrating,
     Integrated, Publishing, Published] \<and>
   Integrated \<in> set [Planning, Planned, Developing, Dev_Completed, Accepting, Accepted, Integrating,
     Integrated, Publishing, Published]"
  by (rule publish_passes_gates) simp_all

text \<open>
  Blocked defeats these gates: the table lets a queued task be blocked and resumed directly into
  publishing, so it can be published without having been planned, accepted or integrated.
\<close>

theorem blocked_bypasses_gates:
  "\<exists>ts. is_path canTransition Queued ts \<and> last ts = Published \<and> set ts \<inter> {Accepted, Integrated} = {}"
  by (rule exI [of _ "[Blocked, Publishing, Published]"]) simp

subsection \<open>The mapping to agent-taskstate\<close>

datatype agent_state = A_Proposed | A_Ready | A_In_Progress | A_Blocked | A_Review | A_Done | A_Cancelled

definition SHIPYARD_TO_AGENT_TASKSTATE :: "(task_state, agent_state) jsmap" where
  "SHIPYARD_TO_AGENT_TASKSTATE =
     [(Queued, A_Proposed), (Planned, A_Ready), (Integrated, A_Ready), (Planning, A_In_Progress),
      (Developing, A_In_Progress), (Accepting, A_In_Progress), (Integrating, A_In_Progress),
      (Publishing, A_In_Progress), (Blocked, A_Blocked), (Publish_Pending_Approval, A_Blocked),
      (Dev_Completed, A_Review), (Accepted, A_Review), (Rework_Required, A_Review),
      (Published, A_Done), (Completed, A_Done), (Cancelled, A_Cancelled), (Failed, A_Cancelled)]"

fun AGENT_TASKSTATE_TO_SHIPYARD :: "agent_state \<Rightarrow> task_state" where
  "AGENT_TASKSTATE_TO_SHIPYARD A_Proposed = Queued"
| "AGENT_TASKSTATE_TO_SHIPYARD A_Ready = Planned"
| "AGENT_TASKSTATE_TO_SHIPYARD A_In_Progress = Developing"
| "AGENT_TASKSTATE_TO_SHIPYARD A_Blocked = Blocked"
| "AGENT_TASKSTATE_TO_SHIPYARD A_Review = Dev_Completed"
| "AGENT_TASKSTATE_TO_SHIPYARD A_Done = Published"
| "AGENT_TASKSTATE_TO_SHIPYARD A_Cancelled = Cancelled"

definition toAgentTaskState :: "task_state \<Rightarrow> agent_state option" where
  "toAgentTaskState s = map_get SHIPYARD_TO_AGENT_TASKSTATE s"

definition fromAgentTaskState :: "agent_state \<Rightarrow> task_state" where
  "fromAgentTaskState a = AGENT_TASKSTATE_TO_SHIPYARD a"

definition getShipyardStatesForAgentState :: "agent_state \<Rightarrow> task_state list" where
  "getShipyardStatesForAgentState a =
     map fst (filter (\<lambda>(_, mapped). mapped = a) SHIPYARD_TO_AGENT_TASKSTATE)"

fun agent_valid_transitions :: "agent_state \<Rightarrow> agent_state list" where
  "agent_valid_transitions A_Proposed = [A_Ready]"
| "agent_valid_transitions A_Ready = [A_In_Progress]"
| "agent_valid_transitions A_In_Progress = [A_Blocked, A_Review]"
| "agent_valid_transitions A_Blocked = [A_In_Progress]"
| "agent_valid_transitions A_Review = [A_In_Progress, A_Done]"
| "agent_valid_transitions A_Done = []"
| "agent_valid_transitions A_Cancelled = []"

definition isAgentTaskStateTransitionValid :: "agent_state \<Rightarrow> agent_state \<Rightarrow> bool" where
  "isAgentTaskStateTransitionValid from to =
     (if from = to then True else if to = A_Cancelled then True
      else to \<in> set (agent_valid_transitions from))"

definition isTransitionCompatibleWithAgentTaskState :: "task_state \<Rightarrow> task_state \<Rightarrow> bool" where
  "isTransitionCompatibleWithAgentTaskState from to =
     (case (toAgentTaskState from, toAgentTaskState to) of
        (Some a, Some b) \<Rightarrow> isAgentTaskStateTransitionValid a b | _ \<Rightarrow> False)"

lemma toAgentTaskState_total: "\<exists>a. toAgentTaskState s = Some a"
  by (cases s) (simp_all add: toAgentTaskState_def SHIPYARD_TO_AGENT_TASKSTATE_def map_get_def)

lemma getShipyardStates_iff:
  "s \<in> set (getShipyardStatesForAgentState a) \<longleftrightarrow> toAgentTaskState s = Some a"
  by (cases s; cases a)
    (simp_all add: toAgentTaskState_def getShipyardStatesForAgentState_def
      SHIPYARD_TO_AGENT_TASKSTATE_def map_get_def)

text \<open>
  The two directions of the mapping agree: the entry point of an agent-taskstate state maps back
  to it, every internal state has exactly one agent-taskstate state, and the listing of the internal
  states of an agent-taskstate state is exactly its preimage.
\<close>

theorem agent_mapping_roundtrip:
  "toAgentTaskState (fromAgentTaskState a) = Some a \<and> (\<exists>!b. toAgentTaskState s = Some b) \<and>
   (s \<in> set (getShipyardStatesForAgentState a) \<longleftrightarrow> toAgentTaskState s = Some a)"
  using toAgentTaskState_total [of s] getShipyardStates_iff [of s a]
  by (cases a) (auto simp: toAgentTaskState_def fromAgentTaskState_def
      SHIPYARD_TO_AGENT_TASKSTATE_def map_get_def)

definition incompatible_transitions :: "(task_state \<times> task_state) list" where
  "incompatible_transitions =
     [(Queued, Planning), (Queued, Blocked), (Planning, Planned), (Planned, Blocked),
      (Dev_Completed, Blocked), (Rework_Required, Blocked), (Accepted, Blocked),
      (Integrating, Integrated), (Integrated, Publish_Pending_Approval), (Integrated, Blocked),
      (Publishing, Published), (Blocked, Integrated)]"

text \<open>
  The transitions the state machine allows but the agent-taskstate rules refuse are exactly the
  ones listed here; among them are the regular steps queued to planning, planning to planned,
  accepted by way of integrating to integrated, and publishing to published.
\<close>

theorem incompatible_transitions_exact:
  "(canTransition a b \<and> \<not> isTransitionCompatibleWithAgentTaskState a b) \<longleftrightarrow>
     (a, b) \<in> set incompatible_transitions"
  by (cases a; cases b)
    (simp_all add: isTransitionCompatibleWithAgentTaskState_def toAgentTaskState_def
      SHIPYARD_TO_AGENT_TASKSTATE_def map_get_def isAgentTaskStateTransitionValid_def
      incompatible_transitions_def)

end
