(* ===== verification/Task_Model.thy ===== *)
theory Task_Model
  imports State_Machine
begin

text \<open>
  \<open>src/src/domain/task\<close>: the validation of requests and events (\<open>task-validator.ts\<close>) and the
  immutable task updates that the services return and the store applies (\<open>task-update.ts\<close>), with
  \<open>mergeExternalRefs\<close> of \<open>src/src/store/utils.ts\<close>.
\<close>

subsection \<open>Typed references\<close>

definition segment_char :: "char \<Rightarrow> bool" where
  "segment_char c = (let n = of_char c :: nat in
     (97 \<le> n \<and> n \<le> 122) \<or> (48 \<le> n \<and> n \<le> 57) \<or> c = CHR ''_'' \<or> c = CHR ''-'')"

definition line_char :: "char \<Rightarrow> bool" where
  "line_char c = (let n = of_char c :: nat in n \<noteq> 10 \<and> n \<noteq> 13)"

text \<open>One \<open>[a-z0-9_-]+:\<close> of the pattern: the rest of the text behind it.\<close>

definition match_segment :: "string \<Rightarrow> string option" where
  "match_segment s = (if takeWhile segment_char s = [] then None
     else case dropWhile segment_char s of
       c # rest \<Rightarrow> (if c = CHR '':'' then Some rest else None) | [] \<Rightarrow> None)"

definition TYPED_REF_PATTERN :: "string \<Rightarrow> bool" where
  "TYPED_REF_PATTERN s =
     (case match_segment s of None \<Rightarrow> False | Some s1 \<Rightarrow>
      case match_segment s1 of None \<Rightarrow> False | Some s2 \<Rightarrow>
      case match_segment s2 of None \<Rightarrow> False | Some s3 \<Rightarrow> s3 \<noteq> [] \<and> list_all line_char s3)"

definition is_segment :: "string \<Rightarrow> bool" where
  "is_segment s = (s \<noteq> [] \<and> list_all segment_char s)"

lemma colon_no_segment_char [simp]: "\<not> segment_char CHR '':''"
  by (simp add: segment_char_def)

lemma match_segment_iff: "match_segment s = Some r \<longleftrightarrow> (\<exists>a. is_segment a \<and> s = a @ '':'' @ r)"
proof
  assume m: "match_segment s = Some r"
  have "s = takeWhile segment_char s @ dropWhile segment_char s" by simp
  moreover have "dropWhile segment_char s = CHR '':'' # r"
    using m by (auto simp: match_segment_def split: if_splits list.splits)
  moreover have "is_segment (takeWhile segment_char s)"
    using m by (auto simp: match_segment_def is_segment_def list_all_iff dest: set_takeWhileD
        split: if_splits)
  ultimately show "\<exists>a. is_segment a \<and> s = a @ '':'' @ r" by fastforce
next
  assume "\<exists>a. is_segment a \<and> s = a @ '':'' @ r"
  then obtain a where a: "is_segment a" "s = a @ '':'' @ r" by blast
  then have "takeWhile segment_char s = a" "dropWhile segment_char s = '':'' @ r"
    by (simp_all add: is_segment_def list_all_iff)
  with a show "match_segment s = Some r" by (simp add: match_segment_def is_segment_def)
qed

lemma typed_ref_pattern_iff:
  "TYPED_REF_PATTERN s \<longleftrightarrow> (\<exists>a b c d. s = a @ '':'' @ b @ '':'' @ c @ '':'' @ d \<and> is_segment a \<and>
     is_segment b \<and> is_segment c \<and> d \<noteq> [] \<and> list_all line_char d)" (is "_ = ?rhs")
proof
  assume "TYPED_REF_PATTERN s"
  then obtain s1 s2 s3 where "match_segment s = Some s1" "match_segment s1 = Some s2"
    "match_segment s2 = Some s3" "s3 \<noteq> []" "list_all line_char s3"
    by (auto simp: TYPED_REF_PATTERN_def split: option.splits)
  then show ?rhs unfolding match_segment_iff by fastforce
next
  assume ?rhs
  then obtain a b c d where s: "s = a @ '':'' @ b @ '':'' @ c @ '':'' @ d" and
    ok: "is_segment a" "is_segment b" "is_segment c" "d \<noteq> []" "list_all line_char d" by blast
  have "match_segment s = Some (b @ '':'' @ c @ '':'' @ d)"
    unfolding match_segment_iff using s ok by blast
  moreover have "match_segment (b @ '':'' @ c @ '':'' @ d) = Some (c @ '':'' @ d)"
    unfolding match_segment_iff using ok by blast
  moreover have "match_segment (c @ '':'' @ d) = Some d"
    unfolding match_segment_iff using ok by blast
  ultimately show "TYPED_REF_PATTERN s" using ok by (simp add: TYPED_REF_PATTERN_def)
qed

subsection \<open>Validation\<close>

definition validateObjective :: "string option \<Rightarrow> error + unit" where
  "validateObjective ob = (case ob of
       None \<Rightarrow> Inl Objective_Required
     | Some s \<Rightarrow> if s = [] \<or> js_trim s = [] then Inl Objective_Required else Inr ())"

definition validateTypedRef :: "string option \<Rightarrow> error + unit" where
  "validateTypedRef tr = (case tr of
       None \<Rightarrow> Inl Typed_Ref_Required
     | Some s \<Rightarrow> if s = [] then Inl Typed_Ref_Required
         else if \<not> TYPED_REF_PATTERN s then Inl (Typed_Ref_Invalid_Format s) else Inr ())"

definition validateCreateRequest :: "string option \<Rightarrow> string option \<Rightarrow> error + unit" where
  "validateCreateRequest ob tr =
     (case validateObjective ob of Inl e \<Rightarrow> Inl e | Inr _ \<Rightarrow> validateTypedRef tr)"

definition validateTransitionEvent :: "transition_event \<Rightarrow> string \<Rightarrow> task_state \<Rightarrow> error + unit" where
  "validateTransitionEvent ev tid current =
     (if event_task_id ev \<noteq> tid then Inl (Task_Id_Mismatch tid (event_task_id ev))
      else if from_state ev \<noteq> current then Inl (From_State_Mismatch current (from_state ev))
      else Inr ())"

text \<open>
  A creation request passes validation exactly when its objective has a character that is not
  white space and its typed_ref consists of three non-empty segments over [a-z0-9_-], each closed by
  a colon, and a non-empty rest on one line.
\<close>

theorem validate_create_request_iff:
  "validateCreateRequest ob tr = Inr () \<longleftrightarrow>
     (\<exists>s. ob = Some s \<and> (\<exists>c \<in> set s. \<not> js_whitespace c)) \<and>
     (\<exists>a b c d. tr = Some (a @ '':'' @ b @ '':'' @ c @ '':'' @ d) \<and> is_segment a \<and> is_segment b \<and>
        is_segment c \<and> d \<noteq> [] \<and> list_all line_char d)"
proof -
  have ob: "validateObjective ob = Inr () \<longleftrightarrow>
      (\<exists>s. ob = Some s \<and> (\<exists>c \<in> set s. \<not> js_whitespace c))"
    by (cases ob) (auto simp: validateObjective_def js_trim_Nil_iff)
  have tr: "validateTypedRef tr = Inr () \<longleftrightarrow> (\<exists>s. tr = Some s \<and> TYPED_REF_PATTERN s)"
    by (cases tr) (auto simp: validateTypedRef_def TYPED_REF_PATTERN_def match_segment_def)
  have "validateTypedRef tr = Inr () \<longleftrightarrow>
     (\<exists>a b c d. tr = Some (a @ '':'' @ b @ '':'' @ c @ '':'' @ d) \<and> is_segment a \<and> is_segment b \<and>
        is_segment c \<and> d \<noteq> [] \<and> list_all line_char d)"
    unfolding tr typed_ref_pattern_iff by blast
  moreover have "validateCreateRequest ob tr = Inr () \<longleftrightarrow>
      validateObjective ob = Inr () \<and> validateTypedRef tr = Inr ()"
    by (cases "validateObjective ob") (simp_all add: validateCreateRequest_def)
  ultimately show ?thesis
    using ob by blast
qed

subsection \<open>External references\<close>

definition mergeExternalRefs :: "external_ref list option \<Rightarrow> external_ref list \<Rightarrow> external_ref list" where
  "mergeExternalRefs existing newRefs =
     (let old = (case existing of Some es \<Rightarrow> es | None \<Rightarrow> []) in
      old @ filter (\<lambda>e. ext_value e \<notin> set (map ext_value old)) newRefs)"

lemma mergeExternalRefs_values:
  "ext_value ` set (mergeExternalRefs ex new) =
     ext_value ` set (case ex of Some es \<Rightarrow> es | None \<Rightarrow> []) \<union> ext_value ` set new"
  by (auto simp: mergeExternalRefs_def Let_def)

lemma mergeExternalRefs_idem:
  "mergeExternalRefs (Some (mergeExternalRefs ex new)) new = mergeExternalRefs ex new"
proof -
  have "ext_value e \<in> ext_value ` set (mergeExternalRefs ex new)" if "e \<in> set new" for e
    using that by (simp add: mergeExternalRefs_values)
  then show ?thesis
    by (simp add: mergeExternalRefs_def [of "Some _"] filter_empty_conv)
qed

lemma mergeExternalRefs_append:
  assumes "ext_value ` set as \<inter> ext_value ` set bs = {}"
  shows "mergeExternalRefs (Some (mergeExternalRefs ex as)) bs = mergeExternalRefs ex (as @ bs)"
proof -
  have "ext_value b \<notin> ext_value ` set as" if "b \<in> set bs" for b
    using assms that by blast
  then have "filter (\<lambda>e. ext_value e \<notin> ext_value ` set (mergeExternalRefs ex as)) bs =
      filter (\<lambda>e. ext_value e \<notin> ext_value ` set (case ex of Some es \<Rightarrow> es | None \<Rightarrow> [])) bs"
    by (intro filter_cong) (auto simp only: mergeExternalRefs_values)
  then show ?thesis
    by (cases ex) (simp_all add: mergeExternalRefs_def Let_def)
qed

text \<open>
  Merging external references keeps the existing ones in front and in order, makes every new
  value present, adds no second reference with an existing value, and merging the same list again
  changes nothing.
\<close>

theorem merge_external_refs_correct:
  "(\<exists>added. mergeExternalRefs (Some ex) new = ex @ added \<and> set added \<subseteq> set new \<and>
      ext_value ` set added \<inter> ext_value ` set ex = {}) \<and>
   ext_value ` set (mergeExternalRefs (Some ex) new) = ext_value ` set ex \<union> ext_value ` set new \<and>
   mergeExternalRefs (Some (mergeExternalRefs (Some ex) new)) new = mergeExternalRefs (Some ex) new"
  using mergeExternalRefs_values [of "Some ex" new] mergeExternalRefs_idem [of "Some ex" new]
  by (auto simp: mergeExternalRefs_def Let_def)

subsection \<open>Task updates\<close>

text \<open>A task for the concrete instances of the theorems below.\<close>

definition sample_task :: task where
  "sample_task = \<lparr>task_id = ''task_1'', title = ''t'', objective = ''o'', typed_ref = ''a:b:c:d'',
     description = None, state = Queued, version = 1, risk_level = Medium,
     repo_ref = \<lparr>owner = ''o'', repo_name = ''r'', default_branch = Some ''main'', base_sha = None\<rparr>,
     repo_policy = None, created_at = 0, updated_at = 0, completed_at = None,
     active_job_id = None, latest_job_ids = (\<lambda>_. None), last_verdict = None, workspace_ref = None,
     publish_plan = None, pending_approval_token = None, pending_approval_expires_at = None,
     blocked_context = None, integration = None, integration_run = None, publish_run = None,
     artifacts = None, manual_checklist = None, resolver_refs = None, labels = None,
     external_refs = None, context_bundle_ref = None, rollback_notes = None,
     retry_counts = (\<lambda>_. None), last_failure_class = None, rework_context = None,
     acceptance_gate_context = None, detected_side_effects = None, loop_fingerprint = None\<rparr>"

text \<open>
  \<open>active_job_id\<close> is also written with the value \<open>undefined\<close> by its callers: \<open>None\<close> is an absent
  property, \<open>Some None\<close> a property that is present with the value \<open>undefined\<close>.
\<close>

record task_update =
  u_artifacts :: "artifact_ref list option"
  u_mergeArtifacts :: "artifact_ref list option"
  u_resolver_refs :: "resolver_refs option"
  u_mergeResolverRefs :: "resolver_refs option"
  u_external_refs :: "external_ref list option"
  u_mergeExternalRefs :: "external_ref list option"
  u_context_bundle_ref :: "string option"
  u_rollback_notes :: "string option"
  u_last_verdict :: "verdict option"
  u_retry_counts :: "(worker_stage \<rightharpoonup> int) option"
  u_last_failure_class :: "failure_class option"
  u_rework_context :: "rework_context option"
  u_acceptance_gate_context :: "acceptance_gate_context option"
  u_loop_fingerprint :: "string option"
  u_detected_side_effects :: "side_effect_category list option"
  u_blocked_context :: "blocked_context option"
  u_active_job_id :: "string option option"
  u_manual_checklist :: "checklist_item list option"

definition no_update :: task_update where
  "no_update = \<lparr>u_artifacts = None, u_mergeArtifacts = None, u_resolver_refs = None,
     u_mergeResolverRefs = None, u_external_refs = None, u_mergeExternalRefs = None,
     u_context_bundle_ref = None, u_rollback_notes = None, u_last_verdict = None,
     u_retry_counts = None, u_last_failure_class = None, u_rework_context = None,
     u_acceptance_gate_context = None, u_loop_fingerprint = None, u_detected_side_effects = None,
     u_blocked_context = None, u_active_job_id = None, u_manual_checklist = None\<rparr>"

text \<open>\<open>if (x !== undefined) y = x\<close>\<close>

definition replace_by :: "'a option \<Rightarrow> 'a option \<Rightarrow> 'a option" where
  "replace_by old new = (case new of Some x \<Rightarrow> Some x | None \<Rightarrow> old)"

lemma replace_by_simps [simp]:
  "replace_by old None = old" "replace_by old (Some x) = Some x"
  "replace_by (replace_by a b) c = replace_by a (replace_by b c)" "replace_by None b = b"
  by (auto simp: replace_by_def split: option.split)

text \<open>\<open>{ ...a, ...b }\<close> on resolver references.\<close>

definition spread_resolver :: "resolver_refs option \<Rightarrow> resolver_refs \<Rightarrow> resolver_refs" where
  "spread_resolver a b = (case a of None \<Rightarrow> b | Some a \<Rightarrow>
     \<lparr>doc_refs = replace_by (doc_refs a) (doc_refs b),
      chunk_refs = replace_by (chunk_refs a) (chunk_refs b),
      ack_refs = replace_by (ack_refs a) (ack_refs b),
      contract_refs = replace_by (contract_refs a) (contract_refs b),
      rr_stale_status = replace_by (rr_stale_status a) (rr_stale_status b),
      rr_importance = replace_by (rr_importance a) (rr_importance b),
      rr_reason = replace_by (rr_reason a) (rr_reason b),
      stale_doc_counts = replace_by (stale_doc_counts a) (stale_doc_counts b)\<rparr>)"

definition spread_resolver_opt :: "resolver_refs option \<Rightarrow> resolver_refs option \<Rightarrow> resolver_refs option" where
  "spread_resolver_opt a b = (case b of None \<Rightarrow> a | Some b \<Rightarrow> Some (spread_resolver a b))"

lemma spread_resolver_assoc:
  "spread_resolver (Some (spread_resolver a b)) c = spread_resolver a (spread_resolver (Some b) c)"
  by (cases a) (simp_all add: spread_resolver_def)

lemma spread_resolver_None [simp]: "spread_resolver None b = b"
  by (simp add: spread_resolver_def)

lemma spread_resolver_opt_assoc:
  "spread_resolver_opt (spread_resolver_opt a b) c = spread_resolver_opt a (spread_resolver_opt b c)"
  by (cases a; cases b; cases c) (simp_all add: spread_resolver_opt_def spread_resolver_assoc)

lemma spread_resolver_opt_None [simp]:
  "spread_resolver_opt a None = a" "spread_resolver_opt None b = b"
  by (auto simp: spread_resolver_opt_def spread_resolver_def split: option.split)

definition append_opt :: "'a list option \<Rightarrow> 'a list option \<Rightarrow> 'a list option" where
  "append_opt a b = (case b of None \<Rightarrow> a | Some ys \<Rightarrow>
     Some ((case a of Some xs \<Rightarrow> xs | None \<Rightarrow> []) @ ys))"

lemma append_opt_simps [simp]:
  "append_opt a None = a" "append_opt None b = b"
  "append_opt (append_opt a b) c = append_opt a (append_opt b c)"
  by (auto simp: append_opt_def split: option.split)

definition merge_refs_opt :: "external_ref list option \<Rightarrow> external_ref list option \<Rightarrow> external_ref list option" where
  "merge_refs_opt ex m = (case m of None \<Rightarrow> ex | Some new \<Rightarrow> Some (mergeExternalRefs ex new))"

definition spread_counts :: "(worker_stage \<rightharpoonup> int) \<Rightarrow> (worker_stage \<rightharpoonup> int) option \<Rightarrow> (worker_stage \<rightharpoonup> int)" where
  "spread_counts c u = (case u of None \<Rightarrow> c | Some d \<Rightarrow> c ++ d)"

definition job_id_after :: "string option \<Rightarrow> string option option \<Rightarrow> string option" where
  "job_id_after old u = (case u of Some (Some j) \<Rightarrow> Some j | _ \<Rightarrow> old)"

definition applyTaskUpdate :: "time \<Rightarrow> task \<Rightarrow> task_update \<Rightarrow> task" where
  "applyTaskUpdate now t u = t
     \<lparr>artifacts := append_opt (replace_by (artifacts t) (u_artifacts u)) (u_mergeArtifacts u),
      resolver_refs := spread_resolver_opt (spread_resolver_opt (resolver_refs t) (u_resolver_refs u))
        (u_mergeResolverRefs u),
      external_refs := merge_refs_opt (replace_by (external_refs t) (u_external_refs u))
        (u_mergeExternalRefs u),
      context_bundle_ref := replace_by (context_bundle_ref t) (u_context_bundle_ref u),
      rollback_notes := replace_by (rollback_notes t) (u_rollback_notes u),
      last_verdict := replace_by (last_verdict t) (u_last_verdict u),
      last_failure_class := replace_by (last_failure_class t) (u_last_failure_class u),
      rework_context := replace_by (rework_context t) (u_rework_context u),
      acceptance_gate_context := replace_by (acceptance_gate_context t) (u_acceptance_gate_context u),
      loop_fingerprint := replace_by (loop_fingerprint t) (u_loop_fingerprint u),
      detected_side_effects := replace_by (detected_side_effects t) (u_detected_side_effects u),
      blocked_context := replace_by (blocked_context t) (u_blocked_context u),
      active_job_id := job_id_after (active_job_id t) (u_active_job_id u),
      manual_checklist := replace_by (manual_checklist t) (u_manual_checklist u),
      retry_counts := spread_counts (retry_counts t) (u_retry_counts u),
      version := version t + 1,
      updated_at := now\<rparr>"

definition merge_step :: "task_update \<Rightarrow> task_update \<Rightarrow> task_update" where
  "merge_step m u =
     \<lparr>u_artifacts = replace_by (u_artifacts m) (u_artifacts u),
      u_mergeArtifacts = append_opt (u_mergeArtifacts m) (u_mergeArtifacts u),
      u_resolver_refs = spread_resolver_opt (u_resolver_refs m) (u_resolver_refs u),
      u_mergeResolverRefs = spread_resolver_opt (u_mergeResolverRefs m) (u_mergeResolverRefs u),
      u_external_refs = replace_by (u_external_refs m) (u_external_refs u),
      u_mergeExternalRefs = append_opt (u_mergeExternalRefs m) (u_mergeExternalRefs u),
      u_context_bundle_ref = replace_by (u_context_bundle_ref m) (u_context_bundle_ref u),
      u_rollback_notes = replace_by (u_rollback_notes m) (u_rollback_notes u),
      u_last_verdict = replace_by (u_last_verdict m) (u_last_verdict u),
      u_retry_counts = (case u_retry_counts u of None \<Rightarrow> u_retry_counts m | Some d \<Rightarrow>
        Some (spread_counts (\<lambda>_. None) (u_retry_counts m) ++ d)),
      u_last_failure_class = replace_by (u_last_failure_class m) (u_last_failure_class u),
      u_rework_context = replace_by (u_rework_context m) (u_rework_context u),
      u_acceptance_gate_context = replace_by (u_acceptance_gate_context m) (u_acceptance_gate_context u),
      u_loop_fingerprint = replace_by (u_loop_fingerprint m) (u_loop_fingerprint u),
      u_detected_side_effects = replace_by (u_detected_side_effects m) (u_detected_side_effects u),
      u_blocked_context = replace_by (u_blocked_context m) (u_blocked_context u),
      u_active_job_id = (case u_active_job_id u of Some (Some j) \<Rightarrow> Some (Some j)
        | _ \<Rightarrow> u_active_job_id m),
      u_manual_checklist = replace_by (u_manual_checklist m) (u_manual_checklist u)\<rparr>"

definition mergeTaskUpdates :: "task_update list \<Rightarrow> task_update" where
  "mergeTaskUpdates us = foldl merge_step no_update us"

subsection \<open>What an update leaves alone\<close>

lemma applyTaskUpdate_frame [simp, update_simps]:
  "task_id (applyTaskUpdate now t u) = task_id t"
  "state (applyTaskUpdate now t u) = state t"
  "typed_ref (applyTaskUpdate now t u) = typed_ref t"
  "objective (applyTaskUpdate now t u) = objective t"
  "risk_level (applyTaskUpdate now t u) = risk_level t"
  "repo_ref (applyTaskUpdate now t u) = repo_ref t"
  "repo_policy (applyTaskUpdate now t u) = repo_policy t"
  "version (applyTaskUpdate now t u) = version t + 1"
  "updated_at (applyTaskUpdate now t u) = now"
  "created_at (applyTaskUpdate now t u) = created_at t"
  "completed_at (applyTaskUpdate now t u) = completed_at t"
  "publish_plan (applyTaskUpdate now t u) = publish_plan t"
  "integration (applyTaskUpdate now t u) = integration t"
  "blocked_context (applyTaskUpdate now t u) = replace_by (blocked_context t) (u_blocked_context u)"
  "active_job_id (applyTaskUpdate now t u) = job_id_after (active_job_id t) (u_active_job_id u)"
  "manual_checklist (applyTaskUpdate now t u) = replace_by (manual_checklist t) (u_manual_checklist u)"
  "rework_context (applyTaskUpdate now t u) = replace_by (rework_context t) (u_rework_context u)"
  "last_verdict (applyTaskUpdate now t u) = replace_by (last_verdict t) (u_last_verdict u)"
  by (simp_all add: applyTaskUpdate_def)

lemma merge_no_update [simp]: "merge_step no_update u =
    u\<lparr>u_active_job_id := (case u_active_job_id u of Some (Some j) \<Rightarrow> Some (Some j) | _ \<Rightarrow> None)\<rparr>"
  by (cases u) (auto simp: merge_step_def no_update_def spread_counts_def split: option.split)

text \<open>
  No update clears the active job of a task: an update that carries the property with the value
  undefined, alone or merged with others, leaves the old active job in place.
\<close>

theorem update_never_clears_active_job:
  "active_job_id (applyTaskUpdate now t (u\<lparr>u_active_job_id := Some None\<rparr>)) = active_job_id t \<and>
   active_job_id (applyTaskUpdate now t (mergeTaskUpdates [u, v\<lparr>u_active_job_id := Some None\<rparr>])) =
     active_job_id (applyTaskUpdate now t u) \<and>
   (active_job_id t \<noteq> None \<longrightarrow> active_job_id (applyTaskUpdate now t u) \<noteq> None)"
  by (auto simp: job_id_after_def mergeTaskUpdates_def merge_step_def no_update_def split: option.split)

theorem update_never_clears_active_job_witness:
  "active_job_id (applyTaskUpdate 5 (sample_task\<lparr>active_job_id := Some ''job_1''\<rparr>) no_update) \<noteq> None"
  using update_never_clears_active_job
    [of 5 "sample_task\<lparr>active_job_id := Some ''job_1''\<rparr>" no_update no_update]
  by simp

subsection \<open>Merging updates\<close>

definition same_but_version :: "task \<Rightarrow> task \<Rightarrow> bool" where
  "same_but_version a b = (a\<lparr>version := 0\<rparr> = b\<lparr>version := 0\<rparr>)"

lemma merge_refs_opt_append:
  assumes "ext_value ` set (case a of Some xs \<Rightarrow> xs | None \<Rightarrow> []) \<inter>
    ext_value ` set (case b of Some ys \<Rightarrow> ys | None \<Rightarrow> []) = {}"
  shows "merge_refs_opt (merge_refs_opt ex a) b = merge_refs_opt ex (append_opt a b)"
  using assms mergeExternalRefs_append
  by (cases a; cases b) (simp_all add: merge_refs_opt_def append_opt_def)

lemma merge_refs_opt_None [simp]: "merge_refs_opt ex None = ex"
  by (simp add: merge_refs_opt_def)

lemma job_id_after_twice:
  "job_id_after (job_id_after j a) b =
     job_id_after j (case b of Some (Some k) \<Rightarrow> Some (Some k) | _ \<Rightarrow> a)"
  by (auto simp: job_id_after_def split: option.split)

lemma spread_counts_twice:
  "spread_counts (spread_counts c a) b =
     spread_counts c (case b of None \<Rightarrow> a | Some d \<Rightarrow> Some (spread_counts (\<lambda>_. None) a ++ d))"
  by (auto simp: spread_counts_def map_add_def fun_eq_iff split: option.split)

lemma job_id_after_norm [simp]:
  "job_id_after j (case u of Some (Some k) \<Rightarrow> Some (Some k) | _ \<Rightarrow> None) = job_id_after j u"
  by (auto simp: job_id_after_def split: option.split)

text \<open>
  Applying the merge of two updates is applying them one after the other, up to the version
  counter (one step instead of two), when the second update replaces no list or record that the first
  one adds to and the two add different external references.
\<close>

theorem merge_updates_sequential:
  assumes "u_mergeArtifacts u = None \<or> u_artifacts v = None"
    and "u_mergeResolverRefs u = None \<or> u_resolver_refs v = None"
    and "u_mergeExternalRefs u = None \<or> u_external_refs v = None"
    and "ext_value ` set (case u_mergeExternalRefs u of Some xs \<Rightarrow> xs | None \<Rightarrow> []) \<inter>
         ext_value ` set (case u_mergeExternalRefs v of Some ys \<Rightarrow> ys | None \<Rightarrow> []) = {}"
  shows "same_but_version (applyTaskUpdate now t (mergeTaskUpdates [u, v]))
           (applyTaskUpdate now (applyTaskUpdate now t u) v)"
proof -
  have art: "append_opt (replace_by (append_opt (replace_by a (u_artifacts u)) (u_mergeArtifacts u))
        (u_artifacts v)) (u_mergeArtifacts v) =
      append_opt (replace_by (replace_by a (u_artifacts u)) (u_artifacts v))
        (append_opt (u_mergeArtifacts u) (u_mergeArtifacts v))" for a
    using assms(1) by auto
  have res: "spread_resolver_opt (spread_resolver_opt (spread_resolver_opt
        (spread_resolver_opt a (u_resolver_refs u)) (u_mergeResolverRefs u)) (u_resolver_refs v))
        (u_mergeResolverRefs v) =
      spread_resolver_opt (spread_resolver_opt a (spread_resolver_opt (u_resolver_refs u)
        (u_resolver_refs v))) (spread_resolver_opt (u_mergeResolverRefs u) (u_mergeResolverRefs v))" for a
    using assms(2) by (auto simp: spread_resolver_opt_assoc)
  have ext: "merge_refs_opt (replace_by (merge_refs_opt (replace_by a (u_external_refs u))
        (u_mergeExternalRefs u)) (u_external_refs v)) (u_mergeExternalRefs v) =
      merge_refs_opt (replace_by (replace_by a (u_external_refs u)) (u_external_refs v))
        (append_opt (u_mergeExternalRefs u) (u_mergeExternalRefs v))" for a
  proof (cases "u_mergeExternalRefs u")
    case None
    then show ?thesis by simp
  next
    case (Some m)
    with assms(3) show ?thesis
      using merge_refs_opt_append [OF assms(4)] by simp
  qed
  show ?thesis
    unfolding same_but_version_def applyTaskUpdate_def mergeTaskUpdates_def foldl.simps merge_no_update
    by (simp add: merge_step_def art res ext job_id_after_twice spread_counts_twice
        flip: replace_by_simps(3))
      (cases "u_active_job_id v"; simp add: job_id_after_def split: option.split)
qed

theorem merge_updates_sequential_witness:
  "same_but_version
     (applyTaskUpdate 7 sample_task (mergeTaskUpdates [no_update\<lparr>u_rollback_notes := Some ''a''\<rparr>,
        no_update\<lparr>u_rollback_notes := Some ''b''\<rparr>]))
     (applyTaskUpdate 7 (applyTaskUpdate 7 sample_task (no_update\<lparr>u_rollback_notes := Some ''a''\<rparr>))
        (no_update\<lparr>u_rollback_notes := Some ''b''\<rparr>))"
  by (rule merge_updates_sequential) (simp_all add: no_update_def)

end
