(* ===== verification/Repo_Policy.thy ===== *)
theory Repo_Policy
  imports Task_Model
begin

text \<open>
  \<open>src/src/domain/repo-policy\<close> (\<open>RepoPolicyService\<close>: who may push, merge and publish where, and
  \<open>RepoPolicyStore\<close>: the policy of each repository) and \<open>src/src/domain/integration-check\<close>
  (\<open>BaseShaValidator\<close>). A branch pattern with a star becomes a regular expression by replacing each
  star with \<open>.*\<close>; the model covers patterns in which the only other character with a meaning in
  regular expressions is the dot, which then stands for any character.
\<close>

datatype actor = A_Bot | A_Human

datatype push_denial = Human_Push_Not_Allowed | Ci_Not_Passed | Not_Fast_Forward | Pr_Required | Protected_Branch

fun actor_matches :: "push_actor \<Rightarrow> actor \<Rightarrow> bool" where
  "actor_matches Bot a = (a = A_Bot)"
| "actor_matches Human_Actor a = (a = A_Human)"
| "actor_matches Any_Actor a = False"

fun push_actor_name :: "push_actor \<Rightarrow> string" where
  "push_actor_name Bot = ''bot''"
| "push_actor_name Human_Actor = ''human''"
| "push_actor_name Any_Actor = ''any''"

subsection \<open>Protected branches\<close>

function glob :: "string \<Rightarrow> string \<Rightarrow> bool" where
  "glob [] s = (s = [])"
| "glob (p # ps) [] = (p = CHR ''*'' \<and> glob ps [])"
| "glob (p # ps) (c # cs) =
     (if p = CHR ''*'' then glob ps (c # cs) \<or> (line_char c \<and> glob (p # ps) cs)
      else if p = CHR ''.'' then line_char c \<and> glob ps cs
      else p = c \<and> glob ps cs)"
  by pat_completeness auto
termination
  by (relation "measure (\<lambda>(p, s). length p + length s)") auto

definition isProtectedBranch :: "string \<Rightarrow> string list \<Rightarrow> bool" where
  "isProtectedBranch branch patterns =
     list_ex (\<lambda>p. if CHR ''*'' \<in> set p then glob p branch else branch = p) patterns"

lemma glob_star_any: "list_all line_char s \<Longrightarrow> glob [CHR ''*''] s"
  by (induction s) auto

lemma glob_star_only: "glob [CHR ''*''] s \<longleftrightarrow> list_all line_char s"
  by (induction s) auto

lemma glob_literal_prefix:
  "CHR ''*'' \<notin> set pre \<Longrightarrow> CHR ''.'' \<notin> set pre \<Longrightarrow>
    glob (pre @ ''*'') s \<longleftrightarrow> (\<exists>rest. s = pre @ rest \<and> list_all line_char rest)"
proof (induction pre arbitrary: s)
  case Nil
  then show ?case using glob_star_only [of s] by simp
next
  case (Cons p pre)
  then show ?case by (cases s) auto
qed

definition protected_of :: "repo_policy \<Rightarrow> string list" where
  "protected_of p = (case protected_branches p of Some bs \<Rightarrow> bs | None \<Rightarrow> [''main''])"

subsection \<open>The policy service\<close>

definition validatePush :: "repo_policy \<Rightarrow> actor \<Rightarrow> string \<Rightarrow> bool \<Rightarrow> bool \<Rightarrow> push_denial option" where
  "validatePush p a branch is_ff ci_passed =
     (if main_push_actor p \<noteq> Any_Actor \<and> \<not> actor_matches (main_push_actor p) a then Some Human_Push_Not_Allowed
      else if require_ci_pass p \<and> \<not> ci_passed then Some Ci_Not_Passed
      else let isProtected = isProtectedBranch branch (protected_of p) in
        if update_strategy p = Pull_Request \<and> isProtected then Some Pr_Required
        else if isProtected then
          (if update_strategy p = Fast_Forward_Only \<and> \<not> is_ff then Some Not_Fast_Forward
           else if (case protected_branches p of Some bs \<Rightarrow> bs \<noteq> [] | None \<Rightarrow> False) then Some Protected_Branch
           else None)
        else None)"

definition getDefaultIntegrationBranch :: "repo_policy \<Rightarrow> string \<Rightarrow> string" where
  "getDefaultIntegrationBranch p taskId =
     (case integration_branch_prefix p of Some pre \<Rightarrow> pre | None \<Rightarrow> ''cp/integrate/'') @ taskId"

definition canMergeMethod :: "repo_policy \<Rightarrow> merge_method \<Rightarrow> bool" where
  "canMergeMethod p m = (case allowed_merge_methods p of None \<Rightarrow> True | Some ms \<Rightarrow> m \<in> set ms)"

record integration_policy_result =
  ipr_allowed :: bool
  ipr_integration_branch :: string
  can_fast_forward :: bool
  requires_pr :: bool
  ipr_reason :: "string option"

definition canFastForward :: "string \<Rightarrow> string option \<Rightarrow> string option \<Rightarrow> bool" where
  "canFastForward base head main = (if falsy head \<or> falsy main then False else main = Some base)"

definition validateIntegrationPolicy :: "repo_policy \<Rightarrow> string \<Rightarrow> string \<Rightarrow> string option \<Rightarrow> string option \<Rightarrow> bool
    \<Rightarrow> integration_policy_result" where
  "validateIntegrationPolicy p taskId base head main checks =
     (let branch = getDefaultIntegrationBranch p taskId in
      if require_ci_pass p \<and> \<not> checks
      then \<lparr>ipr_allowed = False, ipr_integration_branch = branch, can_fast_forward = False, requires_pr = False,
         ipr_reason = Some ''CI checks must pass before integration''\<rparr>
      else \<lparr>ipr_allowed = True, ipr_integration_branch = branch, can_fast_forward = canFastForward base head main,
         requires_pr = (update_strategy p = Pull_Request), ipr_reason = None\<rparr>)"

record publish_policy_result =
  ppr_allowed :: bool
  ppr_strategy :: update_strategy
  ppr_reason :: "string option"
  ppr_warnings :: "string list option"

definition validatePublishPolicy :: "repo_policy \<Rightarrow> actor \<Rightarrow> string \<Rightarrow> bool \<Rightarrow> bool \<Rightarrow> publish_policy_result" where
  "validatePublishPolicy p a branch checks is_ff =
     (if main_push_actor p \<noteq> Any_Actor \<and> \<not> actor_matches (main_push_actor p) a
      then \<lparr>ppr_allowed = False, ppr_strategy = update_strategy p, ppr_reason = Some (''Only '' @
         push_actor_name (main_push_actor p) @ '' can push to '' @ branch), ppr_warnings = None\<rparr>
      else if require_ci_pass p \<and> \<not> checks
      then \<lparr>ppr_allowed = False, ppr_strategy = update_strategy p,
         ppr_reason = Some ''CI checks must pass before publish'', ppr_warnings = None\<rparr>
      else if isProtectedBranch branch (protected_of p) then
        (if update_strategy p = Pull_Request
         then \<lparr>ppr_allowed = False, ppr_strategy = Pull_Request, ppr_reason = Some ''PR required for protected branches'',
           ppr_warnings = Some [''Create a PR instead of direct publish'']\<rparr>
         else if update_strategy p = Fast_Forward_Only \<and> \<not> is_ff
         then \<lparr>ppr_allowed = False, ppr_strategy = Fast_Forward_Only,
           ppr_reason = Some ''Only fast-forward pushes allowed to protected branches'', ppr_warnings = None\<rparr>
         else \<lparr>ppr_allowed = True, ppr_strategy = update_strategy p, ppr_reason = None,
           ppr_warnings = Some [''Publishing to protected branch: '' @ branch]\<rparr>)
      else \<lparr>ppr_allowed = True, ppr_strategy = update_strategy p, ppr_reason = None, ppr_warnings = None\<rparr>)"

definition getDefaultBranchProtection :: "string list" where
  "getDefaultBranchProtection = [''main'', ''master'']"

definition isMergeAllowed :: "repo_policy \<Rightarrow> string \<Rightarrow> bool \<times> merge_method option" where
  "isMergeAllowed p branch =
     (if \<not> isProtectedBranch branch (protected_of p) then (True, Some Merge)
      else let ms = (case allowed_merge_methods p of Some ms \<Rightarrow> ms | None \<Rightarrow> [Merge]) in
        (ms \<noteq> [], case ms of m # _ \<Rightarrow> Some m | [] \<Rightarrow> None))"

definition may_act :: "repo_policy \<Rightarrow> actor \<Rightarrow> bool \<Rightarrow> bool" where
  "may_act p a ci = ((main_push_actor p = Any_Actor \<or> actor_matches (main_push_actor p) a) \<and> (require_ci_pass p \<longrightarrow> ci))"

text \<open>
  A push is allowed exactly when the actor may push, required CI has passed, and the branch is
  unprotected or protected only by default (no list of protected branches is configured), under a
  strategy that is met; so an explicitly protected branch is never pushed to. Publishing allows every
  push that is allowed, and beyond that only pushes to explicitly protected branches.
\<close>

theorem push_publish_policy:
  "(validatePush p a branch ff ci = None \<longleftrightarrow> may_act p a ci \<and>
      (isProtectedBranch branch (protected_of p) \<longrightarrow>
         update_strategy p \<noteq> Pull_Request \<and> (update_strategy p = Fast_Forward_Only \<longrightarrow> ff) \<and> protected_branches p = None)) \<and>
   (ppr_allowed (validatePublishPolicy p a branch ci ff) \<longleftrightarrow>
      validatePush p a branch ff ci = None \<or> validatePush p a branch ff ci = Some Protected_Branch)"
proof -
  have nonempty: "isProtectedBranch branch (protected_of p) \<Longrightarrow> protected_branches p \<noteq> Some []"
    by (auto simp: isProtectedBranch_def protected_of_def)
  show ?thesis
    using nonempty
    by (auto simp: validatePush_def validatePublishPolicy_def may_act_def Let_def split: option.splits)
qed

theorem push_publish_policy_witness:
  "validatePush \<lparr>update_strategy = Direct_Push, main_push_actor = Any_Actor, require_ci_pass = False,
     integration_branch_prefix = None, protected_branches = Some [''rel*''], allowed_merge_methods = None\<rparr>
     A_Bot ''release'' True True \<noteq> None"
  using push_publish_policy [of "\<lparr>update_strategy = Direct_Push, main_push_actor = Any_Actor, require_ci_pass = False,
     integration_branch_prefix = None, protected_branches = Some [''rel*''], allowed_merge_methods = None\<rparr>"
     A_Bot "''release''" True True]
  by (simp add: isProtectedBranch_def protected_of_def glob_star_any line_char_def)

text \<open>
  A pattern that ends in its only star and has no dot protects exactly the branches that start
  with the text before the star and have no line break after it; a pattern without a star protects
  only the branch of that name.
\<close>

theorem protected_branch_patterns:
  assumes "CHR ''*'' \<notin> set pre" and "CHR ''.'' \<notin> set pre"
  shows "(isProtectedBranch b [pre @ ''*''] \<longleftrightarrow> (\<exists>rest. b = pre @ rest \<and> list_all line_char rest)) \<and>
    (isProtectedBranch b [pre] \<longleftrightarrow> b = pre) \<and>
    (isProtectedBranch b (ps @ qs) \<longleftrightarrow> isProtectedBranch b ps \<or> isProtectedBranch b qs)"
  using assms glob_literal_prefix [OF assms] by (auto simp: isProtectedBranch_def)

theorem protected_branch_patterns_witness:
  "isProtectedBranch ''release/1'' [''release/*''] \<and> \<not> isProtectedBranch ''rel'' [''release/'']"
  using protected_branch_patterns [of "''release/''" "''release/1''" "[]" "[]"]
    protected_branch_patterns [of "''release/''" "''rel''" "[]" "[]"]
  by (simp add: line_char_def)

subsection \<open>The policy store\<close>

type_synonym policy_store = "(string, repo_policy) jsmap"

record policy_patch =
  pp_update_strategy :: "update_strategy option"
  pp_main_push_actor :: "push_actor option"
  pp_require_ci_pass :: "bool option"
  pp_integration_branch_prefix :: "string option"
  pp_protected_branches :: "string list option"
  pp_allowed_merge_methods :: "merge_method list option"

definition getDefaultPolicy :: repo_policy where
  "getDefaultPolicy = \<lparr>update_strategy = Pull_Request, main_push_actor = Bot, require_ci_pass = True,
     integration_branch_prefix = None, protected_branches = Some [''main'', ''master''],
     allowed_merge_methods = Some [Merge, Squash, Rebase]\<rparr>"

definition getKey :: "string \<Rightarrow> string \<Rightarrow> string" where
  "getKey own nm = own @ ''/'' @ nm"

definition getPolicyByName :: "policy_store \<Rightarrow> string \<Rightarrow> string \<Rightarrow> repo_policy option" where
  "getPolicyByName m own nm = map_get m (getKey own nm)"

definition getPolicy :: "policy_store \<Rightarrow> repo_ref \<Rightarrow> repo_policy" where
  "getPolicy m r = (case map_get m (getKey (owner r) (repo_name r)) of Some p \<Rightarrow> p | None \<Rightarrow> getDefaultPolicy)"

definition setPolicy :: "string \<Rightarrow> string \<Rightarrow> repo_policy \<Rightarrow> policy_store \<Rightarrow> policy_store" where
  "setPolicy own nm p m = map_set m (getKey own nm) p"

definition spread_policy :: "repo_policy \<Rightarrow> policy_patch \<Rightarrow> repo_policy" where
  "spread_policy p u = \<lparr>
     update_strategy = (case pp_update_strategy u of Some x \<Rightarrow> x | None \<Rightarrow> update_strategy p),
     main_push_actor = (case pp_main_push_actor u of Some x \<Rightarrow> x | None \<Rightarrow> main_push_actor p),
     require_ci_pass = (case pp_require_ci_pass u of Some x \<Rightarrow> x | None \<Rightarrow> require_ci_pass p),
     integration_branch_prefix = replace_by (integration_branch_prefix p) (pp_integration_branch_prefix u),
     protected_branches = replace_by (protected_branches p) (pp_protected_branches u),
     allowed_merge_methods = replace_by (allowed_merge_methods p) (pp_allowed_merge_methods u)\<rparr>"

definition updatePolicy :: "string \<Rightarrow> string \<Rightarrow> policy_patch \<Rightarrow> policy_store \<Rightarrow> repo_policy \<times> policy_store" where
  "updatePolicy own nm u m =
     (let p = spread_policy (case getPolicyByName m own nm of Some p \<Rightarrow> p | None \<Rightarrow> getDefaultPolicy) u
      in (p, setPolicy own nm p m))"

definition deletePolicy :: "string \<Rightarrow> string \<Rightarrow> policy_store \<Rightarrow> bool \<times> policy_store" where
  "deletePolicy own nm m = (map_has m (getKey own nm), map_delete m (getKey own nm))"

fun js_split :: "char \<Rightarrow> string \<Rightarrow> string list" where
  "js_split sep [] = [[]]"
| "js_split sep (c # cs) = (if c = sep then [] # js_split sep cs
     else case js_split sep cs of w # ws \<Rightarrow> (c # w) # ws | [] \<Rightarrow> [[c]])"

definition list_entry :: "string \<times> repo_policy \<Rightarrow> string option \<times> string option \<times> repo_policy" where
  "list_entry e = (case js_split (CHR ''/'') (fst e) of
       a # b # _ \<Rightarrow> (Some a, Some b, snd e) | [a] \<Rightarrow> (Some a, None, snd e) | [] \<Rightarrow> (None, None, snd e))"

definition listPolicies :: "policy_store \<Rightarrow> (string option \<times> string option \<times> repo_policy) list" where
  "listPolicies m = map list_entry m"

lemma js_split_plain: "sep \<notin> set s \<Longrightarrow> js_split sep s = [s]"
  by (induction s) auto

lemma js_split_append: "sep \<notin> set a \<Longrightarrow> js_split sep (a @ sep # s) = a # js_split sep s"
  by (induction a) auto

lemma getKey_inject:
  "CHR ''/'' \<notin> set a \<Longrightarrow> CHR ''/'' \<notin> set c \<Longrightarrow> getKey a b = getKey c d \<longleftrightarrow> a = c \<and> b = d"
proof -
  assume "CHR ''/'' \<notin> set a" and "CHR ''/'' \<notin> set c"
  then show ?thesis
    unfolding getKey_def
  proof (induction a arbitrary: c)
    case Nil
    then show ?case by (cases c) auto
  next
    case (Cons x a)
    then show ?case by (cases c) auto
  qed
qed

definition slash_free :: "string \<Rightarrow> bool" where
  "slash_free s = (CHR ''/'' \<notin> set s)"

text \<open>
  The policy store keeps one policy per repository: for owners without a slash, setting, updating
  or deleting the policy of one repository is seen by exactly that repository, an update keeps every
  field it does not mention, a repository without a policy has the default, and the listing returns a
  stored policy under its owner and name.
\<close>

theorem policy_store_correct:
  assumes "slash_free a" and "slash_free c" and "slash_free b"
  shows "getPolicyByName (setPolicy a b p m) c d = (if c = a \<and> d = b then Some p else getPolicyByName m c d) \<and>
    getPolicyByName (snd (deletePolicy a b m)) c d = (if c = a \<and> d = b then None else getPolicyByName m c d) \<and>
    fst (updatePolicy a b u m) = spread_policy (getPolicy m \<lparr>owner = a, repo_name = b, default_branch = br, base_sha = sha\<rparr>) u \<and>
    getPolicyByName (snd (updatePolicy a b u m)) a b = Some (fst (updatePolicy a b u m)) \<and>
    (wf_map m \<longrightarrow> getPolicyByName m a b = Some q \<longrightarrow> (Some a, Some b, q) \<in> set (listPolicies m))"
proof -
  have key: "getKey c d = getKey a b \<longleftrightarrow> c = a \<and> d = b"
    using assms getKey_inject unfolding slash_free_def by blast
  have split: "js_split (CHR ''/'') (getKey a b) = [a, b]"
    using assms js_split_append [of "CHR ''/''" a b] js_split_plain [of "CHR ''/''" b]
    by (simp add: getKey_def slash_free_def)
  have "(Some a, Some b, q) \<in> set (listPolicies m)" if "wf_map m" "getPolicyByName m a b = Some q"
  proof -
    have "(getKey a b, q) \<in> set m"
      using that by (simp add: getPolicyByName_def jm.lookup_entries)
    then have "list_entry (getKey a b, q) \<in> set (listPolicies m)"
      unfolding listPolicies_def by simp
    then show ?thesis by (simp add: list_entry_def split)
  qed
  then show ?thesis
    by (auto simp: getPolicyByName_def setPolicy_def deletePolicy_def updatePolicy_def getPolicy_def Let_def
        jm.lookup_store jm.lookup_remove key)
qed

theorem policy_store_correct_witness:
  "getPolicyByName (setPolicy ''a'' ''b'' getDefaultPolicy []) ''a'' ''b'' = Some getDefaultPolicy"
  using policy_store_correct [of "''a''" "''a''" "''b''" getDefaultPolicy "[]" "''b''"]
  by (simp add: slash_free_def)

subsection \<open>Base SHA validation\<close>

datatype sha_reason = Base_Sha_Changed | Original_Base_Sha_Missing | Conflicts_Exist

datatype sha_action = SA_Proceed | SA_Rebase | SA_Resolve_Conflicts | SA_Blocked

datatype rebase_action = RB_None | RB_Rebase | RB_Resolve_Conflicts

record sha_check_input =
  original_base :: "string option"
  current_base :: string
  sci_is_fast_forward :: "bool option"
  sci_has_conflicts :: "bool option"

record sha_check_result =
  sha_valid :: bool
  can_proceed :: bool
  sha_reason :: "sha_reason option"
  needs_rebase :: "bool option"
  scr_can_fast_forward :: "bool option"
  needs_merge :: "bool option"
  scr_has_conflicts :: "bool option"
  sha_action :: "sha_action option"

definition validateBaseSha :: "sha_check_input \<Rightarrow> sha_check_result" where
  "validateBaseSha i =
     (if falsy (original_base i)
      then \<lparr>sha_valid = False, can_proceed = False, sha_reason = Some Original_Base_Sha_Missing, needs_rebase = None,
         scr_can_fast_forward = None, needs_merge = None, scr_has_conflicts = None, sha_action = Some SA_Blocked\<rparr>
      else if original_base i \<noteq> Some (current_base i)
      then \<lparr>sha_valid = False, can_proceed = False, sha_reason = Some Base_Sha_Changed, needs_rebase = Some True,
         scr_can_fast_forward = None, needs_merge = None,
         scr_has_conflicts = (if sci_has_conflicts i = Some True then Some True else None),
         sha_action = Some (if sci_has_conflicts i = Some True then SA_Resolve_Conflicts else SA_Rebase)\<rparr>
      else \<lparr>sha_valid = True, can_proceed = True, sha_reason = None, needs_rebase = Some False,
         scr_can_fast_forward = sci_is_fast_forward i, needs_merge = map_option Not (sci_is_fast_forward i),
         scr_has_conflicts = None, sha_action = Some SA_Proceed\<rparr>)"

definition hex_char :: "char \<Rightarrow> bool" where
  "hex_char c = (let n = of_char c :: nat in (97 \<le> n \<and> n \<le> 102) \<or> (65 \<le> n \<and> n \<le> 70) \<or> (48 \<le> n \<and> n \<le> 57))"

definition isValidShaFormat :: "string \<Rightarrow> bool" where
  "isValidShaFormat s = (7 \<le> length s \<and> length s \<le> 40 \<and> list_all hex_char s)"

definition getRebaseAction :: "sha_check_input \<Rightarrow> rebase_action" where
  "getRebaseAction i = (if falsy (original_base i) \<or> original_base i \<noteq> Some (current_base i)
     then (if sci_has_conflicts i = Some True then RB_Resolve_Conflicts else RB_Rebase) else RB_None)"

definition sha_blocked_context :: "string \<Rightarrow> task_state \<Rightarrow> blocked_context" where
  "sha_blocked_context reason resume = mk_block resume reason W_Github"

text \<open>
  Integration may proceed exactly when a base SHA was recorded and main still is at it; the
  rebase action is none in exactly this case, and when main has moved the two answers ask for the same
  thing, resolving conflicts if there are any and rebasing otherwise.
\<close>

theorem base_sha_decision:
  "(can_proceed (validateBaseSha i) \<longleftrightarrow> original_base i = Some (current_base i) \<and> current_base i \<noteq> []) \<and>
   (can_proceed (validateBaseSha i) \<longleftrightarrow> sha_valid (validateBaseSha i)) \<and>
   (can_proceed (validateBaseSha i) \<longleftrightarrow> getRebaseAction i = RB_None) \<and>
   (sha_reason (validateBaseSha i) = Some Base_Sha_Changed \<longrightarrow>
      sha_action (validateBaseSha i) = Some (if getRebaseAction i = RB_Resolve_Conflicts then SA_Resolve_Conflicts else SA_Rebase) \<and>
      (getRebaseAction i = RB_Resolve_Conflicts \<longleftrightarrow> sci_has_conflicts i = Some True))"
  by (cases "original_base i") (auto simp: validateBaseSha_def getRebaseAction_def)

theorem base_sha_decision_witness:
  "getRebaseAction \<lparr>original_base = Some ''abc'', current_base = ''def'', sci_is_fast_forward = None,
     sci_has_conflicts = Some True\<rparr> = RB_Resolve_Conflicts"
  using base_sha_decision [of "\<lparr>original_base = Some ''abc'', current_base = ''def'', sci_is_fast_forward = None,
     sci_has_conflicts = Some True\<rparr>"]
  by (simp add: validateBaseSha_def)

end
