(* ===== verification/Task_Store.thy ===== *)
theory Task_Store
  imports Task_Model "HOL-Library.Multiset"
begin

text \<open>
  \<open>src/src/store/services/task-service.ts\<close>: the tasks and, next to them, the transition events that
  the control plane records for each task. An operation receives the current time \<open>now\<close> and the
  fresh identifiers it would draw; it takes one instant for all its reads of the clock. The locale
  \<open>transition_ctx\<close> is the context interface every orchestrator is given: a way to move a task.
\<close>

record task_store =
  tasks :: "(string, task) jsmap"
  events :: "(string, transition_event list) jsmap"

record create_request =
  cq_title :: string
  cq_objective :: "string option"
  cq_typed_ref :: "string option"
  cq_description :: "string option"
  cq_repo_ref :: repo_ref
  cq_repo_policy :: "repo_policy option"
  cq_risk_level :: "risk_level option"
  cq_labels :: "string list option"
  cq_publish_plan :: "publish_plan option"
  cq_external_refs :: "external_ref list option"

definition empty_store :: task_store where
  "empty_store = \<lparr>tasks = [], events = []\<rparr>"

definition recordEvent :: "transition_event \<Rightarrow> task_store \<Rightarrow> task_store" where
  "recordEvent ev s = s\<lparr>events := map_set (events s) (event_task_id ev)
     ((case map_get (events s) (event_task_id ev) of Some es \<Rightarrow> es | None \<Rightarrow> []) @ [ev])\<rparr>"

definition listEvents :: "task_store \<Rightarrow> string \<Rightarrow> transition_event list" where
  "listEvents s tid = (case map_get (events s) tid of Some es \<Rightarrow> es | None \<Rightarrow> [])"

definition new_task :: "time \<Rightarrow> string \<Rightarrow> create_request \<Rightarrow> task" where
  "new_task now tid r = \<lparr>task_id = tid, title = cq_title r,
     objective = (case cq_objective r of Some ob \<Rightarrow> ob | None \<Rightarrow> []),
     typed_ref = (case cq_typed_ref r of Some tr \<Rightarrow> tr | None \<Rightarrow> []),
     description = cq_description r, state = Queued, version = 0,
     risk_level = (case cq_risk_level r of Some l \<Rightarrow> l | None \<Rightarrow> Medium),
     repo_ref = cq_repo_ref r, repo_policy = cq_repo_policy r, created_at = now, updated_at = now,
     completed_at = None, active_job_id = None, latest_job_ids = (\<lambda>_. None), last_verdict = None,
     workspace_ref = None, publish_plan = cq_publish_plan r, pending_approval_token = None,
     pending_approval_expires_at = None, blocked_context = None, integration = None,
     integration_run = None, publish_run = None, artifacts = Some [], manual_checklist = None,
     resolver_refs = None, labels = Some (case cq_labels r of Some ls \<Rightarrow> ls | None \<Rightarrow> []),
     external_refs = Some (case cq_external_refs r of Some es \<Rightarrow> es | None \<Rightarrow> []),
     context_bundle_ref = None, rollback_notes = None, retry_counts = (\<lambda>_. None),
     last_failure_class = None, rework_context = None, acceptance_gate_context = None,
     detected_side_effects = None, loop_fingerprint = None\<rparr>"

definition createTask :: "time \<Rightarrow> string \<Rightarrow> string \<Rightarrow> create_request \<Rightarrow> task_store \<Rightarrow> (error, task, task_store) outcome" where
  "createTask now tid eid r s = (case validateCreateRequest (cq_objective r) (cq_typed_ref r) of
       Inl e \<Rightarrow> (Inl e, s)
     | Inr _ \<Rightarrow>
        let t = new_task now tid r;
            s1 = s\<lparr>tasks := map_set (tasks s) tid t\<rparr>;
            ev = \<lparr>event_id = eid, event_task_id = tid, from_state = Queued, to_state = Queued,
              event_actor_type = Control_Plane, event_actor_id = ''shipyard-cp'', event_reason = ''task created'',
              event_job_id = None, event_artifact_ids = None, occurred_at = now\<rparr>
        in (Inr t, recordEvent ev s1))"

definition getTask :: "task_store \<Rightarrow> string \<Rightarrow> task option" where
  "getTask s tid = map_get (tasks s) tid"

definition listTasks :: "task_state list option \<Rightarrow> nat option \<Rightarrow> nat option \<Rightarrow> task_store \<Rightarrow> task list" where
  "listTasks states offset limit s =
     (let all = map_values (tasks s);
          sel = (case states of Some ss \<Rightarrow> if ss \<noteq> [] then filter (\<lambda>t. state t \<in> set ss) all else all | None \<Rightarrow> all);
          sorted_tasks = sort_key (\<lambda>t. - updated_at t) sel;
          off = (case offset of Some n \<Rightarrow> n | None \<Rightarrow> 0);
          lim = (case limit of Some n \<Rightarrow> n | None \<Rightarrow> 100)
      in take lim (drop off sorted_tasks))"

definition requireTask :: "string \<Rightarrow> task_store \<Rightarrow> (error, task, task_store) outcome" where
  "requireTask tid s = (case map_get (tasks s) tid of
     Some t \<Rightarrow> (Inr t, s) | None \<Rightarrow> (Inl (Plain_Error (''task not found: '' @ tid)), s))"

definition touchTask :: "time \<Rightarrow> task \<Rightarrow> task" where
  "touchTask now t = t\<lparr>version := version t + 1, updated_at := now\<rparr>"

definition setTask :: "string \<Rightarrow> task \<Rightarrow> task_store \<Rightarrow> task_store" where
  "setTask tid t s = s\<lparr>tasks := map_set (tasks s) tid t\<rparr>"

definition updateTask :: "time \<Rightarrow> string \<Rightarrow> task_update \<Rightarrow> task_store \<Rightarrow> (error, task, task_store) outcome" where
  "updateTask now tid u = and_then (requireTask tid) (\<lambda>t s.
     let t' = applyTaskUpdate now t u in (Inr t', setTask tid t' s))"

definition move_task :: "time \<Rightarrow> task \<Rightarrow> task_state \<Rightarrow> task" where
  "move_task now t to = t\<lparr>state := to, version := version t + 1, updated_at := now,
     completed_at := (if isTerminal to then Some now else completed_at t),
     blocked_context := (if to \<noteq> Blocked then None else blocked_context t)\<rparr>"

definition transitionTask :: "time \<Rightarrow> string \<Rightarrow> task \<Rightarrow> task_state \<Rightarrow> transition_input \<Rightarrow> task_store \<Rightarrow>
    (error, transition_event \<times> task, task_store) outcome" where
  "transitionTask now eid t to inp s = (case validateTransition (state t) to of
       Inl e \<Rightarrow> (Inl e, s)
     | Inr _ \<Rightarrow>
        let ev = \<lparr>event_id = eid, event_task_id = task_id t, from_state = state t, to_state = to,
              event_actor_type = in_actor_type inp, event_actor_id = in_actor_id inp,
              event_reason = in_reason inp, event_job_id = in_job_id inp,
              event_artifact_ids = in_artifact_ids inp, occurred_at = now\<rparr>;
            t' = move_task now t to
        in (Inr (ev, t'), recordEvent ev (s\<lparr>tasks := map_set (tasks s) (task_id t') t'\<rparr>)))"

definition recordTransition :: "time \<Rightarrow> string \<Rightarrow> transition_event \<Rightarrow> task_store \<Rightarrow>
    (error, transition_event, task_store) outcome" where
  "recordTransition now tid ev = and_then (requireTask tid) (\<lambda>t s.
     case validateTransitionEvent ev tid (state t) of
       Inl e \<Rightarrow> (Inl e, s)
     | Inr _ \<Rightarrow> (case validateTransition (state t) (to_state ev) of
         Inl e \<Rightarrow> (Inl e, s)
       | Inr _ \<Rightarrow>
          let t' = t\<lparr>state := to_state ev, version := version t + 1, updated_at := now\<rparr>
          in (Inr ev, recordEvent ev (s\<lparr>tasks := map_set (tasks s) (task_id t') t'\<rparr>))))"

definition state_name :: "task_state \<Rightarrow> string" where
  "state_name st = (case st of Queued \<Rightarrow> ''queued'' | Planning \<Rightarrow> ''planning'' | Planned \<Rightarrow> ''planned''
     | Developing \<Rightarrow> ''developing'' | Dev_Completed \<Rightarrow> ''dev_completed'' | Accepting \<Rightarrow> ''accepting''
     | Accepted \<Rightarrow> ''accepted'' | Rework_Required \<Rightarrow> ''rework_required'' | Integrating \<Rightarrow> ''integrating''
     | Integrated \<Rightarrow> ''integrated'' | Publish_Pending_Approval \<Rightarrow> ''publish_pending_approval''
     | Publishing \<Rightarrow> ''publishing'' | Published \<Rightarrow> ''published'' | Completed \<Rightarrow> ''completed''
     | Cancelled \<Rightarrow> ''cancelled'' | Failed \<Rightarrow> ''failed'' | Blocked \<Rightarrow> ''blocked'')"

definition cancel :: "time \<Rightarrow> string \<Rightarrow> string \<Rightarrow> task_store \<Rightarrow> (error, task, task_store) outcome" where
  "cancel now eid tid = and_then (requireTask tid) (\<lambda>t.
     if isTerminal (state t) then throw (Plain_Error (''task already terminal: '' @ state_name (state t)))
     else and_then (transitionTask now eid t Cancelled (mk_input Human ''operator'' ''task cancelled''))
       (\<lambda>_. requireTask tid))"

subsection \<open>Moving a task\<close>

text \<open>The parts of a task a transition leaves alone.\<close>

definition same_work :: "task \<Rightarrow> task \<Rightarrow> bool" where
  "same_work t t' = (t'\<lparr>state := state t, version := version t, updated_at := updated_at t,
     completed_at := completed_at t, blocked_context := blocked_context t\<rparr> = t)"

locale transition_ctx =
  fixes move :: "task \<Rightarrow> task_state \<Rightarrow> transition_input \<Rightarrow> 's \<Rightarrow> (error, transition_event \<times> task, 's) outcome"
    and lookup :: "'s \<Rightarrow> string \<Rightarrow> task option"
  assumes refused: "\<not> canTransition (state t) to \<Longrightarrow>
        move t to inp s = (Inl (Transition_Not_Allowed (state t) to), s)"
    and granted: "canTransition (state t) to \<Longrightarrow> \<exists>ev t' s'. move t to inp s = (Inr (ev, t'), s')"
    and moved: "move t to inp s = (Inr (ev, t'), s') \<Longrightarrow> same_work t t' \<and> state t' = to \<and>
        version t' = version t + 1 \<and>
        blocked_context t' = (if to = Blocked then blocked_context t else None) \<and>
        (isTerminal to \<longrightarrow> completed_at t' \<noteq> None) \<and>
        from_state ev = state t \<and> to_state ev = to \<and> event_task_id ev = task_id t"
    and stored: "move t to inp s = (Inr (ev, t'), s') \<Longrightarrow>
        lookup s' k = (if k = task_id t then Some t' else lookup s k)"
begin

lemma move_cases:
  obtains (ok) ev t' s' where "canTransition (state t) to" and "move t to inp s = (Inr (ev, t'), s')"
  | (err) "\<not> canTransition (state t) to" and "move t to inp s = (Inl (Transition_Not_Allowed (state t) to), s)"
  using refused granted by blast

lemma move_InrD: "move t to inp s = (Inr (ev, t'), s') \<Longrightarrow> canTransition (state t) to"
  using refused by force

lemma move_Inl: "move t to inp s = (Inl e, s') \<Longrightarrow>
    \<not> canTransition (state t) to \<and> e = Transition_Not_Allowed (state t) to \<and> s' = s"
  using refused granted by (metis Pair_inject Inl_Inr_False sum.inject(1))

end

lemma recordEvent_tasks [simp]: "tasks (recordEvent ev s) = tasks s"
  by (simp add: recordEvent_def)

lemma listEvents_recordEvent: "listEvents (recordEvent ev s) k =
    (if k = event_task_id ev then listEvents s k @ [ev] else listEvents s k)"
  by (simp add: recordEvent_def listEvents_def jm.lookup_store)

lemma listEvents_tasks [simp]: "listEvents (s\<lparr>tasks := x\<rparr>) k = listEvents s k"
  by (simp add: listEvents_def)

lemma move_task_simps [simp]:
  "state (move_task now t to) = to" "task_id (move_task now t to) = task_id t"
  "version (move_task now t to) = version t + 1"
  by (simp_all add: move_task_def)

lemma transitionTask_iff: "transitionTask now eid t to inp s = (Inr (ev, t'), s') \<longleftrightarrow>
    canTransition (state t) to \<and> t' = move_task now t to \<and>
    ev = \<lparr>event_id = eid, event_task_id = task_id t, from_state = state t, to_state = to,
      event_actor_type = in_actor_type inp, event_actor_id = in_actor_id inp, event_reason = in_reason inp,
      event_job_id = in_job_id inp, event_artifact_ids = in_artifact_ids inp, occurred_at = now\<rparr> \<and>
    s' = recordEvent ev (s\<lparr>tasks := map_set (tasks s) (task_id t) t'\<rparr>)"
  by (auto simp: transitionTask_def validateTransition_def Let_def simp del: canTransition_code)

lemma transitionTask_refused: "\<not> canTransition (state t) to \<Longrightarrow>
    transitionTask now eid t to inp s = (Inl (Transition_Not_Allowed (state t) to), s)"
  by (simp add: transitionTask_def validateTransition_def del: canTransition_code)

interpretation ts: transition_ctx "transitionTask now eid" getTask
proof unfold_locales
  fix t t' :: task and to inp s s' ev k
  show "\<not> canTransition (state t) to \<Longrightarrow>
      transitionTask now eid t to inp s = (Inl (Transition_Not_Allowed (state t) to), s)"
    by (rule transitionTask_refused)
  show "canTransition (state t) to \<Longrightarrow> \<exists>ev t' s'. transitionTask now eid t to inp s = (Inr (ev, t'), s')"
    unfolding transitionTask_iff by blast
  show "same_work t t' \<and> state t' = to \<and> version t' = version t + 1 \<and>
      blocked_context t' = (if to = Blocked then blocked_context t else None) \<and>
      (isTerminal to \<longrightarrow> completed_at t' \<noteq> None) \<and>
      from_state ev = state t \<and> to_state ev = to \<and> event_task_id ev = task_id t"
    if "transitionTask now eid t to inp s = (Inr (ev, t'), s')"
    using that unfolding transitionTask_iff
    by (simp add: move_task_def same_work_def del: canTransition_code isTerminal_simps)
  show "getTask s' k = (if k = task_id t then Some t' else getTask s k)"
    if "transitionTask now eid t to inp s = (Inr (ev, t'), s')"
    using that unfolding transitionTask_iff by (simp add: getTask_def jm.lookup_store)
qed

lemma getTask_simps [simp]:
  "getTask (recordEvent ev s) = getTask s"
  "getTask (s\<lparr>tasks := map_set (tasks s) k t\<rparr>) k' = (if k' = k then Some t else getTask s k')"
  "getTask (setTask k t s) k' = (if k' = k then Some t else getTask s k')"
  "listEvents (setTask k t s) k' = listEvents s k'"
  by (simp_all add: getTask_def setTask_def jm.lookup_store fun_eq_iff)

lemma requireTask_iff: "requireTask k s = (Inr t, s') \<longleftrightarrow> getTask s k = Some t \<and> s' = s"
  by (auto simp: requireTask_def getTask_def split: option.splits)

lemma requireTask_None: "getTask s k = None \<Longrightarrow> requireTask k s = (Inl (Plain_Error (''task not found: '' @ k)), s)"
  by (simp add: requireTask_def getTask_def)

lemma updateTask_iff: "updateTask now k u s = (Inr t', s') \<longleftrightarrow>
    (\<exists>t. getTask s k = Some t \<and> t' = applyTaskUpdate now t u \<and> s' = setTask k t' s)"
  by (cases "getTask s k")
    (auto simp: updateTask_def and_then_def requireTask_None requireTask_iff [THEN iffD2] Let_def)

lemma recordTransition_iff: "recordTransition now k ev s = (Inr ev', s') \<longleftrightarrow> ev' = ev \<and>
    (\<exists>t. getTask s k = Some t \<and> event_task_id ev = k \<and> from_state ev = state t \<and>
      canTransition (state t) (to_state ev) \<and>
      s' = recordEvent ev (s\<lparr>tasks := map_set (tasks s) (task_id t)
        (t\<lparr>state := to_state ev, version := version t + 1, updated_at := now\<rparr>)\<rparr>))"
proof (cases "getTask s k")
  case None
  then show ?thesis by (simp add: recordTransition_def and_then_def requireTask_None)
next
  case (Some t)
  then have "requireTask k s = (Inr t, s)" by (simp add: requireTask_iff)
  then show ?thesis using Some
    by (auto simp: recordTransition_def and_then_def Let_def validateTransition_def validateTransitionEvent_def
        simp del: canTransition_code)
qed

lemma createTask_iff: "createTask now k eid r s = (Inr t, s') \<longleftrightarrow>
    validateCreateRequest (cq_objective r) (cq_typed_ref r) = Inr () \<and> t = new_task now k r \<and>
    s' = recordEvent \<lparr>event_id = eid, event_task_id = k, from_state = Queued, to_state = Queued,
      event_actor_type = Control_Plane, event_actor_id = ''shipyard-cp'', event_reason = ''task created'',
      event_job_id = None, event_artifact_ids = None, occurred_at = now\<rparr>
      (s\<lparr>tasks := map_set (tasks s) k t\<rparr>)"
  by (cases "validateCreateRequest (cq_objective r) (cq_typed_ref r)")
    (auto simp: createTask_def Let_def)

lemma can_cancel: "\<not> isTerminal st \<Longrightarrow> canTransition st Cancelled"
  by (cases st) simp_all

lemma can_block: "\<not> isTerminal st \<Longrightarrow> canTransition st Blocked"
  by (cases st) simp_all

lemma cancel_granted:
  assumes "getTask s k = Some t" and "\<not> isTerminal (state t)" and "task_id t = k"
  obtains ev s' where "transitionTask now eid t Cancelled (mk_input Human ''operator'' ''task cancelled'') s =
      (Inr (ev, move_task now t Cancelled), s')"
    and "cancel now eid k s = (Inr (move_task now t Cancelled), s')"
proof -
  let ?in = "mk_input Human ''operator'' ''task cancelled''"
  obtain ev t' s' where mv: "transitionTask now eid t Cancelled ?in s = (Inr (ev, t'), s')"
    using ts.granted [OF can_cancel [OF assms(2)]] by blast
  then have t': "t' = move_task now t Cancelled" unfolding transitionTask_iff by blast
  have "requireTask k s' = (Inr t', s')"
    using ts.stored [OF mv, of k] assms(3) by (simp add: requireTask_iff)
  then have "cancel now eid k s = (Inr t', s')"
    unfolding cancel_def using assms(2) requireTask_iff [of k s t s] assms(1) mv
    by (simp add: and_then_Inr del: isTerminal_simps)
  with mv t' that show ?thesis by blast
qed

subsection \<open>The steps of the task store\<close>

text \<open>
  What the callers of the service do to the store: they create tasks under fresh identifiers, update
  them, move a task they have read, record an external transition, and write back a task whose identity
  and state they did not touch. The task that is moved may be a copy whose version differs from the stored
  one: ahead of it if the caller changed the copy, one behind if the caller updated the store after it
  read the copy (\<open>step_move_copy\<close>); its state must still be the stored one.
\<close>

inductive store_step :: "task_store \<Rightarrow> task_store \<Rightarrow> bool" where
  step_create: "createTask now k eid r s = (Inr t, s') \<Longrightarrow> getTask s k = None \<Longrightarrow> store_step s s'"
| step_update: "updateTask now k u s = (Inr t, s') \<Longrightarrow> store_step s s'"
| step_move: "transitionTask now eid t to inp s = (Inr x, s') \<Longrightarrow> getTask s (task_id t) = Some t0 \<Longrightarrow>
    state t0 = state t \<Longrightarrow> version t0 = version t \<Longrightarrow> store_step s s'"
| step_move_copy: "transitionTask now eid t to inp s = (Inr x, s') \<Longrightarrow> getTask s (task_id t) = Some t0 \<Longrightarrow>
    state t0 = state t \<Longrightarrow> version t0 \<le> version t + 1 \<Longrightarrow>
    int (length (listEvents s (task_id t))) \<le> version t + 1 \<Longrightarrow> store_step s s'"
| step_record: "recordTransition now k ev s = (Inr ev', s') \<Longrightarrow> store_step s s'"
| step_set: "getTask s k = Some t0 \<Longrightarrow> task_id t = task_id t0 \<Longrightarrow> state t = state t0 \<Longrightarrow>
    version t0 \<le> version t \<Longrightarrow> s' = setTask k t s \<Longrightarrow> store_step s s'"

text \<open>A log that starts with the creation of the task and leads by allowed transitions to a state.\<close>

fun replays :: "task_state \<Rightarrow> transition_event list \<Rightarrow> task_state \<Rightarrow> bool" where
  "replays st [] fin = (st = fin)"
| "replays st (e # es) fin = (from_state e = st \<and> canTransition st (to_state e) \<and> replays (to_state e) es fin)"

definition log_leads_to :: "transition_event list \<Rightarrow> task_state \<Rightarrow> bool" where
  "log_leads_to es fin = (es \<noteq> [] \<and> to_state (hd es) = Queued \<and> replays Queued es fin)"

definition task_logged :: "task \<Rightarrow> string \<Rightarrow> transition_event list \<Rightarrow> bool" where
  "task_logged t k es = (task_id t = k \<and> log_leads_to es (state t) \<and> int (length es) \<le> version t + 1 \<and>
     (\<forall>e \<in> set es. event_task_id e = k))"

definition store_ok :: "task_store \<Rightarrow> bool" where
  "store_ok s = (\<forall>k. case getTask s k of Some t \<Rightarrow> task_logged t k (listEvents s k) | None \<Rightarrow> listEvents s k = [])"

lemma replays_snoc: "replays st es mid \<Longrightarrow> from_state e = mid \<Longrightarrow> canTransition mid (to_state e) \<Longrightarrow>
    replays st (es @ [e]) (to_state e)"
  by (induction es arbitrary: st) (auto simp del: canTransition_code)

lemma log_leads_to_snoc: "log_leads_to es mid \<Longrightarrow> from_state e = mid \<Longrightarrow> canTransition mid (to_state e) \<Longrightarrow>
    log_leads_to (es @ [e]) (to_state e)"
  by (auto simp: log_leads_to_def replays_snoc simp del: canTransition_code)

lemma replays_path: "replays st es fin \<longleftrightarrow> is_path canTransition st (map to_state es) \<and>
    map from_state es = butlast (st # map to_state es) \<and> last (st # map to_state es) = fin"
proof (induction es arbitrary: st)
  case (Cons e es)
  then show ?case by (cases es) (auto simp del: canTransition_code)
qed simp

lemma store_okD: "store_ok s \<Longrightarrow> getTask s k = Some t \<Longrightarrow> task_logged t k (listEvents s k)"
  by (auto simp: store_ok_def dest: spec [of _ k])

lemma store_ok_update:
  assumes "store_ok s" and "\<And>k. k \<noteq> k0 \<Longrightarrow> getTask s' k = getTask s k \<and> listEvents s' k = listEvents s k"
    and "getTask s' k0 = Some t" and "task_logged t k0 (listEvents s' k0)"
  shows "store_ok s'"
  unfolding store_ok_def
proof
  fix k
  show "case getTask s' k of Some t \<Rightarrow> task_logged t k (listEvents s' k) | None \<Rightarrow> listEvents s' k = []"
  proof (cases "k = k0")
    case False
    with assms(2) have "getTask s' k = getTask s k" "listEvents s' k = listEvents s k" by blast+
    with spec [OF assms(1) [unfolded store_ok_def], of k] show ?thesis
      by (cases "getTask s k") simp_all
  qed (simp add: assms)
qed

lemma task_logged_snoc:
  assumes "task_logged t k es" and "from_state e = state t" and "canTransition (state t) (to_state e)"
    and "event_task_id e = k" and "task_id t' = k" and "state t' = to_state e" and "int (length es) \<le> version t'"
  shows "task_logged t' k (es @ [e])"
  using assms log_leads_to_snoc [of es "state t" e]
  by (auto simp: task_logged_def simp del: canTransition_code)

lemma task_logged_same: "task_logged t k es \<Longrightarrow> task_id t' = task_id t \<Longrightarrow> state t' = state t \<Longrightarrow>
    version t \<le> version t' \<Longrightarrow> task_logged t' k es"
  by (simp add: task_logged_def)

lemma new_task_simps [simp]: "task_id (new_task now k r) = k" "state (new_task now k r) = Queued"
  "version (new_task now k r) = 0"
  by (simp_all add: new_task_def)

lemma moved_store_ok:
  assumes "transitionTask now eid t to inp s = (Inr x, s')" and "getTask s (task_id t) = Some t0" and "state t0 = state t"
    and "int (length (listEvents s (task_id t))) \<le> version t + 1" and "store_ok s"
  shows "store_ok s'"
proof -
  obtain ev t' where x: "x = (ev, t')" by (cases x)
  have mv: "transitionTask now eid t to inp s = (Inr (ev, t'), s')" using assms(1) x by simp
  have ok: "canTransition (state t) to" using ts.move_InrD [OF mv] .
  have logged: "task_logged t0 (task_id t) (listEvents s (task_id t))"
    using store_okD [OF assms(5,2)] .
  have "task_logged t' (task_id t) (listEvents s (task_id t) @ [ev])"
    using mv ok assms(3,4) unfolding transitionTask_iff
    by (intro task_logged_snoc [OF logged]) (auto simp del: canTransition_code)
  then show ?thesis
    using mv unfolding transitionTask_iff
    by (intro store_ok_update [OF assms(5), of "task_id t"]) (auto simp: listEvents_recordEvent simp del: canTransition_code)
qed

lemma store_step_ok: "store_step s s' \<Longrightarrow> store_ok s \<Longrightarrow> store_ok s'"
proof (induction rule: store_step.induct)
  case (step_create now k eid r s t s')
  then have "listEvents s k = []"
    by (auto simp: store_ok_def dest: spec [of _ k])
  with step_create show ?case
    unfolding createTask_iff
    by (intro store_ok_update [OF step_create(3), of k])
      (auto simp: listEvents_recordEvent task_logged_def log_leads_to_def)
next
  case (step_update now k u s t s')
  then obtain t0 where t0: "getTask s k = Some t0" "t = applyTaskUpdate now t0 u" "s' = setTask k t s"
    unfolding updateTask_iff by blast
  have "task_logged t k (listEvents s k)"
    using store_okD [OF step_update(2) t0(1)] by (rule task_logged_same) (simp_all add: t0(2))
  then show ?case
    using t0(3) by (intro store_ok_update [OF step_update(2), of k]) simp_all
next
  case (step_move now eid t to inp s x s' t0)
  have "int (length (listEvents s (task_id t))) \<le> version t + 1"
    using store_okD [OF step_move(5) step_move(2)] step_move(4) by (simp add: task_logged_def)
  then show ?case by (rule moved_store_ok [OF step_move(1,2,3) _ step_move(5)])
next
  case (step_move_copy now eid t to inp s x s' t0)
  show ?case by (rule moved_store_ok [OF step_move_copy(1,2,3,5,6)])
next
  case (step_record now k ev s ev' s')
  then obtain t where t: "getTask s k = Some t" "event_task_id ev = k" "from_state ev = state t"
      "canTransition (state t) (to_state ev)" and s': "s' = recordEvent ev (s\<lparr>tasks := map_set (tasks s) (task_id t)
        (t\<lparr>state := to_state ev, version := version t + 1, updated_at := now\<rparr>)\<rparr>)"
    unfolding recordTransition_iff by blast
  have id: "task_id t = k" using store_okD [OF step_record(2) t(1)] by (simp add: task_logged_def)
  have "task_logged (t\<lparr>state := to_state ev, version := version t + 1, updated_at := now\<rparr>) k (listEvents s k @ [ev])"
    using t id store_okD [OF step_record(2) t(1)]
    by (intro task_logged_snoc [OF store_okD [OF step_record(2) t(1)]]) (auto simp: task_logged_def simp del: canTransition_code)
  then show ?case
    using s' id t(2) by (intro store_ok_update [OF step_record(2), of k]) (auto simp: listEvents_recordEvent)
next
  case (step_set s k t0 t s')
  have "task_logged t k (listEvents s k)"
    using store_okD [OF step_set(6) step_set(1)] by (rule task_logged_same) (simp_all add: step_set)
  then show ?case
    using step_set by (intro store_ok_update [OF step_set(6), of k]) simp_all
qed

lemma empty_store_ok: "store_ok empty_store"
  by (simp add: store_ok_def empty_store_def getTask_def listEvents_def)

lemma store_reachable_ok: "store_step\<^sup>*\<^sup>* s s' \<Longrightarrow> store_ok s \<Longrightarrow> store_ok s'"
  by (induction rule: rtranclp_induct) (auto intro: store_step_ok)

text \<open>What one step does to one task.\<close>

lemma store_step_task:
  assumes "store_step s s'" and "store_ok s" and "getTask s k = Some t"
  obtains (same) t' where "getTask s' k = Some t'" and "state t' = state t" and "version t \<le> version t'"
      and "listEvents s' k = listEvents s k"
  | (moved) t' ev where "getTask s' k = Some t'" and "canTransition (state t) (state t')"
      and "version t \<le> version t'" and "listEvents s' k = listEvents s k @ [ev]"
proof -
  have id: "task_id t1 = k1" if "getTask s k1 = Some t1" for k1 t1
    using store_okD [OF assms(2) that] by (simp add: task_logged_def)
  have changed: thesis if mv: "transitionTask now eid t1 to inp s = (Inr x, s')" and t0: "getTask s (task_id t1) = Some t0"
      "state t0 = state t1" "version t0 \<le> version t1 + 1" for now eid t1 to inp x t0
  proof -
    obtain ev t' where x: "x = (ev, t')" by (cases x)
    show ?thesis
    proof (cases "k = task_id t1")
      case True
      show ?thesis
        using mv t0 True assms(3) ts.move_InrD [of now eid t1 to inp s ev t' s'] unfolding x transitionTask_iff
        by (intro moved [of t' ev]) (auto simp: listEvents_recordEvent simp del: canTransition_code)
    next
      case False
      with mv assms(3) show ?thesis
        unfolding x transitionTask_iff
        by (intro same [of t]) (auto simp: listEvents_recordEvent simp del: canTransition_code)
    qed
  qed
  from assms(1,3) show ?thesis
  proof cases
    case (step_create now k' eid r t')
    with assms(3) have "k \<noteq> k'" by auto
    with step_create(1) assms(3) show ?thesis
      unfolding createTask_iff by (intro same [of t]) (auto simp: listEvents_recordEvent)
  next
    case (step_update now k' u t')
    then obtain t0 where "getTask s k' = Some t0" "t' = applyTaskUpdate now t0 u" "s' = setTask k' t' s"
      unfolding updateTask_iff by blast
    with assms(3) show ?thesis
      by (intro same [of "if k = k' then t' else t"]) auto
  next
    case (step_move now eid t1 to inp x t0)
    then show ?thesis using changed by simp
  next
    case (step_move_copy now eid t1 to inp x t0)
    then show ?thesis using changed by simp
  next
    case (step_record now k' ev ev')
    then obtain t0 where t0: "getTask s k' = Some t0" "event_task_id ev = k'" "from_state ev = state t0"
        "canTransition (state t0) (to_state ev)" and s': "s' = recordEvent ev (s\<lparr>tasks := map_set (tasks s) (task_id t0)
        (t0\<lparr>state := to_state ev, version := version t0 + 1, updated_at := now\<rparr>)\<rparr>)"
      unfolding recordTransition_iff by blast
    show ?thesis
    proof (cases "k = k'")
      case True
      with t0 s' assms(3) id [OF t0(1)] show ?thesis
        by (intro moved [of "t0\<lparr>state := to_state ev, version := version t0 + 1, updated_at := now\<rparr>" ev])
          (auto simp: listEvents_recordEvent simp del: canTransition_code)
    next
      case False
      with t0 s' assms(3) id [OF t0(1)] show ?thesis
        by (intro same [of t]) (auto simp: listEvents_recordEvent)
    qed
  next
    case (step_set k' t0 t1)
    with assms(3) show ?thesis
      by (intro same [of "if k = k' then t1 else t"]) auto
  qed
qed

subsection \<open>Properties\<close>

definition sample_request :: create_request where
  "sample_request = \<lparr>cq_title = ''t'', cq_objective = Some ''o'', cq_typed_ref = Some ''a:b:c:d'',
     cq_description = None, cq_repo_ref = repo_ref sample_task, cq_repo_policy = None, cq_risk_level = None,
     cq_labels = None, cq_publish_plan = None, cq_external_refs = None\<rparr>"

definition one_task_store :: task_store where
  "one_task_store = snd (createTask 5 ''task_1'' ''evt_1'' sample_request empty_store)"

lemma sample_request_valid: "validateCreateRequest (cq_objective sample_request) (cq_typed_ref sample_request) = Inr ()"
  by code_simp

lemma one_task_created:
  "createTask 5 ''task_1'' ''evt_1'' sample_request empty_store =
    (Inr (new_task 5 ''task_1'' sample_request), one_task_store)"
  by (simp add: one_task_store_def createTask_def sample_request_valid Let_def)

lemma one_task_store_get: "getTask one_task_store k =
    (if k = ''task_1'' then Some (new_task 5 ''task_1'' sample_request) else None)"
  by (simp add: one_task_store_def createTask_def sample_request_valid Let_def empty_store_def)
    (simp add: getTask_def)

lemma one_task_store_reached: "store_step\<^sup>*\<^sup>* empty_store one_task_store"
  by (rule r_into_rtranclp, rule step_create [OF one_task_created])
    (simp add: empty_store_def getTask_def)

lemma store_log_replays:
  assumes "store_step\<^sup>*\<^sup>* empty_store s" and "getTask s k = Some t"
  shows "\<exists>e es. listEvents s k = e # es \<and> from_state e = Queued \<and> to_state e = Queued \<and>
    is_path canTransition Queued (map to_state es) \<and>
    map from_state es = butlast (map to_state (e # es)) \<and>
    state t = last (map to_state (e # es)) \<and> int (length es) \<le> version t"
proof -
  have "task_logged t k (listEvents s k)"
    using store_okD [OF store_reachable_ok [OF assms(1) empty_store_ok] assms(2)] .
  then obtain e es where log: "listEvents s k = e # es" "to_state e = Queued"
      "replays Queued (e # es) (state t)" "int (length (e # es)) \<le> version t + 1"
    by (cases "listEvents s k") (auto simp: task_logged_def log_leads_to_def)
  then have "from_state e = Queued" "replays Queued es (state t)" by simp_all
  with log show ?thesis
    unfolding replays_path [of Queued es] by auto
qed

lemma store_terminal_frozen:
  assumes "store_step\<^sup>*\<^sup>* empty_store s" and "store_step\<^sup>*\<^sup>* s s'" and "getTask s k = Some t"
  shows "\<exists>t'. getTask s' k = Some t' \<and> version t \<le> version t' \<and>
    (isTerminal (state t) \<longrightarrow> state t' = state t \<and> listEvents s' k = listEvents s k)"
  using assms(2)
proof (induction rule: rtranclp_induct)
  case base
  then show ?case using assms(3) by blast
next
  case (step s1 s2)
  then obtain t1 where t1: "getTask s1 k = Some t1" "version t \<le> version t1"
      "isTerminal (state t) \<longrightarrow> state t1 = state t \<and> listEvents s1 k = listEvents s k" by blast
  have ok: "store_ok s1"
    using store_reachable_ok [OF rtranclp_trans [OF assms(1) step(1)] empty_store_ok] .
  from step(2) ok t1(1) show ?case
  proof (cases rule: store_step_task)
    case (same t')
    with t1 show ?thesis by (intro exI [of _ t']) auto
  next
    case (moved t' ev)
    then have "\<not> isTerminal (state t1)" using task_life.final_stuck by blast
    with moved t1 show ?thesis by (intro exI [of _ t']) auto
  qed
qed

text \<open>
  A transition is judged by the copy of the task the caller holds and not by the stored task: if a
  task was cancelled after the caller read it, the transition still goes through, the stored task
  leaves its terminal state, and the log no longer replays (its new event starts where the caller's copy
  was).
\<close>

theorem stale_copy_revives_task:
  assumes "getTask s (task_id t) = Some t0" and "isTerminal (state t0)" and "task_logged t0 (task_id t) (listEvents s (task_id t))"
    and "canTransition (state t) to"
  shows "\<exists>ev t' s'. transitionTask now eid t to inp s = (Inr (ev, t'), s') \<and> getTask s' (task_id t) = Some t' \<and>
    state t' = to \<and> version t' = version t + 1 \<and> \<not> log_leads_to (listEvents s' (task_id t)) to"
proof -
  obtain ev t' s' where mv: "transitionTask now eid t to inp s = (Inr (ev, t'), s')"
    using ts.granted [OF assms(4)] by blast
  note m = ts.moved [OF mv] and st = ts.stored [OF mv, of "task_id t"]
  have log: "listEvents s' (task_id t) = listEvents s (task_id t) @ [ev]"
    using mv unfolding transitionTask_iff by (auto simp: listEvents_recordEvent)
  have split: "replays a (es @ [e]) to \<Longrightarrow> replays a es b \<Longrightarrow> from_state e = b" for a b es e
    by (induction es arbitrary: a) (auto simp del: canTransition_code)
  have "\<not> log_leads_to (listEvents s (task_id t) @ [ev]) to"
  proof
    assume "log_leads_to (listEvents s (task_id t) @ [ev]) to"
    with assms(3) have "from_state ev = state t0"
      by (auto simp: log_leads_to_def task_logged_def dest: split)
    with m have "state t = state t0" by simp
    with assms(2,4) task_life.final_stuck show False by metis
  qed
  with mv m st log show ?thesis by auto
qed

definition cancelled_store :: task_store where
  "cancelled_store = snd (cancel 6 ''evt_2'' ''task_1'' one_task_store)"

lemma cancelled_store_facts: "getTask cancelled_store ''task_1'' =
    Some (move_task 6 (new_task 5 ''task_1'' sample_request) Cancelled) \<and> store_ok cancelled_store"
proof -
  let ?t = "new_task 5 ''task_1'' sample_request"
  obtain ev s' where mv: "transitionTask 6 ''evt_2'' ?t Cancelled (mk_input Human ''operator'' ''task cancelled'')
        one_task_store = (Inr (ev, move_task 6 ?t Cancelled), s')"
      and c: "cancel 6 ''evt_2'' ''task_1'' one_task_store = (Inr (move_task 6 ?t Cancelled), s')"
    by (rule cancel_granted [of one_task_store "''task_1''" ?t 6 "''evt_2''"]) (simp_all add: one_task_store_get)
  have get: "getTask s' ''task_1'' = Some (move_task 6 ?t Cancelled)"
    using ts.stored [OF mv, of "''task_1''"] by simp
  have "cancelled_store = s'" using c by (simp add: cancelled_store_def)
  moreover have "store_ok s'"
    using store_step_ok [OF step_move [OF mv, of ?t]] store_reachable_ok [OF one_task_store_reached empty_store_ok]
    by (simp add: one_task_store_get)
  ultimately show ?thesis using get by simp
qed

theorem stale_copy_revives_task_witness:
  "\<exists>ev t' s'. transitionTask 7 ''evt_3'' (new_task 5 ''task_1'' sample_request) Planning
      (mk_input Control_Plane ''shipyard-cp'' ''dispatched'') cancelled_store = (Inr (ev, t'), s') \<and>
    getTask s' ''task_1'' = Some t' \<and> state t' = Planning"
  using stale_copy_revives_task [of cancelled_store "new_task 5 ''task_1'' sample_request"
      "move_task 6 (new_task 5 ''task_1'' sample_request) Cancelled" Planning 7 "''evt_3''"
      "mk_input Control_Plane ''shipyard-cp'' ''dispatched''"]
    store_okD [of cancelled_store "''task_1''"] cancelled_store_facts
  by auto

text \<open>
  Listing returns stored tasks of the requested states, the most recently updated first, never
  more than the limit (100 without one), and consecutive pages continue each other without gap or
  repetition.
\<close>

theorem list_tasks_pages:
  "set (listTasks sts off lm s) \<subseteq> set (map_values (tasks s)) \<and>
   (\<forall>t \<in> set (listTasks (Some (x # xs)) off lm s). state t \<in> set (x # xs)) \<and>
   sorted_wrt (\<lambda>a b. updated_at b \<le> updated_at a) (listTasks sts off lm s) \<and>
   length (listTasks sts off lm s) \<le> (case lm of Some n \<Rightarrow> n | None \<Rightarrow> 100) \<and>
   listTasks sts (Some o1) (Some n) s @ listTasks sts (Some (o1 + n)) (Some m) s =
     listTasks sts (Some o1) (Some (n + m)) s \<and>
   mset (listTasks None None (Some (length (tasks s))) s) = mset (map_values (tasks s))"
proof -
  have sorted: "sorted_wrt (\<lambda>a b. updated_at b \<le> updated_at a) (take l (drop d (sort_key (\<lambda>t. - updated_at t) ys)))" for l d ys
  proof -
    have "sorted (map (\<lambda>t. - updated_at t) (sort_key (\<lambda>t. - updated_at t) ys))" by simp
    then have "sorted_wrt (\<lambda>a b. updated_at b \<le> updated_at a) (sort_key (\<lambda>t. - updated_at t) ys)"
      by (simp add: sorted_wrt_map)
    then show ?thesis by (intro sorted_wrt_take sorted_wrt_drop)
  qed
  have page: "take n (drop d ys) @ take m (drop (d + n) ys) = take (n + m) (drop d ys)" for n d m and ys :: "task list"
    by (simp only: take_add drop_drop add.commute [of d n])
  have "sorted_wrt (\<lambda>a b. updated_at b \<le> updated_at a) (listTasks sts off lm s)"
    unfolding listTasks_def Let_def by (rule sorted)
  moreover have "set (listTasks sts off lm s) \<subseteq> set (map_values (tasks s))" for sts off lm
    by (auto simp: listTasks_def Let_def dest!: in_set_takeD in_set_dropD split: option.splits if_splits)
  moreover have "\<forall>t \<in> set (listTasks (Some (x # xs)) off lm s). state t \<in> set (x # xs)"
    by (auto simp: listTasks_def Let_def dest!: in_set_takeD in_set_dropD)
  moreover have "length (listTasks sts off lm s) \<le> (case lm of Some n \<Rightarrow> n | None \<Rightarrow> 100)"
    unfolding listTasks_def Let_def length_take by (rule min.cobounded2)
  moreover have "listTasks sts (Some o1) (Some n) s @ listTasks sts (Some (o1 + n)) (Some m) s =
      listTasks sts (Some o1) (Some (n + m)) s"
    unfolding listTasks_def Let_def option.case by (rule page)
  moreover have "mset (listTasks None None (Some (length (tasks s))) s) = mset (map_values (tasks s))"
    by (simp add: listTasks_def map_values_def)
  ultimately show ?thesis by blast
qed

theorem list_tasks_pages_witness:
  "list_all (\<lambda>t. state t = Queued) (listTasks (Some [Queued]) None None one_task_store)"
  using list_tasks_pages [of None None None one_task_store Queued "[]"] by (auto simp: list_all_iff)

end
