(* ===== verification/Run_Flows.thy ===== *)
theory Run_Flows
  imports Task_Store Repo_Policy "HOL-Library.Word"
begin

text \<open>
  \<open>src/src/domain/integration/integration-orchestrator.ts\<close>,
  \<open>src/src/domain/publish/publish-orchestrator.ts\<close> and \<open>src/src/domain/run/run-timeout-service.ts\<close>:
  the last part of the life cycle, from accepted to published. An orchestrator is handed its context;
  here this is the parameter \<open>move\<close>, and what the orchestrators guarantee is proved in
  \<open>transition_ctx\<close> for every context that keeps the contract of \<open>transitionTask\<close>. Generated run ids
  and approval tokens are arguments.
\<close>

unbundle bit_operations_syntax

type_synonym 's mover = "task \<Rightarrow> task_state \<Rightarrow> transition_input \<Rightarrow> 's \<Rightarrow> (error, transition_event \<times> task, 's) outcome"

definition DEFAULT_REPO_POLICY :: repo_policy where
  "DEFAULT_REPO_POLICY = \<lparr>update_strategy = Fast_Forward_Only, main_push_actor = Bot, require_ci_pass = True,
     integration_branch_prefix = None, protected_branches = None, allowed_merge_methods = None\<rparr>"

definition APPROVAL_TOKEN_TTL_MS :: int where
  "APPROVAL_TOKEN_TTL_MS = 24 * 60 * 60 * 1000"

definition policy_of :: "task \<Rightarrow> repo_policy" where
  "policy_of t = (case repo_policy t of Some p \<Rightarrow> p | None \<Rightarrow> DEFAULT_REPO_POLICY)"

definition cp_input :: "string \<Rightarrow> transition_input" where
  "cp_input reason = mk_input Control_Plane ''shipyard-cp'' reason"

definition new_run :: "string \<Rightarrow> time \<Rightarrow> int \<Rightarrow> run_meta" where
  "new_run rid now timeout_ms = \<lparr>run_id = rid, run_started_at = now, run_status = R_Running,
     run_progress = Some 0, run_timeout_at = now + timeout_ms, run_completed_at = None, run_error = None,
     run_external_refs = None\<rparr>"

text \<open>\<open>transitionTask\<close> with the event dropped.\<close>

definition move_to :: "'s mover \<Rightarrow> task \<Rightarrow> task_state \<Rightarrow> transition_input \<Rightarrow> 's \<Rightarrow> (error, task, 's) outcome" where
  "move_to move t to inp = and_then (move t to inp) (\<lambda>(ev, t'). return t')"

subsection \<open>Integration\<close>

record complete_integrate_request =
  ci_checks_passed :: bool
  ci_head_sha :: "string option"
  ci_main_sha :: "string option"
  ci_is_fast_forward :: "bool option"
  ci_has_conflicts :: "bool option"

record integrate_response =
  ir_task_id :: string
  ir_state :: task_state
  ir_branch :: string
  ir_head_sha :: "string option"
  ir_requires_pr :: bool
  ir_can_fast_forward :: bool
  ir_policy_warnings :: "string list option"
  ir_needs_rebase :: "bool option"

definition start_integration_task :: "time \<Rightarrow> string \<Rightarrow> task \<Rightarrow> string \<Rightarrow> task" where
  "start_integration_task now rid t baseSha = t
     \<lparr>repo_policy := Some (policy_of t),
      repo_ref := (repo_ref t)\<lparr>base_sha := Some baseSha\<rparr>,
      integration := Some \<lparr>integration_branch = Some (getDefaultIntegrationBranch (policy_of t) (task_id t)),
        integration_head_sha = Some baseSha, main_updated_sha = None, checks_passed = Some False,
        original_base_sha = Some baseSha\<rparr>,
      integration_run := Some (new_run rid now (10 * 60 * 1000))\<rparr>"

definition startIntegration :: "'s mover \<Rightarrow> time \<Rightarrow> string \<Rightarrow> task \<Rightarrow> string \<Rightarrow> 's \<Rightarrow> (error, task, 's) outcome" where
  "startIntegration move now rid t baseSha =
     (let pr = validateIntegrationPolicy (policy_of t) (task_id t) baseSha None None False
      in move_to move (start_integration_task now rid t baseSha) Integrating (cp_input
           (if requires_pr pr then ''integrate requested (PR required)'' else ''integrate requested'')))"

fun sha_reason_text :: "sha_reason \<Rightarrow> string" where
  "sha_reason_text Base_Sha_Changed = ''base_sha_changed''"
| "sha_reason_text Original_Base_Sha_Missing = ''original_base_sha_missing''"
| "sha_reason_text Conflicts_Exist = ''conflicts_exist''"

definition str_or_empty :: "string option \<Rightarrow> string" where
  "str_or_empty x = (case x of Some s \<Rightarrow> s | None \<Rightarrow> [])"

definition sha_input :: "task \<Rightarrow> complete_integrate_request \<Rightarrow> sha_check_input" where
  "sha_input t r = \<lparr>original_base = (case integration t of Some i \<Rightarrow> original_base_sha i | None \<Rightarrow> None),
     current_base = str_or_empty (base_sha (repo_ref t)), sci_is_fast_forward = ci_is_fast_forward r,
     sci_has_conflicts = ci_has_conflicts r\<rparr>"

definition completed_integration_task :: "time \<Rightarrow> task \<Rightarrow> integration_state \<Rightarrow> complete_integrate_request \<Rightarrow> task" where
  "completed_integration_task now t i r = t
     \<lparr>integration := Some (i\<lparr>checks_passed := Some (ci_checks_passed r),
        integration_head_sha := replace_by (integration_head_sha i) (ci_head_sha r),
        main_updated_sha := replace_by (main_updated_sha i) (ci_main_sha r)\<rparr>),
      integration_run := map_option (\<lambda>run. run\<lparr>run_completed_at := Some now, run_progress := Some 100\<rparr>)
        (integration_run t)\<rparr>"

definition completeIntegration :: "'s mover \<Rightarrow> time \<Rightarrow> task \<Rightarrow> complete_integrate_request \<Rightarrow> 's \<Rightarrow>
    (error, integrate_response, 's) outcome" where
  "completeIntegration move now t r =
     (let sha = validateBaseSha (sha_input t r) in
      if \<not> sha_valid sha then
        (let reason = (case sha_reason sha of Some x \<Rightarrow> sha_reason_text x | None \<Rightarrow> ''base SHA validation failed'') in
         and_then (move_to move (t\<lparr>blocked_context := Some (mk_block Integrating reason W_Github)\<rparr>) Blocked (cp_input reason))
         (\<lambda>t'. case integration t of None \<Rightarrow> throw Type_Error | Some i \<Rightarrow> return
            \<lparr>ir_task_id = task_id t, ir_state = state t', ir_branch = str_or_empty (integration_branch i),
             ir_head_sha = ci_head_sha r, ir_requires_pr = False, ir_can_fast_forward = False,
             ir_policy_warnings = Some [reason], ir_needs_rebase = needs_rebase sha\<rparr>))
      else
       (let pr = validateIntegrationPolicy (policy_of t) (task_id t) (str_or_empty (base_sha (repo_ref t)))
                   (ci_head_sha r) (ci_main_sha r) (ci_checks_passed r) in
        if \<not> ipr_allowed pr then
          (let reason = (case ipr_reason pr of Some x \<Rightarrow> x | None \<Rightarrow> ''integration policy denied'') in
           and_then (move_to move (t\<lparr>blocked_context := Some (mk_block Integrating reason W_Github)\<rparr>) Blocked (cp_input reason))
           (\<lambda>t'. case integration t of None \<Rightarrow> throw Type_Error | Some i \<Rightarrow> return
              \<lparr>ir_task_id = task_id t, ir_state = state t', ir_branch = str_or_empty (integration_branch i),
               ir_head_sha = ci_head_sha r, ir_requires_pr = requires_pr pr, ir_can_fast_forward = can_fast_forward pr,
               ir_policy_warnings = (case ipr_reason pr of Some x \<Rightarrow> if x = [] then None else Some [x] | None \<Rightarrow> None),
               ir_needs_rebase = None\<rparr>))
        else (case integration t of
            None \<Rightarrow> throw Type_Error
          | Some i \<Rightarrow>
           (let t1 = completed_integration_task now t i r;
                resp = (\<lambda>t'. return \<lparr>ir_task_id = task_id t, ir_state = state t',
                  ir_branch = str_or_empty (integration_branch i), ir_head_sha = integration_head_sha i,
                  ir_requires_pr = requires_pr pr, ir_can_fast_forward = can_fast_forward pr,
                  ir_policy_warnings = None, ir_needs_rebase = None\<rparr>)
            in if ci_checks_passed r
               then and_then (move_to move (t1\<lparr>integration_run :=
                      map_option (\<lambda>run. run\<lparr>run_status := R_Succeeded\<rparr>) (integration_run t1)\<rparr>)
                      Integrated (cp_input ''integration checks passed'')) resp
               else and_then (move_to move (t1\<lparr>integration_run :=
                      map_option (\<lambda>run. run\<lparr>run_status := R_Failed, run_error := Some ''CI checks failed''\<rparr>) (integration_run t1),
                      blocked_context := Some (mk_block Integrating ''CI checks failed'' W_Github)\<rparr>)
                      Blocked (cp_input ''integration checks failed'')) resp))))"

definition update_run_progress :: "int \<Rightarrow> run_meta option \<Rightarrow> run_meta option" where
  "update_run_progress p r = map_option (\<lambda>run. run\<lparr>run_progress := Some (clamp_progress p)\<rparr>) r"

definition integration_updateProgress :: "task \<Rightarrow> int \<Rightarrow> task" where
  "integration_updateProgress t p = t\<lparr>integration_run := update_run_progress p (integration_run t)\<rparr>"

subsection \<open>Publishing\<close>

record publish_request =
  pq_mode :: publish_mode
  pq_idempotency_key :: string
  pq_approval_token :: "string option"

record complete_publish_request =
  cp_external_refs :: "external_ref list option"
  cp_rollback_notes :: "string option"

definition empty_plan :: publish_plan where
  "empty_plan = \<lparr>plan_mode = None, plan_idempotency_key = None, plan_targets = None, approval_required = None,
     policy_warnings = None\<rparr>"

definition plan_of :: "task \<Rightarrow> publish_plan" where
  "plan_of t = (case publish_plan t of Some p \<Rightarrow> p | None \<Rightarrow> empty_plan)"

definition publish_can_fast_forward :: "task \<Rightarrow> bool" where
  "publish_can_fast_forward t = (case integration t of None \<Rightarrow> True
     | Some i \<Rightarrow> main_updated_sha i = None \<or> main_updated_sha i = base_sha (repo_ref t))"

definition publish_policy_result_of :: "task \<Rightarrow> publish_policy_result" where
  "publish_policy_result_of t = validatePublishPolicy (policy_of t) A_Bot
     (case default_branch (repo_ref t) of Some b \<Rightarrow> b | None \<Rightarrow> ''main'')
     (case integration t of Some i \<Rightarrow> checks_passed i = Some True | None \<Rightarrow> False)
     (publish_can_fast_forward t)"

text \<open>The plan a started publication leaves in the task: the warnings of the policy, the mode and the key.\<close>

definition planned_task :: "task \<Rightarrow> publish_request \<Rightarrow> task" where
  "planned_task t r =
     (let w = ppr_warnings (publish_policy_result_of t);
          t1 = (if pq_mode r = Apply \<and> w \<noteq> None \<and> w \<noteq> Some []
                then t\<lparr>publish_plan := Some ((plan_of t)\<lparr>policy_warnings := w\<rparr>)\<rparr> else t)
      in t1\<lparr>publish_plan := Some ((plan_of t1)\<lparr>plan_mode := Some (pq_mode r),
           plan_idempotency_key := Some (pq_idempotency_key r)\<rparr>)\<rparr>)"

definition needs_approval :: "task \<Rightarrow> publish_request \<Rightarrow> bool" where
  "needs_approval t r = (pq_mode r = Apply \<and> approval_required (plan_of (planned_task t r)) = Some True \<and>
     falsy (pq_approval_token r))"

definition startPublish :: "'s mover \<Rightarrow> time \<Rightarrow> string \<Rightarrow> string \<Rightarrow> task \<Rightarrow> publish_request \<Rightarrow> 's \<Rightarrow> (error, task, 's) outcome" where
  "startPublish move now rid token t r =
     (if pq_mode r = Apply \<and> \<not> ppr_allowed (publish_policy_result_of t) then
        (let reason = (case ppr_reason (publish_policy_result_of t) of Some x \<Rightarrow> x | None \<Rightarrow> ''publish policy denied'') in
         move_to move (t\<lparr>blocked_context := Some (mk_block Integrated reason W_Environment)\<rparr>) Blocked (cp_input reason))
      else if needs_approval t r
        then move_to move ((planned_task t r)\<lparr>pending_approval_token := Some token,
               pending_approval_expires_at := Some (now + APPROVAL_TOKEN_TTL_MS)\<rparr>)
               Publish_Pending_Approval (cp_input ''publish approval required'')
        else move_to move ((planned_task t r)\<lparr>publish_run := Some (new_run rid now (15 * 60 * 1000))\<rparr>)
               Publishing (cp_input ''publish started''))"

text \<open>The constant-time comparison: the loop collects the differing bits of the character codes.\<close>

fun diff_bits :: "int \<Rightarrow> string \<Rightarrow> string \<Rightarrow> int" where
  "diff_bits acc (a # as) (b # bs) = diff_bits (acc OR ((of_char a) XOR (of_char b))) as bs"
| "diff_bits acc _ _ = acc"

definition validateApprovalToken :: "time \<Rightarrow> task \<Rightarrow> string \<Rightarrow> string option" where
  "validateApprovalToken now t provided =
     (if provided = [] then Some ''approval_token is required''
      else if falsy (pending_approval_token t) then Some ''no approval token expected for this task''
      else if (case pending_approval_expires_at t of Some e \<Rightarrow> e < now | None \<Rightarrow> False) then Some ''approval token has expired''
      else let expected = str_or_empty (pending_approval_token t) in
        if length expected \<noteq> length provided then Some ''invalid approval token''
        else if diff_bits 0 expected provided \<noteq> 0 then Some ''invalid approval token''
        else None)"

definition approvePublish :: "'s mover \<Rightarrow> time \<Rightarrow> string \<Rightarrow> task \<Rightarrow> string \<Rightarrow> 's \<Rightarrow> (error, task, 's) outcome" where
  "approvePublish move now rid t provided = (case validateApprovalToken now t provided of
       Some msg \<Rightarrow> throw (Plain_Error msg)
     | None \<Rightarrow> move_to move (t\<lparr>pending_approval_token := None, pending_approval_expires_at := None,
         publish_run := Some (new_run rid now (15 * 60 * 1000))\<rparr>)
         Publishing (mk_input Human ''operator'' ''publish approved''))"

definition completed_publish_task :: "time \<Rightarrow> task \<Rightarrow> complete_publish_request \<Rightarrow> task" where
  "completed_publish_task now t r =
     (let t1 = (case cp_external_refs r of Some es \<Rightarrow>
            t\<lparr>external_refs := Some (mergeExternalRefs (external_refs t) es)\<rparr> | None \<Rightarrow> t);
          t2 = (if falsy (cp_rollback_notes r) then t1 else t1\<lparr>rollback_notes := cp_rollback_notes r\<rparr>)
      in t2\<lparr>publish_run := map_option (\<lambda>run. run\<lparr>run_completed_at := Some now, run_status := R_Succeeded,
           run_progress := Some 100, run_external_refs := (case cp_external_refs r of
             Some es \<Rightarrow> Some (mergeExternalRefs (run_external_refs run) es) | None \<Rightarrow> run_external_refs run)\<rparr>)
           (publish_run t2)\<rparr>)"

definition completePublish :: "'s mover \<Rightarrow> time \<Rightarrow> task \<Rightarrow> complete_publish_request \<Rightarrow> 's \<Rightarrow> (error, task, 's) outcome" where
  "completePublish move now t r = and_then
     (move_to move (completed_publish_task now t r) Published (cp_input ''publish completed''))
     (\<lambda>t'. return (t'\<lparr>completed_at := Some now\<rparr>))"

definition publish_updateProgress :: "task \<Rightarrow> int \<Rightarrow> task" where
  "publish_updateProgress t p = t\<lparr>publish_run := update_run_progress p (publish_run t)\<rparr>"

subsection \<open>Timeouts\<close>

definition checkIntegrationTimeout :: "'s mover \<Rightarrow> time \<Rightarrow> task \<Rightarrow> 's \<Rightarrow> (error, bool, 's) outcome" where
  "checkIntegrationTimeout move now t = (case integration_run t of
       None \<Rightarrow> return False
     | Some run \<Rightarrow> if now > run_timeout_at run \<and> run_status run = R_Running
        then and_then (move_to move (t\<lparr>integration_run := Some (run\<lparr>run_status := R_Timeout,
                 run_error := Some ''integration timeout'', run_completed_at := Some now\<rparr>),
               blocked_context := Some (mk_block Integrating ''integration timed out'' W_Github)\<rparr>)
               Blocked (cp_input ''integration timeout'')) (\<lambda>_. return True)
        else return False)"

definition checkPublishTimeout :: "'s mover \<Rightarrow> time \<Rightarrow> task \<Rightarrow> 's \<Rightarrow> (error, bool, 's) outcome" where
  "checkPublishTimeout move now t = (case publish_run t of
       None \<Rightarrow> return False
     | Some run \<Rightarrow> if now > run_timeout_at run \<and> run_status run = R_Running
        then and_then (move_to move (t\<lparr>publish_run := Some (run\<lparr>run_status := R_Timeout,
                 run_error := Some ''publish timeout'', run_completed_at := Some now\<rparr>),
               blocked_context := Some (mk_block Publishing ''publish timed out'' W_Environment)\<rparr>)
               Blocked (cp_input ''publish timeout'')) (\<lambda>_. return True)
        else return False)"

definition check_run :: "'s mover \<Rightarrow> time \<Rightarrow> task \<Rightarrow> 's \<Rightarrow> (error, task list, 's) outcome" where
  "check_run move now t = and_then
     (if state t = Integrating \<and> integration_run t \<noteq> None then checkIntegrationTimeout move now t else return False)
     (\<lambda>a. and_then
       (if state t = Publishing \<and> publish_run t \<noteq> None then checkPublishTimeout move now t else return False)
       (\<lambda>b. return ((if a then [t] else []) @ (if b then [t] else []))))"

fun checkTimeouts :: "'s mover \<Rightarrow> time \<Rightarrow> task list \<Rightarrow> 's \<Rightarrow> (error, task list, 's) outcome" where
  "checkTimeouts move now [] = return []"
| "checkTimeouts move now (t # ts) = and_then (check_run move now t) (\<lambda>xs.
     and_then (checkTimeouts move now ts) (\<lambda>ys. return (xs @ ys)))"

datatype run_kind = Integration_Run | Publish_Run

definition getActiveRuns :: "task list \<Rightarrow> (task \<times> run_meta \<times> run_kind) list" where
  "getActiveRuns ts = concat (map (\<lambda>t.
     (case integration_run t of Some r \<Rightarrow> if state t = Integrating then [(t, r, Integration_Run)] else [] | None \<Rightarrow> []) @
     (case publish_run t of Some r \<Rightarrow> if state t = Publishing then [(t, r, Publish_Run)] else [] | None \<Rightarrow> [])) ts)"

definition updateIntegrationProgress :: "time \<Rightarrow> task \<Rightarrow> int \<Rightarrow> task" where
  "updateIntegrationProgress now t p = (case integration_run t of None \<Rightarrow> t
     | Some _ \<Rightarrow> t\<lparr>integration_run := update_run_progress p (integration_run t), updated_at := now\<rparr>)"

definition updatePublishProgress :: "time \<Rightarrow> task \<Rightarrow> int \<Rightarrow> task" where
  "updatePublishProgress now t p = (case publish_run t of None \<Rightarrow> t
     | Some _ \<Rightarrow> t\<lparr>publish_run := update_run_progress p (publish_run t), updated_at := now\<rparr>)"

subsection \<open>The contract of the flows\<close>

lemma same_work_fields:
  assumes "same_work t t'"
  shows "task_id t' = task_id t" "repo_ref t' = repo_ref t" "repo_policy t' = repo_policy t"
    "integration t' = integration t" "integration_run t' = integration_run t" "publish_run t' = publish_run t"
    "publish_plan t' = publish_plan t" "pending_approval_token t' = pending_approval_token t"
    "pending_approval_expires_at t' = pending_approval_expires_at t" "external_refs t' = external_refs t"
    "rollback_notes t' = rollback_notes t" "active_job_id t' = active_job_id t"
proof -
  let ?u = "t'\<lparr>state := state t, version := version t, updated_at := updated_at t,
    completed_at := completed_at t, blocked_context := blocked_context t\<rparr>"
  have eq: "?u = t" using assms by (simp add: same_work_def)
  have frame: "task_id ?u = task_id t'" "repo_ref ?u = repo_ref t'" "repo_policy ?u = repo_policy t'"
    "integration ?u = integration t'" "integration_run ?u = integration_run t'" "publish_run ?u = publish_run t'"
    "publish_plan ?u = publish_plan t'" "pending_approval_token ?u = pending_approval_token t'"
    "pending_approval_expires_at ?u = pending_approval_expires_at t'" "external_refs ?u = external_refs t'"
    "rollback_notes ?u = rollback_notes t'" "active_job_id ?u = active_job_id t'"
    by simp_all
  show "task_id t' = task_id t" "repo_ref t' = repo_ref t" "repo_policy t' = repo_policy t"
    "integration t' = integration t" "integration_run t' = integration_run t" "publish_run t' = publish_run t"
    "publish_plan t' = publish_plan t" "pending_approval_token t' = pending_approval_token t"
    "pending_approval_expires_at t' = pending_approval_expires_at t" "external_refs t' = external_refs t"
    "rollback_notes t' = rollback_notes t" "active_job_id t' = active_job_id t"
    using frame unfolding eq by simp_all
qed

lemma same_work_content:
  assumes "same_work t t'"
  shows
    "typed_ref t' = typed_ref t" "risk_level t' = risk_level t" "last_verdict t' = last_verdict t"
    "workspace_ref t' = workspace_ref t" "latest_job_ids t' = latest_job_ids t" "artifacts t' = artifacts t"
    "manual_checklist t' = manual_checklist t" "resolver_refs t' = resolver_refs t"
    "context_bundle_ref t' = context_bundle_ref t" "retry_counts t' = retry_counts t"
    "last_failure_class t' = last_failure_class t" "rework_context t' = rework_context t"
    "acceptance_gate_context t' = acceptance_gate_context t" "loop_fingerprint t' = loop_fingerprint t"
proof -
  let ?u = "t'\<lparr>state := state t, version := version t, updated_at := updated_at t,
    completed_at := completed_at t, blocked_context := blocked_context t\<rparr>"
  have eq: "?u = t" using assms by (simp add: same_work_def)
  have frame:
    "typed_ref ?u = typed_ref t'" "risk_level ?u = risk_level t'" "last_verdict ?u = last_verdict t'"
    "workspace_ref ?u = workspace_ref t'" "latest_job_ids ?u = latest_job_ids t'" "artifacts ?u = artifacts t'"
    "manual_checklist ?u = manual_checklist t'" "resolver_refs ?u = resolver_refs t'"
    "context_bundle_ref ?u = context_bundle_ref t'" "retry_counts ?u = retry_counts t'"
    "last_failure_class ?u = last_failure_class t'" "rework_context ?u = rework_context t'"
    "acceptance_gate_context ?u = acceptance_gate_context t'" "loop_fingerprint ?u = loop_fingerprint t'"
    by simp_all
  show
    "typed_ref t' = typed_ref t" "risk_level t' = risk_level t" "last_verdict t' = last_verdict t"
    "workspace_ref t' = workspace_ref t" "latest_job_ids t' = latest_job_ids t" "artifacts t' = artifacts t"
    "manual_checklist t' = manual_checklist t" "resolver_refs t' = resolver_refs t"
    "context_bundle_ref t' = context_bundle_ref t" "retry_counts t' = retry_counts t"
    "last_failure_class t' = last_failure_class t" "rework_context t' = rework_context t"
    "acceptance_gate_context t' = acceptance_gate_context t" "loop_fingerprint t' = loop_fingerprint t"
    using frame unfolding eq by simp_all
qed

definition overdue :: "time \<Rightarrow> run_meta option \<Rightarrow> bool" where
  "overdue now r = (case r of Some run \<Rightarrow> run_timeout_at run < now \<and> run_status run = R_Running | None \<Rightarrow> False)"

lemma overdue_iff: "overdue now r \<longleftrightarrow> (\<exists>run. r = Some run \<and> run_timeout_at run < now \<and> run_status run = R_Running)"
  by (auto simp: overdue_def split: option.splits)

definition timed_out :: "time \<Rightarrow> task \<Rightarrow> bool" where
  "timed_out now t = (state t = Integrating \<and> overdue now (integration_run t) \<or>
     state t = Publishing \<and> overdue now (publish_run t))"

definition blocked_by_timeout :: "task \<Rightarrow> task \<Rightarrow> bool" where
  "blocked_by_timeout t t' = (task_id t' = task_id t \<and> state t' = Blocked \<and>
     map_option resume_state (blocked_context t') = Some (state t) \<and>
     map_option run_status (if state t = Integrating then integration_run t' else publish_run t') = Some R_Timeout)"

context transition_ctx begin

lemma move_to_granted:
  assumes "canTransition (state t) to"
  obtains t' s' where "move_to move t to inp s = (Inr t', s')" and "same_work t t'" and "state t' = to"
    and "version t' = version t + 1" and "blocked_context t' = (if to = Blocked then blocked_context t else None)"
    and "isTerminal to \<longrightarrow> completed_at t' \<noteq> None" and "\<And>k. lookup s' k = (if k = task_id t then Some t' else lookup s k)"
proof -
  obtain ev t' s' where mv: "move t to inp s = (Inr (ev, t'), s')"
    using granted [OF assms] by blast
  then have "move_to move t to inp s = (Inr t', s')"
    by (simp add: move_to_def and_then_def return_def)
  with moved [OF mv] stored [OF mv] that show ?thesis by blast
qed

lemma move_to_refused:
  "\<not> canTransition (state t) to \<Longrightarrow> move_to move t to inp s = (Inl (Transition_Not_Allowed (state t) to), s)"
  by (simp add: move_to_def refused and_then_Inl)

text \<open>The new state of a task whose publication is started.\<close>

lemma startPublish_Integrated:
  assumes "state t = Integrated"
  obtains t' s' where "startPublish move now rid token t r s = (Inr t', s')"
    and "\<And>k. lookup s' k = (if k = task_id t then Some t' else lookup s k)"
    and "task_id t' = task_id t" and "version t' = version t + 1"
    and "state t' = (if pq_mode r = Apply \<and> \<not> ppr_allowed (publish_policy_result_of t) then Blocked
       else if needs_approval t r then Publish_Pending_Approval else Publishing)"
    and "state t' = Publishing \<Longrightarrow> publish_run t' = Some (new_run rid now (15 * 60 * 1000)) \<and>
       publish_plan t' = publish_plan (planned_task t r)"
    and "state t' = Publish_Pending_Approval \<Longrightarrow> pending_approval_token t' = Some token \<and>
       pending_approval_expires_at t' = Some (now + APPROVAL_TOKEN_TTL_MS)"
    and "state t' = Blocked \<Longrightarrow> map_option resume_state (blocked_context t') = Some Integrated"
proof -
  let ?reason = "case ppr_reason (publish_policy_result_of t) of Some x \<Rightarrow> x | None \<Rightarrow> ''publish policy denied''"
  let ?to = "if pq_mode r = Apply \<and> \<not> ppr_allowed (publish_policy_result_of t) then Blocked
       else if needs_approval t r then Publish_Pending_Approval else Publishing"
  let ?in = "cp_input (case ?to of Blocked \<Rightarrow> ?reason | Publish_Pending_Approval \<Rightarrow> ''publish approval required''
       | _ \<Rightarrow> ''publish started'')"
  let ?u = "case ?to of Blocked \<Rightarrow> t\<lparr>blocked_context := Some (mk_block Integrated ?reason W_Environment)\<rparr>
     | Publish_Pending_Approval \<Rightarrow> (planned_task t r)\<lparr>pending_approval_token := Some token,
          pending_approval_expires_at := Some (now + APPROVAL_TOKEN_TTL_MS)\<rparr>
     | _ \<Rightarrow> (planned_task t r)\<lparr>publish_run := Some (new_run rid now (15 * 60 * 1000))\<rparr>"
  have plan: "state (planned_task t r) = state t" "task_id (planned_task t r) = task_id t"
    "version (planned_task t r) = version t"
    by (simp_all add: planned_task_def Let_def)
  have u: "canTransition (state ?u) ?to" "task_id ?u = task_id t" "version ?u = version t"
    using assms by (auto simp: plan)
  have start: "startPublish move now rid token t r = move_to move ?u ?to ?in"
    by (simp add: startPublish_def Let_def)
  obtain t' s' where mv: "move_to move ?u ?to ?in s = (Inr t', s')" "same_work ?u t'" "state t' = ?to"
      "version t' = version ?u + 1" "blocked_context t' = (if ?to = Blocked then blocked_context ?u else None)"
      "\<And>k. lookup s' k = (if k = task_id ?u then Some t' else lookup s k)"
    by (rule move_to_granted [OF u(1), of ?in s]) blast
  note work = same_work_fields [OF mv(2)]
  show ?thesis
  proof (rule that [of t' s'])
    show "startPublish move now rid token t r s = (Inr t', s')" using start mv(1) by metis
    show "lookup s' k = (if k = task_id t then Some t' else lookup s k)" for k using mv(6) u(2) by metis
    show "task_id t' = task_id t" using work(1) u(2) by metis
    show "version t' = version t + 1" using mv(4) u(3) by metis
    show "state t' = ?to" by (rule mv(3))
    show "publish_run t' = Some (new_run rid now (15 * 60 * 1000)) \<and> publish_plan t' = publish_plan (planned_task t r)"
      if "state t' = Publishing"
      using work(6,7) mv(3) that by (auto split: if_splits)
    show "pending_approval_token t' = Some token \<and> pending_approval_expires_at t' = Some (now + APPROVAL_TOKEN_TTL_MS)"
      if "state t' = Publish_Pending_Approval"
      using work(8,9) mv(3) that by (auto split: if_splits)
    show "map_option resume_state (blocked_context t') = Some Integrated" if "state t' = Blocked"
      using mv(3,5) that by (auto split: if_splits)
  qed
qed

text \<open>The answer to the completion of an integration and the new state of the task.\<close>

lemma completeIntegration_Integrating:
  assumes "state t = Integrating" and i: "integration t = Some i"
  obtains resp t' s' where "completeIntegration move now t r s = (Inr resp, s')"
    and "\<And>k. lookup s' k = (if k = task_id t then Some t' else lookup s k)"
    and "task_id t' = task_id t" and "version t' = version t + 1"
    and "state t' = (if sha_valid (validateBaseSha (sha_input t r)) \<and> ci_checks_passed r then Integrated else Blocked)"
    and "ir_state resp = state t'" and "ir_task_id resp = task_id t"
    and "state t' = Blocked \<Longrightarrow> map_option resume_state (blocked_context t') = Some Integrating"
    and "state t' = Integrated \<Longrightarrow> integration t' = Some (i\<lparr>checks_passed := Some True,
        integration_head_sha := replace_by (integration_head_sha i) (ci_head_sha r),
        main_updated_sha := replace_by (main_updated_sha i) (ci_main_sha r)\<rparr>) \<and>
      ir_head_sha resp = integration_head_sha i \<and>
      repo_ref t' = repo_ref t \<and> repo_policy t' = repo_policy t \<and> publish_plan t' = publish_plan t \<and>
      integration_run t' = map_option (\<lambda>run. run\<lparr>run_completed_at := Some now, run_progress := Some 100,
        run_status := R_Succeeded\<rparr>) (integration_run t)"
proof -
  let ?sha = "validateBaseSha (sha_input t r)"
  let ?pr = "validateIntegrationPolicy (policy_of t) (task_id t) (str_or_empty (base_sha (repo_ref t)))
    (ci_head_sha r) (ci_main_sha r) (ci_checks_passed r)"
  note answer = that
  note complete = completeIntegration_def [of move now t r, unfolded Let_def i option.case]
  have go: "canTransition Integrating Blocked" "canTransition Integrating Integrated" by simp_all
  have denied: "ipr_allowed ?pr" if "ci_checks_passed r"
    using that by (simp add: validateIntegrationPolicy_def Let_def)
  show ?thesis
  proof (cases "sha_valid ?sha \<and> ci_checks_passed r")
    case True
    let ?t1 = "completed_integration_task now t i r"
    let ?u = "?t1\<lparr>integration_run := map_option (\<lambda>run. run\<lparr>run_status := R_Succeeded\<rparr>) (integration_run ?t1)\<rparr>"
    have u: "canTransition (state ?u) Integrated" "task_id ?u = task_id t" "version ?u = version t"
      using assms by (simp_all add: completed_integration_task_def)
    obtain t' s' where mv: "move_to move ?u Integrated (cp_input ''integration checks passed'') s = (Inr t', s')"
        "same_work ?u t'" "state t' = Integrated" "version t' = version ?u + 1"
        "\<And>k. lookup s' k = (if k = task_id ?u then Some t' else lookup s k)"
      by (rule move_to_granted [OF u(1), of "cp_input ''integration checks passed''" s]) blast
    let ?f = "\<lambda>t'. \<lparr>ir_task_id = task_id t, ir_state = state t', ir_branch = str_or_empty (integration_branch i),
      ir_head_sha = integration_head_sha i, ir_requires_pr = requires_pr ?pr, ir_can_fast_forward = can_fast_forward ?pr,
      ir_policy_warnings = None, ir_needs_rebase = None\<rparr>"
    have "completeIntegration move now t r s = (Inr (?f t'), s')"
      unfolding complete using True denied mv(1) by (simp add: and_then_def return_def)
    then show ?thesis
      by (rule that) (use mv u same_work_fields [OF mv(2)] True in
          \<open>auto simp: completed_integration_task_def i option.map_comp comp_def\<close>)
  next
    case False
    have block: thesis if eq: "completeIntegration move now t r = and_then (move_to move u Blocked inp) (\<lambda>t'. return (f t'))"
      and u: "state u = Integrating" "task_id u = task_id t" "version u = version t"
        "map_option resume_state (blocked_context u) = Some Integrating"
      and f: "\<And>t'. ir_state (f t') = state t' \<and> ir_task_id (f t') = task_id t" for u inp f
    proof -
      obtain t' s' where mv: "move_to move u Blocked inp s = (Inr t', s')"
          "same_work u t'" "state t' = Blocked" "version t' = version u + 1"
          "blocked_context t' = blocked_context u"
          "\<And>k. lookup s' k = (if k = task_id u then Some t' else lookup s k)"
        by (rule move_to_granted [of u Blocked inp s]) (use u(1) go in auto)
      have "completeIntegration move now t r s = (Inr (f t'), s')"
        unfolding eq using mv(1) by (simp add: and_then_def return_def)
      then show thesis
        by (rule answer [where t' = t']) (use mv u f False same_work_fields(1) [OF mv(2)] in auto)
    qed
    consider (sha) "\<not> sha_valid ?sha" | (pol) "sha_valid ?sha" "\<not> ipr_allowed ?pr"
      | (ci) "sha_valid ?sha" "ipr_allowed ?pr" "\<not> ci_checks_passed r"
      using False by blast
    then show ?thesis
    proof cases
      case sha
      show ?thesis
        by (rule block [OF trans [OF complete if_P [OF sha]]]) (simp_all add: assms)
    next
      case pol
      show ?thesis
        by (rule block [OF trans [OF complete trans [OF if_not_P if_P [OF pol(2)]]]]) (simp_all add: assms pol)
    next
      case ci
      show ?thesis
        by (rule block [OF trans [OF complete trans [OF if_not_P trans [OF if_not_P if_not_P [OF ci(3)]]]]])
          (use ci in \<open>simp_all add: assms completed_integration_task_def\<close>)
    qed
  qed
qed

lemma check_run_spec:
  obtains s' where "check_run move now t s = (Inr (if timed_out now t then [t] else []), s')"
    and "\<not> timed_out now t \<Longrightarrow> s' = s"
    and "timed_out now t \<Longrightarrow> \<exists>t'. blocked_by_timeout t t' \<and> (\<forall>k. lookup s' k = (if k = task_id t then Some t' else lookup s k))"
proof -
  note result = that
  have block: thesis
    if u: "task_id u = task_id t" "state u = state t" "map_option resume_state (blocked_context u) = Some (state t)"
        "map_option run_status (if state t = Integrating then integration_run u else publish_run u) = Some R_Timeout"
      and st: "state t = Integrating \<or> state t = Publishing" and out: "timed_out now t"
      and eq: "\<And>t' s'. move_to move u Blocked inp s = (Inr t', s') \<Longrightarrow> check_run move now t s = (Inr [t], s')" for u inp
  proof -
    have "canTransition (state u) Blocked" using u st by auto
    then obtain t' s' where mv: "move_to move u Blocked inp s = (Inr t', s')" "same_work u t'" "state t' = Blocked"
        "blocked_context t' = blocked_context u" "\<And>k. lookup s' k = (if k = task_id u then Some t' else lookup s k)"
      by (rule move_to_granted [of u Blocked inp s]) auto
    then have "blocked_by_timeout t t'"
      using u same_work_fields [OF mv(2)] by (simp add: blocked_by_timeout_def split: if_splits)
    then show thesis
      using result [of s'] eq [OF mv(1)] mv(5) u(1) out by auto
  qed
  consider (int) run where "state t = Integrating" "integration_run t = Some run" "run_timeout_at run < now" "run_status run = R_Running"
    | (pub) run where "state t = Publishing" "publish_run t = Some run" "run_timeout_at run < now" "run_status run = R_Running"
    | (none) "\<not> timed_out now t"
    unfolding timed_out_def overdue_iff by blast
  then show ?thesis
  proof cases
    case int
    show ?thesis
      by (rule block [of "t\<lparr>integration_run := Some (run\<lparr>run_status := R_Timeout, run_error := Some ''integration timeout'',
            run_completed_at := Some now\<rparr>), blocked_context := Some (mk_block Integrating ''integration timed out'' W_Github)\<rparr>"
            "cp_input ''integration timeout''"])
        (use int in \<open>simp_all add: timed_out_def overdue_def check_run_def checkIntegrationTimeout_def and_then_def return_def\<close>)
  next
    case pub
    show ?thesis
      by (rule block [of "t\<lparr>publish_run := Some (run\<lparr>run_status := R_Timeout, run_error := Some ''publish timeout'',
            run_completed_at := Some now\<rparr>), blocked_context := Some (mk_block Publishing ''publish timed out'' W_Environment)\<rparr>"
            "cp_input ''publish timeout''"])
        (use pub in \<open>simp_all add: timed_out_def overdue_def check_run_def checkPublishTimeout_def and_then_def return_def\<close>)
  next
    case none
    then have "check_run move now t s = (Inr [], s)"
      by (auto simp: timed_out_def overdue_def check_run_def checkIntegrationTimeout_def checkPublishTimeout_def
          and_then_def return_def split: option.split)
    with none show ?thesis by (intro that [of s]) auto
  qed
qed

lemma checkTimeouts_spec:
  assumes "distinct (map task_id ts)"
  shows "\<exists>s'. checkTimeouts move now ts s = (Inr (filter (timed_out now) ts), s') \<and>
    (\<forall>t \<in> set ts. timed_out now t \<longrightarrow> (\<exists>t'. lookup s' (task_id t) = Some t' \<and> blocked_by_timeout t t')) \<and>
    (\<forall>k. k \<notin> task_id ` set (filter (timed_out now) ts) \<longrightarrow> lookup s' k = lookup s k)"
  using assms
proof (induction ts arbitrary: s)
  case Nil
  then show ?case by (simp add: return_def)
next
  case (Cons t ts)
  obtain s1 where s1: "check_run move now t s = (Inr (if timed_out now t then [t] else []), s1)"
      "\<not> timed_out now t \<Longrightarrow> s1 = s"
      "timed_out now t \<Longrightarrow> \<exists>t'. blocked_by_timeout t t' \<and> (\<forall>k. lookup s1 k = (if k = task_id t then Some t' else lookup s k))"
    using check_run_spec [of now t s] by blast
  have "distinct (map task_id ts)" using Cons.prems by simp
  from Cons.IH [OF this, of s1] obtain s' where s': "checkTimeouts move now ts s1 = (Inr (filter (timed_out now) ts), s')"
      "\<forall>t \<in> set ts. timed_out now t \<longrightarrow> (\<exists>t'. lookup s' (task_id t) = Some t' \<and> blocked_by_timeout t t')"
      "\<forall>k. k \<notin> task_id ` set (filter (timed_out now) ts) \<longrightarrow> lookup s' k = lookup s1 k"
    by blast
  have fresh: "task_id t \<notin> task_id ` set (filter (timed_out now) ts)" using Cons.prems by auto
  have run: "checkTimeouts move now (t # ts) s = (Inr (filter (timed_out now) (t # ts)), s')"
    using s1(1) s'(1) by (auto simp: and_then_def return_def)
  show ?case
  proof (cases "timed_out now t")
    case True
    with s1(3) obtain t' where t': "blocked_by_timeout t t'" "\<And>k. lookup s1 k = (if k = task_id t then Some t' else lookup s k)"
      by blast
    have "lookup s' (task_id t) = Some t'" using fresh s'(3) t'(2) by simp
    with t'(1) s'(2,3) run t'(2) show ?thesis
      by (intro exI [of _ s']) (auto simp: True)
  next
    case False
    with s1(2) s' run show ?thesis
      by (intro exI [of _ s']) auto
  qed
qed

lemma startIntegration_Accepted:
  assumes "state t = Accepted"
  obtains t' s' where "startIntegration move now rid t sha s = (Inr t', s')"
    and "\<And>k. lookup s' k = (if k = task_id t then Some t' else lookup s k)"
    and "task_id t' = task_id t" and "version t' = version t + 1" and "state t' = Integrating"
    and "same_work (start_integration_task now rid t sha) t'"
proof -
  let ?u = "start_integration_task now rid t sha"
  let ?in = "cp_input (if requires_pr (validateIntegrationPolicy (policy_of t) (task_id t) sha None None False)
    then ''integrate requested (PR required)'' else ''integrate requested'')"
  have u: "canTransition (state ?u) Integrating" "task_id ?u = task_id t" "version ?u = version t"
    using assms by (simp_all add: start_integration_task_def)
  obtain t' s' where "move_to move ?u Integrating ?in s = (Inr t', s')" "same_work ?u t'" "state t' = Integrating"
      "version t' = version ?u + 1" "\<And>k. lookup s' k = (if k = task_id ?u then Some t' else lookup s k)"
    by (rule move_to_granted [OF u(1), of ?in s]) blast
  then show ?thesis
    using u same_work_fields(1) [of ?u t'] by (intro that [of t' s']) (auto simp: startIntegration_def)
qed

lemma approvePublish_spec:
  assumes "state t = Publish_Pending_Approval"
  obtains (denied) msg where "validateApprovalToken now t tok = Some msg"
      and "approvePublish move now rid t tok s = (Inl (Plain_Error msg), s)"
  | (approved) t' s' where "validateApprovalToken now t tok = None" and "approvePublish move now rid t tok s = (Inr t', s')"
    and "\<And>k. lookup s' k = (if k = task_id t then Some t' else lookup s k)"
    and "task_id t' = task_id t" and "version t' = version t + 1" and "state t' = Publishing"
    and "pending_approval_token t' = None" and "publish_run t' = Some (new_run rid now (15 * 60 * 1000))"
proof (cases "validateApprovalToken now t tok")
  case None
  let ?u = "t\<lparr>pending_approval_token := None, pending_approval_expires_at := None,
         publish_run := Some (new_run rid now (15 * 60 * 1000))\<rparr>"
  let ?in = "mk_input Human ''operator'' ''publish approved''"
  have "canTransition (state ?u) Publishing" using assms by simp
  then obtain t' s' where "move_to move ?u Publishing ?in s = (Inr t', s')" "same_work ?u t'" "state t' = Publishing"
      "version t' = version ?u + 1" "\<And>k. lookup s' k = (if k = task_id ?u then Some t' else lookup s k)"
    by (rule move_to_granted [of ?u Publishing ?in s]) blast
  then show ?thesis
    using None same_work_fields [of ?u t'] by (intro approved [of t' s']) (auto simp: approvePublish_def)
next
  case (Some msg)
  then show ?thesis by (intro denied [of msg]) (simp_all add: approvePublish_def throw_def)
qed

lemma completePublish_Publishing:
  assumes "state t = Publishing"
  obtains t' s' where "completePublish move now t r s = (Inr (t'\<lparr>completed_at := Some now\<rparr>), s')"
    and "\<And>k. lookup s' k = (if k = task_id t then Some t' else lookup s k)"
    and "task_id t' = task_id t" and "version t' = version t + 1" and "state t' = Published"
    and "same_work (completed_publish_task now t r) t'"
proof -
  let ?u = "completed_publish_task now t r"
  have u: "canTransition (state ?u) Published" "task_id ?u = task_id t" "version ?u = version t"
    using assms by (simp_all add: completed_publish_task_def Let_def split: option.split)
  obtain t' s' where mv: "move_to move ?u Published (cp_input ''publish completed'') s = (Inr t', s')" "same_work ?u t'"
      "state t' = Published" "version t' = version ?u + 1" "\<And>k. lookup s' k = (if k = task_id ?u then Some t' else lookup s k)"
    by (rule move_to_granted [OF u(1), of "cp_input ''publish completed''" s]) blast
  have "completePublish move now t r s = (Inr (t'\<lparr>completed_at := Some now\<rparr>), s')"
    using mv(1) by (simp add: completePublish_def and_then_def return_def)
  then show ?thesis
    by (rule that [where t' = t']) (use u mv same_work_fields(1) [OF mv(2)] in auto)
qed

end

text \<open>\<open>transitionTask\<close> with a fresh event identifier for each task, for the operations that move several.\<close>

definition move_each :: "time \<Rightarrow> (string \<Rightarrow> string) \<Rightarrow> task_store mover" where
  "move_each now eids t = transitionTask now (eids (task_id t)) t"

interpretation each: transition_ctx "move_each now eids" getTask
proof unfold_locales
  fix t t' :: task and to inp s s' ev k
  show "\<not> canTransition (state t) to \<Longrightarrow> move_each now eids t to inp s = (Inl (Transition_Not_Allowed (state t) to), s)"
    unfolding move_each_def by (rule ts.refused)
  show "canTransition (state t) to \<Longrightarrow> \<exists>ev t' s'. move_each now eids t to inp s = (Inr (ev, t'), s')"
    unfolding move_each_def by (rule ts.granted)
  show "same_work t t' \<and> state t' = to \<and> version t' = version t + 1 \<and>
      blocked_context t' = (if to = Blocked then blocked_context t else None) \<and>
      (isTerminal to \<longrightarrow> completed_at t' \<noteq> None) \<and>
      from_state ev = state t \<and> to_state ev = to \<and> event_task_id ev = task_id t"
    if "move_each now eids t to inp s = (Inr (ev, t'), s')"
    using that unfolding move_each_def by (rule ts.moved)
  show "getTask s' k = (if k = task_id t then Some t' else getTask s k)"
    if "move_each now eids t to inp s = (Inr (ev, t'), s')"
    using that unfolding move_each_def by (rule ts.stored)
qed

subsection \<open>Properties\<close>

lemma or_zero_iff: "(a :: int) OR b = 0 \<longleftrightarrow> a = 0 \<and> b = 0"
  by (auto simp: bit_eq_iff bit_simps)

lemma xor_zero_iff: "(a :: int) XOR b = 0 \<longleftrightarrow> a = b"
  by (auto simp: bit_eq_iff bit_simps)

lemma diff_bits_zero_iff: "length as = length bs \<Longrightarrow> diff_bits acc as bs = 0 \<longleftrightarrow> acc = 0 \<and> as = bs"
  by (induction acc as bs rule: diff_bits.induct) (auto simp: or_zero_iff xor_zero_iff)

text \<open>
  C39. The constant-time check of an approval token accepts exactly the token that was issued, before
  it expires: the loop over the character codes computes equality, and without an issued token nothing
  is accepted.
\<close>

theorem approval_token_check:
  "validateApprovalToken now t p = None \<longleftrightarrow>
     p \<noteq> [] \<and> pending_approval_token t = Some p \<and>
     (case pending_approval_expires_at t of Some e \<Rightarrow> now \<le> e | None \<Rightarrow> True)"
  by (cases "pending_approval_token t"; cases "pending_approval_expires_at t")
    (auto simp: validateApprovalToken_def str_or_empty_def Let_def diff_bits_zero_iff)

text \<open>
  Starting the publication of an integrated task never fails. A dry run or a no-op starts at once;
  in apply mode the task is blocked, to be resumed in integrated, exactly when the policy refuses, waits
  for approval with a token that is valid for 24 hours when the plan asks for it and the request brings
  no token, and starts otherwise with a fresh run of 15 minutes.
\<close>

theorem start_publish_outcome:
  assumes "state t = Integrated"
  shows "\<exists>t' s'. startPublish (transitionTask now eid) now rid token t r s = (Inr t', s') \<and>
    getTask s' (task_id t) = Some t' \<and> version t' = version t + 1 \<and>
    state t' = (if pq_mode r \<noteq> Apply then Publishing
      else if \<not> ppr_allowed (publish_policy_result_of t) then Blocked
      else if approval_required (plan_of t) = Some True \<and> falsy (pq_approval_token r) then Publish_Pending_Approval
      else Publishing) \<and>
    (state t' = Publishing \<longrightarrow> publish_run t' = Some (new_run rid now (15 * 60 * 1000)) \<and>
       plan_idempotency_key (plan_of t') = Some (pq_idempotency_key r)) \<and>
    (state t' = Publish_Pending_Approval \<longrightarrow> pending_approval_token t' = Some token \<and>
       pending_approval_expires_at t' = Some (now + APPROVAL_TOKEN_TTL_MS)) \<and>
    (state t' = Blocked \<longrightarrow> map_option resume_state (blocked_context t') = Some Integrated)"
proof -
  have plan: "approval_required (plan_of (planned_task t r)) = approval_required (plan_of t)"
    "plan_idempotency_key (plan_of (planned_task t r)) = Some (pq_idempotency_key r)"
    by (simp_all add: planned_task_def plan_of_def Let_def)
  obtain t' s' where t': "startPublish (transitionTask now eid) now rid token t r s = (Inr t', s')"
    "\<And>k. getTask s' k = (if k = task_id t then Some t' else getTask s k)" "version t' = version t + 1"
    "state t' = (if pq_mode r = Apply \<and> \<not> ppr_allowed (publish_policy_result_of t) then Blocked
       else if needs_approval t r then Publish_Pending_Approval else Publishing)"
    "state t' = Publishing \<Longrightarrow> publish_run t' = Some (new_run rid now (15 * 60 * 1000)) \<and>
       publish_plan t' = publish_plan (planned_task t r)"
    "state t' = Publish_Pending_Approval \<Longrightarrow> pending_approval_token t' = Some token \<and>
       pending_approval_expires_at t' = Some (now + APPROVAL_TOKEN_TTL_MS)"
    "state t' = Blocked \<Longrightarrow> map_option resume_state (blocked_context t') = Some Integrated"
    by (rule ts.startPublish_Integrated [OF assms, where nowa = now and eid = eid and now = now and rid = rid and token = token and r = r and s = s]) blast
  have "plan_of t' = plan_of (planned_task t r)" if "state t' = Publishing"
    using t'(5) [OF that] by (simp add: plan_of_def)
  with t' plan show ?thesis
    by (intro exI [of _ t'] exI [of _ s']) (auto simp: needs_approval_def)
qed

theorem start_publish_outcome_witness:
  "\<exists>t' s'. startPublish (transitionTask 5 ''evt'') 5 ''run'' ''tok'' (sample_task\<lparr>state := Integrated\<rparr>)
      \<lparr>pq_mode = Apply, pq_idempotency_key = ''k'', pq_approval_token = None\<rparr> empty_store = (Inr t', s') \<and> state t' = Blocked"
  using start_publish_outcome [of "sample_task\<lparr>state := Integrated\<rparr>" 5 "''evt''" "''run''" "''tok''"
      "\<lparr>pq_mode = Apply, pq_idempotency_key = ''k'', pq_approval_token = None\<rparr>" empty_store]
  by (force simp: publish_policy_result_of_def validatePublishPolicy_def policy_of_def DEFAULT_REPO_POLICY_def sample_task_def)

text \<open>
  A request that brings any non-empty approval token starts an allowed publication at once although
  the plan requires approval: the token is compared with nothing.
\<close>

theorem supplied_token_skips_approval:
  assumes "state t = Integrated" and "ppr_allowed (publish_policy_result_of t)" and "tok \<noteq> []"
  shows "\<exists>t' s'. startPublish (transitionTask now eid) now rid token t
      \<lparr>pq_mode = Apply, pq_idempotency_key = key, pq_approval_token = Some tok\<rparr> s = (Inr t', s') \<and>
    getTask s' (task_id t) = Some t' \<and> state t' = Publishing"
  by (rule ts.startPublish_Integrated [OF assms(1), where nowa = now and eid = eid and now = now and rid = rid and token = token
        and r = "\<lparr>pq_mode = Apply, pq_idempotency_key = key, pq_approval_token = Some tok\<rparr>" and s = s])
    (use assms(2,3) in \<open>auto simp: needs_approval_def\<close>)

definition approval_task :: task where
  "approval_task = sample_task\<lparr>state := Integrated, publish_plan := Some (empty_plan\<lparr>approval_required := Some True\<rparr>),
     repo_policy := Some \<lparr>update_strategy = Direct_Push, main_push_actor = Any_Actor, require_ci_pass = False,
       integration_branch_prefix = None, protected_branches = None, allowed_merge_methods = None\<rparr>\<rparr>"

theorem supplied_token_skips_approval_witness:
  "\<exists>t' s'. startPublish (transitionTask 5 ''evt'') 5 ''run'' ''secret'' approval_task
      \<lparr>pq_mode = Apply, pq_idempotency_key = ''k'', pq_approval_token = Some ''guess''\<rparr> empty_store = (Inr t', s') \<and>
    getTask s' (task_id approval_task) = Some t' \<and> state t' = Publishing"
  by (rule supplied_token_skips_approval)
    (simp_all add: approval_task_def publish_policy_result_of_def validatePublishPolicy_def policy_of_def Let_def)

text \<open>
  Completing the integration of an integrating task always answers, with the new state of the task:
  integrated exactly when the base SHA check and the CI checks passed, otherwise blocked, to be resumed in
  integrating. When it is integrated, the task records the reported SHAs and a succeeded run, but the
  answer still names the head SHA the task had before.
\<close>

theorem complete_integration_outcome:
  assumes "state t = Integrating" and "integration t = Some i"
  shows "\<exists>resp t' s'. completeIntegration (transitionTask now eid) now t r s = (Inr resp, s') \<and>
    getTask s' (task_id t) = Some t' \<and> ir_state resp = state t' \<and> version t' = version t + 1 \<and>
    state t' = (if sha_valid (validateBaseSha (sha_input t r)) \<and> ci_checks_passed r then Integrated else Blocked) \<and>
    (state t' = Blocked \<longrightarrow> map_option resume_state (blocked_context t') = Some Integrating) \<and>
    (state t' = Integrated \<longrightarrow> ir_head_sha resp = integration_head_sha i \<and>
       map_option integration_head_sha (integration t') = Some (replace_by (integration_head_sha i) (ci_head_sha r)) \<and>
       map_option checks_passed (integration t') = Some (Some True) \<and>
       map_option run_status (integration_run t') = map_option (\<lambda>_. R_Succeeded) (integration_run t))"
  by (rule ts.completeIntegration_Integrating [OF assms, where nowa = now and eid = eid and now = now and r = r and s = s],
      rule exI, rule exI, rule exI, intro conjI, assumption)
    (auto simp: option.map_comp comp_def)

definition integrating_task :: task where
  "integrating_task = (start_integration_task 5 ''run'' sample_task ''abc1234'')\<lparr>state := Integrating\<rparr>"

definition passed_request :: complete_integrate_request where
  "passed_request = \<lparr>ci_checks_passed = True, ci_head_sha = Some ''def5678'', ci_main_sha = None,
     ci_is_fast_forward = None, ci_has_conflicts = Some True\<rparr>"

theorem complete_integration_outcome_witness:
  "\<exists>resp t' s'. completeIntegration (transitionTask 6 ''evt'') 6 integrating_task passed_request empty_store = (Inr resp, s') \<and>
    getTask s' (task_id integrating_task) = Some t' \<and> state t' = Integrated \<and> ir_head_sha resp = Some ''abc1234''"
  using complete_integration_outcome [of integrating_task
      "\<lparr>integration_branch = Some (getDefaultIntegrationBranch (policy_of sample_task) (task_id sample_task)),
        integration_head_sha = Some ''abc1234'', main_updated_sha = None, checks_passed = Some False,
        original_base_sha = Some ''abc1234''\<rparr>" 6 "''evt''" passed_request empty_store]
  by (auto simp: integrating_task_def start_integration_task_def passed_request_def sha_input_def
      validateBaseSha_def str_or_empty_def)

text \<open>
  The base SHA check of an integration compares two copies of one value: for a task whose
  integration was started with a non-empty SHA it succeeds whatever the completion request reports,
  conflicts included, so that the CI result alone decides between integrated and blocked.
\<close>

theorem base_sha_check_vacuous:
  assumes "startIntegration (transitionTask now eid) now rid t sha s = (Inr t1, s1)" and "state t = Accepted" and "sha \<noteq> []"
  shows "sha_valid (validateBaseSha (sha_input t1 r)) \<and>
    (\<exists>resp s2. completeIntegration (transitionTask now2 eid2) now2 t1 r s1 = (Inr resp, s2) \<and>
      ir_state resp = (if ci_checks_passed r then Integrated else Blocked))"
proof -
  have t1: "state t1 = Integrating" "same_work (start_integration_task now rid t sha) t1"
    by (rule ts.startIntegration_Accepted [OF assms(2), where nowa = now and eid = eid and now = now and rid = rid
          and sha = sha and s = s], use assms(1) in simp)+
  note work = same_work_fields [OF t1(2)]
  obtain i where i: "integration t1 = Some i" and orig: "original_base_sha i = Some sha"
    using work by (simp add: start_integration_task_def)
  have valid: "sha_valid (validateBaseSha (sha_input t1 r))"
    using work i orig assms(3) by (simp add: sha_input_def validateBaseSha_def start_integration_task_def str_or_empty_def)
  show ?thesis
    by (rule ts.completeIntegration_Integrating [OF t1(1) i, where nowa = now2 and eid = eid2 and now = now2 and r = r and s = s1])
      (auto simp: valid)
qed

theorem base_sha_check_vacuous_witness:
  "\<exists>t1 s1. startIntegration (transitionTask 5 ''evt'') 5 ''run'' (sample_task\<lparr>state := Accepted\<rparr>) ''abc1234'' empty_store = (Inr t1, s1) \<and>
    sha_valid (validateBaseSha (sha_input t1 passed_request))"
proof -
  obtain t1 s1 where "startIntegration (transitionTask 5 ''evt'') 5 ''run'' (sample_task\<lparr>state := Accepted\<rparr>) ''abc1234'' empty_store = (Inr t1, s1)"
    by (rule ts.startIntegration_Accepted [where t = "sample_task\<lparr>state := Accepted\<rparr>" and nowa = 5 and eid = "''evt''"
          and now = 5 and rid = "''run''" and sha = "''abc1234''" and s = empty_store]) auto
  then show ?thesis
    using base_sha_check_vacuous [where r = passed_request] by fastforce
qed

text \<open>
  The timeout check finds exactly the running integrations and publications whose deadline has
  passed, in order; each of these tasks is blocked, to be resumed where it was, with its run marked as
  timed out, every other task is left alone, and the check never fails.
\<close>

theorem check_timeouts_effect:
  assumes "distinct (map task_id ts)"
  shows "\<exists>s'. checkTimeouts (move_each now eids) now ts s = (Inr (filter (timed_out now) ts), s') \<and>
    (\<forall>t \<in> set ts. timed_out now t \<longrightarrow> (\<exists>t'. getTask s' (task_id t) = Some t' \<and> blocked_by_timeout t t')) \<and>
    (\<forall>k. k \<notin> task_id ` set (filter (timed_out now) ts) \<longrightarrow> getTask s' k = getTask s k)"
  by (rule each.checkTimeouts_spec [OF assms])

theorem check_timeouts_effect_witness:
  "\<exists>s' t'. checkTimeouts (move_each (10 ^ 7) (\<lambda>k. ''evt_'' @ k)) (10 ^ 7) [integrating_task] empty_store = (Inr [integrating_task], s') \<and>
    getTask s' (task_id integrating_task) = Some t' \<and> state t' = Blocked"
proof -
  have out: "timed_out (10 ^ 7) integrating_task"
    by (simp add: timed_out_def overdue_def integrating_task_def start_integration_task_def new_run_def)
  show ?thesis
    using check_timeouts_effect [of "[integrating_task]" "10 ^ 7" "\<lambda>k. ''evt_'' @ k" empty_store] out
    by (auto simp: blocked_by_timeout_def)
qed

end
