(* ===== verification/Journal.thy ===== *)
theory Journal
  imports Task_Model
begin

text \<open>
  The two append-only records of the control plane: the audit events of each task
  (\<open>src/src/store/services/audit-service.ts\<close>) and the checkpoints of its stages
  (\<open>src/src/domain/checkpoint/checkpoint-service.ts\<close>). Payloads are the object literals of the
  callers, in the order in which they write the properties. The listing over all tasks sorts by
  locale and is left out.
\<close>

datatype payload_value = P_Str string | P_Opt "string option" | P_Bool bool | P_Opt_Bool "bool option"
  | P_Mode publish_mode | P_List "string list" | P_Refs "external_ref list option" | P_Int int | P_Opt_Int "int option"
  | P_Scalar json_scalar | P_Obj "(string \<times> payload_value) list" | P_Arr "payload_value list"

type_synonym payload = "(string \<times> payload_value) list"

record audit_event =
  ae_id :: string
  ae_type :: string
  ae_task_id :: string
  ae_run_id :: "string option"
  ae_job_id :: "string option"
  ae_actor_type :: actor_type
  ae_actor_id :: string
  ae_payload :: payload
  ae_occurred_at :: time

record audit_options =
  ao_run_id :: "string option"
  ao_job_id :: "string option"
  ao_actor_type :: "actor_type option"
  ao_actor_id :: "string option"

definition no_options :: audit_options where
  "no_options = \<lparr>ao_run_id = None, ao_job_id = None, ao_actor_type = None, ao_actor_id = None\<rparr>"

type_synonym audit_log = "(string, audit_event list) jsmap"

definition push_entry :: "string \<Rightarrow> 'a \<Rightarrow> (string, 'a list) jsmap \<Rightarrow> (string, 'a list) jsmap" where
  "push_entry k x m = map_set m k ((case map_get m k of Some xs \<Rightarrow> xs | None \<Rightarrow> []) @ [x])"

definition entries_of :: "(string, 'a list) jsmap \<Rightarrow> string \<Rightarrow> 'a list" where
  "entries_of m k = (case map_get m k of Some xs \<Rightarrow> xs | None \<Rightarrow> [])"

lemma entries_of_push: "entries_of (push_entry k x m) k' = (if k' = k then entries_of m k @ [x] else entries_of m k')"
  by (simp add: entries_of_def push_entry_def jm.lookup_store)

subsection \<open>Audit events\<close>

definition emitAuditEvent :: "time \<Rightarrow> string \<Rightarrow> string \<Rightarrow> string \<Rightarrow> payload \<Rightarrow> audit_options \<Rightarrow> audit_log \<Rightarrow> audit_event \<times> audit_log" where
  "emitAuditEvent now aid tid ty p opts m =
     (let ev = \<lparr>ae_id = aid, ae_type = ty, ae_task_id = tid, ae_run_id = ao_run_id opts, ae_job_id = ao_job_id opts,
        ae_actor_type = (case ao_actor_type opts of Some a \<Rightarrow> a | None \<Rightarrow> Control_Plane),
        ae_actor_id = (case ao_actor_id opts of Some a \<Rightarrow> a | None \<Rightarrow> ''control_plane''),
        ae_payload = p, ae_occurred_at = now\<rparr>
      in (ev, push_entry tid ev m))"

definition listAuditEvents :: "audit_log \<Rightarrow> string \<Rightarrow> audit_event list" where
  "listAuditEvents m tid = entries_of m tid"

definition replaceAuditEvents :: "string \<Rightarrow> audit_event list \<Rightarrow> audit_log \<Rightarrow> audit_log" where
  "replaceAuditEvents tid evs m = map_set m tid evs"

subsection \<open>Checkpoints\<close>

datatype checkpoint_type = Code_Checkpoint | Approval_Checkpoint

datatype checkpoint_stage = CP_Stage worker_stage | CP_Integrate | CP_Publish

record checkpoint_ref =
  checkpoint_id :: string
  checkpoint_type :: checkpoint_type
  checkpoint_stage :: checkpoint_stage
  checkpoint_reference :: string
  checkpoint_created_at :: time

record checkpoint = checkpoint_ref +
  checkpoint_task_id :: string
  checkpoint_run_id :: string
  checkpoint_summary :: "string option"
  checkpoint_actor :: "string option"

type_synonym checkpoint_log = "(string, checkpoint list) jsmap"

definition recordCheckpoint :: "checkpoint \<Rightarrow> checkpoint_log \<Rightarrow> checkpoint \<times> checkpoint_log" where
  "recordCheckpoint c m = (c, push_entry (checkpoint_task_id c) c m)"

definition listCheckpointsForTask :: "checkpoint_log \<Rightarrow> string \<Rightarrow> checkpoint list" where
  "listCheckpointsForTask m tid = entries_of m tid"

definition listCheckpointsForRun :: "checkpoint_log \<Rightarrow> string \<Rightarrow> checkpoint list" where
  "listCheckpointsForRun m rid = entries_of m rid"

definition getLatestCheckpointForStage :: "checkpoint_log \<Rightarrow> string \<Rightarrow> checkpoint_stage \<Rightarrow> checkpoint option" where
  "getLatestCheckpointForStage m tid st =
     (case sort_key (\<lambda>c. - checkpoint_created_at c) (filter (\<lambda>c. checkpoint_stage c = st) (entries_of m tid)) of
        [] \<Rightarrow> None | c # _ \<Rightarrow> Some c)"

definition getCheckpointsByType :: "checkpoint_log \<Rightarrow> string \<Rightarrow> checkpoint_type \<Rightarrow> checkpoint list" where
  "getCheckpointsByType m tid ty = filter (\<lambda>c. checkpoint_type c = ty) (entries_of m tid)"

definition clearCheckpoints :: "string \<Rightarrow> checkpoint_log \<Rightarrow> checkpoint_log" where
  "clearCheckpoints tid m = map_delete m tid"

definition toCheckpointRefs :: "checkpoint list \<Rightarrow> checkpoint_ref list" where
  "toCheckpointRefs cs = map (\<lambda>c. \<lparr>checkpoint_id = checkpoint_id c, checkpoint_type = checkpoint_type c,
     checkpoint_stage = checkpoint_stage c, checkpoint_reference = checkpoint_reference c,
     checkpoint_created_at = checkpoint_created_at c\<rparr>) cs"

definition replaceCheckpoints :: "string \<Rightarrow> checkpoint list \<Rightarrow> checkpoint_log \<Rightarrow> checkpoint_log" where
  "replaceCheckpoints tid cs m = map_set m tid cs"

lemma latest_checkpoint: "getLatestCheckpointForStage m tid st = Some c \<Longrightarrow> c \<in> set (entries_of m tid) \<and>
    checkpoint_stage c = st \<and> (\<forall>d \<in> set (entries_of m tid). checkpoint_stage d = st \<longrightarrow>
      checkpoint_created_at d \<le> checkpoint_created_at c)"
proof -
  let ?cs = "filter (\<lambda>c. checkpoint_stage c = st) (entries_of m tid)"
  assume "getLatestCheckpointForStage m tid st = Some c"
  then obtain cs where cs: "sort_key (\<lambda>c. - checkpoint_created_at c) ?cs = c # cs"
    by (auto simp: getLatestCheckpointForStage_def split: list.splits)
  have "set (c # cs) = set ?cs" unfolding cs [symmetric] by simp
  moreover have "sorted (map (\<lambda>c. - checkpoint_created_at c) (c # cs))" unfolding cs [symmetric] by simp
  ultimately show ?thesis by fastforce
qed

end
