(* ===== verification/Lease.thy ===== *)
theory Lease
  imports Core_Types
begin

text \<open>
  \<open>src/src/domain/lease\<close>: the lease a worker holds on its job, renewed by heartbeats and marked as
  orphaned when it runs out (\<open>LeaseManager\<close>). The locale \<open>exclusive_resource\<close> is the contract of a
  resource that one owner holds for a bounded time; the leases here and the resource locks of the
  concurrency manager both meet it.
\<close>

subsection \<open>Resources held for a bounded time\<close>

datatype ('k, 'o) hold_op = Op_Acquire 'k 'o | Op_Release 'k 'o

fun exec_holds :: "(time \<Rightarrow> 's \<Rightarrow> 'k \<Rightarrow> 'o \<Rightarrow> bool \<times> 's) \<Rightarrow> ('s \<Rightarrow> 'k \<Rightarrow> 'o \<Rightarrow> bool \<times> 's)
    \<Rightarrow> (time \<times> ('k, 'o) hold_op) list \<Rightarrow> 's \<Rightarrow> 's" where
  "exec_holds acq rel [] s = s"
| "exec_holds acq rel ((now, Op_Acquire k j) # ops) s = exec_holds acq rel ops (snd (acq now s k j))"
| "exec_holds acq rel ((now, Op_Release k j) # ops) s = exec_holds acq rel ops (snd (rel s k j))"

text \<open>The clock never runs backwards and stays before \<open>limit\<close>.\<close>

fun clock_ok :: "time \<Rightarrow> time \<Rightarrow> (time \<times> 'a) list \<Rightarrow> bool" where
  "clock_ok now limit [] = True"
| "clock_ok now limit ((t, _) # ops) = (now \<le> t \<and> t \<le> limit \<and> clock_ok t limit ops)"

lemma clock_ok_snoc: "clock_ok now limit (ops @ [(t, a)]) \<Longrightarrow> clock_ok now t ops \<and> now \<le> t \<and> t \<le> limit"
  by (induction now limit ops rule: clock_ok.induct) auto

locale exclusive_resource =
  fixes acq :: "time \<Rightarrow> 's \<Rightarrow> 'k \<Rightarrow> 'o \<Rightarrow> bool \<times> 's"
    and rel :: "'s \<Rightarrow> 'k \<Rightarrow> 'o \<Rightarrow> bool \<times> 's"
    and holder :: "time \<Rightarrow> 's \<Rightarrow> 'k \<Rightarrow> 'o option"
    and valid :: "time \<Rightarrow> 's \<Rightarrow> bool"
  assumes valid_later: "valid now s \<Longrightarrow> now \<le> t \<Longrightarrow> valid t s"
    and valid_acq: "valid now s \<Longrightarrow> valid now (snd (acq now s k j))"
    and valid_rel: "valid now s \<Longrightarrow> valid now (snd (rel s k j))"
    and holder_earlier: "holder t s k = Some j \<Longrightarrow> now \<le> t \<Longrightarrow> holder now s k = Some j"
    and acq_granted: "valid now s \<Longrightarrow> acq now s k j = (True, s') \<Longrightarrow>
        (\<forall>i. holder now s k = Some i \<longrightarrow> i = j) \<and> holder now s' k = Some j"
    and acq_free: "valid now s \<Longrightarrow> holder now s k = None \<Longrightarrow> fst (acq now s k j)"
    and acq_keeps: "valid now s \<Longrightarrow> now \<le> t \<Longrightarrow> holder t s k' = Some i \<Longrightarrow>
        holder t (snd (acq now s k j)) k' = Some i"
    and rel_keeps: "valid now s \<Longrightarrow> holder t s k' = Some i \<Longrightarrow> (k', i) \<noteq> (k, j) \<Longrightarrow>
        holder t (snd (rel s k j)) k' = Some i"
    and rel_owner: "valid now s \<Longrightarrow> holder t s k = Some j \<Longrightarrow>
        fst (rel s k j) \<and> holder t (snd (rel s k j)) k = None"
begin

lemma acq_held_by_other: "valid now s \<Longrightarrow> holder now s k = Some i \<Longrightarrow> i \<noteq> j \<Longrightarrow> \<not> fst (acq now s k j)"
  using acq_granted [of now s k j "snd (acq now s k j)"] by (metis prod.collapse)

lemma rel_then_acq:
  assumes "valid now s" and "holder now s k = Some i"
  shows "fst (acq now (snd (rel s k i)) k j)"
  using acq_free [OF valid_rel [OF assms(1)], of k i k] rel_owner [OF assms] by blast

lemma held_until_limit:
  assumes "valid now s" and "holder limit s k = Some j" and "clock_ok now limit ops"
    and "\<forall>t. (t, Op_Release k j) \<notin> set ops"
  shows "holder limit (exec_holds acq rel ops s) k = Some j"
  using assms
proof (induction ops arbitrary: now s)
  case (Cons op ops)
  obtain t act where op: "op = (t, act)" by (cases op)
  with Cons.prems have t: "now \<le> t" "t \<le> limit" "clock_ok t limit ops" and v: "valid t s"
    using valid_later by auto
  show ?case
  proof (cases act)
    case (Op_Acquire k' i)
    have "holder limit (snd (acq t s k' i)) k = Some j"
      using acq_keeps [OF v t(2) Cons.prems(2)] .
    with Op_Acquire op t Cons.prems(4) Cons.IH [OF valid_acq [OF v]] show ?thesis by simp
  next
    case (Op_Release k' i)
    with op Cons.prems(4) have "(k, j) \<noteq> (k', i)" by auto
    then have "holder limit (snd (rel s k' i)) k = Some j"
      using rel_keeps [OF v Cons.prems(2)] by simp
    with Op_Release op t Cons.prems(4) Cons.IH [OF valid_rel [OF v]] show ?thesis by simp
  qed
qed simp

lemma valid_exec: "valid now s \<Longrightarrow> clock_ok now limit ops \<Longrightarrow> now \<le> limit \<Longrightarrow> valid limit (exec_holds acq rel ops s)"
proof (induction ops arbitrary: now s)
  case Nil
  then show ?case using valid_later by simp
next
  case (Cons op ops)
  obtain t act where op: "op = (t, act)" by (cases op)
  with Cons.prems have t: "t \<le> limit" "clock_ok t limit ops" and v: "valid t s"
    using valid_later by auto
  show ?case
    using op t Cons.IH [OF valid_acq [OF v]] Cons.IH [OF valid_rel [OF v]] by (cases act) auto
qed

lemma no_second_holder:
  assumes "valid now s" and "holder limit s k = Some j"
    and "clock_ok now limit (ops @ [(t, Op_Acquire k i)])"
    and "\<forall>t. (t, Op_Release k j) \<notin> set ops" and "i \<noteq> j"
  shows "\<not> fst (acq t (exec_holds acq rel ops s) k i)"
proof -
  have t: "clock_ok now t ops" "now \<le> t" "t \<le> limit"
    using clock_ok_snoc [OF assms(3)] by simp_all
  have "holder t (exec_holds acq rel ops s) k = Some j"
    using held_until_limit [OF assms(1) holder_earlier [OF assms(2) t(3)] t(1) assms(4)] .
  moreover have "valid t (exec_holds acq rel ops s)"
    using valid_exec [OF assms(1) t(1,2)] .
  ultimately show ?thesis
    using acq_held_by_other assms(5) by metis
qed

end

subsection \<open>Leases\<close>

datatype recovery_action = Act_Retry | Act_Block | Act_Fail

record lease_config =
  lease_duration_seconds :: int
  heartbeat_grace_multiplier :: int
  heartbeat_interval_seconds :: "int option"

record lease =
  lease_job_id :: string
  lease_owner :: string
  lease_expires_at :: time
  last_heartbeat_at :: "time option"
  acquired_at :: time
  orphaned_at :: "time option"
  lease_recovery_action :: "recovery_action option"

record heartbeat_response =
  hb_lease_expires_at :: time
  next_heartbeat_due_at :: time
  hb_last_heartbeat_at :: time

record lease_manager =
  lease_config :: lease_config
  leases :: "(string, lease) jsmap"

definition DEFAULT_LEASE_CONFIG :: lease_config where
  "DEFAULT_LEASE_CONFIG = \<lparr>lease_duration_seconds = 300, heartbeat_grace_multiplier = 3,
     heartbeat_interval_seconds = Some 60\<rparr>"

definition new_lease_manager :: "int option \<Rightarrow> int option \<Rightarrow> int option \<Rightarrow> lease_manager" where
  "new_lease_manager dur grace hb = \<lparr>lease_config = \<lparr>
       lease_duration_seconds = (case dur of Some d \<Rightarrow> d | None \<Rightarrow> lease_duration_seconds DEFAULT_LEASE_CONFIG),
       heartbeat_grace_multiplier = (case grace of Some g \<Rightarrow> g | None \<Rightarrow> heartbeat_grace_multiplier DEFAULT_LEASE_CONFIG),
       heartbeat_interval_seconds = (case hb of Some h \<Rightarrow> Some h | None \<Rightarrow> heartbeat_interval_seconds DEFAULT_LEASE_CONFIG)\<rparr>,
     leases = []\<rparr>"

definition lease_ms :: "lease_manager \<Rightarrow> int" where
  "lease_ms m = lease_duration_seconds (lease_config m) * 1000"

definition isLeaseExpired :: "time \<Rightarrow> lease \<Rightarrow> bool" where
  "isLeaseExpired now l = (now \<ge> lease_expires_at l)"

definition acquire :: "time \<Rightarrow> lease_manager \<Rightarrow> string \<Rightarrow> string \<Rightarrow> lease option \<times> lease_manager" where
  "acquire now m jobId own =
     (if (case map_get (leases m) jobId of
            Some existing \<Rightarrow> \<not> isLeaseExpired now existing \<and> lease_owner existing \<noteq> own
          | None \<Rightarrow> False)
      then (None, m)
      else let l = \<lparr>lease_job_id = jobId, lease_owner = own, lease_expires_at = now + lease_ms m,
               last_heartbeat_at = Some now, acquired_at = now, orphaned_at = None,
               lease_recovery_action = None\<rparr>
        in (Some l, m\<lparr>leases := map_set (leases m) jobId l\<rparr>))"

definition heartbeat :: "time \<Rightarrow> lease_manager \<Rightarrow> string \<Rightarrow> string \<Rightarrow> heartbeat_response option \<times> lease_manager" where
  "heartbeat now m jobId own = (case map_get (leases m) jobId of
       None \<Rightarrow> (None, m)
     | Some l \<Rightarrow>
        if lease_owner l \<noteq> own then (None, m)
        else if orphaned_at l \<noteq> None then (None, m)
        else let l' = l\<lparr>lease_expires_at := now + lease_ms m, last_heartbeat_at := Some now\<rparr>;
               step = (case heartbeat_interval_seconds (lease_config m) of Some s \<Rightarrow> s | None \<Rightarrow> 60)
          in (Some \<lparr>hb_lease_expires_at = lease_expires_at l', next_heartbeat_due_at = now + step * 1000,
                hb_last_heartbeat_at = now\<rparr>, m\<lparr>leases := map_set (leases m) jobId l'\<rparr>))"

definition isExpired :: "time \<Rightarrow> lease_manager \<Rightarrow> string \<Rightarrow> bool" where
  "isExpired now m jobId = (case map_get (leases m) jobId of None \<Rightarrow> True | Some l \<Rightarrow> isLeaseExpired now l)"

definition detectOrphan :: "time \<Rightarrow> lease_manager \<Rightarrow> string \<Rightarrow> lease option \<times> lease_manager" where
  "detectOrphan now m jobId = (case map_get (leases m) jobId of
       None \<Rightarrow> (None, m)
     | Some l \<Rightarrow>
        if \<not> isLeaseExpired now l then (None, m)
        else if orphaned_at l \<noteq> None then (Some l, m)
        else let l' = l\<lparr>orphaned_at := Some now\<rparr>
          in (Some l', m\<lparr>leases := map_set (leases m) jobId l'\<rparr>))"

definition release :: "lease_manager \<Rightarrow> string \<Rightarrow> string \<Rightarrow> bool \<times> lease_manager" where
  "release m jobId own = (case map_get (leases m) jobId of
       None \<Rightarrow> (False, m)
     | Some l \<Rightarrow> if lease_owner l \<noteq> own then (False, m)
         else (True, m\<lparr>leases := map_delete (leases m) jobId\<rparr>))"

definition getLease :: "lease_manager \<Rightarrow> string \<Rightarrow> lease option" where
  "getLease m jobId = map_get (leases m) jobId"

definition getOrphanedJobs :: "lease_manager \<Rightarrow> lease list" where
  "getOrphanedJobs m = filter (\<lambda>l. orphaned_at l \<noteq> None) (map_values (leases m))"

definition getExpiredLeases :: "time \<Rightarrow> lease_manager \<Rightarrow> lease list" where
  "getExpiredLeases now m =
     filter (\<lambda>l. orphaned_at l = None \<and> isLeaseExpired now l) (map_values (leases m))"

definition mark_expired :: "time \<Rightarrow> lease \<Rightarrow> lease" where
  "mark_expired now l = (if orphaned_at l = None \<and> isLeaseExpired now l
     then l\<lparr>orphaned_at := Some now\<rparr> else l)"

definition checkAndMarkExpired :: "time \<Rightarrow> lease_manager \<Rightarrow> lease list \<times> lease_manager" where
  "checkAndMarkExpired now m =
     (map (mark_expired now) (getExpiredLeases now m),
      m\<lparr>leases := map (\<lambda>(k, l). (k, mark_expired now l)) (leases m)\<rparr>)"

subsection \<open>The contract of leases\<close>

definition lease_holder :: "time \<Rightarrow> lease_manager \<Rightarrow> string \<Rightarrow> string option" where
  "lease_holder now m jobId = (case map_get (leases m) jobId of
     Some l \<Rightarrow> if isLeaseExpired now l then None else Some (lease_owner l) | None \<Rightarrow> None)"

definition lease_ok :: "time \<Rightarrow> int \<Rightarrow> string \<Rightarrow> lease \<Rightarrow> bool" where
  "lease_ok now ms k l = (lease_job_id l = k \<and> lease_expires_at l \<le> now + ms \<and> acquired_at l \<le> now \<and>
     (case orphaned_at l of Some t \<Rightarrow> lease_expires_at l \<le> t \<and> t \<le> now | None \<Rightarrow> True))"

definition lease_valid :: "time \<Rightarrow> lease_manager \<Rightarrow> bool" where
  "lease_valid now m = (wf_map (leases m) \<and> 0 < lease_ms m \<and>
     (\<forall>k l. map_get (leases m) k = Some l \<longrightarrow> lease_ok now (lease_ms m) k l))"

lemma lease_ms_update [simp]: "lease_ms (m\<lparr>leases := x\<rparr>) = lease_ms m"
  by (simp add: lease_ms_def)

lemma lease_valid_new [simp]: "lease_valid now (new_lease_manager None grace hb)"
  by (simp add: lease_valid_def new_lease_manager_def lease_ms_def DEFAULT_LEASE_CONFIG_def)

lemma lease_ok_later: "lease_ok now ms k l \<Longrightarrow> now \<le> t \<Longrightarrow> lease_ok t ms k l"
  by (auto simp: lease_ok_def split: option.splits)

lemma lease_valid_later: "lease_valid now m \<Longrightarrow> now \<le> t \<Longrightarrow> lease_valid t m"
  unfolding lease_valid_def using lease_ok_later by blast

lemma lease_valid_set: "lease_valid now m \<Longrightarrow> lease_ok now (lease_ms m) k l \<Longrightarrow>
    lease_valid now (m\<lparr>leases := map_set (leases m) k l\<rparr>)"
  by (auto simp: lease_valid_def jm.lookup_store split: if_splits)

lemma lease_valid_delete: "lease_valid now m \<Longrightarrow> lease_valid now (m\<lparr>leases := map_delete (leases m) k\<rparr>)"
  by (auto simp: lease_valid_def jm.lookup_remove split: if_splits)

lemma lease_valid_lookup: "lease_valid now m \<Longrightarrow> map_get (leases m) k = Some l \<Longrightarrow> lease_ok now (lease_ms m) k l"
  by (simp add: lease_valid_def)

lemma lease_valid_acquire: "lease_valid now m \<Longrightarrow> lease_valid now (snd (acquire now m k j))"
  by (auto simp: acquire_def Let_def lease_valid_def lease_ok_def jm.lookup_store split: if_splits option.splits)

lemma lease_valid_release: "lease_valid now m \<Longrightarrow> lease_valid now (snd (release m k j))"
  by (auto simp: release_def lease_valid_delete split: option.splits)

lemma lease_valid_heartbeat: "lease_valid now m \<Longrightarrow> lease_valid now (snd (heartbeat now m k j))"
  by (auto simp: heartbeat_def Let_def lease_ok_def split: option.splits
      intro!: lease_valid_set dest: lease_valid_lookup)

lemma lease_valid_detect: "lease_valid now m \<Longrightarrow> lease_valid now (snd (detectOrphan now m k))"
  by (auto simp: detectOrphan_def Let_def lease_ok_def isLeaseExpired_def split: option.splits
      intro!: lease_valid_set dest: lease_valid_lookup)

lemma wf_map_map_values [simp]: "wf_map (map (\<lambda>(k, v). (k, f v)) m) = wf_map m"
  by (simp add: wf_map_def comp_def case_prod_beta)

lemma mark_expired_ok: "lease_ok now ms k l \<Longrightarrow> lease_ok now ms k (mark_expired now l)"
  by (simp add: mark_expired_def lease_ok_def isLeaseExpired_def)

lemma lease_valid_mark: "lease_valid now m \<Longrightarrow> lease_valid now (snd (checkAndMarkExpired now m))"
  unfolding lease_valid_def checkAndMarkExpired_def
  by (simp add: map_get_map_values) (blast intro: mark_expired_ok)

lemma acquire_holder:
  assumes "lease_valid now m" and "fst (acquire now m k j) \<noteq> None"
  shows "(\<forall>i. lease_holder now m k = Some i \<longrightarrow> i = j) \<and>
    lease_holder now (snd (acquire now m k j)) k = Some j"
  using assms by (auto simp: acquire_def lease_holder_def Let_def isLeaseExpired_def lease_valid_def
      split: option.splits if_splits)

lemma acquire_keeps:
  assumes "lease_valid now m" and "now \<le> t" and "lease_holder t m k' = Some i"
  shows "lease_holder t (snd (acquire now m k j)) k' = Some i"
proof (cases "map_get (leases m) k")
  case None
  with assms(3) show ?thesis
    by (auto simp: acquire_def Let_def lease_holder_def jm.lookup_store)
next
  case (Some l)
  with assms lease_valid_lookup [OF assms(1) Some] show ?thesis
    by (auto simp: acquire_def Let_def lease_holder_def lease_ok_def isLeaseExpired_def jm.lookup_store
        split: option.splits if_splits)
qed

definition try_lease :: "time \<Rightarrow> lease_manager \<Rightarrow> string \<Rightarrow> string \<Rightarrow> bool \<times> lease_manager" where
  "try_lease now m k j = (fst (acquire now m k j) \<noteq> None, snd (acquire now m k j))"

interpretation lm: exclusive_resource try_lease release lease_holder lease_valid
proof unfold_locales
  fix now t :: time and m m' :: lease_manager and k k' i j :: string
  show "lease_valid now m \<Longrightarrow> now \<le> t \<Longrightarrow> lease_valid t m" by (rule lease_valid_later)
  show "lease_valid now m \<Longrightarrow> lease_valid now (snd (try_lease now m k j))"
    by (simp add: try_lease_def lease_valid_acquire)
  show "lease_valid now m \<Longrightarrow> lease_valid now (snd (release m k j))" by (rule lease_valid_release)
  show "lease_holder t m k = Some j \<Longrightarrow> now \<le> t \<Longrightarrow> lease_holder now m k = Some j"
    by (auto simp: lease_holder_def isLeaseExpired_def split: option.splits if_splits)
  show "lease_valid now m \<Longrightarrow> try_lease now m k j = (True, m') \<Longrightarrow>
      (\<forall>i. lease_holder now m k = Some i \<longrightarrow> i = j) \<and> lease_holder now m' k = Some j"
    using acquire_holder [of now m k j] by (auto simp: try_lease_def)
  show "lease_valid now m \<Longrightarrow> lease_holder now m k = None \<Longrightarrow> fst (try_lease now m k j)"
    by (auto simp: try_lease_def acquire_def Let_def lease_holder_def split: option.splits if_splits)
  show "lease_valid now m \<Longrightarrow> now \<le> t \<Longrightarrow> lease_holder t m k' = Some i \<Longrightarrow>
      lease_holder t (snd (try_lease now m k j)) k' = Some i"
    by (simp add: try_lease_def acquire_keeps)
  show "lease_valid now m \<Longrightarrow> lease_holder t m k' = Some i \<Longrightarrow> (k', i) \<noteq> (k, j) \<Longrightarrow>
      lease_holder t (snd (release m k j)) k' = Some i"
    by (auto simp: release_def lease_holder_def jm.lookup_remove split: option.splits if_splits)
  show "lease_valid now m \<Longrightarrow> lease_holder t m k = Some j \<Longrightarrow>
      fst (release m k j) \<and> lease_holder t (snd (release m k j)) k = None"
    by (auto simp: release_def lease_holder_def split: option.splits if_splits)
qed

text \<open>
  C27. Exclusion over time: after an owner has been granted a lease, no other owner is granted a
  lease on the same job as long as the lease has not run out and the owner has not released it,
  whatever acquisitions and releases happen in between, in the order of the clock.
\<close>

theorem lease_exclusive:
  assumes "lease_valid now m" and "acquire now m job a = (Some l, m1)"
    and "clock_ok now (lease_expires_at l - 1) (ops @ [(t, Op_Acquire job b)])"
    and "\<forall>u. (u, Op_Release job a) \<notin> set ops" and "a \<noteq> b"
  shows "fst (acquire t (exec_holds try_lease release ops m1) job b) = None"
proof -
  have "lease_valid now m1"
    using lease_valid_acquire [OF assms(1), of job a] assms(2) by simp
  moreover have "lease_holder (lease_expires_at l - 1) m1 job = Some a"
    using assms(2) by (auto simp: acquire_def Let_def lease_holder_def isLeaseExpired_def split: if_splits)
  ultimately have "\<not> fst (try_lease t (exec_holds try_lease release ops m1) job b)"
    using lm.no_second_holder assms(3-5) by metis
  then show ?thesis by (simp add: try_lease_def)
qed

theorem lease_exclusive_witness:
  "fst (acquire 90000 (exec_holds try_lease release [(50, Op_Acquire ''job'' ''w2''), (60, Op_Release ''job'' ''w2'')]
     (snd (acquire 0 (new_lease_manager None None None) ''job'' ''w1''))) ''job'' ''w2'') = None"
  by (rule lease_exclusive [of 0 "new_lease_manager None None None" "''job''" "''w1''"
        "the (fst (acquire 0 (new_lease_manager None None None) ''job'' ''w1''))"])
    (simp, simp_all add: new_lease_manager_def lease_ms_def DEFAULT_LEASE_CONFIG_def acquire_def Let_def)

subsection \<open>Orphaned leases\<close>

datatype lease_op = L_Acquire string string | L_Heartbeat string string | L_Detect string
  | L_Release string string | L_Check

fun lease_exec :: "time \<Rightarrow> lease_manager \<Rightarrow> lease_op \<Rightarrow> lease_manager" where
  "lease_exec now m (L_Acquire k j) = snd (acquire now m k j)"
| "lease_exec now m (L_Heartbeat k j) = snd (heartbeat now m k j)"
| "lease_exec now m (L_Detect k) = snd (detectOrphan now m k)"
| "lease_exec now m (L_Release k j) = snd (release m k j)"
| "lease_exec now m L_Check = snd (checkAndMarkExpired now m)"

inductive lease_run :: "time \<Rightarrow> lease_manager \<Rightarrow> lease_op list \<Rightarrow> time \<Rightarrow> lease_manager \<Rightarrow> bool" where
  Run_Nil: "now \<le> t \<Longrightarrow> lease_run now m [] t m"
| Run_Cons: "now \<le> u \<Longrightarrow> lease_run u (lease_exec u m op) ops t m' \<Longrightarrow> lease_run now m (op # ops) t m'"

inductive_cases lease_run_ConsE: "lease_run now m (op # ops) t m'"

lemma lease_valid_exec: "lease_valid now m \<Longrightarrow> lease_valid now (lease_exec now m op)"
  by (cases op) (simp_all add: lease_valid_acquire lease_valid_heartbeat lease_valid_detect
      lease_valid_release lease_valid_mark)

lemma lease_run_valid: "lease_run now m ops t m' \<Longrightarrow> lease_valid now m \<Longrightarrow> lease_valid t m'"
  by (induction rule: lease_run.induct) (blast intro: lease_valid_later lease_valid_exec)+

lemma orphan_step:
  assumes "map_get (leases m) k = Some l" and "orphaned_at l \<noteq> None"
    and "\<forall>j. op \<noteq> L_Acquire k j" and "op \<noteq> L_Release k (lease_owner l)"
  shows "map_get (leases (lease_exec now m op)) k = Some l"
  using assms by (cases op)
    (auto simp: acquire_def heartbeat_def detectOrphan_def release_def checkAndMarkExpired_def Let_def
      map_get_map_values mark_expired_def jm.lookup_store jm.lookup_remove split: option.splits)

lemma orphan_run:
  "lease_run now m ops t m' \<Longrightarrow> map_get (leases m) k = Some l \<Longrightarrow> orphaned_at l \<noteq> None \<Longrightarrow>
    \<forall>j. L_Acquire k j \<notin> set ops \<Longrightarrow> L_Release k (lease_owner l) \<notin> set ops \<Longrightarrow>
    map_get (leases m') k = Some l"
proof (induction rule: lease_run.induct)
  case (Run_Cons now u m op ops t m')
  then have "map_get (leases (lease_exec u m op)) k = Some l"
    by (intro orphan_step) auto
  with Run_Cons show ?case by simp
qed simp

text \<open>
  Every history of lease operations keeps the invariant (a lease is filed under its own job, it
  expires at most one duration from now, its orphan mark is never earlier than its expiry), and an
  orphaned lease stays orphaned and unchanged until somebody acquires the job anew or its owner
  releases it: no heartbeat revives it.
\<close>

theorem lease_history_invariant:
  assumes "lease_valid now m" and "lease_run now m ops t m'"
  shows "lease_valid t m' \<and>
    (map_get (leases m) k = Some l \<longrightarrow> orphaned_at l \<noteq> None \<longrightarrow>
     (\<forall>j. L_Acquire k j \<notin> set ops) \<longrightarrow> L_Release k (lease_owner l) \<notin> set ops \<longrightarrow>
     map_get (leases m') k = Some l \<and> heartbeat u m' k j = (None, m'))"
proof (intro conjI impI)
  show "lease_valid t m'" using lease_run_valid assms by blast
  assume o: "map_get (leases m) k = Some l" "orphaned_at l \<noteq> None"
    "\<forall>j. L_Acquire k j \<notin> set ops" "L_Release k (lease_owner l) \<notin> set ops"
  then show "map_get (leases m') k = Some l" using orphan_run assms(2) by blast
  with o show "heartbeat u m' k j = (None, m')" by (simp add: heartbeat_def)
qed

theorem lease_history_invariant_witness:
  "lease_valid 400000 (lease_exec 400000 (lease_exec 5 (new_lease_manager None None None)
      (L_Acquire ''job'' ''w1'')) L_Check)"
proof -
  have "lease_run 5 (new_lease_manager None None None) [L_Acquire ''job'' ''w1'', L_Check] 400000
      (lease_exec 400000 (lease_exec 5 (new_lease_manager None None None) (L_Acquire ''job'' ''w1'')) L_Check)"
    by (rule Run_Cons [of 5 5], simp, rule Run_Cons [of 5 400000], simp, rule Run_Nil, simp)
  from lease_history_invariant [OF lease_valid_new this] show ?thesis by (rule conjunct1)
qed

text \<open>
  checkAndMarkExpired marks every lease that has run out and no other, returns exactly the ones
  it has just marked, changes nobody's hold on a job, and has nothing left to do when repeated.
\<close>

theorem check_and_mark_expired_complete:
  assumes "wf_map (leases m)"
  shows "getExpiredLeases now (snd (checkAndMarkExpired now m)) = [] \<and>
    set (fst (checkAndMarkExpired now m)) =
      {l\<lparr>orphaned_at := Some now\<rparr> | k l. map_get (leases m) k = Some l \<and> orphaned_at l = None \<and>
         lease_expires_at l \<le> now} \<and>
    lease_holder t (snd (checkAndMarkExpired now m)) k = lease_holder t m k \<and>
    checkAndMarkExpired now (snd (checkAndMarkExpired now m)) = ([], snd (checkAndMarkExpired now m))"
proof -
  have none: "getExpiredLeases now (snd (checkAndMarkExpired now m)) = []"
    by (auto simp: checkAndMarkExpired_def getExpiredLeases_def map_values_def filter_empty_conv mark_expired_def
        isLeaseExpired_def split: if_splits)
  have fixed: "mark_expired now (mark_expired now l) = mark_expired now l" for l
    by (simp add: mark_expired_def)
  have "set (fst (checkAndMarkExpired now m)) = {l\<lparr>orphaned_at := Some now\<rparr> | k l. (k, l) \<in> set (leases m) \<and>
      orphaned_at l = None \<and> lease_expires_at l \<le> now}"
    by (force simp: checkAndMarkExpired_def getExpiredLeases_def map_values_def mark_expired_def isLeaseExpired_def)
  moreover have "lease_holder t (snd (checkAndMarkExpired now m)) k = lease_holder t m k"
    by (auto simp: lease_holder_def checkAndMarkExpired_def map_get_map_values mark_expired_def
        isLeaseExpired_def split: option.splits)
  moreover have "checkAndMarkExpired now (snd (checkAndMarkExpired now m)) = ([], snd (checkAndMarkExpired now m))"
    using none by (subst checkAndMarkExpired_def) (simp add: checkAndMarkExpired_def fixed comp_def case_prod_beta)
  ultimately show ?thesis
    using none assms by (simp add: jm.lookup_entries)
qed

theorem check_and_mark_expired_complete_witness:
  "getExpiredLeases 400000 (snd (checkAndMarkExpired 400000
     (snd (acquire 0 (new_lease_manager None None None) ''job'' ''w1'')))) = []"
  using check_and_mark_expired_complete [of "snd (acquire 0 (new_lease_manager None None None) ''job'' ''w1'')" 400000]
  by (simp add: acquire_def Let_def new_lease_manager_def)

end
