(* ===== verification/Control_Plane.thy ===== *)
theory Control_Plane
  imports Run_Flows Journal Lease Orphan
begin

text \<open>
  \<open>src/src/store/control-plane-store.ts\<close>: the operations of the store that drive a task from its
  creation to its publication. The state is what the store keeps for them: the tasks with their events,
  the idempotency keys of publications, the audit log and the checkpoints. The identifiers an operation
  draws are the fields of \<open>fresh_ids\<close>. Persistence (every operation also schedules a write to Redis)
  is not part of the state. \<open>Control_Plane_Steps\<close> makes a transition system of the operations.
\<close>

record control_plane =
  store :: task_store
  publishIdempotencyKeys :: "(string, string) jsmap"
  auditEvents :: audit_log
  checkpoints :: checkpoint_log

record fresh_ids =
  fresh_task :: string
  fresh_event :: string
  fresh_audit :: string
  fresh_checkpoint :: string
  fresh_run :: string
  fresh_token :: string

definition empty_control_plane :: control_plane where
  "empty_control_plane = \<lparr>store = empty_store, publishIdempotencyKeys = [], auditEvents = [], checkpoints = []\<rparr>"

text \<open>An operation of the task service within the control plane.\<close>

definition in_store :: "(task_store \<Rightarrow> (error, 'a, task_store) outcome) \<Rightarrow> control_plane \<Rightarrow> (error, 'a, control_plane) outcome" where
  "in_store f cp = (case f (store cp) of (r, s') \<Rightarrow> (r, cp\<lparr>store := s'\<rparr>))"

definition cp_move :: "time \<Rightarrow> string \<Rightarrow> control_plane mover" where
  "cp_move now eid t to inp = in_store (transitionTask now eid t to inp)"

definition cp_lookup :: "control_plane \<Rightarrow> string \<Rightarrow> task option" where
  "cp_lookup cp = getTask (store cp)"

definition cp_requireTask :: "string \<Rightarrow> control_plane \<Rightarrow> (error, task, control_plane) outcome" where
  "cp_requireTask tid = in_store (requireTask tid)"

definition emit_audit :: "time \<Rightarrow> string \<Rightarrow> string \<Rightarrow> string \<Rightarrow> payload \<Rightarrow> control_plane \<Rightarrow> control_plane" where
  "emit_audit now aid tid ty p cp = cp\<lparr>auditEvents := snd (emitAuditEvent now aid tid ty p no_options (auditEvents cp))\<rparr>"

definition add_checkpoint :: "checkpoint \<Rightarrow> control_plane \<Rightarrow> control_plane" where
  "add_checkpoint c cp = cp\<lparr>checkpoints := snd (recordCheckpoint c (checkpoints cp))\<rparr>"

definition require_in_state :: "string \<Rightarrow> task_state \<Rightarrow> control_plane \<Rightarrow> (error, task, control_plane) outcome" where
  "require_in_state tid st = and_then (cp_requireTask tid)
     (\<lambda>t. if state t \<noteq> st then throw (Task_Invalid_State st (state t)) else return t)"

subsection \<open>Tasks\<close>

definition cp_createTask :: "time \<Rightarrow> fresh_ids \<Rightarrow> create_request \<Rightarrow> control_plane \<Rightarrow> (error, task, control_plane) outcome" where
  "cp_createTask now fr r = in_store (createTask now (fresh_task fr) (fresh_event fr) r)"

definition cp_updateTask :: "time \<Rightarrow> string \<Rightarrow> task_update \<Rightarrow> control_plane \<Rightarrow> (error, task, control_plane) outcome" where
  "cp_updateTask now tid u = in_store (updateTask now tid u)"

definition cp_cancel :: "time \<Rightarrow> fresh_ids \<Rightarrow> string \<Rightarrow> control_plane \<Rightarrow> (error, task, control_plane) outcome" where
  "cp_cancel now fr tid = in_store (cancel now (fresh_event fr) tid)"

definition cp_recordTransition :: "time \<Rightarrow> string \<Rightarrow> transition_event \<Rightarrow> control_plane \<Rightarrow> (error, transition_event, control_plane) outcome" where
  "cp_recordTransition now tid ev = in_store (recordTransition now tid ev)"

subsection \<open>Integration\<close>

definition checkpoint_char :: "char \<Rightarrow> bool" where
  "checkpoint_char c = (let n = of_char c :: nat in (97 \<le> n \<and> n \<le> 122) \<or> (65 \<le> n \<and> n \<le> 90) \<or>
     (48 \<le> n \<and> n \<le> 57) \<or> c = CHR ''.'' \<or> c = CHR ''_'' \<or> c = CHR ''-'')"

definition formatCheckpointSha :: "string \<Rightarrow> string" where
  "formatCheckpointSha value = (let s = take 7 (filter checkpoint_char value) in if s = [] then ''unknown'' else s)"

definition integrate :: "time \<Rightarrow> fresh_ids \<Rightarrow> string \<Rightarrow> string \<Rightarrow> control_plane \<Rightarrow> (error, task, control_plane) outcome" where
  "integrate now fr tid baseSha = and_then (require_in_state tid Accepted)
     (\<lambda>t. startIntegration (cp_move now (fresh_event fr)) now (fresh_run fr) t baseSha)"

text \<open>What \<open>completeIntegrate\<close> records when the request names a new SHA of main.\<close>

definition record_main_update :: "time \<Rightarrow> fresh_ids \<Rightarrow> task \<Rightarrow> complete_integrate_request \<Rightarrow> control_plane \<Rightarrow> control_plane" where
  "record_main_update now fr t r cp =
     (if falsy (ci_main_sha r) then cp
      else let sha = str_or_empty (ci_main_sha r);
               cp1 = emit_audit now (fresh_audit fr) (task_id t) ''run.main_updated''
                 [(''main_updated_sha'', P_Str sha), (''integration_head_sha'', P_Opt (ci_head_sha r)),
                  (''checks_passed'', P_Bool (ci_checks_passed r))] cp
           in add_checkpoint \<lparr>checkpoint_id = fresh_checkpoint fr, checkpoint_type = Code_Checkpoint,
                checkpoint_stage = CP_Integrate, checkpoint_reference = sha, checkpoint_created_at = now,
                checkpoint_task_id = task_id t, checkpoint_run_id = task_id t,
                checkpoint_summary = Some (''Main updated to '' @ formatCheckpointSha sha), checkpoint_actor = None\<rparr> cp1)"

definition completeIntegrate :: "time \<Rightarrow> fresh_ids \<Rightarrow> string \<Rightarrow> complete_integrate_request \<Rightarrow> control_plane \<Rightarrow>
    (error, integrate_response, control_plane) outcome" where
  "completeIntegrate now fr tid r = and_then (require_in_state tid Integrating) (\<lambda>t.
     if integration t = None then throw Integration_State_Not_Found
     else and_then (completeIntegration (cp_move now (fresh_event fr)) now t r)
       (\<lambda>resp cp. (Inr resp, record_main_update now fr t r cp)))"

subsection \<open>Publishing\<close>

text \<open>The task an earlier publication with this key belongs to, if it is still there.\<close>

definition idempotent_task :: "publish_request \<Rightarrow> control_plane \<Rightarrow> (string \<times> task) option" where
  "idempotent_task r cp = (if pq_idempotency_key r = [] then None
     else case map_get (publishIdempotencyKeys cp) (pq_idempotency_key r) of
       None \<Rightarrow> None
     | Some k \<Rightarrow> if k = [] then None else map_option (Pair k) (getTask (store cp) k))"

definition start_publication :: "time \<Rightarrow> fresh_ids \<Rightarrow> task \<Rightarrow> publish_request \<Rightarrow> control_plane \<Rightarrow> (error, task, control_plane) outcome" where
  "start_publication now fr t r = and_then (startPublish (cp_move now (fresh_event fr)) now (fresh_run fr) (fresh_token fr) t r)
     (\<lambda>res cp. (Inr res, emit_audit now (fresh_audit fr) (task_id t) ''run.publishRequested''
        [(''mode'', P_Mode (pq_mode r)), (''idempotency_key'', P_Str (pq_idempotency_key r)),
         (''approval_required'', P_Opt_Bool (approval_required (plan_of t)))] cp))"

definition remember_key :: "publish_request \<Rightarrow> task \<Rightarrow> control_plane \<Rightarrow> control_plane" where
  "remember_key r t cp = (if pq_idempotency_key r = [] then cp
     else cp\<lparr>publishIdempotencyKeys := map_set (publishIdempotencyKeys cp) (pq_idempotency_key r) (task_id t)\<rparr>)"

definition publish :: "time \<Rightarrow> fresh_ids \<Rightarrow> string \<Rightarrow> publish_request \<Rightarrow> control_plane \<Rightarrow> (error, task, control_plane) outcome" where
  "publish now fr tid r = and_then (require_in_state tid Integrated) (\<lambda>t cp.
     case idempotent_task r cp of
       Some (k, existing) \<Rightarrow> (Inr existing, emit_audit now (fresh_audit fr) (task_id t) ''run.publishIdempotent''
          [(''idempotency_key'', P_Str (pq_idempotency_key r)), (''existing_task_id'', P_Str k), (''mode'', P_Mode (pq_mode r))] cp)
     | None \<Rightarrow> start_publication now fr t r (remember_key r t cp))"

definition approval_checkpoint :: "time \<Rightarrow> fresh_ids \<Rightarrow> string \<Rightarrow> checkpoint" where
  "approval_checkpoint now fr tid = \<lparr>checkpoint_id = fresh_checkpoint fr, checkpoint_type = Approval_Checkpoint,
     checkpoint_stage = CP_Publish, checkpoint_reference = ''approval:'' @ tid @ '':publish'', checkpoint_created_at = now,
     checkpoint_task_id = tid, checkpoint_run_id = tid, checkpoint_summary = Some ''Publish approved'',
     checkpoint_actor = Some ''operator''\<rparr>"

definition cp_approvePublish :: "time \<Rightarrow> fresh_ids \<Rightarrow> string \<Rightarrow> string \<Rightarrow> control_plane \<Rightarrow> (error, task, control_plane) outcome" where
  "cp_approvePublish now fr tid tok = and_then (require_in_state tid Publish_Pending_Approval) (\<lambda>t.
     and_then (approvePublish (cp_move now (fresh_event fr)) now (fresh_run fr) t tok)
       (\<lambda>res cp. (Inr res, add_checkpoint (approval_checkpoint now fr (task_id t)) cp)))"

definition cp_completePublish :: "time \<Rightarrow> fresh_ids \<Rightarrow> string \<Rightarrow> complete_publish_request \<Rightarrow> control_plane \<Rightarrow> (error, task, control_plane) outcome" where
  "cp_completePublish now fr tid r = and_then (require_in_state tid Publishing) (\<lambda>t.
     and_then (completePublish (cp_move now (fresh_event fr)) now t r)
       (\<lambda>res cp. (Inr res, emit_audit now (fresh_audit fr) (task_id t) ''run.publishCompleted''
          [(''external_refs'', P_Refs (cp_external_refs r)), (''rollback_notes'', P_Opt (cp_rollback_notes r))] cp)))"

subsection \<open>Runs\<close>

definition cp_move_each :: "time \<Rightarrow> (string \<Rightarrow> string) \<Rightarrow> control_plane mover" where
  "cp_move_each now eids t = cp_move now (eids (task_id t)) t"

definition cp_checkTimeouts :: "time \<Rightarrow> (string \<Rightarrow> string) \<Rightarrow> control_plane \<Rightarrow> (error, task list, control_plane) outcome" where
  "cp_checkTimeouts now eids cp = checkTimeouts (cp_move_each now eids) now (map_values (tasks (store cp))) cp"

definition cp_updateIntegrationProgress :: "time \<Rightarrow> string \<Rightarrow> int \<Rightarrow> control_plane \<Rightarrow> (error, task, control_plane) outcome" where
  "cp_updateIntegrationProgress now tid p = and_then (require_in_state tid Integrating) (\<lambda>t cp.
     let t' = updateIntegrationProgress now t p in (Inr t', cp\<lparr>store := setTask tid t' (store cp)\<rparr>))"

definition cp_updatePublishProgress :: "time \<Rightarrow> string \<Rightarrow> int \<Rightarrow> control_plane \<Rightarrow> (error, task, control_plane) outcome" where
  "cp_updatePublishProgress now tid p = and_then (require_in_state tid Publishing) (\<lambda>t cp.
     let t' = updatePublishProgress now t p in (Inr t', cp\<lparr>store := setTask tid t' (store cp)\<rparr>))"

definition cp_getActiveRuns :: "control_plane \<Rightarrow> (task \<times> run_meta \<times> run_kind) list" where
  "cp_getActiveRuns cp = getActiveRuns (map_values (tasks (store cp)))"

subsection \<open>Evidence\<close>

record acknowledgement =
  ack_id :: string
  ack_task_id :: string
  ack_evidence_id :: string
  ack_reviewed_by :: string
  ack_purpose :: "string option"
  acknowledged_at :: time

definition acknowledgeEvidence :: "time \<Rightarrow> fresh_ids \<Rightarrow> string \<Rightarrow> string \<Rightarrow> string option \<Rightarrow> string option \<Rightarrow> control_plane \<Rightarrow>
    (error, acknowledgement, control_plane) outcome" where
  "acknowledgeEvidence now fr tid evidenceId reviewedBy purpose = and_then (cp_requireTask tid) (\<lambda>_ cp.
     if js_trim evidenceId = [] then (Inl (Plain_Error ''evidence_id is required''), cp)
     else if (case reviewedBy of None \<Rightarrow> True | Some w \<Rightarrow> js_trim w = []) then (Inl (Plain_Error ''reviewed_by is required''), cp)
     else let who = str_or_empty reviewedBy;
              why = (if falsy purpose then None else purpose);
              (ev, log) = emitAuditEvent now (fresh_audit fr) tid ''evidence.acknowledged''
                ([(''evidence_id'', P_Str evidenceId), (''reviewed_by'', P_Str who)] @
                 (case why of Some p \<Rightarrow> [(''purpose'', P_Str p)] | None \<Rightarrow> []))
                \<lparr>ao_run_id = Some tid, ao_job_id = None, ao_actor_type = Some Human, ao_actor_id = Some who\<rparr> (auditEvents cp)
          in (Inr \<lparr>ack_id = ae_id ev, ack_task_id = tid, ack_evidence_id = evidenceId, ack_reviewed_by = who,
                ack_purpose = why, acknowledged_at = ae_occurred_at ev\<rparr>, cp\<lparr>auditEvents := log\<rparr>))"

subsection \<open>Orphans\<close>

definition taskStateToStage :: "task_state \<Rightarrow> run_stage option" where
  "taskStateToStage s = (case s of
       Queued \<Rightarrow> Some (Stage Plan) | Planning \<Rightarrow> Some (Stage Plan) | Planned \<Rightarrow> Some (Stage Plan)
     | Developing \<Rightarrow> Some (Stage Dev) | Dev_Completed \<Rightarrow> Some (Stage Dev)
     | Accepting \<Rightarrow> Some (Stage Acceptance) | Accepted \<Rightarrow> Some (Stage Acceptance)
     | Rework_Required \<Rightarrow> Some (Stage Dev)
     | Integrating \<Rightarrow> Some Integrating_Stage | Integrated \<Rightarrow> Some Integrating_Stage
     | Publish_Pending_Approval \<Rightarrow> Some Publishing_Stage | Publishing \<Rightarrow> Some Publishing_Stage
     | Published \<Rightarrow> Some Publishing_Stage
     | Cancelled \<Rightarrow> Some (Stage Plan) | Failed \<Rightarrow> Some (Stage Plan) | Blocked \<Rightarrow> Some (Stage Plan)
     | Completed \<Rightarrow> None)"

definition ORPHAN_ACTIVE_STATES :: "task_state list" where
  "ORPHAN_ACTIVE_STATES = [Planning, Developing, Accepting, Integrating, Publishing]"

text \<open>One task in \<open>getActiveJobsForOrphanScan\<close>; the job service and the lease manager are looked up by job.\<close>

definition orphan_job_info :: "(string \<Rightarrow> worker_job option) \<Rightarrow> lease_manager \<Rightarrow> task \<Rightarrow> job_info list" where
  "orphan_job_info getJob lm t = (case active_job_id t of None \<Rightarrow> [] | Some j \<Rightarrow>
     if state t \<notin> set ORPHAN_ACTIVE_STATES \<or> j = [] then []
     else case (getJob j, getLease lm j, taskStateToStage (state t)) of
       (Some job, Some l, Some stage) \<Rightarrow> if job_lease_expires_at job = None then []
         else [\<lparr>ji_job_id = j, ji_task_id = task_id t, ji_stage = stage, ji_lease_expires_at = lease_expires_at l,
            ji_last_heartbeat_at = last_heartbeat_at l,
            ji_retry_count = (case retry_counts t (job_stage job) of Some n \<Rightarrow> n | None \<Rightarrow> 0)\<rparr>]
     | _ \<Rightarrow> [])"

definition getActiveJobsForOrphanScan :: "(string \<Rightarrow> worker_job option) \<Rightarrow> lease_manager \<Rightarrow> control_plane \<Rightarrow> job_info list" where
  "getActiveJobsForOrphanScan getJob lm cp = concat (map (orphan_job_info getJob lm) (map_values (tasks (store cp))))"

definition orphan_block_update :: "task_state \<Rightarrow> string \<Rightarrow> bool \<Rightarrow> task_update" where
  "orphan_block_update resume reason orphaned = no_update\<lparr>u_blocked_context := Some \<lparr>resume_state = resume,
     block_reason = reason, block_waiting_on = None, capability_missing = None, lock_conflict = None,
     block_loop_fingerprint = None, orphaned_run = Some orphaned\<rparr>\<rparr>"

definition blockOrphanedTask :: "time \<Rightarrow> fresh_ids \<Rightarrow> string \<Rightarrow> string \<Rightarrow> task_state \<Rightarrow> bool \<Rightarrow> control_plane \<Rightarrow> (error, unit, control_plane) outcome" where
  "blockOrphanedTask now fr tid reason resume orphaned cp = (case cp_lookup cp tid of
       None \<Rightarrow> (Inr (), cp)
     | Some t \<Rightarrow> and_then (cp_move now (fresh_event fr) t Blocked (mk_input Control_Plane ''orphan_scanner'' reason))
         (\<lambda>_ cp1. if cp_lookup cp1 tid = None then (Inr (), cp1)
            else and_then (cp_updateTask now tid (orphan_block_update resume reason orphaned)) (\<lambda>_. return ()) cp1) cp)"

text \<open>
  The end of \<open>restoreCoreState\<close>: the tasks of the jobs that another executor instance left running
  (\<open>jobs\<close>) are blocked and the recovery is recorded.
\<close>

definition restart_block :: "worker_job \<Rightarrow> task \<Rightarrow> task" where
  "restart_block job t = t\<lparr>active_job_id := None, blocked_context := Some
     \<lparr>resume_state = stageToActiveState (job_stage job), block_reason = ''executor_instance_restarted'',
      block_waiting_on = Some W_Worker, capability_missing = None, lock_conflict = None,
      block_loop_fingerprint = None, orphaned_run = Some True\<rparr>\<rparr>"

definition recover_job :: "time \<Rightarrow> string \<Rightarrow> fresh_ids \<Rightarrow> worker_job \<Rightarrow> control_plane \<Rightarrow> (error, unit, control_plane) outcome" where
  "recover_job now instance_id fr job cp = (case cp_lookup cp (job_task_id job) of
       None \<Rightarrow> (Inr (), cp)
     | Some t \<Rightarrow> if state t = Blocked \<or> isTerminal (state t) then (Inr (), cp)
        else and_then (cp_move now (fresh_event fr) (restart_block job t) Blocked
            \<lparr>in_actor_type = Control_Plane, in_actor_id = instance_id,
             in_reason = ''executor instance restarted; worker request was not resubmitted'',
             in_job_id = Some (job_id job), in_artifact_ids = None\<rparr>)
          (\<lambda>_ cp1. (Inr (), emit_audit now (fresh_audit fr) (job_task_id job) ''run.executorOrphanRecovered''
             [(''job_id'', P_Str (job_id job)), (''previous_executor_instance_id'',
               P_Str (case executor_instance_id job of Some i \<Rightarrow> i | None \<Rightarrow> ''legacy'')),
              (''recovery_action'', P_Str ''block_without_resubmit'')] cp1)) cp)"

fun recover_jobs :: "time \<Rightarrow> string \<Rightarrow> (worker_job \<times> fresh_ids) list \<Rightarrow> control_plane \<Rightarrow> (error, unit, control_plane) outcome" where
  "recover_jobs now instance_id [] cp = (Inr (), cp)"
| "recover_jobs now instance_id ((job, fr) # js) cp =
     and_then (recover_job now instance_id fr job) (\<lambda>_. recover_jobs now instance_id js) cp"

subsection \<open>The context of the control plane\<close>

lemma in_store_simps:
  "in_store f cp = (r, cp') \<longleftrightarrow> f (store cp) = (r, store cp') \<and> cp' = cp\<lparr>store := store cp'\<rparr>"
  by (cases "f (store cp)"; cases cp; cases cp') (auto simp: in_store_def)

interpretation cp: transition_ctx "cp_move now eid" cp_lookup
proof unfold_locales
  fix t t' :: task and to inp s s' ev k
  show "\<not> canTransition (state t) to \<Longrightarrow> cp_move now eid t to inp s = (Inl (Transition_Not_Allowed (state t) to), s)"
    by (simp add: cp_move_def in_store_def ts.refused del: canTransition_code)
  show "canTransition (state t) to \<Longrightarrow> \<exists>ev t' s'. cp_move now eid t to inp s = (Inr (ev, t'), s')"
    using ts.granted [of t to now eid inp "store s"]
    by (force simp: cp_move_def in_store_def simp del: canTransition_code)
  assume "cp_move now eid t to inp s = (Inr (ev, t'), s')"
  then have mv: "transitionTask now eid t to inp (store s) = (Inr (ev, t'), store s')"
    unfolding cp_move_def in_store_simps by blast
  show "same_work t t' \<and> state t' = to \<and> version t' = version t + 1 \<and>
      blocked_context t' = (if to = Blocked then blocked_context t else None) \<and>
      (isTerminal to \<longrightarrow> completed_at t' \<noteq> None) \<and>
      from_state ev = state t \<and> to_state ev = to \<and> event_task_id ev = task_id t"
    by (rule ts.moved [OF mv])
  show "cp_lookup s' k = (if k = task_id t then Some t' else cp_lookup s k)"
    unfolding cp_lookup_def by (rule ts.stored [OF mv])
qed

end
