(* ===== verification/Risk.thy ===== *)
theory Risk
  imports Task_Model
begin

text \<open>
  \<open>src/src/domain/risk\<close> (\<open>RiskAssessor\<close> and \<open>RiskIntegrationService\<close>: from the factors of a change to
  its risk level, and from a worker result to these factors) and \<open>src/src/domain/side-effect\<close>
  (\<open>SideEffectAnalyzer\<close>). Risk levels are ordered (\<open>linorder\<close>), which the impact of a set of side
  effects is the maximum for.
\<close>

subsection \<open>Risk levels in order\<close>

instantiation risk_level :: linorder
begin

fun risk_rank :: "risk_level \<Rightarrow> nat" where
  "risk_rank Low = 0"
| "risk_rank Medium = 1"
| "risk_rank High = 2"

definition less_eq_risk_level :: "risk_level \<Rightarrow> risk_level \<Rightarrow> bool" where
  "less_eq_risk_level a b = (risk_rank a \<le> risk_rank b)"

definition less_risk_level :: "risk_level \<Rightarrow> risk_level \<Rightarrow> bool" where
  "less_risk_level a b = (risk_rank a < risk_rank b)"

instance
proof
  fix a b c :: risk_level
  show "a < b \<longleftrightarrow> a \<le> b \<and> \<not> b \<le> a" by (auto simp: less_eq_risk_level_def less_risk_level_def)
  show "a \<le> a" by (simp add: less_eq_risk_level_def)
  show "a \<le> b \<Longrightarrow> b \<le> c \<Longrightarrow> a \<le> c" by (simp add: less_eq_risk_level_def)
  show "a \<le> b \<Longrightarrow> b \<le> a \<Longrightarrow> a = b"
    by (cases a; cases b) (simp_all add: less_eq_risk_level_def)
  show "a \<le> b \<or> b \<le> a" by (auto simp: less_eq_risk_level_def)
qed

end

lemma risk_le_simps [simp]: "Low \<le> a" "a \<le> High" "(High \<le> a) = (a = High)" "(a \<le> Low) = (a = Low)"
  by (cases a; simp add: less_eq_risk_level_def)+

subsection \<open>Assessment\<close>

datatype factor_kind = F_File_Count | F_Test_Coverage | F_Secrets_Referenced | F_Network_Access
  | F_Destructive_Tool | F_Protected_Path_Write | F_Core_Area_Modified | F_Modified_Areas
  | F_Config_Modified | F_Dependencies_Changed | F_Escalation_Requested | F_Regression_Test_Passed

datatype factor_value = V_Bool bool | V_Num int | V_List "string list"

type_synonym risk_factor = "factor_kind \<times> factor_value"

datatype risk_reason = Secrets_Referenced | Network_Accessed | Destructive_Tool_Used | Protected_Path_Written
  | Core_Area_Modified | No_Test_Coverage | Escalation_Requested
  | Config_Modified | Dependencies_Changed | Moderate_Change_Scope | Large_Change_Scope

record risk_assessment =
  ra_level :: risk_level
  ra_reasons :: "risk_reason list"

definition CORE_AREAS :: "string list" where
  "CORE_AREAS = [''src/auth/'', ''src/authentication/'', ''src/payment/'', ''src/payments/'', ''src/security/'',
     ''src/iam/'', ''src/identity/'', ''src/crypto/'', ''src/secrets/'']"

definition MEDIUM_FILE_THRESHOLD :: int where
  "MEDIUM_FILE_THRESHOLD = 5"

definition HIGH_FILE_THRESHOLD :: int where
  "HIGH_FILE_THRESHOLD = 20"

definition touches_core :: "string list \<Rightarrow> bool" where
  "touches_core areas = list_ex (\<lambda>area. list_ex (\<lambda>core. js_includes area core \<or> js_includes core area) CORE_AREAS) areas"

definition high_risk_escalations :: "string list" where
  "high_risk_escalations = [''network_access'', ''secret_access'', ''destructive_tool'', ''protected_path_write'']"

text \<open>The reason \<open>checkForcedHigh\<close> pushes for one factor, if it returns true.\<close>

fun checkForcedHigh :: "risk_factor list \<Rightarrow> risk_factor \<Rightarrow> risk_reason option" where
  "checkForcedHigh fs (F_Secrets_Referenced, v) = (if v = V_Bool True then Some Secrets_Referenced else None)"
| "checkForcedHigh fs (F_Network_Access, v) = (if v = V_Bool True then Some Network_Accessed else None)"
| "checkForcedHigh fs (F_Destructive_Tool, v) = (if v = V_Bool True then Some Destructive_Tool_Used else None)"
| "checkForcedHigh fs (F_Protected_Path_Write, v) = (if v = V_Bool True then Some Protected_Path_Written else None)"
| "checkForcedHigh fs (F_Core_Area_Modified, v) = (if v = V_Bool True then Some Core_Area_Modified else None)"
| "checkForcedHigh fs (F_Modified_Areas, v) = (case v of
     V_List areas \<Rightarrow> if touches_core areas then Some Core_Area_Modified else None | _ \<Rightarrow> None)"
| "checkForcedHigh fs (F_Test_Coverage, v) =
     (if v = V_Bool False \<and> \<not> list_ex (\<lambda>(k, w). k = F_Regression_Test_Passed \<and> w = V_Bool True) fs
      then Some No_Test_Coverage else None)"
| "checkForcedHigh fs (F_Escalation_Requested, v) = (case v of
     V_List es \<Rightarrow> if es \<noteq> [] \<and> list_ex (\<lambda>e. e \<in> set high_risk_escalations) es then Some Escalation_Requested else None
   | _ \<Rightarrow> None)"
| "checkForcedHigh fs (_, v) = None"

fun checkMediumRisk :: "risk_reason list \<Rightarrow> risk_factor \<Rightarrow> risk_reason list" where
  "checkMediumRisk rs (F_Config_Modified, v) =
     (if v = V_Bool True \<and> Config_Modified \<notin> set rs then rs @ [Config_Modified] else rs)"
| "checkMediumRisk rs (F_Dependencies_Changed, v) =
     (if v = V_Bool True \<and> Dependencies_Changed \<notin> set rs then rs @ [Dependencies_Changed] else rs)"
| "checkMediumRisk rs (_, v) = rs"

fun option_list :: "'a option \<Rightarrow> 'a list" where
  "option_list None = []"
| "option_list (Some x) = [x]"

definition file_count :: "risk_factor list \<Rightarrow> int" where
  "file_count fs = (case find (\<lambda>(k, _). k = F_File_Count) fs of Some (_, V_Num n) \<Rightarrow> n | _ \<Rightarrow> 1)"

definition assessRisk :: "risk_factor list \<Rightarrow> risk_assessment" where
  "assessRisk fs =
     (let forced = concat (map (\<lambda>f. option_list (checkForcedHigh fs f)) fs) in
      if forced \<noteq> [] then \<lparr>ra_level = High, ra_reasons = forced\<rparr>
      else let medium = foldl checkMediumRisk forced fs; n = file_count fs in
        if medium \<noteq> [] then \<lparr>ra_level = Medium, ra_reasons = medium\<rparr>
        else if n \<ge> HIGH_FILE_THRESHOLD then \<lparr>ra_level = High, ra_reasons = [Large_Change_Scope]\<rparr>
        else if n \<ge> MEDIUM_FILE_THRESHOLD then \<lparr>ra_level = Medium, ra_reasons = [Moderate_Change_Scope]\<rparr>
        else \<lparr>ra_level = Low, ra_reasons = []\<rparr>)"

lemma forced_Nil_iff: "concat (map (\<lambda>f. option_list (checkForcedHigh fs f)) gs) = [] \<longleftrightarrow>
    (\<forall>f \<in> set gs. checkForcedHigh fs f = None)"
proof (induction gs)
  case (Cons g gs)
  then show ?case by (cases "checkForcedHigh fs g") auto
qed simp

lemma medium_Nil_iff: "foldl checkMediumRisk rs fs = [] \<longleftrightarrow>
    rs = [] \<and> (F_Config_Modified, V_Bool True) \<notin> set fs \<and> (F_Dependencies_Changed, V_Bool True) \<notin> set fs"
proof (induction fs arbitrary: rs)
  case (Cons f fs)
  obtain k v where f: "f = (k, v)" by (cases f)
  show ?case by (cases k) (auto simp: f Cons)
qed simp

text \<open>
  The level of an assessment: high exactly when some factor forces it, or when no configuration
  or dependency change is reported and at least 20 files are touched; low exactly when nothing forces
  high, no such change is reported and fewer than 5 files are touched. In particular the scale is not
  monotone: reporting a configuration change in addition turns a large change from high to medium.
\<close>

theorem assess_risk_level:
  "(ra_level (assessRisk fs) = High \<longleftrightarrow> (\<exists>f \<in> set fs. checkForcedHigh fs f \<noteq> None) \<or>
      ((F_Config_Modified, V_Bool True) \<notin> set fs \<and> (F_Dependencies_Changed, V_Bool True) \<notin> set fs \<and> 20 \<le> file_count fs)) \<and>
   (ra_level (assessRisk fs) = Low \<longleftrightarrow> \<not> (\<exists>f \<in> set fs. checkForcedHigh fs f \<noteq> None) \<and>
      (F_Config_Modified, V_Bool True) \<notin> set fs \<and> (F_Dependencies_Changed, V_Bool True) \<notin> set fs \<and> file_count fs < 5) \<and>
   ra_level (assessRisk [(F_File_Count, V_Num 40), (F_Config_Modified, V_Bool True)])
     < ra_level (assessRisk [(F_File_Count, V_Num 40)])"
proof (intro conjI)
  show "ra_level (assessRisk fs) = High \<longleftrightarrow> (\<exists>f \<in> set fs. checkForcedHigh fs f \<noteq> None) \<or>
      ((F_Config_Modified, V_Bool True) \<notin> set fs \<and> (F_Dependencies_Changed, V_Bool True) \<notin> set fs \<and> 20 \<le> file_count fs)"
    unfolding assessRisk_def Let_def forced_Nil_iff medium_Nil_iff
    by (auto simp: forced_Nil_iff HIGH_FILE_THRESHOLD_def)
  show "ra_level (assessRisk fs) = Low \<longleftrightarrow> \<not> (\<exists>f \<in> set fs. checkForcedHigh fs f \<noteq> None) \<and>
      (F_Config_Modified, V_Bool True) \<notin> set fs \<and> (F_Dependencies_Changed, V_Bool True) \<notin> set fs \<and> file_count fs < 5"
    unfolding assessRisk_def Let_def forced_Nil_iff medium_Nil_iff
    by (auto simp: forced_Nil_iff HIGH_FILE_THRESHOLD_def MEDIUM_FILE_THRESHOLD_def)
  show "ra_level (assessRisk [(F_File_Count, V_Num 40), (F_Config_Modified, V_Bool True)])
     < ra_level (assessRisk [(F_File_Count, V_Num 40)])"
    by (simp add: assessRisk_def file_count_def HIGH_FILE_THRESHOLD_def less_risk_level_def)
qed

subsection \<open>Side effects\<close>

record side_effect_result =
  se_categories :: "side_effect_category list"
  se_requires_approval :: bool
  se_risk_impact :: risk_level

definition APPROVAL_REQUIRED_CATEGORIES :: "side_effect_category list" where
  "APPROVAL_REQUIRED_CATEGORIES = [Network_Access, Workspace_Outside_Write, Protected_Path_Write, Destructive_Tool,
     Secret_Access, External_Release]"

definition HIGH_RISK_CATEGORIES :: "side_effect_category list" where
  "HIGH_RISK_CATEGORIES = [Secret_Access, Destructive_Tool, Protected_Path_Write]"

definition MEDIUM_RISK_CATEGORIES :: "side_effect_category list" where
  "MEDIUM_RISK_CATEGORIES = [Network_Access, Workspace_Outside_Write, External_Release]"

fun escalation_category :: "escalation_kind \<Rightarrow> side_effect_category option" where
  "escalation_category E_Network_Access = Some Network_Access"
| "escalation_category E_Workspace_Outside_Write = Some Workspace_Outside_Write"
| "escalation_category E_Protected_Path_Write = Some Protected_Path_Write"
| "escalation_category E_Destructive_Tool = Some Destructive_Tool"
| "escalation_category E_Secret_Access = Some Secret_Access"
| "escalation_category E_Human_Verdict = None"

definition determineRiskImpact :: "side_effect_category list \<Rightarrow> risk_level" where
  "determineRiskImpact cs =
     (if cs = [] then Low
      else if list_ex (\<lambda>c. c \<in> set HIGH_RISK_CATEGORIES) cs then High
      else if list_ex (\<lambda>c. c \<in> set MEDIUM_RISK_CATEGORIES) cs then Medium else Low)"

definition analyzeSideEffects :: "escalation_kind list \<Rightarrow> publish_target list option \<Rightarrow> side_effect_result" where
  "analyzeSideEffects es targets =
     (let cs0 = concat (map (\<lambda>e. option_list (escalation_category e)) es);
          cs = (case targets of Some ts \<Rightarrow>
              if External_Api \<in> set ts \<and> External_Release \<notin> set cs0 then cs0 @ [External_Release] else cs0
            | None \<Rightarrow> cs0)
      in \<lparr>se_categories = cs,
          se_requires_approval = list_ex (\<lambda>c. c \<in> set APPROVAL_REQUIRED_CATEGORIES) cs,
          se_risk_impact = determineRiskImpact cs\<rparr>)"

definition isAllowed :: "side_effect_category list \<Rightarrow> side_effect_category list \<Rightarrow> bool" where
  "isAllowed cs allowed = (if cs = [] then True else list_all (\<lambda>c. c \<in> set allowed) cs)"

fun impact_of :: "side_effect_category \<Rightarrow> risk_level" where
  "impact_of Secret_Access = High"
| "impact_of Destructive_Tool = High"
| "impact_of Protected_Path_Write = High"
| "impact_of _ = Medium"

lemma determineRiskImpact_Max: "determineRiskImpact cs = Max (insert Low (impact_of ` set cs))"
proof (rule Max_eqI [symmetric])
  have "impact_of c = High \<longleftrightarrow> c \<in> set HIGH_RISK_CATEGORIES" for c
    by (cases c) (auto simp: HIGH_RISK_CATEGORIES_def)
  moreover have "c \<in> set HIGH_RISK_CATEGORIES \<or> c \<in> set MEDIUM_RISK_CATEGORIES" for c
    by (cases c) (auto simp: HIGH_RISK_CATEGORIES_def MEDIUM_RISK_CATEGORIES_def)
  moreover have "impact_of c \<noteq> Low" for c by (cases c) simp_all
  moreover have "a \<le> Medium \<longleftrightarrow> a \<noteq> High" for a by (cases a) (auto simp: less_eq_risk_level_def)
  ultimately show "y \<le> determineRiskImpact cs" if "y \<in> insert Low (impact_of ` set cs)" for y
    using that by (auto simp: determineRiskImpact_def list_ex_iff) blast+
  show "determineRiskImpact cs \<in> insert Low (impact_of ` set cs)"
    using \<open>\<And>c. impact_of c = High \<longleftrightarrow> c \<in> set HIGH_RISK_CATEGORIES\<close> \<open>\<And>c. impact_of c \<noteq> Low\<close>
    by (auto simp: determineRiskImpact_def list_ex_iff) (metis image_eqI risk_level.exhaust)+
qed simp

text \<open>
  The side effects of a run: they are exactly the categories of its escalation requests other
  than a human verdict, and external_release if it publishes to an external API; approval is required
  exactly when there are any; the risk impact is the highest impact of a category; a run is allowed
  exactly when every category is.
\<close>

theorem side_effects_analysis:
  "set (se_categories (analyzeSideEffects es targets)) =
      {c. \<exists>e \<in> set es. escalation_category e = Some c} \<union>
      {c. c = External_Release \<and> (\<exists>ts. targets = Some ts \<and> External_Api \<in> set ts)} \<and>
   (se_requires_approval (analyzeSideEffects es targets) \<longleftrightarrow> se_categories (analyzeSideEffects es targets) \<noteq> []) \<and>
   se_risk_impact (analyzeSideEffects es targets) =
      Max (insert Low (impact_of ` set (se_categories (analyzeSideEffects es targets)))) \<and>
   (isAllowed cs allowed \<longleftrightarrow> set cs \<subseteq> set allowed)"
proof (intro conjI)
  have opt: "set (option_list x) = {c. x = Some c}" for x :: "side_effect_category option" by (cases x) auto
  have all: "c \<in> set APPROVAL_REQUIRED_CATEGORIES" for c
    by (cases c) (simp_all add: APPROVAL_REQUIRED_CATEGORIES_def)
  have any: "list_ex (\<lambda>c. c \<in> set APPROVAL_REQUIRED_CATEGORIES) xs \<longleftrightarrow> xs \<noteq> []" for xs
    by (cases xs) (simp_all add: all)
  show "set (se_categories (analyzeSideEffects es targets)) =
      {c. \<exists>e \<in> set es. escalation_category e = Some c} \<union>
      {c. c = External_Release \<and> (\<exists>ts. targets = Some ts \<and> External_Api \<in> set ts)}"
    by (auto simp: analyzeSideEffects_def Let_def opt split: option.splits if_splits)
  show "se_requires_approval (analyzeSideEffects es targets) \<longleftrightarrow> se_categories (analyzeSideEffects es targets) \<noteq> []"
    unfolding analyzeSideEffects_def Let_def by (simp add: any)
  show "se_risk_impact (analyzeSideEffects es targets) =
      Max (insert Low (impact_of ` set (se_categories (analyzeSideEffects es targets))))"
    by (simp add: analyzeSideEffects_def Let_def determineRiskImpact_Max)
  show "isAllowed cs allowed \<longleftrightarrow> set cs \<subseteq> set allowed"
    by (auto simp: isAllowed_def list_all_iff)
qed

end
