(* ===== verification/Risk_Integration.thy ===== *)
theory Risk_Integration
  imports Risk
begin

text \<open>
  \<open>src/src/domain/risk/risk-integration-service.ts\<close>: from a worker result to risk factors, and from the
  assessment of \<open>Risk\<close> to recommendations and an acceptance checklist.
\<close>

fun reason_text :: "risk_reason \<Rightarrow> string" where
  "reason_text Secrets_Referenced = ''secrets_referenced''"
| "reason_text Network_Accessed = ''network_access''"
| "reason_text Destructive_Tool_Used = ''destructive_tool''"
| "reason_text Protected_Path_Written = ''protected_path_write''"
| "reason_text Core_Area_Modified = ''core_area_modified''"
| "reason_text No_Test_Coverage = ''no_test_coverage''"
| "reason_text Escalation_Requested = ''escalation_requested''"
| "reason_text Config_Modified = ''config_modified''"
| "reason_text Dependencies_Changed = ''dependencies_changed''"
| "reason_text Moderate_Change_Scope = ''moderate_change_scope''"
| "reason_text Large_Change_Scope = ''large_change_scope''"

fun escalation_name :: "escalation_kind \<Rightarrow> string" where
  "escalation_name E_Network_Access = ''network_access''"
| "escalation_name E_Workspace_Outside_Write = ''workspace_outside_write''"
| "escalation_name E_Protected_Path_Write = ''protected_path_write''"
| "escalation_name E_Destructive_Tool = ''destructive_tool''"
| "escalation_name E_Secret_Access = ''secret_access''"
| "escalation_name E_Human_Verdict = ''human_verdict''"

subsection \<open>The files of a patch\<close>

text \<open>
  One match of \<open>^---\s+a\/.+$\<close> at the start of a line: the text behind the matched line. White space
  after the dashes may include line breaks.
\<close>

definition match_file_header :: "string \<Rightarrow> string option" where
  "match_file_header s = (if take 3 s \<noteq> ''---'' then None
     else let gap = drop 3 s; rest = dropWhile js_whitespace gap in
       if rest = gap then None
       else case rest of
         a # sl # c # cs \<Rightarrow> if a = CHR ''a'' \<and> sl = CHR ''/'' \<and> line_char c then Some (dropWhile line_char cs) else None
       | _ \<Rightarrow> None)"

lemma match_file_header_shorter: "match_file_header s = Some r \<Longrightarrow> length r < length s"
proof -
  assume m: "match_file_header s = Some r"
  define rest where "rest = dropWhile js_whitespace (drop 3 s)"
  from m obtain a sl c cs where "rest = a # sl # c # cs" "r = dropWhile line_char cs"
    by (auto simp: match_file_header_def Let_def rest_def split: if_splits list.splits)
  moreover have "length rest \<le> length s"
    unfolding rest_def using length_dropWhile_le [of js_whitespace "drop 3 s"] by simp
  ultimately show ?thesis using length_dropWhile_le [of line_char cs] by simp
qed

function count_headers :: "bool \<Rightarrow> string \<Rightarrow> nat" where
  "count_headers bol s = (case (if bol then match_file_header s else None) of
       Some r \<Rightarrow> Suc (count_headers False r)
     | None \<Rightarrow> (case s of [] \<Rightarrow> 0 | c # cs \<Rightarrow> count_headers (\<not> line_char c) cs))"
  by pat_completeness auto
termination
  by (relation "measure (\<lambda>(_, s). length s)") (auto split: if_splits dest: match_file_header_shorter)

declare count_headers.simps [simp del]

definition countFilesInPatch :: "string \<Rightarrow> int" where
  "countFilesInPatch patch = int (count_headers True patch)"

subsection \<open>Risk factors\<close>

definition has_escalation :: "escalation_kind \<Rightarrow> escalation list \<Rightarrow> bool" where
  "has_escalation k es = list_ex (\<lambda>e. esc_kind e = k) es"

definition flag_factor :: "bool \<Rightarrow> factor_kind \<Rightarrow> risk_factor list" where
  "flag_factor b k = (if b then [(k, V_Bool True)] else [])"

definition test_factors :: "test_result list \<Rightarrow> risk_factor list" where
  "test_factors ts =
     (if ts = [] then [(F_Test_Coverage, V_Bool False)]
      else let allPassed = list_all (\<lambda>t. test_status t = T_Passed) ts;
               hasRegression = list_ex (\<lambda>t. js_includes (test_suite t) ''regression'') ts
           in [(F_Test_Coverage, V_Bool allPassed)] @ flag_factor (hasRegression \<and> allPassed) F_Regression_Test_Passed)"

definition extractRiskFactorsFromResult :: "worker_result \<Rightarrow> risk_factor list" where
  "extractRiskFactorsFromResult r =
     (let es = requested_escalations r in
      (case result_patch_ref r of Some p \<Rightarrow> if patch_content p = [] then []
         else [(F_File_Count, V_Num (countFilesInPatch (patch_content p)))] | None \<Rightarrow> []) @
      (if es = [] then [] else [(F_Escalation_Requested, V_List (map (\<lambda>e. escalation_name (esc_kind e)) es))]) @
      flag_factor (has_escalation E_Network_Access es) F_Network_Access @
      flag_factor (has_escalation E_Secret_Access es) F_Secrets_Referenced @
      flag_factor (has_escalation E_Destructive_Tool es) F_Destructive_Tool @
      flag_factor (has_escalation E_Protected_Path_Write es) F_Protected_Path_Write @
      test_factors (result_test_results r))"

definition detectCoreAreaModification :: "string list \<Rightarrow> string list \<Rightarrow> bool" where
  "detectCoreAreaModification files areas = list_ex (\<lambda>f. list_ex (\<lambda>a. js_includes f a) areas) files"

definition approved_escalation :: "escalation_kind \<Rightarrow> escalation list \<Rightarrow> bool" where
  "approved_escalation k es = list_ex (\<lambda>e. esc_kind e = k \<and> esc_approved e = Some True) es"

definition escalation_factors :: "escalation list \<Rightarrow> risk_factor list" where
  "escalation_factors es =
     flag_factor (approved_escalation E_Network_Access es) F_Network_Access @
     flag_factor (approved_escalation E_Secret_Access es) F_Secrets_Referenced @
     flag_factor (approved_escalation E_Destructive_Tool es) F_Destructive_Tool @
     flag_factor (approved_escalation E_Protected_Path_Write es) F_Protected_Path_Write"

subsection \<open>Integrated assessment\<close>

record risk_integration_result =
  ri_level :: risk_level
  ri_assessment :: risk_assessment
  forced_high_factors :: "risk_reason list"
  recommendations :: "string list"

definition forced_factors :: "risk_assessment \<Rightarrow> risk_reason list" where
  "forced_factors a = filter (\<lambda>r. r \<noteq> Large_Change_Scope \<and> r \<noteq> Moderate_Change_Scope) (ra_reasons a)"

definition generateRecommendations :: "risk_assessment \<Rightarrow> string list" where
  "generateRecommendations a =
     (let has = (\<lambda>r. r \<in> set (ra_reasons a)) in
      (if ra_level a = High then [''Require additional manual verification before acceptance'',
         ''Consider staging deployment before production''] else []) @
      (if has Secrets_Referenced then [''Ensure secrets are properly masked in logs'',
         ''Verify secret access is logged for audit''] else []) @
      (if has Network_Accessed then [''Verify network requests are to approved endpoints''] else []) @
      (if has Core_Area_Modified then [''Require senior engineer sign-off'', ''Run extended test suite''] else []) @
      (if has No_Test_Coverage then [''Add tests before merging''] else []) @
      (if has Config_Modified then [''Review configuration changes carefully''] else []) @
      (if has Dependencies_Changed then [''Run dependency security scan''] else []))"

definition assessFromFactors :: "risk_factor list \<Rightarrow> risk_level option \<Rightarrow> risk_integration_result" where
  "assessFromFactors fs override =
     (let a = assessRisk fs in
      \<lparr>ri_level = (case override of Some l \<Rightarrow> l | None \<Rightarrow> ra_level a), ri_assessment = a,
       forced_high_factors = forced_factors a, recommendations = generateRecommendations a\<rparr>)"

definition assessFromResult :: "worker_result \<Rightarrow> risk_integration_result" where
  "assessFromResult r =
     (let a = assessRisk (extractRiskFactorsFromResult r) in
      \<lparr>ri_level = ra_level a, ri_assessment = a, forced_high_factors = forced_factors a,
       recommendations = generateRecommendations a\<rparr>)"

definition requiresManualReview :: "risk_integration_result \<Rightarrow> bool" where
  "requiresManualReview r = (ri_level r = High \<or> forced_high_factors r \<noteq> [])"

definition requiresTestVerification :: "risk_integration_result \<Rightarrow> bool" where
  "requiresTestVerification r = (No_Test_Coverage \<in> set (ra_reasons (ri_assessment r)))"

record acceptance_item =
  ai_id :: string
  ai_description :: string
  ai_required :: bool
  ai_reason :: "string option"

definition getAcceptanceChecklist :: "risk_integration_result \<Rightarrow> acceptance_item list" where
  "getAcceptanceChecklist r =
     (let item = (\<lambda>i d why. \<lparr>ai_id = i, ai_description = d, ai_required = True, ai_reason = why\<rparr>);
          forced = (\<lambda>f. f \<in> set (forced_high_factors r)) in
      [item ''tests-passed'' ''All tests passed'' None, item ''no-regressions'' ''No regressions introduced'' None] @
      (if ri_level r = Medium \<or> ri_level r = High then [item ''code-review'' ''Code review completed'' None] else []) @
      (if ri_level r = High then [item ''security-review'' ''Security review completed'' None,
         item ''performance-check'' ''Performance impact assessed'' None] else []) @
      (if forced Secrets_Referenced then [item ''secrets-audit'' ''Secrets handling reviewed and approved''
         (Some ''Task references secrets'')] else []) @
      (if forced Network_Accessed then [item ''network-review'' ''Network access reviewed and approved''
         (Some ''Task requires network access'')] else []) @
      (if forced Core_Area_Modified then [item ''core-review'' ''Core area changes reviewed by senior engineer''
         (Some ''Task modifies core functionality'')] else []))"

end
