(* ===== verification/Checklist.thy ===== *)
theory Checklist
  imports Risk_Integration
begin

text \<open>
  The manual checklist of an acceptance (\<open>src/src/domain/checklist/manual-checklist-service.ts\<close>) and the
  check for outdated documents (\<open>src/src/domain/stale-check/stale-docs-validator.ts\<close>). Triggers are
  strings, the forced factors of an assessment among them (\<open>reason_text\<close>). The two percentages for
  display use floating point and are left out.
\<close>

subsection \<open>Templates\<close>

record checklist_template =
  tpl_id :: string
  tpl_description :: string
  tpl_required :: bool
  tpl_applies_to :: "risk_level list"
  tpl_triggers :: "string list option"

definition every_level :: "risk_level list" where
  "every_level = [Low, Medium, High]"

definition DEFAULT_CHECKLIST_TEMPLATES :: "checklist_template list" where
  "DEFAULT_CHECKLIST_TEMPLATES =
     [\<lparr>tpl_id = ''tests-passed'', tpl_description = ''All automated tests passed'', tpl_required = True,
       tpl_applies_to = every_level, tpl_triggers = None\<rparr>,
      \<lparr>tpl_id = ''no-regressions'', tpl_description = ''No regressions in existing functionality'', tpl_required = True,
       tpl_applies_to = every_level, tpl_triggers = None\<rparr>,
      \<lparr>tpl_id = ''code-compiles'', tpl_description = ''Code compiles without errors'', tpl_required = True,
       tpl_applies_to = every_level, tpl_triggers = None\<rparr>,
      \<lparr>tpl_id = ''code-review'', tpl_description = ''Code review completed'', tpl_required = True,
       tpl_applies_to = [Medium, High], tpl_triggers = None\<rparr>,
      \<lparr>tpl_id = ''docs-updated'', tpl_description = ''Documentation updated if applicable'', tpl_required = False,
       tpl_applies_to = [Medium, High], tpl_triggers = None\<rparr>,
      \<lparr>tpl_id = ''security-review'', tpl_description = ''Security review completed'', tpl_required = True,
       tpl_applies_to = [High], tpl_triggers = None\<rparr>,
      \<lparr>tpl_id = ''performance-check'', tpl_description = ''Performance impact assessed'', tpl_required = True,
       tpl_applies_to = [High], tpl_triggers = None\<rparr>,
      \<lparr>tpl_id = ''rollback-plan'', tpl_description = ''Rollback plan documented'', tpl_required = True,
       tpl_applies_to = [High], tpl_triggers = Some [''rollback_notes_required'']\<rparr>,
      \<lparr>tpl_id = ''stakeholder-approval'', tpl_description = ''Stakeholder approval obtained'', tpl_required = True,
       tpl_applies_to = [High], tpl_triggers = Some [''high_risk'']\<rparr>,
      \<lparr>tpl_id = ''secrets-handled'', tpl_description = ''Secrets handling reviewed and approved'', tpl_required = True,
       tpl_applies_to = every_level, tpl_triggers = Some [''secrets_referenced'']\<rparr>,
      \<lparr>tpl_id = ''network-approved'', tpl_description = ''Network access approved'', tpl_required = True,
       tpl_applies_to = every_level, tpl_triggers = Some [''network_access'']\<rparr>,
      \<lparr>tpl_id = ''core-review'', tpl_description = ''Core area changes reviewed by senior engineer'', tpl_required = True,
       tpl_applies_to = every_level, tpl_triggers = Some [''core_area_modified'']\<rparr>,
      \<lparr>tpl_id = ''breaking-changes'', tpl_description = ''Breaking changes documented and communicated'', tpl_required = True,
       tpl_applies_to = every_level, tpl_triggers = Some [''breaking_change'']\<rparr>]"

subsection \<open>Operations\<close>

definition checklist_triggers :: "risk_integration_result \<Rightarrow> string list \<Rightarrow> string list" where
  "checklist_triggers r additional =
     (let ts = foldl set_add [] (additional @ map reason_text (forced_high_factors r))
      in if ri_level r = High then set_add ts ''high_risk'' else ts)"

definition template_applies :: "risk_level \<Rightarrow> string list \<Rightarrow> checklist_template \<Rightarrow> bool" where
  "template_applies level triggers t = (level \<in> set (tpl_applies_to t) \<and>
     (case tpl_triggers t of None \<Rightarrow> True | Some ts \<Rightarrow> ts = [] \<or> list_ex (\<lambda>x. x \<in> set triggers) ts))"

definition template_item :: "checklist_template \<Rightarrow> checklist_item" where
  "template_item t = \<lparr>item_id = tpl_id t, item_description = tpl_description t, item_required = tpl_required t,
     item_checked = Some False, checked_by = None, checked_at = None, item_notes = None\<rparr>"

definition generateChecklist :: "checklist_template list \<Rightarrow> risk_integration_result \<Rightarrow> string list \<Rightarrow> checklist_item list" where
  "generateChecklist templates r additional =
     map template_item (filter (template_applies (ri_level r) (checklist_triggers r additional)) templates)"

definition is_checked :: "checklist_item \<Rightarrow> bool" where
  "is_checked i = (item_checked i = Some True)"

record checklist_validation =
  cv_valid :: bool
  cv_missing :: "string list"

definition validateChecklist :: "checklist_item list \<Rightarrow> checklist_validation" where
  "validateChecklist c = (let missing = map item_id (filter (\<lambda>i. item_required i \<and> \<not> is_checked i) c)
     in \<lparr>cv_valid = (missing = []), cv_missing = missing\<rparr>)"

definition checkItem :: "time \<Rightarrow> string \<Rightarrow> string option \<Rightarrow> string option \<Rightarrow> checklist_item list \<Rightarrow> checklist_item list" where
  "checkItem now k who notes c = map (\<lambda>i. if item_id i = k
     then i\<lparr>item_checked := Some True, checked_by := who, checked_at := Some now, item_notes := notes\<rparr> else i) c"

definition uncheckItem :: "string \<Rightarrow> checklist_item list \<Rightarrow> checklist_item list" where
  "uncheckItem k c = map (\<lambda>i. if item_id i = k
     then i\<lparr>item_checked := Some False, checked_by := None, checked_at := None, item_notes := None\<rparr> else i) c"

definition addCustomItem :: "time \<Rightarrow> string \<Rightarrow> bool \<Rightarrow> checklist_item list \<Rightarrow> checklist_item list" where
  "addCustomItem now d required c = c @ [\<lparr>item_id = ''custom-'' @ show_int now, item_description = d,
     item_required = required, item_checked = Some False, checked_by = None, checked_at = None, item_notes = None\<rparr>]"

definition getUncheckedRequired :: "checklist_item list \<Rightarrow> checklist_item list" where
  "getUncheckedRequired c = filter (\<lambda>i. item_required i \<and> \<not> is_checked i) c"

record checklist_summary =
  cs_total :: nat
  cs_checked :: nat
  cs_required_total :: nat
  cs_required_checked :: nat
  cs_complete :: bool

definition getSummary :: "checklist_item list \<Rightarrow> checklist_summary" where
  "getSummary c = (let required = filter item_required c; checked = filter is_checked c;
       requiredChecked = filter is_checked required
     in \<lparr>cs_total = length c, cs_checked = length checked, cs_required_total = length required,
         cs_required_checked = length requiredChecked, cs_complete = (length required = length requiredChecked)\<rparr>)"

lemma validateChecklist_valid: "cv_valid (validateChecklist c) \<longleftrightarrow> (\<forall>i \<in> set c. item_required i \<longrightarrow> is_checked i)"
  by (auto simp: validateChecklist_def Let_def filter_empty_conv)

lemma validateChecklist_unchecked: "cv_missing (validateChecklist c) = map item_id (getUncheckedRequired c)"
  by (simp add: validateChecklist_def getUncheckedRequired_def Let_def)

lemma length_filter_eq: "length xs = length (filter P xs) \<longleftrightarrow> (\<forall>x \<in> set xs. P x)"
  by (metis filter_eq_iff_all length_filter_less less_irrefl)

text \<open>The three ways to ask whether a checklist is complete agree.\<close>

lemma checklist_complete_iff:
  "cs_complete (getSummary c) = cv_valid (validateChecklist c)"
  "(getUncheckedRequired c = []) = cv_valid (validateChecklist c)"
  unfolding validateChecklist_valid
  by (auto simp: getSummary_def Let_def length_filter_eq getUncheckedRequired_def filter_empty_conv)

subsection \<open>A checklist over time\<close>

datatype checklist_op = Check time string "string option" "string option" | Uncheck string

fun checklist_exec :: "checklist_op \<Rightarrow> checklist_item list \<Rightarrow> checklist_item list" where
  "checklist_exec (Check now k who notes) c = checkItem now k who notes c"
| "checklist_exec (Uncheck k) c = uncheckItem k c"

text \<open>Whether an item counts as checked after some operations, by the last one that names it.\<close>

fun last_mark :: "string \<Rightarrow> bool \<Rightarrow> checklist_op list \<Rightarrow> bool" where
  "last_mark k b [] = b"
| "last_mark k b (Check now k' who notes # ops) = last_mark k (k' = k \<or> b) ops"
| "last_mark k b (Uncheck k' # ops) = last_mark k (k' \<noteq> k \<and> b) ops"

definition item_view :: "checklist_item \<Rightarrow> string \<times> string \<times> bool \<times> bool" where
  "item_view i = (item_id i, item_description i, item_required i, is_checked i)"

lemma checklist_run_view: "map item_view (foldl (\<lambda>c x. checklist_exec x c) c ops) =
    map (\<lambda>i. (item_id i, item_description i, item_required i, last_mark (item_id i) (is_checked i) ops)) c"
proof (induction ops arbitrary: c)
  case Nil
  show ?case by (simp add: item_view_def)
next
  case (Cons x ops)
  show ?case
    by (cases x) (auto simp: Cons checkItem_def uncheckItem_def is_checked_def)
qed

lemma checklist_run_required: "set (map item_view (foldl (\<lambda>c x. checklist_exec x c) c ops)) =
    (\<lambda>i. (item_id i, item_description i, item_required i, last_mark (item_id i) (is_checked i) ops)) ` set c"
  unfolding checklist_run_view by simp

lemma valid_view: "cv_valid (validateChecklist c) \<longleftrightarrow> (\<forall>v \<in> set (map item_view c). fst (snd (snd v)) \<longrightarrow> snd (snd (snd v)))"
  by (auto simp: validateChecklist_valid item_view_def)

lemma checklist_run_valid: "cv_valid (validateChecklist (foldl (\<lambda>c x. checklist_exec x c) c ops)) \<longleftrightarrow>
    (\<forall>i \<in> set c. item_required i \<longrightarrow> last_mark (item_id i) (is_checked i) ops)"
  unfolding valid_view checklist_run_view by auto

subsection \<open>The checklist of the control plane\<close>

text \<open>\<open>generateManualChecklist\<close> of the store: no factors, the risk level of the task, no triggers.\<close>

definition generateManualChecklist :: "task \<Rightarrow> checklist_item list" where
  "generateManualChecklist t =
     generateChecklist DEFAULT_CHECKLIST_TEMPLATES (assessFromFactors [] (Some (risk_level t))) []"

lemma assess_nothing: "assessFromFactors [] (Some l) =
    \<lparr>ri_level = l, ri_assessment = \<lparr>ra_level = Low, ra_reasons = []\<rparr>, forced_high_factors = [], recommendations = []\<rparr>"
  by (simp add: assessFromFactors_def assessRisk_def Let_def forced_factors_def generateRecommendations_def
      file_count_def HIGH_FILE_THRESHOLD_def MEDIUM_FILE_THRESHOLD_def)

lemma generateChecklist_unchecked: "i \<in> set (generateChecklist ts r add) \<Longrightarrow> \<not> is_checked i"
  by (auto simp: generateChecklist_def template_item_def is_checked_def)

text \<open>
  The checklist the control plane generates for a task depends on its risk level alone: three required items
  for low risk, the code review and an optional item more for medium, and the security review, the performance
  check and the approval of the stakeholders more for high risk. No item is checked. It is complete after some
  operations exactly when the last operation on each required item checked it. The items for secrets,
  network, core areas, breaking changes and the rollback plan are never generated.
\<close>

theorem manual_checklist_contents:
  "map item_id (generateManualChecklist t) =
     [''tests-passed'', ''no-regressions'', ''code-compiles''] @
     (case risk_level t of Low \<Rightarrow> [] | Medium \<Rightarrow> [''code-review'', ''docs-updated'']
      | High \<Rightarrow> [''code-review'', ''docs-updated'', ''security-review'', ''performance-check'', ''stakeholder-approval'']) \<and>
   map item_id (filter (\<lambda>i. \<not> item_required i) (generateManualChecklist t)) =
     (if risk_level t = Low then [] else [''docs-updated'']) \<and>
   filter is_checked (generateManualChecklist t) = [] \<and>
   cv_valid (validateChecklist (foldl (\<lambda>c x. checklist_exec x c) (generateManualChecklist t) ops)) =
     list_all (\<lambda>i. last_mark (item_id i) False ops) (filter item_required (generateManualChecklist t))"
proof (intro conjI)
  show "map item_id (generateManualChecklist t) =
     [''tests-passed'', ''no-regressions'', ''code-compiles''] @
     (case risk_level t of Low \<Rightarrow> [] | Medium \<Rightarrow> [''code-review'', ''docs-updated'']
      | High \<Rightarrow> [''code-review'', ''docs-updated'', ''security-review'', ''performance-check'', ''stakeholder-approval''])"
    and "map item_id (filter (\<lambda>i. \<not> item_required i) (generateManualChecklist t)) =
     (if risk_level t = Low then [] else [''docs-updated''])"
    by (cases "risk_level t"; simp add: generateManualChecklist_def generateChecklist_def assess_nothing checklist_triggers_def
        template_applies_def template_item_def DEFAULT_CHECKLIST_TEMPLATES_def every_level_def set_add_def)+
  have fresh: "\<not> is_checked i" if "i \<in> set (generateManualChecklist t)" for i
    using that unfolding generateManualChecklist_def by (rule generateChecklist_unchecked)
  then show "filter is_checked (generateManualChecklist t) = []"
    by (auto simp: filter_empty_conv)
  show "cv_valid (validateChecklist (foldl (\<lambda>c x. checklist_exec x c) (generateManualChecklist t) ops)) =
     list_all (\<lambda>i. last_mark (item_id i) False ops) (filter item_required (generateManualChecklist t))"
    unfolding checklist_run_valid using fresh by (auto simp: list_all_iff)
qed

subsection \<open>Outdated documents\<close>

datatype stale_action = ST_Proceed | ST_Blocked | ST_Rework | ST_Resolve_First

record stale_check_input =
  sc_status :: stale_status
  sc_has_resolver_refs :: bool
  sc_current_stage :: "worker_stage option"
  sc_reread_performed :: bool
  sc_reread_status :: "stale_status option"
  sc_doc_updated_at :: "time option"
  sc_check_performed_at :: "time option"
  sc_threshold_seconds :: "int option"
  sc_counts :: "stale_counts option"

record stale_check_result =
  sr_can_proceed :: bool
  sr_action :: stale_action
  sr_reason :: "string option"
  sr_detected :: "bool option"

definition DEFAULT_STALE_THRESHOLD_SECONDS :: int where
  "DEFAULT_STALE_THRESHOLD_SECONDS = 1800"

definition stale_proceed :: stale_check_result where
  "stale_proceed = \<lparr>sr_can_proceed = True, sr_action = ST_Proceed, sr_reason = None, sr_detected = None\<rparr>"

definition stale_stop :: "stale_action \<Rightarrow> string \<Rightarrow> stale_check_result" where
  "stale_stop a why = \<lparr>sr_can_proceed = False, sr_action = a, sr_reason = Some why, sr_detected = None\<rparr>"

text \<open>Seconds are compared as numbers: \<open>ms / 1000 > s\<close> is \<open>ms > 1000 * s\<close>.\<close>

definition detectStaleByTimestamp :: "time \<Rightarrow> time \<Rightarrow> int \<Rightarrow> bool" where
  "detectStaleByTimestamp docTime checkTime threshold = (checkTime - docTime > 1000 * threshold)"

definition by_timestamp :: "stale_check_input \<Rightarrow> stale_check_result option" where
  "by_timestamp i = (case (sc_doc_updated_at i, sc_check_performed_at i) of
       (Some d, Some c) \<Rightarrow> if sc_status i \<noteq> Unknown then None
         else if detectStaleByTimestamp d c (case sc_threshold_seconds i of Some s \<Rightarrow> s | None \<Rightarrow> DEFAULT_STALE_THRESHOLD_SECONDS)
           then Some (stale_stop ST_Blocked ''stale_docs_require_reread''\<lparr>sr_detected := Some True\<rparr>)
           else Some (stale_proceed\<lparr>sr_detected := Some False\<rparr>)
     | _ \<Rightarrow> None)"

definition checkStale :: "stale_check_input \<Rightarrow> stale_check_result" where
  "checkStale i =
     (if \<not> sc_has_resolver_refs i then stale_proceed
      else if sc_current_stage i = Some Plan then
        (if sc_status i = Stale \<or> sc_status i = Mixed then stale_proceed\<lparr>sr_action := ST_Resolve_First\<rparr> else stale_proceed)
      else case by_timestamp i of Some r \<Rightarrow> r | None \<Rightarrow>
        if sc_status i = Fresh then stale_proceed
        else if sc_status i = Mixed \<and> (case sc_counts i of Some n \<Rightarrow> n_stale n > 0 | None \<Rightarrow> False)
          then stale_stop ST_Blocked ''stale_docs_require_reread''
        else if sc_status i = Stale \<or> sc_status i = Mixed then
          (if sc_reread_performed i \<and> sc_reread_status i = Some Fresh then stale_proceed
           else if sc_reread_performed i \<and> sc_reread_status i = Some Stale then stale_stop ST_Rework ''docs_still_stale_after_reread''
           else stale_stop ST_Blocked ''stale_docs_require_reread'')
        else if sc_status i = Unknown then stale_stop ST_Blocked ''stale_status_unknown''
        else stale_proceed)"

definition getBlockedContext :: "string \<Rightarrow> waiting_on \<Rightarrow> string \<times> waiting_on" where
  "getBlockedContext stale_reason waiting_on = (stale_reason, waiting_on)"

text \<open>What the acceptance gate asks, and that only fresh documents pass it.\<close>

definition acceptance_stale_input :: "stale_status \<Rightarrow> stale_counts option \<Rightarrow> stale_check_input" where
  "acceptance_stale_input st counts = \<lparr>sc_status = st, sc_has_resolver_refs = True, sc_current_stage = Some Acceptance,
     sc_reread_performed = False, sc_reread_status = None, sc_doc_updated_at = None, sc_check_performed_at = None,
     sc_threshold_seconds = None, sc_counts = counts\<rparr>"

lemma acceptance_stale_proceed: "sr_can_proceed (checkStale (acceptance_stale_input st counts)) \<longleftrightarrow> st = Fresh"
  by (cases st) (simp_all add: checkStale_def acceptance_stale_input_def by_timestamp_def stale_proceed_def stale_stop_def)

lemma acceptance_stale_action: "st \<noteq> Fresh \<Longrightarrow> checkStale (acceptance_stale_input st counts) =
    stale_stop ST_Blocked (if st = Unknown then ''stale_status_unknown'' else ''stale_docs_require_reread'')"
  by (cases st) (simp_all add: checkStale_def acceptance_stale_input_def by_timestamp_def stale_proceed_def stale_stop_def)

end
