(* ===== verification/Acceptance.thy ===== *)
theory Acceptance
  imports Control_Plane Checklist
begin

text \<open>
  \<open>src/src/domain/acceptance/acceptance-service.ts\<close> as the store runs it: the gates a task passes from
  \<open>accepting\<close> to \<open>accepted\<close>. The checked items are written back before the gates are tried; the
  accepted task is built from the copy read at the start.
\<close>

record checked_item =
  ck_id :: string
  ck_by :: "string option"
  ck_notes :: "string option"

record acceptance_request =
  aq_checked_items :: "checked_item list option"
  aq_verdict :: "verdict option"

record acceptance_response =
  ar_task_id :: string
  ar_state :: task_state
  ar_checklist_complete :: bool
  ar_verdict_outcome :: outcome_kind

fun outcome_name :: "outcome_kind \<Rightarrow> string" where
  "outcome_name O_Accept = ''accept''"
| "outcome_name O_Reject = ''reject''"
| "outcome_name O_Rework = ''rework''"
| "outcome_name O_Needs_Manual_Review = ''needs_manual_review''"

definition check_items :: "time \<Rightarrow> checked_item list \<Rightarrow> checklist_item list \<Rightarrow> checklist_item list" where
  "check_items now is c = foldl (\<lambda>c i. checkItem now (ck_id i) (ck_by i) (ck_notes i) c) c is"

definition updated_checklist :: "time \<Rightarrow> acceptance_request \<Rightarrow> task \<Rightarrow> checklist_item list option" where
  "updated_checklist now q t = (case (aq_checked_items q, manual_checklist t) of
       (Some is, Some c) \<Rightarrow> Some (check_items now is c) | _ \<Rightarrow> manual_checklist t)"

text \<open>The write of the checked items, before any gate but the first.\<close>

definition save_checklist :: "time \<Rightarrow> acceptance_request \<Rightarrow> task \<Rightarrow> string \<Rightarrow> control_plane \<Rightarrow> (error, unit, control_plane) outcome" where
  "save_checklist now q t tid = (if aq_checked_items q = None \<or> manual_checklist t = None then return ()
     else and_then (cp_updateTask now tid (no_update\<lparr>u_manual_checklist := updated_checklist now q t\<rparr>)) (\<lambda>_. return ()))"

subsection \<open>The gates\<close>

definition checklist_gate :: "checklist_item list option \<Rightarrow> error + checklist_item list" where
  "checklist_gate c = (case c of
       None \<Rightarrow> Inl (Plain_Error ''manual checklist is required for acceptance completion'')
     | Some is \<Rightarrow> if is = [] then Inl (Plain_Error ''manual checklist is required for acceptance completion'')
         else if \<not> cv_valid (validateChecklist is) then Inl (Plain_Error
           (''manual checklist not complete. Missing required items: '' @ js_join '', '' (cv_missing (validateChecklist is))))
         else Inr is)"

definition quoted :: "string \<Rightarrow> string" where
  "quoted s = CHR 0x27 # s @ [CHR 0x27]"

definition verdict_gate :: "acceptance_request \<Rightarrow> task \<Rightarrow> error + verdict" where
  "verdict_gate q t = (case (case aq_verdict q of Some v \<Rightarrow> Some v | None \<Rightarrow> last_verdict t) of
       None \<Rightarrow> Inl (Plain_Error ''no verdict available. Worker must provide verdict or override must be given.'')
     | Some v \<Rightarrow> if verdict_outcome v \<noteq> O_Accept then Inl (Plain_Error
         (''verdict outcome must be '' @ quoted ''accept'' @ '', got '' @ quoted (outcome_name (verdict_outcome v))))
         else Inr v)"

definition log_gate :: "task \<Rightarrow> error + unit" where
  "log_gate t = (if filter (\<lambda>a. artifact_kind a = K_Log) (case artifacts t of Some as \<Rightarrow> as | None \<Rightarrow> []) = []
     then Inl (Plain_Error ''at least one log artifact is required for acceptance completion'') else Inr ())"

definition stale_gate :: "task \<Rightarrow> error + unit" where
  "stale_gate t = (case resolver_refs t of None \<Rightarrow> Inr () | Some r \<Rightarrow> (case rr_stale_status r of
       None \<Rightarrow> Inr ()
     | Some st \<Rightarrow> let res = checkStale (acceptance_stale_input st (stale_doc_counts r)) in
         if sr_can_proceed res then Inr ()
         else if sr_action res = ST_Rework
           then Inl (Plain_Error ''docs are still stale after re-read. Rework required before acceptance.'')
         else Inl (Plain_Error (''stale docs detected: '' @ (case sr_reason res of Some w \<Rightarrow> w | None \<Rightarrow> ''docs require re-read'')
           @ ''. Resolve stale docs before acceptance.''))))"

definition acceptance_gates :: "time \<Rightarrow> acceptance_request \<Rightarrow> task \<Rightarrow> error + checklist_item list \<times> verdict" where
  "acceptance_gates now q t = (case checklist_gate (updated_checklist now q t) of Inl e \<Rightarrow> Inl e | Inr c \<Rightarrow>
     (case verdict_gate q t of Inl e \<Rightarrow> Inl e | Inr v \<Rightarrow>
     (case log_gate t of Inl e \<Rightarrow> Inl e | Inr _ \<Rightarrow>
     (case stale_gate t of Inl e \<Rightarrow> Inl e | Inr _ \<Rightarrow> Inr (c, v)))))"

subsection \<open>Completing an acceptance\<close>

definition accepted_candidate :: "task \<Rightarrow> checklist_item list \<Rightarrow> verdict \<Rightarrow> task" where
  "accepted_candidate t c v = t\<lparr>manual_checklist := Some c, last_verdict := Some v\<rparr>"

definition acceptance_checkpoint :: "time \<Rightarrow> fresh_ids \<Rightarrow> string \<Rightarrow> checkpoint" where
  "acceptance_checkpoint now fr tid = \<lparr>checkpoint_id = fresh_checkpoint fr, checkpoint_type = Approval_Checkpoint,
     checkpoint_stage = CP_Stage Acceptance, checkpoint_reference = ''approval:'' @ tid @ '':accepted'',
     checkpoint_created_at = now, checkpoint_task_id = tid, checkpoint_run_id = tid,
     checkpoint_summary = Some ''Manual acceptance completed'', checkpoint_actor = Some ''manual_acceptance''\<rparr>"

definition verdict_source :: "acceptance_request \<Rightarrow> task \<Rightarrow> string" where
  "verdict_source q t = (if aq_verdict q = None then ''worker_verdict''
     else if last_verdict t = None then ''manual_without_worker'' else ''human_override'')"

definition verdict_payload :: "acceptance_request \<Rightarrow> task \<Rightarrow> checklist_item list \<Rightarrow> verdict \<Rightarrow> payload" where
  "verdict_payload q t c v =
     [(''verdict_outcome'', P_Str (outcome_name (verdict_outcome v))), (''verdict_reason'', P_Opt (verdict_reason v)),
      (''verdict_source'', P_Str (verdict_source q t)), (''checklist_complete'', P_Bool (cv_valid (validateChecklist c))),
      (''checklist_missing'', P_List (cv_missing (validateChecklist c)))]"

definition accept_task :: "time \<Rightarrow> fresh_ids \<Rightarrow> acceptance_request \<Rightarrow> task \<Rightarrow> checklist_item list \<Rightarrow> verdict \<Rightarrow>
    control_plane \<Rightarrow> (error, acceptance_response, control_plane) outcome" where
  "accept_task now fr q t c v = and_then
     (cp_move now (fresh_event fr) (accepted_candidate t c v) Accepted
       (mk_input Human ''manual_acceptance'' ''manual acceptance completed''))
     (\<lambda>(_, t') cp. (Inr \<lparr>ar_task_id = task_id t, ar_state = state t',
          ar_checklist_complete = cv_valid (validateChecklist c), ar_verdict_outcome = verdict_outcome v\<rparr>,
        emit_audit now (fresh_audit fr) (task_id t) ''task.verdictSubmitted'' (verdict_payload q t c v)
          (add_checkpoint (acceptance_checkpoint now fr (task_id t)) cp)))"

definition completeAcceptance :: "time \<Rightarrow> fresh_ids \<Rightarrow> string \<Rightarrow> acceptance_request \<Rightarrow> control_plane \<Rightarrow>
    (error, acceptance_response, control_plane) outcome" where
  "completeAcceptance now fr tid q = and_then (cp_requireTask tid) (\<lambda>t.
     if state t \<noteq> Accepting
     then throw (Plain_Error (''task is not in accepting state (current: '' @ state_name (state t) @ '')''))
     else and_then (save_checklist now q t tid) (\<lambda>_.
       case acceptance_gates now q t of
         Inl e \<Rightarrow> throw e
       | Inr (c, v) \<Rightarrow> accept_task now fr q t c v))"

subsection \<open>What acceptance guarantees\<close>

lemma cp_requireTask_Some: "cp_lookup cp tid = Some t \<Longrightarrow> cp_requireTask tid cp = (Inr t, cp)"
  by (simp add: cp_requireTask_def in_store_def cp_lookup_def requireTask_iff [THEN iffD2])

definition save_effect :: "time \<Rightarrow> acceptance_request \<Rightarrow> task \<Rightarrow> string \<Rightarrow> control_plane \<Rightarrow> control_plane" where
  "save_effect now q t tid cp = (if aq_checked_items q = None \<or> manual_checklist t = None then cp
     else cp\<lparr>store := setTask tid (applyTaskUpdate now t (no_update\<lparr>u_manual_checklist := updated_checklist now q t\<rparr>)) (store cp)\<rparr>)"

lemma save_checklist_eq: "cp_lookup cp tid = Some t \<Longrightarrow> save_checklist now q t tid cp = (Inr (), save_effect now q t tid cp)"
  by (simp add: save_checklist_def save_effect_def cp_updateTask_def in_store_def updateTask_iff [THEN iffD2] cp_lookup_def
      and_then_def return_def)

lemma save_effect_lookup: "cp_lookup (save_effect now q t tid cp) k = (if k = tid \<and> aq_checked_items q \<noteq> None \<and> manual_checklist t \<noteq> None
    then Some (applyTaskUpdate now t (no_update\<lparr>u_manual_checklist := updated_checklist now q t\<rparr>)) else cp_lookup cp k)"
  by (auto simp: save_effect_def cp_lookup_def)

lemma save_effect_journal:
  "auditEvents (save_effect now q t tid cp) = auditEvents cp" "checkpoints (save_effect now q t tid cp) = checkpoints cp"
  "publishIdempotencyKeys (save_effect now q t tid cp) = publishIdempotencyKeys cp"
  "listEvents (store (save_effect now q t tid cp)) k = listEvents (store cp) k"
  by (simp_all add: save_effect_def)

lemma completeAcceptance_cases:
  assumes "cp_lookup cp tid = Some t" and "state t = Accepting"
  shows "completeAcceptance now fr tid q cp = (case acceptance_gates now q t of
      Inl e \<Rightarrow> (Inl e, save_effect now q t tid cp)
    | Inr (c, v) \<Rightarrow> accept_task now fr q t c v (save_effect now q t tid cp))"
  using assms by (simp add: completeAcceptance_def and_then_Inr [OF cp_requireTask_Some]
      and_then_Inr [OF save_checklist_eq] throw_def split: sum.split)

lemma updated_checklist_valid: "updated_checklist now q t = Some c \<Longrightarrow> cv_valid (validateChecklist c) \<longleftrightarrow>
    (\<forall>c0. manual_checklist t = Some c0 \<longrightarrow> (\<forall>i \<in> set c0. item_required i \<longrightarrow> is_checked i \<or>
      (\<exists>is. aq_checked_items q = Some is \<and> item_id i \<in> set (map ck_id is))))"
proof -
  have run: "check_items now is c0 = foldl (\<lambda>c x. checklist_exec x c) c0 (map (\<lambda>i. Check now (ck_id i) (ck_by i) (ck_notes i)) is)" for "is" c0
    unfolding check_items_def by (induction "is" arbitrary: c0) auto
  have mark: "last_mark k b (map (\<lambda>i. Check now (ck_id i) (ck_by i) (ck_notes i)) is) \<longleftrightarrow> b \<or> k \<in> set (map ck_id is)" for k b "is"
    by (induction "is" arbitrary: b) auto
  assume c: "updated_checklist now q t = Some c"
  show ?thesis
  proof (cases "aq_checked_items q = None \<or> manual_checklist t = None")
    case True
    with c have "manual_checklist t = Some c" "aq_checked_items q = None"
      by (auto simp: updated_checklist_def split: option.splits)
    then show ?thesis by (simp add: validateChecklist_valid)
  next
    case False
    then obtain "is" c0 where s: "aq_checked_items q = Some is" "manual_checklist t = Some c0" by auto
    with c have "c = check_items now is c0" by (simp add: updated_checklist_def)
    with s show ?thesis by (simp add: run checklist_run_valid mark)
  qed
qed

text \<open>The conditions of the gates, on the task as it was read and the request.\<close>

definition required_done :: "acceptance_request \<Rightarrow> checklist_item list \<Rightarrow> bool" where
  "required_done q c = list_all (\<lambda>i. is_checked i \<or> (case aq_checked_items q of None \<Rightarrow> False
     | Some is \<Rightarrow> item_id i \<in> set (map ck_id is))) (filter item_required c)"

definition decisive_verdict :: "acceptance_request \<Rightarrow> task \<Rightarrow> verdict option" where
  "decisive_verdict q t = (case aq_verdict q of Some v \<Rightarrow> Some v | None \<Rightarrow> last_verdict t)"

definition docs_fresh :: "task \<Rightarrow> bool" where
  "docs_fresh t = (case resolver_refs t of None \<Rightarrow> True | Some r \<Rightarrow> rr_stale_status r \<in> {None, Some Fresh})"

definition acceptable :: "acceptance_request \<Rightarrow> task \<Rightarrow> bool" where
  "acceptable q t = ((case manual_checklist t of None \<Rightarrow> False | Some c \<Rightarrow> c \<noteq> [] \<and> required_done q c) \<and>
     map_option verdict_outcome (decisive_verdict q t) = Some O_Accept \<and>
     (case artifacts t of None \<Rightarrow> False | Some as \<Rightarrow> K_Log \<in> set (map artifact_kind as)) \<and> docs_fresh t)"

lemma checklist_gate_iff: "checklist_gate (updated_checklist now q t) = Inr c \<longleftrightarrow> updated_checklist now q t = Some c \<and>
    (case manual_checklist t of None \<Rightarrow> False | Some c0 \<Rightarrow> c0 \<noteq> [] \<and> required_done q c0)"
proof (cases "updated_checklist now q t")
  case None
  then show ?thesis by (simp add: checklist_gate_def)
next
  case (Some d)
  have "check_items now is c0 = [] \<longleftrightarrow> c0 = []" for "is" c0
    unfolding check_items_def by (induction "is" arbitrary: c0) (auto simp: checkItem_def)
  with Some have "\<exists>c0. manual_checklist t = Some c0 \<and> (d = [] \<longleftrightarrow> c0 = [])"
    by (auto simp: updated_checklist_def split: option.splits)
  then obtain c0 where c0: "manual_checklist t = Some c0" "d = [] \<longleftrightarrow> c0 = []" by blast
  have "cv_valid (validateChecklist d) \<longleftrightarrow> required_done q c0"
    unfolding updated_checklist_valid [OF Some] using c0(1)
    by (cases "aq_checked_items q") (auto simp: required_done_def list_all_iff)
  then show ?thesis using Some c0 by (auto simp: checklist_gate_def)
qed

lemma stale_gate_iff: "stale_gate t = Inr () \<longleftrightarrow> docs_fresh t"
  by (auto simp: stale_gate_def docs_fresh_def Let_def acceptance_stale_proceed split: option.split)

lemma acceptance_gates_iff: "acceptance_gates now q t = Inr (c, v) \<longleftrightarrow>
    acceptable q t \<and> updated_checklist now q t = Some c \<and> decisive_verdict q t = Some v"
proof -
  have verdict: "verdict_gate q t = Inr w \<longleftrightarrow> decisive_verdict q t = Some w \<and> verdict_outcome w = O_Accept" for w
    by (auto simp: verdict_gate_def decisive_verdict_def split: option.split)
  have log: "log_gate t = Inr () \<longleftrightarrow> (case artifacts t of None \<Rightarrow> False | Some as \<Rightarrow> K_Log \<in> set (map artifact_kind as))"
    by (force simp: log_gate_def filter_empty_conv split: option.split)
  have "acceptance_gates now q t = Inr (c, v) \<longleftrightarrow> checklist_gate (updated_checklist now q t) = Inr c \<and>
      verdict_gate q t = Inr v \<and> log_gate t = Inr () \<and> stale_gate t = Inr ()"
    by (auto simp: acceptance_gates_def split: sum.split)
  then show ?thesis
    unfolding checklist_gate_iff verdict log stale_gate_iff acceptable_def by auto
qed

lemma gates_pass:
  assumes "acceptable q t"
  obtains c v where "acceptance_gates now q t = Inr (c, v)" and "updated_checklist now q t = Some c" and "decisive_verdict q t = Some v"
proof -
  from assms obtain c0 v where "manual_checklist t = Some c0" "decisive_verdict q t = Some v"
    by (auto simp: acceptable_def split: option.splits)
  moreover from this have "updated_checklist now q t \<noteq> None"
    by (simp add: updated_checklist_def split: option.split)
  ultimately show ?thesis using that assms acceptance_gates_iff by blast
qed

lemma gates_fail:
  assumes "\<not> acceptable q t"
  obtains e where "acceptance_gates now q t = Inl e"
  using assms acceptance_gates_iff [of now q t] by (cases "acceptance_gates now q t") auto

lemma accept_task_ok:
  assumes "state t = Accepting"
  obtains t' cp1 cp' where "accept_task now fr q t c v cp = (Inr \<lparr>ar_task_id = task_id t, ar_state = Accepted,
        ar_checklist_complete = cv_valid (validateChecklist c), ar_verdict_outcome = verdict_outcome v\<rparr>, cp')"
    and "cp' = emit_audit now (fresh_audit fr) (task_id t) ''task.verdictSubmitted'' (verdict_payload q t c v)
        (add_checkpoint (acceptance_checkpoint now fr (task_id t)) cp1)"
    and "cp1 = cp\<lparr>store := store cp1\<rparr>"
    and "\<And>k. cp_lookup cp1 k = (if k = task_id t then Some t' else cp_lookup cp k)"
    and "state t' = Accepted" and "version t' = version t + 1" and "manual_checklist t' = Some c" and "last_verdict t' = Some v"
proof -
  let ?u = "accepted_candidate t c v" and ?in = "mk_input Human ''manual_acceptance'' ''manual acceptance completed''"
  have "canTransition (state ?u) Accepted" using assms by (simp add: accepted_candidate_def)
  then obtain ev t' cp1 where mv: "cp_move now (fresh_event fr) ?u Accepted ?in cp = (Inr (ev, t'), cp1)"
    using cp.granted by blast
  note spec = cp.moved [OF mv]
  have frame: "cp1 = cp\<lparr>store := store cp1\<rparr>"
    using mv unfolding cp_move_def in_store_simps by blast
  have look: "cp_lookup cp1 k = (if k = task_id t then Some t' else cp_lookup cp k)" for k
    using cp.stored [OF mv, of k] by (simp add: accepted_candidate_def)
  have work: "same_work ?u t'" and st: "state t' = Accepted" "version t' = version t + 1"
    using spec by (simp_all add: accepted_candidate_def)
  have kept: "manual_checklist t' = Some c" "last_verdict t' = Some v"
    using same_work_content [OF work] by (simp_all add: accepted_candidate_def)
  show ?thesis
    by (rule that [OF _ refl frame look st kept]) (simp add: accept_task_def and_then_def mv [unfolded mk_input_def] st)
qed


definition accepting_task :: task where
  "accepting_task = sample_task\<lparr>state := Accepting, manual_checklist := Some (generateManualChecklist sample_task),
     last_verdict := Some \<lparr>verdict_outcome = O_Accept, verdict_reason = None, manual_notes = None\<rparr>,
     artifacts := Some [\<lparr>artifact_id = ''log_1'', artifact_kind = K_Log\<rparr>], resolver_refs := None\<rparr>"

definition accepting_plane :: control_plane where
  "accepting_plane = empty_control_plane\<lparr>store := \<lparr>tasks = [(task_id sample_task, accepting_task)], events = []\<rparr>\<rparr>"

definition sample_ids :: fresh_ids where
  "sample_ids = \<lparr>fresh_task = ''task_2'', fresh_event = ''evt_2'', fresh_audit = ''aud_2'', fresh_checkpoint = ''chk_2'',
     fresh_run = ''run_2'', fresh_token = ''tok_2''\<rparr>"

definition all_checked :: acceptance_request where
  "all_checked = \<lparr>aq_checked_items = Some (map (\<lambda>i. \<lparr>ck_id = i, ck_by = None, ck_notes = None\<rparr>)
     [''tests-passed'', ''no-regressions'', ''code-compiles'', ''code-review'']), aq_verdict = None\<rparr>"

lemma accepting_plane_lookup: "cp_lookup accepting_plane (task_id sample_task) = Some accepting_task"
  by (simp add: accepting_plane_def cp_lookup_def getTask_def map_get_def empty_control_plane_def)

lemma accepting_task_simps: "state accepting_task = Accepting" "task_id accepting_task = task_id sample_task"
  by (simp_all add: accepting_task_def)

lemma all_checked_acceptable: "acceptable all_checked accepting_task"
  "\<not> acceptable (all_checked\<lparr>aq_checked_items := None\<rparr>) accepting_task"
  by code_simp+


end
