(* ===== verification/Control_Plane_Steps.thy ===== *)
theory Control_Plane_Steps
  imports Acceptance
begin

text \<open>
  The control plane as a transition system: \<open>cp_step\<close> has one rule per operation of
  \<open>Control_Plane\<close>. Every operation is a sequence of steps of the task store (\<open>cp_step_run\<close>), which
  carries the invariants of \<open>Task_Store\<close> over to every reachable state; an idempotency key keeps the
  task it was first used for (\<open>cp_steps_keep_owner\<close>).
\<close>

subsection \<open>Every operation is a sequence of steps of the task store\<close>

definition store_run :: "control_plane \<Rightarrow> control_plane \<Rightarrow> bool" where
  "store_run cp cp' = store_step\<^sup>*\<^sup>* (store cp) (store cp')"

lemma store_run_same: "store cp' = store cp \<Longrightarrow> store_run cp cp'"
  by (simp add: store_run_def)

lemma store_run_trans: "store_run a b \<Longrightarrow> store_run b c \<Longrightarrow> store_run a c"
  unfolding store_run_def by (rule rtranclp_trans)

lemma emit_audit_store [simp]: "store (emit_audit now aid tid ty p cp) = store cp"
  by (simp add: emit_audit_def)

lemma add_checkpoint_store [simp]: "store (add_checkpoint c cp) = store cp"
  by (simp add: add_checkpoint_def)

text \<open>What an orchestrator may hand to the context: the task as it is stored, up to its other fields.\<close>

definition same_ident :: "task \<Rightarrow> task \<Rightarrow> bool" where
  "same_ident t u = (task_id u = task_id t \<and> state u = state t \<and> version u = version t)"

lemma move_store_run:
  assumes "cp_lookup cp (task_id t) = Some t" and "same_ident t u" and "move_to (cp_move now eid) u to inp cp = (r, cp')"
  shows "store_run cp cp'"
proof (cases "canTransition (state u) to")
  case True
  then obtain ev u' cp2 where mv: "cp_move now eid u to inp cp = (Inr (ev, u'), cp2)"
    using cp.granted by blast
  then have "transitionTask now eid u to inp (store cp) = (Inr (ev, u'), store cp2)"
    unfolding cp_move_def in_store_simps by blast
  then have "store_step (store cp) (store cp2)"
    by (rule step_move) (use assms(1,2) in \<open>simp_all add: same_ident_def cp_lookup_def\<close>)
  moreover have "cp2 = cp'"
    using assms(3) mv by (simp add: move_to_def and_then_def return_def)
  ultimately show ?thesis by (auto simp: store_run_def)
next
  case False
  then show ?thesis
    using assms(3) by (simp add: cp.move_to_refused store_run_same del: canTransition_code)
qed

lemma store_run_and_then:
  assumes "and_then m f cp = (r, cp')" and "\<And>x cp1. m cp = (x, cp1) \<Longrightarrow> store_run cp cp1"
    and "\<And>a cp1. m cp = (Inr a, cp1) \<Longrightarrow> f a cp1 = (r, cp') \<Longrightarrow> store_run cp1 cp'"
  shows "store_run cp cp'"
proof (cases "m cp")
  case (Pair x cp1)
  note m = this
  show ?thesis
  proof (cases x)
    case (Inl e)
    with m assms(1,2) show ?thesis by (simp add: and_then_def)
  next
    case (Inr a)
    with m assms(1) have "f a cp1 = (r, cp')" by (simp add: and_then_def)
    with m Inr assms(2,3) store_run_trans show ?thesis by blast
  qed
qed

lemma require_in_state_iff: "require_in_state tid st cp = (Inr t, cp') \<longleftrightarrow> cp_lookup cp tid = Some t \<and> state t = st \<and> cp' = cp"
  by (cases "getTask (store cp) tid")
    (auto simp: require_in_state_def cp_requireTask_def in_store_def and_then_def requireTask_None
      requireTask_iff [THEN iffD2] cp_lookup_def throw_def return_def)

lemma require_in_state_same: "require_in_state tid st cp = (x, cp') \<Longrightarrow> cp' = cp"
  by (cases "getTask (store cp) tid")
    (auto simp: require_in_state_def cp_requireTask_def in_store_def and_then_def requireTask_None
      requireTask_iff [THEN iffD2] cp_lookup_def throw_def return_def split: if_splits)

lemma require_store_run:
  assumes "and_then (require_in_state tid st) f cp = (r, cp')"
    and "\<And>t. cp_lookup cp tid = Some t \<Longrightarrow> state t = st \<Longrightarrow> f t cp = (r, cp') \<Longrightarrow> store_run cp cp'"
  shows "store_run cp cp'"
  using assms(1)
proof (rule store_run_and_then)
  show "store_run cp cp1" if "require_in_state tid st cp = (x, cp1)" for x cp1
    using require_in_state_same [OF that] by (simp add: store_run_same)
  show "store_run cp1 cp'" if "require_in_state tid st cp = (Inr t, cp1)" "f t cp1 = (r, cp')" for t cp1
    using that(2) assms(2) [of t] unfolding that(1) [unfolded require_in_state_iff, THEN conjunct2, THEN conjunct2]
    using that(1) [unfolded require_in_state_iff] by blast
qed

lemma move_then_store_run:
  assumes "and_then (move_to (cp_move now eid) u to inp) f cp = (r, cp')" and "\<And>x c. store (snd (f x c)) = store c"
    and "cp_lookup cp (task_id t) = Some t" and "same_ident t u"
  shows "store_run cp cp'"
  using assms(1)
proof (rule store_run_and_then)
  show "store_run cp cp1" if "move_to (cp_move now eid) u to inp cp = (x, cp1)" for x cp1
    by (rule move_store_run [OF assms(3,4) that])
  show "store_run cp1 cp'" if "f a cp1 = (r, cp')" for a cp1
    using assms(2) [of a cp1] that by (simp add: store_run_same)
qed

lemma startIntegration_run:
  assumes "cp_lookup cp (task_id t) = Some t" and "startIntegration (cp_move now eid) now2 rid t sha cp = (r, cp')"
  shows "store_run cp cp'"
  by (rule move_store_run [OF assms(1) _ assms(2) [unfolded startIntegration_def Let_def]])
    (simp add: same_ident_def start_integration_task_def)

lemma startPublish_run:
  assumes "cp_lookup cp (task_id t) = Some t" and "startPublish (cp_move now eid) now2 rid tok t q cp = (r, cp')"
  shows "store_run cp cp'"
proof -
  have plan: "same_ident t (planned_task t q)"
    by (simp add: same_ident_def planned_task_def Let_def)
  from assms(2) obtain u to inp where "same_ident t u" "move_to (cp_move now eid) u to inp cp = (r, cp')"
  proof (cases "pq_mode q = Apply \<and> \<not> ppr_allowed (publish_policy_result_of t)")
    case True
    show ?thesis
      by (rule that [rotated], rule assms(2) [unfolded startPublish_def Let_def if_P [OF True]]) (simp add: same_ident_def)
  next
    case False
    note start = assms(2) [unfolded startPublish_def if_not_P [OF False]]
    show ?thesis
    proof (cases "needs_approval t q")
      case True
      show ?thesis
        by (rule that [rotated], rule start [unfolded if_P [OF True]]) (use plan in \<open>simp add: same_ident_def\<close>)
    next
      case False
      show ?thesis
        by (rule that [rotated], rule start [unfolded if_not_P [OF False]]) (use plan in \<open>simp add: same_ident_def\<close>)
    qed
  qed
  then show ?thesis by (rule move_store_run [OF assms(1)])
qed

lemma approvePublish_run:
  assumes "cp_lookup cp (task_id t) = Some t" and "approvePublish (cp_move now eid) now2 rid t tok cp = (r, cp')"
  shows "store_run cp cp'"
proof (cases "validateApprovalToken now2 t tok")
  case None
  then show ?thesis
    using assms(2) by (intro move_store_run [OF assms(1)]) (auto simp: approvePublish_def same_ident_def)
next
  case (Some msg)
  with assms(2) show ?thesis by (simp add: approvePublish_def throw_def store_run_same)
qed

lemma completePublish_run:
  assumes "cp_lookup cp (task_id t) = Some t" and "completePublish (cp_move now eid) now2 t q cp = (r, cp')"
  shows "store_run cp cp'"
  by (rule move_then_store_run [OF assms(2) [unfolded completePublish_def] _ assms(1)])
    (auto simp: return_def same_ident_def completed_publish_task_def Let_def split: option.split)

lemma completeIntegration_run:
  assumes "cp_lookup cp (task_id t) = Some t" and "completeIntegration (cp_move now eid) now2 t q cp = (r, cp')"
  shows "store_run cp cp'"
proof -
  have pure: "store (snd ((case integration t of None \<Rightarrow> throw Type_Error | Some i \<Rightarrow> return (g i x)) c)) = store c"
    for g :: "integration_state \<Rightarrow> task \<Rightarrow> integrate_response" and x c
    by (simp add: throw_def return_def split: option.split)
  show ?thesis
    using assms(2) unfolding completeIntegration_def Let_def
    by (auto split: if_splits option.splits simp: throw_def store_run_same
        elim!: move_then_store_run [OF _ pure assms(1)] move_then_store_run [OF _ _ assms(1)]
        simp: same_ident_def completed_integration_task_def return_def)
qed

interpretation cp_each: transition_ctx "cp_move_each now eids" cp_lookup
proof unfold_locales
  fix t t' :: task and to inp s s' ev k
  show "\<not> canTransition (state t) to \<Longrightarrow> cp_move_each now eids t to inp s = (Inl (Transition_Not_Allowed (state t) to), s)"
    unfolding cp_move_each_def by (rule cp.refused)
  show "canTransition (state t) to \<Longrightarrow> \<exists>ev t' s'. cp_move_each now eids t to inp s = (Inr (ev, t'), s')"
    unfolding cp_move_each_def by (rule cp.granted)
  show "same_work t t' \<and> state t' = to \<and> version t' = version t + 1 \<and>
      blocked_context t' = (if to = Blocked then blocked_context t else None) \<and>
      (isTerminal to \<longrightarrow> completed_at t' \<noteq> None) \<and>
      from_state ev = state t \<and> to_state ev = to \<and> event_task_id ev = task_id t"
    if "cp_move_each now eids t to inp s = (Inr (ev, t'), s')"
    using that unfolding cp_move_each_def by (rule cp.moved)
  show "cp_lookup s' k = (if k = task_id t then Some t' else cp_lookup s k)"
    if "cp_move_each now eids t to inp s = (Inr (ev, t'), s')"
    using that unfolding cp_move_each_def by (rule cp.stored)
qed

lemma move_each_same: "task_id u = task_id t \<Longrightarrow>
    move_to (cp_move_each now eids) u to inp = move_to (cp_move now (eids (task_id t))) u to inp"
  by (simp add: move_to_def cp_move_each_def)

lemma check_run_run:
  assumes "cp_lookup cp (task_id t) = Some t" and "check_run (cp_move_each now eids) now2 t cp = (r, cp')"
  shows "store_run cp cp'"
proof -
  have int: "store_run c c'" if "checkIntegrationTimeout (cp_move_each now eids) now2 t c = (x, c')"
      and "cp_lookup c (task_id t) = Some t" for c c' x
    using that by (auto simp: checkIntegrationTimeout_def return_def store_run_same move_each_same same_ident_def
        split: option.splits if_splits elim!: move_then_store_run [OF _ _ that(2)])
  have pub: "store_run c c'" if "checkPublishTimeout (cp_move_each now eids) now2 t c = (x, c')"
      and "cp_lookup c (task_id t) = Some t" for c c' x
    using that by (auto simp: checkPublishTimeout_def return_def store_run_same move_each_same same_ident_def
        split: option.splits if_splits elim!: move_then_store_run [OF _ _ that(2)])
  show ?thesis
    using assms(2) unfolding check_run_def
  proof (rule store_run_and_then)
    let ?m1 = "if state t = Integrating \<and> integration_run t \<noteq> None
      then checkIntegrationTimeout (cp_move_each now eids) now2 t else return False"
    let ?m2 = "if state t = Publishing \<and> publish_run t \<noteq> None
      then checkPublishTimeout (cp_move_each now eids) now2 t else return False"
    show "store_run cp c1" if "?m1 cp = (x, c1)" for x c1
      using that assms(1) int by (auto simp: return_def store_run_same split: if_splits)
    show "store_run c1 cp'" if first: "?m1 cp = (Inr a, c1)"
      and rest: "and_then ?m2 (\<lambda>b. return ((if a then [t] else []) @ (if b then [t] else []))) c1 = (r, cp')" for a c1
      using rest
    proof (rule store_run_and_then)
      show "store_run c1 c2" if "?m2 c1 = (x, c2)" for x c2
        using that first assms(1) pub by (auto simp: return_def store_run_same split: if_splits)
    qed (simp add: return_def store_run_same)
  qed
qed

lemma checkTimeouts_run:
  assumes "distinct (map task_id ts)" and "\<forall>t \<in> set ts. cp_lookup cp (task_id t) = Some t"
    and "checkTimeouts (cp_move_each now eids) now2 ts cp = (r, cp')"
  shows "store_run cp cp'"
  using assms
proof (induction ts arbitrary: cp r cp')
  case Nil
  then show ?case by (simp add: return_def store_run_same)
next
  case (Cons t ts)
  obtain c1 where c1: "check_run (cp_move_each now eids) now2 t cp = (Inr (if timed_out now2 t then [t] else []), c1)"
      "\<not> timed_out now2 t \<Longrightarrow> c1 = cp"
      "timed_out now2 t \<Longrightarrow> \<exists>t'. blocked_by_timeout t t' \<and> (\<forall>k. cp_lookup c1 k = (if k = task_id t then Some t' else cp_lookup cp k))"
    using cp_each.check_run_spec [where now = now2 and nowa = now and eids = eids and t = t and s = cp] by blast
  have "cp_lookup c1 (task_id u) = Some u" if "u \<in> set ts" for u
  proof -
    have "task_id u \<in> task_id ` set ts" using that by (rule imageI)
    with Cons.prems(1) have "task_id u \<noteq> task_id t" by auto
    with Cons.prems(2) that c1(2,3) show ?thesis by (cases "timed_out now2 t") auto
  qed
  then have ih: "store_run c1 c2" if "checkTimeouts (cp_move_each now eids) now2 ts c1 = (y, c2)" for y c2
    using Cons.IH [of c1 y c2] Cons.prems(1) that by simp
  show ?case
    using Cons.prems(3) unfolding checkTimeouts.simps
  proof (rule store_run_and_then)
    show "store_run cp c2" if "check_run (cp_move_each now eids) now2 t cp = (x, c2)" for x c2
      using Cons.prems(2) by (intro check_run_run [OF _ that]) simp
    show "store_run c2 cp'" if first: "check_run (cp_move_each now eids) now2 t cp = (Inr a, c2)"
      and rest: "and_then (checkTimeouts (cp_move_each now eids) now2 ts) (\<lambda>ys. return (a @ ys)) c2 = (r, cp')" for a c2
      using rest
    proof (rule store_run_and_then)
      have "c2 = c1" using first c1(1) by simp
      then show "store_run c2 c3" if "checkTimeouts (cp_move_each now eids) now2 ts c2 = (x, c3)" for x c3
        using ih that by blast
    qed (simp add: return_def store_run_same)
  qed
qed

subsection \<open>The operations as steps\<close>

inductive cp_step :: "control_plane \<Rightarrow> control_plane \<Rightarrow> bool" where
  cps_create: "cp_createTask now fr q cp = (x, cp') \<Longrightarrow> cp_lookup cp (fresh_task fr) = None \<Longrightarrow> cp_step cp cp'"
| cps_update: "cp_updateTask now tid u cp = (x, cp') \<Longrightarrow> cp_step cp cp'"
| cps_cancel: "cp_cancel now fr tid cp = (x, cp') \<Longrightarrow> cp_step cp cp'"
| cps_record: "cp_recordTransition now tid ev cp = (y, cp') \<Longrightarrow> cp_step cp cp'"
| cps_acceptance: "completeAcceptance now fr tid aq cp = (ar, cp') \<Longrightarrow> cp_step cp cp'"
| cps_integrate: "integrate now fr tid sha cp = (x, cp') \<Longrightarrow> cp_step cp cp'"
| cps_integrated: "completeIntegrate now fr tid ci cp = (z, cp') \<Longrightarrow> cp_step cp cp'"
| cps_publish: "publish now fr tid pq cp = (x, cp') \<Longrightarrow> cp_step cp cp'"
| cps_approve: "cp_approvePublish now fr tid tok cp = (x, cp') \<Longrightarrow> cp_step cp cp'"
| cps_published: "cp_completePublish now fr tid cpr cp = (x, cp') \<Longrightarrow> cp_step cp cp'"
| cps_timeouts: "cp_checkTimeouts now eids cp = (ts, cp') \<Longrightarrow> cp_step cp cp'"
| cps_int_progress: "cp_updateIntegrationProgress now tid p cp = (x, cp') \<Longrightarrow> cp_step cp cp'"
| cps_pub_progress: "cp_updatePublishProgress now tid p cp = (x, cp') \<Longrightarrow> cp_step cp cp'"
| cps_evidence: "acknowledgeEvidence now fr tid eid who why cp = (a, cp') \<Longrightarrow> cp_step cp cp'"
| cps_orphan: "blockOrphanedTask now fr tid reason resume orphaned cp = (v, cp') \<Longrightarrow> cp_step cp cp'"
| cps_recover: "recover_job now instance_id fr job cp = (v, cp') \<Longrightarrow> cp_step cp cp'"

lemma in_store_run: "in_store f cp = (r, cp') \<Longrightarrow> (\<And>r s'. f (store cp) = (r, s') \<Longrightarrow> store_step\<^sup>*\<^sup>* (store cp) s') \<Longrightarrow> store_run cp cp'"
  unfolding in_store_simps store_run_def by blast

lemma store_op_run:
  shows "createTask now k eid q s = (x, s') \<Longrightarrow> getTask s k = None \<Longrightarrow> store_step\<^sup>*\<^sup>* s s'"
    and "updateTask now k u s = (x, s') \<Longrightarrow> store_step\<^sup>*\<^sup>* s s'"
    and "recordTransition now k ev s = (y, s') \<Longrightarrow> store_step\<^sup>*\<^sup>* s s'"
proof -
  show "store_step\<^sup>*\<^sup>* s s'" if "createTask now k eid q s = (x, s')" "getTask s k = None"
  proof (cases x)
    case (Inl e)
    with that(1) show ?thesis by (auto simp: createTask_def Let_def split: sum.splits)
  next
    case (Inr t)
    with that show ?thesis by (auto intro: step_create)
  qed
  show "store_step\<^sup>*\<^sup>* s s'" if "updateTask now k u s = (x, s')"
  proof (cases x)
    case (Inl e)
    with that show ?thesis
      by (auto simp: updateTask_def and_then_def requireTask_def Let_def split: option.splits)
  next
    case (Inr t)
    with that show ?thesis by (auto intro: step_update)
  qed
  show "store_step\<^sup>*\<^sup>* s s'" if "recordTransition now k ev s = (y, s')"
  proof (cases y)
    case (Inl e)
    with that show ?thesis
      by (auto simp: recordTransition_def and_then_def requireTask_def Let_def split: option.splits sum.splits)
  next
    case (Inr t)
    with that show ?thesis by (auto intro: step_record)
  qed
qed

lemma store_ok_id: "store_ok s \<Longrightarrow> getTask s k = Some t \<Longrightarrow> task_id t = k"
  using store_okD [of s k t] by (simp add: task_logged_def)

lemma cancel_run: "store_ok s \<Longrightarrow> cancel now eid k s = (x, s') \<Longrightarrow> store_step\<^sup>*\<^sup>* s s'"
proof -
  assume ok: "store_ok s" and c: "cancel now eid k s = (x, s')"
  show ?thesis
  proof (cases "getTask s k")
    case None
    with c show ?thesis by (simp add: cancel_def and_then_def requireTask_None)
  next
    case (Some t)
    show ?thesis
    proof (cases "isTerminal (state t)")
      case True
      with Some c show ?thesis
        by (simp add: cancel_def and_then_Inr requireTask_iff [THEN iffD2] throw_def del: isTerminal_simps)
    next
      case False
      obtain ev s1 where mv: "transitionTask now eid t Cancelled (mk_input Human ''operator'' ''task cancelled'') s =
          (Inr (ev, move_task now t Cancelled), s1)" and s1: "cancel now eid k s = (Inr (move_task now t Cancelled), s1)"
        by (rule cancel_granted [OF Some False store_ok_id [OF ok Some], of now eid])
      have "store_step s s1"
        by (rule step_move [OF mv]) (use Some store_ok_id [OF ok Some] in simp_all)
      with s1 c show ?thesis by auto
    qed
  qed
qed

lemma setTask_tasks [simp]: "tasks (setTask k t s) = map_set (tasks s) k t"
  by (simp add: setTask_def)

lemma store_step_wf: "store_step s s' \<Longrightarrow> wf_map (tasks s) \<Longrightarrow> wf_map (tasks s')"
proof (induction rule: store_step.induct)
  case (step_move now eid t to inp s x s' t0)
  obtain ev t' where x: "x = (ev, t')" by (cases x)
  from step_move show ?case unfolding x transitionTask_iff by auto
next
  case (step_move_copy now eid t to inp s x s' t0)
  obtain ev t' where x: "x = (ev, t')" by (cases x)
  from step_move_copy show ?case unfolding x transitionTask_iff by auto
qed (auto simp: createTask_iff updateTask_iff recordTransition_iff)

lemma store_run_wf: "store_run cp cp' \<Longrightarrow> wf_map (tasks (store cp)) \<Longrightarrow> wf_map (tasks (store cp'))"
  unfolding store_run_def by (induction rule: rtranclp_induct) (auto intro: store_step_wf)

text \<open>The tasks a pass over the store visits.\<close>

lemma visited_tasks:
  assumes "store_ok s" and "wf_map (tasks s)"
  shows "distinct (map task_id (map_values (tasks s)))" and "\<forall>t \<in> set (map_values (tasks s)). getTask s (task_id t) = Some t"
proof -
  have key: "task_id (snd p) = fst p" and get: "getTask s (fst p) = Some (snd p)" if "p \<in> set (tasks s)" for p
  proof -
    show "getTask s (fst p) = Some (snd p)"
      using that assms(2) jm.lookup_entries [of "tasks s" "fst p" "snd p"] by (simp add: getTask_def)
    then show "task_id (snd p) = fst p" by (rule store_ok_id [OF assms(1)])
  qed
  have "map task_id (map_values (tasks s)) = map fst (tasks s)"
    using key by (simp add: map_values_def)
  with assms(2) show "distinct (map task_id (map_values (tasks s)))" by (simp add: wf_map_def)
  show "\<forall>t \<in> set (map_values (tasks s)). getTask s (task_id t) = Some t"
    using key get by (auto simp: map_values_def)
qed

definition cp_ok :: "control_plane \<Rightarrow> bool" where
  "cp_ok cp = (store_ok (store cp) \<and> wf_map (tasks (store cp)))"

lemma cp_ok_id: "cp_ok cp \<Longrightarrow> cp_lookup cp k = Some t \<Longrightarrow> cp_lookup cp (task_id t) = Some t"
  using store_ok_id [of "store cp" k t] by (simp add: cp_ok_def cp_lookup_def)

lemma finish_run: "(\<And>x c. store (snd (f x c)) = store c) \<Longrightarrow> f a c = (r, c') \<Longrightarrow> store_run c c'"
  by (metis snd_conv store_run_same)

lemma set_progress_run:
  assumes "cp_lookup cp tid = Some t" and "same_ident t u" and "cp' = cp\<lparr>store := setTask tid u (store cp)\<rparr>"
  shows "store_run cp cp'"
proof -
  have "store_step (store cp) (setTask tid u (store cp))"
    by (rule step_set [of "store cp" tid t u]) (use assms in \<open>simp_all add: cp_lookup_def same_ident_def\<close>)
  with assms(3) show ?thesis by (auto simp: store_run_def)
qed

lemma progress_same_ident:
  "same_ident t (updateIntegrationProgress now t p)" "same_ident t (updatePublishProgress now t p)"
  by (simp_all add: same_ident_def updateIntegrationProgress_def updatePublishProgress_def split: option.split)

lemma move_drop_run:
  assumes "and_then (cp_move now eid u to inp) f cp = (r, cp')" and "cp_lookup cp (task_id t) = Some t" and "same_ident t u"
    and "\<And>x c. cp_move now eid u to inp cp = (Inr x, c) \<Longrightarrow> f x c = (r, cp') \<Longrightarrow> store_run c cp'"
  shows "store_run cp cp'"
  using assms(1)
proof (rule store_run_and_then)
  show "store_run cp c" if "cp_move now eid u to inp cp = (x, c)" for x c
  proof (rule move_store_run [OF assms(2,3)])
    show "move_to (cp_move now eid) u to inp cp = ((case x of Inl e \<Rightarrow> Inl e | Inr p \<Rightarrow> Inr (snd p)), c)"
      using that by (auto simp: move_to_def and_then_def return_def split: sum.split prod.split)
  qed
qed (rule assms(4))

lemma record_main_update_store [simp]: "store (record_main_update now fr t r cp) = store cp"
  by (simp add: record_main_update_def Let_def)

lemma remember_key_store [simp]: "store (remember_key r t cp) = store cp"
  by (simp add: remember_key_def)

lemma completeIntegrate_run:
  assumes "completeIntegrate now fr tid ci cp = (z, cp')" and "cp_ok cp"
  shows "store_run cp cp'"
  using assms(1) unfolding completeIntegrate_def
proof (rule require_store_run)
  fix t
  assume t: "cp_lookup cp tid = Some t"
    and run: "(if integration t = None then throw Integration_State_Not_Found
       else and_then (completeIntegration (cp_move now (fresh_event fr)) now t ci)
         (\<lambda>resp cp. (Inr resp, record_main_update now fr t ci cp))) cp = (z, cp')"
  show "store_run cp cp'"
  proof (cases "integration t = None")
    case True
    with run show ?thesis by (simp add: throw_def store_run_same)
  next
    case False
    show ?thesis
      using run unfolding if_not_P [OF False]
      by (rule store_run_and_then) (use completeIntegration_run [OF cp_ok_id [OF assms(2) t]] in \<open>auto simp: store_run_same\<close>)
  qed
qed

lemma publish_run_store:
  assumes "publish now fr tid pq cp = (x, cp')" and "cp_ok cp"
  shows "store_run cp cp'"
  using assms(1) unfolding publish_def
proof (rule require_store_run)
  fix t
  assume t: "cp_lookup cp tid = Some t"
    and run: "(case idempotent_task pq cp of
       Some (k, existing) \<Rightarrow> (Inr existing, emit_audit now (fresh_audit fr) (task_id t) ''run.publishIdempotent''
          [(''idempotency_key'', P_Str (pq_idempotency_key pq)), (''existing_task_id'', P_Str k), (''mode'', P_Mode (pq_mode pq))] cp)
     | None \<Rightarrow> start_publication now fr t pq (remember_key pq t cp)) = (x, cp')"
  show "store_run cp cp'"
  proof (cases "idempotent_task pq cp")
    case (Some p)
    with run show ?thesis by (auto simp: store_run_same split: prod.splits)
  next
    case None
    let ?cp1 = "remember_key pq t cp"
    have "cp_lookup ?cp1 (task_id t) = Some t" using cp_ok_id [OF assms(2) t] by (simp add: cp_lookup_def)
    then have "store_run ?cp1 cp'"
      using run unfolding None option.case start_publication_def
      by (elim store_run_and_then) (auto simp: store_run_same intro: startPublish_run)
    then show ?thesis by (simp add: store_run_def)
  qed
qed

lemma cp_updateTask_run: "cp_updateTask now tid u cp = (x, cp') \<Longrightarrow> store_run cp cp'"
  unfolding cp_updateTask_def by (erule in_store_run) (rule store_op_run(2))

lemma blockOrphanedTask_run:
  assumes "blockOrphanedTask now fr tid reason resume orphaned cp = (v, cp')" and "cp_ok cp"
  shows "store_run cp cp'"
proof (cases "cp_lookup cp tid")
  case None
  with assms(1) show ?thesis by (simp add: blockOrphanedTask_def store_run_same)
next
  case (Some t)
  have upd: "store_run c c'" if "and_then (cp_updateTask now tid u) (\<lambda>_. return ()) c = (y, c')" for c c' u y
    using that by (rule store_run_and_then) (auto simp: return_def store_run_same intro: cp_updateTask_run)
  show ?thesis
    using assms(1) unfolding blockOrphanedTask_def Some option.case
    by (rule move_drop_run [OF _ cp_ok_id [OF assms(2) Some]])
      (auto simp: same_ident_def store_run_same split: if_splits intro: upd)
qed

lemma recover_job_run:
  assumes "recover_job now instance_id fr job cp = (v, cp')" and "cp_ok cp"
  shows "store_run cp cp'"
proof (cases "cp_lookup cp (job_task_id job)")
  case None
  with assms(1) show ?thesis by (simp add: recover_job_def store_run_same)
next
  case (Some t)
  show ?thesis
  proof (cases "state t = Blocked \<or> isTerminal (state t)")
    case True
    with Some assms(1) show ?thesis by (simp add: recover_job_def store_run_same)
  next
    case False
    show ?thesis
      using assms(1) unfolding recover_job_def Some option.case if_not_P [OF False]
      by (rule move_drop_run [OF _ cp_ok_id [OF assms(2) Some]])
        (auto simp: same_ident_def restart_block_def store_run_same)
  qed
qed

lemma acknowledgeEvidence_store: "acknowledgeEvidence now fr tid eid who why cp = (a, cp') \<Longrightarrow> store cp' = store cp"
  by (auto simp: acknowledgeEvidence_def cp_requireTask_def in_store_def and_then_def requireTask_def Let_def
      split: option.splits if_splits prod.splits)

lemma completeAcceptance_run:
  assumes "completeAcceptance now fr tid aq cp = (ar, cp')" and "cp_ok cp"
  shows "store_run cp cp'"
proof (cases "cp_lookup cp tid")
  case None
  with assms(1) show ?thesis
    by (auto simp: completeAcceptance_def and_then_def cp_requireTask_def in_store_def cp_lookup_def requireTask_None store_run_same)
next
  case (Some t)
  have id: "task_id t = tid" using Some assms(2) store_ok_id by (auto simp: cp_ok_def cp_lookup_def)
  show ?thesis
  proof (cases "state t = Accepting")
    case False
    with assms(1) show ?thesis
      by (simp add: completeAcceptance_def and_then_def cp_requireTask_Some [OF Some] throw_def store_run_same)
  next
    case True
    let ?s = "save_effect now aq t tid cp"
    have saved: "store_run cp ?s"
      using save_checklist_eq [OF Some, of now aq] unfolding save_checklist_def
      by (auto simp: return_def store_run_same split: if_splits elim!: store_run_and_then intro: cp_updateTask_run)
    show ?thesis
    proof (cases "acceptance_gates now aq t")
      case (Inl e)
      with assms(1) saved show ?thesis by (simp add: completeAcceptance_cases [OF Some True])
    next
      case (Inr p)
      obtain c v where p: "p = (c, v)" by (cases p)
      let ?u = "accepted_candidate t c v" and ?in = "mk_input Human ''manual_acceptance'' ''manual acceptance completed''"
      have run: "accept_task now fr aq t c v ?s = (ar, cp')"
        using assms(1) Inr p by (simp add: completeAcceptance_cases [OF Some True])
      obtain t0 where t0: "cp_lookup ?s tid = Some t0" "state t0 = state t" "version t0 \<le> version t + 1"
        using Some by (cases "aq_checked_items aq = None \<or> manual_checklist t = None") (auto simp: save_effect_lookup)
      obtain ev t' cp1 where mv: "cp_move now (fresh_event fr) ?u Accepted ?in ?s = (Inr (ev, t'), cp1)"
        using cp.granted [of ?u Accepted now "fresh_event fr" ?in ?s] True by (auto simp: accepted_candidate_def)
      have "transitionTask now (fresh_event fr) ?u Accepted ?in (store ?s) = (Inr (ev, t'), store cp1)"
        using mv unfolding cp_move_def in_store_simps by blast
      moreover have "int (length (listEvents (store cp) tid)) \<le> version t + 1"
        using store_okD [of "store cp" tid t] Some assms(2) by (simp add: cp_ok_def cp_lookup_def task_logged_def)
      ultimately have "store_step (store ?s) (store cp1)"
        using t0 id by (intro step_move_copy [of now "fresh_event fr" ?u Accepted ?in "store ?s" "(ev, t')" "store cp1" t0])
          (auto simp: accepted_candidate_def cp_lookup_def save_effect_journal)
      moreover have "store cp' = store cp1"
        using run mv [unfolded mk_input_def] by (auto simp: accept_task_def and_then_def)
      ultimately have "store_run ?s cp'" by (simp add: store_run_def)
      with saved show ?thesis by (rule store_run_trans)
    qed
  qed
qed

lemma cp_step_run:
  assumes "cp_step cp cp'" and ok: "cp_ok cp"
  shows "store_run cp cp'"
  using assms(1)
proof cases
  case (cps_create now fr q x)
  show ?thesis
    using cps_create(1) unfolding cp_createTask_def
    by (rule in_store_run) (use cps_create(2) in \<open>auto simp: cp_lookup_def intro: store_op_run(1)\<close>)
next
  case (cps_cancel now fr tid x)
  then show ?thesis
    unfolding cp_cancel_def by (rule in_store_run) (use ok in \<open>auto simp: cp_ok_def intro: cancel_run\<close>)
next
  case (cps_record now tid ev y)
  then show ?thesis unfolding cp_recordTransition_def by (rule in_store_run) (rule store_op_run(3))
next
  case (cps_integrate now fr tid sha x)
  then show ?thesis
    unfolding integrate_def by (rule require_store_run) (use cp_ok_id [OF ok] startIntegration_run in blast)
next
  case (cps_approve now fr tid tok x)
  then show ?thesis
    unfolding cp_approvePublish_def
    by (rule require_store_run) (erule store_run_and_then,
      auto simp: store_run_same intro: approvePublish_run [OF cp_ok_id [OF ok]])
next
  case (cps_published now fr tid q x)
  then show ?thesis
    unfolding cp_completePublish_def
    by (rule require_store_run) (erule store_run_and_then,
      auto simp: store_run_same intro: completePublish_run [OF cp_ok_id [OF ok]])
next
  case (cps_timeouts now eids ts)
  then show ?thesis
    unfolding cp_checkTimeouts_def
    by (intro checkTimeouts_run) (use ok visited_tasks [of "store cp"] in \<open>auto simp: cp_ok_def cp_lookup_def\<close>)
next
  case (cps_int_progress now tid p x)
  then show ?thesis
    unfolding cp_updateIntegrationProgress_def
    by (rule require_store_run) (rule set_progress_run, assumption, rule progress_same_ident(1) [of _ now p], simp add: Let_def)
next
  case (cps_pub_progress now tid p x)
  then show ?thesis
    unfolding cp_updatePublishProgress_def
    by (rule require_store_run) (rule set_progress_run, assumption, rule progress_same_ident(2) [of _ now p], simp add: Let_def)
next
  case (cps_evidence now fr tid eid who why a)
  then show ?thesis by (intro store_run_same acknowledgeEvidence_store)
next
  case cps_acceptance
  then show ?thesis using ok by (rule completeAcceptance_run)
next
  case cps_update
  then show ?thesis by (rule cp_updateTask_run)
next
  case cps_integrated
  then show ?thesis using ok by (rule completeIntegrate_run)
next
  case cps_publish
  then show ?thesis using ok by (rule publish_run_store)
next
  case cps_orphan
  then show ?thesis using ok by (rule blockOrphanedTask_run)
next
  case cps_recover
  then show ?thesis using ok by (rule recover_job_run)
qed

subsection \<open>Reachable states\<close>

lemma empty_cp_ok: "cp_ok empty_control_plane"
  by (simp add: cp_ok_def empty_control_plane_def empty_store_ok) (simp add: empty_store_def)

lemma cp_steps_run:
  assumes "cp_step\<^sup>*\<^sup>* cp cp'" and "cp_ok cp"
  shows "cp_ok cp' \<and> store_run cp cp'"
  using assms
proof (induction rule: rtranclp_induct)
  case (step a b)
  then have a: "cp_ok a" "store_run cp a" by auto
  have ab: "store_run a b" by (rule cp_step_run [OF step(2) a(1)])
  have "cp_ok b"
    using a(1) ab store_run_wf store_reachable_ok unfolding cp_ok_def store_run_def by blast
  with a(2) ab store_run_trans show ?case by blast
qed (simp add: store_run_same)

lemma cp_reachable: "cp_step\<^sup>*\<^sup>* empty_control_plane cp \<Longrightarrow> cp_ok cp \<and> store_step\<^sup>*\<^sup>* empty_store (store cp)"
  using cp_steps_run [OF _ empty_cp_ok] by (auto simp: store_run_def empty_control_plane_def)

lemma store_step_keeps: "store_step s s' \<Longrightarrow> store_ok s \<Longrightarrow> getTask s k \<noteq> None \<Longrightarrow> getTask s' k \<noteq> None"
  by (auto elim: store_step_task)

lemma store_run_keeps: "store_run cp cp' \<Longrightarrow> store_ok (store cp) \<Longrightarrow> cp_lookup cp k \<noteq> None \<Longrightarrow> cp_lookup cp' k \<noteq> None"
  unfolding store_run_def cp_lookup_def
  by (induction rule: rtranclp_induct) (auto dest: store_step_keeps store_reachable_ok)

text \<open>A key that was used for a task stays with it.\<close>

lemma in_store_keys: "in_store f cp = (r, cp') \<Longrightarrow> publishIdempotencyKeys cp' = publishIdempotencyKeys cp"
  by (auto simp: in_store_def split: prod.splits)

definition keeps_keys :: "(control_plane \<Rightarrow> (error, 'a, control_plane) outcome) \<Rightarrow> bool" where
  "keeps_keys m = (\<forall>cp. publishIdempotencyKeys (snd (m cp)) = publishIdempotencyKeys cp)"

text \<open>An operation that changes nothing but the tasks and their events.\<close>

definition store_only :: "(control_plane \<Rightarrow> (error, 'a, control_plane) outcome) \<Rightarrow> bool" where
  "store_only m = (\<forall>cp. snd (m cp) = cp\<lparr>store := store (snd (m cp))\<rparr>)"

lemma keeps_keysD: "keeps_keys m \<Longrightarrow> m cp = (r, cp') \<Longrightarrow> publishIdempotencyKeys cp' = publishIdempotencyKeys cp"
  by (metis keeps_keys_def snd_conv)

lemma store_onlyD: "store_only m \<Longrightarrow> m cp = (r, cp') \<Longrightarrow> cp' = cp\<lparr>store := store cp'\<rparr>"
  by (metis store_only_def snd_conv)

lemma store_only_keys: "store_only m \<Longrightarrow> keeps_keys m"
  by (metis (no_types, lifting) control_plane.select_convs(2) control_plane.surjective control_plane.update_convs(1)
      keeps_keys_def store_only_def)

lemma store_only_basic [intro!]:
  "store_only (in_store f)" "store_only (throw e)" "store_only (return a)" "store_only (cp_move now eid u to inp)"
  by (simp_all add: store_only_def in_store_def throw_def return_def cp_move_def split: prod.split)

lemma store_only_and_then [intro!]:
  assumes "store_only m" and "\<And>a. store_only (f a)"
  shows "store_only (and_then m f)"
  unfolding store_only_def
proof
  fix cp
  obtain x c where m: "m cp = (x, c)" by (cases "m cp")
  note c = store_onlyD [OF assms(1) m]
  show "snd (and_then m f cp) = cp\<lparr>store := store (snd (and_then m f cp))\<rparr>"
  proof (cases x)
    case (Inl e)
    with m c show ?thesis by (simp add: and_then_def)
  next
    case (Inr a)
    obtain y d where d: "f a c = (y, d)" by (cases "f a c")
    have "d = cp\<lparr>store := store d\<rparr>"
      using store_onlyD [OF assms(2) d] c by (metis control_plane.surjective control_plane.update_convs(1))
    with m Inr d show ?thesis by (simp add: and_then_def)
  qed
qed

lemma store_only_move_to [intro!]: "store_only (move_to (cp_move now eid) u to inp)"
  "store_only (move_to (cp_move_each now eids) u to inp)"
  unfolding move_to_def cp_move_each_def by (auto split: prod.split)

lemma store_only_if [intro!]: "(b \<Longrightarrow> store_only x) \<Longrightarrow> (\<not> b \<Longrightarrow> store_only y) \<Longrightarrow> store_only (if b then x else y)"
  by simp

lemma flows_store_only [intro!]:
  "store_only (startIntegration (cp_move now eid) now2 rid t sha)"
  "store_only (startPublish (cp_move now eid) now2 rid tok t q)"
  "store_only (approvePublish (cp_move now eid) now2 rid t given)"
  "store_only (completePublish (cp_move now eid) now2 t pr)"
  "store_only (completeIntegration (cp_move now eid) now2 t ci)"
  unfolding startIntegration_def startPublish_def approvePublish_def completePublish_def completeIntegration_def Let_def
  by (auto split: option.split)

lemma store_only_timeouts [intro!]: "store_only (checkTimeouts (cp_move_each now eids) now2 ts)"
proof (induction ts)
  case Nil
  show ?case by (simp add: store_only_def return_def)
next
  case (Cons t ts)
  have "checkTimeouts (cp_move_each now eids) now2 (t # ts) = and_then (check_run (cp_move_each now eids) now2 t) (\<lambda>xs.
      and_then (checkTimeouts (cp_move_each now eids) now2 ts) (\<lambda>ys. return (xs @ ys)))" by (rule ext) simp
  moreover have "store_only (check_run (cp_move_each now eids) now2 t)"
    unfolding check_run_def checkIntegrationTimeout_def checkPublishTimeout_def by (auto split: option.split)
  ultimately show ?case using Cons by auto
qed

lemma keeps_keys_and_then [intro!]: "keeps_keys m \<Longrightarrow> (\<And>a. keeps_keys (f a)) \<Longrightarrow> keeps_keys (and_then m f)"
  by (auto simp: keeps_keys_def and_then_def split: prod.split sum.split) (metis snd_conv)+

lemma keeps_keys_if [intro!]: "(b \<Longrightarrow> keeps_keys x) \<Longrightarrow> (\<not> b \<Longrightarrow> keeps_keys y) \<Longrightarrow> keeps_keys (if b then x else y)"
  by simp

lemma keeps_keys_pair: "(\<And>cp. publishIdempotencyKeys (snd (m cp)) = publishIdempotencyKeys cp) \<Longrightarrow> keeps_keys m"
  by (simp add: keeps_keys_def)

lemma require_store_only [intro!]: "store_only (require_in_state tid st)" "store_only (cp_requireTask tid)"
  unfolding require_in_state_def cp_requireTask_def by auto

lemma journal_keys [simp]:
  "publishIdempotencyKeys (emit_audit now aid tid ty p cp) = publishIdempotencyKeys cp"
  "publishIdempotencyKeys (add_checkpoint c cp) = publishIdempotencyKeys cp"
  "publishIdempotencyKeys (record_main_update now fr t r cp) = publishIdempotencyKeys cp"
  by (simp_all add: emit_audit_def add_checkpoint_def record_main_update_def Let_def)

lemmas keys_intros = keeps_keys_and_then keeps_keys_if store_only_keys [OF store_only_basic(1)]
  store_only_keys [OF store_only_basic(2)] store_only_keys [OF store_only_basic(3)] store_only_keys [OF store_only_basic(4)]
  store_only_keys [OF flows_store_only(1)] store_only_keys [OF flows_store_only(2)] store_only_keys [OF flows_store_only(3)]
  store_only_keys [OF flows_store_only(4)] store_only_keys [OF flows_store_only(5)]
  store_only_keys [OF require_store_only(1)] store_only_keys [OF require_store_only(2)]

lemma accept_task_keys: "keeps_keys (accept_task now fr aq t c v)"
  unfolding accept_task_def by (intro keys_intros keeps_keys_pair) (simp split: prod.split)

lemma ops_keep_keys:
  "keeps_keys (cp_createTask now fr cq)" "keeps_keys (cp_updateTask now tid u)" "keeps_keys (cp_cancel now fr tid)"
  "keeps_keys (cp_recordTransition now tid ev)" "keeps_keys (integrate now fr tid sha)"
  "keeps_keys (completeIntegrate now fr tid ci)" "keeps_keys (cp_approvePublish now fr tid tok)"
  "keeps_keys (cp_completePublish now fr tid pr)" "keeps_keys (cp_checkTimeouts now eids)"
  "keeps_keys (cp_updateIntegrationProgress now tid p)" "keeps_keys (cp_updatePublishProgress now tid p)"
  "keeps_keys (acknowledgeEvidence now fr tid evid who why)" "keeps_keys (blockOrphanedTask now fr tid reason resume orphaned)"
  "keeps_keys (recover_job now inst fr job)" "keeps_keys (completeAcceptance now fr tid aq)"
proof -
  show "keeps_keys (completeAcceptance now fr tid aq)"
    unfolding completeAcceptance_def save_checklist_def cp_updateTask_def
    by (intro keys_intros) (auto intro!: keys_intros accept_task_keys split: sum.split)
  show "keeps_keys (cp_createTask now fr cq)" "keeps_keys (cp_updateTask now tid u)" "keeps_keys (cp_cancel now fr tid)"
    "keeps_keys (cp_recordTransition now tid ev)" "keeps_keys (integrate now fr tid sha)"
    unfolding cp_createTask_def cp_updateTask_def cp_cancel_def cp_recordTransition_def integrate_def
    by (intro keys_intros)+
  show "keeps_keys (completeIntegrate now fr tid ci)" "keeps_keys (cp_approvePublish now fr tid tok)"
    "keeps_keys (cp_completePublish now fr tid pr)"
    unfolding completeIntegrate_def cp_approvePublish_def cp_completePublish_def by (intro keys_intros keeps_keys_pair; simp)+
  show "keeps_keys (cp_checkTimeouts now eids)"
    using store_only_keys [OF store_only_timeouts] unfolding keeps_keys_def cp_checkTimeouts_def by blast
  show "keeps_keys (cp_updateIntegrationProgress now tid p)" "keeps_keys (cp_updatePublishProgress now tid p)"
    unfolding cp_updateIntegrationProgress_def cp_updatePublishProgress_def by (intro keys_intros keeps_keys_pair; simp add: Let_def)+
  show "keeps_keys (acknowledgeEvidence now fr tid evid who why)"
    unfolding acknowledgeEvidence_def by (intro keys_intros keeps_keys_pair) (auto simp: Let_def split: prod.split)
  have upd: "keeps_keys (and_then (cp_updateTask now tid u) (\<lambda>_. return ()))" for u
    unfolding cp_updateTask_def by (intro keys_intros)
  show "keeps_keys (blockOrphanedTask now fr tid reason resume orphaned)"
  proof (rule keeps_keys_pair)
    fix cp
    have "keeps_keys (\<lambda>cp1. if cp_lookup cp1 tid = None then (Inr (), cp1)
            else and_then (cp_updateTask now tid (orphan_block_update resume reason orphaned)) (\<lambda>_. return ()) cp1)"
      using upd by (intro keeps_keys_pair) (simp add: keeps_keys_def)
    then have "keeps_keys (and_then (cp_move now (fresh_event fr) t Blocked inp) (\<lambda>_ cp1. if cp_lookup cp1 tid = None then (Inr (), cp1)
            else and_then (cp_updateTask now tid (orphan_block_update resume reason orphaned)) (\<lambda>_. return ()) cp1))" for t inp
      by (intro keys_intros)
    then show "publishIdempotencyKeys (snd (blockOrphanedTask now fr tid reason resume orphaned cp)) = publishIdempotencyKeys cp"
      by (cases "cp_lookup cp tid") (simp_all add: blockOrphanedTask_def keeps_keys_def)
  qed
  show "keeps_keys (recover_job now inst fr job)"
  proof (rule keeps_keys_pair)
    fix cp
    have "keeps_keys (and_then (cp_move now (fresh_event fr) (restart_block job t) Blocked inp)
        (\<lambda>_ cp1. (Inr (), emit_audit now (fresh_audit fr) (job_task_id job) ty pl cp1)))" for t inp ty pl
      by (intro keys_intros keeps_keys_pair) simp
    then show "publishIdempotencyKeys (snd (recover_job now inst fr job cp)) = publishIdempotencyKeys cp"
      by (cases "cp_lookup cp (job_task_id job)") (simp_all add: recover_job_def keeps_keys_def)
  qed
qed

text \<open>The task a non-empty key was used for.\<close>

definition key_owner :: "control_plane \<Rightarrow> string \<Rightarrow> string \<Rightarrow> bool" where
  "key_owner cp key k = (key \<noteq> [] \<and> k \<noteq> [] \<and> map_get (publishIdempotencyKeys cp) key = Some k \<and> cp_lookup cp k \<noteq> None)"

lemma publish_keeps_owner:
  assumes "publish now fr tid pq cp = (x, cp')" and "map_get (publishIdempotencyKeys cp) key = Some k"
    and "key \<noteq> []" and "k \<noteq> []" and "cp_lookup cp k \<noteq> None"
  shows "map_get (publishIdempotencyKeys cp') key = Some k"
proof -
  have first: "keeps_keys (start_publication now fr t pq)" for t
    unfolding start_publication_def by (intro keys_intros keeps_keys_pair) simp
  have owned: "idempotent_task pq cp = None \<Longrightarrow> pq_idempotency_key pq \<noteq> key"
    using assms(2-5) by (auto simp: idempotent_task_def cp_lookup_def)
  have body: "map_get (publishIdempotencyKeys c') key = Some k"
    if "(case idempotent_task pq cp of
       Some (i, existing) \<Rightarrow> (Inr existing, emit_audit now (fresh_audit fr) (task_id t) ''run.publishIdempotent''
          [(''idempotency_key'', P_Str (pq_idempotency_key pq)), (''existing_task_id'', P_Str i), (''mode'', P_Mode (pq_mode pq))] cp)
     | None \<Rightarrow> start_publication now fr t pq (remember_key pq t cp)) = (y, c')" for t c' y
  proof (cases "idempotent_task pq cp")
    case None
    with that have "publishIdempotencyKeys c' = publishIdempotencyKeys (remember_key pq t cp)"
      using keeps_keysD [OF first] by simp
    then show ?thesis
      using owned [OF None] assms(2) by (simp add: remember_key_def jm.lookup_store)
  next
    case (Some p)
    with that assms(2) show ?thesis by (auto split: prod.splits)
  qed
  show ?thesis
  proof (cases "require_in_state tid Integrated cp")
    case (Pair r c1)
    then have c1: "c1 = cp" by (rule require_in_state_same)
    show ?thesis
    proof (cases r)
      case (Inl e)
      with Pair c1 assms(1,2) show ?thesis by (simp add: publish_def and_then_def)
    next
      case (Inr t)
      with Pair c1 assms(1) show ?thesis by (intro body [of t x]) (simp add: publish_def and_then_def)
    qed
  qed
qed

lemma cp_step_keeps_owner:
  assumes "cp_step cp cp'" and "cp_ok cp" and "key_owner cp key k"
  shows "key_owner cp' key k"
proof -
  have "cp_lookup cp' k \<noteq> None"
    using store_run_keeps [OF cp_step_run [OF assms(1,2)]] assms(2,3) by (simp add: cp_ok_def key_owner_def)
  moreover have "map_get (publishIdempotencyKeys cp') key = Some k"
    using assms(1)
  proof cases
    case cps_publish
    then show ?thesis by (rule publish_keeps_owner) (use assms(3) in \<open>simp_all add: key_owner_def\<close>)
  qed (use assms(3) keeps_keysD [OF ops_keep_keys(1)] keeps_keysD [OF ops_keep_keys(2)] keeps_keysD [OF ops_keep_keys(3)]
      keeps_keysD [OF ops_keep_keys(4)] keeps_keysD [OF ops_keep_keys(5)] keeps_keysD [OF ops_keep_keys(6)]
      keeps_keysD [OF ops_keep_keys(7)] keeps_keysD [OF ops_keep_keys(8)] keeps_keysD [OF ops_keep_keys(9)]
      keeps_keysD [OF ops_keep_keys(10)] keeps_keysD [OF ops_keep_keys(11)] keeps_keysD [OF ops_keep_keys(12)]
      keeps_keysD [OF ops_keep_keys(13)] keeps_keysD [OF ops_keep_keys(14)]
      keeps_keysD [OF ops_keep_keys(15)] in \<open>simp only: key_owner_def\<close>)+
  ultimately show ?thesis using assms(3) by (simp add: key_owner_def)
qed

lemma cp_steps_keep_owner: "cp_step\<^sup>*\<^sup>* cp cp' \<Longrightarrow> cp_ok cp \<Longrightarrow> key_owner cp key k \<Longrightarrow> key_owner cp' key k"
  by (induction rule: rtranclp_induct) (auto dest: cp_steps_run intro: cp_step_keeps_owner)

subsection \<open>A control plane with one task\<close>

definition sample_fresh :: fresh_ids where
  "sample_fresh = \<lparr>fresh_task = ''task_1'', fresh_event = ''evt_1'', fresh_audit = ''audit_1'',
     fresh_checkpoint = ''cp_1'', fresh_run = ''run_1'', fresh_token = ''token_1''\<rparr>"

definition one_task_plane :: control_plane where
  "one_task_plane = empty_control_plane\<lparr>store := one_task_store\<rparr>"

lemma one_task_plane_reached: "cp_step\<^sup>*\<^sup>* empty_control_plane one_task_plane"
proof -
  have "cp_createTask 5 sample_fresh sample_request empty_control_plane = (Inr (new_task 5 ''task_1'' sample_request), one_task_plane)"
    by (simp add: cp_createTask_def in_store_def empty_control_plane_def one_task_plane_def sample_fresh_def one_task_created)
  then have "cp_step empty_control_plane one_task_plane"
    by (rule cps_create) (simp add: cp_lookup_def empty_control_plane_def empty_store_def getTask_def)
  then show ?thesis by blast
qed

lemma one_task_plane_lookup: "cp_lookup one_task_plane ''task_1'' = Some (new_task 5 ''task_1'' sample_request)"
  by (simp add: cp_lookup_def one_task_plane_def one_task_store_get)

definition transition_to :: "task \<Rightarrow> task_state \<Rightarrow> transition_event" where
  "transition_to t st = \<lparr>event_id = ''evt'', event_task_id = task_id t, from_state = state t, to_state = st,
     event_actor_type = Human, event_actor_id = ''operator'', event_reason = ''recorded'', event_job_id = None,
     event_artifact_ids = None, occurred_at = 0\<rparr>"

lemma recorded_reachable:
  assumes "cp_step\<^sup>*\<^sup>* empty_control_plane cp" and "cp_lookup cp k = Some t" and "canTransition (state t) st"
  obtains cp' where "cp_step\<^sup>*\<^sup>* empty_control_plane cp'" and "cp_step cp cp'"
    and "cp_lookup cp' k = Some (t\<lparr>state := st, version := version t + 1, updated_at := 0\<rparr>)"
    and "publishIdempotencyKeys cp' = publishIdempotencyKeys cp"
proof -
  have id: "task_id t = k"
    using cp_reachable [OF assms(1)] assms(2) store_ok_id by (auto simp: cp_ok_def cp_lookup_def)
  let ?ev = "transition_to t st"
  let ?s = "recordEvent ?ev ((store cp)\<lparr>tasks := map_set (tasks (store cp)) (task_id t)
        (t\<lparr>state := st, version := version t + 1, updated_at := 0\<rparr>)\<rparr>)"
  have "recordTransition 0 k ?ev (store cp) = (Inr ?ev, ?s)"
    unfolding recordTransition_iff using assms(2,3) id
    by (simp add: cp_lookup_def transition_to_def del: canTransition_code)
  then have "cp_recordTransition 0 k ?ev cp = (Inr ?ev, cp\<lparr>store := ?s\<rparr>)"
    by (simp add: cp_recordTransition_def in_store_def)
  then have step: "cp_step cp (cp\<lparr>store := ?s\<rparr>)" by (rule cps_record)
  with assms(1) have "cp_step\<^sup>*\<^sup>* empty_control_plane (cp\<lparr>store := ?s\<rparr>)" by (rule rtranclp.rtrancl_into_rtrancl)
  then show ?thesis
    by (rule that [OF _ step]) (simp_all add: cp_lookup_def id)
qed

subsection \<open>The operations on a task in the right state\<close>

lemma require_in_state_ok: "cp_lookup cp k = Some t \<Longrightarrow> state t = st \<Longrightarrow> require_in_state k st cp = (Inr t, cp)"
  by (simp add: require_in_state_iff)

lemma journal_lookup [simp]:
  "cp_lookup (emit_audit now aid tid ty p cp) = cp_lookup cp" "cp_lookup (add_checkpoint c cp) = cp_lookup cp"
  "cp_lookup (record_main_update now fr t r cp) = cp_lookup cp" "cp_lookup (remember_key pq t cp) = cp_lookup cp"
  by (simp_all add: cp_lookup_def fun_eq_iff)

lemma integrate_ok:
  assumes "cp_lookup cp k = Some t" and "state t = Accepted" and "task_id t = k"
  obtains t' cp' where "integrate now fr k sha cp = (Inr t', cp')" and "cp_lookup cp' k = Some t'" and "state t' = Integrating"
    and "task_id t' = k" and "same_work (start_integration_task now (fresh_run fr) t sha) t'"
proof -
  obtain t' cp' where "startIntegration (cp_move now (fresh_event fr)) now (fresh_run fr) t sha cp = (Inr t', cp')"
      "\<And>i. cp_lookup cp' i = (if i = task_id t then Some t' else cp_lookup cp i)" "task_id t' = task_id t"
      "state t' = Integrating" "same_work (start_integration_task now (fresh_run fr) t sha) t'"
    by (rule cp.startIntegration_Accepted [OF assms(2), where nowa = now and eid = "fresh_event fr" and now = now
          and rid = "fresh_run fr" and sha = sha and s = cp]) blast
  then show ?thesis
    using require_in_state_ok [OF assms(1,2)] assms(3)
    by (intro that [of t' cp']) (simp_all add: integrate_def and_then_Inr)
qed

lemma completeIntegrate_ok:
  assumes "cp_lookup cp k = Some t" and "state t = Integrating" and "task_id t = k" and "integration t = Some i"
  obtains resp t' c where "completeIntegrate now fr k r cp = (Inr resp, record_main_update now fr t r c)"
    and "cp_lookup c k = Some t'" and "task_id t' = k" and "ir_state resp = state t'"
    and "state t' = (if sha_valid (validateBaseSha (sha_input t r)) \<and> ci_checks_passed r then Integrated else Blocked)"
    and "auditEvents c = auditEvents cp" and "checkpoints c = checkpoints cp"
    and "state t' = Integrated \<Longrightarrow> integration t' = Some (i\<lparr>checks_passed := Some True,
        integration_head_sha := replace_by (integration_head_sha i) (ci_head_sha r),
        main_updated_sha := replace_by (main_updated_sha i) (ci_main_sha r)\<rparr>) \<and>
      repo_ref t' = repo_ref t \<and> repo_policy t' = repo_policy t \<and> publish_plan t' = publish_plan t"
proof -
  obtain resp t' c where c: "completeIntegration (cp_move now (fresh_event fr)) now t r cp = (Inr resp, c)"
      "\<And>j. cp_lookup c j = (if j = task_id t then Some t' else cp_lookup cp j)" "task_id t' = task_id t"
      "state t' = (if sha_valid (validateBaseSha (sha_input t r)) \<and> ci_checks_passed r then Integrated else Blocked)"
      "ir_state resp = state t'"
      "state t' = Integrated \<Longrightarrow> integration t' = Some (i\<lparr>checks_passed := Some True,
        integration_head_sha := replace_by (integration_head_sha i) (ci_head_sha r),
        main_updated_sha := replace_by (main_updated_sha i) (ci_main_sha r)\<rparr>) \<and>
      repo_ref t' = repo_ref t \<and> repo_policy t' = repo_policy t \<and> publish_plan t' = publish_plan t"
    by (rule cp.completeIntegration_Integrating [OF assms(2,4), where nowa = now and eid = "fresh_event fr" and now = now
          and r = r and s = cp]) blast
  have "auditEvents c = auditEvents cp" "checkpoints c = checkpoints cp"
    using store_onlyD [OF flows_store_only(5) c(1)]
    by (metis control_plane.select_convs(3,4) control_plane.surjective control_plane.update_convs(1))+
  with c show ?thesis
    using require_in_state_ok [OF assms(1,2)] assms(3,4)
    by (intro that [of resp c t']) (simp_all add: completeIntegrate_def and_then_Inr)
qed

lemma publish_ok:
  assumes "cp_lookup cp k = Some t" and "state t = Integrated" and "task_id t = k" and "idempotent_task r cp = None"
  obtains t' cp' where "publish now fr k r cp = (Inr t', cp')" and "cp_lookup cp' k = Some t'" and "task_id t' = k"
    and "state t' = (if pq_mode r = Apply \<and> \<not> ppr_allowed (publish_policy_result_of t) then Blocked
       else if needs_approval t r then Publish_Pending_Approval else Publishing)"
    and "state t' = Publish_Pending_Approval \<Longrightarrow> pending_approval_token t' = Some (fresh_token fr) \<and>
       pending_approval_expires_at t' = Some (now + APPROVAL_TOKEN_TTL_MS)"
proof -
  obtain t' c where c: "startPublish (cp_move now (fresh_event fr)) now (fresh_run fr) (fresh_token fr) t r (remember_key r t cp) = (Inr t', c)"
      "\<And>j. cp_lookup c j = (if j = task_id t then Some t' else cp_lookup (remember_key r t cp) j)" "task_id t' = task_id t"
      "state t' = (if pq_mode r = Apply \<and> \<not> ppr_allowed (publish_policy_result_of t) then Blocked
       else if needs_approval t r then Publish_Pending_Approval else Publishing)"
      "state t' = Publish_Pending_Approval \<Longrightarrow> pending_approval_token t' = Some (fresh_token fr) \<and>
       pending_approval_expires_at t' = Some (now + APPROVAL_TOKEN_TTL_MS)"
    by (rule cp.startPublish_Integrated [OF assms(2), where nowa = now and eid = "fresh_event fr" and now = now
          and rid = "fresh_run fr" and token = "fresh_token fr" and r = r and s = "remember_key r t cp"]) blast
  let ?c = "emit_audit now (fresh_audit fr) (task_id t) ''run.publishRequested''
        [(''mode'', P_Mode (pq_mode r)), (''idempotency_key'', P_Str (pq_idempotency_key r)),
         (''approval_required'', P_Opt_Bool (approval_required (plan_of t)))] c"
  have "publish now fr k r cp = (Inr t', ?c)"
    using require_in_state_ok [OF assms(1,2)] assms(4) c(1) by (simp add: publish_def start_publication_def and_then_Inr)
  then show ?thesis by (rule that) (use c assms(3) in simp_all)
qed

lemma approvePublish_ok:
  assumes "cp_lookup cp k = Some t" and "state t = Publish_Pending_Approval" and "task_id t = k"
    and "validateApprovalToken now t tok = None"
  obtains t' cp' where "cp_approvePublish now fr k tok cp = (Inr t', cp')" and "cp_lookup cp' k = Some t'" and "task_id t' = k"
    and "state t' = Publishing"
proof -
  obtain t' c where c: "approvePublish (cp_move now (fresh_event fr)) now (fresh_run fr) t tok cp = (Inr t', c)"
      "\<And>j. cp_lookup c j = (if j = task_id t then Some t' else cp_lookup cp j)" "task_id t' = task_id t" "state t' = Publishing"
    by (rule cp.approvePublish_spec [OF assms(2), where nowa = now and eid = "fresh_event fr" and now = now
          and rid = "fresh_run fr" and tok = tok and s = cp]) (use assms(4) in auto)
  then have "cp_approvePublish now fr k tok cp = (Inr t', add_checkpoint (approval_checkpoint now fr (task_id t)) c)"
    using require_in_state_ok [OF assms(1,2)] by (simp add: cp_approvePublish_def and_then_Inr)
  then show ?thesis by (rule that) (use c assms(3) in simp_all)
qed

lemma completePublish_ok:
  assumes "cp_lookup cp k = Some t" and "state t = Publishing" and "task_id t = k"
  obtains t' t2 cp' where "cp_completePublish now fr k r cp = (Inr t2, cp')" and "cp_lookup cp' k = Some t'" and "state t' = Published"
    and "t2 = t'\<lparr>completed_at := Some now\<rparr>"
proof -
  obtain t' c where c: "completePublish (cp_move now (fresh_event fr)) now t r cp = (Inr (t'\<lparr>completed_at := Some now\<rparr>), c)"
      "\<And>j. cp_lookup c j = (if j = task_id t then Some t' else cp_lookup cp j)" "state t' = Published"
    by (rule cp.completePublish_Publishing [OF assms(2), where nowa = now and eid = "fresh_event fr" and now = now
          and r = r and s = cp]) blast
  let ?c = "emit_audit now (fresh_audit fr) (task_id t) ''run.publishCompleted''
          [(''external_refs'', P_Refs (cp_external_refs r)), (''rollback_notes'', P_Opt (cp_rollback_notes r))] c"
  have "cp_completePublish now fr k r cp = (Inr (t'\<lparr>completed_at := Some now\<rparr>), ?c)"
    using require_in_state_ok [OF assms(1,2)] c(1) by (simp add: cp_completePublish_def and_then_Inr)
  then show ?thesis by (rule that) (use c assms(3) in simp_all)
qed

lemma integrated_plane:
  obtains cp t where "cp_step\<^sup>*\<^sup>* empty_control_plane cp" and "cp_lookup cp ''task_1'' = Some t" and "state t = Integrated"
    and "task_id t = ''task_1''" and "publishIdempotencyKeys cp = []" and "\<not> ppr_allowed (publish_policy_result_of t)"
proof -
  let ?t = "new_task 5 ''task_1'' sample_request"
  obtain cp1 where cp1: "cp_step\<^sup>*\<^sup>* empty_control_plane cp1"
      "cp_lookup cp1 ''task_1'' = Some (?t\<lparr>state := Blocked, version := version ?t + 1, updated_at := 0\<rparr>)"
      "publishIdempotencyKeys cp1 = publishIdempotencyKeys one_task_plane"
    by (rule recorded_reachable [OF one_task_plane_reached one_task_plane_lookup, of Blocked]) auto
  obtain cp2 where cp2: "cp_step\<^sup>*\<^sup>* empty_control_plane cp2"
      "cp_lookup cp2 ''task_1'' = Some (?t\<lparr>state := Blocked, version := version ?t + 1, updated_at := 0,
         state := Integrated, version := version ?t + 1 + 1, updated_at := 0\<rparr>)"
      "publishIdempotencyKeys cp2 = publishIdempotencyKeys cp1"
    by (rule recorded_reachable [OF cp1(1,2), of Integrated]) auto
  show ?thesis
    by (rule that [OF cp2(1,2)]) (use cp1(3) cp2(3) in \<open>simp_all add: one_task_plane_def empty_control_plane_def publish_policy_result_of_def
      validatePublishPolicy_def policy_of_def new_task_def sample_request_def DEFAULT_REPO_POLICY_def\<close>)
qed

definition apply_request :: publish_request where
  "apply_request = \<lparr>pq_mode = Apply, pq_idempotency_key = ''key'', pq_approval_token = None\<rparr>"

subsection \<open>Properties\<close>





text \<open>
  An idempotency key is used up by the first publish request that carries it, even if that request
  ended with a blocked task: whenever a task is integrated again later and a request with the same key
  comes, it gets the task of the first request as it is and nothing but the audit log changes, so the
  publication is not started.
\<close>

theorem publish_key_used_up:
  assumes "cp_step\<^sup>*\<^sup>* empty_control_plane cp" and "publish now fr k r cp = (Inr t1, cp1)" and "idempotent_task r cp = None"
    and "k \<noteq> []" and "pq_idempotency_key r \<noteq> []" and "cp_step\<^sup>*\<^sup>* cp1 cp2"
    and "cp_lookup cp2 k2 = Some t2" and "state t2 = Integrated" and "pq_idempotency_key r2 = pq_idempotency_key r"
  shows "\<exists>t3 cp3. publish now2 fr2 k2 r2 cp2 = (Inr t3, cp3) \<and> cp_lookup cp2 k = Some t3 \<and>
    store cp3 = store cp2 \<and> publishIdempotencyKeys cp3 = publishIdempotencyKeys cp2"
proof -
  note ok = cp_reachable [OF assms(1), THEN conjunct1]
  obtain t where req: "require_in_state k Integrated cp = (Inr t, cp)"
    and start: "start_publication now fr t r (remember_key r t cp) = (Inr t1, cp1)"
  proof (rule and_then_InrE [OF assms(2) [unfolded publish_def]])
    fix t c
    assume req: "require_in_state k Integrated cp = (Inr t, c)"
    then have c: "c = cp" by (rule require_in_state_same)
    assume "(case idempotent_task r c of
       Some (i, existing) \<Rightarrow> (Inr existing, emit_audit now (fresh_audit fr) (task_id t) ''run.publishIdempotent''
          [(''idempotency_key'', P_Str (pq_idempotency_key r)), (''existing_task_id'', P_Str i), (''mode'', P_Mode (pq_mode r))] c)
     | None \<Rightarrow> start_publication now fr t r (remember_key r t c)) = (Inr t1, cp1)"
    then have "start_publication now fr t r (remember_key r t cp) = (Inr t1, cp1)"
      unfolding c assms(3) option.case .
    with req [unfolded c] show thesis by (rule that)
  qed
  have t: "cp_lookup cp k = Some t" "task_id t = k"
    using req ok store_ok_id by (auto simp: require_in_state_iff cp_ok_def cp_lookup_def)
  have "keeps_keys (start_publication now fr t r)"
    unfolding start_publication_def by (intro keys_intros keeps_keys_pair) simp
  from keeps_keysD [OF this start] have "map_get (publishIdempotencyKeys cp1) (pq_idempotency_key r) = Some k"
    using assms(5) t(2) by (simp add: remember_key_def)
  moreover have "cp_step cp cp1" using assms(2) by (rule cps_publish)
  then have step: "store_run cp cp1" and "cp_ok cp1"
    using cp_step_run ok cp_steps_run [OF r_into_rtranclp [of cp_step cp cp1] ok] by blast+
  moreover have "cp_lookup cp1 k \<noteq> None"
    using store_run_keeps [OF step, of k] ok t(1) by (simp add: cp_ok_def)
  ultimately have "cp_ok cp1" "key_owner cp1 (pq_idempotency_key r) k"
    using assms(4,5) by (simp_all add: key_owner_def)
  then have "key_owner cp2 (pq_idempotency_key r) k"
    by (rule cp_steps_keep_owner [OF assms(6)])
  then obtain t3 where t3: "cp_lookup cp2 k = Some t3" "idempotent_task r2 cp2 = Some (k, t3)"
    using assms(9) by (auto simp: key_owner_def idempotent_task_def cp_lookup_def)
  have "require_in_state k2 Integrated cp2 = (Inr t2, cp2)"
    using assms(7,8) by (simp add: require_in_state_iff)
  with t3 show ?thesis by (simp add: publish_def and_then_def)
qed

theorem publish_key_used_up_witness:
  "\<exists>cp t1 cp1 cp2 t3 cp3. publish 6 sample_fresh ''task_1'' apply_request cp = (Inr t1, cp1) \<and> state t1 = Blocked \<and>
     publish 7 sample_fresh ''task_1'' apply_request cp2 = (Inr t3, cp3) \<and> state t3 = Integrated \<and> store cp3 = store cp2"
proof -
  obtain cp t where cp: "cp_step\<^sup>*\<^sup>* empty_control_plane cp" "cp_lookup cp ''task_1'' = Some t" "state t = Integrated"
    "task_id t = ''task_1''" "publishIdempotencyKeys cp = []" "\<not> ppr_allowed (publish_policy_result_of t)" by (rule integrated_plane)
  have fresh: "idempotent_task apply_request cp = None" by (simp add: idempotent_task_def cp(5))
  obtain t1 cp1 where p: "publish 6 sample_fresh ''task_1'' apply_request cp = (Inr t1, cp1)" "cp_lookup cp1 ''task_1'' = Some t1"
      "state t1 = (if pq_mode apply_request = Apply \<and> \<not> ppr_allowed (publish_policy_result_of t) then Blocked
       else if needs_approval t apply_request then Publish_Pending_Approval else Publishing)"
    by (rule publish_ok [OF cp(2-4) fresh, of 6 sample_fresh]) blast
  have blocked: "state t1 = Blocked" using p(3) cp(6) by (simp add: apply_request_def)
  have reach: "cp_step\<^sup>*\<^sup>* empty_control_plane cp1"
    using cp(1) cps_publish [OF p(1)] by (rule rtranclp.rtrancl_into_rtrancl)
  obtain cp2 where cp2: "cp_step cp1 cp2"
      "cp_lookup cp2 ''task_1'' = Some (t1\<lparr>state := Integrated, version := version t1 + 1, updated_at := 0\<rparr>)"
    by (rule recorded_reachable [OF reach p(2), of Integrated]) (use blocked in auto)
  have "\<exists>t3 cp3. publish 7 sample_fresh ''task_1'' apply_request cp2 = (Inr t3, cp3) \<and> cp_lookup cp2 ''task_1'' = Some t3 \<and>
      store cp3 = store cp2 \<and> publishIdempotencyKeys cp3 = publishIdempotencyKeys cp2"
    by (rule publish_key_used_up [OF cp(1) p(1) fresh _ _ r_into_rtranclp [of cp_step, OF cp2(1)] cp2(2)])
      (simp_all add: apply_request_def)
  with p(1) blocked cp2(2) show ?thesis by fastforce
qed

text \<open>
  Completing an integration journals a reported update of main whatever the outcome: with a
  non-empty SHA the task gets one audit event and one code checkpoint for it, also when failed checks
  block the task; without a SHA the journal is unchanged.
\<close>

theorem integration_journal:
  assumes "cp_lookup cp k = Some t" and "state t = Integrating" and "task_id t = k" and "integration t = Some i"
  shows "\<exists>resp cp' t'. completeIntegrate now fr k r cp = (Inr resp, cp') \<and> cp_lookup cp' k = Some t' \<and>
    (\<not> ci_checks_passed r \<longrightarrow> state t' = Blocked) \<and>
    map ae_type (listAuditEvents (auditEvents cp') k) = map ae_type (listAuditEvents (auditEvents cp) k) @
      (if falsy (ci_main_sha r) then [] else [''run.main_updated'']) \<and>
    map (\<lambda>c. (checkpoint_type c, Some (checkpoint_reference c))) (listCheckpointsForTask (checkpoints cp') k) =
      map (\<lambda>c. (checkpoint_type c, Some (checkpoint_reference c))) (listCheckpointsForTask (checkpoints cp) k) @
      (if falsy (ci_main_sha r) then [] else [(Code_Checkpoint, ci_main_sha r)])"
proof -
  obtain resp t' c where c: "completeIntegrate now fr k r cp = (Inr resp, record_main_update now fr t r c)"
      "cp_lookup c k = Some t'" "auditEvents c = auditEvents cp" "checkpoints c = checkpoints cp"
      "state t' = (if sha_valid (validateBaseSha (sha_input t r)) \<and> ci_checks_passed r then Integrated else Blocked)"
    by (rule completeIntegrate_ok [OF assms, of now fr r]) blast
  have "cp_lookup (record_main_update now fr t r c) k = Some t'" using c(2) by simp
  moreover have "map ae_type (listAuditEvents (auditEvents (record_main_update now fr t r c)) k) =
      map ae_type (listAuditEvents (auditEvents cp) k) @ (if falsy (ci_main_sha r) then [] else [''run.main_updated''])"
    using c(3) assms(3) by (simp add: record_main_update_def Let_def emit_audit_def add_checkpoint_def emitAuditEvent_def
        listAuditEvents_def entries_of_push)
  moreover have "map (\<lambda>c. (checkpoint_type c, Some (checkpoint_reference c))) (listCheckpointsForTask (checkpoints (record_main_update now fr t r c)) k) =
      map (\<lambda>c. (checkpoint_type c, Some (checkpoint_reference c))) (listCheckpointsForTask (checkpoints cp) k) @
      (if falsy (ci_main_sha r) then [] else [(Code_Checkpoint, ci_main_sha r)])"
    using c(4) assms(3) by (cases "ci_main_sha r") (simp_all add: record_main_update_def Let_def emit_audit_def add_checkpoint_def
        recordCheckpoint_def listCheckpointsForTask_def entries_of_push str_or_empty_def)
  ultimately show ?thesis using c(1,5) by auto
qed

definition integrating_plane :: control_plane where
  "integrating_plane = empty_control_plane\<lparr>store := \<lparr>tasks = [(''task_1'', integrating_task)], events = []\<rparr>\<rparr>"

theorem integration_journal_witness:
  "\<exists>resp cp' t'. completeIntegrate 6 sample_fresh ''task_1'' (passed_request\<lparr>ci_checks_passed := False, ci_main_sha := Some ''fff0000''\<rparr>)
      integrating_plane = (Inr resp, cp') \<and> cp_lookup cp' ''task_1'' = Some t' \<and> state t' = Blocked \<and>
    map ae_type (listAuditEvents (auditEvents cp') ''task_1'') = [''run.main_updated'']"
  using integration_journal [of integrating_plane "''task_1''" integrating_task _ 6 sample_fresh
      "passed_request\<lparr>ci_checks_passed := False, ci_main_sha := Some ''fff0000''\<rparr>"]
  by (force simp: integrating_plane_def cp_lookup_def getTask_def map_get_def empty_control_plane_def integrating_task_def
      start_integration_task_def sample_task_def listAuditEvents_def entries_of_def)

text \<open>
  C37. From accepted to published: if the policy of an accepted task lets the control plane publish
  without a pull request and its plan requires approval, then integrating it, reporting passed checks,
  requesting publication under a fresh key, approving with the issued token within 24 hours and
  reporting completion all succeed, one after the other, and leave the task published.
\<close>

theorem release_path:
  assumes "cp_lookup cp k = Some t" and "state t = Accepted" and "task_id t = k" and "sha \<noteq> []" and "fresh_token fr \<noteq> []"
    and "main_push_actor (policy_of t) \<noteq> Human_Actor" and "update_strategy (policy_of t) \<noteq> Pull_Request"
    and "approval_required (plan_of t) = Some True" and "n4 \<le> n3 + APPROVAL_TOKEN_TTL_MS"
    and "ci_checks_passed ci" and "ci_main_sha ci = None" and "pq_mode pq = Apply" and "falsy (pq_approval_token pq)"
    and "map_get (publishIdempotencyKeys cp) (pq_idempotency_key pq) = None"
  shows "\<exists>r1 r2 r3 r4 r5 c1 c2 c3 c4 c5 t'. integrate n1 fr k sha cp = (Inr r1, c1) \<and>
    completeIntegrate n2 fr k ci c1 = (Inr r2, c2) \<and> publish n3 fr k pq c2 = (Inr r3, c3) \<and>
    cp_approvePublish n4 fr k (fresh_token fr) c3 = (Inr r4, c4) \<and> cp_completePublish n5 fr k done c4 = (Inr r5, c5) \<and>
    cp_lookup c5 k = Some t' \<and> state t' = Published"
proof -
  obtain t1 c1 where 1: "integrate n1 fr k sha cp = (Inr t1, c1)" "cp_lookup c1 k = Some t1" "state t1 = Integrating"
      "task_id t1 = k" "same_work (start_integration_task n1 (fresh_run fr) t sha) t1"
    by (rule integrate_ok [OF assms(1-3), of n1 fr sha]) blast
  note work = same_work_fields [OF 1(5)]
  obtain i where i: "integration t1 = Some i" "original_base_sha i = Some sha" "main_updated_sha i = None"
    using work(4) by (simp add: start_integration_task_def)
  have base: "base_sha (repo_ref t1) = Some sha" and pol: "repo_policy t1 = Some (policy_of t)" and plan: "publish_plan t1 = publish_plan t"
    using work by (simp_all add: start_integration_task_def)
  have valid: "sha_valid (validateBaseSha (sha_input t1 ci))"
    using i base assms(4) by (simp add: validateBaseSha_def sha_input_def str_or_empty_def)
  obtain r2 t2 c2 where 2: "completeIntegrate n2 fr k ci c1 = (Inr r2, record_main_update n2 fr t1 ci c2)" "cp_lookup c2 k = Some t2"
      "task_id t2 = k" "state t2 = Integrated" "integration t2 = Some (i\<lparr>checks_passed := Some True,
        integration_head_sha := replace_by (integration_head_sha i) (ci_head_sha ci),
        main_updated_sha := replace_by (main_updated_sha i) (ci_main_sha ci)\<rparr>)"
      "repo_ref t2 = repo_ref t1" "repo_policy t2 = repo_policy t1" "publish_plan t2 = publish_plan t1"
    by (rule completeIntegrate_ok [OF 1(2-4) i(1), of n2 fr ci]) (use valid assms(10) in auto)
  have journal: "record_main_update n2 fr t1 ci c2 = c2" using assms(11) by (simp add: record_main_update_def)
  have allowed: "ppr_allowed (publish_policy_result_of t2)"
    using 2 i(3) base pol assms(6,7,11)
    by (cases "main_push_actor (policy_of t)")
      (auto simp: publish_policy_result_of_def validatePublishPolicy_def policy_of_def [of t2] publish_can_fast_forward_def Let_def)
  have "plan_of t2 = plan_of t" using 2(8) plan by (simp add: plan_of_def)
  then have ask: "needs_approval t2 pq"
    using assms(8,12,13) by (simp add: needs_approval_def planned_task_def plan_of_def [of "_\<lparr>publish_plan := _\<rparr>"] Let_def)
  have "publishIdempotencyKeys c2 = publishIdempotencyKeys cp"
    using keeps_keysD [OF ops_keep_keys(5) 1(1)] keeps_keysD [OF ops_keep_keys(6) 2(1)] journal by simp
  then have fresh: "idempotent_task pq c2 = None" using assms(14) by (simp add: idempotent_task_def)
  obtain t3 c3 where 3: "publish n3 fr k pq c2 = (Inr t3, c3)" "cp_lookup c3 k = Some t3" "task_id t3 = k"
      "state t3 = Publish_Pending_Approval" "pending_approval_token t3 = Some (fresh_token fr)"
      "pending_approval_expires_at t3 = Some (n3 + APPROVAL_TOKEN_TTL_MS)"
    by (rule publish_ok [OF 2(2,4,3) fresh, of n3 fr]) (use allowed ask in auto)
  have "validateApprovalToken n4 t3 (fresh_token fr) = None"
    using 3(5,6) assms(5,9) by (simp add: validateApprovalToken_def str_or_empty_def diff_bits_zero_iff)
  then obtain t4 c4 where 4: "cp_approvePublish n4 fr k (fresh_token fr) c3 = (Inr t4, c4)" "cp_lookup c4 k = Some t4"
      "task_id t4 = k" "state t4 = Publishing"
    by (rule approvePublish_ok [OF 3(2,4,3), of n4 "fresh_token fr" fr])
  obtain t5 r5 c5 where "cp_completePublish n5 fr k done c4 = (Inr r5, c5)" "cp_lookup c5 k = Some t5" "state t5 = Published"
    by (rule completePublish_ok [OF 4(2,4,3), of n5 fr "done"]) blast
  with 1(1) 2(1) 3(1) 4(1) journal show ?thesis by auto
qed

definition accepted_plane :: control_plane where
  "accepted_plane = empty_control_plane\<lparr>store := \<lparr>tasks = [(''task_1'', approval_task\<lparr>state := Accepted\<rparr>)], events = []\<rparr>\<rparr>"

theorem release_path_witness:
  "\<exists>r1 r2 r3 r4 r5 c1 c2 c3 c4 c5 t'. integrate 1 sample_fresh ''task_1'' ''abc1234'' accepted_plane = (Inr r1, c1) \<and>
    completeIntegrate 2 sample_fresh ''task_1'' passed_request c1 = (Inr r2, c2) \<and>
    publish 3 sample_fresh ''task_1'' apply_request c2 = (Inr r3, c3) \<and>
    cp_approvePublish 4 sample_fresh ''task_1'' (fresh_token sample_fresh) c3 = (Inr r4, c4) \<and>
    cp_completePublish 5 sample_fresh ''task_1'' \<lparr>cp_external_refs = None, cp_rollback_notes = None\<rparr> c4 = (Inr r5, c5) \<and>
    cp_lookup c5 ''task_1'' = Some t' \<and> state t' = Published"
  by (rule release_path [where t = "approval_task\<lparr>state := Accepted\<rparr>"])
    (simp_all add: accepted_plane_def cp_lookup_def getTask_def map_get_def approval_task_def sample_task_def sample_fresh_def
      policy_of_def plan_of_def passed_request_def apply_request_def empty_control_plane_def APPROVAL_TOKEN_TTL_MS_def)

end
