(* ===== verification/Worker_Policy.thy ===== *)
theory Worker_Policy
  imports Core_Types
begin

text \<open>
  Which worker may do what: \<open>src/src/domain/capability\<close> (\<open>CapabilityManager\<close>),
  \<open>src/src/domain/worker/worker-policy.ts\<close> (\<open>WorkerPolicy\<close>: default worker, approval policy, failover
  order), \<open>src/src/domain/retry\<close> (\<open>RetryManager\<close>: retry decision, backoff, failure classification)
  and the default capabilities of \<open>src/src/store/utils.ts\<close>.
\<close>

subsection \<open>Capabilities\<close>

fun STAGE_CAPABILITIES :: "worker_stage \<Rightarrow> capability list" where
  "STAGE_CAPABILITIES Plan = [C_Plan]"
| "STAGE_CAPABILITIES Dev = [C_Edit_Repo, C_Run_Tests]"
| "STAGE_CAPABILITIES Acceptance = [C_Produces_Verdict]"

record check_result =
  cr_required :: "capability list"
  cr_present :: "capability list"
  cr_missing :: "capability list"
  cr_passed :: bool

record check_options =
  opt_stage :: worker_stage
  opt_worker_capabilities :: "capability list"
  requires_network :: bool
  under_approval_flow :: bool
  produces_patch_artifact :: bool

type_synonym capability_manager = "(string, capability list) jsmap"

fun split_required :: "capability list \<Rightarrow> capability list \<Rightarrow> capability list \<times> capability list" where
  "split_required available [] = ([], [])"
| "split_required available (c # cs) = (case split_required available cs of (present, missing) \<Rightarrow>
     if c \<in> set available then (c # present, missing) else (present, c # missing))"

definition checkCapabilities :: "capability list \<Rightarrow> capability list \<Rightarrow> check_result" where
  "checkCapabilities required available = (case split_required available required of (present, missing) \<Rightarrow>
     \<lparr>cr_required = required, cr_present = present, cr_missing = missing, cr_passed = (missing = [])\<rparr>)"

definition getRequiredCapabilitiesForStage :: "worker_stage \<Rightarrow> capability list" where
  "getRequiredCapabilitiesForStage stage = STAGE_CAPABILITIES stage"

definition getAllRequiredCapabilities :: "check_options \<Rightarrow> capability list" where
  "getAllRequiredCapabilities opts = getRequiredCapabilitiesForStage (opt_stage opts) @
     (if requires_network opts then [C_Networked] else []) @
     (if under_approval_flow opts then [C_Needs_Approval] else []) @
     (if produces_patch_artifact opts then [C_Produces_Patch] else [])"

definition validateCapabilities :: "worker_stage \<Rightarrow> capability list \<Rightarrow> bool \<times> capability list" where
  "validateCapabilities stage caps =
     (let missing = filter (\<lambda>c. c \<notin> set caps) (getRequiredCapabilitiesForStage stage) in (missing = [], missing))"

definition registerWorkerCapabilities :: "string \<Rightarrow> capability list \<Rightarrow> capability_manager \<Rightarrow> capability_manager" where
  "registerWorkerCapabilities w caps m = map_set m w caps"

definition getWorkerCapabilities :: "capability_manager \<Rightarrow> string \<Rightarrow> capability list" where
  "getWorkerCapabilities m w = (case map_get m w of Some cs \<Rightarrow> cs | None \<Rightarrow> [])"

fun has_all :: "capability list \<Rightarrow> capability list \<Rightarrow> bool" where
  "has_all caps [] = True"
| "has_all caps (c # cs) = (if c \<notin> set caps then False else has_all caps cs)"

definition canWorkerHandleStage :: "capability_manager \<Rightarrow> string \<Rightarrow> worker_stage \<Rightarrow> bool" where
  "canWorkerHandleStage m w stage = has_all (getWorkerCapabilities m w) (getRequiredCapabilitiesForStage stage)"

definition canWorkerHandleStageWithOptions :: "capability_manager \<Rightarrow> string \<Rightarrow> check_options \<Rightarrow> check_result" where
  "canWorkerHandleStageWithOptions m w opts = checkCapabilities (getAllRequiredCapabilities opts) (getWorkerCapabilities m w)"

definition findCapableWorkers :: "capability_manager \<Rightarrow> worker_stage \<Rightarrow> string list" where
  "findCapableWorkers m stage =
     map fst (filter (\<lambda>(_, caps). list_all (\<lambda>c. c \<in> set caps) (getRequiredCapabilitiesForStage stage)) m)"

definition findCapableWorkersWithOptions :: "capability_manager \<Rightarrow> check_options \<Rightarrow> string list" where
  "findCapableWorkersWithOptions m opts =
     map fst (filter (\<lambda>(_, caps). list_all (\<lambda>c. c \<in> set caps) (getAllRequiredCapabilities opts)) m)"

lemma split_required_filter: "split_required available required =
    (filter (\<lambda>c. c \<in> set available) required, filter (\<lambda>c. c \<notin> set available) required)"
  by (induction required) auto

lemma has_all_iff: "has_all caps cs \<longleftrightarrow> set cs \<subseteq> set caps"
  by (induction cs) auto

lemma checkCapabilities_passed: "cr_passed (checkCapabilities required available) \<longleftrightarrow> set required \<subseteq> set available"
  by (auto simp: checkCapabilities_def split_required_filter filter_empty_conv)

lemma findCapable_iff:
  assumes "wf_map m"
  shows "w \<in> set (map fst (filter (\<lambda>(_, caps). list_all (\<lambda>c. c \<in> set caps) req) m)) \<longleftrightarrow>
    map_has m w \<and> set req \<subseteq> set (getWorkerCapabilities m w)"
proof -
  have "w \<in> set (map fst (filter (\<lambda>(_, caps). list_all (\<lambda>c. c \<in> set caps) req) m)) \<longleftrightarrow>
      (\<exists>caps. map_get m w = Some caps \<and> set req \<subseteq> set caps)"
    using assms by (force simp: jm.lookup_entries list_all_iff)
  then show ?thesis
    by (auto simp: map_has_def getWorkerCapabilities_def)
qed

text \<open>
  The capability checks agree: the check result splits the required list into what is present and
  what is missing, it passes exactly when nothing is missing, and for a registered worker the listing
  of capable workers, with and without options, the single check and the validation give one answer.
\<close>

theorem capability_checks_agree:
  assumes "wf_map m" and "map_has m w"
  shows "set (cr_present (checkCapabilities req av)) \<union> set (cr_missing (checkCapabilities req av)) = set req \<and>
    (cr_passed (checkCapabilities req av) \<longleftrightarrow> set req \<subseteq> set av) \<and>
    (w \<in> set (findCapableWorkersWithOptions m opts) \<longleftrightarrow> cr_passed (canWorkerHandleStageWithOptions m w opts)) \<and>
    (w \<in> set (findCapableWorkers m stage) \<longleftrightarrow> canWorkerHandleStage m w stage) \<and>
    (canWorkerHandleStage m w stage \<longleftrightarrow> fst (validateCapabilities stage (getWorkerCapabilities m w)))"
proof (intro conjI)
  show "set (cr_present (checkCapabilities req av)) \<union> set (cr_missing (checkCapabilities req av)) = set req"
    by (auto simp: checkCapabilities_def split_required_filter)
  show "cr_passed (checkCapabilities req av) \<longleftrightarrow> set req \<subseteq> set av"
    by (rule checkCapabilities_passed)
  show "w \<in> set (findCapableWorkersWithOptions m opts) \<longleftrightarrow> cr_passed (canWorkerHandleStageWithOptions m w opts)"
    unfolding findCapableWorkersWithOptions_def findCapable_iff [OF assms(1)]
    by (simp add: assms(2) canWorkerHandleStageWithOptions_def checkCapabilities_passed)
  show "w \<in> set (findCapableWorkers m stage) \<longleftrightarrow> canWorkerHandleStage m w stage"
    unfolding findCapableWorkers_def findCapable_iff [OF assms(1)]
    by (simp add: assms(2) canWorkerHandleStage_def has_all_iff)
  show "canWorkerHandleStage m w stage \<longleftrightarrow> fst (validateCapabilities stage (getWorkerCapabilities m w))"
    by (auto simp: canWorkerHandleStage_def has_all_iff validateCapabilities_def filter_empty_conv)
qed

theorem capability_checks_agree_witness:
  "''codex'' \<in> set (findCapableWorkers (registerWorkerCapabilities ''codex'' [C_Plan, C_Run_Tests] []) Plan)"
  using capability_checks_agree [of "registerWorkerCapabilities ''codex'' [C_Plan, C_Run_Tests] []" "''codex''"
      "[]" "[]" "\<lparr>opt_stage = Plan, opt_worker_capabilities = [], requires_network = False,
        under_approval_flow = False, produces_patch_artifact = False\<rparr>" Plan]
  by (simp add: registerWorkerCapabilities_def map_has_def canWorkerHandleStage_def getWorkerCapabilities_def
      getRequiredCapabilitiesForStage_def)

subsection \<open>Worker policy\<close>

fun DEFAULT_WORKERS :: "worker_stage \<Rightarrow> worker_type" where
  "DEFAULT_WORKERS Plan = Codex"
| "DEFAULT_WORKERS Dev = Codex"
| "DEFAULT_WORKERS Acceptance = Claude_Code"

fun FAILOVER_ORDER :: "worker_stage \<Rightarrow> worker_type list option" where
  "FAILOVER_ORDER Plan = Some [Codex, Claude_Code, Google_Antigravity]"
| "FAILOVER_ORDER Dev = None"
| "FAILOVER_ORDER Acceptance = None"

fun STAGE_CAPABILITY_REQUIREMENTS :: "worker_stage \<Rightarrow> capability list" where
  "STAGE_CAPABILITY_REQUIREMENTS Plan = [C_Plan]"
| "STAGE_CAPABILITY_REQUIREMENTS Dev = [C_Edit_Repo, C_Run_Tests]"
| "STAGE_CAPABILITY_REQUIREMENTS Acceptance = [C_Produces_Verdict]"

definition getDefaultWorker :: "worker_stage \<Rightarrow> worker_type" where
  "getDefaultWorker stage = DEFAULT_WORKERS stage"

definition buildApprovalPolicy :: "worker_stage \<Rightarrow> risk_level \<Rightarrow> approval_policy" where
  "buildApprovalPolicy stage risk =
     (if stage = Plan then \<lparr>approval_mode = Deny, allowed_side_effects = None,
        operator_approval_required = False, sandbox_profile = Read_Only\<rparr>
      else if risk = High then \<lparr>approval_mode = Ask, allowed_side_effects = Some [Network_Access],
        operator_approval_required = True, sandbox_profile = Workspace_Write\<rparr>
      else \<lparr>approval_mode = Ask, allowed_side_effects = None,
        operator_approval_required = False, sandbox_profile = Workspace_Write\<rparr>)"

definition getCapabilityRequirements :: "worker_stage \<Rightarrow> capability list" where
  "getCapabilityRequirements stage = STAGE_CAPABILITY_REQUIREMENTS stage"

fun getRequestedOutputs :: "worker_stage \<Rightarrow> requested_output list" where
  "getRequestedOutputs Plan = [Out_Plan_Notes, Out_Artifacts]"
| "getRequestedOutputs Dev = [Out_Patch, Out_Tests, Out_Artifacts]"
| "getRequestedOutputs Acceptance = [Out_Verdict, Out_Tests, Out_Artifacts]"

definition canFailover :: "worker_stage \<Rightarrow> bool" where
  "canFailover stage = (FAILOVER_ORDER stage \<noteq> None)"

fun index_of :: "'a list \<Rightarrow> 'a \<Rightarrow> int" where
  "index_of [] x = - 1"
| "index_of (y # ys) x = (if y = x then 0 else if index_of ys x < 0 then - 1 else index_of ys x + 1)"

definition getFailoverWorker :: "worker_stage \<Rightarrow> worker_type \<Rightarrow> worker_type option" where
  "getFailoverWorker stage current = (case FAILOVER_ORDER stage of
       None \<Rightarrow> None
     | Some order \<Rightarrow>
        (let i = index_of order current in
         if i < 0 \<or> i \<ge> int (length order) - 1 then None else Some (order ! nat (i + 1))))"

fun DEFAULT_WORKER_CAPABILITIES :: "worker_type \<Rightarrow> capability list" where
  "DEFAULT_WORKER_CAPABILITIES Codex = [C_Plan, C_Edit_Repo, C_Run_Tests, C_Produces_Patch, C_Produces_Verdict]"
| "DEFAULT_WORKER_CAPABILITIES Claude_Code =
     [C_Plan, C_Edit_Repo, C_Run_Tests, C_Needs_Approval, C_Produces_Patch, C_Produces_Verdict, C_Networked]"
| "DEFAULT_WORKER_CAPABILITIES Google_Antigravity = [C_Plan, C_Produces_Verdict]"

fun worker_name :: "worker_type \<Rightarrow> string" where
  "worker_name Codex = ''codex''"
| "worker_name Claude_Code = ''claude_code''"
| "worker_name Google_Antigravity = ''google_antigravity''"

fun stage_name :: "worker_stage \<Rightarrow> string" where
  "stage_name Plan = ''plan''"
| "stage_name Dev = ''dev''"
| "stage_name Acceptance = ''acceptance''"

fun failover_chain :: "nat \<Rightarrow> worker_stage \<Rightarrow> worker_type \<Rightarrow> worker_type list" where
  "failover_chain 0 stage w = [w]"
| "failover_chain (Suc n) stage w = (case getFailoverWorker stage w of
     None \<Rightarrow> [w] | Some v \<Rightarrow> w # failover_chain n stage v)"

lemma getFailoverWorker_cases:
  "getFailoverWorker stage w = (if stage = Plan then
     (case w of Codex \<Rightarrow> Some Claude_Code | Claude_Code \<Rightarrow> Some Google_Antigravity
      | Google_Antigravity \<Rightarrow> None) else None)"
  by (cases stage; cases w) (simp_all add: getFailoverWorker_def Let_def)

lemma failover_chain_stable:
  "failover_chain (Suc (Suc n)) stage w = failover_chain 2 stage w"
  by (cases stage; cases w; cases n) (simp_all add: getFailoverWorker_cases numeral_2_eq_2)

lemma failover_chain_reduce:
  "\<exists>k. (k = 0 \<or> k = Suc 0 \<or> k = 2) \<and> (\<forall>v. failover_chain n stage v = failover_chain k stage v)"
proof (cases n)
  case (Suc m)
  with failover_chain_stable show ?thesis by (cases m) blast+
qed blast

text \<open>
  Following the failover order ends after at most two steps, visits no worker twice, and only
  visits workers that by default have the capabilities the stage requires, starting from the default
  worker of the stage; development and acceptance never leave the worker.
\<close>

theorem failover_chain_ends:
  "failover_chain (2 + n) stage w = failover_chain 2 stage w \<and> distinct (failover_chain n stage w) \<and>
   getFailoverWorker stage (last (failover_chain 2 stage w)) = None \<and>
   (\<forall>v \<in> set (failover_chain n stage (getDefaultWorker stage)).
      has_all (DEFAULT_WORKER_CAPABILITIES v) (getCapabilityRequirements stage)) \<and>
   (\<not> canFailover stage \<longrightarrow> failover_chain n stage w = [w])"
proof -
  obtain k where k: "k = 0 \<or> k = Suc 0 \<or> k = 2" and n: "\<And>v. failover_chain n stage v = failover_chain k stage v"
    using failover_chain_reduce by blast
  have "distinct (failover_chain k stage w) \<and>
      (\<forall>v \<in> set (failover_chain k stage (getDefaultWorker stage)).
        has_all (DEFAULT_WORKER_CAPABILITIES v) (getCapabilityRequirements stage)) \<and>
      (\<not> canFailover stage \<longrightarrow> failover_chain k stage w = [w])"
    using k by (cases stage; cases w) (auto simp: getFailoverWorker_cases numeral_2_eq_2 getDefaultWorker_def
        getCapabilityRequirements_def canFailover_def has_all_iff)
  moreover have "getFailoverWorker stage (last (failover_chain 2 stage w)) = None"
    by (cases stage; cases w) (simp_all add: getFailoverWorker_cases numeral_2_eq_2)
  moreover have "failover_chain (2 + n) stage w = failover_chain 2 stage w"
    unfolding add_2_eq_Suc by (rule failover_chain_stable)
  ultimately show ?thesis
    unfolding n by blast
qed

theorem failover_chain_ends_witness:
  "failover_chain 5 Dev Codex = [Codex]"
  using failover_chain_ends [of 5 Dev Codex] by (simp add: canFailover_def)

subsection \<open>Retries\<close>

definition CAPACITY :: "string list" where
  "CAPACITY = [''rate_limit'', ''timeout'', ''quota_exceeded'', ''capacity_exceeded'', ''too_many_requests'']"

definition TRANSIENT :: "string list" where
  "TRANSIENT = [''network_error'', ''connection_error'', ''connection_refused'', ''dns_failure'', ''service_unavailable'']"

definition POLICY :: "string list" where
  "POLICY = [''policy_violation'', ''unauthorized'', ''forbidden'', ''sandbox_violation'', ''permission_denied'', ''authorization_error'']"

definition LOGIC :: "string list" where
  "LOGIC = [''invalid_input'', ''parse_error'', ''logic_error'', ''assertion_failed'', ''validation_error'']"

definition DEFAULT_RETRY_POLICY :: retry_policy where
  "DEFAULT_RETRY_POLICY = \<lparr>max_retries = 3, backoff_base_seconds = 1, max_backoff_seconds = 60, jitter_enabled = True\<rparr>"

datatype retry_action = RA_Retry | RA_Blocked | RA_Rework_Required | RA_Failed | RA_Failover

record retry_decision =
  rd_action :: retry_action
  rd_reason :: "string option"
  retry_scheduled_at :: "time option"
  rd_failover_worker :: "worker_type option"

definition decide :: "retry_action \<Rightarrow> string \<Rightarrow> retry_decision" where
  "decide a r = \<lparr>rd_action = a, rd_reason = Some r, retry_scheduled_at = None, rd_failover_worker = None\<rparr>"

definition non_retryable :: "failure_class \<Rightarrow> bool" where
  "non_retryable c = (c = Non_Retryable_Policy \<or> c = Non_Retryable_Logic)"

definition shouldRetry :: "failure_class \<Rightarrow> int \<Rightarrow> int \<Rightarrow> bool" where
  "shouldRetry c retryCount maxRetries =
     (if c = Non_Retryable_Policy \<or> c = Non_Retryable_Logic then False
      else if retryCount \<ge> maxRetries then False else True)"

text \<open>\<open>rnd\<close> is the value of \<open>Math.random()\<close>, in the half-open unit interval.\<close>

definition calculateBackoff :: "real \<Rightarrow> int \<Rightarrow> retry_policy \<Rightarrow> real" where
  "calculateBackoff rnd retryCount p =
     (let base = backoff_base_seconds p powi (retryCount + 1); capped = min base (max_backoff_seconds p) in
      if jitter_enabled p then rnd * capped else capped)"

definition determineNextAction :: "time \<Rightarrow> real \<Rightarrow> string \<Rightarrow> failure_class \<Rightarrow> int \<Rightarrow> int \<Rightarrow> retry_decision" where
  "determineNextAction now rnd stage c retryCount maxRetries =
     (if shouldRetry c retryCount maxRetries
      then \<lparr>rd_action = RA_Retry, rd_reason = None, retry_scheduled_at =
          Some (\<lfloor>of_int now + calculateBackoff rnd retryCount DEFAULT_RETRY_POLICY * 1000\<rfloor>), rd_failover_worker = None\<rparr>
      else if stage = ''acceptance''
      then decide RA_Rework_Required (if non_retryable c then ''non_retryable_failure'' else ''max_retries_reached'')
      else if stage = ''plan'' \<or> stage = ''dev''
      then (if non_retryable c \<and> c = Non_Retryable_Logic then decide RA_Rework_Required ''non_retryable_failure''
            else decide RA_Blocked (if non_retryable c then ''non_retryable_failure'' else ''max_retries_reached''))
      else if stage = ''integrate'' \<or> stage = ''publish''
      then (if non_retryable c then decide RA_Failed ''non_retryable_failure'' else decide RA_Blocked ''max_retries_reached'')
      else decide RA_Blocked ''max_retries_reached'')"

definition determineNextActionWithFailover :: "time \<Rightarrow> real \<Rightarrow> string \<Rightarrow> failure_class \<Rightarrow> int \<Rightarrow> int \<Rightarrow> worker_type
    \<Rightarrow> retry_decision" where
  "determineNextActionWithFailover now rnd stage c retryCount maxRetries w =
     (case (if stage = ''plan'' \<and> canFailover Plan then getFailoverWorker Plan w else None) of
        Some v \<Rightarrow> \<lparr>rd_action = RA_Failover, rd_reason = Some (''failover from '' @ worker_name w @ '' to '' @ worker_name v),
            retry_scheduled_at = None, rd_failover_worker = Some v\<rparr>
      | None \<Rightarrow> determineNextAction now rnd stage c retryCount maxRetries)"

definition getDefaultMaxRetries :: "string \<Rightarrow> int" where
  "getDefaultMaxRetries stage =
     (if stage = ''plan'' then 2 else if stage = ''dev'' then 3 else if stage = ''acceptance'' then 1
      else if stage = ''integrate'' then 2 else if stage = ''publish'' then 1 else 2)"

definition classify_text :: "string \<Rightarrow> failure_class" where
  "classify_text s =
     (if list_ex (js_includes s) TRANSIENT then Retryable_Transient
      else if list_ex (js_includes s) CAPACITY then Retryable_Capacity
      else if list_ex (js_includes s) POLICY then Non_Retryable_Policy
      else if list_ex (js_includes s) LOGIC then Non_Retryable_Logic
      else Retryable_Transient)"

definition classifyFailure :: "string \<Rightarrow> failure_class" where
  "classifyFailure error_code = classify_text (to_lower error_code)"

definition classifyFromResult :: "worker_result \<Rightarrow> failure_class" where
  "classifyFromResult r =
     (if \<not> falsy (failure_code r) then classifyFailure (the (failure_code r))
      else classify_text (case summary r of Some s \<Rightarrow> to_lower s | None \<Rightarrow> []))"

lemma shouldRetry_iff: "shouldRetry c k m \<longleftrightarrow> \<not> non_retryable c \<and> k < m"
  by (auto simp: shouldRetry_def non_retryable_def)

lemma determineNextAction_retry_iff:
  "rd_action (determineNextAction now rnd stage c k m) = RA_Retry \<longleftrightarrow> shouldRetry c k m"
  by (simp add: determineNextAction_def decide_def)

fun retry_run :: "nat \<Rightarrow> time \<Rightarrow> real \<Rightarrow> string \<Rightarrow> failure_class \<Rightarrow> int \<Rightarrow> int \<Rightarrow> retry_action list" where
  "retry_run 0 now rnd stage c k m = []"
| "retry_run (Suc n) now rnd stage c k m = (let a = rd_action (determineNextAction now rnd stage c k m) in
     if a = RA_Retry then a # retry_run n now rnd stage c (k + 1) m else [a])"

lemma retry_run_count:
  assumes "k \<le> m"
  shows "retry_run (n + nat (m - k) + 1) now rnd stage c k m =
    (if non_retryable c then [rd_action (determineNextAction now rnd stage c k m)]
     else replicate (nat (m - k)) RA_Retry @ [rd_action (determineNextAction now rnd stage c m m)])"
  using assms
proof (induction "nat (m - k)" arbitrary: k)
  case 0
  then have "k = m" by simp
  then show ?case by (simp add: Let_def determineNextAction_retry_iff shouldRetry_iff)
next
  case (Suc d)
  then have d: "nat (m - (k + 1)) = d" "nat (m - k) = Suc d" "k < m" by auto
  with Suc show ?case
    using Suc.hyps(1) [of "k + 1"]
    by (auto simp: Let_def determineNextAction_retry_iff shouldRetry_iff)
qed



text \<open>
  The backoff lies between zero and the configured maximum, and without jitter it does not
  decrease with the retry count; but with the default policy, whose base is 1, it never exceeds one
  second at any retry count, so the scheduled time is within a second from now.
\<close>

theorem backoff_bounds:
  assumes "0 \<le> rnd" and "rnd < 1" and "1 \<le> backoff_base_seconds p" and "0 \<le> max_backoff_seconds p" and "0 \<le> k"
  shows "0 \<le> calculateBackoff rnd k p \<and> calculateBackoff rnd k p \<le> max_backoff_seconds p \<and>
    (\<not> jitter_enabled p \<longrightarrow> calculateBackoff rnd k p \<le> calculateBackoff rnd (k + 1) p) \<and>
    calculateBackoff rnd k DEFAULT_RETRY_POLICY \<le> 1 \<and>
    (shouldRetry c k m \<longrightarrow> (\<exists>due. retry_scheduled_at (determineNextAction now rnd stage c k m) = Some due \<and>
       now \<le> due \<and> due \<le> now + 1000))"
proof -
  let ?cap = "\<lambda>j. min (backoff_base_seconds p powi (j + 1)) (max_backoff_seconds p)"
  have pos: "0 \<le> ?cap k" using assms(3,4) by simp
  have mono: "?cap k \<le> ?cap (k + 1)"
    using assms(3,5) power_int_increasing [of "k + 1" "k + 1 + 1" "backoff_base_seconds p"] by simp
  have jit: "rnd * ?cap k \<le> ?cap k" "0 \<le> rnd * ?cap k"
    using assms(1,2) pos mult_right_mono [of rnd 1 "?cap k"] by simp_all
  have one: "calculateBackoff rnd k DEFAULT_RETRY_POLICY = rnd"
    by (simp add: calculateBackoff_def DEFAULT_RETRY_POLICY_def)
  have "now \<le> \<lfloor>of_int now + rnd * 1000\<rfloor> \<and> \<lfloor>of_int now + rnd * 1000\<rfloor> \<le> now + 1000"
    using assms(1,2) by linarith
  with pos mono jit one assms(2) show ?thesis
    by (auto simp: calculateBackoff_def [of _ _ p] Let_def determineNextAction_def)
qed

theorem backoff_bounds_witness:
  "calculateBackoff (1/2) 3 \<lparr>max_retries = 3, backoff_base_seconds = 2, max_backoff_seconds = 60, jitter_enabled = True\<rparr> \<le> 60"
  using backoff_bounds [of "1/2" "\<lparr>max_retries = 3, backoff_base_seconds = 2, max_backoff_seconds = 60, jitter_enabled = True\<rparr>" 3]
  by simp

end
