(* ===== verification/Run_System.thy ===== *)
theory Run_System
  imports Journal Risk Worker_Policy "HOL-Library.Word"
begin

unbundle bit_operations_syntax

text \<open>
  \<open>src/src/domain/run-system\<close>: the packet that describes the result of a job to the systems around the
  control plane (\<open>run-system-packet.ts\<close>) and the gate that judges it (\<open>run-system-gate.ts\<close>). The verdicts of
  the two gates are ordered (\<open>linorder\<close>); raising a verdict is taking the maximum.
\<close>

subsection \<open>Verdicts\<close>

datatype gatefield_verdict = G_Pass | G_Warn | G_Hold | G_Block

datatype state_gate_verdict = SG_Allow | SG_Revise | SG_Needs_Approval | SG_Require_Human | SG_Stale_Blocked | SG_Deny

instantiation gatefield_verdict :: linorder
begin

fun gatefield_order :: "gatefield_verdict \<Rightarrow> nat" where
  "gatefield_order G_Pass = 0"
| "gatefield_order G_Warn = 1"
| "gatefield_order G_Hold = 2"
| "gatefield_order G_Block = 3"

definition less_eq_gatefield_verdict :: "gatefield_verdict \<Rightarrow> gatefield_verdict \<Rightarrow> bool" where
  "less_eq_gatefield_verdict a b = (gatefield_order a \<le> gatefield_order b)"

definition less_gatefield_verdict :: "gatefield_verdict \<Rightarrow> gatefield_verdict \<Rightarrow> bool" where
  "less_gatefield_verdict a b = (gatefield_order a < gatefield_order b)"

instance
proof
  fix a b c :: gatefield_verdict
  show "a < b \<longleftrightarrow> a \<le> b \<and> \<not> b \<le> a" by (auto simp: less_eq_gatefield_verdict_def less_gatefield_verdict_def)
  show "a \<le> a" by (simp add: less_eq_gatefield_verdict_def)
  show "a \<le> b \<Longrightarrow> b \<le> c \<Longrightarrow> a \<le> c" by (simp add: less_eq_gatefield_verdict_def)
  show "a \<le> b \<Longrightarrow> b \<le> a \<Longrightarrow> a = b" by (cases a; cases b) (simp_all add: less_eq_gatefield_verdict_def)
  show "a \<le> b \<or> b \<le> a" by (auto simp: less_eq_gatefield_verdict_def)
qed

end

instantiation state_gate_verdict :: linorder
begin

fun state_gate_order :: "state_gate_verdict \<Rightarrow> nat" where
  "state_gate_order SG_Allow = 0"
| "state_gate_order SG_Revise = 1"
| "state_gate_order SG_Needs_Approval = 2"
| "state_gate_order SG_Require_Human = 3"
| "state_gate_order SG_Stale_Blocked = 4"
| "state_gate_order SG_Deny = 5"

definition less_eq_state_gate_verdict :: "state_gate_verdict \<Rightarrow> state_gate_verdict \<Rightarrow> bool" where
  "less_eq_state_gate_verdict a b = (state_gate_order a \<le> state_gate_order b)"

definition less_state_gate_verdict :: "state_gate_verdict \<Rightarrow> state_gate_verdict \<Rightarrow> bool" where
  "less_state_gate_verdict a b = (state_gate_order a < state_gate_order b)"

instance
proof
  fix a b c :: state_gate_verdict
  show "a < b \<longleftrightarrow> a \<le> b \<and> \<not> b \<le> a" by (auto simp: less_eq_state_gate_verdict_def less_state_gate_verdict_def)
  show "a \<le> a" by (simp add: less_eq_state_gate_verdict_def)
  show "a \<le> b \<Longrightarrow> b \<le> c \<Longrightarrow> a \<le> c" by (simp add: less_eq_state_gate_verdict_def)
  show "a \<le> b \<Longrightarrow> b \<le> a \<Longrightarrow> a = b" by (cases a; cases b) (simp_all add: less_eq_state_gate_verdict_def)
  show "a \<le> b \<or> b \<le> a" by (auto simp: less_eq_state_gate_verdict_def)
qed

end

definition maxGatefield :: "gatefield_verdict \<Rightarrow> gatefield_verdict \<Rightarrow> gatefield_verdict" where
  "maxGatefield current candidate = (if gatefield_order candidate > gatefield_order current then candidate else current)"

definition maxStateGate :: "state_gate_verdict \<Rightarrow> state_gate_verdict \<Rightarrow> state_gate_verdict" where
  "maxStateGate current candidate = (if state_gate_order candidate > state_gate_order current then candidate else current)"

lemma maxGatefield_max: "maxGatefield a b = max a b"
  by (cases a; cases b) (simp_all add: maxGatefield_def max_def less_eq_gatefield_verdict_def)

lemma maxStateGate_max: "maxStateGate a b = max a b"
  by (cases a; cases b) (simp_all add: maxStateGate_def max_def less_eq_state_gate_verdict_def)

lemma gatefield_bottom [simp]: "G_Pass \<le> a" "a \<le> G_Pass \<longleftrightarrow> a = G_Pass"
  by (cases a; simp add: less_eq_gatefield_verdict_def)+

lemma state_gate_bottom [simp]: "SG_Allow \<le> a" "a \<le> SG_Allow \<longleftrightarrow> a = SG_Allow"
  by (cases a; simp add: less_eq_state_gate_verdict_def)+

subsection \<open>The packet\<close>

datatype run_system_mode = Advisory | Enforce

datatype plan_verdict = PV_Executed | PV_Applied | PV_Skipped | PV_Failed | PV_Dry_Run

record tool_plan_summary =
  tp_verdict :: plan_verdict
  tp_dry_run :: bool
  tp_operations :: "string option"
  tp_workspace_root :: "string option option"
  tp_artifact_paths :: "string option"
  tp_errors :: "string option"
  tp_gate_required :: bool

record test_summary =
  ts_passed :: int
  ts_failed :: int
  ts_skipped :: int
  ts_not_run :: int

record decision_input =
  di_run_id :: string
  di_artifact_count :: int
  di_tests :: test_summary
  di_escalations :: int
  di_side_effects :: "side_effect_category list"
  di_has_patch :: bool
  di_has_branch :: bool
  di_status :: result_status
  di_tool_plan :: "tool_plan_summary option"

record run_system_packet =
  pk_mode :: run_system_mode
  pk_run_ref :: string
  pk_task_ref :: string
  pk_job_ref :: string
  pk_task_id :: string
  pk_job_id :: string
  pk_stage :: worker_stage
  pk_worker_type :: worker_type
  pk_intent_ref :: string
  pk_task_seed_ref :: string
  pk_acceptance_ref :: "string option"
  pk_evidence_ref :: string
  pk_input_hash :: string
  pk_output_hash :: string
  pk_runtime_ms :: int
  pk_exit_code :: "int option"
  pk_state :: task_state
  pk_context_bundle_ref :: "string option"
  pk_resolver_refs :: "resolver_refs option"
  pk_external_refs :: "external_ref list option"
  pk_input :: decision_input

definition ref_char :: "char \<Rightarrow> bool" where
  "ref_char c = (let n = of_char c :: nat in (97 \<le> n \<and> n \<le> 122) \<or> (65 \<le> n \<and> n \<le> 90) \<or> (48 \<le> n \<and> n \<le> 57) \<or>
     c = CHR ''_'' \<or> c = CHR ''.'' \<or> c = CHR ''-'')"

definition normalizeRefSegment :: "string \<Rightarrow> string" where
  "normalizeRefSegment s = map (\<lambda>c. if ref_char c then c else CHR ''_'') s"

definition typedRef :: "string \<Rightarrow> string \<Rightarrow> string \<Rightarrow> string option \<Rightarrow> string" where
  "typedRef domain entity providerOrId maybeId =
     (let provider = (case maybeId of None \<Rightarrow> ''local'' | Some _ \<Rightarrow> providerOrId);
          entityId = (case maybeId of Some i \<Rightarrow> i | None \<Rightarrow> providerOrId)
      in domain @ '':'' @ entity @ '':'' @ provider @ '':'' @ normalizeRefSegment entityId)"

text \<open>The 32-bit FNV-1a hash: \<open>Math.imul\<close> and \<open>^\<close> work on 32 bits, the result is read unsigned.\<close>

definition fnv_step :: "32 word \<Rightarrow> char \<Rightarrow> 32 word" where
  "fnv_step h c = (h XOR word_of_nat (of_char c)) * 0x01000193"

definition fnv1a :: "string \<Rightarrow> 32 word" where
  "fnv1a s = foldl fnv_step 0x811c9dc5 s"

fun show_hex :: "nat \<Rightarrow> string" where
  "show_hex n = (let d = n mod 16; c = char_of (if d < 10 then 48 + d else 87 + d) in
     if n < 16 then [c] else show_hex (n div 16) @ [c])"

declare show_hex.simps [simp del]

definition pad8 :: "string \<Rightarrow> string" where
  "pad8 s = replicate (8 - length s) CHR ''0'' @ s"

definition stableToken :: "string \<Rightarrow> string" where
  "stableToken s = ''fnv1a32:'' @ pad8 (show_hex (unat (fnv1a s)))"

fun status_name :: "result_status \<Rightarrow> string" where
  "status_name S_Succeeded = ''succeeded''"
| "status_name S_Failed = ''failed''"
| "status_name S_Blocked = ''blocked''"

definition count_status :: "test_status \<Rightarrow> worker_result \<Rightarrow> int" where
  "count_status s r = int (length (filter (\<lambda>t. test_status t = s) (result_test_results r)))"

definition summarizeTests :: "worker_result \<Rightarrow> test_summary" where
  "summarizeTests r = \<lparr>ts_passed = count_status T_Passed r, ts_failed = count_status T_Failed r,
     ts_skipped = count_status T_Skipped r, ts_not_run = count_status T_Not_Run r\<rparr>"

definition meta_get :: "metadata option \<Rightarrow> string \<Rightarrow> json_scalar option" where
  "meta_get m k = (case m of None \<Rightarrow> None | Some kv \<Rightarrow> map_get kv k)"

definition meta_string :: "metadata option \<Rightarrow> string \<Rightarrow> string option" where
  "meta_string m k = (case meta_get m k of Some (J_Str s) \<Rightarrow> Some s | _ \<Rightarrow> None)"

definition meta_true :: "metadata option \<Rightarrow> string \<Rightarrow> bool" where
  "meta_true m k = (meta_get m k = Some (J_Bool True))"

definition hasToolPlanMetadata :: "metadata \<Rightarrow> bool" where
  "hasToolPlanMetadata m = list_ex (\<lambda>(k, _). take 10 k = ''tool_plan_'') m"

definition toolPlanExecutionVerdict :: "string \<Rightarrow> plan_verdict option" where
  "toolPlanExecutionVerdict s = map_of [(''executed'', PV_Executed), (''applied'', PV_Applied), (''skipped'', PV_Skipped),
     (''failed'', PV_Failed), (''dry_run'', PV_Dry_Run)] s"

definition execution_verdict :: "worker_result \<Rightarrow> plan_verdict" where
  "execution_verdict r = (let m = result_metadata r in
     case (case meta_string m ''tool_plan_execution_verdict'' of Some s \<Rightarrow> toolPlanExecutionVerdict s | None \<Rightarrow> None) of
       Some v \<Rightarrow> v
     | None \<Rightarrow> if meta_true m ''tool_plan_dry_run'' then PV_Dry_Run
         else if result_status r = S_Failed \<or> \<not> falsy (meta_string m ''tool_plan_errors'') then PV_Failed
         else if meta_true m ''tool_plan_applied'' then PV_Applied
         else if meta_true m ''tool_plan_executed'' then PV_Executed else PV_Skipped)"

definition buildToolPlanRunSummary :: "worker_result \<Rightarrow> tool_plan_summary option" where
  "buildToolPlanRunSummary r = (case result_metadata r of None \<Rightarrow> None | Some kv \<Rightarrow>
     if \<not> hasToolPlanMetadata kv then None
     else let m = result_metadata r in Some
       \<lparr>tp_verdict = execution_verdict r, tp_dry_run = meta_true m ''tool_plan_dry_run'',
        tp_operations = meta_string m ''tool_plan_operations'',
        tp_workspace_root = (case meta_get m ''tool_plan_workspace_root'' of
           Some (J_Str s) \<Rightarrow> Some (Some s) | Some J_Null \<Rightarrow> Some None | _ \<Rightarrow> None),
        tp_artifact_paths = meta_string m ''tool_plan_artifact_paths'', tp_errors = meta_string m ''tool_plan_errors'',
        tp_gate_required = (meta_true m ''tool_plan_applied'' \<or> execution_verdict r = PV_Failed)\<rparr>)"

definition or_else :: "'a option \<Rightarrow> 'a option \<Rightarrow> 'a option" where
  "or_else a b = (case a of Some x \<Rightarrow> Some x | None \<Rightarrow> b)"

definition decision_input_of :: "task \<Rightarrow> worker_job \<Rightarrow> worker_result \<Rightarrow> decision_input" where
  "decision_input_of t j r = \<lparr>di_run_id = job_id j, di_artifact_count = int (length (result_artifacts r)),
     di_tests = summarizeTests r, di_escalations = int (length (requested_escalations r)),
     di_side_effects = (case or_else (result_side_effects r) (detected_side_effects t) of Some cs \<Rightarrow> cs | None \<Rightarrow> []),
     di_has_patch = (result_patch_ref r \<noteq> None), di_has_branch = (result_branch_ref r \<noteq> None),
     di_status = result_status r, di_tool_plan = buildToolPlanRunSummary r\<rparr>"

definition buildRunSystemPacket :: "run_system_mode \<Rightarrow> task \<Rightarrow> worker_job \<Rightarrow> worker_result \<Rightarrow> run_system_packet" where
  "buildRunSystemPacket mode t j r =
     (let bundle = or_else (result_context_bundle_ref r) (context_bundle_ref t) in
      \<lparr>pk_mode = mode, pk_run_ref = typedRef ''agent-taskstate'' ''run'' (job_id j) None,
       pk_task_ref = (if typed_ref t = [] then typedRef ''agent-taskstate'' ''task'' (task_id t) None else typed_ref t),
       pk_job_ref = typedRef ''shipyard-cp'' ''worker_job'' (worker_name (job_worker_type j)) (Some (job_id j)),
       pk_task_id = task_id t, pk_job_id = job_id j, pk_stage = job_stage j, pk_worker_type = job_worker_type j,
       pk_intent_ref = typedRef ''agent-protocols'' ''intent_contract'' (task_id t) None,
       pk_task_seed_ref = typedRef ''agent-protocols'' ''task_seed'' (job_id j) None,
       pk_acceptance_ref = (if job_stage j = Acceptance then Some (typedRef ''agent-protocols'' ''acceptance'' (job_id j) None) else None),
       pk_evidence_ref = typedRef ''agent-protocols'' ''evidence'' (job_id j @ ''-'' @ status_name (result_status r)) None,
       pk_input_hash = stableToken (input_prompt j),
       pk_output_hash = stableToken (case summary r of Some s \<Rightarrow> s | None \<Rightarrow> status_name (result_status r)),
       pk_runtime_ms = runtime_ms r, pk_exit_code = exit_code r, pk_state = state t, pk_context_bundle_ref = bundle,
       pk_resolver_refs = or_else (result_resolver_refs r) (resolver_refs t),
       pk_external_refs = or_else (result_external_refs r) (external_refs t), pk_input = decision_input_of t j r\<rparr>)"

subsection \<open>The gate\<close>

text \<open>One call of \<open>raise\<close> in \<open>evaluateRunSystemGate\<close>.\<close>

record gate_signal =
  gs_gatefield :: gatefield_verdict
  gs_state :: state_gate_verdict
  gs_reason :: string
  gs_blocker :: bool
  gs_residual :: bool
  gs_manual :: bool

definition signal_if :: "bool \<Rightarrow> gatefield_verdict \<Rightarrow> state_gate_verdict \<Rightarrow> string \<Rightarrow> bool \<Rightarrow> bool \<Rightarrow> bool \<Rightarrow> gate_signal list" where
  "signal_if b g st why blocker residual manual = (if b then [\<lparr>gs_gatefield = g, gs_state = st, gs_reason = why,
     gs_blocker = blocker, gs_residual = residual, gs_manual = manual\<rparr>] else [])"

definition tool_plan_signals :: "tool_plan_summary \<Rightarrow> gate_signal list" where
  "tool_plan_signals p =
     signal_if (tp_verdict p = PV_Failed) G_Block SG_Deny ''tool_plan execution failed'' True False True @
     signal_if (tp_verdict p = PV_Skipped) G_Warn SG_Revise
       ''tool_plan was skipped by policy or unsupported operation'' False True False @
     signal_if (tp_dry_run p) G_Warn SG_Revise
       ''tool_plan dry-run must be applied and accepted before publish'' False True False @
     signal_if (tp_gate_required p) G_Hold SG_Needs_Approval
       ''shipyard acceptance gate is required for applied tool_plan output'' False False True @
     signal_if (\<not> falsy (tp_errors p)) G_Hold SG_Revise ''tool_plan reported execution errors'' True False False"

definition gate_signals :: "decision_input \<Rightarrow> gate_signal list" where
  "gate_signals d =
     signal_if (di_status d = S_Failed \<or> di_status d = S_Blocked) G_Block SG_Deny
       (''worker result is '' @ status_name (di_status d)) True False True @
     signal_if (ts_failed (di_tests d) > 0) G_Hold SG_Revise ''test failure requires rework before publish'' True False False @
     signal_if (di_escalations d > 0) G_Hold SG_Needs_Approval
       ''permission escalation requires approval evidence'' False True True @
     signal_if (di_side_effects d \<noteq> []) G_Warn SG_Needs_Approval ''side effects require explicit review'' False True True @
     (case di_tool_plan d of None \<Rightarrow> [] | Some p \<Rightarrow> tool_plan_signals p)"

datatype qeg_verdict = Q_Go | Q_Conditional_Go | Q_No_Go

record gate_report =
  gr_mode :: run_system_mode
  gr_gatefield :: gatefield_verdict
  gr_gatefield_reasons :: "string list"
  gr_state_gate :: state_gate_verdict
  gr_state_gate_reasons :: "string list"
  gr_manual_required :: bool
  gr_manual_reason :: "string option"
  gr_expected :: qeg_verdict
  gr_blockers :: "string list"
  gr_residual_risks :: "string list"
  gr_blocks :: bool

definition shouldBlock :: "gatefield_verdict \<Rightarrow> state_gate_verdict \<Rightarrow> bool" where
  "shouldBlock g st = (g = G_Hold \<or> g = G_Block \<or> st \<noteq> SG_Allow)"

definition expected_verdict :: "string list \<Rightarrow> string list \<Rightarrow> bool \<Rightarrow> qeg_verdict" where
  "expected_verdict blockers risks manual = (if blockers \<noteq> [] then Q_No_Go
     else if risks \<noteq> [] \<or> manual then Q_Conditional_Go else Q_Go)"

definition first_of :: "'a list \<Rightarrow> 'a option" where
  "first_of xs = (case xs of [] \<Rightarrow> None | x # _ \<Rightarrow> Some x)"

definition evaluateRunSystemGate :: "run_system_packet \<Rightarrow> gate_report" where
  "evaluateRunSystemGate p =
     (let sigs = gate_signals (pk_input p);
          g = foldl (\<lambda>v x. maxGatefield v (gs_gatefield x)) G_Pass sigs;
          st = foldl (\<lambda>v x. maxStateGate v (gs_state x)) SG_Allow sigs;
          reasons = map gs_reason sigs;
          blockers = map gs_reason (filter gs_blocker sigs);
          risks = map gs_reason (filter gs_residual sigs);
          manuals = map gs_reason (filter gs_manual sigs)
      in \<lparr>gr_mode = pk_mode p, gr_gatefield = g, gr_gatefield_reasons = reasons, gr_state_gate = st,
          gr_state_gate_reasons = reasons, gr_manual_required = (manuals \<noteq> []), gr_manual_reason = first_of manuals,
          gr_expected = expected_verdict blockers risks (manuals \<noteq> []), gr_blockers = blockers,
          gr_residual_risks = risks, gr_blocks = (pk_mode p = Enforce \<and> shouldBlock g st)\<rparr>)"

text \<open>What the report of an external command line says, of which the merge reads these parts.\<close>

record external_report =
  er_gatefield :: "gatefield_verdict option"
  er_state_gate :: "state_gate_verdict option"
  er_blockers :: "string list"
  er_residual_risks :: "string list"

definition mergeExternalCliGateReport :: "gate_report \<Rightarrow> external_report \<Rightarrow> gate_report" where
  "mergeExternalCliGateReport r e =
     (let g = (case er_gatefield e of Some v \<Rightarrow> maxGatefield (gr_gatefield r) v | None \<Rightarrow> gr_gatefield r);
          st = (case er_state_gate e of Some v \<Rightarrow> maxStateGate (gr_state_gate r) v | None \<Rightarrow> gr_state_gate r);
          more = map (\<lambda>w. ''external CLI blocker: '' @ w) (er_blockers e) @
                 map (\<lambda>w. ''external CLI residual risk: '' @ w) (er_residual_risks e);
          blockers = gr_blockers r @ er_blockers e;
          risks = gr_residual_risks r @ er_residual_risks e;
          manual = (gr_manual_required r \<or> er_residual_risks e \<noteq> [] \<or> er_blockers e \<noteq> [])
      in r\<lparr>gr_gatefield := g, gr_gatefield_reasons := gr_gatefield_reasons r @ more, gr_state_gate := st,
           gr_state_gate_reasons := gr_state_gate_reasons r @ more, gr_manual_required := manual,
           gr_manual_reason := or_else (gr_manual_reason r) (or_else (first_of (er_blockers e)) (first_of (er_residual_risks e))),
           gr_expected := expected_verdict blockers risks manual, gr_blockers := blockers, gr_residual_risks := risks,
           gr_blocks := (gr_mode r = Enforce \<and> shouldBlock g st)\<rparr>)"

subsection \<open>Properties of the hash\<close>

text \<open>The multiplier is odd, so multiplication by it can be undone.\<close>

lemma prime_inverse: "x * 0x01000193 * 0x359c449b = (x :: 32 word)"
proof -
  have "(0x01000193 * 0x359c449b :: 32 word) = 1" by simp
  then show ?thesis by (simp only: mult.assoc mult_1_right)
qed

lemma fnv_step_inj: "fnv_step h c = fnv_step h' c \<Longrightarrow> h = h'"
proof -
  assume "fnv_step h c = fnv_step h' c"
  then have "(h XOR word_of_nat (of_char c)) * 0x01000193 * 0x359c449b = (h' XOR word_of_nat (of_char c)) * 0x01000193 * (0x359c449b :: 32 word)"
    by (simp only: fnv_step_def)
  then have "h XOR word_of_nat (of_char c) = h' XOR word_of_nat (of_char c)" unfolding prime_inverse .
  then have "(h XOR word_of_nat (of_char c)) XOR word_of_nat (of_char c) = (h' XOR word_of_nat (of_char c)) XOR word_of_nat (of_char c)"
    by (simp only:)
  then show ?thesis by (simp add: xor.assoc)
qed

lemma fnv_fold_inj: "foldl fnv_step h s = foldl fnv_step h' s \<Longrightarrow> h = h'"
  by (induction s arbitrary: h h') (auto dest: fnv_step_inj)

lemma fnv_step_char: "fnv_step h c = fnv_step h d \<Longrightarrow> c = d"
proof -
  assume "fnv_step h c = fnv_step h d"
  then have "(h XOR word_of_nat (of_char c)) * 0x01000193 * 0x359c449b = (h XOR word_of_nat (of_char d)) * 0x01000193 * (0x359c449b :: 32 word)"
    by (simp only: fnv_step_def)
  then have "h XOR word_of_nat (of_char c) = h XOR (word_of_nat (of_char d) :: 32 word)" unfolding prime_inverse .
  then have "h XOR (h XOR word_of_nat (of_char c)) = h XOR (h XOR (word_of_nat (of_char d) :: 32 word))"
    by (simp only:)
  then have "word_of_nat (of_char c) = (word_of_nat (of_char d) :: 32 word)" by (simp add: xor.assoc [symmetric])
  moreover have "unat (word_of_nat (of_char e) :: 32 word) = of_char e" for e :: char
    unfolding unat_of_nat using less_trans [OF nat_of_char_less_256 [of e], of "2 ^ LENGTH(32)"] by (intro mod_less) simp
  ultimately have "of_char c = (of_char d :: nat)" by metis
  then show "c = d" by simp
qed

lemma fnv1a_single: "fnv1a (a @ c # b) = fnv1a (a @ d # b) \<Longrightarrow> c = d"
  unfolding fnv1a_def by (auto dest!: fnv_fold_inj fnv_step_char)

subsection \<open>Properties of the gate\<close>

definition clean_plan :: "tool_plan_summary \<Rightarrow> bool" where
  "clean_plan p = (tp_verdict p \<in> {PV_Executed, PV_Applied, PV_Dry_Run} \<and> \<not> tp_dry_run p \<and> \<not> tp_gate_required p \<and> falsy (tp_errors p))"

definition clean_run :: "decision_input \<Rightarrow> bool" where
  "clean_run d = (di_status d = S_Succeeded \<and> ts_failed (di_tests d) \<le> 0 \<and> di_escalations d \<le> 0 \<and> di_side_effects d = [] \<and>
     (case di_tool_plan d of None \<Rightarrow> True | Some p \<Rightarrow> clean_plan p))"

lemma signal_if_Nil [simp]: "signal_if b g st why bl re ma = [] \<longleftrightarrow> \<not> b"
  by (simp add: signal_if_def)

lemma gate_signals_Nil: "gate_signals d = [] \<longleftrightarrow> clean_run d"
proof -
  have "tool_plan_signals p = [] \<longleftrightarrow> clean_plan p" for p
    by (cases "tp_verdict p") (auto simp: tool_plan_signals_def clean_plan_def)
  moreover have "\<not> (st = S_Failed \<or> st = S_Blocked) \<longleftrightarrow> st = S_Succeeded" for st
    by (cases st) simp_all
  ultimately show ?thesis
    by (simp add: gate_signals_def clean_run_def not_less split: option.split)
qed

definition serious :: "gate_signal \<Rightarrow> bool" where
  "serious x = (gs_state x \<noteq> SG_Allow \<and> gs_gatefield x \<noteq> G_Pass \<and> (gs_blocker x \<or> gs_residual x \<or> gs_manual x))"

lemma gate_signals_serious: "x \<in> set (gate_signals d) \<Longrightarrow> serious x"
  by (auto simp: gate_signals_def tool_plan_signals_def signal_if_def serious_def split: if_splits option.splits)

lemma foldl_max_bounds:
  fixes f :: "gate_signal \<Rightarrow> 'a :: linorder"
  shows "v \<le> foldl (\<lambda>v x. max v (f x)) v xs" "x \<in> set xs \<Longrightarrow> f x \<le> foldl (\<lambda>v x. max v (f x)) v xs"
    "foldl (\<lambda>v x. max v (f x)) v xs \<in> insert v (f ` set xs)"
proof -
  have low: "v \<le> foldl (\<lambda>v x. max v (f x)) v ys" for v ys
    by (induction ys arbitrary: v) (auto intro: order_trans [OF max.cobounded1])
  show "v \<le> foldl (\<lambda>v x. max v (f x)) v xs" by (rule low)
  show "x \<in> set xs \<Longrightarrow> f x \<le> foldl (\<lambda>v x. max v (f x)) v xs"
  proof (induction xs arbitrary: v)
    case (Cons y ys)
    have "f y \<le> foldl (\<lambda>v x. max v (f x)) (max v (f y)) ys"
      by (rule order_trans [OF max.cobounded2 low])
    with Cons show ?case by auto
  qed simp
  show "foldl (\<lambda>v x. max v (f x)) v xs \<in> insert v (f ` set xs)"
  proof (induction xs arbitrary: v)
    case (Cons y ys)
    from Cons [of "max v (f y)"] show ?case by (auto simp: max_def split: if_splits)
  qed simp
qed

lemma state_gate_allow: "gr_state_gate (evaluateRunSystemGate p) = SG_Allow \<longleftrightarrow> clean_run (pk_input p)"
proof -
  have gate: "gr_state_gate (evaluateRunSystemGate p) = foldl (\<lambda>v x. max v (gs_state x)) SG_Allow (gate_signals (pk_input p))"
    by (simp add: evaluateRunSystemGate_def Let_def maxStateGate_max)
  show ?thesis
  proof (cases "gate_signals (pk_input p)")
    case Nil
    then show ?thesis using gate gate_signals_Nil [of "pk_input p"] by simp
  next
    case (Cons x xs)
    then have x: "x \<in> set (gate_signals (pk_input p))" by simp
    have "gs_state x \<le> gr_state_gate (evaluateRunSystemGate p)"
      unfolding gate by (rule foldl_max_bounds(2) [OF x])
    with gate_signals_serious [OF x] have "gr_state_gate (evaluateRunSystemGate p) \<noteq> SG_Allow" by (auto simp: serious_def)
    with Cons gate_signals_Nil [of "pk_input p"] show ?thesis by simp
  qed
qed

lemma expected_go: "gr_expected (evaluateRunSystemGate p) = Q_Go \<longleftrightarrow> clean_run (pk_input p)"
proof -
  have "gr_expected (evaluateRunSystemGate p) = Q_Go \<longleftrightarrow>
      list_all (\<lambda>x. \<not> gs_blocker x \<and> \<not> gs_residual x \<and> \<not> gs_manual x) (gate_signals (pk_input p))"
    by (auto simp: evaluateRunSystemGate_def Let_def expected_verdict_def list_all_iff filter_empty_conv)
  also have "\<dots> \<longleftrightarrow> gate_signals (pk_input p) = []"
  proof (cases "gate_signals (pk_input p)")
    case (Cons a xs)
    with gate_signals_serious [of a "pk_input p"] show ?thesis by (auto simp: serious_def)
  qed simp
  finally show ?thesis unfolding gate_signals_Nil .
qed

lemma gate_blocks_iff: "gr_blocks (evaluateRunSystemGate p) \<longleftrightarrow> pk_mode p = Enforce \<and> \<not> clean_run (pk_input p)"
proof -
  have "gr_gatefield (evaluateRunSystemGate p) = G_Pass" if "clean_run (pk_input p)"
    using that gate_signals_Nil [of "pk_input p"] by (simp add: evaluateRunSystemGate_def Let_def)
  moreover have "gr_blocks (evaluateRunSystemGate p) \<longleftrightarrow>
      pk_mode p = Enforce \<and> shouldBlock (gr_gatefield (evaluateRunSystemGate p)) (gr_state_gate (evaluateRunSystemGate p))"
    by (simp add: evaluateRunSystemGate_def Let_def)
  ultimately show ?thesis using state_gate_allow [of p] unfolding shouldBlock_def by auto
qed

fun qeg_rank :: "qeg_verdict \<Rightarrow> nat" where
  "qeg_rank Q_Go = 0"
| "qeg_rank Q_Conditional_Go = 1"
| "qeg_rank Q_No_Go = 2"

text \<open>
  The gate for worker results: in advisory mode it never blocks a transition; in enforce mode it lets
  exactly the clean runs pass (succeeded, no failed test, no escalation, no side effect, no tool plan that is skipped,
  dry, failed or awaits acceptance), which are also the only ones it expects to go. The report of an external
  command line can only tighten it: no verdict is lowered, no blocker is lost, and what was blocked stays blocked.
\<close>

theorem run_system_gate:
  "(gr_blocks (evaluateRunSystemGate p) \<longleftrightarrow> pk_mode p = Enforce \<and> \<not> clean_run (pk_input p)) \<and>
   (gr_expected (evaluateRunSystemGate p) = Q_Go \<longleftrightarrow> clean_run (pk_input p)) \<and>
   gr_gatefield (evaluateRunSystemGate p) \<le> gr_gatefield (mergeExternalCliGateReport (evaluateRunSystemGate p) e) \<and>
   gr_state_gate (evaluateRunSystemGate p) \<le> gr_state_gate (mergeExternalCliGateReport (evaluateRunSystemGate p) e) \<and>
   qeg_rank (gr_expected (evaluateRunSystemGate p)) \<le> qeg_rank (gr_expected (mergeExternalCliGateReport (evaluateRunSystemGate p) e)) \<and>
   set (gr_blockers (evaluateRunSystemGate p)) \<subseteq> set (gr_blockers (mergeExternalCliGateReport (evaluateRunSystemGate p) e)) \<and>
   gr_blocks (evaluateRunSystemGate p) \<le> gr_blocks (mergeExternalCliGateReport (evaluateRunSystemGate p) e)"
proof -
  let ?r = "evaluateRunSystemGate p"
  let ?m = "mergeExternalCliGateReport ?r e"
  have blocks: "gr_blocks ?r \<longleftrightarrow> pk_mode p = Enforce \<and> shouldBlock (gr_gatefield ?r) (gr_state_gate ?r)"
    and mode: "gr_mode ?r = pk_mode p"
    and expected: "gr_expected ?r = expected_verdict (gr_blockers ?r) (gr_residual_risks ?r) (gr_manual_required ?r)"
    by (simp_all add: evaluateRunSystemGate_def Let_def)
  have m_blocks: "gr_blocks ?m \<longleftrightarrow> pk_mode p = Enforce \<and> shouldBlock (gr_gatefield ?m) (gr_state_gate ?m)"
    and m_expected: "gr_expected ?m = expected_verdict (gr_blockers ?r @ er_blockers e) (gr_residual_risks ?r @ er_residual_risks e)
      (gr_manual_required ?r \<or> er_residual_risks e \<noteq> [] \<or> er_blockers e \<noteq> [])"
    and m_blockers: "gr_blockers ?m = gr_blockers ?r @ er_blockers e"
    by (simp_all add: mergeExternalCliGateReport_def Let_def mode)
  have g: "gr_gatefield ?r \<le> gr_gatefield ?m" and st: "gr_state_gate ?r \<le> gr_state_gate ?m"
    by (simp_all add: mergeExternalCliGateReport_def Let_def maxGatefield_max maxStateGate_max split: option.split)
  note block_iff = gate_blocks_iff [of p]
  have "gr_blocks ?r \<le> gr_blocks ?m"
  proof -
    have "gr_state_gate ?m \<noteq> SG_Allow" if "gr_state_gate ?r \<noteq> SG_Allow" using st that by auto
    then show ?thesis using block_iff state_gate_allow [of p] unfolding m_blocks shouldBlock_def by auto
  qed
  moreover have "qeg_rank (gr_expected ?r) \<le> qeg_rank (gr_expected ?m)"
    unfolding expected m_expected by (auto simp: expected_verdict_def)
  ultimately show ?thesis using block_iff expected_go g st m_blockers by auto
qed

text \<open>
  The tokens for prompts and outputs are 32-bit FNV-1a hashes in eight hexadecimal digits: two texts that
  differ in one character only always get different hash values.
\<close>

theorem stable_token_single_change:
  assumes "c \<noteq> d"
  shows "fnv1a (a @ c # b) \<noteq> fnv1a (a @ d # b)"
  using assms fnv1a_single by blast

theorem stable_token_single_change_witness: "fnv1a ''plan A'' \<noteq> fnv1a ''plan B''"
  using stable_token_single_change [of "CHR ''A''" "CHR ''B''" "''plan ''" "[]"] by simp

end
