(* ===== verification/Concurrency.thy ===== *)
theory Concurrency
  imports Lease
begin

text \<open>
  \<open>src/src/domain/concurrency\<close>: admission of jobs up to a capacity per worker and in total, the
  waiting queues of the workers, the resource locks with an expiry, and the version table behind
  optimistic locking (\<open>ConcurrencyManager\<close>), with the lock keys of \<open>types.ts\<close>. A \<open>Set\<close> of job ids is a
  list without repetitions. Numbers read from the environment are part of the configuration.
\<close>

datatype resource_lock_type = RL_Task | RL_Repo_Branch | RL_Environment | RL_Publish_Target

datatype capacity_reason = Worker_Capacity_Exceeded | Global_Capacity_Exceeded

record concurrency_config =
  max_concurrent_per_worker :: int
  max_concurrent_global :: int
  default_lock_duration_seconds :: "int option"

record job_record =
  jr_job_id :: string
  jr_worker_id :: string
  jr_stage :: string
  jr_started_at :: time

record enqueue_params =
  ep_job_id :: string
  ep_worker_id :: string
  ep_stage :: string

record lock_record =
  lock_id :: string
  lock_resource_key :: string
  lock_resource_type :: resource_lock_type
  owner_job_id :: string
  owner_task_id :: string
  lock_acquired_at :: time
  lock_expires_at :: time

datatype acquire_result = Acquired lock_record | Conflict string time

record worker_stats =
  ws_worker_id :: string
  ws_active_jobs :: int
  ws_max_concurrent :: int
  ws_utilization :: real
  ws_queued_jobs :: int

record global_stats =
  gs_total_active_jobs :: int
  gs_total_capacity :: int
  gs_active_workers :: int
  gs_global_utilization :: real

record lock_metrics =
  lm_conflicts :: "resource_lock_type \<Rightarrow> int"
  lm_state_conflicts :: int
  lm_active_locks :: int

record concurrency_manager =
  cc_config :: concurrency_config
  activeJobs :: "(string, job_record) jsmap"
  workerJobs :: "(string, string list) jsmap"
  jobQueue :: "(string, (enqueue_params \<times> time) list) jsmap"
  resourceLocks :: "(string, lock_record) jsmap"
  taskVersions :: "(string, int) jsmap"
  lockConflictCounts :: "resource_lock_type \<Rightarrow> int"
  stateUpdateConflictCount :: int

definition DEFAULT_CONCURRENCY_CONFIG :: concurrency_config where
  "DEFAULT_CONCURRENCY_CONFIG = \<lparr>max_concurrent_per_worker = 20, max_concurrent_global = 200,
     default_lock_duration_seconds = Some 300\<rparr>"

definition new_concurrency_manager :: "concurrency_config \<Rightarrow> concurrency_manager" where
  "new_concurrency_manager cfg = \<lparr>cc_config = cfg, activeJobs = [], workerJobs = [], jobQueue = [],
     resourceLocks = [], taskVersions = [], lockConflictCounts = (\<lambda>_. 0), stateUpdateConflictCount = 0\<rparr>"

subsection \<open>Lock keys\<close>

definition buildTaskLockKey :: "string \<Rightarrow> string" where
  "buildTaskLockKey taskId = ''task:'' @ taskId"

definition buildRepoBranchLockKey :: "string \<Rightarrow> string \<Rightarrow> string" where
  "buildRepoBranchLockKey repoRef branch = ''repo_branch:'' @ repoRef @ '':'' @ branch"

definition buildEnvironmentLockKey :: "string \<Rightarrow> string" where
  "buildEnvironmentLockKey environmentName = ''environment:'' @ environmentName"

definition buildPublishTargetLockKey :: "string \<Rightarrow> string \<Rightarrow> string" where
  "buildPublishTargetLockKey provider targetId = ''publish_target:'' @ provider @ '':'' @ targetId"

lemma append_colon_inject:
  assumes "CHR '':'' \<notin> set a" and "CHR '':'' \<notin> set c"
  shows "a @ '':'' @ b = c @ '':'' @ d \<longleftrightarrow> a = c \<and> b = d"
  using assms
proof (induction a arbitrary: c)
  case Nil
  then show ?case by (cases c) auto
next
  case (Cons x a)
  then show ?case by (cases c) auto
qed

subsection \<open>Admission\<close>

definition worker_active :: "concurrency_manager \<Rightarrow> string \<Rightarrow> int" where
  "worker_active m w = (case map_get (workerJobs m) w of Some js \<Rightarrow> int (length js) | None \<Rightarrow> 0)"

definition canAccept :: "concurrency_manager \<Rightarrow> string \<Rightarrow> capacity_reason option" where
  "canAccept m w =
     (if int (length (activeJobs m)) \<ge> max_concurrent_global (cc_config m) then Some Global_Capacity_Exceeded
      else if worker_active m w \<ge> max_concurrent_per_worker (cc_config m) then Some Worker_Capacity_Exceeded
      else None)"

definition recordStart :: "time \<Rightarrow> enqueue_params \<Rightarrow> concurrency_manager \<Rightarrow> concurrency_manager" where
  "recordStart now p m =
     (let js = (case map_get (workerJobs m) (ep_worker_id p) of Some js \<Rightarrow> js | None \<Rightarrow> []) in
      m\<lparr>activeJobs := map_set (activeJobs m) (ep_job_id p) \<lparr>jr_job_id = ep_job_id p,
          jr_worker_id = ep_worker_id p, jr_stage = ep_stage p, jr_started_at = now\<rparr>,
        workerJobs := map_set (workerJobs m) (ep_worker_id p) (set_add js (ep_job_id p))\<rparr>)"

definition recordComplete :: "string \<Rightarrow> string \<Rightarrow> concurrency_manager \<Rightarrow> concurrency_manager" where
  "recordComplete job w m = m\<lparr>activeJobs := map_delete (activeJobs m) job,
     workerJobs := (case map_get (workerJobs m) w of None \<Rightarrow> workerJobs m
       | Some js \<Rightarrow> map_set (workerJobs m) w (removeAll job js))\<rparr>"

definition queue_of :: "concurrency_manager \<Rightarrow> string \<Rightarrow> (enqueue_params \<times> time) list" where
  "queue_of m w = (case map_get (jobQueue m) w of Some q \<Rightarrow> q | None \<Rightarrow> [])"

definition getStats :: "concurrency_manager \<Rightarrow> string \<Rightarrow> worker_stats" where
  "getStats m w = \<lparr>ws_worker_id = w, ws_active_jobs = worker_active m w,
     ws_max_concurrent = max_concurrent_per_worker (cc_config m),
     ws_utilization = of_int (worker_active m w) / of_int (max_concurrent_per_worker (cc_config m)),
     ws_queued_jobs = int (length (queue_of m w))\<rparr>"

definition getGlobalStats :: "concurrency_manager \<Rightarrow> global_stats" where
  "getGlobalStats m = \<lparr>gs_total_active_jobs = int (length (activeJobs m)),
     gs_total_capacity = max_concurrent_global (cc_config m),
     gs_active_workers = int (length (workerJobs m)),
     gs_global_utilization = of_int (int (length (activeJobs m))) / of_int (max_concurrent_global (cc_config m))\<rparr>"

subsection \<open>Queues\<close>

definition enqueue :: "time \<Rightarrow> enqueue_params \<Rightarrow> concurrency_manager \<Rightarrow> concurrency_manager" where
  "enqueue now p m = m\<lparr>jobQueue := map_set (jobQueue m) (ep_worker_id p) (queue_of m (ep_worker_id p) @ [(p, now)])\<rparr>"

fun find_index :: "('a \<Rightarrow> bool) \<Rightarrow> 'a list \<Rightarrow> int" where
  "find_index P [] = - 1"
| "find_index P (x # xs) = (if P x then 0 else if find_index P xs \<ge> 0 then find_index P xs + 1 else - 1)"

fun queue_position :: "string \<Rightarrow> (enqueue_params \<times> time) list list \<Rightarrow> int" where
  "queue_position job [] = 0"
| "queue_position job (q # qs) =
     (let i = find_index (\<lambda>(p, _). ep_job_id p = job) q in if i \<ge> 0 then i + 1 else queue_position job qs)"

definition getQueuePosition :: "concurrency_manager \<Rightarrow> string \<Rightarrow> int" where
  "getQueuePosition m job = queue_position job (map_values (jobQueue m))"

definition dequeue :: "string \<Rightarrow> concurrency_manager \<Rightarrow> enqueue_params option \<times> concurrency_manager" where
  "dequeue w m = (case map_get (jobQueue m) w of
       Some ((p, _) # q) \<Rightarrow> (Some p, m\<lparr>jobQueue := map_set (jobQueue m) w q\<rparr>)
     | _ \<Rightarrow> (None, m))"

subsection \<open>Resource locks\<close>

definition lock_live :: "time \<Rightarrow> lock_record \<Rightarrow> bool" where
  "lock_live now l = (\<not> now \<ge> lock_expires_at l)"

definition cleanupExpiredLocks :: "time \<Rightarrow> concurrency_manager \<Rightarrow> int \<times> concurrency_manager" where
  "cleanupExpiredLocks now m =
     (let keep = filter (\<lambda>(_, l). lock_live now l) (resourceLocks m) in
      (int (length (resourceLocks m)) - int (length keep), m\<lparr>resourceLocks := keep\<rparr>))"

record acquire_params =
  ap_resource_key :: string
  ap_resource_type :: resource_lock_type
  ap_job_id :: string
  ap_task_id :: string
  ap_duration_seconds :: "int option"

definition lock_duration :: "concurrency_manager \<Rightarrow> int option \<Rightarrow> int" where
  "lock_duration m d = (case d of Some s \<Rightarrow> s | None \<Rightarrow>
     (case default_lock_duration_seconds (cc_config m) of Some s \<Rightarrow> s | None \<Rightarrow> 300))"

definition acquireLock :: "time \<Rightarrow> string \<Rightarrow> acquire_params \<Rightarrow> concurrency_manager \<Rightarrow> acquire_result \<times> concurrency_manager" where
  "acquireLock now uuid p m0 =
     (let m = snd (cleanupExpiredLocks now m0) in
      case map_get (resourceLocks m) (ap_resource_key p) of
        Some l \<Rightarrow> (Conflict (owner_job_id l) (lock_expires_at l),
          m\<lparr>lockConflictCounts := (lockConflictCounts m)(ap_resource_type p :=
              lockConflictCounts m (ap_resource_type p) + 1)\<rparr>)
      | None \<Rightarrow>
         let l = \<lparr>lock_id = uuid, lock_resource_key = ap_resource_key p,
              lock_resource_type = ap_resource_type p, owner_job_id = ap_job_id p,
              owner_task_id = ap_task_id p, lock_acquired_at = now,
              lock_expires_at = now + lock_duration m (ap_duration_seconds p) * 1000\<rparr>
         in (Acquired l, m\<lparr>resourceLocks := map_set (resourceLocks m) (ap_resource_key p) l\<rparr>))"

definition releaseLock :: "string \<Rightarrow> string \<Rightarrow> concurrency_manager \<Rightarrow> bool \<times> concurrency_manager" where
  "releaseLock key job m = (case map_get (resourceLocks m) key of
       None \<Rightarrow> (False, m)
     | Some l \<Rightarrow> if owner_job_id l \<noteq> job then (False, m)
         else (True, m\<lparr>resourceLocks := map_delete (resourceLocks m) key\<rparr>))"

definition releaseLocksForJob :: "string \<Rightarrow> concurrency_manager \<Rightarrow> int \<times> concurrency_manager" where
  "releaseLocksForJob job m =
     (let keep = filter (\<lambda>(_, l). owner_job_id l \<noteq> job) (resourceLocks m) in
      (int (length (resourceLocks m)) - int (length keep), m\<lparr>resourceLocks := keep\<rparr>))"

definition isLocked :: "time \<Rightarrow> string \<Rightarrow> concurrency_manager \<Rightarrow> bool \<times> concurrency_manager" where
  "isLocked now key m0 = (let m = snd (cleanupExpiredLocks now m0) in (map_has (resourceLocks m) key, m))"

definition getLock :: "time \<Rightarrow> string \<Rightarrow> concurrency_manager \<Rightarrow> lock_record option \<times> concurrency_manager" where
  "getLock now key m0 = (let m = snd (cleanupExpiredLocks now m0) in (map_get (resourceLocks m) key, m))"

definition acquireTaskLock :: "time \<Rightarrow> string \<Rightarrow> string \<Rightarrow> string \<Rightarrow> int option \<Rightarrow> concurrency_manager
    \<Rightarrow> acquire_result \<times> concurrency_manager" where
  "acquireTaskLock now uuid tid job d m = acquireLock now uuid \<lparr>ap_resource_key = buildTaskLockKey tid,
     ap_resource_type = RL_Task, ap_job_id = job, ap_task_id = tid, ap_duration_seconds = d\<rparr> m"

definition releaseTaskLock :: "string \<Rightarrow> string \<Rightarrow> concurrency_manager \<Rightarrow> bool \<times> concurrency_manager" where
  "releaseTaskLock tid job m = releaseLock (buildTaskLockKey tid) job m"

definition isTaskLocked :: "time \<Rightarrow> string \<Rightarrow> concurrency_manager \<Rightarrow> bool \<times> concurrency_manager" where
  "isTaskLocked now tid m = isLocked now (buildTaskLockKey tid) m"

subsection \<open>Optimistic locking\<close>

definition setTaskVersion :: "string \<Rightarrow> int \<Rightarrow> concurrency_manager \<Rightarrow> concurrency_manager" where
  "setTaskVersion tid v m = m\<lparr>taskVersions := map_set (taskVersions m) tid v\<rparr>"

definition getTaskVersion :: "concurrency_manager \<Rightarrow> string \<Rightarrow> int option" where
  "getTaskVersion m tid = map_get (taskVersions m) tid"

definition validateOptimisticLock :: "string \<Rightarrow> int \<Rightarrow> concurrency_manager
    \<Rightarrow> (bool \<times> int option) \<times> concurrency_manager" where
  "validateOptimisticLock tid expected m = (case map_get (taskVersions m) tid of
       None \<Rightarrow> ((True, None), m)
     | Some v \<Rightarrow> if v \<noteq> expected
         then ((False, Some v), m\<lparr>stateUpdateConflictCount := stateUpdateConflictCount m + 1\<rparr>)
         else ((True, None), m))"

definition updateTaskVersion :: "string \<Rightarrow> int \<Rightarrow> concurrency_manager \<Rightarrow> concurrency_manager" where
  "updateTaskVersion tid v m = m\<lparr>taskVersions := map_set (taskVersions m) tid v\<rparr>"

definition checkAndUpdateVersion :: "string \<Rightarrow> int \<Rightarrow> int \<Rightarrow> concurrency_manager \<Rightarrow> bool \<times> concurrency_manager" where
  "checkAndUpdateVersion tid expected new m = (case validateOptimisticLock tid expected m of
     ((valid, _), m') \<Rightarrow> if \<not> valid then (False, m') else (True, updateTaskVersion tid new m'))"

subsection \<open>Metrics and listings\<close>

definition getLockMetrics :: "time \<Rightarrow> concurrency_manager \<Rightarrow> lock_metrics \<times> concurrency_manager" where
  "getLockMetrics now m0 = (let m = snd (cleanupExpiredLocks now m0) in
     (\<lparr>lm_conflicts = lockConflictCounts m, lm_state_conflicts = stateUpdateConflictCount m,
       lm_active_locks = int (length (resourceLocks m))\<rparr>, m))"

definition resetConflictCounters :: "concurrency_manager \<Rightarrow> concurrency_manager" where
  "resetConflictCounters m = m\<lparr>lockConflictCounts := (\<lambda>_. 0), stateUpdateConflictCount := 0\<rparr>"

definition getActiveLocks :: "time \<Rightarrow> concurrency_manager \<Rightarrow> lock_record list \<times> concurrency_manager" where
  "getActiveLocks now m0 = (let m = snd (cleanupExpiredLocks now m0) in (map_values (resourceLocks m), m))"

definition getLocksByTask :: "time \<Rightarrow> string \<Rightarrow> concurrency_manager \<Rightarrow> lock_record list \<times> concurrency_manager" where
  "getLocksByTask now tid m0 = (let m = snd (cleanupExpiredLocks now m0) in
     (filter (\<lambda>l. owner_task_id l = tid) (map_values (resourceLocks m)), m))"

definition reset :: "concurrency_manager \<Rightarrow> concurrency_manager" where
  "reset m = resetConflictCounters (m\<lparr>activeJobs := [], workerJobs := [], jobQueue := [],
     resourceLocks := [], taskVersions := []\<rparr>)"

subsection \<open>The contract of the resource locks\<close>

definition lock_holder :: "time \<Rightarrow> concurrency_manager \<Rightarrow> string \<Rightarrow> string option" where
  "lock_holder now m key = (case map_get (resourceLocks m) key of
     Some l \<Rightarrow> if lock_live now l then Some (owner_job_id l) else None | None \<Rightarrow> None)"

definition locks_valid :: "time \<Rightarrow> concurrency_manager \<Rightarrow> bool" where
  "locks_valid now m = (wf_map (resourceLocks m) \<and> 0 < lock_duration m None)"

definition try_lock :: "(string \<Rightarrow> resource_lock_type) \<Rightarrow> string \<Rightarrow> string \<Rightarrow> time \<Rightarrow> concurrency_manager \<Rightarrow>
    string \<Rightarrow> string \<Rightarrow> bool \<times> concurrency_manager" where
  "try_lock ty uuid tid now m key job = (case acquireLock now uuid \<lparr>ap_resource_key = key,
       ap_resource_type = ty key, ap_job_id = job, ap_task_id = tid, ap_duration_seconds = None\<rparr> m of
     (Acquired l, m') \<Rightarrow> (True, m') | (Conflict _ _, m') \<Rightarrow> (False, m'))"

definition try_unlock :: "concurrency_manager \<Rightarrow> string \<Rightarrow> string \<Rightarrow> bool \<times> concurrency_manager" where
  "try_unlock m key job = releaseLock key job m"

lemma lock_duration_frame [simp]:
  "lock_duration (m\<lparr>resourceLocks := x\<rparr>) d = lock_duration m d"
  "lock_duration (m\<lparr>lockConflictCounts := c\<rparr>) d = lock_duration m d"
  by (simp_all add: lock_duration_def split: option.split)

lemma lock_holder_frame:
  "k \<noteq> key \<Longrightarrow> lock_holder t (m\<lparr>resourceLocks := map_set (resourceLocks m) key l\<rparr>) k = lock_holder t m k"
  "lock_holder t (m\<lparr>resourceLocks := map_set (resourceLocks m) key l\<rparr>) key =
     (if lock_live t l then Some (owner_job_id l) else None)"
  "lock_holder t (m\<lparr>lockConflictCounts := c\<rparr>) k = lock_holder t m k"
  by (simp_all add: lock_holder_def)

lemma cleanup_lookup:
  "wf_map (resourceLocks m) \<Longrightarrow> map_get (resourceLocks (snd (cleanupExpiredLocks now m))) k =
    (case map_get (resourceLocks m) k of Some l \<Rightarrow> if lock_live now l then Some l else None | None \<Rightarrow> None)"
  by (simp add: cleanupExpiredLocks_def Let_def map_get_filter split: option.split)

lemma cleanup_wf [simp]: "wf_map (resourceLocks m) \<Longrightarrow> wf_map (resourceLocks (snd (cleanupExpiredLocks now m)))"
  by (simp add: cleanupExpiredLocks_def Let_def)

lemma cleanup_duration [simp]: "lock_duration (snd (cleanupExpiredLocks now m)) d = lock_duration m d"
  by (simp add: cleanupExpiredLocks_def Let_def)

lemma cleanup_holder: "wf_map (resourceLocks m) \<Longrightarrow> now \<le> t \<Longrightarrow>
    lock_holder t (snd (cleanupExpiredLocks now m)) k = lock_holder t m k"
  by (auto simp: lock_holder_def cleanup_lookup lock_live_def split: option.split)

text \<open>One lock attempt, seen through the holder of every key.\<close>

lemma try_lock_cases:
  assumes "locks_valid now m"
  shows "case lock_holder now m key of
      Some i \<Rightarrow> \<not> fst (try_lock ty u tid now m key job) \<and>
        (\<forall>t \<ge> now. \<forall>k. lock_holder t (snd (try_lock ty u tid now m key job)) k = lock_holder t m k)
    | None \<Rightarrow> fst (try_lock ty u tid now m key job) \<and>
        lock_holder now (snd (try_lock ty u tid now m key job)) key = Some job \<and>
        (\<forall>t \<ge> now. \<forall>k. k \<noteq> key \<longrightarrow> lock_holder t (snd (try_lock ty u tid now m key job)) k = lock_holder t m k)"
proof -
  let ?m = "snd (cleanupExpiredLocks now m)"
  have wf: "wf_map (resourceLocks m)" and d: "0 < lock_duration ?m None"
    using assms by (simp_all add: locks_valid_def)
  have h: "lock_holder now m key = map_option owner_job_id (map_get (resourceLocks ?m) key)"
    using wf by (auto simp: lock_holder_def cleanup_lookup split: option.split)
  note ch = cleanup_holder [OF wf]
  show ?thesis
  proof (cases "map_get (resourceLocks ?m) key")
    case None
    with h d show ?thesis
      by (auto simp: try_lock_def acquireLock_def Let_def lock_holder_frame cleanup_holder [OF wf] lock_live_def)
  next
    case (Some l)
    with h show ?thesis
      by (auto simp: try_lock_def acquireLock_def Let_def lock_holder_frame cleanup_holder [OF wf])
  qed
qed

lemma try_lock_valid: "locks_valid now m \<Longrightarrow> locks_valid now (snd (try_lock ty u tid now m key job))"
  by (auto simp: locks_valid_def try_lock_def acquireLock_def Let_def split: option.split)

lemma try_unlock_valid: "locks_valid now m \<Longrightarrow> locks_valid now (snd (try_unlock m key job))"
  by (auto simp: locks_valid_def try_unlock_def releaseLock_def split: option.split)

lemma lock_holder_earlier: "lock_holder t m k = Some j \<Longrightarrow> now \<le> t \<Longrightarrow> lock_holder now m k = Some j"
  by (auto simp: lock_holder_def lock_live_def split: option.splits if_splits)

interpretation cl: exclusive_resource "try_lock ty u tid" try_unlock lock_holder locks_valid
proof unfold_locales
  fix now t :: time and m m' :: concurrency_manager and k k' i j :: string
  show "locks_valid now m \<Longrightarrow> now \<le> t \<Longrightarrow> locks_valid t m" by (simp add: locks_valid_def)
  show "locks_valid now m \<Longrightarrow> locks_valid now (snd (try_lock ty u tid now m k j))" by (rule try_lock_valid)
  show "locks_valid now m \<Longrightarrow> locks_valid now (snd (try_unlock m k j))" by (rule try_unlock_valid)
  show "lock_holder t m k = Some j \<Longrightarrow> now \<le> t \<Longrightarrow> lock_holder now m k = Some j" by (rule lock_holder_earlier)
  show "locks_valid now m \<Longrightarrow> try_lock ty u tid now m k j = (True, m') \<Longrightarrow>
      (\<forall>i. lock_holder now m k = Some i \<longrightarrow> i = j) \<and> lock_holder now m' k = Some j"
    using try_lock_cases [where now = now and m = m and key = k and job = j and ty = ty and u = u and tid = tid] by (auto split: option.splits)
  show "locks_valid now m \<Longrightarrow> lock_holder now m k = None \<Longrightarrow> fst (try_lock ty u tid now m k j)"
    using try_lock_cases [where now = now and m = m and key = k and job = j and ty = ty and u = u and tid = tid] by simp
  show "lock_holder t (snd (try_lock ty u tid now m k j)) k' = Some i"
    if "locks_valid now m" "now \<le> t" "lock_holder t m k' = Some i"
    using try_lock_cases [OF that(1), where key = k and job = j and ty = ty and u = u and tid = tid] lock_holder_earlier [OF that(3,2)] that(2,3)
    by (cases "k = k'") (auto split: option.splits)
  show "locks_valid now m \<Longrightarrow> lock_holder t m k' = Some i \<Longrightarrow> (k', i) \<noteq> (k, j) \<Longrightarrow>
      lock_holder t (snd (try_unlock m k j)) k' = Some i"
    by (auto simp: try_unlock_def releaseLock_def lock_holder_def jm.lookup_remove split: option.splits if_splits)
  show "locks_valid now m \<Longrightarrow> lock_holder t m k = Some j \<Longrightarrow>
      fst (try_unlock m k j) \<and> lock_holder t (snd (try_unlock m k j)) k = None"
    by (auto simp: try_unlock_def releaseLock_def lock_holder_def split: option.splits if_splits)
qed

text \<open>
  The task lock admits one job per task: once a job has acquired the lock of a task for the
  configured duration, every attempt of any job on that task fails until the lock runs out or the job
  releases it, whatever locks are taken and released on the way.
\<close>

theorem task_lock_exclusive:
  assumes "locks_valid now m" and "acquireTaskLock now u tid job None m = (Acquired l, m1)"
    and "clock_ok now (lock_expires_at l - 1) (ops @ [(t, Op_Acquire (buildTaskLockKey tid) job2)])"
    and "\<forall>s. (s, Op_Release (buildTaskLockKey tid) job) \<notin> set ops"
  shows "\<exists>until. fst (acquireTaskLock t u2 tid job2 None
     (exec_holds (try_lock (\<lambda>_. RL_Task) u tid) try_unlock ops m1)) = Conflict job until"
proof -
  let ?acq = "try_lock (\<lambda>_. RL_Task) u tid" and ?key = "buildTaskLockKey tid"
  let ?s = "exec_holds ?acq try_unlock ops m1"
  have m1: "?acq now m ?key job = (True, m1)"
    using assms(2) by (simp add: try_lock_def acquireTaskLock_def)
  then have v: "locks_valid now m1" using try_lock_valid [OF assms(1)] by (metis snd_conv)
  have k: "map_get (resourceLocks m1) ?key = Some l" "owner_job_id l = job"
    using assms(2) by (auto simp: acquireTaskLock_def acquireLock_def Let_def split: option.splits)
  have t: "clock_ok now t ops" "now \<le> t" "t \<le> lock_expires_at l - 1"
    using clock_ok_snoc [OF assms(3)] by simp_all
  have "lock_holder t m1 ?key = Some job"
    using t(3) k by (simp add: lock_holder_def lock_live_def)
  then have "lock_holder t ?s ?key = Some job"
    using cl.held_until_limit [OF v _ t(1) assms(4)] by blast
  moreover have "locks_valid t ?s"
    using cl.valid_exec [OF v t(1,2)] .
  ultimately show ?thesis
    by (auto simp: acquireTaskLock_def acquireLock_def Let_def cleanup_lookup locks_valid_def
        lock_holder_def split: option.splits if_splits)
qed

theorem task_lock_exclusive_witness:
  "\<exists>until. fst (acquireTaskLock 90000 ''u2'' ''t1'' ''job2'' None
     (exec_holds (try_lock (\<lambda>_. RL_Task) ''u1'' ''t1'') try_unlock [(5, Op_Release ''task:t1'' ''job2'')]
       (snd (acquireTaskLock 0 ''u1'' ''t1'' ''job1'' None (new_concurrency_manager DEFAULT_CONCURRENCY_CONFIG)))))
     = Conflict ''job1'' until"
  by (rule task_lock_exclusive [of 0 "new_concurrency_manager DEFAULT_CONCURRENCY_CONFIG" "''u1''" "''t1''" "''job1''"
        "\<lparr>lock_id = ''u1'', lock_resource_key = ''task:t1'', lock_resource_type = RL_Task, owner_job_id = ''job1'',
          owner_task_id = ''t1'', lock_acquired_at = 0, lock_expires_at = 300000\<rparr>"])
    (simp_all add: locks_valid_def new_concurrency_manager_def DEFAULT_CONCURRENCY_CONFIG_def lock_duration_def
      acquireTaskLock_def acquireLock_def Let_def cleanupExpiredLocks_def buildTaskLockKey_def)

subsection \<open>Capacity\<close>

text \<open>
  The use the dispatcher makes of the manager: a job that is not yet active starts after
  \<open>canAccept\<close> has accepted it, and a job completes under the worker it was started on.
\<close>

inductive admission :: "concurrency_manager \<Rightarrow> concurrency_manager \<Rightarrow> bool" where
  Admit: "canAccept m (ep_worker_id p) = None \<Longrightarrow> map_get (activeJobs m) (ep_job_id p) = None \<Longrightarrow>
    admission m (recordStart now p m)"
| Finish: "(\<forall>r. map_get (activeJobs m) job = Some r \<longrightarrow> jr_worker_id r = w) \<Longrightarrow>
    admission m (recordComplete job w m)"

definition jobs_of :: "concurrency_manager \<Rightarrow> string \<Rightarrow> string list" where
  "jobs_of m w = (case map_get (workerJobs m) w of Some js \<Rightarrow> js | None \<Rightarrow> [])"

definition admission_inv :: "concurrency_manager \<Rightarrow> bool" where
  "admission_inv m = (wf_map (activeJobs m) \<and> int (length (activeJobs m)) \<le> max_concurrent_global (cc_config m) \<and>
     (\<forall>w. distinct (jobs_of m w) \<and> int (length (jobs_of m w)) \<le> max_concurrent_per_worker (cc_config m)) \<and>
     (\<forall>w job. job \<in> set (jobs_of m w) \<longleftrightarrow> map_option jr_worker_id (map_get (activeJobs m) job) = Some w))"

lemma worker_active_jobs_of: "worker_active m w = int (length (jobs_of m w))"
  by (simp add: worker_active_def jobs_of_def split: option.split)

lemma jobs_of_start: "jobs_of (recordStart now p m) w =
    (if w = ep_worker_id p then set_add (jobs_of m w) (ep_job_id p) else jobs_of m w)"
  by (simp add: jobs_of_def recordStart_def Let_def)

lemma jobs_of_complete: "jobs_of (recordComplete job v m) w =
    (if w = v then removeAll job (jobs_of m w) else jobs_of m w)"
  by (simp add: jobs_of_def recordComplete_def split: option.split)

lemma config_frame [simp]: "cc_config (recordStart now p m) = cc_config m"
  "cc_config (recordComplete job w m) = cc_config m"
  by (simp_all add: recordStart_def recordComplete_def Let_def)

lemma admission_inv_start:
  assumes "admission_inv m" and "canAccept m (ep_worker_id p) = None"
    and "map_get (activeJobs m) (ep_job_id p) = None"
  shows "admission_inv (recordStart now p m)"
proof -
  have room: "int (length (activeJobs m)) < max_concurrent_global (cc_config m)"
    "int (length (jobs_of m (ep_worker_id p))) < max_concurrent_per_worker (cc_config m)"
    using assms(2) by (auto simp: canAccept_def worker_active_jobs_of split: if_splits)
  have act: "activeJobs (recordStart now p m) = activeJobs m @ [(ep_job_id p, \<lparr>jr_job_id = ep_job_id p,
      jr_worker_id = ep_worker_id p, jr_stage = ep_stage p, jr_started_at = now\<rparr>)]"
    by (simp add: recordStart_def Let_def map_set_fresh [OF assms(3)])
  have get: "map_option jr_worker_id (map_get (activeJobs (recordStart now p m)) job) =
      (if job = ep_job_id p then Some (ep_worker_id p) else map_option jr_worker_id (map_get (activeJobs m) job))" for job
    by (simp add: recordStart_def Let_def)
  have "wf_map (activeJobs (recordStart now p m))"
    using assms(1) by (simp add: recordStart_def Let_def admission_inv_def)
  moreover have "int (length (set_add (jobs_of m (ep_worker_id p)) (ep_job_id p))) \<le> max_concurrent_per_worker (cc_config m)"
    using room(2) by (simp add: set_add_def)
  ultimately show ?thesis
    using assms(1,3) room unfolding admission_inv_def get jobs_of_start
    by (auto simp: act)
qed

lemma admission_inv_complete:
  assumes "admission_inv m" and "\<forall>r. map_get (activeJobs m) job = Some r \<longrightarrow> jr_worker_id r = w"
  shows "admission_inv (recordComplete job w m)"
proof -
  have get: "map_get (activeJobs (recordComplete job w m)) j = (if j = job then None else map_get (activeJobs m) j)" for j
    by (simp add: recordComplete_def)
  have len: "length (activeJobs (recordComplete job w m)) \<le> length (activeJobs m)"
    by (simp add: recordComplete_def length_map_delete_le)
  have "wf_map (activeJobs (recordComplete job w m))"
    using assms(1) by (simp add: recordComplete_def admission_inv_def)
  moreover have "int (length (removeAll job (jobs_of m v))) \<le> max_concurrent_per_worker (cc_config m)" for v
    using assms(1) length_removeAll_less_eq [of job "jobs_of m v"] unfolding admission_inv_def
    by (meson of_nat_mono order_trans)
  ultimately show ?thesis
    using assms len unfolding admission_inv_def get jobs_of_complete
    by (auto simp: distinct_removeAll intro: order_trans [OF of_nat_mono])
qed

lemma admission_inv_step: "admission m m' \<Longrightarrow> admission_inv m \<Longrightarrow> admission_inv m'"
  by (induction rule: admission.induct) (auto intro: admission_inv_start admission_inv_complete)

lemma admission_config: "admission m m' \<Longrightarrow> cc_config m' = cc_config m"
  by (induction rule: admission.induct) simp_all

lemma admission_inv_run: "admission\<^sup>*\<^sup>* m m' \<Longrightarrow> admission_inv m \<Longrightarrow> admission_inv m' \<and> cc_config m' = cc_config m"
  by (induction rule: rtranclp_induct) (auto dest: admission_inv_step admission_config)

text \<open>
  C24. Whatever jobs are admitted and completed from an empty manager, the number of active jobs stays
  within the global limit, the number on each worker within the limit per worker, and the job sets of
  the workers are exactly the active jobs, each on the worker it was started on.
\<close>

theorem capacity_respected:
  assumes "admission\<^sup>*\<^sup>* (new_concurrency_manager cfg) m"
    and "0 \<le> max_concurrent_global cfg" and "0 \<le> max_concurrent_per_worker cfg"
  shows "gs_total_active_jobs (getGlobalStats m) \<le> max_concurrent_global cfg \<and>
    ws_active_jobs (getStats m w) \<le> max_concurrent_per_worker cfg \<and>
    (job \<in> set (jobs_of m w) \<longleftrightarrow> (\<exists>r. map_get (activeJobs m) job = Some r \<and> jr_worker_id r = w))"
proof -
  have "admission_inv (new_concurrency_manager cfg)"
    using assms(2,3) by (simp add: admission_inv_def new_concurrency_manager_def jobs_of_def)
  then have "admission_inv m \<and> cc_config m = cfg"
    using admission_inv_run [OF assms(1)] by (simp add: new_concurrency_manager_def)
  then show ?thesis
    by (auto simp: admission_inv_def getGlobalStats_def getStats_def worker_active_jobs_of)
qed

theorem capacity_respected_witness:
  "gs_total_active_jobs (getGlobalStats (recordStart 1 \<lparr>ep_job_id = ''j'', ep_worker_id = ''codex'', ep_stage = ''plan''\<rparr>
     (new_concurrency_manager DEFAULT_CONCURRENCY_CONFIG))) \<le> 200"
proof -
  have "admission (new_concurrency_manager DEFAULT_CONCURRENCY_CONFIG) (recordStart 1
      \<lparr>ep_job_id = ''j'', ep_worker_id = ''codex'', ep_stage = ''plan''\<rparr> (new_concurrency_manager DEFAULT_CONCURRENCY_CONFIG))"
    by (rule Admit) (simp_all add: canAccept_def worker_active_def new_concurrency_manager_def DEFAULT_CONCURRENCY_CONFIG_def)
  then show ?thesis
    using capacity_respected [OF r_into_rtranclp, of DEFAULT_CONCURRENCY_CONFIG]
    by (simp add: DEFAULT_CONCURRENCY_CONFIG_def)
qed

subsection \<open>Optimistic locking\<close>

fun attempts :: "string \<Rightarrow> (int \<times> int) list \<Rightarrow> concurrency_manager \<Rightarrow> bool list \<times> concurrency_manager" where
  "attempts tid [] m = ([], m)"
| "attempts tid ((e, n) # es) m = (case checkAndUpdateVersion tid e n m of
     (ok, m1) \<Rightarrow> case attempts tid es m1 of (oks, m2) \<Rightarrow> (ok # oks, m2))"

lemma checkAndUpdateVersion_fail: "getTaskVersion m tid = Some v \<Longrightarrow> v \<noteq> e \<Longrightarrow>
    checkAndUpdateVersion tid e n m = (False, m\<lparr>stateUpdateConflictCount := stateUpdateConflictCount m + 1\<rparr>)"
  by (simp add: checkAndUpdateVersion_def validateOptimisticLock_def getTaskVersion_def)

lemma checkAndUpdateVersion_ok: "getTaskVersion m tid \<in> {None, Some e} \<Longrightarrow>
    checkAndUpdateVersion tid e n m = (True, updateTaskVersion tid n m)"
  by (auto simp: checkAndUpdateVersion_def validateOptimisticLock_def getTaskVersion_def)

lemma attempts_stale:
  "getTaskVersion m tid = Some v \<Longrightarrow> \<forall>(e, n) \<in> set es. e \<noteq> v \<Longrightarrow>
    fst (attempts tid es m) = replicate (length es) False \<and>
    getTaskVersion (snd (attempts tid es m)) tid = Some v \<and>
    stateUpdateConflictCount (snd (attempts tid es m)) = stateUpdateConflictCount m + int (length es)"
proof (induction es arbitrary: m)
  case (Cons p es)
  obtain e n where p: "p = (e, n)" by (cases p)
  let ?m = "m\<lparr>stateUpdateConflictCount := stateUpdateConflictCount m + 1\<rparr>"
  have "checkAndUpdateVersion tid e n m = (False, ?m)"
    using Cons.prems p by (intro checkAndUpdateVersion_fail) auto
  moreover have "getTaskVersion ?m tid = Some v"
    using Cons.prems by (simp add: getTaskVersion_def)
  ultimately show ?case
    using Cons.IH [of ?m] Cons.prems(2) p by (auto simp: case_prod_beta)
qed simp

text \<open>
  Of any number of updates of one task that all read the same version, exactly the first one
  succeeds, its new version is the one kept, and every other one is counted as a conflict.
\<close>

theorem optimistic_single_winner:
  assumes "getTaskVersion m tid = Some v" and "n \<noteq> v" and "\<forall>(e, k) \<in> set es. e = v"
  shows "fst (attempts tid ((v, n) # es) m) = True # replicate (length es) False \<and>
    getTaskVersion (snd (attempts tid ((v, n) # es) m)) tid = Some n \<and>
    stateUpdateConflictCount (snd (attempts tid ((v, n) # es) m)) = stateUpdateConflictCount m + int (length es)"
proof -
  let ?m = "updateTaskVersion tid n m"
  have "checkAndUpdateVersion tid v n m = (True, ?m)"
    using assms(1) by (intro checkAndUpdateVersion_ok) simp
  moreover have "getTaskVersion ?m tid = Some n" "stateUpdateConflictCount ?m = stateUpdateConflictCount m"
    by (simp_all add: getTaskVersion_def updateTaskVersion_def)
  moreover have "\<forall>(e, k) \<in> set es. e \<noteq> n"
    using assms(2,3) by auto
  ultimately show ?thesis
    using attempts_stale [of ?m tid n es] by (simp add: case_prod_beta)
qed

theorem optimistic_single_winner_witness:
  "fst (attempts ''t'' [(1, 2), (1, 5), (1, 9)]
     (setTaskVersion ''t'' 1 (new_concurrency_manager DEFAULT_CONCURRENCY_CONFIG))) = [True, False, False]"
  using optimistic_single_winner [of "setTaskVersion ''t'' 1 (new_concurrency_manager DEFAULT_CONCURRENCY_CONFIG)"
      "''t''" 1 2 "[(1, 5), (1, 9)]"]
  by (simp add: getTaskVersion_def setTaskVersion_def numeral_2_eq_2)

subsection \<open>Queues are first in, first out\<close>

fun enqueue_all :: "time \<Rightarrow> enqueue_params list \<Rightarrow> concurrency_manager \<Rightarrow> concurrency_manager" where
  "enqueue_all now [] m = m"
| "enqueue_all now (p # ps) m = enqueue_all now ps (enqueue now p m)"

fun drain :: "nat \<Rightarrow> string \<Rightarrow> concurrency_manager \<Rightarrow> enqueue_params option list" where
  "drain 0 w m = []"
| "drain (Suc n) w m = (case dequeue w m of (r, m') \<Rightarrow> r # drain n w m')"

lemma queue_of_enqueue: "queue_of (enqueue now p m) w =
    (if w = ep_worker_id p then queue_of m w @ [(p, now)] else queue_of m w)"
  by (simp add: queue_of_def enqueue_def)

lemma queue_of_enqueue_all: "queue_of (enqueue_all now ps m) w =
    queue_of m w @ map (\<lambda>p. (p, now)) (filter (\<lambda>p. ep_worker_id p = w) ps)"
  by (induction ps arbitrary: m) (auto simp: queue_of_enqueue)

lemma dequeue_queue_of: "dequeue w m = (case queue_of m w of
    [] \<Rightarrow> (None, m) | (p, t) # q \<Rightarrow> (Some p, m\<lparr>jobQueue := map_set (jobQueue m) w q\<rparr>))"
  by (simp add: dequeue_def queue_of_def split: option.split list.split)

lemma queue_of_set [simp]: "queue_of (m\<lparr>jobQueue := map_set (jobQueue m) w q\<rparr>) w = q"
  by (simp add: queue_of_def)

lemma drain_queue: "drain (length (queue_of m w) + k) w m = map (Some \<circ> fst) (queue_of m w) @ replicate k None"
proof (induction "queue_of m w" arbitrary: m)
  case Nil
  then have "dequeue w m = (None, m)" by (simp add: dequeue_queue_of)
  then have "drain k w m = replicate k None" by (induction k) auto
  with Nil show ?case by (metis append_Nil length_0_conv list.simps(8) plus_nat.add_0)
next
  case (Cons e q)
  let ?m = "m\<lparr>jobQueue := map_set (jobQueue m) w q\<rparr>"
  have d: "dequeue w m = (Some (fst e), ?m)"
    using Cons.hyps(2) by (cases e) (simp add: dequeue_queue_of flip: Cons.hyps(2))
  show ?case
    using Cons.hyps(1) [of ?m] by (simp add: d flip: Cons.hyps(2))
qed

text \<open>
  The waiting queue of a worker is first in, first out: after any enqueueing, taking jobs off it
  returns first what was waiting before and then exactly the jobs enqueued for this worker, in the
  order of their enqueueing, and nothing after that.
\<close>

theorem queue_fifo:
  "drain (length (queue_of m w) + length (filter (\<lambda>p. ep_worker_id p = w) ps) + k) w (enqueue_all now ps m) =
     map (Some \<circ> fst) (queue_of m w) @ map Some (filter (\<lambda>p. ep_worker_id p = w) ps) @ replicate k None"
  using drain_queue [of "enqueue_all now ps m" w k]
  by (simp add: queue_of_enqueue_all comp_def)

end
