(* ===== verification/Doom_Loop.thy ===== *)
theory Doom_Loop
  imports Worker_Policy
begin

text \<open>
  \<open>src/src/domain/doom-loop\<close>: detection of jobs that go round in circles, by the states a job visits
  (\<open>detectLoop\<close>) and by fingerprints of dispatched jobs in a sliding window (\<open>checkLoop\<close>). The hash
  function \<open>sha256\<close> (hexadecimal digest of a text) is a parameter. State names are not array indices,
  so \<open>Object.entries\<close> lists them in insertion order.
\<close>

record doom_loop_config =
  max_repeats :: int
  window_minutes :: int
  cooldown_minutes :: int

record fingerprint_config =
  loop_window_size :: int
  loop_warn_threshold :: int
  loop_block_threshold :: int

datatype loop_action = LA_None | LA_Warn | LA_Block

record loop_check_result =
  lc_fingerprint :: string
  occurrence_count :: int
  window_size :: int
  lc_action :: loop_action

record transition_record =
  tr_from_state :: string
  tr_to_state :: string
  tr_stage :: string
  tr_timestamp :: time

datatype loop_type = Simple | Complex | State_Repeat

record loop_detection =
  loop_type :: loop_type
  loop_states :: "string list"
  repeat_count :: "int option"
  detected_at :: time

datatype recommended = Rec_Continue | Rec_Escalate string | Rec_Block string

record loop_stats =
  ls_detected :: bool
  ls_loop_type :: "loop_type option"
  state_visit_counts :: "(string, int) jsmap"

record fingerprint_entry =
  fe_fingerprint :: string
  fe_stage :: string
  fe_task_id :: string
  fe_job_id :: string
  fe_timestamp :: time

record doom_loop_detector =
  dl_config :: doom_loop_config
  fp_config :: fingerprint_config
  transitionHistory :: "(string, transition_record list) jsmap"
  loopResults :: "(string, loop_detection) jsmap"
  cooldownStart :: "(string, time) jsmap"
  fingerprintHistory :: "fingerprint_entry list"
  warningIssued :: "string list"
  blockedFingerprints :: "string list"

definition DEFAULT_DOOM_LOOP_CONFIG :: doom_loop_config where
  "DEFAULT_DOOM_LOOP_CONFIG = \<lparr>max_repeats = 3, window_minutes = 30, cooldown_minutes = 5\<rparr>"

definition DEFAULT_LOOP_FINGERPRINT_CONFIG :: fingerprint_config where
  "DEFAULT_LOOP_FINGERPRINT_CONFIG = \<lparr>loop_window_size = 20, loop_warn_threshold = 3, loop_block_threshold = 4\<rparr>"

definition new_doom_loop_detector :: "doom_loop_config \<Rightarrow> fingerprint_config \<Rightarrow> doom_loop_detector" where
  "new_doom_loop_detector c f = \<lparr>dl_config = c, fp_config = f, transitionHistory = [], loopResults = [],
     cooldownStart = [], fingerprintHistory = [], warningIssued = [], blockedFingerprints = []\<rparr>"

subsection \<open>Fingerprints\<close>

function collapse_whitespace :: "string \<Rightarrow> string" where
  "collapse_whitespace [] = []"
| "collapse_whitespace (c # cs) =
     (if js_whitespace c then CHR '' '' # collapse_whitespace (dropWhile js_whitespace cs)
      else c # collapse_whitespace cs)"
  by pat_completeness auto
termination
  by (relation "measure length") (simp_all add: le_imp_less_Suc length_dropWhile_le)

definition normalize_prompt :: "string \<Rightarrow> string" where
  "normalize_prompt p = collapse_whitespace (to_lower (js_trim p))"

definition hashPrompt :: "(string \<Rightarrow> string) \<Rightarrow> string \<Rightarrow> string" where
  "hashPrompt sha256 p = take 16 (sha256 (normalize_prompt p))"

definition repoRefToString :: "repo_ref \<Rightarrow> string" where
  "repoRefToString r = ''github:'' @ owner r @ ''/'' @ repo_name r"

definition generateFingerprint :: "(string \<Rightarrow> string) \<Rightarrow> worker_job \<Rightarrow> string" where
  "generateFingerprint sha256 job = take 32 (sha256 (js_join ''|''
     [''stage:'' @ stage_name (job_stage job), ''worker:'' @ worker_name (job_worker_type job),
      ''prompt:'' @ hashPrompt sha256 (input_prompt job), ''repo:'' @ repoRefToString (job_repo_ref job),
      ''typed:'' @ job_typed_ref job]))"

definition generateFingerprintFromComponents :: "(string \<Rightarrow> string) \<Rightarrow> string \<Rightarrow> string \<Rightarrow> string \<Rightarrow> repo_ref \<Rightarrow>
    string \<Rightarrow> string option \<Rightarrow> string" where
  "generateFingerprintFromComponents sha256 stage workerType prompt repo typedRef target =
     take 32 (sha256 (js_join ''|''
       ([''stage:'' @ stage, ''worker:'' @ workerType, ''prompt:'' @ hashPrompt sha256 prompt,
         ''repo:'' @ repoRefToString repo, ''typed:'' @ typedRef] @
        (if falsy target then [] else [''resource:'' @ the target]))))"

lemma fingerprint_from_components:
  "generateFingerprintFromComponents sha256 (stage_name (job_stage job)) (worker_name (job_worker_type job))
     (input_prompt job) (job_repo_ref job) (job_typed_ref job) None = generateFingerprint sha256 job"
  by (simp add: generateFingerprintFromComponents_def generateFingerprint_def)

subsection \<open>Loops in the states a job visits\<close>

definition trackTransition :: "time \<Rightarrow> string \<Rightarrow> string \<Rightarrow> string \<Rightarrow> string \<Rightarrow> doom_loop_detector \<Rightarrow> doom_loop_detector" where
  "trackTransition now job from to stage d =
     d\<lparr>transitionHistory := map_set (transitionHistory d) job
        ((case map_get (transitionHistory d) job of Some h \<Rightarrow> h | None \<Rightarrow> []) @
         [\<lparr>tr_from_state = from, tr_to_state = to, tr_stage = stage, tr_timestamp = now\<rparr>])\<rparr>"

definition getTransitionHistory :: "doom_loop_detector \<Rightarrow> string \<Rightarrow> transition_record list" where
  "getTransitionHistory d job = (case map_get (transitionHistory d) job of Some h \<Rightarrow> h | None \<Rightarrow> [])"

definition count_visit :: "(string, int) jsmap \<Rightarrow> string \<Rightarrow> (string, int) jsmap" where
  "count_visit m s = map_set m s ((case map_get m s of Some n \<Rightarrow> n | None \<Rightarrow> 0) + 1)"

definition state_visits :: "string list \<Rightarrow> (string, int) jsmap" where
  "state_visits ss = foldl count_visit [] ss"

definition state_sequence :: "transition_record list \<Rightarrow> string list" where
  "state_sequence h = (case h of [] \<Rightarrow> [] | r # _ \<Rightarrow> tr_from_state r # map tr_to_state h)"

fun unique :: "'a list \<Rightarrow> 'a list" where
  "unique [] = []"
| "unique (x # xs) = x # filter (\<lambda>y. y \<noteq> x) (unique xs)"

definition positions :: "string list \<Rightarrow> string \<Rightarrow> nat list" where
  "positions sq s = filter (\<lambda>i. sq ! i = s) [0..<length sq]"

definition detectComplexLoop :: "string list \<Rightarrow> string list option" where
  "detectComplexLoop sq =
     (if length sq < 5 then None
      else let ps = positions sq (sq ! 0) in
        if length ps \<ge> 2 \<and> last ps - hd ps \<ge> 3
        then Some (take (last ps - hd ps) (drop (hd ps) sq)) else None)"

definition found_loop :: "time \<Rightarrow> string \<Rightarrow> loop_type \<Rightarrow> string list \<Rightarrow> int option \<Rightarrow> doom_loop_detector
    \<Rightarrow> loop_detection option \<times> doom_loop_detector" where
  "found_loop now job ty ss n d =
     (let r = \<lparr>loop_type = ty, loop_states = ss, repeat_count = n, detected_at = now\<rparr> in
      (Some r, d\<lparr>loopResults := map_set (loopResults d) job r, cooldownStart := map_set (cooldownStart d) job now\<rparr>))"

definition detectLoop :: "time \<Rightarrow> string \<Rightarrow> doom_loop_detector \<Rightarrow> loop_detection option \<times> doom_loop_detector" where
  "detectLoop now job d =
     (let h = getTransitionHistory d job; sq = state_sequence h in
      if length h < 2 then (None, d)
      else case find (\<lambda>(_, n). n > max_repeats (dl_config d)) (state_visits sq) of
          Some (s, n) \<Rightarrow> found_loop now job State_Repeat [s] (Some n) d
        | None \<Rightarrow>
           if length (unique sq) = 2 \<and> length sq \<ge> 3 then found_loop now job Simple (unique sq) None d
           else case detectComplexLoop sq of
               Some ss \<Rightarrow> found_loop now job Complex ss None d
             | None \<Rightarrow> (None, d))"

definition isInCooldown :: "time \<Rightarrow> doom_loop_detector \<Rightarrow> string \<Rightarrow> bool" where
  "isInCooldown now d job = (case map_get (cooldownStart d) job of
     None \<Rightarrow> False | Some t \<Rightarrow> now - t < cooldown_minutes (dl_config d) * 60 * 1000)"

definition getRecommendedAction :: "time \<Rightarrow> string \<Rightarrow> doom_loop_detector \<Rightarrow> recommended \<times> doom_loop_detector" where
  "getRecommendedAction now job d = (case map_get (loopResults d) job of
       None \<Rightarrow> (Rec_Continue, d)
     | Some l \<Rightarrow>
        (case loop_type l of
           Simple \<Rightarrow> Rec_Escalate (''Simple loop detected between states: '' @ js_join '' <-> '' (loop_states l))
         | Complex \<Rightarrow> Rec_Escalate (''Complex loop detected: '' @ js_join '' -> '' (loop_states l) @ '' -> ...'')
         | State_Repeat \<Rightarrow> Rec_Block (''State '' @ [CHR 0x27] @ loop_states l ! 0 @ [CHR 0x27] @ '' visited '' @
             (case repeat_count l of Some n \<Rightarrow> show_int n | None \<Rightarrow> ''undefined'') @ '' times, exceeding threshold of '' @
             show_int (max_repeats (dl_config d))),
         if isInCooldown now d job then d else d\<lparr>cooldownStart := map_set (cooldownStart d) job now\<rparr>))"

definition clearHistory :: "string \<Rightarrow> doom_loop_detector \<Rightarrow> doom_loop_detector" where
  "clearHistory job d = d\<lparr>transitionHistory := map_delete (transitionHistory d) job,
     loopResults := map_delete (loopResults d) job, cooldownStart := map_delete (cooldownStart d) job\<rparr>"

definition getLoopStats :: "doom_loop_detector \<Rightarrow> string \<Rightarrow> loop_stats" where
  "getLoopStats d job = \<lparr>ls_detected = map_has (loopResults d) job,
     ls_loop_type = map_option loop_type (map_get (loopResults d) job),
     state_visit_counts = state_visits (map tr_to_state (getTransitionHistory d job))\<rparr>"

subsection \<open>Fingerprints in a sliding window\<close>

definition occurrences :: "fingerprint_entry list \<Rightarrow> string \<Rightarrow> string \<Rightarrow> int" where
  "occurrences h fp stage = int (length (filter (\<lambda>e. fe_fingerprint e = fp \<and> fe_stage e = stage) h))"

definition push_trim :: "int \<Rightarrow> 'a list \<Rightarrow> 'a \<Rightarrow> 'a list" where
  "push_trim w h e = (let h' = h @ [e] in
     if int (length h') > w then drop (nat (int (length h') - w)) h' else h')"

definition checkLoop :: "time \<Rightarrow> string \<Rightarrow> string \<Rightarrow> string \<Rightarrow> string \<Rightarrow> doom_loop_detector
    \<Rightarrow> loop_check_result \<times> doom_loop_detector" where
  "checkLoop now stage fp tid job d =
     (let w = loop_window_size (fp_config d);
          h = push_trim w (fingerprintHistory d) \<lparr>fe_fingerprint = fp, fe_stage = stage, fe_task_id = tid,
            fe_job_id = job, fe_timestamp = now\<rparr>;
          n = occurrences h fp stage;
          res = (\<lambda>a. \<lparr>lc_fingerprint = fp, occurrence_count = n, window_size = w, lc_action = a\<rparr>);
          d1 = d\<lparr>fingerprintHistory := h\<rparr>
      in if fp \<in> set (blockedFingerprints d) then (res LA_Block, d1)
         else if n \<ge> loop_block_threshold (fp_config d)
           then (res LA_Block, d1\<lparr>blockedFingerprints := set_add (blockedFingerprints d) fp\<rparr>)
         else if n \<ge> loop_warn_threshold (fp_config d) \<and> fp \<notin> set (warningIssued d)
           then (res LA_Warn, d1\<lparr>warningIssued := set_add (warningIssued d) fp\<rparr>)
         else (res LA_None, d1))"

definition recordAndCheckFingerprint :: "(string \<Rightarrow> string) \<Rightarrow> time \<Rightarrow> worker_job \<Rightarrow> doom_loop_detector
    \<Rightarrow> loop_check_result \<times> doom_loop_detector" where
  "recordAndCheckFingerprint sha256 now job d =
     checkLoop now (stage_name (job_stage job)) (generateFingerprint sha256 job) (job_task_id job) (job_id job) d"

definition isFingerprintBlocked :: "doom_loop_detector \<Rightarrow> string \<Rightarrow> bool" where
  "isFingerprintBlocked d fp = (fp \<in> set (blockedFingerprints d))"

definition hasWarningBeenIssued :: "doom_loop_detector \<Rightarrow> string \<Rightarrow> bool" where
  "hasWarningBeenIssued d fp = (fp \<in> set (warningIssued d))"

definition getFingerprintHistoryForStage :: "doom_loop_detector \<Rightarrow> string \<Rightarrow> fingerprint_entry list" where
  "getFingerprintHistoryForStage d stage = filter (\<lambda>e. fe_stage e = stage) (fingerprintHistory d)"

definition getFingerprintOccurrenceCount :: "doom_loop_detector \<Rightarrow> string \<Rightarrow> string \<Rightarrow> int" where
  "getFingerprintOccurrenceCount d fp stage = occurrences (fingerprintHistory d) fp stage"

definition clearFingerprintState :: "string \<Rightarrow> doom_loop_detector \<Rightarrow> doom_loop_detector" where
  "clearFingerprintState fp d = d\<lparr>blockedFingerprints := removeAll fp (blockedFingerprints d),
     warningIssued := removeAll fp (warningIssued d)\<rparr>"

definition clearAllFingerprintState :: "doom_loop_detector \<Rightarrow> doom_loop_detector" where
  "clearAllFingerprintState d = d\<lparr>fingerprintHistory := [], warningIssued := [], blockedFingerprints := []\<rparr>"

subsection \<open>What the window decides\<close>

definition check_entry :: "fingerprint_entry \<Rightarrow> doom_loop_detector \<Rightarrow> loop_check_result \<times> doom_loop_detector" where
  "check_entry e d = checkLoop (fe_timestamp e) (fe_stage e) (fe_fingerprint e) (fe_task_id e) (fe_job_id e) d"

fun check_all :: "fingerprint_entry list \<Rightarrow> doom_loop_detector \<Rightarrow> loop_check_result list \<times> doom_loop_detector" where
  "check_all [] d = ([], d)"
| "check_all (e # es) d = (case check_entry e d of (r, d1) \<Rightarrow> case check_all es d1 of (rs, d2) \<Rightarrow> (r # rs, d2))"

definition recent :: "int \<Rightarrow> 'a list \<Rightarrow> 'a list" where
  "recent w es = drop (length es - nat w) es"

definition reached :: "fingerprint_config \<Rightarrow> fingerprint_entry list \<Rightarrow> nat \<Rightarrow> bool" where
  "reached f es k = (occurrences (recent (loop_window_size f) (take (Suc k) es)) (fe_fingerprint (es ! k)) (fe_stage (es ! k))
     \<ge> loop_block_threshold f)"

lemma entry_eta [simp]: "\<lparr>fe_fingerprint = fe_fingerprint e, fe_stage = fe_stage e, fe_task_id = fe_task_id e,
    fe_job_id = fe_job_id e, fe_timestamp = fe_timestamp e\<rparr> = e"
  by (cases e) simp

lemma check_all_append: "snd (check_all (es @ [e]) d) = snd (check_entry e (snd (check_all es d)))"
  by (induction es arbitrary: d) (simp_all add: case_prod_beta)

lemma push_trim_recent:
  assumes "0 \<le> w"
  shows "push_trim w (recent w es) e = recent w (es @ [e])"
proof -
  obtain k where w: "w = int k" using assms nonneg_int_cases by blast
  show ?thesis
  proof (cases "length es < k")
    case False
    then have "drop (Suc 0) (drop (length es - k) es @ [e]) = drop (Suc (length es) - k) (es @ [e])"
      by (simp add: Suc_diff_le)
    with w False show ?thesis by (simp add: push_trim_def Let_def recent_def)
  qed (simp add: w push_trim_def Let_def recent_def)
qed

lemma check_entry_frame:
  "fp_config (snd (check_entry e d)) = fp_config d"
  "fingerprintHistory (snd (check_entry e d)) = push_trim (loop_window_size (fp_config d)) (fingerprintHistory d) e"
  by (simp_all add: check_entry_def checkLoop_def Let_def)

lemma check_entry_block: "lc_action (fst (check_entry e d)) = LA_Block \<longleftrightarrow>
    fe_fingerprint e \<in> set (blockedFingerprints (snd (check_entry e d)))"
  by (simp add: check_entry_def checkLoop_def Let_def)

lemma check_entry_blocked: "set (blockedFingerprints (snd (check_entry e d))) = set (blockedFingerprints d) \<union>
    (if occurrences (push_trim (loop_window_size (fp_config d)) (fingerprintHistory d) e) (fe_fingerprint e) (fe_stage e)
        \<ge> loop_block_threshold (fp_config d) then {fe_fingerprint e} else {})"
  by (auto simp: check_entry_def checkLoop_def Let_def)

lemma check_all_state:
  assumes "0 \<le> loop_window_size f"
  shows "fp_config (snd (check_all es (new_doom_loop_detector c f))) = f \<and>
    fingerprintHistory (snd (check_all es (new_doom_loop_detector c f))) = recent (loop_window_size f) es \<and>
    set (blockedFingerprints (snd (check_all es (new_doom_loop_detector c f)))) =
      {fp. \<exists>k < length es. fe_fingerprint (es ! k) = fp \<and> reached f es k}"
proof (induction es rule: rev_induct)
  case Nil
  show ?case by (simp add: new_doom_loop_detector_def recent_def)
next
  case (snoc e es)
  have same: "reached f (es @ [e]) k = reached f es k \<and> (es @ [e]) ! k = es ! k" if "k < length es" for k
    using that by (simp add: reached_def nth_append)
  have old: "(\<exists>k < length (es @ [e]). fe_fingerprint ((es @ [e]) ! k) = fp \<and> reached f (es @ [e]) k) \<longleftrightarrow>
      (\<exists>k < length es. fe_fingerprint (es ! k) = fp \<and> reached f es k) \<or>
      fe_fingerprint e = fp \<and> reached f (es @ [e]) (length es)" for fp
    using same by (simp add: Ex_less_Suc disj_commute cong: conj_cong)
  have now: "reached f (es @ [e]) (length es) \<longleftrightarrow> loop_block_threshold f \<le>
      occurrences (push_trim (loop_window_size f) (recent (loop_window_size f) es) e) (fe_fingerprint e) (fe_stage e)"
    by (simp add: reached_def push_trim_recent [OF assms])
  let ?d = "snd (check_all es (new_doom_loop_detector c f))"
  have f: "fp_config ?d = f" and h: "fingerprintHistory ?d = recent (loop_window_size f) es"
    and b: "set (blockedFingerprints ?d) = {fp. \<exists>k < length es. fe_fingerprint (es ! k) = fp \<and> reached f es k}"
    using snoc by simp_all
  have "set (blockedFingerprints (snd (check_entry e ?d))) =
      {fp. \<exists>k < length (es @ [e]). fe_fingerprint ((es @ [e]) ! k) = fp \<and> reached f (es @ [e]) k}"
    unfolding check_entry_blocked f h b old now by (simp add: set_eq_iff) blast
  then show ?case
    unfolding check_all_append check_entry_frame f h push_trim_recent [OF assms] by simp
qed

text \<open>
  A check answers block exactly when this fingerprint has, now or at an earlier check, filled the
  window: among the last window-many checks up to that point, at least the block threshold carried its
  fingerprint and the stage of that check. The history kept is exactly these last checks.
\<close>

theorem loop_block_iff:
  assumes "0 \<le> loop_window_size f"
  shows "(lc_action (fst (check_entry e (snd (check_all es (new_doom_loop_detector c f))))) = LA_Block \<longleftrightarrow>
      (\<exists>k \<le> length es. fe_fingerprint ((es @ [e]) ! k) = fe_fingerprint e \<and> reached f (es @ [e]) k)) \<and>
    fingerprintHistory (snd (check_all es (new_doom_loop_detector c f))) = recent (loop_window_size f) es"
  using check_all_state [OF assms, of "es @ [e]" c] check_all_state [OF assms, of es c]
  unfolding check_entry_block check_all_append by (auto simp: less_Suc_eq_le)

theorem loop_block_iff_witness:
  "fingerprintHistory (snd (check_all [\<lparr>fe_fingerprint = ''f'', fe_stage = ''dev'', fe_task_id = ''t'', fe_job_id = ''j'',
     fe_timestamp = 0\<rparr>] (new_doom_loop_detector DEFAULT_DOOM_LOOP_CONFIG DEFAULT_LOOP_FINGERPRINT_CONFIG)))
   = [\<lparr>fe_fingerprint = ''f'', fe_stage = ''dev'', fe_task_id = ''t'', fe_job_id = ''j'', fe_timestamp = 0\<rparr>]"
  using loop_block_iff [of DEFAULT_LOOP_FINGERPRINT_CONFIG _ "[\<lparr>fe_fingerprint = ''f'', fe_stage = ''dev'', fe_task_id = ''t'',
      fe_job_id = ''j'', fe_timestamp = 0\<rparr>]" DEFAULT_DOOM_LOOP_CONFIG]
  by (simp add: DEFAULT_LOOP_FINGERPRINT_CONFIG_def recent_def)

lemma check_entry_fingerprint [simp]: "lc_fingerprint (fst (check_entry e d)) = fe_fingerprint e"
  by (simp add: check_entry_def checkLoop_def Let_def)

lemma check_entry_keeps_blocked: "fp \<in> set (blockedFingerprints d) \<Longrightarrow> fp \<in> set (blockedFingerprints (snd (check_entry e d)))"
  by (simp add: check_entry_blocked)

lemma check_entry_keeps_warned: "fp \<in> set (warningIssued d) \<Longrightarrow> fp \<in> set (warningIssued (snd (check_entry e d)))"
  by (simp add: check_entry_def checkLoop_def Let_def)

lemma check_entry_warn: "lc_action (fst (check_entry e d)) = LA_Warn \<Longrightarrow>
    fe_fingerprint e \<notin> set (warningIssued d) \<and> fe_fingerprint e \<in> set (warningIssued (snd (check_entry e d)))"
  by (auto simp: check_entry_def checkLoop_def Let_def split: if_splits)

definition warnings :: "string \<Rightarrow> loop_check_result list \<Rightarrow> loop_check_result list" where
  "warnings fp rs = filter (\<lambda>r. lc_fingerprint r = fp \<and> lc_action r = LA_Warn) rs"

lemma warnings_warned: "fp \<in> set (warningIssued d) \<Longrightarrow> warnings fp (fst (check_all es d)) = []"
proof (induction es arbitrary: d)
  case (Cons e es)
  then show ?case
    using check_entry_warn [of e d] check_entry_keeps_warned [of fp d e]
    by (auto simp: warnings_def case_prod_beta)
qed (simp add: warnings_def)

text \<open>
  From any state of the detector: once a fingerprint is blocked, every later check of it answers
  block, whatever is checked in between, and it stays blocked; and a fingerprint is warned about at
  most once.
\<close>

theorem block_sticky_warn_once:
  "(isFingerprintBlocked d fp \<longrightarrow>
     (\<forall>r \<in> set (fst (check_all es d)). lc_fingerprint r = fp \<longrightarrow> lc_action r = LA_Block) \<and>
     isFingerprintBlocked (snd (check_all es d)) fp) \<and>
   length (filter (\<lambda>r. lc_fingerprint r = fp \<and> lc_action r = LA_Warn) (fst (check_all es d))) \<le> 1"
proof (induction es arbitrary: d)
  case (Cons e es)
  let ?d = "snd (check_entry e d)"
  have "length (warnings fp (fst (check_all (e # es) d))) \<le> 1"
  proof (cases "fe_fingerprint e = fp \<and> lc_action (fst (check_entry e d)) = LA_Warn")
    case True
    then have "warnings fp (fst (check_all es ?d)) = []"
      using check_entry_warn [of e d] by (intro warnings_warned) auto
    with True show ?thesis by (simp add: warnings_def case_prod_beta)
  next
    case False
    with Cons.IH [of ?d] show ?thesis by (auto simp: warnings_def case_prod_beta)
  qed
  moreover have "isFingerprintBlocked d fp \<longrightarrow> isFingerprintBlocked ?d fp"
    by (simp add: isFingerprintBlocked_def check_entry_keeps_blocked)
  moreover have "isFingerprintBlocked d fp \<longrightarrow> fe_fingerprint e = fp \<longrightarrow> lc_action (fst (check_entry e d)) = LA_Block"
    by (auto simp: isFingerprintBlocked_def check_entry_block check_entry_keeps_blocked)
  ultimately show ?case
    using Cons.IH [of ?d] by (auto simp: warnings_def case_prod_beta)
qed simp

theorem block_sticky_warn_once_witness:
  "isFingerprintBlocked (snd (check_all [\<lparr>fe_fingerprint = ''g'', fe_stage = ''dev'', fe_task_id = ''t'', fe_job_id = ''j'',
       fe_timestamp = 0\<rparr>] ((new_doom_loop_detector DEFAULT_DOOM_LOOP_CONFIG DEFAULT_LOOP_FINGERPRINT_CONFIG)
         \<lparr>blockedFingerprints := [''f'']\<rparr>))) ''f''"
  using block_sticky_warn_once [of "(new_doom_loop_detector DEFAULT_DOOM_LOOP_CONFIG DEFAULT_LOOP_FINGERPRINT_CONFIG)
         \<lparr>blockedFingerprints := [''f'']\<rparr>" "''f''" "[\<lparr>fe_fingerprint = ''g'', fe_stage = ''dev'', fe_task_id = ''t'',
         fe_job_id = ''j'', fe_timestamp = 0\<rparr>]"]
  by (simp add: isFingerprintBlocked_def)

subsection \<open>What the transition history decides\<close>

lemma state_visits_snoc: "state_visits (ss @ [s]) = count_visit (state_visits ss) s"
  by (simp add: state_visits_def)

lemma state_visits_count: "wf_map (state_visits ss) \<and>
    map_get (state_visits ss) s = (if s \<in> set ss then Some (int (count_list ss s)) else None)"
proof (induction ss rule: rev_induct)
  case (snoc t ss)
  then show ?case
    by (auto simp: state_visits_snoc count_visit_def jm.lookup_store count_list_0_iff)
qed (simp add: state_visits_def)

lemma find_visits:
  "find (\<lambda>(_, n). n > m) (state_visits ss) = None \<longleftrightarrow> (\<forall>s \<in> set ss. int (count_list ss s) \<le> m)"
  "find (\<lambda>(_, n). n > m) (state_visits ss) = Some (s, n) \<Longrightarrow> s \<in> set ss \<and> n = int (count_list ss s) \<and> n > m"
proof -
  have wf: "wf_map (state_visits ss)" using state_visits_count by blast
  have iff: "(s, n) \<in> set (state_visits ss) \<longleftrightarrow> s \<in> set ss \<and> n = int (count_list ss s)" for s n
    unfolding jm.lookup_entries [OF wf, symmetric] using state_visits_count [of ss s] by auto
  show "find (\<lambda>(_, n). n > m) (state_visits ss) = None \<longleftrightarrow> (\<forall>s \<in> set ss. int (count_list ss s) \<le> m)"
    by (auto simp: find_None_iff iff)
  assume "find (\<lambda>(_, n). n > m) (state_visits ss) = Some (s, n)"
  then have "(s, n) \<in> set (state_visits ss) \<and> n > m"
    by (auto simp: find_Some_iff dest: nth_mem)
  then show "s \<in> set ss \<and> n = int (count_list ss s) \<and> n > m"
    by (simp add: iff)
qed

lemma length_unique: "length (unique xs) = card (set xs)"
proof -
  have "set (unique xs) = set xs" for xs :: "'a list" by (induction xs) auto
  moreover have "distinct (unique xs)" by (induction xs) auto
  ultimately show ?thesis by (metis distinct_card)
qed

lemma complex_loop_iff: "detectComplexLoop sq \<noteq> None \<longleftrightarrow>
    5 \<le> length sq \<and> (\<exists>i \<ge> 3. i < length sq \<and> sq ! i = sq ! 0)"
proof (cases "length sq < 5")
  case False
  let ?ps = "positions sq (sq ! 0)"
  have ps: "i \<in> set ?ps \<longleftrightarrow> i < length sq \<and> sq ! i = sq ! 0" for i
    by (auto simp: positions_def)
  have srt: "sorted ?ps" by (simp add: positions_def sorted_wrt_filter)
  have hd0: "?ps \<noteq> [] \<and> hd ?ps = 0"
    using False by (cases "length sq") (auto simp: positions_def upt_conv_Cons simp del: upt_Suc)
  have lst: "i \<le> last ?ps" if "i \<in> set ?ps" for i
  proof -
    have "i \<in> set (butlast ?ps @ [last ?ps])" "sorted (butlast ?ps @ [last ?ps])"
      using that srt hd0 by simp_all
    then show ?thesis by (auto simp: sorted_append simp del: append_butlast_last_id)
  qed
  have len: "last ?ps \<noteq> 0 \<Longrightarrow> length ?ps \<ge> 2"
    using hd0 by (cases ?ps; cases "tl ?ps") auto
  have "detectComplexLoop sq \<noteq> None \<longleftrightarrow> last ?ps \<ge> 3"
    using False hd0 len by (auto simp: detectComplexLoop_def Let_def)
  also have "\<dots> \<longleftrightarrow> (\<exists>i \<ge> 3. i \<in> set ?ps)"
    using lst hd0 by (meson last_in_set order_trans)
  finally show ?thesis using False ps by auto
qed (simp add: detectComplexLoop_def)

text \<open>
  For a job with at least two recorded transitions, detectLoop reports a loop exactly when some
  state of its path is visited more often than the limit, or the path of three or more states uses
  only two of them, or a path of at least five states comes back to its first state after three or
  more steps; a report of repetition names a state with its true number of visits, and a report is
  stored and starts the cooldown.
\<close>

theorem detect_loop_iff:
  assumes "2 \<le> length (getTransitionHistory d job)" and "path = state_sequence (getTransitionHistory d job)"
  shows "(fst (detectLoop now job d) \<noteq> None \<longleftrightarrow>
      (\<exists>s \<in> set path. int (count_list path s) > max_repeats (dl_config d)) \<or>
      (card (set path) = 2 \<and> 3 \<le> length path) \<or>
      (5 \<le> length path \<and> (\<exists>i \<ge> 3. i < length path \<and> path ! i = path ! 0))) \<and>
    (\<forall>r. fst (detectLoop now job d) = Some r \<longrightarrow>
      map_get (loopResults (snd (detectLoop now job d))) job = Some r \<and>
      (0 < cooldown_minutes (dl_config d) \<longrightarrow> isInCooldown now (snd (detectLoop now job d)) job) \<and>
      (loop_type r = State_Repeat \<longrightarrow> repeat_count r = Some (int (count_list path (loop_states r ! 0))) \<and>
         int (count_list path (loop_states r ! 0)) > max_repeats (dl_config d)))"
proof -
  let ?f = "find (\<lambda>(_, n). n > max_repeats (dl_config d)) (state_visits path)"
  have two: "length (unique path) = 2 \<longleftrightarrow> card (set path) = 2" by (simp add: length_unique)
  have "?f = None \<longleftrightarrow> \<not> (\<exists>s \<in> set path. int (count_list path s) > max_repeats (dl_config d))"
    unfolding find_visits(1) by (simp add: not_less)
  moreover have "fst (detectLoop now job d) \<noteq> None \<longleftrightarrow>
      ?f \<noteq> None \<or> (length (unique path) = 2 \<and> 3 \<le> length path) \<or> detectComplexLoop path \<noteq> None"
    using assms by (auto simp: detectLoop_def Let_def found_loop_def split: option.split)
  moreover have "\<forall>r. fst (detectLoop now job d) = Some r \<longrightarrow>
      map_get (loopResults (snd (detectLoop now job d))) job = Some r \<and>
      (0 < cooldown_minutes (dl_config d) \<longrightarrow> isInCooldown now (snd (detectLoop now job d)) job) \<and>
      (loop_type r = State_Repeat \<longrightarrow> repeat_count r = Some (int (count_list path (loop_states r ! 0))) \<and>
         int (count_list path (loop_states r ! 0)) > max_repeats (dl_config d))"
    using assms find_visits(2) [of "max_repeats (dl_config d)" path]
    by (auto simp: detectLoop_def Let_def found_loop_def isInCooldown_def split: option.splits if_splits)
  ultimately show ?thesis
    unfolding two complex_loop_iff by blast
qed

theorem detect_loop_iff_witness:
  "fst (detectLoop 9 ''j'' (trackTransition 2 ''j'' ''planning'' ''planning'' ''plan'' (trackTransition 1 ''j'' ''queued'' ''planning''
     ''plan'' (new_doom_loop_detector DEFAULT_DOOM_LOOP_CONFIG DEFAULT_LOOP_FINGERPRINT_CONFIG)))) \<noteq> None"
  using detect_loop_iff [of "trackTransition 2 ''j'' ''planning'' ''planning'' ''plan'' (trackTransition 1 ''j'' ''queued'' ''planning''
     ''plan'' (new_doom_loop_detector DEFAULT_DOOM_LOOP_CONFIG DEFAULT_LOOP_FINGERPRINT_CONFIG))" "''j''"
     "[''queued'', ''planning'', ''planning'']" 9]
  by (simp add: trackTransition_def getTransitionHistory_def new_doom_loop_detector_def state_sequence_def card_insert_if)

end
