(* ===== verification/Runtime.thy ===== *)
theory Runtime
  imports Acceptance Validation Run_System Concurrency Doom_Loop
begin

text \<open>
  The state that the services of the store share (\<open>src/src/store/control-plane-store.ts\<close>,
  \<open>src/src/store/services/job-service.ts\<close>): the control plane, the managers of leases, capacities,
  capabilities and loops, and the jobs with their results and retry counts. \<open>op_ids\<close> holds what an
  operation draws: identifiers (one for each type of audit event) and a random number. Logging and
  metrics are not part of the state.
\<close>

record runtime =
  plane :: control_plane
  leaseManager :: lease_manager
  concurrencyManager :: concurrency_manager
  capabilityManager :: capability_manager
  doomLoopDetector :: doom_loop_detector
  jobs :: "(string, worker_job) jsmap"
  results :: "(string, worker_result) jsmap"
  retryTracker :: "(string, int) jsmap"

record op_ids =
  op_event :: string
  op_job :: string
  op_audit :: "string \<Rightarrow> string"
  op_random :: real

definition new_runtime :: "concurrency_config \<Rightarrow> runtime" where
  "new_runtime cfg = \<lparr>plane = empty_control_plane, leaseManager = new_lease_manager None None None,
     concurrencyManager = new_concurrency_manager cfg, capabilityManager = [],
     doomLoopDetector = new_doom_loop_detector DEFAULT_DOOM_LOOP_CONFIG DEFAULT_LOOP_FINGERPRINT_CONFIG,
     jobs = [], results = [], retryTracker = []\<rparr>"

subsection \<open>Operations of the control plane within the runtime\<close>

definition in_plane :: "(control_plane \<Rightarrow> (error, 'a, control_plane) outcome) \<Rightarrow> runtime \<Rightarrow> (error, 'a, runtime) outcome" where
  "in_plane f rt = (case f (plane rt) of (r, cp) \<Rightarrow> (r, rt\<lparr>plane := cp\<rparr>))"

definition rt_move :: "time \<Rightarrow> string \<Rightarrow> runtime mover" where
  "rt_move now eid t to inp = in_plane (cp_move now eid t to inp)"

definition rt_lookup :: "runtime \<Rightarrow> string \<Rightarrow> task option" where
  "rt_lookup rt = cp_lookup (plane rt)"

definition rt_requireTask :: "string \<Rightarrow> runtime \<Rightarrow> (error, task, runtime) outcome" where
  "rt_requireTask tid = in_plane (cp_requireTask tid)"

definition rt_setTask :: "string \<Rightarrow> task \<Rightarrow> runtime \<Rightarrow> runtime" where
  "rt_setTask tid t rt = rt\<lparr>plane := (plane rt)\<lparr>store := setTask tid t (store (plane rt))\<rparr>\<rparr>"

definition job_options :: "string option \<Rightarrow> string option \<Rightarrow> audit_options" where
  "job_options run job = \<lparr>ao_run_id = run, ao_job_id = job, ao_actor_type = None, ao_actor_id = None\<rparr>"

definition rt_audit :: "time \<Rightarrow> op_ids \<Rightarrow> string \<Rightarrow> string \<Rightarrow> payload \<Rightarrow> audit_options \<Rightarrow> runtime \<Rightarrow> runtime" where
  "rt_audit now ids tid ty p opts rt = rt\<lparr>plane := (plane rt)
     \<lparr>auditEvents := snd (emitAuditEvent now (op_audit ids ty) tid ty p opts (auditEvents (plane rt)))\<rparr>\<rparr>"

lemma in_plane_iff: "in_plane f rt = (r, rt') \<longleftrightarrow> f (plane rt) = (r, plane rt') \<and> rt' = rt\<lparr>plane := plane rt'\<rparr>"
  by (cases "f (plane rt)"; cases rt; cases rt') (auto simp: in_plane_def)

interpretation rt: transition_ctx "rt_move now eid" rt_lookup
proof unfold_locales
  fix t t' :: task and to inp s s' ev k
  show "\<not> canTransition (state t) to \<Longrightarrow> rt_move now eid t to inp s = (Inl (Transition_Not_Allowed (state t) to), s)"
    by (simp add: rt_move_def in_plane_def cp.refused del: canTransition_code)
  show "canTransition (state t) to \<Longrightarrow> \<exists>ev t' s'. rt_move now eid t to inp s = (Inr (ev, t'), s')"
    using cp.granted [of t to now eid inp "plane s"]
    by (force simp: rt_move_def in_plane_def simp del: canTransition_code)
  assume "rt_move now eid t to inp s = (Inr (ev, t'), s')"
  then have mv: "cp_move now eid t to inp (plane s) = (Inr (ev, t'), plane s')"
    unfolding rt_move_def in_plane_iff by blast
  show "same_work t t' \<and> state t' = to \<and> version t' = version t + 1 \<and>
      blocked_context t' = (if to = Blocked then blocked_context t else None) \<and>
      (isTerminal to \<longrightarrow> completed_at t' \<noteq> None) \<and>
      from_state ev = state t \<and> to_state ev = to \<and> event_task_id ev = task_id t"
    by (rule cp.moved [OF mv])
  show "rt_lookup s' k = (if k = task_id t then Some t' else rt_lookup s k)"
    unfolding rt_lookup_def by (rule cp.stored [OF mv])
qed

lemma rt_lookup_simps [simp]:
  "rt_lookup (rt_audit now ids tid ty p opts rt) k = rt_lookup rt k"
  "rt_lookup (rt\<lparr>leaseManager := a\<rparr>) k = rt_lookup rt k" "rt_lookup (rt\<lparr>concurrencyManager := b\<rparr>) k = rt_lookup rt k"
  "rt_lookup (rt\<lparr>capabilityManager := c\<rparr>) k = rt_lookup rt k" "rt_lookup (rt\<lparr>doomLoopDetector := d\<rparr>) k = rt_lookup rt k"
  "rt_lookup (rt\<lparr>jobs := e\<rparr>) k = rt_lookup rt k" "rt_lookup (rt\<lparr>results := f\<rparr>) k = rt_lookup rt k"
  "rt_lookup (rt\<lparr>retryTracker := g\<rparr>) k = rt_lookup rt k"
  "rt_lookup (rt_setTask j t rt) k = (if k = j then Some t else rt_lookup rt k)"
  by (simp_all add: rt_lookup_def cp_lookup_def rt_audit_def rt_setTask_def)

lemma rt_audit_simps [simp]:
  "leaseManager (rt_audit now ids tid ty p opts rt) = leaseManager rt"
  "concurrencyManager (rt_audit now ids tid ty p opts rt) = concurrencyManager rt"
  "capabilityManager (rt_audit now ids tid ty p opts rt) = capabilityManager rt"
  "doomLoopDetector (rt_audit now ids tid ty p opts rt) = doomLoopDetector rt"
  "jobs (rt_audit now ids tid ty p opts rt) = jobs rt" "results (rt_audit now ids tid ty p opts rt) = results rt"
  "retryTracker (rt_audit now ids tid ty p opts rt) = retryTracker rt"
  "store (plane (rt_audit now ids tid ty p opts rt)) = store (plane rt)"
  by (simp_all add: rt_audit_def)

lemma rt_move_frame:
  assumes "rt_move now eid t to inp rt = (r, rt')"
  shows "rt' = rt\<lparr>plane := plane rt'\<rparr>"
  using assms unfolding rt_move_def in_plane_iff by blast

subsection \<open>Names\<close>

fun loop_type_name :: "loop_type \<Rightarrow> string" where
  "loop_type_name Simple = ''simple''"
| "loop_type_name Complex = ''complex''"
| "loop_type_name State_Repeat = ''state_repeat''"

fun failure_class_name :: "failure_class \<Rightarrow> string" where
  "failure_class_name Retryable_Transient = ''retryable_transient''"
| "failure_class_name Retryable_Capacity = ''retryable_capacity''"
| "failure_class_name Non_Retryable_Policy = ''non_retryable_policy''"
| "failure_class_name Non_Retryable_Logic = ''non_retryable_logic''"

fun capability_name :: "capability \<Rightarrow> string" where
  "capability_name C_Plan = ''plan''"
| "capability_name C_Edit_Repo = ''edit_repo''"
| "capability_name C_Run_Tests = ''run_tests''"
| "capability_name C_Needs_Approval = ''needs_approval''"
| "capability_name C_Networked = ''networked''"
| "capability_name C_Produces_Patch = ''produces_patch''"
| "capability_name C_Produces_Verdict = ''produces_verdict''"

fun backend_name :: "execution_backend \<Rightarrow> string" where
  "backend_name External_Backend = ''external''"
| "backend_name Lmstudio = ''lmstudio''"

fun capacity_reason_name :: "capacity_reason \<Rightarrow> string" where
  "capacity_reason_name Worker_Capacity_Exceeded = ''worker_capacity_exceeded''"
| "capacity_reason_name Global_Capacity_Exceeded = ''global_capacity_exceeded''"

fun error_code_name :: "error_code \<Rightarrow> string" where
  "error_code_name Parse_Error = ''parse_error''"
| "error_code_name Schema_Error = ''schema_error''"
| "error_code_name Semantic_Error = ''semantic_error''"
| "error_code_name Policy_Violation = ''policy_violation''"
| "error_code_name Logic_Error = ''logic_error''"
| "error_code_name Authority_Conflict = ''authority_conflict''"

definition errors_payload :: "validation_error list \<Rightarrow> payload_value" where
  "errors_payload es = P_Arr (map (\<lambda>e. P_Obj [(''code'', P_Str (error_code_name (ve_code e))), (''path'', P_Str (ve_path e)),
     (''message'', P_Str (ve_message e))]) es)"

definition stage_payload :: "worker_job \<Rightarrow> payload" where
  "stage_payload j = [(''job_id'', P_Str (job_id j)), (''stage'', P_Str (stage_name (job_stage j)))]"

definition worker_payload :: "worker_job \<Rightarrow> payload" where
  "worker_payload j = stage_payload j @ [(''worker_type'', P_Str (worker_name (job_worker_type j)))]"

end
