(* ===== verification/Results.thy ===== *)
theory Results
  imports Runtime
begin

text \<open>
  What happens to the result of a job (\<open>src/src/domain/result\<close>: \<open>ResultOrchestrator\<close>, \<open>ResultValidator\<close>,
  \<open>handleSucceededStage\<close>; \<open>applyResult\<close> of the store). \<open>JSON.parse\<close> is a parameter (\<open>parseJson\<close>), as is the mode
  of the gate of \<open>Run_System\<close>; the store installs no external command line for it. The values JavaScript computes with
  \<open>??\<close> and \<open>?.\<close> are options.
\<close>

datatype json_value = JV_String string | JV_Array "json_value list" | JV_Other

record result_env =
  parseJson :: "string \<Rightarrow> json_value option"
  runSystemMode :: run_system_mode

record result_response =
  rs_task :: task
  rs_events :: "transition_event list"
  rs_next :: next_action
  rs_retry_at :: "time option"
  rs_failover :: "worker_type option"
  rs_updates :: task_update

definition MAX_REWORK_ATTEMPTS :: int where
  "MAX_REWORK_ATTEMPTS = 2"

definition getArtifactIds :: "worker_result \<Rightarrow> string list" where
  "getArtifactIds r = map out_artifact_id (result_artifacts r)"

definition retry_key :: "task \<Rightarrow> worker_stage \<Rightarrow> string" where
  "retry_key t st = task_id t @ '':'' @ stage_name st"

definition or_default :: "'a option \<Rightarrow> 'a \<Rightarrow> 'a" where
  "or_default a d = (case a of Some x \<Rightarrow> x | None \<Rightarrow> d)"

lemma or_default_simps [simp]: "or_default None d = d" "or_default (Some x) d = x"
  by (simp_all add: or_default_def)

definition tracked_retries :: "task \<Rightarrow> worker_stage \<Rightarrow> runtime \<Rightarrow> int" where
  "tracked_retries t st rt = or_default (map_get (retryTracker rt) (retry_key t st)) 0"

definition max_retries_of :: "worker_job \<Rightarrow> int" where
  "max_retries_of j = (case job_retry_policy j of Some p \<Rightarrow> max_retries p | None \<Rightarrow> getDefaultMaxRetries (stage_name (job_stage j)))"

definition backoff_policy :: "worker_job \<Rightarrow> retry_policy" where
  "backoff_policy j = (case job_retry_policy j of Some p \<Rightarrow> p | None \<Rightarrow> \<lparr>max_retries = max_retries_of j,
     backoff_base_seconds = 2, max_backoff_seconds = 60, jitter_enabled = True\<rparr>)"

definition retry_at :: "time \<Rightarrow> real \<Rightarrow> int \<Rightarrow> worker_job \<Rightarrow> time" where
  "retry_at now rnd n j = \<lfloor>of_int now + calculateBackoff rnd n (backoff_policy j) * 1000\<rfloor>"

definition clear_job :: task_update where
  "clear_job = no_update\<lparr>u_active_job_id := Some None\<rparr>"

definition block_update :: "blocked_context \<Rightarrow> task_update" where
  "block_update b = clear_job\<lparr>u_blocked_context := Some b\<rparr>"

definition resume_block :: "worker_job \<Rightarrow> string \<Rightarrow> waiting_on \<Rightarrow> blocked_context" where
  "resume_block j why w = mk_block (stageToActiveState (job_stage j)) why w"

subsection \<open>Ends of a job\<close>

definition release_lease :: "worker_job \<Rightarrow> runtime \<Rightarrow> runtime" where
  "release_lease j rt = rt\<lparr>leaseManager := snd (release (leaseManager rt) (job_id j) (worker_name (job_worker_type j)))\<rparr>"

definition finalizeJob :: "worker_job \<Rightarrow> bool \<Rightarrow> runtime \<Rightarrow> runtime" where
  "finalizeJob j releaseConcurrency rt =
     (let rt1 = release_lease j rt in
      if releaseConcurrency then rt1\<lparr>concurrencyManager :=
        recordComplete (job_id j) (worker_name (job_worker_type j)) (concurrencyManager rt1)\<rparr> else rt1)"

definition job_audit :: "time \<Rightarrow> op_ids \<Rightarrow> task \<Rightarrow> worker_job \<Rightarrow> string \<Rightarrow> payload \<Rightarrow> runtime \<Rightarrow> runtime" where
  "job_audit now ids t j ty p = rt_audit now ids (task_id t) ty p (job_options None (Some (job_id j)))"

definition job_input :: "actor_type \<Rightarrow> string \<Rightarrow> string \<Rightarrow> worker_job \<Rightarrow> worker_result \<Rightarrow> transition_input" where
  "job_input a i why j r = \<lparr>in_actor_type = a, in_actor_id = i, in_reason = why, in_job_id = Some (job_id j),
     in_artifact_ids = Some (getArtifactIds r)\<rparr>"

definition respond :: "next_action \<Rightarrow> task_update \<Rightarrow> transition_event \<Rightarrow> task \<Rightarrow> result_response" where
  "respond na u ev t = \<lparr>rs_task = t, rs_events = [ev], rs_next = na, rs_retry_at = None, rs_failover = None, rs_updates = u\<rparr>"

text \<open>
  The shape all handlers that move the task have: apply the collected updates to the copy of the task, move it, then
  do \<open>after\<close> and answer.
\<close>

definition move_with :: "time \<Rightarrow> op_ids \<Rightarrow> task \<Rightarrow> task_update \<Rightarrow> task_state \<Rightarrow> transition_input \<Rightarrow> (runtime \<Rightarrow> runtime) \<Rightarrow>
    (transition_event \<Rightarrow> task \<Rightarrow> result_response) \<Rightarrow> runtime \<Rightarrow> (error, result_response, runtime) outcome" where
  "move_with now ids t u to inp after resp = and_then (rt_move now (op_event ids) (applyTaskUpdate now t u) to inp)
     (\<lambda>(ev, t') rt. (Inr (resp ev t'), after rt))"

subsection \<open>Updates from a result\<close>

definition requiresToolPlanAcceptanceGate :: "worker_result \<Rightarrow> bool" where
  "requiresToolPlanAcceptanceGate r = (let m = result_metadata r in
     \<not> meta_true m ''tool_plan_dry_run'' \<and> (meta_true m ''tool_plan_applied'' \<or>
       meta_get m ''tool_plan_execution_verdict'' = Some (J_Str ''applied'')))"

definition gate_context :: "time \<Rightarrow> worker_job \<Rightarrow> worker_result \<Rightarrow> acceptance_gate_context" where
  "gate_context now j r = \<lparr>gate_required = True, gate_source_job_id = job_id j,
     gate_reason = ''tool_plan applied workspace changes and requires independent acceptance before integration'',
     gate_artifact_ids = getArtifactIds r, gate_created_at = now\<rparr>"

definition gate_needed :: "worker_job \<Rightarrow> worker_result \<Rightarrow> bool" where
  "gate_needed j r = (job_stage j = Dev \<and> requiresToolPlanAcceptanceGate r)"

definition task_artifact :: "output_artifact \<Rightarrow> artifact_ref" where
  "task_artifact a = \<lparr>artifact_id = out_artifact_id a, artifact_kind = (if out_kind a = K_Html then K_Other else out_kind a)\<rparr>"

definition update_if :: "bool \<Rightarrow> task_update \<Rightarrow> task_update list" where
  "update_if b u = (if b then [u] else [])"

definition side_effect_updates :: "worker_result \<Rightarrow> task_update list" where
  "side_effect_updates r = (case result_side_effects r of
       Some cs \<Rightarrow> [no_update\<lparr>u_detected_side_effects := Some cs\<rparr>]
     | None \<Rightarrow> if requested_escalations r = [] then []
         else [no_update\<lparr>u_detected_side_effects := Some (se_categories (analyzeSideEffects (map esc_kind (requested_escalations r)) None))\<rparr>])"

definition result_updates :: "time \<Rightarrow> worker_job \<Rightarrow> worker_result \<Rightarrow> task_update list" where
  "result_updates now j r =
     update_if (result_artifacts r \<noteq> []) (no_update\<lparr>u_mergeArtifacts := Some (map task_artifact (result_artifacts r))\<rparr>) @
     update_if (result_resolver_refs r \<noteq> None) (no_update\<lparr>u_mergeResolverRefs := result_resolver_refs r\<rparr>) @
     update_if (result_external_refs r \<noteq> None \<and> result_external_refs r \<noteq> Some [])
       (no_update\<lparr>u_mergeExternalRefs := result_external_refs r\<rparr>) @
     update_if (\<not> falsy (result_context_bundle_ref r)) (no_update\<lparr>u_context_bundle_ref := result_context_bundle_ref r\<rparr>) @
     update_if (\<not> falsy (result_rollback_notes r)) (no_update\<lparr>u_rollback_notes := result_rollback_notes r\<rparr>) @
     update_if (result_verdict r \<noteq> None) (no_update\<lparr>u_last_verdict := result_verdict r\<rparr>) @
     update_if (result_retry_count r \<noteq> None)
       (no_update\<lparr>u_retry_counts := Some (\<lambda>st. if st = job_stage j then result_retry_count r else None)\<rparr>) @
     update_if (failure_class r \<noteq> None) (no_update\<lparr>u_last_failure_class := failure_class r\<rparr>) @
     update_if (gate_needed j r) (no_update\<lparr>u_acceptance_gate_context := Some (gate_context now j r)\<rparr>) @
     update_if (\<not> falsy (result_loop_fingerprint r)) (no_update\<lparr>u_loop_fingerprint := result_loop_fingerprint r\<rparr>) @
     side_effect_updates r"

definition escalation_payload :: "escalation \<Rightarrow> payload_value" where
  "escalation_payload e = P_Obj [(''kind'', P_Str (escalation_name (esc_kind e))), (''reason'', P_Str (esc_reason e)),
     (''approved'', P_Opt_Bool (esc_approved e))]"

definition gate_context_payload :: "acceptance_gate_context \<Rightarrow> payload" where
  "gate_context_payload g = [(''required'', P_Bool (gate_required g)), (''source_job_id'', P_Str (gate_source_job_id g)),
     (''reason'', P_Str (gate_reason g)), (''artifact_ids'', P_List (gate_artifact_ids g)), (''created_at'', P_Int (gate_created_at g))]"

definition result_audits :: "time \<Rightarrow> op_ids \<Rightarrow> task \<Rightarrow> worker_job \<Rightarrow> worker_result \<Rightarrow> runtime \<Rightarrow> runtime" where
  "result_audits now ids t j r rt =
     (let rt1 = (if gate_needed j r
        then job_audit now ids t j ''run.acceptanceGateRequired'' (gate_context_payload (gate_context now j r)) rt else rt)
      in if requested_escalations r = [] then rt1
         else job_audit now ids t j ''run.permissionEscalated''
           [(''escalations'', P_Arr (map escalation_payload (requested_escalations r))), (''stage'', P_Str (stage_name (job_stage j)))] rt1)"

definition computeTaskUpdatesFromResult :: "time \<Rightarrow> worker_job \<Rightarrow> worker_result \<Rightarrow> task_update" where
  "computeTaskUpdatesFromResult now j r = mergeTaskUpdates (result_updates now j r)"

subsection \<open>Failed validation\<close>

definition isPolicyViolation :: "validation_error list \<Rightarrow> bool" where
  "isPolicyViolation es = list_ex (\<lambda>e. ve_code e = Policy_Violation \<or> ve_code e = Authority_Conflict) es"

definition isRetryableSchemaError :: "validation_error list \<Rightarrow> bool" where
  "isRetryableSchemaError es = (\<not> isPolicyViolation es \<and> list_ex (\<lambda>e. ve_code e = Schema_Error \<or> ve_code e = Parse_Error) es)"

definition isAcceptanceManualGateError :: "worker_job \<Rightarrow> validation_error list \<Rightarrow> bool" where
  "isAcceptanceManualGateError j es = (job_stage j = Acceptance \<and>
     list_ex (\<lambda>e. ve_path e = ''evidence'' \<or> ve_path e = ''verdict.outcome'' \<or> ve_code e = Policy_Violation) es)"

definition errorSummary :: "validation_error list \<Rightarrow> string" where
  "errorSummary es = js_join ''; '' (map (\<lambda>e. ve_path e @ '': '' @ ve_message e) es)"

definition attempt_text :: "int \<Rightarrow> worker_job \<Rightarrow> string" where
  "attempt_text n j = show_int (n + 1) @ ''/'' @ show_int (max_retries_of j)"

definition set_retries :: "task \<Rightarrow> worker_job \<Rightarrow> int \<Rightarrow> runtime \<Rightarrow> runtime" where
  "set_retries t j n rt = rt\<lparr>retryTracker := map_set (retryTracker rt) (retry_key t (job_stage j)) n\<rparr>"

definition repair_payload :: "worker_job \<Rightarrow> int \<Rightarrow> string \<Rightarrow> payload_value \<Rightarrow> payload" where
  "repair_payload j n why es = worker_payload j @ [(''retry_count'', P_Int (n + 1)), (''max_retries'', P_Int (max_retries_of j)),
     (''reason'', P_Str why), (''errors'', es)]"

definition retry_response :: "time \<Rightarrow> op_ids \<Rightarrow> int \<Rightarrow> worker_job \<Rightarrow> task_update \<Rightarrow> transition_event \<Rightarrow> task \<Rightarrow> result_response" where
  "retry_response now ids n j u ev t = (respond N_Retry u ev t)\<lparr>rs_retry_at := Some (retry_at now (op_random ids) n j)\<rparr>"

definition handleValidationFailure :: "time \<Rightarrow> op_ids \<Rightarrow> task \<Rightarrow> worker_job \<Rightarrow> worker_result \<Rightarrow> validation_error list \<Rightarrow>
    runtime \<Rightarrow> (error, result_response, runtime) outcome" where
  "handleValidationFailure now ids t j r es rt =
     (let n = tracked_retries t (job_stage j) rt in
      if isRetryableSchemaError es \<and> shouldRetry Retryable_Transient n (max_retries_of j)
      then move_with now ids t (mergeTaskUpdates [no_update, clear_job]) (stageToActiveState (job_stage j))
          (job_input Policy_Engine ''validation_layer'' (''retry '' @ attempt_text n j @ '' after schema validation failure'') j r)
          (release_lease j) (retry_response now ids n j clear_job)
          (set_retries t j (n + 1) (job_audit now ids t j ''instruction_repair_attempted''
            (repair_payload j n ''schema validation failed - repair via retry'' (errors_payload es)) rt))
      else if isPolicyViolation es \<or> isAcceptanceManualGateError j es
      then let u = block_update (resume_block j (''Validation requires manual gate: '' @ errorSummary es) W_Policy) in
        move_with now ids t (mergeTaskUpdates [no_update, u]) Blocked
          (job_input Control_Plane ''validation_layer'' (''validation failed: '' @ errorSummary es) j r)
          (\<lambda>rt. finalizeJob j True (job_audit now ids t j ''instruction_escalated''
            (worker_payload j @ [(''reason'', P_Str ''validation policy violation requires manual gate''), (''errors'', errors_payload es)]) rt))
          (respond N_Wait_Manual u) rt
      else move_with now ids t (mergeTaskUpdates [no_update, clear_job]) Rework_Required
          (job_input Control_Plane ''validation_layer'' (''validation failed: '' @ errorSummary es) j r)
          (finalizeJob j True) (respond N_Dispatch_Dev clear_job) rt)"

text \<open>The audit event of the validator, if it rejects the result.\<close>

definition validation_audit :: "time \<Rightarrow> op_ids \<Rightarrow> task \<Rightarrow> worker_job \<Rightarrow> worker_result \<Rightarrow> runtime \<Rightarrow> runtime" where
  "validation_audit now ids t j r rt = (let v = validate_result r t j in
     case detectAuthorityConflict r t of
       Some c \<Rightarrow> job_audit now ids t j ''instruction_authority_conflict''
         (stage_payload j @ [(''conflict_type'', P_Str (conflict_type c)), (''details'', P_Str (conflict_details c))]) rt
     | None \<Rightarrow> if rv_schema_errors v \<noteq> [] then job_audit now ids t j ''instruction_schema_rejected''
           (stage_payload j @ [(''errors'', errors_payload (rv_schema_errors v))]) rt
         else if rv_semantic_errors v \<noteq> [] then job_audit now ids t j ''instruction_semantic_rejected''
           (stage_payload j @ [(''errors'', errors_payload (rv_semantic_errors v))]) rt
         else rt)"

subsection \<open>The gate of the run system\<close>

fun gatefield_name :: "gatefield_verdict \<Rightarrow> string" where
  "gatefield_name G_Pass = ''pass''"
| "gatefield_name G_Warn = ''warn''"
| "gatefield_name G_Hold = ''hold''"
| "gatefield_name G_Block = ''block''"

fun state_gate_name :: "state_gate_verdict \<Rightarrow> string" where
  "state_gate_name SG_Allow = ''allow''"
| "state_gate_name SG_Revise = ''revise''"
| "state_gate_name SG_Needs_Approval = ''needs_approval''"
| "state_gate_name SG_Require_Human = ''require_human''"
| "state_gate_name SG_Stale_Blocked = ''stale_blocked''"
| "state_gate_name SG_Deny = ''deny''"

fun qeg_name :: "qeg_verdict \<Rightarrow> string" where
  "qeg_name Q_Go = ''go''"
| "qeg_name Q_Conditional_Go = ''conditional_go''"
| "qeg_name Q_No_Go = ''no_go''"

fun mode_name :: "run_system_mode \<Rightarrow> string" where
  "mode_name Advisory = ''advisory''"
| "mode_name Enforce = ''enforce''"

definition gate_parts :: "gate_report \<Rightarrow> payload" where
  "gate_parts g =
     [(''gatefield'', P_Obj [(''verdict'', P_Str (gatefield_name (gr_gatefield g))), (''reasons'', P_List (gr_gatefield_reasons g))]),
      (''agent_state_gate'', P_Obj [(''verdict'', P_Str (state_gate_name (gr_state_gate g))), (''reasons'', P_List (gr_state_gate_reasons g))]),
      (''manual_bb'', P_Obj [(''required'', P_Bool (gr_manual_required g)), (''reason'', P_Opt (gr_manual_reason g))]),
      (''qeg'', P_Obj [(''profile'', P_Str ''standard''), (''expected_verdict'', P_Str (qeg_name (gr_expected g))),
        (''blockers'', P_List (gr_blockers g)), (''residual_risks'', P_List (gr_residual_risks g))])]"

definition gate_evaluated_payload :: "gate_report \<Rightarrow> payload" where
  "gate_evaluated_payload g =
     [(''gate_id'', P_Str ''run-system''), (''gate_owner'', P_Str ''shipyard-cp''), (''policy_revision'', P_Str ''1.0''),
      (''decision'', P_Str (gatefield_name (gr_gatefield g))),
      (''effective_action'', P_Str (if gr_blocks g then ''block'' else ''continue'')),
      (''transition_changed'', P_Bool (gr_blocks g)), (''risk'', P_Str (qeg_name (gr_expected g))),
      (''override'', P_Obj [(''applied'', P_Bool False)]), (''mode'', P_Str (mode_name (gr_mode g)))] @
     gate_parts g @ [(''blocks_shipyard_transition'', P_Bool (gr_blocks g))]"

text \<open>The packet is recorded by its references and counts; the nested copies of the task are left out of the payload.\<close>

definition packet_payload :: "run_system_packet \<Rightarrow> payload" where
  "packet_payload p =
     [(''mode'', P_Str (mode_name (pk_mode p))),
      (''run'', P_Obj [(''run_ref'', P_Str (pk_run_ref p)), (''task_ref'', P_Str (pk_task_ref p)), (''job_ref'', P_Str (pk_job_ref p)),
        (''task_id'', P_Str (pk_task_id p)), (''job_id'', P_Str (pk_job_id p)), (''stage'', P_Str (stage_name (pk_stage p))),
        (''worker_type'', P_Str (worker_name (pk_worker_type p))), (''result_status'', P_Str (status_name (di_status (pk_input p))))]),
      (''contract_refs'', P_Obj [(''intent_contract_ref'', P_Str (pk_intent_ref p)), (''task_seed_ref'', P_Str (pk_task_seed_ref p)),
        (''acceptance_ref'', P_Opt (pk_acceptance_ref p)), (''evidence_ref'', P_Str (pk_evidence_ref p))]),
      (''agent_protocols'', P_Obj [(''inputHash'', P_Str (pk_input_hash p)), (''outputHash'', P_Str (pk_output_hash p)),
        (''runtimeMs'', P_Int (pk_runtime_ms p)), (''exitCode'', P_Opt_Int (pk_exit_code p))])]"

definition emitRunSystemPacket :: "time \<Rightarrow> op_ids \<Rightarrow> result_env \<Rightarrow> task \<Rightarrow> worker_job \<Rightarrow> worker_result \<Rightarrow> runtime \<Rightarrow>
    gate_report \<times> runtime" where
  "emitRunSystemPacket now ids env t j r rt =
     (let p = buildRunSystemPacket (runSystemMode env) t j r; g = evaluateRunSystemGate p
      in (g, rt_audit now ids (task_id t) ''run.systemGateEvaluated'' (gate_evaluated_payload g)
           (job_options (Some (task_id t)) (Some (job_id j)))
           (job_audit now ids t j ''run.systemPacketPrepared'' (packet_payload p) rt)))"

definition handleRunSystemGateBlocked :: "time \<Rightarrow> op_ids \<Rightarrow> task \<Rightarrow> worker_job \<Rightarrow> worker_result \<Rightarrow> gate_report \<Rightarrow>
    runtime \<Rightarrow> (error, result_response, runtime) outcome" where
  "handleRunSystemGateBlocked now ids t j r g =
     (let why = ''Run-system enforce gate blocked transition: '' @ state_gate_name (gr_state_gate g);
          u = block_update (resume_block j why (if gr_manual_required g then W_Human else W_Policy))
      in move_with now ids t u Blocked (job_input Policy_Engine ''agent-state-gate'' why j r)
           (\<lambda>rt. finalizeJob j True (job_audit now ids t j ''run.systemGateBlocked''
             ([(''mode'', P_Str (mode_name (gr_mode g)))] @ gate_parts g @ [(''result_status'', P_Str (status_name (result_status r)))]) rt))
           (respond N_Wait_Manual u))"

subsection \<open>Blocked results\<close>

definition summary_or :: "worker_result \<Rightarrow> string \<Rightarrow> string" where
  "summary_or r d = or_default (summary r) d"

definition isLiteLLMFailureResult :: "worker_result \<Rightarrow> bool" where
  "isLiteLLMFailureResult r = (result_status r = S_Blocked \<and> meta_get (result_metadata r) ''litellm_error_type'' \<noteq> None)"

definition scalar_payload :: "worker_result \<Rightarrow> string \<Rightarrow> payload_value" where
  "scalar_payload r k = (case meta_get (result_metadata r) k of Some v \<Rightarrow> P_Scalar v | None \<Rightarrow> P_Opt None)"

definition litellm_payload :: "worker_job \<Rightarrow> worker_result \<Rightarrow> payload" where
  "litellm_payload j r = [(''error_type'', scalar_payload r ''litellm_error_type''), (''error_message'', scalar_payload r ''litellm_error_message''),
     (''retryable'', scalar_payload r ''litellm_retryable''), (''model'', P_Opt (litellm_model r)), (''blocked'', P_Bool True),
     (''stage'', P_Str (stage_name (job_stage j)))]"

definition after_blocked :: "time \<Rightarrow> op_ids \<Rightarrow> task \<Rightarrow> worker_job \<Rightarrow> worker_result \<Rightarrow> runtime \<Rightarrow> runtime" where
  "after_blocked now ids t j r rt =
     (let rt1 = job_audit now ids t j ''instruction_escalated''
        (worker_payload j @ [(''reason'', P_Str (summary_or r ''worker blocked'')), (''waiting_on'', P_Str ''human'')]) rt
      in if isLiteLLMFailureResult r then job_audit now ids t j ''run.litellmFailed'' (litellm_payload j r) rt1 else rt1)"

definition handleBlockedResult :: "time \<Rightarrow> op_ids \<Rightarrow> task \<Rightarrow> worker_job \<Rightarrow> worker_result \<Rightarrow> task_update \<Rightarrow>
    runtime \<Rightarrow> (error, result_response, runtime) outcome" where
  "handleBlockedResult now ids t j r ups =
     (let why = summary_or r ''worker blocked'';
          u = mergeTaskUpdates [ups, no_update\<lparr>u_blocked_context := Some (resume_block j why W_Human)\<rparr>]
      in move_with now ids t u Blocked (job_input Worker (worker_name (job_worker_type j)) why j r)
           (after_blocked now ids t j r) (respond N_Wait_Manual u))"

subsection \<open>Failed results\<close>

definition handleDoomLoop :: "time \<Rightarrow> op_ids \<Rightarrow> task \<Rightarrow> worker_job \<Rightarrow> worker_result \<Rightarrow> loop_detection \<Rightarrow> task_update \<Rightarrow>
    runtime \<Rightarrow> (error, result_response, runtime) outcome" where
  "handleDoomLoop now ids t j r d ups =
     (let b = (resume_block j (''Doom loop detected: '' @ loop_type_name (loop_type d)) W_Policy)
            \<lparr>block_loop_fingerprint := job_loop_fingerprint j\<rparr>;
          u = mergeTaskUpdates [ups, block_update b]
      in move_with now ids t u Blocked
           (job_input Policy_Engine ''doom_loop_detector'' (''doom loop detected: '' @ loop_type_name (loop_type d)) j r)
           (finalizeJob j False) (respond N_Wait_Manual u))"

definition handleRetry :: "time \<Rightarrow> op_ids \<Rightarrow> task \<Rightarrow> worker_job \<Rightarrow> worker_result \<Rightarrow> int \<Rightarrow> failure_class \<Rightarrow> task_update \<Rightarrow>
    runtime \<Rightarrow> (error, result_response, runtime) outcome" where
  "handleRetry now ids t j r n c ups rt =
     (let u = mergeTaskUpdates [ups, clear_job];
          rt1 = job_audit now ids t j ''retry_triggered''
            [(''stage'', P_Str (stage_name (job_stage j))), (''worker_type'', P_Str (worker_name (job_worker_type j))),
             (''retry_count'', P_Int (n + 1)), (''max_retries'', P_Int (max_retries_of j)),
             (''failure_class'', P_Str (failure_class_name c)), (''reason'', P_Str (summary_or r (failure_class_name c @ '' failure'')))]
            (set_retries t j (n + 1) rt)
      in move_with now ids t u (stageToActiveState (job_stage j))
           (job_input Policy_Engine ''retry_manager'' (''retry '' @ attempt_text n j @ '' after '' @ failure_class_name c) j r)
           (release_lease j) (retry_response now ids n j u) rt1)"

definition handleFailover :: "time \<Rightarrow> op_ids \<Rightarrow> task \<Rightarrow> worker_job \<Rightarrow> worker_result \<Rightarrow> worker_type \<Rightarrow> task_update \<Rightarrow>
    runtime \<Rightarrow> (error, result_response, runtime) outcome" where
  "handleFailover now ids t j r w ups rt =
     (let u = mergeTaskUpdates [ups, clear_job];
          rt1 = release_lease j (job_audit now ids t j ''run.workerFailover''
            [(''from_worker'', P_Str (worker_name (job_worker_type j))), (''to_worker'', P_Str (worker_name w)),
             (''stage'', P_Str (stage_name (job_stage j))), (''reason'', P_Str (summary_or r ''worker failed''))] rt)
      in move_with now ids t u (stageToActiveState (job_stage j))
           (job_input Policy_Engine ''failover_manager''
             (''failover to '' @ worker_name w @ '' after '' @ worker_name (job_worker_type j) @ '' failure'') j r)
           (\<lambda>rt. rt) (\<lambda>ev t'. (respond N_Failover u ev t')\<lparr>rs_failover := Some w\<rparr>) rt1)"

definition readTestFailureSummary :: "result_env \<Rightarrow> worker_result \<Rightarrow> string option" where
  "readTestFailureSummary env r = (case meta_get (result_metadata r) ''tool_plan_test_failure_summaries'' of
       Some (J_Str s) \<Rightarrow> if s = [] then None else (case parseJson env s of
           None \<Rightarrow> Some (take 4000 s)
         | Some (JV_Array vs) \<Rightarrow> Some (take 4000 (js_join [CHR 0x0A, CHR 0x0A]
             (concat (map (\<lambda>v. case v of JV_String x \<Rightarrow> [x] | _ \<Rightarrow> []) vs))))
         | Some _ \<Rightarrow> None)
     | _ \<Rightarrow> None)"

definition buildReworkContext :: "time \<Rightarrow> result_env \<Rightarrow> worker_job \<Rightarrow> worker_result \<Rightarrow> int \<Rightarrow> rework_context" where
  "buildReworkContext now env j r attempt = \<lparr>rework_source_job_id = job_id j, rework_stage = job_stage j,
     rework_attempt = attempt, rework_max_attempts = MAX_REWORK_ATTEMPTS,
     rework_reason = or_default (or_else (summary r) (failure_code r)) ''worker failed'',
     rework_failure_summary = failure_summary r, rework_test_failure_summary = readTestFailureSummary env r,
     rework_artifact_ids = getArtifactIds r, rework_created_at = now\<rparr>"

definition previous_attempt :: "task \<Rightarrow> worker_job \<Rightarrow> int" where
  "previous_attempt t j = (case rework_context t of
     Some c \<Rightarrow> if rework_stage c = job_stage j then rework_attempt c else 0 | None \<Rightarrow> 0)"

definition handleFinalFailure :: "time \<Rightarrow> op_ids \<Rightarrow> result_env \<Rightarrow> task \<Rightarrow> worker_job \<Rightarrow> worker_result \<Rightarrow> failure_class \<Rightarrow> task_update \<Rightarrow>
    runtime \<Rightarrow> (error, result_response, runtime) outcome" where
  "handleFinalFailure now ids env t j r c ups =
     (let n = previous_attempt t j in
      if n \<ge> MAX_REWORK_ATTEMPTS
      then let why = ''bounded rework attempts exhausted after '' @ show_int n @ '' attempt(s): '' @ summary_or r (failure_class_name c);
               u = mergeTaskUpdates [ups, block_update (resume_block j why W_Policy)]
        in move_with now ids t u Blocked (job_input Policy_Engine ''rework_loop_guard'' why j r)
             (\<lambda>rt. finalizeJob j True (job_audit now ids t j ''run.reworkPayloadPrepared''
               [(''source_job_id'', P_Str (job_id j)), (''stage'', P_Str (stage_name (job_stage j))), (''reason'', P_Str why),
                (''attempt'', P_Int n), (''max_attempts'', P_Int MAX_REWORK_ATTEMPTS), (''blocked'', P_Bool True)] rt))
             (respond N_Wait_Manual u)
      else let ctx = buildReworkContext now env j r (n + 1);
               u = mergeTaskUpdates [ups, clear_job\<lparr>u_rework_context := Some ctx\<rparr>]
        in move_with now ids t u Rework_Required
             (job_input Worker (worker_name (job_worker_type j))
               (summary_or r (''failed ('' @ failure_class_name c @ '', retries exhausted)'')) j r)
             (\<lambda>rt. finalizeJob j True (job_audit now ids t j ''run.reworkPayloadPrepared''
               [(''source_job_id'', P_Str (rework_source_job_id ctx)), (''stage'', P_Str (stage_name (rework_stage ctx))),
                (''attempt'', P_Int (rework_attempt ctx)), (''max_attempts'', P_Int (rework_max_attempts ctx)),
                (''reason'', P_Str (rework_reason ctx)), (''failure_summary'', P_Opt (rework_failure_summary ctx)),
                (''test_failure_summary'', P_Opt (rework_test_failure_summary ctx)), (''artifact_ids'', P_List (rework_artifact_ids ctx))] rt))
             (respond N_Dispatch_Dev u))"

definition js_truthy :: "json_scalar option \<Rightarrow> bool" where
  "js_truthy v = (case v of Some (J_Str s) \<Rightarrow> s \<noteq> [] | Some (J_Num n) \<Rightarrow> n \<noteq> 0 | Some (J_Bool b) \<Rightarrow> b | _ \<Rightarrow> False)"

definition structured_failure :: "worker_result \<Rightarrow> bool" where
  "structured_failure r = (js_truthy (meta_get (result_metadata r) ''validation_errors'') \<or>
     js_truthy (meta_get (result_metadata r) ''parse_error''))"

definition structured_errors :: "worker_result \<Rightarrow> payload_value" where
  "structured_errors r = (case meta_get (result_metadata r) ''validation_errors'' of
       Some J_Null \<Rightarrow> P_Arr [scalar_payload r ''parse_error'']
     | None \<Rightarrow> P_Arr [scalar_payload r ''parse_error'']
     | Some v \<Rightarrow> P_Scalar v)"

definition handleFailedResult :: "time \<Rightarrow> op_ids \<Rightarrow> result_env \<Rightarrow> task \<Rightarrow> worker_job \<Rightarrow> worker_result \<Rightarrow> task_update \<Rightarrow>
    runtime \<Rightarrow> (error, result_response, runtime) outcome" where
  "handleFailedResult now ids env t j r ups rt =
     (let c = or_default (failure_class r) (classifyFromResult r);
          n = or_default (result_retry_count r) (tracked_retries t (job_stage j) rt);
          (found, d) = detectLoop now (job_id j) (doomLoopDetector rt);
          rt1 = rt\<lparr>doomLoopDetector := d\<rparr>
      in case found of
           Some l \<Rightarrow> handleDoomLoop now ids t j r l ups rt1
         | None \<Rightarrow>
        (case (if canFailover (job_stage j) then getFailoverWorker (job_stage j) (job_worker_type j) else None) of
           Some w \<Rightarrow> handleFailover now ids t j r w ups rt1
         | None \<Rightarrow>
         if shouldRetry c n (max_retries_of j)
         then handleRetry now ids t j r n c ups
           (if structured_failure r then job_audit now ids t j ''instruction_repair_attempted''
              (repair_payload j n ''structured output validation failed'' (structured_errors r)) rt1 else rt1)
         else handleFinalFailure now ids env t j r c ups rt1))"

subsection \<open>Succeeded results\<close>

definition acceptance_gate_audit :: "time \<Rightarrow> op_ids \<Rightarrow> task \<Rightarrow> worker_job \<Rightarrow> worker_result \<Rightarrow> runtime \<Rightarrow> runtime" where
  "acceptance_gate_audit now ids t j r rt = (case acceptance_gate_context t of
       Some g \<Rightarrow> if gate_required g then job_audit now ids t j ''run.acceptanceGateEnforced''
           [(''source_job_id'', P_Str (gate_source_job_id g)), (''acceptance_job_id'', P_Str (job_id j)),
            (''artifact_ids'', P_List (getArtifactIds r)),
            (''verdict'', P_Opt (map_option (\<lambda>v. outcome_name (verdict_outcome v)) (result_verdict r)))] rt else rt
     | None \<Rightarrow> rt)"

definition acceptance_update :: "task \<Rightarrow> worker_result \<Rightarrow> task_update \<Rightarrow> task_update" where
  "acceptance_update t r ups = mergeTaskUpdates [ups,
     (case result_verdict r of Some v \<Rightarrow> no_update\<lparr>u_last_verdict := Some v\<rparr> | None \<Rightarrow> no_update),
     (if manual_checklist t \<noteq> None \<and> manual_checklist t \<noteq> Some [] then no_update
      else no_update\<lparr>u_manual_checklist := Some (generateManualChecklist t)\<rparr>)]"

definition handleSucceededStage :: "time \<Rightarrow> op_ids \<Rightarrow> task \<Rightarrow> worker_job \<Rightarrow> worker_result \<Rightarrow> task_update \<Rightarrow>
    runtime \<Rightarrow> (error, result_response, runtime) outcome" where
  "handleSucceededStage now ids t j r ups rt =
     (let inp = (\<lambda>why. job_input Worker (worker_name (job_worker_type j)) why j r) in
      case job_stage j of
        Plan \<Rightarrow> move_with now ids t ups Planned (inp (summary_or r ''plan completed'')) (\<lambda>rt. rt) (respond N_Dispatch_Dev ups) rt
      | Dev \<Rightarrow> move_with now ids t ups Dev_Completed (inp (summary_or r ''dev completed'')) (\<lambda>rt. rt)
          (respond N_Dispatch_Acceptance ups) rt
      | Acceptance \<Rightarrow>
         (let rt1 = acceptance_gate_audit now ids t j r rt in
          if has_outcome O_Reject r \<or> has_outcome O_Rework r
          then move_with now ids t ups Rework_Required
            (inp (or_default (case result_verdict r of Some v \<Rightarrow> verdict_reason v | None \<Rightarrow> None) ''acceptance rejected by worker''))
            (\<lambda>rt. rt) (respond N_Dispatch_Dev ups) rt1
          else let u = acceptance_update t r ups in
            (Inr \<lparr>rs_task = applyTaskUpdate now t u, rs_events = [], rs_next = N_Wait_Manual, rs_retry_at = None,
               rs_failover = None, rs_updates = u\<rparr>, rt1)))"

definition handleSucceededResultFinal :: "time \<Rightarrow> op_ids \<Rightarrow> task \<Rightarrow> worker_job \<Rightarrow> worker_result \<Rightarrow> task_update \<Rightarrow>
    runtime \<Rightarrow> (error, result_response, runtime) outcome" where
  "handleSucceededResultFinal now ids t j r ups = and_then (handleSucceededStage now ids t j r ups)
     (\<lambda>resp rt. (Inr resp, finalizeJob j True rt))"

subsection \<open>Applying a result\<close>

definition orchestrateResult :: "time \<Rightarrow> op_ids \<Rightarrow> result_env \<Rightarrow> worker_result \<Rightarrow> task \<Rightarrow> worker_job \<Rightarrow>
    runtime \<Rightarrow> (error, result_response, runtime) outcome" where
  "orchestrateResult now ids env r t j rt =
     (let v = validate_result r t j in
      if \<not> rv_valid v then handleValidationFailure now ids t j r (rv_errors v) (validation_audit now ids t j r rt)
      else let (g, rt1) = emitRunSystemPacket now ids env t j r rt in
        if gr_blocks g then handleRunSystemGateBlocked now ids t j r g rt1
        else let ups = computeTaskUpdatesFromResult now j r; rt2 = result_audits now ids t j r rt1 in
          case result_status r of
            S_Blocked \<Rightarrow> handleBlockedResult now ids t j r ups rt2
          | S_Failed \<Rightarrow> handleFailedResult now ids env t j r ups rt2
          | S_Succeeded \<Rightarrow> handleSucceededResultFinal now ids t j r ups rt2)"

definition unchanged_response :: "task \<Rightarrow> result_response" where
  "unchanged_response t = \<lparr>rs_task = t, rs_events = [], rs_next = N_None, rs_retry_at = None, rs_failover = None, rs_updates = no_update\<rparr>"

definition applyResult :: "time \<Rightarrow> op_ids \<Rightarrow> result_env \<Rightarrow> string \<Rightarrow> worker_result \<Rightarrow> runtime \<Rightarrow> (error, result_response, runtime) outcome" where
  "applyResult now ids env tid r = and_then (rt_requireTask tid) (\<lambda>t rt.
     if falsy (active_job_id t) then (Inr (unchanged_response t), rt)
     else if active_job_id t \<noteq> Some (result_job_id r) then (Inr (unchanged_response t), rt)
     else if result_typed_ref r \<noteq> typed_ref t then (Inl (Typed_Ref_Mismatch (typed_ref t) (result_typed_ref r)), rt)
     else case map_get (jobs rt) (result_job_id r) of
       None \<Rightarrow> (Inl Job_Not_Found, rt)
     | Some j \<Rightarrow> and_then (orchestrateResult now ids env r t j)
         (\<lambda>resp rt. (Inr resp, rt_setTask (task_id (rs_task resp)) (rs_task resp) rt))
         (rt\<lparr>results := map_set (results rt) (result_job_id r) r\<rparr>))"

end
