(* ===== verification/Result_Steps.thy ===== *)
theory Result_Steps
  imports Results Control_Plane_Steps
begin

text \<open>
  Every handler of \<open>Results\<close> is a step of the task store: it moves the task it was handed once, or hands back a
  changed copy in the same state (\<open>handler_ok\<close>). What else it does leaves the tasks and their events alone
  (\<open>quiet\<close>).
\<close>

subsection \<open>Operations that leave the tasks alone\<close>

definition quiet :: "(runtime \<Rightarrow> runtime) \<Rightarrow> bool" where
  "quiet f = (\<forall>rt. store (plane (f rt)) = store (plane rt))"

lemma quietD: "quiet f \<Longrightarrow> store (plane (f rt)) = store (plane rt)"
  by (simp add: quiet_def)

lemma store_quiet [simp]:
  "store (plane (job_audit now ids t j ty p rt)) = store (plane rt)" "store (plane (release_lease j rt)) = store (plane rt)"
  "store (plane (finalizeJob j b rt)) = store (plane rt)" "store (plane (set_retries t j n rt)) = store (plane rt)"
  "store (plane (validation_audit now ids t j r rt)) = store (plane rt)" "store (plane (result_audits now ids t j r rt)) = store (plane rt)"
  "store (plane (after_blocked now ids t j r rt)) = store (plane rt)"
  "store (plane (acceptance_gate_audit now ids t j r rt)) = store (plane rt)"
  "store (plane (snd (emitRunSystemPacket now ids env t j r rt))) = store (plane rt)"
  by (simp_all add: job_audit_def release_lease_def finalizeJob_def set_retries_def validation_audit_def
      result_audits_def after_blocked_def acceptance_gate_audit_def emitRunSystemPacket_def Let_def split: option.split)

lemma quiet_lookup: "quiet f \<Longrightarrow> rt_lookup (f rt) k = rt_lookup rt k"
  by (simp add: rt_lookup_def cp_lookup_def quietD)

lemma store_run_store: "store_run a b \<Longrightarrow> store a' = store a \<Longrightarrow> store b' = store b \<Longrightarrow> store_run a' b'"
  by (simp add: store_run_def)

lemma cp_ok_store: "store a = store b \<Longrightarrow> cp_ok a = cp_ok b"
  by (simp add: cp_ok_def)

subsection \<open>Handlers\<close>

text \<open>The answer fits the stored task: it is a version of it at least as new, in the same state.\<close>

definition fits :: "task \<Rightarrow> result_response \<Rightarrow> runtime \<Rightarrow> bool" where
  "fits t resp rt = (\<exists>t0. rt_lookup rt (task_id t) = Some t0 \<and> task_id (rs_task resp) = task_id t \<and>
     task_id t0 = task_id t \<and> state (rs_task resp) = state t0 \<and> version t0 \<le> version (rs_task resp))"

definition handler_ok :: "task \<Rightarrow> (runtime \<Rightarrow> (error, result_response, runtime) outcome) \<Rightarrow> bool" where
  "handler_ok t h = (\<forall>rt x rt'. cp_ok (plane rt) \<longrightarrow> rt_lookup rt (task_id t) = Some t \<longrightarrow> h rt = (x, rt') \<longrightarrow>
     store_run (plane rt) (plane rt') \<and> (case x of Inl _ \<Rightarrow> True | Inr resp \<Rightarrow> fits t resp rt'))"

lemma handler_okI:
  assumes "\<And>rt x rt'. cp_ok (plane rt) \<Longrightarrow> rt_lookup rt (task_id t) = Some t \<Longrightarrow> h rt = (x, rt') \<Longrightarrow>
     store_run (plane rt) (plane rt') \<and> (case x of Inl _ \<Rightarrow> True | Inr resp \<Rightarrow> fits t resp rt')"
  shows "handler_ok t h"
  using assms unfolding handler_ok_def by blast

lemma handler_okD:
  assumes "handler_ok t h" and "cp_ok (plane rt)" and "rt_lookup rt (task_id t) = Some t" and "h rt = (x, rt')"
  shows "store_run (plane rt) (plane rt')" and "x = Inr resp \<Longrightarrow> fits t resp rt'"
proof -
  have "store_run (plane rt) (plane rt') \<and> (case x of Inl _ \<Rightarrow> True | Inr resp \<Rightarrow> fits t resp rt')"
    using assms unfolding handler_ok_def by blast
  then show "store_run (plane rt) (plane rt')" and "x = Inr resp \<Longrightarrow> fits t resp rt'" by auto
qed

lemma handler_ok_pre:
  assumes "handler_ok t h" and "quiet f"
  shows "handler_ok t (\<lambda>rt. h (f rt))"
proof (rule handler_okI)
  fix rt x rt'
  assume "cp_ok (plane rt)" and "rt_lookup rt (task_id t) = Some t" and "h (f rt) = (x, rt')"
  then have "cp_ok (plane (f rt))" "rt_lookup (f rt) (task_id t) = Some t" "h (f rt) = (x, rt')"
    using cp_ok_store [OF quietD [OF assms(2)], of rt] by (simp_all add: quiet_lookup [OF assms(2)])
  from handler_okD [OF assms(1) this]
  show "store_run (plane rt) (plane rt') \<and> (case x of Inl _ \<Rightarrow> True | Inr resp \<Rightarrow> fits t resp rt')"
    using quietD [OF assms(2), of rt] by (auto simp: store_run_def split: sum.split)
qed

lemma handler_ok_if: "handler_ok t h1 \<Longrightarrow> handler_ok t h2 \<Longrightarrow> handler_ok t (\<lambda>rt. if b rt then h1 rt else h2 rt)"
  unfolding handler_ok_def by metis

lemma fits_quiet: "quiet f \<Longrightarrow> fits t resp (f rt) = fits t resp rt"
  by (simp add: fits_def quiet_lookup)

text \<open>A task read from the store, changed by an update and moved.\<close>

lemma rt_move_step:
  assumes "cp_ok (plane rt)" and "rt_lookup rt (task_id t) = Some t" and "rt_move now eid u to inp rt = (Inr (ev, t'), rt')"
    and "task_id u = task_id t" and "state u = state t" and "version t \<le> version u"
  shows "store_run (plane rt) (plane rt')" and "rt_lookup rt' (task_id t) = Some t'" and "task_id t' = task_id t"
proof -
  have mv: "transitionTask now eid u to inp (store (plane rt)) = (Inr (ev, t'), store (plane rt'))"
    using assms(3) unfolding rt_move_def in_plane_iff cp_move_def in_store_simps by blast
  have t: "getTask (store (plane rt)) (task_id t) = Some t"
    using assms(2) by (simp add: rt_lookup_def cp_lookup_def)
  have "int (length (listEvents (store (plane rt)) (task_id t))) \<le> version t + 1"
    using store_okD [of "store (plane rt)", OF _ t] assms(1) by (simp add: cp_ok_def task_logged_def)
  with mv have "store_step (store (plane rt)) (store (plane rt'))"
    by (rule_tac step_move_copy [OF mv, of t]) (use t assms in simp_all)
  then show "store_run (plane rt) (plane rt')" by (simp add: store_run_def)
  show "rt_lookup rt' (task_id t) = Some t'" using rt.stored [OF assms(3), of "task_id t"] assms(4) by simp
  show "task_id t' = task_id t" using rt.moved [OF assms(3)] same_work_fields(1) assms(4) by metis
qed

lemma move_with_ok [intro]:
  assumes "quiet after" and "\<And>ev t'. rs_task (resp ev t') = t'"
  shows "handler_ok t (move_with now ids t upd to inp after resp)"
proof (rule handler_okI)
  fix rt x rt'
  let ?u = "applyTaskUpdate now t upd"
  assume ok: "cp_ok (plane rt)" and t: "rt_lookup rt (task_id t) = Some t"
    and run: "move_with now ids t upd to inp after resp rt = (x, rt')"
  show "store_run (plane rt) (plane rt') \<and> (case x of Inl _ \<Rightarrow> True | Inr resp \<Rightarrow> fits t resp rt')"
  proof (cases "rt_move now (op_event ids) ?u to inp rt" rule: prod.exhaust)
    case (Pair y rt1)
    note mv = this
    show ?thesis
    proof (cases y)
      case (Inl e)
      with mv run have "x = Inl e" "rt' = rt1" by (simp_all add: move_with_def and_then_def)
      moreover have "rt1 = rt" using mv Inl rt.move_Inl by blast
      ultimately show ?thesis by (simp add: store_run_same)
    next
      case (Inr p)
      obtain ev t' where p: "p = (ev, t')" by (cases p)
      have x: "x = Inr (resp ev t')" and rt': "rt' = after rt1"
        using mv run Inr p by (simp_all add: move_with_def and_then_def)
      note step = rt_move_step [OF ok t mv [unfolded Inr p]]
      have "store_run (plane rt) (plane rt1)" "rt_lookup rt1 (task_id t) = Some t'" "task_id t' = task_id t"
        by (rule step; simp)+
      moreover from this have "fits t (resp ev t') rt1" by (simp add: fits_def assms(2))
      ultimately show ?thesis
        using quietD [OF assms(1), of rt1] by (simp add: x rt' fits_quiet [OF assms(1)] store_run_def)
    qed
  qed
qed

lemma respond_task [simp]: "rs_task (respond na u ev t') = t'" "rs_task (retry_response now ids n j u ev t') = t'"
  "rs_next (respond na u ev t') = na" "rs_next (retry_response now ids n j u ev t') = N_Retry"
  "rs_events (respond na u ev t') = [ev]" "rs_events (retry_response now ids n j u ev t') = [ev]"
  by (simp_all add: respond_def retry_response_def)

lemma handlers_ok:
  "handler_ok t (handleRunSystemGateBlocked now ids t j r g)" "handler_ok t (handleBlockedResult now ids t j r ups)"
  "handler_ok t (handleDoomLoop now ids t j r l ups)" "handler_ok t (handleFinalFailure now ids env t j r c ups)"
  unfolding handleRunSystemGateBlocked_def handleBlockedResult_def handleDoomLoop_def handleFinalFailure_def Let_def
  by (simp_all add: move_with_ok quiet_def split: if_split)

lemma handleRetry_ok: "handler_ok t (handleRetry now ids t j r n c ups)"
  unfolding handleRetry_def Let_def
  by (rule handler_ok_pre [OF move_with_ok]) (simp_all add: quiet_def)

lemma handleFailover_ok: "handler_ok t (handleFailover now ids t j r w ups)"
  unfolding handleFailover_def Let_def
  by (rule handler_ok_pre [OF move_with_ok]) (simp_all add: quiet_def)

lemma handleValidationFailure_ok: "handler_ok t (handleValidationFailure now ids t j r es)"
proof (rule handler_okI)
  fix rt x rt'
  let ?n = "tracked_retries t (job_stage j) rt"
  assume a: "cp_ok (plane rt)" "rt_lookup rt (task_id t) = Some t" and run: "handleValidationFailure now ids t j r es rt = (x, rt')"
  have "handler_ok t (\<lambda>rt. move_with now ids t (mergeTaskUpdates [no_update, clear_job]) (stageToActiveState (job_stage j))
          (job_input Policy_Engine ''validation_layer'' (''retry '' @ attempt_text ?n j @ '' after schema validation failure'') j r)
          (release_lease j) (retry_response now ids ?n j clear_job)
          (set_retries t j (?n + 1) (job_audit now ids t j ''instruction_repair_attempted''
            (repair_payload j ?n ''schema validation failed - repair via retry'' (errors_payload es)) rt)))"
    by (rule handler_ok_pre [OF move_with_ok]) (simp_all add: quiet_def)
  note retry = handler_okD [OF this a]
  have "handler_ok t (move_with now ids t (mergeTaskUpdates [no_update, block_update
      (resume_block j (''Validation requires manual gate: '' @ errorSummary es) W_Policy)]) Blocked
        (job_input Control_Plane ''validation_layer'' (''validation failed: '' @ errorSummary es) j r)
        (\<lambda>rt. finalizeJob j True (job_audit now ids t j ''instruction_escalated''
          (worker_payload j @ [(''reason'', P_Str ''validation policy violation requires manual gate''), (''errors'', errors_payload es)]) rt))
        (respond N_Wait_Manual (block_update (resume_block j (''Validation requires manual gate: '' @ errorSummary es) W_Policy))))"
    by (rule move_with_ok) (simp_all add: quiet_def)
  note manual = handler_okD [OF this a]
  have "handler_ok t (move_with now ids t (mergeTaskUpdates [no_update, clear_job]) Rework_Required
          (job_input Control_Plane ''validation_layer'' (''validation failed: '' @ errorSummary es) j r)
          (finalizeJob j True) (respond N_Dispatch_Dev clear_job))"
    by (rule move_with_ok) (simp_all add: quiet_def)
  note rework = handler_okD [OF this a]
  show "store_run (plane rt) (plane rt') \<and> (case x of Inl _ \<Rightarrow> True | Inr resp \<Rightarrow> fits t resp rt')"
    using run retry [of x rt'] manual [of x rt'] rework [of x rt']
    by (auto simp: handleValidationFailure_def Let_def split: if_splits sum.split)
qed

lemma handleFailedResult_ok: "handler_ok t (handleFailedResult now ids env t j r ups)"
proof (rule handler_okI)
  fix rt x rt'
  assume a: "cp_ok (plane rt)" "rt_lookup rt (task_id t) = Some t" and run: "handleFailedResult now ids env t j r ups rt = (x, rt')"
  obtain found d where d: "detectLoop now (job_id j) (doomLoopDetector rt) = (found, d)" by (cases "detectLoop now (job_id j) (doomLoopDetector rt)")
  let ?c = "or_default (failure_class r) (classifyFromResult r)" and ?n = "or_default (result_retry_count r) (tracked_retries t (job_stage j) rt)"
  let ?rt1 = "rt\<lparr>doomLoopDetector := d\<rparr>"
  let ?rt2 = "if structured_failure r then job_audit now ids t j ''instruction_repair_attempted''
              (repair_payload j ?n ''structured output validation failed'' (structured_errors r)) ?rt1 else ?rt1"
  have a1: "cp_ok (plane ?rt1)" "rt_lookup ?rt1 (task_id t) = Some t" "store_run (plane rt) (plane ?rt1)"
    and a2: "cp_ok (plane ?rt2)" "rt_lookup ?rt2 (task_id t) = Some t" "store_run (plane ?rt1) (plane ?rt2)"
    using a by (simp_all add: store_run_same cp_ok_def job_audit_def)
  consider (loop) l where "handleDoomLoop now ids t j r l ups ?rt1 = (x, rt')"
    | (failover) w where "handleFailover now ids t j r w ups ?rt1 = (x, rt')"
    | (retry) "handleRetry now ids t j r ?n ?c ups ?rt2 = (x, rt')"
    | (final) "handleFinalFailure now ids env t j r ?c ups ?rt1 = (x, rt')"
    using run by (auto simp: handleFailedResult_def Let_def d split: option.splits if_splits)
  then have "store_run (plane ?rt1) (plane rt') \<and> (case x of Inl _ \<Rightarrow> True | Inr resp \<Rightarrow> fits t resp rt')"
  proof cases
    case loop
    show ?thesis using handler_okD [OF handlers_ok(3) a1(1,2) loop] by (auto split: sum.split)
  next
    case failover
    show ?thesis using handler_okD [OF handleFailover_ok a1(1,2) failover] by (auto split: sum.split)
  next
    case retry
    show ?thesis using handler_okD [OF handleRetry_ok a2(1,2) retry] store_run_trans [OF a2(3)] by (auto split: sum.split)
  next
    case final
    show ?thesis using handler_okD [OF handlers_ok(4) a1(1,2) final] by (auto split: sum.split)
  qed
  then show "store_run (plane rt) (plane rt') \<and> (case x of Inl _ \<Rightarrow> True | Inr resp \<Rightarrow> fits t resp rt')"
    using store_run_trans [OF a1(3)] by blast
qed

lemma handleSucceededStage_ok: "handler_ok t (handleSucceededStage now ids t j r ups)"
proof (cases "job_stage j")
  case Plan
  then show ?thesis unfolding handleSucceededStage_def Let_def by (simp add: move_with_ok quiet_def)
next
  case Dev
  then show ?thesis unfolding handleSucceededStage_def Let_def by (simp add: move_with_ok quiet_def)
next
  case Acceptance
  let ?after = "acceptance_gate_audit now ids t j r"
  show ?thesis
  proof (cases "has_outcome O_Reject r \<or> has_outcome O_Rework r")
    case True
    with Acceptance show ?thesis
      unfolding handleSucceededStage_def Let_def
      by simp (rule handler_ok_pre [OF move_with_ok], simp_all add: quiet_def)
  next
    case False
    show ?thesis
    proof (rule handler_okI)
      fix rt x rt'
      assume a: "cp_ok (plane rt)" "rt_lookup rt (task_id t) = Some t" and run: "handleSucceededStage now ids t j r ups rt = (x, rt')"
      then have rt': "rt' = ?after rt" and "\<exists>resp. x = Inr resp \<and> rs_task resp = applyTaskUpdate now t (acceptance_update t r ups)"
        using Acceptance False by (auto simp: handleSucceededStage_def Let_def)
      then show "store_run (plane rt) (plane rt') \<and> (case x of Inl _ \<Rightarrow> True | Inr resp \<Rightarrow> fits t resp rt')"
        using a by (auto simp: store_run_same fits_def rt_lookup_def cp_lookup_def)
    qed
  qed
qed

lemma handleSucceededResultFinal_ok: "handler_ok t (handleSucceededResultFinal now ids t j r ups)"
proof (rule handler_okI)
  fix rt x rt'
  assume a: "cp_ok (plane rt)" "rt_lookup rt (task_id t) = Some t" and run: "handleSucceededResultFinal now ids t j r ups rt = (x, rt')"
  obtain y rt1 where h: "handleSucceededStage now ids t j r ups rt = (y, rt1)" by (cases "handleSucceededStage now ids t j r ups rt")
  note s = handler_okD [OF handleSucceededStage_ok a h]
  have "quiet (finalizeJob j True)" by (simp add: quiet_def)
  then show "store_run (plane rt) (plane rt') \<and> (case x of Inl _ \<Rightarrow> True | Inr resp \<Rightarrow> fits t resp rt')"
    using run h s by (cases y) (auto simp: handleSucceededResultFinal_def and_then_def fits_quiet store_run_def)
qed

lemma orchestrateResult_ok: "handler_ok t (orchestrateResult now ids env r t j)"
proof (rule handler_okI)
  fix rt x rt'
  assume a: "cp_ok (plane rt)" "rt_lookup rt (task_id t) = Some t" and run: "orchestrateResult now ids env r t j rt = (x, rt')"
  obtain g rt1 where e: "emitRunSystemPacket now ids env t j r rt = (g, rt1)" by (cases "emitRunSystemPacket now ids env t j r rt")
  let ?rt0 = "validation_audit now ids t j r rt" and ?rt2 = "result_audits now ids t j r rt1"
  have st: "store (plane ?rt0) = store (plane rt)" "store (plane rt1) = store (plane rt)" "store (plane ?rt2) = store (plane rt)"
    using store_quiet(9) [of now ids env t j r rt] by (simp_all add: e)
  have pre: "cp_ok (plane c)" "rt_lookup c (task_id t) = Some t" if "store (plane c) = store (plane rt)" for c
    using that a by (simp_all add: cp_ok_def rt_lookup_def cp_lookup_def)
  have fin: "store_run (plane rt) (plane rt') \<and> (case x of Inl _ \<Rightarrow> True | Inr resp \<Rightarrow> fits t resp rt')"
    if h: "handler_ok t f" and eq: "f c = (x, rt')" and same: "store (plane c) = store (plane rt)" for f c
    using handler_okD [OF h pre [OF same] eq] same by (auto simp: store_run_def split: sum.split)
  show "store_run (plane rt) (plane rt') \<and> (case x of Inl _ \<Rightarrow> True | Inr resp \<Rightarrow> fits t resp rt')"
  proof (cases "rv_valid (validate_result r t j)")
    case False
    with run show ?thesis
      by (intro fin [OF handleValidationFailure_ok _ st(1)]) (simp add: orchestrateResult_def)
  next
    case True
    show ?thesis
    proof (cases "gr_blocks g")
      case True
      with run \<open>rv_valid _\<close> show ?thesis
        by (intro fin [OF handlers_ok(1) _ st(2)]) (simp add: orchestrateResult_def e)
    next
      case False
      show ?thesis
      proof (cases "result_status r")
        case S_Succeeded
        with run \<open>rv_valid _\<close> False show ?thesis
          by (intro fin [OF handleSucceededResultFinal_ok _ st(3)]) (simp add: orchestrateResult_def e Let_def)
      next
        case S_Failed
        with run \<open>rv_valid _\<close> False show ?thesis
          by (intro fin [OF handleFailedResult_ok _ st(3)]) (simp add: orchestrateResult_def e Let_def)
      next
        case S_Blocked
        with run \<open>rv_valid _\<close> False show ?thesis
          by (intro fin [OF handlers_ok(2) _ st(3)]) (simp add: orchestrateResult_def e Let_def)
      qed
    qed
  qed
qed

lemma rt_requireTask_Some: "rt_lookup rt tid = Some t \<Longrightarrow> rt_requireTask tid rt = (Inr t, rt)"
  by (simp add: rt_requireTask_def in_plane_def rt_lookup_def cp_requireTask_Some)

lemma rt_requireTask_None: "rt_lookup rt tid = None \<Longrightarrow> \<exists>e. rt_requireTask tid rt = (Inl e, rt)"
  by (auto simp: rt_requireTask_def in_plane_def rt_lookup_def cp_requireTask_def in_store_def cp_lookup_def requireTask_None)

lemma rt_setTask_run:
  assumes "fits t resp rt"
  shows "store_run (plane rt) (plane (rt_setTask (task_id (rs_task resp)) (rs_task resp) rt))"
proof -
  from assms obtain t0 where t0: "getTask (store (plane rt)) (task_id t) = Some t0" "task_id (rs_task resp) = task_id t"
      "task_id t0 = task_id t" "state (rs_task resp) = state t0" "version t0 \<le> version (rs_task resp)"
    by (auto simp: fits_def rt_lookup_def cp_lookup_def)
  have "store_step (store (plane rt)) (setTask (task_id t) (rs_task resp) (store (plane rt)))"
    by (rule step_set [OF t0(1)]) (simp_all add: t0)
  then show ?thesis by (simp add: store_run_def rt_setTask_def t0(2))
qed

text \<open>The cases of \<open>applyResult\<close>.\<close>

lemma applyResult_cases:
  assumes "rt_lookup rt tid = Some t"
  shows "applyResult now ids env tid r rt =
    (if falsy (active_job_id t) \<or> active_job_id t \<noteq> Some (result_job_id r) then (Inr (unchanged_response t), rt)
     else if result_typed_ref r \<noteq> typed_ref t then (Inl (Typed_Ref_Mismatch (typed_ref t) (result_typed_ref r)), rt)
     else case map_get (jobs rt) (result_job_id r) of None \<Rightarrow> (Inl Job_Not_Found, rt)
     | Some j \<Rightarrow> (case orchestrateResult now ids env r t j (rt\<lparr>results := map_set (results rt) (result_job_id r) r\<rparr>) of
         (Inl e, rt1) \<Rightarrow> (Inl e, rt1)
       | (Inr resp, rt1) \<Rightarrow> (Inr resp, rt_setTask (task_id (rs_task resp)) (rs_task resp) rt1)))"
  unfolding applyResult_def and_then_def rt_requireTask_Some [OF assms]
  by (auto simp: and_then_def falsy_def split: option.split)

lemma applyResult_run:
  assumes "applyResult now ids env tid r rt = (x, rt')" and "cp_ok (plane rt)"
  shows "store_run (plane rt) (plane rt')"
proof (cases "rt_lookup rt tid")
  case None
  with rt_requireTask_None [OF None] assms(1) show ?thesis
    by (auto simp: applyResult_def and_then_def store_run_same)
next
  case (Some t)
  then have id: "task_id t = tid"
    using assms(2) store_ok_id by (auto simp: cp_ok_def rt_lookup_def cp_lookup_def)
  note run = assms(1) [unfolded applyResult_cases [OF Some]]
  show ?thesis
  proof (cases "falsy (active_job_id t) \<or> active_job_id t \<noteq> Some (result_job_id r) \<or> result_typed_ref r \<noteq> typed_ref t \<or>
      map_get (jobs rt) (result_job_id r) = None")
    case True
    with run show ?thesis by (auto simp: store_run_same split: if_splits)
  next
    case False
    then obtain j where j: "map_get (jobs rt) (result_job_id r) = Some j" by auto
    let ?rt0 = "rt\<lparr>results := map_set (results rt) (result_job_id r) r\<rparr>"
    obtain y rt1 where o: "orchestrateResult now ids env r t j ?rt0 = (y, rt1)" by (cases "orchestrateResult now ids env r t j ?rt0")
    note h = handler_okD [OF orchestrateResult_ok, of ?rt0 t, OF _ _ o]
    have "store_run (plane rt) (plane rt1)" and f: "y = Inr resp \<Longrightarrow> fits t resp rt1" for resp
      using h assms(2) Some id by simp_all
    moreover have "rt' = (case y of Inl e \<Rightarrow> rt1 | Inr resp \<Rightarrow> rt_setTask (task_id (rs_task resp)) (rs_task resp) rt1)"
      using run False j o by (auto split: sum.splits)
    ultimately show ?thesis
      using store_run_trans rt_setTask_run [OF f] by (cases y) auto
  qed
qed

end
