(* ===== verification/Dispatch.thy ===== *)
theory Dispatch
  imports Result_Decisions
begin

text \<open>
  Handing a stage of a task to a worker (\<open>src/src/domain/dispatch/dispatch-orchestrator.ts\<close>,
  \<open>src/src/store/services/job-service.ts\<close>). The worker executor is outside: what it answers to a submission is
  the argument \<open>submission\<close>. \<open>dispatch\<close> of the job service awaits that answer, so it is two operations,
  \<open>dispatch_begin\<close> and \<open>dispatch_end\<close>, and other operations can come between them.
\<close>

subsection \<open>Time and loop fingerprints\<close>

definition pad :: "nat \<Rightarrow> string \<Rightarrow> string" where
  "pad n s = replicate (n - length s) CHR ''0'' @ s"

text \<open>The civil date of a day counted from 1970-01-01 (proleptic Gregorian calendar).\<close>

definition civil_date :: "int \<Rightarrow> int \<times> int \<times> int" where
  "civil_date days =
     (let z = days + 719468; era = z div 146097; doe = z mod 146097;
          yoe = (doe - doe div 1460 + doe div 36524 - doe div 146096) div 365;
          doy = doe - (365 * yoe + yoe div 4 - yoe div 100); mp = (5 * doy + 2) div 153;
          d = doy - (153 * mp + 2) div 5 + 1; m = (if mp < 10 then mp + 3 else mp - 9)
      in (yoe + era * 400 + (if m \<le> 2 then 1 else 0), m, d))"

text \<open>\<open>toISOString\<close> of the years 0 to 9999.\<close>

definition iso_time :: "time \<Rightarrow> string" where
  "iso_time now =
     (let (y, m, d) = civil_date (now div 86400000); ms = now mod 86400000; two = (\<lambda>n. pad 2 (show_int n))
      in pad 4 (show_int y) @ ''-'' @ two m @ ''-'' @ two d @ ''T'' @ two (ms div 3600000) @ '':'' @
         two (ms div 60000 mod 60) @ '':'' @ two (ms div 1000 mod 60) @ ''.'' @ pad 3 (show_int (ms mod 1000)) @ ''Z'')"

definition hash_step :: "32 word \<Rightarrow> char \<Rightarrow> 32 word" where
  "hash_step h c = (push_bit 5 h - h) + word_of_nat (of_char c)"

definition simpleHash :: "string \<Rightarrow> string" where
  "simpleHash s = pad8 (show_hex (nat \<bar>sint (foldl hash_step 0 s)\<bar>))"

definition generateLoopFingerprint :: "time \<Rightarrow> string \<Rightarrow> worker_stage \<Rightarrow> string" where
  "generateLoopFingerprint now tid st = ''loop:'' @ tid @ '':'' @ stage_name st @ '':'' @
     simpleHash (tid @ '':'' @ stage_name st @ '':'' @ iso_time now)"

subsection \<open>The orchestrator\<close>

record dispatch_request =
  dr_stage :: worker_stage
  dr_worker :: "worker_type option"
  dr_risk :: "risk_level option"

datatype dispatch_result = Dispatched worker_job task_state | Dispatch_Blocked "capability list" task_state

definition checkWorkerCapabilities :: "worker_type \<Rightarrow> worker_stage \<Rightarrow> runtime \<Rightarrow> check_result \<times> runtime" where
  "checkWorkerCapabilities w st rt =
     (let name = worker_name w;
          rt1 = (if getWorkerCapabilities (capabilityManager rt) name = []
            then rt\<lparr>capabilityManager := registerWorkerCapabilities name (DEFAULT_WORKER_CAPABILITIES w) (capabilityManager rt)\<rparr> else rt);
          caps = getWorkerCapabilities (capabilityManager rt1) name
      in (checkCapabilities (getAllRequiredCapabilities \<lparr>opt_stage = st, opt_worker_capabilities = caps, requires_network = False,
            under_approval_flow = False, produces_patch_artifact = False\<rparr>) caps, rt1))"

fun stage_upper :: "worker_stage \<Rightarrow> string" where
  "stage_upper Plan = ''PLAN''"
| "stage_upper Dev = ''DEV''"
| "stage_upper Acceptance = ''ACCEPTANCE''"

definition text_if :: "string \<Rightarrow> string option \<Rightarrow> string list" where
  "text_if label v = (if falsy v then [] else [label @ the v])"

definition renderReworkContext :: "rework_context \<Rightarrow> string" where
  "renderReworkContext c = js_join newline
     ([''Rework context:'', ''- Source job: '' @ rework_source_job_id c, ''- Failed stage: '' @ stage_name (rework_stage c),
       ''- Attempt: '' @ show_int (rework_attempt c) @ ''/'' @ show_int (rework_max_attempts c), ''- Reason: '' @ rework_reason c] @
      text_if ''- Failure summary: '' (rework_failure_summary c) @
      text_if (''- Test failure summary:'' @ newline) (rework_test_failure_summary c) @
      (if rework_artifact_ids c = [] then [] else [''- Evidence artifacts: '' @ js_join '', '' (rework_artifact_ids c)]) @
      [''Use this context to repair the previous failure. Do not repeat unchanged failing work.''])"

definition buildPrompt :: "task \<Rightarrow> worker_stage \<Rightarrow> string" where
  "buildPrompt t st = js_join (newline @ newline)
     ([stage_upper st @ '' task: '' @ title t, ''Objective: '' @ objective t] @ text_if ''Description: '' (description t) @
      (case rework_context t of Some c \<Rightarrow> if st = Dev then [renderReworkContext c] else [] | None \<Rightarrow> []))"

definition dispatch_context :: "task \<Rightarrow> job_context" where
  "dispatch_context t = \<lparr>context_objective = Some (objective t), context_acceptance_criteria = None, context_constraints = None,
     context_doc_refs = (case resolver_refs t of Some rr \<Rightarrow> doc_refs rr | None \<Rightarrow> None),
     context_chunk_refs = (case resolver_refs t of Some rr \<Rightarrow> chunk_refs rr | None \<Rightarrow> None),
     context_contract_refs = (case resolver_refs t of Some rr \<Rightarrow> contract_refs rr | None \<Rightarrow> None),
     context_tracker_refs = map_option (map ext_value) (external_refs t), instruction_envelope_ref = None\<rparr>"

definition base_job :: "time \<Rightarrow> string \<Rightarrow> task \<Rightarrow> worker_stage \<Rightarrow> worker_type \<Rightarrow> risk_level \<Rightarrow> capability list \<Rightarrow> lease \<Rightarrow> int \<Rightarrow> worker_job" where
  "base_job now jid t st w risk required l retries = \<lparr>job_id = jid, job_task_id = task_id t, job_typed_ref = typed_ref t, job_stage = st,
     job_worker_type = w, job_status = J_Pending,
     job_workspace_ref = (case workspace_ref t of Some ws \<Rightarrow> ws
       | None \<Rightarrow> \<lparr>workspace_id = ''ws_'' @ task_id t, workspace_kind = Container, reusable = Some True\<rparr>),
     executor_instance_id = None, job_repo_ref = repo_ref t, input_prompt = buildPrompt t st, capability_requirements = required,
     job_risk_level = risk, job_approval_policy = buildApprovalPolicy st risk,
     job_retry_policy = Some \<lparr>max_retries = getDefaultMaxRetries (stage_name st), backoff_base_seconds = 2, max_backoff_seconds = 60,
       jitter_enabled = True\<rparr>,
     job_retry_count = Some retries, job_loop_fingerprint = Some (generateLoopFingerprint now (task_id t) st),
     job_lease_owner = Some (lease_owner l), job_lease_expires_at = Some (lease_expires_at l),
     job_context = Some (dispatch_context t), job_instruction_envelope = None,
     job_requested_outputs = Some (getRequestedOutputs st), job_execution_backend = None, job_metadata = []\<rparr>"

definition with_envelope :: "task \<Rightarrow> worker_job \<Rightarrow> worker_job" where
  "with_envelope t j = j
     \<lparr>job_metadata := map_set (map_set (job_metadata j) ''instruction_envelope_version'' (J_Str ''2.0''))
        ''instruction_envelope_stage'' (J_Str (stage_name (job_stage j))),
      job_context := map_option (\<lambda>c. c\<lparr>instruction_envelope_ref := Some (''envelope:'' @ job_id j @ '':'' @ stage_name (job_stage j))\<rparr>) (job_context j),
      job_instruction_envelope := Some (compile_envelope t j no_options)\<rparr>"

definition start_job :: "time \<Rightarrow> op_ids \<Rightarrow> task \<Rightarrow> worker_job \<Rightarrow> runtime \<Rightarrow> runtime" where
  "start_job now ids t j rt =
     (let w = worker_name (job_worker_type j); st = stage_name (job_stage j); to = stageToActiveState (job_stage j) in
      rt_audit now ids (task_id t) ''instruction_envelope_compiled''
        (stage_payload j @ [(''envelope_version'', P_Str ''2.0''),
           (''output_kind'', P_Str (output_kind_name (env_output_kind (compile_envelope t j no_options))))])
        (job_options None (Some (job_id j)))
        (rt\<lparr>jobs := map_set (jobs rt) (job_id j) j,
           concurrencyManager := recordStart now \<lparr>ep_job_id = job_id j, ep_worker_id = w, ep_stage = st\<rparr> (concurrencyManager rt),
           doomLoopDetector := trackTransition now (job_id j) (state_name (state t)) (state_name to) st (doomLoopDetector rt)\<rparr>))"

definition dispatch_orchestrate :: "time \<Rightarrow> op_ids \<Rightarrow> task \<Rightarrow> dispatch_request \<Rightarrow> runtime \<Rightarrow> (error, dispatch_result, runtime) outcome" where
  "dispatch_orchestrate now ids t req rt = (case getAllowedDispatchStage (state t) of
       Inl e \<Rightarrow> (Inl e, rt)
     | Inr st \<Rightarrow>
        if st \<noteq> dr_stage req
        then (Inl (Plain_Error (''state '' @ state_name (state t) @ '' cannot dispatch '' @ stage_name (dr_stage req))), rt)
        else let w = or_default (dr_worker req) (getDefaultWorker st); risk = or_default (dr_risk req) (risk_level t);
               (check, rt1) = checkWorkerCapabilities w st rt in
          if \<not> cr_passed check
          then (Inr (Dispatch_Blocked (cr_missing check) (stageToActiveState st)),
            rt_audit now ids (task_id t) ''capability_mismatch''
              [(''stage'', P_Str (stage_name st)), (''worker_type'', P_Str (worker_name w)),
               (''missing_capabilities'', P_List (map capability_name (cr_missing check))),
               (''required_capabilities'', P_List (map capability_name (cr_required check))),
               (''present_capabilities'', P_List (map capability_name (cr_present check)))] (job_options None None) rt1)
          else case canAccept (concurrencyManager rt1) (worker_name w) of
            Some why \<Rightarrow> (Inl (Plain_Error (''cannot dispatch: '' @ capacity_reason_name why)),
              rt_audit now ids (task_id t) ''lock_conflict''
                [(''stage'', P_Str (stage_name st)), (''worker_type'', P_Str (worker_name w)),
                 (''reason'', P_Str (capacity_reason_name why))] (job_options None None) rt1)
          | None \<Rightarrow> (case acquire now (leaseManager rt1) (op_job ids) (worker_name w) of
              (None, lm) \<Rightarrow> (Inl (Plain_Error ''Failed to acquire lease for job''), rt1)
            | (Some l, lm) \<Rightarrow>
                let j = with_envelope t (base_job now (op_job ids) t st w risk (cr_required check) l (tracked_retries t st rt1))
                in (Inr (Dispatched j (stageToActiveState st)), start_job now ids t j (rt1\<lparr>leaseManager := lm\<rparr>))))"

subsection \<open>The job service\<close>

text \<open>What the first half of \<open>dispatch\<close> keeps while it waits: the copy of the task it read, the job and the next state.\<close>

record pending =
  pd_task :: task
  pd_job :: worker_job
  pd_next :: task_state

record submission =
  sub_success :: bool
  sub_error :: "string option"
  sub_backend :: "execution_backend option"
  sub_fallback :: "string option"

definition plane_input :: "string \<Rightarrow> string option \<Rightarrow> transition_input" where
  "plane_input why jid = \<lparr>in_actor_type = Control_Plane, in_actor_id = ''shipyard-cp'', in_reason = why, in_job_id = jid,
     in_artifact_ids = None\<rparr>"

definition missing_text :: "capability list \<Rightarrow> string" where
  "missing_text cs = ''['' @ js_join '', '' (map capability_name cs) @ '']''"

definition capability_block :: "capability list \<Rightarrow> task_state \<Rightarrow> blocked_context" where
  "capability_block cs resume = (mk_block resume ''insufficient_capability'' W_Worker)\<lparr>capability_missing := Some cs\<rparr>"

definition dispatch_begin :: "time \<Rightarrow> op_ids \<Rightarrow> string \<Rightarrow> dispatch_request \<Rightarrow> runtime \<Rightarrow> (error, pending, runtime) outcome" where
  "dispatch_begin now ids tid req = and_then (rt_requireTask tid) (\<lambda>t. and_then (dispatch_orchestrate now ids t req) (\<lambda>res rt.
     case res of
       Dispatched j next \<Rightarrow> (Inr \<lparr>pd_task = t, pd_job = j, pd_next = next\<rparr>, rt)
     | Dispatch_Blocked cs resume \<Rightarrow>
         and_then (rt_move now (op_event ids) (t\<lparr>blocked_context := Some (capability_block cs resume)\<rparr>) Blocked
             (plane_input (''capability mismatch for '' @ stage_name (dr_stage req) @ '': missing '' @ missing_text cs) None))
           (\<lambda>_ rt. (Inl (Plain_Error (''cannot dispatch: missing capabilities '' @ missing_text cs)), rt)) rt))"

definition submission_failure :: "submission \<Rightarrow> string" where
  "submission_failure s = or_default (sub_error s) ''unknown worker submission failure''"

definition backend_refused :: "string \<Rightarrow> bool" where
  "backend_refused msg = (js_includes msg ''WORKER_BACKEND_UNAVAILABLE'' \<or> js_includes msg ''WORKER_BACKEND_POLICY_DENIED'')"

definition selected_job :: "string \<Rightarrow> worker_job \<Rightarrow> submission \<Rightarrow> worker_job" where
  "selected_job instance_id j s = j\<lparr>job_execution_backend := sub_backend s, executor_instance_id := Some instance_id,
     job_metadata := map_set (map_set (job_metadata j) ''execution_backend'' (J_Str (backend_name (or_default (sub_backend s) External_Backend))))
       ''fallback_reason'' (case sub_fallback s of Some x \<Rightarrow> J_Str x | None \<Rightarrow> J_Null)\<rparr>"

definition dispatched_task :: "task \<Rightarrow> worker_job \<Rightarrow> task" where
  "dispatched_task t j = t\<lparr>active_job_id := Some (job_id j), latest_job_ids := (latest_job_ids t)(job_stage j \<mapsto> job_id j),
     workspace_ref := Some (job_workspace_ref j)\<rparr>"

definition dispatch_end :: "time \<Rightarrow> op_ids \<Rightarrow> string \<Rightarrow> pending \<Rightarrow> submission \<Rightarrow> runtime \<Rightarrow> (error, worker_job, runtime) outcome" where
  "dispatch_end now ids instance_id pd s rt =
     (let t = pd_task pd; j = pd_job pd; msg = submission_failure s; failed = Inl (Plain_Error (''Failed to submit job: '' @ msg)) in
      if \<not> sub_success s
      then if backend_refused msg
        then and_then (rt_move now (op_event ids) (t\<lparr>blocked_context := Some (mk_block (pd_next pd)
               (if js_includes msg ''POLICY_DENIED'' then ''worker_backend_policy_denied'' else ''worker_backend_unavailable'') W_Worker)\<rparr>)
               Blocked (plane_input msg (Some (job_id j)))) (\<lambda>_ rt. (failed, rt)) rt
        else (failed, rt)
      else let sj = selected_job instance_id j s in
        and_then (rt_move now (op_event ids) (dispatched_task t j) (pd_next pd)
            (plane_input (''dispatched '' @ stage_name (job_stage j) @ '' job'') (Some (job_id j)))) (\<lambda>_ rt. (Inr sj, rt))
          (rt_audit now ids (job_task_id j) ''run.workerBackendSelected''
             [(''worker_type'', P_Str (worker_name (job_worker_type j))),
              (''execution_backend'', P_Str (backend_name (or_default (sub_backend s) External_Backend))),
              (''fallback_reason'', P_Opt (sub_fallback s))]
             \<lparr>ao_run_id = None, ao_job_id = Some (job_id j), ao_actor_type = Some Control_Plane, ao_actor_id = Some ''shipyard-cp''\<rparr>
             (rt\<lparr>jobs := map_set (jobs rt) (job_id sj) sj\<rparr>)))"

text \<open>A dispatch with nothing in between.\<close>

definition dispatch :: "time \<Rightarrow> op_ids \<Rightarrow> string \<Rightarrow> string \<Rightarrow> dispatch_request \<Rightarrow> submission \<Rightarrow> runtime \<Rightarrow> (error, worker_job, runtime) outcome" where
  "dispatch now ids instance_id tid req s = and_then (dispatch_begin now ids tid req) (\<lambda>pd. dispatch_end now ids instance_id pd s)"

subsection \<open>The end of a job\<close>

text \<open>
  The message of an error; placeholders of the templates are filled with texts that contain no dollar sign. The text of
  the engine for a type error is the argument \<open>engine\<close>.
\<close>

fun error_message :: "string \<Rightarrow> error \<Rightarrow> string" where
  "error_message engine (Task_Not_Found tid) = ''task not found: '' @ tid"
| "error_message engine (Task_Invalid_State want cur) = ''task is not in '' @ state_name want @ '' state (current: '' @ state_name cur @ '')''"
| "error_message engine Objective_Required = ''objective is required''"
| "error_message engine Typed_Ref_Required = ''typed_ref is required''"
| "error_message engine (Typed_Ref_Invalid_Format r) = ''typed_ref invalid format: '' @ r"
| "error_message engine (Task_Id_Mismatch want got) = ''task_id mismatch: expected '' @ want @ '', got '' @ got"
| "error_message engine (From_State_Mismatch cur want) = ''from_state mismatch: task is in '' @ state_name cur @ '', not '' @ state_name want"
| "error_message engine Job_Not_Found = ''job not found''"
| "error_message engine (Transition_Not_Allowed from to) = ''transition not allowed: '' @ state_name from @ '' -> '' @ state_name to"
| "error_message engine (Cannot_Dispatch_Worker st) = ''state '' @ state_name st @ '' cannot dispatch a worker job''"
| "error_message engine (Typed_Ref_Mismatch want got) = ''typed_ref mismatch: expected '' @ want @ '', got '' @ got"
| "error_message engine Integration_State_Not_Found = ''integration state not found''"
| "error_message engine (Plain_Error msg) = msg"
| "error_message engine Type_Error = engine"

definition poll_failure_result :: "worker_job \<Rightarrow> string \<Rightarrow> worker_result" where
  "poll_failure_result j msg = \<lparr>result_job_id = job_id j, result_typed_ref = job_typed_ref j, result_status = S_Failed,
     summary = Some (''Worker job failed: '' @ msg), result_patch_ref = None, result_branch_ref = None, result_artifacts = [],
     result_test_results = [], result_verdict = None, requested_escalations = [], result_retry_count = None,
     failure_class = Some Retryable_Transient, failure_code = Some ''worker_poll_failed'', failure_summary = Some msg,
     result_resolver_refs = None, result_external_refs = None, result_context_bundle_ref = None, result_rollback_notes = None,
     result_loop_fingerprint = None, result_side_effects = None,
     result_metadata = Some [(''source'', J_Str ''job-service.pollJobCompletion'')], runtime_ms = 0, exit_code = Some 1, litellm_model = None\<rparr>"

definition poll_failed :: "time \<Rightarrow> op_ids \<Rightarrow> result_env \<Rightarrow> worker_job \<Rightarrow> string \<Rightarrow> runtime \<Rightarrow> runtime" where
  "poll_failed now ids env j msg rt =
     (let r = poll_failure_result j msg in
      case applyResult now ids env (job_task_id j) r (rt\<lparr>jobs := map_set (jobs rt) (job_id j) (j\<lparr>job_status := J_Failed\<rparr>)\<rparr>) of
        (Inr _, rt1) \<Rightarrow> rt1
      | (Inl _, rt1) \<Rightarrow> rt1\<lparr>results := map_set (results rt1) (job_id j) r\<rparr>)"

text \<open>\<open>j\<close> is the job as it was when the polling started. An error while the result is applied counts as a failed job.\<close>

definition poll_completed :: "time \<Rightarrow> op_ids \<Rightarrow> op_ids \<Rightarrow> string \<Rightarrow> result_env \<Rightarrow> worker_job \<Rightarrow> worker_result \<Rightarrow> runtime \<Rightarrow> runtime" where
  "poll_completed now ids ids2 engine env j r rt =
     (case applyResult now ids env (job_task_id j) r (rt\<lparr>jobs := map_set (jobs rt) (job_id j) (j\<lparr>job_status := J_Completed\<rparr>)\<rparr>) of
        (Inr _, rt1) \<Rightarrow> rt1
      | (Inl e, rt1) \<Rightarrow> poll_failed now ids2 env j (error_message engine e) rt1)"

subsection \<open>Jobs and results\<close>

definition job_heartbeat :: "time \<Rightarrow> string \<Rightarrow> string \<Rightarrow> runtime \<Rightarrow> (error, string \<times> heartbeat_response, runtime) outcome" where
  "job_heartbeat now jid worker rt = (case map_get (jobs rt) jid of
       None \<Rightarrow> (Inl (Plain_Error (''job not found: '' @ jid)), rt)
     | Some j \<Rightarrow> (case heartbeat now (leaseManager rt) jid worker of
         (None, lm) \<Rightarrow> (Inl (Plain_Error ''heartbeat rejected: not lease owner or job orphaned''), rt\<lparr>leaseManager := lm\<rparr>)
       | (Some resp, lm) \<Rightarrow> (Inr (jid, resp), rt\<lparr>leaseManager := lm\<rparr>)))"

definition getJob :: "string \<Rightarrow> runtime \<Rightarrow> worker_job option \<times> worker_result option" where
  "getJob jid rt = (map_get (jobs rt) jid, map_get (results rt) jid)"

definition getJobsForTask :: "string \<Rightarrow> runtime \<Rightarrow> worker_job list" where
  "getJobsForTask tid rt = filter (\<lambda>j. job_task_id j = tid) (map_values (jobs rt))"

definition setJob :: "string \<Rightarrow> worker_job \<Rightarrow> runtime \<Rightarrow> runtime" where
  "setJob jid j rt = rt\<lparr>jobs := map_set (jobs rt) jid j\<rparr>"

definition setResult :: "string \<Rightarrow> worker_result \<Rightarrow> runtime \<Rightarrow> runtime" where
  "setResult jid r rt = rt\<lparr>results := map_set (results rt) jid r\<rparr>"

definition left_behind :: "string \<Rightarrow> worker_job \<Rightarrow> bool" where
  "left_behind instance_id j = ((job_status j = J_Pending \<or> job_status j = J_Running) \<and> executor_instance_id j \<noteq> Some instance_id)"

definition orphaned_job :: "string \<Rightarrow> worker_job \<Rightarrow> worker_job" where
  "orphaned_job instance_id j = j\<lparr>job_status := J_Failed, job_metadata :=
     map_set (map_set (map_set (job_metadata j) ''orphaned'' (J_Bool True)) ''orphaned_reason'' (J_Str ''executor_instance_restarted''))
       ''recovered_by_instance'' (J_Str instance_id)\<rparr>"

definition recoverRestoredActiveJobs :: "string \<Rightarrow> runtime \<Rightarrow> worker_job list \<times> runtime" where
  "recoverRestoredActiveJobs instance_id rt =
     (let found = map (orphaned_job instance_id) (filter (left_behind instance_id) (map_values (jobs rt)))
      in (found, rt\<lparr>jobs := foldl (\<lambda>m j. map_set m (job_id j) j) (jobs rt) found\<rparr>))"

text \<open>The restart of the store, after the records are loaded.\<close>

definition recover_restart :: "time \<Rightarrow> string \<Rightarrow> (worker_job \<Rightarrow> fresh_ids) \<Rightarrow> runtime \<Rightarrow> (error, unit, runtime) outcome" where
  "recover_restart now instance_id fresh rt =
     (let (found, rt1) = recoverRestoredActiveJobs instance_id rt
      in in_plane (recover_jobs now instance_id (map (\<lambda>j. (j, fresh j)) found)) rt1)"

definition canDispatchWithLease :: "time \<Rightarrow> string \<Rightarrow> worker_stage \<Rightarrow> runtime \<Rightarrow> bool" where
  "canDispatchWithLease now tid st rt = (case rt_lookup rt tid of
       None \<Rightarrow> False
     | Some t \<Rightarrow> if st = Dev \<and> state t = Planned
         then (case active_job_id t of None \<Rightarrow> False
           | Some jid \<Rightarrow> jid \<noteq> [] \<and> getLease (leaseManager rt) jid \<noteq> None \<and> \<not> isExpired now (leaseManager rt) jid)
         else True)"

definition clear_jobs :: "runtime \<Rightarrow> runtime" where
  "clear_jobs rt = rt\<lparr>jobs := [], results := [], retryTracker := []\<rparr>"

subsection \<open>What a dispatch does\<close>

lemma start_job_simps [simp]:
  "store (plane (start_job now ids t j rt)) = store (plane rt)" "leaseManager (start_job now ids t j rt) = leaseManager rt"
  "capabilityManager (start_job now ids t j rt) = capabilityManager rt" "retryTracker (start_job now ids t j rt) = retryTracker rt"
  "jobs (start_job now ids t j rt) = map_set (jobs rt) (job_id j) j"
  "concurrencyManager (start_job now ids t j rt) = recordStart now
     \<lparr>ep_job_id = job_id j, ep_worker_id = worker_name (job_worker_type j), ep_stage = stage_name (job_stage j)\<rparr> (concurrencyManager rt)"
  by (simp_all add: start_job_def Let_def)

lemma checkWorkerCapabilities_frame:
  assumes "checkWorkerCapabilities w st rt = (c, rt1)"
  shows "plane rt1 = plane rt" "leaseManager rt1 = leaseManager rt" "concurrencyManager rt1 = concurrencyManager rt"
    "jobs rt1 = jobs rt" "retryTracker rt1 = retryTracker rt" "doomLoopDetector rt1 = doomLoopDetector rt"
  using assms by (auto simp: checkWorkerCapabilities_def Let_def split: if_splits)

lemma base_job_simps [simp]:
  "job_id (base_job now jid t st w risk req l n) = jid" "job_task_id (base_job now jid t st w risk req l n) = task_id t"
  "job_stage (base_job now jid t st w risk req l n) = st" "job_worker_type (base_job now jid t st w risk req l n) = w"
  "job_typed_ref (base_job now jid t st w risk req l n) = typed_ref t" "capability_requirements (base_job now jid t st w risk req l n) = req"
  "job_risk_level (base_job now jid t st w risk req l n) = risk" "job_status (base_job now jid t st w risk req l n) = J_Pending"
  by (simp_all add: base_job_def)

lemma with_envelope_simps [simp]:
  "job_id (with_envelope t j) = job_id j" "job_task_id (with_envelope t j) = job_task_id j" "job_stage (with_envelope t j) = job_stage j"
  "job_worker_type (with_envelope t j) = job_worker_type j" "job_typed_ref (with_envelope t j) = job_typed_ref j"
  "capability_requirements (with_envelope t j) = capability_requirements j" "job_risk_level (with_envelope t j) = job_risk_level j"
  "job_status (with_envelope t j) = job_status j"
  by (simp_all add: with_envelope_def)

definition chosen_worker :: "dispatch_request \<Rightarrow> worker_type" where
  "chosen_worker req = or_default (dr_worker req) (getDefaultWorker (dr_stage req))"

text \<open>The capabilities a worker is known to have: the registered ones, or by default those of its kind.\<close>

definition known_capabilities :: "worker_type \<Rightarrow> runtime \<Rightarrow> capability list" where
  "known_capabilities w rt = (if getWorkerCapabilities (capabilityManager rt) (worker_name w) = [] then DEFAULT_WORKER_CAPABILITIES w
     else getWorkerCapabilities (capabilityManager rt) (worker_name w))"

lemma check_result:
  "fst (checkWorkerCapabilities w st rt) = checkCapabilities (stage_requirements st) (known_capabilities w rt)"
  by (simp add: checkWorkerCapabilities_def Let_def known_capabilities_def getWorkerCapabilities_def registerWorkerCapabilities_def
      stage_requirements_def getAllRequiredCapabilities_def)

lemma check_passed:
  "cr_passed (checkCapabilities req caps) \<longleftrightarrow> set req \<subseteq> set caps" "cr_required (checkCapabilities req caps) = req"
proof -
  have "snd (split_required caps req) = filter (\<lambda>c. c \<notin> set caps) req"
    by (induction req) (auto split: prod.split)
  then show "cr_passed (checkCapabilities req caps) \<longleftrightarrow> set req \<subseteq> set caps"
    using filter_empty_conv [of "\<lambda>c. c \<notin> set caps" req] by (auto simp: checkCapabilities_def subset_iff split: prod.splits)
  show "cr_required (checkCapabilities req caps) = req" by (simp add: checkCapabilities_def split: prod.split)
qed

lemma dispatch_begin_task: "rt_lookup rt tid = Some t \<Longrightarrow> dispatch_begin now ids tid req rt =
    and_then (dispatch_orchestrate now ids t req) (\<lambda>res rt. case res of
       Dispatched j next \<Rightarrow> (Inr \<lparr>pd_task = t, pd_job = j, pd_next = next\<rparr>, rt)
     | Dispatch_Blocked cs resume \<Rightarrow>
         and_then (rt_move now (op_event ids) (t\<lparr>blocked_context := Some (capability_block cs resume)\<rparr>) Blocked
             (plane_input (''capability mismatch for '' @ stage_name (dr_stage req) @ '': missing '' @ missing_text cs) None))
           (\<lambda>_ rt. (Inl (Plain_Error (''cannot dispatch: missing capabilities '' @ missing_text cs)), rt)) rt) rt"
  by (simp add: dispatch_begin_def and_then_def rt_requireTask_Some)

lemma dispatch_begin_Inr:
  assumes "dispatch_begin now ids tid req rt = (Inr pd, rt')"
  obtains t l lm rt1 where "rt_lookup rt tid = Some t" and "getAllowedDispatchStage (state t) = Inr (dr_stage req)"
    and "checkWorkerCapabilities (chosen_worker req) (dr_stage req) rt = (checkCapabilities (stage_requirements (dr_stage req))
      (known_capabilities (chosen_worker req) rt), rt1)"
    and "set (stage_requirements (dr_stage req)) \<subseteq> set (known_capabilities (chosen_worker req) rt)"
    and "canAccept (concurrencyManager rt) (worker_name (chosen_worker req)) = None"
    and "acquire now (leaseManager rt) (op_job ids) (worker_name (chosen_worker req)) = (Some l, lm)"
    and "pd = \<lparr>pd_task = t, pd_job = with_envelope t (base_job now (op_job ids) t (dr_stage req) (chosen_worker req)
      (or_default (dr_risk req) (risk_level t)) (stage_requirements (dr_stage req)) l (tracked_retries t (dr_stage req) rt)),
      pd_next = stageToActiveState (dr_stage req)\<rparr>"
    and "rt' = start_job now ids t (pd_job pd) (rt1\<lparr>leaseManager := lm\<rparr>)"
proof -
  obtain t where t: "rt_lookup rt tid = Some t"
    using assms rt_requireTask_None [of rt tid] by (cases "rt_lookup rt tid") (auto simp: dispatch_begin_def and_then_def)
  obtain st where st: "getAllowedDispatchStage (state t) = Inr st" "st = dr_stage req"
    using assms by (cases "getAllowedDispatchStage (state t)")
      (auto simp: dispatch_begin_task [OF t] and_then_def dispatch_orchestrate_def split: if_splits)
  obtain c rt1 where c: "checkWorkerCapabilities (chosen_worker req) (dr_stage req) rt = (c, rt1)"
    by (cases "checkWorkerCapabilities (chosen_worker req) (dr_stage req) rt")
  then have check: "c = checkCapabilities (stage_requirements (dr_stage req)) (known_capabilities (chosen_worker req) rt)"
    using check_result [of "chosen_worker req" "dr_stage req" rt] by simp
  note frame = checkWorkerCapabilities_frame [OF c]
  have "tracked_retries t (dr_stage req) rt1 = tracked_retries t (dr_stage req) rt" by (simp add: tracked_retries_def frame)
  note unfold = assms [unfolded dispatch_begin_task [OF t] dispatch_orchestrate_def st chosen_worker_def [symmetric] and_then_def]
  have passed: "cr_passed c"
  proof (rule ccontr)
    assume "\<not> cr_passed c"
    then show False using unfold c by (auto simp: chosen_worker_def Let_def and_then_def split: prod.splits sum.splits)
  qed
  have acc: "canAccept (concurrencyManager rt1) (worker_name (chosen_worker req)) = None"
  proof (rule ccontr)
    assume "canAccept (concurrencyManager rt1) (worker_name (chosen_worker req)) \<noteq> None"
    then show False using unfold c passed by (auto simp: chosen_worker_def Let_def)
  qed
  obtain l lm where l: "acquire now (leaseManager rt1) (op_job ids) (worker_name (chosen_worker req)) = (Some l, lm)"
    using unfold c passed acc
    by (cases "acquire now (leaseManager rt1) (op_job ids) (worker_name (chosen_worker req))")
      (auto simp: chosen_worker_def Let_def split: option.splits)
  show thesis
  proof (rule that [OF t _ _ _ _ _ _ _, of rt1 l lm])
    show "getAllowedDispatchStage (state t) = Inr (dr_stage req)" using st by simp
  qed (use c check passed acc l frame unfold \<open>tracked_retries _ _ _ = _\<close> in \<open>auto simp: chosen_worker_def Let_def check_passed\<close>)
qed

subsection \<open>Admission of a dispatch\<close>

definition may_dispatch :: "time \<Rightarrow> op_ids \<Rightarrow> task \<Rightarrow> dispatch_request \<Rightarrow> runtime \<Rightarrow> bool" where
  "may_dispatch now ids t req rt =
     (let w = chosen_worker req in getAllowedDispatchStage (state t) = Inr (dr_stage req) \<and>
        set (stage_requirements (dr_stage req)) \<subseteq> set (known_capabilities w rt) \<and>
        canAccept (concurrencyManager rt) (worker_name w) = None \<and>
        (\<forall>l. getLease (leaseManager rt) (op_job ids) = Some l \<longrightarrow> isLeaseExpired now l \<or> lease_owner l = worker_name w))"

definition same_books :: "runtime \<Rightarrow> runtime \<Rightarrow> bool" where
  "same_books rt rt' = (leaseManager rt' = leaseManager rt \<and> concurrencyManager rt' = concurrencyManager rt \<and>
     jobs rt' = jobs rt \<and> retryTracker rt' = retryTracker rt \<and> doomLoopDetector rt' = doomLoopDetector rt)"

lemma same_books_refl [simp]: "same_books rt rt"
  "same_books rt (rt_audit now ids tid ty p opts rt1) = same_books rt rt1"
  by (simp_all add: same_books_def)

lemma same_books_checked: "checkWorkerCapabilities w st rt = (c, rt1) \<Longrightarrow> same_books rt rt1"
  using checkWorkerCapabilities_frame by (simp add: same_books_def)

lemma acquire_None: "fst (acquire now m jid w) = None \<longleftrightarrow>
    (\<exists>l. getLease m jid = Some l \<and> \<not> isLeaseExpired now l \<and> lease_owner l \<noteq> w)"
  by (simp add: acquire_def getLease_def Let_def split: option.splits)

lemma acquire_Some: "acquire now m jid w = (Some l, lm) \<Longrightarrow>
    getLease lm jid = Some l \<and> lease_owner l = w \<and> lease_expires_at l = now + lease_ms m \<and> orphaned_at l = None"
  by (auto simp: acquire_def getLease_def Let_def split: if_splits)

lemma active_reached [simp]: "getAllowedDispatchStage s = Inr st \<Longrightarrow> canTransition s (stageToActiveState st)"
  by (erule dispatch_stage_cases) simp_all

lemma dispatched_may:
  assumes "rt_lookup rt tid = Some t" and "dispatch_begin now ids tid req rt = (Inr pd, rt')"
  shows "may_dispatch now ids t req rt" and "pd_task pd = t" and "pd_next pd = stageToActiveState (dr_stage req)"
    and "job_id (pd_job pd) = op_job ids" "job_task_id (pd_job pd) = task_id t" "job_stage (pd_job pd) = dr_stage req"
      "job_worker_type (pd_job pd) = chosen_worker req" "job_status (pd_job pd) = J_Pending" "job_typed_ref (pd_job pd) = typed_ref t"
    and "store (plane rt') = store (plane rt)" and "jobs rt' = map_set (jobs rt) (op_job ids) (pd_job pd)"
    and "concurrencyManager rt' = recordStart now \<lparr>ep_job_id = op_job ids, ep_worker_id = worker_name (chosen_worker req),
      ep_stage = stage_name (dr_stage req)\<rparr> (concurrencyManager rt)"
    and "leaseManager rt' = snd (acquire now (leaseManager rt) (op_job ids) (worker_name (chosen_worker req)))"
proof -
  obtain t' l lm rt1 where *: "rt_lookup rt tid = Some t'" "getAllowedDispatchStage (state t') = Inr (dr_stage req)"
      "checkWorkerCapabilities (chosen_worker req) (dr_stage req) rt = (checkCapabilities (stage_requirements (dr_stage req))
        (known_capabilities (chosen_worker req) rt), rt1)"
      "set (stage_requirements (dr_stage req)) \<subseteq> set (known_capabilities (chosen_worker req) rt)"
      "canAccept (concurrencyManager rt) (worker_name (chosen_worker req)) = None"
      "acquire now (leaseManager rt) (op_job ids) (worker_name (chosen_worker req)) = (Some l, lm)"
      "pd = \<lparr>pd_task = t', pd_job = with_envelope t' (base_job now (op_job ids) t' (dr_stage req) (chosen_worker req)
        (or_default (dr_risk req) (risk_level t')) (stage_requirements (dr_stage req)) l (tracked_retries t' (dr_stage req) rt)),
        pd_next = stageToActiveState (dr_stage req)\<rparr>"
      "rt' = start_job now ids t' (pd_job pd) (rt1\<lparr>leaseManager := lm\<rparr>)"
    by (rule dispatch_begin_Inr [OF assms(2)])
  note frame = checkWorkerCapabilities_frame [OF *(3)] and t = assms(1) *(1)
  show "may_dispatch now ids t req rt"
    using * t acquire_None [of now "leaseManager rt" "op_job ids" "worker_name (chosen_worker req)"]
    by (auto simp: may_dispatch_def Let_def)
qed (use assms in \<open>auto elim!: dispatch_begin_Inr simp: checkWorkerCapabilities_frame\<close>)

lemma same_books_plane: "rt' = rt\<lparr>plane := p\<rparr> \<Longrightarrow> same_books rt rt'"
  by (simp add: same_books_def)

lemma dispatch_checked:
  assumes "getAllowedDispatchStage (state t) = Inr (dr_stage req)"
    and "checkWorkerCapabilities (chosen_worker req) (dr_stage req) rt = (c, rt1)"
  shows "\<not> cr_passed c \<Longrightarrow> \<exists>p. dispatch_orchestrate now ids t req rt = (Inr (Dispatch_Blocked (cr_missing c) (stageToActiveState (dr_stage req))),
      rt_audit now ids (task_id t) ''capability_mismatch'' p (job_options None None) rt1)"
    and "cr_passed c \<Longrightarrow> canAccept (concurrencyManager rt1) (worker_name (chosen_worker req)) = Some why \<Longrightarrow>
      \<exists>e p. dispatch_orchestrate now ids t req rt = (Inl e, rt_audit now ids (task_id t) ''lock_conflict'' p (job_options None None) rt1)"
    and "cr_passed c \<Longrightarrow> canAccept (concurrencyManager rt1) (worker_name (chosen_worker req)) = None \<Longrightarrow>
      acquire now (leaseManager rt1) (op_job ids) (worker_name (chosen_worker req)) = (None, lm) \<Longrightarrow>
      \<exists>e. dispatch_orchestrate now ids t req rt = (Inl e, rt1)"
    and "cr_passed c \<Longrightarrow> canAccept (concurrencyManager rt1) (worker_name (chosen_worker req)) = None \<Longrightarrow>
      acquire now (leaseManager rt1) (op_job ids) (worker_name (chosen_worker req)) = (Some l, lm) \<Longrightarrow>
      \<exists>j rt'. dispatch_orchestrate now ids t req rt = (Inr (Dispatched j (stageToActiveState (dr_stage req))), rt')"
  using assms(2) unfolding dispatch_orchestrate_def assms(1) sum.case chosen_worker_def [symmetric] by (simp_all add: Let_def, blast+)

lemma may_dispatch_granted:
  assumes "rt_lookup rt tid = Some t" and "may_dispatch now ids t req rt"
  shows "\<exists>pd rt'. dispatch_begin now ids tid req rt = (Inr pd, rt')"
proof -
  let ?w = "chosen_worker req"
  note may = assms(2) [unfolded may_dispatch_def Let_def]
  obtain c rt1 where c: "checkWorkerCapabilities ?w (dr_stage req) rt = (c, rt1)"
    by (cases "checkWorkerCapabilities ?w (dr_stage req) rt")
  then have "c = checkCapabilities (stage_requirements (dr_stage req)) (known_capabilities ?w rt)"
    using check_result [of ?w "dr_stage req" rt] by simp
  then have passed: "cr_passed c" using may by (simp add: check_passed)
  note frame = checkWorkerCapabilities_frame [OF c]
  obtain l lm where "acquire now (leaseManager rt) (op_job ids) (worker_name ?w) = (Some l, lm)"
    using may acquire_None [of now "leaseManager rt" "op_job ids" "worker_name ?w"]
    by (cases "acquire now (leaseManager rt) (op_job ids) (worker_name ?w)") fastforce
  then have "\<exists>j rt'. dispatch_orchestrate now ids t req rt = (Inr (Dispatched j (stageToActiveState (dr_stage req))), rt')"
    using dispatch_checked(4) [OF _ c passed] may frame by simp
  then show ?thesis unfolding dispatch_begin_task [OF assms(1)] and_then_def by auto
qed

lemma refused_books:
  assumes "rt_lookup rt tid = Some t" and "dispatch_begin now ids tid req rt = (Inl e, rt')"
  shows "same_books rt rt' \<and> (store (plane rt') = store (plane rt) \<or>
    getAllowedDispatchStage (state t) = Inr (dr_stage req) \<and>
    \<not> set (stage_requirements (dr_stage req)) \<subseteq> set (known_capabilities (chosen_worker req) rt) \<and>
    (\<exists>t'. rt_lookup rt' (task_id t) = Some t' \<and> state t' = Blocked \<and> version t' = version t + 1 \<and>
      resume_state (the (blocked_context t')) = stageToActiveState (dr_stage req)))"
proof (cases "getAllowedDispatchStage (state t) = Inr (dr_stage req)")
  case False
  have "\<exists>e. dispatch_orchestrate now ids t req rt = (Inl e, rt)"
  proof (cases "getAllowedDispatchStage (state t)")
    case (Inr st)
    with False have "st \<noteq> dr_stage req" by simp
    then show ?thesis by (simp add: dispatch_orchestrate_def Inr)
  qed (simp add: dispatch_orchestrate_def)
  then show ?thesis using assms(2) unfolding dispatch_begin_task [OF assms(1)] and_then_def by auto
next
  case stage: True
  let ?w = "chosen_worker req"
  obtain c rt1 where c: "checkWorkerCapabilities ?w (dr_stage req) rt = (c, rt1)"
    by (cases "checkWorkerCapabilities ?w (dr_stage req) rt")
  then have check: "c = checkCapabilities (stage_requirements (dr_stage req)) (known_capabilities ?w rt)"
    using check_result [of ?w "dr_stage req" rt] by simp
  note frame = checkWorkerCapabilities_frame [OF c] and books = same_books_checked [OF c]
  note run = assms(2) [unfolded dispatch_begin_task [OF assms(1)]]
  show ?thesis
  proof (cases "cr_passed c")
    case True
    have "(\<exists>e p. dispatch_orchestrate now ids t req rt = (Inl e, rt_audit now ids (task_id t) ''lock_conflict'' p (job_options None None) rt1)) \<or>
        (\<exists>e. dispatch_orchestrate now ids t req rt = (Inl e, rt1)) \<or>
        (\<exists>j rt'. dispatch_orchestrate now ids t req rt = (Inr (Dispatched j (stageToActiveState (dr_stage req))), rt'))"
      using dispatch_checked(2-4) [OF stage c True]
      by (metis option.exhaust prod.exhaust)
    then show ?thesis using run books frame(1) by (auto simp: and_then_def)
  next
    case False
    from dispatch_checked(1) [OF stage c this] obtain p where o: "dispatch_orchestrate now ids t req rt =
        (Inr (Dispatch_Blocked (cr_missing c) (stageToActiveState (dr_stage req))),
         rt_audit now ids (task_id t) ''capability_mismatch'' p (job_options None None) rt1)" by blast
    let ?rt2 = "rt_audit now ids (task_id t) ''capability_mismatch'' p (job_options None None) rt1"
    let ?u = "t\<lparr>blocked_context := Some (capability_block (cr_missing c) (stageToActiveState (dr_stage req)))\<rparr>"
    let ?inp = "plane_input (''capability mismatch for '' @ stage_name (dr_stage req) @ '': missing '' @ missing_text (cr_missing c)) None"
    have "canTransition (state ?u) Blocked" using stage by (auto elim: dispatch_stage_cases)
    then obtain ev t' rt3 where mv: "rt_move now (op_event ids) ?u Blocked ?inp ?rt2 = (Inr (ev, t'), rt3)"
      using rt.granted by blast
    then have rt': "rt' = rt3" using run o by (simp add: and_then_def)
    have "same_books ?rt2 rt3" by (rule same_books_plane [OF rt_move_frame [OF mv]])
    then have "same_books rt rt3" using books by (simp add: same_books_def)
    moreover have "rt_lookup rt3 (task_id t) = Some t'" using rt.stored [OF mv, of "task_id t"] by simp
    moreover have "state t' = Blocked" "version t' = version t + 1" "blocked_context t' = blocked_context ?u"
      using rt.moved [OF mv] by auto
    ultimately show ?thesis using rt' stage False check check_passed(1)
      by (auto simp: capability_block_def mk_block_def)
  qed
qed

end
