(* ===== verification/Dispatch_Outcomes.thy ===== *)
theory Dispatch_Outcomes
  imports Dispatch
begin

text \<open>
  What dispatching a stage promises: when a dispatch is admitted and what an admitted or refused one leaves in the
  books (leases, slots of the workers, jobs), and what happens when the submission that follows fails, or when other
  operations come between the two halves of a dispatch.
\<close>

text \<open>
  C20. A dispatch is admitted exactly if the state of the task dispatches the requested stage, the worker has the
  capabilities of the stage, neither the worker nor the system is full and no other worker holds a lease of the job.
  Admitted, it leaves a pending job of the task with a lease of its worker for the whole lease time and a slot, and no
  change of any task; refused, it leaves leases, slots and jobs alone, and changes a task only to block it when
  capabilities are missing.
\<close>

theorem dispatch_admission:
  assumes "rt_lookup rt tid = Some t"
  shows "case dispatch_begin now ids tid req rt of
      (Inr pd, rt') \<Rightarrow> may_dispatch now ids t req rt \<and> pd_task pd = t \<and> job_id (pd_job pd) = op_job ids \<and>
        job_task_id (pd_job pd) = task_id t \<and> job_stage (pd_job pd) = dr_stage req \<and> job_status (pd_job pd) = J_Pending \<and>
        map_get (jobs rt') (op_job ids) = Some (pd_job pd) \<and> store (plane rt') = store (plane rt) \<and>
        (\<exists>l. getLease (leaseManager rt') (op_job ids) = Some l \<and> lease_owner l = worker_name (chosen_worker req) \<and>
          lease_expires_at l = now + lease_ms (leaseManager rt)) \<and>
        op_job ids \<in> set (jobs_of (concurrencyManager rt') (worker_name (chosen_worker req)))
    | (Inl e, rt') \<Rightarrow> \<not> may_dispatch now ids t req rt \<and> same_books rt rt' \<and>
        (store (plane rt') = store (plane rt) \<or>
         \<not> set (stage_requirements (dr_stage req)) \<subseteq> set (known_capabilities (chosen_worker req) rt) \<and>
         (\<exists>t'. rt_lookup rt' (task_id t) = Some t' \<and> state t' = Blocked \<and>
           resume_state (the (blocked_context t')) = stageToActiveState (dr_stage req)))"
proof (cases "dispatch_begin now ids tid req rt")
  case (Pair x rt')
  show ?thesis
  proof (cases x)
    case (Inl e)
    with Pair refused_books [OF assms, of now ids req e rt'] may_dispatch_granted [OF assms, of now ids req]
    show ?thesis by auto
  next
    case (Inr pd)
    note d = dispatched_may [OF assms Pair [unfolded Inr]]
    obtain l lm where "acquire now (leaseManager rt) (op_job ids) (worker_name (chosen_worker req)) = (Some l, lm)"
      using d(1) acquire_None [of now "leaseManager rt" "op_job ids" "worker_name (chosen_worker req)"]
      by (cases "acquire now (leaseManager rt) (op_job ids) (worker_name (chosen_worker req))") (fastforce simp: may_dispatch_def Let_def)
    from acquire_Some [OF this] this d show ?thesis by (simp add: Pair Inr jobs_of_start)
  qed
qed

lemma dispatch_end_moves:
  assumes "sub_success s" and "canTransition (state (pd_task pd)) (pd_next pd)"
  shows "\<exists>rt' t'. dispatch_end now ids inst pd s rt = (Inr (selected_job inst (pd_job pd) s), rt') \<and>
    rt_lookup rt' (task_id (pd_task pd)) = Some t' \<and> state t' = pd_next pd \<and> version t' = version (pd_task pd) + 1 \<and>
    same_work (dispatched_task (pd_task pd) (pd_job pd)) t'"
proof -
  let ?u = "dispatched_task (pd_task pd) (pd_job pd)"
  obtain rt1 inp where run: "dispatch_end now ids inst pd s rt = and_then (rt_move now (op_event ids) ?u (pd_next pd) inp)
      (\<lambda>_ rt. (Inr (selected_job inst (pd_job pd) s), rt)) rt1"
    by (rule that) (use assms(1) in \<open>simp add: dispatch_end_def Let_def\<close>)
  have "canTransition (state ?u) (pd_next pd)" using assms(2) by (simp add: dispatched_task_def del: canTransition_code)
  then obtain ev t' rt2 where mv: "rt_move now (op_event ids) ?u (pd_next pd) inp rt1 = (Inr (ev, t'), rt2)"
    using rt.granted by blast
  then show ?thesis
    using run rt.moved [OF mv] rt.stored [OF mv, of "task_id (pd_task pd)"] by (simp add: and_then_def dispatched_task_def)
qed

text \<open>
  C25. The second half of a dispatch works on the copy of the task that the first half read. Whatever happened to
  the task while the submission was pending, a successful submission puts the copy, made active, in its place: a task
  that was cancelled in between is active again, and its version is that of the copy plus one.
\<close>

theorem dispatch_revives_cancelled:
  assumes "rt_lookup rt tid = Some t" and "task_id t = tid" and "dispatch_begin now ids tid req rt = (Inr pd, rt1)"
    and "in_plane (cp_cancel now2 fr tid) rt1 = (Inr c, rt2)" and "sub_success s"
  shows "rt_lookup rt2 tid = Some c \<and> state c = Cancelled \<and>
    (\<exists>j rt3 t3. dispatch_end now3 ids2 inst pd s rt2 = (Inr j, rt3) \<and> rt_lookup rt3 tid = Some t3 \<and>
      state t3 = stageToActiveState (dr_stage req) \<and> active_job_id t3 = Some (op_job ids) \<and> version t3 = version t + 1)"
proof -
  note d = dispatched_may [OF assms(1,3)]
  have g: "getTask (store (plane rt1)) tid = Some t"
    using assms(1) d(10) by (simp add: rt_lookup_def cp_lookup_def)
  have "cancel now2 (fresh_event fr) tid (store (plane rt1)) = (Inr c, store (plane rt2))"
    using assms(4) unfolding in_plane_iff cp_cancel_def in_store_simps by blast
  moreover have "\<not> isTerminal (state t)" using d(1) by (auto simp: may_dispatch_def Let_def elim!: dispatch_stage_cases)
  then obtain ev s' where "transitionTask now2 (fresh_event fr) t Cancelled (mk_input Human ''operator'' ''task cancelled'')
      (store (plane rt1)) = (Inr (ev, move_task now2 t Cancelled), s')"
      "cancel now2 (fresh_event fr) tid (store (plane rt1)) = (Inr (move_task now2 t Cancelled), s')"
    by (rule cancel_granted [OF g _ assms(2)])
  ultimately have "getTask (store (plane rt2)) tid = Some c \<and> state c = Cancelled"
    using ts.stored ts.moved assms(2) by fastforce
  moreover have "canTransition (state (pd_task pd)) (pd_next pd)"
    using d(1) by (simp add: d(2,3) may_dispatch_def Let_def del: canTransition_code)
  note dispatch_end_moves [OF assms(5) this, of now3 ids2 inst rt2]
  ultimately show ?thesis
    using d(2-6) assms(2) same_work_fields by (fastforce simp: rt_lookup_def cp_lookup_def dispatched_task_def)
qed

subsection \<open>Submissions that fail\<close>

fun dispatches :: "string \<Rightarrow> string \<Rightarrow> dispatch_request \<Rightarrow> (time \<times> op_ids \<times> submission) list \<Rightarrow> runtime \<Rightarrow> runtime" where
  "dispatches inst tid req [] rt = rt"
| "dispatches inst tid req ((now, ids, s) # xs) rt = dispatches inst tid req xs (snd (dispatch now ids inst tid req s rt))"

definition lost_submission :: "submission \<Rightarrow> bool" where
  "lost_submission s = (\<not> sub_success s \<and> \<not> backend_refused (submission_failure s))"

lemma dispatch_lost:
  assumes "lost_submission s"
  shows "dispatch now ids inst tid req s rt = (Inl e, rt') \<Longrightarrow> snd (dispatch_begin now ids tid req rt) = rt'"
    and "\<exists>e rt'. dispatch now ids inst tid req s rt = (Inl e, rt')"
  using assms by (auto simp: dispatch_def and_then_def dispatch_end_def lost_submission_def Let_def split: sum.splits prod.splits)

lemma slot_taken:
  assumes "rt_lookup rt tid = Some t" and "dispatch_begin now ids tid req rt = (Inr pd, rt')"
    and "op_job ids \<notin> set (jobs_of (concurrencyManager rt) (worker_name (chosen_worker req)))"
  shows "jobs_of (concurrencyManager rt') (worker_name (chosen_worker req)) =
    jobs_of (concurrencyManager rt) (worker_name (chosen_worker req)) @ [op_job ids]"
    and "cc_config (concurrencyManager rt') = cc_config (concurrencyManager rt)"
    and "getLease (leaseManager rt') k = (if k = op_job ids then Some (the (getLease (leaseManager rt') k)) else getLease (leaseManager rt) k)"
  using dispatched_may [OF assms(1,2)] assms(3)
  by (auto simp: jobs_of_start set_add_def acquire_def getLease_def Let_def split: option.splits)

lemma known_after: "capabilityManager rt' = capabilityManager rt \<Longrightarrow> known_capabilities w rt' = known_capabilities w rt"
  by (simp add: known_capabilities_def)

lemma checked_capabilities:
  assumes "checkWorkerCapabilities w st rt = (c, rt1)"
  shows "known_capabilities w rt1 = known_capabilities w rt"
  using assms by (auto simp: checkWorkerCapabilities_def Let_def known_capabilities_def getWorkerCapabilities_def
      registerWorkerCapabilities_def split: if_splits)

lemma dispatched_capabilities:
  assumes "dispatch_begin now ids tid req rt = (Inr pd, rt')"
  shows "known_capabilities (chosen_worker req) rt' = known_capabilities (chosen_worker req) rt"
proof -
  obtain t l lm rt1 where *: "checkWorkerCapabilities (chosen_worker req) (dr_stage req) rt = (checkCapabilities (stage_requirements (dr_stage req))
        (known_capabilities (chosen_worker req) rt), rt1)" "rt' = start_job now ids t (pd_job pd) (rt1\<lparr>leaseManager := lm\<rparr>)"
    by (rule dispatch_begin_Inr [OF assms])
  have "known_capabilities (chosen_worker req) rt' = known_capabilities (chosen_worker req) rt1" by (rule known_after) (simp add: *)
  then show ?thesis using checked_capabilities [OF *(1)] by simp
qed

definition slots_used :: "worker_type \<Rightarrow> runtime \<Rightarrow> nat" where
  "slots_used w rt = length (jobs_of (concurrencyManager rt) (worker_name w))"

lemma full_iff: "canAccept m w \<noteq> None \<longleftrightarrow> int (length (activeJobs m)) \<ge> max_concurrent_global (cc_config m) \<or>
    int (length (jobs_of m w)) \<ge> max_concurrent_per_worker (cc_config m)"
  by (simp add: canAccept_def worker_active_jobs_of)

lemma full_refuses:
  assumes "rt_lookup rt tid = Some t" and "getAllowedDispatchStage (state t) = Inr (dr_stage req)"
    and "set (stage_requirements (dr_stage req)) \<subseteq> set (known_capabilities (chosen_worker req) rt)"
    and "canAccept (concurrencyManager rt) (worker_name (chosen_worker req)) \<noteq> None"
  shows "\<exists>e rt'. dispatch_begin now ids tid req rt = (Inl e, rt') \<and> rt_lookup rt' tid = Some t \<and>
    concurrencyManager rt' = concurrencyManager rt \<and>
    known_capabilities (chosen_worker req) rt' = known_capabilities (chosen_worker req) rt"
proof -
  let ?w = "chosen_worker req"
  obtain c rt1 where c: "checkWorkerCapabilities ?w (dr_stage req) rt = (c, rt1)"
    by (cases "checkWorkerCapabilities ?w (dr_stage req) rt")
  then have "c = checkCapabilities (stage_requirements (dr_stage req)) (known_capabilities ?w rt)"
    using check_result [of ?w "dr_stage req" rt] by simp
  then have passed: "cr_passed c" using assms(3) by (simp add: check_passed)
  note frame = checkWorkerCapabilities_frame [OF c]
  obtain why where "canAccept (concurrencyManager rt1) (worker_name ?w) = Some why" using assms(4) frame by auto
  from dispatch_checked(2) [OF assms(2) c passed this, of now ids] obtain e p where
    o: "dispatch_orchestrate now ids t req rt = (Inl e, rt_audit now ids (task_id t) ''lock_conflict'' p (job_options None None) rt1)"
    by blast
  let ?rt2 = "rt_audit now ids (task_id t) ''lock_conflict'' p (job_options None None) rt1"
  have "known_capabilities ?w ?rt2 = known_capabilities ?w rt1" by (rule known_after) simp
  then show ?thesis using o assms(1) frame checked_capabilities [OF c]
    by (simp add: dispatch_begin_task [OF assms(1)] and_then_def rt_lookup_def cp_lookup_def)
qed

lemma dispatches_full:
  assumes "rt_lookup rt tid = Some t" and "\<forall>(now, ids, s) \<in> set xs. lost_submission s"
    and "getAllowedDispatchStage (state t) = Inr (dr_stage req)"
    and "set (stage_requirements (dr_stage req)) \<subseteq> set (known_capabilities (chosen_worker req) rt)"
    and "canAccept (concurrencyManager rt) (worker_name (chosen_worker req)) \<noteq> None"
  shows "rt_lookup (dispatches inst tid req xs rt) tid = Some t \<and>
    concurrencyManager (dispatches inst tid req xs rt) = concurrencyManager rt"
  using assms
proof (induction xs arbitrary: rt)
  case (Cons x xs)
  obtain now ids s where x: "x = (now, ids, s)" by (cases x)
  have lost: "lost_submission s" using Cons.prems(2) x by simp
  obtain e rt' where run: "dispatch now ids inst tid req s rt = (Inl e, rt')" using dispatch_lost(2) [OF lost] by blast
  note rt' = dispatch_lost(1) [OF lost run]
  from full_refuses [OF Cons.prems(1,3-5), of now ids] rt'
  have *: "rt_lookup rt' tid = Some t" "concurrencyManager rt' = concurrencyManager rt"
      "known_capabilities (chosen_worker req) rt' = known_capabilities (chosen_worker req) rt" by auto
  then have "rt_lookup (dispatches inst tid req xs rt') tid = Some t \<and>
      concurrencyManager (dispatches inst tid req xs rt') = concurrencyManager rt'"
    by (intro Cons.IH) (use Cons.prems in auto)
  then show ?case using * by (simp add: x run)
qed simp

lemma dispatches_fill:
  assumes "rt_lookup rt tid = Some t" and "\<forall>(now, ids, s) \<in> set xs. lost_submission s"
    and "distinct (map (\<lambda>(now, ids, s). op_job ids) xs)"
    and "\<forall>k \<in> set (map (\<lambda>(now, ids, s). op_job ids) xs).
      k \<notin> set (jobs_of (concurrencyManager rt) (worker_name (chosen_worker req))) \<and> getLease (leaseManager rt) k = None"
    and "getAllowedDispatchStage (state t) = Inr (dr_stage req)"
    and "set (stage_requirements (dr_stage req)) \<subseteq> set (known_capabilities (chosen_worker req) rt)"
  shows "rt_lookup (dispatches inst tid req xs rt) tid = Some t \<and>
    cc_config (concurrencyManager (dispatches inst tid req xs rt)) = cc_config (concurrencyManager rt) \<and>
    (slots_used (chosen_worker req) (dispatches inst tid req xs rt) = slots_used (chosen_worker req) rt + length xs \<or>
     canAccept (concurrencyManager (dispatches inst tid req xs rt)) (worker_name (chosen_worker req)) \<noteq> None)"
  using assms
proof (induction xs arbitrary: rt)
  case (Cons x xs)
  obtain now ids s where x: "x = (now, ids, s)" by (cases x)
  obtain e rt' where run: "dispatch now ids inst tid req s rt = (Inl e, rt')" and lost: "lost_submission s"
    using dispatch_lost(2) Cons.prems(2) x by fastforce
  have rt': "snd (dispatch_begin now ids tid req rt) = rt'" by (rule dispatch_lost(1) [OF lost run])
  have tail: "dispatches inst tid req (x # xs) rt = dispatches inst tid req xs rt'" by (simp add: x run)
  show ?case
  proof (cases "fst (dispatch_begin now ids tid req rt)")
    case (Inr pd)
    then have b: "dispatch_begin now ids tid req rt = (Inr pd, rt')" using rt' by (metis prod.collapse)
    note d = dispatched_may [OF Cons.prems(1) b]
    have new: "op_job ids \<notin> set (jobs_of (concurrencyManager rt) (worker_name (chosen_worker req)))"
      using Cons.prems(4) x by simp
    note st = slot_taken [OF Cons.prems(1) b new]
    have l: "rt_lookup rt' tid = Some t" using Cons.prems(1) d(10) by (simp add: rt_lookup_def cp_lookup_def)
    have "k \<notin> set (jobs_of (concurrencyManager rt') (worker_name (chosen_worker req))) \<and> getLease (leaseManager rt') k = None"
      if "k \<in> set (map (\<lambda>(now, ids, s). op_job ids) xs)" for k
    proof -
      have "k \<noteq> op_job ids" using Cons.prems(3) that by (simp add: x, metis)
      then show ?thesis using bspec [OF Cons.prems(4), of k] that st(1) st(3) [of k] x by simp
    qed
    then have "rt_lookup (dispatches inst tid req xs rt') tid = Some t \<and>
      cc_config (concurrencyManager (dispatches inst tid req xs rt')) = cc_config (concurrencyManager rt') \<and>
      (slots_used (chosen_worker req) (dispatches inst tid req xs rt') = slots_used (chosen_worker req) rt' + length xs \<or>
       canAccept (concurrencyManager (dispatches inst tid req xs rt')) (worker_name (chosen_worker req)) \<noteq> None)"
      using Cons.IH [OF l] Cons.prems(2,3,5,6) dispatched_capabilities [OF b] by simp
    then show ?thesis using st tail by (auto simp: slots_used_def)
  next
    case (Inl e)
    then have "\<not> may_dispatch now ids t req rt" using may_dispatch_granted [OF Cons.prems(1), of now ids req] by auto
    then have full: "canAccept (concurrencyManager rt) (worker_name (chosen_worker req)) \<noteq> None"
      using Cons.prems(4-6) x by (auto simp: may_dispatch_def Let_def)
    from dispatches_full [OF Cons.prems(1,2,5,6) this, of inst] full show ?thesis by simp
  qed
qed simp

definition queued_runtime :: "concurrency_config \<Rightarrow> runtime" where
  "queued_runtime cfg = (new_runtime cfg)\<lparr>plane := empty_control_plane\<lparr>store := \<lparr>tasks = [(''task_1'', sample_task)], events = []\<rparr>\<rparr>\<rparr>"

definition plan_request :: dispatch_request where
  "plan_request = \<lparr>dr_stage = Plan, dr_worker = None, dr_risk = None\<rparr>"

definition failing_submission :: submission where
  "failing_submission = \<lparr>sub_success = False, sub_error = Some ''connection refused'', sub_backend = None, sub_fallback = None\<rparr>"

text \<open>
  A dispatch whose submission fails without a refusal of the backend takes a slot and gives nothing back. Enough
  failing dispatches under new job ids, from one task, fill its worker: every later dispatch to the worker is refused
  for lack of capacity, although no job of the failed ones exists, and the task is as it was before them.
\<close>

theorem failed_submissions_fill_worker:
  assumes "rt_lookup rt tid = Some t" and "\<forall>(now, ids, s) \<in> set xs. lost_submission s"
    and "distinct (map (\<lambda>(now, ids, s). op_job ids) xs)"
    and "\<forall>k \<in> set (map (\<lambda>(now, ids, s). op_job ids) xs).
      k \<notin> set (jobs_of (concurrencyManager rt) (worker_name (chosen_worker req))) \<and> getLease (leaseManager rt) k = None"
    and "getAllowedDispatchStage (state t) = Inr (dr_stage req)"
    and "set (stage_requirements (dr_stage req)) \<subseteq> set (known_capabilities (chosen_worker req) rt)"
    and "max_concurrent_per_worker (cc_config (concurrencyManager rt)) \<le> int (slots_used (chosen_worker req) rt + length xs)"
  shows "rt_lookup (dispatches inst tid req xs rt) tid = Some t \<and>
    canAccept (concurrencyManager (dispatches inst tid req xs rt)) (worker_name (chosen_worker req)) \<noteq> None"
  using dispatches_fill [OF assms(1-6), of inst] assms(7)
  unfolding full_iff slots_used_def by auto

lemma queued_facts:
  "rt_lookup (queued_runtime cfg) ''task_1'' = Some sample_task" "state sample_task = Queued" "task_id sample_task = ''task_1''"
  "chosen_worker plan_request = Codex" "dr_stage plan_request = Plan" "lost_submission failing_submission"
  "concurrencyManager (queued_runtime cfg) = new_concurrency_manager cfg" "getLease (leaseManager (queued_runtime cfg)) k = None"
  "known_capabilities w (queued_runtime cfg) = DEFAULT_WORKER_CAPABILITIES w"
  "set (stage_requirements Plan) \<subseteq> set (DEFAULT_WORKER_CAPABILITIES Codex)"
proof -
  show "lost_submission failing_submission" "set (stage_requirements Plan) \<subseteq> set (DEFAULT_WORKER_CAPABILITIES Codex)"
    "chosen_worker plan_request = Codex"
    by code_simp+
qed (simp_all add: queued_runtime_def new_runtime_def rt_lookup_def cp_lookup_def getTask_def map_get_def sample_task_def plan_request_def
    new_lease_manager_def getLease_def known_capabilities_def getWorkerCapabilities_def)

theorem failed_submissions_fill_worker_witness:
  "canAccept (concurrencyManager (dispatches ''shipyard'' ''task_1'' plan_request [(5, sample_op_ids, failing_submission)]
     (queued_runtime (DEFAULT_CONCURRENCY_CONFIG\<lparr>max_concurrent_per_worker := 1\<rparr>)))) (worker_name Codex) \<noteq> None"
  using failed_submissions_fill_worker [of "queued_runtime (DEFAULT_CONCURRENCY_CONFIG\<lparr>max_concurrent_per_worker := 1\<rparr>)" "''task_1''"
      sample_task "[(5, sample_op_ids, failing_submission)]" plan_request "''shipyard''"] queued_facts(10)
  by (simp add: queued_facts DEFAULT_CONCURRENCY_CONFIG_def new_concurrency_manager_def jobs_of_def)

lemma queued_may: "may_dispatch now ids sample_task plan_request (queued_runtime DEFAULT_CONCURRENCY_CONFIG)"
  using queued_facts(10) by (simp add: may_dispatch_def queued_facts canAccept_def worker_active_def new_concurrency_manager_def DEFAULT_CONCURRENCY_CONFIG_def)

theorem dispatch_admission_witness:
  "\<exists>pd rt'. dispatch_begin 5 sample_op_ids ''task_1'' plan_request (queued_runtime DEFAULT_CONCURRENCY_CONFIG) = (Inr pd, rt') \<and>
    job_status (pd_job pd) = J_Pending \<and> op_job sample_op_ids \<in> set (jobs_of (concurrencyManager rt') ''codex'')"
proof -
  obtain pd rt' where b: "dispatch_begin 5 sample_op_ids ''task_1'' plan_request (queued_runtime DEFAULT_CONCURRENCY_CONFIG) = (Inr pd, rt')"
    using may_dispatch_granted [OF queued_facts(1) queued_may] by blast
  then show ?thesis
    using dispatch_admission [OF queued_facts(1), of 5 sample_op_ids plan_request DEFAULT_CONCURRENCY_CONFIG] by (simp add: queued_facts)
qed

theorem dispatch_revives_cancelled_witness:
  "\<exists>pd rt1 c rt2 j rt3 t3. dispatch_begin 5 sample_op_ids ''task_1'' plan_request (queued_runtime DEFAULT_CONCURRENCY_CONFIG) = (Inr pd, rt1) \<and>
    in_plane (cp_cancel 6 sample_fresh ''task_1'') rt1 = (Inr c, rt2) \<and> state c = Cancelled \<and>
    dispatch_end 7 sample_op_ids ''shipyard'' pd \<lparr>sub_success = True, sub_error = None, sub_backend = None, sub_fallback = None\<rparr> rt2 =
      (Inr j, rt3) \<and> rt_lookup rt3 ''task_1'' = Some t3 \<and> state t3 = Planning"
proof -
  let ?s = "\<lparr>sub_success = True, sub_error = None, sub_backend = None, sub_fallback = None\<rparr>"
  obtain pd rt1 where b: "dispatch_begin 5 sample_op_ids ''task_1'' plan_request (queued_runtime DEFAULT_CONCURRENCY_CONFIG) = (Inr pd, rt1)"
    using may_dispatch_granted [OF queued_facts(1) queued_may] by blast
  have g: "getTask (store (plane rt1)) ''task_1'' = Some sample_task"
    using dispatched_may(10) [OF queued_facts(1) b] queued_facts(1) by (simp add: rt_lookup_def cp_lookup_def)
  obtain ev s' where "cancel 6 (fresh_event sample_fresh) ''task_1'' (store (plane rt1)) = (Inr (move_task 6 sample_task Cancelled), s')"
    by (rule cancel_granted [OF g]) (simp_all add: queued_facts)
  then obtain rt2 where c: "in_plane (cp_cancel 6 sample_fresh ''task_1'') rt1 = (Inr (move_task 6 sample_task Cancelled), rt2)"
    by (simp add: in_plane_def cp_cancel_def in_store_def)
  have "sub_success ?s" by simp
  from dispatch_revives_cancelled [OF queued_facts(1) queued_facts(3) b c this, of 7 sample_op_ids "''shipyard''"] b c
  show ?thesis by (auto simp: queued_facts)
qed

subsection \<open>Retries\<close>

lemma retry_table:
  assumes "dc_next (table_for now env t j r rt) \<in> {N_Retry, N_Failover}"
  shows "dc_move (table_for now env t j r rt) = Some (stageToActiveState (job_stage j))" and "\<not> dc_slot (table_for now env t j r rt)"
    and "dc_lease (table_for now env t j r rt)"
  using assms by (auto simp: table_for_def route_result_def on_invalid_def on_failure_def on_success_def go_to_def
      split: if_splits result_status.splits worker_stage.splits)

lemma active_not_dispatched: "\<exists>e. getAllowedDispatchStage (stageToActiveState st) = Inl e"
  by (cases st) simp_all

text \<open>
  A result that is answered with a retry or a failover puts the task into the active state of its stage, frees
  the lease and keeps the slot of the job; from there no dispatch, whatever its request, is admitted, and it changes
  nothing.
\<close>

theorem retried_task_not_dispatchable:
  assumes "rt_lookup rt tid = Some t" and "task_id t = tid" and "current t r rt j"
    and "dc_next (table_for now env t j r rt) \<in> {N_Retry, N_Failover}"
    and "canTransition (state t) (stageToActiveState (job_stage j))"
  shows "\<exists>resp rt'. applyResult now ids env tid r rt = (Inr resp, rt') \<and> rs_next resp = dc_next (table_for now env t j r rt) \<and>
    leaseManager rt' = leaseManager (release_lease j rt) \<and> concurrencyManager rt' = concurrencyManager rt \<and>
    (\<forall>now2 ids2 req. \<exists>e. dispatch_begin now2 ids2 tid req rt' = (Inl e, rt'))"
proof -
  note table = retry_table [OF assms(4)]
  obtain resp rt' where run: "applyResult now ids env tid r rt = (Inr resp, rt')" "task_id (rs_task resp) = tid"
      "state (rs_task resp) = stageToActiveState (job_stage j)" "rs_next resp = dc_next (table_for now env t j r rt)"
      "leaseManager rt' = leaseManager (release_lease j rt)" "concurrencyManager rt' = concurrencyManager rt"
    using applyResult_current(1) [OF assms(1,3), of now env ids] table assms(2,5)
    by (auto simp: carried_out_def simp del: canTransition_code)
  have l: "rt_lookup rt' tid = Some (rs_task resp)" using applyResult_current(2) [OF assms(1,3) run(1)] assms(2) by simp
  have "\<exists>e. dispatch_begin now2 ids2 tid req rt' = (Inl e, rt')" for now2 ids2 req
    using active_not_dispatched [of "job_stage j"] run(3)
    by (auto simp: dispatch_begin_task [OF l] dispatch_orchestrate_def and_then_def)
  with run show ?thesis by blast
qed

definition transient_failure :: worker_result where
  "transient_failure = sample_failure\<lparr>failure_class := Some Retryable_Transient\<rparr>"

lemma transient_table: "dc_next (table_for 9 sample_env developing_task sample_job transient_failure developing_runtime) = N_Retry"
  by code_simp

theorem retried_task_not_dispatchable_witness:
  "\<exists>resp rt'. applyResult 9 sample_op_ids sample_env ''task_1'' transient_failure developing_runtime = (Inr resp, rt') \<and>
    rs_next resp = N_Retry \<and> (\<exists>e. dispatch_begin 10 sample_op_ids ''task_1'' \<lparr>dr_stage = Dev, dr_worker = None, dr_risk = None\<rparr> rt' = (Inl e, rt'))"
proof -
  have c: "current developing_task transient_failure developing_runtime sample_job"
    using developing_current by (simp add: transient_failure_def current_def)
  have "dc_next (table_for 9 sample_env developing_task sample_job transient_failure developing_runtime) \<in> {N_Retry, N_Failover}"
    and "canTransition (state developing_task) (stageToActiveState (job_stage sample_job))"
    by (simp add: transient_table) (simp add: developing_facts(2) sample_job_def)
  from retried_task_not_dispatchable [OF developing_facts(1,3) c this, of sample_op_ids] show ?thesis
    by (auto simp: transient_table)
qed

end
