(* ===== verification/Runtime_Steps.thy ===== *)
theory Runtime_Steps
  imports Dispatch_Outcomes
begin

text \<open>
  The services together: the steps of the whole runtime (operations of the control plane, dispatches, results, the
  ends of jobs, heartbeats, a restart) and the invariant that holds in every reachable runtime. A dispatch is a step
  of its own here, with nothing between its halves (\<open>Dispatch_Outcomes\<close> shows what happens otherwise), and its job
  identifier is fresh.
\<close>

subsection \<open>What the handling of a result touches\<close>

definition history :: "runtime \<Rightarrow> (string, transition_record list) jsmap" where
  "history rt = transitionHistory (doomLoopDetector rt)"

definition touches :: "worker_job \<Rightarrow> runtime \<Rightarrow> runtime \<Rightarrow> bool" where
  "touches j rt rt' = (jobs rt' = jobs rt \<and> history rt' = history rt \<and>
     (concurrencyManager rt' = concurrencyManager rt \<or>
      concurrencyManager rt' = recordComplete (job_id j) (worker_name (job_worker_type j)) (concurrencyManager rt)))"

definition untouched :: "runtime \<Rightarrow> runtime \<Rightarrow> bool" where
  "untouched rt rt' = (jobs rt' = jobs rt \<and> history rt' = history rt \<and> concurrencyManager rt' = concurrencyManager rt)"

lemma untouched_touches: "untouched rt rt' \<Longrightarrow> touches j rt rt'"
  by (simp add: untouched_def touches_def)

lemma untouched_before: "untouched a b \<Longrightarrow> touches j b c \<Longrightarrow> touches j a c"
  by (simp add: untouched_def touches_def)

lemma untouched_plane: "rt' = rt\<lparr>plane := p\<rparr> \<Longrightarrow> untouched rt rt'"
  by (simp add: untouched_def history_def)

lemma untouched_ops [simp]:
  "untouched rt (job_audit now ids t j ty p rt)" "untouched rt (release_lease j rt)" "untouched rt (set_retries t j n rt)"
  "untouched rt (validation_audit now ids t j r rt)" "untouched rt (result_audits now ids t j r rt)"
  "untouched rt (after_blocked now ids t j r rt)" "untouched rt (acceptance_gate_audit now ids t j r rt)"
  "untouched rt (snd (emitRunSystemPacket now ids env t j r rt))" "untouched rt rt"
  "untouched rt (rt\<lparr>results := rs\<rparr>)" "untouched rt (rt\<lparr>leaseManager := lm\<rparr>)" "untouched rt (rt_setTask k u rt)"
  by (simp_all add: untouched_def history_def release_lease_def rt_setTask_def set_retries_def)

lemma untouched_trans: "untouched a b \<Longrightarrow> untouched b c \<Longrightarrow> untouched a c"
  by (simp add: untouched_def)

lemma touches_finalize [simp]: "touches j rt (finalizeJob j b rt)" "touches j rt (finalizeJob j b (job_audit now ids t j ty p rt))"
  by (simp_all add: touches_def history_def)

lemma touches_untouched [simp]: "touches j rt rt" "touches j rt (release_lease j rt)" "touches j rt (after_blocked now ids t j r rt)"
  by (simp_all add: untouched_touches)

definition minds :: "worker_job \<Rightarrow> (runtime \<Rightarrow> (error, 'a, runtime) outcome) \<Rightarrow> bool" where
  "minds j h = (\<forall>rt. touches j rt (snd (h rt)))"

lemma minds_pre: "minds j h \<Longrightarrow> untouched rt (f rt) \<Longrightarrow> touches j rt (snd (h (f rt)))"
  unfolding minds_def using untouched_before by blast

lemma move_untouched: "untouched rt (snd (rt_move now eid u to inp rt))"
  by (cases "rt_move now eid u to inp rt") (simp add: untouched_plane [OF rt_move_frame])

lemma move_with_minds [intro]:
  assumes "\<And>c. touches j c (after c)"
  shows "minds j (move_with now ids t upd to inp after resp)"
proof -
  have "touches j rt (snd (move_with now ids t upd to inp after resp rt))" for rt
  proof (cases "rt_move now (op_event ids) (applyTaskUpdate now t upd) to inp rt" rule: prod.exhaust)
    case (Pair y rt1)
    then have "untouched rt rt1" using move_untouched [of rt now "op_event ids" "applyTaskUpdate now t upd" to inp] by simp
    then show ?thesis
      using Pair untouched_before assms untouched_touches by (cases y) (auto simp: move_with_def and_then_def)
  qed
  then show ?thesis by (simp add: minds_def)
qed

lemma handlers_mind:
  "minds j (handleRunSystemGateBlocked now ids t j r g)" "minds j (handleBlockedResult now ids t j r ups)"
  "minds j (handleDoomLoop now ids t j r l ups)" "minds j (handleFinalFailure now ids env t j r c ups)"
  unfolding handleRunSystemGateBlocked_def handleBlockedResult_def handleDoomLoop_def handleFinalFailure_def Let_def
  by (simp_all add: move_with_minds split: if_split)

lemma handleRetry_minds: "minds j (handleRetry now ids t j r n c ups)"
  unfolding minds_def handleRetry_def Let_def
  by (intro allI minds_pre move_with_minds untouched_touches untouched_ops untouched_trans [OF untouched_ops(3) untouched_ops(1)])

lemma handleFailover_minds: "minds j (handleFailover now ids t j r w ups)"
  unfolding minds_def handleFailover_def Let_def
  by (intro allI minds_pre move_with_minds untouched_touches untouched_ops untouched_trans [OF untouched_ops(1) untouched_ops(2)])

lemma handleValidationFailure_minds: "minds j (handleValidationFailure now ids t j r es)"
proof -
  have "touches j rt (snd (handleValidationFailure now ids t j r es rt))" for rt
    unfolding handleValidationFailure_def Let_def
    by (auto intro!: minds_pre [OF move_with_minds, where f = "\<lambda>rt. rt"]
        minds_pre [OF move_with_minds, where f = "\<lambda>rt. set_retries _ _ _ (job_audit _ _ _ _ _ _ rt)"]
        untouched_trans [OF untouched_ops(1) untouched_ops(3)])
  then show ?thesis by (simp add: minds_def)
qed

lemma detectLoop_history [simp]: "transitionHistory (snd (detectLoop now job d)) = transitionHistory d"
  by (simp add: detectLoop_def found_loop_def Let_def split: option.split)

lemma handleFailedResult_minds: "minds j (handleFailedResult now ids env t j r ups)"
proof -
  have "touches j rt (snd (handleFailedResult now ids env t j r ups rt))" for rt
  proof -
    obtain found d where d: "detectLoop now (job_id j) (doomLoopDetector rt) = (found, d)"
      by (cases "detectLoop now (job_id j) (doomLoopDetector rt)")
    let ?c = "or_default (failure_class r) (classifyFromResult r)" and ?n = "or_default (result_retry_count r) (tracked_retries t (job_stage j) rt)"
    let ?rt1 = "rt\<lparr>doomLoopDetector := d\<rparr>"
    let ?rt2 = "if structured_failure r then job_audit now ids t j ''instruction_repair_attempted''
              (repair_payload j ?n ''structured output validation failed'' (structured_errors r)) ?rt1 else ?rt1"
    have u1: "untouched rt ?rt1" using detectLoop_history [of now "job_id j" "doomLoopDetector rt"] d
      by (simp add: untouched_def history_def)
    have u2: "untouched rt ?rt2" by (simp add: untouched_trans [OF u1])
    obtain x rt' where run: "handleFailedResult now ids env t j r ups rt = (x, rt')" by (cases "handleFailedResult now ids env t j r ups rt")
    consider (loop) l where "handleDoomLoop now ids t j r l ups ?rt1 = (x, rt')"
      | (failover) w where "handleFailover now ids t j r w ups ?rt1 = (x, rt')"
      | (retry) "handleRetry now ids t j r ?n ?c ups ?rt2 = (x, rt')"
      | (final) "handleFinalFailure now ids env t j r ?c ups ?rt1 = (x, rt')"
      using run by (auto simp: handleFailedResult_def Let_def d split: option.splits if_splits)
    then have "touches j ?rt1 rt' \<or> touches j ?rt2 rt'"
    proof cases
      case loop
      then show ?thesis using handlers_mind(3) unfolding minds_def by (metis snd_conv)
    next
      case failover
      then show ?thesis using handleFailover_minds unfolding minds_def by (metis snd_conv)
    next
      case retry
      then show ?thesis using handleRetry_minds unfolding minds_def by (metis snd_conv)
    next
      case final
      then show ?thesis using handlers_mind(4) unfolding minds_def by (metis snd_conv)
    qed
    then show ?thesis using untouched_before [OF u1] untouched_before [OF u2] run by auto
  qed
  then show ?thesis by (simp add: minds_def)
qed

lemma move_with_spares:
  assumes "\<And>c. untouched c (after c)"
  shows "untouched rt (snd (move_with now ids t upd to inp after resp rt))"
proof (cases "rt_move now (op_event ids) (applyTaskUpdate now t upd) to inp rt" rule: prod.exhaust)
  case (Pair y rt1)
  then have "untouched rt rt1" using move_untouched [of rt now "op_event ids" "applyTaskUpdate now t upd" to inp] by simp
  then show ?thesis
    using Pair untouched_trans assms by (cases y) (auto simp: move_with_def and_then_def)
qed

lemma handleSucceededStage_spares: "untouched rt (snd (handleSucceededStage now ids t j r ups rt))"
proof (cases "job_stage j")
  case Acceptance
  have "untouched rt (snd (move_with now ids t ups to inp (\<lambda>rt. rt) resp (acceptance_gate_audit now ids t j r rt)))" for to inp resp
    by (rule untouched_trans [OF untouched_ops(7) move_with_spares]) simp
  then show ?thesis by (simp add: handleSucceededStage_def Acceptance Let_def)
qed (simp_all add: handleSucceededStage_def move_with_spares Let_def)

lemma orchestrateResult_minds: "minds j (orchestrateResult now ids env r t j)"
proof -
  have "touches j rt (snd (orchestrateResult now ids env r t j rt))" for rt
  proof -
    obtain g rt1 where e: "emitRunSystemPacket now ids env t j r rt = (g, rt1)" by (cases "emitRunSystemPacket now ids env t j r rt")
    let ?rt0 = "validation_audit now ids t j r rt" and ?rt2 = "result_audits now ids t j r rt1"
    have u1: "untouched rt rt1" using untouched_ops(8) [of rt now ids env t j r] e by simp
    have u2: "untouched rt ?rt2" by (rule untouched_trans [OF u1 untouched_ops(5)])
    have succ: "touches j rt (snd (handleSucceededResultFinal now ids t j r ups ?rt2))" for ups
    proof -
      have "untouched rt (snd (handleSucceededStage now ids t j r ups ?rt2))"
        by (rule untouched_trans [OF u2 handleSucceededStage_spares])
      then show ?thesis
        using untouched_before [OF _ touches_finalize(1)] untouched_touches
        by (auto simp: handleSucceededResultFinal_def and_then_def split: prod.split sum.split)
    qed
    show ?thesis
      using untouched_before [OF untouched_ops(4) [of rt now ids t j r]] untouched_before [OF u1] untouched_before [OF u2] succ
        handleValidationFailure_minds handlers_mind(1,2) handleFailedResult_minds
      unfolding minds_def orchestrateResult_def Let_def e prod.case
      by (cases "result_status r") (simp_all split: if_split)
  qed
  then show ?thesis by (simp add: minds_def)
qed

lemma touches_after: "touches j a b \<Longrightarrow> untouched b c \<Longrightarrow> touches j a c"
  by (auto simp: untouched_def touches_def)

lemma applyResult_touches:
  "untouched rt (snd (applyResult now ids env tid r rt)) \<or>
   (\<exists>j. map_get (jobs rt) (result_job_id r) = Some j \<and> touches j rt (snd (applyResult now ids env tid r rt)))"
proof (cases "rt_lookup rt tid")
  case None
  obtain e where "rt_requireTask tid rt = (Inl e, rt)" using rt_requireTask_None [OF None] by blast
  then show ?thesis by (simp add: applyResult_def and_then_def)
next
  case (Some t)
  show ?thesis
  proof (cases "falsy (active_job_id t) \<or> active_job_id t \<noteq> Some (result_job_id r) \<or> result_typed_ref r \<noteq> typed_ref t \<or>
      map_get (jobs rt) (result_job_id r) = None")
    case True
    then show ?thesis by (auto simp: applyResult_cases [OF Some])
  next
    case False
    then obtain j where j: "map_get (jobs rt) (result_job_id r) = Some j" by auto
    let ?rt0 = "rt\<lparr>results := map_set (results rt) (result_job_id r) r\<rparr>"
    have "touches j rt (snd (orchestrateResult now ids env r t j ?rt0))"
      using orchestrateResult_minds untouched_before [OF untouched_ops(10)] unfolding minds_def by blast
    then have "touches j rt (snd (applyResult now ids env tid r rt))"
      using False j touches_after [OF _ untouched_ops(12)]
      by (auto simp: applyResult_cases [OF Some] split: prod.split sum.split)
    with j show ?thesis by blast
  qed
qed

subsection \<open>Dispatches as steps\<close>

lemma history_start [simp]: "history (start_job now ids t j rt) = map_set (history rt) (job_id j)
    ((case map_get (history rt) (job_id j) of Some h \<Rightarrow> h | None \<Rightarrow> []) @
     [\<lparr>tr_from_state = state_name (state t), tr_to_state = state_name (stageToActiveState (job_stage j)),
       tr_stage = stage_name (job_stage j), tr_timestamp = now\<rparr>])"
  by (simp add: history_def start_job_def trackTransition_def Let_def)

lemma begun_history:
  assumes "dispatch_begin now ids tid req rt = (Inr pd, rt')" and "map_get (history rt) (op_job ids) = None"
  shows "\<exists>x. history rt' = map_set (history rt) (op_job ids) [x]"
proof -
  obtain t l lm rt1 where *: "checkWorkerCapabilities (chosen_worker req) (dr_stage req) rt = (checkCapabilities (stage_requirements (dr_stage req))
        (known_capabilities (chosen_worker req) rt), rt1)" "rt' = start_job now ids t (pd_job pd) (rt1\<lparr>leaseManager := lm\<rparr>)"
      "job_id (pd_job pd) = op_job ids"
    by (rule dispatch_begin_Inr [OF assms(1)]) simp
  have "history (rt1\<lparr>leaseManager := lm\<rparr>) = history rt" using checkWorkerCapabilities_frame [OF *(1)] by (simp add: history_def)
  then show ?thesis using assms(2) * by (simp only: history_start) (simp, blast)
qed

lemma orchestrate_store: "store (plane (snd (dispatch_orchestrate now ids t req rt))) = store (plane rt)"
proof (cases "getAllowedDispatchStage (state t) = Inr (dr_stage req)")
  case True
  let ?st = "dr_stage req" and ?w = "or_default (dr_worker req) (getDefaultWorker (dr_stage req))"
  obtain c rt1 where c: "checkWorkerCapabilities ?w ?st rt = (c, rt1)" by (cases "checkWorkerCapabilities ?w ?st rt")
  obtain l lm where "acquire now (leaseManager rt1) (op_job ids) (worker_name ?w) = (l, lm)"
    by (cases "acquire now (leaseManager rt1) (op_job ids) (worker_name ?w)")
  with c checkWorkerCapabilities_frame(1) [OF c] show ?thesis
    by (simp add: dispatch_orchestrate_def True Let_def split: option.split)
qed (simp add: dispatch_orchestrate_def split: sum.split)

text \<open>Moving a changed copy of a stored task, whatever the answer.\<close>

lemma move_copy_run:
  assumes "cp_ok (plane rt)" and "rt_lookup rt (task_id t) = Some t" and "rt_move now eid u to inp rt = (x, rt')"
    and "task_id u = task_id t" and "state u = state t" and "version u = version t"
  shows "store_run (plane rt) (plane rt')"
proof (cases x)
  case (Inl e)
  then show ?thesis using assms(3) rt.move_Inl store_run_same by blast
next
  case (Inr p)
  then obtain ev t' where "rt_move now eid u to inp rt = (Inr (ev, t'), rt')" using assms(3) by (cases p) simp
  from rt_move_step(1) [OF assms(1,2) this assms(4,5)] show ?thesis by (simp add: assms(6))
qed

lemma dispatch_begin_run:
  assumes "cp_ok (plane rt)" and "rt_lookup rt tid = Some t" and "dispatch_begin now ids tid req rt = (x, rt')"
  shows "store_run (plane rt) (plane rt')"
proof -
  have id: "task_id t = tid" using cp_ok_id assms(1,2) store_ok_id by (auto simp: cp_ok_def rt_lookup_def cp_lookup_def)
  obtain y rt1 where o: "dispatch_orchestrate now ids t req rt = (y, rt1)" by (cases "dispatch_orchestrate now ids t req rt")
  have s: "store (plane rt1) = store (plane rt)" using orchestrate_store [of now ids t req rt] o by simp
  then have pre: "cp_ok (plane rt1)" "rt_lookup rt1 (task_id t) = Some t" "store_run (plane rt) (plane rt1)"
    using assms(1,2) id by (simp_all add: cp_ok_def rt_lookup_def cp_lookup_def store_run_same)
  show ?thesis
  proof (cases "\<exists>cs resume. y = Inr (Dispatch_Blocked cs resume)")
    case True
    then obtain cs resume where y: "y = Inr (Dispatch_Blocked cs resume)" by blast
    let ?u = "t\<lparr>blocked_context := Some (capability_block cs resume)\<rparr>"
    let ?inp = "plane_input (''capability mismatch for '' @ stage_name (dr_stage req) @ '': missing '' @ missing_text cs) None"
    obtain z rt2 where mv: "rt_move now (op_event ids) ?u Blocked ?inp rt1 = (z, rt2)"
      by (cases "rt_move now (op_event ids) ?u Blocked ?inp rt1")
    have "store_run (plane rt1) (plane rt2)" by (rule move_copy_run [OF pre(1,2) mv]) simp_all
    moreover have "rt' = rt2" using assms(3) o y mv by (cases z) (auto simp: dispatch_begin_task [OF assms(2)] and_then_def)
    ultimately show ?thesis using store_run_trans [OF pre(3)] by simp
  next
    case False
    then have "rt' = rt1" using assms(3) o by (cases y) (auto simp: dispatch_begin_task [OF assms(2)] and_then_def split: dispatch_result.splits)
    then show ?thesis using pre(3) by simp
  qed
qed

subsection \<open>The steps of the runtime\<close>

text \<open>A copy of a job that was read earlier: the work it stands for and who does it are the same.\<close>

definition same_assignment :: "worker_job \<Rightarrow> worker_job \<Rightarrow> bool" where
  "same_assignment j j' = (job_id j = job_id j' \<and> job_task_id j = job_task_id j' \<and> job_worker_type j = job_worker_type j')"

inductive rt_step :: "runtime \<Rightarrow> runtime \<Rightarrow> bool" where
  rts_plane: "cp_step (plane rt) cp' \<Longrightarrow> rt_step rt (rt\<lparr>plane := cp'\<rparr>)"
| rts_dispatch: "dispatch now ids inst tid req s rt = (x, rt') \<Longrightarrow> map_get (jobs rt) (op_job ids) = None \<Longrightarrow> rt_step rt rt'"
| rts_result: "applyResult now ids env tid r rt = (y, rt') \<Longrightarrow> rt_step rt rt'"
| rts_completed: "map_get (jobs rt) (job_id j) = Some j' \<Longrightarrow> same_assignment j j' \<Longrightarrow>
    rt_step rt (poll_completed now ids ids2 engine env j r rt)"
| rts_failed: "map_get (jobs rt) (job_id j) = Some j' \<Longrightarrow> same_assignment j j' \<Longrightarrow>
    rt_step rt (poll_failed now ids env j msg rt)"
| rts_heartbeat: "job_heartbeat now jid w rt = (z, rt') \<Longrightarrow> rt_step rt rt'"
| rts_restart: "recover_restart now inst fresh rt = (v, rt') \<Longrightarrow> rt_step rt rt'"

definition jobs_ok :: "runtime \<Rightarrow> bool" where
  "jobs_ok rt = (wf_map (jobs rt) \<and> (\<forall>k j. map_get (jobs rt) k = Some j \<longrightarrow> job_id j = k \<and> rt_lookup rt (job_task_id j) \<noteq> None))"

definition slots_ok :: "runtime \<Rightarrow> bool" where
  "slots_ok rt = (admission_inv (concurrencyManager rt) \<and>
     (\<forall>k s. map_get (activeJobs (concurrencyManager rt)) k = Some s \<longrightarrow>
       (\<exists>j. map_get (jobs rt) k = Some j \<and> worker_name (job_worker_type j) = jr_worker_id s)))"

definition history_ok :: "runtime \<Rightarrow> bool" where
  "history_ok rt = (\<forall>k h. map_get (history rt) k = Some h \<longrightarrow> length h \<le> 1 \<and> map_get (jobs rt) k \<noteq> None)"

definition rt_ok :: "runtime \<Rightarrow> bool" where
  "rt_ok rt = (cp_ok (plane rt) \<and> store_step\<^sup>*\<^sup>* empty_store (store (plane rt)) \<and> jobs_ok rt \<and> slots_ok rt \<and> history_ok rt)"

lemma rt_ok_parts:
  assumes "rt_ok rt"
  shows "cp_ok (plane rt)" and "jobs_ok rt" and "slots_ok rt" and "history_ok rt"
  using assms by (simp_all add: rt_ok_def)

text \<open>The control plane may move on if it keeps its tasks, and the rest stays.\<close>

lemma rt_ok_move:
  assumes "rt_ok rt" and "store_run (plane rt) (plane rt')" and "cp_ok (plane rt')"
    and "jobs_ok rt'" and "slots_ok rt'" and "history_ok rt'"
  shows "rt_ok rt'"
  using assms unfolding rt_ok_def store_run_def by (meson rtranclp_trans)

lemma run_ok: "cp_ok cp \<Longrightarrow> store_run cp cp' \<Longrightarrow> cp_ok cp'"
  using store_run_wf store_reachable_ok unfolding cp_ok_def store_run_def by blast

lemma run_keeps_tasks:
  assumes "cp_ok (plane rt)" and "store_run (plane rt) (plane rt')" and "rt_lookup rt k \<noteq> None"
  shows "rt_lookup rt' k \<noteq> None"
  using store_run_keeps [OF assms(2)] assms(1,3) by (simp add: cp_ok_def rt_lookup_def)

lemma slots_complete:
  assumes "slots_ok rt" and "map_get (jobs rt) (job_id j) = Some j'" and "job_worker_type j' = job_worker_type j"
    and "jobs rt' = jobs rt" and "concurrencyManager rt' = recordComplete (job_id j) (worker_name (job_worker_type j)) (concurrencyManager rt)"
  shows "slots_ok rt'"
proof -
  have "\<forall>s. map_get (activeJobs (concurrencyManager rt)) (job_id j) = Some s \<longrightarrow> jr_worker_id s = worker_name (job_worker_type j)"
    using assms(1-3) by (fastforce simp: slots_ok_def)
  then have "admission_inv (concurrencyManager rt')"
    using assms(1,5) admission_inv_complete unfolding slots_ok_def by metis
  moreover have "map_get (activeJobs (concurrencyManager rt')) k = Some s \<Longrightarrow> map_get (activeJobs (concurrencyManager rt)) k = Some s" for k s
    unfolding assms(5) by (simp add: recordComplete_def jm.lookup_remove split: if_splits)
  ultimately show ?thesis using assms(1,4) unfolding slots_ok_def by metis
qed

lemma touches_ok:
  assumes "rt_ok rt" and "store_run (plane rt) (plane rt')" and "touches j rt rt'" and "map_get (jobs rt) (job_id j) = Some j'"
    and "job_worker_type j' = job_worker_type j"
  shows "rt_ok rt'"
proof (rule rt_ok_move [OF assms(1,2)])
  note ok = rt_ok_parts [OF assms(1)] and same = assms(3) [unfolded touches_def]
  show "cp_ok (plane rt')" by (rule run_ok [OF ok(1) assms(2)])
  show "jobs_ok rt'" using ok(2) same run_keeps_tasks [OF ok(1) assms(2)] unfolding jobs_ok_def by metis
  show "slots_ok rt'"
    using same
  proof (elim conjE disjE)
    assume "jobs rt' = jobs rt" and "concurrencyManager rt' = concurrencyManager rt"
    then show ?thesis using ok(3) by (simp add: slots_ok_def)
  next
    assume "jobs rt' = jobs rt" and "concurrencyManager rt' = recordComplete (job_id j) (worker_name (job_worker_type j)) (concurrencyManager rt)"
    then show ?thesis by (rule slots_complete [OF ok(3) assms(4,5)])
  qed
  show "history_ok rt'" using ok(4) same by (simp add: history_ok_def)
qed

lemma untouched_ok:
  assumes "rt_ok rt" and "store_run (plane rt) (plane rt')" and "untouched rt rt'"
  shows "rt_ok rt'"
proof (rule rt_ok_move [OF assms(1,2)])
  note ok = rt_ok_parts [OF assms(1)] and same = assms(3) [unfolded untouched_def]
  show "cp_ok (plane rt')" by (rule run_ok [OF ok(1) assms(2)])
  show "jobs_ok rt'" using ok(2) same run_keeps_tasks [OF ok(1) assms(2)] unfolding jobs_ok_def by metis
qed (use rt_ok_parts [OF assms(1)] assms(3) in \<open>simp_all add: slots_ok_def history_ok_def untouched_def\<close>)

lemma applyResult_ok:
  assumes "rt_ok rt" and "applyResult now ids env tid r rt = (x, rt')"
  shows "rt_ok rt'"
proof -
  have run: "store_run (plane rt) (plane rt')" by (rule applyResult_run [OF assms(2) rt_ok_parts(1) [OF assms(1)]])
  from applyResult_touches [of rt now ids env tid r] assms(2) show ?thesis
  proof (elim disjE exE conjE)
    fix j assume j: "map_get (jobs rt) (result_job_id r) = Some j" and "touches j rt (snd (applyResult now ids env tid r rt))"
    moreover have "job_id j = result_job_id r" using rt_ok_parts(2) [OF assms(1)] j by (simp add: jobs_ok_def)
    ultimately show ?thesis using touches_ok [OF assms(1) run, of j j] assms(2) by simp
  qed (use untouched_ok [OF assms(1) run] assms(2) in simp)
qed

lemma setJob_ok:
  assumes "rt_ok rt" and "map_get (jobs rt) (job_id j) = Some j'" and "same_assignment j j'"
  shows "rt_ok (rt\<lparr>jobs := map_set (jobs rt) (job_id j) j\<rparr>)"
proof (rule rt_ok_move [OF assms(1)])
  note ok = rt_ok_parts [OF assms(1)]
  have "rt_lookup rt (job_task_id j) \<noteq> None" using ok(2) assms(2,3) by (auto simp: jobs_ok_def same_assignment_def)
  with ok(2) show "jobs_ok (rt\<lparr>jobs := map_set (jobs rt) (job_id j) j\<rparr>)" by (auto simp: jobs_ok_def jm.lookup_store)
  show "slots_ok (rt\<lparr>jobs := map_set (jobs rt) (job_id j) j\<rparr>)"
    using ok(3) assms(2,3) by (fastforce simp: slots_ok_def same_assignment_def jm.lookup_store)
  show "history_ok (rt\<lparr>jobs := map_set (jobs rt) (job_id j) j\<rparr>)"
    using ok(4) assms(2) by (auto simp: history_ok_def history_def jm.lookup_store)
qed (use rt_ok_parts(1) [OF assms(1)] in \<open>simp_all add: store_run_same\<close>)

lemma dispatched_ok:
  assumes "rt_ok rt" and "rt_lookup rt tid = Some t" and "task_id t = tid" and "dispatch_begin now ids tid req rt = (Inr pd, rt')"
    and "map_get (jobs rt) (op_job ids) = None"
  shows "rt_ok rt'"
proof (rule rt_ok_move [OF assms(1)])
  note ok = rt_ok_parts [OF assms(1)] and d = dispatched_may [OF assms(2,4)]
  have free: "map_get (activeJobs (concurrencyManager rt)) (op_job ids) = None" "map_get (history rt) (op_job ids) = None"
    using ok(3,4) assms(5) by (cases "map_get (activeJobs (concurrencyManager rt)) (op_job ids)"; fastforce simp: slots_ok_def)
      (use ok(4) assms(5) in \<open>cases "map_get (history rt) (op_job ids)"; fastforce simp: history_ok_def\<close>)
  show "store_run (plane rt) (plane rt')" "cp_ok (plane rt')"
    using d(10) ok(1) by (simp_all add: store_run_same cp_ok_def)
  have l: "rt_lookup rt' k = rt_lookup rt k" for k using d(10) by (simp add: rt_lookup_def cp_lookup_def)
  show "jobs_ok rt'" using ok(2) assms(2,3) d(4,5) by (auto simp: jobs_ok_def d(11) l jm.lookup_store)
  have "canAccept (concurrencyManager rt) (worker_name (chosen_worker req)) = None" using d(1) by (simp add: may_dispatch_def Let_def)
  then have "admission_inv (concurrencyManager rt')"
    unfolding d(12) by (intro admission_inv_start) (use ok(3) free in \<open>simp_all add: slots_ok_def\<close>)
  then show "slots_ok rt'"
    using ok(3) d(7) unfolding slots_ok_def d(11,12) by (auto simp: recordStart_def Let_def jm.lookup_store)
  show "history_ok rt'" using begun_history [OF assms(4) free(2)] ok(4) by (auto simp: history_ok_def d(11) jm.lookup_store)
qed

lemma begin_ok:
  assumes "rt_ok rt" and "dispatch_begin now ids tid req rt = (x, rt')" and "map_get (jobs rt) (op_job ids) = None"
  shows "rt_ok rt'" and "x = Inr pd \<Longrightarrow> \<exists>t. rt_lookup rt tid = Some t \<and> task_id t = tid"
proof -
  have "rt_ok rt' \<and> (x = Inr pd \<longrightarrow> (\<exists>t. rt_lookup rt tid = Some t \<and> task_id t = tid))"
  proof (cases "rt_lookup rt tid")
    case None
    obtain e where "rt_requireTask tid rt = (Inl e, rt)" using rt_requireTask_None [OF None] by blast
    then show ?thesis using assms(1,2) by (auto simp: dispatch_begin_def and_then_def)
  next
    case (Some t)
    then have id: "task_id t = tid"
      using rt_ok_parts(1) [OF assms(1)] store_ok_id by (auto simp: cp_ok_def rt_lookup_def cp_lookup_def)
    show ?thesis
    proof (cases x)
      case (Inl e)
      then have "same_books rt rt'" using refused_books [OF Some] assms(2) by blast
      then have "untouched rt rt'" by (simp add: same_books_def untouched_def history_def)
      then show ?thesis
        using untouched_ok [OF assms(1) dispatch_begin_run [OF rt_ok_parts(1) [OF assms(1)] Some assms(2)]] Inl by simp
    next
      case (Inr p)
      then show ?thesis using dispatched_ok [OF assms(1) Some id _ assms(3)] assms(2) Some id by blast
    qed
  qed
  then show "rt_ok rt'" and "x = Inr pd \<Longrightarrow> \<exists>t. rt_lookup rt tid = Some t \<and> task_id t = tid" by auto
qed

lemma moved_ok:
  assumes "rt_ok rt" and "rt_lookup rt (task_id t) = Some t" and "rt_move now eid u to inp rt = (x, rt')"
    and "task_id u = task_id t" and "state u = state t" and "version u = version t"
  shows "rt_ok rt'"
  using untouched_ok [OF assms(1) move_copy_run [OF rt_ok_parts(1) [OF assms(1)] assms(2-6)]]
    move_untouched [of rt now eid u to inp] assms(3) by simp

lemma and_then_const: "snd (and_then m (\<lambda>_ s. (r, s)) s0) = snd (m s0)"
  by (auto simp: and_then_def split: prod.split sum.split)

lemma end_ok:
  assumes "rt_ok rt" and "rt_lookup rt (task_id (pd_task pd)) = Some (pd_task pd)"
    and "map_get (jobs rt) (job_id (pd_job pd)) = Some (pd_job pd)" and "dispatch_end now ids inst pd s rt = (x, rt')"
  shows "rt_ok rt'"
proof (cases "sub_success s")
  case False
  let ?u = "\<lambda>why. pd_task pd\<lparr>blocked_context := Some (mk_block (pd_next pd) why W_Worker)\<rparr>"
  have "rt_ok (snd (rt_move now (op_event ids) (?u why) Blocked inp rt))" for why inp
    by (rule moved_ok [OF assms(1,2) prod.collapse [symmetric]]) simp_all
  then show ?thesis
    using assms(1,4) False
    by (auto simp: dispatch_end_def Let_def and_then_const split: if_splits dest!: arg_cong [where f = snd])
next
  case True
  let ?sj = "selected_job inst (pd_job pd) s" and ?u = "dispatched_task (pd_task pd) (pd_job pd)"
  let ?rt1 = "rt\<lparr>jobs := map_set (jobs rt) (job_id ?sj) ?sj\<rparr>"
  have "rt_ok ?rt1" by (rule setJob_ok [OF assms(1), of ?sj "pd_job pd"]) (use assms(3) in \<open>simp_all add: selected_job_def same_assignment_def\<close>)
  then have "rt_ok (rt_audit now ids tid ty p opts ?rt1)" for tid ty p opts
    by (rule untouched_ok) (simp_all add: store_run_same untouched_def history_def)
  then have "rt_ok (snd (rt_move now (op_event ids) ?u (pd_next pd) inp (rt_audit now ids tid ty p opts ?rt1)))" for inp tid ty p opts
    by (rule moved_ok [where t = "pd_task pd", OF _ _ prod.collapse [symmetric]]) (use assms(2) in \<open>simp_all add: dispatched_task_def\<close>)
  then show ?thesis
    using assms(4) True by (auto simp: dispatch_end_def Let_def and_then_const dest!: arg_cong [where f = snd])
qed

lemma dispatch_ok:
  assumes "rt_ok rt" and "dispatch now ids inst tid req s rt = (x, rt')" and "map_get (jobs rt) (op_job ids) = None"
  shows "rt_ok rt'"
proof -
  obtain y rt1 where b: "dispatch_begin now ids tid req rt = (y, rt1)" by (cases "dispatch_begin now ids tid req rt")
  note ok = begin_ok(1) [OF assms(1) b assms(3)]
  show ?thesis
  proof (cases y)
    case (Inl e)
    then show ?thesis using assms(2) b ok by (simp add: dispatch_def and_then_def)
  next
    case (Inr pd)
    then have e: "dispatch_end now ids inst pd s rt1 = (x, rt')" using assms(2) b by (simp add: dispatch_def and_then_def)
    obtain t where t: "rt_lookup rt tid = Some t" "task_id t = tid" using begin_ok(2) [OF assms(1) b assms(3) Inr] by blast
    note d = dispatched_may [OF t(1) b [unfolded Inr]]
    have "rt_lookup rt1 tid = Some t" using t d(10) by (simp add: rt_lookup_def cp_lookup_def)
    then show ?thesis by (intro end_ok [OF ok _ _ e]) (simp_all add: d(2,4,11) t)
  qed
qed

lemma poll_failed_ok:
  assumes "rt_ok rt" and "map_get (jobs rt) (job_id j) = Some j'" and "same_assignment j j'"
  shows "rt_ok (poll_failed now ids env j msg rt)"
proof -
  let ?rt0 = "rt\<lparr>jobs := map_set (jobs rt) (job_id j) (j\<lparr>job_status := J_Failed\<rparr>)\<rparr>" and ?r = "poll_failure_result j msg"
  have "rt_ok ?rt0"
    using setJob_ok [OF assms(1), of "j\<lparr>job_status := J_Failed\<rparr>" j'] assms(2,3) by (simp add: same_assignment_def)
  obtain x rt1 where a: "applyResult now ids env (job_task_id j) ?r ?rt0 = (x, rt1)" by (cases "applyResult now ids env (job_task_id j) ?r ?rt0")
  have ok: "rt_ok rt1" by (rule applyResult_ok [OF \<open>rt_ok ?rt0\<close> a])
  then have "rt_ok (rt1\<lparr>results := rs\<rparr>)" for rs by (rule untouched_ok) (simp_all add: store_run_same)
  with ok a show ?thesis by (simp add: poll_failed_def Let_def split: sum.split)
qed

lemma poll_completed_ok:
  assumes "rt_ok rt" and "map_get (jobs rt) (job_id j) = Some j'" and "same_assignment j j'"
  shows "rt_ok (poll_completed now ids ids2 engine env j r rt)"
proof -
  let ?j = "j\<lparr>job_status := J_Completed\<rparr>"
  let ?rt0 = "rt\<lparr>jobs := map_set (jobs rt) (job_id j) ?j\<rparr>"
  have "rt_ok ?rt0"
    using setJob_ok [OF assms(1), of ?j j'] assms(2,3) by (simp add: same_assignment_def)
  obtain x rt1 where a: "applyResult now ids env (job_task_id j) r ?rt0 = (x, rt1)" by (cases "applyResult now ids env (job_task_id j) r ?rt0")
  have ok: "rt_ok rt1" by (rule applyResult_ok [OF \<open>rt_ok ?rt0\<close> a])
  have "jobs rt1 = jobs ?rt0" using applyResult_touches [of ?rt0 now ids env "job_task_id j" r] a by (auto simp: touches_def untouched_def)
  then have "rt_ok (poll_failed now ids2 env j msg rt1)" for msg
    by (intro poll_failed_ok [OF ok, of _ ?j]) (simp_all add: same_assignment_def)
  with ok a show ?thesis by (simp add: poll_completed_def split: sum.split)
qed

lemma heartbeat_ok: "rt_ok rt \<Longrightarrow> job_heartbeat now jid w rt = (z, rt') \<Longrightarrow> rt_ok rt'"
proof -
  assume ok: "rt_ok rt" and run: "job_heartbeat now jid w rt = (z, rt')"
  have "rt_ok (rt\<lparr>leaseManager := lm\<rparr>)" for lm using ok by (rule untouched_ok) (simp_all add: store_run_same)
  with ok run show ?thesis by (auto simp: job_heartbeat_def split: option.splits prod.splits)
qed

lemma recover_jobs_run:
  assumes "recover_jobs now inst js cp = (x, cp')" and "cp_ok cp"
  shows "store_run cp cp'"
  using assms
proof (induction now inst js cp rule: recover_jobs.induct)
  case (2 now inst job fr js cp)
  obtain y cp1 where r: "recover_job now inst fr job cp = (y, cp1)" by (cases "recover_job now inst fr job cp")
  then have run: "store_run cp cp1" using "2.prems"(2) cp_step_run [OF cps_recover] by blast
  show ?case
  proof (cases y)
    case (Inl e)
    then show ?thesis using "2.prems"(1) r run by (simp add: and_then_def)
  next
    case (Inr u)
    then have "recover_jobs now inst js cp1 = (x, cp')" using "2.prems"(1) r by (simp add: and_then_def)
    then have "store_run cp1 cp'" using "2.IH" run_ok [OF "2.prems"(2) run] by blast
    then show ?thesis by (rule store_run_trans [OF run])
  qed
qed (simp add: store_run_same)

lemma recovered_jobs_ok:
  assumes "rt_ok rt" and "\<forall>j \<in> set js. \<exists>j'. map_get (jobs rt) (job_id j) = Some j' \<and> same_assignment j j'"
  shows "rt_ok (rt\<lparr>jobs := foldl (\<lambda>m j. map_set m (job_id j) j) (jobs rt) js\<rparr>)"
  using assms
proof (induction js arbitrary: rt)
  case (Cons j js)
  let ?rt1 = "rt\<lparr>jobs := map_set (jobs rt) (job_id j) j\<rparr>"
  obtain j' where j: "map_get (jobs rt) (job_id j) = Some j'" "same_assignment j j'" using Cons.prems(2) by auto
  have "rt_ok ?rt1" by (rule setJob_ok [OF Cons.prems(1) j])
  moreover have "\<forall>i \<in> set js. \<exists>i'. map_get (jobs ?rt1) (job_id i) = Some i' \<and> same_assignment i i'"
  proof
    fix i assume "i \<in> set js"
    then obtain i' where i: "map_get (jobs rt) (job_id i) = Some i'" "same_assignment i i'" using Cons.prems(2) by auto
    show "\<exists>i'. map_get (jobs ?rt1) (job_id i) = Some i' \<and> same_assignment i i'"
    proof (cases "job_id i = job_id j")
      case True
      then have "same_assignment i j" using i j by (auto simp: same_assignment_def)
      then show ?thesis using True by simp
    qed (use i in simp)
  qed
  ultimately have "rt_ok (?rt1\<lparr>jobs := foldl (\<lambda>m j. map_set m (job_id j) j) (jobs ?rt1) js\<rparr>)" by (rule Cons.IH)
  then show ?case by simp
qed simp

lemma restart_ok:
  assumes "rt_ok rt" and "recover_restart now inst fresh rt = (v, rt')"
  shows "rt_ok rt'"
proof -
  obtain js rt1 where rec: "recoverRestoredActiveJobs inst rt = (js, rt1)" by (cases "recoverRestoredActiveJobs inst rt")
  then have js: "js = map (orphaned_job inst) (filter (left_behind inst) (map_values (jobs rt)))"
    by (simp add: recoverRestoredActiveJobs_def Let_def)
  have rt1: "rt1 = rt\<lparr>jobs := foldl (\<lambda>m j. map_set m (job_id j) j) (jobs rt) js\<rparr>"
    using rec unfolding js recoverRestoredActiveJobs_def Let_def by (elim Pair_inject) (rule sym)
  note jobs = rt_ok_parts(2) [OF assms(1), unfolded jobs_ok_def]
  have "\<exists>j'. map_get (jobs rt) (job_id j) = Some j' \<and> same_assignment j j'" if mem: "j \<in> set js" for j
  proof -
    obtain j' k where j: "(k, j') \<in> set (jobs rt)" "j = orphaned_job inst j'" using mem unfolding js map_values_def by auto
    from j(1) have k: "map_get (jobs rt) k = Some j'" by (rule jm.lookup_entries [OF conjunct1 [OF jobs], THEN iffD2])
    then have "job_id j' = k" using conjunct2 [OF jobs] by simp
    with k j(2) show ?thesis by (simp add: orphaned_job_def same_assignment_def)
  qed
  then have ok: "rt_ok rt1" unfolding rt1 by (intro recovered_jobs_ok [OF assms(1)] ballI)
  obtain x cp' where r: "recover_jobs now inst (map (\<lambda>j. (j, fresh j)) js) (plane rt1) = (x, cp')"
    by (cases "recover_jobs now inst (map (\<lambda>j. (j, fresh j)) js) (plane rt1)")
  then have rt': "rt' = rt1\<lparr>plane := cp'\<rparr>"
    using assms(2) by (simp add: recover_restart_def rec in_plane_def)
  have "store_run (plane rt1) (plane rt')" using recover_jobs_run [OF r rt_ok_parts(1) [OF ok]] by (simp add: rt')
  then show ?thesis by (rule untouched_ok [OF ok]) (rule untouched_plane [OF rt'])
qed

lemma rt_step_ok: "rt_step rt rt' \<Longrightarrow> rt_ok rt \<Longrightarrow> rt_ok rt'"
proof (induction rule: rt_step.induct)
  case (rts_plane rt cp')
  have "store_run (plane rt) (plane (rt\<lparr>plane := cp'\<rparr>))"
    using cp_step_run [OF rts_plane(1) rt_ok_parts(1) [OF rts_plane(2)]] by simp
  then show ?case by (rule untouched_ok [OF rts_plane(2)]) (rule untouched_plane [OF refl])
qed (blast intro: dispatch_ok applyResult_ok poll_completed_ok poll_failed_ok heartbeat_ok restart_ok)+

lemma new_runtime_ok:
  assumes "0 \<le> max_concurrent_global cfg" and "0 \<le> max_concurrent_per_worker cfg"
  shows "rt_ok (new_runtime cfg)"
proof -
  have "admission_inv (new_concurrency_manager cfg)"
    using assms by (simp add: admission_inv_def new_concurrency_manager_def jobs_of_def)
  then show ?thesis
    using empty_cp_ok
    by (simp add: rt_ok_def new_runtime_def jobs_ok_def slots_ok_def history_ok_def history_def new_doom_loop_detector_def
        new_concurrency_manager_def empty_control_plane_def)
qed

definition reachable :: "concurrency_config \<Rightarrow> runtime \<Rightarrow> bool" where
  "reachable cfg rt = rt_step\<^sup>*\<^sup>* (new_runtime cfg) rt"

lemma reachable_ok:
  assumes "reachable cfg rt" and "0 \<le> max_concurrent_global cfg" and "0 \<le> max_concurrent_per_worker cfg"
  shows "rt_ok rt"
  using assms(1) unfolding reachable_def
  by (induction rule: rtranclp_induct) (use new_runtime_ok [OF assms(2,3)] rt_step_ok in blast)+


text \<open>The loop check that the handling of results relies on never fires: the detector is told of one transition of
  each job only, at its dispatch, and a loop needs two. So in every reachable runtime the check finds nothing, and a
  failed result is never handled as a doom loop.
\<close>

theorem loop_check_never_fires:
  assumes "reachable cfg rt" and "0 \<le> max_concurrent_global cfg" and "0 \<le> max_concurrent_per_worker cfg"
  shows "detectLoop now job (doomLoopDetector rt) = (None, doomLoopDetector rt)"
proof (rule loop_needs_history)
  have "history_ok rt" using reachable_ok [OF assms] by (rule rt_ok_parts)
  then show "length (getTransitionHistory (doomLoopDetector rt) job) < 2"
    by (cases "map_get (history rt) job") (fastforce simp: history_ok_def history_def getTransitionHistory_def)+
qed

subsection \<open>A reachable runtime with a job\<close>

definition one_task_runtime :: runtime where
  "one_task_runtime = (new_runtime DEFAULT_CONCURRENCY_CONFIG)\<lparr>plane := one_task_plane\<rparr>"

lemma plane_steps_reach: "cp_step\<^sup>*\<^sup>* cp cp' \<Longrightarrow> plane rt = cp \<Longrightarrow> rt_step\<^sup>*\<^sup>* rt (rt\<lparr>plane := cp'\<rparr>)"
proof (induction rule: rtranclp_induct)
  case (step cp1 cp2)
  have "rt_step (rt\<lparr>plane := cp1\<rparr>) (rt\<lparr>plane := cp1, plane := cp2\<rparr>)" by (rule rts_plane) (simp add: step(2))
  then show ?case using step(3) [OF step(4)] by simp
next
  case base
  then have "rt\<lparr>plane := cp\<rparr> = rt" by (cases rt) simp
  then show ?case by simp
qed

lemma one_task_reached: "reachable DEFAULT_CONCURRENCY_CONFIG one_task_runtime"
  unfolding reachable_def one_task_runtime_def
  by (rule plane_steps_reach [OF one_task_plane_reached]) (simp add: new_runtime_def)

lemma one_task_facts:
  "concurrencyManager one_task_runtime = new_concurrency_manager DEFAULT_CONCURRENCY_CONFIG"
  "getLease (leaseManager one_task_runtime) k = None" "known_capabilities w one_task_runtime = DEFAULT_WORKER_CAPABILITIES w"
  "jobs one_task_runtime = []"
  by (simp_all add: one_task_runtime_def new_runtime_def new_lease_manager_def getLease_def known_capabilities_def getWorkerCapabilities_def)

lemma one_task_may: "may_dispatch now ids (new_task 5 ''task_1'' sample_request) plan_request one_task_runtime"
  using queued_facts(10)
  by (simp add: may_dispatch_def queued_facts one_task_facts canAccept_def worker_active_def new_concurrency_manager_def
      DEFAULT_CONCURRENCY_CONFIG_def)

lemma planned_runtime:
  obtains rt j where "reachable DEFAULT_CONCURRENCY_CONFIG rt" and "map_get (jobs rt) (op_job sample_op_ids) = Some j"
    and "jobs_of (concurrencyManager rt) ''codex'' = [op_job sample_op_ids]"
proof -
  have l: "rt_lookup one_task_runtime ''task_1'' = Some (new_task 5 ''task_1'' sample_request)"
    using one_task_plane_lookup by (simp add: one_task_runtime_def rt_lookup_def)
  obtain pd rt where b: "dispatch_begin 9 sample_op_ids ''task_1'' plan_request one_task_runtime = (Inr pd, rt)"
    using may_dispatch_granted [OF l one_task_may] by blast
  note d = dispatched_may [OF l b]
  have "dispatch 9 sample_op_ids ''shipyard'' ''task_1'' plan_request failing_submission one_task_runtime =
      (Inl (Plain_Error (''Failed to submit job: '' @ submission_failure failing_submission)), rt)"
    using b queued_facts(6) by (simp add: dispatch_def and_then_def dispatch_end_def lost_submission_def Let_def)
  then have "rt_step one_task_runtime rt" by (rule rts_dispatch) (simp add: one_task_facts)
  then have "reachable DEFAULT_CONCURRENCY_CONFIG rt" using one_task_reached unfolding reachable_def by (rule rtranclp.rtrancl_into_rtrancl [rotated])
  moreover have "map_get (jobs rt) (op_job sample_op_ids) = Some (pd_job pd)" by (simp add: d(11))
  moreover have "jobs_of (concurrencyManager rt) ''codex'' = [op_job sample_op_ids]"
    by (simp add: d(12) queued_facts jobs_of_start one_task_facts) (simp add: jobs_of_def new_concurrency_manager_def set_add_def)
  ultimately show thesis by (rule that)
qed


theorem loop_check_never_fires_witness:
  "\<exists>rt. reachable DEFAULT_CONCURRENCY_CONFIG rt \<and> jobs rt \<noteq> [] \<and> fst (detectLoop 10 (op_job sample_op_ids) (doomLoopDetector rt)) = None"
proof -
  obtain rt j where rt: "reachable DEFAULT_CONCURRENCY_CONFIG rt" "map_get (jobs rt) (op_job sample_op_ids) = Some j"
    by (rule planned_runtime)
  then have "jobs rt \<noteq> []" by auto
  with rt(1) loop_check_never_fires [OF rt(1), of 10 "op_job sample_op_ids"] show ?thesis
    by (auto simp: DEFAULT_CONCURRENCY_CONFIG_def)
qed

end
