(* ===== verification/Session_Registry.thy ===== *)
theory Session_Registry
  imports Instruction Lease
begin

text \<open>
  The registry of worker sessions (\<open>src/src/domain/worker/session-registry\<close>, \<open>session-registry-types.ts\<close>): which
  session may be used again, ranking, leases of sessions, the warm pool, health scores, orphans and expiry. A record
  object is shared by the map and its readers, so every change is written to the map. A \<open>Set\<close> is a list without
  repetitions, a counter table a function. Scores of the ranking are reals. The intervals that call \<open>cleanup\<close> and
  \<open>processOrphans\<close> are left out.
\<close>

subsection \<open>Types\<close>

datatype agent_profile = Planning_Oriented | Build_Oriented | Verification_Oriented

datatype reuse_skip_reason = Agent_Profile_Mismatch | Stage_Bucket_Mismatch | Policy_Fingerprint_Mismatch | Workspace_Mismatch |
  Task_Mismatch | Already_Leased | State_Not_Ready | Skip_Ttl_Expired | Health_Score_Low | Error_History_High

datatype reuse_hit_reason = Same_Stage_Same_Agent | Warm_Pool_Match | Fresh_Idle_Match

datatype cleanup_reason = Task_Completed | Task_Cancelled | Task_Failed | Cleanup_Timeout | Server_Crash | Policy_Mismatch |
  Ttl_Expired | Manual_Cleanup | Orphan_Detected | Lease_Expired

datatype session_state = Initializing | Ready | Active | Idle | Draining | Dead | Expired

record transcript_index =
  ti_message_count :: int
  ti_tool_count :: int
  ti_permission_requests :: int
  ti_keywords :: "string list"
  ti_last_tools :: "string list"
  ti_size_bytes :: "int option"
  ti_last_updated :: "time option"

record transcript_update =
  tu_message_count :: "int option"
  tu_tool_count :: "int option"
  tu_permission_requests :: "int option"
  tu_keywords :: "string list option"
  tu_last_tools :: "string list option"
  tu_size_bytes :: "int option"

record health_score =
  hs_score :: int
  hs_errors :: int
  hs_successes :: int
  hs_healthy :: bool
  hs_calculated :: time

record session_record =
  se_id :: string
  se_task :: string
  se_workspace :: "string \<times> string"
  se_worker :: worker_type
  se_stage :: worker_stage
  se_fingerprint :: string
  se_profile :: agent_profile
  se_state :: session_state
  se_created :: time
  se_last_activity :: time
  se_last_used :: "time option"
  se_leased_by :: "string option"
  se_lease_expires :: "time option"
  se_server :: string
  se_error :: "string option"
  se_cleanup :: "cleanup_reason option"
  se_transcript :: "transcript_index option"
  se_health :: "health_score option"
  se_in_pool :: bool
  se_pool_entry :: "time option"

record search_criteria =
  cr_task :: string
  cr_workspace :: "string \<times> string"
  cr_worker :: worker_type
  cr_stage :: worker_stage
  cr_fingerprint :: string
  cr_profile :: "agent_profile option"

record registry_config =
  session_ttl_ms :: int
  lease_ttl_ms :: int
  enable_warm_pool :: bool
  min_health :: int
  max_errors :: int

record registry_stats =
  st_created :: int
  st_reused :: int
  st_cleaned :: int
  st_orphans :: int
  st_by_reason :: "cleanup_reason \<Rightarrow> int"
  st_pool_size :: int
  st_pool_hits :: int
  st_pool_misses :: int
  st_hits :: "reuse_hit_reason \<Rightarrow> int"
  st_skips :: "reuse_skip_reason \<Rightarrow> int"

record registry =
  rg_config :: registry_config
  sessions :: "(string, session_record) jsmap"
  warm_pool :: "string list"
  rg_stats :: registry_stats

definition new_registry :: "int \<Rightarrow> int \<Rightarrow> bool option \<Rightarrow> int option \<Rightarrow> int option \<Rightarrow> registry" where
  "new_registry ttl lease pool health errors = \<lparr>rg_config = \<lparr>session_ttl_ms = ttl, lease_ttl_ms = lease,
       enable_warm_pool = (case pool of Some b \<Rightarrow> b | None \<Rightarrow> True), min_health = (case health of Some n \<Rightarrow> n | None \<Rightarrow> 50),
       max_errors = (case errors of Some n \<Rightarrow> n | None \<Rightarrow> 3)\<rparr>,
     sessions = [], warm_pool = [],
     rg_stats = \<lparr>st_created = 0, st_reused = 0, st_cleaned = 0, st_orphans = 0, st_by_reason = (\<lambda>_. 0), st_pool_size = 0,
       st_pool_hits = 0, st_pool_misses = 0, st_hits = (\<lambda>_. 0), st_skips = (\<lambda>_. 0)\<rparr>\<rparr>"

fun determineAgentProfile :: "worker_stage \<Rightarrow> agent_profile" where
  "determineAgentProfile Plan = Planning_Oriented"
| "determineAgentProfile Dev = Build_Oriented"
| "determineAgentProfile Acceptance = Verification_Oriented"

definition profile_of :: "search_criteria \<Rightarrow> agent_profile" where
  "profile_of c = (case cr_profile c of Some p \<Rightarrow> p | None \<Rightarrow> determineAgentProfile (cr_stage c))"

text \<open>
  The default sort of the categories is by code units. The workspace reference is serialised in the order in which the
  dispatcher builds it. Besides the fingerprint the function leaves the list of the policy sorted, since \<open>sort\<close> works in
  place.
\<close>

fun name_before :: "string \<Rightarrow> string \<Rightarrow> bool" where
  "name_before [] t = True"
| "name_before (c # s) [] = False"
| "name_before (c # s) (d # t) = ((of_char c :: nat) < of_char d \<or> c = d \<and> name_before s t)"

fun insert_name :: "side_effect_category \<Rightarrow> side_effect_category list \<Rightarrow> side_effect_category list" where
  "insert_name x [] = [x]"
| "insert_name x (y # ys) = (if name_before (category_name x) (category_name y) then x # y # ys else y # insert_name x ys)"

definition sort_names :: "side_effect_category list \<Rightarrow> side_effect_category list" where
  "sort_names cs = foldr insert_name cs []"

fun kind_name :: "workspace_kind \<Rightarrow> string" where
  "kind_name Container = ''container''"
| "kind_name Volume = ''volume''"
| "kind_name Host_Path = ''host_path''"

fun mode_text :: "approval_mode \<Rightarrow> string" where
  "mode_text Deny = ''deny''"
| "mode_text Ask = ''ask''"
| "mode_text Allow = ''allow''"

definition workspace_json :: "workspace_ref \<Rightarrow> json" where
  "workspace_json w = Json_Obj ([(''workspace_id'', Json_Str (workspace_id w)), (''kind'', Json_Str (kind_name (workspace_kind w)))] @
     (case reusable w of Some b \<Rightarrow> [(''reusable'', Json_Bool b)] | None \<Rightarrow> []))"

definition generatePolicyFingerprint :: "worker_job \<Rightarrow> string \<times> worker_job" where
  "generatePolicyFingerprint j =
     (let p = job_approval_policy j; cs = map_option sort_names (allowed_side_effects p) in
      (js_join ''|'' [mode_text (approval_mode p), (case cs of Some xs \<Rightarrow> js_join '','' (map category_name xs) | None \<Rightarrow> []),
         sandbox_name (sandbox_profile p), stringify (workspace_json (job_workspace_ref j))],
       j\<lparr>job_approval_policy := p\<lparr>allowed_side_effects := cs\<rparr>\<rparr>))"

subsection \<open>Eligibility and ranking\<close>

definition lease_over :: "time \<Rightarrow> session_record \<Rightarrow> bool" where
  "lease_over now r = (case se_lease_expires r of Some e \<Rightarrow> e \<noteq> 0 \<and> e < now | None \<Rightarrow> False)"

definition leased :: "session_record \<Rightarrow> bool" where
  "leased r = (\<not> falsy (se_leased_by r))"

definition unhealthy :: "session_record \<Rightarrow> bool" where
  "unhealthy r = (case se_health r of Some h \<Rightarrow> \<not> hs_healthy h | None \<Rightarrow> False)"

text \<open>\<open>None\<close> if the session may be used again, else the reason why not.\<close>

definition checkReuseEligibility :: "time \<Rightarrow> session_record \<Rightarrow> search_criteria \<Rightarrow> agent_profile \<Rightarrow> registry_config \<Rightarrow> reuse_skip_reason option" where
  "checkReuseEligibility now r c profile cfg =
     (if se_task r \<noteq> cr_task c then Some Task_Mismatch
      else if se_workspace r \<noteq> cr_workspace c then Some Workspace_Mismatch
      else if se_worker r \<noteq> cr_worker c then Some Task_Mismatch
      else if se_stage r \<noteq> cr_stage c then Some Stage_Bucket_Mismatch
      else if se_fingerprint r \<noteq> cr_fingerprint c then Some Policy_Fingerprint_Mismatch
      else if se_profile r \<noteq> profile then Some Agent_Profile_Mismatch
      else if leased r then (if lease_over now r then None else Some Already_Leased)
      else if se_state r \<noteq> Ready \<and> se_state r \<noteq> Idle then Some State_Not_Ready
      else if unhealthy r then Some Health_Score_Low
      else if (case se_health r of Some h \<Rightarrow> hs_errors h > max_errors cfg | None \<Rightarrow> False) then Some Error_History_High
      else None)"

definition last_use :: "session_record \<Rightarrow> time" where
  "last_use r = (case se_last_used r of Some t \<Rightarrow> if t = 0 then se_last_activity r else t | None \<Rightarrow> se_last_activity r)"

definition transcript_penalty :: "session_record \<Rightarrow> real" where
  "transcript_penalty r = (case se_transcript r of None \<Rightarrow> 0
     | Some ti \<Rightarrow> let n = (case ti_size_bytes ti of Some k \<Rightarrow> k | None \<Rightarrow> 0) in
         if n < 10240 then 5 else if n > 102400 then 10 else 0)"

definition calculateReuseScore :: "time \<Rightarrow> session_record \<Rightarrow> real" where
  "calculateReuseScore now r =
     (let stale = of_int (now - last_use r) / 3600000;
          health = (case se_health r of Some h \<Rightarrow> of_int (hs_score h) * 0.3 - of_int (hs_errors h) * 10 | None \<Rightarrow> 0)
      in max 0 (min 100 (100 - min 30 (stale * 5) + health - transcript_penalty r + (if se_in_pool r then 15 else 0))))"

definition rankCandidates :: "time \<Rightarrow> session_record list \<Rightarrow> session_record list" where
  "rankCandidates now rs = sort_key (\<lambda>r. - calculateReuseScore now r) rs"

definition isWarmPoolEligible :: "time \<Rightarrow> session_record \<Rightarrow> int \<Rightarrow> bool" where
  "isWarmPoolEligible now r ttl = ((se_state r = Idle \<or> se_state r = Ready) \<and> \<not> leased r \<and> \<not> unhealthy r \<and> now - se_created r \<le> ttl)"

subsection \<open>Health and transcripts\<close>

definition createInitialHealthScore :: "time \<Rightarrow> health_score" where
  "createInitialHealthScore now = \<lparr>hs_score = 100, hs_errors = 0, hs_successes = 0, hs_healthy = True, hs_calculated = now\<rparr>"

definition calculateHealthScore :: "time \<Rightarrow> health_score \<Rightarrow> bool \<Rightarrow> int \<Rightarrow> int \<Rightarrow> health_score" where
  "calculateHealthScore now h success minScore maxErrors =
     (let e = (if success then hs_errors h else hs_errors h + 1); s = (if success then hs_successes h + 1 else hs_successes h);
          score = max 0 (min 100 (100 - e * 15 + min (s * 2) 50))
      in \<lparr>hs_score = score, hs_errors = e, hs_successes = s, hs_healthy = (score \<ge> minScore \<and> e \<le> maxErrors), hs_calculated = now\<rparr>)"

definition keep_or :: "'a \<Rightarrow> 'a option \<Rightarrow> 'a" where
  "keep_or x u = (case u of Some y \<Rightarrow> y | None \<Rightarrow> x)"

definition updateTranscriptMetadata :: "time \<Rightarrow> transcript_index option \<Rightarrow> transcript_update \<Rightarrow> transcript_index" where
  "updateTranscriptMetadata now ex u =
     (let b = (case ex of Some t \<Rightarrow> t | None \<Rightarrow> \<lparr>ti_message_count = 0, ti_tool_count = 0, ti_permission_requests = 0, ti_keywords = [],
            ti_last_tools = [], ti_size_bytes = None, ti_last_updated = None\<rparr>)
      in \<lparr>ti_message_count = keep_or (ti_message_count b) (tu_message_count u), ti_tool_count = keep_or (ti_tool_count b) (tu_tool_count u),
          ti_permission_requests = keep_or (ti_permission_requests b) (tu_permission_requests u),
          ti_keywords = keep_or (ti_keywords b) (tu_keywords u), ti_last_tools = keep_or (ti_last_tools b) (tu_last_tools u),
          ti_size_bytes = keep_or (ti_size_bytes b) (map_option Some (tu_size_bytes u)), ti_last_updated = Some now\<rparr>)"

definition calculateAverageHealthScore :: "session_record list \<Rightarrow> real" where
  "calculateAverageHealthScore rs =
     (let hs = concat (map (\<lambda>r. case se_health r of Some h \<Rightarrow> [hs_score h] | None \<Rightarrow> []) rs) in
      if hs = [] then 100 else of_int (sum_list hs) / of_nat (length hs))"

subsection \<open>Orphans and expiry\<close>

definition is_orphan :: "time \<Rightarrow> int \<Rightarrow> session_record \<Rightarrow> bool" where
  "is_orphan now lease r =
     (if se_state r = Dead \<or> se_state r = Draining then False
      else leased r \<and> lease_over now r \<or> se_state r = Active \<and> now - se_last_activity r > lease * 2 \<or>
        se_state r = Initializing \<and> now - se_created r > 60000)"

definition findOrphanSessions :: "time \<Rightarrow> int \<Rightarrow> session_record list \<Rightarrow> session_record list" where
  "findOrphanSessions now lease rs = filter (is_orphan now lease) rs"

definition determineOrphanCleanupReason :: "time \<Rightarrow> session_record \<Rightarrow> cleanup_reason" where
  "determineOrphanCleanupReason now r =
     (if leased r \<and> lease_over now r then Lease_Expired else if se_state r = Active then Cleanup_Timeout
      else if se_state r = Initializing then Server_Crash else Orphan_Detected)"

definition expiry :: "time \<Rightarrow> int \<Rightarrow> session_record \<Rightarrow> cleanup_reason option" where
  "expiry now ttl r =
     (if se_state r = Draining then None
      else if now - se_created r > ttl then Some Ttl_Expired
      else if se_state r = Idle \<and> 2 * (now - se_last_activity r) > ttl then Some Ttl_Expired
      else if se_state r = Dead \<and> now - se_last_activity r > 300000
        then Some (case se_cleanup r of Some c \<Rightarrow> c | None \<Rightarrow> Manual_Cleanup) else None)"

definition findExpiredSessions :: "time \<Rightarrow> (string, session_record) jsmap \<Rightarrow> int \<Rightarrow> (string \<times> cleanup_reason) list" where
  "findExpiredSessions now m ttl = concat (map (\<lambda>(k, r). case expiry now ttl r of Some c \<Rightarrow> [(k, c)] | None \<Rightarrow> []) m)"

subsection \<open>The registry\<close>

fun cleanup_name :: "cleanup_reason \<Rightarrow> string" where
  "cleanup_name Task_Completed = ''task_completed''"
| "cleanup_name Task_Cancelled = ''task_cancelled''"
| "cleanup_name Task_Failed = ''task_failed''"
| "cleanup_name Cleanup_Timeout = ''timeout''"
| "cleanup_name Server_Crash = ''server_crash''"
| "cleanup_name Policy_Mismatch = ''policy_mismatch''"
| "cleanup_name Ttl_Expired = ''ttl_expired''"
| "cleanup_name Manual_Cleanup = ''manual_cleanup''"
| "cleanup_name Orphan_Detected = ''orphan_detected''"
| "cleanup_name Lease_Expired = ''lease_expired''"

definition set_session :: "string \<Rightarrow> session_record \<Rightarrow> registry \<Rightarrow> registry" where
  "set_session k r rg = rg\<lparr>sessions := map_set (sessions rg) k r\<rparr>"

definition with_stats :: "(registry_stats \<Rightarrow> registry_stats) \<Rightarrow> registry \<Rightarrow> registry" where
  "with_stats f rg = rg\<lparr>rg_stats := f (rg_stats rg)\<rparr>"

definition bump :: "'k \<Rightarrow> ('k \<Rightarrow> int) \<Rightarrow> 'k \<Rightarrow> int" where
  "bump k f = f(k := f k + 1)"

definition count_reason :: "cleanup_reason \<Rightarrow> registry \<Rightarrow> registry" where
  "count_reason c = with_stats (\<lambda>s. s\<lparr>st_by_reason := bump c (st_by_reason s)\<rparr>)"

definition createSessionRecord :: "time \<Rightarrow> string \<Rightarrow> search_criteria \<Rightarrow> string \<Rightarrow> registry \<Rightarrow> session_record \<times> registry" where
  "createSessionRecord now sid c url rg =
     (let r = \<lparr>se_id = sid, se_task = cr_task c, se_workspace = cr_workspace c, se_worker = cr_worker c, se_stage = cr_stage c,
            se_fingerprint = cr_fingerprint c, se_profile = profile_of c, se_state = Initializing, se_created = now, se_last_activity = now,
            se_last_used = None, se_leased_by = None, se_lease_expires = None, se_server = url, se_error = None, se_cleanup = None,
            se_transcript = None, se_health = Some (createInitialHealthScore now), se_in_pool = False, se_pool_entry = None\<rparr>
      in (r, with_stats (\<lambda>s. s\<lparr>st_created := st_created s + 1\<rparr>) (set_session sid r rg)))"

definition addToWarmPool :: "time \<Rightarrow> string \<Rightarrow> registry \<Rightarrow> registry" where
  "addToWarmPool now sid rg = (case map_get (sessions rg) sid of
       None \<Rightarrow> rg
     | Some r \<Rightarrow> if se_in_pool r then rg
         else let pool = set_add (warm_pool rg) sid in
           with_stats (\<lambda>s. s\<lparr>st_pool_size := int (length pool)\<rparr>)
             ((set_session sid (r\<lparr>se_in_pool := True, se_pool_entry := Some now\<rparr>) rg)\<lparr>warm_pool := pool\<rparr>))"

definition removeFromWarmPool :: "string \<Rightarrow> registry \<Rightarrow> registry" where
  "removeFromWarmPool sid rg = (case map_get (sessions rg) sid of
       None \<Rightarrow> rg
     | Some r \<Rightarrow> if \<not> se_in_pool r then rg
         else let pool = removeAll sid (warm_pool rg) in
           with_stats (\<lambda>s. s\<lparr>st_pool_size := int (length pool)\<rparr>)
             ((set_session sid (r\<lparr>se_in_pool := False, se_pool_entry := None\<rparr>) rg)\<lparr>warm_pool := pool\<rparr>))"

text \<open>The sessions after the search has given back the leases that ran out, and those it may choose from.\<close>

definition take_back :: "time \<Rightarrow> session_record \<Rightarrow> session_record" where
  "take_back now r = r\<lparr>se_leased_by := None, se_lease_expires := None, se_state := Idle, se_last_activity := now\<rparr>"

definition refreshed :: "time \<Rightarrow> search_criteria \<Rightarrow> registry_config \<Rightarrow> session_record \<Rightarrow> session_record" where
  "refreshed now c cfg r =
     (if checkReuseEligibility now r c (profile_of c) cfg = None \<and> leased r \<and> lease_over now r then take_back now r else r)"

definition candidates :: "time \<Rightarrow> search_criteria \<Rightarrow> registry \<Rightarrow> session_record list" where
  "candidates now c rg = map (refreshed now c (rg_config rg))
     (filter (\<lambda>r. checkReuseEligibility now r c (profile_of c) (rg_config rg) = None) (map_values (sessions rg)))"

definition skipped :: "time \<Rightarrow> search_criteria \<Rightarrow> registry \<Rightarrow> reuse_skip_reason list" where
  "skipped now c rg = concat (map (\<lambda>r. case checkReuseEligibility now r c (profile_of c) (rg_config rg) of Some why \<Rightarrow> [why] | None \<Rightarrow> [])
     (map_values (sessions rg)))"

definition record_hit :: "time \<Rightarrow> session_record \<Rightarrow> registry \<Rightarrow> registry" where
  "record_hit now r rg =
     (let rg1 = with_stats (\<lambda>s. s\<lparr>st_hits := bump (if se_in_pool r then Warm_Pool_Match else Fresh_Idle_Match) (st_hits s)\<rparr>) rg;
          rg2 = (if se_in_pool r then with_stats (\<lambda>s. s\<lparr>st_pool_hits := st_pool_hits s + 1\<rparr>) (removeFromWarmPool (se_id r) rg1) else rg1)
      in with_stats (\<lambda>s. s\<lparr>st_reused := st_reused s + 1\<rparr>) rg2)"

text \<open>The identifier of the session found; its record is in the map.\<close>

definition findReusableSession :: "time \<Rightarrow> search_criteria \<Rightarrow> registry \<Rightarrow> string option \<times> registry" where
  "findReusableSession now c rg =
     (let rg1 = with_stats (\<lambda>s. s\<lparr>st_skips := foldl (\<lambda>f why. bump why f) (st_skips s) (skipped now c rg)\<rparr>)
            (rg\<lparr>sessions := map (\<lambda>(k, r). (k, refreshed now c (rg_config rg) r)) (sessions rg)\<rparr>)
      in case rankCandidates now (candidates now c rg) of [] \<Rightarrow> (None, rg1) | r # _ \<Rightarrow> (Some (se_id r), record_hit now r rg1))"

definition leaseSession :: "time \<Rightarrow> string \<Rightarrow> string \<Rightarrow> registry \<Rightarrow> bool \<times> registry" where
  "leaseSession now sid job rg = (case map_get (sessions rg) sid of
       None \<Rightarrow> (False, rg)
     | Some r \<Rightarrow>
         if leased r \<and> (case se_lease_expires r of Some e \<Rightarrow> e \<noteq> 0 \<and> e > now | None \<Rightarrow> False) then (False, rg)
         else (True, removeFromWarmPool sid (set_session sid (r\<lparr>se_leased_by := Some job,
           se_lease_expires := Some (now + lease_ttl_ms (rg_config rg)), se_state := Active, se_last_activity := now,
           se_last_used := Some now\<rparr>) rg)))"

definition updateHealthScore :: "time \<Rightarrow> string \<Rightarrow> bool \<Rightarrow> registry \<Rightarrow> registry" where
  "updateHealthScore now sid success rg = (case map_get (sessions rg) sid of
       None \<Rightarrow> rg
     | Some r \<Rightarrow>
         let h = calculateHealthScore now (case se_health r of Some h \<Rightarrow> h | None \<Rightarrow> createInitialHealthScore now) success
               (min_health (rg_config rg)) (max_errors (rg_config rg));
             rg1 = set_session sid (r\<lparr>se_health := Some h\<rparr>) rg
         in if \<not> hs_healthy h then removeFromWarmPool sid rg1 else rg1)"

definition pool_if_eligible :: "time \<Rightarrow> string \<Rightarrow> registry \<Rightarrow> registry" where
  "pool_if_eligible now sid rg = (case map_get (sessions rg) sid of
       None \<Rightarrow> rg
     | Some r \<Rightarrow> if enable_warm_pool (rg_config rg) \<and> isWarmPoolEligible now r (session_ttl_ms (rg_config rg)) then addToWarmPool now sid rg else rg)"

definition releaseSession :: "time \<Rightarrow> string \<Rightarrow> string \<Rightarrow> registry \<Rightarrow> bool \<times> registry" where
  "releaseSession now sid job rg = (case map_get (sessions rg) sid of
       None \<Rightarrow> (False, rg)
     | Some r \<Rightarrow>
         if se_leased_by r \<noteq> Some job then (False, rg)
         else (True, pool_if_eligible now sid (updateHealthScore now sid True (set_session sid
           (r\<lparr>se_leased_by := None, se_lease_expires := None, se_state := Idle, se_last_activity := now\<rparr>) rg))))"

definition markSessionDead :: "time \<Rightarrow> string \<Rightarrow> string option \<Rightarrow> cleanup_reason option \<Rightarrow> registry \<Rightarrow> registry" where
  "markSessionDead now sid err why rg = (case map_get (sessions rg) sid of
       None \<Rightarrow> rg
     | Some r \<Rightarrow>
         let c = (case why of Some c \<Rightarrow> c | None \<Rightarrow> Task_Failed) in
         count_reason c (updateHealthScore now sid False (removeFromWarmPool sid (set_session sid
           (r\<lparr>se_state := Dead, se_error := err, se_cleanup := Some c, se_last_activity := now\<rparr>) rg))))"

definition markSessionDraining :: "time \<Rightarrow> string \<Rightarrow> cleanup_reason \<Rightarrow> registry \<Rightarrow> registry" where
  "markSessionDraining now sid why rg = (case map_get (sessions rg) sid of
       None \<Rightarrow> rg
     | Some r \<Rightarrow> set_session sid (r\<lparr>se_state := Draining, se_cleanup := Some why, se_last_activity := now\<rparr>) rg)"

definition markSessionOrphan :: "session_record \<Rightarrow> cleanup_reason \<Rightarrow> registry \<Rightarrow> registry" where
  "markSessionOrphan r why rg = count_reason why (set_session (se_id r)
     (r\<lparr>se_state := Dead, se_cleanup := Some why, se_leased_by := None, se_lease_expires := None,
        se_error := Some (''Orphan session: '' @ cleanup_name why)\<rparr>)
     (with_stats (\<lambda>s. s\<lparr>st_orphans := st_orphans s + 1\<rparr>) rg))"

definition markSessionReady :: "time \<Rightarrow> string \<Rightarrow> registry \<Rightarrow> registry" where
  "markSessionReady now sid rg = (case map_get (sessions rg) sid of
       None \<Rightarrow> rg
     | Some r \<Rightarrow> pool_if_eligible now sid (set_session sid (r\<lparr>se_state := Ready, se_last_activity := now\<rparr>) rg))"

text \<open>\<open>getWarmPoolSession\<close> of the class; \<open>findWarmPoolSession\<close> does the same on its arguments.\<close>

definition pool_match :: "time \<Rightarrow> search_criteria \<Rightarrow> registry \<Rightarrow> string \<Rightarrow> bool" where
  "pool_match now c rg sid = (case map_get (sessions rg) sid of
       None \<Rightarrow> False | Some r \<Rightarrow> checkReuseEligibility now r c (profile_of c) (rg_config rg) = None)"

definition findWarmPoolSession :: "time \<Rightarrow> search_criteria \<Rightarrow> registry \<Rightarrow> string option \<times> registry" where
  "findWarmPoolSession now c rg = (case find (pool_match now c rg) (warm_pool rg) of
       Some sid \<Rightarrow> (Some sid, with_stats (\<lambda>s. s\<lparr>st_pool_hits := st_pool_hits s + 1, st_hits := bump Warm_Pool_Match (st_hits s)\<rparr>) rg)
     | None \<Rightarrow> (None, with_stats (\<lambda>s. s\<lparr>st_pool_misses := st_pool_misses s + 1\<rparr>) rg))"

definition getWarmPoolSession :: "time \<Rightarrow> search_criteria \<Rightarrow> registry \<Rightarrow> string option \<times> registry" where
  "getWarmPoolSession now c rg = (if enable_warm_pool (rg_config rg) then findWarmPoolSession now c rg else (None, rg))"

definition getWarmPoolSize :: "registry \<Rightarrow> int" where
  "getWarmPoolSize rg = int (length (warm_pool rg))"

definition updateTranscriptIndex :: "time \<Rightarrow> string \<Rightarrow> transcript_update \<Rightarrow> registry \<Rightarrow> registry" where
  "updateTranscriptIndex now sid u rg = (case map_get (sessions rg) sid of
       None \<Rightarrow> rg
     | Some r \<Rightarrow> set_session sid (r\<lparr>se_transcript := Some (updateTranscriptMetadata now (se_transcript r) u)\<rparr>) rg)"

definition getTranscriptIndex :: "string \<Rightarrow> registry \<Rightarrow> transcript_index option" where
  "getTranscriptIndex sid rg = (case map_get (sessions rg) sid of None \<Rightarrow> None | Some r \<Rightarrow> se_transcript r)"

definition getSession :: "string \<Rightarrow> registry \<Rightarrow> session_record option" where
  "getSession sid rg = map_get (sessions rg) sid"

definition getSessionsForTask :: "string \<Rightarrow> registry \<Rightarrow> session_record list" where
  "getSessionsForTask tid rg = filter (\<lambda>r. se_task r = tid) (map_values (sessions rg))"

definition deleteSession :: "string \<Rightarrow> cleanup_reason option \<Rightarrow> registry \<Rightarrow> bool \<times> registry" where
  "deleteSession sid why rg = (case map_get (sessions rg) sid of
       None \<Rightarrow> (False, rg)
     | Some r \<Rightarrow>
         let c = (case why of Some c \<Rightarrow> c | None \<Rightarrow> (case se_cleanup r of Some c \<Rightarrow> c | None \<Rightarrow> Manual_Cleanup));
             rg1 = with_stats (\<lambda>s. s\<lparr>st_cleaned := st_cleaned s + 1\<rparr>) (count_reason c (removeFromWarmPool sid rg))
         in (True, rg1\<lparr>sessions := map_delete (sessions rg1) sid\<rparr>))"

definition count_state :: "session_state \<Rightarrow> registry \<Rightarrow> int" where
  "count_state st rg = int (length (filter (\<lambda>r. se_state r = st) (map_values (sessions rg))))"

definition count_leased :: "time \<Rightarrow> registry \<Rightarrow> int" where
  "count_leased now rg = int (length (filter
     (\<lambda>r. leased r \<and> (case se_lease_expires r of Some e \<Rightarrow> e \<noteq> 0 \<and> e > now | None \<Rightarrow> False)) (map_values (sessions rg))))"

definition processOrphans :: "time \<Rightarrow> registry \<Rightarrow> int \<times> registry" where
  "processOrphans now rg =
     (let os = findOrphanSessions now (lease_ttl_ms (rg_config rg)) (map_values (sessions rg)) in
      (int (length os), foldl (\<lambda>g r. markSessionOrphan r (determineOrphanCleanupReason now r) g) rg os))"

definition cleanup_one :: "time \<Rightarrow> cleanup_reason \<Rightarrow> registry \<Rightarrow> session_record \<Rightarrow> registry" where
  "cleanup_one now why rg r =
     (let rg1 = (if se_state r \<noteq> Dead then markSessionDead now (se_id r) (Some (''Task cleanup: '' @ cleanup_name why)) (Some why) rg else rg)
      in snd (deleteSession (se_id r) (Some why) rg1))"

definition cleanupSessionsForTask :: "time \<Rightarrow> string \<Rightarrow> cleanup_reason \<Rightarrow> registry \<Rightarrow> int \<times> registry" where
  "cleanupSessionsForTask now tid why rg =
     (let rs = getSessionsForTask tid rg in (int (length rs), foldl (cleanup_one now why) rg rs))"

definition expire_one :: "registry \<Rightarrow> string \<times> cleanup_reason \<Rightarrow> registry" where
  "expire_one rg kc = (case kc of (sid, c) \<Rightarrow>
     let rg1 = (if map_get (sessions rg) sid = None then rg
       else with_stats (\<lambda>s. s\<lparr>st_cleaned := st_cleaned s + 1\<rparr>) (count_reason c rg))
     in rg1\<lparr>sessions := map_delete (sessions rg1) sid\<rparr>)"

definition cleanup :: "time \<Rightarrow> registry \<Rightarrow> registry" where
  "cleanup now rg = foldl expire_one rg (findExpiredSessions now (sessions rg) (session_ttl_ms (rg_config rg)))"

text \<open>The numbers of sessions, of sessions per state, of leased and of pooled sessions.\<close>

definition getStats :: "time \<Rightarrow> registry \<Rightarrow> (int \<times> (session_state \<Rightarrow> int) \<times> int \<times> int) \<times> registry" where
  "getStats now rg = ((int (length (sessions rg)), (\<lambda>st. count_state st rg), count_leased now rg, getWarmPoolSize rg),
     with_stats (\<lambda>s. s\<lparr>st_pool_size := getWarmPoolSize rg\<rparr>) rg)"

end
