(* ===== verification/Session_Steps.thy ===== *)
theory Session_Steps
  imports Session_Registry
begin

text \<open>
  The invariant of the session registry under all its operations, and what a search for a session to use again
  promises. Sessions get fresh identifiers.
\<close>

subsection \<open>The invariant\<close>

definition score_ok :: "health_score option \<Rightarrow> bool" where
  "score_ok h = (case h of Some s \<Rightarrow> 0 \<le> hs_score s \<and> hs_score s \<le> 100 | None \<Rightarrow> True)"

definition record_ok :: "string list \<Rightarrow> string \<Rightarrow> session_record \<Rightarrow> bool" where
  "record_ok pool k r = (se_id r = k \<and> score_ok (se_health r) \<and> (se_in_pool r \<longrightarrow> k \<in> set pool \<and> \<not> leased r))"

definition registry_ok :: "registry \<Rightarrow> bool" where
  "registry_ok rg = (wf_map (sessions rg) \<and> distinct (warm_pool rg) \<and> st_pool_size (rg_stats rg) = int (length (warm_pool rg)) \<and>
     (\<forall>k r. map_get (sessions rg) k = Some r \<longrightarrow> record_ok (warm_pool rg) k r))"

lemma registry_okD: "registry_ok rg \<Longrightarrow> map_get (sessions rg) k = Some r \<Longrightarrow> record_ok (warm_pool rg) k r"
  by (simp add: registry_ok_def)

lemma set_session_simps [simp]:
  "sessions (set_session k r rg) = map_set (sessions rg) k r" "warm_pool (set_session k r rg) = warm_pool rg"
  "rg_stats (set_session k r rg) = rg_stats rg" "rg_config (set_session k r rg) = rg_config rg"
  by (simp_all add: set_session_def)

lemma with_stats_simps [simp]:
  "sessions (with_stats f rg) = sessions rg" "warm_pool (with_stats f rg) = warm_pool rg" "rg_config (with_stats f rg) = rg_config rg"
  "rg_stats (with_stats f rg) = f (rg_stats rg)"
  by (simp_all add: with_stats_def)

lemma count_reason_simps [simp]:
  "sessions (count_reason c rg) = sessions rg" "warm_pool (count_reason c rg) = warm_pool rg" "rg_config (count_reason c rg) = rg_config rg"
  "st_pool_size (rg_stats (count_reason c rg)) = st_pool_size (rg_stats rg)"
  by (simp_all add: count_reason_def)

lemma with_stats_ok: "registry_ok rg \<Longrightarrow> st_pool_size (f (rg_stats rg)) = st_pool_size (rg_stats rg) \<Longrightarrow> registry_ok (with_stats f rg)"
  by (simp add: registry_ok_def)

lemma count_reason_ok [simp]: "registry_ok (count_reason c rg) = registry_ok rg"
  by (simp add: registry_ok_def)

lemma set_session_ok: "registry_ok rg \<Longrightarrow> record_ok (warm_pool rg) k r \<Longrightarrow> registry_ok (set_session k r rg)"
  by (auto simp: registry_ok_def jm.lookup_store split: if_splits)

lemma delete_session_ok: "registry_ok rg \<Longrightarrow> registry_ok (rg\<lparr>sessions := map_delete (sessions rg) k\<rparr>)"
  by (auto simp: registry_ok_def jm.lookup_remove split: if_splits)

lemma record_ok_fields: "record_ok pool k r \<Longrightarrow> se_id r' = se_id r \<Longrightarrow> se_health r' = se_health r \<Longrightarrow> se_in_pool r' = se_in_pool r \<Longrightarrow>
    se_leased_by r' = se_leased_by r \<Longrightarrow> record_ok pool k r'"
  by (simp add: record_ok_def leased_def)

lemma record_ok_pool: "record_ok pool k r \<Longrightarrow> set pool \<subseteq> set pool' \<Longrightarrow> record_ok pool' k r"
  by (auto simp: record_ok_def)

text \<open>Removal works on any record put under the key, in the pool or not, leased or not.\<close>

lemma length_removeAll_distinct: "distinct xs \<Longrightarrow> distinct (removeAll x xs)"
  by (simp add: distinct_removeAll)

lemma remove_set_ok:
  assumes "registry_ok rg" and "se_id r = k" and "score_ok (se_health r)" and "se_in_pool r \<or> record_ok (warm_pool rg) k r"
  shows "registry_ok (removeFromWarmPool k (set_session k r rg))"
proof (cases "se_in_pool r")
  case True
  have "record_ok (removeAll k (warm_pool rg)) k' r'" if "map_get (sessions rg) k' = Some r'" "k' \<noteq> k" for k' r'
    using registry_okD [OF assms(1) that(1)] that(2) by (auto simp: record_ok_def)
  with assms True show ?thesis
    by (auto simp: removeFromWarmPool_def Let_def registry_ok_def record_ok_def distinct_removeAll jm.lookup_store split: if_splits)
next
  case False
  then show ?thesis using set_session_ok [OF assms(1)] assms(4) by (simp add: removeFromWarmPool_def)
qed

lemma remove_ok: "registry_ok rg \<Longrightarrow> registry_ok (removeFromWarmPool k rg)"
proof (cases "map_get (sessions rg) k")
  case (Some r)
  assume ok: "registry_ok rg"
  have r: "record_ok (warm_pool rg) k r" by (rule registry_okD [OF ok Some])
  show ?thesis
  proof (cases "se_in_pool r")
    case True
    have "record_ok (removeAll k (warm_pool rg)) k' r'" if "map_get (sessions rg) k' = Some r'" "k' \<noteq> k" for k' r'
      using registry_okD [OF ok that(1)] that(2) by (auto simp: record_ok_def)
    with ok True Some r show ?thesis
      by (auto simp: removeFromWarmPool_def Let_def registry_ok_def record_ok_def distinct_removeAll jm.lookup_store split: if_splits)
  qed (use ok Some in \<open>simp add: removeFromWarmPool_def\<close>)
qed (simp add: removeFromWarmPool_def)

lemma remove_session: "map_get (sessions (removeFromWarmPool k rg)) k' =
    (if k' = k then map_option (\<lambda>r. if se_in_pool r then r\<lparr>se_in_pool := False, se_pool_entry := None\<rparr> else r) (map_get (sessions rg) k)
     else map_get (sessions rg) k')"
  by (auto simp: removeFromWarmPool_def Let_def jm.lookup_store split: option.split)

lemma add_ok:
  assumes "registry_ok rg" and "\<forall>r. map_get (sessions rg) k = Some r \<longrightarrow> \<not> leased r"
  shows "registry_ok (addToWarmPool now k rg)"
proof (cases "map_get (sessions rg) k")
  case (Some r)
  have r: "record_ok (warm_pool rg) k r" by (rule registry_okD [OF assms(1) Some])
  have "record_ok (set_add (warm_pool rg) k) k' r'" if "map_get (sessions rg) k' = Some r'" for k' r'
    by (rule record_ok_pool [OF registry_okD [OF assms(1) that]]) auto
  with assms Some r show ?thesis
    by (auto simp: addToWarmPool_def Let_def registry_ok_def record_ok_def leased_def jm.lookup_store split: if_splits)
qed (use assms in \<open>simp add: addToWarmPool_def\<close>)

lemma pool_if_eligible_ok: "registry_ok rg \<Longrightarrow> registry_ok (pool_if_eligible now k rg)"
  by (auto simp: pool_if_eligible_def isWarmPoolEligible_def intro!: add_ok split: option.split)

lemma health_bounds [simp]: "score_ok (Some (calculateHealthScore now h success lo hi))"
  by (simp add: score_ok_def calculateHealthScore_def Let_def)

lemma health_ok: "registry_ok rg \<Longrightarrow> registry_ok (updateHealthScore now k success rg)"
proof (cases "map_get (sessions rg) k")
  case (Some r)
  assume ok: "registry_ok rg"
  have r: "record_ok (warm_pool rg) k r" by (rule registry_okD [OF ok Some])
  have "registry_ok (set_session k (r\<lparr>se_health := Some (calculateHealthScore now h success lo hi)\<rparr>) rg)" for h lo hi
    by (rule set_session_ok [OF ok]) (use r in \<open>simp add: record_ok_def leased_def\<close>)
  with Some show ?thesis by (simp add: updateHealthScore_def Let_def remove_ok)
qed (simp add: updateHealthScore_def)

declare map_get_map_values [simp]

lemma map_fst_mapped [simp]: "map fst (map (\<lambda>(k, r). (k, f r)) m) = map fst m"
  by (induction m) auto

lemma wf_mapped [simp]: "wf_map (map (\<lambda>(k, r). (k, f r)) m) = wf_map m"
  by (simp only: wf_map_def map_fst_mapped)

lemma refreshed_ok: "record_ok pool k r \<Longrightarrow> record_ok pool k (refreshed now c cfg r)"
  by (auto simp: refreshed_def take_back_def record_ok_def leased_def)

lemma create_ok: "registry_ok rg \<Longrightarrow> registry_ok (snd (createSessionRecord now sid c url rg))"
  by (auto simp: createSessionRecord_def Let_def record_ok_def score_ok_def createInitialHealthScore_def
      intro!: with_stats_ok set_session_ok)

lemma record_hit_ok: "registry_ok rg \<Longrightarrow> registry_ok (record_hit now r rg)"
  by (auto simp: record_hit_def Let_def intro!: with_stats_ok remove_ok)

lemma find_ok: "registry_ok rg \<Longrightarrow> registry_ok (snd (findReusableSession now c rg))"
proof -
  assume ok: "registry_ok rg"
  have "registry_ok (rg\<lparr>sessions := map (\<lambda>(k, r). (k, refreshed now c (rg_config rg) r)) (sessions rg)\<rparr>)"
    using ok by (auto simp: registry_ok_def intro!: refreshed_ok)
  then show ?thesis
    by (auto simp: findReusableSession_def Let_def intro!: record_hit_ok with_stats_ok split: list.split)
qed

lemma lease_ok: "registry_ok rg \<Longrightarrow> registry_ok (snd (leaseSession now sid job rg))"
proof (cases "map_get (sessions rg) sid")
  case (Some r)
  assume ok: "registry_ok rg"
  have "record_ok (warm_pool rg) sid r" by (rule registry_okD [OF ok Some])
  then have "registry_ok (removeFromWarmPool sid (set_session sid (r\<lparr>se_leased_by := Some job, se_lease_expires := e, se_state := Active,
      se_last_activity := now, se_last_used := Some now\<rparr>) rg))" for e
    by (intro remove_set_ok [OF ok]) (auto simp: record_ok_def)
  with ok Some show ?thesis by (simp add: leaseSession_def)
qed (simp add: leaseSession_def)

lemma release_ok: "registry_ok rg \<Longrightarrow> registry_ok (snd (releaseSession now sid job rg))"
proof (cases "map_get (sessions rg) sid")
  case (Some r)
  assume ok: "registry_ok rg"
  have "record_ok (warm_pool rg) sid r" by (rule registry_okD [OF ok Some])
  then have "registry_ok (set_session sid (r\<lparr>se_leased_by := None, se_lease_expires := None, se_state := Idle, se_last_activity := now\<rparr>) rg)"
    by (intro set_session_ok [OF ok]) (simp add: record_ok_def leased_def)
  with ok Some show ?thesis by (simp add: releaseSession_def pool_if_eligible_ok health_ok)
qed (simp add: releaseSession_def)

lemma dead_ok: "registry_ok rg \<Longrightarrow> registry_ok (markSessionDead now sid err why rg)"
proof (cases "map_get (sessions rg) sid")
  case (Some r)
  assume ok: "registry_ok rg"
  have "record_ok (warm_pool rg) sid r" by (rule registry_okD [OF ok Some])
  then have "registry_ok (set_session sid (r\<lparr>se_state := Dead, se_error := err, se_cleanup := c, se_last_activity := now\<rparr>) rg)" for c
    by (intro set_session_ok [OF ok]) (simp add: record_ok_def leased_def)
  with Some show ?thesis by (simp add: markSessionDead_def Let_def health_ok remove_ok)
qed (simp add: markSessionDead_def)

lemma draining_ok: "registry_ok rg \<Longrightarrow> registry_ok (markSessionDraining now sid why rg)"
  by (auto simp: markSessionDraining_def record_ok_def leased_def intro!: set_session_ok dest: registry_okD split: option.split)

lemma ready_ok: "registry_ok rg \<Longrightarrow> registry_ok (markSessionReady now sid rg)"
  by (auto simp: markSessionReady_def record_ok_def leased_def intro!: pool_if_eligible_ok set_session_ok dest: registry_okD split: option.split)

lemma transcript_ok: "registry_ok rg \<Longrightarrow> registry_ok (updateTranscriptIndex now sid u rg)"
  by (auto simp: updateTranscriptIndex_def record_ok_def leased_def intro!: set_session_ok dest: registry_okD split: option.split)

lemma delete_ok: "registry_ok rg \<Longrightarrow> registry_ok (snd (deleteSession sid why rg))"
proof (cases "map_get (sessions rg) sid")
  case (Some r)
  assume "registry_ok rg"
  then have "registry_ok (with_stats (\<lambda>s. s\<lparr>st_cleaned := st_cleaned s + 1\<rparr>) (count_reason c (removeFromWarmPool sid rg)))" for c
    by (intro with_stats_ok) (simp_all add: remove_ok)
  from delete_session_ok [OF this] Some show ?thesis by (simp add: deleteSession_def Let_def)
qed (simp add: deleteSession_def)

lemma foldl_keeps: "(\<And>g x. P g \<Longrightarrow> P (f g x)) \<Longrightarrow> P g \<Longrightarrow> P (foldl f g xs)"
  by (induction xs arbitrary: g) auto

lemma cleanup_task_ok: "registry_ok rg \<Longrightarrow> registry_ok (snd (cleanupSessionsForTask now tid why rg))"
  by (auto simp: cleanupSessionsForTask_def Let_def cleanup_one_def intro!: foldl_keeps [where P = registry_ok] delete_ok dead_ok)

lemma expire_one_ok: "registry_ok g \<Longrightarrow> registry_ok (expire_one g kc)"
proof -
  assume ok: "registry_ok g"
  obtain k c where kc: "kc = (k, c)" by (cases kc)
  have "registry_ok (with_stats (\<lambda>s. s\<lparr>st_cleaned := st_cleaned s + 1\<rparr>) (count_reason c g))"
    by (intro with_stats_ok) (simp_all add: ok)
  from delete_session_ok [OF this] delete_session_ok [OF ok] show ?thesis by (simp add: expire_one_def kc Let_def)
qed

lemma cleanup_ok: "registry_ok rg \<Longrightarrow> registry_ok (cleanup now rg)"
  by (auto simp: cleanup_def intro!: foldl_keeps [where P = registry_ok] expire_one_ok)

lemma orphan_ok: "registry_ok rg \<Longrightarrow> record_ok (warm_pool rg) (se_id r) r \<Longrightarrow> registry_ok (markSessionOrphan r why rg)"
  by (auto simp: markSessionOrphan_def record_ok_def leased_def intro!: set_session_ok with_stats_ok)

lemma orphan_pool [simp]: "warm_pool (markSessionOrphan r why rg) = warm_pool rg"
  by (simp add: markSessionOrphan_def)

lemma orphans_ok: "registry_ok rg \<Longrightarrow> \<forall>r \<in> set rs. record_ok (warm_pool rg) (se_id r) r \<Longrightarrow>
    registry_ok (foldl (\<lambda>g r. markSessionOrphan r (why r) g) rg rs)"
  by (induction rs arbitrary: rg) (auto simp: orphan_ok)

lemma values_get: "wf_map m \<Longrightarrow> r \<in> set (map_values m) \<Longrightarrow> \<exists>k. map_get m k = Some r"
  by (auto simp: map_values_def wf_map_def map_get_def)

lemma values_ok: "registry_ok rg \<Longrightarrow> r \<in> set (map_values (sessions rg)) \<Longrightarrow>
    map_get (sessions rg) (se_id r) = Some r \<and> record_ok (warm_pool rg) (se_id r) r"
  by (metis registry_ok_def record_ok_def values_get)

lemma process_ok: "registry_ok rg \<Longrightarrow> registry_ok (snd (processOrphans now rg))"
  by (auto simp: processOrphans_def Let_def findOrphanSessions_def intro!: orphans_ok dest: values_ok)

subsection \<open>The steps\<close>

text \<open>The public operations and the two interval handlers, one at a time. A new session has an identifier of its own.\<close>

inductive reg_step :: "registry \<Rightarrow> registry \<Rightarrow> bool" where
  create: "map_get (sessions rg) sid = None \<Longrightarrow> reg_step rg (snd (createSessionRecord now sid c url rg))"
| search: "reg_step rg (snd (findReusableSession now c rg))"
| stats: "reg_step rg (snd (getStats now rg))"
| pooled: "reg_step rg (snd (getWarmPoolSession now c rg))"
| leases: "reg_step rg (snd (leaseSession now sid job rg))"
| gives_back: "reg_step rg (snd (releaseSession now sid job rg))"
| ready: "reg_step rg (markSessionReady now sid rg)"
| draining: "reg_step rg (markSessionDraining now sid why rg)"
| dies: "reg_step rg (markSessionDead now sid err reason rg)"
| health: "reg_step rg (updateHealthScore now sid success rg)"
| transcript: "reg_step rg (updateTranscriptIndex now sid u rg)"
| removes: "reg_step rg (snd (deleteSession sid reason rg))"
| orphans: "reg_step rg (snd (processOrphans now rg))"
| task_ends: "reg_step rg (snd (cleanupSessionsForTask now tid why rg))"
| expires: "reg_step rg (cleanup now rg)"

inductive reg_reachable :: "registry \<Rightarrow> bool" where
  start: "reg_reachable (new_registry ttl lease pool low errors)"
| step: "reg_reachable rg \<Longrightarrow> reg_step rg rg' \<Longrightarrow> reg_reachable rg'"

lemma pool_search_ok: "registry_ok rg \<Longrightarrow> registry_ok (snd (getWarmPoolSession now c rg))"
  by (auto simp: getWarmPoolSession_def findWarmPoolSession_def intro!: with_stats_ok split: option.split)

lemma stats_ok: "registry_ok rg \<Longrightarrow> registry_ok (snd (getStats now rg))"
  by (simp add: getStats_def registry_ok_def getWarmPoolSize_def)

lemma step_ok: "reg_step rg rg' \<Longrightarrow> registry_ok rg \<Longrightarrow> registry_ok rg'"
  by (induction rule: reg_step.induct)
    (simp_all add: create_ok find_ok stats_ok pool_search_ok lease_ok release_ok ready_ok draining_ok dead_ok health_ok transcript_ok
      delete_ok process_ok cleanup_task_ok cleanup_ok)

lemma new_ok [simp]: "registry_ok (new_registry ttl lease pool low errors)"
  by (simp add: registry_ok_def new_registry_def wf_map_def map_get_def)

lemma registry_reachable_ok: "reg_reachable rg \<Longrightarrow> registry_ok rg"
  by (induction rule: reg_reachable.induct) (auto intro: step_ok)

subsection \<open>What a search finds\<close>

definition fits :: "session_record \<Rightarrow> search_criteria \<Rightarrow> bool" where
  "fits r c = (se_task r = cr_task c \<and> se_workspace r = cr_workspace c \<and> se_worker r = cr_worker c \<and> se_stage r = cr_stage c \<and>
     se_fingerprint r = cr_fingerprint c \<and> se_profile r = profile_of c)"

lemma eligible_fits: "checkReuseEligibility now r c (profile_of c) cfg = None \<Longrightarrow> fits r c \<and> (leased r \<longrightarrow> lease_over now r) \<and>
    (\<not> leased r \<longrightarrow> se_state r = Ready \<or> se_state r = Idle)"
  by (simp add: checkReuseEligibility_def fits_def split: if_splits)

lemma eligible_fitting: "fits r c \<Longrightarrow> leased r \<Longrightarrow> lease_over now r \<Longrightarrow> checkReuseEligibility now r c (profile_of c) cfg = None"
  by (simp add: checkReuseEligibility_def fits_def)

lemma refreshed_free: "checkReuseEligibility now r c (profile_of c) cfg = None \<Longrightarrow>
    \<not> leased (refreshed now c cfg r) \<and> fits (refreshed now c cfg r) c \<and> se_id (refreshed now c cfg r) = se_id r \<and>
    (se_state (refreshed now c cfg r) = Ready \<or> se_state (refreshed now c cfg r) = Idle)"
  using eligible_fits [of now r c cfg] by (auto simp: refreshed_def take_back_def leased_def fits_def)

lemma record_hit_get: "map_get (sessions (record_hit now r rg)) k =
    (if k = se_id r \<and> se_in_pool r then map_option (\<lambda>r. if se_in_pool r then r\<lparr>se_in_pool := False, se_pool_entry := None\<rparr> else r)
       (map_get (sessions rg) k) else map_get (sessions rg) k)"
  by (simp add: record_hit_def Let_def remove_session)

lemma found:
  assumes "registry_ok rg" and "findReusableSession now c rg = (Some sid, rg')"
  shows "\<exists>r0 r. map_get (sessions rg) sid = Some r0 \<and> checkReuseEligibility now r0 c (profile_of c) (rg_config rg) = None \<and>
    r = refreshed now c (rg_config rg) r0 \<and>
    getSession sid rg' = Some (if se_in_pool r then r\<lparr>se_in_pool := False, se_pool_entry := None\<rparr> else r)"
proof -
  from assms(2) obtain r rs where rank: "rankCandidates now (candidates now c rg) = r # rs" and sid: "sid = se_id r"
    by (auto simp: findReusableSession_def Let_def split: list.splits)
  then have "r \<in> set (rankCandidates now (candidates now c rg))" by simp
  then have "r \<in> set (candidates now c rg)" by (simp add: rankCandidates_def)
  then obtain r0 where r0: "r0 \<in> set (map_values (sessions rg))" "checkReuseEligibility now r0 c (profile_of c) (rg_config rg) = None"
    "r = refreshed now c (rg_config rg) r0" by (auto simp: candidates_def)
  then have get: "map_get (sessions rg) sid = Some r0" using values_ok [OF assms(1) r0(1)] refreshed_free [OF r0(2)] sid by simp
  with assms(2) rank sid r0 show ?thesis
    by (auto simp: findReusableSession_def Let_def getSession_def record_hit_get simp del: registry.simps)
qed

text \<open>C21. In every reachable state of the registry, a session that a search finds belongs to the task, workspace, worker and
  stage of the search, was made under the same policy fingerprint and agent profile, is ready or idle, and is held by
  nobody and out of the warm pool afterwards.\<close>

theorem reuse_isolated:
  assumes "reg_reachable rg" and "findReusableSession now c rg = (Some sid, rg')"
  shows "\<exists>r. getSession sid rg' = Some r \<and> se_task r = cr_task c \<and> se_workspace r = cr_workspace c \<and> se_worker r = cr_worker c \<and>
    se_stage r = cr_stage c \<and> se_fingerprint r = cr_fingerprint c \<and> se_profile r = profile_of c \<and>
    (se_state r = Ready \<or> se_state r = Idle) \<and> \<not> leased r \<and> \<not> se_in_pool r"
proof -
  obtain r0 where "checkReuseEligibility now r0 c (profile_of c) (rg_config rg) = None"
    "getSession sid rg' = Some (let r = refreshed now c (rg_config rg) r0 in if se_in_pool r then r\<lparr>se_in_pool := False, se_pool_entry := None\<rparr> else r)"
    using found [OF registry_reachable_ok [OF assms(1)] assms(2)] by (auto simp: Let_def)
  with refreshed_free [OF this(1)] show ?thesis by (simp add: Let_def leased_def fits_def)
qed

definition sample_search :: search_criteria where
  "sample_search = \<lparr>cr_task = ''t'', cr_workspace = (''w'', ''container''), cr_worker = Codex, cr_stage = Dev, cr_fingerprint = ''f'', cr_profile = None\<rparr>"

definition sample_registry :: registry where
  "sample_registry = markSessionReady 20 ''s'' (snd (createSessionRecord 10 ''s'' sample_search ''u'' (new_registry 1000 100 None None None)))"

lemma sample_reachable: "reg_reachable sample_registry"
  unfolding sample_registry_def
  by (rule reg_reachable.step [OF reg_reachable.step [OF reg_reachable.start]], rule create, simp add: new_registry_def map_get_def, rule ready)

lemmas session_eval = sample_registry_def sample_search_def markSessionReady_def createSessionRecord_def new_registry_def Let_def
  pool_if_eligible_def isWarmPoolEligible_def addToWarmPool_def removeFromWarmPool_def set_session_def with_stats_def map_get_def map_set_def
  profile_of_def createInitialHealthScore_def leased_def unhealthy_def set_add_def

lemmas search_eval = session_eval findReusableSession_def candidates_def skipped_def map_values_def checkReuseEligibility_def refreshed_def
  rankCandidates_def record_hit_def lease_over_def take_back_def getSession_def

lemma reuse_isolated_witness: "\<exists>rg'. findReusableSession 50 sample_search sample_registry = (Some ''s'', rg') \<and>
    (\<exists>r. getSession ''s'' rg' = Some r \<and> se_stage r = Dev \<and> \<not> leased r \<and> \<not> se_in_pool r)"
proof -
  have "fst (findReusableSession 50 sample_search sample_registry) = Some ''s''" by (simp add: search_eval)
  then have f: "findReusableSession 50 sample_search sample_registry = (Some ''s'', snd (findReusableSession 50 sample_search sample_registry))"
    by (simp add: prod_eq_iff)
  from reuse_isolated [OF sample_reachable f] have "\<exists>r. getSession ''s'' (snd (findReusableSession 50 sample_search sample_registry)) = Some r \<and>
    se_stage r = cr_stage sample_search \<and> \<not> leased r \<and> \<not> se_in_pool r" by blast
  with f show ?thesis by (auto simp: sample_search_def)
qed

text \<open>C10. In every reachable state of the registry: the size that the statistics give is the number of pooled sessions, a
  session marked as pooled is in the pool and held by nobody, and health scores lie between 0 and 100.\<close>

theorem registry_well_formed:
  assumes "reg_reachable rg"
  shows "st_pool_size (rg_stats rg) = getWarmPoolSize rg \<and> distinct (warm_pool rg) \<and>
    (case getSession sid rg of None \<Rightarrow> True
     | Some r \<Rightarrow> se_id r = sid \<and> score_ok (se_health r) \<and> (\<not> se_in_pool r \<or> sid \<in> set (warm_pool rg) \<and> \<not> leased r))"
  using registry_reachable_ok [OF assms] by (auto simp: registry_ok_def getWarmPoolSize_def getSession_def record_ok_def split: option.split)

lemma registry_well_formed_witness: "se_in_pool (the (getSession ''s'' sample_registry)) \<and> \<not> leased (the (getSession ''s'' sample_registry)) \<and>
    st_pool_size (rg_stats sample_registry) = getWarmPoolSize sample_registry"
proof -
  have g: "getSession ''s'' sample_registry = Some (the (getSession ''s'' sample_registry))" "se_in_pool (the (getSession ''s'' sample_registry))"
    by (simp_all add: search_eval)
  show ?thesis using registry_well_formed [OF sample_reachable, of "''s''"] g by (simp split: option.splits)
qed

text \<open>While a lease runs, the session can neither be leased to another job nor be found by a search, in the pool or not.\<close>

theorem session_lease_exclusive:
  assumes "reg_reachable rg" and "getSession sid rg = Some r" and "leased r" and "se_lease_expires r = Some e" and "0 < e" and "now < e"
  shows "leaseSession now sid job rg = (False, rg) \<and> fst (findReusableSession now c rg) \<noteq> Some sid \<and>
    fst (getWarmPoolSession now c rg) \<noteq> Some sid"
proof (intro conjI)
  have no: "checkReuseEligibility now r c (profile_of c) cfg \<noteq> None" for cfg
    using eligible_fits [of now r c cfg] assms(3-6) by (auto simp: lease_over_def)
  show "leaseSession now sid job rg = (False, rg)" using assms by (simp add: leaseSession_def getSession_def)
  show "fst (findReusableSession now c rg) \<noteq> Some sid"
    using found [OF registry_reachable_ok [OF assms(1)], of now c sid] no [of "rg_config rg"] assms(2)
    by (cases "findReusableSession now c rg") (auto simp: getSession_def)
  show "fst (getWarmPoolSession now c rg) \<noteq> Some sid"
    using no [of "rg_config rg"] assms(2)
    by (auto simp: getWarmPoolSession_def findWarmPoolSession_def pool_match_def getSession_def find_Some_iff split: option.split)
qed

definition sample_leased :: registry where
  "sample_leased = snd (leaseSession 30 ''s'' ''j'' sample_registry)"

lemma sample_leased_reachable: "reg_reachable sample_leased"
  unfolding sample_leased_def by (rule reg_reachable.step [OF sample_reachable leases])

lemma session_lease_exclusive_witness: "leaseSession 90 ''s'' ''k'' sample_leased = (False, sample_leased) \<and>
    fst (findReusableSession 90 sample_search sample_leased) \<noteq> Some ''s''"
proof -
  have g: "getSession ''s'' sample_leased = Some (the (getSession ''s'' sample_leased))" "leased (the (getSession ''s'' sample_leased))"
    "se_lease_expires (the (getSession ''s'' sample_leased)) = Some 130"
    by (simp_all add: search_eval sample_leased_def leaseSession_def falsy_def)
  show ?thesis using session_lease_exclusive [OF sample_leased_reachable g] by simp
qed

lemma unpooled: "map_get (sessions rg) k = Some r \<Longrightarrow> \<not> se_in_pool r \<Longrightarrow> removeFromWarmPool k rg = rg"
  by (simp add: removeFromWarmPool_def)

text \<open>A session whose job crashed is marked dead but keeps its lease. Once that lease has run out, the next search that
  fits finds the dead session again and makes it idle, whatever its health score and the number of its errors.\<close>

theorem dead_session_revived:
  assumes "sessions rg = [(sid, r)]" and "se_id r = sid" and "fits r c" and "leased r" and "lease_over later r"
    and "\<not> se_in_pool r"
  shows "case findReusableSession later c (markSessionDead now sid err why rg) of (found, rg') \<Rightarrow>
    found = Some sid \<and> map_option se_state (getSession sid (markSessionDead now sid err why rg)) = Some Dead \<and>
    map_option se_state (getSession sid rg') = Some Idle"
proof -
  obtain d where d: "sessions (markSessionDead now sid err why rg) = [(sid, d)]" "se_state d = Dead" "fits d c" "se_id d = sid" "\<not> se_in_pool d"
    "leased d" "lease_over later d"
  proof -
    have "map_get (sessions rg) sid = Some r" using assms(1) by (simp add: map_get_def)
    then have "sessions (markSessionDead now sid err why rg) = [(sid, r\<lparr>se_state := Dead, se_error := err,
        se_cleanup := Some (case why of Some c \<Rightarrow> c | None \<Rightarrow> Task_Failed), se_last_activity := now,
        se_health := Some (calculateHealthScore now (case se_health r of Some h \<Rightarrow> h | None \<Rightarrow> createInitialHealthScore now) False
          (min_health (rg_config rg)) (max_errors (rg_config rg)))\<rparr>)]"
      using assms(1,6) by (simp add: markSessionDead_def Let_def updateHealthScore_def unpooled jm.lookup_store) (simp add: map_set_def)
    from that [OF this] assms(2-6) show ?thesis by (simp add: fits_def leased_def lease_over_def)
  qed
  have e: "checkReuseEligibility later d c (profile_of c) cfg = None" for cfg by (rule eligible_fitting [OF d(3,6,7)])
  have "se_state (take_back later d) = Idle" "se_id (take_back later d) = sid" "\<not> se_in_pool (take_back later d)"
    using d(4,5) by (simp_all add: take_back_def)
  then show ?thesis using d
    by (simp add: findReusableSession_def Let_def candidates_def map_values_def e refreshed_def rankCandidates_def record_hit_def getSession_def
        map_get_def)
qed

lemma dead_session_revived_witness: "fst (findReusableSession 200 sample_search (markSessionDead 40 ''s'' (Some ''crash'') None sample_leased)) = Some ''s''"
proof -
  obtain r where r: "sessions sample_leased = [(''s'', r)]" "se_id r = ''s''" "fits r sample_search" "leased r" "lease_over 200 r" "\<not> se_in_pool r"
    by (auto simp: search_eval sample_leased_def leaseSession_def falsy_def fits_def)
  show ?thesis using dead_session_revived [OF r, of 40 "Some ''crash''" None] by (simp add: split_beta)
qed

text \<open>The handler of the cleanup interval never takes an expired session out of the warm pool.\<close>

lemma expire_pool [simp]: "warm_pool (expire_one g kc) = warm_pool g"
  by (cases kc) (simp add: expire_one_def Let_def)

lemma cleanup_keeps_pool: "warm_pool (cleanup now rg) = warm_pool rg"
proof -
  have "warm_pool (foldl expire_one g xs) = warm_pool g" for g xs by (induction xs arbitrary: g) simp_all
  then show ?thesis by (simp add: cleanup_def)
qed

end
