(* ===== verification/Paths.thy ===== *)
theory Paths
  imports Repo_Policy
begin

text \<open>
  The functions of \<open>node:path\<close> and \<open>node:fs\<close> that the worker code relies on, on a POSIX system: an absolute path is
  its list of segments, \<open>path.resolve\<close> and \<open>path.relative\<close> work on segments, and a file system maps paths to the
  contents of regular files and knows its directories. There are no links and no permissions. An error of the
  operating system is its code.
\<close>

subsection \<open>Paths\<close>

definition slash :: "char \<Rightarrow> bool" where
  "slash c = (c = CHR ''/'')"

definition any_slash :: "char \<Rightarrow> bool" where
  "any_slash c = (c = CHR ''/'' \<or> c = CHR 0x5C)"

fun split_on :: "(char \<Rightarrow> bool) \<Rightarrow> string \<Rightarrow> string list" where
  "split_on P [] = [[]]"
| "split_on P (c # s) = (if P c then [] # split_on P s else case split_on P s of w # ws \<Rightarrow> (c # w) # ws | [] \<Rightarrow> [[c]])"

fun isAbsolute :: "string \<Rightarrow> bool" where
  "isAbsolute [] = False"
| "isAbsolute (c # s) = slash c"

fun walk :: "string list \<Rightarrow> string list \<Rightarrow> string list" where
  "walk d [] = d"
| "walk d (s # ss) = walk (if s = [] \<or> s = ''.'' then d else if s = ''..'' then butlast d else d @ [s]) ss"

definition resolve :: "string list \<Rightarrow> string \<Rightarrow> string list" where
  "resolve ws p = walk (if isAbsolute p then [] else ws) (split_on slash p)"

fun relative_segments :: "string list \<Rightarrow> string list \<Rightarrow> string list" where
  "relative_segments [] ys = ys"
| "relative_segments (x # xs) [] = replicate (Suc (length xs)) ''..''"
| "relative_segments (x # xs) (y # ys) = (if x = y then relative_segments xs ys else replicate (Suc (length xs)) ''..'' @ y # ys)"

definition relative :: "string list \<Rightarrow> string list \<Rightarrow> string" where
  "relative from to = js_join ''/'' (relative_segments from to)"

text \<open>The text of an absolute path.\<close>

definition path_text :: "string list \<Rightarrow> string" where
  "path_text d = CHR ''/'' # js_join ''/'' d"

text \<open>\<open>replace(/\\/g, '/')\<close>, \<open>replace(/^\.\/+/, '')\<close> and \<open>replace(/\/+$/, '')\<close>.\<close>

definition forward_slashes :: "string \<Rightarrow> string" where
  "forward_slashes s = map (\<lambda>c. if c = CHR 0x5C then CHR ''/'' else c) s"

fun strip_dot_slash :: "string \<Rightarrow> string" where
  "strip_dot_slash (c # d # s) = (if c = CHR ''.'' \<and> slash d then dropWhile slash s else c # d # s)"
| "strip_dot_slash s = s"

definition strip_end_slashes :: "string \<Rightarrow> string" where
  "strip_end_slashes s = rev (dropWhile slash (rev s))"

definition starts_with :: "string \<Rightarrow> string \<Rightarrow> bool" where
  "starts_with s p = (take (length p) s = p)"

lemma starts_with_iff: "starts_with s p \<longleftrightarrow> (\<exists>r. s = p @ r)"
  by (metis append_eq_conv_conj append_take_drop_id starts_with_def)

subsection \<open>Splitting\<close>

lemma split_on_nonempty [simp]: "split_on P s \<noteq> []"
  by (induction s) (auto split: list.split)

lemma split_on_plain: "\<forall>c \<in> set s. \<not> P c \<Longrightarrow> split_on P s = [s]"
  by (induction s) auto

lemma split_on_append: "P c \<Longrightarrow> split_on P (a @ c # s) = split_on P a @ split_on P s"
  by (induction a) (auto split: list.split)

lemma split_on_parts: "w \<in> set (split_on P s) \<Longrightarrow> c \<in> set w \<Longrightarrow> \<not> P c"
proof (induction s arbitrary: w)
  case (Cons d s)
  obtain v vs where v: "split_on P s = v # vs" by (cases "split_on P s") auto
  with Cons.prems Cons.IH [of v] Cons.IH [of w] show ?case by (auto split: if_splits)
qed simp

lemma split_on_map: "(\<And>c. P (f c) = Q c) \<Longrightarrow> split_on P (map f s) = map (map f) (split_on Q s)"
  by (induction s) (auto split: list.split)

text \<open>The segments that count.\<close>

definition segments :: "string \<Rightarrow> string list" where
  "segments p = filter (\<lambda>s. s \<noteq> [] \<and> s \<noteq> ''.'') (split_on slash p)"

lemma walk_plain: "''..'' \<notin> set ss \<Longrightarrow> walk d ss = d @ filter (\<lambda>s. s \<noteq> [] \<and> s \<noteq> ''.'') ss"
  by (induction ss arbitrary: d) auto

lemma resolve_plain: "\<not> isAbsolute p \<Longrightarrow> ''..'' \<notin> set (split_on slash p) \<Longrightarrow> resolve ws p = ws @ segments p"
  by (simp add: resolve_def walk_plain segments_def)

lemma relative_below [simp]: "relative_segments ws (ws @ ss) = ss"
  by (induction ws) auto

lemma segments_append: "segments (a @ CHR ''/'' # b) = segments a @ segments b"
  by (simp add: segments_def split_on_append slash_def)

lemma segments_Nil [simp]: "segments [] = []"
  by (simp add: segments_def)

lemma segments_slash: "segments (CHR ''/'' # s) = segments s"
  by (simp add: segments_def slash_def)

lemma segments_dropWhile: "segments (dropWhile slash s) = segments s"
  by (induction s) (auto simp: segments_slash slash_def)

lemma segments_strip_dot: "segments (strip_dot_slash s) = segments s"
proof (cases s rule: strip_dot_slash.cases)
  case (1 c d t)
  have "segments (CHR ''.'' # CHR ''/'' # t) = segments t"
    using segments_append [of "''.''" t] by (simp add: segments_def slash_def)
  with 1 show ?thesis by (auto simp: segments_dropWhile slash_def)
qed auto

lemma strip_end_split: "\<exists>t. s = strip_end_slashes s @ t \<and> list_all slash t"
proof -
  have "rev s = takeWhile slash (rev s) @ dropWhile slash (rev s)" by simp
  then have "s = rev (dropWhile slash (rev s)) @ rev (takeWhile slash (rev s))" by (metis rev_append rev_rev_ident)
  moreover have "list_all slash (rev (takeWhile slash (rev s)))" by (auto simp: list_all_iff dest: set_takeWhileD)
  ultimately show ?thesis unfolding strip_end_slashes_def by blast
qed

lemma segments_slashes: "list_all slash t \<Longrightarrow> segments t = []"
  by (induction t) (auto simp: slash_def segments_slash)

lemma segments_strip_end: "segments (strip_end_slashes s) = segments s"
proof -
  obtain t where t: "s = strip_end_slashes s @ t" "list_all slash t" using strip_end_split by blast
  show ?thesis
  proof (cases t)
    case Nil
    with t(1) show ?thesis by simp
  next
    case (Cons c u)
    with t(2) have c: "c = CHR ''/''" and u: "list_all slash u" by (simp_all add: slash_def)
    have "segments s = segments (strip_end_slashes s) @ segments u" using t(1) Cons c segments_append by metis
    then show ?thesis by (simp add: segments_slashes [OF u])
  qed
qed

subsection \<open>Files\<close>

record filesystem =
  fs_file :: "string list \<Rightarrow> string option"
  fs_dir :: "string list \<Rightarrow> bool"

definition existsSync :: "filesystem \<Rightarrow> string list \<Rightarrow> bool" where
  "existsSync fs p = (fs_file fs p \<noteq> None \<or> fs_dir fs p)"

definition readFileSync :: "string list \<Rightarrow> filesystem \<Rightarrow> (string, string, filesystem) outcome" where
  "readFileSync p fs = (case fs_file fs p of Some t \<Rightarrow> (Inr t, fs)
     | None \<Rightarrow> (Inl (if fs_dir fs p then ''EISDIR'' else ''ENOENT''), fs))"

definition rmSync :: "string list \<Rightarrow> filesystem \<Rightarrow> (string, unit, filesystem) outcome" where
  "rmSync p fs = (if fs_file fs p \<noteq> None then (Inr (), fs\<lparr>fs_file := (fs_file fs)(p := None)\<rparr>)
     else (Inl (if fs_dir fs p then ''ERR_FS_EISDIR'' else ''ENOENT''), fs))"

text \<open>\<open>mkdirSync\<close> with \<open>recursive\<close>; \<open>ancestors\<close> are the directory itself and those above it.\<close>

definition ancestors :: "string list \<Rightarrow> string list list" where
  "ancestors p = map (\<lambda>n. take n p) [0..<Suc (length p)]"

definition mkdirSync :: "string list \<Rightarrow> filesystem \<Rightarrow> (string, unit, filesystem) outcome" where
  "mkdirSync p fs = (if list_ex (\<lambda>d. fs_file fs d \<noteq> None) (ancestors p) then (Inl ''ENOTDIR'', fs)
     else (Inr (), fs\<lparr>fs_dir := (\<lambda>d. d \<in> set (ancestors p) \<or> fs_dir fs d)\<rparr>))"

definition writeFileSync :: "string list \<Rightarrow> string \<Rightarrow> filesystem \<Rightarrow> (string, unit, filesystem) outcome" where
  "writeFileSync p t fs = (if fs_dir fs p then (Inl ''EISDIR'', fs) else if \<not> fs_dir fs (butlast p) then (Inl ''ENOENT'', fs)
     else (Inr (), fs\<lparr>fs_file := (fs_file fs)(p := Some t)\<rparr>))"

lemma file_frames [simp]:
  "fs_file (snd (readFileSync p fs)) = fs_file fs" "fs_file (snd (mkdirSync p fs)) = fs_file fs"
  by (simp_all add: readFileSync_def mkdirSync_def split: option.split)

lemma readFileSync_state: "snd (readFileSync p fs) = fs"
  by (simp add: readFileSync_def split: option.split)

lemma writeFileSync_file: "q \<noteq> p \<Longrightarrow> fs_file (snd (writeFileSync p t fs)) q = fs_file fs q"
  by (simp add: writeFileSync_def)

lemma writeFileSync_Inr: "writeFileSync p t fs = (Inr u, fs') \<Longrightarrow> fs_file fs' = (fs_file fs)(p := Some t)"
  by (auto simp: writeFileSync_def split: if_splits)

lemma rmSync_file: "q \<noteq> p \<Longrightarrow> fs_file (snd (rmSync p fs)) q = fs_file fs q"
  by (simp add: rmSync_def)

end
