(* ===== verification/Worker_Runtime.thy ===== *)
theory Worker_Runtime
  imports Paths Instruction
begin

text \<open>
  The worker runtime (\<open>src/src/domain/worker-runtime\<close>): the registry of tools and its decisions about calls
  (\<open>RuntimeToolRegistry\<close>), restore points, the in-memory session with its inputs, turns and events, the policy derived
  from a job, and the bridge to a worker adapter. The answers of the adapter are arguments.
\<close>

subsection \<open>Types\<close>

datatype session_state = Created | Running | Interrupted | Completed_Session | Failed_Session | Closed
datatype runtime_mode = Interactive | One_Shot | Rework_Mode
datatype restore_mode = Disabled | Manifest | Snapshot

record runtime_policy =
  rp_mode :: runtime_mode
  allowed_paths :: "string list option"
  max_turns :: int
  max_tool_calls :: int
  restricted_tools :: bool
  allow_subagents :: bool
  restore_points :: restore_mode

datatype event_type = Started | Input_Admitted | Input_Promoted | Turn_Recorded | Tool_Decision | Ev_Interrupted |
  Ev_Completed | Ev_Failed | Ev_Closed | Restore_Point_Created

record runtime_event =
  ev_id :: string
  ev_sequence :: int
  ev_type :: event_type
  ev_message :: string
  ev_at :: time
  ev_metadata :: "(string \<times> json_scalar) list option"

datatype turn_role = User_Turn | Worker_Turn | System_Turn | Tool_Turn

record tool_request =
  tq_tool :: string
  tq_args :: "(string \<times> json) list"
  tq_registration :: "string option"

record runtime_turn =
  tn_role :: turn_role
  tn_content :: string
  tn_created :: time
  tn_calls :: "tool_request list option"

datatype delivery = Steer | Queue
datatype input_state = Admitted | Promoted

record runtime_input =
  in_id :: string
  in_session :: string
  in_content :: string
  in_delivery :: delivery
  in_state :: input_state
  in_created :: time
  in_promoted :: "time option"

record input_receipt =
  ir_input :: runtime_input
  ir_exact_retry :: bool
  ir_scheduled :: bool

datatype tool_kind = K_File | K_Shell | K_Web | K_Todo | K_Memory | K_Agent | K_Llm | K_Other
datatype side_effect = No_Effect | Read_Effect | Write_Effect | Process_Effect | Network_Effect

record tool_definition =
  td_name :: string
  td_kind :: tool_kind
  td_effect :: side_effect
  td_write :: bool
  td_restricted_ok :: bool
  td_subagent :: bool
  td_path_arg :: "string option"

record tool_registration =
  tr_id :: string
  tr_tool :: tool_definition
  tr_at :: time

datatype violation = Unknown_Tool | Restricted_Tool | Subagent_Disabled | Path_Invalid | Path_Not_Allowed | Stale_Registration

record tool_decision =
  de_allowed :: bool
  de_reason :: string
  de_violation :: "violation option"
  de_path :: "string option"
  de_registration :: "string option"

subsection \<open>Paths\<close>

text \<open>\<open>/^[A-Za-z]:[\\/]/\<close>.\<close>

fun drive_path :: "string \<Rightarrow> bool" where
  "drive_path (c # d # e # s) = ((c \<in> set ''ABCDEFGHIJKLMNOPQRSTUVWXYZabcdefghijklmnopqrstuvwxyz'') \<and> d = CHR '':'' \<and> any_slash e)"
| "drive_path s = False"

definition normalizeRepoPath :: "json option \<Rightarrow> string + string" where
  "normalizeRepoPath v = (case v of
       Some (Json_Str s) \<Rightarrow>
         if s = [] then Inl ''path must be a non-empty string''
         else if isAbsolute s \<or> drive_path s \<or> starts_with s [CHR 0x5C, CHR 0x5C] then Inl (''path must be repo-relative: '' @ s)
         else if ''..'' \<in> set (split_on any_slash s) then Inl (''path must not contain '' @ [CHR 0x27] @ ''..'' @ [CHR 0x27] @ '': '' @ s)
         else Inr (strip_dot_slash (forward_slashes s))
     | _ \<Rightarrow> Inl ''path must be a non-empty string'')"

definition allowed_prefix :: "string \<Rightarrow> string" where
  "allowed_prefix p = strip_end_slashes (strip_dot_slash (forward_slashes p))"

definition isAllowedPath :: "string \<Rightarrow> string list \<Rightarrow> bool" where
  "isAllowedPath p allowed = list_ex (\<lambda>pre. p = pre \<or> starts_with p (pre @ ''/'')) (map allowed_prefix allowed)"

definition resolveWorkspacePath :: "string list \<Rightarrow> string \<Rightarrow> string + string list" where
  "resolveWorkspacePath ws p =
     (let r = resolve ws p; rel = relative ws r in
      if starts_with rel ''..'' \<or> isAbsolute rel then Inl (''path escapes workspace: '' @ p) else Inr r)"

subsection \<open>The tool registry\<close>

record tool_registry =
  tools :: "(string, tool_registration list) jsmap"
  next_registration :: int

definition new_tool_registry :: tool_registry where
  "new_tool_registry = \<lparr>tools = [], next_registration = 0\<rparr>"

definition registrations :: "tool_registry \<Rightarrow> string \<Rightarrow> tool_registration list" where
  "registrations tr nm = (case map_get (tools tr) nm of Some rs \<Rightarrow> rs | None \<Rightarrow> [])"

definition register :: "time \<Rightarrow> tool_definition \<Rightarrow> tool_registry \<Rightarrow> tool_registration \<times> tool_registry" where
  "register now t tr =
     (let n = next_registration tr + 1; r = \<lparr>tr_id = ''toolreg_'' @ show_int n, tr_tool = t, tr_at = now\<rparr> in
      (r, \<lparr>tools = map_set (tools tr) (td_name t) (registrations tr (td_name t) @ [r]), next_registration = n\<rparr>))"

fun close_in :: "string \<Rightarrow> (string, tool_registration list) jsmap \<Rightarrow> (string, tool_registration list) jsmap option" where
  "close_in rid [] = None"
| "close_in rid ((nm, rs) # m) =
     (let next = filter (\<lambda>r. tr_id r \<noteq> rid) rs in
      if length next = length rs then map_option ((#) (nm, rs)) (close_in rid m)
      else if next = [] then Some m else Some ((nm, next) # m))"

definition closeRegistration :: "string \<Rightarrow> tool_registry \<Rightarrow> bool \<times> tool_registry" where
  "closeRegistration rid tr = (case close_in rid (tools tr) of Some m \<Rightarrow> (True, tr\<lparr>tools := m\<rparr>) | None \<Rightarrow> (False, tr))"

definition list_tools :: "tool_registry \<Rightarrow> tool_definition list" where
  "list_tools tr = concat (map (\<lambda>rs. if rs = [] then [] else [tr_tool (last rs)]) (map_values (tools tr)))"

definition refuse :: "string \<Rightarrow> violation \<Rightarrow> string option \<Rightarrow> string option \<Rightarrow> tool_decision" where
  "refuse why v path reg = \<lparr>de_allowed = False, de_reason = why, de_violation = Some v, de_path = path, de_registration = reg\<rparr>"

definition permit :: "string option \<Rightarrow> string \<Rightarrow> tool_decision" where
  "permit path reg = \<lparr>de_allowed = True, de_reason = ''tool invocation allowed'', de_violation = None, de_path = path, de_registration = Some reg\<rparr>"

definition decide_path :: "runtime_policy \<Rightarrow> tool_definition \<Rightarrow> string \<Rightarrow> json option \<Rightarrow> tool_decision" where
  "decide_path pol t reg v = (case normalizeRepoPath v of
       Inl e \<Rightarrow> refuse e Path_Invalid None (Some reg)
     | Inr p \<Rightarrow>
         if td_write t \<and> (case allowed_paths pol of Some ps \<Rightarrow> \<not> isAllowedPath p ps | None \<Rightarrow> False)
         then refuse (''path is outside allowed_paths: '' @ p) Path_Not_Allowed (Some p) (Some reg)
         else permit (Some p) reg)"

definition decideInvocation :: "tool_registry \<Rightarrow> runtime_policy \<Rightarrow> tool_request \<Rightarrow> tool_decision" where
  "decideInvocation tr pol q =
     (let rs = registrations tr (tq_tool q) in
      if rs = [] then refuse (''unknown tool: '' @ tq_tool q) Unknown_Tool None None
      else let reg = last rs; t = tr_tool reg; rid = Some (tr_id reg) in
        if \<not> falsy (tq_registration q) \<and> tq_registration q \<noteq> rid
          then refuse (''stale tool registration: '' @ tq_tool q) Stale_Registration None rid
        else if restricted_tools pol \<and> \<not> td_restricted_ok t
          then refuse (''tool is not allowed in restricted mode: '' @ td_name t) Restricted_Tool None rid
        else if \<not> allow_subagents pol \<and> td_subagent t
          then refuse (''sub-agent tool is disabled for this session: '' @ td_name t) Subagent_Disabled None rid
        else if falsy (td_path_arg t) then permit None (tr_id reg)
        else decide_path pol t (tr_id reg) (map_get (tq_args q) (the (td_path_arg t))))"

definition file_tool :: "string \<Rightarrow> side_effect \<Rightarrow> bool \<Rightarrow> tool_definition" where
  "file_tool nm ef w = \<lparr>td_name = nm, td_kind = K_File, td_effect = ef, td_write = w, td_restricted_ok = True, td_subagent = False,
     td_path_arg = Some ''path''\<rparr>"

definition process_tool :: "string \<Rightarrow> tool_kind \<Rightarrow> side_effect \<Rightarrow> bool \<Rightarrow> tool_definition" where
  "process_tool nm k ef sub = \<lparr>td_name = nm, td_kind = k, td_effect = ef, td_write = False, td_restricted_ok = False, td_subagent = sub,
     td_path_arg = None\<rparr>"

definition default_tools :: "tool_definition list" where
  "default_tools = [file_tool ''read_file'' Read_Effect False, file_tool ''write_file'' Write_Effect True,
     file_tool ''apply_patch_intent'' Write_Effect True, process_tool ''bash'' K_Shell Process_Effect False,
     process_tool ''web_fetch'' K_Web Network_Effect False, process_tool ''spawn_agent'' K_Agent Process_Effect True]"

definition createDefaultRuntimeToolRegistry :: "time \<Rightarrow> tool_registry" where
  "createDefaultRuntimeToolRegistry now = foldl (\<lambda>tr t. snd (register now t tr)) new_tool_registry default_tools"

subsection \<open>Restore points\<close>

record restore_file =
  rf_path :: string
  rf_existed :: bool
  rf_content :: "string option"

record restore_point =
  rp_id :: string
  rp_session :: string
  rp_job :: string
  rp_created :: time
  rp_files :: "restore_file list"
  rp_artifact :: "string option"

definition snapshotFile :: "string list \<Rightarrow> string \<Rightarrow> restore_mode \<Rightarrow> filesystem \<Rightarrow> (string, restore_file, filesystem) outcome" where
  "snapshotFile ws p mode = and_then (check (normalizeRepoPath (Some (Json_Str p)))) (\<lambda>np.
     and_then (check (resolveWorkspacePath ws np)) (\<lambda>r fs.
       let ex = existsSync fs r; f = \<lparr>rf_path = np, rf_existed = ex, rf_content = None\<rparr> in
       if mode = Snapshot \<and> ex then and_then (readFileSync r) (\<lambda>t. return (f\<lparr>rf_content := Some t\<rparr>)) fs else (Inr f, fs)))"

fun snapshot_files :: "string list \<Rightarrow> restore_mode \<Rightarrow> string list \<Rightarrow> filesystem \<Rightarrow> (string, restore_file list, filesystem) outcome" where
  "snapshot_files ws mode [] = return []"
| "snapshot_files ws mode (p # ps) = and_then (snapshotFile ws p mode) (\<lambda>f.
     and_then (snapshot_files ws mode ps) (\<lambda>fs. return (f # fs)))"

definition file_json :: "restore_file \<Rightarrow> json" where
  "file_json f = Json_Obj ([(''path'', Json_Str (rf_path f)), (''existed'', Json_Bool (rf_existed f))] @
     (case rf_content f of Some t \<Rightarrow> [(''content'', Json_Str t)] | None \<Rightarrow> []))"

text \<open>The ISO text of an instant is given by the caller, \<open>stamp\<close>.\<close>

definition point_json :: "(time \<Rightarrow> string) \<Rightarrow> restore_point \<Rightarrow> json" where
  "point_json stamp p = Json_Obj [(''restore_point_id'', Json_Str (rp_id p)), (''session_id'', Json_Str (rp_session p)),
     (''job_id'', Json_Str (rp_job p)), (''created_at'', Json_Str (stamp (rp_created p))), (''files'', Json_Arr (map file_json (rp_files p)))]"

definition writeRestorePoint :: "(time \<Rightarrow> string) \<Rightarrow> string list \<Rightarrow> string list \<Rightarrow> string \<Rightarrow> restore_point \<Rightarrow> filesystem \<Rightarrow>
    (string, string, filesystem) outcome" where
  "writeRestorePoint stamp ws arts jid p =
     (let dir = walk arts (split_on slash jid); target = walk dir (split_on slash (rp_id p @ ''.restore-point.json'')) in
      and_then (mkdirSync (butlast target)) (\<lambda>_. and_then (writeFileSync target (stringify_pretty [] (point_json stamp p) @ [CHR 0x0A]))
        (\<lambda>_. return (forward_slashes (relative ws target)))))"

definition create_restore_point :: "(time \<Rightarrow> string) \<Rightarrow> time \<Rightarrow> string list \<Rightarrow> string list \<Rightarrow> string \<Rightarrow> string \<Rightarrow> string list \<Rightarrow> restore_mode \<Rightarrow>
    filesystem \<Rightarrow> (string, restore_point, filesystem) outcome" where
  "create_restore_point stamp now ws arts sid jid paths mode =
     and_then (if mode = Disabled then return [] else snapshot_files ws mode paths) (\<lambda>files.
       let p = \<lparr>rp_id = ''rp_'' @ sid @ ''_'' @ show_int now, rp_session = sid, rp_job = jid, rp_created = now, rp_files = files,
           rp_artifact = None\<rparr>
       in if mode = Disabled then return p
          else and_then (writeRestorePoint stamp ws arts jid p) (\<lambda>a. return (p\<lparr>rp_artifact := Some a\<rparr>)))"

definition restore_one :: "string list \<Rightarrow> restore_file \<Rightarrow> filesystem \<Rightarrow> (string, unit, filesystem) outcome" where
  "restore_one ws f = and_then (check (resolveWorkspacePath ws (rf_path f))) (\<lambda>r fs.
     if \<not> rf_existed f then (if existsSync fs r then rmSync r fs else (Inr (), fs))
     else and_then (mkdirSync (butlast r)) (\<lambda>_. writeFileSync r (case rf_content f of Some t \<Rightarrow> t | None \<Rightarrow> [])) fs)"

fun restore_files :: "string list \<Rightarrow> restore_file list \<Rightarrow> filesystem \<Rightarrow> (string, unit, filesystem) outcome" where
  "restore_files ws [] = return ()"
| "restore_files ws (f # fs) = and_then (restore_one ws f) (\<lambda>_. restore_files ws fs)"

definition restore :: "string list \<Rightarrow> restore_point \<Rightarrow> filesystem \<Rightarrow> (string, unit, filesystem) outcome" where
  "restore ws p = restore_files ws (rp_files p)"

subsection \<open>The session\<close>

record runtime_session =
  rs_id :: string
  rs_policy :: runtime_policy
  rs_registry :: tool_registry
  rs_job :: "worker_job option"
  rs_state :: session_state
  rs_turns :: "runtime_turn list"
  rs_events :: "runtime_event list"
  rs_inputs :: "(string, runtime_input) jsmap"
  rs_artifacts :: "string list"
  rs_restore_points :: "string list"
  rs_tool_calls :: int
  rs_sequence :: int

definition new_session :: "string \<Rightarrow> runtime_policy \<Rightarrow> tool_registry \<Rightarrow> runtime_session" where
  "new_session sid pol tr = \<lparr>rs_id = sid, rs_policy = pol, rs_registry = tr, rs_job = None, rs_state = Created, rs_turns = [],
     rs_events = [], rs_inputs = [], rs_artifacts = [], rs_restore_points = [], rs_tool_calls = 0, rs_sequence = 0\<rparr>"

record session_snapshot =
  sn_session :: string
  sn_job :: string
  sn_worker :: worker_type
  sn_stage :: worker_stage
  sn_state :: session_state
  sn_turns :: int
  sn_calls :: int
  sn_inputs :: int
  sn_artifacts :: "string list"
  sn_restore_points :: "string list"
  sn_events :: "runtime_event list"
  sn_cursor :: int

definition collect :: "runtime_session \<Rightarrow> session_snapshot" where
  "collect s = \<lparr>sn_session = rs_id s, sn_job = (case rs_job s of Some j \<Rightarrow> job_id j | None \<Rightarrow> []),
     sn_worker = (case rs_job s of Some j \<Rightarrow> job_worker_type j | None \<Rightarrow> Codex),
     sn_stage = (case rs_job s of Some j \<Rightarrow> job_stage j | None \<Rightarrow> Plan), sn_state = rs_state s, sn_turns = int (length (rs_turns s)),
     sn_calls = rs_tool_calls s, sn_inputs = int (length (rs_inputs s)), sn_artifacts = rs_artifacts s,
     sn_restore_points = rs_restore_points s, sn_events = rs_events s, sn_cursor = rs_sequence s\<rparr>"

definition collectEvents :: "int \<Rightarrow> runtime_session \<Rightarrow> runtime_event list" where
  "collectEvents after s = filter (\<lambda>e. ev_sequence e > after) (rs_events s)"

definition recordEvent :: "time \<Rightarrow> event_type \<Rightarrow> string \<Rightarrow> (string \<times> json_scalar) list option \<Rightarrow> runtime_session \<Rightarrow> runtime_session" where
  "recordEvent now ty msg meta s = (let n = rs_sequence s + 1 in
     s\<lparr>rs_sequence := n, rs_events := rs_events s @ [\<lparr>ev_id = ''evt_'' @ rs_id s @ ''_'' @ show_int n, ev_sequence = n, ev_type = ty,
       ev_message = msg, ev_at = now, ev_metadata = meta\<rparr>]\<rparr>)"

fun state_name :: "session_state \<Rightarrow> string" where
  "state_name Created = ''created''"
| "state_name Running = ''running''"
| "state_name Interrupted = ''interrupted''"
| "state_name Completed_Session = ''completed''"
| "state_name Failed_Session = ''failed''"
| "state_name Closed = ''closed''"

definition assertRunning :: "runtime_session \<Rightarrow> (string, unit, runtime_session) outcome" where
  "assertRunning s = (if rs_state s \<noteq> Running then Inl (''session is not running: '' @ state_name (rs_state s)) else Inr (), s)"

text \<open>The operations that cannot throw return the session; its snapshot is \<open>collect\<close> of it.\<close>

definition start :: "time \<Rightarrow> worker_job \<Rightarrow> runtime_session \<Rightarrow> runtime_session" where
  "start now j s = recordEvent now Started (''session started for job '' @ job_id j) None (s\<lparr>rs_job := Some j, rs_state := Running\<rparr>)"

definition interrupt :: "time \<Rightarrow> string \<Rightarrow> runtime_session \<Rightarrow> runtime_session" where
  "interrupt now why s = recordEvent now Ev_Interrupted why None (s\<lparr>rs_state := Interrupted\<rparr>)"

definition complete :: "time \<Rightarrow> string \<Rightarrow> runtime_session \<Rightarrow> runtime_session" where
  "complete now msg s = recordEvent now Ev_Completed msg None (s\<lparr>rs_state := Completed_Session\<rparr>)"

definition fail :: "time \<Rightarrow> string \<Rightarrow> runtime_session \<Rightarrow> runtime_session" where
  "fail now why s = recordEvent now Ev_Failed why None (s\<lparr>rs_state := Failed_Session\<rparr>)"

definition close_session :: "time \<Rightarrow> runtime_session \<Rightarrow> runtime_session" where
  "close_session now s = recordEvent now Ev_Closed ''session closed'' None (s\<lparr>rs_state := Closed\<rparr>)"

fun delivery_name :: "delivery \<Rightarrow> string" where
  "delivery_name Steer = ''steer''"
| "delivery_name Queue = ''queue''"

definition admit_new :: "time \<Rightarrow> string \<Rightarrow> string \<Rightarrow> delivery \<Rightarrow> bool \<Rightarrow> runtime_session \<Rightarrow> (string, input_receipt, runtime_session) outcome" where
  "admit_new now iid content dl sched s =
     (let inp = \<lparr>in_id = iid, in_session = rs_id s, in_content = content, in_delivery = dl, in_state = Admitted, in_created = now,
            in_promoted = None\<rparr>
      in (Inr \<lparr>ir_input = inp, ir_exact_retry = False, ir_scheduled = sched\<rparr>,
          recordEvent now Input_Admitted (''input admitted: '' @ iid)
            (Some [(''input_id'', J_Str iid), (''delivery'', J_Str (delivery_name dl)), (''scheduled'', J_Bool sched)])
            (s\<lparr>rs_inputs := map_set (rs_inputs s) iid inp\<rparr>)))"

definition admitInput :: "time \<Rightarrow> string \<Rightarrow> string \<Rightarrow> delivery option \<Rightarrow> bool option \<Rightarrow> runtime_session \<Rightarrow>
    (string, input_receipt, runtime_session) outcome" where
  "admitInput now iid content del resume = and_then assertRunning (\<lambda>_ s.
     let dl = (case del of Some d \<Rightarrow> d | None \<Rightarrow> Steer); sched = (resume \<noteq> Some False) in
     case map_get (rs_inputs s) iid of
       Some ex \<Rightarrow>
         if in_content ex \<noteq> content \<or> in_delivery ex \<noteq> dl then (Inl (''input_id reuse conflicts with admitted input: '' @ iid), s)
         else (Inr \<lparr>ir_input = ex, ir_exact_retry = True, ir_scheduled = sched\<rparr>, s)
     | None \<Rightarrow> admit_new now iid content dl sched s)"

definition promote_one :: "time \<Rightarrow> runtime_input \<Rightarrow> runtime_session \<Rightarrow> runtime_session" where
  "promote_one now i s = recordEvent now Input_Promoted (''input promoted: '' @ in_id i)
     (Some [(''input_id'', J_Str (in_id i)), (''delivery'', J_Str (delivery_name (in_delivery i)))])
     (s\<lparr>rs_inputs := map_set (rs_inputs s) (in_id i) (i\<lparr>in_state := Promoted, in_promoted := Some now\<rparr>),
        rs_turns := rs_turns s @ [\<lparr>tn_role = User_Turn, tn_content = in_content i, tn_created = now, tn_calls = None\<rparr>]\<rparr>)"

fun promote_inputs :: "time \<Rightarrow> runtime_input list \<Rightarrow> runtime_session \<Rightarrow> runtime_session" where
  "promote_inputs now [] s = s"
| "promote_inputs now (i # is) s =
     (if in_state i = Promoted then promote_inputs now is s
      else let s' = promote_one now i s in if in_delivery i = Queue then s' else promote_inputs now is s')"

definition promoteAdmittedInputs :: "time \<Rightarrow> runtime_session \<Rightarrow> (string, unit, runtime_session) outcome" where
  "promoteAdmittedInputs now = and_then assertRunning (\<lambda>_ s. (Inr (), promote_inputs now (map_values (rs_inputs s)) s))"

fun violation_name :: "violation \<Rightarrow> string" where
  "violation_name Unknown_Tool = ''unknown_tool''"
| "violation_name Restricted_Tool = ''restricted_tool''"
| "violation_name Subagent_Disabled = ''subagent_disabled''"
| "violation_name Path_Invalid = ''path_invalid''"
| "violation_name Path_Not_Allowed = ''path_not_allowed''"
| "violation_name Stale_Registration = ''stale_tool_registration''"

definition note_decision :: "time \<Rightarrow> tool_request \<Rightarrow> tool_decision \<Rightarrow> runtime_session \<Rightarrow> runtime_session" where
  "note_decision now q d = recordEvent now Tool_Decision (de_reason d) (Some [(''tool'', J_Str (tq_tool q)), (''allowed'', J_Bool (de_allowed d)),
     (''violation_code'', (case de_violation d of Some v \<Rightarrow> J_Str (violation_name v) | None \<Rightarrow> J_Null))])"

text \<open>The calls are decided one after the other; the first refusal fails the session (\<open>False\<close>).\<close>

fun decide_calls :: "time \<Rightarrow> tool_request list \<Rightarrow> runtime_session \<Rightarrow> bool \<times> runtime_session" where
  "decide_calls now [] s = (True, s)"
| "decide_calls now (q # qs) s =
     (let d = decideInvocation (rs_registry s) (rs_policy s) q; s1 = note_decision now q d s in
      if \<not> de_allowed d then (False, fail now (de_reason d) s1) else decide_calls now qs s1)"

fun role_name :: "turn_role \<Rightarrow> string" where
  "role_name User_Turn = ''user''"
| "role_name Worker_Turn = ''worker''"
| "role_name System_Turn = ''system''"
| "role_name Tool_Turn = ''tool''"

definition call_list :: "tool_request list option \<Rightarrow> tool_request list" where
  "call_list calls = (case calls of Some qs \<Rightarrow> qs | None \<Rightarrow> [])"

definition send_running :: "time \<Rightarrow> turn_role \<Rightarrow> string \<Rightarrow> tool_request list option \<Rightarrow> runtime_session \<Rightarrow> runtime_session" where
  "send_running now role content calls s =
     (let qs = call_list calls; n = int (length qs); pol = rs_policy s in
      if int (length (rs_turns s)) \<ge> max_turns pol then fail now (''max_turns exceeded: '' @ show_int (max_turns pol)) s
      else if rs_tool_calls s + n > max_tool_calls pol then fail now (''max_tool_calls exceeded: '' @ show_int (max_tool_calls pol)) s
      else case decide_calls now qs s of
          (False, s1) \<Rightarrow> s1
        | (True, s1) \<Rightarrow> recordEvent now Turn_Recorded (''turn recorded: '' @ role_name role) None
            (s1\<lparr>rs_tool_calls := rs_tool_calls s1 + n,
               rs_turns := rs_turns s1 @ [\<lparr>tn_role = role, tn_content = content, tn_created = now, tn_calls = calls\<rparr>]\<rparr>))"

definition send :: "time \<Rightarrow> turn_role \<Rightarrow> string \<Rightarrow> tool_request list option \<Rightarrow> runtime_session \<Rightarrow> (string, unit, runtime_session) outcome" where
  "send now role content calls = and_then assertRunning (\<lambda>_ s. (Inr (), send_running now role content calls s))"

text \<open>The manager of restore points, if there is one, is given by its workspace and its artifact directory.\<close>

definition note_restore_point :: "time \<Rightarrow> restore_point \<Rightarrow> runtime_session \<Rightarrow> runtime_session" where
  "note_restore_point now p s = recordEvent now Restore_Point_Created (''restore point created: '' @ rp_id p) None
     (if falsy (rp_artifact p) then s
      else s\<lparr>rs_artifacts := rs_artifacts s @ [the (rp_artifact p)], rs_restore_points := rs_restore_points s @ [rp_id p]\<rparr>)"

definition createRestorePoint :: "(time \<Rightarrow> string) \<Rightarrow> time \<Rightarrow> (string list \<times> string list) option \<Rightarrow> string list \<Rightarrow>
    runtime_session \<times> filesystem \<Rightarrow> (string, restore_point option, runtime_session \<times> filesystem) outcome" where
  "createRestorePoint stamp now mgr paths sf = (case sf of (s, fs) \<Rightarrow>
     (case (rs_job s, mgr) of
        (Some j, Some (ws, arts)) \<Rightarrow>
          if restore_points (rs_policy s) = Disabled then (Inr None, (s, fs))
          else (case create_restore_point stamp now ws arts (rs_id s) (job_id j) paths (restore_points (rs_policy s)) fs of
              (Inl e, fs') \<Rightarrow> (Inl e, (s, fs'))
            | (Inr p, fs') \<Rightarrow> (Inr (Some p), (note_restore_point now p s, fs')))
      | _ \<Rightarrow> (Inr None, (s, fs))))"

subsection \<open>The policy of a job\<close>

record policy_options =
  po_paths :: "string list option"
  po_turns :: "int option"
  po_calls :: "int option"
  po_restore :: "restore_mode option"

definition no_policy_options :: policy_options where
  "no_policy_options = \<lparr>po_paths = None, po_turns = None, po_calls = None, po_restore = None\<rparr>"

text \<open>The sandbox profile of a policy may be absent in the source; the record of a dispatched job always has one.\<close>

definition runtime_policy_of :: "approval_mode \<Rightarrow> sandbox_profile option \<Rightarrow> worker_stage \<Rightarrow> policy_options \<Rightarrow> runtime_policy" where
  "runtime_policy_of mode sandbox stage opts =
     (let sb = (case sandbox of Some p \<Rightarrow> p | None \<Rightarrow> if stage = Plan then Read_Only else Workspace_Write);
          effects = (mode \<noteq> Deny \<and> (sb = Workspace_Write \<or> sb = Full_Auto \<or> sb = Custom_Profile))
      in \<lparr>rp_mode = Interactive, allowed_paths = po_paths opts, max_turns = (case po_turns opts of Some n \<Rightarrow> n | None \<Rightarrow> 20),
          max_tool_calls = (case po_calls opts of Some n \<Rightarrow> n | None \<Rightarrow> 50), restricted_tools = (\<not> effects),
          allow_subagents = effects,
          restore_points = (case po_restore opts of Some m \<Rightarrow> m | None \<Rightarrow> if effects then Snapshot else Disabled)\<rparr>)"

definition buildWorkerRuntimePolicy :: "worker_job \<Rightarrow> policy_options \<Rightarrow> runtime_policy" where
  "buildWorkerRuntimePolicy j opts = runtime_policy_of (approval_mode (job_approval_policy j)) (Some (sandbox_profile (job_approval_policy j)))
     (job_stage j) opts"

subsection \<open>The bridge to an adapter\<close>

record submission =
  sub_success :: bool
  sub_external :: "string option"
  sub_error :: "string option"

datatype poll_status = Poll_Queued | Poll_Running | Poll_Succeeded | Poll_Failed | Poll_Cancelled | Poll_Blocked

record job_poll =
  poll_external :: string
  poll_status :: poll_status
  poll_summary :: "string option"
  poll_error :: "string option"

record bridge =
  br_policy :: "runtime_policy option"
  br_sessions :: "(string, runtime_session) jsmap"
  br_external :: "(string, string) jsmap"

fun poll_name :: "poll_status \<Rightarrow> string" where
  "poll_name Poll_Queued = ''queued''"
| "poll_name Poll_Running = ''running''"
| "poll_name Poll_Succeeded = ''succeeded''"
| "poll_name Poll_Failed = ''failed''"
| "poll_name Poll_Cancelled = ''cancelled''"
| "poll_name Poll_Blocked = ''blocked''"

text \<open>\<open>sub\<close> is the answer of \<open>submitJob\<close>, \<open>target\<close> the type of the adapter.\<close>

definition begin_session :: "time \<Rightarrow> worker_type \<Rightarrow> worker_job \<Rightarrow> bridge \<Rightarrow> (string, unit, runtime_session) outcome" where
  "begin_session now target j b =
     send now System_Turn (''Dispatching '' @ stage_name (job_stage j) @ '' job to '' @ worker_name target) None
       (start now j (new_session (''runtime_'' @ worker_name (job_worker_type j) @ ''_'' @ job_id j)
          (case br_policy b of Some p \<Rightarrow> p | None \<Rightarrow> buildWorkerRuntimePolicy j no_policy_options) (createDefaultRuntimeToolRegistry now)))"

definition bridge_start :: "time \<Rightarrow> worker_type \<Rightarrow> worker_job \<Rightarrow> submission \<Rightarrow> bridge \<Rightarrow> (string, session_snapshot, bridge) outcome" where
  "bridge_start now target j sub b =
     (case begin_session now target j b of
        (Inl e, s) \<Rightarrow> (Inl e, b)
      | (Inr _, s) \<Rightarrow>
          if sub_success sub \<and> \<not> falsy (sub_external sub) then
            let b1 = b\<lparr>br_external := map_set (br_external b) (job_id j) (the (sub_external sub))\<rparr> in
            (case send now Tool_Turn (''adapter submitted external job '' @ the (sub_external sub)) None s of
               (Inl e, _) \<Rightarrow> (Inl e, b1)
             | (Inr _, s1) \<Rightarrow> (Inr (collect s1), b1\<lparr>br_sessions := map_set (br_sessions b1) (job_id j) s1\<rparr>))
          else let s1 = fail now (case sub_error sub of Some e \<Rightarrow> e | None \<Rightarrow> ''adapter rejected job'') s in
            (Inr (collect s1), b\<lparr>br_sessions := map_set (br_sessions b) (job_id j) s1\<rparr>))"

definition put_session :: "string \<Rightarrow> bridge \<Rightarrow> runtime_session \<Rightarrow> bridge" where
  "put_session jid b s = b\<lparr>br_sessions := map_set (br_sessions b) jid s\<rparr>"

definition polled_session :: "time \<Rightarrow> job_poll \<Rightarrow> runtime_session \<Rightarrow> (string, unit, runtime_session) outcome" where
  "polled_session now p s = (case poll_status p of
       Poll_Running \<Rightarrow> send now Tool_Turn (''adapter poll status: '' @ poll_name (poll_status p)) None s
     | Poll_Queued \<Rightarrow> send now Tool_Turn (''adapter poll status: '' @ poll_name (poll_status p)) None s
     | Poll_Succeeded \<Rightarrow> (Inr (), complete now (case poll_summary p of Some t \<Rightarrow> t | None \<Rightarrow> ''adapter job succeeded'') s)
     | Poll_Cancelled \<Rightarrow> (Inr (), interrupt now ''adapter job cancelled'' s)
     | st \<Rightarrow> (Inr (), fail now (case poll_error p of Some e \<Rightarrow> e | None \<Rightarrow> ''adapter job ended with '' @ poll_name st) s))"

definition bridge_poll :: "time \<Rightarrow> string \<Rightarrow> job_poll \<Rightarrow> bridge \<Rightarrow> (string, session_snapshot \<times> job_poll, bridge) outcome" where
  "bridge_poll now jid p b = (case map_get (br_sessions b) jid of
       None \<Rightarrow> (Inl (''runtime session not found for job: '' @ jid), b)
     | Some s \<Rightarrow>
         if falsy (map_get (br_external b) jid) then
           let s1 = fail now ''external job id is missing'' s in
           (Inr (collect s1, \<lparr>poll_external = jid, poll_status = Poll_Failed, poll_summary = None, poll_error = Some ''external job id is missing''\<rparr>),
            put_session jid b s1)
         else (case polled_session now p s of
             (Inl e, s1) \<Rightarrow> (Inl e, put_session jid b s1)
           | (Inr _, s1) \<Rightarrow> (Inr (collect s1, p), put_session jid b s1)))"

definition bridge_interrupt :: "time \<Rightarrow> string \<Rightarrow> string \<Rightarrow> bridge \<Rightarrow> (string, session_snapshot, bridge) outcome" where
  "bridge_interrupt now jid why b = (case map_get (br_sessions b) jid of
       None \<Rightarrow> (Inl (''runtime session not found for job: '' @ jid), b)
     | Some s \<Rightarrow> let s1 = interrupt now why s in (Inr (collect s1), put_session jid b s1))"

definition bridge_collect :: "string \<Rightarrow> bridge \<Rightarrow> session_snapshot option" where
  "bridge_collect jid b = map_option collect (map_get (br_sessions b) jid)"

end
