(* ===== verification/Worker_Session.thy ===== *)
theory Worker_Session
  imports Worker_Runtime
begin

text \<open>
  What the worker runtime guarantees: where a tool call may write, what a restore point restores, and the invariant
  of a session under all its operations.
\<close>

subsection \<open>Where a tool may write\<close>

lemma forward_slash_split: "split_on slash (forward_slashes s) = split_on any_slash s"
proof -
  have "split_on slash (forward_slashes s) = map (map (\<lambda>c. if c = CHR 0x5C then CHR ''/'' else c)) (split_on any_slash s)"
    unfolding forward_slashes_def by (rule split_on_map) (simp add: slash_def any_slash_def)
  also have "\<dots> = split_on any_slash s"
    by (rule map_idI, rule map_idI) (auto simp: any_slash_def dest: split_on_parts)
  finally show ?thesis .
qed

lemma dotdot_segments: "''..'' \<in> set (split_on slash p) \<longleftrightarrow> ''..'' \<in> set (segments p)"
  by (simp add: segments_def)

lemma normalized_path:
  assumes "normalizeRepoPath v = Inr p"
  shows "\<exists>s. v = Some (Json_Str s) \<and> p = strip_dot_slash (forward_slashes s) \<and> ''..'' \<notin> set (split_on slash p)"
proof -
  from assms obtain s where s: "v = Some (Json_Str s)" "p = strip_dot_slash (forward_slashes s)" "''..'' \<notin> set (split_on any_slash s)"
    by (auto simp: normalizeRepoPath_def split: option.splits json.splits if_splits)
  then show ?thesis by (simp add: dotdot_segments segments_strip_dot)  (simp flip: dotdot_segments add: forward_slash_split)
qed

lemma isAllowedPath_segments:
  assumes "isAllowedPath p ps" and "\<forall>q \<in> set ps. allowed_prefix q \<noteq> [] \<and> \<not> isAbsolute (allowed_prefix q)"
  shows "\<not> isAbsolute p \<and> (\<exists>q \<in> set ps. prefix (segments (forward_slashes q)) (segments p))"
proof -
  obtain q where q: "q \<in> set ps" and p: "p = allowed_prefix q \<or> (\<exists>r. p = allowed_prefix q @ ''/'' @ r)"
    using assms(1) by (auto simp: isAllowedPath_def list_ex_iff starts_with_iff)
  have seg: "segments (allowed_prefix q) = segments (forward_slashes q)"
    by (simp add: allowed_prefix_def segments_strip_end segments_strip_dot)
  from q assms(2) have "allowed_prefix q \<noteq> []" "\<not> isAbsolute (allowed_prefix q)" by auto
  with p have "\<not> isAbsolute p" by (cases "allowed_prefix q") auto
  moreover have "prefix (segments (forward_slashes q)) (segments p)"
    using p seg by (auto simp: segments_append)
  ultimately show ?thesis using q by blast
qed

lemma decision_of_path:
  assumes "de_allowed (decideInvocation tr pol q)" and "registrations tr (tq_tool q) \<noteq> []"
    and "td_path_arg (tr_tool (last (registrations tr (tq_tool q)))) = Some a" and "a \<noteq> []"
  shows "decideInvocation tr pol q = decide_path pol (tr_tool (last (registrations tr (tq_tool q))))
    (tr_id (last (registrations tr (tq_tool q)))) (map_get (tq_args q) a)"
  using assms by (auto simp: decideInvocation_def Let_def refuse_def split: if_splits)

text \<open>C22. A call of a tool that writes is permitted only for a path that names, whatever the mixture of slashes and dots in it,
  a place below the workspace and below one of the allowed paths, provided the policy has allowed paths and none of them
  is empty or absolute.\<close>

theorem writes_stay_in_allowed_paths:
  assumes "de_allowed (decideInvocation tr pol q)" and "registrations tr (tq_tool q) \<noteq> []"
    and "td_write (tr_tool (last (registrations tr (tq_tool q))))"
    and "td_path_arg (tr_tool (last (registrations tr (tq_tool q)))) = Some a" and "a \<noteq> []"
    and "allowed_paths pol = Some ps" and "\<forall>p \<in> set ps. allowed_prefix p \<noteq> [] \<and> \<not> isAbsolute (allowed_prefix p)"
  shows "\<exists>path. de_path (decideInvocation tr pol q) = Some path \<and> resolve ws path = ws @ segments path \<and>
    (\<exists>p \<in> set ps. prefix (segments (forward_slashes p)) (segments path))"
proof -
  note d = decision_of_path [OF assms(1,2,4,5)]
  from assms(1,3,6) obtain path where n: "normalizeRepoPath (map_get (tq_args q) a) = Inr path" and al: "isAllowedPath path ps"
    and p: "de_path (decideInvocation tr pol q) = Some path"
    by (auto simp: d decide_path_def refuse_def permit_def split: sum.splits if_splits)
  from isAllowedPath_segments [OF al assms(7)] have rel: "\<not> isAbsolute path"
    and q: "\<exists>p \<in> set ps. prefix (segments (forward_slashes p)) (segments path)" by auto
  from normalized_path [OF n] have "''..'' \<notin> set (split_on slash path)" by blast
  then have "resolve ws path = ws @ segments path" by (rule resolve_plain [OF rel])
  with p q show ?thesis by blast
qed

definition sample_policy :: runtime_policy where
  "sample_policy = \<lparr>rp_mode = Interactive, allowed_paths = Some [''src/''], max_turns = 20, max_tool_calls = 50, restricted_tools = False,
     allow_subagents = True, restore_points = Snapshot\<rparr>"

definition path_call :: "string \<Rightarrow> string \<Rightarrow> tool_request" where
  "path_call tool p = \<lparr>tq_tool = tool, tq_args = [(''path'', Json_Str p)], tq_registration = None\<rparr>"

lemmas path_eval = sample_policy_def path_call_def decideInvocation_def decide_path_def registrations_def createDefaultRuntimeToolRegistry_def
  default_tools_def file_tool_def process_tool_def register_def new_tool_registry_def map_get_def map_set_def normalizeRepoPath_def
  isAllowedPath_def allowed_prefix_def forward_slashes_def strip_end_slashes_def starts_with_def any_slash_def slash_def permit_def refuse_def
  Let_def falsy_def

lemma writes_stay_in_allowed_paths_witness:
  "resolve [''w''] (the (de_path (decideInvocation (createDefaultRuntimeToolRegistry 0) sample_policy (path_call ''write_file'' ''./src//a.ts'')))) =
    [''w'', ''src'', ''a.ts'']"
proof -
  have "de_allowed (decideInvocation (createDefaultRuntimeToolRegistry 0) sample_policy (path_call ''write_file'' ''./src//a.ts''))"
    "registrations (createDefaultRuntimeToolRegistry 0) (tq_tool (path_call ''write_file'' ''./src//a.ts'')) \<noteq> []"
    "td_write (tr_tool (last (registrations (createDefaultRuntimeToolRegistry 0) (tq_tool (path_call ''write_file'' ''./src//a.ts'')))))"
    "td_path_arg (tr_tool (last (registrations (createDefaultRuntimeToolRegistry 0) (tq_tool (path_call ''write_file'' ''./src//a.ts''))))) = Some ''path''"
    "allowed_paths sample_policy = Some [''src/'']"
    "\<forall>p \<in> set [''src/'']. allowed_prefix p \<noteq> [] \<and> \<not> isAbsolute (allowed_prefix p)"
    by (simp_all add: path_eval)
  from writes_stay_in_allowed_paths [OF this(1-4) _ this(5,6), of "[''w'']"]
  obtain path where path: "de_path (decideInvocation (createDefaultRuntimeToolRegistry 0) sample_policy (path_call ''write_file'' ''./src//a.ts'')) = Some path"
    "resolve [''w''] path = [''w''] @ segments path" by auto
  from path(1) have "path = ''src//a.ts''" by (simp add: path_eval)
  with path show ?thesis by (simp add: segments_def slash_def)
qed

text \<open>On a POSIX system a path that starts with a single backslash passes the check for repository-relative paths and is then
  turned into an absolute path, so that reading it is permitted outside the workspace.\<close>

theorem backslash_path_leaves_workspace:
  assumes "registrations tr (tq_tool q) \<noteq> []" and "t = tr_tool (last (registrations tr (tq_tool q)))"
    and "\<not> td_write t" and "td_restricted_ok t" and "\<not> td_subagent t" and "td_path_arg t = Some a" and "a \<noteq> []"
    and "tq_registration q = None" and "map_get (tq_args q) a = Some (Json_Str (CHR 0x5C # c # s))"
    and "\<not> any_slash c" and "''..'' \<notin> set (split_on any_slash (c # s))"
  shows "de_allowed (decideInvocation tr pol q) \<and> de_path (decideInvocation tr pol q) = Some (CHR ''/'' # forward_slashes (c # s)) \<and>
    resolve ws (CHR ''/'' # forward_slashes (c # s)) = segments (c # forward_slashes s)"
proof -
  have split: "''..'' \<notin> set (split_on any_slash (CHR 0x5C # c # s))" using assms(11) by (simp add: any_slash_def)
  have c: "c \<noteq> CHR ''/''" "c \<noteq> CHR 0x5C" using assms(10) by (auto simp: any_slash_def)
  have n: "normalizeRepoPath (Some (Json_Str (CHR 0x5C # c # s))) = Inr (CHR ''/'' # forward_slashes (c # s))"
    using split c by (simp add: normalizeRepoPath_def slash_def starts_with_def forward_slashes_def)
      (cases s; simp add: any_slash_def)
  have d: "decideInvocation tr pol q = permit (Some (CHR ''/'' # forward_slashes (c # s))) (tr_id (last (registrations tr (tq_tool q))))"
    using assms n by (simp add: decideInvocation_def Let_def decide_path_def)
  have "''..'' \<notin> set (split_on slash (c # forward_slashes s))"
    using assms(11) c forward_slash_split [of "c # s"] by (simp add: forward_slashes_def)
  then have "resolve ws (CHR ''/'' # forward_slashes (c # s)) = segments (c # forward_slashes s)"
    using c by (simp add: resolve_def slash_def walk_plain segments_def forward_slashes_def)
  with d show ?thesis by (simp add: permit_def)
qed

lemma backslash_path_leaves_workspace_witness:
  "resolve [''w''] (the (de_path (decideInvocation (createDefaultRuntimeToolRegistry 0) sample_policy
    (path_call ''read_file'' (CHR 0x5C # ''etc/passwd''))))) = [''etc'', ''passwd'']"
proof -
  let ?tr = "createDefaultRuntimeToolRegistry 0" and ?q = "path_call ''read_file'' (CHR 0x5C # ''etc/passwd'')"
  let ?t = "file_tool ''read_file'' Read_Effect False"
  have "registrations ?tr (tq_tool ?q) \<noteq> []" "?t = tr_tool (last (registrations ?tr (tq_tool ?q)))" "\<not> td_write ?t" "td_restricted_ok ?t"
    "\<not> td_subagent ?t" "td_path_arg ?t = Some ''path''" "''path'' \<noteq> []" "tq_registration ?q = None"
    "map_get (tq_args ?q) ''path'' = Some (Json_Str (CHR 0x5C # CHR ''e'' # ''tc/passwd''))" "\<not> any_slash (CHR ''e'')"
    "''..'' \<notin> set (split_on any_slash (CHR ''e'' # ''tc/passwd''))"
    by (simp_all add: path_eval)
  from backslash_path_leaves_workspace [OF this, of sample_policy "[''w'']"] show ?thesis
    by (auto simp: segments_def slash_def forward_slashes_def)
qed

subsection \<open>Restore points\<close>

text \<open>What a restore point keeps of a file, read off the file system it was taken from.\<close>

definition kept :: "string list \<Rightarrow> restore_mode \<Rightarrow> filesystem \<Rightarrow> restore_file \<Rightarrow> bool" where
  "kept ws mode fs f = (case resolveWorkspacePath ws (rf_path f) of Inl _ \<Rightarrow> False
     | Inr r \<Rightarrow> rf_existed f = existsSync fs r \<and> (mode = Snapshot \<longrightarrow> rf_content f = fs_file fs r \<and> rf_existed f = (fs_file fs r \<noteq> None)) \<and>
         (mode \<noteq> Snapshot \<longrightarrow> rf_content f = None))"

lemma snapshotFile_kept:
  assumes "snapshotFile ws p mode fs = (Inr f, fs')"
  shows "fs' = fs \<and> kept ws mode fs f \<and> normalizeRepoPath (Some (Json_Str p)) = Inr (rf_path f)"
proof -
  from assms obtain np r where np: "normalizeRepoPath (Some (Json_Str p)) = Inr np" "resolveWorkspacePath ws np = Inr r"
    and body: "(let ex = existsSync fs r; f = \<lparr>rf_path = np, rf_existed = ex, rf_content = None\<rparr> in
       if mode = Snapshot \<and> ex then and_then (readFileSync r) (\<lambda>t. return (f\<lparr>rf_content := Some t\<rparr>)) fs else (Inr f, fs)) = (Inr f, fs')"
    by (auto simp: snapshotFile_def check_def and_then_def split: sum.splits)
  from body np show ?thesis
    by (auto simp: Let_def and_then_def return_def readFileSync_def existsSync_def kept_def split: if_splits option.splits)
qed

lemma snapshot_files_kept:
  "snapshot_files ws mode ps fs = (Inr files, fs') \<Longrightarrow> fs' = fs \<and> list_all (kept ws mode fs) files \<and>
    map (\<lambda>p. normalizeRepoPath (Some (Json_Str p))) ps = map (\<lambda>f. Inr (rf_path f)) files"
proof (induction ps arbitrary: files)
  case (Cons p ps)
  from Cons.prems obtain f fs1 rest fs2 where f: "snapshotFile ws p mode fs = (Inr f, fs1)"
    and rest: "snapshot_files ws mode ps fs1 = (Inr rest, fs2)" and files: "files = f # rest" "fs' = fs2"
    by (auto elim!: and_then_InrE simp: return_def)
  from snapshotFile_kept [OF f] have "fs1 = fs" by simp
  with Cons.IH [of rest] rest snapshotFile_kept [OF f] files show ?case by simp
qed (simp add: return_def)

text \<open>Restoring a file puts the kept content, or nothing, in its place and touches no other file.\<close>

definition restored_content :: "restore_file \<Rightarrow> string option" where
  "restored_content f = (if rf_existed f then Some (case rf_content f of Some t \<Rightarrow> t | None \<Rightarrow> []) else None)"

lemma restore_one_effect:
  assumes "restore_one ws f fs = (Inr u, fs')" and "resolveWorkspacePath ws (rf_path f) = Inr r"
  shows "fs_file fs' = (fs_file fs)(r := restored_content f)"
proof (cases "rf_existed f")
  case True
  with assms obtain fs1 v where mk: "mkdirSync (butlast r) fs = (Inr v, fs1)"
    and wr: "writeFileSync r (case rf_content f of Some t \<Rightarrow> t | None \<Rightarrow> []) fs1 = (Inr u, fs')"
    by (auto simp: restore_one_def check_def and_then_def split: sum.splits prod.splits)
  from mk have "fs_file fs1 = fs_file fs" using file_frames(2) [of "butlast r" fs] by simp
  with writeFileSync_Inr [OF wr] True show ?thesis by (simp add: restored_content_def)
next
  case False
  with assms show ?thesis
    by (auto simp: restore_one_def check_def and_then_def existsSync_def rmSync_def restored_content_def split: if_splits)
qed

lemma restore_one_path: "restore_one ws f fs = (Inr u, fs') \<Longrightarrow> \<exists>r. resolveWorkspacePath ws (rf_path f) = Inr r"
  by (auto simp: restore_one_def check_def and_then_def split: sum.splits)

lemma restore_files_effect:
  assumes "restore_files ws files fs = (Inr u, fs')"
    and "\<forall>f \<in> set files. \<forall>r. resolveWorkspacePath ws (rf_path f) = Inr r \<longrightarrow> restored_content f = want r"
  shows "fs_file fs' r = (if \<exists>f \<in> set files. resolveWorkspacePath ws (rf_path f) = Inr r then want r else fs_file fs r)"
  using assms
proof (induction files arbitrary: fs)
  case (Cons f files)
  from Cons.prems(1) obtain v fs1 where one: "restore_one ws f fs = (Inr v, fs1)" and rest: "restore_files ws files fs1 = (Inr u, fs')"
    by (auto elim!: and_then_InrE)
  obtain q where q: "resolveWorkspacePath ws (rf_path f) = Inr q" using restore_one_path [OF one] by blast
  with Cons.prems(2) have "restored_content f = want q" by simp
  with restore_one_effect [OF one q] have "fs_file fs1 = (fs_file fs)(q := want q)" by simp
  with Cons.IH [OF rest] Cons.prems(2) q show ?case by auto
qed (simp add: return_def)

lemma restore_point_files:
  assumes "create_restore_point stamp now ws arts sid jid paths mode fs = (Inr p, fs1)" and "mode \<noteq> Disabled"
  shows "list_all (kept ws mode fs) (rp_files p) \<and>
    map (\<lambda>q. normalizeRepoPath (Some (Json_Str q))) paths = map (\<lambda>f. Inr (rf_path f)) (rp_files p)"
proof -
  from assms obtain files fs2 where f: "snapshot_files ws mode paths fs = (Inr files, fs2)" and "rp_files p = files"
    by (auto simp: create_restore_point_def Let_def return_def elim!: and_then_InrE)
  with snapshot_files_kept [OF f] show ?thesis by simp
qed

text \<open>C23. Restoring a snapshot brings every one of its files back to its content when the snapshot was taken, or removes it if it
  did not exist, and changes no other file, whatever happened to the files in between.\<close>

theorem restore_brings_back_snapshot:
  assumes "create_restore_point stamp now ws arts sid jid paths Snapshot fs = (Inr p, fs1)" and "restore ws p fs2 = (Inr u, fs3)"
  shows "fs_file fs3 r = (if \<exists>q \<in> set paths. \<exists>np. normalizeRepoPath (Some (Json_Str q)) = Inr np \<and> resolveWorkspacePath ws np = Inr r
    then fs_file fs r else fs_file fs2 r)"
proof -
  from restore_point_files [OF assms(1)] have kept: "list_all (kept ws Snapshot fs) (rp_files p)"
    and paths: "map (\<lambda>q. normalizeRepoPath (Some (Json_Str q))) paths = map (\<lambda>f. Inr (rf_path f)) (rp_files p)" by simp_all
  have want: "\<forall>f \<in> set (rp_files p). \<forall>r. resolveWorkspacePath ws (rf_path f) = Inr r \<longrightarrow> restored_content f = fs_file fs r"
    using kept by (fastforce simp: list_all_iff kept_def restored_content_def split: option.splits sum.splits)
  have "(\<exists>q \<in> set paths. \<exists>np. normalizeRepoPath (Some (Json_Str q)) = Inr np \<and> resolveWorkspacePath ws np = Inr r) \<longleftrightarrow>
      (\<exists>np. Inr np \<in> set (map (\<lambda>q. normalizeRepoPath (Some (Json_Str q))) paths) \<and> resolveWorkspacePath ws np = Inr r)"
    unfolding set_map image_iff by metis
  also have "\<dots> \<longleftrightarrow> (\<exists>f \<in> set (rp_files p). resolveWorkspacePath ws (rf_path f) = Inr r)"
    unfolding paths by auto
  finally show ?thesis using restore_files_effect [OF assms(2) [unfolded restore_def] want, of r] by simp
qed

text \<open>In the mode \<open>manifest\<close> a restore point keeps no contents, and restoring it empties every file that existed, instead of leaving
  it alone.\<close>

theorem manifest_restore_empties:
  assumes "create_restore_point stamp now ws arts sid jid paths Manifest fs = (Inr p, fs1)" and "restore ws p fs2 = (Inr u, fs3)"
    and "q \<in> set paths" and "normalizeRepoPath (Some (Json_Str q)) = Inr np" and "resolveWorkspacePath ws np = Inr r" and "existsSync fs r"
  shows "fs_file fs3 r = Some []"
proof -
  from restore_point_files [OF assms(1)] have kept: "list_all (kept ws Manifest fs) (rp_files p)"
    and paths: "map (\<lambda>q. normalizeRepoPath (Some (Json_Str q))) paths = map (\<lambda>f. Inr (rf_path f)) (rp_files p)" by simp_all
  have want: "\<forall>f \<in> set (rp_files p). \<forall>r. resolveWorkspacePath ws (rf_path f) = Inr r \<longrightarrow>
      restored_content f = (if existsSync fs r then Some [] else None)"
    using kept by (fastforce simp: list_all_iff kept_def restored_content_def split: option.splits sum.splits)
  have "Inr np \<in> set (map (\<lambda>q. normalizeRepoPath (Some (Json_Str q))) paths)" using assms(3,4) by force
  then have "\<exists>f \<in> set (rp_files p). resolveWorkspacePath ws (rf_path f) = Inr r" unfolding paths using assms(5) by auto
  with restore_files_effect [OF assms(2) [unfolded restore_def] want, of r] assms(6) show ?thesis by simp
qed

text \<open>A workspace with one file, which is overwritten after the restore point was made.\<close>

definition sample_fs :: "string \<Rightarrow> filesystem" where
  "sample_fs t = \<lparr>fs_file = [[''w'', ''a''] \<mapsto> t], fs_dir = (\<lambda>d. d = [] \<or> d = [''w''])\<rparr>"

lemmas fs_eval = sample_fs_def create_restore_point_def snapshotFile_def writeRestorePoint_def and_then_def return_def check_def Let_def
  normalizeRepoPath_def resolveWorkspacePath_def resolve_def relative_def existsSync_def readFileSync_def mkdirSync_def writeFileSync_def
  ancestors_def starts_with_def forward_slashes_def any_slash_def slash_def restore_def restore_one_def

lemma sample_point: "\<exists>p fs1 u fs3. create_restore_point (\<lambda>_. []) 0 [''w''] [''w''] ''s'' ''j'' [''./a''] mode (sample_fs ''old'') = (Inr p, fs1) \<and>
    restore [''w''] p (sample_fs ''new'') = (Inr u, fs3)" if "mode \<noteq> Disabled"
proof -
  have zero: "show_int 0 = ''0''" by code_simp
  show ?thesis using that by (cases mode) (simp_all add: zero fs_eval eval_nat_numeral)
qed

lemma restore_brings_back_snapshot_witness: "\<exists>p fs1 fs3. create_restore_point (\<lambda>_. []) 0 [''w''] [''w''] ''s'' ''j'' [''./a''] Snapshot (sample_fs ''old'') = (Inr p, fs1) \<and>
    restore [''w''] p (sample_fs ''new'') = (Inr (), fs3) \<and> fs_file fs3 [''w'', ''a''] = Some ''old''"
proof -
  obtain p fs1 u fs3 where p: "create_restore_point (\<lambda>_. []) 0 [''w''] [''w''] ''s'' ''j'' [''./a''] Snapshot (sample_fs ''old'') = (Inr p, fs1)"
    and r: "restore [''w''] p (sample_fs ''new'') = (Inr u, fs3)" using sample_point [of Snapshot] by auto
  from restore_brings_back_snapshot [OF p r, of "[''w'', ''a'']"] have "fs_file fs3 [''w'', ''a''] = Some ''old''" by (simp add: fs_eval)
  with p r show ?thesis by (metis old.unit.exhaust)
qed

lemma manifest_restore_empties_witness: "\<exists>p fs1 fs3. create_restore_point (\<lambda>_. []) 0 [''w''] [''w''] ''s'' ''j'' [''./a''] Manifest (sample_fs ''old'') = (Inr p, fs1) \<and>
    restore [''w''] p (sample_fs ''new'') = (Inr (), fs3) \<and> fs_file fs3 [''w'', ''a''] = Some []"
proof -
  obtain p fs1 u fs3 where p: "create_restore_point (\<lambda>_. []) 0 [''w''] [''w''] ''s'' ''j'' [''./a''] Manifest (sample_fs ''old'') = (Inr p, fs1)"
    and r: "restore [''w''] p (sample_fs ''new'') = (Inr u, fs3)" using sample_point [of Manifest] by auto
  have "fs_file fs3 [''w'', ''a''] = Some []"
    by (rule manifest_restore_empties [OF p r, of "''./a''" "''a''"]) (simp_all add: fs_eval)
  with p r show ?thesis by (metis old.unit.exhaust)
qed

subsection \<open>The life of a session\<close>

text \<open>The state that an event announces, the state after a log, and the logs in which only a running session takes inputs, decides
  about tools and records turns.\<close>

fun event_state :: "session_state \<Rightarrow> event_type \<Rightarrow> session_state" where
  "event_state s Started = Running"
| "event_state s Ev_Interrupted = Interrupted"
| "event_state s Ev_Completed = Completed_Session"
| "event_state s Ev_Failed = Failed_Session"
| "event_state s Ev_Closed = Closed"
| "event_state s _ = s"

definition replay_log :: "event_type list \<Rightarrow> session_state" where
  "replay_log es = foldl event_state Created es"

fun needs_running :: "event_type \<Rightarrow> bool" where
  "needs_running Input_Admitted = True"
| "needs_running Input_Promoted = True"
| "needs_running Turn_Recorded = True"
| "needs_running Tool_Decision = True"
| "needs_running _ = False"

definition log_ok :: "event_type list \<Rightarrow> bool" where
  "log_ok es = (\<forall>i < length es. needs_running (es ! i) \<longrightarrow> replay_log (take i es) = Running)"

definition event_log :: "runtime_session \<Rightarrow> event_type list" where
  "event_log s = map ev_type (rs_events s)"

definition turn_calls :: "runtime_session \<Rightarrow> tool_request list" where
  "turn_calls s = concat (map (\<lambda>t. call_list (tn_calls t)) (rs_turns s))"

definition numbered :: "runtime_session \<Rightarrow> bool" where
  "numbered s = (map ev_sequence (rs_events s) = map int [1..<Suc (length (rs_events s))] \<and> rs_sequence s = int (length (rs_events s)))"

definition calls_ok :: "runtime_session \<Rightarrow> bool" where
  "calls_ok s = (rs_tool_calls s = int (length (turn_calls s)) \<and> rs_tool_calls s \<le> max 0 (max_tool_calls (rs_policy s)) \<and>
     list_all (\<lambda>q. de_allowed (decideInvocation (rs_registry s) (rs_policy s) q)) (turn_calls s))"

definition session_ok :: "runtime_session \<Rightarrow> bool" where
  "session_ok s = (rs_state s = replay_log (event_log s) \<and> log_ok (event_log s) \<and> numbered s \<and> calls_ok s)"

lemma log_ok_snoc: "log_ok (es @ [e]) \<longleftrightarrow> log_ok es \<and> (needs_running e \<longrightarrow> replay_log es = Running)"
  by (auto simp: log_ok_def nth_append less_Suc_eq)

lemma replay_snoc [simp]: "replay_log (es @ [e]) = event_state (replay_log es) e"
  by (simp add: replay_log_def)

lemma record_simps [simp]: "rs_state (recordEvent now ty msg meta s) = rs_state s" "rs_turns (recordEvent now ty msg meta s) = rs_turns s"
  "rs_policy (recordEvent now ty msg meta s) = rs_policy s" "rs_registry (recordEvent now ty msg meta s) = rs_registry s"
  "rs_tool_calls (recordEvent now ty msg meta s) = rs_tool_calls s" "rs_inputs (recordEvent now ty msg meta s) = rs_inputs s"
  "event_log (recordEvent now ty msg meta s) = event_log s @ [ty]" "turn_calls (recordEvent now ty msg meta s) = turn_calls s"
  "rs_id (recordEvent now ty msg meta s) = rs_id s" "rs_job (recordEvent now ty msg meta s) = rs_job s"
  by (simp_all add: recordEvent_def Let_def event_log_def turn_calls_def)

lemma update_simps_session [simp]:
  "event_log (s\<lparr>rs_state := st\<rparr>) = event_log s" "event_log (s\<lparr>rs_job := j\<rparr>) = event_log s" "event_log (s\<lparr>rs_inputs := is\<rparr>) = event_log s"
  "event_log (s\<lparr>rs_turns := ts\<rparr>) = event_log s" "event_log (s\<lparr>rs_tool_calls := n\<rparr>) = event_log s"
  "event_log (s\<lparr>rs_artifacts := as\<rparr>) = event_log s" "event_log (s\<lparr>rs_restore_points := as\<rparr>) = event_log s"
  "numbered (s\<lparr>rs_state := st\<rparr>) = numbered s" "numbered (s\<lparr>rs_job := j\<rparr>) = numbered s" "numbered (s\<lparr>rs_inputs := is\<rparr>) = numbered s"
  "numbered (s\<lparr>rs_turns := ts\<rparr>) = numbered s" "numbered (s\<lparr>rs_tool_calls := n\<rparr>) = numbered s"
  "numbered (s\<lparr>rs_artifacts := as\<rparr>) = numbered s" "numbered (s\<lparr>rs_restore_points := as\<rparr>) = numbered s"
  "calls_ok (s\<lparr>rs_state := st\<rparr>) = calls_ok s" "calls_ok (s\<lparr>rs_job := j\<rparr>) = calls_ok s" "calls_ok (s\<lparr>rs_inputs := is\<rparr>) = calls_ok s"
  "calls_ok (s\<lparr>rs_artifacts := as\<rparr>) = calls_ok s" "calls_ok (s\<lparr>rs_restore_points := as\<rparr>) = calls_ok s"
  by (simp_all add: event_log_def numbered_def calls_ok_def turn_calls_def)

lemma numbered_record [simp]: "numbered s \<Longrightarrow> numbered (recordEvent now ty msg meta s)"
  by (simp add: numbered_def recordEvent_def Let_def)

lemma calls_record [simp]: "calls_ok (recordEvent now ty msg meta s) = calls_ok s"
  by (simp add: calls_ok_def)

lemma record_event_ok:
  assumes "log_ok (event_log s)" and "numbered s" and "calls_ok s"
    and "rs_state s = event_state (replay_log (event_log s)) ty" and "needs_running ty \<Longrightarrow> replay_log (event_log s) = Running"
  shows "session_ok (recordEvent now ty msg meta s)"
  using assms by (simp add: session_ok_def log_ok_snoc)

lemma session_parts: "session_ok s \<Longrightarrow> log_ok (event_log s)" "session_ok s \<Longrightarrow> numbered s" "session_ok s \<Longrightarrow> calls_ok s"
  "session_ok s \<Longrightarrow> replay_log (event_log s) = rs_state s"
  by (simp_all add: session_ok_def)

lemma plain_steps_ok: "session_ok s \<Longrightarrow> session_ok (start now j s)" "session_ok s \<Longrightarrow> session_ok (interrupt now why s)"
  "session_ok s \<Longrightarrow> session_ok (complete now why s)" "session_ok s \<Longrightarrow> session_ok (fail now why s)" "session_ok s \<Longrightarrow> session_ok (close_session now s)"
  by (auto simp: start_def interrupt_def complete_def fail_def close_session_def session_parts intro!: record_event_ok)

lemma admit_ok: "session_ok s \<Longrightarrow> session_ok (snd (admitInput now iid content dl resume s))"
  by (auto simp: admitInput_def and_then_def assertRunning_def Let_def admit_new_def session_parts split: option.split intro!: record_event_ok)

lemma turn_calls_plain: "turn_calls (s\<lparr>rs_inputs := is, rs_turns := rs_turns s @ [t]\<rparr>) = turn_calls s @ call_list (tn_calls t)"
  by (simp add: turn_calls_def)

lemma promote_one_ok: "session_ok s \<Longrightarrow> rs_state s = Running \<Longrightarrow> session_ok (promote_one now i s) \<and> rs_state (promote_one now i s) = Running"
proof -
  assume s: "session_ok s" "rs_state s = Running"
  have "calls_ok (s\<lparr>rs_inputs := is, rs_turns := rs_turns s @ [\<lparr>tn_role = User_Turn, tn_content = c, tn_created = now, tn_calls = None\<rparr>]\<rparr>)" for "is" c
    using session_parts(3) [OF s(1)] by (simp add: calls_ok_def turn_calls_plain call_list_def)
  with s show ?thesis by (auto simp: promote_one_def session_parts intro!: record_event_ok)
qed

lemma promote_inputs_ok: "session_ok s \<Longrightarrow> rs_state s = Running \<Longrightarrow> session_ok (promote_inputs now is s)"
  by (induction now "is" s rule: promote_inputs.induct) (auto simp: promote_one_ok Let_def)

lemma promote_ok: "session_ok s \<Longrightarrow> session_ok (snd (promoteAdmittedInputs now s))"
  by (simp add: promoteAdmittedInputs_def and_then_def assertRunning_def promote_inputs_ok)

lemma decide_calls_ok: "session_ok s \<Longrightarrow> rs_state s = Running \<Longrightarrow> decide_calls now qs s = (b, s1) \<Longrightarrow>
    session_ok s1 \<and> rs_policy s1 = rs_policy s \<and> rs_registry s1 = rs_registry s \<and> rs_tool_calls s1 = rs_tool_calls s \<and>
    rs_turns s1 = rs_turns s \<and>
    (b \<longrightarrow> rs_state s1 = Running \<and> list_all (\<lambda>q. de_allowed (decideInvocation (rs_registry s) (rs_policy s) q)) qs)"
proof (induction qs arbitrary: s)
  case (Cons q qs)
  let ?d = "decideInvocation (rs_registry s) (rs_policy s) q"
  have ok: "session_ok (note_decision now q ?d s)" "rs_state (note_decision now q ?d s) = Running"
    "rs_policy (note_decision now q ?d s) = rs_policy s" "rs_registry (note_decision now q ?d s) = rs_registry s"
    "rs_tool_calls (note_decision now q ?d s) = rs_tool_calls s" "rs_turns (note_decision now q ?d s) = rs_turns s"
    using Cons.prems(1,2) by (auto simp: note_decision_def session_parts intro!: record_event_ok)
  show ?case
  proof (cases "de_allowed ?d")
    case True
    with Cons.prems(3) have "decide_calls now qs (note_decision now q ?d s) = (b, s1)" by (simp add: Let_def)
    with Cons.IH [OF ok(1,2)] ok(3-6) True show ?thesis by simp
  next
    case False
    with Cons.prems(3) have "b = False" "s1 = fail now (de_reason ?d) (note_decision now q ?d s)" by (auto simp: Let_def)
    with ok show ?thesis by (simp add: plain_steps_ok) (simp add: fail_def)
  qed
qed simp

lemma send_ok: "session_ok s \<Longrightarrow> session_ok (snd (send now role content calls s))"
proof -
  assume s: "session_ok s"
  have "session_ok (send_running now role content calls s)" if run: "rs_state s = Running"
  proof (cases "int (length (rs_turns s)) \<ge> max_turns (rs_policy s) \<or> rs_tool_calls s + int (length (call_list calls)) > max_tool_calls (rs_policy s)")
    case True
    then show ?thesis using s by (auto simp: send_running_def Let_def plain_steps_ok)
  next
    case False
    obtain b s1 where d: "decide_calls now (call_list calls) s = (b, s1)" by (cases "decide_calls now (call_list calls) s")
    note ok = decide_calls_ok [OF s run d]
    show ?thesis
    proof (cases b)
      case True
      let ?s2 = "s1\<lparr>rs_tool_calls := rs_tool_calls s1 + int (length (call_list calls)),
        rs_turns := rs_turns s1 @ [\<lparr>tn_role = role, tn_content = content, tn_created = now, tn_calls = calls\<rparr>]\<rparr>"
      have "calls_ok ?s2" using False ok True session_parts(3) [OF s] by (simp add: calls_ok_def turn_calls_def)
      with ok True have "session_ok (recordEvent now Turn_Recorded msg None ?s2)" for msg by (auto simp: session_parts intro!: record_event_ok)
      with False d True show ?thesis by (auto simp: send_running_def Let_def)
    qed (use False d ok in \<open>auto simp: send_running_def Let_def\<close>)
  qed
  with s show ?thesis by (simp add: send_def and_then_def assertRunning_def)
qed

lemma note_point_ok: "session_ok s \<Longrightarrow> session_ok (note_restore_point now p s)"
  by (auto simp: note_restore_point_def session_parts intro!: record_event_ok)

lemma point_session: "fst (snd (createRestorePoint stamp now mgr paths (s, fs))) = s \<or>
    (\<exists>p. fst (snd (createRestorePoint stamp now mgr paths (s, fs))) = note_restore_point now p s)"
  unfolding createRestorePoint_def prod.case by (auto split: option.split prod.split sum.split)

lemma restore_point_ok: "session_ok s \<Longrightarrow> session_ok (fst (snd (createRestorePoint stamp now mgr paths (s, fs))))"
  using point_session [of stamp now mgr paths s fs] note_point_ok by metis

inductive session_reachable :: "runtime_session \<Rightarrow> bool" where
  opened: "session_reachable (new_session sid pol tr)"
| starts: "session_reachable s \<Longrightarrow> session_reachable (start now j s)"
| admits: "session_reachable s \<Longrightarrow> session_reachable (snd (admitInput now iid content dl resume s))"
| promotes: "session_reachable s \<Longrightarrow> session_reachable (snd (promoteAdmittedInputs now s))"
| sends: "session_reachable s \<Longrightarrow> session_reachable (snd (send now role content calls s))"
| interrupts: "session_reachable s \<Longrightarrow> session_reachable (interrupt now why s)"
| completes: "session_reachable s \<Longrightarrow> session_reachable (complete now why s)"
| fails: "session_reachable s \<Longrightarrow> session_reachable (fail now why s)"
| closes: "session_reachable s \<Longrightarrow> session_reachable (close_session now s)"
| saves: "session_reachable s \<Longrightarrow> session_reachable (fst (snd (createRestorePoint stamp now mgr paths (s, fs))))"

lemma session_reachable_ok: "session_reachable s \<Longrightarrow> session_ok s"
proof (induction rule: session_reachable.induct)
  case (opened sid pol tr)
  show ?case by (simp add: new_session_def session_ok_def event_log_def replay_log_def log_ok_def numbered_def calls_ok_def turn_calls_def)
qed (simp_all add: plain_steps_ok admit_ok promote_ok send_ok restore_point_ok)

text \<open>C9. In every reachable session the state is the one its event log announces, the events are numbered without gaps from 1,
  inputs, turns and tool decisions are logged only while the session runs, the count of tool calls is that of the recorded
  turns and within the limit, and each recorded call was permitted by the policy.\<close>

theorem session_log_sound:
  assumes "session_reachable s"
  shows "rs_state s = replay_log (event_log s) \<and> log_ok (event_log s) \<and>
    map ev_sequence (rs_events s) = map int [1..<Suc (length (rs_events s))] \<and> rs_sequence s = int (length (rs_events s)) \<and>
    rs_tool_calls s = int (length (turn_calls s)) \<and> rs_tool_calls s \<le> max 0 (max_tool_calls (rs_policy s)) \<and>
    list_all (\<lambda>q. de_allowed (decideInvocation (rs_registry s) (rs_policy s) q)) (turn_calls s)"
  using session_reachable_ok [OF assms] by (simp add: session_ok_def numbered_def calls_ok_def)

lemma session_log_sound_witness: "\<exists>s. session_reachable s \<and> rs_state s = Running \<and> event_log s = [Started, Tool_Decision, Turn_Recorded] \<and>
    rs_tool_calls s = 1 \<and> replay_log (event_log s) = Running"
proof -
  let ?begun = "start 1 sample_job (new_session ''s'' sample_policy (createDefaultRuntimeToolRegistry 0))"
  let ?s = "snd (send 2 Worker_Turn ''done'' (Some [path_call ''write_file'' ''src/a.ts'']) ?begun)"
  have r: "session_reachable ?s" by (rule sends [OF starts [OF opened]])
  have run: "rs_state ?begun = Running" "rs_turns ?begun = []" "rs_tool_calls ?begun = 0" "rs_policy ?begun = sample_policy"
    "rs_registry ?begun = createDefaultRuntimeToolRegistry 0" "event_log ?begun = [Started]"
    by (simp_all add: start_def new_session_def event_log_def recordEvent_def Let_def)
  have d: "de_allowed (decideInvocation (createDefaultRuntimeToolRegistry 0) sample_policy (path_call ''write_file'' ''src/a.ts''))"
    by (simp add: path_eval)
  have "rs_state ?s = Running" "event_log ?s = [Started, Tool_Decision, Turn_Recorded]" "rs_tool_calls ?s = 1"
    using run d by (simp_all add: send_def and_then_def assertRunning_def send_running_def Let_def call_list_def note_decision_def sample_policy_def)
  with r session_log_sound [OF r] show ?thesis by auto
qed

subsection \<open>Polling through the bridge\<close>

fun poll_repeat :: "nat \<Rightarrow> time \<Rightarrow> string \<Rightarrow> job_poll \<Rightarrow> bridge \<Rightarrow> bridge" where
  "poll_repeat 0 now jid p b = b"
| "poll_repeat (Suc n) now jid p b = snd (bridge_poll now jid p (poll_repeat n now jid p b))"

lemma send_plain: "rs_state s = Running \<Longrightarrow> rs_tool_calls s \<le> max_tool_calls (rs_policy s) \<Longrightarrow>
    send now role content None s = (Inr (), if int (length (rs_turns s)) \<ge> max_turns (rs_policy s)
      then fail now (''max_turns exceeded: '' @ show_int (max_turns (rs_policy s))) s
      else recordEvent now Turn_Recorded (''turn recorded: '' @ role_name role) None
        (s\<lparr>rs_turns := rs_turns s @ [\<lparr>tn_role = role, tn_content = content, tn_created = now, tn_calls = None\<rparr>]\<rparr>))"
  by (simp add: send_def and_then_def assertRunning_def send_running_def Let_def call_list_def)

lemma polled_step:
  assumes "map_get (br_sessions b) jid = Some s" and "\<not> falsy (map_get (br_external b) jid)" and "poll_status p = Poll_Running"
  shows "map_get (br_sessions (snd (bridge_poll now jid p b))) jid = Some (snd (send now Tool_Turn ''adapter poll status: running'' None s)) \<and>
    br_external (snd (bridge_poll now jid p b)) = br_external b \<and>
    (fst (bridge_poll now jid p b) = Inl e) = (fst (send now Tool_Turn ''adapter poll status: running'' None s) = Inl e)"
  using assms by (auto simp: bridge_poll_def polled_session_def put_session_def split: prod.split sum.split)

definition has_session :: "session_state \<Rightarrow> int \<Rightarrow> string \<Rightarrow> bridge \<Rightarrow> bool" where
  "has_session st n jid b = (\<not> falsy (map_get (br_external b) jid) \<and> (\<exists>s. map_get (br_sessions b) jid = Some s \<and> rs_state s = st \<and>
     int (length (rs_turns s)) = n \<and> rs_tool_calls s = 0 \<and> max_turns (rs_policy s) = 20 \<and> max_tool_calls (rs_policy s) = 50))"

lemma send_failed: "rs_state s = Failed_Session \<Longrightarrow> send now role content calls s = (Inl ''session is not running: failed'', s)"
  by (simp add: send_def and_then_def assertRunning_def)

lemma poll_running:
  assumes "has_session Running n jid b" and "poll_status p = Poll_Running"
  shows "has_session (if n < 20 then Running else Failed_Session) (if n < 20 then n + 1 else n) jid (snd (bridge_poll now jid p b))"
proof -
  from assms(1) obtain s where s: "\<not> falsy (map_get (br_external b) jid)" "map_get (br_sessions b) jid = Some s" "rs_state s = Running"
    "int (length (rs_turns s)) = n" "rs_tool_calls s = 0" "max_turns (rs_policy s) = 20" "max_tool_calls (rs_policy s) = 50"
    by (auto simp: has_session_def)
  from polled_step [OF s(2,1) assms(2), of now undefined] s show ?thesis
    by (cases "n < 20") (simp_all add: has_session_def send_plain fail_def)
qed

lemma poll_failed:
  assumes "has_session Failed_Session n jid b" and "poll_status p = Poll_Running"
  shows "has_session Failed_Session n jid (snd (bridge_poll now jid p b)) \<and>
    fst (bridge_poll now jid p b) = Inl ''session is not running: failed''"
proof -
  from assms(1) obtain s where s: "\<not> falsy (map_get (br_external b) jid)" "map_get (br_sessions b) jid = Some s" "rs_state s = Failed_Session"
    "int (length (rs_turns s)) = n" "rs_tool_calls s = 0" "max_turns (rs_policy s) = 20" "max_tool_calls (rs_policy s) = 50"
    by (auto simp: has_session_def)
  from polled_step [OF s(2,1) assms(2), of now "''session is not running: failed''"] s show ?thesis
    by (simp add: has_session_def send_failed)
qed

lemma repeat_has_session:
  assumes "poll_status p = Poll_Running" and "has_session Running 2 jid b"
  shows "n \<le> 18 \<Longrightarrow> has_session Running (int n + 2) jid (poll_repeat n now jid p b)"
    and "19 \<le> n \<Longrightarrow> has_session Failed_Session 20 jid (poll_repeat n now jid p b)"
proof -
  show run: "n \<le> 18 \<Longrightarrow> has_session Running (int n + 2) jid (poll_repeat n now jid p b)" for n
  proof (induction n)
    case (Suc n)
    with poll_running [of "int n + 2", OF _ assms(1)] show ?case by (simp add: add.commute add.left_commute)
  qed (use assms in simp)
  show "19 \<le> n \<Longrightarrow> has_session Failed_Session 20 jid (poll_repeat n now jid p b)"
  proof (induction n)
    case (Suc n)
    then show ?case
    proof (cases "n = 18")
      case True
      have "has_session Running 20 jid (poll_repeat 18 now jid p b)" using run [of 18] by simp
      from poll_running [OF this assms(1), of now] True show ?thesis unfolding poll_repeat.simps by simp
    next
      case False
      with Suc show ?thesis by (simp add: poll_failed [OF _ assms(1)])
    qed
  qed simp
qed

text \<open>The bridge records a turn for every poll, so a job that the adapter still runs fails its runtime session by being polled: with the
  default policy at the 19th poll, and every poll after it throws.\<close>

theorem polling_fails_running_job:
  assumes "bridge_start now target j sub b = (Inr sn, b1)" and "sub_success sub" and "sub_external sub = Some ext" and "ext \<noteq> []"
    and "br_policy b = None" and "poll_status p = Poll_Running"
  shows "map_option rs_state (map_get (br_sessions (poll_repeat n now (job_id j) p b1)) (job_id j)) =
      Some (if n \<le> 18 then Running else Failed_Session) \<and>
    (n \<le> 18 \<or> fst (bridge_poll now (job_id j) p (poll_repeat n now (job_id j) p b1)) = Inl ''session is not running: failed'')"
proof -
  have "has_session Running 2 (job_id j) b1"
    using assms(1-5)
    by (auto simp: bridge_start_def begin_session_def start_def new_session_def send_plain buildWorkerRuntimePolicy_def runtime_policy_of_def
        no_policy_options_def Let_def has_session_def)
  note rep = repeat_has_session [OF assms(6) this]
  show ?thesis
  proof (cases "n \<le> 18")
    case True
    with rep(1) [OF True] show ?thesis by (auto simp: has_session_def)
  next
    case False
    then have f: "has_session Failed_Session 20 (job_id j) (poll_repeat n now (job_id j) p b1)" by (intro rep(2)) simp
    then show ?thesis using poll_failed [OF f assms(6)] False by (auto simp: has_session_def)
  qed
qed

definition empty_bridge :: bridge where
  "empty_bridge = \<lparr>br_policy = None, br_sessions = [], br_external = []\<rparr>"

lemma polling_fails_running_job_witness: "\<exists>b1 sn. bridge_start 0 Codex sample_job \<lparr>sub_success = True, sub_external = Some ''x'', sub_error = None\<rparr> empty_bridge = (Inr sn, b1) \<and>
    map_option rs_state (map_get (br_sessions (poll_repeat 19 0 (job_id sample_job)
      \<lparr>poll_external = ''x'', poll_status = Poll_Running, poll_summary = None, poll_error = None\<rparr> b1)) (job_id sample_job)) = Some Failed_Session"
proof -
  have "\<exists>sn b1. bridge_start 0 Codex sample_job \<lparr>sub_success = True, sub_external = Some ''x'', sub_error = None\<rparr> empty_bridge = (Inr sn, b1)"
    by (simp add: bridge_start_def begin_session_def start_def new_session_def send_plain buildWorkerRuntimePolicy_def runtime_policy_of_def
        no_policy_options_def Let_def empty_bridge_def)
  then obtain sn b1 where b: "bridge_start 0 Codex sample_job \<lparr>sub_success = True, sub_external = Some ''x'', sub_error = None\<rparr> empty_bridge = (Inr sn, b1)"
    by blast
  from polling_fails_running_job [OF b, of "''x''" "\<lparr>poll_external = ''x'', poll_status = Poll_Running, poll_summary = None, poll_error = None\<rparr>" 19]
  show ?thesis using b by (simp add: empty_bridge_def)
qed

end
