(* ===== verification/Worker_Support.thy ===== *)
theory Worker_Support
  imports Worker_Runtime Doom_Loop
begin

text \<open>
  The helpers of the worker runtime: background processes (\<open>background-process-manager.ts\<close>; the spawner and its signals are
  events), the conversation store (\<open>conversation-store.ts\<close>, without the two operations that write and read files) and the
  normalisation of tool results (\<open>tool-result-normalizer.ts\<close>).
\<close>

subsection \<open>Background processes\<close>

datatype process_state = Proc_Running | Proc_Exited | Proc_Failed | Proc_Stopped

record process_spec =
  ps_id :: string
  ps_command :: string
  ps_args :: "string list"
  ps_cwd :: string
  ps_timeout :: "int option"

record process_snapshot =
  px_id :: string
  px_command :: string
  px_args :: "string list"
  px_cwd :: string
  px_state :: process_state
  px_pid :: "int option"
  px_exit :: "int option"
  px_signal :: "string option"
  px_out :: string
  px_err :: string
  px_started :: time
  px_finished :: "time option"
  px_error :: "string option"

text \<open>A managed process is its snapshot, the instant its timer fires, if one is set, and the signals sent to it.\<close>

record managed_process =
  mp_snapshot :: process_snapshot
  mp_timer :: "time option"
  mp_signals :: "string list"

type_synonym process_table = "(string, managed_process) jsmap"

definition MAX_TAIL :: nat where
  "MAX_TAIL = 16 * 1024"

definition last_chars :: "nat \<Rightarrow> string \<Rightarrow> string" where
  "last_chars n s = (if length s > n then drop (length s - n) s else s)"

definition appendTail :: "string \<Rightarrow> string \<Rightarrow> string" where
  "appendTail prev data = last_chars MAX_TAIL (prev @ data)"

definition start_process :: "time \<Rightarrow> int option \<Rightarrow> process_spec \<Rightarrow> process_table \<Rightarrow> (string, process_snapshot, process_table) outcome" where
  "start_process now pid sp pt =
     (if map_has pt (ps_id sp) then (Inl (''background process already exists: '' @ ps_id sp), pt)
      else let x = \<lparr>px_id = ps_id sp, px_command = ps_command sp, px_args = ps_args sp, px_cwd = ps_cwd sp, px_state = Proc_Running,
             px_pid = pid, px_exit = None, px_signal = None, px_out = [], px_err = [], px_started = now, px_finished = None, px_error = None\<rparr>;
           timer = (case ps_timeout sp of Some ms \<Rightarrow> if ms > 0 then Some (now + ms) else None | None \<Rightarrow> None)
        in (Inr x, map_set pt (ps_id sp) \<lparr>mp_snapshot = x, mp_timer = timer, mp_signals = []\<rparr>))"

definition on_process :: "(managed_process \<Rightarrow> managed_process) \<Rightarrow> string \<Rightarrow> process_table \<Rightarrow> process_table" where
  "on_process f pid pt = (case map_get pt pid of Some m \<Rightarrow> map_set pt pid (f m) | None \<Rightarrow> pt)"

definition on_output :: "bool \<Rightarrow> string \<Rightarrow> string \<Rightarrow> process_table \<Rightarrow> process_table" where
  "on_output out data = on_process (\<lambda>m. let x = mp_snapshot m in
     m\<lparr>mp_snapshot := (if out then x\<lparr>px_out := appendTail (px_out x) data\<rparr> else x\<lparr>px_err := appendTail (px_err x) data\<rparr>)\<rparr>)"

definition on_close :: "time \<Rightarrow> int option \<Rightarrow> string option \<Rightarrow> string \<Rightarrow> process_table \<Rightarrow> process_table" where
  "on_close now code sig = on_process (\<lambda>m. let x = mp_snapshot m in
     m\<lparr>mp_snapshot := x\<lparr>px_state := (if px_state x = Proc_Stopped then Proc_Stopped else Proc_Exited), px_exit := code, px_signal := sig,
         px_finished := Some now\<rparr>, mp_timer := None\<rparr>)"

definition on_error :: "time \<Rightarrow> string \<Rightarrow> string \<Rightarrow> process_table \<Rightarrow> process_table" where
  "on_error now msg = on_process (\<lambda>m.
     m\<lparr>mp_snapshot := (mp_snapshot m)\<lparr>px_state := Proc_Failed, px_error := Some msg, px_finished := Some now\<rparr>, mp_timer := None\<rparr>)"

definition stopped :: "string \<Rightarrow> managed_process \<Rightarrow> managed_process" where
  "stopped sig m =
     (if px_state (mp_snapshot m) = Proc_Running
      then m\<lparr>mp_snapshot := (mp_snapshot m)\<lparr>px_state := Proc_Stopped\<rparr>, mp_signals := mp_signals m @ [sig], mp_timer := None\<rparr>
      else m\<lparr>mp_timer := None\<rparr>)"

definition stop_process :: "string \<Rightarrow> string \<Rightarrow> process_table \<Rightarrow> (string, process_snapshot, process_table) outcome" where
  "stop_process sig pid pt = (case map_get pt pid of
       None \<Rightarrow> (Inl (''background process not found: '' @ pid), pt)
     | Some m \<Rightarrow> (Inr (mp_snapshot (stopped sig m)), map_set pt pid (stopped sig m)))"

definition get_process :: "string \<Rightarrow> process_table \<Rightarrow> process_snapshot option" where
  "get_process pid pt = map_option mp_snapshot (map_get pt pid)"

definition list_processes :: "process_table \<Rightarrow> process_snapshot list" where
  "list_processes pt = map mp_snapshot (map_values pt)"

fun stop_each :: "string \<Rightarrow> string list \<Rightarrow> process_table \<Rightarrow> (string, process_snapshot list, process_table) outcome" where
  "stop_each sig [] = return []"
| "stop_each sig (k # ks) = and_then (stop_process sig k) (\<lambda>x. and_then (stop_each sig ks) (\<lambda>xs. return (x # xs)))"

definition stopAll :: "string \<Rightarrow> process_table \<Rightarrow> (string, process_snapshot list, process_table) outcome" where
  "stopAll sig pt = stop_each sig (map fst pt) pt"

text \<open>The timers that are due at an instant fire.\<close>

definition fire_timers :: "time \<Rightarrow> process_table \<Rightarrow> process_table" where
  "fire_timers now pt = map (\<lambda>(k, m). (k, if (case mp_timer m of Some t \<Rightarrow> t \<le> now | None \<Rightarrow> False) then stopped ''SIGTERM'' m else m)) pt"

subsection \<open>Conversations\<close>

record conversation =
  cv_session :: string
  cv_job :: string
  cv_turns :: "runtime_turn list"
  cv_summary :: "string option"
  cv_artifacts :: "string list"
  cv_updated :: time

record compaction =
  cm_session :: string
  cm_retained :: int
  cm_compacted :: int
  cm_summary :: string

type_synonym conversations = "(string, conversation) jsmap"

definition mergeUnique :: "string list \<Rightarrow> string list \<Rightarrow> string list" where
  "mergeUnique a b = foldl set_add [] (a @ b)"

definition upsert :: "time \<Rightarrow> string \<Rightarrow> string \<Rightarrow> string list option \<Rightarrow> conversations \<Rightarrow> conversation \<times> conversations" where
  "upsert now sid jid refs cs =
     (let refs' = (case refs of Some xs \<Rightarrow> xs | None \<Rightarrow> []);
          c = (case map_get cs sid of
              Some ex \<Rightarrow> ex\<lparr>cv_artifacts := mergeUnique (cv_artifacts ex) refs', cv_updated := now\<rparr>
            | None \<Rightarrow> \<lparr>cv_session = sid, cv_job = jid, cv_turns = [], cv_summary = None, cv_artifacts = refs', cv_updated = now\<rparr>)
      in (c, map_set cs sid c))"

definition requireRecord :: "string \<Rightarrow> conversations \<Rightarrow> (string, conversation, conversations) outcome" where
  "requireRecord sid cs = (case map_get cs sid of Some c \<Rightarrow> (Inr c, cs) | None \<Rightarrow> (Inl (''conversation not found: '' @ sid), cs))"

definition appendTurn :: "time \<Rightarrow> string \<Rightarrow> runtime_turn \<Rightarrow> conversations \<Rightarrow> (string, conversation, conversations) outcome" where
  "appendTurn now sid t = and_then (requireRecord sid) (\<lambda>c cs.
     let c' = c\<lparr>cv_turns := cv_turns c @ [t], cv_updated := now\<rparr> in (Inr c', map_set cs sid c'))"

definition turn_line :: "runtime_turn \<Rightarrow> string" where
  "turn_line t = (let n = int (length (call_list (tn_calls t))) in
     ''- '' @ role_name (tn_role t) @ '': '' @ take 160 (js_trim (collapse_whitespace (tn_content t))) @
     (if n > 0 then '' ('' @ show_int n @ '' tool call(s))'' else []))"

definition renderCompactionSummary :: "string option \<Rightarrow> runtime_turn list \<Rightarrow> string" where
  "renderCompactionSummary prev turns = take 8000 (js_join newline ((case prev of Some s \<Rightarrow> if s = [] then [] else [s] | None \<Rightarrow> []) @ map turn_line turns))"

text \<open>A number of turns to keep that is not an integer is refused by the source as well.\<close>

definition compact :: "time \<Rightarrow> string \<Rightarrow> int \<Rightarrow> conversations \<Rightarrow> (string, compaction, conversations) outcome" where
  "compact now sid keep cs =
     (if keep < 1 then (Inl ''retainLastTurns must be a positive integer'', cs)
      else and_then (requireRecord sid) (\<lambda>c cs.
        let n = length (cv_turns c); k = nat keep in
        if n \<le> k then (Inr \<lparr>cm_session = sid, cm_retained = int n, cm_compacted = 0,
            cm_summary = (case cv_summary c of Some s \<Rightarrow> s | None \<Rightarrow> [])\<rparr>, cs)
        else let old = take (n - k) (cv_turns c); kept = drop (n - k) (cv_turns c);
               text = renderCompactionSummary (cv_summary c) old
          in (Inr \<lparr>cm_session = sid, cm_retained = int (length kept), cm_compacted = int (length old), cm_summary = text\<rparr>,
              map_set cs sid (c\<lparr>cv_turns := kept, cv_summary := Some text, cv_updated := now\<rparr>))) cs)"

definition get_conversation :: "string \<Rightarrow> conversations \<Rightarrow> conversation option" where
  "get_conversation sid cs = map_get cs sid"

subsection \<open>Tool results\<close>

datatype result_status = Res_Succeeded | Res_Failed | Res_Skipped | Res_Blocked
datatype result_channel = Ch_Stdout | Ch_Stderr | Ch_Json | Ch_Event_Stream | Ch_File | Ch_None
datatype inferred_effect = Inf_None | Inf_Read | Inf_Write | Inf_Process | Inf_Network | Inf_Unknown

record raw_result =
  rr_request :: tool_request
  rr_decision :: "tool_decision option"
  rr_exit :: "int option option"
  rr_out :: "string option"
  rr_err :: "string option"
  rr_json :: "json option"
  rr_artifact :: "string option"
  rr_duration :: "int option"
  rr_error :: "string option"

record tool_result =
  tr_tool_name :: string
  tr_status :: result_status
  tr_effect :: inferred_effect
  tr_channel :: result_channel
  tr_artifact :: "string option"
  tr_retained :: "string option"
  tr_exit :: "int option option"
  tr_duration :: "int option"
  tr_summary :: string
  tr_bounded :: bool
  tr_violation :: "violation option"

definition inferSideEffect :: "string \<Rightarrow> inferred_effect" where
  "inferSideEffect t =
     (if t \<in> {''read_file'', ''grep'', ''glob''} then Inf_Read
      else if t \<in> {''write_file'', ''apply_patch_intent''} then Inf_Write
      else if t \<in> {''bash'', ''bash_background'', ''spawn_agent''} then Inf_Process
      else if t \<in> {''web_fetch'', ''web_search''} then Inf_Network
      else Inf_Unknown)"

definition resolveChannel :: "raw_result \<Rightarrow> result_channel" where
  "resolveChannel r = (if rr_json r \<noteq> None then Ch_Json else if \<not> falsy (rr_out r) then Ch_Stdout else if \<not> falsy (rr_err r) then Ch_Stderr
     else if \<not> falsy (rr_artifact r) then Ch_File else Ch_None)"

definition or_else :: "string option \<Rightarrow> string \<Rightarrow> string" where
  "or_else s d = (if falsy s then d else the s)"

definition summarize :: "raw_result \<Rightarrow> bool \<Rightarrow> string" where
  "summarize r failed =
     (if \<not> falsy (rr_error r) then the (rr_error r)
      else if failed then tq_tool (rr_request r) @ '' exited '' @ (case rr_exit r of Some (Some n) \<Rightarrow> show_int n | _ \<Rightarrow> ''null'')
      else or_else (Some (take 300 (js_trim (collapse_whitespace
             (or_else (rr_out r) (or_else (rr_err r) (case rr_json r of Some j \<Rightarrow> stringify j | None \<Rightarrow> [])))))))
        (tq_tool (rr_request r) @ '' completed''))"

definition boundSummary :: "string \<Rightarrow> int option \<Rightarrow> string \<times> bool" where
  "boundSummary s mx = (case mx of
       None \<Rightarrow> (s, False)
     | Some n \<Rightarrow> if n = 0 \<or> int (length s) \<le> n then (s, False) else (take (nat (max 0 (n - 24))) s @ ''... [output bounded]'', True))"

definition normalize_result :: "int option \<Rightarrow> string option \<Rightarrow> raw_result \<Rightarrow> tool_result" where
  "normalize_result mx retained r =
     (if (case rr_decision r of Some d \<Rightarrow> \<not> de_allowed d | None \<Rightarrow> False) then
        \<lparr>tr_tool_name = tq_tool (rr_request r), tr_status = Res_Blocked, tr_effect = inferSideEffect (tq_tool (rr_request r)), tr_channel = Ch_None,
         tr_artifact = rr_artifact r, tr_retained = None, tr_exit = rr_exit r, tr_duration = rr_duration r,
         tr_summary = de_reason (the (rr_decision r)), tr_bounded = False, tr_violation = de_violation (the (rr_decision r))\<rparr>
      else let failed = (\<not> falsy (rr_error r) \<or> (case rr_exit r of Some (Some n) \<Rightarrow> n \<noteq> 0 | _ \<Rightarrow> False));
               (text, bounded) = boundSummary (summarize r failed) mx
        in \<lparr>tr_tool_name = tq_tool (rr_request r), tr_status = (if failed then Res_Failed else Res_Succeeded),
            tr_effect = inferSideEffect (tq_tool (rr_request r)), tr_channel = resolveChannel r, tr_artifact = rr_artifact r,
            tr_retained = (if bounded then (case retained of Some a \<Rightarrow> Some a | None \<Rightarrow> rr_artifact r) else None), tr_exit = rr_exit r,
            tr_duration = rr_duration r, tr_summary = text, tr_bounded = bounded, tr_violation = None\<rparr>)"

definition toWorkerRawOutput :: "tool_result \<Rightarrow> (result_channel \<times> string) option" where
  "toWorkerRawOutput t = (if falsy (tr_artifact t) \<or> tr_channel t = Ch_None \<or> tr_channel t = Ch_File then None
     else Some (tr_channel t, the (tr_artifact t)))"

subsection \<open>What they guarantee\<close>

lemma length_last_chars: "length (last_chars n s) \<le> n"
  by (simp add: last_chars_def)

lemma last_chars_append: "last_chars n (last_chars n s @ t) = last_chars n (s @ t)"
  by (auto simp: last_chars_def add.commute)

text \<open>Whatever the sizes of the chunks in which the output of a process arrives, its tail is the last 16384 characters of all of it.\<close>

theorem output_tail_exact: "foldl appendTail [] chunks = last_chars MAX_TAIL (concat chunks)"
proof (induction chunks rule: rev_induct)
  case Nil
  show ?case by (simp add: last_chars_def)
next
  case (snoc c cs)
  then show ?case by (simp add: appendTail_def last_chars_append)
qed

text \<open>Compacting a conversation keeps its last turns as they are and describes all earlier ones, with the earlier summary, in at most
  8000 characters.\<close>

theorem compact_keeps_last_turns:
  assumes "map_get cs sid = Some c" and "1 \<le> keep"
  shows "\<exists>r cs'. compact now sid keep cs = (Inr r, cs') \<and>
    map_option cv_turns (map_get cs' sid) = Some (drop (length (cv_turns c) - nat keep) (cv_turns c)) \<and>
    cm_retained r + cm_compacted r = int (length (cv_turns c)) \<and> cm_retained r = min keep (int (length (cv_turns c))) \<and>
    (cm_compacted r = 0 \<or> cm_summary r = take 8000 (js_join newline
      ((case cv_summary c of Some s \<Rightarrow> if s = [] then [] else [s] | None \<Rightarrow> []) @ map turn_line (take (length (cv_turns c) - nat keep) (cv_turns c)))))"
  using assms by (auto simp: compact_def and_then_def requireRecord_def Let_def renderCompactionSummary_def)

end
