(* ===== verification/Tool_Plan.thy ===== *)
theory Tool_Plan
  imports Paths Instruction
begin

text \<open>
  The executor of tool plans (\<open>src/src/domain/worker/tool-plan-executor.ts\<close>). It works on a \<open>world\<close>: the file system and
  the log of the commands that were started. What a command does to the files and answers (also when it is killed by its time limit) is the parameter \<open>en_exec\<close>;
  \<open>JSON.parse\<close> is the parameter \<open>en_parse\<close>. \<open>process.cwd()\<close> and the platform are arguments. A byte is a character of ASCII text.
\<close>

subsection \<open>Types\<close>

datatype op_status = Op_Applied | Op_Planned | Op_Skipped | Op_Failed
datatype plan_verdict = V_Executed | V_Applied | V_Skipped | V_Failed | V_Dry_Run
datatype suite_status = Suite_Passed | Suite_Failed | Suite_Skipped

record operation =
  op_tool :: string
  op_status :: op_status
  op_path :: "string option"
  op_message :: "string option"

record suite_result =
  su_name :: string
  su_status :: suite_status
  su_duration :: int

record plan_result =
  pr_verdict :: plan_verdict
  pr_dry_run :: bool
  pr_applied :: bool
  pr_skipped :: bool
  pr_workspace :: "string list option"
  pr_operations :: "operation list"
  pr_tests :: "suite_result list"
  pr_errors :: "string list"
  pr_artifacts :: "string list"
  pr_failures :: "string list"

record exec_options =
  eo_dry_run :: bool
  eo_allowed :: "string list option"
  eo_max_files :: int
  eo_max_bytes :: int

record write_artifact =
  wa_path :: string
  wa_before :: "string option"
  wa_after :: string

record plan_call =
  pc_tool :: string
  pc_args :: "(string \<times> json) list"

text \<open>\<open>pl_json\<close> is the plan as it was parsed, for the artifact that quotes it.\<close>

record plan_output =
  pl_dry_run :: "bool option"
  pl_allowed :: "string list option"
  pl_max_files :: "int option"
  pl_max_bytes :: "int option"
  pl_calls :: "plan_call list"
  pl_json :: json

record command =
  co_bin :: string
  co_args :: "string list"
  co_cwd :: "string list"

record world =
  w_fs :: filesystem
  w_log :: "command list"

text \<open>How a command ended: its two outputs, and the error message if it failed; and how long it took.\<close>

record exec_result =
  ex_stdout :: string
  ex_stderr :: string
  ex_error :: "string option"
  ex_elapsed :: int

record environment =
  en_cwd :: "string list"
  en_windows :: bool
  en_parse :: "string \<Rightarrow> string + json"
  en_exec :: "command \<Rightarrow> filesystem \<Rightarrow> exec_result \<times> filesystem"

definition run_exec :: "environment \<Rightarrow> command \<Rightarrow> world \<Rightarrow> exec_result \<times> world" where
  "run_exec en c w = (case en_exec en c (w_fs w) of (r, fs) \<Rightarrow> (r, \<lparr>w_fs = fs, w_log = w_log w @ [c]\<rparr>))"

definition in_files :: "(filesystem \<Rightarrow> (string, 'a, filesystem) outcome) \<Rightarrow> world \<Rightarrow> (string, 'a, world) outcome" where
  "in_files f w = (case f (w_fs w) of (r, fs) \<Rightarrow> (r, w\<lparr>w_fs := fs\<rparr>))"

subsection \<open>Whether and where the plan may run\<close>

definition canWrite :: "worker_job \<Rightarrow> bool" where
  "canWrite j = (let p = job_approval_policy j in
     approval_mode p \<noteq> Deny \<and> (sandbox_profile p = Workspace_Write \<or> sandbox_profile p = Full_Auto))"

definition basename :: "string \<Rightarrow> string" where
  "basename p = last (split_on slash (strip_end_slashes p))"

definition isSafeRepoDirectoryName :: "string \<Rightarrow> bool" where
  "isSafeRepoDirectoryName nm = (nm \<noteq> [] \<and> nm \<noteq> ''.'' \<and> nm \<noteq> ''..'' \<and> basename nm = nm)"

text \<open>The provider of a repository is always \<open>github\<close>, so the sibling directories are always tried.\<close>

definition resolveWorkspaceRoot :: "environment \<Rightarrow> filesystem \<Rightarrow> worker_job \<Rightarrow> string list option" where
  "resolveWorkspaceRoot en fs j =
     (let wr = job_workspace_ref j; nm = repo_name (job_repo_ref j); cwd = en_cwd en in
      if workspace_kind wr = Host_Path \<and> isAbsolute (workspace_id wr) then
        (let d = resolve [] (workspace_id wr) in if existsSync fs d then Some d else None)
      else if \<not> isSafeRepoDirectoryName nm then None
      else if cwd \<noteq> [] \<and> last cwd = nm then Some cwd
      else find (existsSync fs) [walk cwd [''..'', nm], walk cwd [''..'', ''..'', nm]])"

definition resolveRepoPath :: "string list \<Rightarrow> json option \<Rightarrow> string + string list" where
  "resolveRepoPath ws v = (case v of
       Some (Json_Str p) \<Rightarrow>
         if p = [] then Inl ''path must be a non-empty string''
         else if isAbsolute p \<or> ''..'' \<in> set (split_on any_slash p) then Inl (''path must be repo-relative and stay within workspace: '' @ p)
         else let r = resolve ws p; rel = relative ws r in
           if starts_with rel ''..'' \<or> isAbsolute rel then Inl (''path escapes workspace: '' @ p) else Inr r
     | _ \<Rightarrow> Inl ''path must be a non-empty string'')"

definition digits :: "string \<Rightarrow> bool" where
  "digits s = (s \<noteq> [] \<and> list_all (\<lambda>c. c \<in> set ''0123456789'') s)"

definition number_of :: "string \<Rightarrow> int" where
  "number_of s = foldl (\<lambda>n c. n * 10 + int (of_char c - 48)) 0 s"

definition parsePositiveInteger :: "json_scalar option \<Rightarrow> int \<Rightarrow> int" where
  "parsePositiveInteger v fallback = (case v of
       Some (J_Num n) \<Rightarrow> if n > 0 then n else fallback
     | Some (J_Str s) \<Rightarrow> if digits s then number_of s else fallback
     | _ \<Rightarrow> fallback)"

text \<open>A JSON array that does not hold strings only is read as a comma separated list.\<close>

fun string_items :: "json list \<Rightarrow> string list option" where
  "string_items [] = Some []"
| "string_items (Json_Str s # vs) = map_option ((#) s) (string_items vs)"
| "string_items (_ # vs) = None"

definition comma_list :: "string \<Rightarrow> string list" where
  "comma_list s = filter (\<lambda>x. x \<noteq> []) (map js_trim (split_on (\<lambda>c. c = CHR '','') s))"

definition parseAllowedPaths :: "environment \<Rightarrow> json_scalar option \<Rightarrow> string + string list option" where
  "parseAllowedPaths en v = (case v of
       Some (J_Str s) \<Rightarrow>
         let t = js_trim s in
         if t = [] then Inr None
         else if starts_with t ''['' then
           (case en_parse en t of
              Inl e \<Rightarrow> Inl (''allowed_paths must be valid JSON array syntax when it starts with '' @ [CHR 0x27] @ ''['' @ [CHR 0x27] @ '': '' @ e)
            | Inr (Json_Arr vs) \<Rightarrow> Inr (Some (case string_items vs of Some xs \<Rightarrow> xs | None \<Rightarrow> comma_list t))
            | Inr _ \<Rightarrow> Inr (Some (comma_list t)))
         else Inr (Some (comma_list t))
     | _ \<Rightarrow> Inr None)"

fun normalize_paths :: "string list \<Rightarrow> string + string list" where
  "normalize_paths [] = Inr []"
| "normalize_paths (p # ps) =
     (if isAbsolute p \<or> ''..'' \<in> set (split_on any_slash p) then Inl (''allowed_paths must be repo-relative path prefixes: '' @ p)
      else case normalize_paths ps of Inl e \<Rightarrow> Inl e | Inr qs \<Rightarrow> Inr (strip_end_slashes (strip_dot_slash (forward_slashes p)) # qs))"

definition normalizeAllowedPaths :: "string list option \<Rightarrow> string + string list option" where
  "normalizeAllowedPaths ps = (case ps of None \<Rightarrow> Inr None | Some [] \<Rightarrow> Inr None
     | Some qs \<Rightarrow> (case normalize_paths qs of Inl e \<Rightarrow> Inl e | Inr rs \<Rightarrow> Inr (Some rs)))"

definition limit_of :: "int option \<Rightarrow> json_scalar option \<Rightarrow> int \<Rightarrow> int" where
  "limit_of l meta fallback = parsePositiveInteger (case l of Some n \<Rightarrow> Some (J_Num n) | None \<Rightarrow> meta) fallback"

definition resolveExecutionOptions :: "environment \<Rightarrow> plan_output \<Rightarrow> worker_job \<Rightarrow> string + exec_options" where
  "resolveExecutionOptions en pl j =
     (let meta = job_metadata j; paths = (case pl_allowed pl of Some ps \<Rightarrow> Inr (Some ps)
          | None \<Rightarrow> parseAllowedPaths en (map_get meta ''tool_plan_allowed_paths''))
      in case paths of Inl e \<Rightarrow> Inl e
         | Inr ps \<Rightarrow> (case normalizeAllowedPaths ps of Inl e \<Rightarrow> Inl e
             | Inr al \<Rightarrow> Inr \<lparr>eo_dry_run = (pl_dry_run pl = Some True \<or> map_get meta ''tool_plan_dry_run'' = Some (J_Bool True)),
                 eo_allowed = al, eo_max_files = limit_of (pl_max_files pl) (map_get meta ''tool_plan_max_files'') 5,
                 eo_max_bytes = limit_of (pl_max_bytes pl) (map_get meta ''tool_plan_max_write_bytes_per_file'') (200 * 1024)\<rparr>))"

definition writes :: "plan_call \<Rightarrow> bool" where
  "writes c = (pc_tool c = ''write_file'' \<or> pc_tool c = ''apply_patch_intent'')"

fun write_paths :: "string list \<Rightarrow> plan_call list \<Rightarrow> string list \<Rightarrow> string + string list" where
  "write_paths ws [] acc = Inr acc"
| "write_paths ws (c # cs) acc = (case resolveRepoPath ws (map_get (pc_args c) ''path'') of
       Inl e \<Rightarrow> Inl e | Inr r \<Rightarrow> write_paths ws cs (set_add acc (forward_slashes (relative ws r))))"

definition validatePlanLimits :: "plan_output \<Rightarrow> string list \<Rightarrow> exec_options \<Rightarrow> string option" where
  "validatePlanLimits pl ws opts = (case write_paths ws (filter writes (pl_calls pl)) [] of
       Inl e \<Rightarrow> Some e
     | Inr ps \<Rightarrow> if int (length ps) > eo_max_files opts
         then Some (''tool_plan changes '' @ show_int (int (length ps)) @ '' files; limit is '' @ show_int (eo_max_files opts)) else None)"

subsection \<open>Files\<close>

definition path_allowed :: "string list \<Rightarrow> string \<Rightarrow> bool" where
  "path_allowed allowed p = list_ex (\<lambda>pre. p = pre \<or> starts_with p (pre @ ''/'')) allowed"

definition assertAllowedWritePath :: "string list \<Rightarrow> string list \<Rightarrow> exec_options \<Rightarrow> string + unit" where
  "assertAllowedWritePath ws r opts = (case eo_allowed opts of None \<Rightarrow> Inr ()
     | Some ps \<Rightarrow> let p = forward_slashes (relative ws r) in
         if path_allowed ps p then Inr () else Inl (''path is outside allowed_paths: '' @ p))"

definition assertWriteSize :: "string \<Rightarrow> exec_options \<Rightarrow> string + unit" where
  "assertWriteSize t opts = (if int (length t) > eo_max_bytes opts
     then Inl (''write size '' @ show_int (int (length t)) @ '' bytes exceeds limit '' @ show_int (eo_max_bytes opts)) else Inr ())"

definition caught :: "string \<Rightarrow> (string, operation \<times> 'a list, filesystem) outcome \<Rightarrow> (operation \<times> 'a list) \<times> filesystem" where
  "caught tool r = (case r of (Inr x, fs) \<Rightarrow> (x, fs)
     | (Inl e, fs) \<Rightarrow> ((\<lparr>op_tool = tool, op_status = Op_Failed, op_path = None, op_message = Some e\<rparr>, []), fs))"

definition done_op :: "string \<Rightarrow> op_status \<Rightarrow> string \<Rightarrow> operation" where
  "done_op tool st p = \<lparr>op_tool = tool, op_status = st, op_path = Some p, op_message = None\<rparr>"

definition readFile :: "string list \<Rightarrow> (string \<times> json) list \<Rightarrow> filesystem \<Rightarrow> (operation \<times> write_artifact list) \<times> filesystem" where
  "readFile ws args fs = caught ''read_file'' (and_then (check (resolveRepoPath ws (map_get args ''path''))) (\<lambda>r.
     and_then (readFileSync r) (\<lambda>_. return (done_op ''read_file'' Op_Applied (relative ws r), []))) fs)"

definition before_text :: "string list \<Rightarrow> filesystem \<Rightarrow> (string, string option, filesystem) outcome" where
  "before_text r fs = (if existsSync fs r then and_then (readFileSync r) (\<lambda>t. return (Some t)) fs else (Inr None, fs))"

definition write_checked :: "string list \<Rightarrow> exec_options \<Rightarrow> string list \<Rightarrow> string \<Rightarrow> filesystem \<Rightarrow>
    (string, operation \<times> write_artifact list, filesystem) outcome" where
  "write_checked ws opts r t = and_then (check (assertAllowedWritePath ws r opts)) (\<lambda>_. and_then (check (assertWriteSize t opts)) (\<lambda>_.
     and_then (before_text r) (\<lambda>old.
       if eo_dry_run opts then return (done_op ''write_file'' Op_Planned (relative ws r), [])
       else and_then (mkdirSync (butlast r)) (\<lambda>_. and_then (writeFileSync r t) (\<lambda>_.
         return (done_op ''write_file'' Op_Applied (relative ws r),
           [\<lparr>wa_path = forward_slashes (relative ws r), wa_before = old, wa_after = t\<rparr>]))))))"

definition writeFile :: "string list \<Rightarrow> exec_options \<Rightarrow> (string \<times> json) list \<Rightarrow> filesystem \<Rightarrow> (operation \<times> write_artifact list) \<times> filesystem" where
  "writeFile ws opts args fs = caught ''write_file'' (case map_get args ''content'' of
       Some (Json_Str t) \<Rightarrow> and_then (check (resolveRepoPath ws (map_get args ''path''))) (\<lambda>r. write_checked ws opts r t) fs
     | _ \<Rightarrow> throw ''content must be a string'' fs)"

text \<open>\<open>indexOf\<close>, \<open>lastIndexOf\<close>, and \<open>replace\<close> of a string by a text in which a dollar sign starts a pattern.\<close>

definition occurs_at :: "string \<Rightarrow> string \<Rightarrow> nat \<Rightarrow> bool" where
  "occurs_at s sub i = starts_with (drop i s) sub"

definition indexOf :: "string \<Rightarrow> string \<Rightarrow> nat option" where
  "indexOf s sub = find (occurs_at s sub) [0..<Suc (length s)]"

definition lastIndexOf :: "string \<Rightarrow> string \<Rightarrow> nat option" where
  "lastIndexOf s sub = find (occurs_at s sub) (rev [0..<Suc (length s)])"

fun expand_pattern :: "string \<Rightarrow> string \<Rightarrow> string \<Rightarrow> string \<Rightarrow> string" where
  "expand_pattern m pre post (c # d # s) =
     (if c \<noteq> CHR ''$'' then c # expand_pattern m pre post (d # s)
      else if d = CHR ''$'' then CHR ''$'' # expand_pattern m pre post s
      else if d = CHR ''&'' then m @ expand_pattern m pre post s
      else if d = CHR 0x60 then pre @ expand_pattern m pre post s
      else if d = CHR 0x27 then post @ expand_pattern m pre post s
      else c # expand_pattern m pre post (d # s))"
| "expand_pattern m pre post s = s"

definition js_replace :: "string \<Rightarrow> string \<Rightarrow> string \<Rightarrow> string" where
  "js_replace s sub rep = (case indexOf s sub of None \<Rightarrow> s
     | Some i \<Rightarrow> take i s @ expand_pattern sub (take i s) (drop (i + length sub) s) rep @ drop (i + length sub) s)"

definition patch_checked :: "string list \<Rightarrow> exec_options \<Rightarrow> string list \<Rightarrow> string \<Rightarrow> string \<Rightarrow> filesystem \<Rightarrow>
    (string, operation \<times> write_artifact list, filesystem) outcome" where
  "patch_checked ws opts r loc rep = and_then (check (assertAllowedWritePath ws r opts)) (\<lambda>_. and_then (readFileSync r) (\<lambda>t.
     if indexOf t loc = None \<or> indexOf t loc \<noteq> lastIndexOf t loc then throw ''locator was not found exactly once in target file''
     else and_then (check (assertWriteSize (js_replace t loc rep) opts)) (\<lambda>_.
       if eo_dry_run opts then return (done_op ''apply_patch_intent'' Op_Planned (relative ws r), [])
       else and_then (writeFileSync r (js_replace t loc rep)) (\<lambda>_.
         return (done_op ''apply_patch_intent'' Op_Applied (relative ws r),
           [\<lparr>wa_path = forward_slashes (relative ws r), wa_before = Some t, wa_after = js_replace t loc rep\<rparr>])))))"

definition applyPatchIntent :: "string list \<Rightarrow> exec_options \<Rightarrow> (string \<times> json) list \<Rightarrow> filesystem \<Rightarrow> (operation \<times> write_artifact list) \<times> filesystem" where
  "applyPatchIntent ws opts args fs = caught ''apply_patch_intent'' (case (map_get args ''locator'', map_get args ''replacement'') of
       (Some (Json_Str loc), Some (Json_Str rep)) \<Rightarrow>
         and_then (check (resolveRepoPath ws (map_get args ''path''))) (\<lambda>r. patch_checked ws opts r loc rep) fs
     | _ \<Rightarrow> throw ''locator and replacement must be strings'' fs)"

subsection \<open>Commands\<close>

definition shell_meta :: "char \<Rightarrow> bool" where
  "shell_meta c = (c \<in> set '';&|<>$'' \<or> c = CHR 0x60)"

definition quote_char :: "char \<Rightarrow> bool" where
  "quote_char c = (c = CHR 0x22 \<or> c = CHR 0x27)"

definition blank :: "char \<Rightarrow> bool" where
  "blank c = (c = CHR '' '' \<or> c = CHR 0x09)"

fun double_blank :: "string \<Rightarrow> bool" where
  "double_blank (c # d # s) = (blank c \<and> blank d \<or> double_blank (d # s))"
| "double_blank s = False"

definition line_end :: "char \<Rightarrow> bool" where
  "line_end c = (c = CHR 0x0A \<or> c = CHR 0x0D)"

text \<open>
  \<open>/^cd\s+(.+?)\s+&&\s+(.+)$/\<close> on a trimmed text: \<open>after_group\<close> matches what follows the first group, \<open>lazy_group\<close> makes the
  group as short as possible, \<open>cd_groups\<close> gives back blanks before it one by one.
\<close>

definition after_group :: "string \<Rightarrow> string option" where
  "after_group s = (let r = dropWhile js_whitespace s; t = drop 2 r; u = dropWhile js_whitespace t in
     if r \<noteq> s \<and> starts_with r ''&&'' \<and> u \<noteq> t \<and> u \<noteq> [] \<and> \<not> list_ex line_end u then Some u else None)"

fun lazy_group :: "string \<Rightarrow> string \<Rightarrow> (string \<times> string) option" where
  "lazy_group acc [] = None"
| "lazy_group acc (c # s) = (if line_end c then None else case after_group s of
       Some u \<Rightarrow> Some (acc @ [c], u) | None \<Rightarrow> lazy_group (acc @ [c]) s)"

fun cd_groups :: "nat \<Rightarrow> string \<Rightarrow> (string \<times> string) option" where
  "cd_groups 0 t = None"
| "cd_groups (Suc n) t = (case lazy_group [] (drop (Suc n) t) of Some g \<Rightarrow> Some g | None \<Rightarrow> cd_groups n t)"

definition cd_match :: "string \<Rightarrow> (string \<times> string) option" where
  "cd_match s = (if starts_with s ''cd'' then cd_groups (length (takeWhile js_whitespace (drop 2 s))) (drop 2 s) else None)"

definition resolveCommandCwd :: "filesystem \<Rightarrow> string list \<Rightarrow> json option \<Rightarrow> string + string list" where
  "resolveCommandCwd fs ws v = (case v of
       None \<Rightarrow> Inr ws
     | Some Json_Null \<Rightarrow> Inr ws
     | Some (Json_Str p) \<Rightarrow>
         if p = [] then Inr ws
         else if list_ex quote_char p \<or> list_ex shell_meta p then Inl (''cwd contains unsupported shell syntax: '' @ p)
         else if ''..'' \<in> set (split_on any_slash p) then Inl (''cwd must stay within workspace: '' @ p)
         else let r = resolve ws p; rel = relative ws r in
           if starts_with rel ''..'' \<or> isAbsolute rel then Inl (''cwd escapes workspace: '' @ p)
           else if \<not> existsSync fs r then Inl (''cwd does not exist: '' @ p) else Inr r
     | _ \<Rightarrow> Inl ''cwd must be a string when provided'')"

definition extractCommandAndCwd :: "filesystem \<Rightarrow> string \<Rightarrow> json option \<Rightarrow> string list \<Rightarrow> string + string \<times> string list" where
  "extractCommandAndCwd fs text cwd ws = (case resolveCommandCwd fs ws cwd of
       Inl e \<Rightarrow> Inl e
     | Inr d \<Rightarrow> (case cd_match text of
         None \<Rightarrow> Inr (text, d)
       | Some (g, c) \<Rightarrow> (case resolveCommandCwd fs ws (Some (Json_Str g)) of Inl e \<Rightarrow> Inl e | Inr d' \<Rightarrow> Inr (js_trim c, d'))))"

definition allowedPrefixes :: "string list list" where
  "allowedPrefixes = [
     [''uv'', ''run'', ''python'', ''tools/round_robin.py''],
     [''uv'', ''run'', ''python'', ''tools/run_match.py''],
     [''uv'', ''run'', ''pytest''],
     [''uv'', ''run'', ''ruff'', ''check''],
     [''uv'', ''run'', ''python'', ''-m'', ''compileall''],
     [''git'', ''diff'', ''--check''],
     [''git'', ''diff'', ''--stat''],
     [''git'', ''status'', ''--short''],
     [''npm'', ''--version''],
     [''node'', ''--version'']]"

definition normalizeCommandBin :: "environment \<Rightarrow> string \<Rightarrow> string" where
  "normalizeCommandBin en b = (if \<not> en_windows en then b else if b = ''npm'' then ''npm.cmd'' else if b = ''npx'' then ''npx.cmd'' else b)"

definition parseBoundedInteger :: "json option \<Rightarrow> int \<Rightarrow> int \<Rightarrow> int \<Rightarrow> int" where
  "parseBoundedInteger v fallback lo hi =
     (let n = (case v of Some (Json_Int k) \<Rightarrow> k | Some (Json_Str s) \<Rightarrow> (if digits s then number_of s else fallback) | _ \<Rightarrow> fallback)
      in min hi (max lo n))"

record safe_command =
  sc_command :: command
  sc_rendered :: string
  sc_timeout :: int
  sc_max_output :: int

definition resolveSafeCommand :: "environment \<Rightarrow> filesystem \<Rightarrow> string \<Rightarrow> (string \<times> json) list \<Rightarrow> string list \<Rightarrow> string + safe_command" where
  "resolveSafeCommand en fs text args ws =
     (if text = [] then Inl ''command must be a non-empty string''
      else case extractCommandAndCwd fs text (map_get args ''cwd'') ws of
        Inl e \<Rightarrow> Inl e
      | Inr (cmd, cwd) \<Rightarrow>
          if list_ex shell_meta cmd then Inl (''command contains unsupported shell metacharacters: '' @ text)
          else if double_blank cmd then Inl (''command must use single spaces between arguments: '' @ text)
          else let parts = split_on (\<lambda>c. c = CHR '' '') cmd in
            if list_ex (\<lambda>p. p = [] \<or> list_ex quote_char p) parts then Inl (''command must be unquoted simple tokens: '' @ text)
            else if \<not> list_ex (\<lambda>pre. prefix pre parts) allowedPrefixes then Inl (''command is not in the safe allowlist: '' @ text)
            else Inr \<lparr>sc_command = \<lparr>co_bin = normalizeCommandBin en (hd parts), co_args = tl parts, co_cwd = cwd\<rparr>, sc_rendered = text,
                sc_timeout = parseBoundedInteger (map_get args ''timeout_ms'') 120000 1000 600000,
                sc_max_output = parseBoundedInteger (map_get args ''max_output_chars'') 32000 1000 200000\<rparr>)"

definition truncateCommandOutput :: "string \<Rightarrow> int \<Rightarrow> string" where
  "truncateCommandOutput out mx = (if int (length out) \<le> mx then out
     else take (nat mx) out @ newline @ ''... truncated '' @ show_int (int (length out) - mx) @ '' chars'')"

definition trim_end :: "string \<Rightarrow> string" where
  "trim_end s = rev (dropWhile js_whitespace (rev s))"

definition telling :: "string \<Rightarrow> bool" where
  "telling l = list_ex (\<lambda>w. js_includes (to_lower l) w)
     [''fail'', ''error'', ''expected'', ''received'', ''assert'', ''trace'', ''not ok'', ''err!'']"

text \<open>\<open>outs\<close> are the outputs that the error carries; each line is trimmed at its end, which removes the carriage returns.\<close>

definition summarizeTestFailure :: "string list \<Rightarrow> string \<Rightarrow> string" where
  "summarizeTestFailure outs fallback =
     (let text = js_join newline (filter (\<lambda>s. s \<noteq> []) (outs @ [fallback]));
          lines = filter (\<lambda>l. l \<noteq> []) (map trim_end (split_on (\<lambda>c. c = CHR 0x0A) text));
          found = filter telling lines; s = take 2000 (js_join newline (take 12 (if found \<noteq> [] then found else lines)))
      in if s = [] then fallback else s)"

definition failed_op :: "string \<Rightarrow> string \<Rightarrow> operation" where
  "failed_op tool msg = \<lparr>op_tool = tool, op_status = Op_Failed, op_path = None, op_message = Some msg\<rparr>"

definition command_text :: "(string \<times> json) list \<Rightarrow> string" where
  "command_text args = (case map_get args ''command'' of Some (Json_Str s) \<Rightarrow> js_trim s | _ \<Rightarrow> [])"

definition runCommand :: "environment \<Rightarrow> string list \<Rightarrow> (string \<times> json) list \<Rightarrow> world \<Rightarrow> (operation \<times> string option) \<times> world" where
  "runCommand en ws args w = (case resolveSafeCommand en (w_fs w) (command_text args) args ws of
       Inl e \<Rightarrow> let s = summarizeTestFailure [] e in ((failed_op ''run_command'' s, Some s), w)
     | Inr sc \<Rightarrow> (case run_exec en (sc_command sc) w of
         (r, w1) \<Rightarrow>
           (case ex_error r of
              Some e \<Rightarrow> let s = summarizeTestFailure [ex_stdout r, ex_stderr r] e in ((failed_op ''run_command'' s, Some s), w1)
            | None \<Rightarrow>
                let out = truncateCommandOutput (js_join newline (filter (\<lambda>s. s \<noteq> []) [ex_stdout r, ex_stderr r])) (sc_max_output sc) in
                ((\<lparr>op_tool = ''run_command'', op_status = Op_Applied, op_path = None, op_message = Some (js_join newline (filter (\<lambda>s. s \<noteq> [])
                    [sc_rendered sc @ '' passed in '' @ show_int (ex_elapsed r) @ ''ms'', out]))\<rparr>, None), w1))))"

definition resolveTestCommand :: "environment \<Rightarrow> filesystem \<Rightarrow> string list \<Rightarrow> (string \<times> string list) option" where
  "resolveTestCommand en fs ws =
     (if existsSync fs (ws @ [''pyproject.toml'']) then Some (''uv'', [''run'', ''pytest''])
      else if existsSync fs (ws @ [''package.json'']) then Some (if en_windows en then ''npm.cmd'' else ''npm'', [''test''])
      else None)"

definition runTestSuite :: "environment \<Rightarrow> string list \<Rightarrow> (string \<times> json) list \<Rightarrow> world \<Rightarrow> (operation \<times> suite_result \<times> string option) \<times> world" where
  "runTestSuite en ws args w =
     (let suite = (case map_get args ''suite'' of Some (Json_Str s) \<Rightarrow> s | _ \<Rightarrow> ''unit'') in
      case resolveTestCommand en (w_fs w) ws of
        None \<Rightarrow> ((\<lparr>op_tool = ''run_test_suite'', op_status = Op_Skipped, op_path = None, op_message = Some ''no supported test command found''\<rparr>,
            \<lparr>su_name = suite, su_status = Suite_Skipped, su_duration = 0\<rparr>, None), w)
      | Some (b, as) \<Rightarrow> (case run_exec en \<lparr>co_bin = b, co_args = as, co_cwd = ws\<rparr> w of
          (r, w1) \<Rightarrow>
            (case ex_error r of
               None \<Rightarrow> ((\<lparr>op_tool = ''run_test_suite'', op_status = Op_Applied, op_path = None, op_message = Some (js_trim (b @ '' '' @ js_join '' '' as))\<rparr>,
                   \<lparr>su_name = suite, su_status = Suite_Passed, su_duration = ex_elapsed r\<rparr>, None), w1)
             | Some e \<Rightarrow> let s = summarizeTestFailure [ex_stdout r, ex_stderr r] e in
                 ((failed_op ''run_test_suite'' s, \<lparr>su_name = suite, su_status = Suite_Failed, su_duration = ex_elapsed r\<rparr>, Some s), w1))))"

subsection \<open>Artifacts\<close>

definition drop_empty_end :: "string list \<Rightarrow> string list" where
  "drop_empty_end ls = (if ls \<noteq> [] \<and> last ls = [] then butlast ls else ls)"

text \<open>\<open>split(/\r?\n/)\<close>.\<close>

definition strip_return :: "string \<Rightarrow> string" where
  "strip_return l = (if l \<noteq> [] \<and> last l = CHR 0x0D then butlast l else l)"

definition split_lines :: "string \<Rightarrow> string list" where
  "split_lines s = (let ls = split_on (\<lambda>c. c = CHR 0x0A) s in map strip_return (butlast ls) @ [last ls])"

definition text_or_empty :: "string option \<Rightarrow> string" where
  "text_or_empty t = (case t of Some s \<Rightarrow> s | None \<Rightarrow> [])"

definition stat_line :: "write_artifact \<Rightarrow> string" where
  "stat_line a = (let d = int (length (wa_after a)) - int (length (text_or_empty (wa_before a))) in
     wa_path a @ '' | '' @ (if d \<ge> 0 then ''+'' else []) @ show_int d @ '' bytes'')"

definition renderDiffStatArtifact :: "write_artifact list \<Rightarrow> string" where
  "renderDiffStatArtifact ws = (if ws = [] then ''No workspace file writes were applied by tool_plan.'' @ newline
     else js_join newline (map stat_line ws @ [show_int (int (length ws)) @ '' file(s) changed'']) @ newline)"

definition diff_of :: "write_artifact \<Rightarrow> string" where
  "diff_of a = js_join newline
     ([''diff --shipyard a/'' @ wa_path a @ '' b/'' @ wa_path a, ''--- a/'' @ wa_path a, ''+++ b/'' @ wa_path a, ''@@''] @
      map (\<lambda>l. ''-'' @ l) (drop_empty_end (split_lines (text_or_empty (wa_before a)))) @
      map (\<lambda>l. ''+'' @ l) (drop_empty_end (split_lines (wa_after a))) @ [[]])"

definition renderDiffArtifact :: "write_artifact list \<Rightarrow> string" where
  "renderDiffArtifact ws = (if ws = [] then ''# No workspace file writes were applied by tool_plan.'' @ newline
     else js_join newline (map diff_of ws))"

fun verdict_name :: "plan_verdict \<Rightarrow> string" where
  "verdict_name V_Executed = ''executed''"
| "verdict_name V_Applied = ''applied''"
| "verdict_name V_Skipped = ''skipped''"
| "verdict_name V_Failed = ''failed''"
| "verdict_name V_Dry_Run = ''dry_run''"

fun op_status_name :: "op_status \<Rightarrow> string" where
  "op_status_name Op_Applied = ''applied''"
| "op_status_name Op_Planned = ''planned''"
| "op_status_name Op_Skipped = ''skipped''"
| "op_status_name Op_Failed = ''failed''"

fun suite_status_name :: "suite_status \<Rightarrow> string" where
  "suite_status_name Suite_Passed = ''passed''"
| "suite_status_name Suite_Failed = ''failed''"
| "suite_status_name Suite_Skipped = ''skipped''"

definition optional :: "string \<Rightarrow> string option \<Rightarrow> (string \<times> json) list" where
  "optional k v = (case v of Some s \<Rightarrow> [(k, Json_Str s)] | None \<Rightarrow> [])"

definition op_json :: "operation \<Rightarrow> json" where
  "op_json p = Json_Obj ([(''tool'', Json_Str (op_tool p)), (''status'', Json_Str (op_status_name (op_status p)))] @
     optional ''path'' (op_path p) @ optional ''message'' (op_message p))"

definition suite_json :: "suite_result \<Rightarrow> json" where
  "suite_json s = Json_Obj [(''suite'', Json_Str (su_name s)), (''status'', Json_Str (suite_status_name (su_status s))),
     (''duration_ms'', Json_Int (su_duration s))]"

definition artifact_dir :: "string list \<Rightarrow> worker_job \<Rightarrow> string list" where
  "artifact_dir ws j = walk (ws @ [''artifacts'', ''jobs'']) (split_on slash (job_id j))"

definition artifact_texts :: "plan_output \<Rightarrow> operation list \<Rightarrow> write_artifact list \<Rightarrow> plan_verdict \<Rightarrow> suite_result list \<Rightarrow> string list \<Rightarrow>
    string list \<Rightarrow> (string \<times> string) list" where
  "artifact_texts pl ops ws v tests errors fails =
     (let ops_json = Json_Arr (map op_json ops); texts = (\<lambda>xs. Json_Arr (map Json_Str xs)) in
      [(''tool-plan.json'', stringify_pretty [] (Json_Obj [(''plan'', pl_json pl), (''operations'', ops_json)]) @ newline),
       (''execution-verdict.json'', stringify_pretty [] (Json_Obj [(''execution_verdict'', Json_Str (verdict_name v)), (''errors'', texts errors),
          (''operations'', ops_json)]) @ newline),
       (''diff-stat.txt'', renderDiffStatArtifact ws),
       (''diff.patch'', renderDiffArtifact ws),
       (''test-summary.json'', stringify_pretty [] (Json_Obj [(''test_results'', Json_Arr (map suite_json tests)),
          (''test_failure_summaries'', texts fails)]) @ newline)])"

fun write_all :: "string list \<Rightarrow> (string \<times> string) list \<Rightarrow> filesystem \<Rightarrow> (string, unit, filesystem) outcome" where
  "write_all dir [] = return ()"
| "write_all dir ((nm, t) # ts) = and_then (writeFileSync (dir @ [nm]) t) (\<lambda>_. write_all dir ts)"

definition writeExecutionArtifacts :: "string list \<Rightarrow> string list \<Rightarrow> (string \<times> string) list \<Rightarrow> filesystem \<Rightarrow> (string, string list, filesystem) outcome" where
  "writeExecutionArtifacts ws dir texts = and_then (mkdirSync dir) (\<lambda>_. and_then (write_all dir texts)
     (\<lambda>_. return (map (\<lambda>(nm, t). forward_slashes (relative ws (dir @ [nm]))) texts)))"

subsection \<open>Executing a plan\<close>

record progress =
  pg_ops :: "operation list"
  pg_tests :: "suite_result list"
  pg_errors :: "string list"
  pg_failures :: "string list"
  pg_writes :: "write_artifact list"

definition no_progress :: progress where
  "no_progress = \<lparr>pg_ops = [], pg_tests = [], pg_errors = [], pg_failures = [], pg_writes = []\<rparr>"

definition add_op :: "operation \<Rightarrow> progress \<Rightarrow> progress" where
  "add_op p g = g\<lparr>pg_ops := pg_ops g @ [p]\<rparr>"

definition add_error :: "operation \<Rightarrow> string \<Rightarrow> progress \<Rightarrow> progress" where
  "add_error p d g = (if op_status p = Op_Failed then g\<lparr>pg_errors := pg_errors g @ [case op_message p of Some m \<Rightarrow> m | None \<Rightarrow> d]\<rparr> else g)"

definition add_failure :: "operation \<Rightarrow> string option \<Rightarrow> progress \<Rightarrow> progress" where
  "add_failure p s g = (if op_status p = Op_Failed \<and> \<not> falsy s then g\<lparr>pg_failures := pg_failures g @ [the s]\<rparr> else g)"

definition on_world :: "(filesystem \<Rightarrow> 'a \<times> filesystem) \<Rightarrow> world \<Rightarrow> 'a \<times> world" where
  "on_world f w = (case f (w_fs w) of (x, fs) \<Rightarrow> (x, w\<lparr>w_fs := fs\<rparr>))"

definition wrote :: "string \<Rightarrow> operation \<times> write_artifact list \<Rightarrow> progress \<Rightarrow> progress" where
  "wrote d x g = add_error (fst x) d (add_op (fst x) (g\<lparr>pg_writes := pg_writes g @ snd x\<rparr>))"

definition execute_call :: "environment \<Rightarrow> string list \<Rightarrow> exec_options \<Rightarrow> plan_call \<Rightarrow> progress \<times> world \<Rightarrow> progress \<times> world" where
  "execute_call en ws opts c gw = (case gw of (g, w) \<Rightarrow> let tool = pc_tool c; args = pc_args c in
     if tool = ''read_file'' then (case on_world (readFile ws args) w of (x, w1) \<Rightarrow> (add_op (fst x) g, w1))
     else if tool = ''write_file'' then (case on_world (writeFile ws opts args) w of (x, w1) \<Rightarrow> (wrote ''write_file failed'' x g, w1))
     else if tool = ''apply_patch_intent'' then
       (case on_world (applyPatchIntent ws opts args) w of (x, w1) \<Rightarrow> (wrote ''apply_patch_intent failed'' x g, w1))
     else if tool = ''run_test_suite'' then
       (case runTestSuite en ws args w of ((p, t, s), w1) \<Rightarrow>
         (add_failure p s (add_error p ''run_test_suite failed'' ((add_op p g)\<lparr>pg_tests := pg_tests g @ [t]\<rparr>)), w1))
     else if tool = ''run_command'' then
       (case runCommand en ws args w of ((p, s), w1) \<Rightarrow> (add_failure p s (add_error p ''run_command failed'' (add_op p g)), w1))
     else (add_op \<lparr>op_tool = tool, op_status = Op_Skipped, op_path = None,
         op_message = Some (''tool '' @ [CHR 0x27] @ tool @ [CHR 0x27] @ '' is validated but has no local executor'')\<rparr> g, w))"

definition resolveExecutionVerdict :: "bool \<Rightarrow> string list \<Rightarrow> bool \<Rightarrow> bool \<Rightarrow> plan_verdict" where
  "resolveExecutionVerdict dry errors applied skip =
     (if dry then V_Dry_Run else if skip then V_Skipped else if errors \<noteq> [] then V_Failed else if applied then V_Applied else V_Executed)"

definition plan_op :: "op_status \<Rightarrow> string \<Rightarrow> operation" where
  "plan_op st msg = \<lparr>op_tool = ''tool_plan'', op_status = st, op_path = None, op_message = Some msg\<rparr>"

definition stopped_plan :: "plan_verdict \<Rightarrow> bool \<Rightarrow> string list option \<Rightarrow> string \<Rightarrow> plan_result" where
  "stopped_plan v dry ws msg = \<lparr>pr_verdict = v, pr_dry_run = dry, pr_applied = False, pr_skipped = (v = V_Skipped), pr_workspace = ws,
     pr_operations = [plan_op (if v = V_Skipped then Op_Skipped else Op_Failed) msg], pr_tests = [],
     pr_errors = (if v = V_Skipped then [] else [msg]), pr_artifacts = [], pr_failures = []\<rparr>"

definition effect_applied :: "operation \<Rightarrow> bool" where
  "effect_applied p = (op_status p = Op_Applied \<and>
     op_tool p \<in> {''write_file'', ''apply_patch_intent'', ''run_test_suite'', ''run_command''})"

definition finish_plan :: "plan_output \<Rightarrow> worker_job \<Rightarrow> string list \<Rightarrow> exec_options \<Rightarrow> progress \<times> world \<Rightarrow> (string, plan_result, world) outcome" where
  "finish_plan pl j ws opts gw = (case gw of (g, w) \<Rightarrow>
     let applied = list_ex effect_applied (pg_ops g); v = resolveExecutionVerdict (eo_dry_run opts) (pg_errors g) applied False in
     and_then (if eo_dry_run opts then return []
         else in_files (writeExecutionArtifacts ws (artifact_dir ws j)
           (artifact_texts pl (pg_ops g) (pg_writes g) v (pg_tests g) (pg_errors g) (pg_failures g)))) (\<lambda>paths. return
       \<lparr>pr_verdict = v, pr_dry_run = eo_dry_run opts, pr_applied = applied, pr_skipped = False, pr_workspace = Some ws,
        pr_operations = pg_ops g, pr_tests = pg_tests g, pr_errors = pg_errors g, pr_artifacts = paths, pr_failures = pg_failures g\<rparr>) w)"

definition execute :: "environment \<Rightarrow> plan_output \<Rightarrow> worker_job \<Rightarrow> world \<Rightarrow> (string, plan_result, world) outcome" where
  "execute en pl j w = (case resolveExecutionOptions en pl j of
       Inl e \<Rightarrow> (Inr (stopped_plan V_Failed False None e), w)
     | Inr opts \<Rightarrow>
         if \<not> canWrite j then (Inr (stopped_plan V_Skipped (eo_dry_run opts) None
           ''tool_plan execution requires non-deny policy and workspace_write or full_auto sandbox''), w)
         else (case resolveWorkspaceRoot en (w_fs w) j of
             None \<Rightarrow> (Inr (stopped_plan V_Skipped (eo_dry_run opts) None ''workspace root could not be resolved''), w)
           | Some ws \<Rightarrow> (case validatePlanLimits pl ws opts of
               Some e \<Rightarrow> (Inr (stopped_plan V_Failed (eo_dry_run opts) (Some ws) e), w)
             | None \<Rightarrow> finish_plan pl j ws opts (foldl (\<lambda>gw c. execute_call en ws opts c gw) (no_progress, w) (pl_calls pl)))))"

end
