(* ===== verification/Tool_Plan_Safety.thy ===== *)
theory Tool_Plan_Safety
  imports Tool_Plan
begin

text \<open>
  What the executor of tool plans guarantees: which files a plan can change, which commands it can start, what a patch
  does to a file; and where the limits can be lifted.
\<close>

subsection \<open>Paths of a plan\<close>

lemma split_any_slash: "split_on any_slash p = concat (map (split_on (\<lambda>c. c = CHR 0x5C)) (split_on slash p))"
proof (induction p)
  case (Cons c p)
  obtain v vs where v: "split_on slash p = v # vs" by (cases "split_on slash p") auto
  obtain u us where u: "split_on (\<lambda>c. c = CHR 0x5C) v = u # us" by (cases "split_on (\<lambda>c. c = CHR 0x5C) v") auto
  from Cons v u show ?case by (auto simp: any_slash_def slash_def split: list.split)
qed simp

lemma dotdot_any_slash: "''..'' \<notin> set (split_on any_slash p) \<Longrightarrow> ''..'' \<notin> set (split_on slash p)"
proof
  assume "''..'' \<notin> set (split_on any_slash p)" and "''..'' \<in> set (split_on slash p)"
  moreover have "''..'' \<in> set (split_on (\<lambda>c. c = CHR 0x5C) ''..'')" by simp
  ultimately show False unfolding split_any_slash set_concat set_map by blast
qed

lemma resolveRepoPath_Inr:
  assumes "resolveRepoPath ws v = Inr r"
  shows "\<exists>p. v = Some (Json_Str p) \<and> r = ws @ segments p \<and> ''..'' \<notin> set (segments p)"
proof -
  from assms obtain p where p: "v = Some (Json_Str p)" "\<not> isAbsolute p" "''..'' \<notin> set (split_on any_slash p)" "r = resolve ws p"
    by (auto simp: resolveRepoPath_def Let_def split: option.splits json.splits if_splits)
  from dotdot_any_slash [OF p(3)] have n: "''..'' \<notin> set (split_on slash p)" .
  with p(4) resolve_plain [OF p(2) n, of ws] p(1) show ?thesis by (simp add: segments_def)
qed

text \<open>The files a plan may write, a backslash in the name counting as a separator for the allowed paths.\<close>

definition may_write :: "string list \<Rightarrow> exec_options \<Rightarrow> string list \<Rightarrow> bool" where
  "may_write ws opts p = ((\<exists>ss. p = ws @ ss \<and> ''..'' \<notin> set ss) \<and>
     (case eo_allowed opts of None \<Rightarrow> True
      | Some qs \<Rightarrow> \<exists>q \<in> set qs. prefix (segments q) (segments (forward_slashes (relative ws p)))))"

lemma allowed_may_write:
  assumes "resolveRepoPath ws v = Inr r" and "assertAllowedWritePath ws r opts = Inr ()"
  shows "may_write ws opts r"
proof -
  from resolveRepoPath_Inr [OF assms(1)] have place: "\<exists>ss. r = ws @ ss \<and> ''..'' \<notin> set ss" by blast
  show ?thesis
  proof (cases "eo_allowed opts")
    case None
    with place show ?thesis by (simp add: may_write_def)
  next
    case (Some qs)
    with assms(2) have "path_allowed qs (forward_slashes (relative ws r))"
      by (simp add: assertAllowedWritePath_def Let_def split: if_splits)
    then obtain q where q: "q \<in> set qs"
      "forward_slashes (relative ws r) = q \<or> (\<exists>t. forward_slashes (relative ws r) = q @ CHR ''/'' # t)"
      by (auto simp: path_allowed_def list_ex_iff starts_with_iff)
    from q(2) have "prefix (segments q) (segments (forward_slashes (relative ws r)))"
    proof
      assume "\<exists>t. forward_slashes (relative ws r) = q @ CHR ''/'' # t"
      then obtain t where t: "forward_slashes (relative ws r) = q @ CHR ''/'' # t" by blast
      show ?thesis unfolding t segments_append by simp
    qed simp
    with q(1) Some place show ?thesis by (auto simp: may_write_def)
  qed
qed

subsection \<open>What the operations change\<close>

text \<open>\<open>fs'\<close> differs from \<open>fs\<close> only in files of \<open>P\<close>, and those have a content of at most \<open>n\<close> characters.\<close>

definition changes :: "(string list \<Rightarrow> bool) \<Rightarrow> int \<Rightarrow> filesystem \<Rightarrow> filesystem \<Rightarrow> bool" where
  "changes P n fs fs' = (\<forall>p. fs_file fs' p = fs_file fs p \<or> P p \<and> (\<exists>t. fs_file fs' p = Some t \<and> int (length t) \<le> n))"

lemma changes_refl [simp]: "changes P n fs fs"
  by (simp add: changes_def)

lemma changes_trans: "changes P n fs fs1 \<Longrightarrow> changes P n fs1 fs2 \<Longrightarrow> changes P n fs fs2"
  unfolding changes_def by metis

lemma changes_mono: "changes P n fs fs' \<Longrightarrow> (\<And>p. P p \<Longrightarrow> Q p) \<Longrightarrow> changes Q n fs fs'"
  unfolding changes_def by metis

lemma changes_same: "fs_file fs' = fs_file fs \<Longrightarrow> changes P n fs fs'"
  by (simp add: changes_def)

lemma changes_and_then:
  assumes "changes P n fs (snd (m fs))" and "\<And>a. fst (m fs) = Inr a \<Longrightarrow> changes P n (snd (m fs)) (snd (f a (snd (m fs))))"
  shows "changes P n fs (snd (and_then m f fs))"
  using assms by (cases "m fs") (auto simp: and_then_def split: sum.split intro: changes_trans)

lemma changes_write: "P p \<Longrightarrow> int (length t) \<le> n \<Longrightarrow> changes P n fs (snd (writeFileSync p t fs))"
  by (auto simp: changes_def writeFileSync_def)

lemma caught_state: "snd (caught tool r) = snd r"
  by (simp add: caught_def split: prod.split sum.split)

lemma read_same [simp]: "changes P n fs (snd (readFileSync r fs))" "changes P n fs (snd (mkdirSync r fs))" "changes P n fs (snd (before_text r fs))"
  "changes P n fs (snd (check x fs))" "changes P n fs (snd (throw e fs))" "changes P n fs (snd (return x fs))"
  by (auto simp: changes_same before_text_def readFileSync_state and_then_def return_def check_def throw_def readFileSync_def split: prod.split sum.split option.split)

lemma readFile_files: "snd (readFile ws args fs) = fs"
  by (simp add: readFile_def caught_state and_then_def check_def return_def readFileSync_def split: prod.split sum.split option.split)

lemma check_Inr [simp]: "fst (check x fs) = Inr a \<longleftrightarrow> x = Inr a" "snd (check x fs) = fs"
  by (simp_all add: check_def)

lemma size_ok: "assertWriteSize t opts = Inr () \<Longrightarrow> int (length t) \<le> eo_max_bytes opts"
  by (simp add: assertWriteSize_def split: if_splits)

lemma write_checked_changes:
  assumes "resolveRepoPath ws v = Inr r"
  shows "changes (\<lambda>p. \<not> eo_dry_run opts \<and> p = r \<and> may_write ws opts p) (eo_max_bytes opts) fs (snd (write_checked ws opts r t fs))"
  unfolding write_checked_def
proof (intro changes_and_then read_same, goal_cases)
  case (1 a b c)
  show ?case
  proof (cases "eo_dry_run opts")
    case True
    then show ?thesis by (simp add: return_def)
  next
    case False
    with 1 allowed_may_write [OF assms] size_ok [of t opts] show ?thesis
      by (auto simp: return_def intro!: changes_and_then changes_write)
  qed
qed

lemma writeFile_changes:
  "changes (\<lambda>p. \<not> eo_dry_run opts \<and> resolveRepoPath ws (map_get args ''path'') = Inr p \<and> may_write ws opts p) (eo_max_bytes opts) fs
    (snd (writeFile ws opts args fs))"
  unfolding writeFile_def caught_state
  by (auto split: option.split json.split intro!: changes_and_then changes_mono [OF write_checked_changes])

lemma patch_checked_changes:
  assumes "resolveRepoPath ws v = Inr r"
  shows "changes (\<lambda>p. \<not> eo_dry_run opts \<and> p = r \<and> may_write ws opts p) (eo_max_bytes opts) fs (snd (patch_checked ws opts r loc rep fs))"
  unfolding patch_checked_def
proof (intro changes_and_then read_same, goal_cases)
  case (1 a b)
  with allowed_may_write [OF assms] size_ok [of "js_replace b loc rep" opts] show ?case
    by (auto simp: return_def intro!: changes_and_then changes_write)
qed

lemma applyPatch_changes:
  "changes (\<lambda>p. \<not> eo_dry_run opts \<and> resolveRepoPath ws (map_get args ''path'') = Inr p \<and> may_write ws opts p) (eo_max_bytes opts) fs
    (snd (applyPatchIntent ws opts args fs))"
  unfolding applyPatchIntent_def caught_state
  by (auto split: option.split json.split intro!: changes_and_then changes_mono [OF patch_checked_changes])

subsection \<open>A whole plan\<close>

definition starts_command :: "plan_call \<Rightarrow> bool" where
  "starts_command c = (pc_tool c = ''run_test_suite'' \<or> pc_tool c = ''run_command'')"

definition target_of :: "string list \<Rightarrow> plan_call \<Rightarrow> string list \<Rightarrow> bool" where
  "target_of ws c p = (writes c \<and> resolveRepoPath ws (map_get (pc_args c) ''path'') = Inr p)"

lemma execute_call_changes:
  assumes "\<not> starts_command c"
  shows "changes (\<lambda>p. \<not> eo_dry_run opts \<and> target_of ws c p \<and> may_write ws opts p) (eo_max_bytes opts) (w_fs (snd gw))
    (w_fs (snd (execute_call en ws opts c gw)))"
proof -
  obtain g w where gw: "gw = (g, w)" by (cases gw)
  have w: "changes (\<lambda>p. \<not> eo_dry_run opts \<and> target_of ws c p \<and> may_write ws opts p) (eo_max_bytes opts) (w_fs w) (snd (writeFile ws opts (pc_args c) (w_fs w)))"
    if "pc_tool c = ''write_file''"
    by (rule changes_mono [OF writeFile_changes]) (use that in \<open>simp add: target_of_def writes_def\<close>)
  have a: "changes (\<lambda>p. \<not> eo_dry_run opts \<and> target_of ws c p \<and> may_write ws opts p) (eo_max_bytes opts) (w_fs w) (snd (applyPatchIntent ws opts (pc_args c) (w_fs w)))"
    if "pc_tool c = ''apply_patch_intent''"
    by (rule changes_mono [OF applyPatch_changes]) (use that in \<open>simp add: target_of_def writes_def\<close>)
  show ?thesis
    using assms w a readFile_files [of ws "pc_args c" "w_fs w"]
    by (auto simp: gw execute_call_def Let_def on_world_def starts_command_def split: prod.split)
qed

lemma execute_calls_changes:
  "list_all (\<lambda>c. \<not> starts_command c) cs \<Longrightarrow>
    changes (\<lambda>p. \<not> eo_dry_run opts \<and> (\<exists>c \<in> set cs. target_of ws c p) \<and> may_write ws opts p) (eo_max_bytes opts) (w_fs (snd gw))
      (w_fs (snd (foldl (\<lambda>gw c. execute_call en ws opts c gw) gw cs)))"
proof (induction cs arbitrary: gw)
  case (Cons c cs)
  then have "changes (\<lambda>p. \<not> eo_dry_run opts \<and> target_of ws c p \<and> may_write ws opts p) (eo_max_bytes opts) (w_fs (snd gw))
      (w_fs (snd (execute_call en ws opts c gw)))" by (simp add: execute_call_changes)
  then have "changes (\<lambda>p. \<not> eo_dry_run opts \<and> (\<exists>c \<in> set (c # cs). target_of ws c p) \<and> may_write ws opts p) (eo_max_bytes opts) (w_fs (snd gw))
      (w_fs (snd (execute_call en ws opts c gw)))" by (rule changes_mono) auto
  moreover have "changes (\<lambda>p. \<not> eo_dry_run opts \<and> (\<exists>c \<in> set (c # cs). target_of ws c p) \<and> may_write ws opts p) (eo_max_bytes opts)
      (w_fs (snd (execute_call en ws opts c gw))) (w_fs (snd (foldl (\<lambda>gw c. execute_call en ws opts c gw) (execute_call en ws opts c gw) cs)))"
    by (rule changes_mono [OF Cons.IH]) (use Cons.prems in auto)
  ultimately show ?case by (auto intro: changes_trans)
qed simp

lemma write_paths_all: "write_paths ws cs acc = Inr ps \<Longrightarrow> set acc \<subseteq> set ps \<and>
    (\<forall>c \<in> set cs. \<forall>r. resolveRepoPath ws (map_get (pc_args c) ''path'') = Inr r \<longrightarrow> forward_slashes (relative ws r) \<in> set ps)"
proof (induction cs arbitrary: acc)
  case (Cons c cs)
  then obtain r where r: "resolveRepoPath ws (map_get (pc_args c) ''path'') = Inr r"
    "write_paths ws cs (set_add acc (forward_slashes (relative ws r))) = Inr ps" by (auto split: sum.splits)
  from Cons.IH [OF r(2)] r(1) show ?case by auto
qed auto

definition artifact_file :: "string list \<Rightarrow> worker_job \<Rightarrow> string list \<Rightarrow> bool" where
  "artifact_file ws j p = (\<exists>nm. nm \<in> {''tool-plan.json'', ''execution-verdict.json'', ''diff-stat.txt'', ''diff.patch'', ''test-summary.json''} \<and>
     p = artifact_dir ws j @ [nm])"

lemma and_then_state: "snd (and_then m f s) = (case fst (m s) of Inl e \<Rightarrow> snd (m s) | Inr a \<Rightarrow> snd (f a (snd (m s))))"
  by (cases "m s") (simp add: and_then_def split: sum.split)

lemma write_all_files: "fs_file (snd (write_all dir texts fs)) p \<noteq> fs_file fs p \<Longrightarrow> \<exists>nm \<in> fst ` set texts. p = dir @ [nm]"
proof (induction dir texts arbitrary: fs rule: write_all.induct)
  case (2 dir nm t ts)
  let ?new = "snd (writeFileSync (dir @ [nm]) t fs)"
  show ?case
  proof (cases "p = dir @ [nm]")
    case False
    then have "fs_file ?new p = fs_file fs p" by (rule writeFileSync_file)
    with 2 have "fs_file (snd (write_all dir ts ?new)) p \<noteq> fs_file ?new p"
      by (auto simp: and_then_state split: sum.splits)
    from 2(1) [OF this] show ?thesis by simp
  qed simp
qed (simp add: return_def)

lemma writeArtifacts_files:
  assumes "fs_file (snd (writeExecutionArtifacts ws dir texts fs)) p \<noteq> fs_file fs p"
  shows "\<exists>nm \<in> fst ` set texts. p = dir @ [nm]"
proof (rule write_all_files)
  show "fs_file (snd (write_all dir texts (snd (mkdirSync dir fs)))) p \<noteq> fs_file (snd (mkdirSync dir fs)) p"
    using assms by (auto simp: writeExecutionArtifacts_def and_then_state return_def split: sum.splits)
qed

lemma artifact_names: "fst ` set (artifact_texts pl ops ws v tests errors fails) =
    {''tool-plan.json'', ''execution-verdict.json'', ''diff-stat.txt'', ''diff.patch'', ''test-summary.json''}"
  by (simp add: artifact_texts_def Let_def)

lemma writeExecutionArtifacts_files:
  "fs_file (snd (writeExecutionArtifacts ws (artifact_dir ws j) (artifact_texts pl ops wr v tests errors fails) fs)) p \<noteq> fs_file fs p \<Longrightarrow>
    artifact_file ws j p"
  using writeArtifacts_files [of ws "artifact_dir ws j" _ fs p] unfolding artifact_file_def by (metis artifact_names)

lemma finish_plan_files:
  assumes "fs_file (w_fs (snd (finish_plan pl j ws opts gw))) p \<noteq> fs_file (w_fs (snd gw)) p"
  shows "\<not> eo_dry_run opts \<and> artifact_file ws j p"
proof -
  obtain g w where gw: "gw = (g, w)" by (cases gw)
  show ?thesis
  proof (cases "eo_dry_run opts")
    case True
    with assms gw show ?thesis by (simp add: finish_plan_def Let_def return_def)
  next
    case False
    with assms gw have "fs_file (snd (writeExecutionArtifacts ws (artifact_dir ws j) (artifact_texts pl (pg_ops g) (pg_writes g)
        (resolveExecutionVerdict False (pg_errors g) (list_ex effect_applied (pg_ops g)) False) (pg_tests g) (pg_errors g) (pg_failures g)) (w_fs w))) p
        \<noteq> fs_file (w_fs w) p"
      by (auto simp: finish_plan_def Let_def and_then_def in_files_def return_def split: prod.splits sum.splits)
    from writeExecutionArtifacts_files [OF this] False show ?thesis by simp
  qed
qed

lemma finish_plan_log: "w_log (snd (finish_plan pl j ws opts gw)) = w_log (snd gw)"
  by (cases gw) (simp add: finish_plan_def Let_def and_then_def in_files_def return_def split: prod.split sum.split)

lemma execute_changed:
  assumes "snd (execute en pl j w) \<noteq> w"
  shows "\<exists>opts ws. resolveExecutionOptions en pl j = Inr opts \<and> canWrite j \<and> resolveWorkspaceRoot en (w_fs w) j = Some ws \<and>
    validatePlanLimits pl ws opts = None \<and>
    execute en pl j w = finish_plan pl j ws opts (foldl (\<lambda>gw c. execute_call en ws opts c gw) (no_progress, w) (pl_calls pl))"
  using assms by (auto simp: execute_def split: sum.splits option.splits if_splits)

text \<open>C7. A plan that starts no commands changes, besides the five artifacts of its job, only files below the workspace and below an allowed
  path, each left with a content within the size limit; they count as at most as many files as the limit says; and a dry run
  changes nothing.\<close>

theorem plan_writes_confined:
  assumes "list_all (\<lambda>c. \<not> starts_command c) (pl_calls pl)" and "w' = snd (execute en pl j w)"
    and "fs_file (w_fs w') p \<noteq> fs_file (w_fs w) p"
  shows "\<exists>opts ws ps. resolveExecutionOptions en pl j = Inr opts \<and> resolveWorkspaceRoot en (w_fs w) j = Some ws \<and> canWrite j \<and>
    \<not> eo_dry_run opts \<and> int (length ps) \<le> eo_max_files opts \<and>
    (artifact_file ws j p \<or> may_write ws opts p \<and> forward_slashes (relative ws p) \<in> set ps \<and>
       (\<exists>t. fs_file (w_fs w') p = Some t \<and> int (length t) \<le> eo_max_bytes opts))"
proof -
  from assms(2,3) have "snd (execute en pl j w) \<noteq> w" by auto
  from execute_changed [OF this] obtain opts ws where o: "resolveExecutionOptions en pl j = Inr opts" "canWrite j"
    "resolveWorkspaceRoot en (w_fs w) j = Some ws" "validatePlanLimits pl ws opts = None"
    and run: "execute en pl j w = finish_plan pl j ws opts (foldl (\<lambda>gw c. execute_call en ws opts c gw) (no_progress, w) (pl_calls pl))" by blast
  let ?gw = "foldl (\<lambda>gw c. execute_call en ws opts c gw) (no_progress, w) (pl_calls pl)"
  from o(4) obtain ps where ps: "write_paths ws (filter writes (pl_calls pl)) [] = Inr ps" "int (length ps) \<le> eo_max_files opts"
    by (auto simp: validatePlanLimits_def split: sum.splits if_splits)
  have ch: "changes (\<lambda>p. \<not> eo_dry_run opts \<and> (\<exists>c \<in> set (pl_calls pl). target_of ws c p) \<and> may_write ws opts p) (eo_max_bytes opts) (w_fs w) (w_fs (snd ?gw))"
    using execute_calls_changes [OF assms(1), of opts ws "(no_progress, w)" en] by simp
  show ?thesis
  proof (cases "fs_file (w_fs (snd ?gw)) p = fs_file (w_fs w') p")
    case True
    with assms(3) ch have d: "\<not> eo_dry_run opts" "\<exists>c \<in> set (pl_calls pl). target_of ws c p" "may_write ws opts p"
      "\<exists>t. fs_file (w_fs w') p = Some t \<and> int (length t) \<le> eo_max_bytes opts" by (auto simp: changes_def) metis+
    from d(2) write_paths_all [OF ps(1)] have "forward_slashes (relative ws p) \<in> set ps" by (auto simp: target_of_def)
    with o d ps(2) show ?thesis by blast
  next
    case False
    with finish_plan_files [of pl j ws opts ?gw p] assms(2) run have "\<not> eo_dry_run opts" "artifact_file ws j p" by auto
    with o ps(2) show ?thesis by blast
  qed
qed

subsection \<open>Commands\<close>

lemma relative_cases: "prefix xs ys \<or> (\<exists>r. relative_segments xs ys = ''..'' # r)"
  by (induction xs ys rule: relative_segments.induct) auto

lemma join_head: "\<exists>r. js_join sep (x # xs) = x @ r"
  by (cases xs) auto

lemma relative_inside: "\<not> starts_with (relative ws r) ''..'' \<Longrightarrow> prefix ws r"
  using relative_cases [of ws r] join_head [of "''/''" "''..''"] by (metis relative_def starts_with_iff)

lemma command_cwd_inside: "resolveCommandCwd fs ws v = Inr d \<Longrightarrow> prefix ws d"
  by (auto simp: resolveCommandCwd_def Let_def split: option.splits json.splits if_splits dest!: relative_inside)

lemma extract_cwd_inside: "extractCommandAndCwd fs text cwd ws = Inr (cmd, d) \<Longrightarrow> prefix ws d"
  by (auto simp: extractCommandAndCwd_def split: sum.splits option.splits dest: command_cwd_inside)

lemma split_on_subset: "w \<in> set (split_on P s) \<Longrightarrow> set w \<subseteq> set s"
proof (induction s arbitrary: w)
  case (Cons c s)
  obtain v vs where v: "split_on P s = v # vs" by (cases "split_on P s") auto
  with Cons.prems Cons.IH [of v] Cons.IH [of w] show ?case by (auto split: if_splits)
qed simp

text \<open>A command the executor may start: the tests of the workspace, or one that begins like an entry of the allow list, without shell
  characters or quotes, inside the workspace.\<close>

definition plain_token :: "string \<Rightarrow> bool" where
  "plain_token a = (a \<noteq> [] \<and> \<not> list_ex shell_meta a \<and> \<not> list_ex quote_char a)"

definition safe_start :: "string list \<Rightarrow> command \<Rightarrow> bool" where
  "safe_start ws c = (co_cwd c = ws \<and> (co_bin c, co_args c) \<in> {(''uv'', [''run'', ''pytest'']), (''npm'', [''test''])} \<or>
     prefix ws (co_cwd c) \<and> list_ex (\<lambda>pre. prefix pre (co_bin c # co_args c)) allowedPrefixes \<and> list_all plain_token (co_bin c # co_args c))"

lemma resolveSafeCommand_safe:
  assumes "resolveSafeCommand en fs text args ws = Inr sc" and "\<not> en_windows en"
  shows "safe_start ws (sc_command sc)"
proof -
  from assms(1) obtain cmd d where x: "extractCommandAndCwd fs text (map_get args ''cwd'') ws = Inr (cmd, d)" and m: "\<not> list_ex shell_meta cmd"
    and q: "\<not> list_ex (\<lambda>p. p = [] \<or> list_ex quote_char p) (split_on (\<lambda>c. c = CHR '' '') cmd)"
    and al: "list_ex (\<lambda>pre. prefix pre (split_on (\<lambda>c. c = CHR '' '') cmd)) allowedPrefixes"
    and sc: "sc_command sc = \<lparr>co_bin = normalizeCommandBin en (hd (split_on (\<lambda>c. c = CHR '' '') cmd)), co_args = tl (split_on (\<lambda>c. c = CHR '' '') cmd), co_cwd = d\<rparr>"
    by (auto simp: resolveSafeCommand_def Let_def split: if_splits sum.splits)
  have parts: "hd (split_on (\<lambda>c. c = CHR '' '') cmd) # tl (split_on (\<lambda>c. c = CHR '' '') cmd) = split_on (\<lambda>c. c = CHR '' '') cmd" by simp
  have "list_all plain_token (split_on (\<lambda>c. c = CHR '' '') cmd)"
    using m q split_on_subset [of _ "\<lambda>c. c = CHR '' ''" cmd] by (fastforce simp: list_all_iff list_ex_iff plain_token_def)
  with al extract_cwd_inside [OF x] sc assms(2) parts show ?thesis by (simp add: safe_start_def normalizeCommandBin_def)
qed

definition logs_safely :: "string list \<Rightarrow> world \<Rightarrow> world \<Rightarrow> bool" where
  "logs_safely ws w w' = (\<exists>cs. w_log w' = w_log w @ cs \<and> list_all (safe_start ws) cs)"

lemma logs_same: "w_log w' = w_log w \<Longrightarrow> logs_safely ws w w'"
  unfolding logs_safely_def by (intro exI [of _ "[]"]) simp

lemma logs_one: "w_log w' = w_log w @ [c] \<Longrightarrow> safe_start ws c \<Longrightarrow> logs_safely ws w w'"
  unfolding logs_safely_def by (intro exI [of _ "[c]"]) simp

lemma logs_trans: "logs_safely ws w w1 \<Longrightarrow> logs_safely ws w1 w2 \<Longrightarrow> logs_safely ws w w2"
  unfolding logs_safely_def by auto

lemma run_exec_log: "w_log (snd (run_exec en c w)) = w_log w @ [c]"
  by (simp add: run_exec_def split: prod.split)

lemma runCommand_log: "snd (runCommand en ws args w) = (case resolveSafeCommand en (w_fs w) (command_text args) args ws of
    Inl e \<Rightarrow> w | Inr sc \<Rightarrow> snd (run_exec en (sc_command sc) w))"
  by (simp add: runCommand_def Let_def split: sum.split prod.split option.split)

lemma runTestSuite_log: "snd (runTestSuite en ws args w) = (case resolveTestCommand en (w_fs w) ws of
    None \<Rightarrow> w | Some (b, as) \<Rightarrow> snd (run_exec en \<lparr>co_bin = b, co_args = as, co_cwd = ws\<rparr> w))"
  by (simp add: runTestSuite_def Let_def split: sum.split prod.split option.split)

lemma execute_call_logs:
  assumes "\<not> en_windows en"
  shows "logs_safely ws (snd gw) (snd (execute_call en ws opts c gw))"
proof -
  obtain g w where gw: "gw = (g, w)" by (cases gw)
  have c: "logs_safely ws w (snd (runCommand en ws (pc_args c) w))"
    using resolveSafeCommand_safe [OF _ assms]
    by (auto simp: runCommand_log logs_same intro!: logs_one [OF run_exec_log] split: sum.split)
  have t: "logs_safely ws w (snd (runTestSuite en ws (pc_args c) w))"
    using assms by (auto simp: runTestSuite_log resolveTestCommand_def logs_same safe_start_def intro!: logs_one [OF run_exec_log] split: option.split if_splits)
  show ?thesis using c t by (auto simp: gw execute_call_def Let_def on_world_def logs_same split: prod.split)
qed

lemma execute_calls_log: "\<not> en_windows en \<Longrightarrow> logs_safely ws (snd gw) (snd (foldl (\<lambda>gw c. execute_call en ws opts c gw) gw cs))"
proof (induction cs arbitrary: gw)
  case (Cons c cs)
  from logs_trans [OF execute_call_logs [OF Cons.prems] Cons.IH [OF Cons.prems]] show ?case by simp
qed (simp add: logs_same)


lemma starting_ignores_options: "starts_command c \<Longrightarrow> execute_call en ws opts c gw = execute_call en ws opts' c gw"
  by (cases gw) (auto simp: starts_command_def execute_call_def Let_def)

lemma starting_calls_ignore_options: "list_all starts_command cs \<Longrightarrow>
    foldl (\<lambda>gw c. execute_call en ws opts c gw) gw cs = foldl (\<lambda>gw c. execute_call en ws opts' c gw) gw cs"
proof (induction cs arbitrary: gw)
  case (Cons c cs)
  then have "execute_call en ws opts c gw = execute_call en ws opts' c gw" by (intro starting_ignores_options) simp
  with Cons show ?case by simp
qed simp


text \<open>A dry run is meant to only report what it would do, but it starts the same commands as a real run.\<close>

theorem dry_run_starts_commands:
  assumes "list_all starts_command (pl_calls pl)"
  shows "w_log (snd (execute en (pl\<lparr>pl_dry_run := Some True\<rparr>) j w)) = w_log (snd (execute en (pl\<lparr>pl_dry_run := Some False\<rparr>) j w))"
proof (cases "resolveExecutionOptions en (pl\<lparr>pl_dry_run := Some False\<rparr>) j")
  case (Inl e)
  then have "resolveExecutionOptions en (pl\<lparr>pl_dry_run := Some True\<rparr>) j = Inl e"
    by (auto simp: resolveExecutionOptions_def Let_def split: sum.splits)
  with Inl show ?thesis by (simp add: execute_def)
next
  case (Inr opts)
  then have r: "resolveExecutionOptions en (pl\<lparr>pl_dry_run := Some True\<rparr>) j = Inr (opts\<lparr>eo_dry_run := True\<rparr>)"
    by (auto simp: resolveExecutionOptions_def Let_def split: sum.splits)
  have "validatePlanLimits (pl\<lparr>pl_dry_run := Some True\<rparr>) ws (opts\<lparr>eo_dry_run := True\<rparr>) = validatePlanLimits (pl\<lparr>pl_dry_run := Some False\<rparr>) ws opts" for ws
    by (simp add: validatePlanLimits_def split: sum.split)
  moreover have "foldl (\<lambda>gw c. execute_call en ws (opts\<lparr>eo_dry_run := True\<rparr>) c gw) (no_progress, w) (pl_calls pl) =
      foldl (\<lambda>gw c. execute_call en ws opts c gw) (no_progress, w) (pl_calls pl)" for ws
    by (rule starting_calls_ignore_options [OF assms])
  ultimately show ?thesis using Inr r by (auto simp: execute_def finish_plan_log split: option.split)
qed

subsection \<open>Patches\<close>

lemma occurs_at_iff: "i \<le> length s \<Longrightarrow> occurs_at s sub i \<longleftrightarrow> (\<exists>b. s = take i s @ sub @ b)"
  unfolding occurs_at_def starts_with_iff by (metis append_same_eq append_take_drop_id same_append_eq)

lemma find_range: "find P [0..<n] = Some i \<Longrightarrow> i < n \<and> P i \<and> (\<forall>j < i. \<not> P j)"
  by (auto simp: find_Some_iff)

lemma find_range_rev: "find P (rev [0..<n]) = Some i \<Longrightarrow> i < n \<and> P i \<and> (\<forall>j. i < j \<and> j < n \<longrightarrow> \<not> P j)"
proof (induction n)
  case (Suc n)
  then show ?case by (auto split: if_splits simp: less_Suc_eq)
qed simp

lemma located_once:
  assumes "indexOf t loc = Some i" and "lastIndexOf t loc = Some i"
  shows "t = take i t @ loc @ drop (i + length loc) t" and "t = a @ loc @ b \<Longrightarrow> a = take i t"
proof -
  from find_range [OF assms(1) [unfolded indexOf_def]] have i: "i \<le> length t" "occurs_at t loc i" "\<forall>j < i. \<not> occurs_at t loc j" by auto
  from find_range_rev [OF assms(2) [unfolded lastIndexOf_def]] have l: "\<forall>j. i < j \<and> j \<le> length t \<longrightarrow> \<not> occurs_at t loc j" by auto
  from i(1,2) obtain c where c: "t = take i t @ loc @ c" using occurs_at_iff by blast
  then have "drop (i + length loc) t = c" using i(1) by (metis append.assoc append_eq_conv_conj length_append length_take min.absorb2)
  with c show "t = take i t @ loc @ drop (i + length loc) t" by simp
  show "a = take i t" if t: "t = a @ loc @ b"
  proof -
    have "length a \<le> length t" "occurs_at t loc (length a)" using t by (simp_all add: occurs_at_def starts_with_def)
    with i(3) l have "length a = i" by (metis linorder_neqE_nat)
    with t show ?thesis by simp
  qed
qed

lemma expand_plain: "CHR ''$'' \<notin> set rep \<Longrightarrow> expand_pattern m pre post rep = rep"
  by (induction m pre post rep rule: expand_pattern.induct) auto

lemma expand_dollars: "CHR ''$'' \<notin> set u \<Longrightarrow> CHR ''$'' \<notin> set v \<Longrightarrow> expand_pattern m pre post (u @ ''$$'' @ v) = u @ CHR ''$'' # v"
proof (induction u)
  case Nil
  then show ?case by (simp add: expand_plain)
next
  case (Cons c u)
  then show ?case by (cases u) (auto simp: expand_plain)
qed

lemma patch_checked_Inr:
  assumes "patch_checked ws opts r loc rep fs = (Inr (p, as), fs')" and "op_status p = Op_Applied"
  shows "\<exists>t i. fs_file fs r = Some t \<and> indexOf t loc = Some i \<and> lastIndexOf t loc = Some i \<and> fs_file fs' = (fs_file fs)(r \<mapsto> js_replace t loc rep)"
proof -
  from assms(1) obtain t fs1 where rd: "readFileSync r fs = (Inr t, fs1)"
    and body: "(if indexOf t loc = None \<or> indexOf t loc \<noteq> lastIndexOf t loc then throw ''locator was not found exactly once in target file''
      else and_then (check (assertWriteSize (js_replace t loc rep) opts)) (\<lambda>_.
        if eo_dry_run opts then return (done_op ''apply_patch_intent'' Op_Planned (relative ws r), [])
        else and_then (writeFileSync r (js_replace t loc rep)) (\<lambda>_.
          return (done_op ''apply_patch_intent'' Op_Applied (relative ws r),
            [\<lparr>wa_path = forward_slashes (relative ws r), wa_before = Some t, wa_after = js_replace t loc rep\<rparr>])))) fs1 = (Inr (p, as), fs')"
    unfolding patch_checked_def check_def by (elim and_then_InrE) simp
  from rd have t: "fs_file fs r = Some t" and fs1: "fs1 = fs" by (auto simp: readFileSync_def split: option.splits)
  have once: "\<not> (indexOf t loc = None \<or> indexOf t loc \<noteq> lastIndexOf t loc)"
  proof
    assume c: "indexOf t loc = None \<or> indexOf t loc \<noteq> lastIndexOf t loc"
    show False using body unfolding if_P [OF c] by (simp add: throw_def)
  qed
  note body2 = body [unfolded if_not_P [OF once] fs1]
  have "\<not> eo_dry_run opts"
  proof
    assume d: "eo_dry_run opts"
    show False using body2 assms(2) unfolding if_P [OF d] by (elim and_then_InrE) (auto simp: return_def done_op_def)
  qed
  then obtain u fs2 where "writeFileSync r (js_replace t loc rep) fs = (Inr u, fs2)" "fs2 = fs'"
    using body2 unfolding check_def by (elim and_then_InrE) (auto simp: return_def elim!: and_then_InrE)
  then have "fs_file fs' = (fs_file fs)(r \<mapsto> js_replace t loc rep)" by (simp add: writeFileSync_Inr)
  moreover have "indexOf t loc \<noteq> None" "indexOf t loc = lastIndexOf t loc" using once unfolding de_Morgan_disj not_not by (rule conjunct1, rule conjunct2)
  moreover from this(1) obtain i where "indexOf t loc = Some i" by (cases "indexOf t loc") auto
  ultimately show ?thesis using t by metis
qed

lemma patched_file:
  assumes "applyPatchIntent ws opts args fs = ((p, as), fs')" and "op_status p = Op_Applied"
    and "map_get args ''locator'' = Some (Json_Str loc)" and "map_get args ''replacement'' = Some (Json_Str rep)"
  shows "\<exists>r a b. resolveRepoPath ws (map_get args ''path'') = Inr r \<and> fs_file fs r = Some (a @ loc @ b) \<and>
    (\<forall>a' b'. a @ loc @ b = a' @ loc @ b' \<longrightarrow> a' = a) \<and> fs_file fs' = (fs_file fs)(r \<mapsto> a @ expand_pattern loc a b rep @ b)"
proof -
  from assms obtain r where r: "resolveRepoPath ws (map_get args ''path'') = Inr r" and pc: "patch_checked ws opts r loc rep fs = (Inr (p, as), fs')"
    by (auto simp: applyPatchIntent_def caught_def and_then_def check_def split: sum.splits prod.splits)
  from patch_checked_Inr [OF pc assms(2)] obtain t i where t: "fs_file fs r = Some t" and i: "indexOf t loc = Some i" "lastIndexOf t loc = Some i"
    and f: "fs_file fs' = (fs_file fs)(r \<mapsto> js_replace t loc rep)" by blast
  define a b where "a = take i t" and "b = drop (i + length loc) t"
  have ab: "t = a @ loc @ b" unfolding a_def b_def by (rule located_once(1) [OF i])
  have uniq: "\<forall>a' b'. t = a' @ loc @ b' \<longrightarrow> a' = a" unfolding a_def using located_once(2) [OF i] by blast
  have "js_replace t loc rep = a @ expand_pattern loc a b rep @ b" by (simp add: js_replace_def i(1) a_def b_def)
  with r t f ab uniq show ?thesis by metis
qed

text \<open>A patch that is applied replaces the only occurrence of its locator by its replacement and changes nothing else, if the replacement
  has no dollar sign.\<close>

theorem patch_replaces_once:
  assumes "applyPatchIntent ws opts args fs = ((p, as), fs')" and "op_status p = Op_Applied"
    and "map_get args ''locator'' = Some (Json_Str loc)" and "map_get args ''replacement'' = Some (Json_Str rep)" and "CHR ''$'' \<notin> set rep"
  shows "\<exists>r a b. resolveRepoPath ws (map_get args ''path'') = Inr r \<and> fs_file fs r = Some (a @ loc @ b) \<and>
    (\<forall>a' b'. a @ loc @ b = a' @ loc @ b' \<longrightarrow> a' = a) \<and> fs_file fs' = (fs_file fs)(r \<mapsto> a @ rep @ b)"
  using patched_file [OF assms(1-4)] by (simp add: expand_plain [OF assms(5)])

text \<open>Dollar signs in a replacement are taken for patterns: of two in a row only one reaches the file.\<close>

theorem patch_loses_dollar:
  assumes "applyPatchIntent ws opts args fs = ((p, as), fs')" and "op_status p = Op_Applied"
    and "map_get args ''locator'' = Some (Json_Str loc)" and "map_get args ''replacement'' = Some (Json_Str (u @ ''$$'' @ v))"
    and "CHR ''$'' \<notin> set u" and "CHR ''$'' \<notin> set v"
  shows "\<exists>r a b. resolveRepoPath ws (map_get args ''path'') = Inr r \<and> fs_file fs r = Some (a @ loc @ b) \<and>
    fs_file fs' = (fs_file fs)(r \<mapsto> a @ (u @ ''$'' @ v) @ b)"
  using patched_file [OF assms(1-4)] by (simp add: expand_dollars [OF assms(5,6), simplified]) blast

text \<open>The plan, which is the worker's answer, decides about its own limits: with an empty list of allowed paths it may write anywhere in
  the workspace, whatever paths the metadata of the job allows.\<close>

theorem plan_lifts_path_limits:
  assumes "pl_allowed pl = Some []"
  shows "execute en pl (j\<lparr>job_metadata := map_set (job_metadata j) ''tool_plan_allowed_paths'' v\<rparr>) w = execute en pl j w"
proof -
  have o: "resolveExecutionOptions en pl (j\<lparr>job_metadata := map_set (job_metadata j) ''tool_plan_allowed_paths'' v\<rparr>) = resolveExecutionOptions en pl j"
    using assms by (simp add: resolveExecutionOptions_def Let_def normalizeAllowedPaths_def jm.lookup_store)
  have "artifact_dir ws (j\<lparr>job_metadata := m\<rparr>) = artifact_dir ws j" for m ws
    by (simp add: artifact_dir_def)
  then have "finish_plan pl (j\<lparr>job_metadata := m\<rparr>) = finish_plan pl j" for m
    unfolding finish_plan_def by (simp cong: if_cong)
  moreover have "resolveWorkspaceRoot en fs (j\<lparr>job_metadata := m\<rparr>) = resolveWorkspaceRoot en fs j" for fs m
    by (simp add: resolveWorkspaceRoot_def Let_def)
  ultimately show ?thesis using o by (simp add: execute_def canWrite_def cong: sum.case_cong option.case_cong if_cong)
qed

subsection \<open>A plan in a workspace\<close>

text \<open>The directory \<open>/w\<close> holds the file \<open>a\<close>; a command leaves the files alone.\<close>

definition plan_world :: world where
  "plan_world = \<lparr>w_fs = \<lparr>fs_file = [[''w'', ''a''] \<mapsto> ''one two''], fs_dir = (\<lambda>d. d = [] \<or> d = [''w''])\<rparr>, w_log = []\<rparr>"

definition plan_env :: environment where
  "plan_env = \<lparr>en_cwd = [''w''], en_windows = False, en_parse = (\<lambda>_. Inl ''invalid''),
     en_exec = (\<lambda>c fs. (\<lparr>ex_stdout = ''ok'', ex_stderr = [], ex_error = None, ex_elapsed = 5\<rparr>, fs))\<rparr>"

definition plan_job :: worker_job where
  "plan_job = sample_job\<lparr>job_repo_ref := (job_repo_ref sample_job)\<lparr>repo_name := ''w''\<rparr>,
     job_approval_policy := (job_approval_policy sample_job)\<lparr>approval_mode := Allow, sandbox_profile := Workspace_Write\<rparr>\<rparr>"

definition plan_of :: "bool \<Rightarrow> string list option \<Rightarrow> plan_call list \<Rightarrow> plan_output" where
  "plan_of dry allowed calls = \<lparr>pl_dry_run = Some dry, pl_allowed = allowed, pl_max_files = None, pl_max_bytes = None, pl_calls = calls,
     pl_json = Json_Null\<rparr>"

definition call_of :: "string \<Rightarrow> (string \<times> string) list \<Rightarrow> plan_call" where
  "call_of tool args = \<lparr>pc_tool = tool, pc_args = map (\<lambda>(k, s). (k, Json_Str s)) args\<rparr>"

definition patch_args :: "string \<Rightarrow> (string \<times> json) list" where
  "patch_args rep = [(''path'', Json_Str ''a''), (''locator'', Json_Str ''one''), (''replacement'', Json_Str rep)]"

lemmas plan_eval = plan_world_def plan_env_def plan_job_def plan_of_def call_of_def patch_args_def execute_def resolveExecutionOptions_def
  normalizeAllowedPaths_def limit_of_def parsePositiveInteger_def canWrite_def resolveWorkspaceRoot_def isSafeRepoDirectoryName_def basename_def
  validatePlanLimits_def writes_def resolveRepoPath_def resolve_def relative_def starts_with_def any_slash_def slash_def forward_slashes_def
  strip_end_slashes_def existsSync_def execute_call_def on_world_def map_get_def Let_def sample_job_def set_add_def

lemmas write_eval = applyPatchIntent_def patch_checked_def caught_def and_then_def check_def return_def throw_def readFileSync_def writeFileSync_def
  mkdirSync_def assertAllowedWritePath_def assertWriteSize_def indexOf_def lastIndexOf_def occurs_at_def js_replace_def done_op_def

lemma plan_options: "resolveExecutionOptions plan_env (plan_of dry allowed calls) plan_job =
    (case normalizeAllowedPaths allowed of Inl e \<Rightarrow> Inl e
     | Inr al \<Rightarrow> Inr \<lparr>eo_dry_run = dry, eo_allowed = al, eo_max_files = 5, eo_max_bytes = 204800\<rparr>)" if "allowed \<noteq> None"
  using that by (auto simp: plan_of_def plan_job_def plan_env_def resolveExecutionOptions_def limit_of_def parsePositiveInteger_def
      map_get_def sample_job_def split: sum.split)

lemma plan_workspace: "resolveWorkspaceRoot plan_env fs plan_job = Some [''w'']"
  by (simp add: plan_env_def plan_job_def resolveWorkspaceRoot_def isSafeRepoDirectoryName_def basename_def strip_end_slashes_def slash_def
      Let_def sample_job_def)

lemma plan_can_write: "canWrite plan_job"
  by (simp add: plan_job_def canWrite_def)

lemma patch_a: "\<exists>p as fs'. applyPatchIntent [''w''] \<lparr>eo_dry_run = False, eo_allowed = None, eo_max_files = 5, eo_max_bytes = 204800\<rparr> (patch_args rep) (w_fs plan_world)
    = ((p, as), fs') \<and> op_status p = Op_Applied \<and> fs_file fs' [''w'', ''a''] = Some (expand_pattern ''one'' [] '' two'' rep @ '' two'')"
  if "int (length (expand_pattern ''one'' [] '' two'' rep)) \<le> 200"
  using that by (simp add: write_eval patch_args_def plan_world_def resolveRepoPath_def resolve_def relative_def starts_with_def any_slash_def
      slash_def map_get_def Let_def upt_rec)

lemma patch_replaces_once_witness: "\<exists>fs'. fs_file fs' [''w'', ''a''] = Some ''1 two'' \<and>
    (\<exists>p as. applyPatchIntent [''w''] \<lparr>eo_dry_run = False, eo_allowed = None, eo_max_files = 5, eo_max_bytes = 204800\<rparr> (patch_args ''1'') (w_fs plan_world)
      = ((p, as), fs') \<and> op_status p = Op_Applied)"
proof -
  obtain p as fs' where r: "applyPatchIntent [''w''] \<lparr>eo_dry_run = False, eo_allowed = None, eo_max_files = 5, eo_max_bytes = 204800\<rparr> (patch_args ''1'') (w_fs plan_world)
      = ((p, as), fs')" "op_status p = Op_Applied" using patch_a [of "''1''"] by auto
  have "map_get (patch_args ''1'') ''locator'' = Some (Json_Str ''one'')" "map_get (patch_args ''1'') ''replacement'' = Some (Json_Str ''1'')"
    by (simp_all add: patch_args_def map_get_def)
  from patch_replaces_once [OF r this] obtain q a b where q: "resolveRepoPath [''w''] (map_get (patch_args ''1'') ''path'') = Inr q"
    "fs_file (w_fs plan_world) q = Some (a @ ''one'' @ b)" "\<forall>a' b'. a @ ''one'' @ b = a' @ ''one'' @ b' \<longrightarrow> a' = a"
    "fs_file fs' = (fs_file (w_fs plan_world))(q \<mapsto> a @ ''1'' @ b)" by auto
  from q(1) have "q = [''w'', ''a'']" by (simp add: patch_args_def map_get_def resolveRepoPath_def resolve_def any_slash_def slash_def Let_def split: if_splits)
  with q(2) have "a @ ''one'' @ b = [] @ ''one'' @ '' two''" by (simp add: plan_world_def)
  with q(3) have "[] = a" by blast
  with \<open>a @ ''one'' @ b = [] @ ''one'' @ '' two''\<close> \<open>q = [''w'', ''a'']\<close> q(4) have "fs_file fs' [''w'', ''a''] = Some ''1 two''" by auto
  with r show ?thesis by blast
qed

lemma patch_loses_dollar_witness: "\<exists>p as fs'. applyPatchIntent [''w''] \<lparr>eo_dry_run = False, eo_allowed = None, eo_max_files = 5, eo_max_bytes = 204800\<rparr>
    (patch_args ''cost: $$5'') (w_fs plan_world) = ((p, as), fs') \<and> op_status p = Op_Applied \<and>
    (\<exists>r a b. fs_file fs' r = Some (a @ ''cost: $5'' @ b))"
proof -
  obtain p as fs' where r: "applyPatchIntent [''w''] \<lparr>eo_dry_run = False, eo_allowed = None, eo_max_files = 5, eo_max_bytes = 204800\<rparr> (patch_args ''cost: $$5'') (w_fs plan_world)
      = ((p, as), fs')" "op_status p = Op_Applied" using patch_a [of "''cost: $$5''"] by auto
  have "map_get (patch_args ''cost: $$5'') ''locator'' = Some (Json_Str ''one'')"
    "map_get (patch_args ''cost: $$5'') ''replacement'' = Some (Json_Str (''cost: '' @ ''$$'' @ ''5''))"
    "CHR ''$'' \<notin> set ''cost: ''" "CHR ''$'' \<notin> set ''5''"
    by (simp_all add: patch_args_def map_get_def)
  from patch_loses_dollar [OF r this] obtain q a b where "fs_file fs' = (fs_file (w_fs plan_world))(q \<mapsto> a @ (''cost: '' @ ''$'' @ ''5'') @ b)" by auto
  then have "fs_file fs' q = Some (a @ ''cost: $5'' @ b)" by simp
  with r show ?thesis by blast
qed

definition write_call :: "string \<Rightarrow> string \<Rightarrow> plan_call" where
  "write_call p t = call_of ''write_file'' [(''path'', p), (''content'', t)]"

lemma writing_plan: "resolveExecutionOptions plan_env (plan_of False (Some []) [write_call ''b'' ''new'']) plan_job =
    Inr \<lparr>eo_dry_run = False, eo_allowed = None, eo_max_files = 5, eo_max_bytes = 204800\<rparr>"
  by (simp add: plan_options normalizeAllowedPaths_def)

lemma plan_writes_confined_witness: "\<exists>w'. w' = snd (execute plan_env (plan_of False (Some []) [write_call ''b'' ''new'']) plan_job plan_world) \<and>
    fs_file (w_fs w') [''w'', ''b''] = Some ''new'' \<and> may_write [''w''] \<lparr>eo_dry_run = False, eo_allowed = None, eo_max_files = 5, eo_max_bytes = 204800\<rparr> [''w'', ''b'']"
proof -
  let ?pl = "plan_of False (Some []) [write_call ''b'' ''new'']" and ?o = "\<lparr>eo_dry_run = False, eo_allowed = None, eo_max_files = 5, eo_max_bytes = 204800\<rparr>"
  let ?w' = "snd (execute plan_env ?pl plan_job plan_world)"
  have no: "list_all (\<lambda>c. \<not> starts_command c) (pl_calls ?pl)" by (simp add: plan_of_def write_call_def call_of_def starts_command_def)
  have lim: "validatePlanLimits ?pl [''w''] ?o = None"
    by (simp add: plan_of_def write_call_def call_of_def validatePlanLimits_def writes_def resolveRepoPath_def resolve_def relative_def
        starts_with_def any_slash_def slash_def forward_slashes_def map_get_def Let_def set_add_def)
  have dir: "artifact_dir [''w''] plan_job = [''w'', ''artifacts'', ''jobs'', ''job_1'']"
    by (simp add: artifact_dir_def plan_job_def sample_job_def slash_def)
  let ?gw = "foldl (\<lambda>gw c. execute_call plan_env [''w''] ?o c gw) (no_progress, plan_world) (pl_calls ?pl)"
  have run: "execute plan_env ?pl plan_job plan_world = finish_plan ?pl plan_job [''w''] ?o ?gw"
    by (simp add: execute_def writing_plan plan_workspace plan_can_write lim)
  have "fs_file (w_fs (snd ?gw)) [''w'', ''b''] = Some ''new''"
    by (simp add: plan_of_def write_call_def call_of_def execute_call_def on_world_def Let_def writeFile_def map_get_def resolveRepoPath_def resolve_def
        relative_def starts_with_def any_slash_def slash_def write_checked_def caught_def and_then_def check_def return_def assertAllowedWritePath_def
        assertWriteSize_def before_text_def existsSync_def plan_world_def mkdirSync_def ancestors_def writeFileSync_def done_op_def)
  moreover have "fs_file (w_fs ?w') [''w'', ''b''] = fs_file (w_fs (snd ?gw)) [''w'', ''b'']"
    using finish_plan_files [of ?pl plan_job "[''w'']" ?o ?gw "[''w'', ''b'']"] by (auto simp: run artifact_file_def dir)
  ultimately have f: "fs_file (w_fs ?w') [''w'', ''b''] = Some ''new''" by simp
  have "fs_file (w_fs ?w') [''w'', ''b''] \<noteq> fs_file (w_fs plan_world) [''w'', ''b'']" unfolding f by (simp add: plan_world_def)
  from plan_writes_confined [OF no refl this] have "may_write [''w''] ?o [''w'', ''b'']"
    by (auto simp: writing_plan plan_workspace artifact_file_def dir)
  with f show ?thesis by blast
qed

definition test_plan :: plan_output where
  "test_plan = plan_of False (Some []) [call_of ''run_command'' [(''command'', ''uv run pytest'')]]"

definition pytest :: command where
  "pytest = \<lparr>co_bin = ''uv'', co_args = [''run'', ''pytest''], co_cwd = [''w'']\<rparr>"

lemma pytest_tokens: "cd_match ''uv run pytest'' = None" "\<not> list_ex shell_meta ''uv run pytest''" "\<not> double_blank ''uv run pytest''"
  "split_on (\<lambda>c. c = CHR '' '') ''uv run pytest'' = [''uv'', ''run'', ''pytest'']"
  "\<not> list_ex (\<lambda>p. p = [] \<or> list_ex quote_char p) [''uv'', ''run'', ''pytest'']"
  "list_ex (\<lambda>pre. prefix pre [''uv'', ''run'', ''pytest'']) allowedPrefixes"
  by code_simp+

lemma pytest_resolved:
  assumes "cmd = ''uv run pytest''"
  shows "\<exists>sc. resolveSafeCommand plan_env fs cmd [(''command'', Json_Str cmd)] [''w''] = Inr sc \<and> sc_command sc = pytest"
proof -
  have "map_get [(''command'', Json_Str cmd)] ''cwd'' = None" by (simp add: map_get_def)
  moreover have "extractCommandAndCwd fs cmd None [''w''] = Inr (cmd, [''w''])"
    by (simp add: extractCommandAndCwd_def resolveCommandCwd_def pytest_tokens(1) [folded assms])
  moreover have "cmd \<noteq> []" using assms by simp
  ultimately show ?thesis
    by (simp add: resolveSafeCommand_def Let_def pytest_tokens(2-6) [folded assms] pytest_def normalizeCommandBin_def plan_env_def quote_char_def)
qed

lemma test_plan_log: "w_log (snd (execute plan_env test_plan plan_job plan_world)) = [pytest]"
proof -
  let ?o = "\<lparr>eo_dry_run = False, eo_allowed = None, eo_max_files = 5, eo_max_bytes = 204800\<rparr>"
  let ?args = "[(''command'', Json_Str ''uv run pytest'')]"
  have o: "resolveExecutionOptions plan_env test_plan plan_job = Inr ?o" by (simp add: test_plan_def plan_options normalizeAllowedPaths_def)
  have lim: "validatePlanLimits test_plan [''w''] ?o = None"
    by (simp add: test_plan_def plan_of_def call_of_def validatePlanLimits_def writes_def)
  have "js_trim ''uv run pytest'' = ''uv run pytest''" by code_simp
  then have ct: "command_text ?args = ''uv run pytest''" by (simp add: command_text_def map_get_def)
  obtain sc where sc: "resolveSafeCommand plan_env (w_fs plan_world) ''uv run pytest'' ?args [''w''] = Inr sc" "sc_command sc = pytest"
    using pytest_resolved [OF refl] by blast
  have "snd (runCommand plan_env [''w''] ?args plan_world) = snd (run_exec plan_env pytest plan_world)"
    unfolding runCommand_log ct sc(1) sum.case sc(2) ..
  moreover have "snd (execute_call plan_env [''w''] ?o (call_of ''run_command'' [(''command'', ''uv run pytest'')]) (no_progress, plan_world)) =
      snd (runCommand plan_env [''w''] ?args plan_world)"
    by (simp add: execute_call_def call_of_def Let_def split: prod.split)
  ultimately have "w_log (snd (execute_call plan_env [''w''] ?o (call_of ''run_command'' [(''command'', ''uv run pytest'')]) (no_progress, plan_world))) = [pytest]"
    by (simp add: run_exec_log plan_world_def)
  moreover have "pl_calls test_plan = [call_of ''run_command'' [(''command'', ''uv run pytest'')]]" by (simp add: test_plan_def plan_of_def)
  ultimately show ?thesis by (simp add: execute_def o plan_workspace plan_can_write lim finish_plan_log)
qed


lemma dry_run_starts_commands_witness:
  "w_log (snd (execute plan_env (test_plan\<lparr>pl_dry_run := Some True\<rparr>) plan_job plan_world)) = [pytest]"
proof -
  have "list_all starts_command (pl_calls test_plan)" by (simp add: test_plan_def plan_of_def call_of_def starts_command_def)
  from dry_run_starts_commands [OF this, of plan_env plan_job plan_world] have
    "w_log (snd (execute plan_env (test_plan\<lparr>pl_dry_run := Some True\<rparr>) plan_job plan_world)) =
     w_log (snd (execute plan_env (test_plan\<lparr>pl_dry_run := Some False\<rparr>) plan_job plan_world))" .
  moreover have "test_plan\<lparr>pl_dry_run := Some False\<rparr> = test_plan" by (simp add: test_plan_def plan_of_def)
  ultimately show ?thesis by (simp add: test_plan_log)
qed

lemma plan_lifts_path_limits_witness: "fs_file (w_fs (snd (execute plan_env (plan_of False (Some []) [write_call ''b'' ''new''])
    (plan_job\<lparr>job_metadata := map_set (job_metadata plan_job) ''tool_plan_allowed_paths'' (J_Str ''src'')\<rparr>) plan_world))) =
    fs_file (w_fs (snd (execute plan_env (plan_of False (Some []) [write_call ''b'' ''new'']) plan_job plan_world)))"
proof -
  have "pl_allowed (plan_of False (Some []) [write_call ''b'' ''new'']) = Some []" by (simp add: plan_of_def)
  from plan_lifts_path_limits [OF this] show ?thesis by simp
qed

end
