(* ===== verification/Agent_Tasks.thy ===== *)
theory Agent_Tasks
  imports Task_Model
begin

text \<open>
  The package \<open>packages/agent-taskstate-js\<close>: its types, the memory backend, the services for state transitions, context bundles and tasks,
  and the adapter \<open>src/domain/taskstate/taskstate-integration.ts\<close> through which the control plane uses it. An asynchronous method is a
  function on the state of the backend; where two calls can run interleaved the parts between the awaits are named
  (\<open>prepare_transition\<close>, \<open>addTransition\<close>, \<open>put_task\<close>). The values of \<open>generateId\<close> are arguments.
\<close>

subsection \<open>Types\<close>

datatype agent_actor = By_Human | By_Agent | By_System
datatype agent_kind = Bugfix | Feature | Research
datatype agent_priority = Low_Priority | Medium_Priority | High_Priority | Critical_Priority

record agent_task =
  ag_id :: string
  ag_kind :: agent_kind
  ag_title :: string
  ag_goal :: string
  ag_status :: agent_state
  ag_priority :: agent_priority
  ag_owner_type :: agent_actor
  ag_owner_id :: string
  ag_revision :: int
  ag_created :: time
  ag_updated :: time
  ag_completed :: "time option"

record state_transition =
  tn_id :: string
  tn_task :: string
  tn_from :: "agent_state option"
  tn_to :: agent_state
  tn_reason :: string
  tn_actor :: agent_actor
  tn_actor_id :: "string option"
  tn_run :: "string option"
  tn_at :: time

datatype decision_status = Pending_Decision | Accepted_Decision | Rejected_Decision

record agent_decision =
  dn_id :: string
  dn_task :: string
  dn_question :: string
  dn_options :: "string list"
  dn_chosen :: "string option"
  dn_rationale :: "string option"
  dn_status :: decision_status
  dn_created :: time
  dn_updated :: time

datatype question_status = Open_Question | Answered_Question | Deferred_Question

record open_question =
  qn_id :: string
  qn_task :: string
  qn_question :: string
  qn_answer :: "string option"
  qn_status :: question_status
  qn_created :: time
  qn_updated :: time

datatype agent_run_status = Run_Running | Run_Finished | Run_Failed

record agent_run =
  rn_id :: string
  rn_task :: string
  rn_started :: time
  rn_finished :: "time option"
  rn_status :: agent_run_status
  rn_error :: "string option"

datatype bundle_purpose = Continue_Work | Review_Prepare | Resume_After_Block | Decision_Support | Other_Purpose
datatype rebuild_level = L1 | L2 | L3
datatype source_kind = Src_Task | Src_Decision | Src_Open_Question | Src_Evidence | Src_Artifact | Src_Run | Src_Tracker_Issue

record bundle_source =
  bs_id :: string
  bs_bundle :: string
  bs_ref :: string
  bs_kind :: source_kind
  bs_raw :: bool
  bs_metadata :: "json option"
  bs_created :: time

text \<open>The snapshot and the digests have a fixed shape; they are records instead of JSON objects.\<close>

record state_snapshot =
  sn_task :: agent_task
  sn_transition_count :: int
  sn_current_state :: agent_state
  sn_last_transition :: "state_transition option"
  sn_run_count :: int
  sn_latest_run :: "agent_run option"

record decision_digest =
  dg_total :: int
  dg_pending :: int
  dg_accepted :: int
  dg_decisions :: "agent_decision list"

record question_digest =
  qg_total :: int
  qg_open :: int
  qg_answered :: int
  qg_questions :: "open_question list"

record agent_bundle =
  cb_id :: string
  cb_task :: string
  cb_purpose :: bundle_purpose
  cb_level :: rebuild_level
  cb_summary :: "string option"
  cb_snapshot :: state_snapshot
  cb_decisions :: "decision_digest option"
  cb_questions :: "question_digest option"
  cb_diagnostics :: "json option"
  cb_raw :: bool
  cb_version :: string
  cb_generated :: time
  cb_created :: time
  cb_sources :: "bundle_source list"

record create_task_request =
  cq_kind :: agent_kind
  cq_title :: string
  cq_goal :: string
  cq_priority :: "agent_priority option"
  cq_owner_type :: "agent_actor option"
  cq_owner_id :: "string option"

record transition_request =
  tr_to :: agent_state
  tr_reason :: string
  tr_actor :: agent_actor
  tr_actor_id :: "string option"
  tr_run :: "string option"

subsection \<open>The memory backend\<close>

record agent_store =
  as_tasks :: "(string, agent_task) jsmap"
  as_transitions :: "(string, state_transition list) jsmap"
  as_decisions :: "(string, agent_decision) jsmap"
  as_questions :: "(string, open_question) jsmap"
  as_runs :: "(string, agent_run) jsmap"
  as_bundles :: "(string, agent_bundle) jsmap"
  as_sources :: "(string, bundle_source list) jsmap"

definition empty_store :: agent_store where
  "empty_store = \<lparr>as_tasks = [], as_transitions = [], as_decisions = [], as_questions = [], as_runs = [], as_bundles = [], as_sources = []\<rparr>"

definition getTask :: "agent_store \<Rightarrow> string \<Rightarrow> agent_task option" where
  "getTask s tid = map_get (as_tasks s) tid"

text \<open>\<open>createTask\<close> and \<open>updateTask\<close> of the backend have the same body.\<close>

definition put_task :: "agent_task \<Rightarrow> agent_store \<Rightarrow> agent_store" where
  "put_task t s = s\<lparr>as_tasks := map_set (as_tasks s) (ag_id t) t\<rparr>"

definition backend_deleteTask :: "string \<Rightarrow> agent_store \<Rightarrow> agent_store" where
  "backend_deleteTask tid s = s\<lparr>as_tasks := map_delete (as_tasks s) tid, as_transitions := map_delete (as_transitions s) tid,
     as_decisions := filter (\<lambda>(k, d). dn_task d \<noteq> tid) (as_decisions s), as_questions := filter (\<lambda>(k, q). qn_task q \<noteq> tid) (as_questions s),
     as_runs := filter (\<lambda>(k, r). rn_task r \<noteq> tid) (as_runs s), as_bundles := filter (\<lambda>(k, b). cb_task b \<noteq> tid) (as_bundles s),
     as_sources := foldl map_delete (as_sources s) (map fst (filter (\<lambda>(k, b). cb_task b = tid) (as_bundles s)))\<rparr>"

record task_filter =
  tf_status :: "agent_state list option"
  tf_owner_id :: "string option"
  tf_owner_type :: "agent_actor option"
  tf_kind :: "agent_kind list option"
  tf_priority :: "agent_priority list option"
  tf_offset :: "int option"
  tf_limit :: "int option"

definition opt_filter :: "('b \<Rightarrow> 'a \<Rightarrow> bool) \<Rightarrow> 'b option \<Rightarrow> 'a list \<Rightarrow> 'a list" where
  "opt_filter P c xs = (case c of Some b \<Rightarrow> filter (P b) xs | None \<Rightarrow> xs)"

definition listTasks :: "task_filter option \<Rightarrow> agent_store \<Rightarrow> agent_task list" where
  "listTasks flt s = (let all = map_values (as_tasks s) in case flt of None \<Rightarrow> all
    | Some f \<Rightarrow>
      let r1 = opt_filter (\<lambda>sts t. ag_status t \<in> set sts) (tf_status f) all;
        r2 = (if falsy (tf_owner_id f) then r1 else filter (\<lambda>t. Some (ag_owner_id t) = tf_owner_id f) r1);
        r3 = opt_filter (\<lambda>ty t. ag_owner_type t = ty) (tf_owner_type f) r2;
        r4 = opt_filter (\<lambda>ks t. ag_kind t \<in> set ks) (tf_kind f) r3;
        r5 = opt_filter (\<lambda>ps t. ag_priority t \<in> set ps) (tf_priority f) r4;
        r6 = (case tf_offset f of Some n \<Rightarrow> slice_from n r5 | None \<Rightarrow> r5)
      in case tf_limit f of Some n \<Rightarrow> slice_to n r6 | None \<Rightarrow> r6)"

definition getTransitions :: "agent_store \<Rightarrow> string \<Rightarrow> state_transition list" where
  "getTransitions s tid = (case map_get (as_transitions s) tid of Some l \<Rightarrow> l | None \<Rightarrow> [])"

definition addTransition :: "state_transition \<Rightarrow> agent_store \<Rightarrow> agent_store" where
  "addTransition tn s = s\<lparr>as_transitions := map_set (as_transitions s) (tn_task tn) (getTransitions s (tn_task tn) @ [tn])\<rparr>"

definition put_decision :: "agent_decision \<Rightarrow> agent_store \<Rightarrow> agent_store" where
  "put_decision d s = s\<lparr>as_decisions := map_set (as_decisions s) (dn_id d) d\<rparr>"

definition getDecision :: "agent_store \<Rightarrow> string \<Rightarrow> agent_decision option" where
  "getDecision s did = map_get (as_decisions s) did"

definition getDecisions :: "agent_store \<Rightarrow> string \<Rightarrow> agent_decision list" where
  "getDecisions s tid = filter (\<lambda>d. dn_task d = tid) (map_values (as_decisions s))"

definition put_question :: "open_question \<Rightarrow> agent_store \<Rightarrow> agent_store" where
  "put_question q s = s\<lparr>as_questions := map_set (as_questions s) (qn_id q) q\<rparr>"

definition getQuestion :: "agent_store \<Rightarrow> string \<Rightarrow> open_question option" where
  "getQuestion s qid = map_get (as_questions s) qid"

definition getQuestions :: "agent_store \<Rightarrow> string \<Rightarrow> open_question list" where
  "getQuestions s tid = filter (\<lambda>q. qn_task q = tid) (map_values (as_questions s))"

definition put_run :: "agent_run \<Rightarrow> agent_store \<Rightarrow> agent_store" where
  "put_run r s = s\<lparr>as_runs := map_set (as_runs s) (rn_id r) r\<rparr>"

definition getRun :: "agent_store \<Rightarrow> string \<Rightarrow> agent_run option" where
  "getRun s rid = map_get (as_runs s) rid"

definition getRuns :: "agent_store \<Rightarrow> string \<Rightarrow> agent_run list" where
  "getRuns s tid = filter (\<lambda>r. rn_task r = tid) (map_values (as_runs s))"

definition put_bundle :: "agent_bundle \<Rightarrow> agent_store \<Rightarrow> agent_store" where
  "put_bundle b s = s\<lparr>as_bundles := map_set (as_bundles s) (cb_id b) b, as_sources := map_set (as_sources s) (cb_id b) (cb_sources b)\<rparr>"

definition sources_of :: "agent_store \<Rightarrow> string \<Rightarrow> bundle_source list" where
  "sources_of s bid = (case map_get (as_sources s) bid of Some l \<Rightarrow> l | None \<Rightarrow> [])"

definition getBundle :: "agent_store \<Rightarrow> string \<Rightarrow> agent_bundle option" where
  "getBundle s bid = map_option (\<lambda>b. b\<lparr>cb_sources := sources_of s bid\<rparr>) (map_get (as_bundles s) bid)"

definition getBundles :: "agent_store \<Rightarrow> string \<Rightarrow> agent_bundle list" where
  "getBundles s tid = map (\<lambda>b. b\<lparr>cb_sources := sources_of s (cb_id b)\<rparr>) (filter (\<lambda>b. cb_task b = tid) (map_values (as_bundles s)))"

definition addBundleSource :: "bundle_source \<Rightarrow> agent_store \<Rightarrow> agent_store" where
  "addBundleSource x s = s\<lparr>as_sources := map_set (as_sources s) (bs_bundle x) (sources_of s (bs_bundle x) @ [x])\<rparr>"

subsection \<open>State transitions\<close>

type_synonym 'a agent_outcome = "(string, 'a, agent_store) outcome"

fun VALID_TRANSITIONS :: "agent_state \<Rightarrow> agent_state list" where
  "VALID_TRANSITIONS A_Proposed = [A_Proposed, A_Ready, A_In_Progress, A_Blocked, A_Review, A_Cancelled]"
| "VALID_TRANSITIONS A_Ready = [A_Ready, A_Proposed, A_In_Progress, A_Blocked, A_Review, A_Cancelled]"
| "VALID_TRANSITIONS A_In_Progress = [A_In_Progress, A_Proposed, A_Ready, A_Blocked, A_Review, A_Done, A_Cancelled]"
| "VALID_TRANSITIONS A_Blocked = [A_Blocked, A_Proposed, A_Ready, A_In_Progress, A_Review, A_Cancelled]"
| "VALID_TRANSITIONS A_Review = [A_Review, A_Proposed, A_Ready, A_In_Progress, A_Blocked, A_Done, A_Cancelled]"
| "VALID_TRANSITIONS A_Done = [A_Done, A_Review, A_In_Progress]"
| "VALID_TRANSITIONS A_Cancelled = [A_Cancelled, A_Proposed, A_Ready]"

definition isValidTransition :: "agent_state option \<Rightarrow> agent_state \<Rightarrow> bool" where
  "isValidTransition from to = (case from of None \<Rightarrow> to = A_Proposed | Some f \<Rightarrow> to \<in> set (VALID_TRANSITIONS f))"

definition getValidTargetStates :: "agent_state \<Rightarrow> agent_state list" where
  "getValidTargetStates from = VALID_TRANSITIONS from"

fun agent_state_name :: "agent_state \<Rightarrow> string" where
  "agent_state_name A_Proposed = ''proposed''"
| "agent_state_name A_Ready = ''ready''"
| "agent_state_name A_In_Progress = ''in_progress''"
| "agent_state_name A_Blocked = ''blocked''"
| "agent_state_name A_Review = ''review''"
| "agent_state_name A_Done = ''done''"
| "agent_state_name A_Cancelled = ''cancelled''"

definition invalid_transition :: "agent_state \<Rightarrow> agent_state \<Rightarrow> string" where
  "invalid_transition from to = ''Invalid transition from '' @ [CHR 0x27] @ agent_state_name from @ [CHR 0x27] @ '' to '' @ [CHR 0x27] @
     agent_state_name to @ [CHR 0x27] @ ''. Valid targets: '' @ js_join '', '' (map agent_state_name (getValidTargetStates from))"

definition not_found :: "string \<Rightarrow> string \<Rightarrow> string" where
  "not_found what i = what @ '' not found: '' @ i"

text \<open>The part of \<open>transition\<close> up to its first write: the task is read and the record and the new task are made.\<close>

definition prepare_transition :: "time \<Rightarrow> string \<Rightarrow> string \<Rightarrow> transition_request \<Rightarrow> agent_store \<Rightarrow> string + (state_transition \<times> agent_task)" where
  "prepare_transition now gid tid r s = (case getTask s tid of None \<Rightarrow> Inl (not_found ''Task'' tid)
     | Some t \<Rightarrow>
       if \<not> isValidTransition (Some (ag_status t)) (tr_to r) then Inl (invalid_transition (ag_status t) (tr_to r))
       else Inr (\<lparr>tn_id = gid, tn_task = tid, tn_from = Some (ag_status t), tn_to = tr_to r, tn_reason = tr_reason r, tn_actor = tr_actor r,
                tn_actor_id = tr_actor_id r, tn_run = tr_run r, tn_at = now\<rparr>,
              t\<lparr>ag_status := tr_to r, ag_revision := ag_revision t + 1, ag_updated := now,
                ag_completed := (if tr_to r = A_Done \<or> tr_to r = A_Cancelled then Some now else ag_completed t)\<rparr>))"

definition transition :: "time \<Rightarrow> string \<Rightarrow> string \<Rightarrow> transition_request \<Rightarrow> agent_store \<Rightarrow> state_transition agent_outcome" where
  "transition now gid tid r s = (case prepare_transition now gid tid r s of Inl e \<Rightarrow> (Inl e, s)
     | Inr (tn, t) \<Rightarrow> (Inr tn, put_task t (addTransition tn s)))"

definition getHistory :: "agent_store \<Rightarrow> string \<Rightarrow> state_transition list" where
  "getHistory s tid = getTransitions s tid"

definition getCurrentState :: "agent_store \<Rightarrow> string \<Rightarrow> agent_state option" where
  "getCurrentState s tid = map_option ag_status (getTask s tid)"

definition agent_isTerminal :: "agent_store \<Rightarrow> string \<Rightarrow> bool" where
  "agent_isTerminal s tid = (let st = getCurrentState s tid in st = Some A_Done \<or> st = Some A_Cancelled)"

definition propose :: "time \<Rightarrow> string \<Rightarrow> agent_task \<Rightarrow> agent_store \<Rightarrow> agent_task agent_outcome" where
  "propose now gid task s =
     (let new = task\<lparr>ag_status := A_Proposed, ag_revision := 1, ag_created := now, ag_updated := now\<rparr>
      in (Inr new, addTransition \<lparr>tn_id = gid, tn_task = ag_id task, tn_from = None, tn_to = A_Proposed, tn_reason = ''Task created'',
            tn_actor = By_System, tn_actor_id = None, tn_run = None, tn_at = now\<rparr> (put_task new s)))"

definition move_request :: "agent_state \<Rightarrow> string \<Rightarrow> agent_actor \<Rightarrow> string option \<Rightarrow> string option \<Rightarrow> transition_request" where
  "move_request to reason actor aid run = \<lparr>tr_to = to, tr_reason = reason, tr_actor = actor, tr_actor_id = aid, tr_run = run\<rparr>"

definition markReady :: "time \<Rightarrow> string \<Rightarrow> string \<Rightarrow> agent_actor \<Rightarrow> string option \<Rightarrow> string option \<Rightarrow> agent_store \<Rightarrow> state_transition agent_outcome" where
  "markReady now gid tid actor aid reason = transition now gid tid
     (move_request A_Ready (case reason of Some r \<Rightarrow> r | None \<Rightarrow> ''Task marked as ready'') actor aid None)"

definition startWork :: "time \<Rightarrow> string \<Rightarrow> string \<Rightarrow> agent_actor \<Rightarrow> string option \<Rightarrow> string option \<Rightarrow> agent_store \<Rightarrow> state_transition agent_outcome" where
  "startWork now gid tid actor aid run = transition now gid tid (move_request A_In_Progress ''Work started'' actor aid run)"

definition agent_block :: "time \<Rightarrow> string \<Rightarrow> string \<Rightarrow> string \<Rightarrow> agent_actor \<Rightarrow> string option \<Rightarrow> agent_store \<Rightarrow> state_transition agent_outcome" where
  "agent_block now gid tid reason actor aid = transition now gid tid (move_request A_Blocked reason actor aid None)"

definition unblock :: "time \<Rightarrow> string \<Rightarrow> string \<Rightarrow> string \<Rightarrow> agent_actor \<Rightarrow> string option \<Rightarrow> string option \<Rightarrow> agent_store \<Rightarrow> state_transition agent_outcome" where
  "unblock now gid tid reason actor aid run = transition now gid tid (move_request A_In_Progress reason actor aid run)"

definition submitForReview :: "time \<Rightarrow> string \<Rightarrow> string \<Rightarrow> agent_actor \<Rightarrow> string option \<Rightarrow> string option \<Rightarrow> agent_store \<Rightarrow> state_transition agent_outcome" where
  "submitForReview now gid tid actor aid run = transition now gid tid (move_request A_Review ''Submitted for review'' actor aid run)"

definition agent_complete :: "time \<Rightarrow> string \<Rightarrow> string \<Rightarrow> string \<Rightarrow> agent_actor \<Rightarrow> string option \<Rightarrow> agent_store \<Rightarrow> state_transition agent_outcome" where
  "agent_complete now gid tid reason actor aid = transition now gid tid (move_request A_Done reason actor aid None)"

definition requestChanges :: "time \<Rightarrow> string \<Rightarrow> string \<Rightarrow> string \<Rightarrow> agent_actor \<Rightarrow> string option \<Rightarrow> agent_store \<Rightarrow> state_transition agent_outcome" where
  "requestChanges now gid tid reason actor aid =
     transition now gid tid (move_request A_In_Progress (''Changes requested: '' @ reason) actor aid None)"

definition agent_cancel :: "time \<Rightarrow> string \<Rightarrow> string \<Rightarrow> string \<Rightarrow> agent_actor \<Rightarrow> string option \<Rightarrow> agent_store \<Rightarrow> state_transition agent_outcome" where
  "agent_cancel now gid tid reason actor aid = transition now gid tid (move_request A_Cancelled reason actor aid None)"

subsection \<open>Context bundles\<close>

definition buildStateSnapshot :: "agent_task \<Rightarrow> state_transition list \<Rightarrow> agent_run list \<Rightarrow> state_snapshot" where
  "buildStateSnapshot t tns runs = \<lparr>sn_task = t, sn_transition_count = int (length tns), sn_current_state = ag_status t,
     sn_last_transition = (if tns = [] then None else Some (last tns)), sn_run_count = int (length runs),
     sn_latest_run = (case runs of r # _ \<Rightarrow> Some r | [] \<Rightarrow> None)\<rparr>"

definition buildDecisionDigest :: "agent_decision list \<Rightarrow> decision_digest option" where
  "buildDecisionDigest ds = (if ds = [] then None else
     Some \<lparr>dg_total = int (length ds), dg_pending = int (length (filter (\<lambda>d. dn_status d = Pending_Decision) ds)),
       dg_accepted = int (length (filter (\<lambda>d. dn_status d = Accepted_Decision) ds)), dg_decisions = ds\<rparr>)"

definition buildQuestionDigest :: "open_question list \<Rightarrow> question_digest option" where
  "buildQuestionDigest qs = (if qs = [] then None else
     Some \<lparr>qg_total = int (length qs), qg_open = int (length (filter (\<lambda>q. qn_status q = Open_Question) qs)),
       qg_answered = int (length (filter (\<lambda>q. qn_status q = Answered_Question) qs)), qg_questions = qs\<rparr>)"

text \<open>The identifiers of the sources are drawn one by one; \<open>ids i\<close> is the one of the source at position \<open>i\<close>.\<close>

definition source_refs :: "string \<Rightarrow> agent_decision list \<Rightarrow> open_question list \<Rightarrow> agent_run list \<Rightarrow> (source_kind \<times> string) list" where
  "source_refs tid ds qs rs = (Src_Task, ''task:'' @ tid) # map (\<lambda>d. (Src_Decision, ''decision:'' @ dn_id d)) ds @
     map (\<lambda>q. (Src_Open_Question, ''open_question:'' @ qn_id q)) qs @ map (\<lambda>r. (Src_Run, ''run:'' @ rn_id r)) rs"

definition buildSources :: "time \<Rightarrow> (nat \<Rightarrow> string) \<Rightarrow> string \<Rightarrow> agent_decision list \<Rightarrow> open_question list \<Rightarrow> agent_run list \<Rightarrow> bundle_source list" where
  "buildSources now ids tid ds qs rs = (let refs = source_refs tid ds qs rs in
     map (\<lambda>i. \<lparr>bs_id = ids i, bs_bundle = [], bs_ref = snd (refs ! i), bs_kind = fst (refs ! i), bs_raw = False, bs_metadata = None,
       bs_created = now\<rparr>) [0..<length refs])"

record bundle_options =
  bo_summary :: "string option"
  bo_raw :: "bool option"

definition createBundle :: "string \<Rightarrow> time \<Rightarrow> string \<Rightarrow> (nat \<Rightarrow> string) \<Rightarrow> string \<Rightarrow> bundle_purpose \<Rightarrow> rebuild_level option \<Rightarrow> bundle_options option \<Rightarrow>
    agent_store \<Rightarrow> agent_bundle agent_outcome" where
  "createBundle gv now bid ids tid purpose level opts s = (case getTask s tid of None \<Rightarrow> (Inl (not_found ''Task'' tid), s)
     | Some t \<Rightarrow>
       let tns = getTransitions s tid; ds = getDecisions s tid; qs = getQuestions s tid; rs = getRuns s tid;
         b = \<lparr>cb_id = bid, cb_task = tid, cb_purpose = purpose, cb_level = (case level of Some l \<Rightarrow> l | None \<Rightarrow> L2),
           cb_summary = Option.bind opts bo_summary, cb_snapshot = buildStateSnapshot t tns rs, cb_decisions = buildDecisionDigest ds,
           cb_questions = buildQuestionDigest qs, cb_diagnostics = None, cb_raw = (case Option.bind opts bo_raw of Some r \<Rightarrow> r | None \<Rightarrow> False),
           cb_version = gv, cb_generated = now, cb_created = now, cb_sources = buildSources now ids tid ds qs rs\<rparr>
       in (Inr b, put_bundle b s))"

definition getLatestBundle :: "agent_store \<Rightarrow> string \<Rightarrow> agent_bundle option" where
  "getLatestBundle s tid = (case getBundles s tid of [] \<Rightarrow> None | b # _ \<Rightarrow> Some b)"

definition addSource :: "time \<Rightarrow> string \<Rightarrow> string \<Rightarrow> string \<Rightarrow> source_kind \<Rightarrow> bool option \<Rightarrow> json option \<Rightarrow> agent_store \<Rightarrow> bundle_source agent_outcome" where
  "addSource now gid bid tref kind raw meta s = (case getBundle s bid of None \<Rightarrow> (Inl (not_found ''Bundle'' bid), s)
     | Some _ \<Rightarrow> let x = \<lparr>bs_id = gid, bs_bundle = bid, bs_ref = tref, bs_kind = kind,
           bs_raw = (case raw of Some r \<Rightarrow> r | None \<Rightarrow> False), bs_metadata = meta, bs_created = now\<rparr>
       in (Inr x, addBundleSource x s))"

subsection \<open>The task service\<close>

definition agent_createTask :: "time \<Rightarrow> string \<Rightarrow> string \<Rightarrow> create_task_request \<Rightarrow> agent_store \<Rightarrow> agent_task agent_outcome" where
  "agent_createTask now gid gid' r = propose now gid' \<lparr>ag_id = ''task-'' @ gid, ag_kind = cq_kind r, ag_title = cq_title r, ag_goal = cq_goal r,
     ag_status = A_Proposed, ag_priority = (case cq_priority r of Some p \<Rightarrow> p | None \<Rightarrow> Medium_Priority),
     ag_owner_type = (case cq_owner_type r of Some a \<Rightarrow> a | None \<Rightarrow> By_System),
     ag_owner_id = (case cq_owner_id r of Some i \<Rightarrow> i | None \<Rightarrow> ''default''), ag_revision = 1, ag_created = now, ag_updated = now, ag_completed = None\<rparr>"

record task_patch =
  tp_title :: "string option"
  tp_goal :: "string option"
  tp_priority :: "agent_priority option"
  tp_owner_type :: "agent_actor option"
  tp_owner_id :: "string option"

definition patched :: "time \<Rightarrow> task_patch \<Rightarrow> agent_task \<Rightarrow> agent_task" where
  "patched now p t = t\<lparr>ag_title := (case tp_title p of Some x \<Rightarrow> x | None \<Rightarrow> ag_title t), ag_goal := (case tp_goal p of Some x \<Rightarrow> x | None \<Rightarrow> ag_goal t),
     ag_priority := (case tp_priority p of Some x \<Rightarrow> x | None \<Rightarrow> ag_priority t),
     ag_owner_type := (case tp_owner_type p of Some x \<Rightarrow> x | None \<Rightarrow> ag_owner_type t),
     ag_owner_id := (case tp_owner_id p of Some x \<Rightarrow> x | None \<Rightarrow> ag_owner_id t), ag_revision := ag_revision t + 1, ag_updated := now\<rparr>"

definition agent_updateTask :: "time \<Rightarrow> string \<Rightarrow> task_patch \<Rightarrow> agent_store \<Rightarrow> agent_task agent_outcome" where
  "agent_updateTask now tid p s = (case getTask s tid of None \<Rightarrow> (Inl (not_found ''Task'' tid), s)
     | Some t \<Rightarrow> (Inr (patched now p t), put_task (patched now p t) s))"

definition agent_deleteTask :: "string \<Rightarrow> agent_store \<Rightarrow> unit agent_outcome" where
  "agent_deleteTask tid s = (Inr (), backend_deleteTask tid s)"

definition createDecision :: "time \<Rightarrow> string \<Rightarrow> string \<Rightarrow> string \<Rightarrow> string list \<Rightarrow> agent_store \<Rightarrow> agent_decision agent_outcome" where
  "createDecision now gid tid question options s = (case getTask s tid of None \<Rightarrow> (Inl (not_found ''Task'' tid), s)
     | Some _ \<Rightarrow> let d = \<lparr>dn_id = ''decision-'' @ gid, dn_task = tid, dn_question = question, dn_options = options, dn_chosen = None,
           dn_rationale = None, dn_status = Pending_Decision, dn_created = now, dn_updated = now\<rparr> in (Inr d, put_decision d s))"

definition invalid_option :: "string \<Rightarrow> string list \<Rightarrow> string" where
  "invalid_option chosen options = ''Invalid option '' @ [CHR 0x27] @ chosen @ [CHR 0x27] @ ''. Valid options: '' @ js_join '', '' options"

definition resolveDecision :: "time \<Rightarrow> string \<Rightarrow> string \<Rightarrow> string option \<Rightarrow> agent_store \<Rightarrow> agent_decision agent_outcome" where
  "resolveDecision now did chosen rationale s = (case getDecision s did of None \<Rightarrow> (Inl (not_found ''Decision'' did), s)
     | Some d \<Rightarrow> if chosen \<notin> set (dn_options d) then (Inl (invalid_option chosen (dn_options d)), s)
       else let d' = d\<lparr>dn_chosen := Some chosen, dn_rationale := rationale, dn_status := Accepted_Decision, dn_updated := now\<rparr>
         in (Inr d', put_decision d' s))"

definition rejectDecision :: "time \<Rightarrow> string \<Rightarrow> string \<Rightarrow> agent_store \<Rightarrow> agent_decision agent_outcome" where
  "rejectDecision now did rationale s = (case getDecision s did of None \<Rightarrow> (Inl (not_found ''Decision'' did), s)
     | Some d \<Rightarrow> let d' = d\<lparr>dn_rationale := Some rationale, dn_status := Rejected_Decision, dn_updated := now\<rparr> in (Inr d', put_decision d' s))"

definition createQuestion :: "time \<Rightarrow> string \<Rightarrow> string \<Rightarrow> string \<Rightarrow> agent_store \<Rightarrow> open_question agent_outcome" where
  "createQuestion now gid tid question s = (case getTask s tid of None \<Rightarrow> (Inl (not_found ''Task'' tid), s)
     | Some _ \<Rightarrow> let q = \<lparr>qn_id = ''question-'' @ gid, qn_task = tid, qn_question = question, qn_answer = None, qn_status = Open_Question,
           qn_created = now, qn_updated = now\<rparr> in (Inr q, put_question q s))"

definition answerQuestion :: "time \<Rightarrow> string \<Rightarrow> string \<Rightarrow> agent_store \<Rightarrow> open_question agent_outcome" where
  "answerQuestion now qid answer s = (case getQuestion s qid of None \<Rightarrow> (Inl (not_found ''Question'' qid), s)
     | Some q \<Rightarrow> let q' = q\<lparr>qn_answer := Some answer, qn_status := Answered_Question, qn_updated := now\<rparr> in (Inr q', put_question q' s))"

definition deferQuestion :: "time \<Rightarrow> string \<Rightarrow> agent_store \<Rightarrow> open_question agent_outcome" where
  "deferQuestion now qid s = (case getQuestion s qid of None \<Rightarrow> (Inl (not_found ''Question'' qid), s)
     | Some q \<Rightarrow> let q' = q\<lparr>qn_status := Deferred_Question, qn_updated := now\<rparr> in (Inr q', put_question q' s))"

definition startRun :: "time \<Rightarrow> string \<Rightarrow> string \<Rightarrow> agent_store \<Rightarrow> agent_run agent_outcome" where
  "startRun now gid tid s = (case getTask s tid of None \<Rightarrow> (Inl (not_found ''Task'' tid), s)
     | Some _ \<Rightarrow> let r = \<lparr>rn_id = ''run-'' @ gid, rn_task = tid, rn_started = now, rn_finished = None, rn_status = Run_Running, rn_error = None\<rparr>
       in (Inr r, put_run r s))"

definition finishRun :: "time \<Rightarrow> string \<Rightarrow> agent_store \<Rightarrow> agent_run agent_outcome" where
  "finishRun now rid s = (case getRun s rid of None \<Rightarrow> (Inl (not_found ''Run'' rid), s)
     | Some r \<Rightarrow> let r' = r\<lparr>rn_finished := Some now, rn_status := Run_Finished\<rparr> in (Inr r', put_run r' s))"

definition failRun :: "time \<Rightarrow> string \<Rightarrow> string \<Rightarrow> agent_store \<Rightarrow> agent_run agent_outcome" where
  "failRun now rid err s = (case getRun s rid of None \<Rightarrow> (Inl (not_found ''Run'' rid), s)
     | Some r \<Rightarrow> let r' = r\<lparr>rn_finished := Some now, rn_status := Run_Failed, rn_error := Some err\<rparr> in (Inr r', put_run r' s))"

subsection \<open>The adapter of the control plane\<close>

definition createAgentTaskFromCPTask :: "task \<Rightarrow> agent_task \<Rightarrow> agent_task" where
  "createAgentTaskFromCPTask t base = base\<lparr>ag_id := task_id t,
     ag_kind := (if js_includes (objective t) ''bug'' \<or> js_includes (objective t) ''fix'' then Bugfix
       else if js_includes (objective t) ''research'' \<or> js_includes (objective t) ''investigate'' then Research else Feature),
     ag_title := title t, ag_goal := objective t,
     ag_priority := (case risk_level t of High \<Rightarrow> High_Priority | Low \<Rightarrow> Low_Priority | _ \<Rightarrow> Medium_Priority),
     ag_owner_type := By_System, ag_owner_id := ''shipyard-cp''\<rparr>"

definition ensureAgentTask :: "time \<Rightarrow> string \<Rightarrow> agent_state option \<Rightarrow> agent_store \<Rightarrow> agent_store" where
  "ensureAgentTask now tid initial s = (case getTask s tid of Some _ \<Rightarrow> s
     | None \<Rightarrow> put_task \<lparr>ag_id = tid, ag_kind = Feature, ag_title = ''Task '' @ tid, ag_goal = ''Managed by shipyard-cp'',
         ag_status = (case initial of Some st \<Rightarrow> st | None \<Rightarrow> A_Proposed), ag_priority = Medium_Priority, ag_owner_type = By_System,
         ag_owner_id = ''shipyard-cp'', ag_revision = 1, ag_created = now, ag_updated = now, ag_completed = None\<rparr> s)"

definition ts_createDecision :: "time \<Rightarrow> string \<Rightarrow> string \<Rightarrow> string \<Rightarrow> string list \<Rightarrow> agent_store \<Rightarrow> agent_decision agent_outcome" where
  "ts_createDecision now gid tid question options s = createDecision now gid tid question options (ensureAgentTask now tid None s)"

definition ts_createQuestion :: "time \<Rightarrow> string \<Rightarrow> string \<Rightarrow> string \<Rightarrow> agent_store \<Rightarrow> open_question agent_outcome" where
  "ts_createQuestion now gid tid question s = createQuestion now gid tid question (ensureAgentTask now tid None s)"

definition sync_status :: "time \<Rightarrow> string \<Rightarrow> agent_state \<Rightarrow> agent_store \<Rightarrow> agent_store" where
  "sync_status now tid mapped s = (case getTask s tid of
     Some t \<Rightarrow> if ag_status t \<noteq> mapped then put_task (t\<lparr>ag_status := mapped, ag_updated := now\<rparr>) s else s
   | None \<Rightarrow> s)"

definition generateContextBundle :: "time \<Rightarrow> string \<Rightarrow> (nat \<Rightarrow> string) \<Rightarrow> string \<Rightarrow> bundle_purpose \<Rightarrow> task \<Rightarrow> agent_store \<Rightarrow> agent_bundle agent_outcome" where
  "generateContextBundle now bid ids tid purpose cp s = (case toAgentTaskState (state cp) of
     None \<Rightarrow> (Inl ''unmapped state'', s)
   | Some mapped \<Rightarrow> createBundle ''1.0.0'' now bid ids tid purpose None None (sync_status now tid mapped (ensureAgentTask now tid (Some mapped) s)))"

end
