(* ===== verification/Agent_History.thy ===== *)
theory Agent_History
  imports Agent_Tasks
begin

text \<open>
  The histories of the agent task store. What a backend promises about tasks and their logs is the locale \<open>task_log_backend\<close>, with the
  memory backend as its instance. \<open>agent_reachable\<close> are the stores the services reach by calls that run one after the other; the
  theorems on interleaved calls and on the adapter show what holds beyond them.
\<close>

subsection \<open>A log explains a status\<close>

fun explains :: "agent_state option \<Rightarrow> state_transition list \<Rightarrow> agent_state \<Rightarrow> bool" where
  "explains f [] x \<longleftrightarrow> f = Some x"
| "explains f (t # ts) x \<longleftrightarrow> tn_from t = f \<and> isValidTransition f (tn_to t) \<and> explains (Some (tn_to t)) ts x"

lemma explains_snoc: "explains f (ts @ [t]) x \<longleftrightarrow> tn_to t = x \<and>
    (case tn_from t of Some y \<Rightarrow> explains f ts y \<and> isValidTransition (Some y) x | None \<Rightarrow> f = None \<and> ts = [] \<and> isValidTransition None x)"
proof (induction ts arbitrary: f)
  case Nil
  show ?case by (auto split: option.split)
next
  case (Cons a ts)
  then show ?case by (auto split: option.split)
qed

lemma explains_unique: "explains f ts x \<Longrightarrow> explains f ts y \<Longrightarrow> x = y"
  by (induction ts arbitrary: f) auto

definition task_explained :: "agent_task \<Rightarrow> string \<Rightarrow> state_transition list \<Rightarrow> bool" where
  "task_explained t k l \<longleftrightarrow> ag_id t = k \<and> explains None l (ag_status t) \<and> int (length l) \<le> ag_revision t \<and>
     (ag_status t = A_Done \<or> ag_status t = A_Cancelled \<longrightarrow> ag_completed t \<noteq> None)"

definition explained :: "(string \<Rightarrow> agent_task option) \<Rightarrow> (string \<Rightarrow> state_transition list) \<Rightarrow> bool" where
  "explained ts ls \<longleftrightarrow> (\<forall>k t. ts k = Some t \<longrightarrow> task_explained t k (ls k)) \<and> (\<forall>k. ts k = None \<longrightarrow> ls k = [])"

lemma explainedD: "explained ts ls \<Longrightarrow> ts k = Some t \<Longrightarrow> task_explained t k (ls k)"
  by (simp add: explained_def)

lemma explained_None: "explained ts ls \<Longrightarrow> ts k = None \<Longrightarrow> ls k = []"
  by (simp add: explained_def)

lemma explained_upd: "explained ts ls \<Longrightarrow> task_explained t k l \<Longrightarrow> explained (ts(k := Some t)) (ls(k := l))"
  by (simp add: explained_def)

lemma explained_edit: "explained ts ls \<Longrightarrow> task_explained t k (ls k) \<Longrightarrow> explained (ts(k := Some t)) ls"
  by (simp add: explained_def)

text \<open>What the services rely on: a backend keeps the task and the log of every identifier, and each write changes only its own.\<close>

locale task_log_backend =
  fixes task_of :: "'s \<Rightarrow> string \<Rightarrow> agent_task option"
    and log_of :: "'s \<Rightarrow> string \<Rightarrow> state_transition list"
    and put :: "agent_task \<Rightarrow> 's \<Rightarrow> 's"
    and add :: "state_transition \<Rightarrow> 's \<Rightarrow> 's"
  assumes task_put: "task_of (put t s) = (task_of s)(ag_id t := Some t)"
    and log_put: "log_of (put t s) = log_of s"
    and task_add: "task_of (add tn s) = task_of s"
    and log_add: "log_of (add tn s) = (log_of s)(tn_task tn := log_of s (tn_task tn) @ [tn])"
begin

lemma move_keeps:
  assumes ok: "explained (task_of s) (log_of s)" and t: "task_of s k = Some t"
    and tn: "tn_task tn = k" "tn_from tn = Some (ag_status t)" "isValidTransition (Some (ag_status t)) (tn_to tn)"
    and t': "ag_id t' = k" "ag_status t' = tn_to tn" "ag_revision t' = ag_revision t + 1"
      "ag_status t' = A_Done \<or> ag_status t' = A_Cancelled \<longrightarrow> ag_completed t' \<noteq> None"
  shows "explained (task_of (put t' (add tn s))) (log_of (put t' (add tn s)))"
proof -
  from explainedD [OF ok t] tn t' have "task_explained t' k (log_of s k @ [tn])"
    by (simp add: task_explained_def explains_snoc)
  with explained_upd [OF ok this] tn(1) t'(1) show ?thesis by (simp add: task_put log_put task_add log_add)
qed

lemma edit_keeps:
  assumes ok: "explained (task_of s) (log_of s)" and t: "task_of s k = Some t"
    and t': "ag_id t' = k" "ag_status t' = ag_status t" "ag_revision t \<le> ag_revision t'" "ag_completed t' = ag_completed t"
  shows "explained (task_of (put t' s)) (log_of (put t' s))"
proof -
  from explainedD [OF ok t] t' have "task_explained t' k (log_of s k)" by (simp add: task_explained_def)
  from explained_edit [OF ok this] t'(1) show ?thesis by (simp add: task_put log_put)
qed

lemma birth_keeps:
  assumes ok: "explained (task_of s) (log_of s)" and k: "task_of s k = None"
    and t: "ag_id t = k" "ag_status t = A_Proposed" "1 \<le> ag_revision t"
    and tn: "tn_task tn = k" "tn_from tn = None" "tn_to tn = A_Proposed"
  shows "explained (task_of (add tn (put t s))) (log_of (add tn (put t s)))"
proof -
  from explained_None [OF ok k] t tn have "task_explained t k (log_of s k @ [tn])"
    by (simp add: task_explained_def isValidTransition_def)
  from explained_upd [OF ok this] t(1) tn(1) show ?thesis by (simp add: task_put log_put task_add log_add)
qed

end

lemma getTransitions_set: "getTransitions (s\<lparr>as_transitions := map_set (as_transitions s) k l\<rparr>) = (getTransitions s)(k := l)"
  by (rule ext) (simp add: getTransitions_def jm.lookup_store)

interpretation mb: task_log_backend getTask getTransitions put_task addTransition
proof unfold_locales
  show "getTask (put_task t s) = (getTask s)(ag_id t := Some t)" for t s
    by (rule ext) (simp add: getTask_def put_task_def jm.lookup_store)
  show "getTransitions (put_task t s) = getTransitions s" for t s
    by (rule ext) (simp add: getTransitions_def put_task_def)
  show "getTask (addTransition tn s) = getTask s" for tn s
    by (rule ext) (simp add: getTask_def addTransition_def)
  show "getTransitions (addTransition tn s) = (getTransitions s)(tn_task tn := getTransitions s (tn_task tn) @ [tn])" for tn s
    unfolding addTransition_def by (rule getTransitions_set)
qed

lemmas backend_reads [simp] = mb.task_put mb.log_put mb.task_add mb.log_add

lemma backend_other_reads [simp]:
  "getTask (put_decision d s) = getTask s" "getTask (put_question q s) = getTask s" "getTask (put_run r s) = getTask s"
  "getTask (put_bundle b s) = getTask s" "getTask (addBundleSource x s) = getTask s"
  "getTransitions (put_decision d s) = getTransitions s" "getTransitions (put_question q s) = getTransitions s"
  "getTransitions (put_run r s) = getTransitions s" "getTransitions (put_bundle b s) = getTransitions s"
  "getTransitions (addBundleSource x s) = getTransitions s"
  by (rule ext, simp add: getTask_def getTransitions_def put_decision_def put_question_def put_run_def put_bundle_def addBundleSource_def)+

subsection \<open>References between the entities\<close>

definition all_entries :: "('k \<Rightarrow> 'v \<Rightarrow> bool) \<Rightarrow> ('k, 'v) jsmap \<Rightarrow> bool" where
  "all_entries P m \<longleftrightarrow> wf_map m \<and> (\<forall>k v. map_get m k = Some v \<longrightarrow> P k v)"

lemma all_entriesD: "all_entries P m \<Longrightarrow> map_get m k = Some v \<Longrightarrow> P k v"
  by (simp add: all_entries_def)

lemma all_entries_Nil [simp]: "all_entries P []"
  by (simp add: all_entries_def)

lemma all_entries_set [simp]: "all_entries P m \<Longrightarrow> P k v \<Longrightarrow> all_entries P (map_set m k v)"
  by (auto simp: all_entries_def jm.lookup_store split: if_splits)

lemma all_entries_mono: "all_entries P m \<Longrightarrow> (\<And>k v. map_get m k = Some v \<Longrightarrow> P k v \<Longrightarrow> Q k v) \<Longrightarrow> all_entries Q m"
  by (auto simp: all_entries_def)

lemma all_entries_filter: "all_entries P m \<Longrightarrow> all_entries (\<lambda>k v. P k v \<and> F (k, v)) (filter F m)"
  by (auto simp: all_entries_def map_get_filter split: option.splits if_splits)

lemma all_entries_drop: "all_entries P m \<Longrightarrow> (\<And>k v. P k v \<Longrightarrow> F (k, v) \<Longrightarrow> Q k v) \<Longrightarrow> all_entries Q (filter F m)"
  by (rule all_entries_mono [OF all_entries_filter]) auto

lemma all_entries_values: "all_entries P m \<Longrightarrow> v \<in> set (map_values m) \<Longrightarrow> \<exists>k. map_get m k = Some v \<and> P k v"
  by (auto simp: all_entries_def map_values_def jm.lookup_entries)

lemma filter_values_empty: "all_entries P m \<Longrightarrow> (\<And>k v. P k v \<Longrightarrow> \<not> F v) \<Longrightarrow> filter F (map_values m) = []"
  using all_entries_values [of P m] by (fastforce simp: filter_empty_conv)

definition refs_ok :: "agent_store \<Rightarrow> bool" where
  "refs_ok s \<longleftrightarrow> all_entries (\<lambda>k d. dn_id d = k \<and> getTask s (dn_task d) \<noteq> None) (as_decisions s) \<and>
     all_entries (\<lambda>k q. qn_id q = k \<and> getTask s (qn_task q) \<noteq> None) (as_questions s) \<and>
     all_entries (\<lambda>k r. rn_id r = k \<and> getTask s (rn_task r) \<noteq> None) (as_runs s) \<and>
     all_entries (\<lambda>k b. cb_id b = k \<and> getTask s (cb_task b) \<noteq> None) (as_bundles s) \<and>
     all_entries (\<lambda>k _. map_get (as_bundles s) k \<noteq> None) (as_sources s)"

definition agent_ok :: "agent_store \<Rightarrow> bool" where
  "agent_ok s \<longleftrightarrow> explained (getTask s) (getTransitions s) \<and> refs_ok s"

lemma refs_ok_grow: \<comment> \<open>only tasks and their logs changed, and no task disappeared\<close>
  assumes "refs_ok s" and "as_decisions s' = as_decisions s" and "as_questions s' = as_questions s" and "as_runs s' = as_runs s"
    and "as_bundles s' = as_bundles s" and "as_sources s' = as_sources s" and "\<And>k. getTask s k \<noteq> None \<Longrightarrow> getTask s' k \<noteq> None"
  shows "refs_ok s'"
  using assms unfolding refs_ok_def by (elim conjE, intro conjI) (simp_all, (erule all_entries_mono; metis)+)

lemma refs_ok_put_task: "refs_ok s \<Longrightarrow> refs_ok (put_task t s)"
  by (erule refs_ok_grow) (simp_all, simp_all add: put_task_def)

lemma refs_ok_addTransition: "refs_ok s \<Longrightarrow> refs_ok (addTransition tn s)"
  by (erule refs_ok_grow) (simp_all, simp_all add: addTransition_def)

subsection \<open>Every operation keeps the invariant\<close>

lemma agent_okI: "explained (getTask s) (getTransitions s) \<Longrightarrow> refs_ok s \<Longrightarrow> agent_ok s"
  by (simp add: agent_ok_def)

lemma agent_ok_empty: "agent_ok empty_store"
  by (simp add: agent_ok_def empty_store_def explained_def refs_ok_def getTask_def getTransitions_def)

lemma transition_keeps: "agent_ok s \<Longrightarrow> agent_ok (snd (transition now gid tid r s))"
  unfolding transition_def
proof (split sum.split, intro conjI allI impI, goal_cases)
  case (2 p)
  obtain tn t' where p: "p = (tn, t')" by (cases p)
  with 2(2) obtain t where t: "getTask s tid = Some t" and v: "isValidTransition (Some (ag_status t)) (tn_to tn)"
    and tn: "tn_task tn = tid" "tn_from tn = Some (ag_status t)" and t': "ag_id t' = ag_id t" "ag_status t' = tn_to tn"
      "ag_revision t' = ag_revision t + 1" "ag_status t' = A_Done \<or> ag_status t' = A_Cancelled \<longrightarrow> ag_completed t' \<noteq> None"
    by (auto simp: prepare_transition_def split: option.splits if_splits)
  from 2(1) have ok: "explained (getTask s) (getTransitions s)" and refs: "refs_ok s" by (simp_all add: agent_ok_def)
  from explainedD [OF ok t] have "ag_id t = tid" by (simp add: task_explained_def)
  with mb.move_keeps [OF ok t tn v _ t'(2-4)] t'(1) refs show ?case
    by (simp only: p prod.case snd_conv) (rule agent_okI, simp_all add: refs_ok_put_task refs_ok_addTransition)
qed simp

lemma agent_createTask_keeps: "agent_ok s \<Longrightarrow> getTask s (''task-'' @ gid) = None \<Longrightarrow> agent_ok (snd (agent_createTask now gid g r s))"
  unfolding agent_createTask_def propose_def Let_def snd_conv
  by (rule agent_okI, rule mb.birth_keeps) (simp_all add: agent_ok_def refs_ok_put_task refs_ok_addTransition)

lemma agent_updateTask_keeps: "agent_ok s \<Longrightarrow> agent_ok (snd (agent_updateTask now tid p s))"
  unfolding agent_updateTask_def
proof (split option.split, intro conjI allI impI, goal_cases)
  case (2 t)
  from 2(1) have ok: "explained (getTask s) (getTransitions s)" and refs: "refs_ok s" by (simp_all add: agent_ok_def)
  from explainedD [OF ok 2(2)] have "ag_id t = tid" by (simp add: task_explained_def)
  with mb.edit_keeps [OF ok 2(2), of "patched now p t"] refs show ?case
    by (simp only: snd_conv) (rule agent_okI, simp_all add: patched_def refs_ok_put_task)
qed simp

lemma map_get_foldl_delete: "map_get (foldl map_delete m ks) k = (if k \<in> set ks then None else map_get m k)"
  by (rule jm.lookup_foldl_remove)

lemma deleted_explained:
  assumes "explained ts ls"
  shows "explained (ts(k := None)) (ls(k := []))"
  using assms by (simp add: explained_def)

lemma agent_deleteTask_keeps:
  assumes "agent_ok s"
  shows "agent_ok (snd (agent_deleteTask tid s))"
proof -
  let ?s = "backend_deleteTask tid s"
  have task: "getTask ?s = (getTask s)(tid := None)"
    by (rule ext) (simp add: getTask_def backend_deleteTask_def jm.lookup_remove)
  have log: "getTransitions ?s = (getTransitions s)(tid := [])"
    by (rule ext) (simp add: getTransitions_def backend_deleteTask_def jm.lookup_remove)
  from assms have ok: "explained (getTask s) (getTransitions s)" and refs: "refs_ok s" by (simp_all add: agent_ok_def)
  have fields: "as_decisions ?s = filter (\<lambda>(k, d). dn_task d \<noteq> tid) (as_decisions s)"
    "as_questions ?s = filter (\<lambda>(k, q). qn_task q \<noteq> tid) (as_questions s)" "as_runs ?s = filter (\<lambda>(k, r). rn_task r \<noteq> tid) (as_runs s)"
    "as_bundles ?s = filter (\<lambda>(k, b). cb_task b \<noteq> tid) (as_bundles s)" by (simp_all add: backend_deleteTask_def)
  have sources: "all_entries (\<lambda>k _. map_get (as_bundles ?s) k \<noteq> None) (as_sources ?s)"
  proof -
    have wf: "wf_map (as_bundles s)" "all_entries (\<lambda>k _. map_get (as_bundles s) k \<noteq> None) (as_sources s)"
      using refs by (simp_all add: refs_ok_def all_entries_def)
    show ?thesis
      unfolding all_entries_def
    proof (intro conjI allI impI)
      show "wf_map (as_sources ?s)" using wf(2) by (simp add: backend_deleteTask_def jm.valid_foldl_remove all_entries_def)
      fix k v
      assume "map_get (as_sources ?s) k = Some v"
      then have k: "k \<notin> fst ` set (filter (\<lambda>(k, b). cb_task b = tid) (as_bundles s))" and v: "map_get (as_sources s) k = Some v"
        by (auto simp: backend_deleteTask_def map_get_foldl_delete split: if_splits)
      from all_entriesD [OF wf(2) v] obtain b where b: "map_get (as_bundles s) k = Some b" by blast
      with k map_get_in_set [OF b] have "cb_task b \<noteq> tid" by force
      with b wf(1) show "map_get (as_bundles ?s) k \<noteq> None" by (simp add: backend_deleteTask_def map_get_filter)
    qed
  qed
  note entries = refs [unfolded refs_ok_def]
  have "refs_ok ?s"
    unfolding refs_ok_def
  proof (intro conjI)
    show "all_entries (\<lambda>k d. dn_id d = k \<and> getTask ?s (dn_task d) \<noteq> None) (as_decisions ?s)"
      unfolding fields by (rule all_entries_drop [OF entries [THEN conjunct1]]) (simp add: task)
    show "all_entries (\<lambda>k q. qn_id q = k \<and> getTask ?s (qn_task q) \<noteq> None) (as_questions ?s)"
      unfolding fields by (rule all_entries_drop [OF entries [THEN conjunct2, THEN conjunct1]]) (simp add: task)
    show "all_entries (\<lambda>k r. rn_id r = k \<and> getTask ?s (rn_task r) \<noteq> None) (as_runs ?s)"
      unfolding fields by (rule all_entries_drop [OF entries [THEN conjunct2, THEN conjunct2, THEN conjunct1]]) (simp add: task)
    show "all_entries (\<lambda>k b. cb_id b = k \<and> getTask ?s (cb_task b) \<noteq> None) (as_bundles ?s)"
      unfolding fields by (rule all_entries_drop [OF entries [THEN conjunct2, THEN conjunct2, THEN conjunct2, THEN conjunct1]]) (simp add: task)
  qed (rule sources)
  with deleted_explained [OF ok] show ?thesis
    unfolding agent_deleteTask_def snd_conv by (intro agent_okI) (simp_all add: task log)
qed

lemma put_decision_keeps: "agent_ok s \<Longrightarrow> getTask s (dn_task d) \<noteq> None \<Longrightarrow> agent_ok (put_decision d s)"
  by (simp add: agent_ok_def refs_ok_def) (simp add: put_decision_def)

lemma put_question_keeps: "agent_ok s \<Longrightarrow> getTask s (qn_task q) \<noteq> None \<Longrightarrow> agent_ok (put_question q s)"
  by (simp add: agent_ok_def refs_ok_def) (simp add: put_question_def)

lemma put_run_keeps: "agent_ok s \<Longrightarrow> getTask s (rn_task r) \<noteq> None \<Longrightarrow> agent_ok (put_run r s)"
  by (simp add: agent_ok_def refs_ok_def) (simp add: put_run_def)

lemma put_bundle_keeps:
  assumes "agent_ok s" and "getTask s (cb_task b) \<noteq> None"
  shows "agent_ok (put_bundle b s)"
proof -
  from assms(1) have s: "all_entries (\<lambda>k _. map_get (as_bundles s) k \<noteq> None) (as_sources s)" by (simp add: agent_ok_def refs_ok_def)
  have "all_entries (\<lambda>k _. map_get (map_set (as_bundles s) (cb_id b) b) k \<noteq> None) (map_set (as_sources s) (cb_id b) (cb_sources b))"
    by (rule all_entries_set) (rule all_entries_mono [OF s], simp_all add: jm.lookup_store)
  with assms show ?thesis by (simp add: agent_ok_def refs_ok_def) (simp add: put_bundle_def)
qed

lemma addBundleSource_keeps: "agent_ok s \<Longrightarrow> map_get (as_bundles s) (bs_bundle x) \<noteq> None \<Longrightarrow> agent_ok (addBundleSource x s)"
  by (simp add: agent_ok_def refs_ok_def) (simp add: addBundleSource_def)

lemma entity_task:
  assumes "agent_ok s"
  shows "getDecision s did = Some d \<Longrightarrow> getTask s (dn_task d) \<noteq> None" and "getQuestion s qid = Some q \<Longrightarrow> getTask s (qn_task q) \<noteq> None"
    and "getRun s rid = Some r \<Longrightarrow> getTask s (rn_task r) \<noteq> None"
  using assms by (auto simp: agent_ok_def refs_ok_def getDecision_def getQuestion_def getRun_def dest: all_entriesD)

text \<open>The calls a client can make of the services; the one condition is that the identifier drawn for a new task is not in use.\<close>

inductive agent_reachable :: "agent_store \<Rightarrow> bool" where
  empty: "agent_reachable empty_store"
| creates: "agent_reachable s \<Longrightarrow> getTask s (''task-'' @ gid) = None \<Longrightarrow> agent_reachable (snd (agent_createTask now gid g r s))"
| moves: "agent_reachable s \<Longrightarrow> agent_reachable (snd (transition now gid tid rq s))"
| edits: "agent_reachable s \<Longrightarrow> agent_reachable (snd (agent_updateTask now tid p s))"
| deletes: "agent_reachable s \<Longrightarrow> agent_reachable (snd (agent_deleteTask tid s))"
| decides: "agent_reachable s \<Longrightarrow> agent_reachable (snd (createDecision now gid tid question options s))"
| resolves: "agent_reachable s \<Longrightarrow> agent_reachable (snd (resolveDecision now did chosen rationale s))"
| rejects: "agent_reachable s \<Longrightarrow> agent_reachable (snd (rejectDecision now did why s))"
| asks: "agent_reachable s \<Longrightarrow> agent_reachable (snd (createQuestion now gid tid question s))"
| answers: "agent_reachable s \<Longrightarrow> agent_reachable (snd (answerQuestion now qid answer s))"
| defers: "agent_reachable s \<Longrightarrow> agent_reachable (snd (deferQuestion now qid s))"
| runs: "agent_reachable s \<Longrightarrow> agent_reachable (snd (startRun now gid tid s))"
| finishes: "agent_reachable s \<Longrightarrow> agent_reachable (snd (finishRun now rid s))"
| fails: "agent_reachable s \<Longrightarrow> agent_reachable (snd (failRun now rid err s))"
| bundles: "agent_reachable s \<Longrightarrow> agent_reachable (snd (createBundle gv now bid ids tid purpose level opts s))"
| sources: "agent_reachable s \<Longrightarrow> agent_reachable (snd (addSource now gid bid tref kind raw meta s))"

lemma agent_reachable_ok: "agent_reachable s \<Longrightarrow> agent_ok s"
proof (induction rule: agent_reachable.induct)
  case empty
  show ?case by (rule agent_ok_empty)
next
  case (creates s gid now g r)
  then show ?case by (simp add: agent_createTask_keeps)
next
  case (bundles s gv now bid ids tid purpose level opts)
  then show ?case by (simp add: createBundle_def Let_def put_bundle_keeps split: option.split)
next
  case (sources s now gid bid tref kind raw meta)
  then show ?case by (auto simp: addSource_def Let_def getBundle_def split: option.split intro!: addBundleSource_keeps)
qed (simp_all add: transition_keeps agent_updateTask_keeps agent_deleteTask_keeps createDecision_def resolveDecision_def rejectDecision_def
    createQuestion_def answerQuestion_def deferQuestion_def startRun_def finishRun_def failRun_def Let_def put_decision_keeps
    put_question_keeps put_run_keeps entity_task split: option.split)


definition sample_create :: create_task_request where
  "sample_create = \<lparr>cq_kind = Bugfix, cq_title = ''t'', cq_goal = ''g'', cq_priority = None, cq_owner_type = None, cq_owner_id = None\<rparr>"

definition sample_agents :: agent_store where
  "sample_agents = snd (startWork 2 ''b'' ''task-1'' By_Agent None None (snd (agent_createTask 1 ''1'' ''a'' sample_create empty_store)))"

lemma sample_agents_reachable: "agent_reachable sample_agents"
  unfolding sample_agents_def startWork_def by (intro moves creates agent_reachable.empty) (simp add: empty_store_def getTask_def)

lemmas agent_eval = agent_createTask_def propose_def startWork_def move_request_def transition_def prepare_transition_def isValidTransition_def
  sample_create_def getTask_def getTransitions_def put_task_def addTransition_def empty_store_def Let_def

lemma sample_agents_task: "\<exists>t. getTask sample_agents ''task-1'' = Some t \<and> ag_status t = A_In_Progress \<and> ag_revision t = 2"
  by (simp add: sample_agents_def agent_eval)


subsection \<open>Calls that overlap\<close>

text \<open>Two transitions of a task that both read it before either has written are both answered as done and both logged, but only the second
  one is in the task: the log no longer leads to the status, and the revision counts one change.\<close>

theorem overlapping_transitions_break_log:
  assumes "agent_reachable s" and "getTask s tid = Some t"
    and "prepare_transition now1 g1 tid r1 s = Inr (tn1, t1)" and "prepare_transition now2 g2 tid r2 s = Inr (tn2, t2)"
    and "tr_to r1 \<noteq> ag_status t" and "s' = put_task t2 (addTransition tn2 (put_task t1 (addTransition tn1 s)))"
  shows "getHistory s' tid = getHistory s tid @ [tn1, tn2] \<and> getTask s' tid = Some t2 \<and> ag_revision t2 = ag_revision t + 1 \<and>
    \<not> explains None (getHistory s' tid) (ag_status t2)"
proof -
  from assms(1) have ok: "explained (getTask s) (getTransitions s)" using agent_reachable_ok by (simp add: agent_ok_def)
  from explainedD [OF ok assms(2)] have t: "ag_id t = tid" by (simp add: task_explained_def)
  from assms(2-4) have tn: "tn_task tn1 = tid" "tn_task tn2 = tid" "tn_to tn1 = tr_to r1" "tn_from tn2 = Some (ag_status t)"
    "ag_id t1 = tid" "ag_id t2 = tid" "ag_revision t2 = ag_revision t + 1"
    using t by (auto simp: prepare_transition_def split: if_splits)
  then have h: "getHistory s' tid = (getHistory s tid @ [tn1]) @ [tn2]" and "getTask s' tid = Some t2"
    by (simp_all add: assms(6) getHistory_def)
  moreover have "\<not> explains None ((getHistory s tid @ [tn1]) @ [tn2]) (ag_status t2)"
    unfolding explains_snoc [of None "getHistory s tid @ [tn1]"] using tn(3,4) assms(5) by (simp add: explains_snoc)
  ultimately show ?thesis using tn(7) by simp
qed

lemma overlapping_transitions_break_log_witness: "\<exists>tn1 t1 tn2 t2 t.
    prepare_transition 3 ''c'' ''task-1'' (move_request A_Done ''ok'' By_Human None None) sample_agents = Inr (tn1, t1) \<and>
    prepare_transition 3 ''d'' ''task-1'' (move_request A_Cancelled ''no'' By_Human None None) sample_agents = Inr (tn2, t2) \<and>
    getTask (put_task t2 (addTransition tn2 (put_task t1 (addTransition tn1 sample_agents)))) ''task-1'' = Some t2 \<and> ag_revision t2 = 3 \<and>
    \<not> explains None (getHistory (put_task t2 (addTransition tn2 (put_task t1 (addTransition tn1 sample_agents)))) ''task-1'') (ag_status t2)"
proof -
  obtain t where t: "getTask sample_agents ''task-1'' = Some t" "ag_status t = A_In_Progress" "ag_revision t = 2"
    using sample_agents_task by blast
  then obtain tn1 t1 tn2 t2 where
    p: "prepare_transition 3 ''c'' ''task-1'' (move_request A_Done ''ok'' By_Human None None) sample_agents = Inr (tn1, t1)"
      "prepare_transition 3 ''d'' ''task-1'' (move_request A_Cancelled ''no'' By_Human None None) sample_agents = Inr (tn2, t2)"
    by (simp add: prepare_transition_def isValidTransition_def move_request_def)
  have "tr_to (move_request A_Done ''ok'' By_Human None None) \<noteq> ag_status t" by (simp add: move_request_def t(2))
  from overlapping_transitions_break_log [OF sample_agents_reachable t(1) p this refl] t(3) p show ?thesis by auto
qed

subsection \<open>Bundles\<close>

text \<open>\<open>getLatestBundle\<close> answers with the first entry because the other backends list the newest one first; the memory backend lists in
  order of creation: once a task has a bundle, every later one is ignored.\<close>

theorem latest_bundle_is_oldest:
  assumes "agent_reachable s" and "getLatestBundle s tid = Some b" and "map_get (as_bundles s) bid = None"
    and "createBundle gv now bid ids tid' purpose level opts s = (Inr b', s')"
  shows "getLatestBundle s' tid = Some b"
proof -
  from agent_reachable_ok [OF assms(1)] have bundles: "all_entries (\<lambda>k b. cb_id b = k \<and> getTask s (cb_task b) \<noteq> None) (as_bundles s)"
    by (simp add: agent_ok_def refs_ok_def)
  from assms(4) have s': "s' = put_bundle b' s" "cb_id b' = bid" by (auto simp: createBundle_def Let_def split: option.splits)
  from assms(2) obtain x xs where x: "filter (\<lambda>b. cb_task b = tid) (map_values (as_bundles s)) = x # xs" "b = x\<lparr>cb_sources := sources_of s (cb_id x)\<rparr>"
    by (auto simp: getLatestBundle_def getBundles_def split: list.splits)
  then have "x \<in> set (map_values (as_bundles s))" by (metis filter_eq_ConsD in_set_conv_decomp)
  with all_entries_values [OF bundles] have "map_get (as_bundles s) (cb_id x) = Some x" by metis
  with assms(3) have "cb_id x \<noteq> bid" by auto
  then have "sources_of s' (cb_id x) = sources_of s (cb_id x)" by (simp add: s' sources_of_def put_bundle_def)
  moreover have "map_values (as_bundles s') = map_values (as_bundles s) @ [b']"
    using s'(2) assms(3) by (simp add: s'(1) put_bundle_def map_set_fresh map_values_def)
  ultimately show ?thesis using x by (simp add: getLatestBundle_def getBundles_def)
qed

definition first_bundle :: "agent_bundle agent_outcome" where
  "first_bundle = createBundle ''1.0.0'' 3 ''b1'' (\<lambda>i. show_nat i) ''task-1'' Continue_Work None None sample_agents"

lemma latest_bundle_is_oldest_witness: "\<exists>b b' s'. getLatestBundle (snd first_bundle) ''task-1'' = Some b \<and>
    createBundle ''1.0.0'' 4 ''b2'' (\<lambda>i. show_nat i) ''task-1'' Review_Prepare None None (snd first_bundle) = (Inr b', s') \<and>
    getLatestBundle s' ''task-1'' = Some b"
proof -
  obtain t where t: "getTask sample_agents ''task-1'' = Some t" using sample_agents_task by blast
  have none: "as_bundles sample_agents = []" "as_sources sample_agents = []"
    by (simp_all add: sample_agents_def agent_eval)
  have r: "agent_reachable (snd first_bundle)" unfolding first_bundle_def by (rule bundles [OF sample_agents_reachable])
  have 1: "\<exists>b. getLatestBundle (snd first_bundle) ''task-1'' = Some b" and 2: "map_get (as_bundles (snd first_bundle)) ''b2'' = None"
    by (simp_all add: first_bundle_def createBundle_def t Let_def put_bundle_def none getLatestBundle_def getBundles_def map_set_def map_values_def map_get_def)
  have "getTask (snd first_bundle) ''task-1'' = Some t" by (simp add: first_bundle_def createBundle_def t Let_def)
  then have 3: "\<exists>b' s'. createBundle ''1.0.0'' 4 ''b2'' (\<lambda>i. show_nat i) ''task-1'' Review_Prepare None None (snd first_bundle) = (Inr b', s')"
    by (simp add: createBundle_def Let_def)
  from 1 obtain b where b: "getLatestBundle (snd first_bundle) ''task-1'' = Some b" by blast
  from 3 obtain b' s' where c: "createBundle ''1.0.0'' 4 ''b2'' (\<lambda>i. show_nat i) ''task-1'' Review_Prepare None None (snd first_bundle) = (Inr b', s')"
    by blast
  from latest_bundle_is_oldest [OF r b 2 c] b c show ?thesis by blast
qed

lemma toAgentTaskState_Some: "toAgentTaskState st \<noteq> None"
  using toAgentTaskState_total [of st] by auto

lemma ensure_task: "getTask (ensureAgentTask now tid i s) tid = (case getTask s tid of Some t \<Rightarrow> Some t | None \<Rightarrow>
    Some \<lparr>ag_id = tid, ag_kind = Feature, ag_title = ''Task '' @ tid, ag_goal = ''Managed by shipyard-cp'',
         ag_status = (case i of Some st \<Rightarrow> st | None \<Rightarrow> A_Proposed), ag_priority = Medium_Priority, ag_owner_type = By_System,
         ag_owner_id = ''shipyard-cp'', ag_revision = 1, ag_created = now, ag_updated = now, ag_completed = None\<rparr>)"
  by (simp add: ensureAgentTask_def split: option.split)

lemma ensure_log: "getTransitions (ensureAgentTask now tid i s) = getTransitions s"
  by (simp add: ensureAgentTask_def split: option.split)

lemma sync_log: "getTransitions (sync_status now tid m s) = getTransitions s"
  by (simp add: sync_status_def split: option.split)

lemma sync_task:
  assumes "getTask s tid = Some t" and "ag_id t = tid"
  shows "\<exists>t'. getTask (sync_status now tid m s) tid = Some t' \<and> ag_status t' = m \<and> ag_title t' = ag_title t \<and> ag_goal t' = ag_goal t \<and>
    ag_revision t' = ag_revision t \<and> ag_completed t' = ag_completed t"
  using assms by (simp add: sync_status_def)

text \<open>A bundle made for a task of the control plane shows the state the control plane has, but the state is written past the transition
  service: a status that had to be corrected is no longer explained by the log, the revision stays, and a task the agent store did not know
  is described by a placeholder instead of its title and objective.\<close>

theorem context_bundle_bypasses_log:
  assumes "agent_reachable s"
  shows "\<exists>b s' t. generateContextBundle now bid ids tid purpose cp s = (Inr b, s') \<and> getTask s' tid = Some t \<and>
    Some (sn_current_state (cb_snapshot b)) = toAgentTaskState (state cp) \<and> sn_task (cb_snapshot b) = t \<and>
    getHistory s' tid = getHistory s tid \<and> sn_transition_count (cb_snapshot b) = int (length (getHistory s tid)) \<and>
    (explains None (getHistory s' tid) (ag_status t) \<longleftrightarrow> map_option ag_status (getTask s tid) = toAgentTaskState (state cp)) \<and>
    ag_title t = (case getTask s tid of Some u \<Rightarrow> ag_title u | None \<Rightarrow> ''Task '' @ tid) \<and>
    ag_goal t = (case getTask s tid of Some u \<Rightarrow> ag_goal u | None \<Rightarrow> ''Managed by shipyard-cp'') \<and>
    ag_revision t = (case getTask s tid of Some u \<Rightarrow> ag_revision u | None \<Rightarrow> 1)"
proof -
  from agent_reachable_ok [OF assms] have ok: "explained (getTask s) (getTransitions s)" by (simp add: agent_ok_def)
  obtain m where m: "toAgentTaskState (state cp) = Some m" using toAgentTaskState_total by blast
  define u where "u = the (getTask (ensureAgentTask now tid (Some m) s) tid)"
  have u: "getTask (ensureAgentTask now tid (Some m) s) tid = Some u" by (simp add: u_def ensure_task split: option.split)
  have "ag_id u = tid"
    using u ok by (auto simp: ensure_task task_explained_def split: option.splits dest: explainedD)
  let ?s = "sync_status now tid m (ensureAgentTask now tid (Some m) s)"
  from sync_task [OF u \<open>ag_id u = tid\<close>, of now m] obtain t where t: "getTask ?s tid = Some t" "ag_status t = m" "ag_title t = ag_title u"
    "ag_goal t = ag_goal u" "ag_revision t = ag_revision u" by blast
  have log: "getTransitions ?s = getTransitions s" by (simp add: sync_log ensure_log)
  have "explains None (getTransitions s tid) m \<longleftrightarrow> map_option ag_status (getTask s tid) = Some m"
  proof (cases "getTask s tid")
    case None
    with explained_None [OF ok None] show ?thesis by simp
  next
    case (Some v)
    from explainedD [OF ok Some] have "explains None (getTransitions s tid) (ag_status v)" by (simp add: task_explained_def)
    with Some show ?thesis by (auto dest: explains_unique)
  qed
  moreover have "ag_title u = (case getTask s tid of Some u \<Rightarrow> ag_title u | None \<Rightarrow> ''Task '' @ tid)"
    "ag_goal u = (case getTask s tid of Some u \<Rightarrow> ag_goal u | None \<Rightarrow> ''Managed by shipyard-cp'')"
    "ag_revision u = (case getTask s tid of Some u \<Rightarrow> ag_revision u | None \<Rightarrow> 1)"
    using u by (auto simp: ensure_task split: option.splits)
  ultimately show ?thesis
    using t by (simp add: generateContextBundle_def m createBundle_def Let_def buildStateSnapshot_def getHistory_def log)
qed

lemma context_bundle_bypasses_log_witness: "\<exists>b s' t. generateContextBundle 1 ''b'' (\<lambda>i. []) ''x'' Continue_Work sample_task empty_store = (Inr b, s') \<and>
    getTask s' ''x'' = Some t \<and> \<not> explains None (getHistory s' ''x'') (ag_status t) \<and> ag_title t = ''Task x''"
proof -
  have "getTask empty_store ''x'' = None" by (simp add: empty_store_def getTask_def)
  with context_bundle_bypasses_log [OF agent_reachable.empty, of 1 "''b''" "\<lambda>i. []" "''x''" Continue_Work sample_task] toAgentTaskState_Some [of "state sample_task"]
  show ?thesis by auto
qed

end
