(* ===== verification/Typed_Ref.thy ===== *)
theory Typed_Ref
  imports Paths Task_Model
begin

text \<open>
  Typed references, of which the program has two implementations: the class \<open>TypedRef\<close> of \<open>packages/tracker-bridge-js/src/refs/typed-ref.ts\<close>,
  which splits at colons, and \<open>src/domain/typed-ref/typed-ref-utils.ts\<close>, which uses a regular expression. Their components are the
  same record. The digest of the fingerprint is a parameter.
\<close>

subsection \<open>The class of the tracker bridge\<close>

record typed_ref_parts =
  rf_domain :: string
  rf_entity_type :: string
  rf_provider :: string
  rf_entity_id :: string

definition KNOWN_DOMAINS :: "string list" where
  "KNOWN_DOMAINS = [''tracker'', ''agent-taskstate'', ''memx'']"

definition LOCAL_DOMAINS :: "string list" where
  "LOCAL_DOMAINS = [''memx'', ''agent-taskstate'']"

definition new_TypedRef :: "string \<Rightarrow> string \<Rightarrow> string \<Rightarrow> string option \<Rightarrow> string + typed_ref_parts" where
  "new_TypedRef d ty i prov =
     (if d \<notin> set KNOWN_DOMAINS then Inl (''Unknown typed_ref domain: '' @ d)
      else if ty = [] \<or> i = [] then Inl ''Invalid typed_ref: empty segment''
      else let p = (if falsy prov \<and> d \<in> set LOCAL_DOMAINS then Some ''local'' else prov)
        in if falsy p then Inl ''Invalid typed_ref: provider is required''
           else Inr \<lparr>rf_domain = d, rf_entity_type = ty, rf_provider = the p, rf_entity_id = i\<rparr>)"

definition colon :: "char \<Rightarrow> bool" where
  "colon c = (c = CHR '':'')"

definition ref_text :: "typed_ref_parts \<Rightarrow> string" where
  "ref_text r = rf_domain r @ '':'' @ rf_entity_type r @ '':'' @ rf_provider r @ '':'' @ rf_entity_id r"

definition parse_ref :: "string \<Rightarrow> string + typed_ref_parts" where
  "parse_ref v = (case split_on colon v of
     [d, second, third] \<Rightarrow>
       if d = [] \<or> second = [] \<or> third = [] then Inl (''Invalid typed_ref: empty segment in '' @ v)
       else if d \<in> set LOCAL_DOMAINS then new_TypedRef d second third (Some ''local'')
       else if d = ''tracker'' then new_TypedRef d ''issue'' third (Some second)
       else Inl (''Unknown typed_ref domain: '' @ d)
   | [d, ty, prov, i] \<Rightarrow>
       if d = [] \<or> ty = [] \<or> prov = [] \<or> i = [] then Inl (''Invalid typed_ref: empty segment in '' @ v)
       else new_TypedRef d ty i (Some prov)
   | _ \<Rightarrow> Inl (''Invalid typed_ref format: '' @ v))"

definition is_memx :: "typed_ref_parts \<Rightarrow> bool" where
  "is_memx r = (rf_domain r = ''memx'')"

definition is_agent_taskstate :: "typed_ref_parts \<Rightarrow> bool" where
  "is_agent_taskstate r = (rf_domain r = ''agent-taskstate'')"

definition is_tracker :: "typed_ref_parts \<Rightarrow> bool" where
  "is_tracker r = (rf_domain r = ''tracker'')"

definition makeRef :: "string \<Rightarrow> string \<Rightarrow> string \<Rightarrow> string option \<Rightarrow> string + string" where
  "makeRef d ty i prov = (case new_TypedRef d ty i prov of Inl e \<Rightarrow> Inl e | Inr r \<Rightarrow> Inr (ref_text r))"

definition makeTrackerIssueRef :: "string \<Rightarrow> string \<Rightarrow> string + string" where
  "makeTrackerIssueRef trackerType issueKey = makeRef ''tracker'' ''issue'' issueKey (Some trackerType)"

definition makeAgentTaskstateTaskRef :: "string \<Rightarrow> string + string" where
  "makeAgentTaskstateTaskRef i = makeRef ''agent-taskstate'' ''task'' i None"

definition makeMemxEvidenceRef :: "string \<Rightarrow> string + string" where
  "makeMemxEvidenceRef i = makeRef ''memx'' ''evidence'' i None"

definition makeMemxKnowledgeRef :: "string \<Rightarrow> string + string" where
  "makeMemxKnowledgeRef i = makeRef ''memx'' ''knowledge'' i None"

definition makeMemxArtifactRef :: "string \<Rightarrow> string + string" where
  "makeMemxArtifactRef i = makeRef ''memx'' ''artifact'' i None"

definition bridge_validateTypedRef :: "string \<Rightarrow> bool" where
  "bridge_validateTypedRef v = (case parse_ref v of Inr _ \<Rightarrow> True | Inl _ \<Rightarrow> False)"

definition canonicalize :: "string \<Rightarrow> string + string" where
  "canonicalize v = (case parse_ref v of Inl e \<Rightarrow> Inl e | Inr r \<Rightarrow> Inr (ref_text r))"

definition isMemxRef :: "string \<Rightarrow> bool" where
  "isMemxRef v = (case parse_ref v of Inr r \<Rightarrow> is_memx r | Inl _ \<Rightarrow> False)"

definition isAgentTaskstateRef :: "string \<Rightarrow> bool" where
  "isAgentTaskstateRef v = (case parse_ref v of Inr r \<Rightarrow> is_agent_taskstate r | Inl _ \<Rightarrow> False)"

definition isTrackerRef :: "string \<Rightarrow> bool" where
  "isTrackerRef v = (case parse_ref v of Inr r \<Rightarrow> is_tracker r | Inl _ \<Rightarrow> False)"

subsection \<open>The utilities of the control plane\<close>

definition ref_char :: "char \<Rightarrow> bool" where
  "ref_char c = segment_char (ascii_lower c)"

definition take_segment :: "string \<Rightarrow> (string \<times> string) option" where
  "take_segment s = (let w = takeWhile ref_char s in if w = [] then None else
     case dropWhile ref_char s of c # rest \<Rightarrow> if colon c then Some (w, rest) else None | [] \<Rightarrow> None)"

definition parseTypedRef :: "string \<Rightarrow> typed_ref_parts option" where
  "parseTypedRef s = Option.bind (take_segment s) (\<lambda>(d, s1). Option.bind (take_segment s1) (\<lambda>(ty, s2). Option.bind (take_segment s2) (\<lambda>(p, i).
     if i \<noteq> [] \<and> list_all line_char i then Some \<lparr>rf_domain = d, rf_entity_type = ty, rf_provider = p, rf_entity_id = i\<rparr> else None)))"

definition VALID_DOMAINS :: "string list" where
  "VALID_DOMAINS = [''agent-taskstate'', ''memx'', ''tracker'', ''shipyard'']"

definition ENTITY_TYPES_BY_DOMAIN :: "(string, string list) jsmap" where
  "ENTITY_TYPES_BY_DOMAIN = [(''agent-taskstate'', [''task'', ''decision'', ''question'']), (''memx'', [''evidence'', ''doc'', ''chunk'', ''contract'']),
     (''tracker'', [''issue'', ''pr'', ''project_item'', ''comment'']), (''shipyard'', [''task'', ''job'', ''workspace'', ''artifact''])]"

definition isValidTypedRef :: "string \<Rightarrow> bool" where
  "isValidTypedRef s = (s \<noteq> [] \<and> (case parseTypedRef s of None \<Rightarrow> False | Some r \<Rightarrow> to_lower (rf_domain r) \<in> set VALID_DOMAINS))"

definition strict_validateTypedRef :: "string \<Rightarrow> string option" where \<comment> \<open>the error\<close>
  "strict_validateTypedRef s =
     (if s = [] then Some ''typed_ref is required and must be a string''
      else case parseTypedRef s of
        None \<Rightarrow> Some (''typed_ref must match pattern <domain>:<entity_type>:<provider>:<entity_id>, got: '' @ s)
      | Some r \<Rightarrow> let d = to_lower (rf_domain r); ty = to_lower (rf_entity_type r) in
          if d \<notin> set VALID_DOMAINS then Some (''Invalid domain '' @ [CHR 0x27] @ d @ [CHR 0x27] @ ''. Valid domains: '' @ js_join '', '' VALID_DOMAINS)
          else case map_get ENTITY_TYPES_BY_DOMAIN d of
            Some tys \<Rightarrow> if ty \<notin> set tys then Some (''Invalid entity_type '' @ [CHR 0x27] @ ty @ [CHR 0x27] @ '' for domain '' @ [CHR 0x27] @ d @
                [CHR 0x27] @ ''. Valid types: '' @ js_join '', '' tys)
              else if rf_provider r = [] then Some ''Provider segment cannot be empty''
              else if rf_entity_id r = [] then Some ''Entity ID segment cannot be empty'' else None
          | None \<Rightarrow> if rf_provider r = [] then Some ''Provider segment cannot be empty''
              else if rf_entity_id r = [] then Some ''Entity ID segment cannot be empty'' else None)"

definition buildTypedRef :: "typed_ref_parts \<Rightarrow> string" where
  "buildTypedRef r = rf_domain r @ '':'' @ rf_entity_type r @ '':'' @ rf_provider r @ '':'' @ rf_entity_id r"

definition lower_parts :: "typed_ref_parts \<Rightarrow> typed_ref_parts" where
  "lower_parts r = r\<lparr>rf_domain := to_lower (rf_domain r), rf_entity_type := to_lower (rf_entity_type r), rf_provider := to_lower (rf_provider r)\<rparr>"

definition normalizeTypedRef :: "string \<Rightarrow> string option" where
  "normalizeTypedRef s = (case parseTypedRef s of None \<Rightarrow> None
     | Some r \<Rightarrow> if to_lower (rf_domain r) \<notin> set VALID_DOMAINS then None else Some (buildTypedRef (lower_parts r)))"

definition areTypedRefsEqual :: "string \<Rightarrow> string \<Rightarrow> bool" where
  "areTypedRefsEqual a b = (let n = normalizeTypedRef a; m = normalizeTypedRef b in \<not> falsy n \<and> \<not> falsy m \<and> n = m)"

definition getEntityId :: "string \<Rightarrow> string option" where
  "getEntityId s = map_option rf_entity_id (parseTypedRef s)"

definition getDomain :: "string \<Rightarrow> string option" where
  "getDomain s = map_option rf_domain (parseTypedRef s)"

definition createTaskTypedRef :: "string \<Rightarrow> string \<Rightarrow> string" where
  "createTaskTypedRef prov i = buildTypedRef \<lparr>rf_domain = ''agent-taskstate'', rf_entity_type = ''task'', rf_provider = prov, rf_entity_id = i\<rparr>"

definition createIssueTypedRef :: "string \<Rightarrow> string \<Rightarrow> string" where
  "createIssueTypedRef prov i = buildTypedRef \<lparr>rf_domain = ''tracker'', rf_entity_type = ''issue'', rf_provider = prov, rf_entity_id = i\<rparr>"

definition typedRefFingerprint :: "(string \<Rightarrow> string) \<Rightarrow> string \<Rightarrow> string + string" where
  "typedRefFingerprint digest s = (case normalizeTypedRef s of
     None \<Rightarrow> Inl (''Cannot create fingerprint for invalid typed_ref: '' @ s)
   | Some n \<Rightarrow> if n = [] then Inl (''Cannot create fingerprint for invalid typed_ref: '' @ s) else Inr (digest n))"

subsection \<open>Printing and parsing\<close>

lemma length_split_on: "length (split_on P s) = Suc (length (filter P s))"
proof (induction s)
  case (Cons c s)
  obtain w ws where "split_on P s = w # ws" by (cases "split_on P s") auto
  with Cons show ?case by simp
qed simp

lemma split_four:
  assumes "\<not> list_ex colon a" and "\<not> list_ex colon b" and "\<not> list_ex colon c"
  shows "split_on colon (a @ '':'' @ b @ '':'' @ c @ '':'' @ s) = [a, b, c] @ split_on colon s"
proof -
  have "split_on colon (x @ CHR '':'' # y) = x # split_on colon y" if "\<not> list_ex colon x" for x y
  proof -
    have "split_on colon x = [x]" using that by (intro split_on_plain) (simp add: list_ex_iff)
    then show ?thesis by (simp add: split_on_append colon_def)
  qed
  with assms show ?thesis by simp
qed

lemma known_no_colon: "d \<in> set KNOWN_DOMAINS \<Longrightarrow> \<not> list_ex colon d \<and> d \<noteq> []"
  by (auto simp: KNOWN_DOMAINS_def colon_def)

lemma new_TypedRef_Inr: "new_TypedRef d ty i prov = Inr r \<Longrightarrow> rf_domain r = d \<and> d \<in> set KNOWN_DOMAINS \<and> rf_entity_type r = ty \<and> ty \<noteq> [] \<and>
    rf_entity_id r = i \<and> i \<noteq> [] \<and> rf_provider r \<noteq> [] \<and> new_TypedRef d ty i (Some (rf_provider r)) = Inr r"
  by (auto simp: new_TypedRef_def Let_def falsy_def split: if_splits)

text \<open>C33. A reference of the bridge can be read back from its text exactly if no segment contains a colon: the constructor accepts other
  segments, the parser does not.\<close>

theorem typed_ref_roundtrip:
  assumes "new_TypedRef d ty i prov = Inr r"
  shows "parse_ref (ref_text r) = Inr r \<longleftrightarrow> \<not> list_ex colon (ty @ rf_provider r @ i)"
proof -
  note r = new_TypedRef_Inr [OF assms]
  have dc: "\<not> list_ex colon d" "d \<noteq> []" using r known_no_colon by blast+
  show ?thesis
  proof (cases "list_ex colon (ty @ rf_provider r @ i)")
    case True
    then have "3 < length (filter colon (ref_text r))"
      using r by (auto simp: ref_text_def list_ex_iff filter_empty_conv colon_def intro!: gr0I)
    then have n: "4 < length (split_on colon (ref_text r))" by (simp add: length_split_on)
    then have "parse_ref (ref_text r) = Inl (''Invalid typed_ref format: '' @ ref_text r)"
      by (auto simp: parse_ref_def split: list.splits)
    with True show ?thesis by simp
  next
    case False
    then have "split_on colon (ref_text r) = [d, ty, rf_provider r, i]"
      using r dc split_four [of d ty "rf_provider r" i] split_on_plain [of i colon] by (auto simp: ref_text_def list_ex_iff)
    with r dc False show ?thesis by (simp add: parse_ref_def)
  qed
qed

lemma typed_ref_roundtrip_witness: "\<exists>r. new_TypedRef ''memx'' ''doc'' ''a:b'' None = Inr r \<and> parse_ref (ref_text r) \<noteq> Inr r"
proof -
  obtain r where r: "new_TypedRef ''memx'' ''doc'' ''a:b'' None = Inr r"
    by (simp add: new_TypedRef_def KNOWN_DOMAINS_def LOCAL_DOMAINS_def)
  from typed_ref_roundtrip [OF r] r show ?thesis by (auto simp: colon_def)
qed

text \<open>The canonical form of a reference is its own canonical form.\<close>

theorem canonicalize_idempotent:
  assumes "canonicalize v = Inr w"
  shows "canonicalize w = Inr w"
proof -
  from assms obtain r where r: "parse_ref v = Inr r" and w: "w = ref_text r" by (auto simp: canonicalize_def split: sum.splits)
  from r obtain d ty i prov where n: "new_TypedRef d ty i prov = Inr r" and "{ty, i, the prov} \<subseteq> insert ''issue'' (insert ''local'' (set (split_on colon v)))"
    "\<not> falsy prov"
    by (auto simp: parse_ref_def falsy_def split: list.splits if_splits)
  moreover have "\<not> list_ex colon x" if "x \<in> insert ''issue'' (insert ''local'' (set (split_on colon v)))" for x
    using that split_on_parts [of x colon v] by (auto simp: list_ex_iff colon_def)
  moreover have "rf_provider r = the prov" using n \<open>\<not> falsy prov\<close> by (auto simp: new_TypedRef_def Let_def split: if_splits)
  ultimately have "\<not> list_ex colon (ty @ rf_provider r @ i)" by simp
  with typed_ref_roundtrip [OF n] w show ?thesis by (simp add: canonicalize_def)
qed

definition ref_segment :: "string \<Rightarrow> bool" where
  "ref_segment w \<longleftrightarrow> w \<noteq> [] \<and> list_all ref_char w"

definition parts_ok :: "typed_ref_parts \<Rightarrow> bool" where
  "parts_ok r \<longleftrightarrow> ref_segment (rf_domain r) \<and> ref_segment (rf_entity_type r) \<and> ref_segment (rf_provider r) \<and>
     rf_entity_id r \<noteq> [] \<and> list_all line_char (rf_entity_id r)"

lemma ref_char_no_colon: "\<not> ref_char CHR '':''"
  by (simp add: ref_char_def ascii_lower_def)

lemma take_segment_iff: "take_segment s = Some (w, rest) \<longleftrightarrow> ref_segment w \<and> s = w @ CHR '':'' # rest"
proof
  assume a: "take_segment s = Some (w, rest)"
  then have w: "w = takeWhile ref_char s" "w \<noteq> []" and r: "dropWhile ref_char s = CHR '':'' # rest"
    by (auto simp: take_segment_def Let_def colon_def split: if_splits list.splits)
  have "s = takeWhile ref_char s @ dropWhile ref_char s" by simp
  with w r have "s = w @ CHR '':'' # rest" by simp
  moreover have "ref_segment w" using w by (auto simp: ref_segment_def list_all_iff dest: set_takeWhileD)
  ultimately show "ref_segment w \<and> s = w @ CHR '':'' # rest" by simp
next
  assume "ref_segment w \<and> s = w @ CHR '':'' # rest"
  then have "takeWhile ref_char s = w" "dropWhile ref_char s = CHR '':'' # rest" "w \<noteq> []"
    by (simp_all add: ref_segment_def list_all_iff ref_char_no_colon)
  then show "take_segment s = Some (w, rest)" by (simp add: take_segment_def colon_def)
qed

text \<open>Parsing and building are inverse to each other: a text parses to some components exactly if it is built from them and the first three
  are segments and the last is a non-empty line.\<close>

theorem parse_build_inverse: "parseTypedRef s = Some r \<longleftrightarrow> parts_ok r \<and> s = buildTypedRef r"
proof
  assume "parseTypedRef s = Some r"
  then show "parts_ok r \<and> s = buildTypedRef r"
    by (auto simp: parseTypedRef_def bind_eq_Some_conv take_segment_iff parts_ok_def buildTypedRef_def split: if_splits)
next
  assume r: "parts_ok r \<and> s = buildTypedRef r"
  then have "take_segment s = Some (rf_domain r, rf_entity_type r @ '':'' @ rf_provider r @ '':'' @ rf_entity_id r)"
    by (simp add: take_segment_iff parts_ok_def buildTypedRef_def)
  moreover have "take_segment (rf_entity_type r @ '':'' @ rf_provider r @ '':'' @ rf_entity_id r) =
      Some (rf_entity_type r, rf_provider r @ '':'' @ rf_entity_id r)"
    "take_segment (rf_provider r @ '':'' @ rf_entity_id r) = Some (rf_provider r, rf_entity_id r)"
    using r by (simp_all add: take_segment_iff parts_ok_def)
  ultimately show "parseTypedRef s = Some r" using r by (simp add: parseTypedRef_def parts_ok_def)
qed

lemma parse_built: "parts_ok r \<Longrightarrow> parseTypedRef (buildTypedRef r) = Some r"
  using parse_build_inverse by blast

lemma lower_idem [simp]: "to_lower (to_lower s) = to_lower s"
proof -
  have "ascii_lower (ascii_lower c) = ascii_lower c" for c
    by (cases c) (simp add: ascii_lower_def Let_def)
  then show ?thesis by (simp add: to_lower_def)
qed

lemma ref_segment_lower [simp]: "ref_segment w \<Longrightarrow> ref_segment (to_lower w)"
proof -
  have "ascii_lower (ascii_lower c) = ascii_lower c" for c
    by (cases c) (simp add: ascii_lower_def Let_def)
  then show "ref_segment w \<Longrightarrow> ref_segment (to_lower w)" by (simp add: ref_segment_def to_lower_def list_all_iff ref_char_def)
qed

lemma parts_ok_lower [simp]: "parts_ok r \<Longrightarrow> parts_ok (lower_parts r)"
  by (simp add: parts_ok_def lower_parts_def)

lemma lower_parts_idem [simp]: "lower_parts (lower_parts r) = lower_parts r"
  by (simp add: lower_parts_def)

lemma normalize_iff: "normalizeTypedRef s = Some n \<longleftrightarrow>
    (\<exists>r. parseTypedRef s = Some r \<and> to_lower (rf_domain r) \<in> set VALID_DOMAINS \<and> n = buildTypedRef (lower_parts r))"
  by (auto simp: normalizeTypedRef_def split: option.splits)

lemma normalize_nonempty: "normalizeTypedRef s = Some n \<Longrightarrow> n \<noteq> []"
  by (auto simp: normalize_iff buildTypedRef_def)

text \<open>Two texts count as equal references exactly if both parse, with the same identifier and the other components equal up to case, and
  the domain is known. So the relation is an equivalence on the valid references, in which a reference and its normal form are equal, and
  equal references have equal fingerprints.\<close>

theorem typed_ref_equality:
  "(areTypedRefsEqual a b \<longleftrightarrow> (\<exists>r q. parseTypedRef a = Some r \<and> parseTypedRef b = Some q \<and> lower_parts r = lower_parts q \<and>
      to_lower (rf_domain r) \<in> set VALID_DOMAINS)) \<and>
   (isValidTypedRef a \<longleftrightarrow> areTypedRefsEqual a a) \<and>
   (areTypedRefsEqual a b \<longleftrightarrow> (\<exists>x. typedRefFingerprint (\<lambda>n. n) a = Inr x \<and> typedRefFingerprint (\<lambda>n. n) b = Inr x)) \<and>
   (case normalizeTypedRef a of Some n \<Rightarrow> normalizeTypedRef n = Some n \<and> areTypedRefsEqual a n | None \<Rightarrow> \<not> isValidTypedRef a)"
proof (intro conjI)
  have eq: "areTypedRefsEqual a b \<longleftrightarrow> (\<exists>n. normalizeTypedRef a = Some n \<and> normalizeTypedRef b = Some n)" for a b
    by (auto simp: areTypedRefsEqual_def Let_def falsy_def dest: normalize_nonempty)
  have build: "lower_parts r = lower_parts q \<longleftrightarrow> buildTypedRef (lower_parts r) = buildTypedRef (lower_parts q)"
    if "parseTypedRef x = Some r" "parseTypedRef y = Some q" for x y r q
  proof -
    from that have "parts_ok (lower_parts r)" "parts_ok (lower_parts q)" by (simp_all add: parse_build_inverse)
    then have "parseTypedRef (buildTypedRef (lower_parts r)) = Some (lower_parts r)" "parseTypedRef (buildTypedRef (lower_parts q)) = Some (lower_parts q)"
      by (simp_all add: parse_built)
    then show ?thesis by (metis option.inject)
  qed
  have dom: "lower_parts r = lower_parts q \<Longrightarrow> to_lower (rf_domain r) = to_lower (rf_domain q)" for r q
    by (drule arg_cong [of _ _ rf_domain]) (simp add: lower_parts_def)
  show "areTypedRefsEqual a b \<longleftrightarrow> (\<exists>r q. parseTypedRef a = Some r \<and> parseTypedRef b = Some q \<and> lower_parts r = lower_parts q \<and>
      to_lower (rf_domain r) \<in> set VALID_DOMAINS)"
  proof
    assume "areTypedRefsEqual a b"
    then obtain r q where "parseTypedRef a = Some r" "parseTypedRef b = Some q" "to_lower (rf_domain r) \<in> set VALID_DOMAINS"
      "buildTypedRef (lower_parts r) = buildTypedRef (lower_parts q)" unfolding eq normalize_iff by auto
    with build show "\<exists>r q. parseTypedRef a = Some r \<and> parseTypedRef b = Some q \<and> lower_parts r = lower_parts q \<and>
      to_lower (rf_domain r) \<in> set VALID_DOMAINS" by blast
  next
    assume "\<exists>r q. parseTypedRef a = Some r \<and> parseTypedRef b = Some q \<and> lower_parts r = lower_parts q \<and>
      to_lower (rf_domain r) \<in> set VALID_DOMAINS"
    then obtain r q where r: "parseTypedRef a = Some r" "parseTypedRef b = Some q" "lower_parts r = lower_parts q"
      "to_lower (rf_domain r) \<in> set VALID_DOMAINS" by blast
    with dom [OF r(3)] have "normalizeTypedRef a = Some (buildTypedRef (lower_parts r))" "normalizeTypedRef b = Some (buildTypedRef (lower_parts r))"
      by (simp_all add: normalizeTypedRef_def)
    then show "areTypedRefsEqual a b" unfolding eq by blast
  qed
  show "isValidTypedRef a \<longleftrightarrow> areTypedRefsEqual a a"
  proof -
    have "parseTypedRef [] = None" by (simp add: parseTypedRef_def take_segment_def)
    then show ?thesis unfolding eq by (auto simp: isValidTypedRef_def normalizeTypedRef_def split: option.split if_splits)
  qed
  show "areTypedRefsEqual a b \<longleftrightarrow> (\<exists>x. typedRefFingerprint (\<lambda>n. n) a = Inr x \<and> typedRefFingerprint (\<lambda>n. n) b = Inr x)"
    unfolding eq by (auto simp: typedRefFingerprint_def dest: normalize_nonempty split: option.splits if_splits)
  show "case normalizeTypedRef a of Some n \<Rightarrow> normalizeTypedRef n = Some n \<and> areTypedRefsEqual a n | None \<Rightarrow> \<not> isValidTypedRef a"
  proof (cases "normalizeTypedRef a")
    case None
    then show ?thesis by (auto simp: normalizeTypedRef_def isValidTypedRef_def split: option.splits if_splits)
  next
    case (Some n)
    then obtain r where r: "parseTypedRef a = Some r" "to_lower (rf_domain r) \<in> set VALID_DOMAINS" "n = buildTypedRef (lower_parts r)"
      unfolding normalize_iff by blast
    from r(1) have "parts_ok (lower_parts r)" by (simp add: parse_build_inverse)
    with r(3) have "parseTypedRef n = Some (lower_parts r)" by (simp add: parse_built)
    with r have "normalizeTypedRef n = Some n" unfolding normalize_iff
      by (intro exI [of _ "lower_parts r"]) (simp add: lower_parts_idem, simp add: lower_parts_def)
    with Some show ?thesis unfolding eq by simp
  qed
qed

text \<open>What the two implementations make of the same text: of the references in the strict form the control plane demands of tasks and
  results, the bridge refuses those with a colon in the identifier and those of other domains, the utilities only those of other domains,
  and their lists of domains differ by \<open>shipyard\<close>.\<close>

theorem bridge_accepts_strict:
  assumes "is_segment a" and "is_segment b" and "is_segment c" and "d \<noteq> []" and "list_all line_char d"
  shows "bridge_validateTypedRef (a @ '':'' @ b @ '':'' @ c @ '':'' @ d) \<longleftrightarrow> a \<in> set KNOWN_DOMAINS \<and> \<not> list_ex colon d"
    and "isValidTypedRef (a @ '':'' @ b @ '':'' @ c @ '':'' @ d) \<longleftrightarrow> a \<in> insert ''shipyard'' (set KNOWN_DOMAINS)"
proof -
  have seg: "\<not> list_ex colon x" "x \<noteq> []" "ref_segment x" "to_lower x = x" if "is_segment x" for x
  proof -
    have lower: "segment_char c \<Longrightarrow> ascii_lower c = c" for c by (auto simp: segment_char_def ascii_lower_def Let_def)
    show "\<not> list_ex colon x" using that by (auto simp: is_segment_def list_ex_iff list_all_iff colon_def)
    show "x \<noteq> []" using that by (simp add: is_segment_def)
    show "ref_segment x" using that lower by (auto simp: is_segment_def ref_segment_def list_all_iff ref_char_def)
    show "to_lower x = x" using that lower by (simp add: is_segment_def to_lower_def list_all_iff map_idI)
  qed
  let ?s = "a @ '':'' @ b @ '':'' @ c @ '':'' @ d"
  have split: "split_on colon ?s = [a, b, c] @ split_on colon d" using seg assms(1-3) by (intro split_four) blast+
  show "bridge_validateTypedRef ?s \<longleftrightarrow> a \<in> set KNOWN_DOMAINS \<and> \<not> list_ex colon d"
  proof (cases "list_ex colon d")
    case True
    then have "1 < length (split_on colon d)" by (simp add: length_split_on list_ex_iff filter_empty_conv)
    then obtain u v w where "split_on colon d = u # v # w" by (cases "split_on colon d" rule: list.exhaust; cases "tl (split_on colon d)") auto
    then show ?thesis using True unfolding bridge_validateTypedRef_def parse_ref_def split by simp
  next
    case False
    then have "split_on colon d = [d]" by (intro split_on_plain) (simp add: list_ex_iff)
    with False assms seg show ?thesis
      unfolding bridge_validateTypedRef_def parse_ref_def split by (simp add: new_TypedRef_def Let_def)
  qed
  have "parseTypedRef ?s = Some \<lparr>rf_domain = a, rf_entity_type = b, rf_provider = c, rf_entity_id = d\<rparr>"
    unfolding parse_build_inverse using assms seg by (simp add: parts_ok_def buildTypedRef_def)
  then show "isValidTypedRef ?s \<longleftrightarrow> a \<in> insert ''shipyard'' (set KNOWN_DOMAINS)"
    using seg(4) [OF assms(1)] by (auto simp: isValidTypedRef_def VALID_DOMAINS_def KNOWN_DOMAINS_def)
qed

lemma bridge_accepts_strict_witness: "\<not> bridge_validateTypedRef ''memx:doc:local:a:b'' \<and> isValidTypedRef ''memx:doc:local:a:b''"
proof -
  have "is_segment ''memx''" "is_segment ''doc''" "is_segment ''local''" "''a:b'' \<noteq> []" "list_all line_char ''a:b''"
    by (simp_all add: is_segment_def segment_char_def line_char_def)
  from bridge_accepts_strict [OF this] show ?thesis by (simp add: colon_def KNOWN_DOMAINS_def)
qed

end
