(* ===== verification/Tracker.thy ===== *)
theory Tracker
  imports Task_Store Instruction
begin

text \<open>
  The package \<open>packages/tracker-bridge-js\<close> (types, memory backend, the services for caching, links and synchronisation) and the service
  \<open>src/domain/tracker/tracker-service.ts\<close> of the control plane that uses it. Identifiers drawn by \<open>randomUUID\<close> are arguments. The arrays of
  the two link indexes are shared with their readers: \<open>unlink\<close> removes elements from the very array it iterates over, so its loop is
  modelled by position.
\<close>

subsection \<open>Types\<close>

record tracker_connection =
  tk_id :: string
  tk_type :: string
  tk_name :: string
  tk_base_url :: string
  tk_workspace_key :: "string option"
  tk_project_key :: "string option"
  tk_secret_ref :: "string option"
  tk_enabled :: bool
  tk_created :: time
  tk_updated :: time
  tk_metadata :: "string option"

record normalized_issue =
  ni_remote_id :: string
  ni_key :: string
  ni_title :: string
  ni_status :: "string option"
  ni_assignee :: "string option"
  ni_reporter :: "string option"
  ni_labels :: "string list"
  ni_type :: "string option"
  ni_priority :: "string option"
  ni_raw :: json

record issue_cache =
  ic_id :: string
  ic_connection :: string
  ic_remote_id :: string
  ic_key :: string
  ic_title :: string
  ic_status :: "string option"
  ic_assignee :: "string option"
  ic_reporter :: "string option"
  ic_labels :: "string option"
  ic_type :: "string option"
  ic_priority :: "string option"
  ic_raw :: string
  ic_seen :: time
  ic_created :: time
  ic_updated :: time

record pr_facts =
  pf_remote_id :: string
  pf_key :: string
  pf_title :: string
  pf_status :: "string option"
  pf_author :: "string option"
  pf_base :: "string option"
  pf_head :: "string option"
  pf_mergeable :: "bool option"
  pf_draft :: "bool option"
  pf_files :: "int option"
  pf_additions :: "int option"
  pf_deletions :: "int option"
  pf_commits :: "int option"

text \<open>A cached pull request copies the facts of the normalised one.\<close>

record normalized_pr =
  np_facts :: pr_facts
  np_raw :: json

record pr_cache =
  pc_id :: string
  pc_connection :: string
  pc_facts :: pr_facts
  pc_raw :: string
  pc_seen :: time
  pc_created :: time
  pc_updated :: time

record project_item_cache =
  pi_id :: string
  pi_connection :: string
  pi_remote_id :: string
  pi_project :: "string option"
  pi_status :: "string option"
  pi_fields :: "string option"
  pi_raw :: string
  pi_seen :: time
  pi_created :: time
  pi_updated :: time

record entity_link =
  el_id :: string
  el_local :: string
  el_remote :: string
  el_role :: string
  el_created :: time
  el_updated :: time
  el_metadata :: "string option"

datatype sync_direction = Inbound | Outbound
datatype sync_status = Sync_Pending | Sync_Applied | Sync_Failed | Sync_Skipped

record sync_event =
  sy_id :: string
  sy_connection :: string
  sy_direction :: sync_direction
  sy_remote :: string
  sy_local :: "string option"
  sy_type :: string
  sy_fingerprint :: "string option"
  sy_payload :: string
  sy_status :: sync_status
  sy_error :: "string option"
  sy_occurred :: time
  sy_processed :: "time option"
  sy_created :: time

datatype entity_type = Ent_Issue | Ent_PR | Ent_Project_Item

record comment_cache =
  co_id :: string
  co_entity :: entity_type
  co_entity_id :: string
  co_remote_id :: string
  co_author :: string
  co_body :: string
  co_created :: time
  co_updated :: "time option"
  co_reactions :: "(string, int) jsmap option"

record link_request =
  lr_typed_ref :: string
  lr_entity_ref :: string
  lr_connection :: "string option"
  lr_role :: "string option"
  lr_metadata :: "string option"

record link_ref =
  le_kind :: string
  le_value :: string
  le_connection :: "string option"

record link_response =
  lp_success :: bool
  lp_sync_ref :: string
  lp_refs :: "link_ref list"
  lp_linked_at :: time

record unlink_response =
  up_success :: bool
  up_sync_ref :: string

datatype connection_state = Conn_Active | Conn_Inactive

record connection_status =
  cs_ref :: string
  cs_provider :: string
  cs_state :: connection_state
  cs_last_sync :: "time option"

subsection \<open>The memory backend\<close>

record tracker_store =
  tb_connections :: "(string, tracker_connection) jsmap"
  tb_issues :: "(string, issue_cache) jsmap"
  tb_issuesByKey :: "(string, issue_cache) jsmap"
  tb_prs :: "(string, pr_cache) jsmap"
  tb_prsByKey :: "(string, pr_cache) jsmap"
  tb_items :: "(string, project_item_cache) jsmap"
  tb_links :: "(string, entity_link) jsmap"
  tb_byLocal :: "(string, entity_link list) jsmap"
  tb_byRemote :: "(string, entity_link list) jsmap"
  tb_events :: "(string, sync_event) jsmap"
  tb_comments :: "(entity_type \<times> string, comment_cache list) jsmap"

definition empty_tracker :: tracker_store where
  "empty_tracker = \<lparr>tb_connections = [], tb_issues = [], tb_issuesByKey = [], tb_prs = [], tb_prsByKey = [], tb_items = [], tb_links = [],
     tb_byLocal = [], tb_byRemote = [], tb_events = [], tb_comments = []\<rparr>"

definition getConnection :: "tracker_store \<Rightarrow> string \<Rightarrow> tracker_connection option" where
  "getConnection s i = map_get (tb_connections s) i"

definition setConnection :: "tracker_connection \<Rightarrow> tracker_store \<Rightarrow> tracker_store" where
  "setConnection c s = s\<lparr>tb_connections := map_set (tb_connections s) (tk_id c) c\<rparr>"

definition listConnections :: "tracker_store \<Rightarrow> tracker_connection list" where
  "listConnections s = map_values (tb_connections s)"

definition getIssue :: "tracker_store \<Rightarrow> string \<Rightarrow> issue_cache option" where
  "getIssue s i = map_get (tb_issues s) i"

definition getIssueByKey :: "tracker_store \<Rightarrow> string \<Rightarrow> issue_cache option" where
  "getIssueByKey s k = map_get (tb_issuesByKey s) k"

definition setIssue :: "issue_cache \<Rightarrow> tracker_store \<Rightarrow> tracker_store" where
  "setIssue x s = s\<lparr>tb_issues := map_set (tb_issues s) (ic_id x) x, tb_issuesByKey := map_set (tb_issuesByKey s) (ic_key x) x\<rparr>"

definition deleteIssue :: "string \<Rightarrow> tracker_store \<Rightarrow> bool \<times> tracker_store" where
  "deleteIssue i s = (map_has (tb_issues s) i, s\<lparr>tb_issuesByKey := (case getIssue s i of Some x \<Rightarrow> map_delete (tb_issuesByKey s) (ic_key x)
     | None \<Rightarrow> tb_issuesByKey s), tb_issues := map_delete (tb_issues s) i\<rparr>)"

definition getPR :: "tracker_store \<Rightarrow> string \<Rightarrow> pr_cache option" where
  "getPR s i = map_get (tb_prs s) i"

definition getPRByKey :: "tracker_store \<Rightarrow> string \<Rightarrow> pr_cache option" where
  "getPRByKey s k = map_get (tb_prsByKey s) k"

definition setPR :: "pr_cache \<Rightarrow> tracker_store \<Rightarrow> tracker_store" where
  "setPR x s = s\<lparr>tb_prs := map_set (tb_prs s) (pc_id x) x, tb_prsByKey := map_set (tb_prsByKey s) (pf_key (pc_facts x)) x\<rparr>"

definition deletePR :: "string \<Rightarrow> tracker_store \<Rightarrow> bool \<times> tracker_store" where
  "deletePR i s = (map_has (tb_prs s) i, s\<lparr>tb_prsByKey := (case getPR s i of Some x \<Rightarrow> map_delete (tb_prsByKey s) (pf_key (pc_facts x))
     | None \<Rightarrow> tb_prsByKey s), tb_prs := map_delete (tb_prs s) i\<rparr>)"

definition getProjectItem :: "tracker_store \<Rightarrow> string \<Rightarrow> project_item_cache option" where
  "getProjectItem s i = map_get (tb_items s) i"

definition setProjectItem :: "project_item_cache \<Rightarrow> tracker_store \<Rightarrow> tracker_store" where
  "setProjectItem x s = s\<lparr>tb_items := map_set (tb_items s) (pi_id x) x\<rparr>"

definition deleteProjectItem :: "string \<Rightarrow> tracker_store \<Rightarrow> bool \<times> tracker_store" where
  "deleteProjectItem i s = (map_has (tb_items s) i, s\<lparr>tb_items := map_delete (tb_items s) i\<rparr>)"

definition list_at :: "('k, 'v list) jsmap \<Rightarrow> 'k \<Rightarrow> 'v list" where
  "list_at m k = (case map_get m k of Some l \<Rightarrow> l | None \<Rightarrow> [])"

definition getEntityLink :: "tracker_store \<Rightarrow> string \<Rightarrow> entity_link option" where
  "getEntityLink s i = map_get (tb_links s) i"

definition getEntityLinksByLocalRef :: "tracker_store \<Rightarrow> string \<Rightarrow> entity_link list" where
  "getEntityLinksByLocalRef s r = list_at (tb_byLocal s) r"

definition getEntityLinksByRemoteRef :: "tracker_store \<Rightarrow> string \<Rightarrow> entity_link list" where
  "getEntityLinksByRemoteRef s r = list_at (tb_byRemote s) r"

text \<open>Replacing the first element with the same identifier, or adding the element; removing the first one with an identifier.\<close>

fun upsert_by :: "('a \<Rightarrow> string) \<Rightarrow> 'a \<Rightarrow> 'a list \<Rightarrow> 'a list" where
  "upsert_by f x [] = [x]"
| "upsert_by f x (y # ys) = (if f y = f x then x # ys else y # upsert_by f x ys)"

fun remove_by :: "('a \<Rightarrow> string) \<Rightarrow> string \<Rightarrow> 'a list \<Rightarrow> 'a list" where
  "remove_by f i [] = []"
| "remove_by f i (y # ys) = (if f y = i then ys else y # remove_by f i ys)"

definition setEntityLink :: "entity_link \<Rightarrow> tracker_store \<Rightarrow> tracker_store" where
  "setEntityLink l s = s\<lparr>tb_links := map_set (tb_links s) (el_id l) l,
     tb_byLocal := map_set (tb_byLocal s) (el_local l) (upsert_by el_id l (getEntityLinksByLocalRef s (el_local l))),
     tb_byRemote := map_set (tb_byRemote s) (el_remote l) (upsert_by el_id l (getEntityLinksByRemoteRef s (el_remote l)))\<rparr>"

definition remove_from :: "('k, entity_link list) jsmap \<Rightarrow> 'k \<Rightarrow> string \<Rightarrow> ('k, entity_link list) jsmap" where
  "remove_from m k i = (case map_get m k of Some l \<Rightarrow> map_set m k (remove_by el_id i l) | None \<Rightarrow> m)"

definition deleteEntityLink :: "string \<Rightarrow> tracker_store \<Rightarrow> bool \<times> tracker_store" where
  "deleteEntityLink i s = (map_has (tb_links s) i,
     (case getEntityLink s i of
        Some l \<Rightarrow> s\<lparr>tb_byLocal := remove_from (tb_byLocal s) (el_local l) i, tb_byRemote := remove_from (tb_byRemote s) (el_remote l) i,
          tb_links := map_delete (tb_links s) i\<rparr>
      | None \<Rightarrow> s\<lparr>tb_links := map_delete (tb_links s) i\<rparr>))"

definition getSyncEvent :: "tracker_store \<Rightarrow> string \<Rightarrow> sync_event option" where
  "getSyncEvent s i = map_get (tb_events s) i"

definition getSyncEventsByEntity :: "string \<Rightarrow> string \<Rightarrow> int option \<Rightarrow> tracker_store \<Rightarrow> sync_event list" where
  "getSyncEventsByEntity ty i limit s =
     (let hits = filter (\<lambda>e. (case sy_local e of Some l \<Rightarrow> js_includes l i | None \<Rightarrow> False) \<or> js_includes (sy_remote e) i) (map_values (tb_events s))
      in slice_to (case limit of Some n \<Rightarrow> n | None \<Rightarrow> 10) (sort_key (\<lambda>e. - sy_occurred e) hits))"

definition setSyncEvent :: "sync_event \<Rightarrow> tracker_store \<Rightarrow> tracker_store" where
  "setSyncEvent e s = s\<lparr>tb_events := map_set (tb_events s) (sy_id e) e\<rparr>"

text \<open>The key \<open>type:id\<close> of the comments is the pair: the names of the types contain no colon.\<close>

definition getComments :: "tracker_store \<Rightarrow> entity_type \<Rightarrow> string \<Rightarrow> comment_cache list" where
  "getComments s ty i = list_at (tb_comments s) (ty, i)"

definition setComment :: "comment_cache \<Rightarrow> tracker_store \<Rightarrow> tracker_store" where
  "setComment c s = s\<lparr>tb_comments := map_set (tb_comments s) (co_entity c, co_entity_id c) (upsert_by co_id c (getComments s (co_entity c) (co_entity_id c)))\<rparr>"

subsection \<open>The services\<close>

definition cacheIssue :: "time \<Rightarrow> string \<Rightarrow> string \<Rightarrow> normalized_issue \<Rightarrow> tracker_store \<Rightarrow> issue_cache \<times> tracker_store" where
  "cacheIssue now uid conn n s = (let x = \<lparr>ic_id = uid, ic_connection = conn, ic_remote_id = ni_remote_id n, ic_key = ni_key n, ic_title = ni_title n,
       ic_status = ni_status n, ic_assignee = ni_assignee n, ic_reporter = ni_reporter n,
       ic_labels = Some (stringify (Json_Arr (map Json_Str (ni_labels n)))), ic_type = ni_type n, ic_priority = ni_priority n,
       ic_raw = stringify (ni_raw n), ic_seen = now, ic_created = now, ic_updated = now\<rparr> in (x, setIssue x s))"

definition invalidateIssue :: "string \<Rightarrow> tracker_store \<Rightarrow> bool \<times> tracker_store" where
  "invalidateIssue i s = deleteIssue i s"

definition cachePR :: "time \<Rightarrow> string \<Rightarrow> string \<Rightarrow> normalized_pr \<Rightarrow> tracker_store \<Rightarrow> pr_cache \<times> tracker_store" where
  "cachePR now uid conn n s = (let x = \<lparr>pc_id = uid, pc_connection = conn, pc_facts = np_facts n, pc_raw = stringify (np_raw n), pc_seen = now,
       pc_created = now, pc_updated = now\<rparr> in (x, setPR x s))"

definition invalidatePR :: "string \<Rightarrow> tracker_store \<Rightarrow> bool \<times> tracker_store" where
  "invalidatePR i s = deletePR i s"

record item_data =
  id_project :: "string option"
  id_status :: "string option"
  id_fields :: "json option"
  id_raw :: "json option"

definition cacheProjectItem :: "time \<Rightarrow> string \<Rightarrow> string \<Rightarrow> string \<Rightarrow> item_data \<Rightarrow> tracker_store \<Rightarrow> project_item_cache \<times> tracker_store" where
  "cacheProjectItem now uid conn rid d s = (let x = \<lparr>pi_id = uid, pi_connection = conn, pi_remote_id = rid, pi_project = id_project d,
       pi_status = id_status d, pi_fields = map_option stringify (id_fields d),
       pi_raw = (case id_raw d of Some r \<Rightarrow> stringify r | None \<Rightarrow> ''{}''), pi_seen = now, pi_created = now, pi_updated = now\<rparr>
     in (x, setProjectItem x s))"

definition invalidateProjectItem :: "string \<Rightarrow> tracker_store \<Rightarrow> bool \<times> tracker_store" where
  "invalidateProjectItem i s = deleteProjectItem i s"

record comment_data =
  cd_remote_id :: string
  cd_author :: string
  cd_body :: string
  cd_reactions :: "(string, int) jsmap option"

definition addComment :: "time \<Rightarrow> string \<Rightarrow> entity_type \<Rightarrow> string \<Rightarrow> comment_data \<Rightarrow> tracker_store \<Rightarrow> comment_cache \<times> tracker_store" where
  "addComment now uid ty i d s = (let c = \<lparr>co_id = uid, co_entity = ty, co_entity_id = i, co_remote_id = cd_remote_id d, co_author = cd_author d,
       co_body = cd_body d, co_created = now, co_updated = None, co_reactions = cd_reactions d\<rparr> in (c, setComment c s))"

definition getLinkedPRs :: "tracker_store \<Rightarrow> string \<Rightarrow> pr_cache list" where
  "getLinkedPRs s i = []"

text \<open>The parts of \<open>text.split(':')\<close>: the first one, and the others joined again.\<close>

definition first_part :: "string \<Rightarrow> string" where
  "first_part t = takeWhile (\<lambda>c. c \<noteq> CHR '':'') t"

definition other_parts :: "string \<Rightarrow> string" where
  "other_parts t = tl (dropWhile (\<lambda>c. c \<noteq> CHR '':'') t)"

definition link :: "time \<Rightarrow> string \<Rightarrow> string \<Rightarrow> link_request \<Rightarrow> tracker_store \<Rightarrow> link_response \<times> tracker_store" where
  "link now lid sid r s =
     (let value = (if other_parts (lr_entity_ref r) = [] then lr_entity_ref r else other_parts (lr_entity_ref r));
        l = \<lparr>el_id = lid, el_local = lr_typed_ref r, el_remote = lr_entity_ref r, el_role = (case lr_role r of Some x \<Rightarrow> x | None \<Rightarrow> ''primary''),
          el_created = now, el_updated = now, el_metadata = lr_metadata r\<rparr>
      in (\<lparr>lp_success = True, lp_sync_ref = ''sync:'' @ sid,
            lp_refs = [\<lparr>le_kind = first_part (lr_entity_ref r), le_value = value, le_connection = lr_connection r\<rparr>,
              \<lparr>le_kind = ''sync_event'', le_value = sid, le_connection = lr_connection r\<rparr>], lp_linked_at = now\<rparr>, setEntityLink l s))"

lemma list_at_set: "list_at (map_set m k l) k' = (if k' = k then l else list_at m k')"
  by (simp add: list_at_def jm.lookup_store)

lemma remove_by_length: "length (remove_by f i xs) \<le> length xs"
  by (induction xs) auto

lemma list_at_remove_from: "list_at (remove_from m k i) k' = (if k' = k then remove_by el_id i (list_at m k) else list_at m k')"
  by (auto simp: remove_from_def list_at_def jm.lookup_store split: option.split)

lemma deleteEntityLink_local: "getEntityLinksByLocalRef (snd (deleteEntityLink i s)) r =
    (case getEntityLink s i of Some l \<Rightarrow> if r = el_local l then remove_by el_id i (getEntityLinksByLocalRef s r) else getEntityLinksByLocalRef s r
     | None \<Rightarrow> getEntityLinksByLocalRef s r)"
  by (auto simp: deleteEntityLink_def getEntityLinksByLocalRef_def list_at_remove_from split: option.split)

lemma deleteEntityLink_shorter: "length (getEntityLinksByLocalRef (snd (deleteEntityLink i s)) r) \<le> length (getEntityLinksByLocalRef s r)"
  by (simp add: deleteEntityLink_local remove_by_length split: option.split)

text \<open>\<open>for (const link of linksByLocal)\<close> while the body removes elements from that array: the loop goes on at the next position.\<close>

function unlink_from :: "string \<Rightarrow> string \<Rightarrow> nat \<Rightarrow> tracker_store \<Rightarrow> tracker_store" where
  "unlink_from lref eref i s = (let ls = getEntityLinksByLocalRef s lref in
     if i < length ls
     then unlink_from lref eref (Suc i) (if el_remote (ls ! i) = eref then snd (deleteEntityLink (el_id (ls ! i)) s) else s)
     else s)"
  by pat_completeness auto

termination
proof (relation "measure (\<lambda>(lref, eref, i, s). length (getEntityLinksByLocalRef s lref) - i)", goal_cases)
  case (2 lref eref i s ls)
  have "length (getEntityLinksByLocalRef (snd (deleteEntityLink (el_id (ls ! i)) s)) lref) \<le> length (getEntityLinksByLocalRef s lref)"
    by (rule deleteEntityLink_shorter)
  with 2 show ?case by auto
qed simp

declare unlink_from.simps [simp del]

definition unlink :: "string \<Rightarrow> string \<Rightarrow> string \<Rightarrow> tracker_store \<Rightarrow> unlink_response \<times> tracker_store" where
  "unlink sid lref eref s = (\<lparr>up_success = True, up_sync_ref = ''sync:'' @ sid\<rparr>, unlink_from lref eref 0 s)"

definition isLinked :: "tracker_store \<Rightarrow> string \<Rightarrow> string \<Rightarrow> bool" where
  "isLinked s lref eref = list_ex (\<lambda>l. el_remote l = eref) (getEntityLinksByLocalRef s lref)"

record event_data =
  ed_connection :: string
  ed_direction :: sync_direction
  ed_remote :: string
  ed_local :: "string option"
  ed_type :: string
  ed_fingerprint :: "string option"
  ed_payload :: json
  ed_status :: sync_status
  ed_error :: "string option"

definition recordSyncEvent :: "time \<Rightarrow> string \<Rightarrow> event_data \<Rightarrow> tracker_store \<Rightarrow> sync_event \<times> tracker_store" where
  "recordSyncEvent now uid d s = (let e = \<lparr>sy_id = uid, sy_connection = ed_connection d, sy_direction = ed_direction d, sy_remote = ed_remote d,
       sy_local = ed_local d, sy_type = ed_type d, sy_fingerprint = ed_fingerprint d, sy_payload = stringify (ed_payload d), sy_status = ed_status d,
       sy_error = ed_error d, sy_occurred = now, sy_processed = (if ed_status d \<noteq> Sync_Pending then Some now else None), sy_created = now\<rparr>
     in (e, setSyncEvent e s))"

definition getConnectionStatus :: "tracker_store \<Rightarrow> string \<Rightarrow> connection_status" where
  "getConnectionStatus s r = (case getConnection s r of
     None \<Rightarrow> \<lparr>cs_ref = r, cs_provider = ''unknown'', cs_state = Conn_Inactive, cs_last_sync = None\<rparr>
   | Some c \<Rightarrow> \<lparr>cs_ref = r, cs_provider = tk_type c, cs_state = (if tk_enabled c then Conn_Active else Conn_Inactive),
       cs_last_sync = Some (tk_updated c)\<rparr>)"

record connection_data =
  kd_id :: string
  kd_type :: string
  kd_name :: string
  kd_base_url :: string
  kd_workspace_key :: "string option"
  kd_project_key :: "string option"
  kd_secret_ref :: "string option"
  kd_metadata :: "json option"

definition registerConnection :: "time \<Rightarrow> connection_data \<Rightarrow> tracker_store \<Rightarrow> tracker_connection \<times> tracker_store" where
  "registerConnection now d s = (let c = \<lparr>tk_id = kd_id d, tk_type = kd_type d, tk_name = kd_name d, tk_base_url = kd_base_url d,
       tk_workspace_key = kd_workspace_key d, tk_project_key = kd_project_key d, tk_secret_ref = kd_secret_ref d, tk_enabled = True,
       tk_created = now, tk_updated = now, tk_metadata = map_option stringify (kd_metadata d)\<rparr> in (c, setConnection c s))"

subsection \<open>The tracker service of the control plane\<close>

record tracker_link_request =
  tl_typed_ref :: string
  tl_connection :: "string option"
  tl_entity_ref :: string
  tl_role :: "link_role option"
  tl_metadata :: "string option"

record tracker_link_response =
  tr_typed_ref :: string
  tr_external_refs :: "external_ref list"
  tr_sync_event_ref :: string

fun link_role_name :: "link_role \<Rightarrow> string" where
  "link_role_name Primary = ''primary''"
| "link_role_name Related = ''related''"
| "link_role_name Duplicate = ''duplicate''"
| "link_role_name Blocks = ''blocks''"
| "link_role_name Caused_By = ''caused_by''"

definition unless_falsy :: "string option \<Rightarrow> string option" where
  "unless_falsy x = (if falsy x then None else x)"

definition parseEntityRef :: "string \<Rightarrow> string option \<Rightarrow> link_role option \<Rightarrow> string option \<Rightarrow> external_ref" where
  "parseEntityRef eref conn role meta =
     (let rest = \<lparr>ext_kind = ''entity_link'', ext_value = eref, ext_connection_ref = unless_falsy conn, ext_link_role = role,
        ext_metadata_json = unless_falsy meta\<rparr>
      in if CHR '':'' \<in> set eref
         then rest\<lparr>ext_kind := (if first_part eref \<in> {''github_issue'', ''github_project_item'', ''tracker_issue''} then first_part eref else ''entity_link''),
           ext_value := other_parts eref\<rparr>
         else rest)"

definition generateSyncEventRef :: "time \<Rightarrow> string \<Rightarrow> string" where
  "generateSyncEventRef now tid = ''sync_evt_'' @ tid @ ''_'' @ show_int now"

definition buildSyncEventRef :: "string \<Rightarrow> string option \<Rightarrow> external_ref" where
  "buildSyncEventRef v conn = \<lparr>ext_kind = ''sync_event'', ext_value = v, ext_connection_ref = unless_falsy conn, ext_link_role = None,
     ext_metadata_json = None\<rparr>"

definition ref_key :: "external_ref \<Rightarrow> string" where
  "ref_key e = ext_kind e @ '':'' @ ext_value e"

definition tracker_mergeExternalRefs :: "external_ref list option \<Rightarrow> external_ref list \<Rightarrow> external_ref list" where
  "tracker_mergeExternalRefs existing new = (let old = (case existing of Some es \<Rightarrow> es | None \<Rightarrow> []) in
     old @ filter (\<lambda>e. ref_key e \<notin> ref_key ` set old) new)"

text \<open>\<open>finish_link\<close> is the part of \<open>linkTracker\<close> behind the \<open>await\<close>: it uses the copy \<open>t\<close> of the task read before it.\<close>

definition finish_link :: "time \<Rightarrow> string \<Rightarrow> task \<Rightarrow> tracker_link_request \<Rightarrow> task_store \<Rightarrow> (error, tracker_link_response, task_store) outcome" where
  "finish_link now tid t r = (let sync = generateSyncEventRef now tid;
       refs = [parseEntityRef (tl_entity_ref r) (tl_connection r) (tl_role r) (tl_metadata r), buildSyncEventRef sync (tl_connection r)]
     in and_then (updateTask now tid (no_update\<lparr>u_external_refs := Some (tracker_mergeExternalRefs (external_refs t) refs)\<rparr>))
       (\<lambda>_. return \<lparr>tr_typed_ref = typed_ref t, tr_external_refs = refs, tr_sync_event_ref = sync\<rparr>))"

definition begin_link :: "string \<Rightarrow> tracker_link_request \<Rightarrow> task_store \<Rightarrow> error + task" where
  "begin_link tid r ts = (case fst (requireTask tid ts) of Inl e \<Rightarrow> Inl e
     | Inr t \<Rightarrow> if tl_typed_ref r \<noteq> typed_ref t
         then Inl (Plain_Error (''typed_ref mismatch: expected '' @ typed_ref t @ '', got '' @ tl_typed_ref r)) else Inr t)"

definition bridge_request :: "tracker_link_request \<Rightarrow> link_request" where
  "bridge_request r = \<lparr>lr_typed_ref = tl_typed_ref r, lr_entity_ref = tl_entity_ref r, lr_connection = tl_connection r,
     lr_role = map_option link_role_name (tl_role r), lr_metadata = tl_metadata r\<rparr>"

definition linkTracker :: "time \<Rightarrow> string \<Rightarrow> string \<Rightarrow> string \<Rightarrow> tracker_link_request \<Rightarrow> task_store \<times> tracker_store \<Rightarrow>
    (error, tracker_link_response, task_store \<times> tracker_store) outcome" where
  "linkTracker now lid sid tid r s = (case begin_link tid r (fst s) of Inl e \<Rightarrow> (Inl e, s)
     | Inr t \<Rightarrow> let (res, ts) = finish_link now tid t r (fst s) in (res, (ts, snd (link now lid sid (bridge_request r) (snd s)))))"

definition unlinkTracker :: "string \<Rightarrow> string \<Rightarrow> string \<Rightarrow> tracker_store \<Rightarrow> bool \<times> tracker_store" where
  "unlinkTracker sid lref eref s = (let (res, s') = unlink sid lref eref s in (up_success res, s'))"

end
