(* ===== verification/Tracker_Links.thy ===== *)
theory Tracker_Links
  imports Tracker
begin

text \<open>
  Theorems on the tracker bridge: its histories (\<open>tracker_reachable\<close>), the agreement of the indexes with the entries, what unlinking
  leaves behind, and overlapping links of the control plane.
\<close>

subsection \<open>Lists with identifiers\<close>

lemma upsert_fresh: "f x \<notin> f ` set xs \<Longrightarrow> upsert_by f x xs = xs @ [x]"
  by (induction xs) auto

lemma remove_by_filter: "distinct (map f xs) \<Longrightarrow> remove_by f i xs = filter (\<lambda>x. f x \<noteq> i) xs"
proof (induction xs)
  case (Cons y ys)
  show ?case
  proof (cases "f y = i")
    case True
    with Cons.prems have "\<forall>x \<in> set ys. f x \<noteq> i" by (metis distinct.simps(2) image_eqI list.map(2) list.set_map)
    then have "filter (\<lambda>x. f x \<noteq> i) ys = ys" by (simp add: filter_id_conv)
    with True show ?thesis by simp
  next
    case False
    with Cons show ?thesis by simp
  qed
qed simp

lemma remove_by_nth: "distinct (map f xs) \<Longrightarrow> i < length xs \<Longrightarrow> remove_by f (f (xs ! i)) xs = take i xs @ drop (Suc i) xs"
proof (induction xs arbitrary: i)
  case (Cons y ys)
  show ?case
  proof (cases i)
    case (Suc j)
    with Cons.prems have "f y \<noteq> f (ys ! j)" by (metis Suc_less_eq distinct.simps(2) image_eqI length_Cons list.simps(9) list.set_map nth_mem)
    with Suc Cons show ?thesis by simp
  qed simp
qed simp

subsection \<open>The indexes\<close>

definition keyed_links :: "(string, entity_link) jsmap \<Rightarrow> bool" where
  "keyed_links m \<longleftrightarrow> wf_map m \<and> (\<forall>(k, l) \<in> set m. el_id l = k)"

definition links_ok :: "tracker_store \<Rightarrow> bool" where
  "links_ok s \<longleftrightarrow> keyed_links (tb_links s) \<and>
     (\<forall>r. getEntityLinksByLocalRef s r = filter (\<lambda>l. el_local l = r) (map_values (tb_links s))) \<and>
     (\<forall>r. getEntityLinksByRemoteRef s r = filter (\<lambda>l. el_remote l = r) (map_values (tb_links s)))"

lemma keyed_ids: "keyed_links m \<Longrightarrow> map el_id (map_values m) = map fst m"
  by (auto simp: keyed_links_def map_values_def)

lemma keyed_distinct: "keyed_links m \<Longrightarrow> distinct (map el_id (map_values m))"
  by (simp add: keyed_ids) (simp add: keyed_links_def wf_map_def)

lemma keyed_get: "keyed_links m \<Longrightarrow> l \<in> set (map_values m) \<Longrightarrow> map_get m (el_id l) = Some l"
  by (auto simp: keyed_links_def map_values_def jm.lookup_entries)

lemma keyed_get_id: "keyed_links m \<Longrightarrow> map_get m k = Some l \<Longrightarrow> el_id l = k \<and> l \<in> set (map_values m)"
  using map_get_in_set [of m k l] by (force simp: keyed_links_def map_values_def)

lemma keyed_delete:
  assumes "keyed_links m"
  shows "keyed_links (map_delete m k)" and "map_values (map_delete m k) = filter (\<lambda>l. el_id l \<noteq> k) (map_values m)"
proof -
  have d: "map_delete m k = filter (\<lambda>(k', l). k' \<noteq> k) m" by (simp add: map_delete_def AList.delete_eq case_prod_beta' eq_commute)
  from assms show "keyed_links (map_delete m k)" by (auto simp: keyed_links_def d)
  have "filter (\<lambda>(k', l). k' \<noteq> k) m = filter (\<lambda>(k', l). el_id l \<noteq> k) m"
    by (rule filter_cong [OF refl]) (use assms in \<open>auto simp: keyed_links_def\<close>)
  then show "map_values (map_delete m k) = filter (\<lambda>l. el_id l \<noteq> k) (map_values m)"
    by (simp add: d map_values_def filter_map o_def case_prod_beta')
qed

lemma keyed_fresh:
  assumes "keyed_links m" and "map_get m (el_id l) = None"
  shows "keyed_links (map_set m (el_id l) l)" and "map_values (map_set m (el_id l) l) = map_values m @ [l]" and "el_id l \<notin> el_id ` set (map_values m)"
proof -
  show v: "map_values (map_set m (el_id l) l) = map_values m @ [l]" using assms(2) by (simp add: map_set_fresh map_values_def)
  have "wf_map (map_set m (el_id l) l)" using assms(1) by (simp add: keyed_links_def)
  then show "keyed_links (map_set m (el_id l) l)" using assms by (auto simp: keyed_links_def map_set_fresh)
  show "el_id l \<notin> el_id ` set (map_values m)" using keyed_get [OF assms(1)] assms(2) by force
qed

lemma setEntityLink_keeps:
  assumes "links_ok s" and "map_get (tb_links s) (el_id l) = None"
  shows "links_ok (setEntityLink l s)"
proof -
  from assms(1) have k: "keyed_links (tb_links s)" by (simp add: links_ok_def)
  note fresh = keyed_fresh [OF k assms(2)]
  have "upsert_by el_id l (filter P (map_values (tb_links s))) = filter P (map_values (tb_links s)) @ [l]" for P
    using fresh(3) by (intro upsert_fresh) auto
  with assms(1) show ?thesis
    by (auto simp: links_ok_def setEntityLink_def fresh(1,2) getEntityLinksByLocalRef_def getEntityLinksByRemoteRef_def list_at_set)
qed

lemma delete_keeps:
  assumes "links_ok s"
  shows "links_ok (snd (deleteEntityLink i s))"
proof (cases "getEntityLink s i")
  case None
  then have "map_delete (tb_links s) i = tb_links s"
    by (simp add: getEntityLink_def map_get_def map_delete_def map_of_eq_None_iff delete_id)
  with None assms show ?thesis by (simp add: deleteEntityLink_def)
next
  case (Some l)
  from assms have k: "keyed_links (tb_links s)" by (simp add: links_ok_def)
  from keyed_get_id [OF k] Some have l: "el_id l = i" "l \<in> set (map_values (tb_links s))" by (simp_all add: getEntityLink_def)
  have rm: "remove_by el_id i (filter P (map_values (tb_links s))) = filter P (filter (\<lambda>l. el_id l \<noteq> i) (map_values (tb_links s)))" for P
    using distinct_map_filter [OF keyed_distinct [OF k]] by (simp add: remove_by_filter conj_commute)
  have other: "filter P (filter (\<lambda>l. el_id l \<noteq> i) (map_values (tb_links s))) = filter P (map_values (tb_links s))" if "\<not> P l" for P
  proof -
    have "x = l" if "x \<in> set (map_values (tb_links s))" "el_id x = i" for x
      using keyed_get [OF k that(1)] that(2) Some by (simp add: getEntityLink_def)
    with that show ?thesis unfolding filter_filter by (intro filter_cong [OF refl]) auto
  qed
  have local: "filter (\<lambda>x. el_local x = r) (filter (\<lambda>l. el_id l \<noteq> i) (map_values (tb_links s))) = filter (\<lambda>x. el_local x = r) (map_values (tb_links s))"
    if "el_local l \<noteq> r" for r using other [of "\<lambda>x. el_local x = r"] that by simp
  have remote: "filter (\<lambda>x. el_remote x = r) (filter (\<lambda>l. el_id l \<noteq> i) (map_values (tb_links s))) = filter (\<lambda>x. el_remote x = r) (map_values (tb_links s))"
    if "el_remote l \<noteq> r" for r using other [of "\<lambda>x. el_remote x = r"] that by simp
  from Some assms show ?thesis
    unfolding links_ok_def
    by (auto simp: deleteEntityLink_def keyed_delete [OF k] getEntityLinksByLocalRef_def getEntityLinksByRemoteRef_def list_at_remove_from rm local
        remote simp del: filter_filter)
qed

lemma unlink_keeps: "links_ok s \<Longrightarrow> links_ok (unlink_from lref eref i s)"
proof (induction lref eref i s rule: unlink_from.induct)
  case (1 lref eref i s)
  then show ?case by (subst unlink_from.simps) (auto simp: Let_def delete_keeps)
qed

subsection \<open>What unlinking leaves\<close>

text \<open>The elements that survive when matching ones are removed from an array while it is iterated over: each removal shields the next
  element.\<close>

fun skipping :: "('a \<Rightarrow> bool) \<Rightarrow> 'a list \<Rightarrow> 'a list" where
  "skipping P [] = []"
| "skipping P [x] = (if P x then [] else [x])"
| "skipping P (x # y # xs) = (if P x then y # skipping P xs else x # skipping P (y # xs))"

lemma skipping_keep: "\<not> P x \<Longrightarrow> skipping P (x # xs) = x # skipping P xs"
  by (cases xs) auto

lemma skipping_none: "\<forall>x \<in> set xs. \<not> P x \<Longrightarrow> skipping P (xs @ ys) = xs @ skipping P ys"
  by (induction xs) (auto simp: skipping_keep)

lemma deleted_other: "links_ok s \<Longrightarrow> x \<in> set (getEntityLinksByLocalRef s lref) \<Longrightarrow>
    getEntityLinksByLocalRef (snd (deleteEntityLink (el_id x) s)) r =
      (if r = lref then remove_by el_id (el_id x) (getEntityLinksByLocalRef s r) else getEntityLinksByLocalRef s r)"
  using keyed_get [of "tb_links s" x] by (auto simp: links_ok_def deleteEntityLink_local getEntityLink_def)

lemma unlink_from_local: "links_ok s \<Longrightarrow>
    getEntityLinksByLocalRef (unlink_from lref eref i s) lref =
      take i (getEntityLinksByLocalRef s lref) @ skipping (\<lambda>l. el_remote l = eref) (drop i (getEntityLinksByLocalRef s lref)) \<and>
    (r \<noteq> lref \<longrightarrow> getEntityLinksByLocalRef (unlink_from lref eref i s) r = getEntityLinksByLocalRef s r)"
proof (induction lref eref i s rule: unlink_from.induct)
  case (1 lref eref i s)
  let ?L = "getEntityLinksByLocalRef s lref"
  show ?case
  proof (cases "i < length ?L")
    case False
    then show ?thesis by (subst (1 2) unlink_from.simps) (simp add: Let_def)
  next
    case True
    then have d: "drop i ?L = ?L ! i # drop (Suc i) ?L" by (rule Cons_nth_drop_Suc [symmetric])
    show ?thesis
    proof (cases "el_remote (?L ! i) = eref")
      case False
      from "1.IH" [OF refl True] "1.prems" False True show ?thesis
        by (subst (1 2) unlink_from.simps) (simp add: Let_def d skipping_keep take_Suc_conv_app_nth)
    next
      case match: True
      let ?s = "snd (deleteEntityLink (el_id (?L ! i)) s)"
      from "1.prems" have "?L = filter (\<lambda>l. el_local l = lref) (map_values (tb_links s))" "keyed_links (tb_links s)" by (simp_all add: links_ok_def)
      then have "distinct (map el_id ?L)" by (metis distinct_map_filter keyed_distinct)
      then have rm: "remove_by el_id (el_id (?L ! i)) ?L = take i ?L @ drop (Suc i) ?L" using True by (rule remove_by_nth)
      note del = deleted_other [OF "1.prems" nth_mem [OF True]]
      from "1.IH" [OF refl True] match delete_keeps [OF "1.prems"] have
        ih: "getEntityLinksByLocalRef (unlink_from lref eref (Suc i) ?s) lref =
          take (Suc i) (take i ?L @ drop (Suc i) ?L) @ skipping (\<lambda>l. el_remote l = eref) (drop (Suc i) (take i ?L @ drop (Suc i) ?L))"
        "r \<noteq> lref \<longrightarrow> getEntityLinksByLocalRef (unlink_from lref eref (Suc i) ?s) r = getEntityLinksByLocalRef s r"
        by (simp_all add: del rm)
      have "take (Suc i) (take i ?L @ drop (Suc i) ?L) @ skipping (\<lambda>l. el_remote l = eref) (drop (Suc i) (take i ?L @ drop (Suc i) ?L)) =
          take i ?L @ skipping (\<lambda>l. el_remote l = eref) (?L ! i # drop (Suc i) ?L)"
        using True match by (cases "drop (Suc i) ?L") (simp_all add: min_def)
      with ih True match show ?thesis by (subst (1 2) unlink_from.simps) (simp add: Let_def d)
    qed
  qed
qed

subsection \<open>The caches\<close>

definition caches_ok :: "tracker_store \<Rightarrow> bool" where
  "caches_ok s \<longleftrightarrow> (\<forall>k x. getIssueByKey s k = Some x \<longrightarrow> ic_key x = k \<and> getIssue s (ic_id x) = Some x) \<and>
     (\<forall>k x. getPRByKey s k = Some x \<longrightarrow> pf_key (pc_facts x) = k \<and> getPR s (pc_id x) = Some x)"

lemma setIssue_keeps: "caches_ok s \<Longrightarrow> getIssue s (ic_id x) = None \<Longrightarrow> caches_ok (setIssue x s)"
  by (auto simp: caches_ok_def setIssue_def getIssueByKey_def getIssue_def getPRByKey_def getPR_def jm.lookup_store split: if_splits)
    (metis option.distinct(1))

lemma setPR_keeps: "caches_ok s \<Longrightarrow> getPR s (pc_id x) = None \<Longrightarrow> caches_ok (setPR x s)"
  by (auto simp: caches_ok_def setPR_def getIssueByKey_def getIssue_def getPRByKey_def getPR_def jm.lookup_store split: if_splits)
    (metis option.distinct(1))

lemma deleteIssue_keeps: "caches_ok s \<Longrightarrow> caches_ok (snd (deleteIssue i s))"
  by (cases "getIssue s i")
    (auto simp: caches_ok_def deleteIssue_def getIssueByKey_def getIssue_def getPRByKey_def getPR_def jm.lookup_remove split: if_splits)

lemma deletePR_keeps: "caches_ok s \<Longrightarrow> caches_ok (snd (deletePR i s))"
  by (cases "getPR s i")
    (auto simp: caches_ok_def deletePR_def getIssueByKey_def getIssue_def getPRByKey_def getPR_def jm.lookup_remove split: if_splits)

lemma caches_cong: "caches_ok s \<Longrightarrow> tb_issues s' = tb_issues s \<Longrightarrow> tb_issuesByKey s' = tb_issuesByKey s \<Longrightarrow> tb_prs s' = tb_prs s \<Longrightarrow>
    tb_prsByKey s' = tb_prsByKey s \<Longrightarrow> caches_ok s'"
  by (simp add: caches_ok_def getIssueByKey_def getIssue_def getPRByKey_def getPR_def)

lemma links_cong: "links_ok s \<Longrightarrow> tb_links s' = tb_links s \<Longrightarrow> tb_byLocal s' = tb_byLocal s \<Longrightarrow> tb_byRemote s' = tb_byRemote s \<Longrightarrow> links_ok s'"
  by (simp add: links_ok_def getEntityLinksByLocalRef_def getEntityLinksByRemoteRef_def)

lemma unlink_caches: "caches_ok s \<Longrightarrow> caches_ok (unlink_from lref eref i s)"
proof (induction lref eref i s rule: unlink_from.induct)
  case (1 lref eref i s)
  have del: "caches_ok (snd (deleteEntityLink j s))" for j
    by (rule caches_cong [OF "1.prems"]) (simp_all add: deleteEntityLink_def split: option.split)
  show ?case
    by (subst unlink_from.simps) (use 1 del in \<open>auto simp: Let_def\<close>)
qed

text \<open>The calls a client can make; the conditions say that an identifier drawn for a new entry is not in use.\<close>

inductive tracker_reachable :: "tracker_store \<Rightarrow> bool" where
  empty: "tracker_reachable empty_tracker"
| links: "tracker_reachable s \<Longrightarrow> map_get (tb_links s) lid = None \<Longrightarrow> tracker_reachable (snd (link now lid sid r s))"
| unlinks: "tracker_reachable s \<Longrightarrow> tracker_reachable (snd (unlink sid lref eref s))"
| issues: "tracker_reachable s \<Longrightarrow> getIssue s uid = None \<Longrightarrow> tracker_reachable (snd (cacheIssue now uid conn n s))"
| issue_dropped: "tracker_reachable s \<Longrightarrow> tracker_reachable (snd (invalidateIssue i s))"
| prs: "tracker_reachable s \<Longrightarrow> getPR s uid = None \<Longrightarrow> tracker_reachable (snd (cachePR now uid conn p s))"
| pr_dropped: "tracker_reachable s \<Longrightarrow> tracker_reachable (snd (invalidatePR i s))"
| items: "tracker_reachable s \<Longrightarrow> tracker_reachable (snd (cacheProjectItem now uid conn rid d s))"
| item_dropped: "tracker_reachable s \<Longrightarrow> tracker_reachable (snd (invalidateProjectItem i s))"
| comments: "tracker_reachable s \<Longrightarrow> tracker_reachable (snd (addComment now uid ty i c s))"
| events: "tracker_reachable s \<Longrightarrow> tracker_reachable (snd (recordSyncEvent now uid e s))"
| connections: "tracker_reachable s \<Longrightarrow> tracker_reachable (snd (registerConnection now k s))"

lemma tracker_reachable_ok: "tracker_reachable s \<Longrightarrow> links_ok s \<and> caches_ok s"
proof (induction rule: tracker_reachable.induct)
  case empty
  show ?case by (simp add: links_ok_def caches_ok_def empty_tracker_def keyed_links_def getEntityLinksByLocalRef_def getEntityLinksByRemoteRef_def
        list_at_def map_values_def getIssueByKey_def getPRByKey_def)
next
  case (links s lid now sid r)
  then show ?case by (auto simp: link_def Let_def setEntityLink_keeps) (erule caches_cong, simp_all add: setEntityLink_def)
next
  case (unlinks s sid lref eref)
  then show ?case by (simp add: unlink_def unlink_keeps unlink_caches)
next
  case (issues s uid now conn n)
  then show ?case by (auto simp: cacheIssue_def Let_def setIssue_keeps) (erule links_cong, simp_all add: setIssue_def)
next
  case (issue_dropped s i)
  then show ?case by (auto simp: invalidateIssue_def deleteIssue_keeps) (erule links_cong, simp_all add: deleteIssue_def)
next
  case (prs s uid now conn p)
  then show ?case by (auto simp: cachePR_def Let_def setPR_keeps) (erule links_cong, simp_all add: setPR_def)
next
  case (pr_dropped s i)
  then show ?case by (auto simp: invalidatePR_def deletePR_keeps) (erule links_cong, simp_all add: deletePR_def)
next
  case (items s now uid conn rid d)
  then show ?case by (auto simp: cacheProjectItem_def Let_def setProjectItem_def intro: links_cong caches_cong)
next
  case (item_dropped s i)
  then show ?case by (auto simp: invalidateProjectItem_def deleteProjectItem_def intro: links_cong caches_cong)
next
  case (comments s now uid ty i c)
  then show ?case by (auto simp: addComment_def Let_def setComment_def intro: links_cong caches_cong)
next
  case (events s now uid e)
  then show ?case by (auto simp: recordSyncEvent_def Let_def setSyncEvent_def intro: links_cong caches_cong)
next
  case (connections s now k)
  then show ?case by (auto simp: registerConnection_def Let_def setConnection_def intro: links_cong caches_cong)
qed


definition sample_tlr :: tracker_link_request where
  "sample_tlr = \<lparr>tl_typed_ref = ''a:b:c:d'', tl_connection = None, tl_entity_ref = ''github_issue:o/r#1'', tl_role = None, tl_metadata = None\<rparr>"

definition sample_links :: tracker_store where
  "sample_links = snd (link 2 ''l2'' ''s2'' (bridge_request sample_tlr) (snd (link 1 ''l1'' ''s1'' (bridge_request sample_tlr) empty_tracker)))"

lemmas link_eval = link_def bridge_request_def sample_tlr_def setEntityLink_def empty_tracker_def getEntityLinksByLocalRef_def
  getEntityLinksByRemoteRef_def list_at_def Let_def jm.lookup_store

lemma sample_links_reachable: "tracker_reachable sample_links"
  unfolding sample_links_def by (intro tracker_reachable.links tracker_reachable.empty) (simp_all add: link_eval)


text \<open>C34. Unlinking answers with success but removes only every other one of neighbouring links: of the links of the reference those survive
  that do not name the entity or stand directly behind one that was removed. The links of other references stay.\<close>

theorem unlink_skips_neighbours:
  assumes "tracker_reachable s"
  shows "up_success (fst (unlink sid lref eref s)) \<and>
    getEntityLinksByLocalRef (snd (unlink sid lref eref s)) r =
      (if r = lref then skipping (\<lambda>l. el_remote l = eref) (getEntityLinksByLocalRef s lref) else getEntityLinksByLocalRef s r)"
  using unlink_from_local [of s lref eref 0 r] tracker_reachable_ok [OF assms] by (simp add: unlink_def)

lemma unlink_skips_neighbours_witness: "isLinked (snd (unlink ''s3'' ''a:b:c:d'' ''github_issue:o/r#1'' sample_links)) ''a:b:c:d'' ''github_issue:o/r#1''"
proof -
  have "\<exists>x y. getEntityLinksByLocalRef sample_links ''a:b:c:d'' = [x, y] \<and> el_remote x = ''github_issue:o/r#1'' \<and> el_remote y = ''github_issue:o/r#1''"
    by (simp add: sample_links_def link_eval)
  with unlink_skips_neighbours [OF sample_links_reachable, of "''s3''" "''a:b:c:d''" "''github_issue:o/r#1''" "''a:b:c:d''"]
  show ?thesis by (auto simp: isLinked_def)
qed

text \<open>Invalidating an old copy of an issue removes the key of its newer copy: the newer copy stays in the cache but is no longer found by
  its key.\<close>

theorem old_copy_hides_new:
  assumes "tracker_reachable s" and "getIssue s i = Some x" and "getIssueByKey s (ic_key x) = Some y" and "x \<noteq> y"
  shows "getIssueByKey (snd (invalidateIssue i s)) (ic_key x) = None \<and> getIssue (snd (invalidateIssue i s)) (ic_id y) = Some y"
proof -
  from tracker_reachable_ok [OF assms(1)] assms(3) have y: "getIssue s (ic_id y) = Some y" by (auto simp: caches_ok_def)
  with assms(2,4) have "ic_id y \<noteq> i" by auto
  with y assms(2) show ?thesis by (simp add: invalidateIssue_def deleteIssue_def getIssueByKey_def getIssue_def)
qed

definition sample_issue :: normalized_issue where
  "sample_issue = \<lparr>ni_remote_id = ''7'', ni_key = ''P-7'', ni_title = ''t'', ni_status = None, ni_assignee = None, ni_reporter = None, ni_labels = [],
     ni_type = None, ni_priority = None, ni_raw = Json_Null\<rparr>"

lemma old_copy_hides_new_witness: "\<exists>y. getIssueByKey (snd (cacheIssue 2 ''i2'' ''c'' sample_issue (snd (cacheIssue 1 ''i1'' ''c'' sample_issue empty_tracker)))) ''P-7'' = Some y \<and>
    getIssueByKey (snd (invalidateIssue ''i1'' (snd (cacheIssue 2 ''i2'' ''c'' sample_issue (snd (cacheIssue 1 ''i1'' ''c'' sample_issue empty_tracker)))))) ''P-7'' = None"
proof -
  let ?s = "snd (cacheIssue 2 ''i2'' ''c'' sample_issue (snd (cacheIssue 1 ''i1'' ''c'' sample_issue empty_tracker)))"
  have r: "tracker_reachable ?s"
    by (intro tracker_reachable.issues tracker_reachable.empty)
      (simp_all add: cacheIssue_def Let_def setIssue_def getIssue_def empty_tracker_def jm.lookup_store)
  obtain x y where x: "getIssue ?s ''i1'' = Some x" "getIssueByKey ?s (ic_key x) = Some y" "x \<noteq> y" "ic_key x = ''P-7''"
    by (simp add: cacheIssue_def Let_def setIssue_def getIssue_def getIssueByKey_def empty_tracker_def jm.lookup_store sample_issue_def)
  from old_copy_hides_new [OF r x(1-3)] x(2,4) show ?thesis by auto
qed

subsection \<open>Links of the control plane\<close>

lemma finish_link_task:
  assumes "finish_link now tid t r ts = (Inr p, ts')"
  shows "\<exists>u. map_get (tasks ts) tid = Some u \<and> ts' = setTask tid (applyTaskUpdate now u (no_update\<lparr>u_external_refs :=
      Some (tracker_mergeExternalRefs (external_refs t) (tr_external_refs p))\<rparr>)) ts \<and> tr_typed_ref p = typed_ref t \<and>
    tr_external_refs p = [parseEntityRef (tl_entity_ref r) (tl_connection r) (tl_role r) (tl_metadata r), buildSyncEventRef (generateSyncEventRef now tid) (tl_connection r)]"
  using assms by (auto simp: finish_link_def Let_def updateTask_def requireTask_def return_def elim!: and_then_InrE split: option.splits)

lemma update_external_refs: "external_refs (applyTaskUpdate now u (no_update\<lparr>u_external_refs := Some es\<rparr>)) = Some es"
  by (simp add: applyTaskUpdate_def no_update_def Let_def)

text \<open>Two links of one task that overlap at the \<open>await\<close>: both are answered with success and both reach the bridge, but the references of
  the task are those of the second alone.\<close>

theorem overlapping_links_lose_reference:
  assumes "begin_link tid r1 ts = Inr t" and "begin_link tid r2 ts = Inr t"
    and "finish_link now1 tid t r1 ts = (Inr p1, ts1)" and "finish_link now2 tid t r2 ts1 = (Inr p2, ts2)"
  shows "map_option external_refs (map_get (tasks ts2) tid) = Some (Some (tracker_mergeExternalRefs (external_refs t) (tr_external_refs p2)))"
  using finish_link_task [OF assms(4)] by (auto simp: setTask_def update_external_refs)

text \<open>A link succeeds exactly if the task exists and has the typed reference of the request. Then the task carries the entity and the bridge
  has the link; a refused link changes neither the task nor the bridge.\<close>

theorem linkTracker_outcome:
  "case linkTracker now lid sid tid r (ts, tb) of
     (Inr p, (ts', tb')) \<Rightarrow> (\<exists>t t'. map_get (tasks ts) tid = Some t \<and> typed_ref t = tl_typed_ref r \<and> map_get (tasks ts') tid = Some t' \<and>
         external_refs t' = Some (tracker_mergeExternalRefs (external_refs t) (tr_external_refs p)) \<and> state t' = state t) \<and>
       isLinked tb' (tl_typed_ref r) (tl_entity_ref r) \<and> getEntityLink tb' lid \<noteq> None
   | (Inl e, s') \<Rightarrow> s' = (ts, tb) \<and> (map_get (tasks ts) tid = None \<or> map_option typed_ref (map_get (tasks ts) tid) \<noteq> Some (tl_typed_ref r))"
proof (cases "begin_link tid r ts")
  case (Inl e)
  then show ?thesis by (auto simp: linkTracker_def begin_link_def requireTask_def split: option.splits if_splits)
next
  case (Inr t)
  then have t: "map_get (tasks ts) tid = Some t" "typed_ref t = tl_typed_ref r"
    by (auto simp: begin_link_def requireTask_def split: option.splits if_splits)
  obtain p ts' where f: "finish_link now tid t r ts = (Inr p, ts')"
    using t by (simp add: finish_link_def Let_def updateTask_def requireTask_def return_def and_then_def)
  from finish_link_task [OF f] t have ts': "ts' = setTask tid (applyTaskUpdate now t (no_update\<lparr>u_external_refs :=
      Some (tracker_mergeExternalRefs (external_refs t) (tr_external_refs p))\<rparr>)) ts" by auto
  have has: "list_ex (\<lambda>l. el_remote l = eref) (upsert_by el_id x xs)" if "el_remote x = eref" for x eref xs
    using that by (induction xs) auto
  have "isLinked (snd (link now lid sid (bridge_request r) tb)) (tl_typed_ref r) (tl_entity_ref r)"
    "getEntityLink (snd (link now lid sid (bridge_request r) tb)) lid \<noteq> None"
    by (simp_all add: isLinked_def link_def Let_def bridge_request_def setEntityLink_def getEntityLinksByLocalRef_def list_at_set getEntityLink_def has)
  with t Inr f ts' show ?thesis by (simp add: linkTracker_def setTask_def update_external_refs)
qed

end
