(* ===== verification/Markdown.thy ===== *)
theory Markdown
  imports Paths
begin

text \<open>
  The chunker of \<open>packages/memx-resolver-js/src/chunking/markdown-chunker.ts\<close>: a document is cut at its headings or at a fixed size. The
  theorems say that no text of the body is lost or reordered, that the identifiers of the chunks are unique, and what happens to
  documents with carriage returns and to headings that skip a level.
\<close>

subsection \<open>The code\<close>

datatype importance = Imp_Required | Imp_Recommended | Imp_Reference

record chunk =
  ck_id :: string
  ck_doc :: string
  ck_path :: "string list option"
  ck_ordinal :: nat
  ck_body :: string
  ck_tokens :: nat
  ck_importance :: importance

datatype chunk_mode = By_Heading | By_Size

record chunking_options =
  cho_mode :: chunk_mode
  cho_maxChars :: "int option"

definition newline_char :: "char \<Rightarrow> bool" where
  "newline_char c = (c = CHR 0x0A)"

abbreviation lines_of :: "string \<Rightarrow> string list" where
  "lines_of \<equiv> split_on newline_char"

abbreviation join_lines :: "string list \<Rightarrow> string" where
  "join_lines \<equiv> js_join [CHR 0x0A]"

definition pad_start :: "nat \<Rightarrow> char \<Rightarrow> string \<Rightarrow> string" where
  "pad_start n c s = replicate (n - length s) c @ s"

definition generateChunkId :: "string \<Rightarrow> nat \<Rightarrow> string" where
  "generateChunkId d n = ''chunk:'' @ d @ '':'' @ pad_start 3 (CHR ''0'') (show_nat n)"

definition estimateTokens :: "string \<Rightarrow> nat" where
  "estimateTokens t = (length t + 3) div 4"

definition path_mentions :: "string list \<Rightarrow> string list \<Rightarrow> bool" where
  "path_mentions path ws = list_ex (\<lambda>h. list_ex (js_includes h) ws) path"

definition determineImportance :: "string list \<Rightarrow> string \<Rightarrow> importance" where
  "determineImportance path body = (let lp = map to_lower path; lb = to_lower body in
     if path_mentions lp [''acceptance'', ''requirement'', ''specification'', ''must''] then Imp_Required
     else if js_includes lb ''must:'' \<or> js_includes lb ''required:'' \<or> js_includes lb ''acceptance criteria'' then Imp_Required
     else if path_mentions lp [''reference'', ''see also'', ''links'', ''appendix''] then Imp_Reference
     else Imp_Recommended)"

definition createChunk :: "string \<Rightarrow> nat \<Rightarrow> string list \<Rightarrow> string \<Rightarrow> chunk" where
  "createChunk d n path body = \<lparr>ck_id = generateChunkId d n, ck_doc = d, ck_path = (if path = [] then None else Some path), ck_ordinal = n,
     ck_body = body, ck_tokens = estimateTokens body, ck_importance = determineImportance path body\<rparr>"

text \<open>The loop shared by \<open>splitLargeChunk\<close> and \<open>chunkByFixedSize\<close>: the pieces, given the lines collected so far and their length.\<close>

fun pieces :: "int \<Rightarrow> string list \<Rightarrow> int \<Rightarrow> string list \<Rightarrow> string list" where
  "pieces m cur n [] = (if cur = [] then [] else [join_lines cur])"
| "pieces m cur n (l # ls) =
     (if n + int (length l) + 1 > m \<and> cur \<noteq> [] then join_lines cur # pieces m [l] (int (length l) + 1) ls
      else pieces m (cur @ [l]) (n + int (length l) + 1) ls)"

definition splitLargeChunk :: "string \<Rightarrow> int \<Rightarrow> string list" where
  "splitLargeChunk body m = pieces m [] 0 (lines_of body)"

definition blank :: "char \<Rightarrow> bool" where
  "blank c = (c = CHR '' '' \<or> c = CHR 0x09)"

definition inline_char :: "char \<Rightarrow> bool" where
  "inline_char c = (c \<noteq> CHR 0x0A \<and> c \<noteq> CHR 0x0D)"

text \<open>\<open>/^(#{1,6})[ \t]{1,6}(.+?)$/\<close>: the level and the trimmed text of a heading.\<close>

definition heading_match :: "string \<Rightarrow> (nat \<times> string) option" where
  "heading_match l = (let h = takeWhile (\<lambda>c. c = CHR ''#'') l in
     if 1 \<le> length h \<and> length h \<le> 6 then
       (case dropWhile (\<lambda>c. c = CHR ''#'') l of
          c # t \<Rightarrow> if blank c \<and> t \<noteq> [] \<and> list_all inline_char t then Some (length h, js_trim t) else None
        | [] \<Rightarrow> None)
     else None)"

text \<open>Chunks numbered from an ordinal on, and the chunks of one section.\<close>

fun number_from :: "(nat \<Rightarrow> string \<Rightarrow> chunk) \<Rightarrow> nat \<Rightarrow> string list \<Rightarrow> chunk list" where
  "number_from f n [] = []"
| "number_from f n (b # bs) = f n b # number_from f (Suc n) bs"

definition section_bodies :: "int \<Rightarrow> string list \<Rightarrow> string list" where
  "section_bodies m cur = (if cur = [] then [] else let body = js_trim (join_lines cur) in
     if body = [] then [] else if int (length body) > m then splitLargeChunk body m else [body])"

definition section_chunks :: "string \<Rightarrow> int \<Rightarrow> nat \<Rightarrow> string list \<Rightarrow> string list \<Rightarrow> chunk list" where
  "section_chunks d m n path cur = number_from (\<lambda>i b. createChunk d i path b) n (section_bodies m cur)"

fun heading_loop :: "string \<Rightarrow> int \<Rightarrow> nat \<Rightarrow> string list \<Rightarrow> string list \<Rightarrow> string list \<Rightarrow> chunk list" where
  "heading_loop d m n path cur [] = section_chunks d m n path cur"
| "heading_loop d m n path cur (l # ls) = (case heading_match l of
     Some (level, h) \<Rightarrow> let cs = section_chunks d m n path cur in
       cs @ heading_loop d m (n + length cs) (take (level - 1) path @ [h]) [] ls
   | None \<Rightarrow> heading_loop d m n path (cur @ [l]) ls)"

definition chunkByHeadings :: "string \<Rightarrow> string \<Rightarrow> int \<Rightarrow> chunk list" where
  "chunkByHeadings d body m = heading_loop d m 1 [] [] (lines_of body)"

definition chunkByFixedSize :: "string \<Rightarrow> string \<Rightarrow> int \<Rightarrow> chunk list" where
  "chunkByFixedSize d body m = number_from (\<lambda>i b. \<lparr>ck_id = generateChunkId d i, ck_doc = d, ck_path = None, ck_ordinal = i,
     ck_body = b, ck_tokens = estimateTokens b, ck_importance = Imp_Recommended\<rparr>) 1 (pieces m [] 0 (lines_of body))"

definition chunkMarkdown :: "string \<Rightarrow> string \<Rightarrow> chunking_options option \<Rightarrow> chunk list" where
  "chunkMarkdown d body opts = (let o' = (case opts of Some x \<Rightarrow> x | None \<Rightarrow> \<lparr>cho_mode = By_Heading, cho_maxChars = None\<rparr>);
       m = (case cho_maxChars o' of Some n \<Rightarrow> n | None \<Rightarrow> 4000)
     in case cho_mode o' of By_Size \<Rightarrow> chunkByFixedSize d body m | By_Heading \<Rightarrow> chunkByHeadings d body m)"

subsection \<open>Cutting at a fixed size\<close>

lemma join_snoc: "xs \<noteq> [] \<Longrightarrow> js_join sep (xs @ ys) = (if ys = [] then js_join sep xs else js_join sep xs @ sep @ js_join sep ys)"
proof (induction sep xs rule: js_join.induct)
  case (2 sep x)
  then show ?case by (cases ys) auto
qed (auto split: if_splits)

lemma join_Cons: "js_join sep (x # ys) = (if ys = [] then x else x @ sep @ js_join sep ys)"
  by (cases ys) auto

lemma join_split: "join_lines (lines_of s) = s"
proof (induction s)
  case (Cons c s)
  obtain w ws where w: "lines_of s = w # ws" by (cases "lines_of s") auto
  show ?case
  proof (cases "newline_char c")
    case True
    with w Cons show ?thesis by (simp, simp add: newline_char_def)
  next
    case False
    with w Cons show ?thesis by (cases ws) auto
  qed
qed simp

lemma pieces_join: "cur \<noteq> [] \<or> ls \<noteq> [] \<Longrightarrow> join_lines (pieces m cur n ls) = join_lines (cur @ ls) \<and> pieces m cur n ls \<noteq> []"
proof (induction m cur n ls rule: pieces.induct)
  case (2 m cur n l ls)
  show ?case
  proof (cases "n + int (length l) + 1 > m \<and> cur \<noteq> []")
    case True
    with "2.IH"(1) show ?thesis by (simp add: join_snoc join_Cons [of _ "join_lines cur"])
  next
    case False
    with "2.IH"(2) show ?thesis by auto
  qed
qed simp

lemma joined_length: "xs \<noteq> [] \<Longrightarrow> int (length (join_lines xs)) + 1 = (\<Sum>x\<leftarrow>xs. int (length x) + 1)"
  by (induction xs rule: induct_list012) auto

text \<open>Each piece is shorter than the limit unless it is a single line.\<close>

lemma pieces_bound:
  assumes "n = (\<Sum>x\<leftarrow>cur. int (length x) + 1)" and "cur \<noteq> [] \<longrightarrow> n \<le> m \<or> length cur = 1" and "\<forall>l \<in> set (cur @ ls). \<not> list_ex newline_char l"
    and "b \<in> set (pieces m cur n ls)"
  shows "int (length b) < m \<or> \<not> list_ex newline_char b"
  using assms
proof (induction m cur n ls rule: pieces.induct)
  case (1 m cur n)
  then have cur: "cur \<noteq> []" and b: "b = join_lines cur" by (auto split: if_splits)
  with joined_length [OF cur] "1.prems"(1,2) have "int (length b) + 1 \<le> m \<or> length cur = 1" by auto
  then show ?case
  proof
    assume "length cur = 1"
    then obtain l where "cur = [l]" by (auto simp: length_Suc_conv)
    with b "1.prems"(3) show ?thesis by simp
  qed simp
next
  case (2 m cur n l ls)
  show ?case
  proof (cases "n + int (length l) + 1 > m \<and> cur \<noteq> []")
    case True
    then consider "b = join_lines cur" | "b \<in> set (pieces m [l] (int (length l) + 1) ls)" using "2.prems"(4) by auto
    then show ?thesis
    proof cases
      case 1
      with joined_length [of cur] "2.prems"(1,2) True have "int (length b) + 1 \<le> m \<or> length cur = 1" by auto
      then show ?thesis
      proof
        assume "length cur = 1"
        then obtain l where "cur = [l]" by (auto simp: length_Suc_conv)
        with 1 "2.prems"(3) show ?thesis by simp
      qed simp
    next
      case 2
      from "2.IH"(1) [OF True _ _ _ 2] "2.prems"(3) show ?thesis by simp
    qed
  next
    case False
    from False have fit: "cur @ [l] \<noteq> [] \<longrightarrow> n + int (length l) + 1 \<le> m \<or> length (cur @ [l]) = 1" by auto
    from False "2.prems"(4) have b: "b \<in> set (pieces m (cur @ [l]) (n + int (length l) + 1) ls)" by (simp only: pieces.simps if_False)
    show ?thesis by (rule "2.IH"(2) [OF False _ fit _ b]) (use "2.prems" in auto)
  qed
qed

lemma lines_plain: "l \<in> set (lines_of s) \<Longrightarrow> \<not> list_ex newline_char l"
  using split_on_parts [of l newline_char s] by (auto simp: list_ex_iff)

lemma number_from_bodies: "(\<And>i b. ck_body (f i b) = b) \<Longrightarrow> map ck_body (number_from f n bs) = bs"
  by (induction bs arbitrary: n) auto

lemma number_from_ordinals: "(\<And>i b. ck_ordinal (f i b) = i) \<Longrightarrow> map ck_ordinal (number_from f n bs) = [n..<n + length bs]"
  by (induction bs arbitrary: n) (auto simp: upt_rec simp del: upt_Suc)

lemma number_from_length [simp]: "length (number_from f n bs) = length bs"
  by (induction bs arbitrary: n) auto

lemma number_from_all: "(\<And>i b. P (f i b)) \<Longrightarrow> list_all P (number_from f n bs)"
  by (induction bs arbitrary: n) auto

definition single_line :: "string \<Rightarrow> bool" where
  "single_line s = (\<not> list_ex newline_char s)"

text \<open>C35. Cutting at a fixed size loses nothing: the bodies of the chunks, joined at the line ends, are the document, and a chunk is shorter than
  the limit unless it is a single line.\<close>

theorem fixed_size_lossless:
  "join_lines (map ck_body (chunkByFixedSize d body m)) = body \<and>
   list_all (\<lambda>c. int (length (ck_body c)) < m \<or> single_line (ck_body c)) (chunkByFixedSize d body m)"
proof
  let ?bs = "pieces m [] 0 (lines_of body)"
  have bodies: "map ck_body (chunkByFixedSize d body m) = ?bs"
    unfolding chunkByFixedSize_def by (rule number_from_bodies) simp
  have "lines_of body \<noteq> []" by simp
  then have "join_lines ?bs = join_lines (lines_of body)" using pieces_join [of "[]" "lines_of body"] by simp
  then show "join_lines (map ck_body (chunkByFixedSize d body m)) = body" by (simp add: bodies join_split)
  have "int (length b) < m \<or> \<not> list_ex newline_char b" if "b \<in> set ?bs" for b
    using that lines_plain by (intro pieces_bound [of 0 "[]" m "lines_of body"]) auto
  then have "list_all (\<lambda>b. int (length b) < m \<or> \<not> list_ex newline_char b) (map ck_body (chunkByFixedSize d body m))"
    by (simp add: bodies list_all_iff)
  then show "list_all (\<lambda>c. int (length (ck_body c)) < m \<or> single_line (ck_body c)) (chunkByFixedSize d body m)"
    by (simp add: list_all_iff single_line_def)
qed

subsection \<open>Cutting at headings\<close>

definition visible :: "string \<Rightarrow> string" where
  "visible s = filter (\<lambda>c. \<not> js_whitespace c) s"

lemma visible_append [simp]: "visible (a @ b) = visible a @ visible b"
  by (simp add: visible_def)

lemma visible_Nil [simp]: "visible [] = []"
  by (simp add: visible_def)

lemma visible_dropWhile: "visible (dropWhile js_whitespace s) = visible s"
  by (induction s) (auto simp: visible_def)

lemma visible_rev: "visible (rev s) = rev (visible s)"
  by (simp add: visible_def rev_filter)

lemma visible_trim [simp]: "visible (js_trim s) = visible s"
  by (simp add: js_trim_def visible_rev visible_dropWhile)

lemma visible_join: "visible (join_lines xs) = visible (concat xs)"
proof (induction xs rule: induct_list012)
  case (3 x y zs)
  have "visible [CHR 0x0A] = []" by (simp add: visible_def js_whitespace_def)
  with 3 show ?case by (simp, simp add: visible_def js_whitespace_def)
qed simp_all

lemma visible_pieces: "visible (concat (pieces m cur n ls)) = visible (concat (cur @ ls))"
proof (cases "cur \<noteq> [] \<or> ls \<noteq> []")
  case True
  from pieces_join [OF True, of m n] have "visible (join_lines (pieces m cur n ls)) = visible (join_lines (cur @ ls))" by simp
  then show ?thesis by (simp only: visible_join)
qed simp

lemma visible_section: "visible (concat (section_bodies m cur)) = visible (concat cur)"
proof -
  let ?b = "js_trim (join_lines cur)"
  have b: "visible ?b = visible (concat cur)" by (simp add: visible_join)
  have "visible (concat (splitLargeChunk ?b m)) = visible ?b"
    unfolding splitLargeChunk_def visible_pieces using visible_join [of "lines_of ?b"] by (simp add: join_split)
  moreover have "visible (concat cur) = []" if "?b = []" using b that by simp
  ultimately show ?thesis using b by (auto simp: section_bodies_def Let_def)
qed

lemma section_chunk_bodies: "map ck_body (section_chunks d m n path cur) = section_bodies m cur"
  unfolding section_chunks_def by (rule number_from_bodies) (simp add: createChunk_def)

lemma heading_loop_visible: "visible (concat (map ck_body (heading_loop d m n path cur ls))) =
    visible (concat cur) @ visible (concat (filter (\<lambda>l. heading_match l = None) ls))"
proof (induction d m n path cur ls rule: heading_loop.induct)
  case (1 d m n path cur)
  show ?case by (simp add: section_chunk_bodies visible_section)
next
  case (2 d m n path cur l ls)
  show ?case
  proof (cases "heading_match l")
    case None
    with 2 show ?thesis by simp
  next
    case (Some h)
    obtain level t where h: "h = (level, t)" by (cases h)
    from "2.IH"(2) [OF Some h [symmetric] refl] Some h show ?thesis
      by (simp add: Let_def section_chunk_bodies visible_section)
  qed
qed

text \<open>Cutting at headings keeps the text: apart from white space the bodies of the chunks, one after the other, are the lines of the
  document that are not headings.\<close>

theorem heading_chunks_keep_text: "visible (concat (map ck_body (chunkByHeadings d body m))) =
    visible (concat (filter (\<lambda>l. heading_match l = None) (lines_of body)))"
  unfolding chunkByHeadings_def heading_loop_visible by simp

text \<open>With carriage returns at the line ends no line is a heading, and the whole document is one section without a path.\<close>

lemma carriage_return_no_heading: "CHR 0x0D \<in> set l \<Longrightarrow> heading_match l = None"
proof -
  assume cr: "CHR 0x0D \<in> set l"
  let ?P = "\<lambda>c :: char. c = CHR ''#''"
  have "CHR 0x0D \<notin> set (takeWhile ?P l)" using set_takeWhileD [of "CHR 0x0D" ?P l] by auto
  with cr have d: "CHR 0x0D \<in> set (dropWhile ?P l)" by (metis UnE set_append takeWhile_dropWhile_id)
  show ?thesis
  proof (cases "dropWhile ?P l")
    case Nil
    with d show ?thesis by simp
  next
    case (Cons c t)
    with d have "\<not> blank c \<or> \<not> list_all inline_char t" by (auto simp: blank_def inline_char_def list_all_iff)
    with Cons show ?thesis by (auto simp: heading_match_def Let_def)
  qed
qed

lemma section_chunks_path: "c \<in> set (section_chunks d m n path cur) \<Longrightarrow> ck_path c = (if path = [] then None else Some path)"
  using number_from_all [of "\<lambda>c. ck_path c = (if path = [] then None else Some path)" "\<lambda>i b. createChunk d i path b"]
  by (auto simp: section_chunks_def createChunk_def list_all_iff)

lemma heading_loop_plain: "\<forall>l \<in> set ls. heading_match l = None \<Longrightarrow> heading_loop d m n path cur ls = section_chunks d m n path (cur @ ls)"
  by (induction ls arbitrary: cur) simp_all

theorem carriage_returns_hide_headings:
  assumes "\<forall>l \<in> set (lines_of body). CHR 0x0D \<in> set l"
  shows "list_all (\<lambda>c. ck_path c = None) (chunkByHeadings d body m)"
  using assms heading_loop_plain [of "lines_of body" d m 1 "[]" "[]"] section_chunks_path [of _ d m 1 "[]" "lines_of body"]
  by (auto simp: chunkByHeadings_def list_all_iff carriage_return_no_heading)

lemma carriage_returns_hide_headings_witness:
  "list_all (\<lambda>c. ck_path c = None) (chunkByHeadings ''d'' (''# A'' @ [CHR 0x0D, CHR 0x0A] @ ''x'' @ [CHR 0x0D]) 100)"
proof -
  have "lines_of (''# A'' @ [CHR 0x0D, CHR 0x0A] @ ''x'' @ [CHR 0x0D]) = [''# A'' @ [CHR 0x0D], ''x'' @ [CHR 0x0D]]" by (simp add: newline_char_def)
  then show ?thesis by (intro carriage_returns_hide_headings) simp
qed

text \<open>A heading that skips a level does not close its siblings: two headings of one level under a shorter path are nested.\<close>

lemma skipped_level_nests: "length path + 1 < level \<Longrightarrow> take (level - 1) (take (level - 1) path @ [a]) @ [b] = path @ [a, b]"
  by (auto simp: min_def)

subsection \<open>Identifiers\<close>

fun digits_value :: "nat \<Rightarrow> string \<Rightarrow> nat" where
  "digits_value a [] = a"
| "digits_value a (c # s) = digits_value (10 * a + (of_char c - 48)) s"

lemma digits_value_append: "digits_value a (s @ t) = digits_value (digits_value a s) t"
  by (induction s arbitrary: a) auto

lemma digits_value_show: "digits_value 0 (show_nat n) = n"
proof (induction n rule: less_induct)
  case (less n)
  have digit: "of_char (char_of (48 + d) :: char) = 48 + d" if "d < 10" for d :: nat
    using that by (simp)
  show ?case
  proof (cases "n < 10")
    case True
    then show ?thesis by (subst show_nat.simps) (simp add: digit)
  next
    case False
    then have "n div 10 < n" by simp
    from less.IH [OF this] False show ?thesis
      by (subst show_nat.simps) (simp add: digits_value_append digit)
  qed
qed

lemma show_nat_no_colon: "CHR '':'' \<notin> set (show_nat n)"
  by (auto dest: show_nat_digits)

lemma digits_value_zeros: "digits_value 0 (replicate k (CHR ''0'') @ s) = digits_value 0 s"
  by (induction k) simp_all

lemma last_colon: "CHR '':'' \<notin> set p \<Longrightarrow> CHR '':'' \<notin> set q \<Longrightarrow> x @ CHR '':'' # p = y @ CHR '':'' # q \<Longrightarrow> x = y \<and> p = q"
proof -
  assume a: "CHR '':'' \<notin> set p" "CHR '':'' \<notin> set q" "x @ CHR '':'' # p = y @ CHR '':'' # q"
  have tail: "rev (takeWhile (\<lambda>c. c \<noteq> CHR '':'') (rev (z @ CHR '':'' # r))) = r" if "CHR '':'' \<notin> set r" for z r
  proof -
    have "takeWhile (\<lambda>c. c \<noteq> CHR '':'') (rev r @ CHR '':'' # rev z) = rev r" using that by (subst takeWhile_append2) auto
    then show ?thesis by simp
  qed
  from tail [OF a(1), of x] tail [OF a(2), of y] have "p = q" unfolding a(3) by simp
  with a(3) show ?thesis by simp
qed

lemma chunk_id_injective: "generateChunkId d n = generateChunkId e k \<longleftrightarrow> d = e \<and> n = k"
proof
  let ?p = "\<lambda>n. pad_start 3 (CHR ''0'') (show_nat n)"
  assume "generateChunkId d n = generateChunkId e k"
  then have eq: "d @ CHR '':'' # ?p n = e @ CHR '':'' # ?p k" by (simp add: generateChunkId_def)
  have plain: "CHR '':'' \<notin> set (?p i)" for i using show_nat_no_colon by (auto simp: pad_start_def)
  have "digits_value 0 (?p i) = i" for i by (simp add: pad_start_def digits_value_zeros digits_value_show)
  with last_colon [OF plain plain eq] show "d = e \<and> n = k" by metis
qed simp

lemma section_chunks_ordinals: "map ck_ordinal (section_chunks d m n path cur) = [n..<n + length (section_chunks d m n path cur)]"
  unfolding section_chunks_def number_from_length by (rule number_from_ordinals) (simp add: createChunk_def)

lemma heading_loop_ordinals: "map ck_ordinal (heading_loop d m n path cur ls) = [n..<n + length (heading_loop d m n path cur ls)]"
proof (induction d m n path cur ls rule: heading_loop.induct)
  case (1 d m n path cur)
  show ?case by (simp add: section_chunks_ordinals)
next
  case (2 d m n path cur l ls)
  show ?case
  proof (cases "heading_match l")
    case None
    with 2 show ?thesis by simp
  next
    case (Some h)
    obtain level t where h: "h = (level, t)" by (cases h)
    have "[a..<a + b] @ [a + b..<a + (b + c)] = [a..<a + (b + c)]" for a b c :: nat
      using upt_add_eq_append [of a "a + b" c] by (simp add: add.assoc)
    with "2.IH"(2) [OF Some h [symmetric] refl] Some h section_chunks_ordinals [of d m n path cur] show ?thesis
      by (simp add: Let_def add.assoc del: upt_Suc)
  qed
qed

definition identified :: "string \<Rightarrow> chunk \<Rightarrow> bool" where
  "identified d c \<longleftrightarrow> ck_doc c = d \<and> ck_id c = generateChunkId d (ck_ordinal c)"

lemma section_chunks_identified: "list_all (identified d) (section_chunks d m n path cur)"
  unfolding section_chunks_def by (rule number_from_all) (simp add: identified_def createChunk_def)

lemma heading_loop_identified: "list_all (identified d) (heading_loop d m n path cur ls)"
  by (induction d m n path cur ls rule: heading_loop.induct) (auto simp: section_chunks_identified Let_def split: option.split)

text \<open>The chunks of a document are numbered from one on, and no two chunks, of the same document or of different ones, have the same
  identifier.\<close>

theorem chunks_identified:
  "map ck_ordinal (chunkMarkdown d body opts) = [1..<1 + length (chunkMarkdown d body opts)] \<and>
   list_all (\<lambda>c. ck_doc c = d \<and> ck_id c = generateChunkId d (ck_ordinal c)) (chunkMarkdown d body opts) \<and>
   distinct (map ck_id (chunkMarkdown d body opts)) \<and> (generateChunkId d n = generateChunkId e k \<longleftrightarrow> d = e \<and> n = k)"
proof -
  let ?cs = "chunkMarkdown d body opts"
  have "map ck_ordinal ?cs = [1..<1 + length ?cs] \<and> list_all (identified d) ?cs"
  proof (cases "cho_mode (case opts of Some x \<Rightarrow> x | None \<Rightarrow> \<lparr>cho_mode = By_Heading, cho_maxChars = None\<rparr>)")
    case By_Heading
    then show ?thesis
      using heading_loop_ordinals [of d _ 1 "[]" "[]" "lines_of body"] heading_loop_identified [of d _ 1 "[]" "[]" "lines_of body"]
      by (simp add: chunkMarkdown_def Let_def chunkByHeadings_def del: upt_Suc)
  next
    case By_Size
    let ?f = "\<lambda>i b. \<lparr>ck_id = generateChunkId d i, ck_doc = d, ck_path = None, ck_ordinal = i, ck_body = b, ck_tokens = estimateTokens b,
      ck_importance = Imp_Recommended\<rparr>"
    have "map ck_ordinal (number_from ?f 1 bs) = [1..<1 + length bs]" "list_all (identified d) (number_from ?f 1 bs)" for bs
      by (rule number_from_ordinals, simp) (rule number_from_all, simp add: identified_def)
    with By_Size show ?thesis by (simp add: chunkMarkdown_def Let_def chunkByFixedSize_def del: upt_Suc)
  qed
  then have o: "map ck_ordinal ?cs = [1..<1 + length ?cs]" and i: "list_all (identified d) ?cs" by blast+
  have "map ck_id ?cs = map (generateChunkId d) (map ck_ordinal ?cs)" using i by (simp add: list_all_iff identified_def)
  then have "distinct (map ck_id ?cs)"
    unfolding o by (simp only: distinct_map distinct_upt) (simp add: inj_on_def chunk_id_injective)
  with o i [unfolded identified_def] show ?thesis by (simp add: chunk_id_injective del: upt_Suc)
qed

end
