(* ===== verification/Resolver.thy ===== *)
theory Resolver
  imports Markdown Task_Store
begin

text \<open>
  Documents: the package \<open>packages/memx-resolver-js\<close> (types, memory backend, the services for documents, chunks, read receipts and
  contracts), the service \<open>src/domain/resolver/resolver-service.ts\<close> and its use by \<open>src/domain/docs/docs-service.ts\<close> of the control plane.
  Scores are in tenths. The versions a check compares with are those of the resolver or, in \<open>checkStale\<close>, of a function given as an argument.
\<close>

subsection \<open>Types\<close>

record document =
  dc_id :: string
  dc_type :: string
  dc_title :: string
  dc_source :: "string option"
  dc_version :: string
  dc_updated :: time
  dc_summary :: "string option"
  dc_tags :: "string list option"
  dc_features :: "string list option"

record resolve_entry =
  en_doc :: string
  en_title :: string
  en_version :: string
  en_importance :: importance
  en_reason :: string
  en_chunks :: "string list option"

record read_receipt =
  rc_task :: string
  rc_doc :: string
  rc_version :: string
  rc_chunks :: "string list option"
  rc_reader :: string
  rc_at :: time

datatype stale_cause = Version_Mismatch | Document_Missing

record stale_reason =
  sr_task :: string
  sr_doc :: string
  sr_previous :: string
  sr_current :: string
  sr_cause :: stale_cause
  sr_detected :: time

record contract =
  ct_id :: string
  ct_content :: string
  ct_criteria :: "string list option"
  ct_forbidden :: "string list option"
  ct_done :: "string list option"
  ct_dependencies :: "string list option"

record chunking_request =
  cg_mode :: chunk_mode
  cg_max_chars :: "int option"

record ingest_request =
  iq_type :: string
  iq_title :: string
  iq_source :: "string option"
  iq_version :: string
  iq_updated :: "time option"
  iq_tags :: "string list option"
  iq_features :: "string list option"
  iq_summary :: "string option"
  iq_body :: string
  iq_chunking :: "chunking_request option"

record ingest_response =
  ir_doc :: string
  ir_version :: string
  ir_chunks :: nat
  ir_updated :: bool

record resolve_request =
  rq_feature :: "string option"
  rq_topic :: "string option"
  rq_limit :: "int option"

record resolve_response =
  rs_required :: "resolve_entry list"
  rs_recommended :: "resolve_entry list"
  rs_reference :: "resolve_entry list option"

record chunks_request =
  cr_doc :: "string option"
  cr_ids :: "string list option"
  cr_query :: "string option"
  cr_heading :: "string option"
  cr_limit :: "int option"

record chunks_response =
  cp_doc :: "string option"
  cp_chunks :: "chunk list"
  cp_not_found :: "string list option"

record search_request =
  sq_query :: string
  sq_types :: "string list option"
  sq_tags :: "string list option"
  sq_features :: "string list option"
  sq_limit :: "int option"

record search_result =
  sx_doc :: string
  sx_title :: string
  sx_version :: string
  sx_score :: int
  sx_summary :: "string option"

record ack_request =
  aq_task :: string
  aq_doc :: string
  aq_version :: string
  aq_chunks :: "string list option"
  aq_reader :: "string option"

record contracts_response =
  cx_feature :: "string option"
  cx_docs :: "string list"
  cx_criteria :: "string list"
  cx_forbidden :: "string list"
  cx_done :: "string list"

subsection \<open>The memory backend\<close>

record memx_store =
  mx_documents :: "(string, document) jsmap"
  mx_chunks :: "(string, chunk list) jsmap"
  mx_receipts :: "(string, read_receipt) jsmap"
  mx_stale :: "(string, stale_reason list) jsmap"
  mx_contracts :: "(string, contract) jsmap"

definition empty_memx :: memx_store where
  "empty_memx = \<lparr>mx_documents = [], mx_chunks = [], mx_receipts = [], mx_stale = [], mx_contracts = []\<rparr>"

definition getDocument :: "memx_store \<Rightarrow> string \<Rightarrow> document option" where
  "getDocument s i = map_get (mx_documents s) i"

definition setDocument :: "document \<Rightarrow> memx_store \<Rightarrow> memx_store" where
  "setDocument d s = s\<lparr>mx_documents := map_set (mx_documents s) (dc_id d) d\<rparr>"

definition deleteDocument :: "string \<Rightarrow> memx_store \<Rightarrow> bool \<times> memx_store" where
  "deleteDocument i s = (map_has (mx_documents s) i, s\<lparr>mx_documents := map_delete (mx_documents s) i\<rparr>)"

definition some_in :: "'a list option \<Rightarrow> ('a \<Rightarrow> bool) \<Rightarrow> bool" where
  "some_in xs P = (case xs of Some l \<Rightarrow> list_ex P l | None \<Rightarrow> False)"

definition findDocumentsByFeature :: "string \<Rightarrow> memx_store \<Rightarrow> document list" where
  "findDocumentsByFeature f s = filter (\<lambda>d. some_in (dc_features d) (\<lambda>x. x = f)) (map_values (mx_documents s))"

definition findDocumentsByTags :: "string list \<Rightarrow> memx_store \<Rightarrow> document list" where
  "findDocumentsByTags ts s = filter (\<lambda>d. some_in (dc_tags d) (\<lambda>t. t \<in> set ts)) (map_values (mx_documents s))"

definition lower_includes :: "string \<Rightarrow> string \<Rightarrow> bool" where
  "lower_includes text q = js_includes (to_lower text) (to_lower q)"

definition summary_match :: "string \<Rightarrow> document \<Rightarrow> bool" where
  "summary_match q d = (case dc_summary d of Some t \<Rightarrow> lower_includes t q | None \<Rightarrow> False)"

definition searchDocuments :: "string \<Rightarrow> int \<Rightarrow> memx_store \<Rightarrow> document list" where
  "searchDocuments q limit s = slice_to limit (filter (\<lambda>d. lower_includes (dc_title d) q \<or> summary_match q d \<or>
     some_in (dc_tags d) (\<lambda>t. lower_includes t q)) (map_values (mx_documents s)))"

fun find_chunk :: "string \<Rightarrow> chunk list list \<Rightarrow> chunk option" where
  "find_chunk i [] = None"
| "find_chunk i (cs # css) = (case filter (\<lambda>c. ck_id c = i) cs of c # _ \<Rightarrow> Some c | [] \<Rightarrow> find_chunk i css)"

definition getChunk :: "memx_store \<Rightarrow> string \<Rightarrow> chunk option" where
  "getChunk s i = find_chunk i (map_values (mx_chunks s))"

definition getChunksByDocId :: "memx_store \<Rightarrow> string \<Rightarrow> chunk list" where
  "getChunksByDocId s d = (case map_get (mx_chunks s) d of Some cs \<Rightarrow> cs | None \<Rightarrow> [])"

definition setChunks :: "string \<Rightarrow> chunk list \<Rightarrow> memx_store \<Rightarrow> memx_store" where
  "setChunks d cs s = s\<lparr>mx_chunks := map_set (mx_chunks s) d cs\<rparr>"

definition deleteChunks :: "string \<Rightarrow> memx_store \<Rightarrow> memx_store" where
  "deleteChunks d s = s\<lparr>mx_chunks := map_delete (mx_chunks s) d\<rparr>"

definition receipt_key :: "string \<Rightarrow> string \<Rightarrow> string" where
  "receipt_key t d = t @ '':'' @ d"

definition getReadReceipt :: "memx_store \<Rightarrow> string \<Rightarrow> string \<Rightarrow> read_receipt option" where
  "getReadReceipt s t d = map_get (mx_receipts s) (receipt_key t d)"

definition getReadReceiptsByTask :: "memx_store \<Rightarrow> string \<Rightarrow> read_receipt list" where
  "getReadReceiptsByTask s t = filter (\<lambda>r. rc_task r = t) (map_values (mx_receipts s))"

definition setReadReceipt :: "read_receipt \<Rightarrow> memx_store \<Rightarrow> memx_store" where
  "setReadReceipt r s = s\<lparr>mx_receipts := map_set (mx_receipts s) (receipt_key (rc_task r) (rc_doc r)) r\<rparr>"

definition getStaleReasons :: "memx_store \<Rightarrow> string \<Rightarrow> stale_reason list" where
  "getStaleReasons s t = (case map_get (mx_stale s) t of Some l \<Rightarrow> l | None \<Rightarrow> [])"

definition addStaleReason :: "stale_reason \<Rightarrow> memx_store \<Rightarrow> memx_store" where
  "addStaleReason r s = s\<lparr>mx_stale := map_set (mx_stale s) (sr_task r) (getStaleReasons s (sr_task r) @ [r])\<rparr>"

definition getContract :: "memx_store \<Rightarrow> string \<Rightarrow> contract option" where
  "getContract s i = map_get (mx_contracts s) i"

definition setContract :: "contract \<Rightarrow> memx_store \<Rightarrow> memx_store" where
  "setContract c s = s\<lparr>mx_contracts := map_set (mx_contracts s) (ct_id c) c\<rparr>"

definition findContractsByFeature :: "string \<Rightarrow> memx_store \<Rightarrow> contract list" where
  "findContractsByFeature f s = filter (\<lambda>c. js_includes (ct_id c) f) (map_values (mx_contracts s))"

subsection \<open>The service for documents\<close>

definition slug_char :: "char \<Rightarrow> bool" where
  "slug_char c = (let n = of_char c :: nat in (97 \<le> n \<and> n \<le> 122) \<or> (48 \<le> n \<and> n \<le> 57))"

text \<open>\<open>replace(/[^a-z0-9]+/g, '-')\<close>; the flag says that the run of other characters has its dash already.\<close>

fun dash_runs :: "bool \<Rightarrow> string \<Rightarrow> string" where
  "dash_runs b [] = []"
| "dash_runs b (c # s) = (if slug_char c then c # dash_runs False s else if b then dash_runs True s else CHR ''-'' # dash_runs True s)"

definition strip_dashes :: "string \<Rightarrow> string" where
  "strip_dashes s = (let t = (case s of c # r \<Rightarrow> if c = CHR ''-'' then r else s | [] \<Rightarrow> [])
     in if t \<noteq> [] \<and> last t = CHR ''-'' then butlast t else t)"

definition generateDocId :: "string \<Rightarrow> string \<Rightarrow> string" where
  "generateDocId ty heading = ''doc:'' @ ty @ '':'' @ strip_dashes (dash_runs False (to_lower heading))"

text \<open>The request names its limit \<open>max_chars\<close>, the chunker reads \<open>maxChars\<close>.\<close>

definition chunking_passed :: "chunking_request \<Rightarrow> chunking_options" where
  "chunking_passed r = \<lparr>cho_mode = cg_mode r, cho_maxChars = None\<rparr>"

definition ingest :: "time \<Rightarrow> ingest_request \<Rightarrow> memx_store \<Rightarrow> ingest_response \<times> memx_store" where
  "ingest now q s = (let i = generateDocId (iq_type q) (iq_title q);
       d = \<lparr>dc_id = i, dc_type = iq_type q, dc_title = iq_title q, dc_source = iq_source q, dc_version = iq_version q,
         dc_updated = (case iq_updated q of Some t \<Rightarrow> t | None \<Rightarrow> now), dc_summary = iq_summary q, dc_tags = iq_tags q, dc_features = iq_features q\<rparr>;
       existed = getDocument s i \<noteq> None;
       cs = chunkMarkdown i (iq_body q) (map_option chunking_passed (iq_chunking q))
     in (\<lparr>ir_doc = i, ir_version = iq_version q, ir_chunks = length cs, ir_updated = existed\<rparr>, setChunks i cs (setDocument d s)))"

definition mapDocTypeToImportance :: "string \<Rightarrow> importance" where
  "mapDocTypeToImportance ty = (if ty \<in> {''spec'', ''blueprint'', ''contract''} then Imp_Required
     else if ty \<in> {''cookbook'', ''guide'', ''tutorial''} then Imp_Recommended else Imp_Reference)"

definition createResolveEntry :: "memx_store \<Rightarrow> document \<Rightarrow> resolve_entry" where
  "createResolveEntry s d = (let top = map ck_id (take 2 (filter (\<lambda>c. ck_importance c = Imp_Required) (getChunksByDocId s (dc_id d)))) in
     \<lparr>en_doc = dc_id d, en_title = dc_title d, en_version = dc_version d, en_importance = mapDocTypeToImportance (dc_type d),
       en_reason = dc_type d @ '' for '' @ (case dc_features d of Some fs \<Rightarrow> js_join '', '' fs | None \<Rightarrow> ''general use''),
       en_chunks = (if top = [] then None else Some top)\<rparr>)"

text \<open>The lists of required, recommended and other documents, filled one document at a time.\<close>

type_synonym buckets = "resolve_entry list \<times> resolve_entry list \<times> resolve_entry list"

definition sort_feature_doc :: "memx_store \<Rightarrow> buckets \<Rightarrow> document \<Rightarrow> buckets" where
  "sort_feature_doc s b d = (let e = createResolveEntry s d; (a, r, o') = b in
     if dc_type d = ''spec'' \<or> dc_type d = ''blueprint'' then (a @ [e], r, o')
     else if dc_type d = ''cookbook'' \<or> dc_type d = ''guide'' then (a, r @ [e], o') else (a, r, o' @ [e]))"

definition add_topic_doc :: "memx_store \<Rightarrow> buckets \<Rightarrow> document \<Rightarrow> buckets" where
  "add_topic_doc s b d = (let (a, r, o') = b in if dc_id d \<in> set (map en_doc (a @ r @ o')) then b else (a, r @ [createResolveEntry s d], o'))"

definition resolve_docs :: "resolve_request \<Rightarrow> memx_store \<Rightarrow> resolve_response" where
  "resolve_docs q s = (let limit = (case rq_limit q of Some n \<Rightarrow> n | None \<Rightarrow> 10);
       b1 = (if falsy (rq_feature q) then ([], [], []) else foldl (sort_feature_doc s) ([], [], []) (findDocumentsByFeature (the (rq_feature q)) s));
       (a, r, o') = (if falsy (rq_topic q) then b1 else foldl (add_topic_doc s) b1 (searchDocuments (the (rq_topic q)) limit s))
     in \<lparr>rs_required = slice_to limit a, rs_recommended = slice_to limit r, rs_reference = (if o' = [] then None else Some (slice_to limit o'))\<rparr>)"

definition calculateScore :: "string \<Rightarrow> document \<Rightarrow> int" where
  "calculateScore q d = min 10 ((if lower_includes (dc_title d) q then 5 else 0) + (if summary_match q d then 3 else 0) +
     (if some_in (dc_tags d) (\<lambda>t. lower_includes t q) then 2 else 0))"

definition search_kept :: "search_request \<Rightarrow> document \<Rightarrow> bool" where
  "search_kept q d = ((case sq_types q of Some ts \<Rightarrow> dc_type d \<in> set ts | None \<Rightarrow> True) \<and>
     (case sq_tags q of Some ts \<Rightarrow> some_in (dc_tags d) (\<lambda>t. t \<in> set ts) | None \<Rightarrow> True) \<and>
     (case sq_features q of Some fs \<Rightarrow> some_in (dc_features d) (\<lambda>f. f \<in> set fs) | None \<Rightarrow> True))"

definition search :: "search_request \<Rightarrow> memx_store \<Rightarrow> search_result list" where
  "search q s = (let docs = searchDocuments (sq_query q) (case sq_limit q of Some n \<Rightarrow> n | None \<Rightarrow> 10) s in
     sort_key (\<lambda>r. - sx_score r) (map (\<lambda>d. \<lparr>sx_doc = dc_id d, sx_title = dc_title d, sx_version = dc_version d,
       sx_score = calculateScore (sq_query q) d, sx_summary = dc_summary d\<rparr>) (filter (search_kept q) docs)))"

record version_info =
  vi_doc :: string
  vi_version :: string
  vi_exists :: bool

definition getVersions :: "memx_store \<Rightarrow> string list \<Rightarrow> version_info list" where
  "getVersions s ids = map (\<lambda>i. \<lparr>vi_doc = i, vi_version = (case getDocument s i of Some d \<Rightarrow> dc_version d | None \<Rightarrow> ''unknown''),
     vi_exists = (getDocument s i \<noteq> None)\<rparr>) ids"

subsection \<open>Chunks, read receipts and contracts\<close>

definition chunk_heading_match :: "string \<Rightarrow> chunk \<Rightarrow> bool" where
  "chunk_heading_match h c = some_in (ck_path c) (\<lambda>p. lower_includes p h)"

text \<open>Without a filter the array that is sorted is the stored one.\<close>

definition chunks_by_doc :: "string \<Rightarrow> string option \<Rightarrow> string option \<Rightarrow> int \<Rightarrow> memx_store \<Rightarrow> chunks_response \<times> memx_store" where
  "chunks_by_doc d q h limit s = (let cs = getChunksByDocId s d;
       f1 = (if falsy h then cs else filter (chunk_heading_match (the h)) cs);
       f2 = (if falsy q then f1 else filter (\<lambda>c. lower_includes (ck_body c) (the q)) f1);
       sorted_chunks = sort_key ck_ordinal f2
     in (\<lparr>cp_doc = Some d, cp_chunks = slice_to limit sorted_chunks, cp_not_found = None\<rparr>,
         if falsy h \<and> falsy q \<and> map_has (mx_chunks s) d then setChunks d sorted_chunks s else s))"

definition chunks_by_ids :: "string list \<Rightarrow> memx_store \<Rightarrow> chunks_response" where
  "chunks_by_ids ids s = (let missing = filter (\<lambda>i. getChunk s i = None) ids in
     \<lparr>cp_doc = None, cp_chunks = List.map_filter (getChunk s) ids, cp_not_found = (if missing = [] then None else Some missing)\<rparr>)"

definition chunks_get :: "chunks_request \<Rightarrow> memx_store \<Rightarrow> chunks_response \<times> memx_store" where
  "chunks_get q s = (case cr_ids q of
     Some (i # is) \<Rightarrow> (chunks_by_ids (i # is) s, s)
   | _ \<Rightarrow> if \<not> falsy (cr_doc q) then chunks_by_doc (the (cr_doc q)) (cr_query q) (cr_heading q) (case cr_limit q of Some n \<Rightarrow> n | None \<Rightarrow> 10) s
          else (\<lparr>cp_doc = None, cp_chunks = [], cp_not_found = None\<rparr>, s))"

definition ack :: "time \<Rightarrow> ack_request \<Rightarrow> memx_store \<Rightarrow> memx_store" where
  "ack now q s = setReadReceipt \<lparr>rc_task = aq_task q, rc_doc = aq_doc q, rc_version = aq_version q, rc_chunks = aq_chunks q,
     rc_reader = (case aq_reader q of Some x \<Rightarrow> x | None \<Rightarrow> ''agent''), rc_at = now\<rparr> s"

definition receipt_stale :: "time \<Rightarrow> memx_store \<Rightarrow> read_receipt \<Rightarrow> stale_reason option" where
  "receipt_stale now s r = (case getDocument s (rc_doc r) of
     None \<Rightarrow> Some \<lparr>sr_task = rc_task r, sr_doc = rc_doc r, sr_previous = rc_version r, sr_current = ''missing'', sr_cause = Document_Missing,
       sr_detected = now\<rparr>
   | Some d \<Rightarrow> if dc_version d \<noteq> rc_version r then Some \<lparr>sr_task = rc_task r, sr_doc = rc_doc r, sr_previous = rc_version r,
       sr_current = dc_version d, sr_cause = Version_Mismatch, sr_detected = now\<rparr> else None)"

definition memx_staleCheck :: "time \<Rightarrow> string \<Rightarrow> memx_store \<Rightarrow> (bool \<times> stale_reason list) \<times> memx_store" where
  "memx_staleCheck now t s = (let rs = List.map_filter (receipt_stale now s) (getReadReceiptsByTask s t)
     in ((rs \<noteq> [], rs), fold addStaleReason rs s))"

definition as_set :: "string list \<Rightarrow> string list" where
  "as_set xs = foldl set_add [] xs"

definition opt_concat :: "string list option list \<Rightarrow> string list" where
  "opt_concat xs = concat (map (\<lambda>x. case x of Some l \<Rightarrow> l | None \<Rightarrow> []) xs)"

definition getDefaultContract :: "string \<Rightarrow> memx_store \<Rightarrow> contracts_response" where
  "getDefaultContract f s = (let cs = findContractsByFeature f s in
     if cs \<noteq> [] then \<lparr>cx_feature = Some f, cx_docs = as_set (opt_concat (map ct_dependencies cs)), cx_criteria = as_set (opt_concat (map ct_criteria cs)),
       cx_forbidden = as_set (opt_concat (map ct_forbidden cs)), cx_done = as_set (opt_concat (map ct_done cs))\<rparr>
     else \<lparr>cx_feature = Some f, cx_docs = [''doc:spec:'' @ f],
       cx_criteria = [f @ '' functionality works as expected'', ''Tests pass for '' @ f, ''Documentation is updated for '' @ f],
       cx_forbidden = [''No hardcoded credentials'', ''No synchronous operations in hot paths''],
       cx_done = [''Feature '' @ f @ '' is implemented'', ''Code review is approved'', ''Tests are passing'', ''Documentation is updated'']\<rparr>)"

definition resolve_contracts :: "string option \<Rightarrow> memx_store \<Rightarrow> contracts_response" where
  "resolve_contracts f s = (if falsy f then \<lparr>cx_feature = f, cx_docs = [], cx_criteria = [], cx_forbidden = [], cx_done = []\<rparr>
     else getDefaultContract (the f) s)"

subsection \<open>The resolver service of the control plane\<close>

record docs_request =
  dq_feature :: "string option"
  dq_topic :: "string option"
  dq_seed :: "string option"

record docs_response =
  dp_typed_ref :: string
  dp_docs :: "string list"
  dp_chunks :: "string list"
  dp_contracts :: "string list"
  dp_status :: stale_status

definition given :: "string option \<Rightarrow> (string \<Rightarrow> string) \<Rightarrow> string list" where
  "given x f = (if falsy x then [] else [f (the x)])"

definition resolveDocs :: "string \<Rightarrow> docs_request \<Rightarrow> docs_response" where
  "resolveDocs tref q = (let ds = given (dq_feature q) (\<lambda>f. ''doc:feature:'' @ f) @ given (dq_topic q) (\<lambda>t. ''doc:topic:'' @ t) @
       given (dq_seed q) (\<lambda>t. ''doc:task:'' @ t)
     in \<lparr>dp_typed_ref = tref, dp_docs = (if ds = [] then [''doc:workflow-cookbook:blueprint''] else ds),
       dp_chunks = given (dq_feature q) (\<lambda>f. ''chunk:feature:'' @ f @ '':1''), dp_contracts = [], dp_status = Fresh\<rparr>)"

definition buildAckRef :: "string \<Rightarrow> string \<Rightarrow> string \<Rightarrow> string" where
  "buildAckRef t d v = ''ack:'' @ t @ '':'' @ d @ '':'' @ v"

definition before_first :: "string \<Rightarrow> string" where
  "before_first s = takeWhile (\<lambda>c. c \<noteq> CHR '':'') s"

definition after_first :: "string \<Rightarrow> string" where
  "after_first s = tl (dropWhile (\<lambda>c. c \<noteq> CHR '':'') s)"

definition after_last :: "string \<Rightarrow> string" where
  "after_last s = rev (before_first (rev s))"

definition before_last :: "string \<Rightarrow> string" where
  "before_last s = rev (after_first (rev s))"

definition parseAckRef :: "string \<Rightarrow> (string \<times> string \<times> string) option" where
  "parseAckRef s = (if \<not> starts_with s ''ack:'' then None else let rest = drop 4 s in
     if CHR '':'' \<notin> set rest then None else
     if CHR '':'' \<notin> set (after_first rest) then None
     else Some (before_first rest, before_last (after_first rest), after_last (after_first rest)))"

definition parseAckRefs :: "string list \<Rightarrow> (string, string) jsmap" where
  "parseAckRefs rs = foldl (\<lambda>m r. case parseAckRef r of Some (t, d, v) \<Rightarrow> map_set m d v | None \<Rightarrow> m) [] rs"

record stale_item =
  si_task :: string
  si_doc :: string
  si_previous :: string
  si_current :: string
  si_cause :: stale_cause
  si_detected :: time

definition version_of :: "version_info list \<Rightarrow> string \<Rightarrow> version_info option" where
  "version_of vs d = map_get (foldl (\<lambda>m v. map_set m (vi_doc v) v) [] vs) d"

definition stale_item_of :: "time \<Rightarrow> string \<Rightarrow> version_info list \<Rightarrow> (string, string) jsmap \<Rightarrow> string \<Rightarrow> stale_item option" where
  "stale_item_of now t vs acked d = (let previous = map_get acked d in
     (case version_of vs d of
        Some v \<Rightarrow> if vi_exists v
          then (case previous of
             Some p \<Rightarrow> if vi_version v \<noteq> p then Some \<lparr>si_task = t, si_doc = d, si_previous = p, si_current = vi_version v,
                 si_cause = Version_Mismatch, si_detected = now\<rparr> else None
           | None \<Rightarrow> None)
          else Some \<lparr>si_task = t, si_doc = d, si_previous = (case previous of Some p \<Rightarrow> p | None \<Rightarrow> ''unknown''), si_current = ''missing'',
                 si_cause = Document_Missing, si_detected = now\<rparr>
      | None \<Rightarrow> Some \<lparr>si_task = t, si_doc = d, si_previous = (case previous of Some p \<Rightarrow> p | None \<Rightarrow> ''unknown''), si_current = ''missing'',
                 si_cause = Document_Missing, si_detected = now\<rparr>))"

definition docs_checkStale :: "time \<Rightarrow> string \<Rightarrow> resolver_refs option \<Rightarrow> string list option \<Rightarrow> (string list \<Rightarrow> version_info list) \<Rightarrow> stale_item list" where
  "docs_checkStale now t refs doc_ids current = (case Option.bind refs ack_refs of
     Some (r # rs) \<Rightarrow> let acked = parseAckRefs (r # rs); ids = (case doc_ids of Some l \<Rightarrow> l | None \<Rightarrow> map fst acked); vs = current ids
       in List.map_filter (stale_item_of now t vs acked) ids
   | _ \<Rightarrow> [])"

definition fetched :: "string list \<Rightarrow> ('a \<Rightarrow> string) \<Rightarrow> 'a list \<Rightarrow> 'a list \<times> string list option" where
  "fetched ids key xs = (let missing = filter (\<lambda>i. i \<notin> key ` set xs) ids in (xs, if missing = [] then None else Some missing))"

definition resolver_getChunks :: "string list \<Rightarrow> (string list \<Rightarrow> chunk list) option \<Rightarrow> memx_store \<Rightarrow> chunk list \<times> string list option" where
  "resolver_getChunks ids fetch s = (case fetch of Some f \<Rightarrow> fetched ids ck_id (f ids)
     | None \<Rightarrow> let p = fst (chunks_get \<lparr>cr_doc = None, cr_ids = Some ids, cr_query = None, cr_heading = None, cr_limit = None\<rparr> s) in (cp_chunks p, cp_not_found p))"

definition resolver_resolveContracts :: "string list \<Rightarrow> (string list \<Rightarrow> contract list) option \<Rightarrow> contract list \<times> string list option" where
  "resolver_resolveContracts ids fetch = (case fetch of Some f \<Rightarrow> fetched ids ct_id (f ids) | None \<Rightarrow> ([], None))"

definition collect_refs :: "(string \<times> string option \<times> string option) list \<Rightarrow> (string \<times> string option \<times> string option \<Rightarrow> string option) \<Rightarrow> (string, string) jsmap" where
  "collect_refs ds f = foldl (\<lambda>m d. if falsy (f d) then m else map_set m (fst d) (the (f d))) [] ds"

definition buildResolverRefs :: "(string \<times> string option \<times> string option) list \<Rightarrow> string list \<Rightarrow> string list \<Rightarrow> string list \<Rightarrow> stale_status \<Rightarrow> resolver_refs" where
  "buildResolverRefs ds cs as ks st = (let imp = collect_refs ds (\<lambda>d. fst (snd d)); why = collect_refs ds (\<lambda>d. snd (snd d)) in
     \<lparr>doc_refs = Some (map fst ds), chunk_refs = Some cs, ack_refs = Some as, contract_refs = Some ks, rr_stale_status = Some st,
       rr_importance = (if imp = [] then None else Some imp), rr_reason = (if why = [] then None else Some why), stale_doc_counts = None\<rparr>)"

datatype stale_advice = Advise_Block | Advise_Rework | Advise_Continue | Advise_Notify

record stale_decision =
  sd_action :: stale_advice
  sd_reason :: string
  sd_blocked_on :: "string list option"
  sd_rework :: "string list option"

definition determineStaleAction :: "stale_item list \<Rightarrow> string \<Rightarrow> stale_decision" where
  "determineStaleAction items st = (if items = [] then \<lparr>sd_action = Advise_Continue, sd_reason = ''No stale documents detected'', sd_blocked_on = None, sd_rework = None\<rparr>
     else let missing = filter (\<lambda>i. si_cause i = Document_Missing) items; changed = filter (\<lambda>i. si_cause i = Version_Mismatch) items;
       n = show_nat (length changed) in
       if missing \<noteq> [] then \<lparr>sd_action = Advise_Block, sd_reason = show_nat (length missing) @ '' document(s) are missing'',
         sd_blocked_on = Some (map si_doc missing), sd_rework = None\<rparr>
       else if st = ''developing'' \<or> st = ''planning'' then \<lparr>sd_action = Advise_Rework, sd_reason = n @ '' document(s) have been updated'',
         sd_blocked_on = None, sd_rework = Some (map si_doc changed)\<rparr>
       else if st = ''accepting'' \<or> st = ''integrating'' then \<lparr>sd_action = Advise_Block, sd_reason = ''Documents changed during '' @ st @ '' phase'',
         sd_blocked_on = Some (map si_doc changed), sd_rework = None\<rparr>
       else \<lparr>sd_action = Advise_Notify, sd_reason = n @ '' document(s) have newer versions'', sd_blocked_on = None, sd_rework = None\<rparr>)"

definition expandContractCriteria :: "contract list \<Rightarrow> string list \<times> string list \<times> string list \<times> string list" where
  "expandContractCriteria cs = (as_set (opt_concat (map ct_criteria cs)), as_set (opt_concat (map ct_forbidden cs)), as_set (opt_concat (map ct_done cs)),
     as_set (opt_concat (map ct_dependencies cs)))"

subsection \<open>The documents of a task\<close>

definition no_refs :: resolver_refs where
  "no_refs = \<lparr>doc_refs = None, chunk_refs = None, ack_refs = None, contract_refs = None, rr_stale_status = None, rr_importance = None,
     rr_reason = None, stale_doc_counts = None\<rparr>"

definition refs_of :: "task \<Rightarrow> resolver_refs" where
  "refs_of t = (case resolver_refs t of Some r \<Rightarrow> r | None \<Rightarrow> no_refs)"

definition docs_resolve :: "time \<Rightarrow> string \<Rightarrow> docs_request \<Rightarrow> task_store \<Rightarrow> (error, docs_response, task_store) outcome" where
  "docs_resolve now tid q = and_then (requireTask tid) (\<lambda>t. let p = resolveDocs (typed_ref t) q in
     and_then (updateTask now tid (no_update\<lparr>u_resolver_refs := Some (no_refs\<lparr>doc_refs := Some (dp_docs p), chunk_refs := Some (dp_chunks p),
       contract_refs := Some (dp_contracts p), rr_stale_status := Some (dp_status p)\<rparr>)\<rparr>)) (\<lambda>_. return p))"

definition docs_ack :: "time \<Rightarrow> string \<Rightarrow> string \<Rightarrow> string \<Rightarrow> task_store \<Rightarrow> (error, string, task_store) outcome" where
  "docs_ack now tid did ver = and_then (requireTask tid) (\<lambda>t. let a = buildAckRef tid did ver; old = (case ack_refs (refs_of t) of Some l \<Rightarrow> l | None \<Rightarrow> []) in
     and_then (updateTask now tid (no_update\<lparr>u_resolver_refs := Some ((refs_of t)\<lparr>ack_refs := Some (if a \<in> set old then old else old @ [a])\<rparr>)\<rparr>)) (\<lambda>_. return a))"

definition docs_staleCheck :: "time \<Rightarrow> string \<Rightarrow> string list option \<Rightarrow> memx_store \<Rightarrow> task_store \<Rightarrow> (error, stale_item list, task_store) outcome" where
  "docs_staleCheck now tid ids mx = and_then (requireTask tid) (\<lambda>t. let items = docs_checkStale now tid (resolver_refs t) ids (getVersions mx) in
     if items = [] then return items
     else and_then (updateTask now tid (no_update\<lparr>u_resolver_refs := Some ((refs_of t)\<lparr>rr_stale_status := Some Stale\<rparr>)\<rparr>)) (\<lambda>_. return items))"

end
