(* ===== verification/Resolver_Docs.thy ===== *)
theory Resolver_Docs
  imports Resolver Acceptance
begin

text \<open>
  What the document services of \<open>Resolver\<close> promise: an acknowledgement survives being written as a reference and read again, the
  documents reported as stale are exactly those whose last acknowledged version is not the stored one, and what the operations do to the gate
  that acceptance puts on stale documents.
\<close>

subsection \<open>References to acknowledgements\<close>

lemma split_first: "CHR '':'' \<notin> set t \<Longrightarrow> before_first (t @ CHR '':'' # r) = t \<and> after_first (t @ CHR '':'' # r) = r"
  by (induction t) (auto simp: before_first_def after_first_def)

lemma split_last: "CHR '':'' \<notin> set v \<Longrightarrow> after_last (d @ CHR '':'' # v) = v \<and> before_last (d @ CHR '':'' # v) = d"
  using split_first [of "rev v" "rev d"] by (simp add: after_last_def before_last_def)

lemma no_colon_parts: "CHR '':'' \<notin> set (before_first s)" "CHR '':'' \<notin> set (after_last s)"
  by (auto simp: after_last_def before_first_def dest: set_takeWhileD)

lemma ack_ref_rest: "starts_with (buildAckRef t d v) ''ack:''" "drop 4 (buildAckRef t d v) = t @ CHR '':'' # d @ CHR '':'' # v"
  by (simp_all add: buildAckRef_def starts_with_def)

lemma parse_ack: "CHR '':'' \<notin> set t \<Longrightarrow> CHR '':'' \<notin> set v \<Longrightarrow> parseAckRef (buildAckRef t d v) = Some (t, d, v)"
  by (simp add: parseAckRef_def ack_ref_rest split_first split_last Let_def)

text \<open>An acknowledgement is read back as it was written exactly when neither the task identifier nor the version has a colon. The
  identifier of the document may have any number of them, as those the resolver makes do.\<close>

theorem ack_ref_roundtrip:
  "parseAckRef (buildAckRef t d v) = Some (t, d, v) \<longleftrightarrow> CHR '':'' \<notin> set t \<and> CHR '':'' \<notin> set v"
proof
  assume "parseAckRef (buildAckRef t d v) = Some (t, d, v)"
  then show "CHR '':'' \<notin> set t \<and> CHR '':'' \<notin> set v"
    using no_colon_parts [of "drop 4 (buildAckRef t d v)"] no_colon_parts(2) [of "after_first (drop 4 (buildAckRef t d v))"]
    by (auto simp: parseAckRef_def Let_def split: if_splits)
qed (simp add: parse_ack)

subsection \<open>The report of stale documents\<close>

lemma parseAckRefs_snoc: "parseAckRefs (as @ [a]) = (case parseAckRef a of Some (t, d, v) \<Rightarrow> map_set (parseAckRefs as) d v | None \<Rightarrow> parseAckRefs as)"
  by (simp add: parseAckRefs_def split: option.split)

lemma parseAckRefs_wf: "wf_map (parseAckRefs as)"
proof (induction as rule: rev_induct)
  case Nil
  show ?case by (simp add: parseAckRefs_def)
next
  case (snoc a as)
  then show ?case by (auto simp: parseAckRefs_snoc split: option.split)
qed

lemma parseAckRefs_keys: "d \<in> set (map fst (parseAckRefs as)) \<longleftrightarrow> map_get (parseAckRefs as) d \<noteq> None"
  using jm.lookup_entries [OF parseAckRefs_wf] by (force simp: image_iff)

lemma foldl_set_get: "map_get (foldl (\<lambda>m v. map_set m (vi_doc v) v) [] (map f ids)) d = (if d \<in> set ids then Some (f d) else None)"
  if "\<And>i. vi_doc (f i) = i"
  using that by (induction ids rule: rev_induct) (auto simp: jm.lookup_store)

lemma version_of_getVersions: "version_of (getVersions mx ids) d = (if d \<in> set ids then Some
    \<lparr>vi_doc = d, vi_version = (case getDocument mx d of Some x \<Rightarrow> dc_version x | None \<Rightarrow> ''unknown''), vi_exists = (getDocument mx d \<noteq> None)\<rparr> else None)"
  unfolding version_of_def getVersions_def by (subst foldl_set_get) simp_all

lemma set_filter_map: "set (List.map_filter f xs) = {y. \<exists>x \<in> set xs. f x = Some y}"
  by (force simp: List.map_filter_def)

definition acks_of :: "resolver_refs option \<Rightarrow> string list" where
  "acks_of r = (case Option.bind r ack_refs of Some l \<Rightarrow> l | None \<Rightarrow> [])"

definition outdated :: "memx_store \<Rightarrow> string list \<Rightarrow> string \<Rightarrow> bool" where
  "outdated mx as d = (case map_get (parseAckRefs as) d of None \<Rightarrow> False
     | Some p \<Rightarrow> (case getDocument mx d of None \<Rightarrow> True | Some x \<Rightarrow> dc_version x \<noteq> p))"

lemma stale_item_outdated:
  "d \<in> set ids \<Longrightarrow> map_get (parseAckRefs as) d \<noteq> None \<Longrightarrow>
    (case stale_item_of now t (getVersions mx ids) (parseAckRefs as) d of None \<Rightarrow> \<not> outdated mx as d
     | Some i \<Rightarrow> outdated mx as d \<and> si_doc i = d)"
  by (auto simp: stale_item_of_def version_of_getVersions outdated_def Let_def split: option.splits)

lemma stale_items_exact:
  "set (map si_doc (docs_checkStale now tid r None (getVersions mx))) = {d. outdated mx (acks_of r) d}"
proof -
  let ?m = "parseAckRefs (acks_of r)" and ?f = "\<lambda>vs. stale_item_of now tid vs (parseAckRefs (acks_of r))"
  have run: "docs_checkStale now tid r None (getVersions mx) = List.map_filter (?f (getVersions mx (map fst ?m))) (map fst ?m)"
    by (cases "acks_of r"; cases "Option.bind r ack_refs")
      (auto simp: docs_checkStale_def acks_of_def Let_def parseAckRefs_def List.map_filter_def)
  have "d \<in> set (map si_doc (List.map_filter (?f (getVersions mx (map fst ?m))) (map fst ?m))) \<longleftrightarrow> outdated mx (acks_of r) d" for d
  proof
    assume "d \<in> set (map si_doc (List.map_filter (?f (getVersions mx (map fst ?m))) (map fst ?m)))"
    then obtain x i where xi: "x \<in> set (map fst ?m)" "?f (getVersions mx (map fst ?m)) x = Some i" "d = si_doc i"
      by (auto simp: set_filter_map)
    then show "outdated mx (acks_of r) d"
      using stale_item_outdated [where d = x and ids = "map fst ?m" and as = "acks_of r" and now = now and t = tid and mx = mx] parseAckRefs_keys [of x "acks_of r"] by simp
  next
    assume o': "outdated mx (acks_of r) d"
    then have k: "map_get ?m d \<noteq> None" by (auto simp: outdated_def split: option.splits)
    then have "d \<in> set (map fst ?m)" using parseAckRefs_keys by blast
    moreover from this k o' obtain i where "?f (getVersions mx (map fst ?m)) d = Some i" "si_doc i = d"
      using stale_item_outdated [where d = d and ids = "map fst ?m" and as = "acks_of r" and now = now and t = tid and mx = mx]
      by (cases "?f (getVersions mx (map fst ?m)) d") auto
    ultimately show "d \<in> set (map si_doc (List.map_filter (?f (getVersions mx (map fst ?m))) (map fst ?m)))"
      by (force simp: set_filter_map)
  qed
  then show ?thesis unfolding run by blast
qed


subsection \<open>The operations on a task\<close>

lemma spread_refs: "spread_resolver_opt (resolver_refs t) (Some ((refs_of t)\<lparr>ack_refs := Some l\<rparr>)) = Some ((refs_of t)\<lparr>ack_refs := Some l\<rparr>)"
  "spread_resolver_opt (resolver_refs t) (Some ((refs_of t)\<lparr>rr_stale_status := Some st\<rparr>)) = Some ((refs_of t)\<lparr>rr_stale_status := Some st\<rparr>)"
  by (auto simp: spread_resolver_opt_def spread_resolver_def refs_of_def replace_by_def split: option.split)

lemma resolver_refs_update: "resolver_refs (applyTaskUpdate now t (no_update\<lparr>u_resolver_refs := Some r\<rparr>)) = spread_resolver_opt (resolver_refs t) (Some r)"
  by (simp add: applyTaskUpdate_def no_update_def)

definition acked :: "string list \<Rightarrow> string \<Rightarrow> string list" where
  "acked as a = (if a \<in> set as then as else as @ [a])"

lemma acks_refs_of: "(case ack_refs (refs_of t) of Some l \<Rightarrow> l | None \<Rightarrow> []) = acks_of (resolver_refs t)"
  by (simp add: acks_of_def refs_of_def no_refs_def split: option.split)

definition task_with :: "time \<Rightarrow> resolver_refs \<Rightarrow> task \<Rightarrow> task" where
  "task_with now r t = applyTaskUpdate now t (no_update\<lparr>u_resolver_refs := Some r\<rparr>)"

lemma docs_ack_run:
  "getTask s tid = Some t \<Longrightarrow> docs_ack now tid did ver s = (Inr (buildAckRef tid did ver),
    setTask tid (task_with now ((refs_of t)\<lparr>ack_refs := Some (acked (acks_of (resolver_refs t)) (buildAckRef tid did ver))\<rparr>) t) s)"
  by (simp add: docs_ack_def and_then_Inr requireTask_iff [THEN iffD2] updateTask_iff [THEN iffD2] Let_def return_def acks_refs_of
      acked_def task_with_def)

lemma docs_resolve_run:
  "getTask s tid = Some t \<Longrightarrow> docs_resolve now tid q s = (let p = resolveDocs (typed_ref t) q in (Inr p,
    setTask tid (task_with now (no_refs\<lparr>doc_refs := Some (dp_docs p), chunk_refs := Some (dp_chunks p), contract_refs := Some (dp_contracts p),
      rr_stale_status := Some (dp_status p)\<rparr>) t) s))"
  by (simp add: docs_resolve_def and_then_Inr requireTask_iff [THEN iffD2] updateTask_iff [THEN iffD2] Let_def return_def task_with_def)

lemma docs_staleCheck_run:
  "getTask s tid = Some t \<Longrightarrow> docs_staleCheck now tid ids mx s =
    (let items = docs_checkStale now tid (resolver_refs t) ids (getVersions mx) in (Inr items,
      if items = [] then s else setTask tid (task_with now ((refs_of t)\<lparr>rr_stale_status := Some Stale\<rparr>) t) s))"
  by (simp add: docs_staleCheck_def and_then_Inr requireTask_iff [THEN iffD2] updateTask_iff [THEN iffD2] Let_def return_def task_with_def)

lemma task_with_acks: "resolver_refs (task_with now ((refs_of t)\<lparr>ack_refs := Some l\<rparr>) t) = Some ((refs_of t)\<lparr>ack_refs := Some l\<rparr>)"
  by (simp add: task_with_def resolver_refs_update spread_refs)

lemma task_with_stale: "\<not> docs_fresh (task_with now ((refs_of t)\<lparr>rr_stale_status := Some Stale\<rparr>) t)"
  by (simp add: task_with_def docs_fresh_def resolver_refs_update spread_refs)

lemma stale_gate_acks: "stale_gate (task_with now ((refs_of t)\<lparr>ack_refs := Some l\<rparr>) t) = stale_gate t"
proof (cases "resolver_refs t")
  case None
  have "stale_gate (task_with now ((refs_of t)\<lparr>ack_refs := Some l\<rparr>) t) = Inr ()"
    unfolding stale_gate_def task_with_acks by (simp add: None refs_of_def no_refs_def)
  with None show ?thesis by (simp add: stale_gate_def)
next
  case (Some r)
  then show ?thesis unfolding stale_gate_def task_with_acks by (cases "rr_stale_status r") (simp_all add: refs_of_def)
qed

lemma task_with_resolved:
  "docs_fresh (task_with now (no_refs\<lparr>doc_refs := a, chunk_refs := b, contract_refs := c, rr_stale_status := Some Fresh\<rparr>) t) \<and>
   acks_of (resolver_refs (task_with now (no_refs\<lparr>doc_refs := a, chunk_refs := b, contract_refs := c, rr_stale_status := Some Fresh\<rparr>) t)) =
     acks_of (resolver_refs t)"
  by (cases "resolver_refs t")
    (simp_all add: task_with_def docs_fresh_def resolver_refs_update spread_resolver_opt_def spread_resolver_def no_refs_def acks_of_def)

lemma no_stale_items: "docs_checkStale now tid r None (getVersions mx) = [] \<longleftrightarrow> \<not> (\<exists>d. outdated mx (acks_of r) d)"
  using stale_items_exact [of now tid r mx] by (metis (mono_tags) empty_Collect_eq list.map_disc_iff set_empty)

text \<open>C14. Once a check has found a stale document, acceptance is refused. Acknowledging a document, in any version, does not change that;
  resolving documents again lifts the refusal, whatever was read, and keeps the old acknowledgements.\<close>

theorem stale_gate_lifecycle:
  assumes "getTask s tid = Some t"
  shows "(\<exists>s' t'. docs_ack now tid did ver s = (Inr (buildAckRef tid did ver), s') \<and> getTask s' tid = Some t' \<and> stale_gate t' = stale_gate t) \<and>
    (\<exists>items s' t'. docs_staleCheck now tid None mx s = (Inr items, s') \<and> getTask s' tid = Some t' \<and>
      (stale_gate t' = Inr () \<longleftrightarrow> stale_gate t = Inr () \<and> \<not> (\<exists>d. outdated mx (acks_of (resolver_refs t)) d))) \<and>
    (\<exists>p s' t'. docs_resolve now tid q s = (Inr p, s') \<and> getTask s' tid = Some t' \<and> stale_gate t' = Inr () \<and>
      acks_of (resolver_refs t') = acks_of (resolver_refs t))"
proof (intro conjI)
  show "\<exists>s' t'. docs_ack now tid did ver s = (Inr (buildAckRef tid did ver), s') \<and> getTask s' tid = Some t' \<and> stale_gate t' = stale_gate t"
    by (simp add: docs_ack_run [OF assms] stale_gate_acks)
  show "\<exists>items s' t'. docs_staleCheck now tid None mx s = (Inr items, s') \<and> getTask s' tid = Some t' \<and>
      (stale_gate t' = Inr () \<longleftrightarrow> stale_gate t = Inr () \<and> \<not> (\<exists>d. outdated mx (acks_of (resolver_refs t)) d))"
    using assms by (simp add: docs_staleCheck_run [OF assms] stale_gate_iff task_with_stale Let_def)
      (metis no_stale_items)
  show "\<exists>p s' t'. docs_resolve now tid q s = (Inr p, s') \<and> getTask s' tid = Some t' \<and> stale_gate t' = Inr () \<and>
      acks_of (resolver_refs t') = acks_of (resolver_refs t)"
    by (simp add: docs_resolve_run [OF assms] Let_def stale_gate_iff task_with_resolved resolveDocs_def)
qed

text \<open>The store of one task, and a document of which the task has acknowledged the version \<open>2\<close>, then the version \<open>1\<close>.\<close>

definition sample_memx :: memx_store where
  "sample_memx = setDocument \<lparr>dc_id = ''doc:spec:a'', dc_type = ''spec'', dc_title = ''a'', dc_source = None, dc_version = ''2'',
     dc_updated = 0, dc_summary = None, dc_tags = None, dc_features = None\<rparr> empty_memx"

definition acked_task :: task where
  "acked_task = sample_task\<lparr>resolver_refs := Some (no_refs\<lparr>ack_refs := Some [''ack:task_1:doc:spec:a:2'', ''ack:task_1:doc:spec:a:1'']\<rparr>)\<rparr>"

definition acked_store :: task_store where
  "acked_store = \<lparr>tasks = [(''task_1'', acked_task)], events = []\<rparr>"

lemma acked_store_get: "getTask acked_store ''task_1'' = Some acked_task"
  by (simp add: getTask_def acked_store_def map_get_def)

lemma sample_outdated: "outdated sample_memx (acks_of (resolver_refs acked_task)) ''doc:spec:a''"
  by code_simp

lemma stale_gate_lifecycle_witness:
  "\<exists>items s' t'. docs_staleCheck 7 ''task_1'' None sample_memx acked_store = (Inr items, s') \<and> getTask s' ''task_1'' = Some t' \<and>
    stale_gate t' \<noteq> Inr ()"
  using stale_gate_lifecycle [OF acked_store_get, of 7 "''doc:spec:a''" "''2''" sample_memx] sample_outdated by blast

text \<open>An acknowledgement that repeats an older one is not recorded again, so a document that went back to an acknowledged version and was
  acknowledged once more is still reported as stale.\<close>

theorem repeated_ack_not_counted:
  assumes "getTask s tid = Some t" and "buildAckRef tid did ver \<in> set (acks_of (resolver_refs t))"
    and "outdated mx (acks_of (resolver_refs t)) did"
  shows "\<exists>s' t' items s''. docs_ack now tid did ver s = (Inr (buildAckRef tid did ver), s') \<and>
    docs_staleCheck later tid None mx s' = (Inr items, s'') \<and> did \<in> set (map si_doc items) \<and>
    getTask s'' tid = Some t' \<and> stale_gate t' \<noteq> Inr ()"
proof -
  let ?r = "(refs_of t)\<lparr>ack_refs := Some (acks_of (resolver_refs t))\<rparr>"
  let ?t = "task_with now ?r t"
  have ack: "docs_ack now tid did ver s = (Inr (buildAckRef tid did ver), setTask tid ?t s)"
    using assms(2) by (simp add: docs_ack_run [OF assms(1)] acked_def)
  have get: "getTask (setTask tid ?t s) tid = Some ?t" by simp
  have acks: "acks_of (resolver_refs ?t) = acks_of (resolver_refs t)" by (simp add: task_with_acks acks_of_def)
  let ?items = "docs_checkStale later tid (resolver_refs ?t) None (getVersions mx)"
  have "did \<in> set (map si_doc ?items)"
    using assms(3) unfolding stale_items_exact by (simp add: acks)
  moreover from this have "?items \<noteq> []" by auto
  ultimately show ?thesis
    using ack docs_staleCheck_run [OF get, of later None mx] task_with_stale [of later ?t]
    by (auto simp: Let_def stale_gate_iff)
qed

lemma repeated_ack_not_counted_witness:
  "\<exists>s' t' items s''. docs_ack 7 ''task_1'' ''doc:spec:a'' ''2'' acked_store = (Inr ''ack:task_1:doc:spec:a:2'', s') \<and>
    docs_staleCheck 8 ''task_1'' None sample_memx s' = (Inr items, s'') \<and> ''doc:spec:a'' \<in> set (map si_doc items) \<and>
    getTask s'' ''task_1'' = Some t' \<and> stale_gate t' \<noteq> Inr ()"
proof -
  have "buildAckRef ''task_1'' ''doc:spec:a'' ''2'' = ''ack:task_1:doc:spec:a:2''" by code_simp
  moreover have "buildAckRef ''task_1'' ''doc:spec:a'' ''2'' \<in> set (acks_of (resolver_refs acked_task))" by code_simp
  ultimately show ?thesis
    using repeated_ack_not_counted [OF acked_store_get _ sample_outdated, of "''2''" 7 8] by simp
qed

subsection \<open>Storing a document\<close>

lemma ingest_document: "getDocument (snd (ingest now q mx)) d =
    (if d = generateDocId (iq_type q) (iq_title q) then Some \<lparr>dc_id = d, dc_type = iq_type q, dc_title = iq_title q, dc_source = iq_source q,
       dc_version = iq_version q, dc_updated = (case iq_updated q of Some t \<Rightarrow> t | None \<Rightarrow> now), dc_summary = iq_summary q, dc_tags = iq_tags q,
       dc_features = iq_features q\<rparr> else getDocument mx d)"
  by (simp add: ingest_def Let_def getDocument_def setDocument_def setChunks_def jm.lookup_store)

lemma ingest_chunks: "getChunksByDocId (snd (ingest now q mx)) d = (if d = generateDocId (iq_type q) (iq_title q)
    then chunkMarkdown d (iq_body q) (map_option chunking_passed (iq_chunking q)) else getChunksByDocId mx d)"
  by (simp add: ingest_def Let_def setDocument_def setChunks_def getChunksByDocId_def jm.lookup_store)

text \<open>The limit of a request is not used: the chunks are those of the same request without one.\<close>

lemma ingest_ignores_max_chars: "ingest now (q\<lparr>iq_chunking := Some \<lparr>cg_mode = m, cg_max_chars = n\<rparr>\<rparr>) mx =
    ingest now (q\<lparr>iq_chunking := Some \<lparr>cg_mode = m, cg_max_chars = None\<rparr>\<rparr>) mx"
  by (simp add: ingest_def chunking_passed_def Let_def)

text \<open>Storing a new version of a document makes it stale for the tasks that acknowledged another version, makes it current for those that
  acknowledged this one, and changes nothing for other documents.\<close>

theorem ingest_decides_staleness:
  "set (map si_doc (docs_checkStale now tid r None (getVersions (snd (ingest stored q mx))))) =
    {d. if d = generateDocId (iq_type q) (iq_title q) then map_get (parseAckRefs (acks_of r)) d \<notin> {None, Some (iq_version q)}
        else outdated mx (acks_of r) d}"
  unfolding stale_items_exact by (auto simp: outdated_def ingest_document split: option.splits if_splits)

text \<open>Filtering a search happens after the limit has cut the list: a search with a filter finds at most what it would find without a limit,
  and nothing when the first documents that match the words are of another type.\<close>

lemma search_cut_first: "list_all (\<lambda>d. \<not> search_kept q d) (searchDocuments (sq_query q) (case sq_limit q of Some n \<Rightarrow> n | None \<Rightarrow> 10) mx) \<Longrightarrow> search q mx = []"
  by (simp add: search_def Let_def list_all_iff filter_empty_conv [THEN iffD2])

end
