(* ===== verification/Event_Ingestor.thy ===== *)
theory Event_Ingestor
  imports Validation Paths Instruction
begin

text \<open>
  The event ingestor of OpenCode sessions, \<open>src/src/domain/worker/opencode-event-ingestor.ts\<close>: raw transcripts become events, events are
  sorted by kind, and permission requests become escalations. \<open>JSON.parse\<close> is the argument \<open>parse\<close> (\<open>None\<close> when it throws); JSON numbers are
  integers, and of texts only those of integers are numbers. The theorems say that no permission request is dropped, and when one is.
\<close>

subsection \<open>JSON values as JavaScript reads them\<close>

fun js_text :: "json \<Rightarrow> string" where
  "js_text Json_Null = ''null''"
| "js_text (Json_Bool b) = (if b then ''true'' else ''false'')"
| "js_text (Json_Int n) = show_int n"
| "js_text (Json_Str s) = s"
| "js_text (Json_Arr vs) = js_join '','' (map (\<lambda>v. if v = Json_Null then [] else js_text v) vs)"
| "js_text (Json_Obj kvs) = ''[object Object]''"

fun js_truthy :: "json \<Rightarrow> bool" where
  "js_truthy Json_Null = False"
| "js_truthy (Json_Bool b) = b"
| "js_truthy (Json_Int n) = (n \<noteq> 0)"
| "js_truthy (Json_Str s) = (s \<noteq> [])"
| "js_truthy _ = True"

fun json_prop :: "string \<Rightarrow> json \<Rightarrow> json option" where
  "json_prop k (Json_Obj kvs) = map_get kvs k"
| "json_prop k _ = None"

text \<open>\<open>a || b\<close> on optional values, \<open>String(a || text)\<close> and \<open>Number(a)\<close>; not a number is \<open>None\<close>.\<close>

definition js_or :: "json option \<Rightarrow> json option \<Rightarrow> json option" where
  "js_or a b = (case a of Some v \<Rightarrow> if js_truthy v then a else b | None \<Rightarrow> b)"

definition text_or :: "json option \<Rightarrow> string \<Rightarrow> string" where
  "text_or a d = (case a of Some v \<Rightarrow> if js_truthy v then js_text v else d | None \<Rightarrow> d)"

definition digit_char :: "char \<Rightarrow> bool" where
  "digit_char c = (let n = of_char c :: nat in 48 \<le> n \<and> n \<le> 57)"

definition number_text :: "string \<Rightarrow> int option" where
  "number_text s = (let t = js_trim s; (sign, ds) = (case t of c # r \<Rightarrow> if c = CHR ''-'' then (- 1, r) else if c = CHR ''+'' then (1, r) else (1, t) | [] \<Rightarrow> (1, []))
     in if t = [] then Some 0 else if ds \<noteq> [] \<and> list_all digit_char ds then Some (sign * foldl (\<lambda>n c. n * 10 + int (of_char c - 48)) 0 ds) else None)"

definition js_number :: "json option \<Rightarrow> int option" where
  "js_number a = (case a of
     Some Json_Null \<Rightarrow> Some 0
   | Some (Json_Bool b) \<Rightarrow> Some (if b then 1 else 0)
   | Some (Json_Int n) \<Rightarrow> Some n
   | Some (Json_Str s) \<Rightarrow> number_text s
   | Some (Json_Arr vs) \<Rightarrow> number_text (js_text (Json_Arr vs))
   | _ \<Rightarrow> None)"

text \<open>\<open>Number(a) || undefined\<close>\<close>

definition number_or_none :: "json option \<Rightarrow> int option" where
  "number_or_none a = (case js_number a of Some n \<Rightarrow> if n = 0 then None else Some n | None \<Rightarrow> None)"

subsection \<open>Events\<close>

datatype event_category = Transcript_Message | Tool_Use | Permission_Request | Stdout_Chunk | Stderr_Chunk | Session_Lifecycle | Execution_Completion

record permission_event =
  pe_id :: string
  pe_tool :: "string option"
  pe_action :: "string option"
  pe_reason :: "string option"
  pe_timestamp :: int
  pe_context :: "json option"

record tool_use_event =
  tu_id :: string
  tu_tool :: string
  tu_input :: "json option"
  tu_output :: "json option"
  tu_status :: string
  tu_timestamp :: int
  tu_duration :: "int option"
  tu_error :: "string option"

record transcript_event =
  tv_id :: string
  tv_role :: string
  tv_content :: string
  tv_timestamp :: int
  tv_tokens :: "int option"

record stdio_event =
  io_id :: string
  io_content :: string
  io_timestamp :: int

record lifecycle_event =
  lc_id :: string
  lc_event :: string
  lc_timestamp :: int
  lc_session :: "string option"
  lc_reason :: "string option"

record completion_event =
  ce_id :: string
  ce_status :: string
  ce_timestamp :: int
  ce_exit_code :: "int option"
  ce_reason :: "string option"

datatype event_body = Permission permission_event | Tool tool_use_event | Transcript transcript_event | Stdout stdio_event | Stderr stdio_event
  | Lifecycle lifecycle_event | Completion completion_event

record opencode_event =
  oe_body :: event_body
  oe_category :: event_category

record normalized_escalation =
  ne_kind :: escalation_kind
  ne_reason :: string
  ne_approved :: "json option"
  ne_raw :: permission_event

record normalized_tool_use =
  nt_tool :: string
  nt_status :: string
  nt_duration :: "int option"
  nt_error :: "string option"
  nt_input :: "json option"
  nt_output :: "json option"

record normalized_transcript =
  nr_role :: string
  nr_content :: string
  nr_tokens :: "int option"

record lifecycle_entry =
  le_event :: string
  le_timestamp :: int
  le_session :: "string option"
  le_reason :: "string option"

record completion_info =
  ci_status :: string
  ci_exit_code :: "int option"
  ci_reason :: "string option"

record ingestion_meta =
  im_started :: time
  im_completed :: time
  im_total :: nat
  im_parse_errors :: nat

record ingested_events =
  in_permissions :: "normalized_escalation list"
  in_tools :: "normalized_tool_use list"
  in_transcripts :: "normalized_transcript list"
  in_stdout :: "string list"
  in_stderr :: "string list"
  in_lifecycle :: "lifecycle_entry list"
  in_completion :: "completion_info option"
  in_raw :: "opencode_event list option"
  in_counts :: "event_category \<Rightarrow> nat"
  in_meta :: ingestion_meta

record event_container =
  ec_job :: string
  ec_session :: string
  ec_events :: "opencode_event list"
  ec_ingested :: ingested_events
  ec_started :: time
  ec_completed :: "time option"

subsection \<open>Patterns\<close>

text \<open>Literals with white space (\<open>\s+\<close>) between them, from a word boundary to a word boundary; every literal starts with no white space, the
  first starts and the last ends with a word character.\<close>

fun match_words :: "string list \<Rightarrow> string \<Rightarrow> string option" where
  "match_words [] s = Some s"
| "match_words [w] s = (if take (length w) s = w then Some (drop (length w) s) else None)"
| "match_words (w # ws) s = (if take (length w) s = w then
     let r = drop (length w) s; t = dropWhile js_whitespace r in if t = r then None else match_words ws t else None)"

fun words_found :: "string list \<Rightarrow> bool \<Rightarrow> string \<Rightarrow> bool" where
  "words_found ws after_word s =
     ((\<not> after_word \<and> (case match_words ws s of None \<Rightarrow> False | Some r \<Rightarrow> \<not> starts_word r)) \<or>
      (case s of [] \<Rightarrow> False | c # t \<Rightarrow> words_found ws (word_char c) t))"

declare words_found.simps [simp del]

definition destructivePatterns :: "string list list" where
  "destructivePatterns = [[''rm'', ''-rf''], [''rm'', ''-r''], [''dd''], [''mkfs''], [''format''], [''delete''], [''truncate''], [''shred''], [''wipe''],
     [''sudo'', ''rm''], [''chmod'', ''777'']]"

definition isDestructiveCommand :: "string \<Rightarrow> bool" where
  "isDestructiveCommand cmd = list_ex (\<lambda>p. words_found p False cmd) destructivePatterns"

definition secretIndicators :: "string list" where
  "secretIndicators = [''secret'', ''password'', ''token'', ''key'', ''credential'', ''api_key'', ''apikey'', ''auth'', ''private'', ''certificate'']"

definition ends_with :: "string \<Rightarrow> string \<Rightarrow> bool" where
  "ends_with s t = (length t \<le> length s \<and> drop (length s - length t) s = t)"

definition isSecretPath :: "string \<Rightarrow> bool" where
  "isSecretPath p = (p \<noteq> [] \<and> (let l = to_lower p in ends_with l ''.env'' \<or>
     list_ex (js_includes l) [''.env.'', ''credentials'', ''secrets'', ''password'', ''_secret'', ''api_key'', ''api-key'', ''apikey'', ''token''] \<or>
     ends_with p ''.htpasswd'' \<or> ends_with p ''.pgpass''))"

definition isProtectedPath :: "string \<Rightarrow> bool" where
  "isProtectedPath p = (p \<noteq> [] \<and> (let l = to_lower p in
     list_ex (starts_with p) [''/etc/'', ''/usr/'', ''/bin/'', ''/sbin/'', ''/root/'', ''/var/log/'', ''/proc/'', ''/sys/''] \<or>
     ends_with l ''.env'' \<or> js_includes l ''.env.'' \<or> list_ex (starts_with p) [''.ssh/'', ''.gnupg/''] \<or>
     js_includes l ''credentials'' \<or> js_includes l ''secrets'' \<or>
     list_ex (ends_with p) [''.pem'', ''.key'', ''.p12'', ''.pfx'', ''.crt'', ''.cer'']))"

definition isInWorkspace :: "string \<Rightarrow> bool" where
  "isInWorkspace p = (starts_with p ''./'' \<or> starts_with p ''../'' \<or> \<not> starts_with p ''/'' \<or>
     list_ex (starts_with p) [''/tmp/'', ''/workspace/'', ''/work/'', ''/project/'', ''/repo/'', ''/home/''])"

text \<open>\<open>String(context?.path || context?.file || '')\<close>\<close>

definition context_path :: "json option \<Rightarrow> string" where
  "context_path c = text_or (js_or (Option.bind c (json_prop ''path'')) (Option.bind c (json_prop ''file''))) []"

definition isSecretAccess :: "string \<Rightarrow> json option \<Rightarrow> bool" where
  "isSecretAccess tool c = (case c of None \<Rightarrow> False | Some v \<Rightarrow> js_truthy v \<and>
     (list_ex (js_includes (to_lower tool)) secretIndicators \<or> list_ex (js_includes (to_lower (stringify v))) secretIndicators \<or>
      isSecretPath (context_path c)))"

subsection \<open>Permission requests\<close>

definition string_or :: "string option \<Rightarrow> string \<Rightarrow> string" where
  "string_or a d = (if falsy a then d else the a)"

definition approved_by :: "permission_event \<Rightarrow> json option" where
  "approved_by e = Option.bind (pe_context e) (json_prop ''approved'')"

definition escalate :: "permission_event \<Rightarrow> escalation_kind \<Rightarrow> string \<Rightarrow> normalized_escalation" where
  "escalate e k default_reason = \<lparr>ne_kind = k, ne_reason = string_or (pe_reason e) default_reason, ne_approved = approved_by e, ne_raw = e\<rparr>"

definition js_undefined_text :: "string option \<Rightarrow> string" where
  "js_undefined_text s = (case s of Some t \<Rightarrow> t | None \<Rightarrow> ''undefined'')"

definition writing_tool :: "string \<Rightarrow> bool" where
  "writing_tool tool = (tool \<in> {''write'', ''edit'', ''create''})"

definition normalizePermissionRequest :: "permission_event \<Rightarrow> normalized_escalation" where
  "normalizePermissionRequest e = (let tool = string_or (pe_tool e) []; path = context_path (pe_context e) in
     if tool = ''webfetch'' \<or> js_includes tool ''fetch'' \<or> js_includes tool ''http'' \<or> js_includes tool ''network''
       then escalate e E_Network_Access (''Network access requested via '' @ tool)
     else if tool = ''bash'' \<and> isDestructiveCommand (string_or (pe_action e) [])
       then escalate e E_Destructive_Tool (''Destructive command requested: '' @ js_undefined_text (pe_action e))
     else if isSecretAccess tool (pe_context e) then escalate e E_Secret_Access (''Secret access requested via '' @ tool)
     else if writing_tool tool \<and> path \<noteq> [] \<and> \<not> isInWorkspace path
       then escalate e E_Workspace_Outside_Write (''Write outside workspace: '' @ path)
     else if writing_tool tool \<and> path \<noteq> [] \<and> isProtectedPath path
       then escalate e E_Protected_Path_Write (''Protected path write requested: '' @ path)
     else escalate e E_Human_Verdict (''Permission request for '' @ tool))"

subsection \<open>Ingesting\<close>

definition createEmptyIngestedEvents :: ingested_events where
  "createEmptyIngestedEvents = \<lparr>in_permissions = [], in_tools = [], in_transcripts = [], in_stdout = [], in_stderr = [], in_lifecycle = [],
     in_completion = None, in_raw = None, in_counts = (\<lambda>_. 0), in_meta = \<lparr>im_started = 0, im_completed = 0, im_total = 0, im_parse_errors = 0\<rparr>\<rparr>"

definition ingestSingleEvent :: "event_body \<Rightarrow> ingested_events \<Rightarrow> ingested_events" where
  "ingestSingleEvent e r = (case e of
     Permission p \<Rightarrow> r\<lparr>in_permissions := in_permissions r @ [normalizePermissionRequest p]\<rparr>
   | Tool t \<Rightarrow> r\<lparr>in_tools := in_tools r @ [\<lparr>nt_tool = tu_tool t, nt_status = tu_status t, nt_duration = tu_duration t, nt_error = tu_error t,
       nt_input = tu_input t, nt_output = tu_output t\<rparr>]\<rparr>
   | Transcript t \<Rightarrow> r\<lparr>in_transcripts := in_transcripts r @ [\<lparr>nr_role = tv_role t, nr_content = tv_content t, nr_tokens = tv_tokens t\<rparr>]\<rparr>
   | Stdout i \<Rightarrow> r\<lparr>in_stdout := in_stdout r @ [io_content i]\<rparr>
   | Stderr i \<Rightarrow> r\<lparr>in_stderr := in_stderr r @ [io_content i]\<rparr>
   | Lifecycle l \<Rightarrow> r\<lparr>in_lifecycle := in_lifecycle r @ [\<lparr>le_event = lc_event l, le_timestamp = lc_timestamp l, le_session = lc_session l,
       le_reason = lc_reason l\<rparr>]\<rparr>
   | Completion c \<Rightarrow> r\<lparr>in_completion := Some \<lparr>ci_status = ce_status c, ci_exit_code = ce_exit_code c, ci_reason = ce_reason c\<rparr>\<rparr>)"

definition ingest_event :: "opencode_event \<Rightarrow> ingested_events \<Rightarrow> ingested_events" where
  "ingest_event e r = (let r' = ingestSingleEvent (oe_body e) r in r'\<lparr>in_counts := (in_counts r')(oe_category e := in_counts r' (oe_category e) + 1)\<rparr>)"

text \<open>\<open>keep\<close> is \<open>includeRawEvents\<close>; the two instants are those of the calls of the clock.\<close>

definition ingestEvents :: "bool \<Rightarrow> time \<Rightarrow> time \<Rightarrow> opencode_event list \<Rightarrow> ingested_events" where
  "ingestEvents keep from to evs = (let r = fold ingest_event evs createEmptyIngestedEvents in
     r\<lparr>in_meta := \<lparr>im_started = from, im_completed = to, im_total = length evs, im_parse_errors = 0\<rparr>, in_raw := (if keep then Some evs else None)\<rparr>)"

definition createEventStreamContainer :: "time \<Rightarrow> string \<Rightarrow> string \<Rightarrow> event_container" where
  "createEventStreamContainer now job sid = \<lparr>ec_job = job, ec_session = sid, ec_events = [], ec_ingested = createEmptyIngestedEvents,
     ec_started = now, ec_completed = None\<rparr>"

definition addEvent :: "opencode_event \<Rightarrow> event_container \<Rightarrow> event_container" where
  "addEvent e c = c\<lparr>ec_events := ec_events c @ [e], ec_ingested := ingest_event e (ec_ingested c)\<rparr>"

definition finalizeContainer :: "bool \<Rightarrow> time \<Rightarrow> event_container \<Rightarrow> event_container" where
  "finalizeContainer keep now c = (let r = (ec_ingested c)\<lparr>in_meta := \<lparr>im_started = ec_started c, im_completed = now, im_total = length (ec_events c),
       im_parse_errors = 0\<rparr>\<rparr>
     in c\<lparr>ec_completed := Some now, ec_ingested := (if keep then r\<lparr>in_raw := Some (ec_events c)\<rparr> else r)\<rparr>)"

subsection \<open>Reading a transcript\<close>

definition parseTranscriptItem :: "time \<Rightarrow> string \<Rightarrow> string option \<Rightarrow> json \<Rightarrow> opencode_event" where
  "parseTranscriptItem now fresh sid item = (let p = (\<lambda>k. json_prop k item); ty = text_or (p ''type'') ''unknown'';
       i = text_or (p ''id'') fresh; ts = (case number_or_none (p ''timestamp'') of Some n \<Rightarrow> n | None \<Rightarrow> now)
     in if ty = ''permission_request'' \<or> ty = ''permission'' then
          \<lparr>oe_body = Permission \<lparr>pe_id = i, pe_tool = Some (text_or (p ''tool'') []), pe_action = Some (text_or (p ''action'') []),
             pe_reason = Some (text_or (p ''reason'') []), pe_timestamp = ts, pe_context = p ''context''\<rparr>, oe_category = Permission_Request\<rparr>
        else if ty = ''tool_use'' \<or> ty = ''tool'' then
          \<lparr>oe_body = Tool \<lparr>tu_id = i, tu_tool = text_or (js_or (p ''tool'') (p ''name'')) ''unknown'', tu_input = p ''input'', tu_output = p ''output'',
             tu_status = text_or (p ''status'') ''pending'', tu_timestamp = ts, tu_duration = number_or_none (p ''duration_ms''),
             tu_error = Some (text_or (p ''error'') [])\<rparr>, oe_category = Tool_Use\<rparr>
        else if ty = ''transcript'' \<or> ty = ''message'' then
          \<lparr>oe_body = Transcript \<lparr>tv_id = i, tv_role = text_or (p ''role'') ''assistant'', tv_content = text_or (p ''content'') [], tv_timestamp = ts,
             tv_tokens = number_or_none (p ''tokens'')\<rparr>, oe_category = Transcript_Message\<rparr>
        else if ty = ''session_lifecycle'' \<or> ty = ''lifecycle'' then
          \<lparr>oe_body = Lifecycle \<lparr>lc_id = i, lc_event = text_or (js_or (p ''event'') (p ''lifecycle_event'')) ''unknown'', lc_timestamp = ts,
             lc_session = Some (if falsy sid then text_or (p ''sessionId'') [] else the sid), lc_reason = Some (text_or (p ''reason'') [])\<rparr>,
           oe_category = Session_Lifecycle\<rparr>
        else if ty = ''execution_completion'' \<or> ty = ''completion'' then
          \<lparr>oe_body = Completion \<lparr>ce_id = i, ce_status = text_or (p ''status'') ''unknown'', ce_timestamp = ts,
             ce_exit_code = number_or_none (p ''exit_code''), ce_reason = Some (text_or (p ''reason'') [])\<rparr>, oe_category = Execution_Completion\<rparr>
        else if ty = ''stdout'' \<or> ty = ''out'' then
          \<lparr>oe_body = Stdout \<lparr>io_id = i, io_content = text_or (p ''content'') [], io_timestamp = ts\<rparr>, oe_category = Stdout_Chunk\<rparr>
        else if ty = ''stderr'' \<or> ty = ''err'' then
          \<lparr>oe_body = Stderr \<lparr>io_id = i, io_content = text_or (p ''content'') [], io_timestamp = ts\<rparr>, oe_category = Stderr_Chunk\<rparr>
        else \<lparr>oe_body = Stdout \<lparr>io_id = i, io_content = stringify item, io_timestamp = ts\<rparr>, oe_category = Stdout_Chunk\<rparr>)"

text \<open>\<open>item.type\<close> of the value \<open>null\<close> throws; \<open>fresh\<close> gives the identifier made for the item at an index.\<close>

fun parse_items :: "time \<Rightarrow> (nat \<Rightarrow> string) \<Rightarrow> string option \<Rightarrow> nat \<Rightarrow> json list \<Rightarrow> opencode_event list option" where
  "parse_items now fresh sid k [] = Some []"
| "parse_items now fresh sid k (v # vs) = (if v = Json_Null then None
     else map_option ((#) (parseTranscriptItem now (fresh k) sid v)) (parse_items now fresh sid (Suc k) vs))"

definition parse_value :: "time \<Rightarrow> (nat \<Rightarrow> string) \<Rightarrow> string option \<Rightarrow> json \<Rightarrow> opencode_event list option" where
  "parse_value now fresh sid v = (case v of
     Json_Arr vs \<Rightarrow> parse_items now fresh sid 0 vs
   | Json_Null \<Rightarrow> None
   | _ \<Rightarrow> (case json_prop ''events'' v of
       Some (Json_Arr vs) \<Rightarrow> parse_items now fresh sid 0 vs
     | _ \<Rightarrow> (case json_prop ''type'' v of
         Some ty \<Rightarrow> if js_truthy ty then Some [parseTranscriptItem now (fresh 0) sid v] else Some []
       | None \<Rightarrow> Some [])))"

definition parseTranscriptJson :: "(string \<Rightarrow> json option) \<Rightarrow> time \<Rightarrow> (nat \<Rightarrow> string) \<Rightarrow> string option \<Rightarrow> string \<Rightarrow> opencode_event list" where
  "parseTranscriptJson parse now fresh sid s = (if js_trim s = [] then [] else
     case Option.bind (parse s) (parse_value now fresh sid) of
       Some evs \<Rightarrow> evs
     | None \<Rightarrow> [\<lparr>oe_body = Stdout \<lparr>io_id = ''stdout-'' @ show_int now, io_content = s, io_timestamp = now\<rparr>, oe_category = Stdout_Chunk\<rparr>])"

subsection \<open>What a worker result takes from the events\<close>

record extracted_escalation =
  xe_kind :: escalation_kind
  xe_reason :: string
  xe_approved :: "json option"

definition extractEscalations :: "ingested_events \<Rightarrow> extracted_escalation list" where
  "extractEscalations r = map (\<lambda>q. \<lparr>xe_kind = ne_kind q, xe_reason = ne_reason q, xe_approved = ne_approved q\<rparr>) (in_permissions r)"

text \<open>An artifact is its identifier and kind, an output its channel and the identifier of the artifact.\<close>

definition find_artifact :: "(string \<times> string) list \<Rightarrow> string \<Rightarrow> string \<Rightarrow> string \<Rightarrow> (string \<times> string) list" where
  "find_artifact arts kind part channel = (case filter (\<lambda>(i, k). k = kind \<and> js_includes i part) arts of (i, _) # _ \<Rightarrow> [(channel, i)] | [] \<Rightarrow> [])"

definition buildRawOutputs :: "ingested_events \<Rightarrow> (string \<times> string) list \<Rightarrow> (string \<times> string) list" where
  "buildRawOutputs r arts =
     (if js_join [CHR 0x0A] (in_stdout r) = [] then [] else find_artifact arts ''log'' ''stdout'' ''stdout'') @
     (if js_join [CHR 0x0A] (in_stderr r) = [] then [] else find_artifact arts ''log'' ''stderr'' ''stderr'') @
     (if in_transcripts r = [] then [] else find_artifact arts ''json'' ''transcript'' ''json'') @
     (if in_raw r \<in> {None, Some []} then [] else find_artifact arts ''json'' ''event-stream'' ''json'')"

record event_usage =
  eu_tokens :: int
  eu_tools :: nat
  eu_permissions :: nat
  eu_session :: nat

definition calculateUsage :: "ingested_events \<Rightarrow> event_usage" where
  "calculateUsage r = \<lparr>eu_tokens = foldl (\<lambda>n t. n + (case nr_tokens t of Some k \<Rightarrow> k | None \<Rightarrow> 0)) 0 (in_transcripts r), eu_tools = length (in_tools r),
     eu_permissions = length (in_permissions r), eu_session = length (in_lifecycle r)\<rparr>"

definition escalation_text :: "escalation_kind \<Rightarrow> string" where
  "escalation_text k = (case k of E_Network_Access \<Rightarrow> ''network_access'' | E_Workspace_Outside_Write \<Rightarrow> ''workspace_outside_write''
     | E_Protected_Path_Write \<Rightarrow> ''protected_path_write'' | E_Destructive_Tool \<Rightarrow> ''destructive_tool'' | E_Secret_Access \<Rightarrow> ''secret_access''
     | E_Human_Verdict \<Rightarrow> ''human_verdict'')"

definition summary_section :: "string \<Rightarrow> string list \<Rightarrow> string list" where
  "summary_section heading ls = (if ls = [] then [] else [''## '' @ heading] @ ls @ [[]])"

definition generateTranscriptSummary :: "ingested_events \<Rightarrow> string" where
  "generateTranscriptSummary r = js_join [CHR 0x0A] ([''# Execution Summary'', [], ''## Statistics'',
       ''- Total events: '' @ show_nat (im_total (in_meta r)), ''- Permission requests: '' @ show_nat (length (in_permissions r)),
       ''- Tool calls: '' @ show_nat (length (in_tools r)), ''- Transcript messages: '' @ show_nat (length (in_transcripts r)), []] @
     (case in_completion r of None \<Rightarrow> [] | Some c \<Rightarrow> summary_section ''Completion'' ([''- Status: '' @ ci_status c] @
       (case ci_exit_code c of Some n \<Rightarrow> if n = 0 then [] else [''- Exit code: '' @ show_int n] | None \<Rightarrow> []) @
       (if falsy (ci_reason c) then [] else [''- Reason: '' @ the (ci_reason c)]))) @
     summary_section ''Permission Requests'' (map (\<lambda>q. ''- '' @ escalation_text (ne_kind q) @ '': '' @ ne_reason q) (in_permissions r)) @
     summary_section ''Tool Uses'' (concat (map (\<lambda>t. (''- '' @ nt_tool t @ '': '' @ nt_status t) #
       (if falsy (nt_error t) then [] else [''  Error: '' @ the (nt_error t)])) (in_tools r))))"

subsection \<open>Properties\<close>

fun permission_of :: "event_body \<Rightarrow> permission_event option" where
  "permission_of (Permission p) = Some p"
| "permission_of _ = None"

lemma ingest_event_permissions: "map ne_raw (in_permissions (ingest_event e r)) = map ne_raw (in_permissions r) @ (case permission_of (oe_body e) of
    Some p \<Rightarrow> [p] | None \<Rightarrow> [])"
  by (cases "oe_body e") (simp_all add: ingest_event_def ingestSingleEvent_def Let_def normalizePermissionRequest_def escalate_def)

lemma fold_ingest_permissions: "map ne_raw (in_permissions (fold ingest_event evs r)) =
    map ne_raw (in_permissions r) @ List.map_filter (\<lambda>e. permission_of (oe_body e)) evs"
  by (induction evs arbitrary: r) (auto simp: ingest_event_permissions List.map_filter_def split: option.split)

lemma ingest_event_counts: "in_counts (ingest_event e r) c = in_counts r c + (if oe_category e = c then 1 else 0)"
  by (cases "oe_body e") (auto simp: ingest_event_def ingestSingleEvent_def Let_def)

lemma fold_ingest_counts: "in_counts (fold ingest_event evs r) c = in_counts r c + length (filter (\<lambda>e. oe_category e = c) evs)"
  by (induction evs arbitrary: r) (simp_all add: ingest_event_counts)

lemma ingestEvents_fold: "in_permissions (ingestEvents keep a b evs) = in_permissions (fold ingest_event evs createEmptyIngestedEvents)"
  "in_counts (ingestEvents keep a b evs) = in_counts (fold ingest_event evs createEmptyIngestedEvents)"
  by (simp_all add: ingestEvents_def Let_def)

text \<open>No permission request is dropped: each becomes an escalation, in the order of the events, and the events of each category are counted.
  Adding the events one by one to a container gives the same.\<close>

theorem permissions_never_dropped:
  "map ne_raw (in_permissions (ingestEvents keep a b evs)) = List.map_filter (\<lambda>e. permission_of (oe_body e)) evs \<and>
   length (extractEscalations (ingestEvents keep a b evs)) = length (List.map_filter (\<lambda>e. permission_of (oe_body e)) evs) \<and>
   in_counts (ingestEvents keep a b evs) c = length (filter (\<lambda>e. oe_category e = c) evs) \<and>
   ec_ingested (finalizeContainer keep b (fold addEvent evs (createEventStreamContainer a job sid))) = ingestEvents keep a b evs"
proof (intro conjI)
  show raw: "map ne_raw (in_permissions (ingestEvents keep a b evs)) = List.map_filter (\<lambda>e. permission_of (oe_body e)) evs"
    by (simp add: ingestEvents_fold fold_ingest_permissions createEmptyIngestedEvents_def)
  then show "length (extractEscalations (ingestEvents keep a b evs)) = length (List.map_filter (\<lambda>e. permission_of (oe_body e)) evs)"
    by (metis extractEscalations_def length_map)
  show "in_counts (ingestEvents keep a b evs) c = length (filter (\<lambda>e. oe_category e = c) evs)"
    by (simp add: ingestEvents_fold fold_ingest_counts createEmptyIngestedEvents_def)
  have "fold addEvent evs k = k\<lparr>ec_events := ec_events k @ evs, ec_ingested := fold ingest_event evs (ec_ingested k)\<rparr>" for k
    by (induction evs arbitrary: k) (simp_all add: addEvent_def)
  moreover have "in_raw (fold ingest_event evs createEmptyIngestedEvents) = None"
  proof -
    have "in_raw (ingest_event e r) = in_raw r" for e r
      by (cases "oe_body e") (simp_all add: ingest_event_def ingestSingleEvent_def Let_def)
    then have "in_raw (fold ingest_event evs r) = in_raw r" for r by (induction evs arbitrary: r) simp_all
    then show ?thesis by (simp add: createEmptyIngestedEvents_def)
  qed
  ultimately show "ec_ingested (finalizeContainer keep b (fold addEvent evs (createEventStreamContainer a job sid))) = ingestEvents keep a b evs"
    by (simp add: finalizeContainer_def ingestEvents_def createEventStreamContainer_def Let_def)
qed

definition permission_item :: "json \<Rightarrow> bool" where
  "permission_item v = (text_or (json_prop ''type'' v) ''unknown'' \<in> {''permission_request'', ''permission''})"

lemma parsed_permission: "(\<exists>p. permission_of (oe_body (parseTranscriptItem now i sid v)) = Some p) = permission_item v"
  "permission_of (oe_body (parseTranscriptItem now i sid v)) = None \<longleftrightarrow> \<not> permission_item v"
  by (simp_all add: parseTranscriptItem_def permission_item_def Let_def del: not_None_eq)

lemma parse_items_none: "parse_items now fresh sid k vs = None \<longleftrightarrow> Json_Null \<in> set vs"
  by (induction vs arbitrary: k) auto

lemma length_filter_map: "length (List.map_filter f xs) = length (filter (\<lambda>x. f x \<noteq> None) xs)"
  by (simp add: List.map_filter_def comp_def)

lemma parse_items_permissions: "parse_items now fresh sid k vs = Some evs \<Longrightarrow>
    length (filter (\<lambda>e. permission_of (oe_body e) \<noteq> None) evs) = length (filter permission_item vs)"
  by (induction vs arbitrary: k evs) (auto simp: parsed_permission split: if_splits)



lemma system_not_workspace: "list_ex (starts_with p) [''/etc/'', ''/usr/'', ''/bin/'', ''/sbin/'', ''/root/'', ''/var/log/'', ''/proc/'', ''/sys/''] \<Longrightarrow> \<not> isInWorkspace p"
proof -
  assume "list_ex (starts_with p) [''/etc/'', ''/usr/'', ''/bin/'', ''/sbin/'', ''/root/'', ''/var/log/'', ''/proc/'', ''/sys/'']"
  then obtain d where d: "d \<in> set [''/etc/'', ''/usr/'', ''/bin/'', ''/sbin/'', ''/root/'', ''/var/log/'', ''/proc/'', ''/sys/'']" "take (length d) p = d"
    unfolding list_ex_iff starts_with_def by blast
  then obtain q where "p = d @ q" by (metis append_take_drop_id)
  with d(1) show ?thesis by (auto simp: isInWorkspace_def starts_with_def)
qed

lemma protected_not_secret: "isProtectedPath p \<Longrightarrow> \<not> isSecretPath p \<Longrightarrow> isInWorkspace p \<Longrightarrow>
    list_ex (starts_with p) [''.ssh/'', ''.gnupg/''] \<or> list_ex (ends_with p) [''.pem'', ''.key'', ''.p12'', ''.pfx'', ''.crt'', ''.cer'']"
  using system_not_workspace [of p] unfolding isProtectedPath_def isSecretPath_def Let_def by auto

lemma escalate_kind [simp]: "ne_kind (escalate e k r) = k"
  by (simp add: escalate_def)

lemma outside_path_secret: "isSecretPath (context_path c) \<Longrightarrow> isSecretAccess tool c"
proof -
  assume s: "isSecretPath (context_path c)"
  then have "context_path c \<noteq> []" by (auto simp: isSecretPath_def)
  then obtain v where "c = Some v" "js_truthy v"
    by (cases c; cases "the c") (auto simp: context_path_def js_or_def text_or_def split: if_splits)
  with s show ?thesis by (simp add: isSecretAccess_def)
qed

text \<open>A request is escalated as a write to a protected path only for paths the workspace contains, so never for the system directories among
  the patterns, and never for environment files or paths with credentials or secrets, which count as secret access.\<close>

theorem protected_write_scope:
  assumes "ne_kind (normalizePermissionRequest e) = E_Protected_Path_Write"
  shows "isInWorkspace (context_path (pe_context e)) \<and>
    \<not> list_ex (starts_with (context_path (pe_context e))) [''/etc/'', ''/usr/'', ''/bin/'', ''/sbin/'', ''/root/'', ''/var/log/'', ''/proc/'', ''/sys/''] \<and>
    (list_ex (starts_with (context_path (pe_context e))) [''.ssh/'', ''.gnupg/''] \<or>
     list_ex (ends_with (context_path (pe_context e))) [''.pem'', ''.key'', ''.p12'', ''.pfx'', ''.crt'', ''.cer''])"
proof -
  let ?p = "context_path (pe_context e)"
  from assms have ws: "isInWorkspace ?p" and prot: "isProtectedPath ?p" and ns: "\<not> isSecretAccess (string_or (pe_tool e) []) (pe_context e)"
    by (auto simp: normalizePermissionRequest_def Let_def split: if_splits)
  from ns have "\<not> isSecretPath ?p" using outside_path_secret by blast
  with ws prot show ?thesis using protected_not_secret system_not_workspace by blast
qed

lemma protected_write_scope_witness: "\<not> list_ex (starts_with ''.ssh/id'') [''/etc/'', ''/usr/'', ''/bin/'', ''/sbin/'', ''/root/'', ''/var/log/'', ''/proc/'', ''/sys/'']"
proof -
  let ?e = "\<lparr>pe_id = ''p'', pe_tool = Some ''write'', pe_action = None, pe_reason = None, pe_timestamp = 0,
    pe_context = Some (Json_Obj [(''path'', Json_Str ''.ssh/id'')])\<rparr>"
  have "ne_kind (normalizePermissionRequest ?e) = E_Protected_Path_Write" and p: "context_path (pe_context ?e) = ''.ssh/id''" by code_simp+
  from protected_write_scope [OF this(1)] show ?thesis unfolding p by simp
qed

text \<open>A path that climbs out of the workspace counts as inside it: the write is never escalated as one outside the workspace.\<close>

theorem climbing_path_in_workspace:
  assumes "context_path (pe_context e) = ''../'' @ p \<or> context_path (pe_context e) = ''/workspace/../'' @ p"
  shows "ne_kind (normalizePermissionRequest e) \<noteq> E_Workspace_Outside_Write"
proof -
  have "isInWorkspace (context_path (pe_context e))" using assms by (auto simp: isInWorkspace_def starts_with_def)
  then show ?thesis by (simp add: normalizePermissionRequest_def Let_def)
qed

lemma climbing_path_in_workspace_witness: "ne_kind (normalizePermissionRequest \<lparr>pe_id = ''p'', pe_tool = Some ''write'', pe_action = None, pe_reason = None,
    pe_timestamp = 0, pe_context = Some (Json_Obj [(''path'', Json_Str ''/workspace/../etc/passwd'')])\<rparr>) \<noteq> E_Workspace_Outside_Write"
  by (rule climbing_path_in_workspace [where p = "''etc/passwd''"]) code_simp

end
