(* ===== verification/Context_Bundles.thy ===== *)
theory Context_Bundles
  imports Dispatch Event_Ingestor
begin

text \<open>
  Context bundles for workers (\<open>src/src/domain/context-bundle/context-bundle.ts\<close>) and the rebuilding of a context from trackers
  (\<open>src/src/domain/context-rebuild/context-rebuild-service.ts\<close>). A bundle is the JavaScript object itself: its properties in the order in which
  they were set. What the tracker service answers is a record of functions; \<open>JSON.parse\<close> is an argument.
\<close>

subsection \<open>The builder\<close>

type_synonym worker_bundle = "(string, json) jsmap"

definition new_bundle :: "time \<Rightarrow> string \<Rightarrow> worker_bundle" where
  "new_bundle now tid = [(''version'', Json_Str ''1.0.0''), (''bundle_id'', Json_Str (''ctx-'' @ tid @ ''-'' @ show_int now)),
     (''task_id'', Json_Str tid), (''created_at'', Json_Str (iso_time now)),
     (''generator'', Json_Obj [(''component'', Json_Str ''control_plane''), (''version'', Json_Str ''1.0.0''), (''generated_at'', Json_Str (iso_time now))]),
     (''metadata'', Json_Obj [])]"

definition setTaskCore :: "json \<Rightarrow> worker_bundle \<Rightarrow> worker_bundle" where
  "setTaskCore v b = map_set b ''task'' v"

definition setRepository :: "json \<Rightarrow> worker_bundle \<Rightarrow> worker_bundle" where
  "setRepository v b = map_set b ''repository'' v"

definition setWorkspace :: "json \<Rightarrow> worker_bundle \<Rightarrow> worker_bundle" where
  "setWorkspace v b = map_set b ''workspace'' v"

definition setDocuments :: "json \<Rightarrow> worker_bundle \<Rightarrow> worker_bundle" where
  "setDocuments v b = map_set b ''documents'' v"

definition setTrackers :: "json \<Rightarrow> worker_bundle \<Rightarrow> worker_bundle" where
  "setTrackers v b = map_set b ''trackers'' v"

definition setDiagnostics :: "json \<Rightarrow> worker_bundle \<Rightarrow> worker_bundle" where
  "setDiagnostics v b = map_set b ''diagnostics'' v"

definition setHistory :: "json \<Rightarrow> worker_bundle \<Rightarrow> worker_bundle" where
  "setHistory v b = map_set b ''history'' v"

definition setPurpose :: "string \<Rightarrow> worker_bundle \<Rightarrow> worker_bundle" where
  "setPurpose p b = map_set b ''purpose'' (Json_Str p)"

definition setTaskRef :: "string \<Rightarrow> worker_bundle \<Rightarrow> worker_bundle" where
  "setTaskRef r b = map_set b ''task_ref'' (Json_Str r)"

definition setStateSnapshot :: "json \<Rightarrow> worker_bundle \<Rightarrow> worker_bundle" where
  "setStateSnapshot v b = map_set b ''state_snapshot'' v"

definition setDecisionDigest :: "json list \<Rightarrow> worker_bundle \<Rightarrow> worker_bundle" where
  "setDecisionDigest vs b = map_set b ''decision_digest'' (Json_Arr vs)"

definition setOpenQuestionDigest :: "json list \<Rightarrow> worker_bundle \<Rightarrow> worker_bundle" where
  "setOpenQuestionDigest vs b = map_set b ''open_question_digest'' (Json_Arr vs)"

definition setMetadata :: "(string, json) jsmap \<Rightarrow> worker_bundle \<Rightarrow> worker_bundle" where
  "setMetadata m b = map_set b ''metadata'' (Json_Obj (foldl (\<lambda>o' (k, v). map_set o' k v)
     (case map_get b ''metadata'' of Some (Json_Obj old) \<Rightarrow> old | _ \<Rightarrow> []) m))"

definition present :: "worker_bundle \<Rightarrow> string \<Rightarrow> bool" where
  "present b k = (case map_get b k of Some v \<Rightarrow> js_truthy v | None \<Rightarrow> False)"

definition build_bundle :: "worker_bundle \<Rightarrow> string + worker_bundle" where
  "build_bundle b = (if \<not> present b ''task'' then Inl ''Task core is required''
     else if \<not> present b ''repository'' then Inl ''Repository context is required''
     else if \<not> present b ''workspace'' then Inl ''Workspace context is required'' else Inr b)"

subsection \<open>The bundle service\<close>

definition generateBundle :: "time \<Rightarrow> string \<Rightarrow> string + worker_bundle" where
  "generateBundle now tid = build_bundle (new_bundle now tid)"

definition serialize :: "worker_bundle \<Rightarrow> string" where
  "serialize b = stringify (Json_Obj b)"

definition deserialize :: "(string \<Rightarrow> json option) \<Rightarrow> string \<Rightarrow> string + json" where
  "deserialize parse s = (case parse s of
     None \<Rightarrow> Inl ''SyntaxError''
   | Some Json_Null \<Rightarrow> Inl ''TypeError''
   | Some v \<Rightarrow> if (case json_prop ''version'' v of Some x \<Rightarrow> js_truthy x | None \<Rightarrow> False) then Inr v
       else Inl ''Invalid context bundle: missing version'')"

text \<open>\<open>sort()\<close> by code units, and \<open>JSON.stringify(value, keys)\<close>: the list of keys selects and orders the properties of every object.\<close>

fun text_less :: "string \<Rightarrow> string \<Rightarrow> bool" where
  "text_less [] s = (s \<noteq> [])"
| "text_less (c # s) [] = False"
| "text_less (c # s) (d # t) = (if c = d then text_less s t else (of_char c :: nat) < of_char d)"

fun insert_text :: "string \<Rightarrow> string list \<Rightarrow> string list" where
  "insert_text s [] = [s]"
| "insert_text s (t # ts) = (if text_less t s then t # insert_text s ts else s # t # ts)"

definition sort_texts :: "string list \<Rightarrow> string list" where
  "sort_texts ts = foldr insert_text ts []"

definition pick :: "string list \<Rightarrow> (string, 'a) jsmap \<Rightarrow> (string \<times> 'a) list" where
  "pick ks m = List.map_filter (\<lambda>k. map_option (Pair k) (map_get m k)) ks"

fun prune :: "string list \<Rightarrow> json \<Rightarrow> json" where
  "prune ks (Json_Obj kvs) = Json_Obj (pick ks (map (\<lambda>(k, v). (k, prune ks v)) kvs))"
| "prune ks (Json_Arr vs) = Json_Arr (map (prune ks) vs)"
| "prune ks v = v"

definition hash_text :: "string \<Rightarrow> 32 word" where
  "hash_text s = foldl hash_step 0 s"

definition calculateChecksum :: "worker_bundle \<Rightarrow> string" where
  "calculateChecksum b = (let h = show_hex (nat \<bar>sint (hash_text (stringify (prune (sort_texts (map fst b)) (Json_Obj b))))\<bar>) in
     ''sha256:'' @ take 64 (replicate (64 - length h) (CHR ''0'') @ h))"

definition verifyIntegrity :: "worker_bundle \<Rightarrow> string \<Rightarrow> bool" where
  "verifyIntegrity b expected = (calculateChecksum b = expected)"

text \<open>The lists of a documents or trackers object; they are there by its type.\<close>

definition list_of :: "string \<Rightarrow> json \<Rightarrow> json list" where
  "list_of k v = (case json_prop k v of Some (Json_Arr vs) \<Rightarrow> vs | _ \<Rightarrow> [])"

definition collect :: "string \<Rightarrow> string \<Rightarrow> worker_bundle list \<Rightarrow> json list" where
  "collect part k bs = concat (map (\<lambda>b. case map_get b part of Some v \<Rightarrow> if js_truthy v then list_of k v else [] | None \<Rightarrow> []) bs)"

definition copy_part :: "worker_bundle \<Rightarrow> string \<Rightarrow> worker_bundle \<Rightarrow> worker_bundle" where
  "copy_part base k b = (case map_get base k of Some v \<Rightarrow> map_set b k v | None \<Rightarrow> b)"

definition collected :: "string \<Rightarrow> string list \<Rightarrow> worker_bundle list \<Rightarrow> json" where
  "collected part ks bs = Json_Obj (map (\<lambda>k. (k, Json_Arr (collect part k bs))) ks)"

definition mergeBundles :: "time \<Rightarrow> worker_bundle list \<Rightarrow> string + worker_bundle" where
  "mergeBundles now bs = (case bs of
     [] \<Rightarrow> Inl ''No bundles to merge''
   | [b] \<Rightarrow> Inr b
   | base # _ \<Rightarrow> let b0 = copy_part base ''workspace'' (copy_part base ''repository'' (copy_part base ''task''
         (new_bundle now (case map_get base ''task_id'' of Some v \<Rightarrow> js_text v | None \<Rightarrow> ''undefined''))));
       b1 = (if collect ''documents'' ''doc_refs'' bs = [] then b0 else setDocuments (collected ''documents'' [''doc_refs'', ''chunks'', ''contracts''] bs) b0);
       b2 = (if collect ''trackers'' ''issues'' bs = [] then b1
         else setTrackers (collected ''trackers'' [''issues'', ''project_items'', ''external_refs'', ''sync_events''] bs) b1)
     in build_bundle b2)"

subsection \<open>What the bundle service promises\<close>

lemma pick_cong: "(\<And>k. k \<in> set ks \<Longrightarrow> map_get m k = map_get m' k) \<Longrightarrow> pick ks m = pick ks m'"
  unfolding pick_def List.map_filter_def by (intro arg_cong [where f = "map _"] filter_cong map_cong) simp_all

lemma prune_outside: "k \<notin> set ks \<Longrightarrow> prune ks (Json_Obj (map_set kvs k v)) = prune ks (Json_Obj kvs)"
  by (auto simp: map_get_map_values jm.lookup_store intro!: pick_cong)

text \<open>C30. The checksum does not see the contents of the parts: a property of the task whose name is not also the name of a property of the bundle can be
  changed or added, and the integrity check still passes.\<close>

theorem checksum_misses_tampering:
  assumes "map_get b part = Some (Json_Obj kvs)" and "k \<notin> set (map fst b)"
  shows "verifyIntegrity (map_set b part (Json_Obj (map_set kvs k v))) (calculateChecksum b)"
proof -
  let ?b = "map_set b part (Json_Obj (map_set kvs k v))" and ?ks = "sort_texts (map fst b)"
  have keys: "map fst ?b = map fst b" using assms(1) by (intro map_set_existing_keys) simp
  have ins: "set (insert_text s ts) = insert s (set ts)" for s ts by (induction ts) auto
  then have "set (sort_texts ts) = set ts" for ts unfolding sort_texts_def by (induction ts) auto
  with assms(2) have k: "k \<notin> set ?ks" by simp
  have "prune ?ks (Json_Obj ?b) = prune ?ks (Json_Obj b)"
  proof -
    have "map_option (prune ?ks) (map_get ?b x) = map_option (prune ?ks) (map_get b x)" for x
      using assms(1) prune_outside [OF k] by (auto simp: jm.lookup_store)
    then show ?thesis by (auto simp: map_get_map_values intro!: pick_cong)
  qed
  then show ?thesis unfolding verifyIntegrity_def calculateChecksum_def keys by simp
qed

definition sample_bundle :: worker_bundle where
  "sample_bundle = setWorkspace (Json_Obj [(''kind'', Json_Str ''volume'')]) (setRepository (Json_Obj [(''name'', Json_Str ''r'')])
     (setTaskCore (Json_Obj [(''objective'', Json_Str ''fix the bug'')]) (new_bundle 0 ''task_1'')))"

lemma sample_bundle_get: "map_get sample_bundle ''task'' = Some (Json_Obj [(''objective'', Json_Str ''fix the bug'')])"
  "map_get sample_bundle ''repository'' = Some (Json_Obj [(''name'', Json_Str ''r'')])"
  "map_get sample_bundle ''workspace'' = Some (Json_Obj [(''kind'', Json_Str ''volume'')])"
  by (simp_all add: sample_bundle_def setWorkspace_def setRepository_def setTaskCore_def jm.lookup_store)

lemma checksum_misses_tampering_witness:
  "verifyIntegrity (map_set sample_bundle ''task'' (Json_Obj [(''objective'', Json_Str ''delete the branch'')])) (calculateChecksum sample_bundle)"
proof -
  have "''objective'' \<notin> set (map fst sample_bundle)"
    by (simp add: sample_bundle_def setWorkspace_def setRepository_def setTaskCore_def map_set_def new_bundle_def)
  from checksum_misses_tampering [OF sample_bundle_get(1) this, of "Json_Str ''delete the branch''"] show ?thesis by (simp add: map_set_def)
qed

lemma copy_part_get: "map_get (copy_part base k b) x = (if x = k then (case map_get base k of Some v \<Rightarrow> Some v | None \<Rightarrow> map_get b x) else map_get b x)"
  by (auto simp: copy_part_def jm.lookup_store split: option.split)

lemma new_bundle_get: "k \<notin> {''version'', ''bundle_id'', ''task_id'', ''created_at'', ''generator'', ''metadata''} \<Longrightarrow> map_get (new_bundle now t) k = None"
  by (simp add: new_bundle_def map_get_def)

definition merge_base :: "time \<Rightarrow> worker_bundle \<Rightarrow> worker_bundle" where
  "merge_base now b = copy_part b ''workspace'' (copy_part b ''repository'' (copy_part b ''task''
     (new_bundle now (case map_get b ''task_id'' of Some v \<Rightarrow> js_text v | None \<Rightarrow> ''undefined''))))"

lemma merge_base_copied: "map_get (merge_base now b) ''task'' = map_get b ''task''" "map_get (merge_base now b) ''repository'' = map_get b ''repository''"
  "map_get (merge_base now b) ''workspace'' = map_get b ''workspace''"
  unfolding merge_base_def copy_part_get by (simp_all add: new_bundle_get split: option.split)

lemma merge_base_other: "k \<notin> {''version'', ''bundle_id'', ''task_id'', ''created_at'', ''generator'', ''metadata'', ''task'', ''repository'', ''workspace''} \<Longrightarrow>
    map_get (merge_base now b) k = None"
  unfolding merge_base_def copy_part_get by (simp add: new_bundle_get)

lemma mergeBundles_two: "mergeBundles now (b # c # bs) = build_bundle
    (let b1 = (if collect ''documents'' ''doc_refs'' (b # c # bs) = [] then merge_base now b
         else setDocuments (collected ''documents'' [''doc_refs'', ''chunks'', ''contracts''] (b # c # bs)) (merge_base now b))
     in if collect ''trackers'' ''issues'' (b # c # bs) = [] then b1
        else setTrackers (collected ''trackers'' [''issues'', ''project_items'', ''external_refs'', ''sync_events''] (b # c # bs)) b1)"
  unfolding mergeBundles_def merge_base_def Let_def by simp

lemma merge_succeeds: "present b ''task'' \<Longrightarrow> present b ''repository'' \<Longrightarrow> present b ''workspace'' \<Longrightarrow> \<exists>m. mergeBundles now (b # c # bs) = Inr m"
  unfolding mergeBundles_two Let_def
  by (simp add: build_bundle_def present_def setDocuments_def setTrackers_def jm.lookup_store merge_base_copied)

lemma build_bundle_Inr: "build_bundle b = Inr m \<Longrightarrow> m = b"
  by (simp add: build_bundle_def split: if_splits)

text \<open>Merging two or more bundles keeps the task, repository and workspace of the first and the documents and trackers of all, the trackers only
  if there is an issue among them; purpose, digests, diagnostics and history are lost.\<close>

theorem merge_keeps_and_loses:
  assumes "mergeBundles now (b # c # bs) = Inr m"
  shows "map_get m ''task'' = map_get b ''task'' \<and> map_get m ''repository'' = map_get b ''repository'' \<and> map_get m ''workspace'' = map_get b ''workspace'' \<and>
    map_get m ''trackers'' = (if collect ''trackers'' ''issues'' (b # c # bs) = [] then None
      else Some (collected ''trackers'' [''issues'', ''project_items'', ''external_refs'', ''sync_events''] (b # c # bs))) \<and>
    map_get m ''documents'' = (if collect ''documents'' ''doc_refs'' (b # c # bs) = [] then None
      else Some (collected ''documents'' [''doc_refs'', ''chunks'', ''contracts''] (b # c # bs))) \<and>
    list_all (\<lambda>k. map_get m k = None) [''purpose'', ''state_snapshot'', ''decision_digest'', ''open_question_digest'', ''diagnostics'', ''history'', ''task_ref'']"
  unfolding build_bundle_Inr [OF assms [unfolded mergeBundles_two]] Let_def
  by (simp add: setDocuments_def setTrackers_def jm.lookup_store merge_base_copied merge_base_other)

lemma merge_keeps_and_loses_witness:
  "\<exists>m. mergeBundles 5 [setHistory (Json_Obj []) sample_bundle, sample_bundle] = Inr m \<and> map_get m ''history'' = None"
proof -
  let ?b = "setHistory (Json_Obj []) sample_bundle"
  have "present ?b ''task''" "present ?b ''repository''" "present ?b ''workspace''"
    by (simp_all add: present_def setHistory_def jm.lookup_store sample_bundle_get)
  from merge_succeeds [OF this, of 5 sample_bundle "[]"]
  obtain m where m: "mergeBundles 5 [setHistory (Json_Obj []) sample_bundle, sample_bundle] = Inr m" by blast
  from merge_keeps_and_loses [OF m] m show ?thesis by simp
qed

text \<open>A bundle generated by the service is never complete.\<close>

lemma generateBundle_fails: "generateBundle now tid = Inl ''Task core is required''"
  by (simp add: generateBundle_def build_bundle_def present_def new_bundle_def map_get_def)

end
