(* ===== verification/Context_Rebuild.thy ===== *)
theory Context_Rebuild
  imports Context_Bundles
begin

text \<open>
  Rebuilding the context of a task from its trackers, \<open>src/src/domain/context-rebuild/context-rebuild-service.ts\<close>. The answers of the tracker
  service (also the empty ones after a failed request) are the functions of \<open>tracker_api\<close>; instants are milliseconds.
\<close>

subsection \<open>Data\<close>

record rebuild_ref =
  rr_kind :: string
  rr_value :: string
  rr_connection :: "string option"
  rr_url :: "string option"

record cached_issue =
  hi_id :: string
  hi_provider :: string
  hi_title :: string
  hi_state :: string
  hi_labels :: "string list option"
  hi_updated :: time
  hi_cached :: time

record cached_pr =
  hp_id :: string
  hp_provider :: string
  hp_owner :: string
  hp_repo :: string
  hp_title :: string
  hp_state :: string
  hp_author :: string
  hp_cached :: time

record comment_data =
  hc_author :: string
  hc_created :: time

record project_entry =
  hq_id :: string
  hq_project :: string
  hq_status :: string
  hq_fields :: "json option"

record sync_data =
  hs_id :: string
  hs_source :: string
  hs_occurred :: time
  hs_operation :: string

record tracker_api =
  api_issue :: "string \<Rightarrow> string \<Rightarrow> cached_issue option"
  api_pr :: "string \<Rightarrow> string \<Rightarrow> cached_pr option"
  api_comments :: "string \<Rightarrow> string \<Rightarrow> comment_data list"
  api_linked :: "string \<Rightarrow> cached_pr list"
  api_item :: "string \<Rightarrow> project_entry option"
  api_sync :: "string \<Rightarrow> sync_data option"

record rebuild_request =
  bq_task :: string
  bq_typed_ref :: string
  bq_refs :: "rebuild_ref list"
  bq_comments :: "bool option"
  bq_linked :: "bool option"
  bq_max_comments :: "int option"
  bq_stale_after :: "int option"
  bq_purpose :: "string option"
  bq_decisions :: "json option"
  bq_questions :: "json option"

record issue_summary =
  si_issue :: string
  si_provider :: string
  si_title :: string
  si_state :: string
  si_labels :: "string list"
  si_url :: "string option"

record pr_summary =
  sp_pr :: string
  sp_provider :: string
  sp_title :: string
  sp_state :: string
  sp_author :: string
  sp_url :: "string option"

record timeline_entry =
  te_time :: time
  te_type :: string
  te_actor :: "string option"
  te_summary :: string

record rebuilding =
  rb_issues :: "issue_summary list"
  rb_prs :: "pr_summary list"
  rb_items :: "project_entry list"
  rb_sync :: "sync_data list"
  rb_timeline :: "timeline_entry list"
  rb_stale :: "string list"
  rb_oldest :: "time option"

record comments_summary =
  cs_total :: nat
  cs_last :: "time option"
  cs_participants :: "string list"

record rebuilt_context =
  rx_task :: string
  rx_typed_ref :: string
  rx_rebuilt :: time
  rx_purpose :: "string option"
  rx_decisions :: "json option"
  rx_questions :: "json option"
  rx_issues :: "issue_summary list"
  rx_prs :: "pr_summary list"
  rx_items :: "project_entry list"
  rx_comments :: comments_summary
  rx_sync :: "sync_data list"
  rx_timeline :: "timeline_entry list"
  rx_is_stale :: bool
  rx_stale_refs :: "string list"
  rx_oldest :: "time option"
  rx_external_refs :: "rebuild_ref list"

subsection \<open>Rebuilding\<close>

definition connection_or :: "string \<Rightarrow> string option \<Rightarrow> string" where
  "connection_or standard c = string_or c standard"

definition pr_summary_of :: "string option \<Rightarrow> cached_pr \<Rightarrow> pr_summary" where
  "pr_summary_of url p = \<lparr>sp_pr = hp_id p, sp_provider = hp_provider p, sp_title = hp_title p, sp_state = hp_state p, sp_author = hp_author p, sp_url = url\<rparr>"

definition linked_url :: "cached_pr \<Rightarrow> string" where
  "linked_url p = ''https://github.com/'' @ hp_owner p @ ''/'' @ hp_repo p @ ''/pull/'' @ hp_id p"

definition too_old :: "time \<Rightarrow> int \<Rightarrow> cached_issue \<Rightarrow> bool" where
  "too_old now after i = (now - hi_cached i > after)"

definition note_staleness :: "time \<Rightarrow> int \<Rightarrow> cached_issue \<Rightarrow> rebuilding \<Rightarrow> rebuilding" where
  "note_staleness now after i r = (if too_old now after i
     then r\<lparr>rb_stale := rb_stale r @ [''github_issue:'' @ hi_id i],
       rb_oldest := (case rb_oldest r of None \<Rightarrow> Some (hi_cached i) | Some old \<Rightarrow> if hi_cached i < old then Some (hi_cached i) else Some old)\<rparr>
     else r)"

definition issue_part :: "tracker_api \<Rightarrow> rebuild_request \<Rightarrow> rebuild_ref \<Rightarrow> cached_issue \<Rightarrow> timeline_entry list \<times> pr_summary list" where
  "issue_part api q ref i =
     ([\<lparr>te_time = hi_updated i, te_type = ''issue_update'', te_actor = None, te_summary = ''Issue #'' @ hi_id i @ '' '' @ hi_state i @ '': '' @ hi_title i\<rparr>] @
      (if bq_comments q = Some False then [] else map (\<lambda>c. \<lparr>te_time = hc_created c, te_type = ''comment'', te_actor = Some (hc_author c),
         te_summary = ''Comment on #'' @ hi_id i\<rparr>) (slice_to (case bq_max_comments q of Some n \<Rightarrow> n | None \<Rightarrow> 50) (api_comments api ''issue'' (rr_value ref)))),
      (if bq_linked q = Some False then [] else map (\<lambda>p. pr_summary_of (Some (linked_url p)) p) (api_linked api (rr_value ref))))"

definition stale_after :: "rebuild_request \<Rightarrow> int" where
  "stale_after q = (case bq_stale_after q of Some n \<Rightarrow> n | None \<Rightarrow> 24 * 60 * 60 * 1000)"

definition process_issue :: "tracker_api \<Rightarrow> time \<Rightarrow> rebuild_request \<Rightarrow> rebuild_ref \<Rightarrow> cached_issue \<Rightarrow> rebuilding \<Rightarrow> rebuilding" where
  "process_issue api now q ref i r = (let (entries, prs) = issue_part api q ref i;
       r1 = r\<lparr>rb_issues := rb_issues r @ [\<lparr>si_issue = hi_id i, si_provider = hi_provider i, si_title = hi_title i, si_state = hi_state i,
         si_labels = (case hi_labels i of Some ls \<Rightarrow> ls | None \<Rightarrow> []), si_url = rr_url ref\<rparr>]\<rparr>;
       r2 = note_staleness now (stale_after q) i r1
     in r2\<lparr>rb_timeline := rb_timeline r2 @ entries, rb_prs := rb_prs r2 @ prs\<rparr>)"

definition process_ref :: "string \<Rightarrow> tracker_api \<Rightarrow> time \<Rightarrow> rebuild_request \<Rightarrow> rebuild_ref \<Rightarrow> rebuilding \<Rightarrow> rebuilding" where
  "process_ref standard api now q ref r = (let c = connection_or standard (rr_connection ref) in
     if rr_kind ref = ''github_issue'' then (case api_issue api (rr_value ref) c of Some i \<Rightarrow> process_issue api now q ref i r | None \<Rightarrow> r)
     else if rr_kind ref = ''github_pr'' then
       (case api_pr api (rr_value ref) c of Some p \<Rightarrow> r\<lparr>rb_prs := rb_prs r @ [pr_summary_of (rr_url ref) p]\<rparr> | None \<Rightarrow> r)
     else if rr_kind ref = ''github_project_item'' then
       (case api_item api (rr_value ref) of Some x \<Rightarrow> r\<lparr>rb_items := rb_items r @ [x]\<rparr> | None \<Rightarrow> r)
     else if rr_kind ref = ''sync_event'' then (case api_sync api (rr_value ref) of Some x \<Rightarrow> r\<lparr>rb_sync := rb_sync r @ [x]\<rparr> | None \<Rightarrow> r)
     else r)"

definition nothing_rebuilt :: rebuilding where
  "nothing_rebuilt = \<lparr>rb_issues = [], rb_prs = [], rb_items = [], rb_sync = [], rb_timeline = [], rb_stale = [], rb_oldest = None\<rparr>"

definition summarize_comments :: "timeline_entry list \<Rightarrow> comments_summary" where
  "summarize_comments ts = \<lparr>cs_total = length (filter (\<lambda>e. te_type e = ''comment'') ts), cs_last = (if ts = [] then None else Some (te_time (last ts))),
     cs_participants = foldl set_add [] (filter (\<lambda>a. a \<noteq> []) (List.map_filter te_actor ts))\<rparr>"

definition rebuildContext :: "string \<Rightarrow> tracker_api \<Rightarrow> time \<Rightarrow> rebuild_request \<Rightarrow> rebuilt_context" where
  "rebuildContext standard api now q = (let r = fold (process_ref standard api now q) (bq_refs q) nothing_rebuilt;
       ts = sort_key te_time (rb_timeline r)
     in \<lparr>rx_task = bq_task q, rx_typed_ref = bq_typed_ref q, rx_rebuilt = now, rx_purpose = bq_purpose q, rx_decisions = bq_decisions q,
       rx_questions = bq_questions q, rx_issues = rb_issues r, rx_prs = rb_prs r, rx_items = rb_items r, rx_comments = summarize_comments ts,
       rx_sync = rb_sync r, rx_timeline = ts, rx_is_stale = (rb_stale r \<noteq> []), rx_stale_refs = rb_stale r, rx_oldest = rb_oldest r,
       rx_external_refs = bq_refs q\<rparr>)"

subsection \<open>Staleness and the timeline\<close>

definition ref_issue :: "string \<Rightarrow> tracker_api \<Rightarrow> rebuild_ref \<Rightarrow> cached_issue option" where
  "ref_issue standard api ref = (if rr_kind ref = ''github_issue'' then api_issue api (rr_value ref) (connection_or standard (rr_connection ref)) else None)"

definition fetched_issues :: "string \<Rightarrow> tracker_api \<Rightarrow> rebuild_ref list \<Rightarrow> (rebuild_ref \<times> cached_issue) list" where
  "fetched_issues standard api refs = List.map_filter (\<lambda>ref. map_option (Pair ref) (ref_issue standard api ref)) refs"

definition old_issues :: "string \<Rightarrow> tracker_api \<Rightarrow> time \<Rightarrow> rebuild_request \<Rightarrow> rebuild_ref list \<Rightarrow> cached_issue list" where
  "old_issues standard api now q refs = filter (too_old now (stale_after q)) (map snd (fetched_issues standard api refs))"

definition all_entries_of :: "string \<Rightarrow> tracker_api \<Rightarrow> rebuild_request \<Rightarrow> rebuild_ref list \<Rightarrow> timeline_entry list" where
  "all_entries_of standard api q refs = concat (map (\<lambda>(ref, i). fst (issue_part api q ref i)) (fetched_issues standard api refs))"

lemma fetched_issues_Cons: "fetched_issues standard api (ref # refs) = (case ref_issue standard api ref of None \<Rightarrow> fetched_issues standard api refs
    | Some i \<Rightarrow> (ref, i) # fetched_issues standard api refs)"
  by (simp add: fetched_issues_def List.map_filter_def split: option.split)

definition oldest_of :: "time option \<Rightarrow> time list \<Rightarrow> time option" where
  "oldest_of a ts = foldl (\<lambda>a t. case a of None \<Rightarrow> Some t | Some old \<Rightarrow> if t < old then Some t else Some old) a ts"

lemma oldest_of_Min: "oldest_of None ts = (if ts = [] then None else Some (Min (set ts)))"
proof -
  have "oldest_of (Some t) vs = Some (Min (insert t (set vs)))" for t vs
    unfolding oldest_of_def
  proof (induction vs arbitrary: t)
    case (Cons u us)
    have step: "(if u < t then Some u else Some t) = Some (min t u)" by (simp add: min_def)
    have "Min (insert (min t u) (set us)) = Min (insert t (insert u (set us)))" by (cases "us = []") (simp_all add: min.assoc)
    with Cons.IH [of "min t u"] show ?case by (simp only: foldl_Cons option.case step list.set)
  qed simp
  then show ?thesis by (cases ts) (auto simp: oldest_of_def)
qed

lemma process_ref_issue: "ref_issue standard api ref = Some i \<Longrightarrow> process_ref standard api now q ref r = process_issue api now q ref i r"
  by (simp add: ref_issue_def process_ref_def Let_def split: if_splits)

lemma process_ref_other: "ref_issue standard api ref = None \<Longrightarrow> rb_stale (process_ref standard api now q ref r) = rb_stale r \<and>
    rb_oldest (process_ref standard api now q ref r) = rb_oldest r \<and> rb_timeline (process_ref standard api now q ref r) = rb_timeline r"
  by (simp add: ref_issue_def process_ref_def Let_def split: if_splits option.split)

lemma process_issue_effect:
  "rb_stale (process_issue api now q ref i r) = rb_stale r @ (if too_old now (stale_after q) i then [''github_issue:'' @ hi_id i] else [])"
  "rb_oldest (process_issue api now q ref i r) = oldest_of (rb_oldest r) (if too_old now (stale_after q) i then [hi_cached i] else [])"
  "rb_timeline (process_issue api now q ref i r) = rb_timeline r @ fst (issue_part api q ref i)"
  by (simp_all add: process_issue_def note_staleness_def oldest_of_def Let_def split: prod.split)

lemma fold_process:
  "rb_stale (fold (process_ref standard api now q) refs r) = rb_stale r @ map (\<lambda>i. ''github_issue:'' @ hi_id i) (old_issues standard api now q refs) \<and>
   rb_oldest (fold (process_ref standard api now q) refs r) = oldest_of (rb_oldest r) (map hi_cached (old_issues standard api now q refs)) \<and>
   rb_timeline (fold (process_ref standard api now q) refs r) = rb_timeline r @ all_entries_of standard api q refs"
proof (induction refs arbitrary: r)
  case Nil
  show ?case by (simp add: old_issues_def all_entries_of_def fetched_issues_def oldest_of_def)
next
  case (Cons ref refs)
  show ?case
  proof (cases "ref_issue standard api ref")
    case None
    with Cons.IH process_ref_other [OF None, of now q r] show ?thesis by (simp add: old_issues_def all_entries_of_def fetched_issues_Cons)
  next
    case (Some i)
    with Cons.IH process_ref_issue [OF Some, of now q r] show ?thesis
      by (simp add: old_issues_def all_entries_of_def fetched_issues_Cons process_issue_effect) (simp add: oldest_of_def)
  qed
qed

text \<open>The rebuilt context is stale exactly when an issue it fetched was cached too long ago; the stale references are those issues in order and the
  oldest instant is theirs. Pull requests are never stale. The timeline holds the updates and comments of the fetched issues in order of time.\<close>

theorem rebuilt_staleness:
  "rx_stale_refs (rebuildContext standard api now q) = map (\<lambda>i. ''github_issue:'' @ hi_id i) (old_issues standard api now q (bq_refs q)) \<and>
   rx_oldest (rebuildContext standard api now q) = (if old_issues standard api now q (bq_refs q) = [] then None
     else Some (Min (hi_cached ` set (old_issues standard api now q (bq_refs q))))) \<and>
   rx_is_stale (rebuildContext standard api now q) = (\<exists>i. i \<in> snd ` set (fetched_issues standard api (bq_refs q)) \<and> now - hi_cached i > stale_after q) \<and>
   mset (rx_timeline (rebuildContext standard api now q)) = mset (all_entries_of standard api q (bq_refs q)) \<and>
   sorted (map te_time (rx_timeline (rebuildContext standard api now q)))"
proof -
  note f = fold_process [of standard api now q "bq_refs q" nothing_rebuilt]
  have ne: "old_issues standard api now q (bq_refs q) \<noteq> [] \<longleftrightarrow>
      (\<exists>i. i \<in> snd ` set (fetched_issues standard api (bq_refs q)) \<and> now - hi_cached i > stale_after q)"
    by (auto simp: old_issues_def filter_empty_conv too_old_def)
  show ?thesis unfolding rebuildContext_def Let_def using f ne
    by (auto simp: nothing_rebuilt_def oldest_of_Min)
qed

end
