(* ===== verification/Run_Views.thy ===== *)
theory Run_Views
  imports Control_Plane_Steps
begin

text \<open>
  What the control plane shows of its runs: the read model of \<open>src/src/domain/run/run-service.ts\<close> and the retrospectives of
  \<open>src/src/domain/retrospective/retrospective-service.ts\<close>. The context of the run service is a record of functions. The order in which
  \<open>latest_job_ids\<close> got its stages is an argument; the counts of changed files and lines are not fields of the modelled task and left out.
\<close>

subsection \<open>Runs\<close>

datatype run_view_status = View_Pending | View_Running | View_Succeeded | View_Failed | View_Blocked | View_Cancelled

record run_view =
  rv_run :: string
  rv_task :: string
  rv_sequence :: int
  rv_status :: run_view_status
  rv_stage :: "worker_stage option"
  rv_state :: task_state
  rv_started :: time
  rv_ended :: "time option"
  rv_last_event :: time
  rv_projection :: int
  rv_cursor :: string
  rv_risk :: risk_level
  rv_objective :: string
  rv_blocked_reason :: "string option"
  rv_jobs :: "string list"
  rv_checkpoints :: "checkpoint_ref list"
  rv_created :: time
  rv_updated :: time

record run_context =
  rc_task :: "string \<Rightarrow> task option"
  rc_events :: "string \<Rightarrow> transition_event list"
  rc_audits :: "string \<Rightarrow> audit_event list"
  rc_checkpoints :: checkpoint_log
  rc_stages :: "task \<Rightarrow> worker_stage list"

fun mapTaskStateToRunStatus :: "task_state \<Rightarrow> run_view_status" where
  "mapTaskStateToRunStatus Published = View_Succeeded"
| "mapTaskStateToRunStatus Blocked = View_Blocked"
| "mapTaskStateToRunStatus Cancelled = View_Cancelled"
| "mapTaskStateToRunStatus Failed = View_Failed"
| "mapTaskStateToRunStatus _ = View_Running"

fun getCurrentStage :: "task_state \<Rightarrow> worker_stage option" where
  "getCurrentStage Queued = Some Plan"
| "getCurrentStage Planning = Some Plan"
| "getCurrentStage Planned = Some Plan"
| "getCurrentStage Developing = Some Dev"
| "getCurrentStage Dev_Completed = Some Dev"
| "getCurrentStage Rework_Required = Some Dev"
| "getCurrentStage Accepting = Some Acceptance"
| "getCurrentStage Accepted = Some Acceptance"
| "getCurrentStage _ = None"

definition getJobIdsForTask :: "worker_stage list \<Rightarrow> task \<Rightarrow> string list" where
  "getJobIdsForTask stages t = foldl (\<lambda>js st. case latest_job_ids t st of Some j \<Rightarrow> if j = [] then js else set_add js j | None \<Rightarrow> js)
     (if falsy (active_job_id t) then [] else [the (active_job_id t)]) stages"

definition latest_event :: "transition_event list \<Rightarrow> transition_event option" where
  "latest_event es = (case es of [] \<Rightarrow> None | e # es \<Rightarrow> Some (foldl (\<lambda>a b. if occurred_at a > occurred_at b then a else b) e es))"

definition taskToRun :: "run_context \<Rightarrow> task \<Rightarrow> run_view" where
  "taskToRun c t = (let l = latest_event (rc_events c (task_id t)) in
     \<lparr>rv_run = task_id t, rv_task = task_id t, rv_sequence = 1, rv_status = mapTaskStateToRunStatus (state t), rv_stage = getCurrentStage (state t),
      rv_state = state t, rv_started = created_at t, rv_ended = completed_at t,
      rv_last_event = (case l of Some e \<Rightarrow> occurred_at e | None \<Rightarrow> updated_at t), rv_projection = version t,
      rv_cursor = (case l of Some e \<Rightarrow> event_id e | None \<Rightarrow> []), rv_risk = risk_level t, rv_objective = objective t,
      rv_blocked_reason = map_option block_reason (blocked_context t), rv_jobs = getJobIdsForTask (rc_stages c t) t,
      rv_checkpoints = toCheckpointRefs (listCheckpointsForTask (rc_checkpoints c) (task_id t)), rv_created = created_at t, rv_updated = updated_at t\<rparr>)"

text \<open>\<open>slice(from, to)\<close>\<close>

definition slice_index :: "nat \<Rightarrow> int \<Rightarrow> nat" where
  "slice_index len i = (if i < 0 then nat (int len + i) else min (nat i) len)"

definition js_slice :: "int \<Rightarrow> int \<Rightarrow> 'a list \<Rightarrow> 'a list" where
  "js_slice a b xs = (let i = slice_index (length xs) a; j = slice_index (length xs) b in take (j - i) (drop i xs))"

definition listRuns :: "run_context \<Rightarrow> int option \<Rightarrow> int option \<Rightarrow> run_view_status list option \<Rightarrow> task list \<Rightarrow> run_view list" where
  "listRuns c limit offset statuses ts = (let runs = map (taskToRun c) ts;
       kept = (case statuses of Some ss \<Rightarrow> filter (\<lambda>r. rv_status r \<in> set ss) runs | None \<Rightarrow> runs);
       o' = (case offset of Some n \<Rightarrow> n | None \<Rightarrow> 0); l = (case limit of Some n \<Rightarrow> n | None \<Rightarrow> 100);
       sorted_runs = sort_key (\<lambda>r. - rv_updated r) kept
     in js_slice o' (o' + l) sorted_runs)"

definition getRun :: "run_context \<Rightarrow> string \<Rightarrow> run_view option" where
  "getRun c rid = map_option (taskToRun c) (rc_task c rid)"

definition getRunTimeline :: "run_context \<Rightarrow> string \<Rightarrow> transition_event list" where
  "getRunTimeline c rid = sort_key occurred_at (rc_events c rid)"

definition event_as_audit :: "string \<Rightarrow> transition_event \<Rightarrow> audit_event" where
  "event_as_audit rid e = \<lparr>ae_id = event_id e, ae_type = ''state_transition'', ae_task_id = event_task_id e, ae_run_id = Some rid, ae_job_id = event_job_id e,
     ae_actor_type = event_actor_type e, ae_actor_id = event_actor_id e,
     ae_payload = [(''from_state'', P_Str (state_name (from_state e))), (''to_state'', P_Str (state_name (to_state e))), (''reason'', P_Str (event_reason e)),
       (''artifact_ids'', P_List (case event_artifact_ids e of Some l \<Rightarrow> l | None \<Rightarrow> []))], ae_occurred_at = occurred_at e\<rparr>"

definition count_up :: "'k \<Rightarrow> int \<Rightarrow> ('k, int) jsmap \<Rightarrow> ('k, int) jsmap" where
  "count_up k n m = map_set m k ((case map_get m k of Some c \<Rightarrow> c | None \<Rightarrow> 0) + n)"

record audit_summary =
  as_counts :: "(string, int) jsmap"
  as_latest :: "audit_event list"
  as_total :: nat

definition getRunAuditSummary :: "run_context \<Rightarrow> string \<Rightarrow> audit_summary" where
  "getRunAuditSummary c rid = (let es = (if rc_audits c rid \<noteq> [] then rc_audits c rid else map (event_as_audit rid) (rc_events c rid)) in
     \<lparr>as_counts = foldl (\<lambda>m e. count_up (ae_type e) 1 m) [] es, as_latest = take 10 (sort_key (\<lambda>e. - ae_occurred_at e) es), as_total = length es\<rparr>)"

definition getRunCheckpoints :: "run_context \<Rightarrow> string \<Rightarrow> checkpoint_ref list" where
  "getRunCheckpoints c rid = toCheckpointRefs (listCheckpointsForRun (rc_checkpoints c) rid)"

definition getTaskCheckpoints :: "run_context \<Rightarrow> string \<Rightarrow> checkpoint_ref list" where
  "getTaskCheckpoints c tid = toCheckpointRefs (listCheckpointsForTask (rc_checkpoints c) tid)"

subsection \<open>Retrospectives\<close>

datatype retrospective_status = Retro_Pending | Retro_Generating | Retro_Completed | Retro_Partial | Retro_Failed

record acceptance_summary =
  au_outcome :: string
  au_complete :: bool
  au_checked :: nat
  au_items :: nat

record integrate_summary =
  gu_checks_passed :: bool
  gu_main_updated :: bool
  gu_branch :: "string option"

record publish_summary =
  pu_mode :: publish_mode
  pu_required :: bool
  pu_granted :: bool
  pu_targets :: "publish_target list option"
  pu_refs :: nat

record summary_metrics =
  sm_total :: int
  sm_stages :: "(task_state, int) jsmap"
  sm_jobs :: nat
  sm_success :: nat
  sm_failure :: nat
  sm_blocked :: nat
  sm_retries :: nat
  sm_retries_by_stage :: "(string, int) jsmap"
  sm_risk :: risk_level
  sm_checkpoints :: nat
  sm_checkpoints_by_stage :: "(checkpoint_stage, int) jsmap"
  sm_acceptance :: "acceptance_summary option"
  sm_integrate :: "integrate_summary option"
  sm_publish :: "publish_summary option"
  sm_side_effects :: "side_effect_category list option"
  sm_stale_docs :: "string list option"

record narrative =
  nv_text :: string
  nv_model :: string
  nv_generated :: time
  nv_input :: string

record retrospective =
  rp_id :: string
  rp_run :: string
  rp_task :: string
  rp_generation :: nat
  rp_status :: retrospective_status
  rp_generated :: time
  rp_metrics :: summary_metrics
  rp_narrative :: "narrative option"
  rp_cursor :: string
  rp_version :: int
  rp_model :: string
  rp_events :: nat

type_synonym retrospectives = "(string, retrospective list) jsmap"

fun stage_loop :: "(time \<times> task_state) option \<Rightarrow> (task_state, int) jsmap \<Rightarrow> transition_event list \<Rightarrow> (task_state, int) jsmap" where
  "stage_loop l m [] = m"
| "stage_loop l m (e # es) = stage_loop (Some (occurred_at e, to_state e))
     (case l of Some (ts, st) \<Rightarrow> count_up st (occurred_at e - ts) m | None \<Rightarrow> m) es"

definition calculateStageDurations :: "transition_event list \<Rightarrow> (task_state, int) jsmap" where
  "calculateStageDurations es = stage_loop None [] (sort_key occurred_at es)"

definition extractAcceptanceResult :: "transition_event list \<Rightarrow> task \<Rightarrow> acceptance_summary option" where
  "extractAcceptanceResult es t = (if filter (\<lambda>e. to_state e = Accepted) es = [] then None
     else let items = (case manual_checklist t of Some c \<Rightarrow> c | None \<Rightarrow> []) in Some \<lparr>au_outcome = ''accept'', au_complete = True,
       au_checked = length (filter (\<lambda>i. item_checked i = Some True) items), au_items = length items\<rparr>)"

definition extractIntegrateResult :: "task \<Rightarrow> integrate_summary option" where
  "extractIntegrateResult t = map_option (\<lambda>i. \<lparr>gu_checks_passed = (checks_passed i = Some True), gu_main_updated = (\<not> falsy (main_updated_sha i)),
     gu_branch = integration_branch i\<rparr>) (integration t)"

definition extractPublishResult :: "task \<Rightarrow> publish_summary option" where
  "extractPublishResult t = map_option (\<lambda>_. \<lparr>pu_mode = (case Option.bind (publish_plan t) plan_mode of Some m \<Rightarrow> m | None \<Rightarrow> Dry_Run),
     pu_required = (Option.bind (publish_plan t) approval_required = Some True), pu_granted = (\<not> falsy (pending_approval_token t)),
     pu_targets = Option.bind (publish_plan t) plan_targets, pu_refs = (case external_refs t of Some l \<Rightarrow> length l | None \<Rightarrow> 0)\<rparr>) (publish_run t)"

definition retry_stage :: "audit_event \<Rightarrow> string option" where
  "retry_stage e = (if ae_type e \<noteq> ''retry_triggered'' then None else case map_of (ae_payload e) ''stage'' of
     Some (P_Str s) \<Rightarrow> if s = [] then None else Some s | _ \<Rightarrow> None)"

definition buildSummaryMetrics :: "task \<Rightarrow> transition_event list \<Rightarrow> string list \<Rightarrow> audit_event list \<Rightarrow> checkpoint_ref list \<Rightarrow> summary_metrics" where
  "buildSummaryMetrics t es jobs audits cps = (let d = calculateStageDurations es in
     \<lparr>sm_total = sum_list (map_values d), sm_stages = d, sm_jobs = length jobs, sm_success = length jobs, sm_failure = 0, sm_blocked = 0,
      sm_retries = length (filter (\<lambda>e. ae_type e = ''retry_triggered'') audits),
      sm_retries_by_stage = foldl (\<lambda>m s. count_up s 1 m) [] (List.map_filter retry_stage audits), sm_risk = risk_level t, sm_checkpoints = length cps,
      sm_checkpoints_by_stage = foldl (\<lambda>m c. count_up (checkpoint_stage c) 1 m) [] cps, sm_acceptance = extractAcceptanceResult es t,
      sm_integrate = extractIntegrateResult t, sm_publish = extractPublishResult t,
      sm_side_effects = (case detected_side_effects t of Some (x # xs) \<Rightarrow> Some (x # xs) | _ \<Rightarrow> None),
      sm_stale_docs = (case Option.bind (resolver_refs t) rr_stale_status of Some Stale \<Rightarrow> Some [''stale_documents_detected''] | _ \<Rightarrow> None)\<rparr>)"

definition storeRetrospective :: "retrospective \<Rightarrow> retrospectives \<Rightarrow> retrospectives" where
  "storeRetrospective r m = push_entry (rp_run r) r m"

definition getNextGeneration :: "retrospectives \<Rightarrow> string \<Rightarrow> nat" where
  "getNextGeneration m rid = length (entries_of m rid) + 1"

record retrospective_request =
  rt_skip :: bool
  rt_model :: "string option"

definition risk_text :: "risk_level \<Rightarrow> string" where
  "risk_text r = (case r of Low \<Rightarrow> ''low'' | Medium \<Rightarrow> ''medium'' | High \<Rightarrow> ''high'')"

definition publish_mode_text :: "publish_mode \<Rightarrow> string" where
  "publish_mode_text m = (case m of No_Op \<Rightarrow> ''no_op'' | Dry_Run \<Rightarrow> ''dry_run'' | Apply \<Rightarrow> ''apply'')"

definition run_status_text :: "run_view_status \<Rightarrow> string" where
  "run_status_text s = (case s of View_Pending \<Rightarrow> ''pending'' | View_Running \<Rightarrow> ''running'' | View_Succeeded \<Rightarrow> ''succeeded'' | View_Failed \<Rightarrow> ''failed''
     | View_Blocked \<Rightarrow> ''blocked'' | View_Cancelled \<Rightarrow> ''cancelled'')"

definition bool_text :: "bool \<Rightarrow> string" where
  "bool_text b = (if b then ''true'' else ''false'')"

definition formatNarrativeText :: "task \<Rightarrow> run_view \<Rightarrow> summary_metrics \<Rightarrow> string" where
  "formatNarrativeText t r m = js_join [CHR 0x0A] ([''## Run Summary: '' @ (if title t = [] then task_id t else title t), [], ''**Task ID**: '' @ task_id t,
       ''**Run ID**: '' @ rv_run r, ''**Status**: '' @ run_status_text (rv_status r), ''**Risk Level**: '' @ risk_text (sm_risk m), [], ''### Duration'',
       ''Total: '' @ show_int ((sm_total m + 500) div 1000) @ ''s'', []] @
     (if sm_jobs m > 0 then [''### Jobs'', ''- Total: '' @ show_nat (sm_jobs m), ''- Success: '' @ show_nat (sm_success m),
       ''- Failed: '' @ show_nat (sm_failure m), ''- Blocked: '' @ show_nat (sm_blocked m), []] else []) @
     (if sm_retries m > 0 then [''### Retries'', ''Total: '' @ show_nat (sm_retries m), []] else []) @
     (if sm_checkpoints m > 0 then [''### Checkpoints'', ''Total: '' @ show_nat (sm_checkpoints m), []] else []) @
     (case sm_acceptance m of Some a \<Rightarrow> [''### Acceptance'', ''Outcome: '' @ au_outcome a, []] | None \<Rightarrow> []) @
     (case sm_integrate m of Some g \<Rightarrow> [''### Integration'', ''- Checks passed: '' @ bool_text (gu_checks_passed g),
       ''- Main updated: '' @ bool_text (gu_main_updated g), []] | None \<Rightarrow> []) @
     (case sm_publish m of Some p \<Rightarrow> [''### Publish'', ''- Mode: '' @ publish_mode_text (pu_mode p),
       ''- Approval required: '' @ bool_text (pu_required p), []] | None \<Rightarrow> []))"

definition generateRetrospective :: "time \<Rightarrow> run_view \<Rightarrow> task \<Rightarrow> transition_event list \<Rightarrow> string list \<Rightarrow>
    audit_event list \<Rightarrow> checkpoint_ref list \<Rightarrow> retrospective_request \<Rightarrow> retrospectives \<Rightarrow> (retrospective \<times> bool) \<times> retrospectives" where
  "generateRetrospective now run t es jobs audits cps q m = (let g = getNextGeneration m (rv_run run);
       metrics = buildSummaryMetrics t es jobs audits cps;
       model = (\<lambda>d. if falsy (rt_model q) then d else the (rt_model q));
       r = \<lparr>rp_id = ''retro_'' @ rv_run run @ ''_gen'' @ show_nat g, rp_run = rv_run run, rp_task = task_id t, rp_generation = g, rp_status = Retro_Completed,
         rp_generated = now, rp_metrics = metrics, rp_narrative = (if rt_skip q then None else Some \<lparr>nv_text = formatNarrativeText t run metrics,
           nv_model = model ''structured-v1'', nv_generated = now, nv_input = rv_cursor run\<rparr>),
         rp_cursor = rv_cursor run, rp_version = version t, rp_model = model ''default'', rp_events = length es\<rparr>
     in ((r, \<not> rt_skip q), storeRetrospective r m))"

definition getRetrospective :: "retrospectives \<Rightarrow> string \<Rightarrow> retrospective option" where
  "getRetrospective m rid = (case entries_of m rid of [] \<Rightarrow> None | r # rs \<Rightarrow> Some (last (r # rs)))"

definition getRetrospectiveHistory :: "retrospectives \<Rightarrow> string \<Rightarrow> retrospective list" where
  "getRetrospectiveHistory m rid = entries_of m rid"

definition getRetrospectivesForTask :: "retrospectives \<Rightarrow> string \<Rightarrow> retrospective list" where
  "getRetrospectivesForTask m tid = sort_key (\<lambda>r. - rp_generated r) (filter (\<lambda>r. rp_task r = tid) (concat (map_values m)))"

definition clearRetrospectives :: "string \<Rightarrow> retrospectives \<Rightarrow> retrospectives" where
  "clearRetrospectives rid m = map_delete m rid"

subsection \<open>What is shown of a run\<close>

text \<open>A run is shown as finished exactly when its task can change no more, the unused state \<open>Completed\<close> apart.\<close>

lemma finished_run_terminal: "st \<noteq> Completed \<Longrightarrow> mapTaskStateToRunStatus st \<in> {View_Succeeded, View_Failed, View_Cancelled} \<longleftrightarrow> isTerminal st"
  by (cases st) simp_all

lemma latest_event_max: "latest_event es = Some e \<Longrightarrow> e \<in> set es \<and> (\<forall>x \<in> set es. occurred_at x \<le> occurred_at e)"
proof -
  have "foldl (\<lambda>a b. if occurred_at a > occurred_at b then a else b) a xs \<in> insert a (set xs) \<and>
      (\<forall>x \<in> insert a (set xs). occurred_at x \<le> occurred_at (foldl (\<lambda>a b. if occurred_at a > occurred_at b then a else b) a xs))" for a xs
  proof (induction xs arbitrary: a)
    case (Cons y ys)
    show ?case using Cons.IH [of a] Cons.IH [of y] by auto
  qed simp
  then show "latest_event es = Some e \<Longrightarrow> e \<in> set es \<and> (\<forall>x \<in> set es. occurred_at x \<le> occurred_at e)"
    by (cases es) (auto simp: latest_event_def)
qed

lemma count_up_sum: "sum_list (map_values (count_up k n m)) = sum_list (map_values m) + n"
proof -
  have "sum_list (map snd (map_set m k v)) = sum_list (map snd m) - (case map_get m k of Some c \<Rightarrow> c | None \<Rightarrow> 0) + (v :: int)" for v
    by (induction m) (auto simp: map_set_def map_get_def split: option.split)
  then show ?thesis by (simp add: count_up_def map_values_def)
qed

lemma count_up_get: "map_get (count_up k n m) x = (if x = k then Some ((case map_get m k of Some c \<Rightarrow> c | None \<Rightarrow> 0) + n) else map_get m x)"
  by (simp add: count_up_def jm.lookup_store)

lemma stage_loop_sum: "sum_list (map_values (stage_loop l m es)) = sum_list (map_values m) +
    (if es = [] then 0 else case l of Some (ts, st) \<Rightarrow> occurred_at (last es) - ts | None \<Rightarrow> occurred_at (last es) - occurred_at (hd es))"
  by (induction l m es rule: stage_loop.induct) (auto simp: count_up_sum split: option.split)

lemma stage_loop_nonneg: "sorted (map occurred_at es) \<Longrightarrow> (\<And>ts st. l = Some (ts, st) \<Longrightarrow> \<forall>e \<in> set es. ts \<le> occurred_at e) \<Longrightarrow>
    (\<And>k n. map_get m k = Some n \<Longrightarrow> 0 \<le> n) \<Longrightarrow> map_get (stage_loop l m es) k = Some n \<Longrightarrow> 0 \<le> n"
proof (induction l m es arbitrary: k n rule: stage_loop.induct)
  case (2 l m e es)
  have "map_get (case l of Some (ts, st) \<Rightarrow> count_up st (occurred_at e - ts) m | None \<Rightarrow> m) k' = Some n' \<Longrightarrow> 0 \<le> n'" for k' n'
    using 2(3,4) by (fastforce simp: count_up_get split: option.splits if_splits prod.splits)
  with 2(1) [of k n] 2(2,5) show ?case by auto
qed auto

lemma sorted_hd_Min: "sorted xs \<Longrightarrow> xs \<noteq> [] \<Longrightarrow> Min (set xs) = hd xs"
  by (cases xs) (auto intro: Min_eqI)

lemma sorted_last_Max: "sorted xs \<Longrightarrow> xs \<noteq> [] \<Longrightarrow> Max (set xs) = last xs"
  by (induction xs rule: rev_induct) (auto simp: sorted_append intro!: Max_eqI)

text \<open>The durations of the stages are not negative and add up to the time between the first and the last event.\<close>

theorem stage_durations_add_up:
  "sm_total (buildSummaryMetrics t es jobs audits cps) =
     (if es = [] then 0 else Max (occurred_at ` set es) - Min (occurred_at ` set es)) \<and>
   (case map_get (sm_stages (buildSummaryMetrics t es jobs audits cps)) st of Some n \<Rightarrow> 0 \<le> n | None \<Rightarrow> True)"
proof
  let ?s = "sort_key occurred_at es"
  have srt: "sorted (map occurred_at ?s)" by simp
  show "sm_total (buildSummaryMetrics t es jobs audits cps) = (if es = [] then 0 else Max (occurred_at ` set es) - Min (occurred_at ` set es))"
  proof (cases "es = []")
    case True
    then show ?thesis by (simp add: buildSummaryMetrics_def calculateStageDurations_def map_values_def)
  next
    case False
    then have ne: "?s \<noteq> []" by (metis set_empty set_sort)
    then have ne': "map occurred_at ?s \<noteq> []" by simp
    have "Min (occurred_at ` set es) = occurred_at (hd ?s)" "Max (occurred_at ` set es) = occurred_at (last ?s)"
      using sorted_hd_Min [OF srt ne'] sorted_last_Max [OF srt ne'] ne by (simp_all add: hd_map last_map)
    with False ne show ?thesis
      by (simp add: buildSummaryMetrics_def calculateStageDurations_def stage_loop_sum Let_def) (simp add: map_values_def)
  qed
  show "case map_get (sm_stages (buildSummaryMetrics t es jobs audits cps)) st of Some n \<Rightarrow> 0 \<le> n | None \<Rightarrow> True"
    using stage_loop_nonneg [OF srt, of None "[]" st]
    by (auto simp: buildSummaryMetrics_def calculateStageDurations_def Let_def split: option.split)
qed

text \<open>The retrospective reports an approval as not granted as soon as it was granted: approving a publication clears the token the report looks
  at.\<close>

theorem approved_publish_reported_unapproved:
  assumes "cp_approvePublish now fr tid tok cp = (Inr t', cp')"
  shows "\<exists>p. extractPublishResult t' = Some p \<and> \<not> pu_granted p"
proof -
  obtain t c where req: "require_in_state tid Publish_Pending_Approval cp = (Inr t, c)"
      and rest: "and_then (approvePublish (cp_move now (fresh_event fr)) now (fresh_run fr) t tok)
        (\<lambda>res cp. (Inr res, add_checkpoint (approval_checkpoint now fr (task_id t)) cp)) c = (Inr t', cp')"
    by (rule and_then_InrE [OF assms [unfolded cp_approvePublish_def]])
  from req have st: "state t = Publish_Pending_Approval" by (simp add: require_in_state_iff)
  from rest obtain u d where "approvePublish (cp_move now (fresh_event fr)) now (fresh_run fr) t tok c = (Inr u, d)" "t' = u"
    by (elim and_then_InrE) simp
  then have "pending_approval_token t' = None \<and> publish_run t' = Some (new_run (fresh_run fr) now (15 * 60 * 1000))"
    by (cases rule: cp.approvePublish_spec [OF st, where nowa = now and eid = "fresh_event fr" and now = now and rid = "fresh_run fr" and tok = tok and s = c]) auto
  then show ?thesis by (simp add: extractPublishResult_def)
qed

definition pending_plane :: control_plane where
  "pending_plane = empty_control_plane\<lparr>store := \<lparr>tasks = [(''task_1'', sample_task\<lparr>state := Publish_Pending_Approval,
     pending_approval_token := Some ''tok''\<rparr>)], events = []\<rparr>\<rparr>"

lemma approved_publish_reported_unapproved_witness: "\<exists>t' cp' p. cp_approvePublish 5 sample_fresh ''task_1'' ''tok'' pending_plane = (Inr t', cp') \<and>
    extractPublishResult t' = Some p \<and> \<not> pu_granted p"
proof -
  let ?t = "sample_task\<lparr>state := Publish_Pending_Approval, pending_approval_token := Some ''tok''\<rparr>"
  have l: "cp_lookup pending_plane ''task_1'' = Some ?t" by (simp add: pending_plane_def cp_lookup_def getTask_def map_get_def)
  have v: "validateApprovalToken 5 ?t ''tok'' = None" by (simp add: validateApprovalToken_def sample_task_def str_or_empty_def)
  obtain t' cp' where "cp_approvePublish 5 sample_fresh ''task_1'' ''tok'' pending_plane = (Inr t', cp')"
    by (rule approvePublish_ok [OF l _ _ v, where fr = sample_fresh]) (simp_all add: sample_task_def)
  with approved_publish_reported_unapproved [OF this] show ?thesis by blast
qed

text \<open>The history of a run is numbered from one on, and the latest retrospective has the highest number.\<close>

definition numbered :: "retrospectives \<Rightarrow> bool" where
  "numbered m = (\<forall>rid. map rp_generation (entries_of m rid) = [1..<Suc (length (entries_of m rid))])"

inductive retro_step :: "retrospectives \<Rightarrow> retrospectives \<Rightarrow> bool" where
  retro_generate: "generateRetrospective now run t es jobs audits cps q m = (x, m') \<Longrightarrow> retro_step m m'"
| retro_clear: "retro_step m (clearRetrospectives rid m)"

lemma retro_step_numbered: "retro_step m m' \<Longrightarrow> numbered m \<Longrightarrow> numbered m'"
proof (induction rule: retro_step.induct)
  case (retro_generate now run t es jobs audits cps q m x m')
  then have r: "m' = push_entry (rp_run (fst x)) (fst x) m" "rp_generation (fst x) = Suc (length (entries_of m (rp_run (fst x))))"
    by (auto simp: generateRetrospective_def storeRetrospective_def getNextGeneration_def Let_def)
  with retro_generate(2) show ?case unfolding numbered_def r(1) entries_of_push by (auto simp: Suc_le_eq)
next
  case (retro_clear m rid)
  have "entries_of (clearRetrospectives rid m) k = (if k = rid then [] else entries_of m k)" for k
    by (simp add: clearRetrospectives_def entries_of_def jm.lookup_remove)
  with retro_clear show ?case by (auto simp: numbered_def Suc_le_eq)
qed

theorem retrospective_history:
  assumes "retro_step\<^sup>*\<^sup>* [] m"
  shows "map rp_generation (getRetrospectiveHistory m rid) = [1..<Suc (length (getRetrospectiveHistory m rid))] \<and>
    (case getRetrospective m rid of Some r \<Rightarrow> rp_generation r = length (getRetrospectiveHistory m rid) | None \<Rightarrow> getRetrospectiveHistory m rid = [])"
proof -
  have "numbered []" by (simp add: numbered_def entries_of_def)
  with assms have "numbered m" by (induction rule: rtranclp_induct) (auto intro: retro_step_numbered)
  then have n: "map rp_generation (entries_of m rid) = [1..<Suc (length (entries_of m rid))]" by (simp add: numbered_def)
  then have "entries_of m rid \<noteq> [] \<Longrightarrow> rp_generation (last (entries_of m rid)) = length (entries_of m rid)"
    by (metis last_map last_upt length_map length_greater_0_conv less_Suc_eq_le Suc_le_eq diff_Suc_1 list.map_disc_iff One_nat_def)
  with n show ?thesis by (auto simp: getRetrospectiveHistory_def getRetrospective_def split: list.split)
qed

definition sample_retros :: retrospectives where
  "sample_retros = snd (generateRetrospective 5 (taskToRun \<lparr>rc_task = (\<lambda>_. None), rc_events = (\<lambda>_. []), rc_audits = (\<lambda>_. []), rc_checkpoints = [],
     rc_stages = (\<lambda>_. [])\<rparr> sample_task) sample_task [] [] [] [] \<lparr>rt_skip = False, rt_model = None\<rparr> [])"

lemma retrospective_history_witness: "map rp_generation (getRetrospectiveHistory sample_retros ''task_1'') =
    [1..<Suc (length (getRetrospectiveHistory sample_retros ''task_1''))]"
proof -
  have "retro_step [] sample_retros"
    unfolding sample_retros_def by (rule retro_generate) (rule prod.collapse [symmetric])
  then have "retro_step\<^sup>*\<^sup>* [] sample_retros" by (rule r_into_rtranclp)
  from retrospective_history [OF this] show ?thesis by blast
qed

end
