(* ===== verification/Improvement.thy ===== *)
theory Improvement
  imports Run_Views
begin

text \<open>
  The export of observations, \<open>src/src/domain/improvement/improvement-observation-service.ts\<close>: gate decisions, consumed evidence and
  retrospectives, cut into pages by a cursor. \<open>Date.parse\<close> and the order of \<open>localeCompare\<close> on identifiers are arguments. The theorem says that a
  client that follows the cursors sees every observation of its window exactly once.
\<close>

subsection \<open>Observations\<close>

record gate_observation =
  go_id :: string
  go_task :: string
  go_run :: "string option"
  go_occurred :: time
  go_gate :: string
  go_owner :: string
  go_revision :: string
  go_decision :: string
  go_action :: string
  go_changed :: "bool option"
  go_risk :: string
  go_override :: string
  go_source :: string

record evidence_observation =
  eo_id :: string
  eo_task :: string
  eo_evidence :: string
  eo_occurred :: time
  eo_reviewer :: string
  eo_purpose :: "string option"
  eo_source :: string

record reflection_summary =
  rf_session :: string
  rf_task :: string
  rf_objective :: string
  rf_change :: string
  rf_lesson :: string
  rf_created :: time

record gate_catalog_entry =
  gc_gate :: string
  gc_owner :: string
  gc_revision :: string
  gc_hard :: bool

datatype export_value = Ex_Gate gate_observation | Ex_Evidence evidence_observation | Ex_Reflection reflection_summary

record export_item =
  xi_id :: string
  xi_occurred :: time
  xi_value :: export_value

record observation_query =
  oq_since :: "string option"
  oq_until :: "string option"
  oq_limit :: "int option"
  oq_cursor :: "string option"

record observation_bundle =
  ob_generated :: time
  ob_tasks :: nat
  ob_since :: "string option"
  ob_until :: "string option"
  ob_catalog :: "gate_catalog_entry list"
  ob_gates :: "gate_observation list"
  ob_evidence :: "evidence_observation list"
  ob_reflections :: "reflection_summary list"
  ob_next :: "string option"

subsection \<open>Reading payloads\<close>

fun payload_string :: "payload_value \<Rightarrow> string option" where
  "payload_string (P_Str s) = Some s"
| "payload_string (P_Opt s) = s"
| "payload_string (P_Mode m) = Some (publish_mode_text m)"
| "payload_string (P_Scalar (J_Str s)) = Some s"
| "payload_string _ = None"

fun payload_bool :: "payload_value \<Rightarrow> bool option" where
  "payload_bool (P_Bool b) = Some b"
| "payload_bool (P_Opt_Bool b) = b"
| "payload_bool (P_Scalar (J_Bool b)) = Some b"
| "payload_bool _ = None"

definition readString :: "payload \<Rightarrow> string \<Rightarrow> string option" where
  "readString p k = (case Option.bind (map_of p k) payload_string of Some s \<Rightarrow> if s = [] then None else Some s | None \<Rightarrow> None)"

definition readBoolean :: "payload \<Rightarrow> string \<Rightarrow> bool option" where
  "readBoolean p k = Option.bind (map_of p k) payload_bool"

definition readNestedString :: "payload \<Rightarrow> string \<Rightarrow> string \<Rightarrow> string option" where
  "readNestedString p k k' = (case map_of p k of Some (P_Obj kvs) \<Rightarrow> Option.bind (map_of kvs k') payload_string | _ \<Rightarrow> None)"

definition readOverride :: "payload \<Rightarrow> string" where
  "readOverride p = (case Option.bind (map_of p ''override'') payload_string of
     Some s \<Rightarrow> if s = ''none'' \<or> s = ''applied'' then s else ''unknown''
   | None \<Rightarrow> (case map_of p ''override'' of
       Some (P_Obj kvs) \<Rightarrow> (case Option.bind (map_of kvs ''applied'') payload_bool of Some b \<Rightarrow> if b then ''applied'' else ''none'' | None \<Rightarrow> ''unknown'')
     | _ \<Rightarrow> ''unknown''))"

definition or_unknown :: "string option \<Rightarrow> string" where
  "or_unknown s = (case s of Some t \<Rightarrow> t | None \<Rightarrow> ''unknown'')"

definition toGateObservation :: "audit_event \<Rightarrow> gate_observation" where
  "toGateObservation e = (let p = ae_payload e in \<lparr>go_id = ''gate:'' @ ae_id e, go_task = ae_task_id e,
     go_run = (if falsy (ae_run_id e) then None else ae_run_id e), go_occurred = ae_occurred_at e, go_gate = or_unknown (readString p ''gate_id''),
     go_owner = or_unknown (readString p ''gate_owner''), go_revision = or_unknown (readString p ''policy_revision''),
     go_decision = or_unknown (case readString p ''decision'' of Some s \<Rightarrow> Some s | None \<Rightarrow> readNestedString p ''gatefield'' ''verdict''),
     go_action = or_unknown (readString p ''effective_action''), go_changed = readBoolean p ''transition_changed'',
     go_risk = or_unknown (readString p ''risk''), go_override = readOverride p, go_source = ae_id e\<rparr>)"

definition toEvidenceObservation :: "audit_event \<Rightarrow> evidence_observation option" where
  "toEvidenceObservation e = (let p = ae_payload e in case (readString p ''evidence_id'', readString p ''reviewed_by'') of
     (Some i, Some r) \<Rightarrow> Some \<lparr>eo_id = ''evidence:'' @ ae_id e, eo_task = ae_task_id e, eo_evidence = i, eo_occurred = ae_occurred_at e,
       eo_reviewer = r, eo_purpose = readString p ''purpose'', eo_source = ae_id e\<rparr>
   | _ \<Rightarrow> None)"

definition toExportItems :: "audit_event \<Rightarrow> export_item list" where
  "toExportItems e = (if ae_type e = ''run.systemGateEvaluated''
     then let g = toGateObservation e in [\<lparr>xi_id = go_id g, xi_occurred = go_occurred g, xi_value = Ex_Gate g\<rparr>]
     else if ae_type e = ''evidence.acknowledged''
     then (case toEvidenceObservation e of Some v \<Rightarrow> [\<lparr>xi_id = eo_id v, xi_occurred = eo_occurred v, xi_value = Ex_Evidence v\<rparr>] | None \<Rightarrow> [])
     else [])"

definition adaptRetrospectiveToReflectionSummary :: "retrospective \<Rightarrow> reflection_summary" where
  "adaptRetrospectiveToReflectionSummary r = (let m = rp_metrics r in \<lparr>rf_session = ''shipyard-retrospective:'' @ rp_id r, rf_task = rp_task r,
     rf_objective = ''Runtime retrospective for task '' @ rp_task r,
     rf_change = ''Jobs: '' @ show_nat (sm_jobs m) @ ''; successful: '' @ show_nat (sm_success m) @ ''; failed: '' @ show_nat (sm_failure m) @
       ''; blocked: '' @ show_nat (sm_blocked m) @ ''.'',
     rf_lesson = ''Risk level '' @ risk_text (sm_risk m) @ ''; retries: '' @ show_nat (sm_retries m) @ ''; checkpoints: '' @ show_nat (sm_checkpoints m) @ ''.'',
     rf_created = rp_generated r\<rparr>)"

definition reflection_item :: "retrospective \<Rightarrow> export_item" where
  "reflection_item r = \<lparr>xi_id = ''reflection:'' @ rp_id r, xi_occurred = rp_generated r, xi_value = Ex_Reflection (adaptRetrospectiveToReflectionSummary r)\<rparr>"

definition export_items :: "audit_event list \<Rightarrow> retrospective list \<Rightarrow> export_item list" where
  "export_items es rs = concat (map toExportItems es) @ map reflection_item rs"

subsection \<open>Pages\<close>

definition parseTimestamp :: "(string \<Rightarrow> time option) \<Rightarrow> string option \<Rightarrow> string \<Rightarrow> string + time option" where
  "parseTimestamp parse_date v label = (case v of None \<Rightarrow> Inr None
     | Some s \<Rightarrow> (case parse_date s of None \<Rightarrow> Inl (label @ '' must be an ISO timestamp'') | Some t \<Rightarrow> Inr (Some t)))"

definition isWithinWindow :: "time \<Rightarrow> time option \<Rightarrow> time option \<Rightarrow> bool" where
  "isWithinWindow t since until = ((case since of Some a \<Rightarrow> a \<le> t | None \<Rightarrow> True) \<and> (case until of Some b \<Rightarrow> t \<le> b | None \<Rightarrow> True))"

definition normalizeLimit :: "int option \<Rightarrow> string + int" where
  "normalizeLimit v = (case v of None \<Rightarrow> Inr 100 | Some n \<Rightarrow> if n < 1 \<or> n > 500 then Inl ''limit must be an integer from 1 through 500'' else Inr n)"

fun find_index :: "string \<Rightarrow> export_item list \<Rightarrow> nat option" where
  "find_index i [] = None"
| "find_index i (x # xs) = (if xi_id x = i then Some 0 else map_option Suc (find_index i xs))"

definition resolveCursor :: "export_item list \<Rightarrow> string option \<Rightarrow> string + nat" where
  "resolveCursor items cursor = (if falsy cursor then Inr 0 else case find_index (the cursor) items of
     None \<Rightarrow> Inl ''cursor does not reference an observation in the selected window'' | Some k \<Rightarrow> Inr (k + 1))"

text \<open>\<open>before\<close> is the strict order of \<open>localeCompare\<close>; the sort is stable.\<close>

fun insert_item :: "(string \<Rightarrow> string \<Rightarrow> bool) \<Rightarrow> export_item \<Rightarrow> export_item list \<Rightarrow> export_item list" where
  "insert_item before x [] = [x]"
| "insert_item before x (y # ys) = (if xi_occurred y < xi_occurred x \<or> (xi_occurred y = xi_occurred x \<and> before (xi_id y) (xi_id x))
     then y # insert_item before x ys else x # y # ys)"

definition sort_items :: "(string \<Rightarrow> string \<Rightarrow> bool) \<Rightarrow> export_item list \<Rightarrow> export_item list" where
  "sort_items before xs = foldr (insert_item before) xs []"

definition add_catalog :: "(string, gate_catalog_entry) jsmap \<Rightarrow> gate_observation \<Rightarrow> (string, gate_catalog_entry) jsmap" where
  "add_catalog m g = (let k = go_gate g @ '':'' @ go_owner g @ '':'' @ go_revision g in if map_has m k then m else
     map_set m k \<lparr>gc_gate = go_gate g, gc_owner = go_owner g, gc_revision = go_revision g, gc_hard = (take 12 (go_gate g) = ''hard-safety:'')\<rparr>)"

fun insert_entry :: "(string \<Rightarrow> string \<Rightarrow> bool) \<Rightarrow> gate_catalog_entry \<Rightarrow> gate_catalog_entry list \<Rightarrow> gate_catalog_entry list" where
  "insert_entry before x [] = [x]"
| "insert_entry before x (y # ys) = (if before (gc_gate y) (gc_gate x) then y # insert_entry before x ys else x # y # ys)"

definition catalogFrom :: "(string \<Rightarrow> string \<Rightarrow> bool) \<Rightarrow> gate_observation list \<Rightarrow> gate_catalog_entry list" where
  "catalogFrom before gs = foldr (insert_entry before) (map_values (foldl add_catalog
     [(''run-system:shipyard-cp:1.0'', \<lparr>gc_gate = ''run-system'', gc_owner = ''shipyard-cp'', gc_revision = ''1.0'', gc_hard = False\<rparr>)] gs)) []"

definition item_gates :: "export_item list \<Rightarrow> gate_observation list" where
  "item_gates xs = List.map_filter (\<lambda>x. case xi_value x of Ex_Gate g \<Rightarrow> Some g | _ \<Rightarrow> None) xs"

definition item_evidence :: "export_item list \<Rightarrow> evidence_observation list" where
  "item_evidence xs = List.map_filter (\<lambda>x. case xi_value x of Ex_Evidence v \<Rightarrow> Some v | _ \<Rightarrow> None) xs"

definition item_reflections :: "export_item list \<Rightarrow> reflection_summary list" where
  "item_reflections xs = List.map_filter (\<lambda>x. case xi_value x of Ex_Reflection r \<Rightarrow> Some r | _ \<Rightarrow> None) xs"

text \<open>The selected observations, and the page of them that starts behind the cursor with the cursor of the next page.\<close>

definition select_items :: "(string \<Rightarrow> string \<Rightarrow> bool) \<Rightarrow> time option \<Rightarrow> time option \<Rightarrow> audit_event list \<Rightarrow> retrospective list \<Rightarrow> export_item list" where
  "select_items before since until es rs = sort_items before (filter (\<lambda>x. isWithinWindow (xi_occurred x) since until) (export_items es rs))"

definition page_of :: "export_item list \<Rightarrow> int \<Rightarrow> string option \<Rightarrow> string + export_item list \<times> string option" where
  "page_of sel pagesize cursor = (case resolveCursor sel cursor of Inl e \<Rightarrow> Inl e
     | Inr from_index \<Rightarrow> let page = take (nat pagesize) (drop from_index sel) in
         Inr (page, if length sel > from_index + length page then (if page = [] then None else Some (xi_id (last page))) else None))"

definition task_count :: "audit_event list \<Rightarrow> nat" where
  "task_count es = card (set (map ae_task_id es))"

definition bundle_of :: "(string \<Rightarrow> string \<Rightarrow> bool) \<Rightarrow> time \<Rightarrow> nat \<Rightarrow> observation_query \<Rightarrow> export_item list \<Rightarrow> string option \<Rightarrow> observation_bundle" where
  "bundle_of before now given_tasks q page nxt = \<lparr>ob_generated = now, ob_tasks = given_tasks,
     ob_since = (if falsy (oq_since q) then None else oq_since q), ob_until = (if falsy (oq_until q) then None else oq_until q),
     ob_catalog = catalogFrom before (item_gates page), ob_gates = item_gates page, ob_evidence = item_evidence page,
     ob_reflections = item_reflections page, ob_next = nxt\<rparr>"

definition export_page :: "(string \<Rightarrow> time option) \<Rightarrow> (string \<Rightarrow> string \<Rightarrow> bool) \<Rightarrow> time \<Rightarrow> audit_event list \<Rightarrow> retrospective list \<Rightarrow> observation_query \<Rightarrow>
    nat option \<Rightarrow> string + observation_bundle" where
  "export_page parse_date before now es rs q given_tasks = (case parseTimestamp parse_date (oq_since q) ''since'' of Inl e \<Rightarrow> Inl e | Inr since \<Rightarrow>
     (case parseTimestamp parse_date (oq_until q) ''until'' of Inl e \<Rightarrow> Inl e | Inr until \<Rightarrow>
       if (case (since, until) of (Some a, Some b) \<Rightarrow> a > b | _ \<Rightarrow> False) then Inl ''since must be before or equal to until''
       else case normalizeLimit (oq_limit q) of Inl e \<Rightarrow> Inl e | Inr pagesize \<Rightarrow>
         (case page_of (select_items before since until es rs) pagesize (oq_cursor q) of Inl e \<Rightarrow> Inl e | Inr (page, nxt) \<Rightarrow>
           Inr (bundle_of before now (case given_tasks of Some n \<Rightarrow> n | None \<Rightarrow> task_count es) q page nxt))))"

subsection \<open>Following the cursors\<close>

text \<open>A client asks for a page, then for the one behind the cursor it was given, until it is given none; at most \<open>n\<close> times.\<close>

fun follow :: "nat \<Rightarrow> (string option \<Rightarrow> 'e + 'b) \<Rightarrow> ('b \<Rightarrow> string option) \<Rightarrow> string option \<Rightarrow> ('e + 'b list) option" where
  "follow 0 ask next_of c = None"
| "follow (Suc n) ask next_of c = (case ask c of Inl e \<Rightarrow> Some (Inl e)
     | Inr b \<Rightarrow> (case next_of b of None \<Rightarrow> Some (Inr [b])
         | Some c' \<Rightarrow> map_option (map_sum id ((#) b)) (follow n ask next_of (Some c'))))"

lemma find_index_nth: "distinct (map xi_id xs) \<Longrightarrow> j < length xs \<Longrightarrow> find_index (xi_id (xs ! j)) xs = Some j"
proof (induction xs arbitrary: j)
  case (Cons x xs)
  then show ?case
  proof (cases j)
    case (Suc i)
    with Cons.prems(2) have "xs ! i \<in> set xs" by simp
    with Cons.prems(1) have "xi_id x \<noteq> xi_id (xs ! i)" by auto
    with Suc Cons show ?thesis by simp
  qed simp
qed simp

lemma follow_pages:
  assumes "distinct (map xi_id sel)" and "1 \<le> pagesize" and "\<forall>x \<in> set sel. xi_id x \<noteq> []"
    and ask: "\<And>c. ask c = map_sum id (\<lambda>(page, nxt). mk page nxt) (page_of sel pagesize c)" and nxt: "\<And>page n. next_of (mk page n) = n"
    and "resolveCursor sel c = Inr k" and "length sel - k < n"
  shows "\<exists>bs. follow n ask next_of c = Some (Inr (map (\<lambda>(page, nxt). mk page nxt) bs)) \<and> concat (map fst bs) = drop k sel"
  using assms(6,7)
proof (induction n arbitrary: c k)
  case (Suc n)
  let ?page = "take (nat pagesize) (drop k sel)"
  show ?case
  proof (cases "length sel > k + length ?page")
    case False
    then have "page_of sel pagesize c = Inr (?page, None)" using Suc.prems(1) by (simp add: page_of_def Let_def)
    then have "follow (Suc n) ask next_of c = Some (Inr (map (\<lambda>(page, nxt). mk page nxt) [(?page, None)]))" by (simp add: ask nxt)
    moreover have "?page = drop k sel" using False by simp
    ultimately show ?thesis by (metis concat.simps fst_conv list.simps(8,9) append_Nil2)
  next
    case True
    then have len: "length ?page = nat pagesize" "?page \<noteq> []" using assms(2) by auto
    let ?j = "k + nat pagesize - 1"
    have j: "last ?page = sel ! ?j" "?j < length sel" using True len assms(2) by (auto simp: last_conv_nth)
    let ?c = "Some (xi_id (last ?page))"
    have page: "page_of sel pagesize c = Inr (?page, ?c)" using Suc.prems(1) True len(2) by (simp add: page_of_def Let_def)
    have "find_index (xi_id (last ?page)) sel = Some ?j" unfolding j(1) by (rule find_index_nth [OF assms(1) j(2)])
    moreover have "\<not> falsy ?c" using assms(3) j by simp
    ultimately have "resolveCursor sel ?c = Inr (k + nat pagesize)" using assms(2) by (simp add: resolveCursor_def)
    moreover have "length sel - (k + nat pagesize) < n" using Suc.prems(2) True assms(2) len(1) by linarith
    ultimately obtain bs where bs: "follow n ask next_of ?c = Some (Inr (map (\<lambda>(page, nxt). mk page nxt) bs))" "concat (map fst bs) = drop (k + nat pagesize) sel"
      using Suc.IH by blast
    have "follow (Suc n) ask next_of c = Some (Inr (map (\<lambda>(page, nxt). mk page nxt) ((?page, ?c) # bs)))"
      using bs(1) by (simp add: ask page nxt)
    moreover have "concat (map fst ((?page, ?c) # bs)) = drop k sel"
      using bs(2) append_take_drop_id [of "nat pagesize" "drop k sel"] by (simp add: drop_drop add.commute)
    ultimately show ?thesis by blast
  qed
qed simp

definition item_names :: "audit_event \<Rightarrow> string set" where
  "item_names e = {''gate:'' @ ae_id e, ''evidence:'' @ ae_id e}"

lemma evidence_id: "toEvidenceObservation e = Some v \<Longrightarrow> eo_id v = ''evidence:'' @ ae_id e"
  by (auto simp: toEvidenceObservation_def Let_def split: option.splits)

lemma gate_id: "go_id (toGateObservation e) = ''gate:'' @ ae_id e"
  by (simp add: toGateObservation_def Let_def)

lemma toExportItems_single: "toExportItems e = [] \<or> (\<exists>x. toExportItems e = [x] \<and> xi_id x \<in> item_names e)"
proof (cases "ae_type e = ''run.systemGateEvaluated''")
  case True
  then show ?thesis unfolding toExportItems_def Let_def by (simp add: gate_id item_names_def)
next
  case False
  show ?thesis
  proof (cases "toEvidenceObservation e")
    case None
    with False show ?thesis unfolding toExportItems_def by simp
  next
    case (Some v)
    with False evidence_id [OF Some] show ?thesis unfolding toExportItems_def by (simp add: item_names_def)
  qed
qed

lemma toExportItems_ids: "xi_id ` set (toExportItems e) \<subseteq> item_names e" "distinct (map xi_id (toExportItems e))"
  using toExportItems_single [of e] by auto

lemma item_names_disjoint: "ae_id e \<noteq> ae_id e' \<Longrightarrow> item_names e \<inter> item_names e' = {}" "''reflection:'' @ r \<notin> item_names e" "[] \<notin> item_names e"
  by (auto simp: item_names_def)

lemma event_items_ids: "xi_id ` set (concat (map toExportItems es)) \<subseteq> (\<Union>e \<in> set es. item_names e)"
  using toExportItems_ids(1) by fastforce

lemma event_items_distinct: "distinct (map ae_id es) \<Longrightarrow> distinct (map xi_id (concat (map toExportItems es)))"
proof (induction es)
  case (Cons e es)
  have "item_names e \<inter> (\<Union>e \<in> set es. item_names e) = {}"
    using Cons.prems item_names_disjoint(1) [of e] by fastforce
  then have "set (map xi_id (toExportItems e)) \<inter> set (map xi_id (concat (map toExportItems es))) = {}"
    using toExportItems_ids(1) [of e] event_items_ids [of es] by (simp only: set_map) blast
  with Cons toExportItems_ids(2) [of e] show ?case by simp
qed simp

lemma mset_sort_items: "mset (sort_items before xs) = mset xs"
proof -
  have "mset (insert_item before x ys) = add_mset x (mset ys)" for x ys by (induction ys) auto
  then show ?thesis unfolding sort_items_def by (induction xs) simp_all
qed

lemma export_items_distinct:
  assumes "distinct (map ae_id es)" and "distinct (map rp_id rs)"
  shows "distinct (map xi_id (export_items es rs))" and "\<forall>x \<in> set (export_items es rs). xi_id x \<noteq> []"
proof -
  have refl: "xi_id (reflection_item r) = ''reflection:'' @ rp_id r" for r by (simp add: reflection_item_def)
  have "distinct (map xi_id (map reflection_item rs))" using assms(2) by (simp add: refl comp_def distinct_map inj_on_def)
  moreover have "set (map xi_id (concat (map toExportItems es))) \<inter> set (map xi_id (map reflection_item rs)) = {}"
  proof -
    define A where "A = xi_id ` set (concat (map toExportItems es))"
    have "''reflection:'' @ r \<notin> A" for r unfolding A_def using event_items_ids [of es] item_names_disjoint(2) [of r] by blast
    then have "A \<inter> range (\<lambda>r. ''reflection:'' @ r) = {}" by fast
    moreover have "set (map xi_id (map reflection_item rs)) \<subseteq> range (\<lambda>r. ''reflection:'' @ r)" by (auto simp: refl)
    ultimately show ?thesis unfolding A_def by (simp only: set_map) blast
  qed
  ultimately show "distinct (map xi_id (export_items es rs))"
    using event_items_distinct [OF assms(1)] by (simp add: export_items_def del: set_concat)
  show "\<forall>x \<in> set (export_items es rs). xi_id x \<noteq> []"
  proof
    fix x
    assume "x \<in> set (export_items es rs)"
    then consider "x \<in> set (concat (map toExportItems es))" | r where "x = reflection_item r" by (auto simp: export_items_def)
    then show "xi_id x \<noteq> []"
    proof cases
      case 1
      then obtain e where "xi_id x \<in> item_names e" using event_items_ids [of es] by blast
      then show ?thesis using item_names_disjoint(3) by metis
    qed (simp add: refl)
  qed
qed

text \<open>C19. Whatever the limit, a client that follows the cursors ends after at most one page more than there are observations in its window, and has then
  seen each of them once and in order.\<close>

theorem observation_pages_complete:
  assumes "distinct (map ae_id es)" and "distinct (map rp_id rs)" and "1 \<le> pagesize" and "pagesize \<le> 500"
    and "parseTimestamp parse_date (oq_since q) ''since'' = Inr since" and "parseTimestamp parse_date (oq_until q) ''until'' = Inr until"
    and "case (since, until) of (Some a, Some b) \<Rightarrow> a \<le> b | _ \<Rightarrow> True" and "oq_limit q = Some pagesize"
    and "length (select_items before since until es rs) < n"
  shows "\<exists>bs. follow n (\<lambda>c. export_page parse_date before now es rs (q\<lparr>oq_cursor := c\<rparr>) given_tasks) ob_next None = Some (Inr bs) \<and>
    concat (map ob_gates bs) = item_gates (select_items before since until es rs) \<and>
    concat (map ob_evidence bs) = item_evidence (select_items before since until es rs) \<and>
    concat (map ob_reflections bs) = item_reflections (select_items before since until es rs)"
proof -
  let ?sel = "select_items before since until es rs" and ?t = "case given_tasks of Some n \<Rightarrow> n | None \<Rightarrow> task_count es"
  let ?mk = "bundle_of before now ?t q"
  note d = export_items_distinct [OF assms(1,2)]
  have m: "mset ?sel = mset (filter (\<lambda>x. isWithinWindow (xi_occurred x) since until) (export_items es rs))"
    by (simp add: select_items_def mset_sort_items)
  then have "mset (map xi_id ?sel) = mset (map xi_id (filter (\<lambda>x. isWithinWindow (xi_occurred x) since until) (export_items es rs)))" by simp
  then have dist: "distinct (map xi_id ?sel)" using distinct_map_filter [OF d(1)] by (metis mset_eq_imp_distinct_iff)
  have ne: "\<forall>x \<in> set ?sel. xi_id x \<noteq> []" using d(2) mset_eq_setD [OF m] by simp
  have lim: "normalizeLimit (oq_limit q) = Inr pagesize" using assms(3,4,8) by (simp add: normalizeLimit_def)
  have window: "\<not> (case (since, until) of (Some a, Some b) \<Rightarrow> a > b | _ \<Rightarrow> False)" using assms(7) by (auto split: option.splits)
  have ask: "export_page parse_date before now es rs (q\<lparr>oq_cursor := c\<rparr>) given_tasks = map_sum id (\<lambda>(page, nxt). ?mk page nxt) (page_of ?sel pagesize c)" for c
    using window by (cases "page_of ?sel pagesize c") (simp_all add: export_page_def assms(5,6) lim bundle_of_def split: prod.split)
  have nx: "ob_next (?mk page k) = k" for page k by (simp add: bundle_of_def)
  have res: "resolveCursor ?sel None = Inr 0" by (simp add: resolveCursor_def)
  have "length ?sel - 0 < n" using assms(9) by simp
  from follow_pages [OF dist assms(3) ne ask nx res this] obtain bs
    where bs: "follow n (\<lambda>c. export_page parse_date before now es rs (q\<lparr>oq_cursor := c\<rparr>) given_tasks) ob_next None =
      Some (Inr (map (\<lambda>(page, nxt). ?mk page nxt) bs))" "concat (map fst bs) = ?sel"
    by auto
  have collect: "concat (map (\<lambda>b. List.map_filter f (fst b)) bs) = List.map_filter f (concat (map fst bs))" for f :: "export_item \<Rightarrow> 'x option"
    by (induction bs) (simp_all add: List.map_filter_def)
  show ?thesis
  proof (intro exI [of _ "map (\<lambda>(page, nxt). ?mk page nxt) bs"] conjI)
    show "concat (map ob_gates (map (\<lambda>(page, nxt). ?mk page nxt) bs)) = item_gates ?sel"
      unfolding item_gates_def bs(2) [symmetric] collect [symmetric] by (simp add: comp_def case_prod_beta bundle_of_def item_gates_def)
    show "concat (map ob_evidence (map (\<lambda>(page, nxt). ?mk page nxt) bs)) = item_evidence ?sel"
      unfolding item_evidence_def bs(2) [symmetric] collect [symmetric] by (simp add: comp_def case_prod_beta bundle_of_def item_evidence_def)
    show "concat (map ob_reflections (map (\<lambda>(page, nxt). ?mk page nxt) bs)) = item_reflections ?sel"
      unfolding item_reflections_def bs(2) [symmetric] collect [symmetric] by (simp add: comp_def case_prod_beta bundle_of_def item_reflections_def)
  qed (rule bs(1))
qed

lemma observation_pages_complete_witness:
  "\<exists>bs. follow 2 (\<lambda>c. export_page (\<lambda>_. None) (\<lambda>_ _. False) 5
      [\<lparr>ae_id = ''a1'', ae_type = ''run.systemGateEvaluated'', ae_task_id = ''task_1'', ae_run_id = None, ae_job_id = None, ae_actor_type = Control_Plane,
        ae_actor_id = ''c'', ae_payload = [], ae_occurred_at = 1\<rparr>] []
      \<lparr>oq_since = None, oq_until = None, oq_limit = Some 1, oq_cursor = c\<rparr> None) ob_next None = Some (Inr bs) \<and> length (concat (map ob_gates bs)) = 1"
proof -
  let ?e = "\<lparr>ae_id = ''a1'', ae_type = ''run.systemGateEvaluated'', ae_task_id = ''task_1'', ae_run_id = None, ae_job_id = None,
    ae_actor_type = Control_Plane, ae_actor_id = ''c'', ae_payload = [], ae_occurred_at = 1\<rparr>"
  let ?q = "\<lparr>oq_since = None, oq_until = None, oq_limit = Some 1, oq_cursor = None\<rparr>"
  have sel: "select_items (\<lambda>_ _. False) None None [?e] [] = toExportItems ?e" "length (toExportItems ?e) = 1"
    by (simp_all add: select_items_def export_items_def sort_items_def isWithinWindow_def toExportItems_def Let_def)
  have "length (item_gates (toExportItems ?e)) = 1" by (simp add: item_gates_def toExportItems_def Let_def List.map_filter_def)
  with observation_pages_complete [of "[?e]" "[]" 1 "\<lambda>_. None" ?q None None "\<lambda>_ _. False" 2 5 None] sel
  show ?thesis by (auto simp: parseTimestamp_def)
qed

end
