(* ===== verification/Agent_Spawn.thy ===== *)
theory Agent_Spawn
  imports Prelude
begin

text \<open>
  The limits on sub-agents, \<open>src/src/domain/agent/index.ts\<close>, and what its copy in the web client
  (\<open>src/web/src/domain/agent/index.ts\<close>) adds: the queue of waiting requests and the rounding of the token bucket. A scope (a job, a worker, everything) has
  a set of active agents, a bucket of tokens that refills with time and a queue. Tokens are real numbers; one call reads the clock once.
\<close>

subsection \<open>Configuration and requests\<close>

datatype spawn_scope = Scope_Job | Scope_Worker | Scope_Global
datatype overflow_action = Over_Queue | Over_Reject
datatype spawn_reason = Sp_Allowed | Sp_Concurrent | Sp_Rate | Sp_Timeout | Sp_Disabled | Sp_Invalid
datatype spawn_decision = Sp_Allow | Sp_Queue | Sp_Reject

record overflow_policy =
  on_concurrent_limit_exceeded :: overflow_action
  on_rate_limit_exceeded :: overflow_action

record spawn_rate_limit =
  window_seconds :: int
  max_spawns_per_window :: int
  burst :: int

record tree_limits =
  tl_enabled :: bool
  tl_scope :: spawn_scope
  max_concurrent_agents :: int
  tl_rate :: spawn_rate_limit
  tl_overflow :: overflow_policy
  max_queue_wait_seconds :: int
  count_descendants :: bool
  include_root_agent :: bool

definition DEFAULT_AGENT_TREE_LIMITS :: tree_limits where
  "DEFAULT_AGENT_TREE_LIMITS = \<lparr>tl_enabled = True, tl_scope = Scope_Job, max_concurrent_agents = 300,
     tl_rate = \<lparr>window_seconds = 60, max_spawns_per_window = 150, burst = 150\<rparr>,
     tl_overflow = \<lparr>on_concurrent_limit_exceeded = Over_Queue, on_rate_limit_exceeded = Over_Queue\<rparr>,
     max_queue_wait_seconds = 60, count_descendants = True, include_root_agent = False\<rparr>"

record spawn_request =
  sq_id :: string
  sq_job :: string
  sq_agent :: string
  sq_scope :: spawn_scope
  sq_at :: time
  sq_active :: int
  sq_tokens :: real
  sq_expires :: "time option"

record spawn_result =
  sr_decision :: spawn_decision
  sr_reason :: spawn_reason
  sr_wait :: "real option"
  sr_request :: spawn_request

record queued_request =
  qr_request :: spawn_request
  qr_promise :: nat
  qr_queued :: time

record spawn_ask =
  sa_id :: string
  sa_job :: string
  sa_agent :: string
  sa_worker :: "string option"
  sa_scope :: "spawn_scope option"

subsection \<open>The token bucket\<close>

record token_bucket =
  bk_tokens :: real
  bk_refilled :: time
  bk_max :: real
  bk_rate :: real

definition new_bucket :: "time \<Rightarrow> real \<Rightarrow> real \<Rightarrow> token_bucket" where
  "new_bucket now maximum rate = \<lparr>bk_tokens = maximum, bk_refilled = now, bk_max = maximum, bk_rate = rate\<rparr>"

definition refill :: "time \<Rightarrow> token_bucket \<Rightarrow> token_bucket" where
  "refill now b = (let elapsed = now - bk_refilled b; tokensToAdd = of_int elapsed * bk_rate b in
     b\<lparr>bk_tokens := min (bk_max b) (bk_tokens b + tokensToAdd), bk_refilled := now\<rparr>)"

definition consume :: "time \<Rightarrow> real \<Rightarrow> token_bucket \<Rightarrow> bool \<times> token_bucket" where
  "consume now count b = (let b = refill now b in
     if bk_tokens b \<ge> count then (True, b\<lparr>bk_tokens := bk_tokens b - count\<rparr>) else (False, b))"

definition getTokens :: "time \<Rightarrow> token_bucket \<Rightarrow> real \<times> token_bucket" where
  "getTokens now b = (let b = refill now b in (bk_tokens b, b))"

definition reset_bucket :: "time \<Rightarrow> token_bucket \<Rightarrow> token_bucket" where
  "reset_bucket now b = b\<lparr>bk_tokens := bk_max b, bk_refilled := now\<rparr>"

subsection \<open>Scopes\<close>

record scope_state =
  sc_agents :: "string list"
  sc_bucket :: token_bucket
  sc_queue :: "queued_request list"

type_synonym scopes = "(string, scope_state) jsmap"

definition tokens_per_ms :: "tree_limits \<Rightarrow> real" where
  "tokens_per_ms c = of_int (max_spawns_per_window (tl_rate c)) / (of_int (window_seconds (tl_rate c)) * 1000)"

definition new_scope :: "tree_limits \<Rightarrow> time \<Rightarrow> scope_state" where
  "new_scope c now = \<lparr>sc_agents = [], sc_bucket = new_bucket now (of_int (burst (tl_rate c))) (tokens_per_ms c), sc_queue = []\<rparr>"

definition getScopeState :: "tree_limits \<Rightarrow> time \<Rightarrow> string \<Rightarrow> scopes \<Rightarrow> scope_state \<times> scopes" where
  "getScopeState c now k m = (case map_get m k of Some s \<Rightarrow> (s, m) | None \<Rightarrow> (new_scope c now, map_set m k (new_scope c now)))"

definition active_in :: "string \<Rightarrow> scopes \<Rightarrow> int" where
  "active_in k m = (case map_get m k of Some s \<Rightarrow> int (length (sc_agents s)) | None \<Rightarrow> 0)"

definition registerAgent :: "tree_limits \<Rightarrow> time \<Rightarrow> string \<Rightarrow> string \<Rightarrow> scopes \<Rightarrow> scopes" where
  "registerAgent c now k a m = (let (s, m) = getScopeState c now k m in map_set m k (s\<lparr>sc_agents := set_add (sc_agents s) a\<rparr>))"

definition unregister_in :: "string \<Rightarrow> string \<Rightarrow> scopes \<Rightarrow> scopes" where
  "unregister_in k a m = (case map_get m k of Some s \<Rightarrow> map_set m k (s\<lparr>sc_agents := removeAll a (sc_agents s)\<rparr>) | None \<Rightarrow> m)"

definition getRemainingTokens :: "tree_limits \<Rightarrow> time \<Rightarrow> string \<Rightarrow> scopes \<Rightarrow> real \<times> scopes" where
  "getRemainingTokens c now k m = (let (s, m) = getScopeState c now k m; (n, b) = getTokens now (sc_bucket s) in (n, map_set m k (s\<lparr>sc_bucket := b\<rparr>)))"

definition tryConsumeToken :: "tree_limits \<Rightarrow> time \<Rightarrow> string \<Rightarrow> scopes \<Rightarrow> bool \<times> scopes" where
  "tryConsumeToken c now k m = (let (s, m) = getScopeState c now k m; (ok, b) = consume now 1 (sc_bucket s) in (ok, map_set m k (s\<lparr>sc_bucket := b\<rparr>)))"

definition getQueue :: "tree_limits \<Rightarrow> time \<Rightarrow> string \<Rightarrow> scopes \<Rightarrow> queued_request list \<times> scopes" where
  "getQueue c now k m = (let (s, m) = getScopeState c now k m in (sc_queue s, m))"

definition addToQueue :: "tree_limits \<Rightarrow> time \<Rightarrow> string \<Rightarrow> queued_request \<Rightarrow> scopes \<Rightarrow> scopes" where
  "addToQueue c now k q m = (let (s, m) = getScopeState c now k m in map_set m k (s\<lparr>sc_queue := sc_queue s @ [q]\<rparr>))"

fun splice_request :: "string \<Rightarrow> queued_request list \<Rightarrow> queued_request list" where
  "splice_request i [] = []"
| "splice_request i (q # qs) = (if sq_id (qr_request q) = i then qs else q # splice_request i qs)"

definition removeFromQueue :: "string \<Rightarrow> string \<Rightarrow> scopes \<Rightarrow> scopes" where
  "removeFromQueue k i m = (case map_get m k of Some s \<Rightarrow> map_set m k (s\<lparr>sc_queue := splice_request i (sc_queue s)\<rparr>) | None \<Rightarrow> m)"

definition buildScopeKey :: "spawn_scope \<Rightarrow> string option \<Rightarrow> string option \<Rightarrow> string" where
  "buildScopeKey sc job w = (case sc of
     Scope_Job \<Rightarrow> ''job:'' @ (case job of Some j \<Rightarrow> j | None \<Rightarrow> ''unknown'')
   | Scope_Worker \<Rightarrow> ''worker:'' @ (case w of Some v \<Rightarrow> v | None \<Rightarrow> ''unknown'')
   | Scope_Global \<Rightarrow> ''global'')"

subsection \<open>Metrics\<close>

record spawn_metrics =
  me_attempts :: "(spawn_scope, nat) jsmap"
  me_allowed :: "(spawn_scope, nat) jsmap"
  me_rejected :: "(spawn_scope \<times> spawn_reason, nat) jsmap"
  me_queued :: "(spawn_scope, nat) jsmap"
  me_active :: "(spawn_scope, int) jsmap"
  me_tokens :: "(spawn_scope, real) jsmap"
  me_waits :: "real list"

definition no_metrics :: spawn_metrics where
  "no_metrics = \<lparr>me_attempts = [], me_allowed = [], me_rejected = [], me_queued = [], me_active = [], me_tokens = [], me_waits = []\<rparr>"

definition count_of :: "('k, nat) jsmap \<Rightarrow> 'k \<Rightarrow> nat" where
  "count_of m k = (case map_get m k of Some n \<Rightarrow> n | None \<Rightarrow> 0)"

definition incrementSpawnAttempt :: "spawn_scope \<Rightarrow> spawn_metrics \<Rightarrow> spawn_metrics" where
  "incrementSpawnAttempt sc m = m\<lparr>me_attempts := map_set (me_attempts m) sc (count_of (me_attempts m) sc + 1)\<rparr>"

definition incrementSpawnAllowed :: "spawn_scope \<Rightarrow> spawn_metrics \<Rightarrow> spawn_metrics" where
  "incrementSpawnAllowed sc m = m\<lparr>me_allowed := map_set (me_allowed m) sc (count_of (me_allowed m) sc + 1)\<rparr>"

definition incrementSpawnRejected :: "spawn_scope \<Rightarrow> spawn_reason \<Rightarrow> spawn_metrics \<Rightarrow> spawn_metrics" where
  "incrementSpawnRejected sc r m = m\<lparr>me_rejected := map_set (me_rejected m) (sc, r) (count_of (me_rejected m) (sc, r) + 1)\<rparr>"

definition incrementSpawnQueued :: "spawn_scope \<Rightarrow> spawn_metrics \<Rightarrow> spawn_metrics" where
  "incrementSpawnQueued sc m = m\<lparr>me_queued := map_set (me_queued m) sc (count_of (me_queued m) sc + 1)\<rparr>"

definition setActiveCount :: "spawn_scope \<Rightarrow> int \<Rightarrow> spawn_metrics \<Rightarrow> spawn_metrics" where
  "setActiveCount sc n m = m\<lparr>me_active := map_set (me_active m) sc n\<rparr>"

definition recordQueueWaitTime :: "real \<Rightarrow> spawn_metrics \<Rightarrow> spawn_metrics" where
  "recordQueueWaitTime w m = m\<lparr>me_waits := me_waits m @ [w]\<rparr>"

definition setRateTokensCurrent :: "spawn_scope \<Rightarrow> real \<Rightarrow> spawn_metrics \<Rightarrow> spawn_metrics" where
  "setRateTokensCurrent sc n m = m\<lparr>me_tokens := map_set (me_tokens m) sc n\<rparr>"

definition getSpawnAttempts :: "spawn_scope \<Rightarrow> spawn_metrics \<Rightarrow> nat" where
  "getSpawnAttempts sc m = count_of (me_attempts m) sc"

definition getSpawnAllowed :: "spawn_scope \<Rightarrow> spawn_metrics \<Rightarrow> nat" where
  "getSpawnAllowed sc m = count_of (me_allowed m) sc"

definition getSpawnRejected :: "spawn_scope \<Rightarrow> spawn_reason \<Rightarrow> spawn_metrics \<Rightarrow> nat" where
  "getSpawnRejected sc r m = count_of (me_rejected m) (sc, r)"

definition getSpawnQueued :: "spawn_scope \<Rightarrow> spawn_metrics \<Rightarrow> nat" where
  "getSpawnQueued sc m = count_of (me_queued m) sc"

subsection \<open>The controller\<close>

record spawn_controller =
  sp_config :: tree_limits
  sp_scopes :: scopes
  sp_metrics :: spawn_metrics

definition new_controller :: "tree_limits \<Rightarrow> spawn_controller" where
  "new_controller c = \<lparr>sp_config = c, sp_scopes = [], sp_metrics = no_metrics\<rparr>"

definition createResult :: "spawn_decision \<Rightarrow> spawn_reason \<Rightarrow> spawn_request \<Rightarrow> spawn_result" where
  "createResult d r q = \<lparr>sr_decision = d, sr_reason = r, sr_wait = None, sr_request = q\<rparr>"

definition queueRequest :: "time \<Rightarrow> spawn_request \<Rightarrow> spawn_reason \<Rightarrow> spawn_controller \<Rightarrow> spawn_result \<times> spawn_controller" where
  "queueRequest now q r c = (let q' = q\<lparr>sq_expires := Some (now + max_queue_wait_seconds (sp_config c) * 1000)\<rparr> in
     ((createResult Sp_Queue r q')\<lparr>sr_wait := Some 0\<rparr>, c\<lparr>sp_metrics := incrementSpawnQueued (sq_scope q) (sp_metrics c)\<rparr>))"

definition handleConcurrentLimitExceeded :: "time \<Rightarrow> spawn_request \<Rightarrow> spawn_controller \<Rightarrow> spawn_result \<times> spawn_controller" where
  "handleConcurrentLimitExceeded now q c = (if on_concurrent_limit_exceeded (tl_overflow (sp_config c)) = Over_Reject
     then (createResult Sp_Reject Sp_Concurrent q, c\<lparr>sp_metrics := incrementSpawnRejected (sq_scope q) Sp_Concurrent (sp_metrics c)\<rparr>)
     else queueRequest now q Sp_Concurrent c)"

definition handleRateLimitExceeded :: "time \<Rightarrow> spawn_request \<Rightarrow> spawn_controller \<Rightarrow> spawn_result \<times> spawn_controller" where
  "handleRateLimitExceeded now q c = (if on_rate_limit_exceeded (tl_overflow (sp_config c)) = Over_Reject
     then (createResult Sp_Reject Sp_Rate q, c\<lparr>sp_metrics := incrementSpawnRejected (sq_scope q) Sp_Rate (sp_metrics c)\<rparr>)
     else queueRequest now q Sp_Rate c)"

definition ask_scope :: "tree_limits \<Rightarrow> spawn_ask \<Rightarrow> spawn_scope" where
  "ask_scope c a = (case sa_scope a of Some s \<Rightarrow> s | None \<Rightarrow> tl_scope c)"

definition ask_key :: "tree_limits \<Rightarrow> spawn_ask \<Rightarrow> string" where
  "ask_key c a = buildScopeKey (ask_scope c a) (Some (sa_job a)) (sa_worker a)"

text \<open>The two versions of the file differ in the bucket only, so the evaluation takes the reading and the consumption of tokens as arguments.\<close>

definition evaluate_with :: "(tree_limits \<Rightarrow> time \<Rightarrow> string \<Rightarrow> scopes \<Rightarrow> real \<times> scopes) \<Rightarrow> (tree_limits \<Rightarrow> time \<Rightarrow> string \<Rightarrow> scopes \<Rightarrow> bool \<times> scopes) \<Rightarrow>
    time \<Rightarrow> spawn_ask \<Rightarrow> spawn_controller \<Rightarrow> spawn_result \<times> spawn_controller" where
  "evaluate_with remaining_of consume_of now a c = (let cfg = sp_config c; scope = ask_scope cfg a; k = ask_key cfg a;
       c = c\<lparr>sp_metrics := incrementSpawnAttempt scope (sp_metrics c)\<rparr>;
       activeCount = active_in k (sp_scopes c);
       (remaining, m) = remaining_of cfg now k (sp_scopes c);
       c = c\<lparr>sp_scopes := m\<rparr>;
       q = \<lparr>sq_id = sa_id a, sq_job = sa_job a, sq_agent = sa_agent a, sq_scope = scope, sq_at = now,
            sq_active = activeCount, sq_tokens = remaining, sq_expires = None\<rparr> in
     if \<not> tl_enabled cfg then (createResult Sp_Allow Sp_Disabled q, c)
     else if activeCount \<ge> max_concurrent_agents cfg then handleConcurrentLimitExceeded now q c
     else (let (ok, m) = consume_of cfg now k (sp_scopes c); c = c\<lparr>sp_scopes := m\<rparr> in
       if \<not> ok then handleRateLimitExceeded now q c
       else (let (n, m) = remaining_of cfg now k (sp_scopes c) in
         (createResult Sp_Allow Sp_Allowed q,
          c\<lparr>sp_scopes := m, sp_metrics := setRateTokensCurrent scope n (incrementSpawnAllowed scope (sp_metrics c))\<rparr>))))"

definition evaluateSpawn :: "time \<Rightarrow> spawn_ask \<Rightarrow> spawn_controller \<Rightarrow> spawn_result \<times> spawn_controller" where
  "evaluateSpawn = evaluate_with getRemainingTokens tryConsumeToken"

definition registerActiveAgent :: "time \<Rightarrow> spawn_scope \<Rightarrow> string \<Rightarrow> string option \<Rightarrow> string option \<Rightarrow> spawn_controller \<Rightarrow> spawn_controller" where
  "registerActiveAgent now sc agent job w c = (let k = buildScopeKey sc job w; m = registerAgent (sp_config c) now k agent (sp_scopes c) in
     c\<lparr>sp_scopes := m, sp_metrics := setActiveCount sc (active_in k m) (sp_metrics c)\<rparr>)"

definition unregisterAgent :: "spawn_scope \<Rightarrow> string \<Rightarrow> string option \<Rightarrow> string option \<Rightarrow> spawn_controller \<Rightarrow> spawn_controller" where
  "unregisterAgent sc agent job w c = (let k = buildScopeKey sc job w; m = unregister_in k agent (sp_scopes c) in
     c\<lparr>sp_scopes := m, sp_metrics := setActiveCount sc (active_in k m) (sp_metrics c)\<rparr>)"

definition getActiveAgentCount :: "spawn_scope \<Rightarrow> string option \<Rightarrow> string option \<Rightarrow> spawn_controller \<Rightarrow> int" where
  "getActiveAgentCount sc job w c = active_in (buildScopeKey sc job w) (sp_scopes c)"

definition getQueueLength :: "time \<Rightarrow> spawn_scope \<Rightarrow> string option \<Rightarrow> string option \<Rightarrow> spawn_controller \<Rightarrow> nat \<times> spawn_controller" where
  "getQueueLength now sc job w c = (let (q, m) = getQueue (sp_config c) now (buildScopeKey sc job w) (sp_scopes c) in (length q, c\<lparr>sp_scopes := m\<rparr>))"

definition validateAgentTreeLimits :: "tree_limits \<Rightarrow> string list" where
  "validateAgentTreeLimits c =
     (if max_concurrent_agents c < 1 then [''max_concurrent_agents must be >= 1''] else []) @
     (if window_seconds (tl_rate c) \<noteq> 60 then [''spawn_rate_limit.window_seconds must be 60''] else []) @
     (if max_spawns_per_window (tl_rate c) < 1 then [''spawn_rate_limit.max_spawns_per_window must be >= 1''] else []) @
     (if burst (tl_rate c) < 1 then [''spawn_rate_limit.burst must be >= 1''] else [])"

end
