(* ===== verification/Spawn_Limits.thy ===== *)
theory Spawn_Limits
  imports Agent_Spawn
begin

text \<open>
  What the limits on sub-agents promise. \<open>available\<close> abstracts a token bucket to a function of time; the decision of \<open>evaluateSpawn\<close> depends
  on it and on the number of active agents only. From it follow the bound on the spawns granted in any interval, and how far the limits do not reach.
\<close>

subsection \<open>Histories\<close>

datatype spawn_op = Op_Ask spawn_ask | Op_Register spawn_scope string "string option" "string option"
  | Op_Unregister spawn_scope string "string option" "string option" | Op_Length spawn_scope "string option" "string option"

fun spawn_step :: "time \<Rightarrow> spawn_op \<Rightarrow> spawn_controller \<Rightarrow> (string \<times> spawn_result) list \<times> spawn_controller" where
  "spawn_step now (Op_Ask a) c = (let (r, c') = evaluateSpawn now a c in ([(ask_key (sp_config c) a, r)], c'))"
| "spawn_step now (Op_Register sc a j w) c = ([], registerActiveAgent now sc a j w c)"
| "spawn_step now (Op_Unregister sc a j w) c = ([], unregisterAgent sc a j w c)"
| "spawn_step now (Op_Length sc j w) c = ([], snd (getQueueLength now sc j w c))"

fun spawn_run :: "(time \<times> spawn_op) list \<Rightarrow> spawn_controller \<Rightarrow> (string \<times> spawn_result) list \<times> spawn_controller" where
  "spawn_run [] c = ([], c)"
| "spawn_run ((now, op) # ops) c = (let (l, c') = spawn_step now op c; (l', c'') = spawn_run ops c' in (l @ l', c''))"

definition granted :: "string \<Rightarrow> (string \<times> spawn_result) list \<Rightarrow> nat" where
  "granted k l = length (filter (\<lambda>(k', r). k' = k \<and> sr_reason r = Sp_Allowed) l)"

lemma granted_simps [simp]:
  "granted k [] = 0" "granted k (l @ l') = granted k l + granted k l'"
  "granted k ((k', r) # l) = (if k' = k \<and> sr_reason r = Sp_Allowed then 1 else 0) + granted k l"
  by (auto simp: granted_def)

lemma spawn_run_append: "spawn_run (xs @ ys) c = (let (l, c') = spawn_run xs c; (l', c'') = spawn_run ys c' in (l @ l', c''))"
  by (induction xs arbitrary: c) (auto simp: Let_def split: prod.splits)

subsection \<open>Buckets as functions of time\<close>

definition available :: "tree_limits \<Rightarrow> time \<Rightarrow> string \<Rightarrow> scopes \<Rightarrow> real" where
  "available c t k m = (case map_get m k of None \<Rightarrow> of_int (burst (tl_rate c))
     | Some s \<Rightarrow> min (of_int (burst (tl_rate c))) (bk_tokens (sc_bucket s) + of_int (t - bk_refilled (sc_bucket s)) * tokens_per_ms c))"

definition scopes_ok :: "tree_limits \<Rightarrow> scopes \<Rightarrow> bool" where
  "scopes_ok c m = (\<forall>k s. map_get m k = Some s \<longrightarrow> bk_max (sc_bucket s) = of_int (burst (tl_rate c)) \<and> bk_rate (sc_bucket s) = tokens_per_ms c
     \<and> sc_queue s = [])"

definition limits_ok :: "tree_limits \<Rightarrow> bool" where
  "limits_ok c = (0 < window_seconds (tl_rate c) \<and> 0 \<le> max_spawns_per_window (tl_rate c) \<and> 0 \<le> burst (tl_rate c))"

lemma rate_nonneg: "limits_ok c \<Longrightarrow> 0 \<le> tokens_per_ms c"
  by (simp add: limits_ok_def tokens_per_ms_def)

lemma available_le_burst: "available c t k m \<le> of_int (burst (tl_rate c))"
  by (simp add: available_def split: option.splits)

lemma min_refill: "0 \<le> d \<Longrightarrow> min B (min B x + d) = min B (x + (d::real))"
  by (simp add: min_def)

lemma available_later:
  assumes "limits_ok c" "t \<le> t'"
  shows "available c t' k m = min (of_int (burst (tl_rate c))) (available c t k m + of_int (t' - t) * tokens_per_ms c)"
proof -
  have d: "0 \<le> of_int (t' - t) * tokens_per_ms c" using assms rate_nonneg by simp
  have e: "of_int (t' - r) * tokens_per_ms c = of_int (t - r) * tokens_per_ms c + of_int (t' - t) * tokens_per_ms c" for r
    by (simp add: algebra_simps)
  show ?thesis
  proof (cases "map_get m k")
    case None
    then show ?thesis using d by (simp add: available_def)
  next
    case (Some s)
    show ?thesis using min_refill [OF d, of "of_int (burst (tl_rate c))" "bk_tokens (sc_bucket s) + of_int (t - bk_refilled (sc_bucket s)) * tokens_per_ms c"]
      by (simp only: available_def Some option.case e [of "bk_refilled (sc_bucket s)"] add.assoc)
  qed
qed

lemma getScopeState_facts:
  assumes "limits_ok c" "scopes_ok c m" "getScopeState c now k m = (s, m')"
  shows "map_get m' k = Some s" "scopes_ok c m'" "sc_queue s = []"
    "now \<le> t \<Longrightarrow> available c t j m' = available c t j m" "active_in j m' = active_in j m"
proof -
  have "map_get m' k = Some s \<and> scopes_ok c m' \<and> sc_queue s = [] \<and> (now \<le> t \<longrightarrow> available c t j m' = available c t j m) \<and> active_in j m' = active_in j m"
  proof (cases "map_get m k")
    case None
    then have s: "s = new_scope c now" "m' = map_set m k (new_scope c now)" using assms(3) by (auto simp: getScopeState_def)
    have "now \<le> t \<Longrightarrow> 0 \<le> of_int (t - now) * tokens_per_ms c" using rate_nonneg [OF assms(1)] by simp
    then show ?thesis using assms(2) None
      by (simp add: s new_scope_def new_bucket_def scopes_ok_def available_def active_in_def jm.lookup_store)
  next
    case (Some s')
    then show ?thesis using assms(2,3) by (simp add: getScopeState_def scopes_ok_def)
  qed
  then show "map_get m' k = Some s" "scopes_ok c m'" "sc_queue s = []"
    "now \<le> t \<Longrightarrow> available c t j m' = available c t j m" "active_in j m' = active_in j m" by blast+
qed

lemma bucket_update_facts:
  assumes "scopes_ok c m" "map_get m k = Some s" "bk_max b = of_int (burst (tl_rate c))" "bk_rate b = tokens_per_ms c"
  shows "scopes_ok c (map_set m k (s\<lparr>sc_bucket := b\<rparr>))" "active_in j (map_set m k (s\<lparr>sc_bucket := b\<rparr>)) = active_in j m"
    "available c t j (map_set m k (s\<lparr>sc_bucket := b\<rparr>)) = (if j = k then min (of_int (burst (tl_rate c)))
       (bk_tokens b + of_int (t - bk_refilled b) * tokens_per_ms c) else available c t j m)"
  using assms by (auto simp: scopes_ok_def active_in_def available_def jm.lookup_store split: option.splits)

lemma refilled_tokens:
  assumes "scopes_ok c m" "map_get m k = Some s"
  shows "bk_tokens (refill now (sc_bucket s)) = available c now k m" "bk_max (refill now (sc_bucket s)) = of_int (burst (tl_rate c))"
    "bk_rate (refill now (sc_bucket s)) = tokens_per_ms c" "bk_refilled (refill now (sc_bucket s)) = now"
  using assms by (auto simp: scopes_ok_def available_def refill_def Let_def)

lemma getRemainingTokens_facts:
  assumes "limits_ok c" "scopes_ok c m" "getRemainingTokens c now k m = (n, m')"
  shows "n = available c now k m" "scopes_ok c m'" "now \<le> t \<Longrightarrow> available c t j m' = available c t j m" "active_in j m' = active_in j m"
proof -
  obtain s m1 where g: "getScopeState c now k m = (s, m1)" by fastforce
  note f = getScopeState_facts [OF assms(1,2) g]
  note u = refilled_tokens [OF f(2) f(1), of now]
  have m': "m' = map_set m1 k (s\<lparr>sc_bucket := refill now (sc_bucket s)\<rparr>)" and n: "n = bk_tokens (refill now (sc_bucket s))"
    using assms(3) g by (auto simp: getRemainingTokens_def getTokens_def Let_def)
  note b = bucket_update_facts [OF f(2) f(1) u(2) u(3)]
  show "n = available c now k m" using n u(1) f(4) [of now] by simp
  show "scopes_ok c m'" "active_in j m' = active_in j m" using b f(5) m' by simp_all
  assume t: "now \<le> t"
  show "available c t j m' = available c t j m"
    using t f(4) [OF t] available_later [OF assms(1) t, of k m1] by (simp add: m' b(3) u)
qed

lemma tryConsumeToken_facts:
  assumes "limits_ok c" "scopes_ok c m" "tryConsumeToken c now k m = (ok, m')"
  shows "ok \<longleftrightarrow> 1 \<le> available c now k m" "scopes_ok c m'" "active_in j m' = active_in j m"
    "now \<le> t \<Longrightarrow> available c t j m' = (if j = k \<and> ok then min (of_int (burst (tl_rate c)))
       (available c now k m - 1 + of_int (t - now) * tokens_per_ms c) else available c t j m)"
proof -
  obtain s m1 where g: "getScopeState c now k m = (s, m1)" by fastforce
  note f = getScopeState_facts [OF assms(1,2) g]
  note u = refilled_tokens [OF f(2) f(1), of now]
  let ?b = "refill now (sc_bucket s)"
  define b where "b = (if bk_tokens ?b \<ge> 1 then ?b\<lparr>bk_tokens := bk_tokens ?b - 1\<rparr> else ?b)"
  have m': "m' = map_set m1 k (s\<lparr>sc_bucket := b\<rparr>)" and ok: "ok \<longleftrightarrow> bk_tokens ?b \<ge> 1"
    using assms(3) g by (auto simp: tryConsumeToken_def consume_def Let_def b_def split: if_splits)
  have bb: "bk_max b = of_int (burst (tl_rate c))" "bk_rate b = tokens_per_ms c" "bk_refilled b = now"
    "bk_tokens b = (if ok then available c now k m - 1 else available c now k m)"
    using u f(4) [of now] ok by (auto simp: b_def)
  note w = bucket_update_facts [OF f(2) f(1) bb(1,2)]
  show "ok \<longleftrightarrow> 1 \<le> available c now k m" using ok u(1) f(4) [of now] by simp
  show "scopes_ok c m'" "active_in j m' = active_in j m" using w f(5) m' by simp_all
  assume t: "now \<le> t"
  show "available c t j m' = (if j = k \<and> ok then min (of_int (burst (tl_rate c)))
      (available c now k m - 1 + of_int (t - now) * tokens_per_ms c) else available c t j m)"
    using t f(4) [OF t] available_later [OF assms(1) t, of k m] by (simp add: m' w(3) bb)
qed

subsection \<open>One request\<close>

definition spawn_verdict :: "tree_limits \<Rightarrow> real \<Rightarrow> int \<Rightarrow> spawn_reason" where
  "spawn_verdict c tokens n = (if \<not> tl_enabled c then Sp_Disabled else if max_concurrent_agents c \<le> n then Sp_Concurrent
     else if tokens < 1 then Sp_Rate else Sp_Allowed)"

lemma limit_handlers [simp]:
  "sr_reason (fst (handleConcurrentLimitExceeded now q c)) = Sp_Concurrent" "sr_reason (fst (handleRateLimitExceeded now q c)) = Sp_Rate"
  "sp_config (snd (handleConcurrentLimitExceeded now q c)) = sp_config c" "sp_config (snd (handleRateLimitExceeded now q c)) = sp_config c"
  "sp_scopes (snd (handleConcurrentLimitExceeded now q c)) = sp_scopes c" "sp_scopes (snd (handleRateLimitExceeded now q c)) = sp_scopes c"
  by (auto simp: handleConcurrentLimitExceeded_def handleRateLimitExceeded_def queueRequest_def createResult_def Let_def)

lemma evaluateSpawn_facts:
  assumes l: "limits_ok (sp_config c)" and s: "scopes_ok (sp_config c) (sp_scopes c)" and e: "evaluateSpawn now a c = (r, c')"
  defines "cfg \<equiv> sp_config c" and "k \<equiv> ask_key (sp_config c) a"
  shows "sr_reason r = spawn_verdict cfg (available cfg now k (sp_scopes c)) (active_in k (sp_scopes c))"
    "sp_config c' = cfg" "scopes_ok cfg (sp_scopes c')" "active_in j (sp_scopes c') = active_in j (sp_scopes c)"
    "now \<le> t \<Longrightarrow> available cfg t j (sp_scopes c') = (if j = k \<and> sr_reason r = Sp_Allowed
       then min (of_int (burst (tl_rate cfg))) (available cfg now k (sp_scopes c) - 1 + of_int (t - now) * tokens_per_ms cfg)
       else available cfg t j (sp_scopes c))"
proof -
  obtain n m1 where g1: "getRemainingTokens cfg now k (sp_scopes c) = (n, m1)" by fastforce
  obtain ok m2 where g2: "tryConsumeToken cfg now k m1 = (ok, m2)" by fastforce
  obtain n3 m3 where g3: "getRemainingTokens cfg now k m2 = (n3, m3)" by fastforce
  note f1 = getRemainingTokens_facts [OF l s g1 [unfolded cfg_def], folded cfg_def]
  note f2 = tryConsumeToken_facts [OF l [folded cfg_def] f1(2) g2]
  note f3 = getRemainingTokens_facts [OF l [folded cfg_def] f2(2) g3]
  have kk: "ask_key cfg a = k" by (simp add: k_def cfg_def)
  note e' = e [unfolded evaluateSpawn_def evaluate_with_def, folded cfg_def, unfolded Let_def kk]
  have cc: "sp_config c = cfg" by (simp add: cfg_def)
  have av: "available cfg now k m1 = available cfg now k (sp_scopes c)" "ok \<longleftrightarrow> 1 \<le> available cfg now k (sp_scopes c)"
    using f1(3) [of now k] f2(1) by simp_all
  note hs = limit_handlers [of now]
  consider (off) "\<not> tl_enabled cfg" | (full) "tl_enabled cfg" "max_concurrent_agents cfg \<le> active_in k (sp_scopes c)"
    | (rate) "tl_enabled cfg" "\<not> max_concurrent_agents cfg \<le> active_in k (sp_scopes c)" "\<not> ok"
    | (go) "tl_enabled cfg" "\<not> max_concurrent_agents cfg \<le> active_in k (sp_scopes c)" "ok" by blast
  then have "sr_reason r = spawn_verdict cfg (available cfg now k (sp_scopes c)) (active_in k (sp_scopes c)) \<and> sp_config c' = cfg \<and>
      sp_scopes c' = (if tl_enabled cfg \<and> active_in k (sp_scopes c) < max_concurrent_agents cfg then if ok then m3 else m2 else m1)"
  proof cases
    case off
    then show ?thesis using e' by (auto simp: spawn_verdict_def createResult_def cc g1 kk)
  next
    case full
    then obtain q d where "handleConcurrentLimitExceeded now q d = (r, c')" "sp_config d = cfg" "sp_scopes d = m1" using e' by (auto simp: cc g1 kk)
    then show ?thesis using full hs(1,3,5) [of q d] by (simp add: spawn_verdict_def)
  next
    case rate
    then obtain q d where "handleRateLimitExceeded now q d = (r, c')" "sp_config d = cfg" "sp_scopes d = m2" using e' by (auto simp: cc g1 g2 kk)
    then show ?thesis using rate av hs(2,4,6) [of q d] by (simp add: spawn_verdict_def)
  next
    case go
    then show ?thesis using e' av by (auto simp: spawn_verdict_def createResult_def cc g1 g2 g3 kk)
  qed
  note h = this [THEN conjunct1] this [THEN conjunct2, THEN conjunct1] this [THEN conjunct2, THEN conjunct2]
  show "sr_reason r = spawn_verdict cfg (available cfg now k (sp_scopes c)) (active_in k (sp_scopes c))" "sp_config c' = cfg" by (fact h)+
  show "scopes_ok cfg (sp_scopes c')" "active_in j (sp_scopes c') = active_in j (sp_scopes c)"
    using h(3) f1(2,4) f2(2,3) f3(2,4) by simp_all
  assume t: "now \<le> t"
  show "available cfg t j (sp_scopes c') = (if j = k \<and> sr_reason r = Sp_Allowed
       then min (of_int (burst (tl_rate cfg))) (available cfg now k (sp_scopes c) - 1 + of_int (t - now) * tokens_per_ms cfg)
       else available cfg t j (sp_scopes c))"
    using h(1,3) f1(3) [OF t, of j] f1(3) [of now k] f2(1) f2(4) [OF t, of j] f3(3) [OF t, of j]
    by (auto simp: spawn_verdict_def)
qed

subsection \<open>The rate\<close>

lemma agents_update_facts:
  assumes "limits_ok c" "scopes_ok c m" "map_get m k = Some s"
  shows "scopes_ok c (map_set m k (s\<lparr>sc_agents := as\<rparr>))" "available c t j (map_set m k (s\<lparr>sc_agents := as\<rparr>)) = available c t j m"
  using assms by (auto simp: scopes_ok_def available_def jm.lookup_store)

lemma registerAgent_facts:
  assumes "limits_ok c" "scopes_ok c m"
  shows "scopes_ok c (registerAgent c now k a m)" "now \<le> t \<Longrightarrow> available c t j (registerAgent c now k a m) = available c t j m"
proof -
  obtain s m1 where g: "getScopeState c now k m = (s, m1)" by fastforce
  note f = getScopeState_facts [OF assms g]
  show "scopes_ok c (registerAgent c now k a m)" "now \<le> t \<Longrightarrow> available c t j (registerAgent c now k a m) = available c t j m"
    using agents_update_facts [OF assms(1) f(2,1)] f(4) by (simp_all add: registerAgent_def g)
qed

lemma unregister_facts:
  assumes "limits_ok c" "scopes_ok c m"
  shows "scopes_ok c (unregister_in k a m)" "available c t j (unregister_in k a m) = available c t j m"
  using agents_update_facts [OF assms, of k] assms(2) by (auto simp: unregister_in_def split: option.splits)

lemma spawn_step_facts:
  assumes "limits_ok (sp_config c)" "scopes_ok (sp_config c) (sp_scopes c)" "spawn_step now op c = (l, c')"
  shows "sp_config c' = sp_config c" "scopes_ok (sp_config c) (sp_scopes c')"
    "now \<le> t \<Longrightarrow> available (sp_config c) t k (sp_scopes c') + granted k l \<le> available (sp_config c) now k (sp_scopes c) + of_int (t - now) * tokens_per_ms (sp_config c)"
    "now \<le> t \<Longrightarrow> 0 \<le> available (sp_config c) now k (sp_scopes c) \<Longrightarrow> 0 \<le> available (sp_config c) t k (sp_scopes c')"
proof -
  let ?g = "sp_config c"
  note lt = available_later [OF assms(1)]
  have b: "0 \<le> real_of_int (burst (tl_rate ?g))" using assms(1) by (simp add: limits_ok_def)
  have step: "sp_config c' = ?g \<and> scopes_ok ?g (sp_scopes c') \<and> (now \<le> t \<longrightarrow>
      available ?g t k (sp_scopes c') + granted k l \<le> available ?g now k (sp_scopes c) + of_int (t - now) * tokens_per_ms ?g \<and>
      (0 \<le> available ?g now k (sp_scopes c) \<longrightarrow> 0 \<le> available ?g t k (sp_scopes c')))"
  proof (cases op)
    case (Op_Ask a)
    then obtain r where e: "evaluateSpawn now a c = (r, c')" and l: "l = [(ask_key ?g a, r)]"
      using assms(3) by (auto split: prod.splits)
    note f = evaluateSpawn_facts [OF assms(1,2) e]
    have v: "sr_reason r = Sp_Allowed \<Longrightarrow> 1 \<le> available ?g now (ask_key ?g a) (sp_scopes c)"
      using f(1) by (auto simp: spawn_verdict_def split: if_splits)
    have d: "now \<le> t \<Longrightarrow> 0 \<le> of_int (t - now) * tokens_per_ms ?g" using rate_nonneg [OF assms(1)] by simp
    show ?thesis using f(2,3) f(5) [of t k] lt [of now t k "sp_scopes c"] v d b by (auto simp: l)
  next
    case (Op_Register sc a j w)
    then show ?thesis using assms registerAgent_facts [OF assms(1,2)] lt [of now t k "sp_scopes c"] b rate_nonneg [OF assms(1)]
      by (auto simp: registerActiveAgent_def Let_def)
  next
    case (Op_Unregister sc a j w)
    then show ?thesis using assms unregister_facts [OF assms(1,2)] lt [of now t k "sp_scopes c"] b rate_nonneg [OF assms(1)]
      by (auto simp: unregisterAgent_def Let_def)
  next
    case (Op_Length sc j w)
    obtain s m1 where g: "getScopeState ?g now (buildScopeKey sc j w) (sp_scopes c) = (s, m1)" by fastforce
    show ?thesis using assms Op_Length getScopeState_facts [OF assms(1,2) g] lt [of now t k "sp_scopes c"] b rate_nonneg [OF assms(1)]
      by (auto simp: getQueueLength_def getQueue_def g)
  qed
  then show "sp_config c' = ?g" "scopes_ok ?g (sp_scopes c')"
    "now \<le> t \<Longrightarrow> available ?g t k (sp_scopes c') + granted k l \<le> available ?g now k (sp_scopes c) + of_int (t - now) * tokens_per_ms ?g"
    "now \<le> t \<Longrightarrow> 0 \<le> available ?g now k (sp_scopes c) \<Longrightarrow> 0 \<le> available ?g t k (sp_scopes c')" by blast+
qed

lemma spawn_run_facts:
  assumes "limits_ok (sp_config c)" "scopes_ok (sp_config c) (sp_scopes c)" "spawn_run ops c = (l, c')" "sorted (map fst ops)"
    "\<forall>x \<in> set ops. t0 \<le> fst x \<and> fst x \<le> t" "t0 \<le> t"
  shows "sp_config c' = sp_config c \<and> scopes_ok (sp_config c) (sp_scopes c') \<and>
    available (sp_config c) t k (sp_scopes c') + granted k l \<le> available (sp_config c) t0 k (sp_scopes c) + of_int (t - t0) * tokens_per_ms (sp_config c) \<and>
    (0 \<le> available (sp_config c) t0 k (sp_scopes c) \<longrightarrow> 0 \<le> available (sp_config c) t k (sp_scopes c'))"
  using assms
proof (induction ops arbitrary: c l t0)
  case Nil
  have "0 \<le> of_int (t - t0) * tokens_per_ms (sp_config c)" using Nil rate_nonneg by simp
  then show ?case using Nil available_later [of "sp_config c" t0 t k "sp_scopes c"] by (auto simp: limits_ok_def)
next
  case (Cons x ops)
  obtain now op where x: "x = (now, op)" by fastforce
  obtain l1 c1 where s: "spawn_step now op c = (l1, c1)" by fastforce
  obtain l2 where r: "spawn_run ops c1 = (l2, c')" and l: "l = l1 @ l2" using Cons.prems(3) by (auto simp: x s split: prod.splits)
  note f = spawn_step_facts [OF Cons.prems(1,2) s]
  have n: "t0 \<le> now" "now \<le> t" using Cons.prems(5) by (auto simp: x)
  have ih: "sp_config c' = sp_config c1 \<and> scopes_ok (sp_config c1) (sp_scopes c') \<and>
    available (sp_config c1) t k (sp_scopes c') + granted k l2 \<le> available (sp_config c1) now k (sp_scopes c1) + of_int (t - now) * tokens_per_ms (sp_config c1) \<and>
    (0 \<le> available (sp_config c1) now k (sp_scopes c1) \<longrightarrow> 0 \<le> available (sp_config c1) t k (sp_scopes c'))"
    using Cons.prems n by (intro Cons.IH [OF _ _ r]) (auto simp: f(1,2) x)
  have g: "available (sp_config c) now k (sp_scopes c) = min (of_int (burst (tl_rate (sp_config c))))
      (available (sp_config c) t0 k (sp_scopes c) + of_int (now - t0) * tokens_per_ms (sp_config c))"
    by (rule available_later [OF Cons.prems(1) n(1)])
  have sum: "of_int (t - t0) * tokens_per_ms (sp_config c) = of_int (now - t0) * tokens_per_ms (sp_config c) + of_int (t - now) * tokens_per_ms (sp_config c)"
    by (simp add: algebra_simps)
  have nn: "0 \<le> of_int (now - t0) * tokens_per_ms (sp_config c)" "0 \<le> real_of_int (burst (tl_rate (sp_config c)))"
    using n rate_nonneg [OF Cons.prems(1)] Cons.prems(1) by (simp_all add: limits_ok_def)
  show ?case using ih f(1,2) f(3) [of now k] f(4) [of now k] g sum nn by (auto simp: l)
qed

lemma new_controller_ok: "scopes_ok c (sp_scopes (new_controller c))" "sp_config (new_controller c) = c"
  "available c t k (sp_scopes (new_controller c)) = of_int (burst (tl_rate c))"
  by (simp_all add: new_controller_def scopes_ok_def available_def)

text \<open>C18. Whatever happened before, the spawns granted to a scope between two instants are at most the burst and what flows into the bucket in between.\<close>

theorem spawn_rate_bounded:
  assumes "limits_ok cfg" "sorted (map fst (before @ ops))" "ops \<noteq> []"
  shows "real (granted k (fst (spawn_run ops (snd (spawn_run before (new_controller cfg)))))) \<le>
    of_int (burst (tl_rate cfg)) + of_int (max_spawns_per_window (tl_rate cfg)) * of_int (fst (last ops) - fst (hd ops)) / (of_int (window_seconds (tl_rate cfg)) * 1000)"
proof -
  obtain l1 c1 where r1: "spawn_run before (new_controller cfg) = (l1, c1)" by fastforce
  obtain l2 c2 where r2: "spawn_run ops c1 = (l2, c2)" by fastforce
  let ?a = "fst (hd ops)" and ?b = "fst (last ops)"
  let ?t0 = "if before = [] then ?a else fst (hd before)"
  have so: "sorted (map fst before)" "sorted (map fst ops)" "\<And>x y. x \<in> set before \<Longrightarrow> y \<in> set ops \<Longrightarrow> fst x \<le> fst y"
    using assms(2) by (auto simp: sorted_append)
  have ends: "\<forall>x \<in> set xs. fst (hd xs) \<le> fst x \<and> fst x \<le> fst (last xs)" if "sorted (map fst xs)" for xs :: "(time \<times> spawn_op) list"
    using that by (induction xs) (auto split: if_splits)
  have t0: "?t0 \<le> ?a" "\<forall>x \<in> set before. ?t0 \<le> fst x \<and> fst x \<le> ?a"
    using so(3) [of _ "hd ops"] ends [OF so(1)] assms(3) by (auto simp: hd_in_set)
  note n = new_controller_ok [of cfg]
  have p: "sp_config c1 = cfg \<and> scopes_ok cfg (sp_scopes c1) \<and> 0 \<le> available cfg ?a k (sp_scopes c1)"
    using spawn_run_facts [OF _ _ r1 so(1) t0(2) t0(1), of k] assms(1) n by (auto simp: limits_ok_def)
  have "?a \<le> ?b" using ends [OF so(2)] assms(3) by (auto simp: last_in_set)
  then have "available cfg ?b k (sp_scopes c2) + granted k l2 \<le> available cfg ?a k (sp_scopes c1) + of_int (?b - ?a) * tokens_per_ms cfg \<and>
      0 \<le> available cfg ?b k (sp_scopes c2)"
    using spawn_run_facts [OF _ _ r2 so(2) ends [OF so(2)], of k] p assms(1) by auto
  moreover have "of_int (?b - ?a) * tokens_per_ms cfg = of_int (max_spawns_per_window (tl_rate cfg)) * of_int (?b - ?a) / (of_int (window_seconds (tl_rate cfg)) * 1000)"
    by (simp add: tokens_per_ms_def)
  ultimately show ?thesis using available_le_burst [of cfg ?a k "sp_scopes c1"] by (simp add: r1 r2)
qed

definition ask_in :: "string \<Rightarrow> spawn_ask" where
  "ask_in j = \<lparr>sa_id = ''request'', sa_job = j, sa_agent = ''agent'', sa_worker = None, sa_scope = None\<rparr>"

lemma spawn_rate_bounded_witness:
  "real (granted ''job:j'' (fst (spawn_run [(60000, Op_Ask (ask_in ''j''))] (snd (spawn_run [(0, Op_Ask (ask_in ''j''))] (new_controller DEFAULT_AGENT_TREE_LIMITS)))))) \<le> 150"
  using spawn_rate_bounded [of DEFAULT_AGENT_TREE_LIMITS "[(0, Op_Ask (ask_in ''j''))]" "[(60000, Op_Ask (ask_in ''j''))]" "''job:j''"]
  by (simp add: limits_ok_def DEFAULT_AGENT_TREE_LIMITS_def)

subsection \<open>Where the limits do not reach\<close>

lemma ask_granted:
  assumes "limits_ok (sp_config c)" "scopes_ok (sp_config c) (sp_scopes c)" "tl_enabled (sp_config c)" "k = ask_key (sp_config c) a"
    "active_in k (sp_scopes c) < max_concurrent_agents (sp_config c)" "1 \<le> available (sp_config c) now k (sp_scopes c)"
  obtains r c' where "spawn_step now (Op_Ask a) c = ([(k, r)], c')" "sr_reason r = Sp_Allowed" "sp_config c' = sp_config c"
    "scopes_ok (sp_config c) (sp_scopes c')" "active_in k (sp_scopes c') = active_in k (sp_scopes c)"
    "\<And>t. now \<le> t \<Longrightarrow> available (sp_config c) t k (sp_scopes c') = min (of_int (burst (tl_rate (sp_config c))))
       (available (sp_config c) now k (sp_scopes c) - 1 + of_int (t - now) * tokens_per_ms (sp_config c))"
proof -
  obtain r c' where e: "evaluateSpawn now a c = (r, c')" by fastforce
  note f = evaluateSpawn_facts [OF assms(1,2) e]
  have "sr_reason r = Sp_Allowed" using f(1) assms by (simp add: spawn_verdict_def)
  then show ?thesis using that [of r c'] e f(2,3,4) f(5) [of _ k] assms(4) by simp
qed

lemma asks_granted_at_once:
  assumes "limits_ok (sp_config c)" "scopes_ok (sp_config c) (sp_scopes c)" "tl_enabled (sp_config c)" "k = ask_key (sp_config c) a"
    "active_in k (sp_scopes c) < max_concurrent_agents (sp_config c)" "real n \<le> available (sp_config c) now k (sp_scopes c)"
    "spawn_run (replicate n (now, Op_Ask a)) c = (l, c')"
  shows "granted k l = n \<and> sp_config c' = sp_config c \<and> scopes_ok (sp_config c) (sp_scopes c') \<and>
    active_in k (sp_scopes c') = active_in k (sp_scopes c) \<and> available (sp_config c) now k (sp_scopes c') = available (sp_config c) now k (sp_scopes c) - n"
  using assms
proof (induction n arbitrary: c l)
  case 0
  then show ?case by simp
next
  case (Suc n)
  obtain r c1 where s: "spawn_step now (Op_Ask a) c = ([(k, r)], c1)" "sr_reason r = Sp_Allowed" "sp_config c1 = sp_config c"
    "scopes_ok (sp_config c) (sp_scopes c1)" "active_in k (sp_scopes c1) = active_in k (sp_scopes c)"
    "\<And>t. now \<le> t \<Longrightarrow> available (sp_config c) t k (sp_scopes c1) = min (of_int (burst (tl_rate (sp_config c))))
       (available (sp_config c) now k (sp_scopes c) - 1 + of_int (t - now) * tokens_per_ms (sp_config c))"
    by (rule ask_granted [OF Suc.prems(1-5), of now]) (use Suc.prems(6) in simp, rule that, assumption+)
  obtain l2 where r2: "spawn_run (replicate n (now, Op_Ask a)) c1 = (l2, c')" and l: "l = (k, r) # l2"
    using Suc.prems(7) by (auto simp del: spawn_step.simps simp: s(1) split: prod.splits)
  have av: "available (sp_config c) now k (sp_scopes c1) = available (sp_config c) now k (sp_scopes c) - 1"
    using s(6) [of now] available_le_burst [of "sp_config c" now k "sp_scopes c"] by simp
  show ?case using Suc.IH [OF _ _ _ _ _ _ r2] Suc.prems s av by (simp add: l)
qed

lemma asks_granted_in_turn:
  assumes "limits_ok (sp_config c)" "scopes_ok (sp_config c) (sp_scopes c)" "tl_enabled (sp_config c)" "k = ask_key (sp_config c) a"
    "active_in k (sp_scopes c) < max_concurrent_agents (sp_config c)" "0 \<le> d" "of_int d * tokens_per_ms (sp_config c) = 1" "1 \<le> burst (tl_rate (sp_config c))"
    "0 \<le> available (sp_config c) t k (sp_scopes c)" "spawn_run (map (\<lambda>i. (t + d * int (Suc i), Op_Ask a)) [0..<n]) c = (l, c')"
  shows "granted k l = n"
  using assms
proof (induction n arbitrary: c l t)
  case 0
  then show ?case by simp
next
  case (Suc n)
  have h: "[0..<Suc n] = 0 # map Suc [0..<n]" by (metis map_Suc_upt upt_conv_Cons zero_less_Suc)
  have ops: "map (\<lambda>i. (t + d * int (Suc i), Op_Ask a)) [0..<Suc n] = (t + d, Op_Ask a) # map (\<lambda>i. ((t + d) + d * int (Suc i), Op_Ask a)) [0..<n]"
    by (simp only: h list.map) (simp add: comp_def algebra_simps)
  have av: "1 \<le> available (sp_config c) (t + d) k (sp_scopes c)"
    using available_later [OF Suc.prems(1), of t "t + d" k "sp_scopes c"] Suc.prems(6-9) by simp
  obtain r c1 where s: "spawn_step (t + d) (Op_Ask a) c = ([(k, r)], c1)" "sr_reason r = Sp_Allowed" "sp_config c1 = sp_config c"
    "scopes_ok (sp_config c) (sp_scopes c1)" "active_in k (sp_scopes c1) = active_in k (sp_scopes c)"
    "\<And>t'. t + d \<le> t' \<Longrightarrow> available (sp_config c) t' k (sp_scopes c1) = min (of_int (burst (tl_rate (sp_config c))))
       (available (sp_config c) (t + d) k (sp_scopes c) - 1 + of_int (t' - (t + d)) * tokens_per_ms (sp_config c))"
    by (rule ask_granted [OF Suc.prems(1-5) av]) (rule that, assumption+)
  obtain l2 where r2: "spawn_run (map (\<lambda>i. ((t + d) + d * int (Suc i), Op_Ask a)) [0..<n]) c1 = (l2, c')" and l: "l = (k, r) # l2"
    using Suc.prems(10) unfolding ops by (auto simp del: spawn_step.simps simp: s(1) split: prod.splits)
  have "granted k l2 = n"
    using Suc.prems s(3-5) s(6) [of "t + d"] av by (intro Suc.IH [OF _ _ _ _ _ _ _ _ _ r2]) simp_all
  then show ?case using s(2) by (simp add: l)
qed

text \<open>The default limit of 150 spawns per 60 seconds lets 299 through in less than 60 seconds: a full bucket, and what flows in.\<close>

theorem window_limit_exceeded:
  "granted ''job:j'' (fst (spawn_run (replicate 150 (0, Op_Ask (ask_in ''j'')) @ map (\<lambda>i. (0 + 400 * int (Suc i), Op_Ask (ask_in ''j''))) [0..<149])
     (new_controller DEFAULT_AGENT_TREE_LIMITS))) = 299"
proof -
  let ?c = "new_controller DEFAULT_AGENT_TREE_LIMITS" and ?k = "''job:j''" and ?D = DEFAULT_AGENT_TREE_LIMITS
  obtain l1 c1 where r1: "spawn_run (replicate 150 (0, Op_Ask (ask_in ''j''))) ?c = (l1, c1)" by (rule prod.exhaust)
  obtain l2 c2 where r2: "spawn_run (map (\<lambda>i. (0 + 400 * int (Suc i), Op_Ask (ask_in ''j''))) [0..<149]) c1 = (l2, c2)" by (rule prod.exhaust)
  have D: "limits_ok ?D" "tl_enabled ?D" "ask_key ?D (ask_in ''j'') = ?k" "burst (tl_rate ?D) = 150" "tokens_per_ms ?D = 1 / 400" "max_concurrent_agents ?D = 300"
    by (simp_all add: limits_ok_def DEFAULT_AGENT_TREE_LIMITS_def ask_key_def ask_scope_def ask_in_def buildScopeKey_def tokens_per_ms_def)
  have a0: "active_in ?k (sp_scopes ?c) = 0" by (simp add: active_in_def new_controller_def)
  have f: "granted ?k l1 = 150 \<and> sp_config c1 = ?D \<and> scopes_ok ?D (sp_scopes c1) \<and> active_in ?k (sp_scopes c1) = 0 \<and> available ?D 0 ?k (sp_scopes c1) = 0"
    using asks_granted_at_once [OF _ _ _ _ _ _ r1, of ?k] by (simp only: D new_controller_ok a0) (simp add: a0)
  have "granted ?k l2 = 149"
    using f D by (intro asks_granted_in_turn [OF _ _ _ _ _ _ _ _ _ r2]) simp_all
  then show ?thesis using f by (simp only: spawn_run_append r1 r2 prod.case fst_conv granted_simps Let_def)
qed

text \<open>An approved spawn is not counted until it is registered: as long as one place is free, every request is approved that finds a token.\<close>

theorem approvals_reserve_nothing:
  assumes "limits_ok cfg" "tl_enabled cfg" "c = snd (spawn_run before (new_controller cfg))" "sorted (map fst before)" "\<forall>x \<in> set before. t0 \<le> fst x \<and> fst x \<le> now" "t0 \<le> now"
    "active_in (ask_key cfg a) (sp_scopes c) < max_concurrent_agents cfg" "real n \<le> available cfg now (ask_key cfg a) (sp_scopes c)"
  shows "granted (ask_key cfg a) (fst (spawn_run (replicate n (now, Op_Ask a)) c)) = n"
proof -
  obtain l1 where r1: "spawn_run before (new_controller cfg) = (l1, c)" using assms(3) by (cases "spawn_run before (new_controller cfg)") simp
  obtain l2 c2 where r2: "spawn_run (replicate n (now, Op_Ask a)) c = (l2, c2)" by fastforce
  have "sp_config c = cfg \<and> scopes_ok cfg (sp_scopes c)"
    using spawn_run_facts [OF _ _ r1 assms(4-6)] assms(1) new_controller_ok [of cfg] by simp
  then show ?thesis using asks_granted_at_once [OF _ _ _ _ _ _ r2, of "ask_key cfg a"] assms(1,2,7,8) by (simp add: r2)
qed

lemma approvals_reserve_nothing_witness:
  "granted (ask_key (DEFAULT_AGENT_TREE_LIMITS\<lparr>max_concurrent_agents := 1\<rparr>) (ask_in ''j''))
     (fst (spawn_run (replicate 100 (0, Op_Ask (ask_in ''j''))) (snd (spawn_run [] (new_controller (DEFAULT_AGENT_TREE_LIMITS\<lparr>max_concurrent_agents := 1\<rparr>)))))) = 100"
  by (rule approvals_reserve_nothing [OF _ _ refl, of _ "[]" 0 0])
    (simp_all add: limits_ok_def DEFAULT_AGENT_TREE_LIMITS_def active_in_def new_controller_def available_def)

text \<open>A request that is answered with \<open>queue\<close> is kept nowhere.\<close>

theorem queued_request_forgotten:
  assumes "limits_ok cfg"
  shows "fst (getQueueLength now sc j w (snd (spawn_run ops (new_controller cfg)))) = 0"
proof -
  have "limits_ok (sp_config c) \<Longrightarrow> scopes_ok (sp_config c) (sp_scopes c) \<Longrightarrow> fst (getQueueLength now sc j w (snd (spawn_run ops c))) = 0" for c
  proof (induction ops arbitrary: c)
    case Nil
    obtain s m1 where g: "getScopeState (sp_config c) now (buildScopeKey sc j w) (sp_scopes c) = (s, m1)" by fastforce
    show ?case using getScopeState_facts(3) [OF Nil g] by (simp add: getQueueLength_def getQueue_def g)
  next
    case (Cons x ops)
    obtain now' op l c' where x: "x = (now', op)" "spawn_step now' op c = (l, c')" by fastforce
    show ?case using Cons.IH [of c'] spawn_step_facts(1,2) [OF Cons.prems x(2)] Cons.prems by (auto simp: x split: prod.splits)
  qed
  then show ?thesis using assms new_controller_ok [of cfg] by simp
qed

lemma queued_request_forgotten_witness:
  "fst (getQueueLength 5 Scope_Job (Some ''j'') None (snd (spawn_run [(1, Op_Ask (ask_in ''j''))] (new_controller (DEFAULT_AGENT_TREE_LIMITS\<lparr>max_concurrent_agents := 0\<rparr>))))) = 0"
  by (rule queued_request_forgotten) (simp add: limits_ok_def DEFAULT_AGENT_TREE_LIMITS_def)

end
