(* ===== verification/Spawn_Queue.thy ===== *)
theory Spawn_Queue
  imports Spawn_Limits
begin

text \<open>
  What the copy of the spawn limits in \<open>src/web/src/domain/agent/index.ts\<close> adds: a queue whose entries wait for an answer, the timers that end
  the wait, and a token bucket that rounds. A promise is a number, \<open>wq_answers\<close> holds the promises that are settled; settling one again does nothing.
\<close>

subsection \<open>The rounded bucket\<close>

definition EPSILON :: real where
  "EPSILON = 5 / 1000"

definition web_refill :: "time \<Rightarrow> token_bucket \<Rightarrow> token_bucket" where
  "web_refill now b = (let elapsed = now - bk_refilled b; tokensToAdd = of_int elapsed * bk_rate b;
     n = min (bk_max b) (bk_tokens b + tokensToAdd);
     n = (if n < EPSILON then 0 else n);
     n = (if bk_max b - n < EPSILON then bk_max b else n) in
     b\<lparr>bk_tokens := n, bk_refilled := now\<rparr>)"

definition web_consume :: "time \<Rightarrow> real \<Rightarrow> token_bucket \<Rightarrow> bool \<times> token_bucket" where
  "web_consume now count b = (let b = web_refill now b in
     if bk_tokens b \<ge> count
     then (let n = bk_tokens b - count in (True, b\<lparr>bk_tokens := (if n < EPSILON then 0 else n)\<rparr>))
     else (False, b))"

definition web_tryConsumeToken :: "tree_limits \<Rightarrow> time \<Rightarrow> string \<Rightarrow> scopes \<Rightarrow> bool \<times> scopes" where
  "web_tryConsumeToken c now k m = (let (s, m) = getScopeState c now k m; (ok, b) = web_consume now 1 (sc_bucket s) in (ok, map_set m k (s\<lparr>sc_bucket := b\<rparr>)))"

definition web_getRemainingTokens :: "tree_limits \<Rightarrow> time \<Rightarrow> string \<Rightarrow> scopes \<Rightarrow> real \<times> scopes" where
  "web_getRemainingTokens c now k m = (let (s, m) = getScopeState c now k m; b = web_refill now (sc_bucket s) in
     (bk_tokens b, map_set m k (s\<lparr>sc_bucket := b\<rparr>)))"

definition web_evaluateSpawn :: "time \<Rightarrow> spawn_ask \<Rightarrow> spawn_controller \<Rightarrow> spawn_result \<times> spawn_controller" where
  "web_evaluateSpawn = evaluate_with web_getRemainingTokens web_tryConsumeToken"

subsection \<open>Waiting requests\<close>

record spawn_timer =
  ti_due :: time
  ti_key :: string
  ti_request :: spawn_request
  ti_promise :: nat

record waiting_room =
  wq_ctrl :: spawn_controller
  wq_answers :: "(nat, spawn_result) jsmap"
  wq_timers :: "spawn_timer list"
  wq_next :: nat

definition new_room :: "tree_limits \<Rightarrow> waiting_room" where
  "new_room c = \<lparr>wq_ctrl = new_controller c, wq_answers = [], wq_timers = [], wq_next = 0\<rparr>"

definition settle :: "nat \<Rightarrow> spawn_result \<Rightarrow> (nat, spawn_result) jsmap \<Rightarrow> (nat, spawn_result) jsmap" where
  "settle p r an = (if map_has an p then an else map_set an p r)"

definition waitForQueuedSpawn :: "time \<Rightarrow> string \<Rightarrow> spawn_request \<Rightarrow> waiting_room \<Rightarrow> waiting_room" where
  "waitForQueuedSpawn now k q w = (let c = wq_ctrl w; cfg = sp_config c; p = wq_next w in
     w\<lparr>wq_ctrl := c\<lparr>sp_scopes := addToQueue cfg now k \<lparr>qr_request = q, qr_promise = p, qr_queued = now\<rparr> (sp_scopes c)\<rparr>,
       wq_timers := wq_timers w @ [\<lparr>ti_due = now + max_queue_wait_seconds cfg * 1000, ti_key = k, ti_request = q, ti_promise = p\<rparr>],
       wq_next := p + 1\<rparr>)"

definition fire_timer :: "spawn_timer \<Rightarrow> waiting_room \<Rightarrow> waiting_room" where
  "fire_timer t w = (let c = wq_ctrl w in
     w\<lparr>wq_ctrl := c\<lparr>sp_scopes := removeFromQueue (ti_key t) (sq_id (ti_request t)) (sp_scopes c),
         sp_metrics := incrementSpawnRejected (sq_scope (ti_request t)) Sp_Timeout (sp_metrics c)\<rparr>,
       wq_answers := settle (ti_promise t) (createResult Sp_Reject Sp_Timeout (ti_request t)) (wq_answers w)\<rparr>)"

definition fire_timers :: "time \<Rightarrow> waiting_room \<Rightarrow> waiting_room" where
  "fire_timers now w = foldl (\<lambda>w t. fire_timer t w) (w\<lparr>wq_timers := filter (\<lambda>t. now < ti_due t) (wq_timers w)\<rparr>)
     (filter (\<lambda>t. ti_due t \<le> now) (wq_timers w))"

definition waited :: "time \<Rightarrow> queued_request \<Rightarrow> real" where
  "waited now q = of_int (now - qr_queued q) / 1000"

definition request_expired :: "time \<Rightarrow> spawn_request \<Rightarrow> bool" where
  "request_expired now q = (case sq_expires q of Some e \<Rightarrow> e < now | None \<Rightarrow> False)"

fun process_entries :: "tree_limits \<Rightarrow> time \<Rightarrow> string \<Rightarrow> queued_request list \<Rightarrow> scopes \<Rightarrow> spawn_metrics \<Rightarrow> (nat, spawn_result) jsmap \<Rightarrow>
    queued_request list \<times> scopes \<times> spawn_metrics \<times> (nat, spawn_result) jsmap" where
  "process_entries c now k [] m me an = ([], m, me, an)"
| "process_entries c now k (q # qs) m me an = (let r = qr_request q in
     if request_expired now r
     then process_entries c now k qs m (recordQueueWaitTime (waited now q) (incrementSpawnRejected (sq_scope r) Sp_Timeout me))
       (settle (qr_promise q) (createResult Sp_Reject Sp_Timeout r) an)
     else (let (ok, m) = web_tryConsumeToken c now k m in
       if \<not> ok then (q # qs, m, me, an)
       else process_entries c now k qs m (incrementSpawnAllowed (sq_scope r) (recordQueueWaitTime (waited now q) me))
         (settle (qr_promise q) ((createResult Sp_Allow Sp_Allowed r)\<lparr>sr_wait := Some (waited now q)\<rparr>) an)))"

definition set_queue :: "string \<Rightarrow> queued_request list \<Rightarrow> scopes \<Rightarrow> scopes" where
  "set_queue k qs m = (case map_get m k of Some s \<Rightarrow> map_set m k (s\<lparr>sc_queue := qs\<rparr>) | None \<Rightarrow> m)"

definition processQueue :: "time \<Rightarrow> string \<Rightarrow> waiting_room \<Rightarrow> waiting_room" where
  "processQueue now k w = (let c = wq_ctrl w; cfg = sp_config c; (qs, m) = getQueue cfg now k (sp_scopes c) in
     if active_in k m < max_concurrent_agents cfg
     then (let (rest, m, me, an) = process_entries cfg now k qs m (sp_metrics c) (wq_answers w) in
       w\<lparr>wq_ctrl := c\<lparr>sp_scopes := set_queue k rest m, sp_metrics := me\<rparr>, wq_answers := an\<rparr>)
     else w\<lparr>wq_ctrl := c\<lparr>sp_scopes := m\<rparr>\<rparr>)"

definition web_unregisterAgent :: "time \<Rightarrow> spawn_scope \<Rightarrow> string \<Rightarrow> string option \<Rightarrow> string option \<Rightarrow> waiting_room \<Rightarrow> waiting_room" where
  "web_unregisterAgent now sc agent job wk w =
     processQueue now (buildScopeKey sc job wk) (w\<lparr>wq_ctrl := unregisterAgent sc agent job wk (wq_ctrl w)\<rparr>)"

definition tick_queues :: "time \<Rightarrow> waiting_room \<Rightarrow> waiting_room" where
  "tick_queues now w = foldl (\<lambda>w k. processQueue now k w) w (map fst (sp_scopes (wq_ctrl w)))"

subsection \<open>A bucket that is asked too often\<close>

fun tries :: "time list \<Rightarrow> token_bucket \<Rightarrow> bool list" where
  "tries [] b = []"
| "tries (t # ts) b = (let (ok, b) = web_consume t 1 b in ok # tries ts b)"

text \<open>An empty bucket that is asked every millisecond stays empty: what flows in since the last question is rounded away each time.\<close>

theorem frequent_questions_starve_bucket:
  assumes "bk_tokens b = 0" "0 \<le> bk_rate b" "bk_rate b < EPSILON" "1 \<le> bk_max b"
  shows "tries (map (\<lambda>i. bk_refilled b + int (Suc i)) [0..<n]) b = replicate n False"
  using assms
proof (induction n arbitrary: b)
  case 0
  then show ?case by simp
next
  case (Suc n)
  let ?b = "b\<lparr>bk_refilled := bk_refilled b + 1\<rparr>"
  have h: "[0..<Suc n] = 0 # map Suc [0..<n]" by (metis map_Suc_upt upt_conv_Cons zero_less_Suc)
  have "web_consume (bk_refilled b + 1) 1 b = (False, ?b)"
    using Suc.prems by (simp add: web_consume_def web_refill_def EPSILON_def)
  then have c: "web_consume (1 + bk_refilled b) 1 b = (False, b\<lparr>bk_refilled := 1 + bk_refilled b\<rparr>)" by (simp add: add.commute)
  show ?case using Suc.IH [of ?b] Suc.prems by (simp only: h list.map) (simp add: c comp_def algebra_simps)
qed

lemma frequent_questions_starve_bucket_witness:
  "tries (map (\<lambda>i. 0 + int (Suc i)) [0..<60000]) \<lparr>bk_tokens = 0, bk_refilled = 0, bk_max = 150, bk_rate = tokens_per_ms DEFAULT_AGENT_TREE_LIMITS\<rparr> = replicate 60000 False"
  using frequent_questions_starve_bucket [of "\<lparr>bk_tokens = 0, bk_refilled = 0, bk_max = 150, bk_rate = tokens_per_ms DEFAULT_AGENT_TREE_LIMITS\<rparr>" 60000]
  by (simp add: tokens_per_ms_def DEFAULT_AGENT_TREE_LIMITS_def EPSILON_def)

subsection \<open>Every wait ends\<close>

datatype room_op = Room_Wait string spawn_request | Room_Process string | Room_Unregister spawn_scope string "string option" "string option"
  | Room_Register spawn_scope string "string option" "string option" | Room_Ask spawn_ask | Room_Tick | Room_Timers

fun room_step :: "time \<Rightarrow> room_op \<Rightarrow> waiting_room \<Rightarrow> waiting_room" where
  "room_step now (Room_Wait k q) w = waitForQueuedSpawn now k q w"
| "room_step now (Room_Process k) w = processQueue now k w"
| "room_step now (Room_Unregister sc a j wk) w = web_unregisterAgent now sc a j wk w"
| "room_step now (Room_Register sc a j wk) w = w\<lparr>wq_ctrl := registerActiveAgent now sc a j wk (wq_ctrl w)\<rparr>"
| "room_step now (Room_Ask a) w = w\<lparr>wq_ctrl := snd (web_evaluateSpawn now a (wq_ctrl w))\<rparr>"
| "room_step now Room_Tick w = tick_queues now w"
| "room_step now Room_Timers w = fire_timers now w"

definition room_run :: "(time \<times> room_op) list \<Rightarrow> waiting_room \<Rightarrow> waiting_room" where
  "room_run ops w = foldl (\<lambda>w (now, op). room_step now op w) w ops"

lemma settle_has [simp]: "map_has (settle p r an) p' \<longleftrightarrow> p' = p \<or> map_has an p'"
  by (auto simp: settle_def map_has_def jm.lookup_store)

lemma process_entries_answers: "process_entries c now k qs m me an = (rest, m', me', an') \<Longrightarrow> map_has an p \<Longrightarrow> map_has an' p"
  by (induction c now k qs m me an rule: process_entries.induct) (auto simp: Let_def split: if_splits prod.splits)

lemma processQueue_keeps:
  "wq_timers (processQueue now k w) = wq_timers w" "wq_next (processQueue now k w) = wq_next w"
  "sp_config (wq_ctrl (processQueue now k w)) = sp_config (wq_ctrl w)"
  "map_has (wq_answers w) p \<Longrightarrow> map_has (wq_answers (processQueue now k w)) p"
  by (auto simp: processQueue_def Let_def dest: process_entries_answers split: prod.splits if_splits)

lemma tick_keeps:
  "wq_timers (tick_queues now w) = wq_timers w" "wq_next (tick_queues now w) = wq_next w"
  "sp_config (wq_ctrl (tick_queues now w)) = sp_config (wq_ctrl w)"
  "map_has (wq_answers w) p \<Longrightarrow> map_has (wq_answers (tick_queues now w)) p"
proof -
  have "wq_timers (foldl (\<lambda>w k. processQueue now k w) w ks) = wq_timers w \<and> wq_next (foldl (\<lambda>w k. processQueue now k w) w ks) = wq_next w \<and>
    sp_config (wq_ctrl (foldl (\<lambda>w k. processQueue now k w) w ks)) = sp_config (wq_ctrl w) \<and>
    (map_has (wq_answers w) p \<longrightarrow> map_has (wq_answers (foldl (\<lambda>w k. processQueue now k w) w ks)) p)" for ks
    by (induction ks arbitrary: w) (auto simp: processQueue_keeps)
  then show "wq_timers (tick_queues now w) = wq_timers w" "wq_next (tick_queues now w) = wq_next w"
    "sp_config (wq_ctrl (tick_queues now w)) = sp_config (wq_ctrl w)" "map_has (wq_answers w) p \<Longrightarrow> map_has (wq_answers (tick_queues now w)) p"
    by (simp_all add: tick_queues_def)
qed

lemma fire_timers_keeps:
  "wq_timers (fire_timers now w) = filter (\<lambda>t. now < ti_due t) (wq_timers w)" "wq_next (fire_timers now w) = wq_next w"
  "sp_config (wq_ctrl (fire_timers now w)) = sp_config (wq_ctrl w)"
  "map_has (wq_answers (fire_timers now w)) p \<longleftrightarrow> map_has (wq_answers w) p \<or> (\<exists>t \<in> set (wq_timers w). ti_due t \<le> now \<and> ti_promise t = p)"
proof -
  have "wq_timers (foldl (\<lambda>w t. fire_timer t w) w ts) = wq_timers w \<and> wq_next (foldl (\<lambda>w t. fire_timer t w) w ts) = wq_next w \<and>
    sp_config (wq_ctrl (foldl (\<lambda>w t. fire_timer t w) w ts)) = sp_config (wq_ctrl w) \<and>
    (map_has (wq_answers (foldl (\<lambda>w t. fire_timer t w) w ts)) p \<longleftrightarrow> map_has (wq_answers w) p \<or> (\<exists>t \<in> set ts. ti_promise t = p))" for ts w
    by (induction ts arbitrary: w) (auto simp: fire_timer_def Let_def)
  then show "wq_timers (fire_timers now w) = filter (\<lambda>t. now < ti_due t) (wq_timers w)" "wq_next (fire_timers now w) = wq_next w"
    "sp_config (wq_ctrl (fire_timers now w)) = sp_config (wq_ctrl w)"
    "map_has (wq_answers (fire_timers now w)) p \<longleftrightarrow> map_has (wq_answers w) p \<or> (\<exists>t \<in> set (wq_timers w). ti_due t \<le> now \<and> ti_promise t = p)"
    by (auto simp: fire_timers_def)
qed

definition room_ok :: "tree_limits \<Rightarrow> time \<Rightarrow> waiting_room \<Rightarrow> bool" where
  "room_ok cfg t w = (sp_config (wq_ctrl w) = cfg \<and> (\<forall>p < wq_next w. map_has (wq_answers w) p \<or>
     (\<exists>i \<in> set (wq_timers w). ti_promise i = p \<and> ti_due i \<le> t + max_queue_wait_seconds cfg * 1000)))"

lemma room_ok_mono:
  assumes "room_ok cfg t w" "sp_config (wq_ctrl w') = sp_config (wq_ctrl w)" "wq_timers w' = wq_timers w" "wq_next w' = wq_next w"
    "\<And>p. map_has (wq_answers w) p \<Longrightarrow> map_has (wq_answers w') p"
  shows "room_ok cfg t w'"
  using assms by (auto simp: room_ok_def)

lemma evaluate_config [simp]: "sp_config (snd (evaluate_with f g now a c)) = sp_config c"
  by (auto simp: evaluate_with_def Let_def split: prod.splits)

lemma room_step_ok: "room_ok cfg t w \<Longrightarrow> now \<le> t \<Longrightarrow> room_ok cfg t (room_step now op w)"
proof (cases op)
  case (Room_Wait k q)
  assume "room_ok cfg t w" "now \<le> t"
  then show ?thesis by (auto simp: Room_Wait room_ok_def waitForQueuedSpawn_def Let_def less_Suc_eq)
next
  case Room_Timers
  assume r: "room_ok cfg t w" "now \<le> t"
  then show ?thesis by (auto simp: Room_Timers room_ok_def fire_timers_keeps) (meson linorder_not_le)
qed (auto intro: room_ok_mono simp: processQueue_keeps tick_keeps web_unregisterAgent_def web_evaluateSpawn_def unregisterAgent_def registerActiveAgent_def Let_def)


definition sample_request :: spawn_request where
  "sample_request = \<lparr>sq_id = ''request'', sq_job = ''j'', sq_agent = ''agent'', sq_scope = Scope_Job, sq_at = 0, sq_active = 300, sq_tokens = 0, sq_expires = Some 60000\<rparr>"


subsection \<open>The queue is emptied past the limit\<close>

lemma web_tryConsumeToken_facts:
  assumes "map_get m k = Some s" "map_get m k = Some s \<Longrightarrow> 1 \<le> bk_tokens (web_refill now (sc_bucket s))"
  shows "web_tryConsumeToken c now k m = (True, map_set m k (s\<lparr>sc_bucket := snd (web_consume now 1 (sc_bucket s))\<rparr>))"
  using assms by (auto simp: web_tryConsumeToken_def getScopeState_def web_consume_def Let_def split: prod.splits)

lemma web_refill_after_consume:
  assumes "real (Suc n) \<le> bk_tokens (web_refill now b)"
  shows "real n \<le> bk_tokens (web_refill now (snd (web_consume now 1 b)))"
  using assms by (auto simp: web_consume_def web_refill_def Let_def EPSILON_def split: if_splits)

lemma process_entries_all:
  assumes "map_get m k = Some s" "\<forall>q \<in> set qs. \<not> request_expired now (qr_request q)" "real (length qs) \<le> bk_tokens (web_refill now (sc_bucket s))"
    "distinct (map qr_promise qs)" "process_entries c now k qs m me an = (rest, m', me', an')"
  shows "rest = [] \<and> (\<exists>b. map_get m' k = Some (s\<lparr>sc_bucket := b\<rparr>)) \<and>
    (\<forall>p. p \<notin> qr_promise ` set qs \<longrightarrow> map_get an' p = map_get an p) \<and>
    (\<forall>q \<in> set qs. map_get an (qr_promise q) = None \<longrightarrow> map_option sr_decision (map_get an' (qr_promise q)) = Some Sp_Allow)"
  using assms
proof (induction qs arbitrary: m s me an)
  case Nil
  then show ?case by (auto intro: exI [of _ "sc_bucket s"])
next
  case (Cons q qs)
  let ?b = "snd (web_consume now 1 (sc_bucket s))"
  let ?r = "(createResult Sp_Allow Sp_Allowed (qr_request q))\<lparr>sr_wait := Some (waited now q)\<rparr>"
  have t: "web_tryConsumeToken c now k m = (True, map_set m k (s\<lparr>sc_bucket := ?b\<rparr>))"
    using Cons.prems by (intro web_tryConsumeToken_facts) auto
  have p: "process_entries c now k qs (map_set m k (s\<lparr>sc_bucket := ?b\<rparr>)) (incrementSpawnAllowed (sq_scope (qr_request q)) (recordQueueWaitTime (waited now q) me))
      (settle (qr_promise q) ?r an) = (rest, m', me', an')"
    using Cons.prems(2,5) by (simp add: t Let_def)
  have n: "real (length qs) \<le> bk_tokens (web_refill now (sc_bucket (s\<lparr>sc_bucket := ?b\<rparr>)))"
    using web_refill_after_consume [of "length qs"] Cons.prems(3) by simp
  have ih: "rest = [] \<and> (\<exists>b. map_get m' k = Some (s\<lparr>sc_bucket := b\<rparr>)) \<and>
    (\<forall>p. p \<notin> qr_promise ` set qs \<longrightarrow> map_get an' p = map_get (settle (qr_promise q) ?r an) p) \<and>
    (\<forall>q' \<in> set qs. map_get (settle (qr_promise q) ?r an) (qr_promise q') = None \<longrightarrow> map_option sr_decision (map_get an' (qr_promise q')) = Some Sp_Allow)"
    using Cons.IH [OF _ _ n _ p] Cons.prems(2,4) by simp
  have st: "map_get (settle p' r an) p = (if p = p' \<and> map_get an p = None then Some r else map_get an p)" for p p' and r :: spawn_result
    by (auto simp: settle_def map_has_def jm.lookup_store)
  have "map_get an' (qr_promise q) = map_get (settle (qr_promise q) ?r an) (qr_promise q)" using ih Cons.prems(4) by simp
  then have "map_get an (qr_promise q) = None \<Longrightarrow> map_option sr_decision (map_get an' (qr_promise q)) = Some Sp_Allow"
    by (simp add: st createResult_def)
  moreover have "qr_promise q' \<noteq> qr_promise q" if "q' \<in> set qs" for q' using that Cons.prems(4) by (auto simp: image_iff)
  then have "\<forall>q' \<in> set qs. map_get an (qr_promise q') = None \<longrightarrow> map_option sr_decision (map_get an' (qr_promise q')) = Some Sp_Allow"
    using ih by (simp add: st)
  moreover have "\<forall>p. p \<notin> qr_promise ` set (q # qs) \<longrightarrow> map_get an' p = map_get an p" using ih by (simp add: st)
  ultimately show ?case using ih by simp
qed

text \<open>One free place is enough for the whole queue: the number of active agents is read once and nobody is registered by the loop.\<close>

theorem queue_overshoots_limit:
  assumes "map_get (sp_scopes (wq_ctrl w)) k = Some s" "int (length (sc_agents s)) < max_concurrent_agents (sp_config (wq_ctrl w))"
    "\<forall>q \<in> set (sc_queue s). \<not> request_expired now (qr_request q) \<and> map_get (wq_answers w) (qr_promise q) = None"
    "distinct (map qr_promise (sc_queue s))" "real (length (sc_queue s)) \<le> bk_tokens (web_refill now (sc_bucket s))" "q \<in> set (sc_queue s)"
  shows "map_option sr_decision (map_get (wq_answers (processQueue now k w)) (qr_promise q)) = Some Sp_Allow"
proof -
  obtain rest m me an where p: "process_entries (sp_config (wq_ctrl w)) now k (sc_queue s) (sp_scopes (wq_ctrl w)) (sp_metrics (wq_ctrl w)) (wq_answers w) = (rest, m, me, an)"
    using prod_cases4 by metis
  have a: "active_in k (sp_scopes (wq_ctrl w)) < max_concurrent_agents (sp_config (wq_ctrl w))" using assms(1,2) by (simp add: active_in_def)
  have r: "wq_answers (processQueue now k w) = an"
    using assms(1) a by (simp add: processQueue_def getQueue_def getScopeState_def Let_def p)
  show ?thesis using process_entries_all [OF assms(1) _ assms(5,4) p] assms(3,6) by (simp add: r)
qed

definition crowded_scope :: scope_state where
  "crowded_scope = \<lparr>sc_agents = [], sc_bucket = new_bucket 0 150 (1 / 400),
     sc_queue = map (\<lambda>p. \<lparr>qr_request = sample_request, qr_promise = p, qr_queued = 0\<rparr>) [0, 1, 2]\<rparr>"

definition crowded_room :: waiting_room where
  "crowded_room = \<lparr>wq_ctrl = \<lparr>sp_config = DEFAULT_AGENT_TREE_LIMITS\<lparr>max_concurrent_agents := 1\<rparr>, sp_scopes = [(''job:j'', crowded_scope)], sp_metrics = no_metrics\<rparr>,
     wq_answers = [], wq_timers = [], wq_next = 3\<rparr>"

lemma queue_overshoots_limit_witness:
  "map_option sr_decision (map_get (wq_answers (processQueue 5 ''job:j'' crowded_room)) 2) = Some Sp_Allow"
  using queue_overshoots_limit [of crowded_room "''job:j''" crowded_scope 5 "\<lparr>qr_request = sample_request, qr_promise = 2, qr_queued = 0\<rparr>"]
  by (simp add: crowded_room_def crowded_scope_def map_get_def new_bucket_def request_expired_def sample_request_def web_refill_def EPSILON_def Let_def)

end
