(* ===== verification/Worker_Executor.thy ===== *)
theory Worker_Executor
  imports Worker_Policy
begin

text \<open>
  The executor of worker jobs, \<open>src/src/domain/worker/worker-executor.ts\<close>, and the routing to a physical backend, \<open>backend-router.ts\<close> beside it.
  An adapter is a record of functions on a state \<open>'w\<close> of the outside world, as the code is given objects of the interface \<open>WorkerAdapter\<close>; a call may throw.
  The executor keeps the jobs it believes to be running. \<open>initialize\<close>, \<open>isReady\<close> and the
  shutdown of the adapters themselves are calls to the outside only and left out.
\<close>

subsection \<open>Adapters\<close>

datatype submit_status = Sub_Queued | Sub_Running | Sub_Failed | Sub_Rejected
datatype run_status = Ru_Queued | Ru_Running | Ru_Succeeded | Ru_Failed | Ru_Cancelled | Ru_Blocked
datatype cancel_status = Ca_Cancelled | Ca_Completed | Ca_Not_Found | Ca_Failed

record job_submission =
  jb_success :: bool
  jb_external :: "string option"
  jb_status :: submit_status
  jb_error :: "string option"
  jb_backend :: "execution_backend option"
  jb_fallback :: "string option"

text \<open>The field \<open>execution_backend\<close> of a result is kept beside it, in \<open>po_backend\<close>.\<close>

record job_answer =
  po_external :: string
  po_status :: run_status
  po_progress :: "int option"
  po_result :: "worker_result option"
  po_backend :: "execution_backend option"
  po_error :: "string option"

record job_cancel =
  ca_success :: bool
  ca_status :: cancel_status
  ca_error :: "string option"

record 'w adapter =
  ad_type :: worker_type
  ad_submit :: "worker_job \<Rightarrow> 'w \<Rightarrow> (string, job_submission, 'w) outcome"
  ad_poll :: "string \<Rightarrow> 'w \<Rightarrow> (string, job_answer, 'w) outcome"
  ad_cancel :: "string \<Rightarrow> 'w \<Rightarrow> (string, job_cancel, 'w) outcome"

subsection \<open>The router\<close>

record router_config =
  rt_enabled :: bool
  rt_workers :: "worker_type list"
  rt_stages :: "worker_stage list"
  rt_max_risk :: risk_level
  rt_fallback :: "worker_stage list"

record backend_route =
  ro_backend :: execution_backend
  ro_fallback :: "string option"
  ro_blocked :: "string option"

fun riskRank :: "risk_level \<Rightarrow> nat" where
  "riskRank Low = 0" | "riskRank Medium = 1" | "riskRank High = 2"

definition route_eligible :: "router_config \<Rightarrow> worker_job \<Rightarrow> worker_type \<Rightarrow> bool" where
  "route_eligible c job w = (w \<in> set (rt_workers c) \<and> job_stage job \<in> set (rt_stages c) \<and> riskRank (job_risk_level job) \<le> riskRank (rt_max_risk c))"

definition route :: "router_config \<Rightarrow> worker_job \<Rightarrow> worker_type \<Rightarrow> (execution_backend \<Rightarrow> bool) \<Rightarrow> backend_route" where
  "route c job w hasAdapter = (
     if \<not> rt_enabled c then \<lparr>ro_backend = External_Backend, ro_fallback = None, ro_blocked = None\<rparr>
     else if \<not> route_eligible c job w then \<lparr>ro_backend = External_Backend, ro_fallback = None, ro_blocked = None\<rparr>
     else if hasAdapter Lmstudio then \<lparr>ro_backend = Lmstudio, ro_fallback = None, ro_blocked = None\<rparr>
     else if job_stage job \<in> set (rt_fallback c) \<and> hasAdapter External_Backend
     then \<lparr>ro_backend = External_Backend, ro_fallback = Some ''lmstudio_adapter_unavailable'', ro_blocked = None\<rparr>
     else \<lparr>ro_backend = Lmstudio, ro_fallback = None, ro_blocked = Some ''WORKER_BACKEND_UNAVAILABLE: LM Studio adapter is unavailable''\<rparr>)"

definition canFallbackToExternal :: "router_config \<Rightarrow> worker_stage \<Rightarrow> bool" where
  "canFallbackToExternal c s = (s \<in> set (rt_fallback c))"

subsection \<open>The executor\<close>

record 'w active_job =
  aj_job :: worker_job
  aj_external :: string
  aj_worker :: worker_type
  aj_submitted :: time
  aj_failovers :: nat
  aj_adapter :: "'w adapter"
  aj_backend :: execution_backend

datatype executor_event =
    Job_Submitted string string worker_type
  | Job_Completed string string worker_type worker_result
  | Job_Failed string string worker_type string
  | Job_Cancelled string string worker_type
  | Failover_Started string worker_type worker_type string

record 'w executor =
  ex_adapters :: "(worker_type, 'w adapter) jsmap"
  ex_backends :: "(execution_backend \<times> worker_type, 'w adapter) jsmap"
  ex_active :: "(string, 'w active_job) jsmap"
  ex_failover :: bool
  ex_router :: router_config
  ex_polling :: "string list"
  ex_events :: "executor_event list"
  ex_world :: 'w

definition default_router :: router_config where
  "default_router = \<lparr>rt_enabled = False, rt_workers = [], rt_stages = [], rt_max_risk = Low, rt_fallback = []\<rparr>"

definition new_executor :: "bool \<Rightarrow> router_config option \<Rightarrow> 'w \<Rightarrow> 'w executor" where
  "new_executor failover router w = \<lparr>ex_adapters = [], ex_backends = [], ex_active = [], ex_failover = failover,
     ex_router = (case router of Some r \<Rightarrow> r | None \<Rightarrow> default_router), ex_polling = [], ex_events = [], ex_world = w\<rparr>"

definition emitEvent :: "executor_event \<Rightarrow> 'w executor \<Rightarrow> 'w executor" where
  "emitEvent e x = x\<lparr>ex_events := ex_events x @ [e]\<rparr>"

definition ask_world :: "('w \<Rightarrow> (string, 'a, 'w) outcome) \<Rightarrow> 'w executor \<Rightarrow> (string, 'a, 'w executor) outcome" where
  "ask_world f x = (let (r, w) = f (ex_world x) in (r, x\<lparr>ex_world := w\<rparr>))"

definition registerAdapter :: "'w adapter \<Rightarrow> execution_backend \<Rightarrow> 'w executor \<Rightarrow> 'w executor" where
  "registerAdapter ad b x = (if b = External_Backend then x\<lparr>ex_adapters := map_set (ex_adapters x) (ad_type ad) ad\<rparr>
     else x\<lparr>ex_backends := map_set (ex_backends x) (b, ad_type ad) ad\<rparr>)"

definition getAdapterForBackend :: "'w executor \<Rightarrow> worker_type \<Rightarrow> execution_backend \<Rightarrow> 'w adapter option" where
  "getAdapterForBackend x w b = (if b = External_Backend then map_get (ex_adapters x) w else map_get (ex_backends x) (b, w))"

definition getRegisteredWorkerTypes :: "'w executor \<Rightarrow> worker_type list" where
  "getRegisteredWorkerTypes x = map fst (ex_adapters x)"

definition rejected :: "string \<Rightarrow> execution_backend \<Rightarrow> job_submission" where
  "rejected e b = \<lparr>jb_success = False, jb_external = None, jb_status = Sub_Rejected, jb_error = Some e, jb_backend = Some b, jb_fallback = None\<rparr>"

definition finish_submission :: "time \<Rightarrow> worker_job \<Rightarrow> worker_type \<Rightarrow> 'w adapter \<Rightarrow> execution_backend \<Rightarrow> string option \<Rightarrow> job_submission \<Rightarrow> 'w executor \<Rightarrow>
    job_submission \<times> 'w executor" where
  "finish_submission now job w ad b fallback result x = (
     let response = result\<lparr>jb_backend := Some b, jb_fallback := (if falsy fallback then jb_fallback result else fallback)\<rparr> in
     if jb_success response \<and> \<not> falsy (jb_external response)
     then (response, emitEvent (Job_Submitted (job_id job) (the (jb_external response)) w)
       (x\<lparr>ex_active := map_set (ex_active x) (job_id job) \<lparr>aj_job = job, aj_external = the (jb_external response), aj_worker = w,
          aj_submitted = now, aj_failovers = 0, aj_adapter = ad, aj_backend = b\<rparr>\<rparr>))
     else (response, x))"

definition submitJob :: "time \<Rightarrow> worker_job \<Rightarrow> worker_type option \<Rightarrow> 'w executor \<Rightarrow> (string, job_submission, 'w executor) outcome" where
  "submitJob now job wt x = (let w = (case wt of Some v \<Rightarrow> v | None \<Rightarrow> getDefaultWorker (job_stage job));
       r = route (ex_router x) job w (\<lambda>b. getAdapterForBackend x w b \<noteq> None); b = ro_backend r in
     if \<not> falsy (ro_blocked r) then return (rejected (the (ro_blocked r)) b) x
     else case getAdapterForBackend x w b of
       None \<Rightarrow> return (rejected (''No adapter registered for worker type: '' @ worker_name w) b) x
     | Some ad \<Rightarrow> (case ask_world (ad_submit ad job) x of (Inl e, x) \<Rightarrow> (Inl e, x)
         | (Inr result, x) \<Rightarrow>
           (case (if \<not> jb_success result \<and> b = Lmstudio \<and> canFallbackToExternal (ex_router x) (job_stage job)
                  then getAdapterForBackend x w External_Backend else None) of
              Some fb \<Rightarrow> (case ask_world (ad_submit fb job) x of (Inl e, x) \<Rightarrow> (Inl e, x)
                | (Inr result, x) \<Rightarrow> (let (p, x) = finish_submission now job w fb External_Backend (Some ''lmstudio_submission_failed'') result x in return p x))
            | None \<Rightarrow> (let (p, x) = finish_submission now job w ad b (ro_fallback r) result x in return p x))))"

text \<open>Following the order of failover; the worker named last in it has none behind it.\<close>

fun workers_behind :: "worker_type \<Rightarrow> nat" where
  "workers_behind Codex = 2" | "workers_behind Claude_Code = 1" | "workers_behind Google_Antigravity = 0"

lemma next_worker_behind: "getFailoverWorker s w = Some v \<Longrightarrow> s = Plan \<and> Suc (workers_behind v) \<le> workers_behind w"
  by (cases w) (auto simp: getFailoverWorker_cases split: if_splits)

function tryFailover :: "string \<Rightarrow> 'w active_job \<Rightarrow> string \<Rightarrow> 'w executor \<Rightarrow> (string, job_answer option, 'w executor) outcome" where
  "tryFailover i aj err x = (case getFailoverWorker (job_stage (aj_job aj)) (aj_worker aj) of
     None \<Rightarrow> return None x
   | Some w \<Rightarrow> (case map_get (ex_adapters x) w of
       None \<Rightarrow> return None x
     | Some ad \<Rightarrow> (let x = emitEvent (Failover_Started i (aj_worker aj) w err) x;
           x = snd (ask_world (ad_cancel (aj_adapter aj) (aj_external aj)) x) in
         case ask_world (ad_submit ad (aj_job aj)) x of
           (Inl e, x) \<Rightarrow> (Inl e, x)
         | (Inr result, x) \<Rightarrow>
             if jb_success result \<and> \<not> falsy (jb_external result)
             then return (Some \<lparr>po_external = the (jb_external result), po_status = Ru_Running, po_progress = Some 0, po_result = None, po_backend = None, po_error = None\<rparr>)
               (emitEvent (Job_Submitted i (the (jb_external result)) w)
                 (x\<lparr>ex_active := map_set (ex_active x) i (aj\<lparr>aj_external := the (jb_external result), aj_worker := w, aj_adapter := ad,
                    aj_backend := External_Backend, aj_failovers := aj_failovers aj + 1\<rparr>)\<rparr>))
             else tryFailover i (aj\<lparr>aj_worker := w\<rparr>) err x)))"
  by pat_completeness auto
termination
  by (relation "measure (\<lambda>(i, aj, err, x). workers_behind (aj_worker aj))") (auto dest: next_worker_behind)

definition fail_active :: "string \<Rightarrow> 'w active_job \<Rightarrow> string \<Rightarrow> 'w executor \<Rightarrow> 'w executor" where
  "fail_active i aj err x = (let x = emitEvent (Job_Failed i (aj_external aj) (aj_worker aj) err) x in x\<lparr>ex_active := map_delete (ex_active x) i\<rparr>)"

definition pollJob :: "string \<Rightarrow> 'w executor \<Rightarrow> (string, job_answer, 'w executor) outcome" where
  "pollJob i x = (case map_get (ex_active x) i of
     None \<Rightarrow> return \<lparr>po_external = i, po_status = Ru_Failed, po_progress = None, po_result = None, po_backend = None,
       po_error = Some ''Job not found in active jobs''\<rparr> x
   | Some aj \<Rightarrow> (case ask_world (ad_poll (aj_adapter aj) (aj_external aj)) x of
       (Inl e, x) \<Rightarrow> (Inl e, x)
     | (Inr polled, x) \<Rightarrow> (let result = (if po_result polled = None then polled else polled\<lparr>po_backend := Some (aj_backend aj)\<rparr>) in
         if po_status result = Ru_Succeeded \<and> po_result result \<noteq> None
         then (let x = emitEvent (Job_Completed i (aj_external aj) (aj_worker aj) (the (po_result result))) x in
           return result (x\<lparr>ex_active := map_delete (ex_active x) i\<rparr>))
         else if po_status result = Ru_Failed
         then (let err = (case po_error result of Some e \<Rightarrow> e | None \<Rightarrow> ''Unknown error'') in
           if ex_failover x \<and> canFailover (job_stage (aj_job aj))
           then (case tryFailover i aj err x of (Inl e, x) \<Rightarrow> (Inl e, x)
             | (Inr (Some p), x) \<Rightarrow> return p x
             | (Inr None, x) \<Rightarrow> return result (fail_active i aj err x))
           else return result (fail_active i aj err x))
         else return result x)))"

definition stopPolling :: "string \<Rightarrow> 'w executor \<Rightarrow> 'w executor" where
  "stopPolling i x = x\<lparr>ex_polling := removeAll i (ex_polling x)\<rparr>"

definition startPolling :: "string \<Rightarrow> 'w executor \<Rightarrow> 'w executor" where
  "startPolling i x = (if i \<in> set (ex_polling x) then x else x\<lparr>ex_polling := ex_polling x @ [i]\<rparr>)"

definition polling_tick :: "string \<Rightarrow> 'w executor \<Rightarrow> (string, job_answer, 'w executor) outcome" where
  "polling_tick i x = (case pollJob i x of (Inl e, x) \<Rightarrow> (Inl e, x)
     | (Inr p, x) \<Rightarrow> return p (if po_status p \<in> {Ru_Succeeded, Ru_Failed, Ru_Cancelled} then stopPolling i x else x))"

definition cancelJob :: "string \<Rightarrow> 'w executor \<Rightarrow> (string, job_cancel, 'w executor) outcome" where
  "cancelJob i x = (case map_get (ex_active x) i of
     None \<Rightarrow> return \<lparr>ca_success = False, ca_status = Ca_Not_Found, ca_error = Some ''Job not found in active jobs''\<rparr> x
   | Some aj \<Rightarrow> (case ask_world (ad_cancel (aj_adapter aj) (aj_external aj)) x of
       (Inl e, x) \<Rightarrow> (Inl e, x)
     | (Inr r, x) \<Rightarrow> (if ca_success r
         then (let x = emitEvent (Job_Cancelled i (aj_external aj) (aj_worker aj)) x in
           return r (stopPolling i (x\<lparr>ex_active := map_delete (ex_active x) i\<rparr>)))
         else return r x)))"

text \<open>The clock readings of the loop are a list; the loop is still waiting when they end without an answer (\<open>None\<close>).\<close>

fun waitForJob :: "time list \<Rightarrow> int \<Rightarrow> time \<Rightarrow> string \<Rightarrow> 'w executor \<Rightarrow> (string, worker_result, 'w executor) outcome option" where
  "waitForJob [] timeout began i x = None"
| "waitForJob (t # ts) timeout began i x = (let elapsed = t - began in
     if elapsed > timeout
     then Some (case cancelJob i x of (Inl e, x) \<Rightarrow> (Inl e, x)
       | (Inr r, x) \<Rightarrow> throw (''Job '' @ i @ '' timed out after '' @ show_int elapsed @ ''ms'') x)
     else (case pollJob i x of (Inl e, x) \<Rightarrow> Some (Inl e, x)
       | (Inr p, x) \<Rightarrow>
         if po_status p = Ru_Succeeded \<and> po_result p \<noteq> None then Some (return (the (po_result p)) x)
         else if po_status p = Ru_Failed then Some (throw (case po_error p of Some e \<Rightarrow> e | None \<Rightarrow> ''Job '' @ i @ '' failed'') x)
         else if po_status p = Ru_Cancelled then Some (throw (''Job '' @ i @ '' was cancelled'') x)
         else waitForJob ts timeout began i x))"

definition shutdown :: "'w executor \<Rightarrow> 'w executor" where
  "shutdown x = (let x = foldl (\<lambda>x i. stopPolling i x) x (ex_polling x);
     x = foldl (\<lambda>x i. snd (cancelJob i x)) x (map fst (ex_active x)) in
     x\<lparr>ex_adapters := [], ex_backends := [], ex_active := []\<rparr>)"

end
