(* ===== verification/Executor_Books.thy ===== *)
theory Executor_Books
  imports Worker_Executor Instruction
begin

text \<open>
  What the executor promises about the jobs it keeps: which of them a poll removes, which backend they may run on, how often they
  move to another worker, and that waiting for a job ends.
\<close>

declare tryFailover.simps [simp del]

subsection \<open>Histories\<close>

inductive executor_step :: "'w executor \<Rightarrow> 'w executor \<Rightarrow> bool" where
  es_register: "executor_step x (registerAdapter ad b x)"
| es_submit: "submitJob now job wt x = (r, x') \<Longrightarrow> executor_step x x'"
| es_poll: "pollJob i x = (r, x') \<Longrightarrow> executor_step x x'"
| es_tick: "polling_tick i x = (r, x') \<Longrightarrow> executor_step x x'"
| es_cancel: "cancelJob i x = (r, x') \<Longrightarrow> executor_step x x'"
| es_wait: "waitForJob ts timeout began i x = Some (r, x') \<Longrightarrow> executor_step x x'"
| es_start: "executor_step x (startPolling i x)"
| es_stop: "executor_step x (stopPolling i x)"
| es_shutdown: "executor_step x (shutdown x)"

inductive executor_reachable :: "'w executor \<Rightarrow> bool" where
  er_new: "executor_reachable (new_executor failover router w)"
| er_step: "executor_reachable x \<Longrightarrow> executor_step x x' \<Longrightarrow> executor_reachable x'"

lemma ask_world_keeps:
  assumes "ask_world f x = (r, x')"
  shows "ex_active x' = ex_active x" "ex_router x' = ex_router x" "ex_adapters x' = ex_adapters x" "ex_failover x' = ex_failover x"
    "ex_backends x' = ex_backends x"
  using assms by (auto simp: ask_world_def split: prod.splits)

lemma emitEvent_keeps [simp]:
  "ex_active (emitEvent e x) = ex_active x" "ex_router (emitEvent e x) = ex_router x" "ex_adapters (emitEvent e x) = ex_adapters x"
  "ex_failover (emitEvent e x) = ex_failover x"
  by (simp_all add: emitEvent_def)

lemma snd_ask_world_keeps [simp]:
  "ex_active (snd (ask_world f x)) = ex_active x" "ex_router (snd (ask_world f x)) = ex_router x" "ex_adapters (snd (ask_world f x)) = ex_adapters x"
  "ex_failover (snd (ask_world f x)) = ex_failover x"
  by (auto simp: ask_world_def split: prod.splits)

subsection \<open>Failover\<close>

definition moved_on :: "'w active_job \<Rightarrow> 'w active_job \<Rightarrow> bool" where
  "moved_on aj aj' = (aj_job aj' = aj_job aj \<and> aj_external aj' \<noteq> [] \<and> aj_failovers aj' = aj_failovers aj + 1 \<and> aj_backend aj' = External_Backend \<and>
     job_stage (aj_job aj) = Plan \<and> workers_behind (aj_worker aj') < workers_behind (aj_worker aj))"

lemma tryFailover_books:
  "tryFailover i aj err x = (r, x') \<Longrightarrow> ex_router x' = ex_router x \<and>
     (case r of Inr (Some p) \<Rightarrow> po_status p = Ru_Running \<and> (\<exists>aj'. moved_on aj aj' \<and> ex_active x' = map_set (ex_active x) i aj')
      | _ \<Rightarrow> ex_active x' = ex_active x)"
proof (induction i aj err x arbitrary: r x' rule: tryFailover.induct)
  case (1 i aj err x)
  show ?case
  proof (cases "getFailoverWorker (job_stage (aj_job aj)) (aj_worker aj)")
    case None
    then show ?thesis using 1(2) by (auto simp: tryFailover.simps [of i aj] return_def)
  next
    case (Some w)
    note b = next_worker_behind [OF Some]
    show ?thesis
    proof (cases "map_get (ex_adapters x) w")
      case None
      then show ?thesis using 1(2) Some by (auto simp: tryFailover.simps [of i aj] return_def)
    next
      case ad: (Some ad)
      let ?x = "snd (ask_world (ad_cancel (aj_adapter aj) (aj_external aj)) (emitEvent (Failover_Started i (aj_worker aj) w err) x))"
      obtain r1 x1 where s: "ask_world (ad_submit ad (aj_job aj)) ?x = (r1, x1)" by fastforce
      note k = ask_world_keeps [OF s]
      show ?thesis
      proof (cases r1)
        case (Inl e)
        then show ?thesis using 1(2) Some ad s k by (auto simp: tryFailover.simps [of i aj] Let_def)
      next
        case (Inr result)
        show ?thesis
        proof (cases "jb_success result \<and> \<not> falsy (jb_external result)")
          case True
          let ?aj = "aj\<lparr>aj_external := the (jb_external result), aj_worker := w, aj_adapter := ad, aj_backend := External_Backend,
            aj_failovers := aj_failovers aj + 1\<rparr>"
          have m: "moved_on aj ?aj" using True b by (auto simp: moved_on_def falsy_def)
          have "\<exists>p e. r = Inr (Some p) \<and> po_status p = Ru_Running \<and> x' = emitEvent e (x1\<lparr>ex_active := map_set (ex_active x1) i ?aj\<rparr>)"
            using 1(2) Some ad s Inr True by (auto simp: tryFailover.simps [of i aj] Let_def return_def)
          then show ?thesis using m k by auto
        next
          case False
          then have "tryFailover i (aj\<lparr>aj_worker := w\<rparr>) err x1 = (r, x')"
            using 1(2) Some ad s Inr by (auto simp: tryFailover.simps [of i aj] Let_def)
          from 1(1) [OF Some ad refl refl s [symmetric] Inr _ this] False k b show ?thesis
            by (auto simp: moved_on_def split: sum.splits option.splits)
        qed
      qed
    qed
  qed
qed

subsection \<open>What a poll removes\<close>

definition ended :: "job_answer \<Rightarrow> bool" where
  "ended p = (po_status p = Ru_Failed \<or> (po_status p = Ru_Succeeded \<and> po_result p \<noteq> None))"

lemma pollJob_books:
  assumes "map_get (ex_active x) i = Some aj" "pollJob i x = (r, x')"
  shows "ex_router x' = ex_router x \<and> (case r of Inl e \<Rightarrow> ex_active x' = ex_active x
    | Inr p \<Rightarrow> if ended p then ex_active x' = map_delete (ex_active x) i
        else ex_active x' = ex_active x \<or> (po_status p = Ru_Running \<and> (\<exists>aj'. moved_on aj aj' \<and> ex_active x' = map_set (ex_active x) i aj')))"
proof -
  obtain r1 x1 where s: "ask_world (ad_poll (aj_adapter aj) (aj_external aj)) x = (r1, x1)" by fastforce
  note k = ask_world_keeps [OF s]
  show ?thesis
  proof (cases r1)
    case (Inl e)
    then show ?thesis using assms s k by (auto simp: pollJob_def)
  next
    case (Inr polled)
    let ?p = "if po_result polled = None then polled else polled\<lparr>po_backend := Some (aj_backend aj)\<rparr>"
    let ?err = "case po_error ?p of Some e \<Rightarrow> e | None \<Rightarrow> ''Unknown error''"
    have st: "po_status ?p = po_status polled" "po_result ?p = po_result polled" by simp_all
    consider (good) "po_status polled = Ru_Succeeded \<and> po_result polled \<noteq> None"
      | (bad) "po_status polled = Ru_Failed"
      | (going) "po_status polled \<noteq> Ru_Failed" "\<not> (po_status polled = Ru_Succeeded \<and> po_result polled \<noteq> None)" by blast
    then show ?thesis
    proof cases
      case good
      then show ?thesis using assms s k Inr by (auto simp: pollJob_def Let_def return_def ended_def)
    next
      case going
      then show ?thesis using assms s k Inr by (auto simp: pollJob_def Let_def return_def ended_def st split: if_splits)
    next
      case bad
      show ?thesis
      proof (cases "ex_failover x1 \<and> canFailover (job_stage (aj_job aj))")
        case False
        then show ?thesis using bad assms s k Inr by (auto simp: pollJob_def Let_def return_def ended_def fail_active_def split: if_splits)
      next
        case True
        obtain r2 x2 where f: "tryFailover i aj ?err x1 = (r2, x2)" by fastforce
        note b = tryFailover_books [OF f]
        have "pollJob i x = (case (r2, x2) of (Inl e, x) \<Rightarrow> (Inl e, x) | (Inr (Some p), x) \<Rightarrow> return p x
            | (Inr None, x) \<Rightarrow> return ?p (fail_active i aj ?err x))"
          using bad assms(1) s Inr True f by (simp add: pollJob_def Let_def st split: if_splits)
        then show ?thesis using assms(2) b k bad
          by (cases r2) (auto simp: return_def ended_def fail_active_def st split: option.splits if_splits)
      qed
    qed
  qed
qed

text \<open>An adapter for the concrete instances: it accepts every job and answers every poll in the same way.\<close>

definition finished_result :: worker_result where
  "finished_result = \<lparr>result_job_id = ''job_1'', result_typed_ref = ''a:b:c:d'', result_status = S_Succeeded, summary = None,
     result_patch_ref = None, result_branch_ref = None, result_artifacts = [], result_test_results = [], result_verdict = None,
     requested_escalations = [], result_retry_count = None, failure_class = None, failure_code = None,
     failure_summary = None, result_resolver_refs = None, result_external_refs = None, result_context_bundle_ref = None,
     result_rollback_notes = None, result_loop_fingerprint = None, result_side_effects = None, result_metadata = None,
     runtime_ms = 0, exit_code = None, litellm_model = None\<rparr>"

definition steady_answer :: "run_status \<Rightarrow> job_answer" where
  "steady_answer s = \<lparr>po_external = ''ext'', po_status = s, po_progress = None, po_result = Some finished_result, po_backend = None, po_error = None\<rparr>"

definition steady_adapter :: "run_status \<Rightarrow> unit adapter" where
  "steady_adapter s = \<lparr>ad_type = Codex,
     ad_submit = (\<lambda>job w. (Inr \<lparr>jb_success = True, jb_external = Some ''ext'', jb_status = Sub_Running, jb_error = None, jb_backend = None, jb_fallback = None\<rparr>, w)),
     ad_poll = (\<lambda>e w. (Inr (steady_answer s), w)), ad_cancel = (\<lambda>e w. (Inr \<lparr>ca_success = True, ca_status = Ca_Cancelled, ca_error = None\<rparr>, w))\<rparr>"

definition steady_executor :: "run_status \<Rightarrow> unit executor" where
  "steady_executor s = snd (submitJob 0 sample_job None (registerAdapter (steady_adapter s) External_Backend (new_executor True None ())))"

definition steady_job :: "run_status \<Rightarrow> unit active_job" where
  "steady_job s = \<lparr>aj_job = sample_job, aj_external = ''ext'', aj_worker = Codex, aj_submitted = 0, aj_failovers = 0,
     aj_adapter = steady_adapter s, aj_backend = External_Backend\<rparr>"

lemma steady_facts:
  "map_get (ex_active (steady_executor s)) ''job_1'' = Some (steady_job s)" "executor_reachable (steady_executor s)"
proof -
  show "map_get (ex_active (steady_executor s)) ''job_1'' = Some (steady_job s)"
    by (simp add: steady_executor_def submitJob_def route_def new_executor_def default_router_def registerAdapter_def getAdapterForBackend_def
        steady_adapter_def ask_world_def finish_submission_def return_def emitEvent_def getDefaultWorker_def sample_job_def Let_def map_get_def map_set_def steady_job_def)
  have "executor_reachable (registerAdapter (steady_adapter s) External_Backend (new_executor True None ()))"
    by (rule er_step [OF er_new es_register])
  then show "executor_reachable (steady_executor s)"
    unfolding steady_executor_def by (rule er_step) (rule es_submit, rule prod.collapse [symmetric])
qed

lemma steady_poll: "pollJob ''job_1'' (steady_executor Ru_Succeeded) =
    (Inr ((steady_answer Ru_Succeeded)\<lparr>po_backend := Some External_Backend\<rparr>), snd (pollJob ''job_1'' (steady_executor Ru_Succeeded)))"
  using steady_facts(1) [of Ru_Succeeded]
  by (simp add: pollJob_def ask_world_def steady_job_def steady_adapter_def steady_answer_def return_def Let_def)

text \<open>A poll removes the job exactly when it answers that the job failed or succeeded with a result; no other job is touched.\<close>

theorem poll_decides_books:
  assumes "map_get (ex_active x) i = Some aj" "pollJob i x = (Inr p, x')"
  shows "map_has (ex_active x') j = (if j = i then \<not> ended p else map_has (ex_active x) j)"
  using pollJob_books [OF assms] assms(1) by (auto simp: map_has_def jm.lookup_store jm.lookup_remove split: if_splits)

lemma poll_decides_books_witness:
  "map_has (ex_active (snd (pollJob ''job_1'' (steady_executor Ru_Succeeded)))) ''job_1'' = False"
  using poll_decides_books [OF steady_facts(1) steady_poll, of "''job_1''"] by (simp add: ended_def steady_answer_def)

text \<open>A job whose result has been handed out is reported as failed from then on.\<close>

theorem finished_job_reported_failed:
  assumes "map_get (ex_active x) i = Some aj" "pollJob i x = (Inr p, x')" "po_status p = Ru_Succeeded" "po_result p \<noteq> None"
  shows "map_option po_status (case fst (pollJob i x') of Inl e \<Rightarrow> None | Inr q \<Rightarrow> Some q) = Some Ru_Failed \<and> snd (pollJob i x') = x'"
proof -
  have "map_get (ex_active x') i = None"
    using poll_decides_books [OF assms(1,2), of i] assms(3,4) by (simp add: ended_def map_has_def)
  then show ?thesis by (simp add: pollJob_def return_def)
qed

lemma finished_job_reported_failed_witness:
  "map_option po_status (case fst (pollJob ''job_1'' (snd (pollJob ''job_1'' (steady_executor Ru_Succeeded)))) of Inl e \<Rightarrow> None | Inr q \<Rightarrow> Some q) = Some Ru_Failed"
  using finished_job_reported_failed [OF steady_facts(1) steady_poll] by (simp add: steady_answer_def)

subsection \<open>The invariant\<close>

definition active_ok :: "router_config \<Rightarrow> string \<Rightarrow> 'w active_job \<Rightarrow> bool" where
  "active_ok c i aj = (job_id (aj_job aj) = i \<and> aj_external aj \<noteq> [] \<and> aj_failovers aj + workers_behind (aj_worker aj) \<le> 2 \<and>
     (aj_failovers aj > 0 \<longrightarrow> job_stage (aj_job aj) = Plan) \<and>
     (aj_backend aj = Lmstudio \<longrightarrow> rt_enabled c \<and> route_eligible c (aj_job aj) (aj_worker aj)))"

definition executor_ok :: "'w executor \<Rightarrow> bool" where
  "executor_ok x = (\<forall>i aj. map_get (ex_active x) i = Some aj \<longrightarrow> active_ok (ex_router x) i aj)"

lemma moved_on_ok: "active_ok c i aj \<Longrightarrow> moved_on aj aj' \<Longrightarrow> active_ok c i aj'"
  by (auto simp: active_ok_def moved_on_def)

lemma executor_ok_set: "executor_ok x \<Longrightarrow> active_ok (ex_router x) i aj \<Longrightarrow> ex_active x' = map_set (ex_active x) i aj \<Longrightarrow> ex_router x' = ex_router x \<Longrightarrow> executor_ok x'"
  by (auto simp: executor_ok_def jm.lookup_store)

lemma executor_ok_delete: "executor_ok x \<Longrightarrow> ex_active x' = map_delete (ex_active x) i \<Longrightarrow> ex_router x' = ex_router x \<Longrightarrow> executor_ok x'"
  by (auto simp: executor_ok_def jm.lookup_remove)

lemma executor_ok_same: "executor_ok x \<Longrightarrow> ex_active x' = ex_active x \<Longrightarrow> ex_router x' = ex_router x \<Longrightarrow> executor_ok x'"
  by (simp add: executor_ok_def)

lemma pollJob_ok:
  assumes "executor_ok x" "pollJob i x = (r, x')"
  shows "executor_ok x' \<and> ex_router x' = ex_router x"
proof (cases "map_get (ex_active x) i")
  case None
  then show ?thesis using assms by (auto simp: pollJob_def return_def)
next
  case (Some aj)
  note b = pollJob_books [OF Some assms(2)]
  have a: "active_ok (ex_router x) i aj" using assms(1) Some by (simp add: executor_ok_def)
  consider (same) "ex_active x' = ex_active x" | (gone) "ex_active x' = map_delete (ex_active x) i"
    | (moved) aj' where "moved_on aj aj'" "ex_active x' = map_set (ex_active x) i aj'"
    using b by (auto split: sum.splits if_splits)
  then show ?thesis
  proof cases
    case same
    then show ?thesis using executor_ok_same [OF assms(1)] b by simp
  next
    case gone
    then show ?thesis using executor_ok_delete [OF assms(1)] b by simp
  next
    case moved
    then show ?thesis using executor_ok_set [OF assms(1) moved_on_ok [OF a]] b by blast
  qed
qed

lemma cancelJob_books:
  assumes "cancelJob i x = (r, x')"
  shows "ex_router x' = ex_router x \<and> (ex_active x' = ex_active x \<or> ex_active x' = map_delete (ex_active x) i)"
proof (cases "map_get (ex_active x) i")
  case None
  then show ?thesis using assms by (auto simp: cancelJob_def return_def)
next
  case (Some aj)
  obtain r1 x1 where s: "ask_world (ad_cancel (aj_adapter aj) (aj_external aj)) x = (r1, x1)" by fastforce
  show ?thesis using assms Some s ask_world_keeps [OF s]
    by (auto simp: cancelJob_def return_def stopPolling_def Let_def split: sum.splits if_splits)
qed

lemma cancelJob_ok: "executor_ok x \<Longrightarrow> cancelJob i x = (r, x') \<Longrightarrow> executor_ok x' \<and> ex_router x' = ex_router x"
  using cancelJob_books [of i x r x'] executor_ok_same [of x x'] executor_ok_delete [of x x' i] by blast

lemma waitForJob_ok: "executor_ok x \<Longrightarrow> waitForJob ts timeout began i x = Some (r, x') \<Longrightarrow> executor_ok x'"
proof (induction ts arbitrary: x)
  case Nil
  then show ?case by simp
next
  case (Cons t ts)
  obtain r1 x1 where p: "pollJob i x = (r1, x1)" by fastforce
  obtain r2 x2 where c: "cancelJob i x = (r2, x2)" by fastforce
  show ?case using Cons pollJob_ok [OF Cons.prems(1) p] cancelJob_ok [OF Cons.prems(1) c]
    by (auto simp: p c Let_def return_def throw_def split: if_splits sum.splits)
qed

lemma route_lmstudio: "ro_backend (route c job w h) = Lmstudio \<Longrightarrow> rt_enabled c \<and> route_eligible c job w"
  by (auto simp: route_def split: if_splits)

lemma workers_behind_le: "workers_behind w \<le> 2"
  by (cases w) simp_all

lemma finish_submission_ok:
  assumes "executor_ok x" "finish_submission now job w ad b fallback result x = (p, x')" "b = Lmstudio \<Longrightarrow> rt_enabled (ex_router x) \<and> route_eligible (ex_router x) job w"
  shows "executor_ok x' \<and> ex_router x' = ex_router x"
  using assms workers_behind_le [of w]
  by (auto simp: finish_submission_def Let_def executor_ok_def active_ok_def jm.lookup_store falsy_def split: if_splits)

lemma submitJob_ok:
  assumes "executor_ok x" "submitJob now job wt x = (r, x')"
  shows "executor_ok x' \<and> ex_router x' = ex_router x"
proof -
  define w where "w = (case wt of Some v \<Rightarrow> v | None \<Rightarrow> getDefaultWorker (job_stage job))"
  define ro where "ro = route (ex_router x) job w (\<lambda>b. getAdapterForBackend x w b \<noteq> None)"
  have l: "ro_backend ro = Lmstudio \<Longrightarrow> rt_enabled (ex_router x) \<and> route_eligible (ex_router x) job w"
    unfolding ro_def by (rule route_lmstudio)
  note d = assms(2) [unfolded submitJob_def Let_def, folded w_def, folded ro_def]
  consider (no) "x' = x" | (ad) ad where "getAdapterForBackend x w (ro_backend ro) = Some ad" "falsy (ro_blocked ro)"
    using d by (cases "getAdapterForBackend x w (ro_backend ro)") (auto simp: return_def split: if_splits)
  then show ?thesis
  proof cases
    case no
    then show ?thesis using assms(1) by simp
  next
    case ad
    obtain r1 x1 where s: "ask_world (ad_submit ad job) x = (r1, x1)" by fastforce
    note k = ask_world_keeps [OF s]
    have o1: "executor_ok x1" using executor_ok_same [OF assms(1)] k by simp
    note f = finish_submission_ok [OF o1]
    show ?thesis
    proof (cases r1)
      case (Inl e)
      then show ?thesis using d ad s o1 k by simp
    next
      case (Inr result)
      let ?fb = "if \<not> jb_success result \<and> ro_backend ro = Lmstudio \<and> canFallbackToExternal (ex_router x1) (job_stage job)
        then getAdapterForBackend x1 w External_Backend else None"
      show ?thesis
      proof (cases ?fb)
        case None
        then show ?thesis using d ad s Inr k l f [of now job w ad "ro_backend ro" "ro_fallback ro" result]
          by (auto simp: return_def split: prod.splits)
      next
        case (Some fb)
        obtain r2 x2 where s2: "ask_world (ad_submit fb job) x1 = (r2, x2)" by fastforce
        note k2 = ask_world_keeps [OF s2]
        have o2: "executor_ok x2" using executor_ok_same [OF o1] k2 by simp
        show ?thesis using d ad s Inr Some s2 k k2 o2 finish_submission_ok [OF o2, of now job w fb External_Backend "Some ''lmstudio_submission_failed''"]
          by (auto simp: return_def split: prod.splits sum.splits)
      qed
    qed
  qed
qed

lemma executor_step_ok: "executor_step x x' \<Longrightarrow> executor_ok x \<Longrightarrow> executor_ok x'"
proof (induction rule: executor_step.induct)
  case (es_tick i x r x')
  obtain r1 x1 where p: "pollJob i x = (r1, x1)" by fastforce
  show ?case using es_tick pollJob_ok [OF es_tick(2) p] executor_ok_same [of x1 x']
    by (auto simp: polling_tick_def p return_def stopPolling_def split: sum.splits if_splits)
next
  case (es_shutdown x)
  then show ?case by (simp add: shutdown_def executor_ok_def Let_def)
qed (auto simp: registerAdapter_def startPolling_def stopPolling_def intro: executor_ok_same dest: submitJob_ok pollJob_ok cancelJob_ok waitForJob_ok)

text \<open>C16. In every history an active job is filed under its identifier, has moved at most twice and only in the planning stage, and runs on the local
  backend only where the router allows it for its worker, stage and risk.\<close>

theorem executor_books_sound:
  assumes "executor_reachable x" "map_get (ex_active x) i = Some aj"
  shows "job_id (aj_job aj) = i \<and> aj_failovers aj \<le> 2 \<and> (aj_failovers aj = 0 \<or> job_stage (aj_job aj) = Plan) \<and>
    (aj_backend aj = External_Backend \<or> rt_enabled (ex_router x) \<and> aj_worker aj \<in> set (rt_workers (ex_router x)) \<and>
       job_stage (aj_job aj) \<in> set (rt_stages (ex_router x)) \<and> riskRank (job_risk_level (aj_job aj)) \<le> riskRank (rt_max_risk (ex_router x)))"
proof -
  have "executor_ok x" using assms(1)
    by induction (auto simp: executor_ok_def [of "new_executor _ _ _"] intro: executor_step_ok, simp add: new_executor_def)
  then have "active_ok (ex_router x) i aj" using assms(2) by (simp add: executor_ok_def)
  then show ?thesis by (cases "aj_backend aj") (auto simp: active_ok_def route_eligible_def)
qed

lemma executor_books_sound_witness: "job_id (aj_job (steady_job Ru_Running)) = ''job_1'' \<and> aj_failovers (steady_job Ru_Running) \<le> 2"
  using executor_books_sound [OF steady_facts(2,1)] by blast

subsection \<open>Waiting\<close>

text \<open>The wait is over at the latest when the clock passes the timeout.\<close>

theorem waiting_for_job_ends:
  assumes "t \<in> set ts" "timeout < t - began"
  shows "\<exists>r. waitForJob ts timeout began i x = Some r"
  using assms(1)
proof (induction ts arbitrary: x)
  case Nil
  then show ?case by simp
next
  case (Cons u ts)
  obtain r1 x1 where p: "pollJob i x = (r1, x1)" by fastforce
  show ?case using Cons assms(2) by (auto simp: p Let_def split: sum.splits)
qed

lemma waiting_for_job_ends_witness: "\<exists>r. waitForJob [0, 500, 700000] 600000 0 ''job_1'' (steady_executor Ru_Running) = Some r"
  by (rule waiting_for_job_ends [of 700000]) simp_all

text \<open>A blocked job is no end: the wait goes on for as long as the timeout is not reached.\<close>

theorem blocked_job_keeps_waiting:
  assumes "map_get (ex_active x) i = Some aj" "\<And>w. ad_poll (aj_adapter aj) (aj_external aj) w = (Inr p, w)" "po_status p = Ru_Blocked"
    "\<forall>t \<in> set ts. t - began \<le> timeout"
  shows "waitForJob ts timeout began i x = None"
  using assms(4)
proof (induction ts)
  case (Cons t ts)
  have "pollJob i x = (Inr (if po_result p = None then p else p\<lparr>po_backend := Some (aj_backend aj)\<rparr>), x)"
    using assms(1-3) by (simp add: pollJob_def ask_world_def return_def Let_def)
  then show ?case using Cons assms(3) by simp
qed simp

lemma blocked_job_keeps_waiting_witness: "waitForJob [0, 5000, 600000] 600000 0 ''job_1'' (steady_executor Ru_Blocked) = None"
  by (rule blocked_job_keeps_waiting [OF steady_facts(1), where p = "steady_answer Ru_Blocked"])
    (simp_all add: steady_job_def steady_adapter_def steady_answer_def)

end
