(* ===== verification/Workspaces.thy ===== *)
theory Workspaces
  imports Core_Types
begin

text \<open>
  The manager of workspaces, \<open>src/src/domain/workspace/workspace-manager.ts\<close>. Its methods are asynchronous: a call runs up to its first
  \<open>await\<close>, and the rest runs later, when other calls may have come in between. The parts between the awaits are operations of their own here,
  and \<open>pending\<close> is what is left to run. Two creations for one task within one millisecond get the same identifier and are one workspace.
\<close>

subsection \<open>Data\<close>

datatype workspace_status = Ws_Pending | Ws_Creating | Ws_Ready | Ws_In_Use | Ws_Error | Ws_Resetting | Ws_Destroying | Ws_Destroyed
datatype network_mode = Net_None | Net_Bridge | Net_Host | Net_Custom
datatype mount_type = Mount_Bind | Mount_Volume

record workspace_mount =
  mount_source :: string
  mount_target :: string
  mount_kind :: mount_type

record workspace_isolation =
  wi_user_namespace :: "bool option"
  wi_network :: "network_mode option"
  wi_custom :: "string option"
  wi_no_new_privileges :: "bool option"
  wi_read_only :: "bool option"
  wi_security :: "string list option"
  wi_cap_drop :: "string list option"
  wi_cap_add :: "string list option"

record workspace_limits =
  wl_cpu :: "int option"
  wl_memory :: "int option"
  wl_disk :: "int option"
  wl_timeout :: "int option"

record workspace_config =
  wc_id :: string
  wc_task :: string
  wc_kind :: workspace_kind
  wc_reusable :: bool
  wc_image :: "string option"
  wc_directory :: string
  wc_environment :: "(string, string) jsmap option"
  wc_secrets :: "string list option"
  wc_mounts :: "workspace_mount list option"
  wc_isolation :: "workspace_isolation option"
  wc_limits :: "workspace_limits option"

record workspace =
  ws_id :: string
  ws_task :: string
  ws_status :: workspace_status
  ws_kind :: workspace_kind
  ws_container :: "string option"
  ws_created :: time
  ws_updated :: time
  ws_ready :: "time option"
  ws_destroyed :: "time option"
  ws_run :: "string option"
  ws_owner :: "string option"
  ws_expires :: "time option"
  ws_error :: "string option"
  ws_resets :: nat
  ws_reset_reason :: "string option"
  ws_config :: workspace_config

record create_workspace =
  cw_task :: string
  cw_kind :: workspace_kind
  cw_reusable :: "bool option"
  cw_image :: "string option"
  cw_directory :: "string option"
  cw_environment :: "(string, string) jsmap option"
  cw_secrets :: "string list option"
  cw_mounts :: "workspace_mount list option"
  cw_isolation :: "workspace_isolation option"
  cw_limits :: "workspace_limits option"

datatype reset_reason = Rs_High_Risk | Rs_Contamination | Rs_User | Rs_Recovery

fun reset_reason_text :: "reset_reason \<Rightarrow> string" where
  "reset_reason_text Rs_High_Risk = ''high_risk_detected''"
| "reset_reason_text Rs_Contamination = ''contamination''"
| "reset_reason_text Rs_User = ''user_request''"
| "reset_reason_text Rs_Recovery = ''error_recovery''"

record reset_workspace =
  rw_id :: string
  rw_reason :: reset_reason
  rw_risk :: risk_level
  rw_preserve :: "bool option"
  rw_paths :: "string list option"

record reset_outcome =
  rr_id :: string
  rr_old :: "string option"
  rr_new :: "string option"
  rr_at :: time
  rr_reason :: string
  rr_preserved :: "(string \<times> string) list option"

record workspaces =
  wm_workspaces :: "(string, workspace) jsmap"
  wm_tasks :: "(string, string) jsmap"

definition no_workspaces :: workspaces where
  "no_workspaces = \<lparr>wm_workspaces = [], wm_tasks = []\<rparr>"

text \<open>Changing the object that the map holds.\<close>

definition change_workspace :: "string \<Rightarrow> (workspace \<Rightarrow> workspace) \<Rightarrow> workspaces \<Rightarrow> workspaces" where
  "change_workspace i f m = (case map_get (wm_workspaces m) i of None \<Rightarrow> m
     | Some w \<Rightarrow> m\<lparr>wm_workspaces := map_set (wm_workspaces m) i (f w)\<rparr>)"

subsection \<open>Operations\<close>

definition workspace_name :: "string \<Rightarrow> time \<Rightarrow> string" where
  "workspace_name t now = ''ws-'' @ t @ ''-'' @ show_int now"

definition create_start :: "time \<Rightarrow> create_workspace \<Rightarrow> workspaces \<Rightarrow> string \<times> workspaces" where
  "create_start now q m = (let i = workspace_name (cw_task q) now;
     c = \<lparr>wc_id = i, wc_task = cw_task q, wc_kind = cw_kind q, wc_reusable = (case cw_reusable q of Some b \<Rightarrow> b | None \<Rightarrow> False),
          wc_image = cw_image q, wc_directory = (case cw_directory q of Some d \<Rightarrow> d | None \<Rightarrow> ''/workspace''),
          wc_environment = cw_environment q, wc_secrets = cw_secrets q, wc_mounts = cw_mounts q, wc_isolation = cw_isolation q, wc_limits = cw_limits q\<rparr>;
     w = \<lparr>ws_id = i, ws_task = cw_task q, ws_status = Ws_Creating, ws_kind = cw_kind q, ws_container = None, ws_created = now, ws_updated = now,
          ws_ready = None, ws_destroyed = None, ws_run = None, ws_owner = None, ws_expires = None, ws_error = None, ws_resets = 0,
          ws_reset_reason = None, ws_config = c\<rparr> in
     (i, m\<lparr>wm_workspaces := map_set (wm_workspaces m) i w, wm_tasks := map_set (wm_tasks m) (cw_task q) i\<rparr>))"

definition performCreation :: "time \<Rightarrow> workspace \<Rightarrow> workspace" where
  "performCreation now w = w\<lparr>ws_container := Some (''container-'' @ ws_id w), ws_status := Ws_Ready, ws_ready := Some now, ws_updated := now\<rparr>"

definition performDestruction :: "workspace \<Rightarrow> workspace" where
  "performDestruction w = w\<lparr>ws_container := None\<rparr>"

definition getWorkspace :: "string \<Rightarrow> workspaces \<Rightarrow> workspace option" where
  "getWorkspace i m = map_get (wm_workspaces m) i"

definition getWorkspaceForTask :: "string \<Rightarrow> workspaces \<Rightarrow> workspace option" where
  "getWorkspaceForTask t m = (if falsy (map_get (wm_tasks m) t) then None else map_get (wm_workspaces m) (the (map_get (wm_tasks m) t)))"

definition acquireLease :: "time \<Rightarrow> string \<Rightarrow> string \<Rightarrow> string \<Rightarrow> int \<Rightarrow> workspaces \<Rightarrow> (string, bool \<times> time option, workspaces) outcome" where
  "acquireLease now i run own duration m = (case map_get (wm_workspaces m) i of
     None \<Rightarrow> throw (''Workspace '' @ i @ '' not found'') m
   | Some w \<Rightarrow>
       if ws_status w \<noteq> Ws_Ready then return (False, None) m
       else if \<not> falsy (ws_owner w) \<and> (case ws_expires w of Some e \<Rightarrow> e > now | None \<Rightarrow> False) then return (False, None) m
       else return (True, Some (now + duration)) (change_workspace i (\<lambda>w. w\<lparr>ws_status := Ws_In_Use, ws_run := Some run,
         ws_owner := Some own, ws_expires := Some (now + duration), ws_updated := now\<rparr>) m))"

definition releaseLease :: "time \<Rightarrow> string \<Rightarrow> workspaces \<Rightarrow> workspaces" where
  "releaseLease now i m = change_workspace i (\<lambda>w. w\<lparr>ws_status := Ws_Ready, ws_run := None, ws_owner := None, ws_expires := None, ws_updated := now\<rparr>) m"

definition preserved_artifacts :: "time \<Rightarrow> reset_workspace \<Rightarrow> (string \<times> string) list" where
  "preserved_artifacts now q = (if rw_preserve q = Some True \<and> rw_paths q \<noteq> None
     then map (\<lambda>p. (p, ''artifact-'' @ show_int now @ ''-'' @ map (\<lambda>c. if c = CHR 0x2F then CHR 0x5F else c) p)) (the (rw_paths q)) else [])"

definition reset_start :: "time \<Rightarrow> reset_workspace \<Rightarrow> workspaces \<Rightarrow> (string, string option \<times> (string \<times> string) list, workspaces) outcome" where
  "reset_start now q m = (case map_get (wm_workspaces m) (rw_id q) of
     None \<Rightarrow> throw (''Workspace '' @ rw_id q @ '' not found'') m
   | Some w \<Rightarrow>
       if rw_risk q \<noteq> High \<and> rw_reason q = Rs_High_Risk then throw ''High-risk reset only allowed for high risk level tasks'' m
       else return (ws_container w, preserved_artifacts now q)
         (change_workspace (rw_id q) (\<lambda>w. w\<lparr>ws_status := Ws_Resetting, ws_updated := now\<rparr>) m))"

definition reset_end :: "time \<Rightarrow> reset_workspace \<Rightarrow> string option \<Rightarrow> (string \<times> string) list \<Rightarrow> workspaces \<Rightarrow> reset_outcome \<times> workspaces" where
  "reset_end now q old kept m = (let m = change_workspace (rw_id q) (performCreation now) m;
     m = change_workspace (rw_id q) (\<lambda>w. w\<lparr>ws_status := Ws_Ready, ws_resets := ws_resets w + 1,
       ws_reset_reason := Some (reset_reason_text (rw_reason q)), ws_updated := now\<rparr>) m in
     (\<lparr>rr_id = rw_id q, rr_old = old, rr_new = Option.bind (map_get (wm_workspaces m) (rw_id q)) ws_container, rr_at = now,
       rr_reason = reset_reason_text (rw_reason q), rr_preserved = (if kept = [] then None else Some kept)\<rparr>, m))"

definition destroy_start :: "time \<Rightarrow> string \<Rightarrow> workspaces \<Rightarrow> workspaces" where
  "destroy_start now i m = change_workspace i (\<lambda>w. w\<lparr>ws_status := Ws_Destroying, ws_updated := now\<rparr>) m"

definition destroy_end :: "time \<Rightarrow> string \<Rightarrow> workspaces \<Rightarrow> workspaces" where
  "destroy_end now i m = (case map_get (wm_workspaces m) i of None \<Rightarrow> m
     | Some w \<Rightarrow> let m = change_workspace i performDestruction m;
         m = change_workspace i (\<lambda>w. w\<lparr>ws_status := Ws_Destroyed, ws_destroyed := Some now, ws_updated := now\<rparr>) m in
         m\<lparr>wm_tasks := map_delete (wm_tasks m) (ws_task w)\<rparr>)"

text \<open>The calls that nothing else comes between.\<close>

definition createWorkspace :: "time \<Rightarrow> create_workspace \<Rightarrow> workspaces \<Rightarrow> workspace option \<times> workspaces" where
  "createWorkspace now q m = (let (i, m) = create_start now q m; m = change_workspace i (performCreation now) m in (map_get (wm_workspaces m) i, m))"

definition resetWorkspace :: "time \<Rightarrow> reset_workspace \<Rightarrow> workspaces \<Rightarrow> (string, reset_outcome, workspaces) outcome" where
  "resetWorkspace now q m = (case reset_start now q m of (Inl e, m) \<Rightarrow> (Inl e, m)
     | (Inr (old, kept), m) \<Rightarrow> (let m = change_workspace (rw_id q) performDestruction m; (r, m) = reset_end now q old kept m in return r m))"

definition destroyWorkspace :: "time \<Rightarrow> string \<Rightarrow> workspaces \<Rightarrow> workspaces" where
  "destroyWorkspace now i m = (case map_get (wm_workspaces m) i of None \<Rightarrow> m | Some w \<Rightarrow> destroy_end now i (destroy_start now i m))"

definition orphaned :: "time \<Rightarrow> int \<Rightarrow> workspace \<Rightarrow> bool" where
  "orphaned now maxAge w = ((ws_status w = Ws_In_Use \<and> (case ws_expires w of Some e \<Rightarrow> e < now - maxAge | None \<Rightarrow> False)) \<or>
     (ws_status w = Ws_Ready \<and> \<not> falsy (ws_owner w) \<and> (case ws_expires w of Some e \<Rightarrow> e < now - maxAge | None \<Rightarrow> False)))"

definition cleanupOrphaned :: "time \<Rightarrow> int \<Rightarrow> workspaces \<Rightarrow> string list \<times> workspaces" where
  "cleanupOrphaned now maxAge m = foldl (\<lambda>(ids, m) i. case map_get (wm_workspaces m) i of
       Some w \<Rightarrow> if orphaned now maxAge w then (ids @ [i], destroyWorkspace now i m) else (ids, m)
     | None \<Rightarrow> (ids, m)) ([], m) (map fst (wm_workspaces m))"

definition listWorkspaces :: "workspace_status option \<Rightarrow> workspaces \<Rightarrow> workspace list" where
  "listWorkspaces st m = (case st of None \<Rightarrow> map_values (wm_workspaces m) | Some s \<Rightarrow> filter (\<lambda>w. ws_status w = s) (map_values (wm_workspaces m)))"

definition shouldResetForRisk :: "risk_level \<Rightarrow> risk_level option \<Rightarrow> bool \<Rightarrow> bool" where
  "shouldResetForRisk risk previous contaminated = (if contaminated then True else risk = High \<and> previous \<noteq> Some High)"

subsection \<open>Calls that overlap\<close>

datatype continuation = K_Created string | K_Emptied reset_workspace "string option" "(string \<times> string) list"
  | K_Recreated reset_workspace "string option" "(string \<times> string) list" | K_Destroyed string

record workspace_loop =
  lp_manager :: workspaces
  lp_pending :: "continuation list"

fun resume :: "time \<Rightarrow> continuation \<Rightarrow> workspaces \<Rightarrow> workspaces \<times> continuation list" where
  "resume now (K_Created i) m = (change_workspace i (performCreation now) m, [])"
| "resume now (K_Emptied q old kept) m = (change_workspace (rw_id q) performDestruction m, [K_Recreated q old kept])"
| "resume now (K_Recreated q old kept) m = (snd (reset_end now q old kept m), [])"
| "resume now (K_Destroyed i) m = (destroy_end now i m, [])"

datatype loop_label = L_Create string | L_Acquire string bool | L_Release string | L_Reset string | L_Destroy string | L_Resume

inductive loop_step :: "time \<Rightarrow> loop_label \<Rightarrow> workspace_loop \<Rightarrow> workspace_loop \<Rightarrow> bool" where
  ls_create: "create_start now q (lp_manager l) = (i, m) \<Longrightarrow> loop_step now (L_Create i) l \<lparr>lp_manager = m, lp_pending = K_Created i # lp_pending l\<rparr>"
| ls_acquire: "acquireLease now i run own d (lp_manager l) = (Inr (ok, e), m) \<Longrightarrow> loop_step now (L_Acquire i ok) l (l\<lparr>lp_manager := m\<rparr>)"
| ls_release: "loop_step now (L_Release i) l (l\<lparr>lp_manager := releaseLease now i (lp_manager l)\<rparr>)"
| ls_reset: "reset_start now q (lp_manager l) = (Inr (old, kept), m) \<Longrightarrow>
    loop_step now (L_Reset (rw_id q)) l \<lparr>lp_manager = m, lp_pending = K_Emptied q old kept # lp_pending l\<rparr>"
| ls_destroy: "map_get (wm_workspaces (lp_manager l)) i \<noteq> None \<Longrightarrow>
    loop_step now (L_Destroy i) l \<lparr>lp_manager = destroy_start now i (lp_manager l), lp_pending = K_Destroyed i # lp_pending l\<rparr>"
| ls_resume: "lp_pending l = as @ k # bs \<Longrightarrow> resume now k (lp_manager l) = (m, ks) \<Longrightarrow>
    loop_step now L_Resume l \<lparr>lp_manager = m, lp_pending = as @ ks @ bs\<rparr>"

inductive loop_path :: "(time \<times> loop_label) list \<Rightarrow> workspace_loop \<Rightarrow> workspace_loop \<Rightarrow> bool" where
  lp_nil: "loop_path [] l l"
| lp_cons: "loop_step t b l l' \<Longrightarrow> loop_path ls l' l'' \<Longrightarrow> loop_path ((t, b) # ls) l l''"

inductive_simps loop_path_simps [simp]: "loop_path [] l l'" "loop_path (x # ls) l l'"

definition start_loop :: workspace_loop where
  "start_loop = \<lparr>lp_manager = no_workspaces, lp_pending = []\<rparr>"

subsection \<open>The invariant\<close>

lemma show_nat_no_dash: "CHR ''-'' \<notin> set (show_nat n)"
  by (auto dest: show_nat_digits)

text \<open>After the epoch the task can be read off the identifier of its workspace.\<close>

lemma workspace_name_task:
  assumes "workspace_name t now = workspace_name t' now'" "0 \<le> now" "0 \<le> now'"
  shows "t = t'"
proof -
  have e: "t @ CHR ''-'' # show_nat (nat now) = t' @ CHR ''-'' # show_nat (nat now')"
    using assms by (simp add: workspace_name_def show_int_def)
  have "takeWhile (\<lambda>c. c \<noteq> CHR ''-'') (rev (u @ CHR ''-'' # show_nat n)) = rev (show_nat n)" for u n
    using show_nat_no_dash [of n] by simp (subst takeWhile_append2, auto)
  from this [of t "nat now"] this [of t' "nat now'"] e have "show_nat (nat now) = show_nat (nat now')" by simp
  then show ?thesis using e by simp
qed

lemma change_get: "map_get (wm_workspaces (change_workspace i f m)) j = (if j = i then map_option f (map_get (wm_workspaces m) i) else map_get (wm_workspaces m) j)"
  by (auto simp: change_workspace_def jm.lookup_store split: option.splits)

lemma change_tasks [simp]: "wm_tasks (change_workspace i f m) = wm_tasks m"
  by (simp add: change_workspace_def split: option.splits)

definition workspace_ok :: "string \<Rightarrow> workspace \<Rightarrow> bool" where
  "workspace_ok i w = (ws_id w = i \<and> wc_id (ws_config w) = i \<and> wc_task (ws_config w) = ws_task w \<and>
     (ws_container w = None \<or> ws_container w = Some (''container-'' @ i)) \<and>
     (ws_status w = Ws_In_Use \<longrightarrow> ws_owner w \<noteq> None \<and> ws_run w \<noteq> None \<and> ws_expires w \<noteq> None))"

definition workspaces_ok :: "workspaces \<Rightarrow> bool" where
  "workspaces_ok m = ((\<forall>i w. map_get (wm_workspaces m) i = Some w \<longrightarrow> workspace_ok i w) \<and>
     (\<forall>t i. map_get (wm_tasks m) t = Some i \<longrightarrow> (\<exists>w. map_get (wm_workspaces m) i = Some w \<and> ws_task w = t)) \<and>
     (\<forall>i w. map_get (wm_workspaces m) i = Some w \<longrightarrow> (\<exists>now \<ge> 0. i = workspace_name (ws_task w) now)))"

lemma workspaces_okD:
  assumes "workspaces_ok m"
  shows "map_get (wm_workspaces m) i = Some w \<Longrightarrow> workspace_ok i w"
    "map_get (wm_tasks m) t = Some i \<Longrightarrow> \<exists>w. map_get (wm_workspaces m) i = Some w \<and> ws_task w = t"
    "map_get (wm_workspaces m) i = Some w \<Longrightarrow> \<exists>now \<ge> 0. i = workspace_name (ws_task w) now"
  using assms by (simp_all add: workspaces_ok_def)

lemma workspaces_okI:
  assumes "\<And>i w. map_get (wm_workspaces m) i = Some w \<Longrightarrow> workspace_ok i w \<and> (\<exists>now \<ge> 0. i = workspace_name (ws_task w) now)"
    "\<And>t i. map_get (wm_tasks m) t = Some i \<Longrightarrow> \<exists>w. map_get (wm_workspaces m) i = Some w \<and> ws_task w = t"
  shows "workspaces_ok m"
  using assms by (simp add: workspaces_ok_def)

lemma change_ok:
  assumes "workspaces_ok m" "\<And>w. workspace_ok i w \<Longrightarrow> workspace_ok i (f w) \<and> ws_task (f w) = ws_task w"
  shows "workspaces_ok (change_workspace i f m)"
proof (rule workspaces_okI)
  fix j w
  assume "map_get (wm_workspaces (change_workspace i f m)) j = Some w"
  then consider "j \<noteq> i" "map_get (wm_workspaces m) j = Some w" | v where "j = i" "map_get (wm_workspaces m) i = Some v" "w = f v"
    by (auto simp: change_get split: if_splits)
  then show "workspace_ok j w \<and> (\<exists>now \<ge> 0. j = workspace_name (ws_task w) now)"
    using workspaces_okD(1,3) [OF assms(1)] assms(2) by cases (blast, metis)
next
  fix t j
  assume "map_get (wm_tasks (change_workspace i f m)) t = Some j"
  then obtain w where w: "map_get (wm_workspaces m) j = Some w" "ws_task w = t" using workspaces_okD(2) [OF assms(1)] by auto
  then show "\<exists>w. map_get (wm_workspaces (change_workspace i f m)) j = Some w \<and> ws_task w = t"
    using assms(2) [OF workspaces_okD(1) [OF assms(1)], of w] by (auto simp: change_get)
qed

lemma destroy_end_ok: "workspaces_ok m \<Longrightarrow> workspaces_ok (destroy_end now i m)"
proof -
  assume m: "workspaces_ok m"
  let ?m = "change_workspace i (\<lambda>w. w\<lparr>ws_status := Ws_Destroyed, ws_destroyed := Some now, ws_updated := now\<rparr>) (change_workspace i performDestruction m)"
  have "workspaces_ok ?m" using m by (auto simp: workspace_ok_def performDestruction_def intro!: change_ok)
  then have "workspaces_ok (?m\<lparr>wm_tasks := map_delete (wm_tasks ?m) t\<rparr>)" for t by (auto simp: workspaces_ok_def jm.lookup_remove)
  then show ?thesis using m by (simp add: destroy_end_def Let_def split: option.splits)
qed

lemma reset_end_ok: "workspaces_ok m \<Longrightarrow> workspaces_ok (snd (reset_end now q old kept m))"
  by (auto simp: reset_end_def Let_def workspace_ok_def performCreation_def intro!: change_ok)

lemma loop_step_ok: "loop_step t b l l' \<Longrightarrow> 0 \<le> t \<Longrightarrow> workspaces_ok (lp_manager l) \<Longrightarrow> workspaces_ok (lp_manager l')"
proof (induction rule: loop_step.induct)
  case (ls_create now q l i m)
  define w where "w = the (map_get (wm_workspaces m) i)"
  have i: "i = workspace_name (cw_task q) now" and m: "wm_workspaces m = map_set (wm_workspaces (lp_manager l)) i w"
    "wm_tasks m = map_set (wm_tasks (lp_manager l)) (cw_task q) i" and w: "workspace_ok i w" "ws_task w = cw_task q"
    using ls_create(1) by (auto simp: create_start_def Let_def w_def workspace_ok_def)
  have t: "ws_task v = cw_task q" if v: "map_get (wm_workspaces (lp_manager l)) i = Some v" for v
  proof -
    obtain n where "0 \<le> n" "i = workspace_name (ws_task v) n" using workspaces_okD(3) [OF ls_create(3) v] by blast
    then show ?thesis using workspace_name_task [of "ws_task v" n "cw_task q" now] i ls_create(2) by simp
  qed
  have o: "workspaces_ok (lp_manager l)" by (fact ls_create(3))
  have "workspace_ok j v" if "map_get (wm_workspaces m) j = Some v" for j v
    using that workspaces_okD(1) [OF o] w by (auto simp: m jm.lookup_store split: if_splits)
  moreover have "\<exists>n \<ge> 0. j = workspace_name (ws_task v) n" if "map_get (wm_workspaces m) j = Some v" for j v
    using that workspaces_okD(3) [OF o] w i ls_create(2) by (auto simp: m jm.lookup_store split: if_splits)
  moreover have "\<exists>v. map_get (wm_workspaces m) j = Some v \<and> ws_task v = u" if "map_get (wm_tasks m) u = Some j" for u j
  proof (cases "j = i")
    case True
    have "u = cw_task q"
    proof (rule ccontr)
      assume n: "u \<noteq> cw_task q"
      then have "map_get (wm_tasks (lp_manager l)) u = Some i" using that True by (simp add: m jm.lookup_store)
      then show False using workspaces_okD(2) [OF o] t n by blast
    qed
    then show ?thesis using True w by (simp add: m)
  next
    case False
    then have "map_get (wm_tasks (lp_manager l)) u = Some j" using that by (auto simp: m jm.lookup_store split: if_splits)
    then show ?thesis using workspaces_okD(2) [OF o] False by (simp add: m jm.lookup_store)
  qed
  ultimately have "workspaces_ok m" by (intro workspaces_okI) blast+
  then show ?case by simp
next
  case (ls_resume l as k bs now m ks)
  then show ?case using reset_end_ok destroy_end_ok
    by (cases k) (auto simp: workspace_ok_def performCreation_def performDestruction_def intro!: change_ok)
qed (auto simp: acquireLease_def releaseLease_def reset_start_def destroy_start_def return_def throw_def workspace_ok_def split: option.splits if_splits intro!: change_ok)

text \<open>However the calls overlap: a task is mapped to a workspace of its own, a workspace in use has a lease, and a container bears the name of its workspace.\<close>

theorem workspace_books_sound:
  assumes "loop_path ls start_loop l" "\<forall>x \<in> set ls. 0 \<le> fst x" "map_get (wm_tasks (lp_manager l)) t = Some i"
  shows "\<exists>w. map_get (wm_workspaces (lp_manager l)) i = Some w \<and> ws_id w = i \<and> ws_task w = t \<and>
    (ws_container w = None \<or> ws_container w = Some (''container-'' @ i)) \<and> (ws_status w = Ws_In_Use \<longrightarrow> ws_owner w \<noteq> None \<and> ws_expires w \<noteq> None)"
proof -
  have "loop_path ls k l \<Longrightarrow> \<forall>x \<in> set ls. 0 \<le> fst x \<Longrightarrow> workspaces_ok (lp_manager k) \<Longrightarrow> workspaces_ok (lp_manager l)" for ls k l
    by (induction rule: loop_path.induct) (auto dest: loop_step_ok)
  from this [OF assms(1,2)] have "workspaces_ok (lp_manager l)" by (simp add: start_loop_def no_workspaces_def workspaces_ok_def)
  then show ?thesis using assms(3) by (fastforce simp: workspaces_ok_def workspace_ok_def)
qed

definition sample_workspace :: create_workspace where
  "sample_workspace = \<lparr>cw_task = ''t'', cw_kind = Container, cw_reusable = None, cw_image = None, cw_directory = None, cw_environment = None,
     cw_secrets = None, cw_mounts = None, cw_isolation = None, cw_limits = None\<rparr>"

definition created_loop :: workspace_loop where
  "created_loop = \<lparr>lp_manager = snd (create_start 5 sample_workspace no_workspaces), lp_pending = [K_Created (workspace_name ''t'' 5)]\<rparr>"

lemma created_path: "loop_path [(5, L_Create (workspace_name ''t'' 5))] start_loop created_loop"
proof -
  have "create_start 5 sample_workspace (lp_manager start_loop) = (workspace_name ''t'' 5, lp_manager created_loop)"
    by (simp add: create_start_def created_loop_def start_loop_def sample_workspace_def Let_def)
  from ls_create [OF this] show ?thesis by (simp add: created_loop_def start_loop_def)
qed

lemma workspace_books_sound_witness:
  "\<exists>w. map_get (wm_workspaces (lp_manager created_loop)) (workspace_name ''t'' 5) = Some w \<and> ws_task w = ''t''"
  using workspace_books_sound [OF created_path, of "''t''" "workspace_name ''t'' 5"]
  by (auto simp: created_loop_def create_start_def sample_workspace_def no_workspaces_def Let_def)

subsection \<open>Leases\<close>

definition leased_to :: "string \<Rightarrow> string \<Rightarrow> time \<Rightarrow> workspaces \<Rightarrow> bool" where
  "leased_to i own e m = (\<exists>w. map_get (wm_workspaces m) i = Some w \<and> ws_owner w = Some own \<and> ws_expires w = Some e)"

lemma leased_change:
  assumes "leased_to i own e m" "\<And>w. ws_owner (f w) = ws_owner w \<and> ws_expires (f w) = ws_expires w"
  shows "leased_to i own e (change_workspace j f m)"
  using assms by (auto simp: leased_to_def change_get)

lemma leased_step:
  assumes "loop_step t b l l'" "leased_to i own e (lp_manager l)" "own \<noteq> []" "t < e" "b \<noteq> L_Release i" "b \<noteq> L_Create i"
  shows "leased_to i own e (lp_manager l') \<and> b \<noteq> L_Acquire i True"
  using assms
proof (induction rule: loop_step.induct)
  case (ls_create now q l j m)
  then show ?case by (auto simp: create_start_def Let_def leased_to_def jm.lookup_store)
next
  case (ls_acquire now j run own' d l ok ex m)
  then show ?case by (auto simp: acquireLease_def leased_to_def return_def throw_def change_get split: option.splits if_splits)
next
  case (ls_release now j l)
  then show ?case by (auto simp: releaseLease_def leased_to_def change_get)
next
  case (ls_reset now q l old kept m)
  then show ?case by (auto simp: reset_start_def return_def throw_def intro!: leased_change split: option.splits if_splits)
next
  case (ls_destroy l j now)
  then show ?case by (auto simp: destroy_start_def intro!: leased_change)
next
  case (ls_resume l as k bs now m ks)
  have t: "leased_to i own e (m\<lparr>wm_tasks := x\<rparr>) = leased_to i own e m" for m x by (simp add: leased_to_def)
  show ?case using ls_resume
    by (cases k) (auto simp: destroy_end_def reset_end_def Let_def performCreation_def performDestruction_def t intro!: leased_change split: option.splits)
qed

text \<open>C17. While a lease has not run out nobody else gets the workspace, whatever is reset, destroyed or resumed in the meantime, unless somebody releases it.\<close>

theorem workspace_lease_exclusive:
  assumes "loop_path ls l l'" "leased_to i own e (lp_manager l)" "own \<noteq> []"
    "\<forall>(t, b) \<in> set ls. t < e \<and> b \<noteq> L_Release i \<and> b \<noteq> L_Create i"
  shows "leased_to i own e (lp_manager l') \<and> (t, L_Acquire i True) \<notin> set ls"
  using assms
proof (induction rule: loop_path.induct)
  case (lp_cons u b l l' ls l'')
  then show ?case using leased_step [OF lp_cons(1) lp_cons(4,5)] by auto
qed simp

definition leased_loop :: workspace_loop where
  "leased_loop = \<lparr>lp_manager = snd (acquireLease 6 (workspace_name ''t'' 5) ''run'' ''owner'' 1000 (snd (createWorkspace 5 sample_workspace no_workspaces))),
     lp_pending = []\<rparr>"

lemma leased_loop_facts: "leased_to (workspace_name ''t'' 5) ''owner'' 1006 (lp_manager leased_loop)"
  "loop_path [(7, L_Destroy (workspace_name ''t'' 5))] leased_loop
     \<lparr>lp_manager = destroy_start 7 (workspace_name ''t'' 5) (lp_manager leased_loop), lp_pending = [K_Destroyed (workspace_name ''t'' 5)]\<rparr>"
proof -
  show l: "leased_to (workspace_name ''t'' 5) ''owner'' 1006 (lp_manager leased_loop)"
    by (simp add: leased_to_def leased_loop_def createWorkspace_def create_start_def acquireLease_def performCreation_def sample_workspace_def
        no_workspaces_def return_def Let_def change_workspace_def)
  then have "map_get (wm_workspaces (lp_manager leased_loop)) (workspace_name ''t'' 5) \<noteq> None" by (auto simp: leased_to_def)
  from ls_destroy [OF this] show "loop_path [(7, L_Destroy (workspace_name ''t'' 5))] leased_loop
     \<lparr>lp_manager = destroy_start 7 (workspace_name ''t'' 5) (lp_manager leased_loop), lp_pending = [K_Destroyed (workspace_name ''t'' 5)]\<rparr>"
    by (simp add: leased_loop_def)
qed

lemma workspace_lease_exclusive_witness:
  "(8, L_Acquire (workspace_name ''t'' 5) True) \<notin> set [(7, L_Destroy (workspace_name ''t'' 5))]"
  using workspace_lease_exclusive [OF leased_loop_facts(2,1), of 8] by simp

subsection \<open>Where the manager goes astray\<close>

text \<open>A workspace in use is not given out again when its lease has run out; only a release or the cleanup ends the use.\<close>

lemma expired_lease_stays: "map_get (wm_workspaces m) i = Some w \<Longrightarrow> ws_status w = Ws_In_Use \<Longrightarrow> acquireLease now i run own d m = (Inr (False, None), m)"
  by (simp add: acquireLease_def return_def)

text \<open>Releasing a workspace that has been destroyed makes it ready again: the next request gets a lease on it, and there is no container.\<close>

theorem release_revives_destroyed:
  assumes "map_get (wm_workspaces m) i = Some w"
  shows "map_option ws_status (getWorkspace i (destroyWorkspace t1 i m)) = Some Ws_Destroyed \<and>
    fst (acquireLease t3 i run own d (releaseLease t2 i (destroyWorkspace t1 i m))) = Inr (True, Some (t3 + d)) \<and>
    Option.bind (getWorkspace i (snd (acquireLease t3 i run own d (releaseLease t2 i (destroyWorkspace t1 i m))))) ws_container = None"
  using assms by (simp add: destroyWorkspace_def destroy_start_def destroy_end_def releaseLease_def acquireLease_def getWorkspace_def
      performDestruction_def change_workspace_def return_def Let_def)

lemma release_revives_destroyed_witness:
  "fst (acquireLease 9 (workspace_name ''t'' 5) ''run'' ''owner'' 100 (releaseLease 8 (workspace_name ''t'' 5)
     (destroyWorkspace 7 (workspace_name ''t'' 5) (lp_manager created_loop)))) = Inr (True, Some 109)"
proof -
  obtain w where "map_get (wm_workspaces (lp_manager created_loop)) (workspace_name ''t'' 5) = Some w"
    by (auto simp: created_loop_def create_start_def sample_workspace_def no_workspaces_def Let_def)
  from release_revives_destroyed [OF this] show ?thesis by simp
qed

text \<open>Destroying an older workspace of a task makes the task lose its newer one.\<close>

theorem destroy_forgets_successor:
  assumes "workspace_name (cw_task q) t1 \<noteq> workspace_name (cw_task q) t2"
  shows "getWorkspaceForTask (cw_task q) (destroyWorkspace t3 (workspace_name (cw_task q) t1) (snd (createWorkspace t2 q (snd (createWorkspace t1 q m))))) = None \<and>
    map_option ws_status (getWorkspace (workspace_name (cw_task q) t2)
      (destroyWorkspace t3 (workspace_name (cw_task q) t1) (snd (createWorkspace t2 q (snd (createWorkspace t1 q m)))))) = Some Ws_Ready"
  using assms by (simp add: createWorkspace_def create_start_def destroyWorkspace_def destroy_start_def destroy_end_def getWorkspaceForTask_def getWorkspace_def
      performCreation_def performDestruction_def change_workspace_def Let_def)

lemma destroy_forgets_successor_witness:
  "getWorkspaceForTask ''t'' (destroyWorkspace 9 (workspace_name ''t'' 5) (snd (createWorkspace 6 sample_workspace (snd (createWorkspace 5 sample_workspace no_workspaces))))) = None"
proof -
  have "workspace_name ''t'' 5 \<noteq> workspace_name ''t'' 6" by (simp add: workspace_name_def show_int_def show_nat.simps)
  then show ?thesis using destroy_forgets_successor [of sample_workspace 5 6 9 no_workspaces] by (simp add: sample_workspace_def)
qed

text \<open>A reset gives the new container the name of the old one.\<close>

lemma reset_keeps_container:
  assumes "map_get (wm_workspaces m) (rw_id q) = Some w" "ws_id w = rw_id q" "resetWorkspace now q m = (Inr r, m')"
  shows "rr_new r = Some (''container-'' @ rw_id q) \<and> rr_old r = ws_container w"
  using assms by (auto simp: resetWorkspace_def reset_start_def reset_end_def performCreation_def performDestruction_def change_workspace_def
      return_def throw_def Let_def split: if_splits)

end
