(* ===== verification/Model_Gateway.thy ===== *)
theory Model_Gateway
  imports Core_Types Paths
begin

text \<open>
  The client of the model gateway: \<open>src/src/domain/litellm/litellm-connector.ts\<close> (fallback, usage, streams), the
  normalisation of errors in \<open>openai-compatible-error.ts\<close> and \<open>litellm-failure-handler.ts\<close> beside it. What \<open>fetch\<close> and the parsing of its
  answer give is an argument on a state \<open>'w\<close> of the outside world. The answers for the test environment, and fields that are only passed on, are left out.
\<close>

subsection \<open>Errors\<close>

text \<open>A thrown value is an \<open>Error\<close> (its name, whether it is a \<open>SyntaxError\<close>, its message) or anything else, as text.\<close>

datatype thrown = Thrown_Error string bool string | Thrown_Other string

definition new_error :: "string \<Rightarrow> thrown" where
  "new_error m = Thrown_Error ''Error'' False m"

definition PREFIX :: string where
  "PREFIX = ''OPENAI_COMPATIBLE_''"

text \<open>The pattern \<open>\b5\d\d\b\<close>: a number of three digits that begins with 5, between characters that are not word characters.\<close>

definition is_digit :: "char \<Rightarrow> bool" where
  "is_digit c = (let n = of_char c :: nat in 48 \<le> n \<and> n \<le> 57)"

definition word_char :: "char \<Rightarrow> bool" where
  "word_char c = (let n = of_char c :: nat in is_digit c \<or> (65 \<le> n \<and> n \<le> 90) \<or> (97 \<le> n \<and> n \<le> 122) \<or> n = 95)"

fun five_hundred_from :: "bool \<Rightarrow> string \<Rightarrow> bool" where
  "five_hundred_from in_word (a # b # c # s) = ((\<not> in_word \<and> a = CHR ''5'' \<and> is_digit b \<and> is_digit c \<and> (case s of [] \<Rightarrow> True | d # _ \<Rightarrow> \<not> word_char d)) \<or>
     five_hundred_from (word_char a) (b # c # s))"
| "five_hundred_from in_word _ = False"

definition normalizeOpenAICompatibleError :: "thrown \<Rightarrow> thrown" where
  "normalizeOpenAICompatibleError e = (
     let message = (case e of Thrown_Error _ _ m \<Rightarrow> m | Thrown_Other s \<Rightarrow> s) in
     if starts_with message PREFIX then (case e of Thrown_Error _ _ _ \<Rightarrow> e | Thrown_Other _ \<Rightarrow> new_error message)
     else let lower = to_lower message; has = js_includes lower in
       if (case e of Thrown_Error n _ _ \<Rightarrow> n = ''AbortError'' | _ \<Rightarrow> False) \<or> has ''timeout'' \<or> has ''timed out'' then new_error (PREFIX @ ''TIMEOUT'')
       else if (case e of Thrown_Error _ syn _ \<Rightarrow> syn | _ \<Rightarrow> False) \<or> has ''invalid json'' \<or> has ''unexpected token'' then new_error (PREFIX @ ''INVALID_JSON'')
       else if has ''empty choices'' \<or> has ''missing choices'' then new_error (PREFIX @ ''EMPTY_CHOICES'')
       else if has ''401'' \<or> has ''403'' \<or> has ''unauthorized'' \<or> has ''forbidden'' then new_error (PREFIX @ ''AUTH_FAILED'')
       else if has ''404'' \<or> has ''model not found'' \<or> has ''does not exist'' then new_error (PREFIX @ ''MODEL_NOT_FOUND'')
       else if has ''context'' \<or> has ''maximum tokens'' \<or> has ''too many tokens'' then new_error (PREFIX @ ''CONTEXT_LENGTH_EXCEEDED'')
       else if five_hundred_from False lower \<or> has ''server error'' then new_error (PREFIX @ ''UPSTREAM_5XX'')
       else new_error (PREFIX @ ''REQUEST_FAILED''))"

datatype gateway_error_type = Ge_Auth | Ge_Rate_Limit | Ge_Model_Not_Found | Ge_Context_Length | Ge_Content_Filter | Ge_Internal

fun gateway_error_text :: "gateway_error_type \<Rightarrow> string" where
  "gateway_error_text Ge_Auth = ''auth_error''"
| "gateway_error_text Ge_Rate_Limit = ''rate_limit''"
| "gateway_error_text Ge_Model_Not_Found = ''model_not_found''"
| "gateway_error_text Ge_Context_Length = ''context_length''"
| "gateway_error_text Ge_Content_Filter = ''content_filter''"
| "gateway_error_text Ge_Internal = ''internal_error''"

record gateway_error =
  ge_type :: gateway_error_type
  ge_message :: string
  ge_retryable :: bool

definition parseError :: "thrown \<Rightarrow> gateway_error" where
  "parseError e = (case e of Thrown_Other _ \<Rightarrow> \<lparr>ge_type = Ge_Internal, ge_message = ''Unknown error'', ge_retryable = False\<rparr>
   | Thrown_Error _ _ m \<Rightarrow> (let has = js_includes (to_lower m) in
       if has ''auth_failed'' \<or> has ''401'' \<or> has ''403'' \<or> has ''unauthorized'' then \<lparr>ge_type = Ge_Auth, ge_message = m, ge_retryable = False\<rparr>
       else if has ''429'' \<or> has ''rate limit'' then \<lparr>ge_type = Ge_Rate_Limit, ge_message = m, ge_retryable = True\<rparr>
       else if has ''model_not_found'' \<or> has ''404'' \<or> has ''not found'' \<or> has ''does not exist'' then \<lparr>ge_type = Ge_Model_Not_Found, ge_message = m, ge_retryable = False\<rparr>
       else if has ''context_length_exceeded'' \<or> has ''context'' \<or> has ''token'' then \<lparr>ge_type = Ge_Context_Length, ge_message = m, ge_retryable = False\<rparr>
       else if has ''content filter'' then \<lparr>ge_type = Ge_Content_Filter, ge_message = m, ge_retryable = False\<rparr>
       else if has ''invalid_json'' \<or> has ''empty_choices'' then \<lparr>ge_type = Ge_Internal, ge_message = m, ge_retryable = False\<rparr>
       else if has ''timeout'' \<or> has ''upstream_5xx'' then \<lparr>ge_type = Ge_Internal, ge_message = m, ge_retryable = True\<rparr>
       else \<lparr>ge_type = Ge_Internal, ge_message = m, ge_retryable = True\<rparr>))"

subsection \<open>Requests\<close>

record gateway_config =
  gw_aliases :: "(string, string) jsmap option"
  gw_fallbacks :: "string list option"
  gw_enable_fallback :: bool

record chat_response =
  ch_id :: string
  ch_model :: string
  ch_choices :: "string option list"
  ch_prompt :: int
  ch_completion :: int
  ch_total :: int
  ch_provider :: "string option"
  ch_alias :: "string option"

text \<open>The body of an answer, before it is completed: every property may be missing, a choice may have no text.\<close>

record chat_body =
  cb_id :: "string option"
  cb_model :: "string option"
  cb_choices :: "string option list option"
  cb_prompt :: "int option"
  cb_completion :: "int option"
  cb_total :: "int option"
  cb_provider :: "string option"
  cb_alias :: "string option"

text \<open>\<open>fetch\<close> throws, or answers with an error status, its text and the messages of the body (if it can be parsed), or answers with a body or one that
  cannot be parsed.\<close>

datatype fetch_answer = Fetch_Threw thrown | Fetch_Status int string "(string option \<times> string option) option" | Fetch_Bad_Body thrown | Fetch_Body chat_body

definition response_message :: "int \<Rightarrow> string \<Rightarrow> (string option \<times> string option) option \<Rightarrow> string" where
  "response_message status statusText said = (case said of None \<Rightarrow> ''HTTP '' @ show_int status
   | Some (in_error, beside) \<Rightarrow> ''HTTP '' @ show_int status @ '': '' @ (if \<not> falsy in_error then the in_error else if \<not> falsy beside then the beside
       else if statusText \<noteq> [] then statusText else ''request failed''))"

definition createErrorFromResponse :: "int \<Rightarrow> string \<Rightarrow> (string option \<times> string option) option \<Rightarrow> thrown" where
  "createErrorFromResponse status statusText said = normalizeOpenAICompatibleError (new_error (response_message status statusText said))"

definition makeRequest :: "time \<Rightarrow> (string \<Rightarrow> 'w \<Rightarrow> fetch_answer \<times> 'w) \<Rightarrow> string \<Rightarrow> 'w \<Rightarrow> (thrown, chat_response, 'w) outcome" where
  "makeRequest now fetch model w = (case fetch model w of
     (Fetch_Threw e, w) \<Rightarrow> throw (normalizeOpenAICompatibleError e) w
   | (Fetch_Status n st said, w) \<Rightarrow> throw (createErrorFromResponse n st said) w
   | (Fetch_Bad_Body e, w) \<Rightarrow> throw (normalizeOpenAICompatibleError e) w
   | (Fetch_Body b, w) \<Rightarrow> (case cb_choices b of
       Some (Some c # cs) \<Rightarrow> return \<lparr>ch_id = (case cb_id b of Some i \<Rightarrow> i | None \<Rightarrow> ''completion-'' @ show_int now),
           ch_model = (case cb_model b of Some m \<Rightarrow> m | None \<Rightarrow> model), ch_choices = Some c # cs,
           ch_prompt = (case cb_prompt b of Some n \<Rightarrow> n | None \<Rightarrow> 0), ch_completion = (case cb_completion b of Some n \<Rightarrow> n | None \<Rightarrow> 0),
           ch_total = (case cb_total b of Some n \<Rightarrow> n | None \<Rightarrow> 0), ch_provider = cb_provider b, ch_alias = cb_alias b\<rparr> w
     | _ \<Rightarrow> throw (normalizeOpenAICompatibleError (new_error ''empty choices'')) w))"

record usage_entry =
  us_request :: string
  us_model :: string
  us_provider :: string
  us_alias :: "string option"
  us_input :: int
  us_output :: int
  us_cost :: real
  us_fallback :: bool
  us_success :: bool
  us_error :: "string option"

definition resolveModel :: "gateway_config \<Rightarrow> string \<Rightarrow> string" where
  "resolveModel c m = (case gw_aliases c of None \<Rightarrow> m | Some al \<Rightarrow> (if falsy (map_get al m) then m else the (map_get al m)))"

definition getModelsWithFallback :: "gateway_config \<Rightarrow> string \<Rightarrow> string list" where
  "getModelsWithFallback c m = [m] @ (if gw_enable_fallback c then (case gw_fallbacks c of Some fs \<Rightarrow> filter (\<lambda>f. f \<noteq> m) fs | None \<Rightarrow> []) else [])"

definition calculateCost :: "chat_response \<Rightarrow> real" where
  "calculateCost r = of_int (ch_prompt r) * (1 / 100000) + of_int (ch_completion r) * (3 / 100000)"

definition trackUsage :: "usage_entry \<Rightarrow> usage_entry list \<Rightarrow> usage_entry list" where
  "trackUsage u l = (let l = l @ [u] in if length l > 1000 then drop (length l - 1000) l else l)"

definition success_entry :: "string \<Rightarrow> string \<Rightarrow> chat_response \<Rightarrow> usage_entry" where
  "success_entry resolved model r = \<lparr>us_request = ch_id r, us_model = ch_model r, us_provider = (if falsy (ch_provider r) then ''unknown'' else the (ch_provider r)),
     us_alias = ch_alias r, us_input = ch_prompt r, us_output = ch_completion r, us_cost = calculateCost r, us_fallback = (model \<noteq> resolved),
     us_success = True, us_error = None\<rparr>"

definition failure_entry :: "time \<Rightarrow> string \<Rightarrow> gateway_error \<Rightarrow> usage_entry" where
  "failure_entry now model e = \<lparr>us_request = ''failed-'' @ show_int now, us_model = model, us_provider = ''unknown'', us_alias = None, us_input = 0,
     us_output = 0, us_cost = 0, us_fallback = False, us_success = False, us_error = Some (ge_message e)\<rparr>"

definition as_error :: "thrown \<Rightarrow> thrown" where
  "as_error e = (case e of Thrown_Error _ _ _ \<Rightarrow> e | Thrown_Other _ \<Rightarrow> new_error ''Unknown error'')"

fun try_models :: "time \<Rightarrow> (string \<Rightarrow> 'w \<Rightarrow> fetch_answer \<times> 'w) \<Rightarrow> string \<Rightarrow> string list \<Rightarrow> thrown option \<Rightarrow> 'w \<times> usage_entry list \<Rightarrow>
    (thrown, chat_response, 'w \<times> usage_entry list) outcome" where
  "try_models now fetch resolved [] last_error (w, l) = throw (case last_error of Some e \<Rightarrow> e | None \<Rightarrow> new_error ''All models failed'') (w, l)"
| "try_models now fetch resolved (m # ms) last_error (w, l) = (case makeRequest now fetch m w of
     (Inr r, w) \<Rightarrow> return r (w, trackUsage (success_entry resolved m r) l)
   | (Inl e, w) \<Rightarrow> if \<not> ge_retryable (parseError e) then throw (as_error e) (w, l)
       else try_models now fetch resolved ms (Some (as_error e)) (w, trackUsage (failure_entry now m (parseError e)) l))"

definition chatCompletion :: "time \<Rightarrow> (string \<Rightarrow> 'w \<Rightarrow> fetch_answer \<times> 'w) \<Rightarrow> gateway_config \<Rightarrow> string \<Rightarrow> 'w \<times> usage_entry list \<Rightarrow>
    (thrown, chat_response, 'w \<times> usage_entry list) outcome" where
  "chatCompletion now fetch c model s = (let resolved = resolveModel c model in
     try_models now fetch resolved (getModelsWithFallback c resolved) None s)"

subsection \<open>Statistics\<close>

record model_stats =
  md_count :: nat
  md_tokens :: int
  md_cost :: real

record usage_stats =
  ut_total :: nat
  ut_success :: nat
  ut_failed :: nat
  ut_input :: int
  ut_output :: int
  ut_cost :: real
  ut_models :: "(string, model_stats) jsmap"

definition add_usage :: "usage_stats \<Rightarrow> usage_entry \<Rightarrow> usage_stats" where
  "add_usage st u = (if us_success u
     then (let k = (if falsy (us_alias u) then us_model u else the (us_alias u));
         ms = (case map_get (ut_models st) k of Some v \<Rightarrow> v | None \<Rightarrow> \<lparr>md_count = 0, md_tokens = 0, md_cost = 0\<rparr>) in
       st\<lparr>ut_success := ut_success st + 1, ut_input := ut_input st + us_input u, ut_output := ut_output st + us_output u, ut_cost := ut_cost st + us_cost u,
         ut_models := map_set (ut_models st) k \<lparr>md_count = md_count ms + 1, md_tokens = md_tokens ms + (us_input u + us_output u), md_cost = md_cost ms + us_cost u\<rparr>\<rparr>)
     else st\<lparr>ut_failed := ut_failed st + 1\<rparr>)"

definition getUsageStats :: "usage_entry list \<Rightarrow> usage_stats" where
  "getUsageStats l = foldl add_usage \<lparr>ut_total = length l, ut_success = 0, ut_failed = 0, ut_input = 0, ut_output = 0, ut_cost = 0, ut_models = []\<rparr> l"

subsection \<open>Streams\<close>

text \<open>A stream arrives in chunks. \<open>content_of\<close> is the text \<open>JSON.parse\<close> and the path to the content give for a line, nothing if it cannot be parsed.\<close>

datatype stream_part = Delta string | Stream_Done

fun stream_lines :: "(string \<Rightarrow> string) \<Rightarrow> string list \<Rightarrow> stream_part list \<times> bool" where
  "stream_lines content_of [] = ([], False)"
| "stream_lines content_of (l # ls) = (if starts_with l ''data: ''
     then (let d = drop 6 l in if d = ''[DONE]'' then ([Stream_Done], True)
       else (let (out, stop) = stream_lines content_of ls in ((if content_of d \<noteq> [] then Delta (content_of d) # out else out), stop)))
     else stream_lines content_of ls)"

fun streamCompletion :: "(string \<Rightarrow> string) \<Rightarrow> string \<Rightarrow> string list \<Rightarrow> stream_part list" where
  "streamCompletion content_of buffer [] = []"
| "streamCompletion content_of buffer (chunk # chunks) = (let ls = split_on (\<lambda>c. c = CHR 0x0A) (buffer @ chunk);
     (out, stop) = stream_lines content_of (butlast ls) in
     if stop then out else out @ streamCompletion content_of (last ls) chunks)"

subsection \<open>Failures\<close>

record failure_record =
  fr_task :: string
  fr_job :: "string option"
  fr_error :: gateway_error
  fr_at :: time

record failure_outcome =
  fo_block :: bool
  fo_reason :: "string option"
  fo_task :: string
  fo_job :: "string option"
  fo_error :: gateway_error
  fo_model :: "string option"

definition BLOCKING_ERROR_TYPES :: "gateway_error_type list" where
  "BLOCKING_ERROR_TYPES = [Ge_Auth, Ge_Model_Not_Found, Ge_Content_Filter]"

definition handleFailure :: "time \<Rightarrow> gateway_error \<Rightarrow> string \<Rightarrow> string option \<Rightarrow> string option \<Rightarrow> failure_record list \<Rightarrow> failure_outcome \<times> failure_record list" where
  "handleFailure now e task job model l = (let l = l @ [\<lparr>fr_task = task, fr_job = job, fr_error = e, fr_at = now\<rparr>];
     l = (if length l > 100 then drop (length l - 100) l else l);
     block = (ge_type e \<in> set BLOCKING_ERROR_TYPES \<or> \<not> ge_retryable e) in
     (\<lparr>fo_block = block, fo_reason = (if block then Some (''LiteLLM error: '' @ gateway_error_text (ge_type e) @ '' - '' @ ge_message e) else None),
       fo_task = task, fo_job = job, fo_error = e, fo_model = model\<rparr>, l))"

definition createBlockedResult :: "time \<Rightarrow> worker_job \<Rightarrow> gateway_error \<Rightarrow> string option \<Rightarrow> failure_record list \<Rightarrow> worker_result \<times> failure_record list" where
  "createBlockedResult now j e model l = (let (f, l) = handleFailure now e (job_task_id j) (Some (job_id j)) model l in
     (\<lparr>result_job_id = job_id j, result_typed_ref = job_typed_ref j, result_status = S_Blocked,
       summary = Some (case fo_reason f of Some r \<Rightarrow> r | None \<Rightarrow> ''LiteLLM error: '' @ gateway_error_text (ge_type e)),
       result_patch_ref = None, result_branch_ref = None,
       result_artifacts = [\<lparr>out_artifact_id = job_id j @ ''-litellm-error'', out_kind = K_Log, out_uri = ''log://litellm/'' @ job_id j @ ''/error''\<rparr>],
       result_test_results = [], result_verdict = None, requested_escalations = [], result_retry_count = None, failure_class = None, failure_code = None,
       failure_summary = None, result_resolver_refs = None, result_external_refs = None, result_context_bundle_ref = None, result_rollback_notes = None,
       result_loop_fingerprint = None, result_side_effects = None,
       result_metadata = Some [(''litellm_error_type'', J_Str (gateway_error_text (ge_type e))), (''litellm_error_message'', J_Str (ge_message e)),
         (''litellm_retryable'', J_Bool (ge_retryable e))],
       runtime_ms = 0, exit_code = None, litellm_model = model\<rparr>, l))"

definition blocking_failures :: "failure_record list \<Rightarrow> nat" where
  "blocking_failures l = length (filter (\<lambda>f. ge_type (fr_error f) \<in> set BLOCKING_ERROR_TYPES) l)"

definition retryable_failures :: "failure_record list \<Rightarrow> nat" where
  "retryable_failures l = length (filter (\<lambda>f. ge_retryable (fr_error f)) l)"

definition failures_by_type :: "failure_record list \<Rightarrow> (string, nat) jsmap" where
  "failures_by_type l = foldl (\<lambda>m f. let k = gateway_error_text (ge_type (fr_error f)) in
     map_set m k ((case map_get m k of Some n \<Rightarrow> n | None \<Rightarrow> 0) + 1)) [] l"

subsection \<open>Which errors there are\<close>

definition CODES :: "string list" where
  "CODES = [''TIMEOUT'', ''INVALID_JSON'', ''EMPTY_CHOICES'', ''AUTH_FAILED'', ''MODEL_NOT_FOUND'', ''CONTEXT_LENGTH_EXCEEDED'', ''UPSTREAM_5XX'', ''REQUEST_FAILED'']"

lemma pick_code: "\<exists>code \<in> set [x1, x2, x3, x4, x5, x6, x7, x8].
    (if a then f x1 else if b then f x2 else if c then f x3 else if d then f x4 else if e then f x5 else if g then f x6 else if h then f x7 else f x8) = f code"
  by auto

lemma normalized_codes:
  assumes "\<not> starts_with (case e of Thrown_Error _ _ m \<Rightarrow> m | Thrown_Other s \<Rightarrow> s) PREFIX"
  shows "\<exists>code \<in> set CODES. normalizeOpenAICompatibleError e = new_error (PREFIX @ code)"
  unfolding normalizeOpenAICompatibleError_def Let_def CODES_def if_not_P [OF assms] by (rule pick_code)

lemma lower_below: "ascii_lower c = d \<Longrightarrow> (of_char d :: nat) < 97 \<Longrightarrow> c = d"
  by (auto simp: ascii_lower_def Let_def split: if_splits)

lemma code_chars: "code \<in> set CODES \<Longrightarrow> CHR '' '' \<notin> set (PREFIX @ code) \<and> CHR ''4'' \<notin> set (PREFIX @ code)"
  by (auto simp: CODES_def PREFIX_def)

lemma lower_misses:
  assumes "d \<in> set t" "(of_char d :: nat) < 97" "d \<notin> set u"
  shows "\<not> js_includes (to_lower u) t"
proof
  assume "js_includes (to_lower u) t"
  then have "set t \<subseteq> set (to_lower u)" unfolding js_includes_iff by (rule set_mono_sublist)
  then obtain c where "c \<in> set u" "d = ascii_lower c" using assms(1) unfolding to_lower_def set_map by blast
  then show False using lower_below [of c d] assms(2,3) by simp
qed

lemma not_in_code:
  assumes "code \<in> set CODES"
  shows "\<not> js_includes (to_lower (PREFIX @ code)) ''429''" "\<not> js_includes (to_lower (PREFIX @ code)) ''rate limit''"
    "\<not> js_includes (to_lower (PREFIX @ code)) ''content filter''"
proof -
  note c = code_chars [OF assms]
  show "\<not> js_includes (to_lower (PREFIX @ code)) ''429''" by (rule lower_misses [OF _ _ c [THEN conjunct2]]) simp_all
  show "\<not> js_includes (to_lower (PREFIX @ code)) ''rate limit''" by (rule lower_misses [OF _ _ c [THEN conjunct1]]) simp_all
  show "\<not> js_includes (to_lower (PREFIX @ code)) ''content filter''" by (rule lower_misses [OF _ _ c [THEN conjunct1]]) simp_all
qed

lemma parseError_kinds:
  assumes "\<not> js_includes (to_lower m) ''429''" "\<not> js_includes (to_lower m) ''rate limit''" "\<not> js_includes (to_lower m) ''content filter''"
  shows "ge_type (parseError (new_error m)) \<in> {Ge_Auth, Ge_Model_Not_Found, Ge_Context_Length, Ge_Internal}"
  using assms by (simp add: parseError_def new_error_def Let_def)

lemma response_message_http: "\<exists>t. response_message status statusText said = ''HTTP '' @ t"
  unfolding response_message_def by (auto split: option.split prod.split)

lemma http_not_normalized: "\<not> starts_with (''HTTP '' @ t) PREFIX"
  unfolding starts_with_def PREFIX_def by simp

lemma normalized_error: "\<not> starts_with m PREFIX \<Longrightarrow> \<exists>code \<in> set CODES. normalizeOpenAICompatibleError (new_error m) = new_error (PREFIX @ code)"
  using normalized_codes [of "Thrown_Error ''Error'' False m", unfolded thrown.case] unfolding new_error_def .

lemma code_kinds: "code \<in> set CODES \<Longrightarrow> ge_type (parseError (new_error (PREFIX @ code))) \<in> {Ge_Auth, Ge_Model_Not_Found, Ge_Context_Length, Ge_Internal}"
  by (rule parseError_kinds) (erule not_in_code)+

text \<open>Whatever status and message a server answers with, the error is never classified as a rate limit or a refusal by the content filter: the
  normalisation has no code for either.\<close>

theorem answered_errors_lose_their_kind:
  "ge_type (parseError (createErrorFromResponse status statusText said)) \<in> {Ge_Auth, Ge_Model_Not_Found, Ge_Context_Length, Ge_Internal}"
proof -
  obtain t where t: "response_message status statusText said = ''HTTP '' @ t" by (rule exE [OF response_message_http])
  have "\<exists>code \<in> set CODES. createErrorFromResponse status statusText said = new_error (PREFIX @ code)"
    unfolding createErrorFromResponse_def t by (rule normalized_error [OF http_not_normalized])
  then obtain code where code: "code \<in> set CODES" "createErrorFromResponse status statusText said = new_error (PREFIX @ code)" by (rule bexE)
  show ?thesis unfolding code(2) by (rule code_kinds [OF code(1)])
qed

subsection \<open>Chunks of a stream\<close>

abbreviation lines :: "string \<Rightarrow> string list" where
  "lines \<equiv> split_on (\<lambda>c. c = CHR 0x0A)"

lemma lines_append: "lines (a @ b) = butlast (lines a) @ lines (last (lines a) @ b)"
proof (induction a)
  case (Cons c a)
  obtain w ws where w: "lines a = w # ws" using split_on_nonempty by (cases "lines a") auto
  show ?case
  proof (cases "c = CHR 0x0A \<or> ws \<noteq> []")
    case True
    then show ?thesis using Cons w by (auto split: list.splits)
  next
    case False
    then show ?thesis using Cons w by simp
  qed
qed simp

lemma stream_lines_append: "stream_lines f (xs @ ys) = (let (out, stop) = stream_lines f xs in
    if stop then (out, True) else (let (out', stop') = stream_lines f ys in (out @ out', stop')))"
  by (induction xs) (auto simp: Let_def split: prod.splits)

lemma stream_whole: "\<forall>c \<in> set buffer. c \<noteq> CHR 0x0A \<Longrightarrow>
    streamCompletion f buffer chunks = fst (stream_lines f (butlast (lines (buffer @ concat chunks))))"
proof (induction chunks arbitrary: buffer)
  case Nil
  then show ?case by (simp add: split_on_plain)
next
  case (Cons chunk chunks)
  let ?ls = "lines (buffer @ chunk)"
  have m: "last ?ls \<in> set ?ls" by (rule last_in_set) (rule split_on_nonempty)
  have l: "\<forall>c \<in> set (last ?ls). c \<noteq> CHR 0x0A" using split_on_parts [OF m] by blast
  have "butlast (lines (buffer @ concat (chunk # chunks))) = butlast (lines ((buffer @ chunk) @ concat chunks))" by simp
  also have "\<dots> = butlast ?ls @ butlast (lines (last ?ls @ concat chunks))"
    by (simp only: lines_append [of "buffer @ chunk" "concat chunks"] butlast_append split_on_nonempty if_False)
  finally have s: "butlast (lines (buffer @ concat (chunk # chunks))) = butlast ?ls @ butlast (lines (last ?ls @ concat chunks))" .
  obtain out stop where o: "stream_lines f (butlast ?ls) = (out, stop)" by (rule prod.exhaust)
  have i: "streamCompletion f (last ?ls) chunks = fst (stream_lines f (butlast (lines (last ?ls @ concat chunks))))" by (rule Cons.IH [OF l])
  show ?case unfolding s stream_lines_append o streamCompletion.simps(2) Let_def prod.case i by (simp add: case_prod_beta)
qed


text \<open>A last line without a line end is never delivered.\<close>

lemma unfinished_line_lost: "\<forall>c \<in> set l. c \<noteq> CHR 0x0A \<Longrightarrow> streamCompletion content_of [] [l] = []"
  by (simp add: split_on_plain)

subsection \<open>Fallback\<close>

definition settles :: "time \<Rightarrow> (string \<Rightarrow> fetch_answer) \<Rightarrow> string \<Rightarrow> bool" where
  "settles now answer m = (case fst (makeRequest now (\<lambda>m w. (answer m, w)) m ()) of Inr r \<Rightarrow> True | Inl e \<Rightarrow> \<not> ge_retryable (parseError e))"

lemma makeRequest_answer: "makeRequest now (\<lambda>m w. (answer m, w @ [m])) m w = (fst (makeRequest now (\<lambda>m w. (answer m, w)) m ()), w @ [m])"
  by (cases "answer m") (auto simp: makeRequest_def throw_def return_def split: option.splits list.splits)

lemma try_models_asked:
  "fst (snd (try_models now (\<lambda>m w. (answer m, w @ [m])) resolved ms e (w, l))) =
    w @ takeWhile (\<lambda>m. \<not> settles now answer m) ms @ take 1 (dropWhile (\<lambda>m. \<not> settles now answer m) ms)"
proof (induction ms arbitrary: e w l)
  case Nil
  then show ?case by (simp add: throw_def)
next
  case (Cons m ms)
  then show ?case by (auto simp: makeRequest_answer settles_def throw_def return_def split: sum.splits)
qed

text \<open>The models that are asked are the requested one and the fallbacks in order, up to the first that answers or fails for good.\<close>

theorem fallback_order:
  "fst (snd (chatCompletion now (\<lambda>m asked. (answer m, asked @ [m])) c model ([], l))) =
    (let ms = getModelsWithFallback c (resolveModel c model) in
     takeWhile (\<lambda>m. \<not> settles now answer m) ms @ take 1 (dropWhile (\<lambda>m. \<not> settles now answer m) ms))"
  by (simp add: chatCompletion_def Let_def try_models_asked)

lemma usage_bounded: "length l \<le> 1000 \<Longrightarrow> length (trackUsage u l) \<le> 1000"
  by (simp add: trackUsage_def Let_def)

lemma usage_counts: "ut_success (getUsageStats l) + ut_failed (getUsageStats l) = ut_total (getUsageStats l)"
proof -
  have "ut_success (foldl add_usage st l) + ut_failed (foldl add_usage st l) = ut_success st + ut_failed st + length l \<and> ut_total (foldl add_usage st l) = ut_total st" for st
    by (induction l arbitrary: st) (auto simp: add_usage_def Let_def)
  then show ?thesis by (simp add: getUsageStats_def)
qed

end
