(* ===== verification/Authentication.thy ===== *)
theory Authentication
  imports Paths
begin

text \<open>
  Authentication of requests, \<open>src/src/auth/auth-plugin.ts\<close>: the hook that reads the key of a request and the hooks of the routes that ask for a role.
  A hook lets the request pass (\<open>Inr\<close>, with what it attaches to it) or ends it with an error. \<open>timingSafeEqual\<close> on buffers of one length is equality.
\<close>

datatype auth_role = Role_Admin | Role_Operator

record auth_user =
  au_id :: string
  au_role :: auth_role

record auth_config =
  ac_enabled :: bool
  ac_api_key :: "string option"
  ac_admin_key :: "string option"
  ac_header :: "string option"
  ac_public :: "string list option"

record auth_error =
  ae_status :: int
  ae_code :: string
  ae_text :: string

text \<open>A header has one value or several.\<close>

datatype header_value = One_Value string | Many_Values "string list"

record http_request =
  hr_url :: string
  hr_headers :: "(string, header_value) jsmap"
  hr_user :: "auth_user option"

definition DEFAULT_PUBLIC_PATHS :: "string list" where
  "DEFAULT_PUBLIC_PATHS = [''/healthz'', ''/metrics'', ''/openapi.yaml'', ''/schemas'']"

definition isPublicPath :: "string \<Rightarrow> string list \<Rightarrow> bool" where
  "isPublicPath p publicPaths = (if p \<in> set publicPaths then True else list_ex (\<lambda>q. starts_with p (q @ ''/'')) publicPaths)"

definition extractApiKey :: "http_request \<Rightarrow> string \<Rightarrow> string option" where
  "extractApiKey r headerName = (case map_get (hr_headers r) headerName of
     Some (One_Value k) \<Rightarrow> Some k
   | _ \<Rightarrow> (case map_get (hr_headers r) ''authorization'' of
       Some (One_Value h) \<Rightarrow> if starts_with h ''Bearer '' then Some (drop 7 h) else None
     | _ \<Rightarrow> None))"

definition secretsEqual :: "string \<Rightarrow> string \<Rightarrow> bool" where
  "secretsEqual provided expected = (if length provided \<noteq> length expected then False else list_all2 (=) provided expected)"

definition validateApiKey :: "string \<Rightarrow> string option \<Rightarrow> string option \<Rightarrow> auth_user option" where
  "validateApiKey provided apiKey adminKey = (
     if \<not> falsy adminKey \<and> secretsEqual provided (the adminKey) then Some \<lparr>au_id = ''admin'', au_role = Role_Admin\<rparr>
     else if \<not> falsy apiKey \<and> secretsEqual provided (the apiKey) then Some \<lparr>au_id = ''operator'', au_role = Role_Operator\<rparr>
     else None)"

definition request_path :: "http_request \<Rightarrow> string" where
  "request_path r = hd (split_on (\<lambda>c. c = CHR ''?'') (hr_url r))"

definition auth_hook :: "auth_config \<Rightarrow> http_request \<Rightarrow> auth_error + http_request" where
  "auth_hook c r = (if \<not> ac_enabled c then Inr r
     else if isPublicPath (request_path r) (case ac_public c of Some ps \<Rightarrow> ps | None \<Rightarrow> DEFAULT_PUBLIC_PATHS) then Inr r
     else (let provided = extractApiKey r (case ac_header c of Some h \<Rightarrow> h | None \<Rightarrow> ''x-api-key'') in
       if falsy provided then Inl \<lparr>ae_status = 401, ae_code = ''MISSING_API_KEY'', ae_text = ''API key is required. Provide it in the X-API-Key header.''\<rparr>
       else (case validateApiKey (the provided) (ac_api_key c) (ac_admin_key c) of
           None \<Rightarrow> Inl \<lparr>ae_status = 401, ae_code = ''INVALID_API_KEY'', ae_text = ''Invalid API key.''\<rparr>
         | Some u \<Rightarrow> Inr (r\<lparr>hr_user := Some u\<rparr>))))"

fun role_text :: "auth_role \<Rightarrow> string" where
  "role_text Role_Admin = ''admin''" | "role_text Role_Operator = ''operator''"

definition requireRole :: "auth_role list \<Rightarrow> http_request \<Rightarrow> auth_error + http_request" where
  "requireRole allowed r = (case hr_user r of
     None \<Rightarrow> Inl \<lparr>ae_status = 401, ae_code = ''UNAUTHORIZED'', ae_text = ''Authentication required.''\<rparr>
   | Some u \<Rightarrow> if au_role u \<notin> set allowed
       then Inl \<lparr>ae_status = 403, ae_code = ''FORBIDDEN'', ae_text = ''This action requires '' @ js_join '' or '' (map role_text allowed) @ '' role.''\<rparr>
       else Inr r)"

definition conditional_role_hook :: "bool \<Rightarrow> auth_role list \<Rightarrow> http_request \<Rightarrow> auth_error + http_request" where
  "conditional_role_hook authEnabled allowed r = (if \<not> authEnabled then Inr r else case hr_user r of
     None \<Rightarrow> Inl \<lparr>ae_status = 401, ae_code = ''UNAUTHORIZED'', ae_text = ''Authentication required.''\<rparr>
   | Some u \<Rightarrow> if au_role u \<notin> set allowed
       then Inl \<lparr>ae_status = 403, ae_code = ''FORBIDDEN'', ae_text = ''This action requires '' @ js_join '' or '' (map role_text allowed) @ '' role.''\<rparr>
       else Inr r)"

text \<open>A route asks for a role behind the hook of the application.\<close>

definition guarded_route :: "auth_config \<Rightarrow> auth_role list \<Rightarrow> http_request \<Rightarrow> auth_error + http_request" where
  "guarded_route c allowed r = (case auth_hook c r of Inl e \<Rightarrow> Inl e | Inr r' \<Rightarrow> conditional_role_hook (ac_enabled c) allowed r')"

lemma secretsEqual_iff: "secretsEqual a b \<longleftrightarrow> a = b"
  by (auto simp: secretsEqual_def list_all2_eq dest: list_all2_lengthD)

text \<open>C31. With authentication enabled a request without a user reaches a guarded route only with a configured key, on a path that is not public, and
  a route for administrators only with the administrator's key.\<close>

theorem guarded_route_needs_key:
  assumes "ac_enabled c" "hr_user r = None" "guarded_route c allowed r = Inr r'"
  shows "\<exists>k. extractApiKey r (case ac_header c of Some h \<Rightarrow> h | None \<Rightarrow> ''x-api-key'') = Some k \<and> k \<noteq> [] \<and>
    (ac_admin_key c = Some k \<and> Role_Admin \<in> set allowed \<or> ac_api_key c = Some k \<and> Role_Operator \<in> set allowed)"
proof -
  obtain r1 where h: "auth_hook c r = Inr r1" "conditional_role_hook True allowed r1 = Inr r'"
    using assms by (auto simp: guarded_route_def split: sum.splits)
  obtain u where u: "hr_user r1 = Some u" "au_role u \<in> set allowed"
    using h(2) by (auto simp: conditional_role_hook_def split: option.splits if_splits)
  define key where "key = extractApiKey r (case ac_header c of Some h \<Rightarrow> h | None \<Rightarrow> ''x-api-key'')"
  have "\<not> isPublicPath (request_path r) (case ac_public c of Some ps \<Rightarrow> ps | None \<Rightarrow> DEFAULT_PUBLIC_PATHS)"
    using h(1) u(1) assms(1,2) by (auto simp: auth_hook_def)
  then have k: "\<not> falsy key" "validateApiKey (the key) (ac_api_key c) (ac_admin_key c) = Some u"
    using h(1) u(1) assms(1) by (auto simp: auth_hook_def Let_def key_def split: if_splits option.splits)
  then obtain k where kk: "key = Some k" "k \<noteq> []" by (auto simp: falsy_def)
  have "ac_admin_key c = Some k \<and> au_role u = Role_Admin \<or> ac_api_key c = Some k \<and> au_role u = Role_Operator"
    using k(2) kk by (auto simp: validateApiKey_def secretsEqual_iff falsy_def split: if_splits)
  then show ?thesis using kk u(2) by (auto simp: key_def)
qed

definition sample_config :: auth_config where
  "sample_config = \<lparr>ac_enabled = True, ac_api_key = Some ''op'', ac_admin_key = Some ''root'', ac_header = None, ac_public = None\<rparr>"

definition admin_request :: http_request where
  "admin_request = \<lparr>hr_url = ''/v1/agent/config'', hr_headers = [(''x-api-key'', One_Value ''root'')], hr_user = None\<rparr>"

lemma guarded_route_needs_key_witness: "ac_admin_key sample_config = Some ''root''"
proof -
  have "guarded_route sample_config [Role_Admin] admin_request = Inr (admin_request\<lparr>hr_user := Some \<lparr>au_id = ''admin'', au_role = Role_Admin\<rparr>\<rparr>)"
    by code_simp
  from guarded_route_needs_key [OF _ _ this] show ?thesis
    by (auto simp: sample_config_def admin_request_def extractApiKey_def map_get_def)
qed

text \<open>An empty key header hides the key of the authorization header.\<close>

lemma empty_header_hides_bearer:
  "auth_hook sample_config (admin_request\<lparr>hr_headers := [(''x-api-key'', One_Value []), (''authorization'', One_Value ''Bearer root'')]\<rparr>) =
    Inl \<lparr>ae_status = 401, ae_code = ''MISSING_API_KEY'', ae_text = ''API key is required. Provide it in the X-API-Key header.''\<rparr>"
  by code_simp

end
